(* ===== verification/Prelude.thy ===== *)
theory Prelude
  imports Main "HOL-Library.Word"
begin

unbundle bit_operations_syntax

text \<open>
  Shared vocabulary of the development: the fixed-width integers of the C code, the
  arithmetic of \<open>size_t\<close>, the byte-level object representation of integers, and the
  flat byte memory that the stream buffers and the serialization buffers live in.

  The model fixes an LP64 little-endian host: \<open>size_t\<close> and pointers are 64 bits wide
  and \<open>memcpy\<close> of a \<open>uint32_t\<close> stores its least significant byte first.
\<close>

section \<open>Integer types\<close>

type_synonym u8 = "8 word"
type_synonym u16 = "16 word"
type_synonym u32 = "32 word"
type_synonym u64 = "64 word"

text \<open>Hints for evaluating memory, and the layout facts that address arithmetic rests on.\<close>

named_theorems mem_simps \<open>reading and writing the byte memory\<close>
named_theorems cast_simps \<open>C integer conversions\<close>

section \<open>Arithmetic of size_t\<close>

text \<open>
  A \<open>size_t\<close> is a natural number below \<open>2 ^ 64\<close>; the operations wrap as the C ones do.
  Pointers are addresses of the same width.
\<close>

type_synonym size_t = nat

abbreviation SIZE_MOD :: nat where "SIZE_MOD \<equiv> 2 ^ 64"

definition size_add :: "size_t \<Rightarrow> size_t \<Rightarrow> size_t" where
  "size_add a b = (a + b) mod SIZE_MOD"

definition size_sub :: "size_t \<Rightarrow> size_t \<Rightarrow> size_t" where
  "size_sub a b = (a + (SIZE_MOD - b mod SIZE_MOD)) mod SIZE_MOD"

definition size_mul :: "size_t \<Rightarrow> size_t \<Rightarrow> size_t" where
  "size_mul a b = (a * b) mod SIZE_MOD"

lemma size_add_eq [cast_simps]: "a + b < SIZE_MOD \<Longrightarrow> size_add a b = a + b"
  by (simp add: size_add_def)

lemma size_mul_eq [cast_simps]: "a * b < SIZE_MOD \<Longrightarrow> size_mul a b = a * b"
  by (simp add: size_mul_def)

lemma size_sub_eq [cast_simps]:
  assumes "b \<le> a" and "a < SIZE_MOD"
  shows "size_sub a b = a - b"
proof -
  have "a + (SIZE_MOD - b mod SIZE_MOD) = (a - b) + SIZE_MOD"
    using assms by simp
  moreover have "a - b < SIZE_MOD"
    using assms by linarith
  ultimately show ?thesis
    by (simp only: size_sub_def mod_add_self2 mod_less)
qed

text \<open>Underflow wraps to the top of the range.\<close>

lemma size_sub_wrap:
  assumes "a < b" and "b < SIZE_MOD"
  shows "size_sub a b = SIZE_MOD - (b - a)"
proof -
  have "a + (SIZE_MOD - b mod SIZE_MOD) = SIZE_MOD - (b - a)"
    using assms by simp
  then show ?thesis
    using assms by (simp add: size_sub_def)
qed

lemma size_bounds [simp]:
  "size_add a b < SIZE_MOD" "size_sub a b < SIZE_MOD" "size_mul a b < SIZE_MOD"
  by (simp_all add: size_add_def size_sub_def size_mul_def)

section \<open>Conversions\<close>

text \<open>\<open>(uint16_t) n\<close> and \<open>(uint32_t) n\<close> of a \<open>size_t\<close>, read back as a number.\<close>

definition cast_u8 :: "nat \<Rightarrow> nat" where
  "cast_u8 n = n mod 2 ^ 8"

definition cast_u16 :: "nat \<Rightarrow> nat" where
  "cast_u16 n = n mod 2 ^ 16"

definition cast_u32 :: "nat \<Rightarrow> nat" where
  "cast_u32 n = n mod 2 ^ 32"

lemma cast_u8_eq [cast_simps]: "n < 256 \<Longrightarrow> cast_u8 n = n"
  by (simp add: cast_u8_def)

lemma cast_u16_eq [cast_simps]: "n < 65536 \<Longrightarrow> cast_u16 n = n"
  by (simp add: cast_u16_def)

lemma cast_u32_eq [cast_simps]: "n < 4294967296 \<Longrightarrow> cast_u32 n = n"
  by (simp add: cast_u32_def)

lemma cast_bounds [simp]: "cast_u8 n < 256" "cast_u16 n < 65536" "cast_u32 n < 4294967296"
  by (simp_all add: cast_u8_def cast_u16_def cast_u32_def)

text \<open>Conversion of an \<open>int64_t\<close> to \<open>int\<close> and \<open>int32_t\<close>.\<close>

definition cast_int32 :: "int \<Rightarrow> int" where
  "cast_int32 t = signed_take_bit 31 t"

lemma cast_int32_eq: "0 \<le> t \<Longrightarrow> t < 2 ^ 31 \<Longrightarrow> cast_int32 t = t"
  unfolding cast_int32_def by (rule signed_take_bit_int_eq_self) simp_all

section \<open>Object representation\<close>

datatype endianness = BIG_ENDIANNESS | LITTLE_ENDIANNESS

text \<open>The \<open>n\<close> low bytes of a number, least significant first, and back.\<close>

primrec nat_bytes :: "nat \<Rightarrow> nat \<Rightarrow> u8 list" where
  "nat_bytes 0 k = []"
| "nat_bytes (Suc n) k = of_nat k # nat_bytes n (k div 256)"

primrec bytes_nat :: "u8 list \<Rightarrow> nat" where
  "bytes_nat [] = 0"
| "bytes_nat (b # bs) = unat b + 256 * bytes_nat bs"

lemma length_nat_bytes [simp]: "length (nat_bytes n k) = n"
  by (induction n arbitrary: k) auto

lemma unat_u8_less [simp]: "unat (b :: u8) < 256"
  using unsigned_less [of b] by simp

lemma unat_u16_less [simp]: "unat (b :: u16) < 65536"
  using unsigned_less [of b] by simp

lemma unat_u32_less [simp]: "unat (b :: u32) < 4294967296"
  using unsigned_less [of b] by simp

lemma bytes_nat_bound: "bytes_nat bs < 256 ^ length bs"
proof (induction bs)
  case Nil
  then show ?case by simp
next
  case (Cons b bs)
  have "unat b < 256" and "Suc (bytes_nat bs) \<le> 256 ^ length bs"
    using Cons.IH by simp_all
  then have "unat b + 256 * bytes_nat bs < 256 * 256 ^ length bs"
    by linarith
  then show ?case by simp
qed

lemma bytes_nat_nat_bytes [simp]: "bytes_nat (nat_bytes n k) = k mod 256 ^ n"
proof (induction n arbitrary: k)
  case 0
  then show ?case by simp
next
  case (Suc n)
  have "unat (of_nat k :: u8) = k mod 256"
    by (simp add: unat_of_nat)
  then show ?case
    by (simp add: Suc.IH mod_mult2_eq mult.commute)
qed

lemma nat_bytes_bytes_nat [simp]: "nat_bytes (length bs) (bytes_nat bs) = bs"
proof (induction bs)
  case Nil
  then show ?case by simp
next
  case (Cons b bs)
  have b: "unat b < 256"
    by (rule unat_u8_less)
  then have "(unat b + 256 * bytes_nat bs) div 256 = bytes_nat bs"
    by simp
  moreover have "(of_nat (unat b + 256 * bytes_nat bs) :: u8) = b"
  proof -
    have "(256 :: u8) = 0" by simp
    then have "(256 :: u8) * x = 0" for x by (simp only: mult_zero_left)
    then show ?thesis by simp
  qed
  ultimately show ?case
    by (simp add: Cons.IH)
qed

text \<open>An integer in the byte order of a buffer.\<close>

definition enc_nat :: "endianness \<Rightarrow> nat \<Rightarrow> nat \<Rightarrow> u8 list" where
  "enc_nat e n k = (if e = LITTLE_ENDIANNESS then nat_bytes n k else rev (nat_bytes n k))"

definition dec_nat :: "endianness \<Rightarrow> u8 list \<Rightarrow> nat" where
  "dec_nat e bs = bytes_nat (if e = LITTLE_ENDIANNESS then bs else rev bs)"

lemma length_enc_nat [simp]: "length (enc_nat e n k) = n"
  by (simp add: enc_nat_def)

lemma dec_enc_nat [simp]: "dec_nat e (enc_nat e n k) = k mod 256 ^ n"
  by (simp add: enc_nat_def dec_nat_def)

lemma enc_dec_nat [simp]: "enc_nat e (length bs) (dec_nat e bs) = bs"
proof (cases "e = LITTLE_ENDIANNESS")
  case False
  then show ?thesis
    using nat_bytes_bytes_nat [of "rev bs"] by (simp add: enc_nat_def dec_nat_def)
qed (simp add: enc_nat_def dec_nat_def)

lemma dec_enc_word:
  fixes w :: "'a::len word"
  assumes "2 ^ LENGTH('a) \<le> (256::nat) ^ n"
  shows "(of_nat (dec_nat e (enc_nat e n (unat w))) :: 'a word) = w"
proof -
  have "unat w < 256 ^ n"
    using unsigned_less [of w] assms by (metis order_less_le_trans)
  then show ?thesis by simp
qed

section \<open>Byte memory\<close>

text \<open>
  The C object store: one byte per address. A struct that holds scalars only is a record
  of its own; what the code reaches through a \<open>uint8_t*\<close> is here.
\<close>

type_synonym addr = nat
type_synonym mem = "addr \<Rightarrow> u8"

definition rd :: "mem \<Rightarrow> addr \<Rightarrow> nat \<Rightarrow> u8 list" where
  "rd m a n = map (\<lambda>i. m (a + i)) [0..<n]"

definition wr :: "mem \<Rightarrow> addr \<Rightarrow> u8 list \<Rightarrow> mem" where
  "wr m a bs = (\<lambda>x. if a \<le> x \<and> x < a + length bs then bs ! (x - a) else m x)"

text \<open>\<open>memcpy(dst, src, n)\<close>.\<close>

definition memcpy :: "mem \<Rightarrow> addr \<Rightarrow> addr \<Rightarrow> nat \<Rightarrow> mem" where
  "memcpy m dst src n = wr m dst (rd m src n)"

lemma length_rd [simp]: "length (rd m a n) = n"
  by (simp add: rd_def)

lemma nth_rd [simp]: "i < n \<Longrightarrow> rd m a n ! i = m (a + i)"
  by (simp add: rd_def)

lemma rd_0 [simp]: "rd m a 0 = []"
  by (simp add: rd_def)

lemma rd_Suc: "rd m a (Suc n) = m a # rd m (Suc a) n"
  by (rule nth_equalityI) (auto simp: nth_Cons split: nat.splits)

lemma rd_cong: "(\<And>x. a \<le> x \<Longrightarrow> x < a + n \<Longrightarrow> m x = m' x) \<Longrightarrow> rd m a n = rd m' a n"
  by (simp add: rd_def)

lemma rd_take: "n \<le> k \<Longrightarrow> take n (rd m a k) = rd m a n"
  by (rule nth_equalityI) auto

lemma rd_append: "rd m a (n + k) = rd m a n @ rd m (a + n) k"
  by (rule nth_equalityI) (auto simp: nth_append)

lemma wr_Nil [simp]: "wr m a [] = m"
  by (auto simp: wr_def fun_eq_iff)

lemma wr_outside [mem_simps]: "x < a \<or> a + length bs \<le> x \<Longrightarrow> wr m a bs x = m x"
  by (auto simp: wr_def)

lemma wr_inside [mem_simps]: "a \<le> x \<Longrightarrow> x < a + length bs \<Longrightarrow> wr m a bs x = bs ! (x - a)"
  by (simp add: wr_def)

lemma rd_wr_same [mem_simps]: "n = length bs \<Longrightarrow> rd (wr m a bs) a n = bs"
  by (rule nth_equalityI) (auto simp: wr_def)

lemma rd_wr_disjoint [mem_simps]:
  "b + n \<le> a \<or> a + length bs \<le> b \<Longrightarrow> rd (wr m a bs) b n = rd m b n"
  by (rule nth_equalityI) (auto simp: wr_def)

lemma wr_append: "wr m a (bs @ cs) = wr (wr m a bs) (a + length bs) cs"
  by (rule ext) (auto simp: wr_def nth_append)

lemma wr_wr_disjoint:
  "a + length bs \<le> b \<or> b + length cs \<le> a \<Longrightarrow> wr (wr m a bs) b cs = wr (wr m b cs) a bs"
  by (rule ext) (auto simp: wr_def)

text \<open>Two memories that agree on a region, and a memory changed only inside one.\<close>

definition same_on :: "mem \<Rightarrow> mem \<Rightarrow> addr \<Rightarrow> addr \<Rightarrow> bool" where
  "same_on m m' lo hi \<longleftrightarrow> (\<forall>x. lo \<le> x \<and> x < hi \<longrightarrow> m' x = m x)"

definition changed_within :: "mem \<Rightarrow> mem \<Rightarrow> addr \<Rightarrow> addr \<Rightarrow> bool" where
  "changed_within m m' lo hi \<longleftrightarrow> (\<forall>x. x < lo \<or> hi \<le> x \<longrightarrow> m' x = m x)"

lemma same_on_refl [simp]: "same_on m m lo hi"
  by (simp add: same_on_def)

lemma same_on_rd: "same_on m m' lo hi \<Longrightarrow> lo \<le> a \<Longrightarrow> a + n \<le> hi \<Longrightarrow> rd m' a n = rd m a n"
  by (rule rd_cong) (auto simp: same_on_def)

lemma same_on_subset: "same_on m m' lo hi \<Longrightarrow> lo \<le> lo' \<Longrightarrow> hi' \<le> hi \<Longrightarrow> same_on m m' lo' hi'"
  by (auto simp: same_on_def)

lemma changed_within_refl [simp]: "changed_within m m lo hi"
  by (simp add: changed_within_def)

lemma changed_within_trans:
  "changed_within m m1 lo hi \<Longrightarrow> changed_within m1 m2 lo hi \<Longrightarrow> changed_within m m2 lo hi"
  by (simp add: changed_within_def)

lemma changed_within_mono:
  "changed_within m m' lo hi \<Longrightarrow> lo' \<le> lo \<Longrightarrow> hi \<le> hi' \<Longrightarrow> changed_within m m' lo' hi'"
  by (auto simp: changed_within_def)

lemma changed_within_wr [intro]:
  "lo \<le> a \<Longrightarrow> a + length bs \<le> hi \<Longrightarrow> changed_within m (wr m a bs) lo hi"
  by (auto simp: changed_within_def wr_def)

lemma changed_within_same_on:
  "changed_within m m' lo hi \<Longrightarrow> b \<le> lo \<or> hi \<le> a \<Longrightarrow> same_on m m' a b"
  by (auto simp: changed_within_def same_on_def)

section \<open>A 32-bit length stored in memory\<close>

definition rd_u32 :: "mem \<Rightarrow> addr \<Rightarrow> nat" where
  "rd_u32 m a = bytes_nat (rd m a 4)"

definition wr_u32 :: "mem \<Rightarrow> addr \<Rightarrow> nat \<Rightarrow> mem" where
  "wr_u32 m a n = wr m a (nat_bytes 4 n)"

lemma rd_u32_bound: "rd_u32 m a < 2 ^ 32"
  using bytes_nat_bound [of "rd m a 4"] by (simp add: rd_u32_def)

lemma rd_wr_u32_same [mem_simps]: "rd_u32 (wr_u32 m a n) a = cast_u32 n"
  by (simp add: rd_u32_def wr_u32_def rd_wr_same cast_u32_def)

lemma rd_wr_u32_disjoint [mem_simps]:
  "a + 4 \<le> b \<or> b + 4 \<le> a \<Longrightarrow> rd_u32 (wr_u32 m b n) a = rd_u32 m a"
  by (auto simp: rd_u32_def wr_u32_def rd_wr_disjoint)

lemma rd_u32_wr_disjoint [mem_simps]:
  "a + 4 \<le> b \<or> b + length bs \<le> a \<Longrightarrow> rd_u32 (wr m b bs) a = rd_u32 m a"
  by (auto simp: rd_u32_def rd_wr_disjoint)

lemma rd_wr_u32_other [mem_simps]:
  "a + n \<le> b \<or> b + 4 \<le> a \<Longrightarrow> rd (wr_u32 m b k) a n = rd m a n"
  by (auto simp: wr_u32_def rd_wr_disjoint)

lemma rd_u32_same_on: "same_on m m' lo hi \<Longrightarrow> lo \<le> a \<Longrightarrow> a + 4 \<le> hi \<Longrightarrow> rd_u32 m' a = rd_u32 m a"
  by (simp add: rd_u32_def same_on_rd)

lemma changed_within_wr_u32 [intro]:
  "lo \<le> a \<Longrightarrow> a + 4 \<le> hi \<Longrightarrow> changed_within m (wr_u32 m a n) lo hi"
  by (auto simp: wr_u32_def)

text \<open>A memory that holds one value everywhere, for examples.\<close>

lemma rd_const [simp]: "rd (\<lambda>_. c) a n = replicate n c"
  by (simp add: rd_def map_replicate_const)

lemma bytes_nat_zero [simp]: "bytes_nat (replicate n 0) = 0"
  by (induction n) simp_all

lemma rd_u32_zero [simp]: "rd_u32 (\<lambda>_. 0) a = 0"
  by (simp add: rd_u32_def)

end
