(* ===== verification/Ids.thy ===== *)
theory Ids
  imports Prelude
begin

text \<open>
  Identifiers: \<open>src/c/core/session/stream/stream_id.c\<close> (one octet names a stream of a
  session) and \<open>src/c/core/session/object_id.c\<close> (a 12-bit number and a 4-bit kind packed in
  two octets).
\<close>

section \<open>Stream identifiers\<close>

datatype uxrStreamType =
  UXR_NONE_STREAM | UXR_BEST_EFFORT_STREAM | UXR_RELIABLE_STREAM | UXR_SHARED_MEMORY_STREAM

datatype uxrStreamDirection = UXR_INPUT_STREAM | UXR_OUTPUT_STREAM

record uxrStreamId =
  raw :: u8
  index :: u8
  type :: uxrStreamType
  direction :: uxrStreamDirection

definition BEST_EFFORT_STREAM_THRESHOLD :: u8 where
  "BEST_EFFORT_STREAM_THRESHOLD = 0x01"

definition RELIABLE_STREAM_THRESHOLD :: u8 where
  "RELIABLE_STREAM_THRESHOLD = 0x80"

text \<open>
  \<open>raw0\<close> is what the uninitialised local \<open>stream_id.raw\<close> holds; the \<open>switch\<close> leaves it there
  for a shared memory stream.
\<close>

definition uxr_stream_id :: "u8 \<Rightarrow> u8 \<Rightarrow> uxrStreamType \<Rightarrow> uxrStreamDirection \<Rightarrow> uxrStreamId" where
  "uxr_stream_id raw0 idx t dir =
     \<lparr>raw = (case t of
               UXR_NONE_STREAM \<Rightarrow> 0
             | UXR_BEST_EFFORT_STREAM \<Rightarrow> idx + BEST_EFFORT_STREAM_THRESHOLD
             | UXR_RELIABLE_STREAM \<Rightarrow> idx + RELIABLE_STREAM_THRESHOLD
             | UXR_SHARED_MEMORY_STREAM \<Rightarrow> raw0),
      index = idx, type = t, direction = dir\<rparr>"

definition uxr_stream_id_from_raw :: "u8 \<Rightarrow> uxrStreamDirection \<Rightarrow> uxrStreamId" where
  "uxr_stream_id_from_raw stream_id_raw dir =
     (if BEST_EFFORT_STREAM_THRESHOLD > stream_id_raw
      then \<lparr>raw = stream_id_raw, index = stream_id_raw, type = UXR_NONE_STREAM, direction = dir\<rparr>
      else if RELIABLE_STREAM_THRESHOLD > stream_id_raw
      then \<lparr>raw = stream_id_raw, index = stream_id_raw - BEST_EFFORT_STREAM_THRESHOLD,
            type = UXR_BEST_EFFORT_STREAM, direction = dir\<rparr>
      else \<lparr>raw = stream_id_raw, index = stream_id_raw - RELIABLE_STREAM_THRESHOLD,
            type = UXR_RELIABLE_STREAM, direction = dir\<rparr>)"

lemmas stream_id_defs =
  uxr_stream_id_def uxr_stream_id_from_raw_def BEST_EFFORT_STREAM_THRESHOLD_def
  RELIABLE_STREAM_THRESHOLD_def

text \<open>The octet decides the kind of stream.\<close>

lemma from_raw_type:
  "type (uxr_stream_id_from_raw r d) =
     (if r = 0 then UXR_NONE_STREAM else if unat r < 128 then UXR_BEST_EFFORT_STREAM
      else UXR_RELIABLE_STREAM)"
  by (simp add: stream_id_defs word_less_nat_alt unat_eq_zero)

lemma from_raw_raw [simp]: "raw (uxr_stream_id_from_raw r d) = r"
  by (simp add: stream_id_defs)

lemma from_raw_direction [simp]: "direction (uxr_stream_id_from_raw r d) = d"
  by (simp add: stream_id_defs)

text \<open>
  The octet carries the identifier: an identifier within the 127 best-effort and the 128
  reliable streams of a session is recovered from its octet. One best-effort index too many
  lands on the first reliable octet.
\<close>

definition stream_index_ok :: "u8 \<Rightarrow> uxrStreamType \<Rightarrow> bool" where
  "stream_index_ok idx t =
     (case t of
        UXR_NONE_STREAM \<Rightarrow> idx = 0
      | UXR_BEST_EFFORT_STREAM \<Rightarrow> unat idx < 127
      | UXR_RELIABLE_STREAM \<Rightarrow> unat idx < 128
      | UXR_SHARED_MEMORY_STREAM \<Rightarrow> False)"

lemma unat_u8_add: "unat a + unat b < 256 \<Longrightarrow> unat (a + b :: u8) = unat a + unat b"
  by (simp add: unat_word_ariths)

lemma stream_id_roundtrip:
  assumes "stream_index_ok idx t"
  shows "uxr_stream_id_from_raw (raw (uxr_stream_id raw0 idx t d)) d = uxr_stream_id raw0 idx t d"
proof (cases t)
  case UXR_BEST_EFFORT_STREAM
  then have "unat (idx + 1) = unat idx + 1" and "unat idx < 127"
    using assms unat_u8_add [of idx 1] by (simp_all add: stream_index_ok_def)
  then show ?thesis
    using UXR_BEST_EFFORT_STREAM by (simp add: stream_id_defs word_less_nat_alt)
next
  case UXR_RELIABLE_STREAM
  then have "unat (idx + 128) = unat idx + 128" and "unat idx < 128"
    using assms unat_u8_add [of idx 128] by (simp_all add: stream_index_ok_def)
  then show ?thesis
    using UXR_RELIABLE_STREAM by (simp add: stream_id_defs word_less_nat_alt)
qed (use assms in \<open>simp_all add: stream_index_ok_def stream_id_defs\<close>)

lemma raw_stream_id_roundtrip:
  "raw (uxr_stream_id raw0 (index (uxr_stream_id_from_raw r d)) (type (uxr_stream_id_from_raw r d)) d) = r"
  by (auto simp: stream_id_defs word_less_nat_alt unat_eq_zero)

section \<open>Object identifiers\<close>

record uxrObjectId =
  id :: u16
  type :: u8

definition uxr_object_id :: "u16 \<Rightarrow> u8 \<Rightarrow> uxrObjectId" where
  "uxr_object_id i t = \<lparr>uxrObjectId.id = i, uxrObjectId.type = t\<rparr>"

text \<open>The two octets \<open>raw[0]\<close> and \<open>raw[1]\<close> are passed as a pair.\<close>

definition uxr_object_id_from_raw :: "u8 \<times> u8 \<Rightarrow> uxrObjectId" where
  "uxr_object_id_from_raw r =
     \<lparr>uxrObjectId.id = push_bit 4 (ucast (fst r)) + ucast (drop_bit 4 (snd r)),
      uxrObjectId.type = snd r AND 0x0F\<rparr>"

definition uxr_object_id_to_raw :: "uxrObjectId \<Rightarrow> u8 \<times> u8" where
  "uxr_object_id_to_raw object_id =
     (ucast (drop_bit 4 (uxrObjectId.id object_id)),
      push_bit 4 (ucast (uxrObjectId.id object_id)) + (uxrObjectId.type object_id AND 0x0F))"

text \<open>The packing, as arithmetic.\<close>

lemma and_15: "x AND 15 = take_bit 4 (x :: u8)"
  by (simp add: take_bit_eq_mask mask_eq_exp_minus_1)

lemmas unat_bits =
  unsigned_drop_bit_eq unsigned_push_bit_eq unsigned_take_bit_eq unsigned_ucast_eq
  take_bit_eq_mod push_bit_eq_mult drop_bit_eq_div and_15 unat_word_ariths

lemma object_id_from_raw_nat:
  "unat (uxrObjectId.id (uxr_object_id_from_raw (a, b))) = unat a * 16 + unat b div 16"
  "unat (uxrObjectId.type (uxr_object_id_from_raw (a, b))) = unat b mod 16"
proof -
  have "unat a < 65536" "unat a * 16 < 65536" "unat a * 16 + unat b div 16 < 65536"
    "unat b div 16 < 256" "unat b div 16 < 65536"
    using unat_u8_less [of a] unat_u8_less [of b] by linarith+
  then show "unat (uxrObjectId.id (uxr_object_id_from_raw (a, b))) = unat a * 16 + unat b div 16"
    by (simp add: uxr_object_id_from_raw_def unat_bits)
qed (simp add: uxr_object_id_from_raw_def unat_bits)

lemma object_id_to_raw_nat:
  "unat (fst (uxr_object_id_to_raw obj)) = unat (uxrObjectId.id obj) div 16 mod 256"
  "unat (snd (uxr_object_id_to_raw obj)) =
     unat (uxrObjectId.id obj) mod 16 * 16 + unat (uxrObjectId.type obj) mod 16"
proof -
  have "n * 16 mod 256 = n mod 16 * 16" for n :: nat
    by (simp add: mult_mod_left)
  moreover have "n mod 16 * 16 + k mod 16 < 256" for n k :: nat
  proof -
    have "n mod 16 < 16" "k mod 16 < 16" by simp_all
    then show ?thesis by linarith
  qed
  moreover have "n mod 256 mod 16 = n mod 16" for n :: nat
    by (simp add: mod_mod_cancel)
  ultimately show "unat (snd (uxr_object_id_to_raw obj)) =
      unat (uxrObjectId.id obj) mod 16 * 16 + unat (uxrObjectId.type obj) mod 16"
    by (simp add: uxr_object_id_to_raw_def unat_bits mod_mult_left_eq)
qed (simp add: uxr_object_id_to_raw_def unat_bits mod_mod_cancel)

lemma uxrObjectId_eqI:
  "unat (uxrObjectId.id a) = unat (uxrObjectId.id b) \<Longrightarrow>
   unat (uxrObjectId.type a) = unat (uxrObjectId.type b) \<Longrightarrow> a = (b :: uxrObjectId)"
  by (cases a, cases b) (simp add: word_unat_eq_iff)

lemma object_id_roundtrip:
  assumes "unat (uxrObjectId.id obj) < 4096" and "unat (uxrObjectId.type obj) < 16"
  shows "uxr_object_id_from_raw (uxr_object_id_to_raw obj) = obj"
proof (rule uxrObjectId_eqI)
  let ?r = "uxr_object_id_to_raw obj"
  have r: "uxr_object_id_from_raw ?r = uxr_object_id_from_raw (fst ?r, snd ?r)" by simp
  have "unat (uxrObjectId.id obj) div 16 < 256"
    using assms(1) by linarith
  then show "unat (uxrObjectId.id (uxr_object_id_from_raw ?r)) = unat (uxrObjectId.id obj)"
    unfolding r object_id_from_raw_nat object_id_to_raw_nat using assms(2) by simp
  show "unat (uxrObjectId.type (uxr_object_id_from_raw ?r)) = unat (uxrObjectId.type obj)"
    unfolding r object_id_from_raw_nat object_id_to_raw_nat using assms(2) by simp
qed

lemma object_raw_roundtrip: "uxr_object_id_to_raw (uxr_object_id_from_raw r) = r"
proof -
  obtain a b where r: "r = (a, b)" by (cases r)
  let ?o = "uxr_object_id_from_raw (a, b)"
  have "unat a * 16 + unat b div 16 = unat b div 16 + 16 * unat a" by simp
  moreover have "unat b div 16 < 16"
    using unat_u8_less [of b] by linarith
  ultimately have "unat (fst (uxr_object_id_to_raw ?o)) = unat a"
    and "unat (snd (uxr_object_id_to_raw ?o)) = unat b"
    by (simp_all add: object_id_to_raw_nat object_id_from_raw_nat)
  then show ?thesis
    by (simp add: r prod_eq_iff word_unat_eq_iff)
qed

section \<open>Properties\<close>

text \<open>An identifier of one of the 127 best-effort or 128 reliable streams of a session, or of
  the control stream, is recovered from the octet that goes on the wire, and every octet is the
  octet of the identifier it is decoded to; the best-effort index 127 would take the octet of the
  first reliable stream.\<close>
theorem stream_id_wire_roundtrip:
  assumes "stream_index_ok idx t"
  shows "uxr_stream_id_from_raw (raw (uxr_stream_id raw0 idx t d)) d = uxr_stream_id raw0 idx t d \<and>
    raw (uxr_stream_id raw0 (index (uxr_stream_id_from_raw r d))
      (uxrStreamId.type (uxr_stream_id_from_raw r d)) d) = r \<and>
    raw (uxr_stream_id raw0 127 UXR_BEST_EFFORT_STREAM d) = raw (uxr_stream_id raw0 0 UXR_RELIABLE_STREAM d)"
  using stream_id_roundtrip [OF assms] raw_stream_id_roundtrip by (simp add: stream_id_defs)

lemma stream_id_wire_roundtrip_witness:
  "uxr_stream_id_from_raw (raw (uxr_stream_id 0 5 UXR_RELIABLE_STREAM UXR_INPUT_STREAM))
     UXR_INPUT_STREAM = uxr_stream_id 0 5 UXR_RELIABLE_STREAM UXR_INPUT_STREAM"
  using stream_id_wire_roundtrip [of 5 UXR_RELIABLE_STREAM 0 UXR_INPUT_STREAM 0]
  by (simp add: stream_index_ok_def)

text \<open>Packing a 12-bit object number and a 4-bit kind into two octets loses nothing, and every
  pair of octets is the packing of the identifier it is unpacked to.\<close>
theorem object_id_wire_roundtrip:
  assumes "unat (uxrObjectId.id obj) < 4096" and "unat (uxrObjectId.type obj) < 16"
  shows "uxr_object_id_from_raw (uxr_object_id_to_raw obj) = obj \<and>
    uxr_object_id_to_raw (uxr_object_id_from_raw r) = r"
  using object_id_roundtrip [OF assms] object_raw_roundtrip by simp

lemma object_id_wire_roundtrip_witness:
  "uxr_object_id_from_raw (uxr_object_id_to_raw (uxr_object_id 0xABC 5)) = uxr_object_id 0xABC 5 \<and>
   uxr_object_id_to_raw (uxr_object_id_from_raw (0xAB, 0xC5)) = (0xAB, 0xC5)"
  by (rule object_id_wire_roundtrip) (simp_all add: uxr_object_id_def)

end
