(* ===== verification/MicroCDR.thy ===== *)
theory MicroCDR
  imports Prelude
begin

text \<open>
  The boundary to Micro-CDR, the serialization library the client is built on. Its code is
  not part of this repository, so its functions are a parameter: a record \<open>ucdr\<close> with one
  field per library function the client calls, passed to every definition that calls one.
  What the client relies on of the library's documented behaviour (the CDR layout: natural
  alignment counted from the buffer's offset, the byte order of the buffer, an error flag
  that stays set) is the predicate \<open>ucdr_ok\<close>. Nothing is said about what happens when a
  buffer fills up and has a callback for that.
\<close>

section \<open>Buffers\<close>

text \<open>
  The callbacks that the client installs for a full buffer; \<open>None\<close> stands for \<open>NULL\<close>. The
  argument that goes with it points to a stream, named by its index in the session.
\<close>

datatype OnFullBuffer =
  on_full_input_buffer_cb | on_full_output_buffer_cb | on_full_output_buffer_fragmented_cb

record ucdrBuffer =
  init :: addr
  final :: addr
  iterator :: addr
  offset :: nat
  endianness :: endianness
  error :: bool
  on_full_buffer :: "OnFullBuffer option"
  args :: "nat option"

type_synonym cdr_state = "ucdrBuffer \<times> mem"

type_synonym ser = "cdr_state \<Rightarrow> bool \<times> cdr_state"

text \<open>A deserializer gets the old content of its output location and returns the new one.\<close>

type_synonym 'a des = "'a \<Rightarrow> cdr_state \<Rightarrow> bool \<times> 'a \<times> cdr_state"

section \<open>The library\<close>

record ucdr =
  UCDR_MACHINE_ENDIANNESS :: endianness
  ucdr_init_buffer :: "addr \<Rightarrow> nat \<Rightarrow> ucdrBuffer"
  ucdr_init_buffer_origin :: "addr \<Rightarrow> nat \<Rightarrow> nat \<Rightarrow> ucdrBuffer"
  ucdr_init_buffer_origin_offset :: "addr \<Rightarrow> nat \<Rightarrow> nat \<Rightarrow> nat \<Rightarrow> ucdrBuffer"
  ucdr_set_on_full_buffer_callback ::
    "OnFullBuffer option \<Rightarrow> nat option \<Rightarrow> ucdrBuffer \<Rightarrow> ucdrBuffer"
  ucdr_alignment :: "nat \<Rightarrow> nat \<Rightarrow> nat"
  ucdr_align_to :: "nat \<Rightarrow> ucdrBuffer \<Rightarrow> ucdrBuffer"
  ucdr_advance_buffer :: "nat \<Rightarrow> ucdrBuffer \<Rightarrow> ucdrBuffer"
  ucdr_buffer_length :: "ucdrBuffer \<Rightarrow> nat"
  ucdr_buffer_remaining :: "ucdrBuffer \<Rightarrow> nat"
  ucdr_serialize_bool :: "bool \<Rightarrow> ser"
  ucdr_serialize_uint8_t :: "u8 \<Rightarrow> ser"
  ucdr_serialize_uint16_t :: "u16 \<Rightarrow> ser"
  ucdr_serialize_uint32_t :: "u32 \<Rightarrow> ser"
  ucdr_serialize_uint64_t :: "u64 \<Rightarrow> ser"
  ucdr_serialize_int16_t :: "u16 \<Rightarrow> ser"
  ucdr_serialize_int32_t :: "u32 \<Rightarrow> ser"
  ucdr_serialize_endian_uint16_t :: "endianness \<Rightarrow> u16 \<Rightarrow> ser"
  ucdr_serialize_array_uint8_t :: "u8 list \<Rightarrow> nat \<Rightarrow> ser"
  ucdr_serialize_sequence_uint8_t :: "u8 list \<Rightarrow> u32 \<Rightarrow> ser"
  ucdr_serialize_string :: "u8 list \<Rightarrow> ser"
  ucdr_deserialize_bool :: "bool des"
  ucdr_deserialize_uint8_t :: "u8 des"
  ucdr_deserialize_uint16_t :: "u16 des"
  ucdr_deserialize_uint32_t :: "u32 des"
  ucdr_deserialize_uint64_t :: "u64 des"
  ucdr_deserialize_int16_t :: "u16 des"
  ucdr_deserialize_int32_t :: "u32 des"
  ucdr_deserialize_endian_uint16_t :: "endianness \<Rightarrow> u16 des"
  ucdr_deserialize_array_uint8_t :: "nat \<Rightarrow> u8 list des"
  ucdr_deserialize_sequence_uint8_t :: "nat \<Rightarrow> (u8 list \<times> u32) des"
  ucdr_deserialize_string :: "nat \<Rightarrow> u8 list des"

text \<open>
  Signed integers travel as the words with the same bits. A C string is the list of its
  characters without the terminating zero. A \<open>uint8_t\<close> array is the list of its elements;
  an array of capacity \<open>n\<close> that receives \<open>k\<close> elements keeps its last \<open>n - k\<close>.
\<close>

section \<open>Layout\<close>

definition pad :: "nat \<Rightarrow> nat \<Rightarrow> nat" where
  "pad o' n = (n - o' mod n) mod n"

definition adv :: "nat \<Rightarrow> ucdrBuffer \<Rightarrow> ucdrBuffer" where
  "adv n ub = ub\<lparr>iterator := iterator ub + n, offset := offset ub + n\<rparr>"

lemma adv_simps [simp]:
  "init (adv n ub) = init ub" "final (adv n ub) = final ub"
  "iterator (adv n ub) = iterator ub + n" "offset (adv n ub) = offset ub + n"
  "endianness (adv n ub) = endianness ub" "error (adv n ub) = error ub"
  "on_full_buffer (adv n ub) = on_full_buffer ub" "args (adv n ub) = args ub"
  by (simp_all add: adv_def)

lemma adv_adv [simp]: "adv k (adv n ub) = adv (n + k) ub"
  by (simp add: adv_def add.assoc)

lemma adv_0 [simp]: "adv 0 ub = ub"
  by (simp add: adv_def)

lemma pad_1 [simp]: "pad x (Suc 0) = 0"
  by (simp add: pad_def)

lemma pad_less: "0 < n \<Longrightarrow> pad x n < n"
  by (simp add: pad_def)

lemma pad_aligned [simp]: "x mod n = 0 \<Longrightarrow> pad x n = 0"
  by (simp add: pad_def)

lemma pad_mod_cong:
  assumes "n dvd k" and "x mod k = y mod k"
  shows "pad x n = pad y n"
  unfolding pad_def using assms by (metis mod_mod_cancel)

lemma pad_aligns:
  assumes "0 < n"
  shows "(x + pad x n) mod n = 0"
proof (cases "x mod n = 0")
  case False
  then have "n - x mod n < n"
    using assms by simp
  then have p: "pad x n = n - x mod n"
    by (simp add: pad_def)
  have "x mod n < n"
    using assms by simp
  then have "x + (n - x mod n) = n * (x div n) + n"
    using mult_div_mod_eq [of n x] by linarith
  then show ?thesis
    by (simp add: p)
qed simp

section \<open>What the client relies on\<close>

text \<open>
  A value (of those in \<open>P\<close>) is written after padding to a multiple of its alignment \<open>k\<close>, when it
  fits. When it does not fit and there is no callback, or when the buffer is already in
  error, the call fails, leaves the buffer in error and writes nothing outside the buffer.
\<close>

definition ser_law ::
  "('v \<Rightarrow> bool) \<Rightarrow> nat \<Rightarrow> ('v \<Rightarrow> nat) \<Rightarrow> (endianness \<Rightarrow> 'v \<Rightarrow> u8 list) \<Rightarrow> ('v \<Rightarrow> ser) \<Rightarrow> bool"
where
  "ser_law P k len enc f \<longleftrightarrow>
     (\<forall>v ub m. P v \<longrightarrow> \<not> error ub \<longrightarrow> iterator ub + pad (offset ub) k + len v \<le> final ub \<longrightarrow>
        f v (ub, m) =
          (True, adv (pad (offset ub) k + len v) ub,
                 wr m (iterator ub + pad (offset ub) k) (enc (endianness ub) v))) \<and>
     (\<forall>v ub m. P v \<longrightarrow> error ub \<or>
          (on_full_buffer ub = None \<and> final ub < iterator ub + pad (offset ub) k + len v) \<longrightarrow>
        \<not> fst (f v (ub, m)) \<and> error (fst (snd (f v (ub, m)))) \<and>
        changed_within m (snd (snd (f v (ub, m)))) (iterator ub) (final ub))"

definition des_law :: "nat \<Rightarrow> nat \<Rightarrow> (endianness \<Rightarrow> u8 list \<Rightarrow> 'v) \<Rightarrow> 'v des \<Rightarrow> bool" where
  "des_law k n dec f \<longleftrightarrow>
     (\<forall>out ub m. \<not> error ub \<longrightarrow> iterator ub + pad (offset ub) k + n \<le> final ub \<longrightarrow>
        f out (ub, m) =
          (True, dec (endianness ub) (rd m (iterator ub + pad (offset ub) k) n),
           adv (pad (offset ub) k + n) ub, m)) \<and>
     (\<forall>out ub m. error ub \<or>
          (on_full_buffer ub = None \<and> final ub < iterator ub + pad (offset ub) k + n) \<longrightarrow>
        \<not> fst (f out (ub, m)) \<and> error (fst (snd (snd (f out (ub, m))))) \<and>
        snd (snd (snd (f out (ub, m)))) = m)"

definition enc_w :: "nat \<Rightarrow> endianness \<Rightarrow> 'a::len word \<Rightarrow> u8 list" where
  "enc_w n e w = enc_nat e n (unat w)"

definition dec_w :: "endianness \<Rightarrow> u8 list \<Rightarrow> 'a::len word" where
  "dec_w e bs = of_nat (dec_nat e bs)"

definition enc_bool :: "endianness \<Rightarrow> bool \<Rightarrow> u8 list" where
  "enc_bool e b = [if b then 1 else 0]"

definition dec_bool :: "endianness \<Rightarrow> u8 list \<Rightarrow> bool" where
  "dec_bool e bs = (bs \<noteq> [0])"

text \<open>A sequence is its length as a \<open>uint32_t\<close> followed by its bytes; a string is the
  sequence of its characters and the terminating zero.\<close>

definition enc_seq :: "endianness \<Rightarrow> u8 list \<Rightarrow> u8 list" where
  "enc_seq e bs = enc_nat e 4 (length bs) @ bs"

definition seq_ser_law :: "(u8 list \<Rightarrow> u32 \<Rightarrow> ser) \<Rightarrow> bool" where
  "seq_ser_law f \<longleftrightarrow>
     ser_law (\<lambda>(bs, n). unat n \<le> length bs) 4 (\<lambda>(bs, n). 4 + unat n)
       (\<lambda>e (bs, n). enc_seq e (take (unat n) bs)) (\<lambda>(bs, n). f bs n)"

definition str_ser_law :: "(u8 list \<Rightarrow> ser) \<Rightarrow> bool" where
  "str_ser_law f \<longleftrightarrow>
     ser_law (\<lambda>str. 0 \<notin> set str \<and> length str + 1 < 2 ^ 32) 4
       (\<lambda>str. 4 + (length str + 1)) (\<lambda>e str. enc_seq e (str @ [0])) f"

definition seq_des_law :: "(nat \<Rightarrow> (u8 list \<times> u32) des) \<Rightarrow> bool" where
  "seq_des_law f \<longleftrightarrow>
     (\<forall>cap out ub m n. \<not> error ub \<longrightarrow>
        iterator ub + pad (offset ub) 4 + 4 \<le> final ub \<longrightarrow>
        n = dec_nat (endianness ub) (rd m (iterator ub + pad (offset ub) 4) 4) \<longrightarrow>
        n \<le> cap \<longrightarrow> iterator ub + pad (offset ub) 4 + 4 + n \<le> final ub \<longrightarrow>
        f cap out (ub, m) =
          (True, (rd m (iterator ub + pad (offset ub) 4 + 4) n @ drop n (fst out), of_nat n),
           adv (pad (offset ub) 4 + 4 + n) ub, m))"

definition str_des_law :: "(nat \<Rightarrow> u8 list des) \<Rightarrow> bool" where
  "str_des_law f \<longleftrightarrow>
     (\<forall>cap out ub m n. \<not> error ub \<longrightarrow>
        iterator ub + pad (offset ub) 4 + 4 \<le> final ub \<longrightarrow>
        n = dec_nat (endianness ub) (rd m (iterator ub + pad (offset ub) 4) 4) \<longrightarrow>
        n \<le> cap \<longrightarrow> iterator ub + pad (offset ub) 4 + 4 + n \<le> final ub \<longrightarrow>
        f cap out (ub, m) =
          (True, takeWhile (\<lambda>c. c \<noteq> 0) (rd m (iterator ub + pad (offset ub) 4 + 4) n),
           adv (pad (offset ub) 4 + 4 + n) ub, m))"

definition buffer_laws :: "ucdr \<Rightarrow> bool" where
  "buffer_laws cdr \<longleftrightarrow>
     (\<forall>a n org off. ucdr_init_buffer_origin_offset cdr a n org off =
        \<lparr>init = a, final = a + n, iterator = a + off, offset = org + off,
         endianness = UCDR_MACHINE_ENDIANNESS cdr, error = False,
         on_full_buffer = None, args = None\<rparr>) \<and>
     (\<forall>a n org. ucdr_init_buffer_origin cdr a n org = ucdr_init_buffer_origin_offset cdr a n org 0) \<and>
     (\<forall>a n. ucdr_init_buffer cdr a n = ucdr_init_buffer_origin_offset cdr a n 0 0) \<and>
     (\<forall>f x ub. ucdr_set_on_full_buffer_callback cdr f x ub = ub\<lparr>on_full_buffer := f, args := x\<rparr>) \<and>
     (\<forall>x n. ucdr_alignment cdr x n = pad x n) \<and>
     (\<forall>n ub. iterator ub + pad (offset ub) n \<le> final ub \<longrightarrow>
        ucdr_align_to cdr n ub = adv (pad (offset ub) n) ub) \<and>
     (\<forall>n ub. final ub < iterator ub + pad (offset ub) n \<longrightarrow>
        ucdr_align_to cdr n ub = ub\<lparr>iterator := final ub, offset := offset ub + pad (offset ub) n\<rparr>) \<and>
     (\<forall>n ub. iterator ub + n \<le> final ub \<longrightarrow> ucdr_advance_buffer cdr n ub = adv n ub) \<and>
     (\<forall>ub. init ub \<le> iterator ub \<longrightarrow> ucdr_buffer_length cdr ub = iterator ub - init ub) \<and>
     (\<forall>ub. iterator ub \<le> final ub \<longrightarrow> ucdr_buffer_remaining cdr ub = final ub - iterator ub)"

definition ser_laws :: "ucdr \<Rightarrow> bool" where
  "ser_laws cdr \<longleftrightarrow>
     ser_law (\<lambda>_. True) 1 (\<lambda>_. 1) enc_bool (ucdr_serialize_bool cdr) \<and>
     ser_law (\<lambda>_. True) 1 (\<lambda>_. 1) (enc_w 1) (ucdr_serialize_uint8_t cdr) \<and>
     ser_law (\<lambda>_. True) 2 (\<lambda>_. 2) (enc_w 2) (ucdr_serialize_uint16_t cdr) \<and>
     ser_law (\<lambda>_. True) 4 (\<lambda>_. 4) (enc_w 4) (ucdr_serialize_uint32_t cdr) \<and>
     ser_law (\<lambda>_. True) 8 (\<lambda>_. 8) (enc_w 8) (ucdr_serialize_uint64_t cdr) \<and>
     ser_law (\<lambda>_. True) 2 (\<lambda>_. 2) (enc_w 2) (ucdr_serialize_int16_t cdr) \<and>
     ser_law (\<lambda>_. True) 4 (\<lambda>_. 4) (enc_w 4) (ucdr_serialize_int32_t cdr) \<and>
     (\<forall>e. ser_law (\<lambda>_. True) 2 (\<lambda>_. 2) (\<lambda>_. enc_w 2 e) (ucdr_serialize_endian_uint16_t cdr e)) \<and>
     (\<forall>n. ser_law (\<lambda>bs. n \<le> length bs) 1 (\<lambda>_. n) (\<lambda>_. take n)
        (\<lambda>bs. ucdr_serialize_array_uint8_t cdr bs n)) \<and>
     seq_ser_law (ucdr_serialize_sequence_uint8_t cdr) \<and>
     str_ser_law (ucdr_serialize_string cdr)"

definition des_laws :: "ucdr \<Rightarrow> bool" where
  "des_laws cdr \<longleftrightarrow>
     des_law 1 1 dec_bool (ucdr_deserialize_bool cdr) \<and>
     des_law 1 1 dec_w (ucdr_deserialize_uint8_t cdr) \<and>
     des_law 2 2 dec_w (ucdr_deserialize_uint16_t cdr) \<and>
     des_law 4 4 dec_w (ucdr_deserialize_uint32_t cdr) \<and>
     des_law 8 8 dec_w (ucdr_deserialize_uint64_t cdr) \<and>
     des_law 2 2 dec_w (ucdr_deserialize_int16_t cdr) \<and>
     des_law 4 4 dec_w (ucdr_deserialize_int32_t cdr) \<and>
     (\<forall>e. des_law 2 2 (\<lambda>_. dec_w e) (ucdr_deserialize_endian_uint16_t cdr e)) \<and>
     (\<forall>n. des_law 1 n (\<lambda>_ bs. bs) (ucdr_deserialize_array_uint8_t cdr n)) \<and>
     seq_des_law (ucdr_deserialize_sequence_uint8_t cdr) \<and>
     str_des_law (ucdr_deserialize_string cdr)"

definition ucdr_ok :: "ucdr \<Rightarrow> bool" where
  "ucdr_ok cdr \<longleftrightarrow> buffer_laws cdr \<and> ser_laws cdr \<and> des_laws cdr"

section \<open>The laws as rewrite rules\<close>

named_theorems ucdr_simps \<open>what a call to the library does to a buffer with room\<close>

lemma ser_lawD:
  assumes "ser_law P k len enc f" and "P v" and "\<not> error ub"
    and "iterator ub + pad (offset ub) k + len v \<le> final ub"
  shows "f v (ub, m) = (True, adv (pad (offset ub) k + len v) ub,
    wr m (iterator ub + pad (offset ub) k) (enc (endianness ub) v))"
  using assms unfolding ser_law_def by blast

lemma ser_law_fail:
  assumes "ser_law P k len enc f" and "P v"
    and "error ub \<or> (on_full_buffer ub = None \<and> final ub < iterator ub + pad (offset ub) k + len v)"
  shows "\<not> fst (f v (ub, m)) \<and> error (fst (snd (f v (ub, m)))) \<and>
    changed_within m (snd (snd (f v (ub, m)))) (iterator ub) (final ub)"
  using assms unfolding ser_law_def by blast

lemma des_lawD:
  assumes "des_law k n dec f" and "\<not> error ub"
    and "iterator ub + pad (offset ub) k + n \<le> final ub"
  shows "f out (ub, m) = (True, dec (endianness ub) (rd m (iterator ub + pad (offset ub) k) n),
    adv (pad (offset ub) k + n) ub, m)"
  using assms unfolding des_law_def by blast

lemma des_law_fail:
  assumes "des_law k n dec f"
    and "error ub \<or> (on_full_buffer ub = None \<and> final ub < iterator ub + pad (offset ub) k + n)"
  shows "\<not> fst (f out (ub, m)) \<and> error (fst (snd (snd (f out (ub, m))))) \<and>
    snd (snd (snd (f out (ub, m)))) = m"
  using assms unfolding des_law_def by blast

lemma enc_w_1 [simp]: "enc_w (Suc 0) e (v :: u8) = [v]"
  by (simp add: enc_w_def enc_nat_def)

lemma length_enc_w [simp]: "length (enc_w n e v) = n"
  by (simp add: enc_w_def)

lemma dec_enc_w [simp]:
  fixes v :: "'a::len word"
  assumes "2 ^ LENGTH('a) \<le> (256::nat) ^ n"
  shows "dec_w e (enc_w n e v) = v"
  using dec_enc_word [OF assms] by (simp add: dec_w_def enc_w_def)

lemma dec_w_1 [simp]: "dec_w e [b] = (b :: u8)"
  by (simp add: dec_w_def dec_nat_def)

lemma rd_1 [simp]: "rd m a (Suc 0) = [m a]"
  by (simp add: rd_def)

lemma dec_w_rd [simp]: "dec_w e (rd m a (Suc 0)) = m a"
  by simp

lemma ucdr_lawsD:
  assumes "ucdr_ok cdr"
  shows "buffer_laws cdr" "ser_laws cdr" "des_laws cdr"
  using assms by (simp_all add: ucdr_ok_def)

lemma init_buffer_origin_offset [ucdr_simps]:
  "ucdr_ok cdr \<Longrightarrow> ucdr_init_buffer_origin_offset cdr a n org off =
    \<lparr>init = a, final = a + n, iterator = a + off, offset = org + off,
     endianness = UCDR_MACHINE_ENDIANNESS cdr, error = False, on_full_buffer = None, args = None\<rparr>"
  and init_buffer_origin [ucdr_simps]:
  "ucdr_ok cdr \<Longrightarrow> ucdr_init_buffer_origin cdr a n org = ucdr_init_buffer_origin_offset cdr a n org 0"
  and init_buffer [ucdr_simps]:
  "ucdr_ok cdr \<Longrightarrow> ucdr_init_buffer cdr a n = ucdr_init_buffer_origin_offset cdr a n 0 0"
  and set_callback [ucdr_simps]:
  "ucdr_ok cdr \<Longrightarrow> ucdr_set_on_full_buffer_callback cdr f x ub = ub\<lparr>on_full_buffer := f, args := x\<rparr>"
  and alignment [ucdr_simps]: "ucdr_ok cdr \<Longrightarrow> ucdr_alignment cdr o1 n = pad o1 n"
  and align_to [ucdr_simps]:
  "ucdr_ok cdr \<Longrightarrow> iterator ub + pad (offset ub) n \<le> final ub \<Longrightarrow>
    ucdr_align_to cdr n ub = adv (pad (offset ub) n) ub"
  and align_to_full:
  "ucdr_ok cdr \<Longrightarrow> final ub < iterator ub + pad (offset ub) n \<Longrightarrow>
    ucdr_align_to cdr n ub = ub\<lparr>iterator := final ub, offset := offset ub + pad (offset ub) n\<rparr>"
  and advance_buffer [ucdr_simps]:
  "ucdr_ok cdr \<Longrightarrow> iterator ub + n \<le> final ub \<Longrightarrow> ucdr_advance_buffer cdr n ub = adv n ub"
  and buffer_length [ucdr_simps]:
  "ucdr_ok cdr \<Longrightarrow> init ub \<le> iterator ub \<Longrightarrow> ucdr_buffer_length cdr ub = iterator ub - init ub"
  and buffer_remaining [ucdr_simps]:
  "ucdr_ok cdr \<Longrightarrow> iterator ub \<le> final ub \<Longrightarrow> ucdr_buffer_remaining cdr ub = final ub - iterator ub"
  by (simp_all add: ucdr_ok_def buffer_laws_def)

lemma ser_u8 [ucdr_simps]:
  "ucdr_ok cdr \<Longrightarrow> \<not> error ub \<Longrightarrow> iterator ub + 1 \<le> final ub \<Longrightarrow>
    ucdr_serialize_uint8_t cdr v (ub, m) = (True, adv 1 ub, wr m (iterator ub) [v])"
  using ser_lawD [of "\<lambda>_. True" 1 "\<lambda>_. 1" "enc_w 1" "ucdr_serialize_uint8_t cdr" v ub m]
  by (simp add: ucdr_ok_def ser_laws_def)

lemma ser_u16_endian [ucdr_simps]:
  "ucdr_ok cdr \<Longrightarrow> \<not> error ub \<Longrightarrow> iterator ub + pad (offset ub) 2 + 2 \<le> final ub \<Longrightarrow>
    ucdr_serialize_endian_uint16_t cdr e v (ub, m) =
      (True, adv (pad (offset ub) 2 + 2) ub, wr m (iterator ub + pad (offset ub) 2) (enc_w 2 e v))"
  using ser_lawD [of "\<lambda>_. True" 2 "\<lambda>_. 2" "\<lambda>_. enc_w 2 e" "ucdr_serialize_endian_uint16_t cdr e" v ub m]
  by (simp add: ucdr_ok_def ser_laws_def)

lemma ser_array [ucdr_simps]:
  "ucdr_ok cdr \<Longrightarrow> \<not> error ub \<Longrightarrow> n \<le> length bs \<Longrightarrow> iterator ub + n \<le> final ub \<Longrightarrow>
    ucdr_serialize_array_uint8_t cdr bs n (ub, m) = (True, adv n ub, wr m (iterator ub) (take n bs))"
  using ser_lawD [of "\<lambda>bs. n \<le> length bs" 1 "\<lambda>_. n" "\<lambda>_. take n"
      "\<lambda>bs. ucdr_serialize_array_uint8_t cdr bs n" bs ub m]
  by (simp add: ucdr_ok_def ser_laws_def)

lemma des_u8 [ucdr_simps]:
  "ucdr_ok cdr \<Longrightarrow> \<not> error ub \<Longrightarrow> iterator ub + 1 \<le> final ub \<Longrightarrow>
    ucdr_deserialize_uint8_t cdr out (ub, m) = (True, m (iterator ub), adv 1 ub, m)"
  using des_lawD [of 1 1 dec_w "ucdr_deserialize_uint8_t cdr" ub out m]
  by (simp add: ucdr_ok_def des_laws_def)

lemma des_u16_endian [ucdr_simps]:
  "ucdr_ok cdr \<Longrightarrow> \<not> error ub \<Longrightarrow> iterator ub + pad (offset ub) 2 + 2 \<le> final ub \<Longrightarrow>
    ucdr_deserialize_endian_uint16_t cdr e out (ub, m) =
      (True, dec_w e (rd m (iterator ub + pad (offset ub) 2) 2), adv (pad (offset ub) 2 + 2) ub, m)"
  using des_lawD [of 2 2 "\<lambda>_. dec_w e" "ucdr_deserialize_endian_uint16_t cdr e" ub out m]
  by (simp add: ucdr_ok_def des_laws_def)

lemma des_array [ucdr_simps]:
  "ucdr_ok cdr \<Longrightarrow> \<not> error ub \<Longrightarrow> iterator ub + n \<le> final ub \<Longrightarrow>
    ucdr_deserialize_array_uint8_t cdr n out (ub, m) = (True, rd m (iterator ub) n, adv n ub, m)"
  using des_lawD [of 1 n "\<lambda>_ bs. bs" "ucdr_deserialize_array_uint8_t cdr n" ub out m]
  by (simp add: ucdr_ok_def des_laws_def)

end
