(* ===== verification/RefCDR.thy ===== *)
theory RefCDR
  imports MicroCDR
begin

text \<open>
  A concrete serialization library that has the laws of \<open>ucdr_ok\<close>: what the witnesses of
  the properties about serialized data instantiate the library with. It writes what fits
  and fails otherwise; it never calls a full-buffer callback.
\<close>

definition ref_ser :: "nat \<Rightarrow> nat \<Rightarrow> u8 list \<Rightarrow> ser" where
  "ref_ser k n bs = (\<lambda>(ub, m).
     if error ub \<or> final ub < iterator ub + pad (offset ub) k + n
     then (False, ub\<lparr>error := True\<rparr>, m)
     else (True, adv (pad (offset ub) k + n) ub, wr m (iterator ub + pad (offset ub) k) bs))"

definition ref_des :: "nat \<Rightarrow> nat \<Rightarrow> (endianness \<Rightarrow> u8 list \<Rightarrow> 'v) \<Rightarrow> 'v des" where
  "ref_des k n dec = (\<lambda>out (ub, m).
     if error ub \<or> final ub < iterator ub + pad (offset ub) k + n
     then (False, out, ub\<lparr>error := True\<rparr>, m)
     else (True, dec (endianness ub) (rd m (iterator ub + pad (offset ub) k) n),
           adv (pad (offset ub) k + n) ub, m))"

definition ref_ser_w :: "nat \<Rightarrow> 'a::len word \<Rightarrow> ser" where
  "ref_ser_w n v = (\<lambda>s. ref_ser n n (enc_w n (endianness (fst s)) v) s)"

definition ref_init :: "addr \<Rightarrow> nat \<Rightarrow> nat \<Rightarrow> nat \<Rightarrow> ucdrBuffer" where
  "ref_init a n org off = \<lparr>init = a, final = a + n, iterator = a + off, offset = org + off,
     endianness = LITTLE_ENDIANNESS, error = False, on_full_buffer = None, args = None\<rparr>"

text \<open>Length and bytes of a sequence, with \<open>fin\<close> reading the bytes that were announced.\<close>

definition ref_des_seq :: "(u8 list \<Rightarrow> 'v) \<Rightarrow> nat \<Rightarrow> 'v des" where
  "ref_des_seq fin cap = (\<lambda>out (ub, m).
     if error ub \<or> final ub < iterator ub + pad (offset ub) 4 + 4
     then (False, out, ub\<lparr>error := True\<rparr>, m)
     else let n = dec_nat (endianness ub) (rd m (iterator ub + pad (offset ub) 4) 4) in
       if cap < n \<or> final ub < iterator ub + pad (offset ub) 4 + 4 + n
       then (False, out, ub\<lparr>error := True\<rparr>, m)
       else (True, fin (rd m (iterator ub + pad (offset ub) 4 + 4) n),
             adv (pad (offset ub) 4 + 4 + n) ub, m))"

definition ref_align_to :: "nat \<Rightarrow> ucdrBuffer \<Rightarrow> ucdrBuffer" where
  "ref_align_to n ub =
     (if iterator ub + pad (offset ub) n \<le> final ub then adv (pad (offset ub) n) ub
      else ub\<lparr>iterator := final ub, offset := offset ub + pad (offset ub) n\<rparr>)"

definition ref_ucdr :: ucdr where
  "ref_ucdr = \<lparr>
     UCDR_MACHINE_ENDIANNESS = LITTLE_ENDIANNESS,
     ucdr_init_buffer = (\<lambda>a n. ref_init a n 0 0),
     ucdr_init_buffer_origin = (\<lambda>a n org. ref_init a n org 0),
     ucdr_init_buffer_origin_offset = ref_init,
     ucdr_set_on_full_buffer_callback = (\<lambda>f x ub. ub\<lparr>on_full_buffer := f, args := x\<rparr>),
     ucdr_alignment = pad,
     ucdr_align_to = ref_align_to,
     ucdr_advance_buffer = adv,
     ucdr_buffer_length = (\<lambda>ub. iterator ub - init ub),
     ucdr_buffer_remaining = (\<lambda>ub. final ub - iterator ub),
     ucdr_serialize_bool = (\<lambda>b. ref_ser 1 1 (enc_bool LITTLE_ENDIANNESS b)),
     ucdr_serialize_uint8_t = ref_ser_w 1,
     ucdr_serialize_uint16_t = ref_ser_w 2,
     ucdr_serialize_uint32_t = ref_ser_w 4,
     ucdr_serialize_uint64_t = ref_ser_w 8,
     ucdr_serialize_int16_t = ref_ser_w 2,
     ucdr_serialize_int32_t = ref_ser_w 4,
     ucdr_serialize_endian_uint16_t = (\<lambda>e v. ref_ser 2 2 (enc_w 2 e v)),
     ucdr_serialize_array_uint8_t = (\<lambda>bs n. ref_ser 1 n (take n bs)),
     ucdr_serialize_sequence_uint8_t = (\<lambda>bs n s.
       ref_ser 4 (4 + unat n) (enc_seq (endianness (fst s)) (take (unat n) bs)) s),
     ucdr_serialize_string = (\<lambda>str s.
       ref_ser 4 (4 + (length str + 1)) (enc_seq (endianness (fst s)) (str @ [0])) s),
     ucdr_deserialize_bool = ref_des 1 1 dec_bool,
     ucdr_deserialize_uint8_t = ref_des 1 1 dec_w,
     ucdr_deserialize_uint16_t = ref_des 2 2 dec_w,
     ucdr_deserialize_uint32_t = ref_des 4 4 dec_w,
     ucdr_deserialize_uint64_t = ref_des 8 8 dec_w,
     ucdr_deserialize_int16_t = ref_des 2 2 dec_w,
     ucdr_deserialize_int32_t = ref_des 4 4 dec_w,
     ucdr_deserialize_endian_uint16_t = (\<lambda>e. ref_des 2 2 (\<lambda>_. dec_w e)),
     ucdr_deserialize_array_uint8_t = (\<lambda>n. ref_des 1 n (\<lambda>_ bs. bs)),
     ucdr_deserialize_sequence_uint8_t = (\<lambda>cap out.
       ref_des_seq (\<lambda>bs. (bs @ drop (length bs) (fst out), of_nat (length bs))) cap out),
     ucdr_deserialize_string = ref_des_seq (takeWhile (\<lambda>c. c \<noteq> 0))\<rparr>"

lemma ref_ser_law:
  assumes "\<And>v ub m. P v \<Longrightarrow> f v (ub, m) = ref_ser k (len v) (enc (endianness ub) v) (ub, m)"
  shows "ser_law P k len enc f"
  unfolding ser_law_def using assms by (auto simp: ref_ser_def)

lemma ref_des_law: "des_law k n dec (ref_des k n dec)"
  by (auto simp: des_law_def ref_des_def)

lemma ref_buffer_laws: "buffer_laws ref_ucdr"
  by (simp add: buffer_laws_def ref_ucdr_def ref_init_def ref_align_to_def)

lemma enc_bool_endian: "enc_bool e = enc_bool e'"
  by (simp add: enc_bool_def fun_eq_iff)

lemma ref_ser_laws: "ser_laws ref_ucdr"
  unfolding ser_laws_def seq_ser_law_def str_ser_law_def
  by (intro conjI allI ref_ser_law)
     (auto simp: ref_ucdr_def ref_ser_w_def enc_bool_def)

lemma ref_seq_des_law: "seq_des_law (ucdr_deserialize_sequence_uint8_t ref_ucdr)"
  by (simp add: seq_des_law_def ref_ucdr_def ref_des_seq_def Let_def)

lemma ref_str_des_law: "str_des_law (ucdr_deserialize_string ref_ucdr)"
  by (simp add: str_des_law_def ref_ucdr_def ref_des_seq_def Let_def)

lemma ref_des_laws: "des_laws ref_ucdr"
  unfolding des_laws_def
  by (intro conjI allI ref_seq_des_law ref_str_des_law) (simp_all add: ref_ucdr_def ref_des_law)

theorem ucdr_ok_ref_ucdr: "ucdr_ok ref_ucdr"
  by (simp add: ucdr_ok_def ref_buffer_laws ref_ser_laws ref_des_laws)

end
