(* ===== verification/SeqNum.thy ===== *)
theory SeqNum
  imports Prelude
begin

text \<open>
  Sequence numbers: \<open>src/c/core/session/stream/seq_num.c\<close>. A sequence number is a
  \<open>uint16_t\<close> that wraps; two of them are compared by the shorter way around the circle of
  \<open>2 ^ 16\<close> values (serial number arithmetic). The C arithmetic is done after promotion to
  \<open>int\<close>, so the model computes in \<open>int\<close> and converts back.
\<close>

section \<open>Operations\<close>

type_synonym uxrSeqNum = u16

definition SEQ_NUM_SIZE :: int where
  "SEQ_NUM_SIZE = 65536"

definition SEQ_NUM_MIDSIZE :: int where
  "SEQ_NUM_MIDSIZE = SEQ_NUM_SIZE div 2"

definition SEQ_NUM_MAX :: uxrSeqNum where
  "SEQ_NUM_MAX = 65535"

definition uxr_seq_num_add :: "uxrSeqNum \<Rightarrow> u16 \<Rightarrow> uxrSeqNum" where
  "uxr_seq_num_add seq_num increment =
     word_of_int ((uint seq_num + uint increment) mod SEQ_NUM_SIZE)"

definition uxr_seq_num_sub :: "uxrSeqNum \<Rightarrow> u16 \<Rightarrow> uxrSeqNum" where
  "uxr_seq_num_sub seq_num decrement =
     word_of_int (if uint decrement > uint seq_num
                  then uint seq_num + (SEQ_NUM_SIZE - uint decrement)
                  else uint seq_num - uint decrement)"

definition uxr_seq_num_cmp :: "uxrSeqNum \<Rightarrow> uxrSeqNum \<Rightarrow> int" where
  "uxr_seq_num_cmp seq_num_1 seq_num_2 =
     (let s1 = uint seq_num_1; s2 = uint seq_num_2 in
      if s1 = s2 then 0
      else if (s1 < s2 \<and> s2 - s1 < SEQ_NUM_MIDSIZE) \<or> (s1 > s2 \<and> s1 - s2 > SEQ_NUM_MIDSIZE)
      then -1 else 1)"

section \<open>Distance\<close>

text \<open>How far \<open>b\<close> lies ahead of \<open>a\<close>, going upwards with wrap-around.\<close>

definition seq_dist :: "uxrSeqNum \<Rightarrow> uxrSeqNum \<Rightarrow> nat" where
  "seq_dist a b = unat (b - a)"

lemma seq_dist_bound [simp]: "seq_dist a b < 65536"
  by (simp add: seq_dist_def)

lemma seq_dist_self [simp]: "seq_dist a a = 0"
  by (simp add: seq_dist_def)

lemma seq_dist_0_iff [simp]: "seq_dist a b = 0 \<longleftrightarrow> a = b"
  by (auto simp: seq_dist_def unat_eq_0)

lemma seq_dist_cases:
  "seq_dist a b = (if unat a \<le> unat b then unat b - unat a else unat b + 65536 - unat a)"
  by (simp add: seq_dist_def unat_sub_if_size word_size)

lemma seq_dist_triangle: "seq_dist a c = (seq_dist a b + seq_dist b c) mod 65536"
proof -
  have "c - a = (b - a) + (c - b)" by simp
  then have "unat (c - a) = (unat (b - a) + unat (c - b)) mod 65536"
    by (simp only: unat_word_ariths) simp
  then show ?thesis by (simp add: seq_dist_def)
qed

lemma seq_dist_add:
  "seq_dist a b + unat n < 65536 \<Longrightarrow> seq_dist a (b + n) = seq_dist a b + unat n"
  using seq_dist_triangle [of a "b + n" b] by (simp add: seq_dist_def)

lemma seq_dist_Suc: "seq_dist a b + 1 < 65536 \<Longrightarrow> seq_dist a (b + 1) = seq_dist a b + 1"
  using seq_dist_add [of a b 1] by simp

lemma seq_dist_split:
  assumes "seq_dist a b \<le> seq_dist a c"
  shows "seq_dist b c = seq_dist a c - seq_dist a b"
proof -
  have "unat (c - b) = unat ((c - a) - (b - a))" by simp
  also have "\<dots> = unat (c - a) - unat (b - a)"
    using assms by (intro unat_sub) (simp add: seq_dist_def word_le_nat_alt)
  finally show ?thesis by (simp add: seq_dist_def)
qed

lemma seq_dist_rev:
  assumes "a \<noteq> b"
  shows "seq_dist b a = 65536 - seq_dist a b"
proof -
  have "unat a \<noteq> unat b"
    using assms by (simp add: word_unat_eq_iff)
  then show ?thesis
    using unat_u16_less [of a] unat_u16_less [of b]
    unfolding seq_dist_cases by arith
qed

text \<open>
  A number is determined by its distance from a base, and every distance is reached.
\<close>

lemma seq_at_dist: "a + of_nat (seq_dist a b) = b"
  by (simp add: seq_dist_def)

lemma seq_dist_inject: "seq_dist a b = seq_dist a c \<longleftrightarrow> b = c"
  by (metis seq_at_dist)

lemma seq_dist_of_nat: "n < 65536 \<Longrightarrow> seq_dist a (a + of_nat n) = n"
  by (simp add: seq_dist_def unat_of_nat)

section \<open>The contract of the module\<close>

text \<open>
  What the stream modules rely on: addition and subtraction are those of the 16-bit ring,
  and the comparison answers "less" exactly for the numbers less than half a circle ahead.
\<close>

locale seq_arith =
  fixes add :: "u16 \<Rightarrow> u16 \<Rightarrow> u16"
    and sub :: "u16 \<Rightarrow> u16 \<Rightarrow> u16"
    and cmp :: "u16 \<Rightarrow> u16 \<Rightarrow> int"
  assumes add_ring: "add a n = a + n"
    and sub_ring: "sub a n = a - n"
    and cmp_zero: "cmp a b = 0 \<longleftrightarrow> a = b"
    and cmp_neg: "cmp a b < 0 \<longleftrightarrow> 0 < seq_dist a b \<and> seq_dist a b < 32768"
begin

lemma sub_add_cancel: "sub (add a n) n = a"
  by (simp add: add_ring sub_ring)

lemma add_sub_cancel: "add (sub a n) n = a"
  by (simp add: add_ring sub_ring)

lemma cmp_le: "cmp a b \<le> 0 \<longleftrightarrow> seq_dist a b < 32768"
  using cmp_zero [of a b] cmp_neg [of a b]
  by (cases "a = b") (auto simp: less_le)

lemma cmp_pos: "0 < cmp a b \<longleftrightarrow> 32768 \<le> seq_dist a b"
  using cmp_le [of a b] by linarith

lemma cmp_ge: "0 \<le> cmp a b \<longleftrightarrow> a = b \<or> 32768 \<le> seq_dist a b"
  using cmp_zero [of a b] cmp_pos [of a b] by linarith

text \<open>Comparison is antisymmetric except at the midpoint, where both directions say "greater".\<close>

lemma cmp_antisym: "seq_dist a b \<noteq> 32768 \<Longrightarrow> cmp a b < 0 \<longleftrightarrow> 0 < cmp b a"
  using seq_dist_bound [of a b]
    and seq_dist_rev [of a b] seq_dist_0_iff [of a b]
  by (cases "a = b") (auto simp add: cmp_neg cmp_pos simp del: seq_dist_0_iff)

lemma cmp_midpoint: "seq_dist a b = 32768 \<Longrightarrow> 0 < cmp a b \<and> 0 < cmp b a"
  using seq_dist_rev [of a b] by (cases "a = b") (auto simp: cmp_pos)

text \<open>
  The receive window test "after \<open>l\<close> and not after \<open>l + h\<close>" of the reliable streams is
  membership in the \<open>h\<close> numbers that follow \<open>l\<close>.
\<close>

lemma window:
  assumes "unat h < 32768"
  shows "cmp l s < 0 \<and> 0 \<le> cmp (add l h) s \<longleftrightarrow> 0 < seq_dist l s \<and> seq_dist l s \<le> unat h"
proof -
  have d: "seq_dist l (l + h) = unat h"
    by (simp add: seq_dist_def)
  show ?thesis
  proof (cases "seq_dist l s \<le> unat h")
    case True
    then have "seq_dist s (l + h) = unat h - seq_dist l s"
      using d seq_dist_split [of l s "l + h"] by simp
    then have "s = l + h \<or> 32768 \<le> seq_dist (l + h) s"
      using seq_dist_rev [of s "l + h"] assms by fastforce
    then show ?thesis
      using True assms by (auto simp: cmp_neg cmp_ge add_ring)
  next
    case False
    then have "seq_dist (l + h) s = seq_dist l s - unat h"
      using d seq_dist_split [of l "l + h" s] by simp
    moreover from False have "s \<noteq> l + h"
      using d by auto
    ultimately show ?thesis
      using False by (auto simp: cmp_neg cmp_ge add_ring)
  qed
qed

text \<open>The send window test "not after \<open>a + h\<close>" for a number known to be ahead of \<open>a\<close>.\<close>

lemma window_le:
  assumes "unat h < 32768" and "seq_dist a s < 32768"
  shows "cmp s (add a h) \<le> 0 \<longleftrightarrow> seq_dist a s \<le> unat h"
proof -
  have d: "seq_dist a (a + h) = unat h"
    by (simp add: seq_dist_def)
  show ?thesis
  proof (cases "seq_dist a s \<le> unat h")
    case True
    then show ?thesis
      using d assms seq_dist_split [of a s "a + h"] by (simp add: cmp_le add_ring)
  next
    case False
    then have "seq_dist (a + h) s = seq_dist a s - unat h"
      using d seq_dist_split [of a "a + h" s] by simp
    moreover from False have "s \<noteq> a + h"
      using d by auto
    ultimately have "32768 < seq_dist s (a + h)"
      using seq_dist_rev [of "a + h" s] False assms by auto
    then show ?thesis
      using False by (simp add: cmp_le add_ring)
  qed
qed

end

lemma uxr_seq_num_add_eq: "uxr_seq_num_add a n = a + n"
proof (rule word_uint_eqI)
  show "uint (uxr_seq_num_add a n) = uint (a + n)"
    by (simp add: uxr_seq_num_add_def SEQ_NUM_SIZE_def uint_word_ariths uint_word_of_int)
qed

lemma uxr_seq_num_sub_eq: "uxr_seq_num_sub a n = a - n"
proof -
  have "(65536 :: u16) = 0" by simp
  then have "word_of_int (uint a + (65536 - uint n)) = a - n"
    by (simp only: of_int_add of_int_diff of_int_numeral of_int_uint) simp
  then show ?thesis
    by (simp add: uxr_seq_num_sub_def SEQ_NUM_SIZE_def)
qed

lemma uxr_seq_num_cmp_zero: "uxr_seq_num_cmp a b = 0 \<longleftrightarrow> a = b"
  by (simp add: uxr_seq_num_cmp_def Let_def word_uint_eq_iff)

lemma uxr_seq_num_cmp_neg:
  "uxr_seq_num_cmp a b < 0 \<longleftrightarrow> 0 < seq_dist a b \<and> seq_dist a b < 32768"
proof -
  have a: "uint a = int (unat a)" "unat a < 65536" and b: "uint b = int (unat b)" "unat b < 65536"
    by (rule uint_nat unat_u16_less)+
  have "uxr_seq_num_cmp a b < 0 \<longleftrightarrow>
      (unat a < unat b \<and> unat b - unat a < 32768) \<or> (unat b < unat a \<and> 32768 < unat a - unat b)"
    unfolding uxr_seq_num_cmp_def Let_def SEQ_NUM_MIDSIZE_def SEQ_NUM_SIZE_def a(1) b(1)
    by (simp del: int_nat_eq of_nat_unat split: if_split) linarith
  then show ?thesis
    using a(2) b(2) unfolding seq_dist_cases by arith
qed

interpretation sn: seq_arith uxr_seq_num_add uxr_seq_num_sub uxr_seq_num_cmp
  by unfold_locales
    (rule uxr_seq_num_add_eq uxr_seq_num_sub_eq uxr_seq_num_cmp_zero uxr_seq_num_cmp_neg)+

section \<open>Slots\<close>

text \<open>
  The reliable streams keep sequence number \<open>s\<close> in slot \<open>s % history\<close>. Across the wrap
  from 65535 to 0 this is a rotation only when \<open>history\<close> divides \<open>2 ^ 16\<close>, which is why the
  code asks for a power of two.
\<close>

lemma slot_eq_iff:
  assumes "h dvd 65536"
  shows "unat a mod h = unat b mod h \<longleftrightarrow> h dvd seq_dist a b"
proof -
  from assms have "0 < h"
    by (rule dvd_pos_nat [rotated]) simp
  have "(unat a mod h = unat b mod h) \<longleftrightarrow> int h dvd int (unat b) - int (unat a)"
    by (metis mod_eq_dvd_iff of_nat_eq_iff of_nat_mod)
  also have "\<dots> \<longleftrightarrow> int h dvd int (seq_dist a b)"
  proof (cases "unat a \<le> unat b")
    case True
    then show ?thesis by (simp add: seq_dist_cases of_nat_diff)
  next
    case False
    then have "int (seq_dist a b) = 65536 + (int (unat b) - int (unat a))"
      using unat_u16_less [of a] by (simp only: seq_dist_cases if_False)
    moreover have "int h dvd 65536"
      using assms by (metis of_nat_dvd_iff of_nat_numeral)
    ultimately show ?thesis
      by (metis dvd_add_right_iff)
  qed
  finally show ?thesis by simp
qed

lemma slot_inj_window:
  assumes "h dvd 65536" and "unat a mod h = unat b mod h" and "seq_dist a b < h"
  shows "a = b"
  using assms by (simp add: slot_eq_iff) (metis dvd_imp_le not_le seq_dist_0_iff gr0I)

lemma slot_inj_base:
  assumes "h dvd 65536" and "unat a mod h = unat b mod h"
    and "0 < seq_dist l a" "seq_dist l a \<le> h" "0 < seq_dist l b" "seq_dist l b \<le> h"
  shows "a = b"
proof (cases "seq_dist l a \<le> seq_dist l b")
  case True
  then have "seq_dist a b < h"
    using assms seq_dist_split [of l a b] by linarith
  with assms show ?thesis by (blast intro: slot_inj_window)
next
  case False
  then have "seq_dist b a < h"
    using assms seq_dist_split [of l b a] by linarith
  with assms show ?thesis by (metis slot_inj_window)
qed

section \<open>Properties\<close>

text \<open>C26. Comparing two sequence numbers answers "equal", "before" (less than half a circle
  ahead) or "after"; the two orders of the arguments agree except for numbers exactly half a
  circle apart, where each is reported as after the other.\<close>
theorem seq_num_cmp_serial_order:
  "uxr_seq_num_cmp a b = (if a = b then 0 else if seq_dist a b < 32768 then -1 else 1) \<and>
   (uxr_seq_num_cmp a b < 0 \<and> uxr_seq_num_cmp b a < 0) = False \<and>
   (0 < uxr_seq_num_cmp a b \<and> 0 < uxr_seq_num_cmp b a) = (seq_dist a b = 32768)"
proof (intro conjI)
  show "uxr_seq_num_cmp a b = (if a = b then 0 else if seq_dist a b < 32768 then -1 else 1)"
  proof (cases "a = b")
    case True
    then show ?thesis by (simp add: sn.cmp_zero)
  next
    case False
    then have "uxr_seq_num_cmp a b \<in> {-1, 1}"
      by (simp add: uxr_seq_num_cmp_def Let_def word_uint_eq_iff)
    then show ?thesis
      using False sn.cmp_neg [of a b] by auto
  qed
  show "(uxr_seq_num_cmp a b < 0 \<and> uxr_seq_num_cmp b a < 0) = False"
    using seq_dist_rev [of a b] by (cases "a = b") (auto simp: sn.cmp_neg)
  show "(0 < uxr_seq_num_cmp a b \<and> 0 < uxr_seq_num_cmp b a) = (seq_dist a b = 32768)"
    using seq_dist_rev [of a b] by (cases "a = b") (auto simp: sn.cmp_pos)
qed

text \<open>The test "after \<open>l\<close> and not after \<open>l + h\<close>" with which a reliable input stream
  decides whether to look at a message accepts exactly the \<open>h\<close> numbers that follow \<open>l\<close>, across
  the wrap, as long as the history \<open>h\<close> is below half a circle.\<close>
theorem seq_num_window:
  assumes "unat h < 32768"
  shows "(0 > uxr_seq_num_cmp l s \<and> 0 \<le> uxr_seq_num_cmp (uxr_seq_num_add l h) s) =
    (\<exists>i \<in> set [1..<Suc (unat h)]. s = uxr_seq_num_add l (of_nat i))"
proof -
  have "(\<exists>i \<in> set [1..<Suc (unat h)]. s = l + of_nat i) \<longleftrightarrow>
      0 < seq_dist l s \<and> seq_dist l s \<le> unat h" (is "?L \<longleftrightarrow> ?R")
  proof
    assume ?L
    then obtain i where "1 \<le> i" "i \<le> unat h" "s = l + of_nat i" by auto
    then show ?R using seq_dist_of_nat [of i l] assms by simp
  next
    assume ?R
    then show ?L
      by (intro bexI [of _ "seq_dist l s"]) (auto simp: seq_at_dist)
  qed
  then show ?thesis
    using sn.window [OF assms, of l s] by (simp only: sn.add_ring)
qed

lemma seq_num_window_witness:
  "(0 > uxr_seq_num_cmp 65534 1 \<and> 0 \<le> uxr_seq_num_cmp (uxr_seq_num_add 65534 4) 1) =
    (\<exists>i \<in> set [1..<Suc (unat (4 :: u16))]. (1 :: u16) = uxr_seq_num_add 65534 (of_nat i))"
  by (rule seq_num_window) simp

end
