(* ===== verification/Submessage.thy ===== *)
theory Submessage
  imports RefCDR SeqNum
begin

text \<open>
  Message and submessage headers: \<open>xrce_header.c\<close>, \<open>xrce_subheader.c\<close> and
  \<open>submessage.c\<close>, with the constants of \<open>submessage_internal.h\<close>. The C functions ignore
  the results of the library calls, and so do the definitions.
\<close>

section \<open>Constants\<close>

definition SUBHEADER_SIZE :: nat where
  "SUBHEADER_SIZE = 4"

definition CLIENT_KEY_SIZE :: nat where
  "CLIENT_KEY_SIZE = 4"

definition SESSION_ID_WITHOUT_CLIENT_KEY :: u8 where
  "SESSION_ID_WITHOUT_CLIENT_KEY = 0x80"

definition SUBMESSAGE_ID_CREATE_CLIENT :: u8 where "SUBMESSAGE_ID_CREATE_CLIENT = 0"
definition SUBMESSAGE_ID_CREATE :: u8 where "SUBMESSAGE_ID_CREATE = 1"
definition SUBMESSAGE_ID_GET_INFO :: u8 where "SUBMESSAGE_ID_GET_INFO = 2"
definition SUBMESSAGE_ID_DELETE :: u8 where "SUBMESSAGE_ID_DELETE = 3"
definition SUBMESSAGE_ID_STATUS_AGENT :: u8 where "SUBMESSAGE_ID_STATUS_AGENT = 4"
definition SUBMESSAGE_ID_STATUS :: u8 where "SUBMESSAGE_ID_STATUS = 5"
definition SUBMESSAGE_ID_INFO :: u8 where "SUBMESSAGE_ID_INFO = 6"
definition SUBMESSAGE_ID_WRITE_DATA :: u8 where "SUBMESSAGE_ID_WRITE_DATA = 7"
definition SUBMESSAGE_ID_READ_DATA :: u8 where "SUBMESSAGE_ID_READ_DATA = 8"
definition SUBMESSAGE_ID_DATA :: u8 where "SUBMESSAGE_ID_DATA = 9"
definition SUBMESSAGE_ID_ACKNACK :: u8 where "SUBMESSAGE_ID_ACKNACK = 10"
definition SUBMESSAGE_ID_HEARTBEAT :: u8 where "SUBMESSAGE_ID_HEARTBEAT = 11"
definition SUBMESSAGE_ID_RESET :: u8 where "SUBMESSAGE_ID_RESET = 12"
definition SUBMESSAGE_ID_FRAGMENT :: u8 where "SUBMESSAGE_ID_FRAGMENT = 13"
definition SUBMESSAGE_ID_TIMESTAMP :: u8 where "SUBMESSAGE_ID_TIMESTAMP = 14"
definition SUBMESSAGE_ID_TIMESTAMP_REPLY :: u8 where "SUBMESSAGE_ID_TIMESTAMP_REPLY = 15"

definition FLAG_ENDIANNESS :: u8 where "FLAG_ENDIANNESS = 0x01"
definition FLAG_LAST_FRAGMENT :: u8 where "FLAG_LAST_FRAGMENT = 0x02"
definition FLAG_FORMAT_DATA :: u8 where "FLAG_FORMAT_DATA = 0x00"
definition FLAG_FORMAT_SAMPLE :: u8 where "FLAG_FORMAT_SAMPLE = 0x02"
definition FLAG_FORMAT_DATA_SEQ :: u8 where "FLAG_FORMAT_DATA_SEQ = 0x08"
definition FLAG_FORMAT_SAMPLE_SEQ :: u8 where "FLAG_FORMAT_SAMPLE_SEQ = 0x0A"
definition FLAG_FORMAT_PACKED_SAMPLES :: u8 where "FLAG_FORMAT_PACKED_SAMPLES = 0x0E"

text \<open>The numeric value of the library's endianness enumeration.\<close>

definition endianness_flag :: "endianness \<Rightarrow> u8" where
  "endianness_flag e = (case e of BIG_ENDIANNESS \<Rightarrow> 0 | LITTLE_ENDIANNESS \<Rightarrow> 1)"

section \<open>Message header\<close>

definition uxr_serialize_message_header ::
  "ucdr \<Rightarrow> u8 \<Rightarrow> u8 \<Rightarrow> u16 \<Rightarrow> u8 list \<Rightarrow> cdr_state \<Rightarrow> cdr_state"
where
  "uxr_serialize_message_header cdr session_id stream_id seq_num key st0 =
     (let st1 = snd (ucdr_serialize_uint8_t cdr session_id st0);
          st2 = snd (ucdr_serialize_uint8_t cdr stream_id st1);
          st3 = snd (ucdr_serialize_endian_uint16_t cdr LITTLE_ENDIANNESS seq_num st2)
      in if SESSION_ID_WITHOUT_CLIENT_KEY > session_id
         then snd (ucdr_serialize_array_uint8_t cdr key CLIENT_KEY_SIZE st3)
         else st3)"

definition uxr_deserialize_message_header ::
  "ucdr \<Rightarrow> u8 \<times> u8 \<times> u16 \<times> u8 list \<Rightarrow> cdr_state \<Rightarrow> (u8 \<times> u8 \<times> u16 \<times> u8 list) \<times> cdr_state"
where
  "uxr_deserialize_message_header cdr out st0 =
     (let (session_id0, stream_id0, seq_num0, key0) = out;
          (_, session_id, st1) = ucdr_deserialize_uint8_t cdr session_id0 st0;
          (_, stream_id, st2) = ucdr_deserialize_uint8_t cdr stream_id0 st1;
          (_, seq_num, st3) = ucdr_deserialize_endian_uint16_t cdr LITTLE_ENDIANNESS seq_num0 st2
      in if SESSION_ID_WITHOUT_CLIENT_KEY > session_id
         then let (_, key, st4) = ucdr_deserialize_array_uint8_t cdr CLIENT_KEY_SIZE key0 st3
              in ((session_id, stream_id, seq_num, key), st4)
         else ((session_id, stream_id, seq_num, key0), st3))"

section \<open>Submessage header\<close>

definition uxr_serialize_submessage_header ::
  "ucdr \<Rightarrow> u8 \<Rightarrow> u8 \<Rightarrow> u16 \<Rightarrow> cdr_state \<Rightarrow> cdr_state"
where
  "uxr_serialize_submessage_header cdr id' flags len st0 =
     (let st1 = snd (ucdr_serialize_uint8_t cdr id' st0);
          st2 = snd (ucdr_serialize_uint8_t cdr flags st1)
      in snd (ucdr_serialize_endian_uint16_t cdr LITTLE_ENDIANNESS len st2))"

definition uxr_deserialize_submessage_header ::
  "ucdr \<Rightarrow> u8 \<times> u8 \<times> u16 \<Rightarrow> cdr_state \<Rightarrow> (u8 \<times> u8 \<times> u16) \<times> cdr_state"
where
  "uxr_deserialize_submessage_header cdr out st0 =
     (let (id0, flags0, len0) = out;
          (_, id', st1) = ucdr_deserialize_uint8_t cdr id0 st0;
          (_, flags, st2) = ucdr_deserialize_uint8_t cdr flags0 st1;
          (_, len, st3) = ucdr_deserialize_endian_uint16_t cdr LITTLE_ENDIANNESS len0 st2
      in ((id', flags, len), st3))"

definition uxr_buffer_submessage_header ::
  "ucdr \<Rightarrow> u8 \<Rightarrow> u16 \<Rightarrow> u8 \<Rightarrow> cdr_state \<Rightarrow> bool \<times> cdr_state"
where
  "uxr_buffer_submessage_header cdr submessage_id len flags st0 =
     (let (ub0, m0) = st0;
          ub1 = (ucdr_align_to cdr 4 ub0)\<lparr>endianness := UCDR_MACHINE_ENDIANNESS cdr\<rparr>;
          flags' = flags OR endianness_flag (endianness ub1);
          (ub2, m2) = uxr_serialize_submessage_header cdr submessage_id flags' len (ub1, m0)
      in (ucdr_buffer_remaining cdr ub2 \<ge> unat len, (ub2, m2)))"

definition uxr_read_submessage_header ::
  "ucdr \<Rightarrow> u8 \<times> u16 \<times> u8 \<Rightarrow> cdr_state \<Rightarrow> bool \<times> (u8 \<times> u16 \<times> u8) \<times> cdr_state"
where
  "uxr_read_submessage_header cdr out st0 =
     (let (submessage_id0, len0, flags0) = out;
          (ub0, m0) = st0;
          ub1 = ucdr_align_to cdr 4 ub0
      in if ucdr_buffer_remaining cdr ub1 \<ge> SUBHEADER_SIZE
         then let ((submessage_id, flags, len), (ub2, m2)) =
                    uxr_deserialize_submessage_header cdr (submessage_id0, flags0, len0) (ub1, m0);
                  endiannes_flag = flags AND FLAG_ENDIANNESS;
                  flags' = flags AND NOT endiannes_flag;
                  ub3 = ub2\<lparr>endianness := (if endiannes_flag \<noteq> 0 then LITTLE_ENDIANNESS else BIG_ENDIANNESS)\<rparr>
              in (True, (submessage_id, len, flags'), (ub3, m2))
         else (False, out, (ub1, m0)))"

definition uxr_submessage_padding :: "size_t \<Rightarrow> size_t" where
  "uxr_submessage_padding len =
     (if len mod SUBHEADER_SIZE \<noteq> 0 then SUBHEADER_SIZE - len mod SUBHEADER_SIZE else 0)"

section \<open>What the headers put in memory\<close>

lemma uxr_submessage_padding_eq: "uxr_submessage_padding len = pad len 4"
  by (cases "len mod 4 = 0") (auto simp: uxr_submessage_padding_def SUBHEADER_SIZE_def pad_def)

lemma pad_4_less: "pad x 4 < 4"
  by (simp add: pad_less)

lemma pad_2_of_4 [simp]: "x mod 4 = 0 \<Longrightarrow> pad x 2 = 0"
  by (rule pad_aligned) presburger

lemma pad_2_plus_2 [simp]: "x mod 4 = 0 \<Longrightarrow> pad (Suc (Suc x)) 2 = 0"
  by (rule pad_aligned) presburger

definition header_bytes :: "u8 \<Rightarrow> u8 \<Rightarrow> u16 \<Rightarrow> u8 list" where
  "header_bytes a b n = a # b # nat_bytes 2 (unat n)"

lemma length_header_bytes [simp]: "length (header_bytes a b n) = 4"
  by (simp add: header_bytes_def)

lemma enc_w_little: "enc_w n LITTLE_ENDIANNESS v = nat_bytes n (unat v)"
  by (simp add: enc_w_def enc_nat_def)

lemma wr_header_bytes:
  "wr (wr (wr m a [x]) (Suc a) [y]) (Suc (Suc a)) (nat_bytes 2 (unat n)) =
    wr m a (header_bytes x y n)"
  using wr_append [of m a "[x, y]" "nat_bytes 2 (unat n)"] wr_append [of m a "[x]" "[y]"]
  by (simp add: header_bytes_def)

lemma serialize_submessage_header:
  assumes "ucdr_ok cdr" and "\<not> error ub" and "offset ub mod 4 = 0"
    and "iterator ub + 4 \<le> final ub"
  shows "uxr_serialize_submessage_header cdr id' flags len (ub, m) =
    (adv 4 ub, wr m (iterator ub) (header_bytes id' flags len))"
  using assms
  by (simp add: uxr_serialize_submessage_header_def ucdr_simps enc_w_little wr_header_bytes)

lemma rd_header_bytes:
  assumes "rd m a 4 = header_bytes x y n"
  shows "m a = x" and "m (Suc a) = y" and "rd m (Suc (Suc a)) 2 = nat_bytes 2 (unat n)"
proof -
  have "rd m a 4 = m a # m (Suc a) # rd m (Suc (Suc a)) 2"
    using rd_append [of m a 2 2] by (simp add: rd_Suc eval_nat_numeral)
  then show "m a = x" and "m (Suc a) = y" and "rd m (Suc (Suc a)) 2 = nat_bytes 2 (unat n)"
    using assms by (simp_all add: header_bytes_def)
qed

lemma dec_w_nat_bytes [simp]: "(dec_w LITTLE_ENDIANNESS (nat_bytes 2 (unat n)) :: u16) = n"
  using dec_enc_w [where 'a = 16 and n = 2 and e = LITTLE_ENDIANNESS and v = n]
  by (simp add: enc_w_little)

lemma deserialize_submessage_header:
  assumes "ucdr_ok cdr" and "\<not> error ub" and "offset ub mod 4 = 0"
    and "iterator ub + 4 \<le> final ub"
    and "rd m (iterator ub) 4 = header_bytes id' flags len"
  shows "uxr_deserialize_submessage_header cdr out (ub, m) = ((id', flags, len), (adv 4 ub, m))"
  using assms(1-4) rd_header_bytes [OF assms(5)]
  by (cases out) (simp add: uxr_deserialize_submessage_header_def ucdr_simps)

text \<open>The submessage header goes to the next multiple of four, in the byte order of the host.\<close>

lemma buffer_submessage_header:
  assumes ok: "ucdr_ok cdr" "\<not> error ub"
    and room: "iterator ub + pad (offset ub) 4 + 4 \<le> final ub"
  shows "uxr_buffer_submessage_header cdr sid len flags (ub, m) =
    (unat len \<le> final ub - (iterator ub + pad (offset ub) 4 + 4),
     ((adv (pad (offset ub) 4 + 4) ub)\<lparr>endianness := UCDR_MACHINE_ENDIANNESS cdr\<rparr>,
      wr m (iterator ub + pad (offset ub) 4)
        (header_bytes sid (flags OR endianness_flag (UCDR_MACHINE_ENDIANNESS cdr)) len)))"
proof -
  define ub1 where "ub1 = (adv (pad (offset ub) 4) ub)\<lparr>endianness := UCDR_MACHINE_ENDIANNESS cdr\<rparr>"
  have ub1: "\<not> error ub1" "offset ub1 mod 4 = 0" "iterator ub1 + 4 \<le> final ub1"
    "iterator ub1 = iterator ub + pad (offset ub) 4" "final ub1 = final ub"
    "endianness ub1 = UCDR_MACHINE_ENDIANNESS cdr"
    using assms pad_aligns [of 4 "offset ub"] by (simp_all add: ub1_def)
  have "ucdr_align_to cdr 4 ub = adv (pad (offset ub) 4) ub"
    using assms by (intro align_to) simp_all
  moreover have "adv 4 ub1 =
      (adv (pad (offset ub) 4 + 4) ub)\<lparr>endianness := UCDR_MACHINE_ENDIANNESS cdr\<rparr>"
    by (simp add: ub1_def adv_def)
  moreover have "ucdr_buffer_remaining cdr (adv 4 ub1) = final ub1 - (iterator ub1 + 4)"
    using ok ub1 by (simp add: buffer_remaining)
  ultimately show ?thesis
    using serialize_submessage_header [OF ok(1) ub1(1-3), of sid
        "flags OR endianness_flag (UCDR_MACHINE_ENDIANNESS cdr)" len m] ub1(4-6)
    by (simp add: uxr_buffer_submessage_header_def Let_def flip: ub1_def)
qed

text \<open>Reading splits the byte order off the flags.\<close>

lemma read_submessage_header:
  assumes ok: "ucdr_ok cdr" "\<not> error ub"
    and room: "iterator ub + pad (offset ub) 4 + 4 \<le> final ub"
    and bytes: "rd m (iterator ub + pad (offset ub) 4) 4 = header_bytes sid flags len"
  shows "uxr_read_submessage_header cdr out (ub, m) =
    (True, (sid, len, flags AND NOT 1),
     ((adv (pad (offset ub) 4 + 4) ub)\<lparr>endianness :=
        (if flags AND 1 \<noteq> 0 then LITTLE_ENDIANNESS else BIG_ENDIANNESS)\<rparr>, m))"
proof -
  define ub1 where "ub1 = adv (pad (offset ub) 4) ub"
  have al: "ucdr_align_to cdr 4 ub = ub1"
    unfolding ub1_def using assms by (intro align_to) simp_all
  have ub1: "\<not> error ub1" "offset ub1 mod 4 = 0" "iterator ub1 + 4 \<le> final ub1"
    using assms pad_aligns [of 4 "offset ub"] by (simp_all add: ub1_def)
  have rem: "SUBHEADER_SIZE \<le> ucdr_buffer_remaining cdr ub1"
    using ok ub1 by (simp add: buffer_remaining SUBHEADER_SIZE_def)
  have d: "uxr_deserialize_submessage_header cdr o1 (ub1, m) = ((sid, flags, len), (adv 4 ub1, m))" for o1
    using ok ub1 bytes by (intro deserialize_submessage_header) (simp_all add: ub1_def)
  have a4: "adv 4 ub1 = adv (pad (offset ub) 4 + 4) ub"
    by (simp add: ub1_def)
  have fl: "flags AND (NOT flags OR - 2) = flags AND NOT 1"
    by (simp add: bit.conj_disj_distrib)
  show ?thesis
    by (cases out) (simp add: uxr_read_submessage_header_def al rem d a4 fl FLAG_ENDIANNESS_def)
qed

lemma read_submessage_header_short:
  assumes "ucdr_ok cdr" and "iterator ub \<le> final ub"
    and "final ub < iterator ub + pad (offset ub) 4 + 4"
  shows "fst (uxr_read_submessage_header cdr out (ub, m)) = False \<and>
    fst (snd (uxr_read_submessage_header cdr out (ub, m))) = out"
proof -
  have "ucdr_buffer_remaining cdr (ucdr_align_to cdr 4 ub) < 4"
    using assms by (cases "iterator ub + pad (offset ub) 4 \<le> final ub")
      (auto simp: align_to align_to_full buffer_remaining)
  then show ?thesis
    by (cases out) (simp add: uxr_read_submessage_header_def SUBHEADER_SIZE_def)
qed

section \<open>Message header bytes\<close>

definition message_header_bytes :: "u8 \<Rightarrow> u8 \<Rightarrow> u16 \<Rightarrow> u8 list \<Rightarrow> u8 list" where
  "message_header_bytes session_id stream_id seq_num key =
     header_bytes session_id stream_id seq_num @ (if session_id < 0x80 then take 4 key else [])"

lemma serialize_message_header:
  assumes "ucdr_ok cdr" and "\<not> error ub" and "offset ub mod 4 = 0" and "length key = 4"
    and "iterator ub + length (message_header_bytes sess strm seq key) \<le> final ub"
  shows "uxr_serialize_message_header cdr sess strm seq key (ub, m) =
    (adv (length (message_header_bytes sess strm seq key)) ub,
     wr m (iterator ub) (message_header_bytes sess strm seq key))"
proof -
  have "wr (wr m a (header_bytes sess strm seq)) (Suc (Suc (Suc (Suc a)))) key =
      wr m a (header_bytes sess strm seq @ key)" for a
    by (simp add: wr_append eval_nat_numeral)
  then show ?thesis
    using assms
    by (auto simp: uxr_serialize_message_header_def ucdr_simps enc_w_little wr_header_bytes
        message_header_bytes_def SESSION_ID_WITHOUT_CLIENT_KEY_def CLIENT_KEY_SIZE_def
        split: if_splits)
qed

lemma deserialize_message_header:
  assumes "ucdr_ok cdr" and "\<not> error ub" and "offset ub mod 4 = 0"
    and "iterator ub + length (message_header_bytes sess strm seq key) \<le> final ub"
    and "length key = 4"
    and "rd m (iterator ub) (length (message_header_bytes sess strm seq key)) =
      message_header_bytes sess strm seq key"
  shows "uxr_deserialize_message_header cdr (a, b, c, key0) (ub, m) =
    ((sess, strm, seq, if sess < 0x80 then key else key0),
     (adv (length (message_header_bytes sess strm seq key)) ub, m))"
proof -
  have h: "rd m (iterator ub) 4 = header_bytes sess strm seq"
    using arg_cong [OF assms(6), of "take 4"] assms(5)
    by (simp add: message_header_bytes_def rd_take split: if_splits)
  have k: "rd m (Suc (Suc (Suc (Suc (iterator ub))))) 4 = key" if "sess < 0x80"
    using assms(5,6) that rd_append [of m "iterator ub" 4 4] h
    by (simp add: message_header_bytes_def eval_nat_numeral)
  show ?thesis
    using assms(1-5) rd_header_bytes [OF h] k
    by (auto simp: uxr_deserialize_message_header_def ucdr_simps message_header_bytes_def
        SESSION_ID_WITHOUT_CLIENT_KEY_def CLIENT_KEY_SIZE_def split: if_splits)
qed

section \<open>Properties\<close>

text \<open>A submessage header written into a buffer with room for it is read back by a reader at
  the same place, whatever the alignment: same identifier, length and flags, with the byte order
  of the writing host taken off the flags and set in the reader's buffer.\<close>
theorem submessage_header_roundtrip:
  assumes "ucdr_ok cdr" and "\<not> error ub" and "iterator ub + pad (offset ub) 4 + 4 \<le> final ub"
    and "\<not> error rub" and "iterator rub = iterator ub" and "offset rub mod 4 = offset ub mod 4"
    and "iterator rub + pad (offset rub) 4 + 4 \<le> final rub" and "flags AND 1 = 0"
  shows "uxr_read_submessage_header cdr out
      (rub, snd (snd (uxr_buffer_submessage_header cdr sid len flags (ub, m)))) =
    (True, (sid, len, flags),
     ((adv (pad (offset ub) 4 + 4) rub)\<lparr>endianness := UCDR_MACHINE_ENDIANNESS cdr\<rparr>,
      snd (snd (uxr_buffer_submessage_header cdr sid len flags (ub, m)))))"
proof -
  let ?fl = "flags OR endianness_flag (UCDR_MACHINE_ENDIANNESS cdr)"
  have pad_eq: "pad (offset rub) 4 = pad (offset ub) 4"
    using assms(6) by (simp add: pad_def)
  have w: "snd (snd (uxr_buffer_submessage_header cdr sid len flags (ub, m))) =
      wr m (iterator ub + pad (offset ub) 4) (header_bytes sid ?fl len)"
    by (simp add: buffer_submessage_header [OF assms(1-3)])
  have fl: "?fl AND NOT 1 = flags"
  proof -
    have "flags AND (1 OR NOT 1) = flags"
      by (simp only: bit.disj_cancel_right and.right_neutral)
    then have "flags AND NOT 1 = flags"
      by (simp only: bit.conj_disj_distrib assms(8) or.left_neutral)
    then show ?thesis
      by (cases "UCDR_MACHINE_ENDIANNESS cdr")
        (simp_all add: endianness_flag_def bit.conj_disj_distrib2)
  qed
  have bit0: "(?fl AND 1 \<noteq> 0) = (UCDR_MACHINE_ENDIANNESS cdr = LITTLE_ENDIANNESS)"
    using assms(8) by (cases "UCDR_MACHINE_ENDIANNESS cdr")
      (simp_all add: endianness_flag_def bit.conj_disj_distrib2)
  have e: "(if UCDR_MACHINE_ENDIANNESS cdr = LITTLE_ENDIANNESS then LITTLE_ENDIANNESS
      else BIG_ENDIANNESS) = UCDR_MACHINE_ENDIANNESS cdr"
    by (cases "UCDR_MACHINE_ENDIANNESS cdr") simp_all
  have "rd (wr m (iterator ub + pad (offset ub) 4) (header_bytes sid ?fl len))
      (iterator rub + pad (offset rub) 4) 4 = header_bytes sid ?fl len"
    using assms(5) pad_eq by (simp add: rd_wr_same)
  from read_submessage_header [OF assms(1,4,7) this, of out] show ?thesis
    unfolding w fl bit0 e by (simp only: pad_eq)
qed

lemma submessage_header_roundtrip_witness:
  "uxr_read_submessage_header ref_ucdr (0, 0, 0)
      (ref_init 100 32 0 6, snd (snd (uxr_buffer_submessage_header ref_ucdr
         SUBMESSAGE_ID_DATA 12 8 (ref_init 100 40 0 6, \<lambda>_. 7)))) =
    (True, (SUBMESSAGE_ID_DATA, 12, 8),
     ((adv (pad (offset (ref_init 100 40 0 6)) 4 + 4) (ref_init 100 32 0 6))
        \<lparr>endianness := UCDR_MACHINE_ENDIANNESS ref_ucdr\<rparr>,
      snd (snd (uxr_buffer_submessage_header ref_ucdr
         SUBMESSAGE_ID_DATA 12 8 (ref_init 100 40 0 6, \<lambda>_. 7)))))"
  by (rule submessage_header_roundtrip [OF ucdr_ok_ref_ucdr]) (simp_all add: ref_init_def pad_def)

text \<open>A message header written at the start of a message is read back whole: session, stream
  and sequence number always, the client key exactly when the session identifier says that the
  header carries one (the reader's key is otherwise left as it was).\<close>
theorem message_header_roundtrip:
  assumes "ucdr_ok cdr" and "\<not> error ub" and "offset ub mod 4 = 0" and "length key = 4"
    and "iterator ub + 8 \<le> final ub"
    and "\<not> error rub" and "iterator rub = iterator ub" and "offset rub mod 4 = 0"
    and "iterator rub + 8 \<le> final rub"
  shows "uxr_deserialize_message_header cdr (a, b, c, key0)
      (rub, snd (uxr_serialize_message_header cdr sess strm seq key (ub, m))) =
    ((sess, strm, seq, if sess < SESSION_ID_WITHOUT_CLIENT_KEY then key else key0),
     (adv (if sess < SESSION_ID_WITHOUT_CLIENT_KEY then 8 else 4) rub,
      snd (uxr_serialize_message_header cdr sess strm seq key (ub, m))))"
proof -
  let ?b = "message_header_bytes sess strm seq key"
  have len: "length ?b = (if sess < 0x80 then 8 else 4)"
    using assms(4) by (simp add: message_header_bytes_def)
  then have "iterator ub + length ?b \<le> final ub" and r: "iterator rub + length ?b \<le> final rub"
    using assms(5,9) by auto
  from serialize_message_header [OF assms(1-4) this(1)]
  have w: "snd (uxr_serialize_message_header cdr sess strm seq key (ub, m)) = wr m (iterator ub) ?b"
    by simp
  have "rd (wr m (iterator ub) ?b) (iterator rub) (length ?b) = ?b"
    by (simp add: assms(7) rd_wr_same)
  from deserialize_message_header [OF assms(1,6,8) r assms(4) this] show ?thesis
    unfolding w by (simp add: len SESSION_ID_WITHOUT_CLIENT_KEY_def)
qed

lemma message_header_roundtrip_witness:
  "uxr_deserialize_message_header ref_ucdr (0, 0, 0, [0, 0, 0, 0])
      (ref_init 0 8 0 0, snd (uxr_serialize_message_header ref_ucdr 0x01 0x80 0x1234
         [1, 2, 3, 4] (ref_init 0 8 0 0, \<lambda>_. 0))) =
    ((0x01, 0x80, 0x1234, if 0x01 < SESSION_ID_WITHOUT_CLIENT_KEY then [1, 2, 3, 4] else [0, 0, 0, 0]),
     (adv (if 0x01 < SESSION_ID_WITHOUT_CLIENT_KEY then 8 else 4) (ref_init 0 8 0 0),
      snd (uxr_serialize_message_header ref_ucdr 0x01 0x80 0x1234
         [1, 2, 3, 4] (ref_init 0 8 0 0, \<lambda>_. 0))))"
  by (rule message_header_roundtrip [OF ucdr_ok_ref_ucdr]) (simp_all add: ref_init_def)

end
