(* ===== verification/XrceTypes.thy ===== *)
theory XrceTypes
  imports Prelude
begin

text \<open>
  The types of \<open>xrce_types.h\<close>, the content of the XRCE submessages: one record per struct,
  with the fields in their order. Fields are referred to by their qualified names, such as
  \<open>Time_t.seconds\<close>; \<open>size\<close>, \<open>type\<close>, \<open>value\<close>, \<open>name\<close> and \<open>state\<close> carry a prime. A \<open>char*\<close> is
  the list of the characters before the terminating zero, a \<open>uint8_t\<close> array the list of its
  bytes, an array of structs the map from its indices to its elements, and a signed integer the
  word with the same bits. A union is the record of its members: nothing is said about a member
  after another one was stored. The constants are those of a build with at most one of the
  shared memory and hard liveliness profiles.
\<close>

section \<open>Constants\<close>

definition UXR_STRING_SIZE_MAX :: nat where
  "UXR_STRING_SIZE_MAX = 512"

definition UXR_SAMPLE_DATA_SIZE_MAX :: nat where
  "UXR_SAMPLE_DATA_SIZE_MAX = 512"

definition UXR_STRING_SEQUENCE_MAX :: nat where
  "UXR_STRING_SEQUENCE_MAX = 8"

definition UXR_BINARY_SEQUENCE_MAX :: nat where
  "UXR_BINARY_SEQUENCE_MAX = 512"

definition UXR_BINARY_SEQUENCE_SMALL_MAX :: nat where
  "UXR_BINARY_SEQUENCE_SMALL_MAX = 8"

definition UXR_SAMPLE_SEQUENCE_MAX :: nat where
  "UXR_SAMPLE_SEQUENCE_MAX = 8"

definition UXR_SAMPLE_DATA_SEQUENCE_MAX :: nat where
  "UXR_SAMPLE_DATA_SEQUENCE_MAX = 8"

definition UXR_SAMPLE_DELTA_SEQUENCE_MAX :: nat where
  "UXR_SAMPLE_DELTA_SEQUENCE_MAX = 8"

definition UXR_PACKED_SAMPLES_SEQUENCE_MAX :: nat where
  "UXR_PACKED_SAMPLES_SEQUENCE_MAX = 8"

definition UXR_TRANSPORT_LOCATOR_SEQUENCE_MAX :: nat where
  "UXR_TRANSPORT_LOCATOR_SEQUENCE_MAX = 4"

definition UXR_PROPERTY_SEQUENCE_MAX :: nat where
  "UXR_PROPERTY_SEQUENCE_MAX = 1"

definition DDS_XRCE_OBJK_INVALID :: u8 where
  "DDS_XRCE_OBJK_INVALID = 0"

definition DDS_XRCE_OBJK_PARTICIPANT :: u8 where
  "DDS_XRCE_OBJK_PARTICIPANT = 1"

definition DDS_XRCE_OBJK_TOPIC :: u8 where
  "DDS_XRCE_OBJK_TOPIC = 2"

definition DDS_XRCE_OBJK_PUBLISHER :: u8 where
  "DDS_XRCE_OBJK_PUBLISHER = 3"

definition DDS_XRCE_OBJK_SUBSCRIBER :: u8 where
  "DDS_XRCE_OBJK_SUBSCRIBER = 4"

definition DDS_XRCE_OBJK_DATAWRITER :: u8 where
  "DDS_XRCE_OBJK_DATAWRITER = 5"

definition DDS_XRCE_OBJK_DATAREADER :: u8 where
  "DDS_XRCE_OBJK_DATAREADER = 6"

definition DDS_XRCE_OBJK_REQUESTER :: u8 where
  "DDS_XRCE_OBJK_REQUESTER = 7"

definition DDS_XRCE_OBJK_REPLIER :: u8 where
  "DDS_XRCE_OBJK_REPLIER = 8"

definition DDS_XRCE_OBJK_TYPE :: u8 where
  "DDS_XRCE_OBJK_TYPE = 10"

definition DDS_XRCE_OBJK_QOSPROFILE :: u8 where
  "DDS_XRCE_OBJK_QOSPROFILE = 11"

definition DDS_XRCE_OBJK_APPLICATION :: u8 where
  "DDS_XRCE_OBJK_APPLICATION = 12"

definition DDS_XRCE_OBJK_AGENT :: u8 where
  "DDS_XRCE_OBJK_AGENT = 13"

definition DDS_XRCE_OBJK_CLIENT :: u8 where
  "DDS_XRCE_OBJK_CLIENT = 14"

definition DDS_XRCE_OBJK_OTHER :: u8 where
  "DDS_XRCE_OBJK_OTHER = 15"

definition DDS_XRCE_REPRESENTATION_BY_REFERENCE :: u8 where
  "DDS_XRCE_REPRESENTATION_BY_REFERENCE = 1"

definition DDS_XRCE_REPRESENTATION_AS_XML_STRING :: u8 where
  "DDS_XRCE_REPRESENTATION_AS_XML_STRING = 2"

definition DDS_XRCE_REPRESENTATION_IN_BINARY :: u8 where
  "DDS_XRCE_REPRESENTATION_IN_BINARY = 3"

definition ADDRESS_FORMAT_SMALL :: u8 where
  "ADDRESS_FORMAT_SMALL = 0"

definition ADDRESS_FORMAT_MEDIUM :: u8 where
  "ADDRESS_FORMAT_MEDIUM = 1"

definition ADDRESS_FORMAT_LARGE :: u8 where
  "ADDRESS_FORMAT_LARGE = 2"

definition ADDRESS_FORMAT_STRING :: u8 where
  "ADDRESS_FORMAT_STRING = 3"

definition is_reliable :: u16 where
  "is_reliable = 1"

definition is_history_keep_last :: u16 where
  "is_history_keep_last = 2"

definition is_ownership_exclusive :: u16 where
  "is_ownership_exclusive = 4"

definition is_durability_transient_local :: u16 where
  "is_durability_transient_local = 8"

definition is_durability_transient :: u16 where
  "is_durability_transient = 16"

definition is_durability_persistent :: u16 where
  "is_durability_persistent = 32"

definition INFO_CONFIGURATION :: u32 where
  "INFO_CONFIGURATION = 1"

definition INFO_ACTIVITY :: u32 where
  "INFO_ACTIVITY = 2"

definition FORMAT_DATA :: u8 where
  "FORMAT_DATA = 0"

definition FORMAT_SAMPLE :: u8 where
  "FORMAT_SAMPLE = 2"

definition FORMAT_DATA_SEQ :: u8 where
  "FORMAT_DATA_SEQ = 8"

definition FORMAT_SAMPLE_SEQ :: u8 where
  "FORMAT_SAMPLE_SEQ = 10"

definition FORMAT_PACKED_SAMPLES :: u8 where
  "FORMAT_PACKED_SAMPLES = 14"

definition FORMAT_MASK :: u8 where
  "FORMAT_MASK = 14"

definition INSTANCE_STATE_UNREGISTERD :: u8 where
  "INSTANCE_STATE_UNREGISTERD = 1"

definition INSTANCE_STATE_DISPOSED :: u8 where
  "INSTANCE_STATE_DISPOSED = 2"

definition VIEW_STATE_NEW :: u8 where
  "VIEW_STATE_NEW = 4"

definition SAMPLE_STATE_READ :: u8 where
  "SAMPLE_STATE_READ = 8"

definition FORMAT_EMPTY :: u32 where
  "FORMAT_EMPTY = 0"

definition FORMAT_SEQNUM :: u32 where
  "FORMAT_SEQNUM = 1"

definition FORMAT_TIMESTAMP :: u32 where
  "FORMAT_TIMESTAMP = 2"

definition FORMAT_SEQN_TIMS :: u32 where
  "FORMAT_SEQN_TIMS = 3"

section \<open>Structs and unions\<close>

record Time_t =
  seconds :: u32
  nanoseconds :: u32

record BinarySequence_t =
  size' :: u32
  data :: "u8 list"

record BinarySequenceSmall_t =
  size' :: u32
  data :: "u8 list"

record StringSequence_t =
  size' :: u32
  data :: "nat \<Rightarrow> u8 list"

record ClientKey =
  data :: "u8 list"

record ObjectId =
  data :: "u8 list"

record ObjectPrefix =
  data :: "u8 list"

record XrceCookie =
  data :: "u8 list"

record XrceVersion =
  data :: "u8 list"

record XrceVendorId =
  data :: "u8 list"

record TransportLocatorSmall =
  address :: "u8 list"
  locator_port :: u8

record TransportLocatorMedium =
  address :: "u8 list"
  locator_port :: u16

record TransportLocatorLarge =
  address :: "u8 list"
  locator_port :: u32

record TransportLocatorString =
  value' :: "u8 list"

record TransportLocatorU =
  small_locator :: TransportLocatorSmall
  medium_locator :: TransportLocatorMedium
  large_locator :: TransportLocatorLarge
  string_locator :: TransportLocatorString

record TransportLocator =
  format :: u8
  U :: TransportLocatorU

record TransportLocatorSeq =
  size' :: u32
  data :: "nat \<Rightarrow> TransportLocator"

record Property =
  name' :: "u8 list"
  value' :: "u8 list"

record PropertySeq =
  size' :: u32
  data :: "nat \<Rightarrow> Property"

record CLIENT_Representation =
  xrce_cookie :: XrceCookie
  xrce_version :: XrceVersion
  xrce_vendor_id :: XrceVendorId
  client_key :: ClientKey
  session_id :: u8
  optional_properties :: bool
  properties :: PropertySeq
  mtu :: u16

record AGENT_Representation =
  xrce_cookie :: XrceCookie
  xrce_version :: XrceVersion
  xrce_vendor_id :: XrceVendorId
  optional_properties :: bool
  properties :: PropertySeq

record OBJK_Representation3FormatsU =
  object_reference :: "u8 list"
  xml_string_represenatation :: "u8 list"
  binary_representation :: BinarySequence_t

record OBJK_Representation3Formats =
  format :: u8
  U :: OBJK_Representation3FormatsU

record OBJK_RepresentationRefAndXMLFormatsU =
  object_name :: "u8 list"
  xml_string_represenatation :: "u8 list"

record OBJK_RepresentationRefAndXMLFormats =
  format :: u8
  U :: OBJK_RepresentationRefAndXMLFormatsU

record OBJK_RepresentationBinAndXMLFormatsU =
  binary_representation :: BinarySequence_t
  string_represenatation :: "u8 list"

record OBJK_RepresentationBinAndXMLFormats =
  format :: u8
  U :: OBJK_RepresentationBinAndXMLFormatsU

record OBJK_RepresentationRefAndXML_Base =
  representation :: OBJK_RepresentationRefAndXMLFormats

record OBJK_RepresentationBinAndXML_Base =
  representation :: OBJK_RepresentationBinAndXMLFormats

record OBJK_Representation3_Base =
  representation :: OBJK_Representation3Formats

record OBJK_QOSPROFILE_Representation =
  base :: OBJK_RepresentationRefAndXML_Base

record OBJK_TYPE_Representation =
  base :: OBJK_RepresentationRefAndXML_Base

record OBJK_DOMAIN_Representation =
  base :: OBJK_RepresentationRefAndXML_Base

record OBJK_APPLICATION_Representation =
  base :: OBJK_RepresentationRefAndXML_Base

record OBJK_PUBLISHER_Representation =
  base :: OBJK_RepresentationBinAndXML_Base
  participant_id :: ObjectId

record OBJK_SUBSCRIBER_Representation =
  base :: OBJK_RepresentationBinAndXML_Base
  participant_id :: ObjectId

record DATAWRITER_Representation =
  base :: OBJK_Representation3_Base
  publisher_id :: ObjectId

record DATAREADER_Representation =
  base :: OBJK_Representation3_Base
  subscriber_id :: ObjectId

record OBJK_PARTICIPANT_Representation =
  base :: OBJK_Representation3_Base
  domain_id :: u16

record OBJK_TOPIC_Representation =
  base :: OBJK_Representation3_Base
  participant_id :: ObjectId

record OBJK_REQUESTER_Representation =
  base :: OBJK_Representation3_Base
  participant_id :: ObjectId

record OBJK_REPLIER_Representation =
  base :: OBJK_Representation3_Base
  participant_id :: ObjectId

record OBJK_DomainParticipant_Binary =
  optional_domain_reference :: bool
  domain_reference :: "u8 list"
  optional_qos_profile_reference :: bool
  qos_profile_reference :: "u8 list"

record OBJK_Topic_Binary =
  topic_name :: "u8 list"
  optional_type_reference :: bool
  type_reference :: "u8 list"
  optional_type_name :: bool
  type_name :: "u8 list"

record OBJK_Publisher_Binary_Qos =
  optional_partitions :: bool
  partitions :: StringSequence_t
  optional_group_data :: bool
  group_data :: BinarySequence_t

record OBJK_Publisher_Binary =
  optional_publisher_name :: bool
  publisher_name :: "u8 list"
  optional_qos :: bool
  qos :: OBJK_Publisher_Binary_Qos

record OBJK_Subscriber_Binary_Qos =
  optional_partitions :: bool
  partitions :: StringSequence_t
  optional_group_data :: bool
  group_data :: BinarySequence_t

record OBJK_Subscriber_Binary =
  optional_subscriber_name :: bool
  subscriber_name :: "u8 list"
  optional_qos :: bool
  qos :: OBJK_Subscriber_Binary_Qos

record OBJK_Endpoint_QosBinary =
  qos_flags :: u16
  optional_history_depth :: bool
  history_depth :: u16
  optional_deadline_msec :: bool
  deadline_msec :: u32
  optional_lifespan_msec :: bool
  lifespan_msec :: u32
  optional_user_data :: bool
  user_data :: BinarySequenceSmall_t

record OBJK_DataWriter_Binary_Qos =
  base :: OBJK_Endpoint_QosBinary
  optional_ownership_strength :: bool
  ownership_strength :: u64

record OBJK_DataReader_Binary_Qos =
  base :: OBJK_Endpoint_QosBinary
  optional_timebasedfilter_msec :: bool
  timebasedfilter_msec :: u64
  optional_contentbased_filter :: bool
  contentbased_filter :: "u8 list"

record OBJK_DataReader_Binary =
  topic_id :: ObjectId
  optional_qos :: bool
  qos :: OBJK_DataReader_Binary_Qos

record OBJK_DataWriter_Binary =
  topic_id :: ObjectId
  optional_qos :: bool
  qos :: OBJK_DataWriter_Binary_Qos

record OBJK_Requester_Binary =
  service_name :: "u8 list"
  request_type :: "u8 list"
  reply_type :: "u8 list"
  optional_request_topic_name :: bool
  request_topic_name :: "u8 list"
  optional_reply_topic_name :: bool
  reply_topic_name :: "u8 list"

record OBJK_Replier_Binary =
  service_name :: "u8 list"
  request_type :: "u8 list"
  reply_type :: "u8 list"
  optional_request_topic_name :: bool
  request_topic_name :: "u8 list"
  optional_reply_topic_name :: bool
  reply_topic_name :: "u8 list"

record ObjectVariantU =
  agent :: AGENT_Representation
  client :: CLIENT_Representation
  application :: OBJK_APPLICATION_Representation
  participant :: OBJK_PARTICIPANT_Representation
  qos_profile :: OBJK_QOSPROFILE_Representation
  type' :: OBJK_TYPE_Representation
  topic :: OBJK_TOPIC_Representation
  publisher :: OBJK_PUBLISHER_Representation
  subscriber :: OBJK_SUBSCRIBER_Representation
  requester :: OBJK_REQUESTER_Representation
  replier :: OBJK_REPLIER_Representation
  data_writer :: DATAWRITER_Representation
  data_reader :: DATAREADER_Representation

record ObjectVariant =
  kind :: u8
  U :: ObjectVariantU

record CreationMode =
  reuse :: bool
  replace :: bool

record RequestId =
  data :: "u8 list"

record ResultStatus =
  status :: u8
  implementation_status :: u8

record BaseObjectRequest =
  request_id :: RequestId
  object_id :: ObjectId

record AGENT_ActivityInfo =
  availability :: u16
  address_seq :: TransportLocatorSeq

record DATAREADER_ActivityInfo =
  highest_acked_num :: u16

record DATAWRITER_ActivityInfo =
  stream_seq_num :: u16
  sample_seq_num :: u64

record ActivityInfoVariantU =
  agent :: AGENT_ActivityInfo
  data_writer :: DATAWRITER_ActivityInfo
  data_reader :: DATAREADER_ActivityInfo

record ActivityInfoVariant =
  kind :: u8
  U :: ActivityInfoVariantU

record ObjectInfo =
  optional_config :: bool
  config :: ObjectVariant
  optional_activity :: bool
  activity :: ActivityInfoVariant

record BaseObjectReply =
  related_request :: BaseObjectRequest
  result :: ResultStatus

record DataDeliveryControl =
  max_samples :: u16
  max_elapsed_time :: u16
  max_bytes_per_seconds :: u16
  min_pace_period :: u16

record ReadSpecification =
  preferred_stream_id :: u8
  data_format :: u8
  optional_content_filter_expression :: bool
  content_filter_expression :: "u8 list"
  optional_delivery_control :: bool
  delivery_control :: DataDeliveryControl

record SeqNumberAndTimestamp =
  sequence_number :: u32
  session_time_offset :: u32

record SampleInfoDetailU =
  sequence_number :: u32
  session_time_offset :: u32
  seqnum_n_timestamp :: SeqNumberAndTimestamp

record SampleInfoDetail =
  format :: u32
  U :: SampleInfoDetailU

record SampleInfo =
  state' :: u8
  detail :: SampleInfoDetail

record SampleInfoDelta =
  state' :: u8
  seq_number_delta :: u8
  timestamp_delta :: u16

record SampleData =
  size' :: u32
  data :: "u8 list"

record SampleDataSeq =
  size' :: u32
  data :: "nat \<Rightarrow> SampleData"

record Sample =
  info :: SampleInfo
  data :: SampleData

record SampleSeq =
  size' :: u32
  data :: "nat \<Rightarrow> Sample"

record SampleDelta =
  info_delta :: SampleInfoDelta
  data :: SampleData

record SampleDeltaSequence =
  size' :: u32
  data :: "nat \<Rightarrow> SampleDelta"

record PackedSamples =
  info_base :: SampleInfo
  sample_delta_seq :: SampleDeltaSequence

record SamplePackedSeq =
  size' :: u32
  data :: "nat \<Rightarrow> PackedSamples"

record DataRepresentationU =
  data :: SampleData
  sample :: Sample
  data_seq :: SampleDataSeq
  sample_seq :: SampleSeq
  packed_samples :: PackedSamples

record DataRepresentation =
  format :: u8
  U :: DataRepresentationU

record CREATE_CLIENT_Payload =
  client_representation :: CLIENT_Representation

record CREATE_Payload =
  base :: BaseObjectRequest
  object_representation :: ObjectVariant

record GET_INFO_Payload =
  base :: BaseObjectRequest
  info_mask :: u32

record DELETE_Payload =
  base :: BaseObjectRequest

record STATUS_AGENT_Payload =
  result :: ResultStatus
  agent_info :: AGENT_Representation

record STATUS_Payload =
  base :: BaseObjectReply

record INFO_Payload =
  base :: BaseObjectReply
  object_info :: ObjectInfo

record READ_DATA_Payload =
  base :: BaseObjectRequest
  read_specification :: ReadSpecification

record WRITE_DATA_Payload_Data =
  base :: BaseObjectRequest

record WRITE_DATA_Payload_Sample =
  base :: BaseObjectRequest
  sample :: Sample

record WRITE_DATA_Payload_DataSeq =
  base :: BaseObjectRequest
  data_seq :: SampleDataSeq

record WRITE_DATA_Payload_SampleSeq =
  base :: BaseObjectRequest
  sample_seq :: SampleSeq

record WRITE_DATA_Payload_PackedSamples =
  base :: BaseObjectRequest
  packed_samples :: PackedSamples

record DATA_Payload_Data =
  base :: BaseObjectRequest

record DATA_Payload_Sample =
  base :: BaseObjectRequest
  sample :: Sample

record DATA_Payload_DataSeq =
  base :: BaseObjectRequest
  data_seq :: SampleDataSeq

record DATA_Payload_SampleSeq =
  base :: BaseObjectRequest
  sample_seq :: SampleSeq

record DATA_Payload_PackedSamples =
  base :: BaseObjectRequest
  packed_samples :: PackedSamples

record ACKNACK_Payload =
  first_unacked_seq_num :: u16
  nack_bitmap :: "u8 list"
  stream_id :: u8

record HEARTBEAT_Payload =
  first_unacked_seq_nr :: u16
  last_unacked_seq_nr :: u16
  stream_id :: u8

record TIMESTAMP_Payload =
  transmit_timestamp :: Time_t

record TIMESTAMP_REPLY_Payload =
  transmit_timestamp :: Time_t
  receive_timestamp :: Time_t
  originate_timestamp :: Time_t

record GuidPrefix_t =
  data :: "u8 list"

record EntityId_t =
  entityKey :: "u8 list"
  entityKind :: u8

record GUID_t =
  guidPrefix :: GuidPrefix_t
  entityId :: EntityId_t

record SequenceNumber_t =
  high :: u32
  low :: u32

record SampleIdentity =
  writer_guid :: GUID_t
  sequence_number :: SequenceNumber_t

end
