(* ===== verification/CodecKit.thy ===== *)
theory CodecKit
  imports RefCDR
begin

text \<open>
  The shape of the functions of \<open>xrce_types.c\<close>: they serialize or deserialize the fields of
  a struct one after the other and combine the results with \<open>ret &= ...\<close> (every field is
  tried) or stop at the first failure (loops, the content of a union). The combinators here
  name these shapes; the second half is what is proved about a serializer and its
  deserializer, by one rule for each combinator.
\<close>

section \<open>Serializers\<close>

text \<open>\<open>ret &= f1; ret &= f2; ...\<close>\<close>

primrec ret_all :: "ser list \<Rightarrow> ser" where
  "ret_all [] st = (True, st)"
| "ret_all (f # fs) st =
     (let (ok, st1) = f st; (oks, st2) = ret_all fs st1 in (ok \<and> oks, st2))"

text \<open>\<open>ret = f; if (ret) g\<close>, and the loop that ends when \<open>ret\<close> is false.\<close>

definition ret_then :: "ser \<Rightarrow> ser \<Rightarrow> ser" where
  "ret_then f g st = (let (ok, st1) = f st in if ok then g st1 else (False, st1))"

primrec ret_seq :: "ser list \<Rightarrow> ser" where
  "ret_seq [] = (\<lambda>st. (True, st))"
| "ret_seq (f # fs) = ret_then f (ret_seq fs)"

definition ser_nothing :: ser where
  "ser_nothing st = (True, st)"

definition ser_when :: "bool \<Rightarrow> ser \<Rightarrow> ser" where
  "ser_when b f = (if b then f else ser_nothing)"

text \<open>A struct with the number of its elements and an array: the array is the map from its indices.\<close>

definition ser_counted :: "ucdr \<Rightarrow> u32 \<Rightarrow> (nat \<Rightarrow> ser) \<Rightarrow> ser" where
  "ser_counted cdr n f = ret_then (ucdr_serialize_uint32_t cdr n) (ret_seq (map f [0..<unat n]))"

section \<open>Deserializers\<close>

primrec des_all :: "'a des list \<Rightarrow> 'a des" where
  "des_all [] out st = (True, out, st)"
| "des_all (g # gs) out st =
     (let (ok, out1, st1) = g out st; (oks, out2, st2) = des_all gs out1 st1 in (ok \<and> oks, out2, st2))"

definition des_then :: "'a des \<Rightarrow> 'a des \<Rightarrow> 'a des" where
  "des_then f g out st = (let (ok, out1, st1) = f out st in if ok then g out1 st1 else (False, out1, st1))"

primrec des_seq :: "'a des list \<Rightarrow> 'a des" where
  "des_seq [] = (\<lambda>out st. (True, out, st))"
| "des_seq (g # gs) = des_then g (des_seq gs)"

definition des_nothing :: "'a des" where
  "des_nothing out st = (True, out, st)"

definition des_if :: "('a \<Rightarrow> bool) \<Rightarrow> 'a des \<Rightarrow> 'a des \<Rightarrow> 'a des" where
  "des_if c f g out = (if c out then f out else g out)"

definition des_when :: "('a \<Rightarrow> bool) \<Rightarrow> 'a des \<Rightarrow> 'a des" where
  "des_when c f = des_if c f des_nothing"

text \<open>A field is given by its selector and its update function.\<close>

definition des_field :: "('a \<Rightarrow> 'b) \<Rightarrow> (('b \<Rightarrow> 'b) \<Rightarrow> 'a \<Rightarrow> 'a) \<Rightarrow> 'b des \<Rightarrow> 'a des" where
  "des_field get upd d out st = (let (ok, x, st1) = d (get out) st in (ok, upd (\<lambda>_. x) out, st1))"

definition des_item :: "('a \<Rightarrow> nat \<Rightarrow> 'b) \<Rightarrow> (((nat \<Rightarrow> 'b) \<Rightarrow> (nat \<Rightarrow> 'b)) \<Rightarrow> 'a \<Rightarrow> 'a) \<Rightarrow>
    'b des \<Rightarrow> nat \<Rightarrow> 'a des" where
  "des_item get upd d i out st =
     (let (ok, x, st1) = d (get out i) st in (ok, upd (\<lambda>f. f(i := x)) out, st1))"

text \<open>The count is compared with the capacity whether or not it could be read.\<close>

definition des_counted ::
  "ucdr \<Rightarrow> nat \<Rightarrow> ('a \<Rightarrow> u32) \<Rightarrow> ((u32 \<Rightarrow> u32) \<Rightarrow> 'a \<Rightarrow> 'a) \<Rightarrow> (nat \<Rightarrow> 'a des) \<Rightarrow> 'a des"
where
  "des_counted cdr cap get upd item out st =
     (let (ok, out1, ub1, m1) = des_field get upd (ucdr_deserialize_uint32_t cdr) out st in
      if cap < unat (get out1) then (False, out1, ub1\<lparr>error := True\<rparr>, m1)
      else if ok then des_seq (map item [0..<unat (get out1)]) out1 (ub1, m1)
      else (False, out1, ub1, m1))"

text \<open>A byte array with its size, read by one call of the library.\<close>

definition des_bytes ::
  "ucdr \<Rightarrow> nat \<Rightarrow> ('a \<Rightarrow> u8 list) \<Rightarrow> ((u8 list \<Rightarrow> u8 list) \<Rightarrow> 'a \<Rightarrow> 'a) \<Rightarrow>
    ('a \<Rightarrow> u32) \<Rightarrow> ((u32 \<Rightarrow> u32) \<Rightarrow> 'a \<Rightarrow> 'a) \<Rightarrow> 'a des"
where
  "des_bytes cdr cap get_d upd_d get_n upd_n out st =
     (let (ok, (d, n), st1) = ucdr_deserialize_sequence_uint8_t cdr cap (get_d out, get_n out) st in
      (ok, upd_n (\<lambda>_. n) (upd_d (\<lambda>_. d) out), st1))"

section \<open>Well-behaved serializers\<close>

text \<open>
  Into a buffer without a callback a serializer either writes a number of bytes behind the
  iterator, within the buffer, and says so, or leaves the buffer in error; and a buffer in
  error stays in error.
\<close>

definition usable :: "ucdrBuffer \<Rightarrow> bool" where
  "usable ub \<longleftrightarrow> \<not> error ub \<and> on_full_buffer ub = None \<and> iterator ub \<le> final ub"

definition wrote :: "ucdrBuffer \<Rightarrow> mem \<Rightarrow> nat \<Rightarrow> ucdrBuffer \<Rightarrow> mem \<Rightarrow> bool" where
  "wrote ub m n ub' m' \<longleftrightarrow> ub' = adv n ub \<and> iterator ub + n \<le> final ub \<and>
     changed_within m m' (iterator ub) (iterator ub + n)"

definition writer :: "ser \<Rightarrow> bool" where
  "writer S \<longleftrightarrow> (\<forall>ub m ok ub' m'. S (ub, m) = (ok, ub', m') \<longrightarrow>
     (error ub \<longrightarrow> error ub') \<and>
     (usable ub \<longrightarrow> (if ok then \<exists>n. wrote ub m n ub' m' else error ub')))"

named_theorems writers \<open>serializers that are well behaved\<close>

lemma writerI:
  assumes "\<And>ub m ok ub' m'. S (ub, m) = (ok, ub', m') \<Longrightarrow> error ub \<Longrightarrow> error ub'"
    and "\<And>ub m ub' m'. S (ub, m) = (True, ub', m') \<Longrightarrow> usable ub \<Longrightarrow> \<exists>n. wrote ub m n ub' m'"
    and "\<And>ub m ub' m'. S (ub, m) = (False, ub', m') \<Longrightarrow> usable ub \<Longrightarrow> error ub'"
  shows "writer S"
  using assms unfolding writer_def by auto

lemma writerD:
  assumes "writer S" and "S (ub, m) = (ok, ub', m')"
  shows "error ub \<Longrightarrow> error ub'" and "usable ub \<Longrightarrow> ok \<Longrightarrow> \<exists>n. wrote ub m n ub' m'"
    and "usable ub \<Longrightarrow> \<not> ok \<Longrightarrow> error ub'"
proof -
  have "(error ub \<longrightarrow> error ub') \<and> (usable ub \<longrightarrow> (if ok then \<exists>n. wrote ub m n ub' m' else error ub'))"
    using assms unfolding writer_def by blast
  then show "error ub \<Longrightarrow> error ub'" and "usable ub \<Longrightarrow> ok \<Longrightarrow> \<exists>n. wrote ub m n ub' m'"
    and "usable ub \<Longrightarrow> \<not> ok \<Longrightarrow> error ub'" by simp_all
qed

lemma wrote_usable: "wrote ub m n ub' m' \<Longrightarrow> usable ub \<Longrightarrow> usable ub'"
  by (auto simp: wrote_def usable_def)

lemma wrote_trans:
  assumes "wrote ub m n ub1 m1" and "wrote ub1 m1 k ub2 m2"
  shows "wrote ub m (n + k) ub2 m2"
  using assms unfolding wrote_def changed_within_def by (auto simp: add.assoc)

lemma wrote_0: "usable ub \<Longrightarrow> wrote ub m 0 ub m"
  by (simp add: wrote_def usable_def)

lemma wrote_unique: "wrote ub m n ub' m' \<Longrightarrow> wrote ub m k ub' m' \<Longrightarrow> n = k"
  unfolding wrote_def by (metis add_left_cancel adv_simps(3))

lemma writer_ser_law:
  assumes law: "ser_law P k len enc f" and "P v" and len: "\<And>e. length (enc e v) = len v"
  shows "writer (f v)"
proof (rule writerI)
  fix ub m ok ub' m'
  assume "f v (ub, m) = (ok, ub', m')" and "error ub"
  then show "error ub'" using ser_law_fail [OF law assms(2), of ub m] by simp
next
  fix ub m ub' m'
  assume f: "f v (ub, m) = (True, ub', m')" and ub: "usable ub"
  have "iterator ub + pad (offset ub) k + len v \<le> final ub"
  proof (rule ccontr)
    assume "\<not> ?thesis"
    then show False using ser_law_fail [OF law assms(2), of ub m] f ub by (simp add: usable_def)
  qed
  then have "wrote ub m (pad (offset ub) k + len v) ub' m'"
    using ser_lawD [OF law assms(2), of ub m] f ub
    by (auto simp: wrote_def usable_def len)
  then show "\<exists>n. wrote ub m n ub' m'" ..
next
  fix ub m ub' m'
  assume f: "f v (ub, m) = (False, ub', m')" and ub: "usable ub"
  then have "final ub < iterator ub + pad (offset ub) k + len v"
    using ser_lawD [OF law assms(2), of ub m] by (auto simp: usable_def not_le [symmetric])
  then show "error ub'"
    using ser_law_fail [OF law assms(2), of ub m] f ub by (simp add: usable_def)
qed

lemma writer_nothing [writers]: "writer ser_nothing"
  by (rule writerI) (auto simp: ser_nothing_def intro: wrote_0)

lemma writer_when [writers]: "(b \<Longrightarrow> writer f) \<Longrightarrow> writer (ser_when b f)"
  by (simp add: ser_when_def writer_nothing)

lemma writer_if [writers]: "(b \<Longrightarrow> writer f) \<Longrightarrow> (\<not> b \<Longrightarrow> writer g) \<Longrightarrow> writer (if b then f else g)"
  by simp

lemma writer_then [writers]:
  assumes f: "writer f" and g: "writer g"
  shows "writer (ret_then f g)"
proof (rule writerI)
  fix ub m ok ub' m'
  assume "ret_then f g (ub, m) = (ok, ub', m')" and "error ub"
  then show "error ub'"
    by (auto simp: ret_then_def split: prod.splits if_splits dest: writerD(1) [OF f] writerD(1) [OF g])
next
  fix ub m ub' m'
  assume "ret_then f g (ub, m) = (True, ub', m')" and ub: "usable ub"
  then obtain ub1 m1 where 1: "f (ub, m) = (True, ub1, m1)" and 2: "g (ub1, m1) = (True, ub', m')"
    by (auto simp: ret_then_def split: prod.splits if_splits)
  from writerD(2) [OF f 1 ub] obtain n where n: "wrote ub m n ub1 m1" by auto
  from writerD(2) [OF g 2 wrote_usable [OF n ub]] wrote_trans [OF n]
  show "\<exists>n. wrote ub m n ub' m'" by auto
next
  fix ub m ub' m'
  assume h: "ret_then f g (ub, m) = (False, ub', m')" and ub: "usable ub"
  obtain ok ub1 m1 where 1: "f (ub, m) = (ok, ub1, m1)" by (metis prod.collapse)
  show "error ub'"
  proof (cases ok)
    case True
    then obtain n where n: "wrote ub m n ub1 m1" using writerD(2) [OF f 1 ub] by auto
    have "g (ub1, m1) = (False, ub', m')" using h 1 True by (simp add: ret_then_def)
    from writerD(3) [OF g this wrote_usable [OF n ub]] show ?thesis by simp
  qed (use h 1 writerD(3) [OF f 1 ub] in \<open>simp add: ret_then_def\<close>)
qed

lemma writer_all_Nil [writers]: "writer (ret_all [])"
  by (rule writerI) (auto intro: wrote_0)

text \<open>A field that fails leaves the buffer in error, and the fields after it keep it so.\<close>

lemma writer_all_Cons [writers]:
  assumes f: "writer f" and fs: "writer (ret_all fs)"
  shows "writer (ret_all (f # fs))"
proof (rule writerI)
  fix ub m ok ub' m'
  assume "ret_all (f # fs) (ub, m) = (ok, ub', m')" and "error ub"
  then show "error ub'"
    by (auto split: prod.splits dest: writerD(1) [OF f] writerD(1) [OF fs])
next
  fix ub m ub' m'
  assume "ret_all (f # fs) (ub, m) = (True, ub', m')" and ub: "usable ub"
  then obtain ub1 m1 where 1: "f (ub, m) = (True, ub1, m1)" and 2: "ret_all fs (ub1, m1) = (True, ub', m')"
    by (auto split: prod.splits)
  from writerD(2) [OF f 1 ub] obtain n where n: "wrote ub m n ub1 m1" by auto
  from writerD(2) [OF fs 2 wrote_usable [OF n ub]] wrote_trans [OF n]
  show "\<exists>n. wrote ub m n ub' m'" by auto
next
  fix ub m ub' m'
  assume h: "ret_all (f # fs) (ub, m) = (False, ub', m')" and ub: "usable ub"
  obtain ok ub1 m1 oks where 1: "f (ub, m) = (ok, ub1, m1)" and 2: "ret_all fs (ub1, m1) = (oks, ub', m')"
    and ok: "\<not> (ok \<and> oks)"
    using h by (auto split: prod.splits)
  show "error ub'"
  proof (cases ok)
    case True
    then obtain n where n: "wrote ub m n ub1 m1" using writerD(2) [OF f 1 ub] by auto
    from writerD(3) [OF fs 2 wrote_usable [OF n ub]] True ok show ?thesis by simp
  qed (use writerD(3) [OF f 1 ub] writerD(1) [OF fs 2] in simp)
qed

lemma writer_seq [writers]: "(\<And>f. f \<in> set fs \<Longrightarrow> writer f) \<Longrightarrow> writer (ret_seq fs)"
  by (induction fs) (auto intro: writer_then writer_nothing [unfolded ser_nothing_def [abs_def]])

section \<open>What a deserializer reads back\<close>

text \<open>
  The receiver's buffer: the same bytes at the same alignment, in the byte order of the sender's.
\<close>

definition copy_of :: "ucdrBuffer \<Rightarrow> mem \<Rightarrow> nat \<Rightarrow> ucdrBuffer \<Rightarrow> mem \<Rightarrow> bool" where
  "copy_of ub m n ub2 m2 \<longleftrightarrow> \<not> error ub2 \<and> endianness ub2 = endianness ub \<and>
     offset ub2 mod 8 = offset ub mod 8 \<and> iterator ub2 + n \<le> final ub2 \<and>
     rd m2 (iterator ub2) n = rd m (iterator ub) n"

text \<open>
  What \<open>S\<close> writes, \<open>D\<close> reads: from any copy of it, over the old content \<open>out\<close>, it takes all the bytes
  that were written, succeeds, and leaves a value with \<open>Q\<close>.
\<close>

definition carries :: "ser \<Rightarrow> 'a des \<Rightarrow> 'a \<Rightarrow> ('a \<Rightarrow> bool) \<Rightarrow> bool" where
  "carries S D out Q \<longleftrightarrow> (\<forall>ub m ub' m' n. usable ub \<longrightarrow> S (ub, m) = (True, ub', m') \<longrightarrow>
     wrote ub m n ub' m' \<longrightarrow>
     (\<exists>w. Q w \<and> (\<forall>ub2 m2. copy_of ub m' n ub2 m2 \<longrightarrow> D out (ub2, m2) = (True, w, adv n ub2, m2))))"

lemma carriesI:
  assumes "\<And>ub m ub' m' n. usable ub \<Longrightarrow> S (ub, m) = (True, ub', m') \<Longrightarrow> wrote ub m n ub' m' \<Longrightarrow>
     \<exists>w. Q w \<and> (\<forall>ub2 m2. copy_of ub m' n ub2 m2 \<longrightarrow> D out (ub2, m2) = (True, w, adv n ub2, m2))"
  shows "carries S D out Q"
  using assms unfolding carries_def by blast

lemma carriesE:
  assumes "carries S D out Q" and "usable ub" and "S (ub, m) = (True, ub', m')" and "wrote ub m n ub' m'"
  obtains w where "Q w" and "\<And>ub2 m2. copy_of ub m' n ub2 m2 \<Longrightarrow> D out (ub2, m2) = (True, w, adv n ub2, m2)"
  using assms unfolding carries_def by blast

lemma copy_of_split:
  assumes "wrote ub m n ub1 m1" and "wrote ub1 m1 k ub' m'" and "copy_of ub m' (n + k) ub2 m2"
  shows "copy_of ub m1 n ub2 m2" and "copy_of ub1 m' k (adv n ub2) m2"
proof -
  have ub1: "ub1 = adv n ub" and ch: "changed_within m1 m' (iterator ub + n) (iterator ub + n + k)"
    using assms(1,2) by (auto simp: wrote_def)
  have r: "rd m2 (iterator ub2) n = rd m' (iterator ub) n"
    "rd m2 (iterator ub2 + n) k = rd m' (iterator ub + n) k"
    using assms(3) by (simp_all add: copy_of_def rd_append)
  have "rd m' (iterator ub) n = rd m1 (iterator ub) n"
    using ch by (intro rd_cong) (auto simp: changed_within_def)
  then show "copy_of ub m1 n ub2 m2"
    using assms(3) r(1) by (simp add: copy_of_def)
  have "(offset ub2 + n) mod 8 = (offset ub + n) mod 8"
    using assms(3) by (intro mod_add_cong) (simp_all add: copy_of_def)
  then show "copy_of ub1 m' k (adv n ub2) m2"
    using assms(3) r(2) by (simp add: copy_of_def ub1 add.assoc)
qed

text \<open>The rules: the first field, then the rest over the result.\<close>

named_theorems codec_steps \<open>what a combination of serializers carries\<close>

lemma carries_mono: "carries S D out P \<Longrightarrow> (\<And>w. P w \<Longrightarrow> Q w) \<Longrightarrow> carries S D out Q"
  unfolding carries_def by blast

lemma carries_pair:
  assumes S: "\<And>ub m ub' m'. S (ub, m) = (True, ub', m') \<Longrightarrow>
      \<exists>ub1 m1. f (ub, m) = (True, ub1, m1) \<and> fs (ub1, m1) = (True, ub', m')"
    and D: "\<And>st w st1 w' st'. g out st = (True, w, st1) \<Longrightarrow> gs w st1 = (True, w', st') \<Longrightarrow>
      D out st = (True, w', st')"
    and W: "writer f" "writer fs"
    and f: "carries f g out P" and fs: "\<And>w. P w \<Longrightarrow> carries fs gs w Q"
  shows "carries S D out Q"
proof (rule carriesI)
  fix ub m ub' m' n
  assume ub: "usable ub" and "S (ub, m) = (True, ub', m')" and n: "wrote ub m n ub' m'"
  then obtain ub1 m1 where 1: "f (ub, m) = (True, ub1, m1)" and 2: "fs (ub1, m1) = (True, ub', m')"
    using S by blast
  obtain k where k: "wrote ub m k ub1 m1" using writerD(2) [OF W(1) 1 ub] by auto
  note ub1 = wrote_usable [OF k ub]
  obtain l where l: "wrote ub1 m1 l ub' m'" using writerD(2) [OF W(2) 2 ub1] by auto
  have nkl: "n = k + l" by (rule wrote_unique [OF n wrote_trans [OF k l]])
  from carriesE [OF f ub 1 k] obtain w where w: "P w"
    "\<And>ub2 m2. copy_of ub m1 k ub2 m2 \<Longrightarrow> g out (ub2, m2) = (True, w, adv k ub2, m2)" by metis
  from carriesE [OF fs [OF w(1)] ub1 2 l] obtain w' where w': "Q w'"
    "\<And>ub2 m2. copy_of ub1 m' l ub2 m2 \<Longrightarrow> gs w (ub2, m2) = (True, w', adv l ub2, m2)" by metis
  have "D out (ub2, m2) = (True, w', adv n ub2, m2)" if "copy_of ub m' n ub2 m2" for ub2 m2
    using D [OF w(2) w'(2), OF copy_of_split [OF k l that [unfolded nkl]]] by (simp add: nkl)
  then show "\<exists>w. Q w \<and> (\<forall>ub2 m2. copy_of ub m' n ub2 m2 \<longrightarrow> D out (ub2, m2) = (True, w, adv n ub2, m2))"
    using w'(1) by blast
qed

lemma carries_empty:
  assumes "\<And>st. S st = (True, st)" and "\<And>st. D out st = (True, out, st)" and "Q out"
  shows "carries S D out Q"
proof (rule carriesI)
  fix ub m ub' m' n
  assume "S (ub, m) = (True, ub', m')" and "wrote ub m n ub' m'"
  then have "n = 0" using assms(1) by (metis Pair_inject add_cancel_right_right adv_simps(3) wrote_def)
  then show "\<exists>w. Q w \<and> (\<forall>ub2 m2. copy_of ub m' n ub2 m2 \<longrightarrow> D out (ub2, m2) = (True, w, adv n ub2, m2))"
    using assms(2,3) by auto
qed

lemma carries_nothing [codec_steps]: "Q out \<Longrightarrow> carries ser_nothing des_nothing out Q"
  by (rule carries_empty) (simp_all add: ser_nothing_def des_nothing_def)

lemma carries_Nil [codec_steps]: "Q out \<Longrightarrow> carries (ret_all []) (des_all []) out Q"
  by (rule carries_empty) simp_all

lemma carries_of:
  assumes f: "carries S D x P" and D: "\<And>st w st'. D x st = (True, w, st') \<Longrightarrow> D' out st = (True, h w, st')"
    and Q: "\<And>w. P w \<Longrightarrow> Q (h w)"
  shows "carries S D' out Q"
proof (rule carriesI)
  fix ub m ub' m' n
  assume "usable ub" "S (ub, m) = (True, ub', m')" "wrote ub m n ub' m'"
  from carriesE [OF f this] obtain w where "P w"
    "\<And>ub2 m2. copy_of ub m' n ub2 m2 \<Longrightarrow> D x (ub2, m2) = (True, w, adv n ub2, m2)" by metis
  then show "\<exists>w. Q w \<and> (\<forall>ub2 m2. copy_of ub m' n ub2 m2 \<longrightarrow> D' out (ub2, m2) = (True, w, adv n ub2, m2))"
    using D Q by (intro exI [of _ "h w"]) simp
qed

lemma carries_field [codec_steps]:
  assumes "carries S D (get out) P" and "\<And>x. P x \<Longrightarrow> Q (upd (\<lambda>_. x) out)"
  shows "carries S (des_field get upd D) out Q"
  by (rule carries_of [where h = "\<lambda>x. upd (\<lambda>_. x) out", OF assms(1)])
    (simp_all add: des_field_def assms(2))

lemma carries_item:
  assumes "carries S D (get out i) P" and "\<And>x. P x \<Longrightarrow> Q (upd (\<lambda>f. f(i := x)) out)"
  shows "carries S (des_item get upd D i) out Q"
  by (rule carries_of [where h = "\<lambda>x. upd (\<lambda>f. f(i := x)) out", OF assms(1)])
    (simp_all add: des_item_def assms(2))

lemma carries_Cons [codec_steps]:
  assumes "writer f" "writer (ret_all fs)" and "carries f g (get out) P"
    and "\<And>x. P x \<Longrightarrow> carries (ret_all fs) (des_all gs) (upd (\<lambda>_. x) out) Q"
  shows "carries (ret_all (f # fs)) (des_all (des_field get upd g # gs)) out Q"
proof -
  have c: "carries f (des_field get upd g) out (\<lambda>w. \<exists>x. P x \<and> w = upd (\<lambda>_. x) out)"
    by (rule carries_field, rule assms(3)) auto
  show ?thesis
    by (rule carries_pair [where gs = "des_all gs", OF _ _ assms(1,2) c])
      (use assms(4) in \<open>auto split: prod.splits\<close>)
qed

lemma carries_then [codec_steps]:
  assumes "writer f" "writer f'" and "carries f g (get out) P"
    and "\<And>x. P x \<Longrightarrow> carries f' g' (upd (\<lambda>_. x) out) Q"
  shows "carries (ret_then f f') (des_then (des_field get upd g) g') out Q"
proof -
  have c: "carries f (des_field get upd g) out (\<lambda>w. \<exists>x. P x \<and> w = upd (\<lambda>_. x) out)"
    by (rule carries_field, rule assms(3)) auto
  show ?thesis
    by (rule carries_pair [where gs = "g'", OF _ _ assms(1,2) c])
      (use assms(4) in \<open>auto simp: ret_then_def des_then_def split: prod.splits if_splits\<close>)
qed

lemma carries_if [codec_steps]:
  assumes "c out = b" and "b \<Longrightarrow> carries f g out Q" and "\<not> b \<Longrightarrow> carries f' g' out Q"
  shows "carries (if b then f else f') (des_if c g g') out Q"
  using assms by (auto simp: carries_def des_if_def)

lemma carries_when [codec_steps]:
  assumes "c out = b" and "b \<Longrightarrow> carries (ret_all (f # fs)) (des_all (g # gs)) out Q"
    and "\<not> b \<Longrightarrow> carries (ret_all fs) (des_all gs) out Q"
  shows "carries (ret_all (ser_when b f # fs)) (des_all (des_when c g # gs)) out Q"
proof (cases b)
  case True
  then show ?thesis
    using assms(1,2) by (simp add: ser_when_def des_when_def des_if_def carries_def)
next
  case False
  then have "ret_all (ser_when b f # fs) = ret_all fs"
    and "des_all (des_when c g # gs) out = des_all gs out"
    using assms(1) by (auto simp: fun_eq_iff ser_when_def des_when_def des_if_def ser_nothing_def
        des_nothing_def split: prod.splits)
  then show ?thesis
    using assms(3) [OF False] unfolding carries_def by metis
qed

text \<open>A field that only the serializer knows, when it is not written.\<close>

lemma carries_unread [codec_steps]:
  "\<not> b \<Longrightarrow> Q out \<Longrightarrow> carries (ret_all [ser_when b f]) (des_all []) out Q"
  by (rule carries_empty) (simp_all add: ser_when_def ser_nothing_def)

section \<open>Sequences\<close>

lemma carries_seq_from:
  assumes W: "\<And>i. i < n \<Longrightarrow> writer (f i)"
    and step: "\<And>i w. i < n \<Longrightarrow> I i w \<Longrightarrow> carries (f i) (g i) w (I (Suc i))"
    and "k \<le> n" and "I k out"
  shows "carries (ret_seq (map f [k..<n])) (des_seq (map g [k..<n])) out (I n)"
  using assms(3,4)
proof (induction "n - k" arbitrary: k out)
  case 0
  then show ?case by (intro carries_empty) simp_all
next
  case (Suc d)
  then have k: "k < n" by simp
  have "carries (ret_then (f k) (ret_seq (map f [Suc k..<n])))
      (des_then (g k) (des_seq (map g [Suc k..<n]))) out (I n)"
  proof (rule carries_pair [where gs = "des_seq (map g [Suc k..<n])"])
    show "writer (f k)" by (rule W [OF k])
    show "writer (ret_seq (map f [Suc k..<n]))" using W by (intro writer_seq) auto
    show "carries (f k) (g k) out (I (Suc k))" by (rule step [OF k Suc.prems(2)])
    show "carries (ret_seq (map f [Suc k..<n])) (des_seq (map g [Suc k..<n])) w (I n)"
      if "I (Suc k) w" for w
      by (rule Suc.hyps(1)) (use Suc.hyps(2) k that in simp_all)
  qed (auto simp: ret_then_def des_then_def split: prod.splits if_splits)
  then show ?case using k by (simp add: upt_conv_Cons)
qed

text \<open>What the library does, value by value.\<close>

lemma carries_law:
  assumes S: "ser_law P k len enc f" and D: "des_law k n dec d" and "P v" and n: "len v = n"
    and enc: "\<And>e. length (enc e v) = n" and dec: "\<And>e. dec e (enc e v) = v" and k: "k dvd 8"
  shows "carries (f v) d out ((=) v)"
proof (rule carriesI)
  fix ub m ub' m' c
  assume ub: "usable ub" and f: "f v (ub, m) = (True, ub', m')" and w: "wrote ub m c ub' m'"
  have fit: "iterator ub + pad (offset ub) k + len v \<le> final ub"
  proof (rule ccontr)
    assume "\<not> ?thesis"
    then show False using ser_law_fail [OF S assms(3), of ub m] f ub by (simp add: usable_def)
  qed
  have e: "ub' = adv (pad (offset ub) k + n) ub"
    "m' = wr m (iterator ub + pad (offset ub) k) (enc (endianness ub) v)"
    using ser_lawD [OF S assms(3) _ fit, of m] f ub n by (simp_all add: usable_def)
  then have c: "c = pad (offset ub) k + n"
    using w by (metis adv_simps(3) add_left_cancel wrote_def)
  have "d out (ub2, m2) = (True, v, adv c ub2, m2)" if cp: "copy_of ub m' c ub2 m2" for ub2 m2
  proof -
    have p: "pad (offset ub2) k = pad (offset ub) k"
      by (rule pad_mod_cong [OF k]) (use cp in \<open>simp add: copy_of_def\<close>)
    have "rd m2 (iterator ub2 + pad (offset ub) k) n = rd m' (iterator ub + pad (offset ub) k) n"
      using cp by (simp add: copy_of_def c rd_append)
    also have "\<dots> = enc (endianness ub) v"
      by (simp add: e rd_wr_same enc)
    finally show ?thesis
      using des_lawD [OF D, of ub2 out m2] cp p by (simp add: copy_of_def c dec)
  qed
  then show "\<exists>w. v = w \<and> (\<forall>ub2 m2. copy_of ub m' c ub2 m2 \<longrightarrow> d out (ub2, m2) = (True, w, adv c ub2, m2))"
    by blast
qed

section \<open>Codecs\<close>

text \<open>
  The interface of a pair of functions for one type: for the values in \<open>ok\<close> the serializer is
  well behaved and the deserializer reads a value with the \<open>same\<close> content back.
\<close>

locale xrce_codec =
  fixes S :: "ucdr \<Rightarrow> 'a \<Rightarrow> ser" and D :: "ucdr \<Rightarrow> 'a des"
    and ok :: "'a \<Rightarrow> bool" and same :: "'a \<Rightarrow> 'a \<Rightarrow> bool"
  assumes writer [writers]: "ucdr_ok cdr \<Longrightarrow> ok v \<Longrightarrow> writer (S cdr v)"
    and carries [codec_steps]: "ucdr_ok cdr \<Longrightarrow> ok v \<Longrightarrow> carries (S cdr v) (D cdr) out (same v)"
begin

text \<open>A value that was written into a message and read from a copy of it.\<close>

lemma delivered:
  assumes "ucdr_ok cdr" and "ok v" and "usable ub" and "S cdr v (ub, m) = (True, ub', m')"
  shows "\<exists>n w. ub' = adv n ub \<and> iterator ub' \<le> final ub \<and>
    changed_within m m' (iterator ub) (iterator ub') \<and> same v w \<and>
    (\<forall>ub2 m2. copy_of ub m' n ub2 m2 \<longrightarrow> D cdr out (ub2, m2) = (True, w, adv n ub2, m2))"
proof -
  obtain n where n: "wrote ub m n ub' m'"
    using writerD(2) [OF writer [OF assms(1,2)] assms(4,3)] by auto
  from carriesE [OF carries [OF assms(1,2)] assms(3,4) n] n show ?thesis
    by (metis adv_simps(3) wrote_def)
qed

lemma failed:
  assumes "ucdr_ok cdr" and "ok v" and "usable ub" and "S cdr v (ub, m) = (False, ub', m')"
  shows "error ub'"
  using writerD(3) [OF writer [OF assms(1,2)] assms(4,3)] by simp

end

section \<open>The library's own types\<close>

lemma dvd_8: "1 dvd (8 :: nat)" "2 dvd (8 :: nat)" "4 dvd (8 :: nat)" "8 dvd (8 :: nat)"
  by presburger+

lemma ser_lawsD:
  assumes "ucdr_ok cdr"
  shows "ser_law (\<lambda>_. True) 1 (\<lambda>_. 1) enc_bool (ucdr_serialize_bool cdr)"
    and "ser_law (\<lambda>_. True) 1 (\<lambda>_. 1) (enc_w 1) (ucdr_serialize_uint8_t cdr)"
    and "ser_law (\<lambda>_. True) 2 (\<lambda>_. 2) (enc_w 2) (ucdr_serialize_uint16_t cdr)"
    and "ser_law (\<lambda>_. True) 4 (\<lambda>_. 4) (enc_w 4) (ucdr_serialize_uint32_t cdr)"
    and "ser_law (\<lambda>_. True) 8 (\<lambda>_. 8) (enc_w 8) (ucdr_serialize_uint64_t cdr)"
    and "ser_law (\<lambda>_. True) 2 (\<lambda>_. 2) (enc_w 2) (ucdr_serialize_int16_t cdr)"
    and "ser_law (\<lambda>_. True) 4 (\<lambda>_. 4) (enc_w 4) (ucdr_serialize_int32_t cdr)"
    and "ser_law (\<lambda>bs. n \<le> length bs) 1 (\<lambda>_. n) (\<lambda>_. take n) (\<lambda>bs. ucdr_serialize_array_uint8_t cdr bs n)"
    and "seq_ser_law (ucdr_serialize_sequence_uint8_t cdr)"
    and "str_ser_law (ucdr_serialize_string cdr)"
  using ucdr_lawsD(2) [OF assms] unfolding ser_laws_def by blast+

lemma des_lawsD:
  assumes "ucdr_ok cdr"
  shows "des_law 1 1 dec_bool (ucdr_deserialize_bool cdr)"
    and "des_law 1 1 dec_w (ucdr_deserialize_uint8_t cdr)"
    and "des_law 2 2 dec_w (ucdr_deserialize_uint16_t cdr)"
    and "des_law 4 4 dec_w (ucdr_deserialize_uint32_t cdr)"
    and "des_law 8 8 dec_w (ucdr_deserialize_uint64_t cdr)"
    and "des_law 2 2 dec_w (ucdr_deserialize_int16_t cdr)"
    and "des_law 4 4 dec_w (ucdr_deserialize_int32_t cdr)"
    and "des_law 1 n (\<lambda>_ bs. bs) (ucdr_deserialize_array_uint8_t cdr n)"
    and "seq_des_law (ucdr_deserialize_sequence_uint8_t cdr)"
    and "str_des_law (ucdr_deserialize_string cdr)"
  using ucdr_lawsD(3) [OF assms] unfolding des_laws_def by blast+

lemma dec_enc_bool [simp]: "dec_bool e (enc_bool e b) = b"
  by (simp add: enc_bool_def dec_bool_def)

lemma length_enc_bool [simp]: "length (enc_bool e b) = 1"
  by (simp add: enc_bool_def)

interpretation cdr_bool: xrce_codec ucdr_serialize_bool ucdr_deserialize_bool "\<lambda>_. True" "(=)"
proof
  fix cdr and v w assume "ucdr_ok cdr"
  note laws = ser_lawsD(1) [OF this] des_lawsD(1) [OF this]
  show "writer (ucdr_serialize_bool cdr v)" by (rule writer_ser_law [OF laws(1)]) simp_all
  show "carries (ucdr_serialize_bool cdr v) (ucdr_deserialize_bool cdr) w ((=) v)"
    by (rule carries_law [OF laws]) (simp_all add: dvd_8)
qed

interpretation cdr_uint8: xrce_codec ucdr_serialize_uint8_t ucdr_deserialize_uint8_t "\<lambda>_. True" "(=)"
proof
  fix cdr and v w assume "ucdr_ok cdr"
  note laws = ser_lawsD(2) [OF this] des_lawsD(2) [OF this]
  show "writer (ucdr_serialize_uint8_t cdr v)" by (rule writer_ser_law [OF laws(1)]) simp_all
  show "carries (ucdr_serialize_uint8_t cdr v) (ucdr_deserialize_uint8_t cdr) w ((=) v)"
    by (rule carries_law [OF laws]) (simp_all add: dvd_8)
qed

interpretation cdr_uint16: xrce_codec ucdr_serialize_uint16_t ucdr_deserialize_uint16_t "\<lambda>_. True" "(=)"
proof
  fix cdr and v w assume "ucdr_ok cdr"
  note laws = ser_lawsD(3) [OF this] des_lawsD(3) [OF this]
  show "writer (ucdr_serialize_uint16_t cdr v)" by (rule writer_ser_law [OF laws(1)]) simp_all
  show "carries (ucdr_serialize_uint16_t cdr v) (ucdr_deserialize_uint16_t cdr) w ((=) v)"
    by (rule carries_law [OF laws]) (simp_all add: dvd_8)
qed

interpretation cdr_uint32: xrce_codec ucdr_serialize_uint32_t ucdr_deserialize_uint32_t "\<lambda>_. True" "(=)"
proof
  fix cdr and v w assume "ucdr_ok cdr"
  note laws = ser_lawsD(4) [OF this] des_lawsD(4) [OF this]
  show "writer (ucdr_serialize_uint32_t cdr v)" by (rule writer_ser_law [OF laws(1)]) simp_all
  show "carries (ucdr_serialize_uint32_t cdr v) (ucdr_deserialize_uint32_t cdr) w ((=) v)"
    by (rule carries_law [OF laws]) (simp_all add: dvd_8)
qed

interpretation cdr_uint64: xrce_codec ucdr_serialize_uint64_t ucdr_deserialize_uint64_t "\<lambda>_. True" "(=)"
proof
  fix cdr and v w assume "ucdr_ok cdr"
  note laws = ser_lawsD(5) [OF this] des_lawsD(5) [OF this]
  show "writer (ucdr_serialize_uint64_t cdr v)" by (rule writer_ser_law [OF laws(1)]) simp_all
  show "carries (ucdr_serialize_uint64_t cdr v) (ucdr_deserialize_uint64_t cdr) w ((=) v)"
    by (rule carries_law [OF laws]) (simp_all add: dvd_8)
qed

interpretation cdr_int16: xrce_codec ucdr_serialize_int16_t ucdr_deserialize_int16_t "\<lambda>_. True" "(=)"
proof
  fix cdr and v w assume "ucdr_ok cdr"
  note laws = ser_lawsD(6) [OF this] des_lawsD(6) [OF this]
  show "writer (ucdr_serialize_int16_t cdr v)" by (rule writer_ser_law [OF laws(1)]) simp_all
  show "carries (ucdr_serialize_int16_t cdr v) (ucdr_deserialize_int16_t cdr) w ((=) v)"
    by (rule carries_law [OF laws]) (simp_all add: dvd_8)
qed

interpretation cdr_int32: xrce_codec ucdr_serialize_int32_t ucdr_deserialize_int32_t "\<lambda>_. True" "(=)"
proof
  fix cdr and v w assume "ucdr_ok cdr"
  note laws = ser_lawsD(7) [OF this] des_lawsD(7) [OF this]
  show "writer (ucdr_serialize_int32_t cdr v)" by (rule writer_ser_law [OF laws(1)]) simp_all
  show "carries (ucdr_serialize_int32_t cdr v) (ucdr_deserialize_int32_t cdr) w ((=) v)"
    by (rule carries_law [OF laws]) (simp_all add: dvd_8)
qed

interpretation cdr_array: xrce_codec "\<lambda>cdr bs. ucdr_serialize_array_uint8_t cdr bs n"
  "\<lambda>cdr. ucdr_deserialize_array_uint8_t cdr n" "\<lambda>bs. length bs = n" "(=)" for n
proof
  fix cdr and v w :: "u8 list" assume "ucdr_ok cdr" and v: "length v = n"
  note laws = ser_lawsD(8) [OF this(1), of n] des_lawsD(8) [OF this(1), of n]
  show "writer (ucdr_serialize_array_uint8_t cdr v n)"
    by (rule writer_ser_law [OF laws(1)]) (simp_all add: v)
  show "carries (ucdr_serialize_array_uint8_t cdr v n) (ucdr_deserialize_array_uint8_t cdr n) w ((=) v)"
    by (rule carries_law [OF laws]) (simp_all add: v)
qed

text \<open>Sequences of bytes and strings announce their length, which the receiver's capacity bounds.\<close>

lemma carries_announced:
  assumes S: "ser_law P 4 (\<lambda>v. 4 + len v) (\<lambda>e v. enc_seq e (body v)) f" and "P v"
    and len: "length (body v) = len v" "len v < 2 ^ 32"
    and D: "\<And>ub m. \<not> error ub \<Longrightarrow> iterator ub + pad (offset ub) 4 + 4 + len v \<le> final ub \<Longrightarrow>
        dec_nat (endianness ub) (rd m (iterator ub + pad (offset ub) 4) 4) = len v \<Longrightarrow>
        rd m (iterator ub + pad (offset ub) 4 + 4) (len v) = body v \<Longrightarrow>
        d out (ub, m) = (True, w, adv (pad (offset ub) 4 + 4 + len v) ub, m)"
    and Q: "Q w"
  shows "carries (f v) d out Q"
proof (rule carriesI)
  fix ub m ub' m' c
  assume ub: "usable ub" and f: "f v (ub, m) = (True, ub', m')" and wr: "wrote ub m c ub' m'"
  have fit: "iterator ub + pad (offset ub) 4 + (4 + len v) \<le> final ub"
  proof (rule ccontr)
    assume "\<not> ?thesis"
    then show False using ser_law_fail [OF S assms(2), of ub m] f ub by (simp add: usable_def)
  qed
  let ?p = "pad (offset ub) 4"
  have e: "ub' = adv (?p + (4 + len v)) ub" "m' = wr m (iterator ub + ?p) (enc_seq (endianness ub) (body v))"
    using ser_lawD [OF S assms(2) _ fit, of m] f ub by (simp_all add: usable_def)
  then have c: "c = ?p + 4 + len v"
    using wr by (metis add.assoc adv_simps(3) add_left_cancel wrote_def)
  have "d out (ub2, m2) = (True, w, adv c ub2, m2)" if cp: "copy_of ub m' c ub2 m2" for ub2 m2
  proof -
    have p: "pad (offset ub2) 4 = ?p"
      by (rule pad_mod_cong [OF dvd_8(3)]) (use cp in \<open>simp add: copy_of_def\<close>)
    have "rd m2 (iterator ub2 + ?p) (4 + len v) = rd m' (iterator ub + ?p) (4 + len v)"
      using cp by (simp add: copy_of_def c rd_append add.assoc)
    also have "\<dots> = enc_nat (endianness ub) 4 (len v) @ body v"
      by (simp add: e rd_wr_same enc_seq_def len)
    finally have "rd m2 (iterator ub2 + ?p) 4 = enc_nat (endianness ub) 4 (len v)"
      and "rd m2 (iterator ub2 + ?p + 4) (len v) = body v"
      by (simp_all add: rd_append)
    then show ?thesis
      using D [of ub2 m2] cp len(2) p by (simp add: copy_of_def c)
  qed
  then show "\<exists>w. Q w \<and> (\<forall>ub2 m2. copy_of ub m' c ub2 m2 \<longrightarrow> d out (ub2, m2) = (True, w, adv c ub2, m2))"
    using Q by blast
qed

lemma writer_bytes [writers]:
  assumes "ucdr_ok cdr" and "unat n \<le> length bs"
  shows "writer (ucdr_serialize_sequence_uint8_t cdr bs n)"
  using writer_ser_law [OF ser_lawsD(9) [OF assms(1), unfolded seq_ser_law_def], of "(bs, n)"] assms(2)
  by (simp add: enc_seq_def)

lemma carries_bytes [codec_steps]:
  assumes cdr: "ucdr_ok cdr" and n: "unat n \<le> length bs" "unat n \<le> cap"
    and Q: "\<And>d. take (unat n) d = take (unat n) bs \<Longrightarrow> Q (upd_n (\<lambda>_. n) (upd_d (\<lambda>_. d) out))"
  shows "carries (ucdr_serialize_sequence_uint8_t cdr bs n) (des_bytes cdr cap get_d upd_d get_n upd_n) out Q"
proof -
  note S = ser_lawsD(9) [OF cdr, unfolded seq_ser_law_def]
    and D = des_lawsD(9) [OF cdr, unfolded seq_des_law_def]
  let ?b = "take (unat n) bs"
  have "carries ((\<lambda>(bs, n). ucdr_serialize_sequence_uint8_t cdr bs n) (bs, n))
      (des_bytes cdr cap get_d upd_d get_n upd_n) out Q"
  proof (rule carries_announced [where len = "\<lambda>(bs, n). unat n" and body = "\<lambda>(bs, n). take (unat n) bs"
        and w = "upd_n (\<lambda>_. n) (upd_d (\<lambda>_. ?b @ drop (unat n) (get_d out)) out)"])
    show "ser_law (\<lambda>(bs, n). unat n \<le> length bs) 4 (\<lambda>v. 4 + (case v of (bs, n) \<Rightarrow> unat n))
        (\<lambda>e v. enc_seq e (case v of (bs, n) \<Rightarrow> take (unat n) bs))
        (\<lambda>(bs, n). ucdr_serialize_sequence_uint8_t cdr bs n)"
      using S by (simp add: case_prod_unfold)
    show "(case (bs, n) of (bs, n) \<Rightarrow> unat n) < 2 ^ 32" by simp
  qed (use n Q D in \<open>auto simp: des_bytes_def\<close>)
  then show ?thesis by simp
qed

text \<open>A C string: no zero among its characters, and short enough for the receiver.\<close>

definition ok_string :: "nat \<Rightarrow> u8 list \<Rightarrow> bool" where
  "ok_string cap str \<longleftrightarrow> 0 \<notin> set str \<and> length str < cap \<and> cap < 2 ^ 32"

lemma takeWhile_string: "0 \<notin> set str \<Longrightarrow> takeWhile (\<lambda>c. c \<noteq> 0) (str @ [0 :: u8]) = str"
  by (subst takeWhile_append2) auto

interpretation cdr_string: xrce_codec ucdr_serialize_string "\<lambda>cdr. ucdr_deserialize_string cdr cap"
  "ok_string cap" "(=)" for cap
proof
  fix cdr and v w :: "u8 list" assume cdr: "ucdr_ok cdr" and v: "ok_string cap v"
  note S = ser_lawsD(10) [OF cdr, unfolded str_ser_law_def] and D = des_lawsD(10) [OF cdr, unfolded str_des_law_def]
  have P: "0 \<notin> set v \<and> length v + 1 < 2 ^ 32" using v by (simp add: ok_string_def)
  show "writer (ucdr_serialize_string cdr v)"
    by (rule writer_ser_law [OF S P]) (simp add: enc_seq_def)
  show "carries (ucdr_serialize_string cdr v) (ucdr_deserialize_string cdr cap) w ((=) v)"
    by (rule carries_announced [OF S P, where w = v])
      (use v D in \<open>auto simp: ok_string_def takeWhile_string\<close>)
qed

text \<open>The capacity is not determined by what is written.\<close>

declare cdr_string.writer [writers del]

text \<open>An array of structs with its size.\<close>

lemma writer_counted [writers]:
  assumes "ucdr_ok cdr" and "\<And>i. i < unat n \<Longrightarrow> writer (f i)"
  shows "writer (ser_counted cdr n f)"
  unfolding ser_counted_def using assms(2)
  by (intro writer_then writer_seq cdr_uint32.writer [OF assms(1)]) auto

lemma carries_counted [codec_steps]:
  assumes cdr: "ucdr_ok cdr" and W: "\<And>i. i < unat n \<Longrightarrow> writer (f i)"
    and item: "\<And>i x. i < unat n \<Longrightarrow> carries (f i) d x (P i)"
    and n: "unat n \<le> cap"
    and upd: "\<And>h x. get_n (upd_n h x) = h (get_n x)" "\<And>h x. get_n (upd_d h x) = get_n x"
      "\<And>h x. get_d (upd_d h x) = h (get_d x)"
    and Q: "\<And>w. get_n w = n \<Longrightarrow> (\<And>i. i < unat n \<Longrightarrow> P i (get_d w i)) \<Longrightarrow> Q w"
  shows "carries (ser_counted cdr n f) (des_counted cdr cap get_n upd_n (des_item get_d upd_d d)) out Q"
proof -
  let ?item = "des_item get_d upd_d d"
  define I where "I k w \<longleftrightarrow> get_n w = n \<and> (\<forall>i < k. P i (get_d w i))" for k w
  have head: "carries (ucdr_serialize_uint32_t cdr n) (des_field get_n upd_n (ucdr_deserialize_uint32_t cdr)) out (I 0)"
    by (rule carries_field, rule cdr_uint32.carries [OF cdr TrueI]) (simp add: I_def upd)
  have rest: "carries (ret_seq (map f [0..<unat n])) (des_seq (map ?item [0..<unat n])) w (I (unat n))"
    if "I 0 w" for w
  proof (rule carries_seq_from [OF W])
    fix i v assume i: "i < unat n" and v: "I i v"
    show "carries (f i) (?item i) v (I (Suc i))"
      by (rule carries_item, rule item [OF i]) (use v in \<open>auto simp: I_def upd less_Suc_eq\<close>)
  qed (use that in simp_all)
  have "carries (ser_counted cdr n f) (des_counted cdr cap get_n upd_n ?item) out (I (unat n))"
    unfolding ser_counted_def
  proof (rule carries_pair [OF _ _ cdr_uint32.writer [OF cdr TrueI] writer_seq,
        where gs = "\<lambda>w. if get_n w = n then des_seq (map ?item [0..<unat n]) w else (\<lambda>st. (False, w, st))"])
    show "carries (ucdr_serialize_uint32_t cdr n) (des_field get_n upd_n (ucdr_deserialize_uint32_t cdr)) out (I 0)"
      by (rule head)
    show "carries (ret_seq (map f [0..<unat n])) (\<lambda>w. if get_n w = n then des_seq (map ?item [0..<unat n]) w
        else (\<lambda>st. (False, w, st))) w (I (unat n))" if "I 0 w" for w
      using rest [OF that] that unfolding carries_def by (simp add: I_def)
  qed (use W n in \<open>auto simp: ret_then_def des_counted_def split: prod.splits if_splits\<close>)
  then show ?thesis
    by (rule carries_mono) (simp add: I_def Q)
qed

text \<open>More elements than the array has room for are refused, and nothing is read.\<close>

lemma des_counted_overflow:
  assumes "des_field get upd (ucdr_deserialize_uint32_t cdr) out st = (ok, out1, ub1, m1)"
    and "cap < unat (get out1)"
  shows "des_counted cdr cap get upd item out st = (False, out1, ub1\<lparr>error := True\<rparr>, m1)"
  using assms by (simp add: des_counted_def)

end
