(* ===== verification/XrceCodec.thy ===== *)
theory XrceCodec
  imports XrceTypes CodecKit
begin

text \<open>
  The serializers and deserializers of \<open>xrce_types.c\<close>, function by function. A deserializer maps
  the old content of the struct to the new one: the fields that were not read, because the buffer
  failed, a flag was not set, or no case of a switch applies, keep what they had. The payload of
  the performance test build is left out.
\<close>

lemmas writer_string [writers] = cdr_string.writer [where cap = UXR_STRING_SIZE_MAX]

text \<open>The casts between the two types of byte sequences: same layout, another capacity.\<close>

definition as_BinarySequence_t :: "BinarySequenceSmall_t \<Rightarrow> BinarySequence_t" where
  "as_BinarySequence_t s = \<lparr>BinarySequence_t.size' = BinarySequenceSmall_t.size' s,
     BinarySequence_t.data = BinarySequenceSmall_t.data s\<rparr>"

definition BinarySequence_t_as :: "BinarySequence_t \<Rightarrow> BinarySequenceSmall_t" where
  "BinarySequence_t_as s = \<lparr>BinarySequenceSmall_t.size' = BinarySequence_t.size' s,
     BinarySequenceSmall_t.data = BinarySequence_t.data s\<rparr>"

lemma as_BinarySequence_t_inverse [simp]:
  "as_BinarySequence_t (BinarySequence_t_as s) = s" "BinarySequence_t_as (as_BinarySequence_t u) = u"
  by (simp_all add: as_BinarySequence_t_def BinarySequence_t_as_def)

definition uxr_serialize_Time_t :: "ucdr \<Rightarrow> Time_t \<Rightarrow> ser" where
  "uxr_serialize_Time_t cdr input = ret_all
     [ucdr_serialize_int32_t cdr (Time_t.seconds input),
      ucdr_serialize_uint32_t cdr (Time_t.nanoseconds input)]"

definition uxr_deserialize_Time_t :: "ucdr \<Rightarrow> Time_t des" where
  "uxr_deserialize_Time_t cdr = des_all
     [des_field Time_t.seconds Time_t.seconds_update (ucdr_deserialize_int32_t cdr),
      des_field Time_t.nanoseconds Time_t.nanoseconds_update (ucdr_deserialize_uint32_t cdr)]"

definition uxr_serialize_BinarySequence_t :: "ucdr \<Rightarrow> BinarySequence_t \<Rightarrow> ser" where
  "uxr_serialize_BinarySequence_t cdr input = ucdr_serialize_sequence_uint8_t cdr (BinarySequence_t.data input) (BinarySequence_t.size' input)"

definition uxr_deserialize_BinarySequence_t :: "ucdr \<Rightarrow> BinarySequence_t des" where
  "uxr_deserialize_BinarySequence_t cdr = des_bytes cdr UXR_BINARY_SEQUENCE_MAX BinarySequence_t.data BinarySequence_t.data_update BinarySequence_t.size' BinarySequence_t.size'_update"

definition uxr_serialize_StringSequence_t :: "ucdr \<Rightarrow> StringSequence_t \<Rightarrow> ser" where
  "uxr_serialize_StringSequence_t cdr input = ser_counted cdr (StringSequence_t.size' input) (\<lambda>i. ucdr_serialize_string cdr (StringSequence_t.data input i))"

definition uxr_deserialize_StringSequence_t :: "ucdr \<Rightarrow> StringSequence_t des" where
  "uxr_deserialize_StringSequence_t cdr = des_counted cdr UXR_STRING_SEQUENCE_MAX StringSequence_t.size' StringSequence_t.size'_update
     (des_item StringSequence_t.data StringSequence_t.data_update (ucdr_deserialize_string cdr UXR_STRING_SIZE_MAX))"

definition uxr_serialize_ClientKey :: "ucdr \<Rightarrow> ClientKey \<Rightarrow> ser" where
  "uxr_serialize_ClientKey cdr input = ret_all
     [ucdr_serialize_array_uint8_t cdr (ClientKey.data input) 4]"

definition uxr_deserialize_ClientKey :: "ucdr \<Rightarrow> ClientKey des" where
  "uxr_deserialize_ClientKey cdr = des_all
     [des_field ClientKey.data ClientKey.data_update (ucdr_deserialize_array_uint8_t cdr 4)]"

definition uxr_serialize_ObjectId :: "ucdr \<Rightarrow> ObjectId \<Rightarrow> ser" where
  "uxr_serialize_ObjectId cdr input = ret_all
     [ucdr_serialize_array_uint8_t cdr (ObjectId.data input) 2]"

definition uxr_deserialize_ObjectId :: "ucdr \<Rightarrow> ObjectId des" where
  "uxr_deserialize_ObjectId cdr = des_all
     [des_field ObjectId.data ObjectId.data_update (ucdr_deserialize_array_uint8_t cdr 2)]"

definition uxr_serialize_ObjectPrefix :: "ucdr \<Rightarrow> ObjectPrefix \<Rightarrow> ser" where
  "uxr_serialize_ObjectPrefix cdr input = ret_all
     [ucdr_serialize_array_uint8_t cdr (ObjectPrefix.data input) 2]"

definition uxr_deserialize_ObjectPrefix :: "ucdr \<Rightarrow> ObjectPrefix des" where
  "uxr_deserialize_ObjectPrefix cdr = des_all
     [des_field ObjectPrefix.data ObjectPrefix.data_update (ucdr_deserialize_array_uint8_t cdr 2)]"

definition uxr_serialize_XrceCookie :: "ucdr \<Rightarrow> XrceCookie \<Rightarrow> ser" where
  "uxr_serialize_XrceCookie cdr input = ret_all
     [ucdr_serialize_array_uint8_t cdr (XrceCookie.data input) 4]"

definition uxr_deserialize_XrceCookie :: "ucdr \<Rightarrow> XrceCookie des" where
  "uxr_deserialize_XrceCookie cdr = des_all
     [des_field XrceCookie.data XrceCookie.data_update (ucdr_deserialize_array_uint8_t cdr 4)]"

definition uxr_serialize_XrceVersion :: "ucdr \<Rightarrow> XrceVersion \<Rightarrow> ser" where
  "uxr_serialize_XrceVersion cdr input = ret_all
     [ucdr_serialize_array_uint8_t cdr (XrceVersion.data input) 2]"

definition uxr_deserialize_XrceVersion :: "ucdr \<Rightarrow> XrceVersion des" where
  "uxr_deserialize_XrceVersion cdr = des_all
     [des_field XrceVersion.data XrceVersion.data_update (ucdr_deserialize_array_uint8_t cdr 2)]"

definition uxr_serialize_XrceVendorId :: "ucdr \<Rightarrow> XrceVendorId \<Rightarrow> ser" where
  "uxr_serialize_XrceVendorId cdr input = ret_all
     [ucdr_serialize_array_uint8_t cdr (XrceVendorId.data input) 2]"

definition uxr_deserialize_XrceVendorId :: "ucdr \<Rightarrow> XrceVendorId des" where
  "uxr_deserialize_XrceVendorId cdr = des_all
     [des_field XrceVendorId.data XrceVendorId.data_update (ucdr_deserialize_array_uint8_t cdr 2)]"

definition uxr_serialize_TransportLocatorSmall :: "ucdr \<Rightarrow> TransportLocatorSmall \<Rightarrow> ser" where
  "uxr_serialize_TransportLocatorSmall cdr input = ret_all
     [ucdr_serialize_array_uint8_t cdr (TransportLocatorSmall.address input) 2,
      ucdr_serialize_uint8_t cdr (TransportLocatorSmall.locator_port input)]"

definition uxr_deserialize_TransportLocatorSmall :: "ucdr \<Rightarrow> TransportLocatorSmall des" where
  "uxr_deserialize_TransportLocatorSmall cdr = des_all
     [des_field TransportLocatorSmall.address TransportLocatorSmall.address_update (ucdr_deserialize_array_uint8_t cdr 2),
      des_field TransportLocatorSmall.locator_port TransportLocatorSmall.locator_port_update (ucdr_deserialize_uint8_t cdr)]"

definition uxr_serialize_TransportLocatorMedium :: "ucdr \<Rightarrow> TransportLocatorMedium \<Rightarrow> ser" where
  "uxr_serialize_TransportLocatorMedium cdr input = ret_all
     [ucdr_serialize_array_uint8_t cdr (TransportLocatorMedium.address input) 4,
      ucdr_serialize_uint16_t cdr (TransportLocatorMedium.locator_port input)]"

definition uxr_deserialize_TransportLocatorMedium :: "ucdr \<Rightarrow> TransportLocatorMedium des" where
  "uxr_deserialize_TransportLocatorMedium cdr = des_all
     [des_field TransportLocatorMedium.address TransportLocatorMedium.address_update (ucdr_deserialize_array_uint8_t cdr 4),
      des_field TransportLocatorMedium.locator_port TransportLocatorMedium.locator_port_update (ucdr_deserialize_uint16_t cdr)]"

definition uxr_serialize_TransportLocatorLarge :: "ucdr \<Rightarrow> TransportLocatorLarge \<Rightarrow> ser" where
  "uxr_serialize_TransportLocatorLarge cdr input = ret_all
     [ucdr_serialize_array_uint8_t cdr (TransportLocatorLarge.address input) 16,
      ucdr_serialize_uint32_t cdr (TransportLocatorLarge.locator_port input)]"

definition uxr_deserialize_TransportLocatorLarge :: "ucdr \<Rightarrow> TransportLocatorLarge des" where
  "uxr_deserialize_TransportLocatorLarge cdr = des_all
     [des_field TransportLocatorLarge.address TransportLocatorLarge.address_update (ucdr_deserialize_array_uint8_t cdr 16),
      des_field TransportLocatorLarge.locator_port TransportLocatorLarge.locator_port_update (ucdr_deserialize_uint32_t cdr)]"

definition uxr_serialize_TransportLocatorString :: "ucdr \<Rightarrow> TransportLocatorString \<Rightarrow> ser" where
  "uxr_serialize_TransportLocatorString cdr input = ret_all
     [ucdr_serialize_string cdr (TransportLocatorString.value' input)]"

definition uxr_deserialize_TransportLocatorString :: "ucdr \<Rightarrow> TransportLocatorString des" where
  "uxr_deserialize_TransportLocatorString cdr = des_all
     [des_field TransportLocatorString.value' TransportLocatorString.value'_update (ucdr_deserialize_string cdr UXR_STRING_SIZE_MAX)]"

definition uxr_serialize_TransportLocator :: "ucdr \<Rightarrow> TransportLocator \<Rightarrow> ser" where
  "uxr_serialize_TransportLocator cdr input = ret_then (ucdr_serialize_uint8_t cdr (TransportLocator.format input))
     (if TransportLocator.format input = ADDRESS_FORMAT_SMALL
        then uxr_serialize_TransportLocatorSmall cdr (TransportLocatorU.small_locator (TransportLocator.U input))
      else if TransportLocator.format input = ADDRESS_FORMAT_MEDIUM
        then uxr_serialize_TransportLocatorMedium cdr (TransportLocatorU.medium_locator (TransportLocator.U input))
      else if TransportLocator.format input = ADDRESS_FORMAT_LARGE
        then uxr_serialize_TransportLocatorLarge cdr (TransportLocatorU.large_locator (TransportLocator.U input))
      else if TransportLocator.format input = ADDRESS_FORMAT_STRING
        then uxr_serialize_TransportLocatorString cdr (TransportLocatorU.string_locator (TransportLocator.U input))
      else ser_nothing)"

definition uxr_deserialize_TransportLocator :: "ucdr \<Rightarrow> TransportLocator des" where
  "uxr_deserialize_TransportLocator cdr = des_then (des_field TransportLocator.format TransportLocator.format_update (ucdr_deserialize_uint8_t cdr))
     (des_if (\<lambda>output. TransportLocator.format output = ADDRESS_FORMAT_SMALL)
        (des_field (TransportLocatorU.small_locator \<circ> TransportLocator.U) (TransportLocator.U_update \<circ> TransportLocatorU.small_locator_update) (uxr_deserialize_TransportLocatorSmall cdr))
     (des_if (\<lambda>output. TransportLocator.format output = ADDRESS_FORMAT_MEDIUM)
        (des_field (TransportLocatorU.medium_locator \<circ> TransportLocator.U) (TransportLocator.U_update \<circ> TransportLocatorU.medium_locator_update) (uxr_deserialize_TransportLocatorMedium cdr))
     (des_if (\<lambda>output. TransportLocator.format output = ADDRESS_FORMAT_LARGE)
        (des_field (TransportLocatorU.large_locator \<circ> TransportLocator.U) (TransportLocator.U_update \<circ> TransportLocatorU.large_locator_update) (uxr_deserialize_TransportLocatorLarge cdr))
     (des_if (\<lambda>output. TransportLocator.format output = ADDRESS_FORMAT_STRING)
        (des_field (TransportLocatorU.string_locator \<circ> TransportLocator.U) (TransportLocator.U_update \<circ> TransportLocatorU.string_locator_update) (uxr_deserialize_TransportLocatorString cdr))
     des_nothing))))"

definition uxr_serialize_TransportLocatorSeq :: "ucdr \<Rightarrow> TransportLocatorSeq \<Rightarrow> ser" where
  "uxr_serialize_TransportLocatorSeq cdr input = ser_counted cdr (TransportLocatorSeq.size' input) (\<lambda>i. uxr_serialize_TransportLocator cdr (TransportLocatorSeq.data input i))"

definition uxr_deserialize_TransportLocatorSeq :: "ucdr \<Rightarrow> TransportLocatorSeq des" where
  "uxr_deserialize_TransportLocatorSeq cdr = des_counted cdr UXR_TRANSPORT_LOCATOR_SEQUENCE_MAX TransportLocatorSeq.size' TransportLocatorSeq.size'_update
     (des_item TransportLocatorSeq.data TransportLocatorSeq.data_update (uxr_deserialize_TransportLocator cdr))"

definition uxr_serialize_Property :: "ucdr \<Rightarrow> Property \<Rightarrow> ser" where
  "uxr_serialize_Property cdr input = ret_all
     [ucdr_serialize_string cdr (Property.name' input),
      ucdr_serialize_string cdr (Property.value' input)]"

definition uxr_deserialize_Property :: "ucdr \<Rightarrow> Property des" where
  "uxr_deserialize_Property cdr = des_all
     [des_field Property.name' Property.name'_update (ucdr_deserialize_string cdr UXR_STRING_SIZE_MAX),
      des_field Property.value' Property.value'_update (ucdr_deserialize_string cdr UXR_STRING_SIZE_MAX)]"

definition uxr_serialize_PropertySeq :: "ucdr \<Rightarrow> PropertySeq \<Rightarrow> ser" where
  "uxr_serialize_PropertySeq cdr input = ser_counted cdr (PropertySeq.size' input) (\<lambda>i. uxr_serialize_Property cdr (PropertySeq.data input i))"

definition uxr_deserialize_PropertySeq :: "ucdr \<Rightarrow> PropertySeq des" where
  "uxr_deserialize_PropertySeq cdr = des_counted cdr UXR_PROPERTY_SEQUENCE_MAX PropertySeq.size' PropertySeq.size'_update
     (des_item PropertySeq.data PropertySeq.data_update (uxr_deserialize_Property cdr))"

definition uxr_serialize_CLIENT_Representation :: "ucdr \<Rightarrow> CLIENT_Representation \<Rightarrow> ser" where
  "uxr_serialize_CLIENT_Representation cdr input = ret_all
     [uxr_serialize_XrceCookie cdr (CLIENT_Representation.xrce_cookie input),
      uxr_serialize_XrceVersion cdr (CLIENT_Representation.xrce_version input),
      uxr_serialize_XrceVendorId cdr (CLIENT_Representation.xrce_vendor_id input),
      uxr_serialize_ClientKey cdr (CLIENT_Representation.client_key input),
      ucdr_serialize_uint8_t cdr (CLIENT_Representation.session_id input),
      ucdr_serialize_bool cdr (CLIENT_Representation.optional_properties input),
      ser_when (CLIENT_Representation.optional_properties input)
        (uxr_serialize_PropertySeq cdr (CLIENT_Representation.properties input)),
      ucdr_serialize_uint16_t cdr (CLIENT_Representation.mtu input)]"

definition uxr_deserialize_CLIENT_Representation :: "ucdr \<Rightarrow> CLIENT_Representation des" where
  "uxr_deserialize_CLIENT_Representation cdr = des_all
     [des_field CLIENT_Representation.xrce_cookie CLIENT_Representation.xrce_cookie_update (uxr_deserialize_XrceCookie cdr),
      des_field CLIENT_Representation.xrce_version CLIENT_Representation.xrce_version_update (uxr_deserialize_XrceVersion cdr),
      des_field CLIENT_Representation.xrce_vendor_id CLIENT_Representation.xrce_vendor_id_update (uxr_deserialize_XrceVendorId cdr),
      des_field CLIENT_Representation.client_key CLIENT_Representation.client_key_update (uxr_deserialize_ClientKey cdr),
      des_field CLIENT_Representation.session_id CLIENT_Representation.session_id_update (ucdr_deserialize_uint8_t cdr),
      des_field CLIENT_Representation.optional_properties CLIENT_Representation.optional_properties_update (ucdr_deserialize_bool cdr),
      des_when CLIENT_Representation.optional_properties
        (des_field CLIENT_Representation.properties CLIENT_Representation.properties_update (uxr_deserialize_PropertySeq cdr)),
      des_field CLIENT_Representation.mtu CLIENT_Representation.mtu_update (ucdr_deserialize_uint16_t cdr)]"

definition uxr_serialize_AGENT_Representation :: "ucdr \<Rightarrow> AGENT_Representation \<Rightarrow> ser" where
  "uxr_serialize_AGENT_Representation cdr input = ret_all
     [uxr_serialize_XrceCookie cdr (AGENT_Representation.xrce_cookie input),
      uxr_serialize_XrceVersion cdr (AGENT_Representation.xrce_version input),
      uxr_serialize_XrceVendorId cdr (AGENT_Representation.xrce_vendor_id input),
      ucdr_serialize_bool cdr (AGENT_Representation.optional_properties input),
      ser_when (AGENT_Representation.optional_properties input)
        (uxr_serialize_PropertySeq cdr (AGENT_Representation.properties input))]"

definition uxr_deserialize_AGENT_Representation :: "ucdr \<Rightarrow> AGENT_Representation des" where
  "uxr_deserialize_AGENT_Representation cdr = des_all
     [des_field AGENT_Representation.xrce_cookie AGENT_Representation.xrce_cookie_update (uxr_deserialize_XrceCookie cdr),
      des_field AGENT_Representation.xrce_version AGENT_Representation.xrce_version_update (uxr_deserialize_XrceVersion cdr),
      des_field AGENT_Representation.xrce_vendor_id AGENT_Representation.xrce_vendor_id_update (uxr_deserialize_XrceVendorId cdr),
      des_field AGENT_Representation.optional_properties AGENT_Representation.optional_properties_update (ucdr_deserialize_bool cdr)]"

definition uxr_serialize_OBJK_Representation3Formats :: "ucdr \<Rightarrow> OBJK_Representation3Formats \<Rightarrow> ser" where
  "uxr_serialize_OBJK_Representation3Formats cdr input = ret_then (ucdr_serialize_uint8_t cdr (OBJK_Representation3Formats.format input))
     (if OBJK_Representation3Formats.format input = DDS_XRCE_REPRESENTATION_BY_REFERENCE
        then ucdr_serialize_string cdr (OBJK_Representation3FormatsU.object_reference (OBJK_Representation3Formats.U input))
      else if OBJK_Representation3Formats.format input = DDS_XRCE_REPRESENTATION_AS_XML_STRING
        then ucdr_serialize_string cdr (OBJK_Representation3FormatsU.xml_string_represenatation (OBJK_Representation3Formats.U input))
      else if OBJK_Representation3Formats.format input = DDS_XRCE_REPRESENTATION_IN_BINARY
        then uxr_serialize_BinarySequence_t cdr (OBJK_Representation3FormatsU.binary_representation (OBJK_Representation3Formats.U input))
      else ser_nothing)"

definition uxr_deserialize_OBJK_Representation3Formats :: "ucdr \<Rightarrow> OBJK_Representation3Formats des" where
  "uxr_deserialize_OBJK_Representation3Formats cdr = des_then (des_field OBJK_Representation3Formats.format OBJK_Representation3Formats.format_update (ucdr_deserialize_uint8_t cdr))
     (des_if (\<lambda>output. OBJK_Representation3Formats.format output = DDS_XRCE_REPRESENTATION_BY_REFERENCE)
        (des_field (OBJK_Representation3FormatsU.object_reference \<circ> OBJK_Representation3Formats.U) (OBJK_Representation3Formats.U_update \<circ> OBJK_Representation3FormatsU.object_reference_update) (ucdr_deserialize_string cdr UXR_STRING_SIZE_MAX))
     (des_if (\<lambda>output. OBJK_Representation3Formats.format output = DDS_XRCE_REPRESENTATION_AS_XML_STRING)
        (des_field (OBJK_Representation3FormatsU.xml_string_represenatation \<circ> OBJK_Representation3Formats.U) (OBJK_Representation3Formats.U_update \<circ> OBJK_Representation3FormatsU.xml_string_represenatation_update) (ucdr_deserialize_string cdr UXR_STRING_SIZE_MAX))
     (des_if (\<lambda>output. OBJK_Representation3Formats.format output = DDS_XRCE_REPRESENTATION_IN_BINARY)
        (des_field (OBJK_Representation3FormatsU.binary_representation \<circ> OBJK_Representation3Formats.U) (OBJK_Representation3Formats.U_update \<circ> OBJK_Representation3FormatsU.binary_representation_update) (uxr_deserialize_BinarySequence_t cdr))
     des_nothing)))"

definition uxr_serialize_OBJK_RepresentationRefAndXMLFormats :: "ucdr \<Rightarrow> OBJK_RepresentationRefAndXMLFormats \<Rightarrow> ser" where
  "uxr_serialize_OBJK_RepresentationRefAndXMLFormats cdr input = ret_then (ucdr_serialize_uint8_t cdr (OBJK_RepresentationRefAndXMLFormats.format input))
     (if OBJK_RepresentationRefAndXMLFormats.format input = DDS_XRCE_REPRESENTATION_BY_REFERENCE
        then ucdr_serialize_string cdr (OBJK_RepresentationRefAndXMLFormatsU.object_name (OBJK_RepresentationRefAndXMLFormats.U input))
      else if OBJK_RepresentationRefAndXMLFormats.format input = DDS_XRCE_REPRESENTATION_AS_XML_STRING
        then ucdr_serialize_string cdr (OBJK_RepresentationRefAndXMLFormatsU.xml_string_represenatation (OBJK_RepresentationRefAndXMLFormats.U input))
      else ser_nothing)"

definition uxr_deserialize_OBJK_RepresentationRefAndXMLFormats :: "ucdr \<Rightarrow> OBJK_RepresentationRefAndXMLFormats des" where
  "uxr_deserialize_OBJK_RepresentationRefAndXMLFormats cdr = des_then (des_field OBJK_RepresentationRefAndXMLFormats.format OBJK_RepresentationRefAndXMLFormats.format_update (ucdr_deserialize_uint8_t cdr))
     (des_if (\<lambda>output. OBJK_RepresentationRefAndXMLFormats.format output = DDS_XRCE_REPRESENTATION_BY_REFERENCE)
        (des_field (OBJK_RepresentationRefAndXMLFormatsU.object_name \<circ> OBJK_RepresentationRefAndXMLFormats.U) (OBJK_RepresentationRefAndXMLFormats.U_update \<circ> OBJK_RepresentationRefAndXMLFormatsU.object_name_update) (ucdr_deserialize_string cdr UXR_STRING_SIZE_MAX))
     (des_if (\<lambda>output. OBJK_RepresentationRefAndXMLFormats.format output = DDS_XRCE_REPRESENTATION_AS_XML_STRING)
        (des_field (OBJK_RepresentationRefAndXMLFormatsU.xml_string_represenatation \<circ> OBJK_RepresentationRefAndXMLFormats.U) (OBJK_RepresentationRefAndXMLFormats.U_update \<circ> OBJK_RepresentationRefAndXMLFormatsU.xml_string_represenatation_update) (ucdr_deserialize_string cdr UXR_STRING_SIZE_MAX))
     des_nothing))"

definition uxr_serialize_OBJK_RepresentationBinAndXMLFormats :: "ucdr \<Rightarrow> OBJK_RepresentationBinAndXMLFormats \<Rightarrow> ser" where
  "uxr_serialize_OBJK_RepresentationBinAndXMLFormats cdr input = ret_then (ucdr_serialize_uint8_t cdr (OBJK_RepresentationBinAndXMLFormats.format input))
     (if OBJK_RepresentationBinAndXMLFormats.format input = DDS_XRCE_REPRESENTATION_IN_BINARY
        then uxr_serialize_BinarySequence_t cdr (OBJK_RepresentationBinAndXMLFormatsU.binary_representation (OBJK_RepresentationBinAndXMLFormats.U input))
      else if OBJK_RepresentationBinAndXMLFormats.format input = DDS_XRCE_REPRESENTATION_AS_XML_STRING
        then ucdr_serialize_string cdr (OBJK_RepresentationBinAndXMLFormatsU.string_represenatation (OBJK_RepresentationBinAndXMLFormats.U input))
      else ser_nothing)"

definition uxr_deserialize_OBJK_RepresentationBinAndXMLFormats :: "ucdr \<Rightarrow> OBJK_RepresentationBinAndXMLFormats des" where
  "uxr_deserialize_OBJK_RepresentationBinAndXMLFormats cdr = des_then (des_field OBJK_RepresentationBinAndXMLFormats.format OBJK_RepresentationBinAndXMLFormats.format_update (ucdr_deserialize_uint8_t cdr))
     (des_if (\<lambda>output. OBJK_RepresentationBinAndXMLFormats.format output = DDS_XRCE_REPRESENTATION_IN_BINARY)
        (des_field (OBJK_RepresentationBinAndXMLFormatsU.binary_representation \<circ> OBJK_RepresentationBinAndXMLFormats.U) (OBJK_RepresentationBinAndXMLFormats.U_update \<circ> OBJK_RepresentationBinAndXMLFormatsU.binary_representation_update) (uxr_deserialize_BinarySequence_t cdr))
     (des_if (\<lambda>output. OBJK_RepresentationBinAndXMLFormats.format output = DDS_XRCE_REPRESENTATION_AS_XML_STRING)
        (des_field (OBJK_RepresentationBinAndXMLFormatsU.string_represenatation \<circ> OBJK_RepresentationBinAndXMLFormats.U) (OBJK_RepresentationBinAndXMLFormats.U_update \<circ> OBJK_RepresentationBinAndXMLFormatsU.string_represenatation_update) (ucdr_deserialize_string cdr UXR_STRING_SIZE_MAX))
     des_nothing))"

definition uxr_serialize_OBJK_RepresentationRefAndXML_Base :: "ucdr \<Rightarrow> OBJK_RepresentationRefAndXML_Base \<Rightarrow> ser" where
  "uxr_serialize_OBJK_RepresentationRefAndXML_Base cdr input = ret_all
     [uxr_serialize_OBJK_RepresentationRefAndXMLFormats cdr (OBJK_RepresentationRefAndXML_Base.representation input)]"

definition uxr_deserialize_OBJK_RepresentationRefAndXML_Base :: "ucdr \<Rightarrow> OBJK_RepresentationRefAndXML_Base des" where
  "uxr_deserialize_OBJK_RepresentationRefAndXML_Base cdr = des_all
     [des_field OBJK_RepresentationRefAndXML_Base.representation OBJK_RepresentationRefAndXML_Base.representation_update (uxr_deserialize_OBJK_RepresentationRefAndXMLFormats cdr)]"

definition uxr_serialize_OBJK_RepresentationBinAndXML_Base :: "ucdr \<Rightarrow> OBJK_RepresentationBinAndXML_Base \<Rightarrow> ser" where
  "uxr_serialize_OBJK_RepresentationBinAndXML_Base cdr input = ret_all
     [uxr_serialize_OBJK_RepresentationBinAndXMLFormats cdr (OBJK_RepresentationBinAndXML_Base.representation input)]"

definition uxr_deserialize_OBJK_RepresentationBinAndXML_Base :: "ucdr \<Rightarrow> OBJK_RepresentationBinAndXML_Base des" where
  "uxr_deserialize_OBJK_RepresentationBinAndXML_Base cdr = des_all
     [des_field OBJK_RepresentationBinAndXML_Base.representation OBJK_RepresentationBinAndXML_Base.representation_update (uxr_deserialize_OBJK_RepresentationBinAndXMLFormats cdr)]"

definition uxr_serialize_OBJK_Representation3_Base :: "ucdr \<Rightarrow> OBJK_Representation3_Base \<Rightarrow> ser" where
  "uxr_serialize_OBJK_Representation3_Base cdr input = ret_all
     [uxr_serialize_OBJK_Representation3Formats cdr (OBJK_Representation3_Base.representation input)]"

definition uxr_deserialize_OBJK_Representation3_Base :: "ucdr \<Rightarrow> OBJK_Representation3_Base des" where
  "uxr_deserialize_OBJK_Representation3_Base cdr = des_all
     [des_field OBJK_Representation3_Base.representation OBJK_Representation3_Base.representation_update (uxr_deserialize_OBJK_Representation3Formats cdr)]"

definition uxr_serialize_OBJK_QOSPROFILE_Representation :: "ucdr \<Rightarrow> OBJK_QOSPROFILE_Representation \<Rightarrow> ser" where
  "uxr_serialize_OBJK_QOSPROFILE_Representation cdr input = ret_all
     [uxr_serialize_OBJK_RepresentationRefAndXML_Base cdr (OBJK_QOSPROFILE_Representation.base input)]"

definition uxr_deserialize_OBJK_QOSPROFILE_Representation :: "ucdr \<Rightarrow> OBJK_QOSPROFILE_Representation des" where
  "uxr_deserialize_OBJK_QOSPROFILE_Representation cdr = des_all
     [des_field OBJK_QOSPROFILE_Representation.base OBJK_QOSPROFILE_Representation.base_update (uxr_deserialize_OBJK_RepresentationRefAndXML_Base cdr)]"

definition uxr_serialize_OBJK_TYPE_Representation :: "ucdr \<Rightarrow> OBJK_TYPE_Representation \<Rightarrow> ser" where
  "uxr_serialize_OBJK_TYPE_Representation cdr input = ret_all
     [uxr_serialize_OBJK_RepresentationRefAndXML_Base cdr (OBJK_TYPE_Representation.base input)]"

definition uxr_deserialize_OBJK_TYPE_Representation :: "ucdr \<Rightarrow> OBJK_TYPE_Representation des" where
  "uxr_deserialize_OBJK_TYPE_Representation cdr = des_all
     [des_field OBJK_TYPE_Representation.base OBJK_TYPE_Representation.base_update (uxr_deserialize_OBJK_RepresentationRefAndXML_Base cdr)]"

definition uxr_serialize_OBJK_DOMAIN_Representation :: "ucdr \<Rightarrow> OBJK_DOMAIN_Representation \<Rightarrow> ser" where
  "uxr_serialize_OBJK_DOMAIN_Representation cdr input = ret_all
     [uxr_serialize_OBJK_RepresentationRefAndXML_Base cdr (OBJK_DOMAIN_Representation.base input)]"

definition uxr_deserialize_OBJK_DOMAIN_Representation :: "ucdr \<Rightarrow> OBJK_DOMAIN_Representation des" where
  "uxr_deserialize_OBJK_DOMAIN_Representation cdr = des_all
     [des_field OBJK_DOMAIN_Representation.base OBJK_DOMAIN_Representation.base_update (uxr_deserialize_OBJK_RepresentationRefAndXML_Base cdr)]"

definition uxr_serialize_OBJK_APPLICATION_Representation :: "ucdr \<Rightarrow> OBJK_APPLICATION_Representation \<Rightarrow> ser" where
  "uxr_serialize_OBJK_APPLICATION_Representation cdr input = ret_all
     [uxr_serialize_OBJK_RepresentationRefAndXML_Base cdr (OBJK_APPLICATION_Representation.base input)]"

definition uxr_deserialize_OBJK_APPLICATION_Representation :: "ucdr \<Rightarrow> OBJK_APPLICATION_Representation des" where
  "uxr_deserialize_OBJK_APPLICATION_Representation cdr = des_all
     [des_field OBJK_APPLICATION_Representation.base OBJK_APPLICATION_Representation.base_update (uxr_deserialize_OBJK_RepresentationRefAndXML_Base cdr)]"

definition uxr_serialize_OBJK_PUBLISHER_Representation :: "ucdr \<Rightarrow> OBJK_PUBLISHER_Representation \<Rightarrow> ser" where
  "uxr_serialize_OBJK_PUBLISHER_Representation cdr input = ret_all
     [uxr_serialize_OBJK_RepresentationBinAndXML_Base cdr (OBJK_PUBLISHER_Representation.base input),
      uxr_serialize_ObjectId cdr (OBJK_PUBLISHER_Representation.participant_id input)]"

definition uxr_deserialize_OBJK_PUBLISHER_Representation :: "ucdr \<Rightarrow> OBJK_PUBLISHER_Representation des" where
  "uxr_deserialize_OBJK_PUBLISHER_Representation cdr = des_all
     [des_field OBJK_PUBLISHER_Representation.base OBJK_PUBLISHER_Representation.base_update (uxr_deserialize_OBJK_RepresentationBinAndXML_Base cdr),
      des_field OBJK_PUBLISHER_Representation.participant_id OBJK_PUBLISHER_Representation.participant_id_update (uxr_deserialize_ObjectId cdr)]"

definition uxr_serialize_OBJK_SUBSCRIBER_Representation :: "ucdr \<Rightarrow> OBJK_SUBSCRIBER_Representation \<Rightarrow> ser" where
  "uxr_serialize_OBJK_SUBSCRIBER_Representation cdr input = ret_all
     [uxr_serialize_OBJK_RepresentationBinAndXML_Base cdr (OBJK_SUBSCRIBER_Representation.base input),
      uxr_serialize_ObjectId cdr (OBJK_SUBSCRIBER_Representation.participant_id input)]"

definition uxr_deserialize_OBJK_SUBSCRIBER_Representation :: "ucdr \<Rightarrow> OBJK_SUBSCRIBER_Representation des" where
  "uxr_deserialize_OBJK_SUBSCRIBER_Representation cdr = des_all
     [des_field OBJK_SUBSCRIBER_Representation.base OBJK_SUBSCRIBER_Representation.base_update (uxr_deserialize_OBJK_RepresentationBinAndXML_Base cdr),
      des_field OBJK_SUBSCRIBER_Representation.participant_id OBJK_SUBSCRIBER_Representation.participant_id_update (uxr_deserialize_ObjectId cdr)]"

definition uxr_serialize_DATAWRITER_Representation :: "ucdr \<Rightarrow> DATAWRITER_Representation \<Rightarrow> ser" where
  "uxr_serialize_DATAWRITER_Representation cdr input = ret_all
     [uxr_serialize_OBJK_Representation3_Base cdr (DATAWRITER_Representation.base input),
      uxr_serialize_ObjectId cdr (DATAWRITER_Representation.publisher_id input)]"

definition uxr_deserialize_DATAWRITER_Representation :: "ucdr \<Rightarrow> DATAWRITER_Representation des" where
  "uxr_deserialize_DATAWRITER_Representation cdr = des_all
     [des_field DATAWRITER_Representation.base DATAWRITER_Representation.base_update (uxr_deserialize_OBJK_Representation3_Base cdr),
      des_field DATAWRITER_Representation.publisher_id DATAWRITER_Representation.publisher_id_update (uxr_deserialize_ObjectId cdr)]"

definition uxr_serialize_DATAREADER_Representation :: "ucdr \<Rightarrow> DATAREADER_Representation \<Rightarrow> ser" where
  "uxr_serialize_DATAREADER_Representation cdr input = ret_all
     [uxr_serialize_OBJK_Representation3_Base cdr (DATAREADER_Representation.base input),
      uxr_serialize_ObjectId cdr (DATAREADER_Representation.subscriber_id input)]"

definition uxr_deserialize_DATAREADER_Representation :: "ucdr \<Rightarrow> DATAREADER_Representation des" where
  "uxr_deserialize_DATAREADER_Representation cdr = des_all
     [des_field DATAREADER_Representation.base DATAREADER_Representation.base_update (uxr_deserialize_OBJK_Representation3_Base cdr),
      des_field DATAREADER_Representation.subscriber_id DATAREADER_Representation.subscriber_id_update (uxr_deserialize_ObjectId cdr)]"

definition uxr_serialize_OBJK_PARTICIPANT_Representation :: "ucdr \<Rightarrow> OBJK_PARTICIPANT_Representation \<Rightarrow> ser" where
  "uxr_serialize_OBJK_PARTICIPANT_Representation cdr input = ret_all
     [uxr_serialize_OBJK_Representation3_Base cdr (OBJK_PARTICIPANT_Representation.base input),
      ucdr_serialize_int16_t cdr (OBJK_PARTICIPANT_Representation.domain_id input)]"

definition uxr_deserialize_OBJK_PARTICIPANT_Representation :: "ucdr \<Rightarrow> OBJK_PARTICIPANT_Representation des" where
  "uxr_deserialize_OBJK_PARTICIPANT_Representation cdr = des_all
     [des_field OBJK_PARTICIPANT_Representation.base OBJK_PARTICIPANT_Representation.base_update (uxr_deserialize_OBJK_Representation3_Base cdr),
      des_field OBJK_PARTICIPANT_Representation.domain_id OBJK_PARTICIPANT_Representation.domain_id_update (ucdr_deserialize_int16_t cdr)]"

definition uxr_serialize_OBJK_TOPIC_Representation :: "ucdr \<Rightarrow> OBJK_TOPIC_Representation \<Rightarrow> ser" where
  "uxr_serialize_OBJK_TOPIC_Representation cdr input = ret_all
     [uxr_serialize_OBJK_Representation3_Base cdr (OBJK_TOPIC_Representation.base input),
      uxr_serialize_ObjectId cdr (OBJK_TOPIC_Representation.participant_id input)]"

definition uxr_deserialize_OBJK_TOPIC_Representation :: "ucdr \<Rightarrow> OBJK_TOPIC_Representation des" where
  "uxr_deserialize_OBJK_TOPIC_Representation cdr = des_all
     [des_field OBJK_TOPIC_Representation.base OBJK_TOPIC_Representation.base_update (uxr_deserialize_OBJK_Representation3_Base cdr),
      des_field OBJK_TOPIC_Representation.participant_id OBJK_TOPIC_Representation.participant_id_update (uxr_deserialize_ObjectId cdr)]"

definition uxr_serialize_OBJK_REQUESTER_Representation :: "ucdr \<Rightarrow> OBJK_REQUESTER_Representation \<Rightarrow> ser" where
  "uxr_serialize_OBJK_REQUESTER_Representation cdr input = ret_all
     [uxr_serialize_OBJK_Representation3_Base cdr (OBJK_REQUESTER_Representation.base input),
      uxr_serialize_ObjectId cdr (OBJK_REQUESTER_Representation.participant_id input)]"

definition uxr_deserialize_OBJK_REQUESTER_Representation :: "ucdr \<Rightarrow> OBJK_REQUESTER_Representation des" where
  "uxr_deserialize_OBJK_REQUESTER_Representation cdr = des_all
     [des_field OBJK_REQUESTER_Representation.base OBJK_REQUESTER_Representation.base_update (uxr_deserialize_OBJK_Representation3_Base cdr),
      des_field OBJK_REQUESTER_Representation.participant_id OBJK_REQUESTER_Representation.participant_id_update (uxr_deserialize_ObjectId cdr)]"

definition uxr_serialize_OBJK_REPLIER_Representation :: "ucdr \<Rightarrow> OBJK_REPLIER_Representation \<Rightarrow> ser" where
  "uxr_serialize_OBJK_REPLIER_Representation cdr input = ret_all
     [uxr_serialize_OBJK_Representation3_Base cdr (OBJK_REPLIER_Representation.base input),
      uxr_serialize_ObjectId cdr (OBJK_REPLIER_Representation.participant_id input)]"

definition uxr_deserialize_OBJK_REPLIER_Representation :: "ucdr \<Rightarrow> OBJK_REPLIER_Representation des" where
  "uxr_deserialize_OBJK_REPLIER_Representation cdr = des_all
     [des_field OBJK_REPLIER_Representation.base OBJK_REPLIER_Representation.base_update (uxr_deserialize_OBJK_Representation3_Base cdr),
      des_field OBJK_REPLIER_Representation.participant_id OBJK_REPLIER_Representation.participant_id_update (uxr_deserialize_ObjectId cdr)]"

definition uxr_serialize_OBJK_DomainParticipant_Binary :: "ucdr \<Rightarrow> OBJK_DomainParticipant_Binary \<Rightarrow> ser" where
  "uxr_serialize_OBJK_DomainParticipant_Binary cdr input = ret_all
     [ucdr_serialize_bool cdr (OBJK_DomainParticipant_Binary.optional_domain_reference input),
      ser_when (OBJK_DomainParticipant_Binary.optional_domain_reference input)
        (ucdr_serialize_string cdr (OBJK_DomainParticipant_Binary.domain_reference input)),
      ucdr_serialize_bool cdr (OBJK_DomainParticipant_Binary.optional_qos_profile_reference input),
      ser_when (OBJK_DomainParticipant_Binary.optional_qos_profile_reference input)
        (ucdr_serialize_string cdr (OBJK_DomainParticipant_Binary.qos_profile_reference input))]"

definition uxr_deserialize_OBJK_DomainParticipant_Binary :: "ucdr \<Rightarrow> OBJK_DomainParticipant_Binary des" where
  "uxr_deserialize_OBJK_DomainParticipant_Binary cdr = des_all
     [des_field OBJK_DomainParticipant_Binary.optional_domain_reference OBJK_DomainParticipant_Binary.optional_domain_reference_update (ucdr_deserialize_bool cdr),
      des_when OBJK_DomainParticipant_Binary.optional_domain_reference
        (des_field OBJK_DomainParticipant_Binary.domain_reference OBJK_DomainParticipant_Binary.domain_reference_update (ucdr_deserialize_string cdr UXR_STRING_SIZE_MAX)),
      des_field OBJK_DomainParticipant_Binary.optional_qos_profile_reference OBJK_DomainParticipant_Binary.optional_qos_profile_reference_update (ucdr_deserialize_bool cdr),
      des_when OBJK_DomainParticipant_Binary.optional_qos_profile_reference
        (des_field OBJK_DomainParticipant_Binary.qos_profile_reference OBJK_DomainParticipant_Binary.qos_profile_reference_update (ucdr_deserialize_string cdr UXR_STRING_SIZE_MAX))]"

definition uxr_serialize_OBJK_Topic_Binary :: "ucdr \<Rightarrow> OBJK_Topic_Binary \<Rightarrow> ser" where
  "uxr_serialize_OBJK_Topic_Binary cdr input = ret_all
     [ucdr_serialize_string cdr (OBJK_Topic_Binary.topic_name input),
      ucdr_serialize_bool cdr (OBJK_Topic_Binary.optional_type_reference input),
      ser_when (OBJK_Topic_Binary.optional_type_reference input)
        (ucdr_serialize_string cdr (OBJK_Topic_Binary.type_reference input)),
      ucdr_serialize_bool cdr (OBJK_Topic_Binary.optional_type_name input),
      ser_when (OBJK_Topic_Binary.optional_type_name input)
        (ucdr_serialize_string cdr (OBJK_Topic_Binary.type_name input))]"

definition uxr_deserialize_OBJK_Topic_Binary :: "ucdr \<Rightarrow> OBJK_Topic_Binary des" where
  "uxr_deserialize_OBJK_Topic_Binary cdr = des_all
     [des_field OBJK_Topic_Binary.topic_name OBJK_Topic_Binary.topic_name_update (ucdr_deserialize_string cdr UXR_STRING_SIZE_MAX),
      des_field OBJK_Topic_Binary.optional_type_reference OBJK_Topic_Binary.optional_type_reference_update (ucdr_deserialize_bool cdr),
      des_when OBJK_Topic_Binary.optional_type_reference
        (des_field OBJK_Topic_Binary.type_reference OBJK_Topic_Binary.type_reference_update (ucdr_deserialize_string cdr UXR_STRING_SIZE_MAX)),
      des_field OBJK_Topic_Binary.optional_type_name OBJK_Topic_Binary.optional_type_name_update (ucdr_deserialize_bool cdr),
      des_when OBJK_Topic_Binary.optional_type_name
        (des_field OBJK_Topic_Binary.type_name OBJK_Topic_Binary.type_name_update (ucdr_deserialize_string cdr UXR_STRING_SIZE_MAX))]"

definition uxr_serialize_OBJK_Publisher_Binary_Qos :: "ucdr \<Rightarrow> OBJK_Publisher_Binary_Qos \<Rightarrow> ser" where
  "uxr_serialize_OBJK_Publisher_Binary_Qos cdr input = ret_all
     [ucdr_serialize_bool cdr (OBJK_Publisher_Binary_Qos.optional_partitions input),
      ser_when (OBJK_Publisher_Binary_Qos.optional_partitions input)
        (uxr_serialize_StringSequence_t cdr (OBJK_Publisher_Binary_Qos.partitions input)),
      ucdr_serialize_bool cdr (OBJK_Publisher_Binary_Qos.optional_group_data input),
      ser_when (OBJK_Publisher_Binary_Qos.optional_group_data input)
        (uxr_serialize_BinarySequence_t cdr (OBJK_Publisher_Binary_Qos.group_data input))]"

definition uxr_deserialize_OBJK_Publisher_Binary_Qos :: "ucdr \<Rightarrow> OBJK_Publisher_Binary_Qos des" where
  "uxr_deserialize_OBJK_Publisher_Binary_Qos cdr = des_all
     [des_field OBJK_Publisher_Binary_Qos.optional_partitions OBJK_Publisher_Binary_Qos.optional_partitions_update (ucdr_deserialize_bool cdr),
      des_when OBJK_Publisher_Binary_Qos.optional_partitions
        (des_field OBJK_Publisher_Binary_Qos.partitions OBJK_Publisher_Binary_Qos.partitions_update (uxr_deserialize_StringSequence_t cdr)),
      des_field OBJK_Publisher_Binary_Qos.optional_group_data OBJK_Publisher_Binary_Qos.optional_group_data_update (ucdr_deserialize_bool cdr),
      des_when OBJK_Publisher_Binary_Qos.optional_group_data
        (des_field OBJK_Publisher_Binary_Qos.group_data OBJK_Publisher_Binary_Qos.group_data_update (uxr_deserialize_BinarySequence_t cdr))]"

definition uxr_serialize_OBJK_Publisher_Binary :: "ucdr \<Rightarrow> OBJK_Publisher_Binary \<Rightarrow> ser" where
  "uxr_serialize_OBJK_Publisher_Binary cdr input = ret_all
     [ucdr_serialize_bool cdr (OBJK_Publisher_Binary.optional_publisher_name input),
      ser_when (OBJK_Publisher_Binary.optional_publisher_name input)
        (ucdr_serialize_string cdr (OBJK_Publisher_Binary.publisher_name input)),
      ucdr_serialize_bool cdr (OBJK_Publisher_Binary.optional_qos input),
      ser_when (OBJK_Publisher_Binary.optional_qos input)
        (uxr_serialize_OBJK_Publisher_Binary_Qos cdr (OBJK_Publisher_Binary.qos input))]"

definition uxr_deserialize_OBJK_Publisher_Binary :: "ucdr \<Rightarrow> OBJK_Publisher_Binary des" where
  "uxr_deserialize_OBJK_Publisher_Binary cdr = des_all
     [des_field OBJK_Publisher_Binary.optional_publisher_name OBJK_Publisher_Binary.optional_publisher_name_update (ucdr_deserialize_bool cdr),
      des_when OBJK_Publisher_Binary.optional_publisher_name
        (des_field OBJK_Publisher_Binary.publisher_name OBJK_Publisher_Binary.publisher_name_update (ucdr_deserialize_string cdr UXR_STRING_SIZE_MAX)),
      des_field OBJK_Publisher_Binary.optional_qos OBJK_Publisher_Binary.optional_qos_update (ucdr_deserialize_bool cdr),
      des_when OBJK_Publisher_Binary.optional_qos
        (des_field OBJK_Publisher_Binary.qos OBJK_Publisher_Binary.qos_update (uxr_deserialize_OBJK_Publisher_Binary_Qos cdr))]"

definition uxr_serialize_OBJK_Subscriber_Binary_Qos :: "ucdr \<Rightarrow> OBJK_Subscriber_Binary_Qos \<Rightarrow> ser" where
  "uxr_serialize_OBJK_Subscriber_Binary_Qos cdr input = ret_all
     [ucdr_serialize_bool cdr (OBJK_Subscriber_Binary_Qos.optional_partitions input),
      ser_when (OBJK_Subscriber_Binary_Qos.optional_partitions input)
        (uxr_serialize_StringSequence_t cdr (OBJK_Subscriber_Binary_Qos.partitions input)),
      ucdr_serialize_bool cdr (OBJK_Subscriber_Binary_Qos.optional_group_data input),
      ser_when (OBJK_Subscriber_Binary_Qos.optional_group_data input)
        (uxr_serialize_BinarySequence_t cdr (OBJK_Subscriber_Binary_Qos.group_data input))]"

definition uxr_deserialize_OBJK_Subscriber_Binary_Qos :: "ucdr \<Rightarrow> OBJK_Subscriber_Binary_Qos des" where
  "uxr_deserialize_OBJK_Subscriber_Binary_Qos cdr = des_all
     [des_field OBJK_Subscriber_Binary_Qos.optional_partitions OBJK_Subscriber_Binary_Qos.optional_partitions_update (ucdr_deserialize_bool cdr),
      des_when OBJK_Subscriber_Binary_Qos.optional_partitions
        (des_field OBJK_Subscriber_Binary_Qos.partitions OBJK_Subscriber_Binary_Qos.partitions_update (uxr_deserialize_StringSequence_t cdr)),
      des_field OBJK_Subscriber_Binary_Qos.optional_group_data OBJK_Subscriber_Binary_Qos.optional_group_data_update (ucdr_deserialize_bool cdr),
      des_when OBJK_Subscriber_Binary_Qos.optional_group_data
        (des_field OBJK_Subscriber_Binary_Qos.group_data OBJK_Subscriber_Binary_Qos.group_data_update (uxr_deserialize_BinarySequence_t cdr))]"

definition uxr_serialize_OBJK_Subscriber_Binary :: "ucdr \<Rightarrow> OBJK_Subscriber_Binary \<Rightarrow> ser" where
  "uxr_serialize_OBJK_Subscriber_Binary cdr input = ret_all
     [ucdr_serialize_bool cdr (OBJK_Subscriber_Binary.optional_subscriber_name input),
      ser_when (OBJK_Subscriber_Binary.optional_subscriber_name input)
        (ucdr_serialize_string cdr (OBJK_Subscriber_Binary.subscriber_name input)),
      ucdr_serialize_bool cdr (OBJK_Subscriber_Binary.optional_qos input),
      ser_when (OBJK_Subscriber_Binary.optional_qos input)
        (uxr_serialize_OBJK_Subscriber_Binary_Qos cdr (OBJK_Subscriber_Binary.qos input))]"

definition uxr_deserialize_OBJK_Subscriber_Binary :: "ucdr \<Rightarrow> OBJK_Subscriber_Binary des" where
  "uxr_deserialize_OBJK_Subscriber_Binary cdr = des_all
     [des_field OBJK_Subscriber_Binary.optional_subscriber_name OBJK_Subscriber_Binary.optional_subscriber_name_update (ucdr_deserialize_bool cdr),
      des_when OBJK_Subscriber_Binary.optional_subscriber_name
        (des_field OBJK_Subscriber_Binary.subscriber_name OBJK_Subscriber_Binary.subscriber_name_update (ucdr_deserialize_string cdr UXR_STRING_SIZE_MAX)),
      des_field OBJK_Subscriber_Binary.optional_qos OBJK_Subscriber_Binary.optional_qos_update (ucdr_deserialize_bool cdr),
      des_when OBJK_Subscriber_Binary.optional_qos
        (des_field OBJK_Subscriber_Binary.qos OBJK_Subscriber_Binary.qos_update (uxr_deserialize_OBJK_Subscriber_Binary_Qos cdr))]"

definition uxr_serialize_OBJK_Endpoint_QosBinary :: "ucdr \<Rightarrow> OBJK_Endpoint_QosBinary \<Rightarrow> ser" where
  "uxr_serialize_OBJK_Endpoint_QosBinary cdr input = ret_all
     [ucdr_serialize_uint16_t cdr (OBJK_Endpoint_QosBinary.qos_flags input),
      ucdr_serialize_bool cdr (OBJK_Endpoint_QosBinary.optional_history_depth input),
      ser_when (OBJK_Endpoint_QosBinary.optional_history_depth input)
        (ucdr_serialize_uint16_t cdr (OBJK_Endpoint_QosBinary.history_depth input)),
      ucdr_serialize_bool cdr (OBJK_Endpoint_QosBinary.optional_deadline_msec input),
      ser_when (OBJK_Endpoint_QosBinary.optional_deadline_msec input)
        (ucdr_serialize_uint32_t cdr (OBJK_Endpoint_QosBinary.deadline_msec input)),
      ucdr_serialize_bool cdr (OBJK_Endpoint_QosBinary.optional_lifespan_msec input),
      ser_when (OBJK_Endpoint_QosBinary.optional_lifespan_msec input)
        (ucdr_serialize_uint32_t cdr (OBJK_Endpoint_QosBinary.lifespan_msec input)),
      ucdr_serialize_bool cdr (OBJK_Endpoint_QosBinary.optional_user_data input),
      ser_when (OBJK_Endpoint_QosBinary.optional_user_data input)
        (uxr_serialize_BinarySequence_t cdr (as_BinarySequence_t (OBJK_Endpoint_QosBinary.user_data input)))]"

text \<open>
  The user data is read with the capacity of the large sequence, through a cast of the pointer. A list of
  more than \<open>UXR_BINARY_SEQUENCE_SMALL_MAX\<close> octets in the result stands for a write beyond the array,
  into what follows the structure; that other data is overwritten is not modelled.
\<close>

definition uxr_deserialize_OBJK_Endpoint_QosBinary :: "ucdr \<Rightarrow> OBJK_Endpoint_QosBinary des" where
  "uxr_deserialize_OBJK_Endpoint_QosBinary cdr = des_all
     [des_field OBJK_Endpoint_QosBinary.qos_flags OBJK_Endpoint_QosBinary.qos_flags_update (ucdr_deserialize_uint16_t cdr),
      des_field OBJK_Endpoint_QosBinary.optional_history_depth OBJK_Endpoint_QosBinary.optional_history_depth_update (ucdr_deserialize_bool cdr),
      des_when OBJK_Endpoint_QosBinary.optional_history_depth
        (des_field OBJK_Endpoint_QosBinary.history_depth OBJK_Endpoint_QosBinary.history_depth_update (ucdr_deserialize_uint16_t cdr)),
      des_field OBJK_Endpoint_QosBinary.optional_deadline_msec OBJK_Endpoint_QosBinary.optional_deadline_msec_update (ucdr_deserialize_bool cdr),
      des_when OBJK_Endpoint_QosBinary.optional_deadline_msec
        (des_field OBJK_Endpoint_QosBinary.deadline_msec OBJK_Endpoint_QosBinary.deadline_msec_update (ucdr_deserialize_uint32_t cdr)),
      des_field OBJK_Endpoint_QosBinary.optional_lifespan_msec OBJK_Endpoint_QosBinary.optional_lifespan_msec_update (ucdr_deserialize_bool cdr),
      des_when OBJK_Endpoint_QosBinary.optional_lifespan_msec
        (des_field OBJK_Endpoint_QosBinary.lifespan_msec OBJK_Endpoint_QosBinary.lifespan_msec_update (ucdr_deserialize_uint32_t cdr)),
      des_field OBJK_Endpoint_QosBinary.optional_user_data OBJK_Endpoint_QosBinary.optional_user_data_update (ucdr_deserialize_bool cdr),
      des_when OBJK_Endpoint_QosBinary.optional_user_data
        (des_field (as_BinarySequence_t \<circ> OBJK_Endpoint_QosBinary.user_data) (OBJK_Endpoint_QosBinary.user_data_update \<circ> (\<lambda>f. BinarySequence_t_as \<circ> f \<circ> as_BinarySequence_t)) (uxr_deserialize_BinarySequence_t cdr))]"

definition uxr_serialize_OBJK_DataWriter_Binary_Qos :: "ucdr \<Rightarrow> OBJK_DataWriter_Binary_Qos \<Rightarrow> ser" where
  "uxr_serialize_OBJK_DataWriter_Binary_Qos cdr input = ret_all
     [uxr_serialize_OBJK_Endpoint_QosBinary cdr (OBJK_DataWriter_Binary_Qos.base input),
      ucdr_serialize_bool cdr (OBJK_DataWriter_Binary_Qos.optional_ownership_strength input),
      ser_when (OBJK_DataWriter_Binary_Qos.optional_ownership_strength input)
        (ucdr_serialize_uint64_t cdr (OBJK_DataWriter_Binary_Qos.ownership_strength input))]"

definition uxr_deserialize_OBJK_DataWriter_Binary_Qos :: "ucdr \<Rightarrow> OBJK_DataWriter_Binary_Qos des" where
  "uxr_deserialize_OBJK_DataWriter_Binary_Qos cdr = des_all
     [des_field OBJK_DataWriter_Binary_Qos.base OBJK_DataWriter_Binary_Qos.base_update (uxr_deserialize_OBJK_Endpoint_QosBinary cdr),
      des_field OBJK_DataWriter_Binary_Qos.optional_ownership_strength OBJK_DataWriter_Binary_Qos.optional_ownership_strength_update (ucdr_deserialize_bool cdr),
      des_when OBJK_DataWriter_Binary_Qos.optional_ownership_strength
        (des_field OBJK_DataWriter_Binary_Qos.ownership_strength OBJK_DataWriter_Binary_Qos.ownership_strength_update (ucdr_deserialize_uint64_t cdr))]"

definition uxr_serialize_OBJK_DataReader_Binary_Qos :: "ucdr \<Rightarrow> OBJK_DataReader_Binary_Qos \<Rightarrow> ser" where
  "uxr_serialize_OBJK_DataReader_Binary_Qos cdr input = ret_all
     [uxr_serialize_OBJK_Endpoint_QosBinary cdr (OBJK_DataReader_Binary_Qos.base input),
      ucdr_serialize_bool cdr (OBJK_DataReader_Binary_Qos.optional_timebasedfilter_msec input),
      ser_when (OBJK_DataReader_Binary_Qos.optional_timebasedfilter_msec input)
        (ucdr_serialize_uint64_t cdr (OBJK_DataReader_Binary_Qos.timebasedfilter_msec input)),
      ucdr_serialize_bool cdr (OBJK_DataReader_Binary_Qos.optional_contentbased_filter input),
      ser_when (OBJK_DataReader_Binary_Qos.optional_contentbased_filter input)
        (ucdr_serialize_string cdr (OBJK_DataReader_Binary_Qos.contentbased_filter input))]"

definition uxr_deserialize_OBJK_DataReader_Binary_Qos :: "ucdr \<Rightarrow> OBJK_DataReader_Binary_Qos des" where
  "uxr_deserialize_OBJK_DataReader_Binary_Qos cdr = des_all
     [des_field OBJK_DataReader_Binary_Qos.base OBJK_DataReader_Binary_Qos.base_update (uxr_deserialize_OBJK_Endpoint_QosBinary cdr),
      des_field OBJK_DataReader_Binary_Qos.optional_timebasedfilter_msec OBJK_DataReader_Binary_Qos.optional_timebasedfilter_msec_update (ucdr_deserialize_bool cdr),
      des_when OBJK_DataReader_Binary_Qos.optional_timebasedfilter_msec
        (des_field OBJK_DataReader_Binary_Qos.timebasedfilter_msec OBJK_DataReader_Binary_Qos.timebasedfilter_msec_update (ucdr_deserialize_uint64_t cdr)),
      des_field OBJK_DataReader_Binary_Qos.optional_contentbased_filter OBJK_DataReader_Binary_Qos.optional_contentbased_filter_update (ucdr_deserialize_bool cdr),
      des_when OBJK_DataReader_Binary_Qos.optional_contentbased_filter
        (des_field OBJK_DataReader_Binary_Qos.contentbased_filter OBJK_DataReader_Binary_Qos.contentbased_filter_update (ucdr_deserialize_string cdr UXR_STRING_SIZE_MAX))]"

definition uxr_serialize_OBJK_DataReader_Binary :: "ucdr \<Rightarrow> OBJK_DataReader_Binary \<Rightarrow> ser" where
  "uxr_serialize_OBJK_DataReader_Binary cdr input = ret_all
     [uxr_serialize_ObjectId cdr (OBJK_DataReader_Binary.topic_id input),
      ucdr_serialize_bool cdr (OBJK_DataReader_Binary.optional_qos input),
      ser_when (OBJK_DataReader_Binary.optional_qos input)
        (uxr_serialize_OBJK_DataReader_Binary_Qos cdr (OBJK_DataReader_Binary.qos input))]"

definition uxr_deserialize_OBJK_DataReader_Binary :: "ucdr \<Rightarrow> OBJK_DataReader_Binary des" where
  "uxr_deserialize_OBJK_DataReader_Binary cdr = des_all
     [des_field OBJK_DataReader_Binary.topic_id OBJK_DataReader_Binary.topic_id_update (uxr_deserialize_ObjectId cdr),
      des_field OBJK_DataReader_Binary.optional_qos OBJK_DataReader_Binary.optional_qos_update (ucdr_deserialize_bool cdr),
      des_when OBJK_DataReader_Binary.optional_qos
        (des_field OBJK_DataReader_Binary.qos OBJK_DataReader_Binary.qos_update (uxr_deserialize_OBJK_DataReader_Binary_Qos cdr))]"

definition uxr_serialize_OBJK_DataWriter_Binary :: "ucdr \<Rightarrow> OBJK_DataWriter_Binary \<Rightarrow> ser" where
  "uxr_serialize_OBJK_DataWriter_Binary cdr input = ret_all
     [uxr_serialize_ObjectId cdr (OBJK_DataWriter_Binary.topic_id input),
      ucdr_serialize_bool cdr (OBJK_DataWriter_Binary.optional_qos input),
      ser_when (OBJK_DataWriter_Binary.optional_qos input)
        (uxr_serialize_OBJK_DataWriter_Binary_Qos cdr (OBJK_DataWriter_Binary.qos input))]"

definition uxr_deserialize_OBJK_DataWriter_Binary :: "ucdr \<Rightarrow> OBJK_DataWriter_Binary des" where
  "uxr_deserialize_OBJK_DataWriter_Binary cdr = des_all
     [des_field OBJK_DataWriter_Binary.topic_id OBJK_DataWriter_Binary.topic_id_update (uxr_deserialize_ObjectId cdr),
      des_field OBJK_DataWriter_Binary.optional_qos OBJK_DataWriter_Binary.optional_qos_update (ucdr_deserialize_bool cdr),
      des_when OBJK_DataWriter_Binary.optional_qos
        (des_field OBJK_DataWriter_Binary.qos OBJK_DataWriter_Binary.qos_update (uxr_deserialize_OBJK_DataWriter_Binary_Qos cdr))]"

definition uxr_serialize_OBJK_Requester_Binary :: "ucdr \<Rightarrow> OBJK_Requester_Binary \<Rightarrow> ser" where
  "uxr_serialize_OBJK_Requester_Binary cdr input = ret_all
     [ucdr_serialize_string cdr (OBJK_Requester_Binary.service_name input),
      ucdr_serialize_string cdr (OBJK_Requester_Binary.request_type input),
      ucdr_serialize_string cdr (OBJK_Requester_Binary.reply_type input),
      ucdr_serialize_bool cdr (OBJK_Requester_Binary.optional_request_topic_name input),
      ser_when (OBJK_Requester_Binary.optional_request_topic_name input)
        (ucdr_serialize_string cdr (OBJK_Requester_Binary.request_topic_name input)),
      ucdr_serialize_bool cdr (OBJK_Requester_Binary.optional_reply_topic_name input),
      ser_when (OBJK_Requester_Binary.optional_reply_topic_name input)
        (ucdr_serialize_string cdr (OBJK_Requester_Binary.reply_topic_name input))]"

definition uxr_deserialize_OBJK_Requester_Binary :: "ucdr \<Rightarrow> OBJK_Requester_Binary des" where
  "uxr_deserialize_OBJK_Requester_Binary cdr = des_all
     [des_field OBJK_Requester_Binary.service_name OBJK_Requester_Binary.service_name_update (ucdr_deserialize_string cdr UXR_STRING_SIZE_MAX),
      des_field OBJK_Requester_Binary.request_type OBJK_Requester_Binary.request_type_update (ucdr_deserialize_string cdr UXR_STRING_SIZE_MAX),
      des_field OBJK_Requester_Binary.reply_type OBJK_Requester_Binary.reply_type_update (ucdr_deserialize_string cdr UXR_STRING_SIZE_MAX),
      des_field OBJK_Requester_Binary.optional_request_topic_name OBJK_Requester_Binary.optional_request_topic_name_update (ucdr_deserialize_bool cdr),
      des_when OBJK_Requester_Binary.optional_request_topic_name
        (des_field OBJK_Requester_Binary.request_topic_name OBJK_Requester_Binary.request_topic_name_update (ucdr_deserialize_string cdr UXR_STRING_SIZE_MAX)),
      des_field OBJK_Requester_Binary.optional_reply_topic_name OBJK_Requester_Binary.optional_reply_topic_name_update (ucdr_deserialize_bool cdr),
      des_when OBJK_Requester_Binary.optional_reply_topic_name
        (des_field OBJK_Requester_Binary.reply_topic_name OBJK_Requester_Binary.reply_topic_name_update (ucdr_deserialize_string cdr UXR_STRING_SIZE_MAX))]"

definition uxr_serialize_OBJK_Replier_Binary :: "ucdr \<Rightarrow> OBJK_Replier_Binary \<Rightarrow> ser" where
  "uxr_serialize_OBJK_Replier_Binary cdr input = ret_all
     [ucdr_serialize_string cdr (OBJK_Replier_Binary.service_name input),
      ucdr_serialize_string cdr (OBJK_Replier_Binary.request_type input),
      ucdr_serialize_string cdr (OBJK_Replier_Binary.reply_type input),
      ucdr_serialize_bool cdr (OBJK_Replier_Binary.optional_request_topic_name input),
      ser_when (OBJK_Replier_Binary.optional_request_topic_name input)
        (ucdr_serialize_string cdr (OBJK_Replier_Binary.request_topic_name input)),
      ucdr_serialize_bool cdr (OBJK_Replier_Binary.optional_reply_topic_name input),
      ser_when (OBJK_Replier_Binary.optional_reply_topic_name input)
        (ucdr_serialize_string cdr (OBJK_Replier_Binary.reply_topic_name input))]"

definition uxr_deserialize_OBJK_Replier_Binary :: "ucdr \<Rightarrow> OBJK_Replier_Binary des" where
  "uxr_deserialize_OBJK_Replier_Binary cdr = des_all
     [des_field OBJK_Replier_Binary.service_name OBJK_Replier_Binary.service_name_update (ucdr_deserialize_string cdr UXR_STRING_SIZE_MAX),
      des_field OBJK_Replier_Binary.request_type OBJK_Replier_Binary.request_type_update (ucdr_deserialize_string cdr UXR_STRING_SIZE_MAX),
      des_field OBJK_Replier_Binary.reply_type OBJK_Replier_Binary.reply_type_update (ucdr_deserialize_string cdr UXR_STRING_SIZE_MAX),
      des_field OBJK_Replier_Binary.optional_request_topic_name OBJK_Replier_Binary.optional_request_topic_name_update (ucdr_deserialize_bool cdr),
      des_when OBJK_Replier_Binary.optional_request_topic_name
        (des_field OBJK_Replier_Binary.request_topic_name OBJK_Replier_Binary.request_topic_name_update (ucdr_deserialize_string cdr UXR_STRING_SIZE_MAX)),
      des_field OBJK_Replier_Binary.optional_reply_topic_name OBJK_Replier_Binary.optional_reply_topic_name_update (ucdr_deserialize_bool cdr),
      des_when OBJK_Replier_Binary.optional_reply_topic_name
        (des_field OBJK_Replier_Binary.reply_topic_name OBJK_Replier_Binary.reply_topic_name_update (ucdr_deserialize_string cdr UXR_STRING_SIZE_MAX))]"

definition uxr_serialize_ObjectVariant :: "ucdr \<Rightarrow> ObjectVariant \<Rightarrow> ser" where
  "uxr_serialize_ObjectVariant cdr input = ret_then (ucdr_serialize_uint8_t cdr (ObjectVariant.kind input))
     (if ObjectVariant.kind input = DDS_XRCE_OBJK_AGENT
        then uxr_serialize_AGENT_Representation cdr (ObjectVariantU.agent (ObjectVariant.U input))
      else if ObjectVariant.kind input = DDS_XRCE_OBJK_CLIENT
        then uxr_serialize_CLIENT_Representation cdr (ObjectVariantU.client (ObjectVariant.U input))
      else if ObjectVariant.kind input = DDS_XRCE_OBJK_APPLICATION
        then uxr_serialize_OBJK_APPLICATION_Representation cdr (ObjectVariantU.application (ObjectVariant.U input))
      else if ObjectVariant.kind input = DDS_XRCE_OBJK_PARTICIPANT
        then uxr_serialize_OBJK_PARTICIPANT_Representation cdr (ObjectVariantU.participant (ObjectVariant.U input))
      else if ObjectVariant.kind input = DDS_XRCE_OBJK_QOSPROFILE
        then uxr_serialize_OBJK_QOSPROFILE_Representation cdr (ObjectVariantU.qos_profile (ObjectVariant.U input))
      else if ObjectVariant.kind input = DDS_XRCE_OBJK_TYPE
        then uxr_serialize_OBJK_TYPE_Representation cdr (ObjectVariantU.type' (ObjectVariant.U input))
      else if ObjectVariant.kind input = DDS_XRCE_OBJK_TOPIC
        then uxr_serialize_OBJK_TOPIC_Representation cdr (ObjectVariantU.topic (ObjectVariant.U input))
      else if ObjectVariant.kind input = DDS_XRCE_OBJK_PUBLISHER
        then uxr_serialize_OBJK_PUBLISHER_Representation cdr (ObjectVariantU.publisher (ObjectVariant.U input))
      else if ObjectVariant.kind input = DDS_XRCE_OBJK_SUBSCRIBER
        then uxr_serialize_OBJK_SUBSCRIBER_Representation cdr (ObjectVariantU.subscriber (ObjectVariant.U input))
      else if ObjectVariant.kind input = DDS_XRCE_OBJK_DATAWRITER
        then uxr_serialize_DATAWRITER_Representation cdr (ObjectVariantU.data_writer (ObjectVariant.U input))
      else if ObjectVariant.kind input = DDS_XRCE_OBJK_DATAREADER
        then uxr_serialize_DATAREADER_Representation cdr (ObjectVariantU.data_reader (ObjectVariant.U input))
      else if ObjectVariant.kind input = DDS_XRCE_OBJK_REQUESTER
        then uxr_serialize_OBJK_REQUESTER_Representation cdr (ObjectVariantU.requester (ObjectVariant.U input))
      else if ObjectVariant.kind input = DDS_XRCE_OBJK_REPLIER
        then uxr_serialize_OBJK_REPLIER_Representation cdr (ObjectVariantU.replier (ObjectVariant.U input))
      else ser_nothing)"

definition uxr_deserialize_ObjectVariant :: "ucdr \<Rightarrow> ObjectVariant des" where
  "uxr_deserialize_ObjectVariant cdr = des_then (des_field ObjectVariant.kind ObjectVariant.kind_update (ucdr_deserialize_uint8_t cdr))
     (des_if (\<lambda>output. ObjectVariant.kind output = DDS_XRCE_OBJK_AGENT)
        (des_field (ObjectVariantU.agent \<circ> ObjectVariant.U) (ObjectVariant.U_update \<circ> ObjectVariantU.agent_update) (uxr_deserialize_AGENT_Representation cdr))
     (des_if (\<lambda>output. ObjectVariant.kind output = DDS_XRCE_OBJK_CLIENT)
        (des_field (ObjectVariantU.client \<circ> ObjectVariant.U) (ObjectVariant.U_update \<circ> ObjectVariantU.client_update) (uxr_deserialize_CLIENT_Representation cdr))
     (des_if (\<lambda>output. ObjectVariant.kind output = DDS_XRCE_OBJK_APPLICATION)
        (des_field (ObjectVariantU.application \<circ> ObjectVariant.U) (ObjectVariant.U_update \<circ> ObjectVariantU.application_update) (uxr_deserialize_OBJK_APPLICATION_Representation cdr))
     (des_if (\<lambda>output. ObjectVariant.kind output = DDS_XRCE_OBJK_PARTICIPANT)
        (des_field (ObjectVariantU.participant \<circ> ObjectVariant.U) (ObjectVariant.U_update \<circ> ObjectVariantU.participant_update) (uxr_deserialize_OBJK_PARTICIPANT_Representation cdr))
     (des_if (\<lambda>output. ObjectVariant.kind output = DDS_XRCE_OBJK_QOSPROFILE)
        (des_field (ObjectVariantU.qos_profile \<circ> ObjectVariant.U) (ObjectVariant.U_update \<circ> ObjectVariantU.qos_profile_update) (uxr_deserialize_OBJK_QOSPROFILE_Representation cdr))
     (des_if (\<lambda>output. ObjectVariant.kind output = DDS_XRCE_OBJK_TYPE)
        (des_field (ObjectVariantU.type' \<circ> ObjectVariant.U) (ObjectVariant.U_update \<circ> ObjectVariantU.type'_update) (uxr_deserialize_OBJK_TYPE_Representation cdr))
     (des_if (\<lambda>output. ObjectVariant.kind output = DDS_XRCE_OBJK_TOPIC)
        (des_field (ObjectVariantU.topic \<circ> ObjectVariant.U) (ObjectVariant.U_update \<circ> ObjectVariantU.topic_update) (uxr_deserialize_OBJK_TOPIC_Representation cdr))
     (des_if (\<lambda>output. ObjectVariant.kind output = DDS_XRCE_OBJK_PUBLISHER)
        (des_field (ObjectVariantU.publisher \<circ> ObjectVariant.U) (ObjectVariant.U_update \<circ> ObjectVariantU.publisher_update) (uxr_deserialize_OBJK_PUBLISHER_Representation cdr))
     (des_if (\<lambda>output. ObjectVariant.kind output = DDS_XRCE_OBJK_SUBSCRIBER)
        (des_field (ObjectVariantU.subscriber \<circ> ObjectVariant.U) (ObjectVariant.U_update \<circ> ObjectVariantU.subscriber_update) (uxr_deserialize_OBJK_SUBSCRIBER_Representation cdr))
     (des_if (\<lambda>output. ObjectVariant.kind output = DDS_XRCE_OBJK_DATAWRITER)
        (des_field (ObjectVariantU.data_writer \<circ> ObjectVariant.U) (ObjectVariant.U_update \<circ> ObjectVariantU.data_writer_update) (uxr_deserialize_DATAWRITER_Representation cdr))
     (des_if (\<lambda>output. ObjectVariant.kind output = DDS_XRCE_OBJK_DATAREADER)
        (des_field (ObjectVariantU.data_reader \<circ> ObjectVariant.U) (ObjectVariant.U_update \<circ> ObjectVariantU.data_reader_update) (uxr_deserialize_DATAREADER_Representation cdr))
     (des_if (\<lambda>output. ObjectVariant.kind output = DDS_XRCE_OBJK_REQUESTER)
        (des_field (ObjectVariantU.requester \<circ> ObjectVariant.U) (ObjectVariant.U_update \<circ> ObjectVariantU.requester_update) (uxr_deserialize_OBJK_REQUESTER_Representation cdr))
     (des_if (\<lambda>output. ObjectVariant.kind output = DDS_XRCE_OBJK_REPLIER)
        (des_field (ObjectVariantU.replier \<circ> ObjectVariant.U) (ObjectVariant.U_update \<circ> ObjectVariantU.replier_update) (uxr_deserialize_OBJK_REPLIER_Representation cdr))
     des_nothing)))))))))))))"

definition uxr_serialize_CreationMode :: "ucdr \<Rightarrow> CreationMode \<Rightarrow> ser" where
  "uxr_serialize_CreationMode cdr input = ret_all
     [ucdr_serialize_bool cdr (CreationMode.reuse input),
      ucdr_serialize_bool cdr (CreationMode.replace input)]"

definition uxr_deserialize_CreationMode :: "ucdr \<Rightarrow> CreationMode des" where
  "uxr_deserialize_CreationMode cdr = des_all
     [des_field CreationMode.reuse CreationMode.reuse_update (ucdr_deserialize_bool cdr),
      des_field CreationMode.replace CreationMode.replace_update (ucdr_deserialize_bool cdr)]"

definition uxr_serialize_RequestId :: "ucdr \<Rightarrow> RequestId \<Rightarrow> ser" where
  "uxr_serialize_RequestId cdr input = ret_all
     [ucdr_serialize_array_uint8_t cdr (RequestId.data input) 2]"

definition uxr_deserialize_RequestId :: "ucdr \<Rightarrow> RequestId des" where
  "uxr_deserialize_RequestId cdr = des_all
     [des_field RequestId.data RequestId.data_update (ucdr_deserialize_array_uint8_t cdr 2)]"

definition uxr_serialize_ResultStatus :: "ucdr \<Rightarrow> ResultStatus \<Rightarrow> ser" where
  "uxr_serialize_ResultStatus cdr input = ret_all
     [ucdr_serialize_uint8_t cdr (ResultStatus.status input),
      ucdr_serialize_uint8_t cdr (ResultStatus.implementation_status input)]"

definition uxr_deserialize_ResultStatus :: "ucdr \<Rightarrow> ResultStatus des" where
  "uxr_deserialize_ResultStatus cdr = des_all
     [des_field ResultStatus.status ResultStatus.status_update (ucdr_deserialize_uint8_t cdr),
      des_field ResultStatus.implementation_status ResultStatus.implementation_status_update (ucdr_deserialize_uint8_t cdr)]"

definition uxr_serialize_BaseObjectRequest :: "ucdr \<Rightarrow> BaseObjectRequest \<Rightarrow> ser" where
  "uxr_serialize_BaseObjectRequest cdr input = ret_all
     [uxr_serialize_RequestId cdr (BaseObjectRequest.request_id input),
      uxr_serialize_ObjectId cdr (BaseObjectRequest.object_id input)]"

definition uxr_deserialize_BaseObjectRequest :: "ucdr \<Rightarrow> BaseObjectRequest des" where
  "uxr_deserialize_BaseObjectRequest cdr = des_all
     [des_field BaseObjectRequest.request_id BaseObjectRequest.request_id_update (uxr_deserialize_RequestId cdr),
      des_field BaseObjectRequest.object_id BaseObjectRequest.object_id_update (uxr_deserialize_ObjectId cdr)]"

definition uxr_serialize_AGENT_ActivityInfo :: "ucdr \<Rightarrow> AGENT_ActivityInfo \<Rightarrow> ser" where
  "uxr_serialize_AGENT_ActivityInfo cdr input = ret_all
     [ucdr_serialize_int16_t cdr (AGENT_ActivityInfo.availability input),
      uxr_serialize_TransportLocatorSeq cdr (AGENT_ActivityInfo.address_seq input)]"

definition uxr_deserialize_AGENT_ActivityInfo :: "ucdr \<Rightarrow> AGENT_ActivityInfo des" where
  "uxr_deserialize_AGENT_ActivityInfo cdr = des_all
     [des_field AGENT_ActivityInfo.availability AGENT_ActivityInfo.availability_update (ucdr_deserialize_int16_t cdr),
      des_field AGENT_ActivityInfo.address_seq AGENT_ActivityInfo.address_seq_update (uxr_deserialize_TransportLocatorSeq cdr)]"

definition uxr_serialize_DATAREADER_ActivityInfo :: "ucdr \<Rightarrow> DATAREADER_ActivityInfo \<Rightarrow> ser" where
  "uxr_serialize_DATAREADER_ActivityInfo cdr input = ret_all
     [ucdr_serialize_int16_t cdr (DATAREADER_ActivityInfo.highest_acked_num input)]"

definition uxr_deserialize_DATAREADER_ActivityInfo :: "ucdr \<Rightarrow> DATAREADER_ActivityInfo des" where
  "uxr_deserialize_DATAREADER_ActivityInfo cdr = des_all
     [des_field DATAREADER_ActivityInfo.highest_acked_num DATAREADER_ActivityInfo.highest_acked_num_update (ucdr_deserialize_int16_t cdr)]"

definition uxr_serialize_DATAWRITER_ActivityInfo :: "ucdr \<Rightarrow> DATAWRITER_ActivityInfo \<Rightarrow> ser" where
  "uxr_serialize_DATAWRITER_ActivityInfo cdr input = ret_all
     [ucdr_serialize_int16_t cdr (DATAWRITER_ActivityInfo.stream_seq_num input),
      ucdr_serialize_uint64_t cdr (DATAWRITER_ActivityInfo.sample_seq_num input)]"

definition uxr_deserialize_DATAWRITER_ActivityInfo :: "ucdr \<Rightarrow> DATAWRITER_ActivityInfo des" where
  "uxr_deserialize_DATAWRITER_ActivityInfo cdr = des_all
     [des_field DATAWRITER_ActivityInfo.stream_seq_num DATAWRITER_ActivityInfo.stream_seq_num_update (ucdr_deserialize_int16_t cdr),
      des_field DATAWRITER_ActivityInfo.sample_seq_num DATAWRITER_ActivityInfo.sample_seq_num_update (ucdr_deserialize_uint64_t cdr)]"

definition uxr_serialize_ActivityInfoVariant :: "ucdr \<Rightarrow> ActivityInfoVariant \<Rightarrow> ser" where
  "uxr_serialize_ActivityInfoVariant cdr input = ret_then (ucdr_serialize_uint8_t cdr (ActivityInfoVariant.kind input))
     (if ActivityInfoVariant.kind input = DDS_XRCE_OBJK_AGENT
        then uxr_serialize_AGENT_ActivityInfo cdr (ActivityInfoVariantU.agent (ActivityInfoVariant.U input))
      else if ActivityInfoVariant.kind input = DDS_XRCE_OBJK_DATAWRITER
        then uxr_serialize_DATAWRITER_ActivityInfo cdr (ActivityInfoVariantU.data_writer (ActivityInfoVariant.U input))
      else if ActivityInfoVariant.kind input = DDS_XRCE_OBJK_DATAREADER
        then uxr_serialize_DATAREADER_ActivityInfo cdr (ActivityInfoVariantU.data_reader (ActivityInfoVariant.U input))
      else ser_nothing)"

definition uxr_deserialize_ActivityInfoVariant :: "ucdr \<Rightarrow> ActivityInfoVariant des" where
  "uxr_deserialize_ActivityInfoVariant cdr = des_then (des_field ActivityInfoVariant.kind ActivityInfoVariant.kind_update (ucdr_deserialize_uint8_t cdr))
     (des_if (\<lambda>output. ActivityInfoVariant.kind output = DDS_XRCE_OBJK_AGENT)
        (des_field (ActivityInfoVariantU.agent \<circ> ActivityInfoVariant.U) (ActivityInfoVariant.U_update \<circ> ActivityInfoVariantU.agent_update) (uxr_deserialize_AGENT_ActivityInfo cdr))
     (des_if (\<lambda>output. ActivityInfoVariant.kind output = DDS_XRCE_OBJK_DATAWRITER)
        (des_field (ActivityInfoVariantU.data_writer \<circ> ActivityInfoVariant.U) (ActivityInfoVariant.U_update \<circ> ActivityInfoVariantU.data_writer_update) (uxr_deserialize_DATAWRITER_ActivityInfo cdr))
     (des_if (\<lambda>output. ActivityInfoVariant.kind output = DDS_XRCE_OBJK_DATAREADER)
        (des_field (ActivityInfoVariantU.data_reader \<circ> ActivityInfoVariant.U) (ActivityInfoVariant.U_update \<circ> ActivityInfoVariantU.data_reader_update) (uxr_deserialize_DATAREADER_ActivityInfo cdr))
     des_nothing)))"

definition uxr_serialize_ObjectInfo :: "ucdr \<Rightarrow> ObjectInfo \<Rightarrow> ser" where
  "uxr_serialize_ObjectInfo cdr input = ret_all
     [ucdr_serialize_bool cdr (ObjectInfo.optional_config input),
      ser_when (ObjectInfo.optional_config input)
        (uxr_serialize_ObjectVariant cdr (ObjectInfo.config input)),
      ucdr_serialize_bool cdr (ObjectInfo.optional_activity input),
      ser_when (ObjectInfo.optional_activity input)
        (uxr_serialize_ActivityInfoVariant cdr (ObjectInfo.activity input))]"

definition uxr_deserialize_ObjectInfo :: "ucdr \<Rightarrow> ObjectInfo des" where
  "uxr_deserialize_ObjectInfo cdr = des_all
     [des_field ObjectInfo.optional_config ObjectInfo.optional_config_update (ucdr_deserialize_bool cdr),
      des_when ObjectInfo.optional_config
        (des_field ObjectInfo.config ObjectInfo.config_update (uxr_deserialize_ObjectVariant cdr)),
      des_field ObjectInfo.optional_activity ObjectInfo.optional_activity_update (ucdr_deserialize_bool cdr),
      des_when ObjectInfo.optional_activity
        (des_field ObjectInfo.activity ObjectInfo.activity_update (uxr_deserialize_ActivityInfoVariant cdr))]"

definition uxr_serialize_BaseObjectReply :: "ucdr \<Rightarrow> BaseObjectReply \<Rightarrow> ser" where
  "uxr_serialize_BaseObjectReply cdr input = ret_all
     [uxr_serialize_BaseObjectRequest cdr (BaseObjectReply.related_request input),
      uxr_serialize_ResultStatus cdr (BaseObjectReply.result input)]"

definition uxr_deserialize_BaseObjectReply :: "ucdr \<Rightarrow> BaseObjectReply des" where
  "uxr_deserialize_BaseObjectReply cdr = des_all
     [des_field BaseObjectReply.related_request BaseObjectReply.related_request_update (uxr_deserialize_BaseObjectRequest cdr),
      des_field BaseObjectReply.result BaseObjectReply.result_update (uxr_deserialize_ResultStatus cdr)]"

definition uxr_serialize_DataDeliveryControl :: "ucdr \<Rightarrow> DataDeliveryControl \<Rightarrow> ser" where
  "uxr_serialize_DataDeliveryControl cdr input = ret_all
     [ucdr_serialize_uint16_t cdr (DataDeliveryControl.max_samples input),
      ucdr_serialize_uint16_t cdr (DataDeliveryControl.max_elapsed_time input),
      ucdr_serialize_uint16_t cdr (DataDeliveryControl.max_bytes_per_seconds input),
      ucdr_serialize_uint16_t cdr (DataDeliveryControl.min_pace_period input)]"

definition uxr_deserialize_DataDeliveryControl :: "ucdr \<Rightarrow> DataDeliveryControl des" where
  "uxr_deserialize_DataDeliveryControl cdr = des_all
     [des_field DataDeliveryControl.max_samples DataDeliveryControl.max_samples_update (ucdr_deserialize_uint16_t cdr),
      des_field DataDeliveryControl.max_elapsed_time DataDeliveryControl.max_elapsed_time_update (ucdr_deserialize_uint16_t cdr),
      des_field DataDeliveryControl.max_bytes_per_seconds DataDeliveryControl.max_bytes_per_seconds_update (ucdr_deserialize_uint16_t cdr),
      des_field DataDeliveryControl.min_pace_period DataDeliveryControl.min_pace_period_update (ucdr_deserialize_uint16_t cdr)]"

definition uxr_serialize_ReadSpecification :: "ucdr \<Rightarrow> ReadSpecification \<Rightarrow> ser" where
  "uxr_serialize_ReadSpecification cdr input = ret_all
     [ucdr_serialize_uint8_t cdr (ReadSpecification.preferred_stream_id input),
      ucdr_serialize_uint8_t cdr (ReadSpecification.data_format input),
      ucdr_serialize_bool cdr (ReadSpecification.optional_content_filter_expression input),
      ser_when (ReadSpecification.optional_content_filter_expression input)
        (ucdr_serialize_string cdr (ReadSpecification.content_filter_expression input)),
      ucdr_serialize_bool cdr (ReadSpecification.optional_delivery_control input),
      ser_when (ReadSpecification.optional_delivery_control input)
        (uxr_serialize_DataDeliveryControl cdr (ReadSpecification.delivery_control input))]"

definition uxr_deserialize_ReadSpecification :: "ucdr \<Rightarrow> ReadSpecification des" where
  "uxr_deserialize_ReadSpecification cdr = des_all
     [des_field ReadSpecification.preferred_stream_id ReadSpecification.preferred_stream_id_update (ucdr_deserialize_uint8_t cdr),
      des_field ReadSpecification.data_format ReadSpecification.data_format_update (ucdr_deserialize_uint8_t cdr),
      des_field ReadSpecification.optional_content_filter_expression ReadSpecification.optional_content_filter_expression_update (ucdr_deserialize_bool cdr),
      des_when ReadSpecification.optional_content_filter_expression
        (des_field ReadSpecification.content_filter_expression ReadSpecification.content_filter_expression_update (ucdr_deserialize_string cdr UXR_STRING_SIZE_MAX)),
      des_field ReadSpecification.optional_delivery_control ReadSpecification.optional_delivery_control_update (ucdr_deserialize_bool cdr),
      des_when ReadSpecification.optional_delivery_control
        (des_field ReadSpecification.delivery_control ReadSpecification.delivery_control_update (uxr_deserialize_DataDeliveryControl cdr))]"

definition uxr_serialize_SeqNumberAndTimestamp :: "ucdr \<Rightarrow> SeqNumberAndTimestamp \<Rightarrow> ser" where
  "uxr_serialize_SeqNumberAndTimestamp cdr input = ret_all
     [ucdr_serialize_uint32_t cdr (SeqNumberAndTimestamp.sequence_number input),
      ucdr_serialize_uint32_t cdr (SeqNumberAndTimestamp.session_time_offset input)]"

definition uxr_deserialize_SeqNumberAndTimestamp :: "ucdr \<Rightarrow> SeqNumberAndTimestamp des" where
  "uxr_deserialize_SeqNumberAndTimestamp cdr = des_all
     [des_field SeqNumberAndTimestamp.sequence_number SeqNumberAndTimestamp.sequence_number_update (ucdr_deserialize_uint32_t cdr),
      des_field SeqNumberAndTimestamp.session_time_offset SeqNumberAndTimestamp.session_time_offset_update (ucdr_deserialize_uint32_t cdr)]"

definition uxr_serialize_SampleInfoDetail :: "ucdr \<Rightarrow> SampleInfoDetail \<Rightarrow> ser" where
  "uxr_serialize_SampleInfoDetail cdr input = ret_then (ucdr_serialize_uint32_t cdr (SampleInfoDetail.format input))
     (if SampleInfoDetail.format input = FORMAT_EMPTY
        then ucdr_serialize_uint32_t cdr (SampleInfoDetailU.sequence_number (SampleInfoDetail.U input))
      else if SampleInfoDetail.format input = FORMAT_SEQNUM
        then ucdr_serialize_uint32_t cdr (SampleInfoDetailU.session_time_offset (SampleInfoDetail.U input))
      else if SampleInfoDetail.format input = FORMAT_TIMESTAMP
        then uxr_serialize_SeqNumberAndTimestamp cdr (SampleInfoDetailU.seqnum_n_timestamp (SampleInfoDetail.U input))
      else ser_nothing)"

definition uxr_deserialize_SampleInfoDetail :: "ucdr \<Rightarrow> SampleInfoDetail des" where
  "uxr_deserialize_SampleInfoDetail cdr = des_then (des_field SampleInfoDetail.format SampleInfoDetail.format_update (ucdr_deserialize_uint32_t cdr))
     (des_if (\<lambda>output. SampleInfoDetail.format output = FORMAT_EMPTY)
        (des_field (SampleInfoDetailU.sequence_number \<circ> SampleInfoDetail.U) (SampleInfoDetail.U_update \<circ> SampleInfoDetailU.sequence_number_update) (ucdr_deserialize_uint32_t cdr))
     (des_if (\<lambda>output. SampleInfoDetail.format output = FORMAT_SEQNUM)
        (des_field (SampleInfoDetailU.session_time_offset \<circ> SampleInfoDetail.U) (SampleInfoDetail.U_update \<circ> SampleInfoDetailU.session_time_offset_update) (ucdr_deserialize_uint32_t cdr))
     (des_if (\<lambda>output. SampleInfoDetail.format output = FORMAT_TIMESTAMP)
        (des_field (SampleInfoDetailU.seqnum_n_timestamp \<circ> SampleInfoDetail.U) (SampleInfoDetail.U_update \<circ> SampleInfoDetailU.seqnum_n_timestamp_update) (uxr_deserialize_SeqNumberAndTimestamp cdr))
     des_nothing)))"

definition uxr_serialize_SampleInfo :: "ucdr \<Rightarrow> SampleInfo \<Rightarrow> ser" where
  "uxr_serialize_SampleInfo cdr input = ret_all
     [ucdr_serialize_uint8_t cdr (SampleInfo.state' input),
      uxr_serialize_SampleInfoDetail cdr (SampleInfo.detail input)]"

definition uxr_deserialize_SampleInfo :: "ucdr \<Rightarrow> SampleInfo des" where
  "uxr_deserialize_SampleInfo cdr = des_all
     [des_field SampleInfo.state' SampleInfo.state'_update (ucdr_deserialize_uint8_t cdr),
      des_field SampleInfo.detail SampleInfo.detail_update (uxr_deserialize_SampleInfoDetail cdr)]"

definition uxr_serialize_SampleInfoDelta :: "ucdr \<Rightarrow> SampleInfoDelta \<Rightarrow> ser" where
  "uxr_serialize_SampleInfoDelta cdr input = ret_all
     [ucdr_serialize_uint8_t cdr (SampleInfoDelta.state' input),
      ucdr_serialize_uint8_t cdr (SampleInfoDelta.seq_number_delta input),
      ucdr_serialize_uint16_t cdr (SampleInfoDelta.timestamp_delta input)]"

definition uxr_deserialize_SampleInfoDelta :: "ucdr \<Rightarrow> SampleInfoDelta des" where
  "uxr_deserialize_SampleInfoDelta cdr = des_all
     [des_field SampleInfoDelta.state' SampleInfoDelta.state'_update (ucdr_deserialize_uint8_t cdr),
      des_field SampleInfoDelta.seq_number_delta SampleInfoDelta.seq_number_delta_update (ucdr_deserialize_uint8_t cdr),
      des_field SampleInfoDelta.timestamp_delta SampleInfoDelta.timestamp_delta_update (ucdr_deserialize_uint16_t cdr)]"

definition uxr_serialize_SampleData :: "ucdr \<Rightarrow> SampleData \<Rightarrow> ser" where
  "uxr_serialize_SampleData cdr input = ucdr_serialize_sequence_uint8_t cdr (SampleData.data input) (SampleData.size' input)"

definition uxr_deserialize_SampleData :: "ucdr \<Rightarrow> SampleData des" where
  "uxr_deserialize_SampleData cdr = des_bytes cdr UXR_SAMPLE_DATA_SIZE_MAX SampleData.data SampleData.data_update SampleData.size' SampleData.size'_update"

definition uxr_serialize_SampleDataSeq :: "ucdr \<Rightarrow> SampleDataSeq \<Rightarrow> ser" where
  "uxr_serialize_SampleDataSeq cdr input = ser_counted cdr (SampleDataSeq.size' input) (\<lambda>i. uxr_serialize_SampleData cdr (SampleDataSeq.data input i))"

definition uxr_deserialize_SampleDataSeq :: "ucdr \<Rightarrow> SampleDataSeq des" where
  "uxr_deserialize_SampleDataSeq cdr = des_counted cdr UXR_SAMPLE_DATA_SEQUENCE_MAX SampleDataSeq.size' SampleDataSeq.size'_update
     (des_item SampleDataSeq.data SampleDataSeq.data_update (uxr_deserialize_SampleData cdr))"

definition uxr_serialize_Sample :: "ucdr \<Rightarrow> Sample \<Rightarrow> ser" where
  "uxr_serialize_Sample cdr input = ret_all
     [uxr_serialize_SampleInfo cdr (Sample.info input),
      uxr_serialize_SampleData cdr (Sample.data input)]"

definition uxr_deserialize_Sample :: "ucdr \<Rightarrow> Sample des" where
  "uxr_deserialize_Sample cdr = des_all
     [des_field Sample.info Sample.info_update (uxr_deserialize_SampleInfo cdr),
      des_field Sample.data Sample.data_update (uxr_deserialize_SampleData cdr)]"

definition uxr_serialize_SampleSeq :: "ucdr \<Rightarrow> SampleSeq \<Rightarrow> ser" where
  "uxr_serialize_SampleSeq cdr input = ser_counted cdr (SampleSeq.size' input) (\<lambda>i. uxr_serialize_Sample cdr (SampleSeq.data input i))"

definition uxr_deserialize_SampleSeq :: "ucdr \<Rightarrow> SampleSeq des" where
  "uxr_deserialize_SampleSeq cdr = des_counted cdr UXR_SAMPLE_SEQUENCE_MAX SampleSeq.size' SampleSeq.size'_update
     (des_item SampleSeq.data SampleSeq.data_update (uxr_deserialize_Sample cdr))"

definition uxr_serialize_SampleDelta :: "ucdr \<Rightarrow> SampleDelta \<Rightarrow> ser" where
  "uxr_serialize_SampleDelta cdr input = ret_all
     [uxr_serialize_SampleInfoDelta cdr (SampleDelta.info_delta input),
      uxr_serialize_SampleData cdr (SampleDelta.data input)]"

definition uxr_deserialize_SampleDelta :: "ucdr \<Rightarrow> SampleDelta des" where
  "uxr_deserialize_SampleDelta cdr = des_all
     [des_field SampleDelta.info_delta SampleDelta.info_delta_update (uxr_deserialize_SampleInfoDelta cdr),
      des_field SampleDelta.data SampleDelta.data_update (uxr_deserialize_SampleData cdr)]"

definition uxr_serialize_SampleDeltaSequence :: "ucdr \<Rightarrow> SampleDeltaSequence \<Rightarrow> ser" where
  "uxr_serialize_SampleDeltaSequence cdr input = ser_counted cdr (SampleDeltaSequence.size' input) (\<lambda>i. uxr_serialize_SampleDelta cdr (SampleDeltaSequence.data input i))"

definition uxr_deserialize_SampleDeltaSequence :: "ucdr \<Rightarrow> SampleDeltaSequence des" where
  "uxr_deserialize_SampleDeltaSequence cdr = des_counted cdr UXR_SAMPLE_DELTA_SEQUENCE_MAX SampleDeltaSequence.size' SampleDeltaSequence.size'_update
     (des_item SampleDeltaSequence.data SampleDeltaSequence.data_update (uxr_deserialize_SampleDelta cdr))"

definition uxr_serialize_PackedSamples :: "ucdr \<Rightarrow> PackedSamples \<Rightarrow> ser" where
  "uxr_serialize_PackedSamples cdr input = ret_all
     [uxr_serialize_SampleInfo cdr (PackedSamples.info_base input),
      uxr_serialize_SampleDeltaSequence cdr (PackedSamples.sample_delta_seq input)]"

definition uxr_deserialize_PackedSamples :: "ucdr \<Rightarrow> PackedSamples des" where
  "uxr_deserialize_PackedSamples cdr = des_all
     [des_field PackedSamples.info_base PackedSamples.info_base_update (uxr_deserialize_SampleInfo cdr),
      des_field PackedSamples.sample_delta_seq PackedSamples.sample_delta_seq_update (uxr_deserialize_SampleDeltaSequence cdr)]"

definition uxr_serialize_SamplePackedSeq :: "ucdr \<Rightarrow> SamplePackedSeq \<Rightarrow> ser" where
  "uxr_serialize_SamplePackedSeq cdr input = ser_counted cdr (SamplePackedSeq.size' input) (\<lambda>i. uxr_serialize_PackedSamples cdr (SamplePackedSeq.data input i))"

definition uxr_deserialize_SamplePackedSeq :: "ucdr \<Rightarrow> SamplePackedSeq des" where
  "uxr_deserialize_SamplePackedSeq cdr = des_counted cdr UXR_PACKED_SAMPLES_SEQUENCE_MAX SamplePackedSeq.size' SamplePackedSeq.size'_update
     (des_item SamplePackedSeq.data SamplePackedSeq.data_update (uxr_deserialize_PackedSamples cdr))"

definition uxr_serialize_DataRepresentation :: "ucdr \<Rightarrow> DataRepresentation \<Rightarrow> ser" where
  "uxr_serialize_DataRepresentation cdr input = ret_then (ucdr_serialize_uint8_t cdr (DataRepresentation.format input))
     (if DataRepresentation.format input = FORMAT_DATA
        then uxr_serialize_SampleData cdr (DataRepresentationU.data (DataRepresentation.U input))
      else if DataRepresentation.format input = FORMAT_SAMPLE
        then uxr_serialize_Sample cdr (DataRepresentationU.sample (DataRepresentation.U input))
      else if DataRepresentation.format input = FORMAT_DATA_SEQ
        then uxr_serialize_SampleDataSeq cdr (DataRepresentationU.data_seq (DataRepresentation.U input))
      else if DataRepresentation.format input = FORMAT_SAMPLE_SEQ
        then uxr_serialize_SampleSeq cdr (DataRepresentationU.sample_seq (DataRepresentation.U input))
      else if DataRepresentation.format input = FORMAT_PACKED_SAMPLES
        then uxr_serialize_PackedSamples cdr (DataRepresentationU.packed_samples (DataRepresentation.U input))
      else ser_nothing)"

definition uxr_deserialize_DataRepresentation :: "ucdr \<Rightarrow> DataRepresentation des" where
  "uxr_deserialize_DataRepresentation cdr = des_then (des_field DataRepresentation.format DataRepresentation.format_update (ucdr_deserialize_uint8_t cdr))
     (des_if (\<lambda>output. DataRepresentation.format output = FORMAT_DATA)
        (des_field (DataRepresentationU.data \<circ> DataRepresentation.U) (DataRepresentation.U_update \<circ> DataRepresentationU.data_update) (uxr_deserialize_SampleData cdr))
     (des_if (\<lambda>output. DataRepresentation.format output = FORMAT_SAMPLE)
        (des_field (DataRepresentationU.sample \<circ> DataRepresentation.U) (DataRepresentation.U_update \<circ> DataRepresentationU.sample_update) (uxr_deserialize_Sample cdr))
     (des_if (\<lambda>output. DataRepresentation.format output = FORMAT_DATA_SEQ)
        (des_field (DataRepresentationU.data_seq \<circ> DataRepresentation.U) (DataRepresentation.U_update \<circ> DataRepresentationU.data_seq_update) (uxr_deserialize_SampleDataSeq cdr))
     (des_if (\<lambda>output. DataRepresentation.format output = FORMAT_SAMPLE_SEQ)
        (des_field (DataRepresentationU.sample_seq \<circ> DataRepresentation.U) (DataRepresentation.U_update \<circ> DataRepresentationU.sample_seq_update) (uxr_deserialize_SampleSeq cdr))
     (des_if (\<lambda>output. DataRepresentation.format output = FORMAT_PACKED_SAMPLES)
        (des_field (DataRepresentationU.packed_samples \<circ> DataRepresentation.U) (DataRepresentation.U_update \<circ> DataRepresentationU.packed_samples_update) (uxr_deserialize_PackedSamples cdr))
     des_nothing)))))"

definition uxr_serialize_CREATE_CLIENT_Payload :: "ucdr \<Rightarrow> CREATE_CLIENT_Payload \<Rightarrow> ser" where
  "uxr_serialize_CREATE_CLIENT_Payload cdr input = ret_all
     [uxr_serialize_CLIENT_Representation cdr (CREATE_CLIENT_Payload.client_representation input)]"

definition uxr_deserialize_CREATE_CLIENT_Payload :: "ucdr \<Rightarrow> CREATE_CLIENT_Payload des" where
  "uxr_deserialize_CREATE_CLIENT_Payload cdr = des_all
     [des_field CREATE_CLIENT_Payload.client_representation CREATE_CLIENT_Payload.client_representation_update (uxr_deserialize_CLIENT_Representation cdr)]"

definition uxr_serialize_CREATE_Payload :: "ucdr \<Rightarrow> CREATE_Payload \<Rightarrow> ser" where
  "uxr_serialize_CREATE_Payload cdr input = ret_all
     [uxr_serialize_BaseObjectRequest cdr (CREATE_Payload.base input),
      uxr_serialize_ObjectVariant cdr (CREATE_Payload.object_representation input)]"

definition uxr_deserialize_CREATE_Payload :: "ucdr \<Rightarrow> CREATE_Payload des" where
  "uxr_deserialize_CREATE_Payload cdr = des_all
     [des_field CREATE_Payload.base CREATE_Payload.base_update (uxr_deserialize_BaseObjectRequest cdr),
      des_field CREATE_Payload.object_representation CREATE_Payload.object_representation_update (uxr_deserialize_ObjectVariant cdr)]"

definition uxr_serialize_GET_INFO_Payload :: "ucdr \<Rightarrow> GET_INFO_Payload \<Rightarrow> ser" where
  "uxr_serialize_GET_INFO_Payload cdr input = ret_all
     [uxr_serialize_BaseObjectRequest cdr (GET_INFO_Payload.base input),
      ucdr_serialize_uint32_t cdr (GET_INFO_Payload.info_mask input)]"

definition uxr_deserialize_GET_INFO_Payload :: "ucdr \<Rightarrow> GET_INFO_Payload des" where
  "uxr_deserialize_GET_INFO_Payload cdr = des_all
     [des_field GET_INFO_Payload.base GET_INFO_Payload.base_update (uxr_deserialize_BaseObjectRequest cdr),
      des_field GET_INFO_Payload.info_mask GET_INFO_Payload.info_mask_update (ucdr_deserialize_uint32_t cdr)]"

definition uxr_serialize_DELETE_Payload :: "ucdr \<Rightarrow> DELETE_Payload \<Rightarrow> ser" where
  "uxr_serialize_DELETE_Payload cdr input = ret_all
     [uxr_serialize_BaseObjectRequest cdr (DELETE_Payload.base input)]"

definition uxr_deserialize_DELETE_Payload :: "ucdr \<Rightarrow> DELETE_Payload des" where
  "uxr_deserialize_DELETE_Payload cdr = des_all
     [des_field DELETE_Payload.base DELETE_Payload.base_update (uxr_deserialize_BaseObjectRequest cdr)]"

definition uxr_serialize_STATUS_AGENT_Payload :: "ucdr \<Rightarrow> STATUS_AGENT_Payload \<Rightarrow> ser" where
  "uxr_serialize_STATUS_AGENT_Payload cdr input = ret_all
     [uxr_serialize_ResultStatus cdr (STATUS_AGENT_Payload.result input),
      uxr_serialize_AGENT_Representation cdr (STATUS_AGENT_Payload.agent_info input)]"

definition uxr_deserialize_STATUS_AGENT_Payload :: "ucdr \<Rightarrow> STATUS_AGENT_Payload des" where
  "uxr_deserialize_STATUS_AGENT_Payload cdr = des_all
     [des_field STATUS_AGENT_Payload.result STATUS_AGENT_Payload.result_update (uxr_deserialize_ResultStatus cdr),
      des_field STATUS_AGENT_Payload.agent_info STATUS_AGENT_Payload.agent_info_update (uxr_deserialize_AGENT_Representation cdr)]"

definition uxr_serialize_STATUS_Payload :: "ucdr \<Rightarrow> STATUS_Payload \<Rightarrow> ser" where
  "uxr_serialize_STATUS_Payload cdr input = ret_all
     [uxr_serialize_BaseObjectReply cdr (STATUS_Payload.base input)]"

definition uxr_deserialize_STATUS_Payload :: "ucdr \<Rightarrow> STATUS_Payload des" where
  "uxr_deserialize_STATUS_Payload cdr = des_all
     [des_field STATUS_Payload.base STATUS_Payload.base_update (uxr_deserialize_BaseObjectReply cdr)]"

definition uxr_serialize_INFO_Payload :: "ucdr \<Rightarrow> INFO_Payload \<Rightarrow> ser" where
  "uxr_serialize_INFO_Payload cdr input = ret_all
     [uxr_serialize_BaseObjectReply cdr (INFO_Payload.base input),
      uxr_serialize_ObjectInfo cdr (INFO_Payload.object_info input)]"

definition uxr_deserialize_INFO_Payload :: "ucdr \<Rightarrow> INFO_Payload des" where
  "uxr_deserialize_INFO_Payload cdr = des_all
     [des_field INFO_Payload.base INFO_Payload.base_update (uxr_deserialize_BaseObjectReply cdr),
      des_field INFO_Payload.object_info INFO_Payload.object_info_update (uxr_deserialize_ObjectInfo cdr)]"

definition uxr_serialize_READ_DATA_Payload :: "ucdr \<Rightarrow> READ_DATA_Payload \<Rightarrow> ser" where
  "uxr_serialize_READ_DATA_Payload cdr input = ret_all
     [uxr_serialize_BaseObjectRequest cdr (READ_DATA_Payload.base input),
      uxr_serialize_ReadSpecification cdr (READ_DATA_Payload.read_specification input)]"

definition uxr_deserialize_READ_DATA_Payload :: "ucdr \<Rightarrow> READ_DATA_Payload des" where
  "uxr_deserialize_READ_DATA_Payload cdr = des_all
     [des_field READ_DATA_Payload.base READ_DATA_Payload.base_update (uxr_deserialize_BaseObjectRequest cdr),
      des_field READ_DATA_Payload.read_specification READ_DATA_Payload.read_specification_update (uxr_deserialize_ReadSpecification cdr)]"

definition uxr_serialize_WRITE_DATA_Payload_Data :: "ucdr \<Rightarrow> WRITE_DATA_Payload_Data \<Rightarrow> ser" where
  "uxr_serialize_WRITE_DATA_Payload_Data cdr input = ret_all
     [uxr_serialize_BaseObjectRequest cdr (WRITE_DATA_Payload_Data.base input)]"

definition uxr_deserialize_WRITE_DATA_Payload_Data :: "ucdr \<Rightarrow> WRITE_DATA_Payload_Data des" where
  "uxr_deserialize_WRITE_DATA_Payload_Data cdr = des_all
     [des_field WRITE_DATA_Payload_Data.base WRITE_DATA_Payload_Data.base_update (uxr_deserialize_BaseObjectRequest cdr)]"

definition uxr_serialize_WRITE_DATA_Payload_Sample :: "ucdr \<Rightarrow> WRITE_DATA_Payload_Sample \<Rightarrow> ser" where
  "uxr_serialize_WRITE_DATA_Payload_Sample cdr input = ret_all
     [uxr_serialize_BaseObjectRequest cdr (WRITE_DATA_Payload_Sample.base input),
      uxr_serialize_Sample cdr (WRITE_DATA_Payload_Sample.sample input)]"

definition uxr_deserialize_WRITE_DATA_Payload_Sample :: "ucdr \<Rightarrow> WRITE_DATA_Payload_Sample des" where
  "uxr_deserialize_WRITE_DATA_Payload_Sample cdr = des_all
     [des_field WRITE_DATA_Payload_Sample.base WRITE_DATA_Payload_Sample.base_update (uxr_deserialize_BaseObjectRequest cdr),
      des_field WRITE_DATA_Payload_Sample.sample WRITE_DATA_Payload_Sample.sample_update (uxr_deserialize_Sample cdr)]"

definition uxr_serialize_WRITE_DATA_Payload_DataSeq :: "ucdr \<Rightarrow> WRITE_DATA_Payload_DataSeq \<Rightarrow> ser" where
  "uxr_serialize_WRITE_DATA_Payload_DataSeq cdr input = ret_all
     [uxr_serialize_BaseObjectRequest cdr (WRITE_DATA_Payload_DataSeq.base input),
      uxr_serialize_SampleDataSeq cdr (WRITE_DATA_Payload_DataSeq.data_seq input)]"

definition uxr_deserialize_WRITE_DATA_Payload_DataSeq :: "ucdr \<Rightarrow> WRITE_DATA_Payload_DataSeq des" where
  "uxr_deserialize_WRITE_DATA_Payload_DataSeq cdr = des_all
     [des_field WRITE_DATA_Payload_DataSeq.base WRITE_DATA_Payload_DataSeq.base_update (uxr_deserialize_BaseObjectRequest cdr),
      des_field WRITE_DATA_Payload_DataSeq.data_seq WRITE_DATA_Payload_DataSeq.data_seq_update (uxr_deserialize_SampleDataSeq cdr)]"

definition uxr_serialize_WRITE_DATA_Payload_SampleSeq :: "ucdr \<Rightarrow> WRITE_DATA_Payload_SampleSeq \<Rightarrow> ser" where
  "uxr_serialize_WRITE_DATA_Payload_SampleSeq cdr input = ret_all
     [uxr_serialize_BaseObjectRequest cdr (WRITE_DATA_Payload_SampleSeq.base input),
      uxr_serialize_SampleSeq cdr (WRITE_DATA_Payload_SampleSeq.sample_seq input)]"

definition uxr_deserialize_WRITE_DATA_Payload_SampleSeq :: "ucdr \<Rightarrow> WRITE_DATA_Payload_SampleSeq des" where
  "uxr_deserialize_WRITE_DATA_Payload_SampleSeq cdr = des_all
     [des_field WRITE_DATA_Payload_SampleSeq.base WRITE_DATA_Payload_SampleSeq.base_update (uxr_deserialize_BaseObjectRequest cdr),
      des_field WRITE_DATA_Payload_SampleSeq.sample_seq WRITE_DATA_Payload_SampleSeq.sample_seq_update (uxr_deserialize_SampleSeq cdr)]"

definition uxr_serialize_WRITE_DATA_Payload_PackedSamples :: "ucdr \<Rightarrow> WRITE_DATA_Payload_PackedSamples \<Rightarrow> ser" where
  "uxr_serialize_WRITE_DATA_Payload_PackedSamples cdr input = ret_all
     [uxr_serialize_BaseObjectRequest cdr (WRITE_DATA_Payload_PackedSamples.base input),
      uxr_serialize_PackedSamples cdr (WRITE_DATA_Payload_PackedSamples.packed_samples input)]"

definition uxr_deserialize_WRITE_DATA_Payload_PackedSamples :: "ucdr \<Rightarrow> WRITE_DATA_Payload_PackedSamples des" where
  "uxr_deserialize_WRITE_DATA_Payload_PackedSamples cdr = des_all
     [des_field WRITE_DATA_Payload_PackedSamples.base WRITE_DATA_Payload_PackedSamples.base_update (uxr_deserialize_BaseObjectRequest cdr),
      des_field WRITE_DATA_Payload_PackedSamples.packed_samples WRITE_DATA_Payload_PackedSamples.packed_samples_update (uxr_deserialize_PackedSamples cdr)]"

definition uxr_serialize_DATA_Payload_Data :: "ucdr \<Rightarrow> DATA_Payload_Data \<Rightarrow> ser" where
  "uxr_serialize_DATA_Payload_Data cdr input = ret_all
     [uxr_serialize_BaseObjectRequest cdr (DATA_Payload_Data.base input)]"

definition uxr_deserialize_DATA_Payload_Data :: "ucdr \<Rightarrow> DATA_Payload_Data des" where
  "uxr_deserialize_DATA_Payload_Data cdr = des_all
     [des_field DATA_Payload_Data.base DATA_Payload_Data.base_update (uxr_deserialize_BaseObjectRequest cdr)]"

definition uxr_serialize_DATA_Payload_Sample :: "ucdr \<Rightarrow> DATA_Payload_Sample \<Rightarrow> ser" where
  "uxr_serialize_DATA_Payload_Sample cdr input = ret_all
     [uxr_serialize_BaseObjectRequest cdr (DATA_Payload_Sample.base input),
      uxr_serialize_Sample cdr (DATA_Payload_Sample.sample input)]"

definition uxr_deserialize_DATA_Payload_Sample :: "ucdr \<Rightarrow> DATA_Payload_Sample des" where
  "uxr_deserialize_DATA_Payload_Sample cdr = des_all
     [des_field DATA_Payload_Sample.base DATA_Payload_Sample.base_update (uxr_deserialize_BaseObjectRequest cdr),
      des_field DATA_Payload_Sample.sample DATA_Payload_Sample.sample_update (uxr_deserialize_Sample cdr)]"

definition uxr_serialize_DATA_Payload_DataSeq :: "ucdr \<Rightarrow> DATA_Payload_DataSeq \<Rightarrow> ser" where
  "uxr_serialize_DATA_Payload_DataSeq cdr input = ret_all
     [uxr_serialize_BaseObjectRequest cdr (DATA_Payload_DataSeq.base input),
      uxr_serialize_SampleDataSeq cdr (DATA_Payload_DataSeq.data_seq input)]"

definition uxr_deserialize_DATA_Payload_DataSeq :: "ucdr \<Rightarrow> DATA_Payload_DataSeq des" where
  "uxr_deserialize_DATA_Payload_DataSeq cdr = des_all
     [des_field DATA_Payload_DataSeq.base DATA_Payload_DataSeq.base_update (uxr_deserialize_BaseObjectRequest cdr),
      des_field DATA_Payload_DataSeq.data_seq DATA_Payload_DataSeq.data_seq_update (uxr_deserialize_SampleDataSeq cdr)]"

definition uxr_serialize_DATA_Payload_SampleSeq :: "ucdr \<Rightarrow> DATA_Payload_SampleSeq \<Rightarrow> ser" where
  "uxr_serialize_DATA_Payload_SampleSeq cdr input = ret_all
     [uxr_serialize_BaseObjectRequest cdr (DATA_Payload_SampleSeq.base input),
      uxr_serialize_SampleSeq cdr (DATA_Payload_SampleSeq.sample_seq input)]"

definition uxr_deserialize_DATA_Payload_SampleSeq :: "ucdr \<Rightarrow> DATA_Payload_SampleSeq des" where
  "uxr_deserialize_DATA_Payload_SampleSeq cdr = des_all
     [des_field DATA_Payload_SampleSeq.base DATA_Payload_SampleSeq.base_update (uxr_deserialize_BaseObjectRequest cdr),
      des_field DATA_Payload_SampleSeq.sample_seq DATA_Payload_SampleSeq.sample_seq_update (uxr_deserialize_SampleSeq cdr)]"

definition uxr_serialize_DATA_Payload_PackedSamples :: "ucdr \<Rightarrow> DATA_Payload_PackedSamples \<Rightarrow> ser" where
  "uxr_serialize_DATA_Payload_PackedSamples cdr input = ret_all
     [uxr_serialize_BaseObjectRequest cdr (DATA_Payload_PackedSamples.base input),
      uxr_serialize_PackedSamples cdr (DATA_Payload_PackedSamples.packed_samples input)]"

definition uxr_deserialize_DATA_Payload_PackedSamples :: "ucdr \<Rightarrow> DATA_Payload_PackedSamples des" where
  "uxr_deserialize_DATA_Payload_PackedSamples cdr = des_all
     [des_field DATA_Payload_PackedSamples.base DATA_Payload_PackedSamples.base_update (uxr_deserialize_BaseObjectRequest cdr),
      des_field DATA_Payload_PackedSamples.packed_samples DATA_Payload_PackedSamples.packed_samples_update (uxr_deserialize_PackedSamples cdr)]"

definition uxr_serialize_ACKNACK_Payload :: "ucdr \<Rightarrow> ACKNACK_Payload \<Rightarrow> ser" where
  "uxr_serialize_ACKNACK_Payload cdr input = ret_all
     [ucdr_serialize_uint16_t cdr (ACKNACK_Payload.first_unacked_seq_num input),
      ucdr_serialize_array_uint8_t cdr (ACKNACK_Payload.nack_bitmap input) 2,
      ucdr_serialize_uint8_t cdr (ACKNACK_Payload.stream_id input)]"

definition uxr_deserialize_ACKNACK_Payload :: "ucdr \<Rightarrow> ACKNACK_Payload des" where
  "uxr_deserialize_ACKNACK_Payload cdr = des_all
     [des_field ACKNACK_Payload.first_unacked_seq_num ACKNACK_Payload.first_unacked_seq_num_update (ucdr_deserialize_uint16_t cdr),
      des_field ACKNACK_Payload.nack_bitmap ACKNACK_Payload.nack_bitmap_update (ucdr_deserialize_array_uint8_t cdr 2),
      des_field ACKNACK_Payload.stream_id ACKNACK_Payload.stream_id_update (ucdr_deserialize_uint8_t cdr)]"

definition uxr_serialize_HEARTBEAT_Payload :: "ucdr \<Rightarrow> HEARTBEAT_Payload \<Rightarrow> ser" where
  "uxr_serialize_HEARTBEAT_Payload cdr input = ret_all
     [ucdr_serialize_uint16_t cdr (HEARTBEAT_Payload.first_unacked_seq_nr input),
      ucdr_serialize_uint16_t cdr (HEARTBEAT_Payload.last_unacked_seq_nr input),
      ucdr_serialize_uint8_t cdr (HEARTBEAT_Payload.stream_id input)]"

definition uxr_deserialize_HEARTBEAT_Payload :: "ucdr \<Rightarrow> HEARTBEAT_Payload des" where
  "uxr_deserialize_HEARTBEAT_Payload cdr = des_all
     [des_field HEARTBEAT_Payload.first_unacked_seq_nr HEARTBEAT_Payload.first_unacked_seq_nr_update (ucdr_deserialize_uint16_t cdr),
      des_field HEARTBEAT_Payload.last_unacked_seq_nr HEARTBEAT_Payload.last_unacked_seq_nr_update (ucdr_deserialize_uint16_t cdr),
      des_field HEARTBEAT_Payload.stream_id HEARTBEAT_Payload.stream_id_update (ucdr_deserialize_uint8_t cdr)]"

definition uxr_serialize_TIMESTAMP_Payload :: "ucdr \<Rightarrow> TIMESTAMP_Payload \<Rightarrow> ser" where
  "uxr_serialize_TIMESTAMP_Payload cdr input = ret_all
     [uxr_serialize_Time_t cdr (TIMESTAMP_Payload.transmit_timestamp input)]"

definition uxr_deserialize_TIMESTAMP_Payload :: "ucdr \<Rightarrow> TIMESTAMP_Payload des" where
  "uxr_deserialize_TIMESTAMP_Payload cdr = des_all
     [des_field TIMESTAMP_Payload.transmit_timestamp TIMESTAMP_Payload.transmit_timestamp_update (uxr_deserialize_Time_t cdr)]"

definition uxr_serialize_TIMESTAMP_REPLY_Payload :: "ucdr \<Rightarrow> TIMESTAMP_REPLY_Payload \<Rightarrow> ser" where
  "uxr_serialize_TIMESTAMP_REPLY_Payload cdr input = ret_all
     [uxr_serialize_Time_t cdr (TIMESTAMP_REPLY_Payload.transmit_timestamp input),
      uxr_serialize_Time_t cdr (TIMESTAMP_REPLY_Payload.receive_timestamp input),
      uxr_serialize_Time_t cdr (TIMESTAMP_REPLY_Payload.originate_timestamp input)]"

definition uxr_deserialize_TIMESTAMP_REPLY_Payload :: "ucdr \<Rightarrow> TIMESTAMP_REPLY_Payload des" where
  "uxr_deserialize_TIMESTAMP_REPLY_Payload cdr = des_all
     [des_field TIMESTAMP_REPLY_Payload.transmit_timestamp TIMESTAMP_REPLY_Payload.transmit_timestamp_update (uxr_deserialize_Time_t cdr),
      des_field TIMESTAMP_REPLY_Payload.receive_timestamp TIMESTAMP_REPLY_Payload.receive_timestamp_update (uxr_deserialize_Time_t cdr),
      des_field TIMESTAMP_REPLY_Payload.originate_timestamp TIMESTAMP_REPLY_Payload.originate_timestamp_update (uxr_deserialize_Time_t cdr)]"

definition uxr_serialize_GuidPrefix_t :: "ucdr \<Rightarrow> GuidPrefix_t \<Rightarrow> ser" where
  "uxr_serialize_GuidPrefix_t cdr input = ret_all
     [ucdr_serialize_array_uint8_t cdr (GuidPrefix_t.data input) 12]"

definition uxr_deserialize_GuidPrefix_t :: "ucdr \<Rightarrow> GuidPrefix_t des" where
  "uxr_deserialize_GuidPrefix_t cdr = des_all
     [des_field GuidPrefix_t.data GuidPrefix_t.data_update (ucdr_deserialize_array_uint8_t cdr 12)]"

definition uxr_serialize_EntityId_t :: "ucdr \<Rightarrow> EntityId_t \<Rightarrow> ser" where
  "uxr_serialize_EntityId_t cdr input = ret_all
     [ucdr_serialize_array_uint8_t cdr (EntityId_t.entityKey input) 3,
      ucdr_serialize_uint8_t cdr (EntityId_t.entityKind input)]"

definition uxr_deserialize_EntityId_t :: "ucdr \<Rightarrow> EntityId_t des" where
  "uxr_deserialize_EntityId_t cdr = des_all
     [des_field EntityId_t.entityKey EntityId_t.entityKey_update (ucdr_deserialize_array_uint8_t cdr 3),
      des_field EntityId_t.entityKind EntityId_t.entityKind_update (ucdr_deserialize_uint8_t cdr)]"

definition uxr_serialize_GUID_t :: "ucdr \<Rightarrow> GUID_t \<Rightarrow> ser" where
  "uxr_serialize_GUID_t cdr input = ret_all
     [uxr_serialize_GuidPrefix_t cdr (GUID_t.guidPrefix input),
      uxr_serialize_EntityId_t cdr (GUID_t.entityId input)]"

definition uxr_deserialize_GUID_t :: "ucdr \<Rightarrow> GUID_t des" where
  "uxr_deserialize_GUID_t cdr = des_all
     [des_field GUID_t.guidPrefix GUID_t.guidPrefix_update (uxr_deserialize_GuidPrefix_t cdr),
      des_field GUID_t.entityId GUID_t.entityId_update (uxr_deserialize_EntityId_t cdr)]"

definition uxr_serialize_SequenceNumber_t :: "ucdr \<Rightarrow> SequenceNumber_t \<Rightarrow> ser" where
  "uxr_serialize_SequenceNumber_t cdr input = ret_all
     [ucdr_serialize_int32_t cdr (SequenceNumber_t.high input),
      ucdr_serialize_uint32_t cdr (SequenceNumber_t.low input)]"

definition uxr_deserialize_SequenceNumber_t :: "ucdr \<Rightarrow> SequenceNumber_t des" where
  "uxr_deserialize_SequenceNumber_t cdr = des_all
     [des_field SequenceNumber_t.high SequenceNumber_t.high_update (ucdr_deserialize_int32_t cdr),
      des_field SequenceNumber_t.low SequenceNumber_t.low_update (ucdr_deserialize_uint32_t cdr)]"

definition uxr_serialize_SampleIdentity :: "ucdr \<Rightarrow> SampleIdentity \<Rightarrow> ser" where
  "uxr_serialize_SampleIdentity cdr input = ret_all
     [uxr_serialize_GUID_t cdr (SampleIdentity.writer_guid input),
      uxr_serialize_SequenceNumber_t cdr (SampleIdentity.sequence_number input)]"

definition uxr_deserialize_SampleIdentity :: "ucdr \<Rightarrow> SampleIdentity des" where
  "uxr_deserialize_SampleIdentity cdr = des_all
     [des_field SampleIdentity.writer_guid SampleIdentity.writer_guid_update (uxr_deserialize_GUID_t cdr),
      des_field SampleIdentity.sequence_number SampleIdentity.sequence_number_update (uxr_deserialize_SequenceNumber_t cdr)]"

end
