(* ===== verification/XrceRoundtrip.thy ===== *)
theory XrceRoundtrip
  imports XrceCodec
begin

text \<open>
  What every serializer of \<open>xrce_types.c\<close> writes, its deserializer reads: one interpretation of
  the interface \<open>xrce_codec\<close> for each pair of functions. \<open>ok_X\<close> are the values of a struct that fit
  the receiver's arrays, \<open>same_X\<close> says that two values agree in all that is transmitted: optional
  fields when their flag is set, the member of a union that the format selects, the elements of a
  sequence up to its size. Where this is everything, it is equality.
\<close>

lemmas kind_defs = DDS_XRCE_OBJK_INVALID_def DDS_XRCE_OBJK_PARTICIPANT_def DDS_XRCE_OBJK_TOPIC_def DDS_XRCE_OBJK_PUBLISHER_def DDS_XRCE_OBJK_SUBSCRIBER_def DDS_XRCE_OBJK_DATAWRITER_def DDS_XRCE_OBJK_DATAREADER_def DDS_XRCE_OBJK_REQUESTER_def DDS_XRCE_OBJK_REPLIER_def DDS_XRCE_OBJK_TYPE_def DDS_XRCE_OBJK_QOSPROFILE_def DDS_XRCE_OBJK_APPLICATION_def DDS_XRCE_OBJK_AGENT_def DDS_XRCE_OBJK_CLIENT_def DDS_XRCE_OBJK_OTHER_def DDS_XRCE_REPRESENTATION_BY_REFERENCE_def DDS_XRCE_REPRESENTATION_AS_XML_STRING_def DDS_XRCE_REPRESENTATION_IN_BINARY_def ADDRESS_FORMAT_SMALL_def ADDRESS_FORMAT_MEDIUM_def ADDRESS_FORMAT_LARGE_def ADDRESS_FORMAT_STRING_def FORMAT_DATA_def FORMAT_SAMPLE_def FORMAT_DATA_SEQ_def FORMAT_SAMPLE_SEQ_def FORMAT_PACKED_SAMPLES_def FORMAT_MASK_def FORMAT_EMPTY_def FORMAT_SEQNUM_def FORMAT_TIMESTAMP_def FORMAT_SEQN_TIMS_def

lemmas capacity_defs = UXR_STRING_SIZE_MAX_def UXR_SAMPLE_DATA_SIZE_MAX_def UXR_STRING_SEQUENCE_MAX_def UXR_BINARY_SEQUENCE_MAX_def UXR_BINARY_SEQUENCE_SMALL_MAX_def UXR_SAMPLE_SEQUENCE_MAX_def UXR_SAMPLE_DATA_SEQUENCE_MAX_def UXR_SAMPLE_DELTA_SEQUENCE_MAX_def UXR_PACKED_SAMPLES_SEQUENCE_MAX_def UXR_TRANSPORT_LOCATOR_SEQUENCE_MAX_def UXR_PROPERTY_SEQUENCE_MAX_def

interpretation Time_t: xrce_codec uxr_serialize_Time_t uxr_deserialize_Time_t "\<lambda>_. True" "(=)"
  by (unfold_locales; unfold uxr_serialize_Time_t_def uxr_deserialize_Time_t_def;
    (rule codec_steps writers | simp)+)

definition ok_BinarySequence_t :: "BinarySequence_t \<Rightarrow> bool" where
  "ok_BinarySequence_t v \<longleftrightarrow> unat (BinarySequence_t.size' v) \<le> length (BinarySequence_t.data v) \<and>
     unat (BinarySequence_t.size' v) \<le> UXR_BINARY_SEQUENCE_MAX"

definition same_BinarySequence_t :: "BinarySequence_t \<Rightarrow> BinarySequence_t \<Rightarrow> bool" where
  "same_BinarySequence_t v w \<longleftrightarrow> BinarySequence_t.size' v = BinarySequence_t.size' w \<and>
     take (unat (BinarySequence_t.size' v)) (BinarySequence_t.data v) = take (unat (BinarySequence_t.size' v)) (BinarySequence_t.data w)"

interpretation BinarySequence_t: xrce_codec uxr_serialize_BinarySequence_t uxr_deserialize_BinarySequence_t ok_BinarySequence_t same_BinarySequence_t
  by (unfold_locales; unfold uxr_serialize_BinarySequence_t_def uxr_deserialize_BinarySequence_t_def;
    (rule codec_steps writers | simp add: ok_BinarySequence_t_def same_BinarySequence_t_def)+)

definition ok_StringSequence_t :: "StringSequence_t \<Rightarrow> bool" where
  "ok_StringSequence_t v \<longleftrightarrow> unat (StringSequence_t.size' v) \<le> UXR_STRING_SEQUENCE_MAX \<and>
     (\<forall>i < unat (StringSequence_t.size' v). ok_string UXR_STRING_SIZE_MAX (StringSequence_t.data v i))"

definition same_StringSequence_t :: "StringSequence_t \<Rightarrow> StringSequence_t \<Rightarrow> bool" where
  "same_StringSequence_t v w \<longleftrightarrow> StringSequence_t.size' v = StringSequence_t.size' w \<and>
     (\<forall>i < unat (StringSequence_t.size' v). StringSequence_t.data v i = StringSequence_t.data w i)"

interpretation StringSequence_t: xrce_codec uxr_serialize_StringSequence_t uxr_deserialize_StringSequence_t ok_StringSequence_t same_StringSequence_t
  by (unfold_locales; unfold uxr_serialize_StringSequence_t_def uxr_deserialize_StringSequence_t_def;
    (rule codec_steps writers | simp add: ok_StringSequence_t_def same_StringSequence_t_def)+)

definition ok_ClientKey :: "ClientKey \<Rightarrow> bool" where
  "ok_ClientKey v \<longleftrightarrow> length (ClientKey.data v) = 4"

interpretation ClientKey: xrce_codec uxr_serialize_ClientKey uxr_deserialize_ClientKey ok_ClientKey "(=)"
  by (unfold_locales; unfold uxr_serialize_ClientKey_def uxr_deserialize_ClientKey_def;
    (rule codec_steps writers | simp add: ok_ClientKey_def)+)

definition ok_ObjectId :: "ObjectId \<Rightarrow> bool" where
  "ok_ObjectId v \<longleftrightarrow> length (ObjectId.data v) = 2"

interpretation ObjectId: xrce_codec uxr_serialize_ObjectId uxr_deserialize_ObjectId ok_ObjectId "(=)"
  by (unfold_locales; unfold uxr_serialize_ObjectId_def uxr_deserialize_ObjectId_def;
    (rule codec_steps writers | simp add: ok_ObjectId_def)+)

definition ok_ObjectPrefix :: "ObjectPrefix \<Rightarrow> bool" where
  "ok_ObjectPrefix v \<longleftrightarrow> length (ObjectPrefix.data v) = 2"

interpretation ObjectPrefix: xrce_codec uxr_serialize_ObjectPrefix uxr_deserialize_ObjectPrefix ok_ObjectPrefix "(=)"
  by (unfold_locales; unfold uxr_serialize_ObjectPrefix_def uxr_deserialize_ObjectPrefix_def;
    (rule codec_steps writers | simp add: ok_ObjectPrefix_def)+)

definition ok_XrceCookie :: "XrceCookie \<Rightarrow> bool" where
  "ok_XrceCookie v \<longleftrightarrow> length (XrceCookie.data v) = 4"

interpretation XrceCookie: xrce_codec uxr_serialize_XrceCookie uxr_deserialize_XrceCookie ok_XrceCookie "(=)"
  by (unfold_locales; unfold uxr_serialize_XrceCookie_def uxr_deserialize_XrceCookie_def;
    (rule codec_steps writers | simp add: ok_XrceCookie_def)+)

definition ok_XrceVersion :: "XrceVersion \<Rightarrow> bool" where
  "ok_XrceVersion v \<longleftrightarrow> length (XrceVersion.data v) = 2"

interpretation XrceVersion: xrce_codec uxr_serialize_XrceVersion uxr_deserialize_XrceVersion ok_XrceVersion "(=)"
  by (unfold_locales; unfold uxr_serialize_XrceVersion_def uxr_deserialize_XrceVersion_def;
    (rule codec_steps writers | simp add: ok_XrceVersion_def)+)

definition ok_XrceVendorId :: "XrceVendorId \<Rightarrow> bool" where
  "ok_XrceVendorId v \<longleftrightarrow> length (XrceVendorId.data v) = 2"

interpretation XrceVendorId: xrce_codec uxr_serialize_XrceVendorId uxr_deserialize_XrceVendorId ok_XrceVendorId "(=)"
  by (unfold_locales; unfold uxr_serialize_XrceVendorId_def uxr_deserialize_XrceVendorId_def;
    (rule codec_steps writers | simp add: ok_XrceVendorId_def)+)

definition ok_TransportLocatorSmall :: "TransportLocatorSmall \<Rightarrow> bool" where
  "ok_TransportLocatorSmall v \<longleftrightarrow> length (TransportLocatorSmall.address v) = 2"

interpretation TransportLocatorSmall: xrce_codec uxr_serialize_TransportLocatorSmall uxr_deserialize_TransportLocatorSmall ok_TransportLocatorSmall "(=)"
  by (unfold_locales; unfold uxr_serialize_TransportLocatorSmall_def uxr_deserialize_TransportLocatorSmall_def;
    (rule codec_steps writers | simp add: ok_TransportLocatorSmall_def)+)

definition ok_TransportLocatorMedium :: "TransportLocatorMedium \<Rightarrow> bool" where
  "ok_TransportLocatorMedium v \<longleftrightarrow> length (TransportLocatorMedium.address v) = 4"

interpretation TransportLocatorMedium: xrce_codec uxr_serialize_TransportLocatorMedium uxr_deserialize_TransportLocatorMedium ok_TransportLocatorMedium "(=)"
  by (unfold_locales; unfold uxr_serialize_TransportLocatorMedium_def uxr_deserialize_TransportLocatorMedium_def;
    (rule codec_steps writers | simp add: ok_TransportLocatorMedium_def)+)

definition ok_TransportLocatorLarge :: "TransportLocatorLarge \<Rightarrow> bool" where
  "ok_TransportLocatorLarge v \<longleftrightarrow> length (TransportLocatorLarge.address v) = 16"

interpretation TransportLocatorLarge: xrce_codec uxr_serialize_TransportLocatorLarge uxr_deserialize_TransportLocatorLarge ok_TransportLocatorLarge "(=)"
  by (unfold_locales; unfold uxr_serialize_TransportLocatorLarge_def uxr_deserialize_TransportLocatorLarge_def;
    (rule codec_steps writers | simp add: ok_TransportLocatorLarge_def)+)

definition ok_TransportLocatorString :: "TransportLocatorString \<Rightarrow> bool" where
  "ok_TransportLocatorString v \<longleftrightarrow> ok_string UXR_STRING_SIZE_MAX (TransportLocatorString.value' v)"

interpretation TransportLocatorString: xrce_codec uxr_serialize_TransportLocatorString uxr_deserialize_TransportLocatorString ok_TransportLocatorString "(=)"
  by (unfold_locales; unfold uxr_serialize_TransportLocatorString_def uxr_deserialize_TransportLocatorString_def;
    (rule codec_steps writers | simp add: ok_TransportLocatorString_def)+)

definition ok_TransportLocator :: "TransportLocator \<Rightarrow> bool" where
  "ok_TransportLocator v \<longleftrightarrow> (TransportLocator.format v = ADDRESS_FORMAT_SMALL \<longrightarrow> ok_TransportLocatorSmall (TransportLocatorU.small_locator (TransportLocator.U v))) \<and>
     (TransportLocator.format v = ADDRESS_FORMAT_MEDIUM \<longrightarrow> ok_TransportLocatorMedium (TransportLocatorU.medium_locator (TransportLocator.U v))) \<and>
     (TransportLocator.format v = ADDRESS_FORMAT_LARGE \<longrightarrow> ok_TransportLocatorLarge (TransportLocatorU.large_locator (TransportLocator.U v))) \<and>
     (TransportLocator.format v = ADDRESS_FORMAT_STRING \<longrightarrow> ok_TransportLocatorString (TransportLocatorU.string_locator (TransportLocator.U v)))"

definition same_TransportLocator :: "TransportLocator \<Rightarrow> TransportLocator \<Rightarrow> bool" where
  "same_TransportLocator v w \<longleftrightarrow> TransportLocator.format v = TransportLocator.format w \<and>
     (TransportLocator.format v = ADDRESS_FORMAT_SMALL \<longrightarrow> TransportLocatorU.small_locator (TransportLocator.U v) = TransportLocatorU.small_locator (TransportLocator.U w)) \<and>
     (TransportLocator.format v = ADDRESS_FORMAT_MEDIUM \<longrightarrow> TransportLocatorU.medium_locator (TransportLocator.U v) = TransportLocatorU.medium_locator (TransportLocator.U w)) \<and>
     (TransportLocator.format v = ADDRESS_FORMAT_LARGE \<longrightarrow> TransportLocatorU.large_locator (TransportLocator.U v) = TransportLocatorU.large_locator (TransportLocator.U w)) \<and>
     (TransportLocator.format v = ADDRESS_FORMAT_STRING \<longrightarrow> TransportLocatorU.string_locator (TransportLocator.U v) = TransportLocatorU.string_locator (TransportLocator.U w))"

interpretation TransportLocator: xrce_codec uxr_serialize_TransportLocator uxr_deserialize_TransportLocator ok_TransportLocator same_TransportLocator
  by (unfold_locales; unfold uxr_serialize_TransportLocator_def uxr_deserialize_TransportLocator_def;
    (rule codec_steps writers | simp add: ok_TransportLocator_def same_TransportLocator_def kind_defs)+)

definition ok_TransportLocatorSeq :: "TransportLocatorSeq \<Rightarrow> bool" where
  "ok_TransportLocatorSeq v \<longleftrightarrow> unat (TransportLocatorSeq.size' v) \<le> UXR_TRANSPORT_LOCATOR_SEQUENCE_MAX \<and>
     (\<forall>i < unat (TransportLocatorSeq.size' v). ok_TransportLocator (TransportLocatorSeq.data v i))"

definition same_TransportLocatorSeq :: "TransportLocatorSeq \<Rightarrow> TransportLocatorSeq \<Rightarrow> bool" where
  "same_TransportLocatorSeq v w \<longleftrightarrow> TransportLocatorSeq.size' v = TransportLocatorSeq.size' w \<and>
     (\<forall>i < unat (TransportLocatorSeq.size' v). same_TransportLocator (TransportLocatorSeq.data v i) (TransportLocatorSeq.data w i))"

interpretation TransportLocatorSeq: xrce_codec uxr_serialize_TransportLocatorSeq uxr_deserialize_TransportLocatorSeq ok_TransportLocatorSeq same_TransportLocatorSeq
  by (unfold_locales; unfold uxr_serialize_TransportLocatorSeq_def uxr_deserialize_TransportLocatorSeq_def;
    (rule codec_steps writers | simp add: ok_TransportLocatorSeq_def same_TransportLocatorSeq_def)+)

definition ok_Property :: "Property \<Rightarrow> bool" where
  "ok_Property v \<longleftrightarrow> ok_string UXR_STRING_SIZE_MAX (Property.name' v) \<and>
     ok_string UXR_STRING_SIZE_MAX (Property.value' v)"

interpretation Property: xrce_codec uxr_serialize_Property uxr_deserialize_Property ok_Property "(=)"
  by (unfold_locales; unfold uxr_serialize_Property_def uxr_deserialize_Property_def;
    (rule codec_steps writers | simp add: ok_Property_def)+)

definition ok_PropertySeq :: "PropertySeq \<Rightarrow> bool" where
  "ok_PropertySeq v \<longleftrightarrow> unat (PropertySeq.size' v) \<le> UXR_PROPERTY_SEQUENCE_MAX \<and>
     (\<forall>i < unat (PropertySeq.size' v). ok_Property (PropertySeq.data v i))"

definition same_PropertySeq :: "PropertySeq \<Rightarrow> PropertySeq \<Rightarrow> bool" where
  "same_PropertySeq v w \<longleftrightarrow> PropertySeq.size' v = PropertySeq.size' w \<and>
     (\<forall>i < unat (PropertySeq.size' v). PropertySeq.data v i = PropertySeq.data w i)"

interpretation PropertySeq: xrce_codec uxr_serialize_PropertySeq uxr_deserialize_PropertySeq ok_PropertySeq same_PropertySeq
  by (unfold_locales; unfold uxr_serialize_PropertySeq_def uxr_deserialize_PropertySeq_def;
    (rule codec_steps writers | simp add: ok_PropertySeq_def same_PropertySeq_def)+)

definition ok_CLIENT_Representation :: "CLIENT_Representation \<Rightarrow> bool" where
  "ok_CLIENT_Representation v \<longleftrightarrow> ok_XrceCookie (CLIENT_Representation.xrce_cookie v) \<and>
     ok_XrceVersion (CLIENT_Representation.xrce_version v) \<and>
     ok_XrceVendorId (CLIENT_Representation.xrce_vendor_id v) \<and>
     ok_ClientKey (CLIENT_Representation.client_key v) \<and>
     (CLIENT_Representation.optional_properties v \<longrightarrow> ok_PropertySeq (CLIENT_Representation.properties v))"

definition same_CLIENT_Representation :: "CLIENT_Representation \<Rightarrow> CLIENT_Representation \<Rightarrow> bool" where
  "same_CLIENT_Representation v w \<longleftrightarrow> CLIENT_Representation.xrce_cookie v = CLIENT_Representation.xrce_cookie w \<and>
     CLIENT_Representation.xrce_version v = CLIENT_Representation.xrce_version w \<and>
     CLIENT_Representation.xrce_vendor_id v = CLIENT_Representation.xrce_vendor_id w \<and>
     CLIENT_Representation.client_key v = CLIENT_Representation.client_key w \<and>
     CLIENT_Representation.session_id v = CLIENT_Representation.session_id w \<and>
     CLIENT_Representation.optional_properties v = CLIENT_Representation.optional_properties w \<and>
     (CLIENT_Representation.optional_properties v \<longrightarrow> same_PropertySeq (CLIENT_Representation.properties v) (CLIENT_Representation.properties w)) \<and>
     CLIENT_Representation.mtu v = CLIENT_Representation.mtu w"

interpretation CLIENT_Representation: xrce_codec uxr_serialize_CLIENT_Representation uxr_deserialize_CLIENT_Representation ok_CLIENT_Representation same_CLIENT_Representation
  by (unfold_locales; unfold uxr_serialize_CLIENT_Representation_def uxr_deserialize_CLIENT_Representation_def;
    (rule codec_steps writers | simp add: ok_CLIENT_Representation_def same_CLIENT_Representation_def)+)

definition ok_AGENT_Representation :: "AGENT_Representation \<Rightarrow> bool" where
  "ok_AGENT_Representation v \<longleftrightarrow> \<not> AGENT_Representation.optional_properties v \<and>
     ok_XrceCookie (AGENT_Representation.xrce_cookie v) \<and>
     ok_XrceVersion (AGENT_Representation.xrce_version v) \<and>
     ok_XrceVendorId (AGENT_Representation.xrce_vendor_id v)"

definition same_AGENT_Representation :: "AGENT_Representation \<Rightarrow> AGENT_Representation \<Rightarrow> bool" where
  "same_AGENT_Representation v w \<longleftrightarrow> AGENT_Representation.xrce_cookie v = AGENT_Representation.xrce_cookie w \<and>
     AGENT_Representation.xrce_version v = AGENT_Representation.xrce_version w \<and>
     AGENT_Representation.xrce_vendor_id v = AGENT_Representation.xrce_vendor_id w \<and>
     AGENT_Representation.optional_properties v = AGENT_Representation.optional_properties w"

interpretation AGENT_Representation: xrce_codec uxr_serialize_AGENT_Representation uxr_deserialize_AGENT_Representation ok_AGENT_Representation same_AGENT_Representation
  by (unfold_locales; unfold uxr_serialize_AGENT_Representation_def uxr_deserialize_AGENT_Representation_def;
    (rule codec_steps writers | simp add: ok_AGENT_Representation_def same_AGENT_Representation_def)+)

definition ok_OBJK_Representation3Formats :: "OBJK_Representation3Formats \<Rightarrow> bool" where
  "ok_OBJK_Representation3Formats v \<longleftrightarrow> (OBJK_Representation3Formats.format v = DDS_XRCE_REPRESENTATION_BY_REFERENCE \<longrightarrow> ok_string UXR_STRING_SIZE_MAX (OBJK_Representation3FormatsU.object_reference (OBJK_Representation3Formats.U v))) \<and>
     (OBJK_Representation3Formats.format v = DDS_XRCE_REPRESENTATION_AS_XML_STRING \<longrightarrow> ok_string UXR_STRING_SIZE_MAX (OBJK_Representation3FormatsU.xml_string_represenatation (OBJK_Representation3Formats.U v))) \<and>
     (OBJK_Representation3Formats.format v = DDS_XRCE_REPRESENTATION_IN_BINARY \<longrightarrow> ok_BinarySequence_t (OBJK_Representation3FormatsU.binary_representation (OBJK_Representation3Formats.U v)))"

definition same_OBJK_Representation3Formats :: "OBJK_Representation3Formats \<Rightarrow> OBJK_Representation3Formats \<Rightarrow> bool" where
  "same_OBJK_Representation3Formats v w \<longleftrightarrow> OBJK_Representation3Formats.format v = OBJK_Representation3Formats.format w \<and>
     (OBJK_Representation3Formats.format v = DDS_XRCE_REPRESENTATION_BY_REFERENCE \<longrightarrow> OBJK_Representation3FormatsU.object_reference (OBJK_Representation3Formats.U v) = OBJK_Representation3FormatsU.object_reference (OBJK_Representation3Formats.U w)) \<and>
     (OBJK_Representation3Formats.format v = DDS_XRCE_REPRESENTATION_AS_XML_STRING \<longrightarrow> OBJK_Representation3FormatsU.xml_string_represenatation (OBJK_Representation3Formats.U v) = OBJK_Representation3FormatsU.xml_string_represenatation (OBJK_Representation3Formats.U w)) \<and>
     (OBJK_Representation3Formats.format v = DDS_XRCE_REPRESENTATION_IN_BINARY \<longrightarrow> same_BinarySequence_t (OBJK_Representation3FormatsU.binary_representation (OBJK_Representation3Formats.U v)) (OBJK_Representation3FormatsU.binary_representation (OBJK_Representation3Formats.U w)))"

interpretation OBJK_Representation3Formats: xrce_codec uxr_serialize_OBJK_Representation3Formats uxr_deserialize_OBJK_Representation3Formats ok_OBJK_Representation3Formats same_OBJK_Representation3Formats
  by (unfold_locales; unfold uxr_serialize_OBJK_Representation3Formats_def uxr_deserialize_OBJK_Representation3Formats_def;
    (rule codec_steps writers | simp add: ok_OBJK_Representation3Formats_def same_OBJK_Representation3Formats_def kind_defs)+)

definition ok_OBJK_RepresentationRefAndXMLFormats :: "OBJK_RepresentationRefAndXMLFormats \<Rightarrow> bool" where
  "ok_OBJK_RepresentationRefAndXMLFormats v \<longleftrightarrow> (OBJK_RepresentationRefAndXMLFormats.format v = DDS_XRCE_REPRESENTATION_BY_REFERENCE \<longrightarrow> ok_string UXR_STRING_SIZE_MAX (OBJK_RepresentationRefAndXMLFormatsU.object_name (OBJK_RepresentationRefAndXMLFormats.U v))) \<and>
     (OBJK_RepresentationRefAndXMLFormats.format v = DDS_XRCE_REPRESENTATION_AS_XML_STRING \<longrightarrow> ok_string UXR_STRING_SIZE_MAX (OBJK_RepresentationRefAndXMLFormatsU.xml_string_represenatation (OBJK_RepresentationRefAndXMLFormats.U v)))"

definition same_OBJK_RepresentationRefAndXMLFormats :: "OBJK_RepresentationRefAndXMLFormats \<Rightarrow> OBJK_RepresentationRefAndXMLFormats \<Rightarrow> bool" where
  "same_OBJK_RepresentationRefAndXMLFormats v w \<longleftrightarrow> OBJK_RepresentationRefAndXMLFormats.format v = OBJK_RepresentationRefAndXMLFormats.format w \<and>
     (OBJK_RepresentationRefAndXMLFormats.format v = DDS_XRCE_REPRESENTATION_BY_REFERENCE \<longrightarrow> OBJK_RepresentationRefAndXMLFormatsU.object_name (OBJK_RepresentationRefAndXMLFormats.U v) = OBJK_RepresentationRefAndXMLFormatsU.object_name (OBJK_RepresentationRefAndXMLFormats.U w)) \<and>
     (OBJK_RepresentationRefAndXMLFormats.format v = DDS_XRCE_REPRESENTATION_AS_XML_STRING \<longrightarrow> OBJK_RepresentationRefAndXMLFormatsU.xml_string_represenatation (OBJK_RepresentationRefAndXMLFormats.U v) = OBJK_RepresentationRefAndXMLFormatsU.xml_string_represenatation (OBJK_RepresentationRefAndXMLFormats.U w))"

interpretation OBJK_RepresentationRefAndXMLFormats: xrce_codec uxr_serialize_OBJK_RepresentationRefAndXMLFormats uxr_deserialize_OBJK_RepresentationRefAndXMLFormats ok_OBJK_RepresentationRefAndXMLFormats same_OBJK_RepresentationRefAndXMLFormats
  by (unfold_locales; unfold uxr_serialize_OBJK_RepresentationRefAndXMLFormats_def uxr_deserialize_OBJK_RepresentationRefAndXMLFormats_def;
    (rule codec_steps writers | simp add: ok_OBJK_RepresentationRefAndXMLFormats_def same_OBJK_RepresentationRefAndXMLFormats_def kind_defs)+)

definition ok_OBJK_RepresentationBinAndXMLFormats :: "OBJK_RepresentationBinAndXMLFormats \<Rightarrow> bool" where
  "ok_OBJK_RepresentationBinAndXMLFormats v \<longleftrightarrow> (OBJK_RepresentationBinAndXMLFormats.format v = DDS_XRCE_REPRESENTATION_IN_BINARY \<longrightarrow> ok_BinarySequence_t (OBJK_RepresentationBinAndXMLFormatsU.binary_representation (OBJK_RepresentationBinAndXMLFormats.U v))) \<and>
     (OBJK_RepresentationBinAndXMLFormats.format v = DDS_XRCE_REPRESENTATION_AS_XML_STRING \<longrightarrow> ok_string UXR_STRING_SIZE_MAX (OBJK_RepresentationBinAndXMLFormatsU.string_represenatation (OBJK_RepresentationBinAndXMLFormats.U v)))"

definition same_OBJK_RepresentationBinAndXMLFormats :: "OBJK_RepresentationBinAndXMLFormats \<Rightarrow> OBJK_RepresentationBinAndXMLFormats \<Rightarrow> bool" where
  "same_OBJK_RepresentationBinAndXMLFormats v w \<longleftrightarrow> OBJK_RepresentationBinAndXMLFormats.format v = OBJK_RepresentationBinAndXMLFormats.format w \<and>
     (OBJK_RepresentationBinAndXMLFormats.format v = DDS_XRCE_REPRESENTATION_IN_BINARY \<longrightarrow> same_BinarySequence_t (OBJK_RepresentationBinAndXMLFormatsU.binary_representation (OBJK_RepresentationBinAndXMLFormats.U v)) (OBJK_RepresentationBinAndXMLFormatsU.binary_representation (OBJK_RepresentationBinAndXMLFormats.U w))) \<and>
     (OBJK_RepresentationBinAndXMLFormats.format v = DDS_XRCE_REPRESENTATION_AS_XML_STRING \<longrightarrow> OBJK_RepresentationBinAndXMLFormatsU.string_represenatation (OBJK_RepresentationBinAndXMLFormats.U v) = OBJK_RepresentationBinAndXMLFormatsU.string_represenatation (OBJK_RepresentationBinAndXMLFormats.U w))"

interpretation OBJK_RepresentationBinAndXMLFormats: xrce_codec uxr_serialize_OBJK_RepresentationBinAndXMLFormats uxr_deserialize_OBJK_RepresentationBinAndXMLFormats ok_OBJK_RepresentationBinAndXMLFormats same_OBJK_RepresentationBinAndXMLFormats
  by (unfold_locales; unfold uxr_serialize_OBJK_RepresentationBinAndXMLFormats_def uxr_deserialize_OBJK_RepresentationBinAndXMLFormats_def;
    (rule codec_steps writers | simp add: ok_OBJK_RepresentationBinAndXMLFormats_def same_OBJK_RepresentationBinAndXMLFormats_def kind_defs)+)

definition ok_OBJK_RepresentationRefAndXML_Base :: "OBJK_RepresentationRefAndXML_Base \<Rightarrow> bool" where
  "ok_OBJK_RepresentationRefAndXML_Base v \<longleftrightarrow> ok_OBJK_RepresentationRefAndXMLFormats (OBJK_RepresentationRefAndXML_Base.representation v)"

definition same_OBJK_RepresentationRefAndXML_Base :: "OBJK_RepresentationRefAndXML_Base \<Rightarrow> OBJK_RepresentationRefAndXML_Base \<Rightarrow> bool" where
  "same_OBJK_RepresentationRefAndXML_Base v w \<longleftrightarrow> same_OBJK_RepresentationRefAndXMLFormats (OBJK_RepresentationRefAndXML_Base.representation v) (OBJK_RepresentationRefAndXML_Base.representation w)"

interpretation OBJK_RepresentationRefAndXML_Base: xrce_codec uxr_serialize_OBJK_RepresentationRefAndXML_Base uxr_deserialize_OBJK_RepresentationRefAndXML_Base ok_OBJK_RepresentationRefAndXML_Base same_OBJK_RepresentationRefAndXML_Base
  by (unfold_locales; unfold uxr_serialize_OBJK_RepresentationRefAndXML_Base_def uxr_deserialize_OBJK_RepresentationRefAndXML_Base_def;
    (rule codec_steps writers | simp add: ok_OBJK_RepresentationRefAndXML_Base_def same_OBJK_RepresentationRefAndXML_Base_def)+)

definition ok_OBJK_RepresentationBinAndXML_Base :: "OBJK_RepresentationBinAndXML_Base \<Rightarrow> bool" where
  "ok_OBJK_RepresentationBinAndXML_Base v \<longleftrightarrow> ok_OBJK_RepresentationBinAndXMLFormats (OBJK_RepresentationBinAndXML_Base.representation v)"

definition same_OBJK_RepresentationBinAndXML_Base :: "OBJK_RepresentationBinAndXML_Base \<Rightarrow> OBJK_RepresentationBinAndXML_Base \<Rightarrow> bool" where
  "same_OBJK_RepresentationBinAndXML_Base v w \<longleftrightarrow> same_OBJK_RepresentationBinAndXMLFormats (OBJK_RepresentationBinAndXML_Base.representation v) (OBJK_RepresentationBinAndXML_Base.representation w)"

interpretation OBJK_RepresentationBinAndXML_Base: xrce_codec uxr_serialize_OBJK_RepresentationBinAndXML_Base uxr_deserialize_OBJK_RepresentationBinAndXML_Base ok_OBJK_RepresentationBinAndXML_Base same_OBJK_RepresentationBinAndXML_Base
  by (unfold_locales; unfold uxr_serialize_OBJK_RepresentationBinAndXML_Base_def uxr_deserialize_OBJK_RepresentationBinAndXML_Base_def;
    (rule codec_steps writers | simp add: ok_OBJK_RepresentationBinAndXML_Base_def same_OBJK_RepresentationBinAndXML_Base_def)+)

definition ok_OBJK_Representation3_Base :: "OBJK_Representation3_Base \<Rightarrow> bool" where
  "ok_OBJK_Representation3_Base v \<longleftrightarrow> ok_OBJK_Representation3Formats (OBJK_Representation3_Base.representation v)"

definition same_OBJK_Representation3_Base :: "OBJK_Representation3_Base \<Rightarrow> OBJK_Representation3_Base \<Rightarrow> bool" where
  "same_OBJK_Representation3_Base v w \<longleftrightarrow> same_OBJK_Representation3Formats (OBJK_Representation3_Base.representation v) (OBJK_Representation3_Base.representation w)"

interpretation OBJK_Representation3_Base: xrce_codec uxr_serialize_OBJK_Representation3_Base uxr_deserialize_OBJK_Representation3_Base ok_OBJK_Representation3_Base same_OBJK_Representation3_Base
  by (unfold_locales; unfold uxr_serialize_OBJK_Representation3_Base_def uxr_deserialize_OBJK_Representation3_Base_def;
    (rule codec_steps writers | simp add: ok_OBJK_Representation3_Base_def same_OBJK_Representation3_Base_def)+)

definition ok_OBJK_QOSPROFILE_Representation :: "OBJK_QOSPROFILE_Representation \<Rightarrow> bool" where
  "ok_OBJK_QOSPROFILE_Representation v \<longleftrightarrow> ok_OBJK_RepresentationRefAndXML_Base (OBJK_QOSPROFILE_Representation.base v)"

definition same_OBJK_QOSPROFILE_Representation :: "OBJK_QOSPROFILE_Representation \<Rightarrow> OBJK_QOSPROFILE_Representation \<Rightarrow> bool" where
  "same_OBJK_QOSPROFILE_Representation v w \<longleftrightarrow> same_OBJK_RepresentationRefAndXML_Base (OBJK_QOSPROFILE_Representation.base v) (OBJK_QOSPROFILE_Representation.base w)"

interpretation OBJK_QOSPROFILE_Representation: xrce_codec uxr_serialize_OBJK_QOSPROFILE_Representation uxr_deserialize_OBJK_QOSPROFILE_Representation ok_OBJK_QOSPROFILE_Representation same_OBJK_QOSPROFILE_Representation
  by (unfold_locales; unfold uxr_serialize_OBJK_QOSPROFILE_Representation_def uxr_deserialize_OBJK_QOSPROFILE_Representation_def;
    (rule codec_steps writers | simp add: ok_OBJK_QOSPROFILE_Representation_def same_OBJK_QOSPROFILE_Representation_def)+)

definition ok_OBJK_TYPE_Representation :: "OBJK_TYPE_Representation \<Rightarrow> bool" where
  "ok_OBJK_TYPE_Representation v \<longleftrightarrow> ok_OBJK_RepresentationRefAndXML_Base (OBJK_TYPE_Representation.base v)"

definition same_OBJK_TYPE_Representation :: "OBJK_TYPE_Representation \<Rightarrow> OBJK_TYPE_Representation \<Rightarrow> bool" where
  "same_OBJK_TYPE_Representation v w \<longleftrightarrow> same_OBJK_RepresentationRefAndXML_Base (OBJK_TYPE_Representation.base v) (OBJK_TYPE_Representation.base w)"

interpretation OBJK_TYPE_Representation: xrce_codec uxr_serialize_OBJK_TYPE_Representation uxr_deserialize_OBJK_TYPE_Representation ok_OBJK_TYPE_Representation same_OBJK_TYPE_Representation
  by (unfold_locales; unfold uxr_serialize_OBJK_TYPE_Representation_def uxr_deserialize_OBJK_TYPE_Representation_def;
    (rule codec_steps writers | simp add: ok_OBJK_TYPE_Representation_def same_OBJK_TYPE_Representation_def)+)

definition ok_OBJK_DOMAIN_Representation :: "OBJK_DOMAIN_Representation \<Rightarrow> bool" where
  "ok_OBJK_DOMAIN_Representation v \<longleftrightarrow> ok_OBJK_RepresentationRefAndXML_Base (OBJK_DOMAIN_Representation.base v)"

definition same_OBJK_DOMAIN_Representation :: "OBJK_DOMAIN_Representation \<Rightarrow> OBJK_DOMAIN_Representation \<Rightarrow> bool" where
  "same_OBJK_DOMAIN_Representation v w \<longleftrightarrow> same_OBJK_RepresentationRefAndXML_Base (OBJK_DOMAIN_Representation.base v) (OBJK_DOMAIN_Representation.base w)"

interpretation OBJK_DOMAIN_Representation: xrce_codec uxr_serialize_OBJK_DOMAIN_Representation uxr_deserialize_OBJK_DOMAIN_Representation ok_OBJK_DOMAIN_Representation same_OBJK_DOMAIN_Representation
  by (unfold_locales; unfold uxr_serialize_OBJK_DOMAIN_Representation_def uxr_deserialize_OBJK_DOMAIN_Representation_def;
    (rule codec_steps writers | simp add: ok_OBJK_DOMAIN_Representation_def same_OBJK_DOMAIN_Representation_def)+)

definition ok_OBJK_APPLICATION_Representation :: "OBJK_APPLICATION_Representation \<Rightarrow> bool" where
  "ok_OBJK_APPLICATION_Representation v \<longleftrightarrow> ok_OBJK_RepresentationRefAndXML_Base (OBJK_APPLICATION_Representation.base v)"

definition same_OBJK_APPLICATION_Representation :: "OBJK_APPLICATION_Representation \<Rightarrow> OBJK_APPLICATION_Representation \<Rightarrow> bool" where
  "same_OBJK_APPLICATION_Representation v w \<longleftrightarrow> same_OBJK_RepresentationRefAndXML_Base (OBJK_APPLICATION_Representation.base v) (OBJK_APPLICATION_Representation.base w)"

interpretation OBJK_APPLICATION_Representation: xrce_codec uxr_serialize_OBJK_APPLICATION_Representation uxr_deserialize_OBJK_APPLICATION_Representation ok_OBJK_APPLICATION_Representation same_OBJK_APPLICATION_Representation
  by (unfold_locales; unfold uxr_serialize_OBJK_APPLICATION_Representation_def uxr_deserialize_OBJK_APPLICATION_Representation_def;
    (rule codec_steps writers | simp add: ok_OBJK_APPLICATION_Representation_def same_OBJK_APPLICATION_Representation_def)+)

definition ok_OBJK_PUBLISHER_Representation :: "OBJK_PUBLISHER_Representation \<Rightarrow> bool" where
  "ok_OBJK_PUBLISHER_Representation v \<longleftrightarrow> ok_OBJK_RepresentationBinAndXML_Base (OBJK_PUBLISHER_Representation.base v) \<and>
     ok_ObjectId (OBJK_PUBLISHER_Representation.participant_id v)"

definition same_OBJK_PUBLISHER_Representation :: "OBJK_PUBLISHER_Representation \<Rightarrow> OBJK_PUBLISHER_Representation \<Rightarrow> bool" where
  "same_OBJK_PUBLISHER_Representation v w \<longleftrightarrow> same_OBJK_RepresentationBinAndXML_Base (OBJK_PUBLISHER_Representation.base v) (OBJK_PUBLISHER_Representation.base w) \<and>
     OBJK_PUBLISHER_Representation.participant_id v = OBJK_PUBLISHER_Representation.participant_id w"

interpretation OBJK_PUBLISHER_Representation: xrce_codec uxr_serialize_OBJK_PUBLISHER_Representation uxr_deserialize_OBJK_PUBLISHER_Representation ok_OBJK_PUBLISHER_Representation same_OBJK_PUBLISHER_Representation
  by (unfold_locales; unfold uxr_serialize_OBJK_PUBLISHER_Representation_def uxr_deserialize_OBJK_PUBLISHER_Representation_def;
    (rule codec_steps writers | simp add: ok_OBJK_PUBLISHER_Representation_def same_OBJK_PUBLISHER_Representation_def)+)

definition ok_OBJK_SUBSCRIBER_Representation :: "OBJK_SUBSCRIBER_Representation \<Rightarrow> bool" where
  "ok_OBJK_SUBSCRIBER_Representation v \<longleftrightarrow> ok_OBJK_RepresentationBinAndXML_Base (OBJK_SUBSCRIBER_Representation.base v) \<and>
     ok_ObjectId (OBJK_SUBSCRIBER_Representation.participant_id v)"

definition same_OBJK_SUBSCRIBER_Representation :: "OBJK_SUBSCRIBER_Representation \<Rightarrow> OBJK_SUBSCRIBER_Representation \<Rightarrow> bool" where
  "same_OBJK_SUBSCRIBER_Representation v w \<longleftrightarrow> same_OBJK_RepresentationBinAndXML_Base (OBJK_SUBSCRIBER_Representation.base v) (OBJK_SUBSCRIBER_Representation.base w) \<and>
     OBJK_SUBSCRIBER_Representation.participant_id v = OBJK_SUBSCRIBER_Representation.participant_id w"

interpretation OBJK_SUBSCRIBER_Representation: xrce_codec uxr_serialize_OBJK_SUBSCRIBER_Representation uxr_deserialize_OBJK_SUBSCRIBER_Representation ok_OBJK_SUBSCRIBER_Representation same_OBJK_SUBSCRIBER_Representation
  by (unfold_locales; unfold uxr_serialize_OBJK_SUBSCRIBER_Representation_def uxr_deserialize_OBJK_SUBSCRIBER_Representation_def;
    (rule codec_steps writers | simp add: ok_OBJK_SUBSCRIBER_Representation_def same_OBJK_SUBSCRIBER_Representation_def)+)

definition ok_DATAWRITER_Representation :: "DATAWRITER_Representation \<Rightarrow> bool" where
  "ok_DATAWRITER_Representation v \<longleftrightarrow> ok_OBJK_Representation3_Base (DATAWRITER_Representation.base v) \<and>
     ok_ObjectId (DATAWRITER_Representation.publisher_id v)"

definition same_DATAWRITER_Representation :: "DATAWRITER_Representation \<Rightarrow> DATAWRITER_Representation \<Rightarrow> bool" where
  "same_DATAWRITER_Representation v w \<longleftrightarrow> same_OBJK_Representation3_Base (DATAWRITER_Representation.base v) (DATAWRITER_Representation.base w) \<and>
     DATAWRITER_Representation.publisher_id v = DATAWRITER_Representation.publisher_id w"

interpretation DATAWRITER_Representation: xrce_codec uxr_serialize_DATAWRITER_Representation uxr_deserialize_DATAWRITER_Representation ok_DATAWRITER_Representation same_DATAWRITER_Representation
  by (unfold_locales; unfold uxr_serialize_DATAWRITER_Representation_def uxr_deserialize_DATAWRITER_Representation_def;
    (rule codec_steps writers | simp add: ok_DATAWRITER_Representation_def same_DATAWRITER_Representation_def)+)

definition ok_DATAREADER_Representation :: "DATAREADER_Representation \<Rightarrow> bool" where
  "ok_DATAREADER_Representation v \<longleftrightarrow> ok_OBJK_Representation3_Base (DATAREADER_Representation.base v) \<and>
     ok_ObjectId (DATAREADER_Representation.subscriber_id v)"

definition same_DATAREADER_Representation :: "DATAREADER_Representation \<Rightarrow> DATAREADER_Representation \<Rightarrow> bool" where
  "same_DATAREADER_Representation v w \<longleftrightarrow> same_OBJK_Representation3_Base (DATAREADER_Representation.base v) (DATAREADER_Representation.base w) \<and>
     DATAREADER_Representation.subscriber_id v = DATAREADER_Representation.subscriber_id w"

interpretation DATAREADER_Representation: xrce_codec uxr_serialize_DATAREADER_Representation uxr_deserialize_DATAREADER_Representation ok_DATAREADER_Representation same_DATAREADER_Representation
  by (unfold_locales; unfold uxr_serialize_DATAREADER_Representation_def uxr_deserialize_DATAREADER_Representation_def;
    (rule codec_steps writers | simp add: ok_DATAREADER_Representation_def same_DATAREADER_Representation_def)+)

definition ok_OBJK_PARTICIPANT_Representation :: "OBJK_PARTICIPANT_Representation \<Rightarrow> bool" where
  "ok_OBJK_PARTICIPANT_Representation v \<longleftrightarrow> ok_OBJK_Representation3_Base (OBJK_PARTICIPANT_Representation.base v)"

definition same_OBJK_PARTICIPANT_Representation :: "OBJK_PARTICIPANT_Representation \<Rightarrow> OBJK_PARTICIPANT_Representation \<Rightarrow> bool" where
  "same_OBJK_PARTICIPANT_Representation v w \<longleftrightarrow> same_OBJK_Representation3_Base (OBJK_PARTICIPANT_Representation.base v) (OBJK_PARTICIPANT_Representation.base w) \<and>
     OBJK_PARTICIPANT_Representation.domain_id v = OBJK_PARTICIPANT_Representation.domain_id w"

interpretation OBJK_PARTICIPANT_Representation: xrce_codec uxr_serialize_OBJK_PARTICIPANT_Representation uxr_deserialize_OBJK_PARTICIPANT_Representation ok_OBJK_PARTICIPANT_Representation same_OBJK_PARTICIPANT_Representation
  by (unfold_locales; unfold uxr_serialize_OBJK_PARTICIPANT_Representation_def uxr_deserialize_OBJK_PARTICIPANT_Representation_def;
    (rule codec_steps writers | simp add: ok_OBJK_PARTICIPANT_Representation_def same_OBJK_PARTICIPANT_Representation_def)+)

definition ok_OBJK_TOPIC_Representation :: "OBJK_TOPIC_Representation \<Rightarrow> bool" where
  "ok_OBJK_TOPIC_Representation v \<longleftrightarrow> ok_OBJK_Representation3_Base (OBJK_TOPIC_Representation.base v) \<and>
     ok_ObjectId (OBJK_TOPIC_Representation.participant_id v)"

definition same_OBJK_TOPIC_Representation :: "OBJK_TOPIC_Representation \<Rightarrow> OBJK_TOPIC_Representation \<Rightarrow> bool" where
  "same_OBJK_TOPIC_Representation v w \<longleftrightarrow> same_OBJK_Representation3_Base (OBJK_TOPIC_Representation.base v) (OBJK_TOPIC_Representation.base w) \<and>
     OBJK_TOPIC_Representation.participant_id v = OBJK_TOPIC_Representation.participant_id w"

interpretation OBJK_TOPIC_Representation: xrce_codec uxr_serialize_OBJK_TOPIC_Representation uxr_deserialize_OBJK_TOPIC_Representation ok_OBJK_TOPIC_Representation same_OBJK_TOPIC_Representation
  by (unfold_locales; unfold uxr_serialize_OBJK_TOPIC_Representation_def uxr_deserialize_OBJK_TOPIC_Representation_def;
    (rule codec_steps writers | simp add: ok_OBJK_TOPIC_Representation_def same_OBJK_TOPIC_Representation_def)+)

definition ok_OBJK_REQUESTER_Representation :: "OBJK_REQUESTER_Representation \<Rightarrow> bool" where
  "ok_OBJK_REQUESTER_Representation v \<longleftrightarrow> ok_OBJK_Representation3_Base (OBJK_REQUESTER_Representation.base v) \<and>
     ok_ObjectId (OBJK_REQUESTER_Representation.participant_id v)"

definition same_OBJK_REQUESTER_Representation :: "OBJK_REQUESTER_Representation \<Rightarrow> OBJK_REQUESTER_Representation \<Rightarrow> bool" where
  "same_OBJK_REQUESTER_Representation v w \<longleftrightarrow> same_OBJK_Representation3_Base (OBJK_REQUESTER_Representation.base v) (OBJK_REQUESTER_Representation.base w) \<and>
     OBJK_REQUESTER_Representation.participant_id v = OBJK_REQUESTER_Representation.participant_id w"

interpretation OBJK_REQUESTER_Representation: xrce_codec uxr_serialize_OBJK_REQUESTER_Representation uxr_deserialize_OBJK_REQUESTER_Representation ok_OBJK_REQUESTER_Representation same_OBJK_REQUESTER_Representation
  by (unfold_locales; unfold uxr_serialize_OBJK_REQUESTER_Representation_def uxr_deserialize_OBJK_REQUESTER_Representation_def;
    (rule codec_steps writers | simp add: ok_OBJK_REQUESTER_Representation_def same_OBJK_REQUESTER_Representation_def)+)

definition ok_OBJK_REPLIER_Representation :: "OBJK_REPLIER_Representation \<Rightarrow> bool" where
  "ok_OBJK_REPLIER_Representation v \<longleftrightarrow> ok_OBJK_Representation3_Base (OBJK_REPLIER_Representation.base v) \<and>
     ok_ObjectId (OBJK_REPLIER_Representation.participant_id v)"

definition same_OBJK_REPLIER_Representation :: "OBJK_REPLIER_Representation \<Rightarrow> OBJK_REPLIER_Representation \<Rightarrow> bool" where
  "same_OBJK_REPLIER_Representation v w \<longleftrightarrow> same_OBJK_Representation3_Base (OBJK_REPLIER_Representation.base v) (OBJK_REPLIER_Representation.base w) \<and>
     OBJK_REPLIER_Representation.participant_id v = OBJK_REPLIER_Representation.participant_id w"

interpretation OBJK_REPLIER_Representation: xrce_codec uxr_serialize_OBJK_REPLIER_Representation uxr_deserialize_OBJK_REPLIER_Representation ok_OBJK_REPLIER_Representation same_OBJK_REPLIER_Representation
  by (unfold_locales; unfold uxr_serialize_OBJK_REPLIER_Representation_def uxr_deserialize_OBJK_REPLIER_Representation_def;
    (rule codec_steps writers | simp add: ok_OBJK_REPLIER_Representation_def same_OBJK_REPLIER_Representation_def)+)

definition ok_OBJK_DomainParticipant_Binary :: "OBJK_DomainParticipant_Binary \<Rightarrow> bool" where
  "ok_OBJK_DomainParticipant_Binary v \<longleftrightarrow> (OBJK_DomainParticipant_Binary.optional_domain_reference v \<longrightarrow> ok_string UXR_STRING_SIZE_MAX (OBJK_DomainParticipant_Binary.domain_reference v)) \<and>
     (OBJK_DomainParticipant_Binary.optional_qos_profile_reference v \<longrightarrow> ok_string UXR_STRING_SIZE_MAX (OBJK_DomainParticipant_Binary.qos_profile_reference v))"

definition same_OBJK_DomainParticipant_Binary :: "OBJK_DomainParticipant_Binary \<Rightarrow> OBJK_DomainParticipant_Binary \<Rightarrow> bool" where
  "same_OBJK_DomainParticipant_Binary v w \<longleftrightarrow> OBJK_DomainParticipant_Binary.optional_domain_reference v = OBJK_DomainParticipant_Binary.optional_domain_reference w \<and>
     (OBJK_DomainParticipant_Binary.optional_domain_reference v \<longrightarrow> OBJK_DomainParticipant_Binary.domain_reference v = OBJK_DomainParticipant_Binary.domain_reference w) \<and>
     OBJK_DomainParticipant_Binary.optional_qos_profile_reference v = OBJK_DomainParticipant_Binary.optional_qos_profile_reference w \<and>
     (OBJK_DomainParticipant_Binary.optional_qos_profile_reference v \<longrightarrow> OBJK_DomainParticipant_Binary.qos_profile_reference v = OBJK_DomainParticipant_Binary.qos_profile_reference w)"

interpretation OBJK_DomainParticipant_Binary: xrce_codec uxr_serialize_OBJK_DomainParticipant_Binary uxr_deserialize_OBJK_DomainParticipant_Binary ok_OBJK_DomainParticipant_Binary same_OBJK_DomainParticipant_Binary
  by (unfold_locales; unfold uxr_serialize_OBJK_DomainParticipant_Binary_def uxr_deserialize_OBJK_DomainParticipant_Binary_def;
    (rule codec_steps writers | simp add: ok_OBJK_DomainParticipant_Binary_def same_OBJK_DomainParticipant_Binary_def)+)

definition ok_OBJK_Topic_Binary :: "OBJK_Topic_Binary \<Rightarrow> bool" where
  "ok_OBJK_Topic_Binary v \<longleftrightarrow> ok_string UXR_STRING_SIZE_MAX (OBJK_Topic_Binary.topic_name v) \<and>
     (OBJK_Topic_Binary.optional_type_reference v \<longrightarrow> ok_string UXR_STRING_SIZE_MAX (OBJK_Topic_Binary.type_reference v)) \<and>
     (OBJK_Topic_Binary.optional_type_name v \<longrightarrow> ok_string UXR_STRING_SIZE_MAX (OBJK_Topic_Binary.type_name v))"

definition same_OBJK_Topic_Binary :: "OBJK_Topic_Binary \<Rightarrow> OBJK_Topic_Binary \<Rightarrow> bool" where
  "same_OBJK_Topic_Binary v w \<longleftrightarrow> OBJK_Topic_Binary.topic_name v = OBJK_Topic_Binary.topic_name w \<and>
     OBJK_Topic_Binary.optional_type_reference v = OBJK_Topic_Binary.optional_type_reference w \<and>
     (OBJK_Topic_Binary.optional_type_reference v \<longrightarrow> OBJK_Topic_Binary.type_reference v = OBJK_Topic_Binary.type_reference w) \<and>
     OBJK_Topic_Binary.optional_type_name v = OBJK_Topic_Binary.optional_type_name w \<and>
     (OBJK_Topic_Binary.optional_type_name v \<longrightarrow> OBJK_Topic_Binary.type_name v = OBJK_Topic_Binary.type_name w)"

interpretation OBJK_Topic_Binary: xrce_codec uxr_serialize_OBJK_Topic_Binary uxr_deserialize_OBJK_Topic_Binary ok_OBJK_Topic_Binary same_OBJK_Topic_Binary
  by (unfold_locales; unfold uxr_serialize_OBJK_Topic_Binary_def uxr_deserialize_OBJK_Topic_Binary_def;
    (rule codec_steps writers | simp add: ok_OBJK_Topic_Binary_def same_OBJK_Topic_Binary_def)+)

definition ok_OBJK_Publisher_Binary_Qos :: "OBJK_Publisher_Binary_Qos \<Rightarrow> bool" where
  "ok_OBJK_Publisher_Binary_Qos v \<longleftrightarrow> (OBJK_Publisher_Binary_Qos.optional_partitions v \<longrightarrow> ok_StringSequence_t (OBJK_Publisher_Binary_Qos.partitions v)) \<and>
     (OBJK_Publisher_Binary_Qos.optional_group_data v \<longrightarrow> ok_BinarySequence_t (OBJK_Publisher_Binary_Qos.group_data v))"

definition same_OBJK_Publisher_Binary_Qos :: "OBJK_Publisher_Binary_Qos \<Rightarrow> OBJK_Publisher_Binary_Qos \<Rightarrow> bool" where
  "same_OBJK_Publisher_Binary_Qos v w \<longleftrightarrow> OBJK_Publisher_Binary_Qos.optional_partitions v = OBJK_Publisher_Binary_Qos.optional_partitions w \<and>
     (OBJK_Publisher_Binary_Qos.optional_partitions v \<longrightarrow> same_StringSequence_t (OBJK_Publisher_Binary_Qos.partitions v) (OBJK_Publisher_Binary_Qos.partitions w)) \<and>
     OBJK_Publisher_Binary_Qos.optional_group_data v = OBJK_Publisher_Binary_Qos.optional_group_data w \<and>
     (OBJK_Publisher_Binary_Qos.optional_group_data v \<longrightarrow> same_BinarySequence_t (OBJK_Publisher_Binary_Qos.group_data v) (OBJK_Publisher_Binary_Qos.group_data w))"

interpretation OBJK_Publisher_Binary_Qos: xrce_codec uxr_serialize_OBJK_Publisher_Binary_Qos uxr_deserialize_OBJK_Publisher_Binary_Qos ok_OBJK_Publisher_Binary_Qos same_OBJK_Publisher_Binary_Qos
  by (unfold_locales; unfold uxr_serialize_OBJK_Publisher_Binary_Qos_def uxr_deserialize_OBJK_Publisher_Binary_Qos_def;
    (rule codec_steps writers | simp add: ok_OBJK_Publisher_Binary_Qos_def same_OBJK_Publisher_Binary_Qos_def)+)

definition ok_OBJK_Publisher_Binary :: "OBJK_Publisher_Binary \<Rightarrow> bool" where
  "ok_OBJK_Publisher_Binary v \<longleftrightarrow> (OBJK_Publisher_Binary.optional_publisher_name v \<longrightarrow> ok_string UXR_STRING_SIZE_MAX (OBJK_Publisher_Binary.publisher_name v)) \<and>
     (OBJK_Publisher_Binary.optional_qos v \<longrightarrow> ok_OBJK_Publisher_Binary_Qos (OBJK_Publisher_Binary.qos v))"

definition same_OBJK_Publisher_Binary :: "OBJK_Publisher_Binary \<Rightarrow> OBJK_Publisher_Binary \<Rightarrow> bool" where
  "same_OBJK_Publisher_Binary v w \<longleftrightarrow> OBJK_Publisher_Binary.optional_publisher_name v = OBJK_Publisher_Binary.optional_publisher_name w \<and>
     (OBJK_Publisher_Binary.optional_publisher_name v \<longrightarrow> OBJK_Publisher_Binary.publisher_name v = OBJK_Publisher_Binary.publisher_name w) \<and>
     OBJK_Publisher_Binary.optional_qos v = OBJK_Publisher_Binary.optional_qos w \<and>
     (OBJK_Publisher_Binary.optional_qos v \<longrightarrow> same_OBJK_Publisher_Binary_Qos (OBJK_Publisher_Binary.qos v) (OBJK_Publisher_Binary.qos w))"

interpretation OBJK_Publisher_Binary: xrce_codec uxr_serialize_OBJK_Publisher_Binary uxr_deserialize_OBJK_Publisher_Binary ok_OBJK_Publisher_Binary same_OBJK_Publisher_Binary
  by (unfold_locales; unfold uxr_serialize_OBJK_Publisher_Binary_def uxr_deserialize_OBJK_Publisher_Binary_def;
    (rule codec_steps writers | simp add: ok_OBJK_Publisher_Binary_def same_OBJK_Publisher_Binary_def)+)

definition ok_OBJK_Subscriber_Binary_Qos :: "OBJK_Subscriber_Binary_Qos \<Rightarrow> bool" where
  "ok_OBJK_Subscriber_Binary_Qos v \<longleftrightarrow> (OBJK_Subscriber_Binary_Qos.optional_partitions v \<longrightarrow> ok_StringSequence_t (OBJK_Subscriber_Binary_Qos.partitions v)) \<and>
     (OBJK_Subscriber_Binary_Qos.optional_group_data v \<longrightarrow> ok_BinarySequence_t (OBJK_Subscriber_Binary_Qos.group_data v))"

definition same_OBJK_Subscriber_Binary_Qos :: "OBJK_Subscriber_Binary_Qos \<Rightarrow> OBJK_Subscriber_Binary_Qos \<Rightarrow> bool" where
  "same_OBJK_Subscriber_Binary_Qos v w \<longleftrightarrow> OBJK_Subscriber_Binary_Qos.optional_partitions v = OBJK_Subscriber_Binary_Qos.optional_partitions w \<and>
     (OBJK_Subscriber_Binary_Qos.optional_partitions v \<longrightarrow> same_StringSequence_t (OBJK_Subscriber_Binary_Qos.partitions v) (OBJK_Subscriber_Binary_Qos.partitions w)) \<and>
     OBJK_Subscriber_Binary_Qos.optional_group_data v = OBJK_Subscriber_Binary_Qos.optional_group_data w \<and>
     (OBJK_Subscriber_Binary_Qos.optional_group_data v \<longrightarrow> same_BinarySequence_t (OBJK_Subscriber_Binary_Qos.group_data v) (OBJK_Subscriber_Binary_Qos.group_data w))"

interpretation OBJK_Subscriber_Binary_Qos: xrce_codec uxr_serialize_OBJK_Subscriber_Binary_Qos uxr_deserialize_OBJK_Subscriber_Binary_Qos ok_OBJK_Subscriber_Binary_Qos same_OBJK_Subscriber_Binary_Qos
  by (unfold_locales; unfold uxr_serialize_OBJK_Subscriber_Binary_Qos_def uxr_deserialize_OBJK_Subscriber_Binary_Qos_def;
    (rule codec_steps writers | simp add: ok_OBJK_Subscriber_Binary_Qos_def same_OBJK_Subscriber_Binary_Qos_def)+)

definition ok_OBJK_Subscriber_Binary :: "OBJK_Subscriber_Binary \<Rightarrow> bool" where
  "ok_OBJK_Subscriber_Binary v \<longleftrightarrow> (OBJK_Subscriber_Binary.optional_subscriber_name v \<longrightarrow> ok_string UXR_STRING_SIZE_MAX (OBJK_Subscriber_Binary.subscriber_name v)) \<and>
     (OBJK_Subscriber_Binary.optional_qos v \<longrightarrow> ok_OBJK_Subscriber_Binary_Qos (OBJK_Subscriber_Binary.qos v))"

definition same_OBJK_Subscriber_Binary :: "OBJK_Subscriber_Binary \<Rightarrow> OBJK_Subscriber_Binary \<Rightarrow> bool" where
  "same_OBJK_Subscriber_Binary v w \<longleftrightarrow> OBJK_Subscriber_Binary.optional_subscriber_name v = OBJK_Subscriber_Binary.optional_subscriber_name w \<and>
     (OBJK_Subscriber_Binary.optional_subscriber_name v \<longrightarrow> OBJK_Subscriber_Binary.subscriber_name v = OBJK_Subscriber_Binary.subscriber_name w) \<and>
     OBJK_Subscriber_Binary.optional_qos v = OBJK_Subscriber_Binary.optional_qos w \<and>
     (OBJK_Subscriber_Binary.optional_qos v \<longrightarrow> same_OBJK_Subscriber_Binary_Qos (OBJK_Subscriber_Binary.qos v) (OBJK_Subscriber_Binary.qos w))"

interpretation OBJK_Subscriber_Binary: xrce_codec uxr_serialize_OBJK_Subscriber_Binary uxr_deserialize_OBJK_Subscriber_Binary ok_OBJK_Subscriber_Binary same_OBJK_Subscriber_Binary
  by (unfold_locales; unfold uxr_serialize_OBJK_Subscriber_Binary_def uxr_deserialize_OBJK_Subscriber_Binary_def;
    (rule codec_steps writers | simp add: ok_OBJK_Subscriber_Binary_def same_OBJK_Subscriber_Binary_def)+)

definition ok_OBJK_Endpoint_QosBinary :: "OBJK_Endpoint_QosBinary \<Rightarrow> bool" where
  "ok_OBJK_Endpoint_QosBinary v \<longleftrightarrow> (OBJK_Endpoint_QosBinary.optional_user_data v \<longrightarrow> ok_BinarySequence_t (as_BinarySequence_t (OBJK_Endpoint_QosBinary.user_data v)))"

definition same_OBJK_Endpoint_QosBinary :: "OBJK_Endpoint_QosBinary \<Rightarrow> OBJK_Endpoint_QosBinary \<Rightarrow> bool" where
  "same_OBJK_Endpoint_QosBinary v w \<longleftrightarrow> OBJK_Endpoint_QosBinary.qos_flags v = OBJK_Endpoint_QosBinary.qos_flags w \<and>
     OBJK_Endpoint_QosBinary.optional_history_depth v = OBJK_Endpoint_QosBinary.optional_history_depth w \<and>
     (OBJK_Endpoint_QosBinary.optional_history_depth v \<longrightarrow> OBJK_Endpoint_QosBinary.history_depth v = OBJK_Endpoint_QosBinary.history_depth w) \<and>
     OBJK_Endpoint_QosBinary.optional_deadline_msec v = OBJK_Endpoint_QosBinary.optional_deadline_msec w \<and>
     (OBJK_Endpoint_QosBinary.optional_deadline_msec v \<longrightarrow> OBJK_Endpoint_QosBinary.deadline_msec v = OBJK_Endpoint_QosBinary.deadline_msec w) \<and>
     OBJK_Endpoint_QosBinary.optional_lifespan_msec v = OBJK_Endpoint_QosBinary.optional_lifespan_msec w \<and>
     (OBJK_Endpoint_QosBinary.optional_lifespan_msec v \<longrightarrow> OBJK_Endpoint_QosBinary.lifespan_msec v = OBJK_Endpoint_QosBinary.lifespan_msec w) \<and>
     OBJK_Endpoint_QosBinary.optional_user_data v = OBJK_Endpoint_QosBinary.optional_user_data w \<and>
     (OBJK_Endpoint_QosBinary.optional_user_data v \<longrightarrow> same_BinarySequence_t (as_BinarySequence_t (OBJK_Endpoint_QosBinary.user_data v)) (as_BinarySequence_t (OBJK_Endpoint_QosBinary.user_data w)))"

interpretation OBJK_Endpoint_QosBinary: xrce_codec uxr_serialize_OBJK_Endpoint_QosBinary uxr_deserialize_OBJK_Endpoint_QosBinary ok_OBJK_Endpoint_QosBinary same_OBJK_Endpoint_QosBinary
  by (unfold_locales; unfold uxr_serialize_OBJK_Endpoint_QosBinary_def uxr_deserialize_OBJK_Endpoint_QosBinary_def;
    (rule codec_steps writers | simp add: ok_OBJK_Endpoint_QosBinary_def same_OBJK_Endpoint_QosBinary_def)+)

text \<open>
  The user data of an endpoint has room for eight octets, but it is read as a sequence that may have 512;
  the model keeps what is read in a list, which does not show that more than eight are stored beyond the
  array. So an endpoint is read back as it was only if its user data fits.
\<close>

definition user_data_fits :: "OBJK_Endpoint_QosBinary \<Rightarrow> bool" where
  "user_data_fits v \<longleftrightarrow> (OBJK_Endpoint_QosBinary.optional_user_data v \<longrightarrow>
     unat (BinarySequenceSmall_t.size' (OBJK_Endpoint_QosBinary.user_data v)) \<le> UXR_BINARY_SEQUENCE_SMALL_MAX)"

definition ok_OBJK_DataWriter_Binary_Qos :: "OBJK_DataWriter_Binary_Qos \<Rightarrow> bool" where
  "ok_OBJK_DataWriter_Binary_Qos v \<longleftrightarrow> ok_OBJK_Endpoint_QosBinary (OBJK_DataWriter_Binary_Qos.base v) \<and>
     user_data_fits (OBJK_DataWriter_Binary_Qos.base v)"

definition same_OBJK_DataWriter_Binary_Qos :: "OBJK_DataWriter_Binary_Qos \<Rightarrow> OBJK_DataWriter_Binary_Qos \<Rightarrow> bool" where
  "same_OBJK_DataWriter_Binary_Qos v w \<longleftrightarrow> same_OBJK_Endpoint_QosBinary (OBJK_DataWriter_Binary_Qos.base v) (OBJK_DataWriter_Binary_Qos.base w) \<and>
     OBJK_DataWriter_Binary_Qos.optional_ownership_strength v = OBJK_DataWriter_Binary_Qos.optional_ownership_strength w \<and>
     (OBJK_DataWriter_Binary_Qos.optional_ownership_strength v \<longrightarrow> OBJK_DataWriter_Binary_Qos.ownership_strength v = OBJK_DataWriter_Binary_Qos.ownership_strength w)"

interpretation OBJK_DataWriter_Binary_Qos: xrce_codec uxr_serialize_OBJK_DataWriter_Binary_Qos uxr_deserialize_OBJK_DataWriter_Binary_Qos ok_OBJK_DataWriter_Binary_Qos same_OBJK_DataWriter_Binary_Qos
  by (unfold_locales; unfold uxr_serialize_OBJK_DataWriter_Binary_Qos_def uxr_deserialize_OBJK_DataWriter_Binary_Qos_def;
    (rule codec_steps writers | simp add: ok_OBJK_DataWriter_Binary_Qos_def same_OBJK_DataWriter_Binary_Qos_def)+)

definition ok_OBJK_DataReader_Binary_Qos :: "OBJK_DataReader_Binary_Qos \<Rightarrow> bool" where
  "ok_OBJK_DataReader_Binary_Qos v \<longleftrightarrow> ok_OBJK_Endpoint_QosBinary (OBJK_DataReader_Binary_Qos.base v) \<and>
     user_data_fits (OBJK_DataReader_Binary_Qos.base v) \<and>
     (OBJK_DataReader_Binary_Qos.optional_contentbased_filter v \<longrightarrow> ok_string UXR_STRING_SIZE_MAX (OBJK_DataReader_Binary_Qos.contentbased_filter v))"

definition same_OBJK_DataReader_Binary_Qos :: "OBJK_DataReader_Binary_Qos \<Rightarrow> OBJK_DataReader_Binary_Qos \<Rightarrow> bool" where
  "same_OBJK_DataReader_Binary_Qos v w \<longleftrightarrow> same_OBJK_Endpoint_QosBinary (OBJK_DataReader_Binary_Qos.base v) (OBJK_DataReader_Binary_Qos.base w) \<and>
     OBJK_DataReader_Binary_Qos.optional_timebasedfilter_msec v = OBJK_DataReader_Binary_Qos.optional_timebasedfilter_msec w \<and>
     (OBJK_DataReader_Binary_Qos.optional_timebasedfilter_msec v \<longrightarrow> OBJK_DataReader_Binary_Qos.timebasedfilter_msec v = OBJK_DataReader_Binary_Qos.timebasedfilter_msec w) \<and>
     OBJK_DataReader_Binary_Qos.optional_contentbased_filter v = OBJK_DataReader_Binary_Qos.optional_contentbased_filter w \<and>
     (OBJK_DataReader_Binary_Qos.optional_contentbased_filter v \<longrightarrow> OBJK_DataReader_Binary_Qos.contentbased_filter v = OBJK_DataReader_Binary_Qos.contentbased_filter w)"

interpretation OBJK_DataReader_Binary_Qos: xrce_codec uxr_serialize_OBJK_DataReader_Binary_Qos uxr_deserialize_OBJK_DataReader_Binary_Qos ok_OBJK_DataReader_Binary_Qos same_OBJK_DataReader_Binary_Qos
  by (unfold_locales; unfold uxr_serialize_OBJK_DataReader_Binary_Qos_def uxr_deserialize_OBJK_DataReader_Binary_Qos_def;
    (rule codec_steps writers | simp add: ok_OBJK_DataReader_Binary_Qos_def same_OBJK_DataReader_Binary_Qos_def)+)

definition ok_OBJK_DataReader_Binary :: "OBJK_DataReader_Binary \<Rightarrow> bool" where
  "ok_OBJK_DataReader_Binary v \<longleftrightarrow> ok_ObjectId (OBJK_DataReader_Binary.topic_id v) \<and>
     (OBJK_DataReader_Binary.optional_qos v \<longrightarrow> ok_OBJK_DataReader_Binary_Qos (OBJK_DataReader_Binary.qos v))"

definition same_OBJK_DataReader_Binary :: "OBJK_DataReader_Binary \<Rightarrow> OBJK_DataReader_Binary \<Rightarrow> bool" where
  "same_OBJK_DataReader_Binary v w \<longleftrightarrow> OBJK_DataReader_Binary.topic_id v = OBJK_DataReader_Binary.topic_id w \<and>
     OBJK_DataReader_Binary.optional_qos v = OBJK_DataReader_Binary.optional_qos w \<and>
     (OBJK_DataReader_Binary.optional_qos v \<longrightarrow> same_OBJK_DataReader_Binary_Qos (OBJK_DataReader_Binary.qos v) (OBJK_DataReader_Binary.qos w))"

interpretation OBJK_DataReader_Binary: xrce_codec uxr_serialize_OBJK_DataReader_Binary uxr_deserialize_OBJK_DataReader_Binary ok_OBJK_DataReader_Binary same_OBJK_DataReader_Binary
  by (unfold_locales; unfold uxr_serialize_OBJK_DataReader_Binary_def uxr_deserialize_OBJK_DataReader_Binary_def;
    (rule codec_steps writers | simp add: ok_OBJK_DataReader_Binary_def same_OBJK_DataReader_Binary_def)+)

definition ok_OBJK_DataWriter_Binary :: "OBJK_DataWriter_Binary \<Rightarrow> bool" where
  "ok_OBJK_DataWriter_Binary v \<longleftrightarrow> ok_ObjectId (OBJK_DataWriter_Binary.topic_id v) \<and>
     (OBJK_DataWriter_Binary.optional_qos v \<longrightarrow> ok_OBJK_DataWriter_Binary_Qos (OBJK_DataWriter_Binary.qos v))"

definition same_OBJK_DataWriter_Binary :: "OBJK_DataWriter_Binary \<Rightarrow> OBJK_DataWriter_Binary \<Rightarrow> bool" where
  "same_OBJK_DataWriter_Binary v w \<longleftrightarrow> OBJK_DataWriter_Binary.topic_id v = OBJK_DataWriter_Binary.topic_id w \<and>
     OBJK_DataWriter_Binary.optional_qos v = OBJK_DataWriter_Binary.optional_qos w \<and>
     (OBJK_DataWriter_Binary.optional_qos v \<longrightarrow> same_OBJK_DataWriter_Binary_Qos (OBJK_DataWriter_Binary.qos v) (OBJK_DataWriter_Binary.qos w))"

interpretation OBJK_DataWriter_Binary: xrce_codec uxr_serialize_OBJK_DataWriter_Binary uxr_deserialize_OBJK_DataWriter_Binary ok_OBJK_DataWriter_Binary same_OBJK_DataWriter_Binary
  by (unfold_locales; unfold uxr_serialize_OBJK_DataWriter_Binary_def uxr_deserialize_OBJK_DataWriter_Binary_def;
    (rule codec_steps writers | simp add: ok_OBJK_DataWriter_Binary_def same_OBJK_DataWriter_Binary_def)+)

definition ok_OBJK_Requester_Binary :: "OBJK_Requester_Binary \<Rightarrow> bool" where
  "ok_OBJK_Requester_Binary v \<longleftrightarrow> ok_string UXR_STRING_SIZE_MAX (OBJK_Requester_Binary.service_name v) \<and>
     ok_string UXR_STRING_SIZE_MAX (OBJK_Requester_Binary.request_type v) \<and>
     ok_string UXR_STRING_SIZE_MAX (OBJK_Requester_Binary.reply_type v) \<and>
     (OBJK_Requester_Binary.optional_request_topic_name v \<longrightarrow> ok_string UXR_STRING_SIZE_MAX (OBJK_Requester_Binary.request_topic_name v)) \<and>
     (OBJK_Requester_Binary.optional_reply_topic_name v \<longrightarrow> ok_string UXR_STRING_SIZE_MAX (OBJK_Requester_Binary.reply_topic_name v))"

definition same_OBJK_Requester_Binary :: "OBJK_Requester_Binary \<Rightarrow> OBJK_Requester_Binary \<Rightarrow> bool" where
  "same_OBJK_Requester_Binary v w \<longleftrightarrow> OBJK_Requester_Binary.service_name v = OBJK_Requester_Binary.service_name w \<and>
     OBJK_Requester_Binary.request_type v = OBJK_Requester_Binary.request_type w \<and>
     OBJK_Requester_Binary.reply_type v = OBJK_Requester_Binary.reply_type w \<and>
     OBJK_Requester_Binary.optional_request_topic_name v = OBJK_Requester_Binary.optional_request_topic_name w \<and>
     (OBJK_Requester_Binary.optional_request_topic_name v \<longrightarrow> OBJK_Requester_Binary.request_topic_name v = OBJK_Requester_Binary.request_topic_name w) \<and>
     OBJK_Requester_Binary.optional_reply_topic_name v = OBJK_Requester_Binary.optional_reply_topic_name w \<and>
     (OBJK_Requester_Binary.optional_reply_topic_name v \<longrightarrow> OBJK_Requester_Binary.reply_topic_name v = OBJK_Requester_Binary.reply_topic_name w)"

interpretation OBJK_Requester_Binary: xrce_codec uxr_serialize_OBJK_Requester_Binary uxr_deserialize_OBJK_Requester_Binary ok_OBJK_Requester_Binary same_OBJK_Requester_Binary
  by (unfold_locales; unfold uxr_serialize_OBJK_Requester_Binary_def uxr_deserialize_OBJK_Requester_Binary_def;
    (rule codec_steps writers | simp add: ok_OBJK_Requester_Binary_def same_OBJK_Requester_Binary_def)+)

definition ok_OBJK_Replier_Binary :: "OBJK_Replier_Binary \<Rightarrow> bool" where
  "ok_OBJK_Replier_Binary v \<longleftrightarrow> ok_string UXR_STRING_SIZE_MAX (OBJK_Replier_Binary.service_name v) \<and>
     ok_string UXR_STRING_SIZE_MAX (OBJK_Replier_Binary.request_type v) \<and>
     ok_string UXR_STRING_SIZE_MAX (OBJK_Replier_Binary.reply_type v) \<and>
     (OBJK_Replier_Binary.optional_request_topic_name v \<longrightarrow> ok_string UXR_STRING_SIZE_MAX (OBJK_Replier_Binary.request_topic_name v)) \<and>
     (OBJK_Replier_Binary.optional_reply_topic_name v \<longrightarrow> ok_string UXR_STRING_SIZE_MAX (OBJK_Replier_Binary.reply_topic_name v))"

definition same_OBJK_Replier_Binary :: "OBJK_Replier_Binary \<Rightarrow> OBJK_Replier_Binary \<Rightarrow> bool" where
  "same_OBJK_Replier_Binary v w \<longleftrightarrow> OBJK_Replier_Binary.service_name v = OBJK_Replier_Binary.service_name w \<and>
     OBJK_Replier_Binary.request_type v = OBJK_Replier_Binary.request_type w \<and>
     OBJK_Replier_Binary.reply_type v = OBJK_Replier_Binary.reply_type w \<and>
     OBJK_Replier_Binary.optional_request_topic_name v = OBJK_Replier_Binary.optional_request_topic_name w \<and>
     (OBJK_Replier_Binary.optional_request_topic_name v \<longrightarrow> OBJK_Replier_Binary.request_topic_name v = OBJK_Replier_Binary.request_topic_name w) \<and>
     OBJK_Replier_Binary.optional_reply_topic_name v = OBJK_Replier_Binary.optional_reply_topic_name w \<and>
     (OBJK_Replier_Binary.optional_reply_topic_name v \<longrightarrow> OBJK_Replier_Binary.reply_topic_name v = OBJK_Replier_Binary.reply_topic_name w)"

interpretation OBJK_Replier_Binary: xrce_codec uxr_serialize_OBJK_Replier_Binary uxr_deserialize_OBJK_Replier_Binary ok_OBJK_Replier_Binary same_OBJK_Replier_Binary
  by (unfold_locales; unfold uxr_serialize_OBJK_Replier_Binary_def uxr_deserialize_OBJK_Replier_Binary_def;
    (rule codec_steps writers | simp add: ok_OBJK_Replier_Binary_def same_OBJK_Replier_Binary_def)+)

definition ok_ObjectVariant :: "ObjectVariant \<Rightarrow> bool" where
  "ok_ObjectVariant v \<longleftrightarrow> (ObjectVariant.kind v = DDS_XRCE_OBJK_AGENT \<longrightarrow> ok_AGENT_Representation (ObjectVariantU.agent (ObjectVariant.U v))) \<and>
     (ObjectVariant.kind v = DDS_XRCE_OBJK_CLIENT \<longrightarrow> ok_CLIENT_Representation (ObjectVariantU.client (ObjectVariant.U v))) \<and>
     (ObjectVariant.kind v = DDS_XRCE_OBJK_APPLICATION \<longrightarrow> ok_OBJK_APPLICATION_Representation (ObjectVariantU.application (ObjectVariant.U v))) \<and>
     (ObjectVariant.kind v = DDS_XRCE_OBJK_PARTICIPANT \<longrightarrow> ok_OBJK_PARTICIPANT_Representation (ObjectVariantU.participant (ObjectVariant.U v))) \<and>
     (ObjectVariant.kind v = DDS_XRCE_OBJK_QOSPROFILE \<longrightarrow> ok_OBJK_QOSPROFILE_Representation (ObjectVariantU.qos_profile (ObjectVariant.U v))) \<and>
     (ObjectVariant.kind v = DDS_XRCE_OBJK_TYPE \<longrightarrow> ok_OBJK_TYPE_Representation (ObjectVariantU.type' (ObjectVariant.U v))) \<and>
     (ObjectVariant.kind v = DDS_XRCE_OBJK_TOPIC \<longrightarrow> ok_OBJK_TOPIC_Representation (ObjectVariantU.topic (ObjectVariant.U v))) \<and>
     (ObjectVariant.kind v = DDS_XRCE_OBJK_PUBLISHER \<longrightarrow> ok_OBJK_PUBLISHER_Representation (ObjectVariantU.publisher (ObjectVariant.U v))) \<and>
     (ObjectVariant.kind v = DDS_XRCE_OBJK_SUBSCRIBER \<longrightarrow> ok_OBJK_SUBSCRIBER_Representation (ObjectVariantU.subscriber (ObjectVariant.U v))) \<and>
     (ObjectVariant.kind v = DDS_XRCE_OBJK_DATAWRITER \<longrightarrow> ok_DATAWRITER_Representation (ObjectVariantU.data_writer (ObjectVariant.U v))) \<and>
     (ObjectVariant.kind v = DDS_XRCE_OBJK_DATAREADER \<longrightarrow> ok_DATAREADER_Representation (ObjectVariantU.data_reader (ObjectVariant.U v))) \<and>
     (ObjectVariant.kind v = DDS_XRCE_OBJK_REQUESTER \<longrightarrow> ok_OBJK_REQUESTER_Representation (ObjectVariantU.requester (ObjectVariant.U v))) \<and>
     (ObjectVariant.kind v = DDS_XRCE_OBJK_REPLIER \<longrightarrow> ok_OBJK_REPLIER_Representation (ObjectVariantU.replier (ObjectVariant.U v)))"

definition same_ObjectVariant :: "ObjectVariant \<Rightarrow> ObjectVariant \<Rightarrow> bool" where
  "same_ObjectVariant v w \<longleftrightarrow> ObjectVariant.kind v = ObjectVariant.kind w \<and>
     (ObjectVariant.kind v = DDS_XRCE_OBJK_AGENT \<longrightarrow> same_AGENT_Representation (ObjectVariantU.agent (ObjectVariant.U v)) (ObjectVariantU.agent (ObjectVariant.U w))) \<and>
     (ObjectVariant.kind v = DDS_XRCE_OBJK_CLIENT \<longrightarrow> same_CLIENT_Representation (ObjectVariantU.client (ObjectVariant.U v)) (ObjectVariantU.client (ObjectVariant.U w))) \<and>
     (ObjectVariant.kind v = DDS_XRCE_OBJK_APPLICATION \<longrightarrow> same_OBJK_APPLICATION_Representation (ObjectVariantU.application (ObjectVariant.U v)) (ObjectVariantU.application (ObjectVariant.U w))) \<and>
     (ObjectVariant.kind v = DDS_XRCE_OBJK_PARTICIPANT \<longrightarrow> same_OBJK_PARTICIPANT_Representation (ObjectVariantU.participant (ObjectVariant.U v)) (ObjectVariantU.participant (ObjectVariant.U w))) \<and>
     (ObjectVariant.kind v = DDS_XRCE_OBJK_QOSPROFILE \<longrightarrow> same_OBJK_QOSPROFILE_Representation (ObjectVariantU.qos_profile (ObjectVariant.U v)) (ObjectVariantU.qos_profile (ObjectVariant.U w))) \<and>
     (ObjectVariant.kind v = DDS_XRCE_OBJK_TYPE \<longrightarrow> same_OBJK_TYPE_Representation (ObjectVariantU.type' (ObjectVariant.U v)) (ObjectVariantU.type' (ObjectVariant.U w))) \<and>
     (ObjectVariant.kind v = DDS_XRCE_OBJK_TOPIC \<longrightarrow> same_OBJK_TOPIC_Representation (ObjectVariantU.topic (ObjectVariant.U v)) (ObjectVariantU.topic (ObjectVariant.U w))) \<and>
     (ObjectVariant.kind v = DDS_XRCE_OBJK_PUBLISHER \<longrightarrow> same_OBJK_PUBLISHER_Representation (ObjectVariantU.publisher (ObjectVariant.U v)) (ObjectVariantU.publisher (ObjectVariant.U w))) \<and>
     (ObjectVariant.kind v = DDS_XRCE_OBJK_SUBSCRIBER \<longrightarrow> same_OBJK_SUBSCRIBER_Representation (ObjectVariantU.subscriber (ObjectVariant.U v)) (ObjectVariantU.subscriber (ObjectVariant.U w))) \<and>
     (ObjectVariant.kind v = DDS_XRCE_OBJK_DATAWRITER \<longrightarrow> same_DATAWRITER_Representation (ObjectVariantU.data_writer (ObjectVariant.U v)) (ObjectVariantU.data_writer (ObjectVariant.U w))) \<and>
     (ObjectVariant.kind v = DDS_XRCE_OBJK_DATAREADER \<longrightarrow> same_DATAREADER_Representation (ObjectVariantU.data_reader (ObjectVariant.U v)) (ObjectVariantU.data_reader (ObjectVariant.U w))) \<and>
     (ObjectVariant.kind v = DDS_XRCE_OBJK_REQUESTER \<longrightarrow> same_OBJK_REQUESTER_Representation (ObjectVariantU.requester (ObjectVariant.U v)) (ObjectVariantU.requester (ObjectVariant.U w))) \<and>
     (ObjectVariant.kind v = DDS_XRCE_OBJK_REPLIER \<longrightarrow> same_OBJK_REPLIER_Representation (ObjectVariantU.replier (ObjectVariant.U v)) (ObjectVariantU.replier (ObjectVariant.U w)))"

interpretation ObjectVariant: xrce_codec uxr_serialize_ObjectVariant uxr_deserialize_ObjectVariant ok_ObjectVariant same_ObjectVariant
  by (unfold_locales; unfold uxr_serialize_ObjectVariant_def uxr_deserialize_ObjectVariant_def;
    (rule codec_steps writers | simp add: ok_ObjectVariant_def same_ObjectVariant_def kind_defs)+)

interpretation CreationMode: xrce_codec uxr_serialize_CreationMode uxr_deserialize_CreationMode "\<lambda>_. True" "(=)"
  by (unfold_locales; unfold uxr_serialize_CreationMode_def uxr_deserialize_CreationMode_def;
    (rule codec_steps writers | simp)+)

definition ok_RequestId :: "RequestId \<Rightarrow> bool" where
  "ok_RequestId v \<longleftrightarrow> length (RequestId.data v) = 2"

interpretation RequestId: xrce_codec uxr_serialize_RequestId uxr_deserialize_RequestId ok_RequestId "(=)"
  by (unfold_locales; unfold uxr_serialize_RequestId_def uxr_deserialize_RequestId_def;
    (rule codec_steps writers | simp add: ok_RequestId_def)+)

interpretation ResultStatus: xrce_codec uxr_serialize_ResultStatus uxr_deserialize_ResultStatus "\<lambda>_. True" "(=)"
  by (unfold_locales; unfold uxr_serialize_ResultStatus_def uxr_deserialize_ResultStatus_def;
    (rule codec_steps writers | simp)+)

definition ok_BaseObjectRequest :: "BaseObjectRequest \<Rightarrow> bool" where
  "ok_BaseObjectRequest v \<longleftrightarrow> ok_RequestId (BaseObjectRequest.request_id v) \<and>
     ok_ObjectId (BaseObjectRequest.object_id v)"

interpretation BaseObjectRequest: xrce_codec uxr_serialize_BaseObjectRequest uxr_deserialize_BaseObjectRequest ok_BaseObjectRequest "(=)"
  by (unfold_locales; unfold uxr_serialize_BaseObjectRequest_def uxr_deserialize_BaseObjectRequest_def;
    (rule codec_steps writers | simp add: ok_BaseObjectRequest_def)+)

definition ok_AGENT_ActivityInfo :: "AGENT_ActivityInfo \<Rightarrow> bool" where
  "ok_AGENT_ActivityInfo v \<longleftrightarrow> ok_TransportLocatorSeq (AGENT_ActivityInfo.address_seq v)"

definition same_AGENT_ActivityInfo :: "AGENT_ActivityInfo \<Rightarrow> AGENT_ActivityInfo \<Rightarrow> bool" where
  "same_AGENT_ActivityInfo v w \<longleftrightarrow> AGENT_ActivityInfo.availability v = AGENT_ActivityInfo.availability w \<and>
     same_TransportLocatorSeq (AGENT_ActivityInfo.address_seq v) (AGENT_ActivityInfo.address_seq w)"

interpretation AGENT_ActivityInfo: xrce_codec uxr_serialize_AGENT_ActivityInfo uxr_deserialize_AGENT_ActivityInfo ok_AGENT_ActivityInfo same_AGENT_ActivityInfo
  by (unfold_locales; unfold uxr_serialize_AGENT_ActivityInfo_def uxr_deserialize_AGENT_ActivityInfo_def;
    (rule codec_steps writers | simp add: ok_AGENT_ActivityInfo_def same_AGENT_ActivityInfo_def)+)

interpretation DATAREADER_ActivityInfo: xrce_codec uxr_serialize_DATAREADER_ActivityInfo uxr_deserialize_DATAREADER_ActivityInfo "\<lambda>_. True" "(=)"
  by (unfold_locales; unfold uxr_serialize_DATAREADER_ActivityInfo_def uxr_deserialize_DATAREADER_ActivityInfo_def;
    (rule codec_steps writers | simp)+)

interpretation DATAWRITER_ActivityInfo: xrce_codec uxr_serialize_DATAWRITER_ActivityInfo uxr_deserialize_DATAWRITER_ActivityInfo "\<lambda>_. True" "(=)"
  by (unfold_locales; unfold uxr_serialize_DATAWRITER_ActivityInfo_def uxr_deserialize_DATAWRITER_ActivityInfo_def;
    (rule codec_steps writers | simp)+)

definition ok_ActivityInfoVariant :: "ActivityInfoVariant \<Rightarrow> bool" where
  "ok_ActivityInfoVariant v \<longleftrightarrow> (ActivityInfoVariant.kind v = DDS_XRCE_OBJK_AGENT \<longrightarrow> ok_AGENT_ActivityInfo (ActivityInfoVariantU.agent (ActivityInfoVariant.U v)))"

definition same_ActivityInfoVariant :: "ActivityInfoVariant \<Rightarrow> ActivityInfoVariant \<Rightarrow> bool" where
  "same_ActivityInfoVariant v w \<longleftrightarrow> ActivityInfoVariant.kind v = ActivityInfoVariant.kind w \<and>
     (ActivityInfoVariant.kind v = DDS_XRCE_OBJK_AGENT \<longrightarrow> same_AGENT_ActivityInfo (ActivityInfoVariantU.agent (ActivityInfoVariant.U v)) (ActivityInfoVariantU.agent (ActivityInfoVariant.U w))) \<and>
     (ActivityInfoVariant.kind v = DDS_XRCE_OBJK_DATAWRITER \<longrightarrow> ActivityInfoVariantU.data_writer (ActivityInfoVariant.U v) = ActivityInfoVariantU.data_writer (ActivityInfoVariant.U w)) \<and>
     (ActivityInfoVariant.kind v = DDS_XRCE_OBJK_DATAREADER \<longrightarrow> ActivityInfoVariantU.data_reader (ActivityInfoVariant.U v) = ActivityInfoVariantU.data_reader (ActivityInfoVariant.U w))"

interpretation ActivityInfoVariant: xrce_codec uxr_serialize_ActivityInfoVariant uxr_deserialize_ActivityInfoVariant ok_ActivityInfoVariant same_ActivityInfoVariant
  by (unfold_locales; unfold uxr_serialize_ActivityInfoVariant_def uxr_deserialize_ActivityInfoVariant_def;
    (rule codec_steps writers | simp add: ok_ActivityInfoVariant_def same_ActivityInfoVariant_def kind_defs)+)

definition ok_ObjectInfo :: "ObjectInfo \<Rightarrow> bool" where
  "ok_ObjectInfo v \<longleftrightarrow> (ObjectInfo.optional_config v \<longrightarrow> ok_ObjectVariant (ObjectInfo.config v)) \<and>
     (ObjectInfo.optional_activity v \<longrightarrow> ok_ActivityInfoVariant (ObjectInfo.activity v))"

definition same_ObjectInfo :: "ObjectInfo \<Rightarrow> ObjectInfo \<Rightarrow> bool" where
  "same_ObjectInfo v w \<longleftrightarrow> ObjectInfo.optional_config v = ObjectInfo.optional_config w \<and>
     (ObjectInfo.optional_config v \<longrightarrow> same_ObjectVariant (ObjectInfo.config v) (ObjectInfo.config w)) \<and>
     ObjectInfo.optional_activity v = ObjectInfo.optional_activity w \<and>
     (ObjectInfo.optional_activity v \<longrightarrow> same_ActivityInfoVariant (ObjectInfo.activity v) (ObjectInfo.activity w))"

interpretation ObjectInfo: xrce_codec uxr_serialize_ObjectInfo uxr_deserialize_ObjectInfo ok_ObjectInfo same_ObjectInfo
  by (unfold_locales; unfold uxr_serialize_ObjectInfo_def uxr_deserialize_ObjectInfo_def;
    (rule codec_steps writers | simp add: ok_ObjectInfo_def same_ObjectInfo_def)+)

definition ok_BaseObjectReply :: "BaseObjectReply \<Rightarrow> bool" where
  "ok_BaseObjectReply v \<longleftrightarrow> ok_BaseObjectRequest (BaseObjectReply.related_request v)"

interpretation BaseObjectReply: xrce_codec uxr_serialize_BaseObjectReply uxr_deserialize_BaseObjectReply ok_BaseObjectReply "(=)"
  by (unfold_locales; unfold uxr_serialize_BaseObjectReply_def uxr_deserialize_BaseObjectReply_def;
    (rule codec_steps writers | simp add: ok_BaseObjectReply_def)+)

interpretation DataDeliveryControl: xrce_codec uxr_serialize_DataDeliveryControl uxr_deserialize_DataDeliveryControl "\<lambda>_. True" "(=)"
  by (unfold_locales; unfold uxr_serialize_DataDeliveryControl_def uxr_deserialize_DataDeliveryControl_def;
    (rule codec_steps writers | simp)+)

definition ok_ReadSpecification :: "ReadSpecification \<Rightarrow> bool" where
  "ok_ReadSpecification v \<longleftrightarrow> (ReadSpecification.optional_content_filter_expression v \<longrightarrow> ok_string UXR_STRING_SIZE_MAX (ReadSpecification.content_filter_expression v))"

definition same_ReadSpecification :: "ReadSpecification \<Rightarrow> ReadSpecification \<Rightarrow> bool" where
  "same_ReadSpecification v w \<longleftrightarrow> ReadSpecification.preferred_stream_id v = ReadSpecification.preferred_stream_id w \<and>
     ReadSpecification.data_format v = ReadSpecification.data_format w \<and>
     ReadSpecification.optional_content_filter_expression v = ReadSpecification.optional_content_filter_expression w \<and>
     (ReadSpecification.optional_content_filter_expression v \<longrightarrow> ReadSpecification.content_filter_expression v = ReadSpecification.content_filter_expression w) \<and>
     ReadSpecification.optional_delivery_control v = ReadSpecification.optional_delivery_control w \<and>
     (ReadSpecification.optional_delivery_control v \<longrightarrow> ReadSpecification.delivery_control v = ReadSpecification.delivery_control w)"

interpretation ReadSpecification: xrce_codec uxr_serialize_ReadSpecification uxr_deserialize_ReadSpecification ok_ReadSpecification same_ReadSpecification
  by (unfold_locales; unfold uxr_serialize_ReadSpecification_def uxr_deserialize_ReadSpecification_def;
    (rule codec_steps writers | simp add: ok_ReadSpecification_def same_ReadSpecification_def)+)

interpretation SeqNumberAndTimestamp: xrce_codec uxr_serialize_SeqNumberAndTimestamp uxr_deserialize_SeqNumberAndTimestamp "\<lambda>_. True" "(=)"
  by (unfold_locales; unfold uxr_serialize_SeqNumberAndTimestamp_def uxr_deserialize_SeqNumberAndTimestamp_def;
    (rule codec_steps writers | simp)+)

definition same_SampleInfoDetail :: "SampleInfoDetail \<Rightarrow> SampleInfoDetail \<Rightarrow> bool" where
  "same_SampleInfoDetail v w \<longleftrightarrow> SampleInfoDetail.format v = SampleInfoDetail.format w \<and>
     (SampleInfoDetail.format v = FORMAT_EMPTY \<longrightarrow> SampleInfoDetailU.sequence_number (SampleInfoDetail.U v) = SampleInfoDetailU.sequence_number (SampleInfoDetail.U w)) \<and>
     (SampleInfoDetail.format v = FORMAT_SEQNUM \<longrightarrow> SampleInfoDetailU.session_time_offset (SampleInfoDetail.U v) = SampleInfoDetailU.session_time_offset (SampleInfoDetail.U w)) \<and>
     (SampleInfoDetail.format v = FORMAT_TIMESTAMP \<longrightarrow> SampleInfoDetailU.seqnum_n_timestamp (SampleInfoDetail.U v) = SampleInfoDetailU.seqnum_n_timestamp (SampleInfoDetail.U w))"

interpretation SampleInfoDetail: xrce_codec uxr_serialize_SampleInfoDetail uxr_deserialize_SampleInfoDetail "\<lambda>_. True" same_SampleInfoDetail
  by (unfold_locales; unfold uxr_serialize_SampleInfoDetail_def uxr_deserialize_SampleInfoDetail_def;
    (rule codec_steps writers | simp add: same_SampleInfoDetail_def kind_defs)+)

definition same_SampleInfo :: "SampleInfo \<Rightarrow> SampleInfo \<Rightarrow> bool" where
  "same_SampleInfo v w \<longleftrightarrow> SampleInfo.state' v = SampleInfo.state' w \<and>
     same_SampleInfoDetail (SampleInfo.detail v) (SampleInfo.detail w)"

interpretation SampleInfo: xrce_codec uxr_serialize_SampleInfo uxr_deserialize_SampleInfo "\<lambda>_. True" same_SampleInfo
  by (unfold_locales; unfold uxr_serialize_SampleInfo_def uxr_deserialize_SampleInfo_def;
    (rule codec_steps writers | simp add: same_SampleInfo_def)+)

interpretation SampleInfoDelta: xrce_codec uxr_serialize_SampleInfoDelta uxr_deserialize_SampleInfoDelta "\<lambda>_. True" "(=)"
  by (unfold_locales; unfold uxr_serialize_SampleInfoDelta_def uxr_deserialize_SampleInfoDelta_def;
    (rule codec_steps writers | simp)+)

definition ok_SampleData :: "SampleData \<Rightarrow> bool" where
  "ok_SampleData v \<longleftrightarrow> unat (SampleData.size' v) \<le> length (SampleData.data v) \<and>
     unat (SampleData.size' v) \<le> UXR_SAMPLE_DATA_SIZE_MAX"

definition same_SampleData :: "SampleData \<Rightarrow> SampleData \<Rightarrow> bool" where
  "same_SampleData v w \<longleftrightarrow> SampleData.size' v = SampleData.size' w \<and>
     take (unat (SampleData.size' v)) (SampleData.data v) = take (unat (SampleData.size' v)) (SampleData.data w)"

interpretation SampleData: xrce_codec uxr_serialize_SampleData uxr_deserialize_SampleData ok_SampleData same_SampleData
  by (unfold_locales; unfold uxr_serialize_SampleData_def uxr_deserialize_SampleData_def;
    (rule codec_steps writers | simp add: ok_SampleData_def same_SampleData_def)+)

definition ok_SampleDataSeq :: "SampleDataSeq \<Rightarrow> bool" where
  "ok_SampleDataSeq v \<longleftrightarrow> unat (SampleDataSeq.size' v) \<le> UXR_SAMPLE_DATA_SEQUENCE_MAX \<and>
     (\<forall>i < unat (SampleDataSeq.size' v). ok_SampleData (SampleDataSeq.data v i))"

definition same_SampleDataSeq :: "SampleDataSeq \<Rightarrow> SampleDataSeq \<Rightarrow> bool" where
  "same_SampleDataSeq v w \<longleftrightarrow> SampleDataSeq.size' v = SampleDataSeq.size' w \<and>
     (\<forall>i < unat (SampleDataSeq.size' v). same_SampleData (SampleDataSeq.data v i) (SampleDataSeq.data w i))"

interpretation SampleDataSeq: xrce_codec uxr_serialize_SampleDataSeq uxr_deserialize_SampleDataSeq ok_SampleDataSeq same_SampleDataSeq
  by (unfold_locales; unfold uxr_serialize_SampleDataSeq_def uxr_deserialize_SampleDataSeq_def;
    (rule codec_steps writers | simp add: ok_SampleDataSeq_def same_SampleDataSeq_def)+)

definition ok_Sample :: "Sample \<Rightarrow> bool" where
  "ok_Sample v \<longleftrightarrow> ok_SampleData (Sample.data v)"

definition same_Sample :: "Sample \<Rightarrow> Sample \<Rightarrow> bool" where
  "same_Sample v w \<longleftrightarrow> same_SampleInfo (Sample.info v) (Sample.info w) \<and>
     same_SampleData (Sample.data v) (Sample.data w)"

interpretation Sample: xrce_codec uxr_serialize_Sample uxr_deserialize_Sample ok_Sample same_Sample
  by (unfold_locales; unfold uxr_serialize_Sample_def uxr_deserialize_Sample_def;
    (rule codec_steps writers | simp add: ok_Sample_def same_Sample_def)+)

definition ok_SampleSeq :: "SampleSeq \<Rightarrow> bool" where
  "ok_SampleSeq v \<longleftrightarrow> unat (SampleSeq.size' v) \<le> UXR_SAMPLE_SEQUENCE_MAX \<and>
     (\<forall>i < unat (SampleSeq.size' v). ok_Sample (SampleSeq.data v i))"

definition same_SampleSeq :: "SampleSeq \<Rightarrow> SampleSeq \<Rightarrow> bool" where
  "same_SampleSeq v w \<longleftrightarrow> SampleSeq.size' v = SampleSeq.size' w \<and>
     (\<forall>i < unat (SampleSeq.size' v). same_Sample (SampleSeq.data v i) (SampleSeq.data w i))"

interpretation SampleSeq: xrce_codec uxr_serialize_SampleSeq uxr_deserialize_SampleSeq ok_SampleSeq same_SampleSeq
  by (unfold_locales; unfold uxr_serialize_SampleSeq_def uxr_deserialize_SampleSeq_def;
    (rule codec_steps writers | simp add: ok_SampleSeq_def same_SampleSeq_def)+)

definition ok_SampleDelta :: "SampleDelta \<Rightarrow> bool" where
  "ok_SampleDelta v \<longleftrightarrow> ok_SampleData (SampleDelta.data v)"

definition same_SampleDelta :: "SampleDelta \<Rightarrow> SampleDelta \<Rightarrow> bool" where
  "same_SampleDelta v w \<longleftrightarrow> SampleDelta.info_delta v = SampleDelta.info_delta w \<and>
     same_SampleData (SampleDelta.data v) (SampleDelta.data w)"

interpretation SampleDelta: xrce_codec uxr_serialize_SampleDelta uxr_deserialize_SampleDelta ok_SampleDelta same_SampleDelta
  by (unfold_locales; unfold uxr_serialize_SampleDelta_def uxr_deserialize_SampleDelta_def;
    (rule codec_steps writers | simp add: ok_SampleDelta_def same_SampleDelta_def)+)

definition ok_SampleDeltaSequence :: "SampleDeltaSequence \<Rightarrow> bool" where
  "ok_SampleDeltaSequence v \<longleftrightarrow> unat (SampleDeltaSequence.size' v) \<le> UXR_SAMPLE_DELTA_SEQUENCE_MAX \<and>
     (\<forall>i < unat (SampleDeltaSequence.size' v). ok_SampleDelta (SampleDeltaSequence.data v i))"

definition same_SampleDeltaSequence :: "SampleDeltaSequence \<Rightarrow> SampleDeltaSequence \<Rightarrow> bool" where
  "same_SampleDeltaSequence v w \<longleftrightarrow> SampleDeltaSequence.size' v = SampleDeltaSequence.size' w \<and>
     (\<forall>i < unat (SampleDeltaSequence.size' v). same_SampleDelta (SampleDeltaSequence.data v i) (SampleDeltaSequence.data w i))"

interpretation SampleDeltaSequence: xrce_codec uxr_serialize_SampleDeltaSequence uxr_deserialize_SampleDeltaSequence ok_SampleDeltaSequence same_SampleDeltaSequence
  by (unfold_locales; unfold uxr_serialize_SampleDeltaSequence_def uxr_deserialize_SampleDeltaSequence_def;
    (rule codec_steps writers | simp add: ok_SampleDeltaSequence_def same_SampleDeltaSequence_def)+)

definition ok_PackedSamples :: "PackedSamples \<Rightarrow> bool" where
  "ok_PackedSamples v \<longleftrightarrow> ok_SampleDeltaSequence (PackedSamples.sample_delta_seq v)"

definition same_PackedSamples :: "PackedSamples \<Rightarrow> PackedSamples \<Rightarrow> bool" where
  "same_PackedSamples v w \<longleftrightarrow> same_SampleInfo (PackedSamples.info_base v) (PackedSamples.info_base w) \<and>
     same_SampleDeltaSequence (PackedSamples.sample_delta_seq v) (PackedSamples.sample_delta_seq w)"

interpretation PackedSamples: xrce_codec uxr_serialize_PackedSamples uxr_deserialize_PackedSamples ok_PackedSamples same_PackedSamples
  by (unfold_locales; unfold uxr_serialize_PackedSamples_def uxr_deserialize_PackedSamples_def;
    (rule codec_steps writers | simp add: ok_PackedSamples_def same_PackedSamples_def)+)

definition ok_SamplePackedSeq :: "SamplePackedSeq \<Rightarrow> bool" where
  "ok_SamplePackedSeq v \<longleftrightarrow> unat (SamplePackedSeq.size' v) \<le> UXR_PACKED_SAMPLES_SEQUENCE_MAX \<and>
     (\<forall>i < unat (SamplePackedSeq.size' v). ok_PackedSamples (SamplePackedSeq.data v i))"

definition same_SamplePackedSeq :: "SamplePackedSeq \<Rightarrow> SamplePackedSeq \<Rightarrow> bool" where
  "same_SamplePackedSeq v w \<longleftrightarrow> SamplePackedSeq.size' v = SamplePackedSeq.size' w \<and>
     (\<forall>i < unat (SamplePackedSeq.size' v). same_PackedSamples (SamplePackedSeq.data v i) (SamplePackedSeq.data w i))"

interpretation SamplePackedSeq: xrce_codec uxr_serialize_SamplePackedSeq uxr_deserialize_SamplePackedSeq ok_SamplePackedSeq same_SamplePackedSeq
  by (unfold_locales; unfold uxr_serialize_SamplePackedSeq_def uxr_deserialize_SamplePackedSeq_def;
    (rule codec_steps writers | simp add: ok_SamplePackedSeq_def same_SamplePackedSeq_def)+)

definition ok_DataRepresentation :: "DataRepresentation \<Rightarrow> bool" where
  "ok_DataRepresentation v \<longleftrightarrow> (DataRepresentation.format v = FORMAT_DATA \<longrightarrow> ok_SampleData (DataRepresentationU.data (DataRepresentation.U v))) \<and>
     (DataRepresentation.format v = FORMAT_SAMPLE \<longrightarrow> ok_Sample (DataRepresentationU.sample (DataRepresentation.U v))) \<and>
     (DataRepresentation.format v = FORMAT_DATA_SEQ \<longrightarrow> ok_SampleDataSeq (DataRepresentationU.data_seq (DataRepresentation.U v))) \<and>
     (DataRepresentation.format v = FORMAT_SAMPLE_SEQ \<longrightarrow> ok_SampleSeq (DataRepresentationU.sample_seq (DataRepresentation.U v))) \<and>
     (DataRepresentation.format v = FORMAT_PACKED_SAMPLES \<longrightarrow> ok_PackedSamples (DataRepresentationU.packed_samples (DataRepresentation.U v)))"

definition same_DataRepresentation :: "DataRepresentation \<Rightarrow> DataRepresentation \<Rightarrow> bool" where
  "same_DataRepresentation v w \<longleftrightarrow> DataRepresentation.format v = DataRepresentation.format w \<and>
     (DataRepresentation.format v = FORMAT_DATA \<longrightarrow> same_SampleData (DataRepresentationU.data (DataRepresentation.U v)) (DataRepresentationU.data (DataRepresentation.U w))) \<and>
     (DataRepresentation.format v = FORMAT_SAMPLE \<longrightarrow> same_Sample (DataRepresentationU.sample (DataRepresentation.U v)) (DataRepresentationU.sample (DataRepresentation.U w))) \<and>
     (DataRepresentation.format v = FORMAT_DATA_SEQ \<longrightarrow> same_SampleDataSeq (DataRepresentationU.data_seq (DataRepresentation.U v)) (DataRepresentationU.data_seq (DataRepresentation.U w))) \<and>
     (DataRepresentation.format v = FORMAT_SAMPLE_SEQ \<longrightarrow> same_SampleSeq (DataRepresentationU.sample_seq (DataRepresentation.U v)) (DataRepresentationU.sample_seq (DataRepresentation.U w))) \<and>
     (DataRepresentation.format v = FORMAT_PACKED_SAMPLES \<longrightarrow> same_PackedSamples (DataRepresentationU.packed_samples (DataRepresentation.U v)) (DataRepresentationU.packed_samples (DataRepresentation.U w)))"

interpretation DataRepresentation: xrce_codec uxr_serialize_DataRepresentation uxr_deserialize_DataRepresentation ok_DataRepresentation same_DataRepresentation
  by (unfold_locales; unfold uxr_serialize_DataRepresentation_def uxr_deserialize_DataRepresentation_def;
    (rule codec_steps writers | simp add: ok_DataRepresentation_def same_DataRepresentation_def kind_defs)+)

definition ok_CREATE_CLIENT_Payload :: "CREATE_CLIENT_Payload \<Rightarrow> bool" where
  "ok_CREATE_CLIENT_Payload v \<longleftrightarrow> ok_CLIENT_Representation (CREATE_CLIENT_Payload.client_representation v)"

definition same_CREATE_CLIENT_Payload :: "CREATE_CLIENT_Payload \<Rightarrow> CREATE_CLIENT_Payload \<Rightarrow> bool" where
  "same_CREATE_CLIENT_Payload v w \<longleftrightarrow> same_CLIENT_Representation (CREATE_CLIENT_Payload.client_representation v) (CREATE_CLIENT_Payload.client_representation w)"

interpretation CREATE_CLIENT_Payload: xrce_codec uxr_serialize_CREATE_CLIENT_Payload uxr_deserialize_CREATE_CLIENT_Payload ok_CREATE_CLIENT_Payload same_CREATE_CLIENT_Payload
  by (unfold_locales; unfold uxr_serialize_CREATE_CLIENT_Payload_def uxr_deserialize_CREATE_CLIENT_Payload_def;
    (rule codec_steps writers | simp add: ok_CREATE_CLIENT_Payload_def same_CREATE_CLIENT_Payload_def)+)

definition ok_CREATE_Payload :: "CREATE_Payload \<Rightarrow> bool" where
  "ok_CREATE_Payload v \<longleftrightarrow> ok_BaseObjectRequest (CREATE_Payload.base v) \<and>
     ok_ObjectVariant (CREATE_Payload.object_representation v)"

definition same_CREATE_Payload :: "CREATE_Payload \<Rightarrow> CREATE_Payload \<Rightarrow> bool" where
  "same_CREATE_Payload v w \<longleftrightarrow> CREATE_Payload.base v = CREATE_Payload.base w \<and>
     same_ObjectVariant (CREATE_Payload.object_representation v) (CREATE_Payload.object_representation w)"

interpretation CREATE_Payload: xrce_codec uxr_serialize_CREATE_Payload uxr_deserialize_CREATE_Payload ok_CREATE_Payload same_CREATE_Payload
  by (unfold_locales; unfold uxr_serialize_CREATE_Payload_def uxr_deserialize_CREATE_Payload_def;
    (rule codec_steps writers | simp add: ok_CREATE_Payload_def same_CREATE_Payload_def)+)

definition ok_GET_INFO_Payload :: "GET_INFO_Payload \<Rightarrow> bool" where
  "ok_GET_INFO_Payload v \<longleftrightarrow> ok_BaseObjectRequest (GET_INFO_Payload.base v)"

interpretation GET_INFO_Payload: xrce_codec uxr_serialize_GET_INFO_Payload uxr_deserialize_GET_INFO_Payload ok_GET_INFO_Payload "(=)"
  by (unfold_locales; unfold uxr_serialize_GET_INFO_Payload_def uxr_deserialize_GET_INFO_Payload_def;
    (rule codec_steps writers | simp add: ok_GET_INFO_Payload_def)+)

definition ok_DELETE_Payload :: "DELETE_Payload \<Rightarrow> bool" where
  "ok_DELETE_Payload v \<longleftrightarrow> ok_BaseObjectRequest (DELETE_Payload.base v)"

interpretation DELETE_Payload: xrce_codec uxr_serialize_DELETE_Payload uxr_deserialize_DELETE_Payload ok_DELETE_Payload "(=)"
  by (unfold_locales; unfold uxr_serialize_DELETE_Payload_def uxr_deserialize_DELETE_Payload_def;
    (rule codec_steps writers | simp add: ok_DELETE_Payload_def)+)

definition ok_STATUS_AGENT_Payload :: "STATUS_AGENT_Payload \<Rightarrow> bool" where
  "ok_STATUS_AGENT_Payload v \<longleftrightarrow> ok_AGENT_Representation (STATUS_AGENT_Payload.agent_info v)"

definition same_STATUS_AGENT_Payload :: "STATUS_AGENT_Payload \<Rightarrow> STATUS_AGENT_Payload \<Rightarrow> bool" where
  "same_STATUS_AGENT_Payload v w \<longleftrightarrow> STATUS_AGENT_Payload.result v = STATUS_AGENT_Payload.result w \<and>
     same_AGENT_Representation (STATUS_AGENT_Payload.agent_info v) (STATUS_AGENT_Payload.agent_info w)"

interpretation STATUS_AGENT_Payload: xrce_codec uxr_serialize_STATUS_AGENT_Payload uxr_deserialize_STATUS_AGENT_Payload ok_STATUS_AGENT_Payload same_STATUS_AGENT_Payload
  by (unfold_locales; unfold uxr_serialize_STATUS_AGENT_Payload_def uxr_deserialize_STATUS_AGENT_Payload_def;
    (rule codec_steps writers | simp add: ok_STATUS_AGENT_Payload_def same_STATUS_AGENT_Payload_def)+)

definition ok_STATUS_Payload :: "STATUS_Payload \<Rightarrow> bool" where
  "ok_STATUS_Payload v \<longleftrightarrow> ok_BaseObjectReply (STATUS_Payload.base v)"

interpretation STATUS_Payload: xrce_codec uxr_serialize_STATUS_Payload uxr_deserialize_STATUS_Payload ok_STATUS_Payload "(=)"
  by (unfold_locales; unfold uxr_serialize_STATUS_Payload_def uxr_deserialize_STATUS_Payload_def;
    (rule codec_steps writers | simp add: ok_STATUS_Payload_def)+)

definition ok_INFO_Payload :: "INFO_Payload \<Rightarrow> bool" where
  "ok_INFO_Payload v \<longleftrightarrow> ok_BaseObjectReply (INFO_Payload.base v) \<and>
     ok_ObjectInfo (INFO_Payload.object_info v)"

definition same_INFO_Payload :: "INFO_Payload \<Rightarrow> INFO_Payload \<Rightarrow> bool" where
  "same_INFO_Payload v w \<longleftrightarrow> INFO_Payload.base v = INFO_Payload.base w \<and>
     same_ObjectInfo (INFO_Payload.object_info v) (INFO_Payload.object_info w)"

interpretation INFO_Payload: xrce_codec uxr_serialize_INFO_Payload uxr_deserialize_INFO_Payload ok_INFO_Payload same_INFO_Payload
  by (unfold_locales; unfold uxr_serialize_INFO_Payload_def uxr_deserialize_INFO_Payload_def;
    (rule codec_steps writers | simp add: ok_INFO_Payload_def same_INFO_Payload_def)+)

definition ok_READ_DATA_Payload :: "READ_DATA_Payload \<Rightarrow> bool" where
  "ok_READ_DATA_Payload v \<longleftrightarrow> ok_BaseObjectRequest (READ_DATA_Payload.base v) \<and>
     ok_ReadSpecification (READ_DATA_Payload.read_specification v)"

definition same_READ_DATA_Payload :: "READ_DATA_Payload \<Rightarrow> READ_DATA_Payload \<Rightarrow> bool" where
  "same_READ_DATA_Payload v w \<longleftrightarrow> READ_DATA_Payload.base v = READ_DATA_Payload.base w \<and>
     same_ReadSpecification (READ_DATA_Payload.read_specification v) (READ_DATA_Payload.read_specification w)"

interpretation READ_DATA_Payload: xrce_codec uxr_serialize_READ_DATA_Payload uxr_deserialize_READ_DATA_Payload ok_READ_DATA_Payload same_READ_DATA_Payload
  by (unfold_locales; unfold uxr_serialize_READ_DATA_Payload_def uxr_deserialize_READ_DATA_Payload_def;
    (rule codec_steps writers | simp add: ok_READ_DATA_Payload_def same_READ_DATA_Payload_def)+)

definition ok_WRITE_DATA_Payload_Data :: "WRITE_DATA_Payload_Data \<Rightarrow> bool" where
  "ok_WRITE_DATA_Payload_Data v \<longleftrightarrow> ok_BaseObjectRequest (WRITE_DATA_Payload_Data.base v)"

interpretation WRITE_DATA_Payload_Data: xrce_codec uxr_serialize_WRITE_DATA_Payload_Data uxr_deserialize_WRITE_DATA_Payload_Data ok_WRITE_DATA_Payload_Data "(=)"
  by (unfold_locales; unfold uxr_serialize_WRITE_DATA_Payload_Data_def uxr_deserialize_WRITE_DATA_Payload_Data_def;
    (rule codec_steps writers | simp add: ok_WRITE_DATA_Payload_Data_def)+)

definition ok_WRITE_DATA_Payload_Sample :: "WRITE_DATA_Payload_Sample \<Rightarrow> bool" where
  "ok_WRITE_DATA_Payload_Sample v \<longleftrightarrow> ok_BaseObjectRequest (WRITE_DATA_Payload_Sample.base v) \<and>
     ok_Sample (WRITE_DATA_Payload_Sample.sample v)"

definition same_WRITE_DATA_Payload_Sample :: "WRITE_DATA_Payload_Sample \<Rightarrow> WRITE_DATA_Payload_Sample \<Rightarrow> bool" where
  "same_WRITE_DATA_Payload_Sample v w \<longleftrightarrow> WRITE_DATA_Payload_Sample.base v = WRITE_DATA_Payload_Sample.base w \<and>
     same_Sample (WRITE_DATA_Payload_Sample.sample v) (WRITE_DATA_Payload_Sample.sample w)"

interpretation WRITE_DATA_Payload_Sample: xrce_codec uxr_serialize_WRITE_DATA_Payload_Sample uxr_deserialize_WRITE_DATA_Payload_Sample ok_WRITE_DATA_Payload_Sample same_WRITE_DATA_Payload_Sample
  by (unfold_locales; unfold uxr_serialize_WRITE_DATA_Payload_Sample_def uxr_deserialize_WRITE_DATA_Payload_Sample_def;
    (rule codec_steps writers | simp add: ok_WRITE_DATA_Payload_Sample_def same_WRITE_DATA_Payload_Sample_def)+)

definition ok_WRITE_DATA_Payload_DataSeq :: "WRITE_DATA_Payload_DataSeq \<Rightarrow> bool" where
  "ok_WRITE_DATA_Payload_DataSeq v \<longleftrightarrow> ok_BaseObjectRequest (WRITE_DATA_Payload_DataSeq.base v) \<and>
     ok_SampleDataSeq (WRITE_DATA_Payload_DataSeq.data_seq v)"

definition same_WRITE_DATA_Payload_DataSeq :: "WRITE_DATA_Payload_DataSeq \<Rightarrow> WRITE_DATA_Payload_DataSeq \<Rightarrow> bool" where
  "same_WRITE_DATA_Payload_DataSeq v w \<longleftrightarrow> WRITE_DATA_Payload_DataSeq.base v = WRITE_DATA_Payload_DataSeq.base w \<and>
     same_SampleDataSeq (WRITE_DATA_Payload_DataSeq.data_seq v) (WRITE_DATA_Payload_DataSeq.data_seq w)"

interpretation WRITE_DATA_Payload_DataSeq: xrce_codec uxr_serialize_WRITE_DATA_Payload_DataSeq uxr_deserialize_WRITE_DATA_Payload_DataSeq ok_WRITE_DATA_Payload_DataSeq same_WRITE_DATA_Payload_DataSeq
  by (unfold_locales; unfold uxr_serialize_WRITE_DATA_Payload_DataSeq_def uxr_deserialize_WRITE_DATA_Payload_DataSeq_def;
    (rule codec_steps writers | simp add: ok_WRITE_DATA_Payload_DataSeq_def same_WRITE_DATA_Payload_DataSeq_def)+)

definition ok_WRITE_DATA_Payload_SampleSeq :: "WRITE_DATA_Payload_SampleSeq \<Rightarrow> bool" where
  "ok_WRITE_DATA_Payload_SampleSeq v \<longleftrightarrow> ok_BaseObjectRequest (WRITE_DATA_Payload_SampleSeq.base v) \<and>
     ok_SampleSeq (WRITE_DATA_Payload_SampleSeq.sample_seq v)"

definition same_WRITE_DATA_Payload_SampleSeq :: "WRITE_DATA_Payload_SampleSeq \<Rightarrow> WRITE_DATA_Payload_SampleSeq \<Rightarrow> bool" where
  "same_WRITE_DATA_Payload_SampleSeq v w \<longleftrightarrow> WRITE_DATA_Payload_SampleSeq.base v = WRITE_DATA_Payload_SampleSeq.base w \<and>
     same_SampleSeq (WRITE_DATA_Payload_SampleSeq.sample_seq v) (WRITE_DATA_Payload_SampleSeq.sample_seq w)"

interpretation WRITE_DATA_Payload_SampleSeq: xrce_codec uxr_serialize_WRITE_DATA_Payload_SampleSeq uxr_deserialize_WRITE_DATA_Payload_SampleSeq ok_WRITE_DATA_Payload_SampleSeq same_WRITE_DATA_Payload_SampleSeq
  by (unfold_locales; unfold uxr_serialize_WRITE_DATA_Payload_SampleSeq_def uxr_deserialize_WRITE_DATA_Payload_SampleSeq_def;
    (rule codec_steps writers | simp add: ok_WRITE_DATA_Payload_SampleSeq_def same_WRITE_DATA_Payload_SampleSeq_def)+)

definition ok_WRITE_DATA_Payload_PackedSamples :: "WRITE_DATA_Payload_PackedSamples \<Rightarrow> bool" where
  "ok_WRITE_DATA_Payload_PackedSamples v \<longleftrightarrow> ok_BaseObjectRequest (WRITE_DATA_Payload_PackedSamples.base v) \<and>
     ok_PackedSamples (WRITE_DATA_Payload_PackedSamples.packed_samples v)"

definition same_WRITE_DATA_Payload_PackedSamples :: "WRITE_DATA_Payload_PackedSamples \<Rightarrow> WRITE_DATA_Payload_PackedSamples \<Rightarrow> bool" where
  "same_WRITE_DATA_Payload_PackedSamples v w \<longleftrightarrow> WRITE_DATA_Payload_PackedSamples.base v = WRITE_DATA_Payload_PackedSamples.base w \<and>
     same_PackedSamples (WRITE_DATA_Payload_PackedSamples.packed_samples v) (WRITE_DATA_Payload_PackedSamples.packed_samples w)"

interpretation WRITE_DATA_Payload_PackedSamples: xrce_codec uxr_serialize_WRITE_DATA_Payload_PackedSamples uxr_deserialize_WRITE_DATA_Payload_PackedSamples ok_WRITE_DATA_Payload_PackedSamples same_WRITE_DATA_Payload_PackedSamples
  by (unfold_locales; unfold uxr_serialize_WRITE_DATA_Payload_PackedSamples_def uxr_deserialize_WRITE_DATA_Payload_PackedSamples_def;
    (rule codec_steps writers | simp add: ok_WRITE_DATA_Payload_PackedSamples_def same_WRITE_DATA_Payload_PackedSamples_def)+)

definition ok_DATA_Payload_Data :: "DATA_Payload_Data \<Rightarrow> bool" where
  "ok_DATA_Payload_Data v \<longleftrightarrow> ok_BaseObjectRequest (DATA_Payload_Data.base v)"

interpretation DATA_Payload_Data: xrce_codec uxr_serialize_DATA_Payload_Data uxr_deserialize_DATA_Payload_Data ok_DATA_Payload_Data "(=)"
  by (unfold_locales; unfold uxr_serialize_DATA_Payload_Data_def uxr_deserialize_DATA_Payload_Data_def;
    (rule codec_steps writers | simp add: ok_DATA_Payload_Data_def)+)

definition ok_DATA_Payload_Sample :: "DATA_Payload_Sample \<Rightarrow> bool" where
  "ok_DATA_Payload_Sample v \<longleftrightarrow> ok_BaseObjectRequest (DATA_Payload_Sample.base v) \<and>
     ok_Sample (DATA_Payload_Sample.sample v)"

definition same_DATA_Payload_Sample :: "DATA_Payload_Sample \<Rightarrow> DATA_Payload_Sample \<Rightarrow> bool" where
  "same_DATA_Payload_Sample v w \<longleftrightarrow> DATA_Payload_Sample.base v = DATA_Payload_Sample.base w \<and>
     same_Sample (DATA_Payload_Sample.sample v) (DATA_Payload_Sample.sample w)"

interpretation DATA_Payload_Sample: xrce_codec uxr_serialize_DATA_Payload_Sample uxr_deserialize_DATA_Payload_Sample ok_DATA_Payload_Sample same_DATA_Payload_Sample
  by (unfold_locales; unfold uxr_serialize_DATA_Payload_Sample_def uxr_deserialize_DATA_Payload_Sample_def;
    (rule codec_steps writers | simp add: ok_DATA_Payload_Sample_def same_DATA_Payload_Sample_def)+)

definition ok_DATA_Payload_DataSeq :: "DATA_Payload_DataSeq \<Rightarrow> bool" where
  "ok_DATA_Payload_DataSeq v \<longleftrightarrow> ok_BaseObjectRequest (DATA_Payload_DataSeq.base v) \<and>
     ok_SampleDataSeq (DATA_Payload_DataSeq.data_seq v)"

definition same_DATA_Payload_DataSeq :: "DATA_Payload_DataSeq \<Rightarrow> DATA_Payload_DataSeq \<Rightarrow> bool" where
  "same_DATA_Payload_DataSeq v w \<longleftrightarrow> DATA_Payload_DataSeq.base v = DATA_Payload_DataSeq.base w \<and>
     same_SampleDataSeq (DATA_Payload_DataSeq.data_seq v) (DATA_Payload_DataSeq.data_seq w)"

interpretation DATA_Payload_DataSeq: xrce_codec uxr_serialize_DATA_Payload_DataSeq uxr_deserialize_DATA_Payload_DataSeq ok_DATA_Payload_DataSeq same_DATA_Payload_DataSeq
  by (unfold_locales; unfold uxr_serialize_DATA_Payload_DataSeq_def uxr_deserialize_DATA_Payload_DataSeq_def;
    (rule codec_steps writers | simp add: ok_DATA_Payload_DataSeq_def same_DATA_Payload_DataSeq_def)+)

definition ok_DATA_Payload_SampleSeq :: "DATA_Payload_SampleSeq \<Rightarrow> bool" where
  "ok_DATA_Payload_SampleSeq v \<longleftrightarrow> ok_BaseObjectRequest (DATA_Payload_SampleSeq.base v) \<and>
     ok_SampleSeq (DATA_Payload_SampleSeq.sample_seq v)"

definition same_DATA_Payload_SampleSeq :: "DATA_Payload_SampleSeq \<Rightarrow> DATA_Payload_SampleSeq \<Rightarrow> bool" where
  "same_DATA_Payload_SampleSeq v w \<longleftrightarrow> DATA_Payload_SampleSeq.base v = DATA_Payload_SampleSeq.base w \<and>
     same_SampleSeq (DATA_Payload_SampleSeq.sample_seq v) (DATA_Payload_SampleSeq.sample_seq w)"

interpretation DATA_Payload_SampleSeq: xrce_codec uxr_serialize_DATA_Payload_SampleSeq uxr_deserialize_DATA_Payload_SampleSeq ok_DATA_Payload_SampleSeq same_DATA_Payload_SampleSeq
  by (unfold_locales; unfold uxr_serialize_DATA_Payload_SampleSeq_def uxr_deserialize_DATA_Payload_SampleSeq_def;
    (rule codec_steps writers | simp add: ok_DATA_Payload_SampleSeq_def same_DATA_Payload_SampleSeq_def)+)

definition ok_DATA_Payload_PackedSamples :: "DATA_Payload_PackedSamples \<Rightarrow> bool" where
  "ok_DATA_Payload_PackedSamples v \<longleftrightarrow> ok_BaseObjectRequest (DATA_Payload_PackedSamples.base v) \<and>
     ok_PackedSamples (DATA_Payload_PackedSamples.packed_samples v)"

definition same_DATA_Payload_PackedSamples :: "DATA_Payload_PackedSamples \<Rightarrow> DATA_Payload_PackedSamples \<Rightarrow> bool" where
  "same_DATA_Payload_PackedSamples v w \<longleftrightarrow> DATA_Payload_PackedSamples.base v = DATA_Payload_PackedSamples.base w \<and>
     same_PackedSamples (DATA_Payload_PackedSamples.packed_samples v) (DATA_Payload_PackedSamples.packed_samples w)"

interpretation DATA_Payload_PackedSamples: xrce_codec uxr_serialize_DATA_Payload_PackedSamples uxr_deserialize_DATA_Payload_PackedSamples ok_DATA_Payload_PackedSamples same_DATA_Payload_PackedSamples
  by (unfold_locales; unfold uxr_serialize_DATA_Payload_PackedSamples_def uxr_deserialize_DATA_Payload_PackedSamples_def;
    (rule codec_steps writers | simp add: ok_DATA_Payload_PackedSamples_def same_DATA_Payload_PackedSamples_def)+)

definition ok_ACKNACK_Payload :: "ACKNACK_Payload \<Rightarrow> bool" where
  "ok_ACKNACK_Payload v \<longleftrightarrow> length (ACKNACK_Payload.nack_bitmap v) = 2"

interpretation ACKNACK_Payload: xrce_codec uxr_serialize_ACKNACK_Payload uxr_deserialize_ACKNACK_Payload ok_ACKNACK_Payload "(=)"
  by (unfold_locales; unfold uxr_serialize_ACKNACK_Payload_def uxr_deserialize_ACKNACK_Payload_def;
    (rule codec_steps writers | simp add: ok_ACKNACK_Payload_def)+)

interpretation HEARTBEAT_Payload: xrce_codec uxr_serialize_HEARTBEAT_Payload uxr_deserialize_HEARTBEAT_Payload "\<lambda>_. True" "(=)"
  by (unfold_locales; unfold uxr_serialize_HEARTBEAT_Payload_def uxr_deserialize_HEARTBEAT_Payload_def;
    (rule codec_steps writers | simp)+)

interpretation TIMESTAMP_Payload: xrce_codec uxr_serialize_TIMESTAMP_Payload uxr_deserialize_TIMESTAMP_Payload "\<lambda>_. True" "(=)"
  by (unfold_locales; unfold uxr_serialize_TIMESTAMP_Payload_def uxr_deserialize_TIMESTAMP_Payload_def;
    (rule codec_steps writers | simp)+)

interpretation TIMESTAMP_REPLY_Payload: xrce_codec uxr_serialize_TIMESTAMP_REPLY_Payload uxr_deserialize_TIMESTAMP_REPLY_Payload "\<lambda>_. True" "(=)"
  by (unfold_locales; unfold uxr_serialize_TIMESTAMP_REPLY_Payload_def uxr_deserialize_TIMESTAMP_REPLY_Payload_def;
    (rule codec_steps writers | simp)+)

definition ok_GuidPrefix_t :: "GuidPrefix_t \<Rightarrow> bool" where
  "ok_GuidPrefix_t v \<longleftrightarrow> length (GuidPrefix_t.data v) = 12"

interpretation GuidPrefix_t: xrce_codec uxr_serialize_GuidPrefix_t uxr_deserialize_GuidPrefix_t ok_GuidPrefix_t "(=)"
  by (unfold_locales; unfold uxr_serialize_GuidPrefix_t_def uxr_deserialize_GuidPrefix_t_def;
    (rule codec_steps writers | simp add: ok_GuidPrefix_t_def)+)

definition ok_EntityId_t :: "EntityId_t \<Rightarrow> bool" where
  "ok_EntityId_t v \<longleftrightarrow> length (EntityId_t.entityKey v) = 3"

interpretation EntityId_t: xrce_codec uxr_serialize_EntityId_t uxr_deserialize_EntityId_t ok_EntityId_t "(=)"
  by (unfold_locales; unfold uxr_serialize_EntityId_t_def uxr_deserialize_EntityId_t_def;
    (rule codec_steps writers | simp add: ok_EntityId_t_def)+)

definition ok_GUID_t :: "GUID_t \<Rightarrow> bool" where
  "ok_GUID_t v \<longleftrightarrow> ok_GuidPrefix_t (GUID_t.guidPrefix v) \<and>
     ok_EntityId_t (GUID_t.entityId v)"

interpretation GUID_t: xrce_codec uxr_serialize_GUID_t uxr_deserialize_GUID_t ok_GUID_t "(=)"
  by (unfold_locales; unfold uxr_serialize_GUID_t_def uxr_deserialize_GUID_t_def;
    (rule codec_steps writers | simp add: ok_GUID_t_def)+)

interpretation SequenceNumber_t: xrce_codec uxr_serialize_SequenceNumber_t uxr_deserialize_SequenceNumber_t "\<lambda>_. True" "(=)"
  by (unfold_locales; unfold uxr_serialize_SequenceNumber_t_def uxr_deserialize_SequenceNumber_t_def;
    (rule codec_steps writers | simp)+)

definition ok_SampleIdentity :: "SampleIdentity \<Rightarrow> bool" where
  "ok_SampleIdentity v \<longleftrightarrow> ok_GUID_t (SampleIdentity.writer_guid v)"

interpretation SampleIdentity: xrce_codec uxr_serialize_SampleIdentity uxr_deserialize_SampleIdentity ok_SampleIdentity "(=)"
  by (unfold_locales; unfold uxr_serialize_SampleIdentity_def uxr_deserialize_SampleIdentity_def;
    (rule codec_steps writers | simp add: ok_SampleIdentity_def)+)

end
