(* ===== verification/SessionInfo.thy ===== *)
theory SessionInfo
  imports Ids Submessage XrceRoundtrip
begin

text \<open>
  What a client knows of its session, \<open>src/c/core/session/session_info.c\<close>: the identifier and
  key that head every message, the status of the last login or logout, and the generator of
  request identifiers. The build has neither the shared memory profile nor the hard liveliness
  check, as by default; a \<open>payload0\<close> or \<open>key0\<close> is what an automatic variable holds before it is
  written.
\<close>

definition UXR_STATUS_OK :: u8 where "UXR_STATUS_OK = 0x00"
definition UXR_STATUS_OK_MATCHED :: u8 where "UXR_STATUS_OK_MATCHED = 0x01"
definition UXR_STATUS_ERR_DDS_ERROR :: u8 where "UXR_STATUS_ERR_DDS_ERROR = 0x80"
definition UXR_STATUS_ERR_MISMATCH :: u8 where "UXR_STATUS_ERR_MISMATCH = 0x81"
definition UXR_STATUS_ERR_ALREADY_EXISTS :: u8 where "UXR_STATUS_ERR_ALREADY_EXISTS = 0x82"
definition UXR_STATUS_ERR_DENIED :: u8 where "UXR_STATUS_ERR_DENIED = 0x83"
definition UXR_STATUS_ERR_UNKNOWN_REFERENCE :: u8 where "UXR_STATUS_ERR_UNKNOWN_REFERENCE = 0x84"
definition UXR_STATUS_ERR_INVALID_DATA :: u8 where "UXR_STATUS_ERR_INVALID_DATA = 0x85"
definition UXR_STATUS_ERR_INCOMPATIBLE :: u8 where "UXR_STATUS_ERR_INCOMPATIBLE = 0x86"
definition UXR_STATUS_ERR_RESOURCES :: u8 where "UXR_STATUS_ERR_RESOURCES = 0x87"
definition UXR_STATUS_NONE :: u8 where "UXR_STATUS_NONE = 0xFF"

definition UXR_REUSE :: u8 where "UXR_REUSE = push_bit 1 0x01"
definition UXR_REPLACE :: u8 where "UXR_REPLACE = push_bit 2 0x01"

definition UXR_INVALID_REQUEST_ID :: u16 where "UXR_INVALID_REQUEST_ID = 0"
definition UXR_REQUEST_LOGIN :: u16 where "UXR_REQUEST_LOGIN = 1"
definition UXR_REQUEST_LOGOUT :: u16 where "UXR_REQUEST_LOGOUT = 2"
definition RESERVED_REQUESTS_ID :: u16 where "RESERVED_REQUESTS_ID = 9"

definition CREATE_CLIENT_PAYLOAD_SIZE :: nat where "CREATE_CLIENT_PAYLOAD_SIZE = 16"
definition DELETE_CLIENT_PAYLOAD_SIZE :: nat where "DELETE_CLIENT_PAYLOAD_SIZE = 4"
definition MIN_HEADER_SIZE :: nat where "MIN_HEADER_SIZE = 4"
definition MAX_HEADER_SIZE :: nat where "MAX_HEADER_SIZE = MIN_HEADER_SIZE + CLIENT_KEY_SIZE"

definition VENDOR_ID_EPROSIMA :: XrceVendorId where
  "VENDOR_ID_EPROSIMA = \<lparr>XrceVendorId.data = [0x01, 0x0F]\<rparr>"

definition DDS_XRCE_XRCE_COOKIE :: XrceCookie where
  "DDS_XRCE_XRCE_COOKIE = \<lparr>XrceCookie.data = [0x58, 0x52, 0x43, 0x45]\<rparr>"

definition DDS_XRCE_XRCE_VERSION :: XrceVersion where
  "DDS_XRCE_XRCE_VERSION = \<lparr>XrceVersion.data = [0x01, 0x00]\<rparr>"

definition DDS_XRCE_OBJECTID_CLIENT :: ObjectId where
  "DDS_XRCE_OBJECTID_CLIENT = \<lparr>ObjectId.data = [0xFF, 0xFE]\<rparr>"

section \<open>State and operations\<close>

record uxrSessionInfo =
  id' :: u8
  key :: "u8 list"
  last_requested_status :: u8
  last_request_id :: u16

definition uxr_init_session_info :: "u8 \<Rightarrow> u32 \<Rightarrow> uxrSessionInfo" where
  "uxr_init_session_info i k =
     \<lparr>id' = i,
      key = [ucast (drop_bit 24 k), ucast (drop_bit 24 (push_bit 8 k)),
             ucast (drop_bit 24 (push_bit 16 k)), ucast (drop_bit 24 (push_bit 24 k))],
      last_requested_status = UXR_STATUS_NONE,
      last_request_id = RESERVED_REQUESTS_ID\<rparr>"

definition uxr_buffer_create_session ::
  "ucdr \<Rightarrow> uxrSessionInfo \<Rightarrow> u16 \<Rightarrow> cdr_state \<Rightarrow> uxrSessionInfo \<times> cdr_state"
where
  "uxr_buffer_create_session cdr info' mtu' st0 =
     (let payload = \<lparr>CREATE_CLIENT_Payload.client_representation =
            \<lparr>CLIENT_Representation.xrce_cookie = DDS_XRCE_XRCE_COOKIE,
             xrce_version = DDS_XRCE_XRCE_VERSION, xrce_vendor_id = VENDOR_ID_EPROSIMA,
             client_key = \<lparr>ClientKey.data = take 4 (key info')\<rparr>, session_id = id' info',
             optional_properties = False,
             properties = \<lparr>PropertySeq.size' = 0, data = \<lambda>_. \<lparr>Property.name' = [], value' = []\<rparr>\<rparr>,
             mtu = mtu'\<rparr>\<rparr>;
          st1 = snd (uxr_buffer_submessage_header cdr SUBMESSAGE_ID_CREATE_CLIENT
                      (of_nat CREATE_CLIENT_PAYLOAD_SIZE) 0 st0);
          st2 = snd (uxr_serialize_CREATE_CLIENT_Payload cdr payload st1)
      in (info'\<lparr>last_request_id := UXR_REQUEST_LOGIN\<rparr>, st2))"

definition uxr_buffer_delete_session ::
  "ucdr \<Rightarrow> uxrSessionInfo \<Rightarrow> cdr_state \<Rightarrow> uxrSessionInfo \<times> cdr_state"
where
  "uxr_buffer_delete_session cdr info' st0 =
     (let payload = \<lparr>DELETE_Payload.base =
            \<lparr>BaseObjectRequest.request_id = \<lparr>RequestId.data = [0x00, ucast UXR_REQUEST_LOGOUT]\<rparr>,
             object_id = DDS_XRCE_OBJECTID_CLIENT\<rparr>\<rparr>;
          st1 = snd (uxr_buffer_submessage_header cdr SUBMESSAGE_ID_DELETE
                      (of_nat DELETE_CLIENT_PAYLOAD_SIZE) 0 st0);
          st2 = snd (uxr_serialize_DELETE_Payload cdr payload st1)
      in (info'\<lparr>last_request_id := UXR_REQUEST_LOGOUT\<rparr>, st2))"

definition uxr_parse_base_object_request :: "BaseObjectRequest \<Rightarrow> uxrObjectId \<times> u16" where
  "uxr_parse_base_object_request req =
     (let o' = ObjectId.data (BaseObjectRequest.object_id req);
          r = RequestId.data (BaseObjectRequest.request_id req)
      in (uxr_object_id_from_raw (o' ! 0, o' ! 1),
          push_bit 8 (ucast (r ! 0)) + ucast (r ! 1)))"

definition process_delete_session_status :: "uxrSessionInfo \<Rightarrow> u8 \<Rightarrow> u16 \<Rightarrow> uxrSessionInfo" where
  "process_delete_session_status info' status' request_id' =
     (if UXR_REQUEST_LOGOUT = request_id' then info'\<lparr>last_requested_status := status'\<rparr> else info')"

definition uxr_read_create_session_status ::
  "ucdr \<Rightarrow> STATUS_AGENT_Payload \<Rightarrow> uxrSessionInfo \<Rightarrow> cdr_state \<Rightarrow> uxrSessionInfo \<times> cdr_state"
where
  "uxr_read_create_session_status cdr payload0 info' st0 =
     (let (_, payload, st1) = uxr_deserialize_STATUS_AGENT_Payload cdr payload0 st0
      in (info'\<lparr>last_requested_status := ResultStatus.status (STATUS_AGENT_Payload.result payload)\<rparr>, st1))"

definition uxr_read_delete_session_status ::
  "ucdr \<Rightarrow> STATUS_Payload \<Rightarrow> uxrSessionInfo \<Rightarrow> cdr_state \<Rightarrow> uxrSessionInfo \<times> cdr_state"
where
  "uxr_read_delete_session_status cdr payload0 info' st0 =
     (let (_, payload, st1) = uxr_deserialize_STATUS_Payload cdr payload0 st0
      in if UXR_REQUEST_LOGOUT = last_request_id info'
         then let (_, request_id') = uxr_parse_base_object_request
                    (BaseObjectReply.related_request (STATUS_Payload.base payload))
              in (process_delete_session_status info'
                    (ResultStatus.status (BaseObjectReply.result (STATUS_Payload.base payload))) request_id', st1)
         else (info', st1))"

definition uxr_stamp_create_session_header :: "ucdr \<Rightarrow> uxrSessionInfo \<Rightarrow> addr \<Rightarrow> mem \<Rightarrow> mem" where
  "uxr_stamp_create_session_header cdr info' buffer m =
     snd (uxr_serialize_message_header cdr (id' info' AND SESSION_ID_WITHOUT_CLIENT_KEY) 0 0 (key info')
       (ucdr_init_buffer cdr buffer MAX_HEADER_SIZE, m))"

definition uxr_stamp_session_header ::
  "ucdr \<Rightarrow> uxrSessionInfo \<Rightarrow> u8 \<Rightarrow> uxrSeqNum \<Rightarrow> addr \<Rightarrow> mem \<Rightarrow> mem"
where
  "uxr_stamp_session_header cdr info' stream_id_raw seq_num buffer m =
     snd (uxr_serialize_message_header cdr (id' info') stream_id_raw seq_num (key info')
       (ucdr_init_buffer cdr buffer MAX_HEADER_SIZE, m))"

text \<open>The output parameters keep their content when the message is too short to be looked at.\<close>

definition uxr_read_session_header ::
  "ucdr \<Rightarrow> u8 \<times> u8 list \<Rightarrow> uxrSessionInfo \<Rightarrow> u8 \<times> uxrSeqNum \<Rightarrow> cdr_state
    \<Rightarrow> bool \<times> (u8 \<times> uxrSeqNum) \<times> cdr_state"
where
  "uxr_read_session_header cdr locals0 info' out st0 =
     (if ucdr_buffer_remaining cdr (fst st0) > MAX_HEADER_SIZE
      then let (session_id0, key0) = locals0;
               ((session_id', stream_id_raw, seq_num, key'), st1) =
                 uxr_deserialize_message_header cdr (session_id0, fst out, snd out, key0) st0
           in (session_id' = id' info' \<and>
                 (SESSION_ID_WITHOUT_CLIENT_KEY > id' info' \<longrightarrow>
                    take CLIENT_KEY_SIZE key' = take CLIENT_KEY_SIZE (key info')),
               (stream_id_raw, seq_num), st1)
      else (False, out, st0))"

definition uxr_session_header_offset :: "uxrSessionInfo \<Rightarrow> nat" where
  "uxr_session_header_offset info' =
     (if SESSION_ID_WITHOUT_CLIENT_KEY > id' info' then MAX_HEADER_SIZE else MIN_HEADER_SIZE)"

definition generate_request_id :: "uxrSessionInfo \<Rightarrow> u16 \<times> uxrSessionInfo" where
  "generate_request_id session =
     (let out_of_bounds = (last_request_id session = 0xFFFF \<or>
            RESERVED_REQUESTS_ID \<ge> last_request_id session);
          session1 = session\<lparr>last_request_id :=
            (if out_of_bounds then RESERVED_REQUESTS_ID else last_request_id session) + 1\<rparr>
      in (last_request_id session1, session1))"

definition uxr_init_base_object_request ::
  "uxrSessionInfo \<Rightarrow> uxrObjectId \<Rightarrow> u16 \<times> uxrSessionInfo \<times> BaseObjectRequest"
where
  "uxr_init_base_object_request info' object_id' =
     (let (request_id', info1) = generate_request_id info';
          (o0, o1) = uxr_object_id_to_raw object_id'
      in (request_id', info1,
          \<lparr>BaseObjectRequest.request_id =
             \<lparr>RequestId.data = [ucast (drop_bit 8 request_id'), ucast request_id']\<rparr>,
           object_id = \<lparr>ObjectId.data = [o0, o1]\<rparr>\<rparr>))"

section \<open>Request identifiers\<close>

lemma mod_add_cancel:
  fixes i j n p :: nat
  assumes "(p + i) mod n = (p + j) mod n" and "i < n" and "j < n"
  shows "i = j"
proof -
  have "(int p + int i) mod int n = (int p + int j) mod int n"
    using assms(1) by (metis of_nat_add of_nat_mod)
  then have "int i mod int n = int j mod int n"
    by (metis add_diff_cancel_left' mod_diff_left_eq)
  then show ?thesis
    using assms(2,3) by simp
qed

text \<open>The identifiers of \<open>n\<close> requests about the same object, one after the other.\<close>

primrec request_ids :: "nat \<Rightarrow> uxrObjectId \<Rightarrow> uxrSessionInfo \<Rightarrow> u16 list" where
  "request_ids 0 oid info' = []"
| "request_ids (Suc n) oid info' =
     (let (r, info1, _) = uxr_init_base_object_request info' oid in r # request_ids n oid info1)"

text \<open>How far the generator is into its cycle.\<close>

definition request_pos :: "uxrSessionInfo \<Rightarrow> nat" where
  "request_pos info' = (if last_request_id info' \<le> 9 then 0 else unat (last_request_id info') - 9)"

lemma generate_request_id_nat:
  "unat (fst (generate_request_id info')) = 10 + request_pos info' mod 65526"
  "request_pos (snd (generate_request_id info')) = 1 + request_pos info' mod 65526"
proof -
  let ?l = "last_request_id info'"
  have l: "unat ?l < 65536"
    by simp
  have a: "unat (?l + 1) = unat ?l + 1" if "?l \<noteq> 0xFFFF"
  proof -
    have "unat ?l \<noteq> unat (0xFFFF :: u16)"
      using that by (simp only: word_unat_eq_iff) simp
    then have "unat ?l + 1 < 65536"
      using unat_u16_less [of ?l] by (simp del: unat_u16_less)
    then show ?thesis
      by (simp add: unat_word_ariths)
  qed
  show f: "unat (fst (generate_request_id info')) = 10 + request_pos info' mod 65526"
  proof (cases "?l = 0xFFFF \<or> ?l \<le> 9")
    case True
    then show ?thesis
      by (auto simp: generate_request_id_def request_pos_def RESERVED_REQUESTS_ID_def)
  next
    case False
    then have "9 < unat ?l" "unat ?l < 65535"
      using a unat_u16_less [of "?l + 1"] by (auto simp: word_le_nat_alt simp del: unat_u16_less)
    then show ?thesis
      using False a by (simp add: generate_request_id_def request_pos_def RESERVED_REQUESTS_ID_def)
  qed
  have "last_request_id (snd (generate_request_id info')) = fst (generate_request_id info')"
    by (simp add: generate_request_id_def Let_def)
  then show "request_pos (snd (generate_request_id info')) = 1 + request_pos info' mod 65526"
    using f by (simp add: request_pos_def word_le_nat_alt)
qed

lemma init_base_object_request_id:
  "fst (uxr_init_base_object_request info' oid) = fst (generate_request_id info')"
  "fst (snd (uxr_init_base_object_request info' oid)) = snd (generate_request_id info')"
  by (simp_all add: uxr_init_base_object_request_def split: prod.splits)

lemma request_ids_cycle:
  "map unat (request_ids n oid info') = map (\<lambda>i. 10 + (request_pos info' + i) mod 65526) [0..<n]"
proof (induction n arbitrary: info')
  case 0
  then show ?case by simp
next
  case (Suc n)
  obtain r info1 b where r: "uxr_init_base_object_request info' oid = (r, info1, b)"
    by (metis prod_cases3)
  have "unat r = 10 + request_pos info' mod 65526"
    and "request_pos info1 = 1 + request_pos info' mod 65526"
    using init_base_object_request_id [of info' oid] generate_request_id_nat [of info'] r by simp_all
  moreover have "(1 + p mod 65526 + i) mod 65526 = (p + Suc i) mod 65526" for p i :: nat
    by (metis add.assoc add_Suc_right mod_add_left_eq plus_1_eq_Suc add.commute)
  ultimately have "map unat (request_ids (Suc n) oid info') =
      map (\<lambda>i. 10 + (request_pos info' + i) mod 65526) (0 # map Suc [0..<n])"
    using Suc.IH [of info1] by (simp add: r del: add_Suc_right)
  also have "0 # map Suc [0..<n] = [0..<Suc n]"
    by (simp add: map_Suc_upt upt_conv_Cons del: upt_Suc)
  finally show ?case .
qed

section \<open>Message headers of a session\<close>

lemma length_message_header_bytes:
  "length k = 4 \<Longrightarrow> length (message_header_bytes s r q k) = (if s < 0x80 then 8 else 4)"
  by (simp add: message_header_bytes_def)

lemma header_offset_eq:
  "uxr_session_header_offset info' = (if id' info' < 0x80 then 8 else 4)"
  by (simp add: uxr_session_header_offset_def MAX_HEADER_SIZE_def MIN_HEADER_SIZE_def
      CLIENT_KEY_SIZE_def SESSION_ID_WITHOUT_CLIENT_KEY_def)

text \<open>The header goes into the room that \<open>header_offset\<close> keeps at the start of a message.\<close>

lemma stamp_session_header:
  assumes "ucdr_ok cdr" and "length (key info') = 4"
  shows "uxr_stamp_session_header cdr info' r q a m = wr m a (message_header_bytes (id' info') r q (key info'))"
  using assms serialize_message_header [of cdr "ucdr_init_buffer cdr a 8" "key info'" "id' info'" r q m]
  by (simp add: uxr_stamp_session_header_def ucdr_simps length_message_header_bytes
      MAX_HEADER_SIZE_def MIN_HEADER_SIZE_def CLIENT_KEY_SIZE_def)

lemma stamp_create_session_header:
  assumes "ucdr_ok cdr" and "length (key info') = 4"
  shows "uxr_stamp_create_session_header cdr info' a m =
    wr m a (message_header_bytes (id' info' AND 0x80) 0 0 (key info'))"
  using assms serialize_message_header [of cdr "ucdr_init_buffer cdr a 8" "key info'" "id' info' AND 0x80" 0 0 m]
  by (simp add: uxr_stamp_create_session_header_def ucdr_simps length_message_header_bytes
      MAX_HEADER_SIZE_def MIN_HEADER_SIZE_def CLIENT_KEY_SIZE_def SESSION_ID_WITHOUT_CLIENT_KEY_def)

text \<open>Any header is read, and taken when it is the session's own.\<close>

lemma read_session_header:
  assumes "ucdr_ok cdr" and "\<not> error ub" and "offset ub mod 4 = 0" and "length (key info') = 4"
    and "length k = 4" and "iterator ub + 8 < final ub"
    and "rd m (iterator ub) (length (message_header_bytes s r q k)) = message_header_bytes s r q k"
  shows "uxr_read_session_header cdr loc info' out (ub, m) =
    (s = id' info' \<and> (s < 0x80 \<longrightarrow> k = key info'), (r, q),
     (adv (length (message_header_bytes s r q k)) ub, m))"
proof -
  have "8 < ucdr_buffer_remaining cdr ub"
    using assms by (simp add: buffer_remaining)
  moreover have "iterator ub + length (message_header_bytes s r q k) \<le> final ub"
    using assms(5,6) by (simp add: length_message_header_bytes)
  from deserialize_message_header [OF assms(1-3) this assms(5,7), of "fst loc" "fst out" "snd out" "snd loc"]
  have "uxr_deserialize_message_header cdr (fst loc, fst out, snd out, snd loc) (ub, m) =
      ((s, r, q, if s < 0x80 then k else snd loc), (adv (length (message_header_bytes s r q k)) ub, m))" .
  ultimately show ?thesis
    using assms(4,5)
    by (auto simp: uxr_read_session_header_def split_beta MAX_HEADER_SIZE_def MIN_HEADER_SIZE_def
        CLIENT_KEY_SIZE_def SESSION_ID_WITHOUT_CLIENT_KEY_def)
qed

section \<open>Properties\<close>

text \<open>C24. However many requests a session makes, their identifiers run through 10 to 65535 in order
  and around again: none is one of the reserved identifiers of a login or logout or the invalid
  one, and any 65526 requests in a row have different ones.\<close>
theorem request_ids_unreserved:
  "map unat (request_ids n oid info') = map (\<lambda>i. 10 + (request_pos info' + i) mod 65526) [0..<n] \<and>
   set (request_ids n oid info') \<inter> {UXR_INVALID_REQUEST_ID, UXR_REQUEST_LOGIN, UXR_REQUEST_LOGOUT} = {} \<and>
   distinct (request_ids (min n 65526) oid info')"
proof (intro conjI)
  show "map unat (request_ids n oid info') = map (\<lambda>i. 10 + (request_pos info' + i) mod 65526) [0..<n]"
    by (rule request_ids_cycle)
  have "10 \<le> unat r" if "r \<in> set (request_ids n oid info')" for r
  proof -
    have "unat r \<in> set (map unat (request_ids n oid info'))"
      using that by simp
    then show ?thesis
      by (auto simp only: request_ids_cycle set_map)
  qed
  then show "set (request_ids n oid info') \<inter>
      {UXR_INVALID_REQUEST_ID, UXR_REQUEST_LOGIN, UXR_REQUEST_LOGOUT} = {}"
    by (fastforce simp: UXR_INVALID_REQUEST_ID_def UXR_REQUEST_LOGIN_def UXR_REQUEST_LOGOUT_def)
  have inj: "inj_on (\<lambda>i. 10 + (p + i) mod 65526) {..<65526}" for p :: nat
  proof (rule inj_onI)
    fix i j :: nat
    assume "i \<in> {..<65526}" "j \<in> {..<65526}" "10 + (p + i) mod 65526 = 10 + (p + j) mod 65526"
    then show "i = j"
      using mod_add_cancel [of p i 65526 j] by simp
  qed
  have "distinct (map (\<lambda>i. 10 + (request_pos info' + i) mod 65526) [0..<min n 65526])"
    by (simp add: distinct_map) (rule inj_on_subset [OF inj], auto)
  then show "distinct (request_ids (min n 65526) oid info')"
    by (simp add: distinct_map flip: request_ids_cycle [of _ oid])
qed

text \<open>A request carries its own identifiers: what the client writes into the base of a request
  is parsed back from an answer that repeats it, after any detour over the wire.\<close>
theorem base_object_request_roundtrip:
  assumes "unat (uxrObjectId.id oid) < 4096" and "unat (uxrObjectId.type oid) < 16"
    and "uxr_init_base_object_request info' oid = (rid, info1, req)"
    and "ucdr_ok cdr" and "usable ub" and "uxr_serialize_BaseObjectRequest cdr req (ub, m) = (True, ub', m')"
  shows "uxr_parse_base_object_request req = (oid, rid) \<and> last_request_id info1 = rid \<and>
    (\<exists>n. ub' = adv n ub \<and> (\<forall>ub2 m2. copy_of ub m' n ub2 m2 \<longrightarrow>
       uxr_deserialize_BaseObjectRequest cdr out (ub2, m2) = (True, req, adv n ub2, m2)))"
proof -
  have r: "rid = fst (generate_request_id info')" "info1 = snd (generate_request_id info')"
    "req = \<lparr>BaseObjectRequest.request_id = \<lparr>RequestId.data = [ucast (drop_bit 8 rid), ucast rid]\<rparr>,
      object_id = \<lparr>ObjectId.data = [fst (uxr_object_id_to_raw oid), snd (uxr_object_id_to_raw oid)]\<rparr>\<rparr>"
    using assms(3) by (auto simp: uxr_init_base_object_request_def split: prod.splits)
  have "push_bit 8 (ucast (ucast (drop_bit 8 rid) :: u8)) + ucast (ucast rid :: u8) = (rid :: u16)"
  proof (rule word_unat_eq_iff [THEN iffD2])
    have "unat rid div 256 < 256"
      using unat_u16_less [of rid] by linarith
    then show "unat (push_bit 8 (ucast (ucast (drop_bit 8 rid) :: u8)) + ucast (ucast rid :: u8) :: u16) = unat rid"
      by (simp add: unat_bits)
  qed
  then have "uxr_parse_base_object_request req = (oid, rid)"
    using object_id_roundtrip [OF assms(1,2)] by (simp add: uxr_parse_base_object_request_def r(3))
  moreover have "last_request_id info1 = rid"
    by (simp add: r generate_request_id_def Let_def)
  moreover have "ok_BaseObjectRequest req"
    by (simp add: r(3) ok_BaseObjectRequest_def ok_RequestId_def ok_ObjectId_def)
  from BaseObjectRequest.delivered [OF assms(4) this assms(5,6), of out] obtain n where
    "ub' = adv n ub" "\<forall>ub2 m2. copy_of ub m' n ub2 m2 \<longrightarrow>
       uxr_deserialize_BaseObjectRequest cdr out (ub2, m2) = (True, req, adv n ub2, m2)"
    by blast
  ultimately show ?thesis
    by blast
qed

lemma base_object_request_roundtrip_witness:
  "uxr_parse_base_object_request (snd (snd (uxr_init_base_object_request
      (uxr_init_session_info 0x81 0xAABBCCDD) (uxr_object_id 0x123 6)))) = (uxr_object_id 0x123 6, 10)"
proof -
  let ?r = "uxr_init_base_object_request (uxr_init_session_info 0x81 0xAABBCCDD) (uxr_object_id 0x123 6)"
  let ?s = "uxr_serialize_BaseObjectRequest ref_ucdr (snd (snd ?r)) (ref_init 0 16 0 0, \<lambda>_. 0)"
  have r: "?r = (10, fst (snd ?r), snd (snd ?r))"
    by (simp add: uxr_init_base_object_request_def generate_request_id_def uxr_init_session_info_def
        RESERVED_REQUESTS_ID_def split: prod.splits)
  have "fst ?s"
    by (simp add: r uxr_init_base_object_request_def uxr_serialize_BaseObjectRequest_def
        uxr_serialize_RequestId_def uxr_serialize_ObjectId_def ref_ucdr_def ref_ser_def ref_init_def
        split: prod.splits)
  then have s: "?s = (True, fst (snd ?s), snd (snd ?s))"
    by (simp add: prod_eq_iff)
  show ?thesis
    using base_object_request_roundtrip [OF _ _ r ucdr_ok_ref_ucdr _ s]
    by (simp add: uxr_object_id_def usable_def ref_init_def)
qed

text \<open>Sessions do not mix: a message that session \<open>a\<close> stamped is taken by session \<open>b\<close> exactly
  when the identifiers agree and, for identifiers that ask for it, the keys; then the stream and
  sequence number are those of the sender and the reader stands behind the header. A message of no
  more than eight bytes is not looked at.\<close>
theorem session_header_roundtrip:
  assumes "ucdr_ok cdr" and "length (key a) = 4" and "length (key b) = 4"
    and "\<not> error ub" and "offset ub mod 4 = 0" and "iterator ub \<le> final ub"
  shows "uxr_read_session_header cdr loc b out
      (ub, uxr_stamp_session_header cdr a r q (iterator ub) m) =
    (if iterator ub + 8 < final ub
     then (id' a = id' b \<and> (id' a < SESSION_ID_WITHOUT_CLIENT_KEY \<longrightarrow> key a = key b), (r, q),
       (adv (uxr_session_header_offset a) ub, uxr_stamp_session_header cdr a r q (iterator ub) m))
     else (False, out, (ub, uxr_stamp_session_header cdr a r q (iterator ub) m)))"
proof (cases "iterator ub + 8 < final ub")
  case True
  from read_session_header [OF assms(1,4,5,3,2) True, of _ "id' a" r q loc out] show ?thesis
    using True assms(1,2)
    by (simp add: stamp_session_header rd_wr_same header_offset_eq length_message_header_bytes
        SESSION_ID_WITHOUT_CLIENT_KEY_def)
next
  case False
  then have "\<not> 8 < final ub - iterator ub"
    by arith
  then show ?thesis
    using False assms(1,6) by (simp add: uxr_read_session_header_def buffer_remaining
        MAX_HEADER_SIZE_def MIN_HEADER_SIZE_def CLIENT_KEY_SIZE_def)
qed

lemma session_header_roundtrip_witness:
  "fst (uxr_read_session_header ref_ucdr (0, [0, 0, 0, 0]) (uxr_init_session_info 0x01 7) (0, 0)
    (ref_init 0 12 0 0, uxr_stamp_session_header ref_ucdr (uxr_init_session_info 0x01 8) 0x80 3 0 (\<lambda>_. 0))) = False"
  using session_header_roundtrip [OF ucdr_ok_ref_ucdr, where a = "uxr_init_session_info 0x01 8"
      and b = "uxr_init_session_info 0x01 7" and ub = "ref_init 0 12 0 0"
      and loc = "(0, [0, 0, 0, 0])" and out = "(0, 0)" and r = "0x80" and q = 3 and m = "\<lambda>_. 0"]
  by (simp add: uxr_init_session_info_def ref_init_def SESSION_ID_WITHOUT_CLIENT_KEY_def)

end
