(* ===== verification/BestEffort.thy ===== *)
theory BestEffort
  imports Submessage
begin

text \<open>
  The best-effort streams: \<open>input_best_effort_stream.c\<close> and \<open>output_best_effort_stream.c\<close>.
  The input stream keeps the last sequence number it let through; the output stream gathers
  submessages in one buffer behind room for the message header and numbers what it sends.
  The mutex of the multithread profile is not modelled: an operation is one atomic step.
\<close>

section \<open>Input\<close>

record uxrInputBestEffortStream =
  be_last_handled :: uxrSeqNum

text \<open>Initialization writes every field, whatever was in the object before.\<close>

definition uxr_init_input_best_effort_stream :: uxrInputBestEffortStream where
  "uxr_init_input_best_effort_stream = \<lparr>be_last_handled = SEQ_NUM_MAX\<rparr>"

definition uxr_reset_input_best_effort_stream ::
  "uxrInputBestEffortStream \<Rightarrow> uxrInputBestEffortStream"
where
  "uxr_reset_input_best_effort_stream stream = stream\<lparr>be_last_handled := SEQ_NUM_MAX\<rparr>"

definition uxr_receive_best_effort_message ::
  "uxrInputBestEffortStream \<Rightarrow> uxrSeqNum \<Rightarrow> bool \<times> uxrInputBestEffortStream"
where
  "uxr_receive_best_effort_message stream seq_num =
     (let available_to_read = 0 > uxr_seq_num_cmp (be_last_handled stream) seq_num
      in (available_to_read,
          if available_to_read then stream\<lparr>be_last_handled := seq_num\<rparr> else stream))"

text \<open>The numbers let through while a list of messages arrives.\<close>

primrec be_accepted :: "uxrInputBestEffortStream \<Rightarrow> uxrSeqNum list \<Rightarrow> uxrSeqNum list" where
  "be_accepted st [] = []"
| "be_accepted st (s # ss) =
     (let (ok, st') = uxr_receive_best_effort_message st s
      in (if ok then [s] else []) @ be_accepted st' ss)"

lemma receive_best_effort_iff:
  "fst (uxr_receive_best_effort_message st s) \<longleftrightarrow>
    0 < seq_dist (be_last_handled st) s \<and> seq_dist (be_last_handled st) s < 32768"
  by (simp add: uxr_receive_best_effort_message_def Let_def sn.cmp_neg)

lemma receive_best_effort_state:
  "be_last_handled (snd (uxr_receive_best_effort_message st s)) =
    (if fst (uxr_receive_best_effort_message st s) then s else be_last_handled st)"
  by (simp add: uxr_receive_best_effort_message_def Let_def)

text \<open>Each number let through is less than half a circle ahead of the one before.\<close>

definition ahead :: "uxrSeqNum \<Rightarrow> uxrSeqNum \<Rightarrow> bool" where
  "ahead a b \<longleftrightarrow> 0 < seq_dist a b \<and> seq_dist a b < 32768"

lemma be_accepted_step:
  assumes "be_accepted st ss = xs" and "Suc i < length (be_last_handled st # xs)"
  shows "ahead ((be_last_handled st # xs) ! i) ((be_last_handled st # xs) ! Suc i)"
  using assms
proof (induction ss arbitrary: st xs i)
  case Nil
  then show ?case by simp
next
  case (Cons s ss)
  obtain ok st' where r: "uxr_receive_best_effort_message st s = (ok, st')"
    by force
  have st': "be_last_handled st' = (if ok then s else be_last_handled st)"
    using receive_best_effort_state [of st s] by (simp add: r)
  show ?case
  proof (cases ok)
    case True
    then have xs: "xs = s # be_accepted st' ss"
      using Cons.prems(1) r by simp
    have "ahead (be_last_handled st) s"
      using receive_best_effort_iff [of st s] True by (simp add: r ahead_def)
    then show ?thesis
      using Cons.IH [of st' "be_accepted st' ss" "i - 1"] Cons.prems(2) st' True xs
      by (cases i) auto
  next
    case False
    then have "be_accepted st' ss = xs"
      using Cons.prems(1) r by simp
    from Cons.IH [OF this] Cons.prems(2) st' False show ?thesis by simp
  qed
qed

lemma ahead_twice: "ahead a b \<Longrightarrow> ahead b c \<Longrightarrow> a \<noteq> c"
  using seq_dist_rev [of a b] by (cases "a = b") (auto simp: ahead_def)

section \<open>Output\<close>

record uxrOutputBestEffortStream =
  ob_buffer :: addr
  writer :: size_t
  ob_size :: size_t
  ob_offset :: u8
  last_send :: uxrSeqNum

definition uxr_reset_output_best_effort_stream ::
  "uxrOutputBestEffortStream \<Rightarrow> uxrOutputBestEffortStream"
where
  "uxr_reset_output_best_effort_stream stream =
     stream\<lparr>writer := unat (ob_offset stream), last_send := SEQ_NUM_MAX\<rparr>"

definition uxr_init_output_best_effort_stream ::
  "uxrOutputBestEffortStream \<Rightarrow> addr \<Rightarrow> size_t \<Rightarrow> u8 \<Rightarrow> uxrOutputBestEffortStream"
where
  "uxr_init_output_best_effort_stream stream buffer' size' offset' =
     uxr_reset_output_best_effort_stream
       (stream\<lparr>ob_buffer := buffer', ob_offset := offset', ob_size := size'\<rparr>)"

definition uxr_prepare_best_effort_buffer_to_write ::
  "ucdr \<Rightarrow> uxrOutputBestEffortStream \<Rightarrow> size_t \<Rightarrow> ucdrBuffer
    \<Rightarrow> bool \<times> uxrOutputBestEffortStream \<times> ucdrBuffer"
where
  "uxr_prepare_best_effort_buffer_to_write cdr stream size' ub =
     (let current_padding = uxr_submessage_padding (writer stream);
          future_length = size_add (size_add (writer stream) current_padding) size';
          available_to_write = future_length \<le> ob_size stream
      in if available_to_write
         then (True, stream\<lparr>writer := size_add (writer stream) size'\<rparr>,
               ucdr_init_buffer_origin_offset cdr (ob_buffer stream) (cast_u32 future_length) 0
                 (cast_u32 (size_add (writer stream) current_padding)))
         else (False, stream, ub))"

text \<open>\<open>None\<close>: the function returns false and leaves its output parameters alone.\<close>

definition uxr_prepare_best_effort_buffer_to_send ::
  "uxrOutputBestEffortStream
    \<Rightarrow> (addr \<times> size_t \<times> u16) option \<times> uxrOutputBestEffortStream"
where
  "uxr_prepare_best_effort_buffer_to_send stream =
     (let data_to_send = writer stream > unat (ob_offset stream)
      in if data_to_send
         then let stream1 = stream\<lparr>last_send := uxr_seq_num_add (last_send stream) 1\<rparr>
              in (Some (ob_buffer stream1, writer stream1, last_send stream1),
                  stream1\<lparr>writer := unat (ob_offset stream1)\<rparr>)
         else (None, stream))"

text \<open>
  The callers write whole submessages, padded to a multiple of four, behind a header of 4 or
  8 bytes. Under that discipline the writer stays aligned and inside the buffer.
\<close>

definition be_out_inv :: "uxrOutputBestEffortStream \<Rightarrow> bool" where
  "be_out_inv st \<longleftrightarrow> unat (ob_offset st) mod 4 = 0 \<and> writer st mod 4 = 0 \<and>
     unat (ob_offset st) \<le> writer st \<and> writer st \<le> ob_size st \<and> ob_size st < 2 ^ 32"

datatype be_op = BeWrite size_t | BeSend

primrec be_step ::
  "ucdr \<Rightarrow> be_op \<Rightarrow> uxrOutputBestEffortStream
    \<Rightarrow> (addr \<times> size_t \<times> u16) option \<times> uxrOutputBestEffortStream"
where
  "be_step cdr (BeWrite n) st =
     (None, fst (snd (uxr_prepare_best_effort_buffer_to_write cdr st n undefined)))"
| "be_step cdr BeSend st = uxr_prepare_best_effort_buffer_to_send st"

primrec be_sent :: "ucdr \<Rightarrow> be_op list \<Rightarrow> uxrOutputBestEffortStream \<Rightarrow> (addr \<times> size_t \<times> u16) list" where
  "be_sent cdr [] st = []"
| "be_sent cdr (x # xs) st =
     (case fst (be_step cdr x st) of Some p \<Rightarrow> [p] | None \<Rightarrow> [])
       @ be_sent cdr xs (snd (be_step cdr x st))"

definition be_op_ok :: "be_op \<Rightarrow> bool" where
  "be_op_ok x = (case x of BeWrite n \<Rightarrow> n mod 4 = 0 \<and> n < 2 ^ 32 | BeSend \<Rightarrow> True)"

lemma padding_aligned: "n mod 4 = 0 \<Longrightarrow> uxr_submessage_padding n = 0"
  by (simp add: uxr_submessage_padding_def SUBHEADER_SIZE_def)

lemma be_write_spec:
  assumes "ucdr_ok cdr" and "be_out_inv st" and "n mod 4 = 0" and "n < 2 ^ 32"
  shows "uxr_prepare_best_effort_buffer_to_write cdr st n ub =
    (if writer st + n \<le> ob_size st
     then (True, st\<lparr>writer := writer st + n\<rparr>,
           \<lparr>init = ob_buffer st, final = ob_buffer st + (writer st + n),
            iterator = ob_buffer st + writer st, offset = writer st,
            endianness = UCDR_MACHINE_ENDIANNESS cdr, error = False,
            on_full_buffer = None, args = None\<rparr>)
     else (False, st, ub))"
proof -
  have w: "writer st + n < 2 ^ 64" and p: "uxr_submessage_padding (writer st) = 0"
    using assms by (auto simp: be_out_inv_def padding_aligned)
  then show ?thesis
    using assms
    by (simp add: uxr_prepare_best_effort_buffer_to_write_def be_out_inv_def size_add_eq Let_def
        cast_u32_eq init_buffer_origin_offset)
qed

lemma be_out_inv_step:
  assumes "ucdr_ok cdr" and "be_out_inv st" and "be_op_ok x"
  shows "be_out_inv (snd (be_step cdr x st))"
proof (cases x)
  case (BeWrite n)
  then have "n mod 4 = 0" "n < 2 ^ 32"
    using assms(3) by (simp_all add: be_op_ok_def)
  with be_write_spec [OF assms(1,2) this, of undefined] show ?thesis
    using assms(2) BeWrite by (auto simp: be_out_inv_def mod_add_eq [symmetric])
next
  case BeSend
  then show ?thesis
    using assms(2) by (auto simp: uxr_prepare_best_effort_buffer_to_send_def be_out_inv_def Let_def)
qed

lemma be_step_last_send:
  "last_send (snd (be_step cdr x st)) =
    (if fst (be_step cdr x st) = None then last_send st else last_send st + 1)"
  by (cases x) (auto simp: uxr_prepare_best_effort_buffer_to_send_def Let_def sn.add_ring
      uxr_prepare_best_effort_buffer_to_write_def)

lemma be_step_sent:
  "fst (be_step cdr x st) = Some (b, n, s) \<Longrightarrow>
    s = last_send st + 1 \<and> n = writer st \<and> b = ob_buffer st \<and> unat (ob_offset st) < n"
  by (cases x) (auto simp: uxr_prepare_best_effort_buffer_to_send_def Let_def sn.add_ring
      split: if_splits)

lemma be_sent_seq:
  "i < length (be_sent cdr xs st) \<Longrightarrow>
    snd (snd (be_sent cdr xs st ! i)) = last_send st + of_nat (Suc i)"
proof (induction xs arbitrary: st i)
  case Nil
  then show ?case by simp
next
  case (Cons x xs)
  obtain r st' where r: "be_step cdr x st = (r, st')" by force
  note ls = be_step_last_send [of cdr x st, unfolded r fst_conv snd_conv]
  show ?case
  proof (cases r)
    case None
    then show ?thesis
      using Cons.IH [of i st'] Cons.prems r ls by simp
  next
    case (Some p)
    obtain b n s where p: "p = (b, n, s)" by (cases p)
    have "s = last_send st + 1"
      using be_step_sent [of cdr x st b n s] r Some p by simp
    then show ?thesis
      using Cons.IH [of "i - 1" st'] Cons.prems r ls Some p by (cases i) (auto simp: add.assoc)
  qed
qed

lemma be_sent_bounds:
  assumes "ucdr_ok cdr" and "be_out_inv st" and "\<forall>x \<in> set xs. be_op_ok x"
    and "(b, n, s) \<in> set (be_sent cdr xs st)"
  shows "n mod 4 = 0 \<and> n \<le> ob_size st"
  using assms(2-)
proof (induction xs arbitrary: st)
  case Nil
  then show ?case by simp
next
  case (Cons x xs)
  obtain r st' where r: "be_step cdr x st = (r, st')" by force
  have inv: "be_out_inv st'"
    using be_out_inv_step [OF assms(1) Cons.prems(1), of x] Cons.prems(2) r by simp
  have sz: "ob_size st' = ob_size st"
    using r by (cases x) (auto simp: uxr_prepare_best_effort_buffer_to_send_def Let_def
        uxr_prepare_best_effort_buffer_to_write_def split: if_splits)
  show ?case
  proof (cases "(b, n, s) \<in> set (be_sent cdr xs st')")
    case True
    then show ?thesis
      using Cons.IH [OF inv] Cons.prems(2) sz by simp
  next
    case False
    then have "r = Some (b, n, s)"
      using Cons.prems(3) r by (auto split: option.splits)
    then show ?thesis
      using be_step_sent [of cdr x st b n s] r Cons.prems(1) by (simp add: be_out_inv_def)
  qed
qed

section \<open>Properties\<close>

text \<open>Over any sequence of arriving messages a best-effort input stream lets through numbers
  that each follow the one before by less than half a circle, so it never lets a number through
  again before two later ones have carried the stream around the circle.\<close>
theorem best_effort_input_increasing:
  assumes "be_accepted (uxr_reset_input_best_effort_stream st) ss = xs"
    and "i < j" and "j \<le> i + 2" and "j < length xs"
  shows "uxr_seq_num_cmp (xs ! i) (xs ! Suc i) < 0 \<and> xs ! i \<noteq> xs ! j"
proof -
  let ?st = "uxr_reset_input_best_effort_stream st"
  have a: "ahead (xs ! k) (xs ! Suc k)" if "Suc k < length xs" for k
    using be_accepted_step [OF assms(1), of "Suc k"] that by simp
  have i: "ahead (xs ! i) (xs ! Suc i)"
    using a assms by simp
  have "xs ! i \<noteq> xs ! j"
  proof (cases "j = Suc i")
    case True
    then show ?thesis using i by (auto simp: ahead_def)
  next
    case False
    then have "j = Suc (Suc i)" using assms by simp
    then show ?thesis
      using a [of i] a [of "Suc i"] assms ahead_twice by auto
  qed
  then show ?thesis
    using i by (simp add: sn.cmp_neg ahead_def)
qed

lemma be_accepted_example:
  "be_accepted (uxr_reset_input_best_effort_stream \<lparr>be_last_handled = 7\<rparr>) [3, 5, 4, 5, 9] = [3, 5, 9]"
  by (simp add: uxr_reset_input_best_effort_stream_def uxr_receive_best_effort_message_def
      SEQ_NUM_MAX_def uxr_seq_num_cmp_def SEQ_NUM_MIDSIZE_def SEQ_NUM_SIZE_def)

lemma best_effort_input_increasing_witness:
  "uxr_seq_num_cmp ([3, 5, 9] ! 0) ([3, 5, 9] ! Suc 0) < 0 \<and> [3, 5, 9 :: uxrSeqNum] ! 0 \<noteq> [3, 5, 9] ! 2"
  by (rule best_effort_input_increasing [OF be_accepted_example]) simp_all

text \<open>Over any sequence of writes of whole, padded submessages and of sends, the messages a
  best-effort output stream hands to the transport are numbered consecutively from 0, lie in its
  buffer, and have a length that is a multiple of four no larger than the buffer.\<close>
theorem best_effort_output_run:
  assumes "ucdr_ok cdr" and "unat off mod 4 = 0" and "unat off \<le> sz" and "sz < 2 ^ 32"
    and "\<forall>x \<in> set xs. be_op_ok x"
    and "i < length (be_sent cdr xs (uxr_init_output_best_effort_stream st a sz off))"
    and "be_sent cdr xs (uxr_init_output_best_effort_stream st a sz off) ! i = (b, n, s)"
  shows "s = of_nat i \<and> n mod 4 = 0 \<and> n \<le> sz"
proof -
  let ?st = "uxr_init_output_best_effort_stream st a sz off"
  have "s = last_send ?st + of_nat (Suc i)"
    using be_sent_seq [OF assms(6)] assms(7) by simp
  then have "s = of_nat i"
    by (simp add: uxr_init_output_best_effort_stream_def uxr_reset_output_best_effort_stream_def
        SEQ_NUM_MAX_def)
  moreover have "(b, n, s) \<in> set (be_sent cdr xs ?st)"
    using assms(6,7) by (metis nth_mem)
  moreover have "be_out_inv ?st" and "ob_size ?st = sz"
    using assms(2-4) by (simp_all add: be_out_inv_def uxr_init_output_best_effort_stream_def
        uxr_reset_output_best_effort_stream_def)
  ultimately show ?thesis
    using be_sent_bounds [OF assms(1) _ assms(5)] by metis
qed

definition be_example :: uxrOutputBestEffortStream where
  "be_example = uxr_init_output_best_effort_stream \<lparr>ob_buffer = 0, writer = 0, ob_size = 0,
     ob_offset = 0, last_send = 0\<rparr> 1000 64 8"

lemma be_sent_example:
  "be_sent ref_ucdr [BeWrite 8, BeSend, BeSend, BeWrite 12, BeWrite 100, BeSend] be_example =
    [(1000, 16, 0), (1000, 20, 1)]"
  by (simp add: be_example_def uxr_init_output_best_effort_stream_def
      uxr_reset_output_best_effort_stream_def uxr_prepare_best_effort_buffer_to_write_def
      uxr_prepare_best_effort_buffer_to_send_def uxr_submessage_padding_def SUBHEADER_SIZE_def
      size_add_def SEQ_NUM_MAX_def sn.add_ring)

lemma best_effort_output_run_witness:
  "(1 :: u16) = of_nat 1 \<and> 20 mod 4 = (0 :: nat) \<and> 20 \<le> (64 :: nat)"
  using best_effort_output_run [OF ucdr_ok_ref_ucdr, where i = 1 and off = 8 and sz = 64 and
      xs = "[BeWrite 8, BeSend, BeSend, BeWrite 12, BeWrite 100, BeSend]" and a = 1000 and
      b = 1000 and n = 20 and s = 1, folded be_example_def, unfolded be_sent_example]
  by (simp add: be_op_ok_def)

end
