(* ===== verification/ReliableBase.thy ===== *)
theory ReliableBase
  imports SeqNum
begin

text \<open>
  The storage of a reliable stream: \<open>common_reliable_stream_internal.h\<close> and
  \<open>reliable_stream.h\<close>. The stream's buffer is cut into \<open>history\<close> slots of
  \<open>size / history\<close> bytes; a slot starts with the length of its message as a \<open>uint32_t\<close>,
  in the byte order of the host, and the message follows. A sequence number uses the slot
  of its residue modulo \<open>history\<close>.
\<close>

record uxrReliableStream =
  buffer :: addr
  stream_size :: size_t
  history :: u16

definition INTERNAL_RELIABLE_BUFFER_OFFSET :: nat where
  "INTERNAL_RELIABLE_BUFFER_OFFSET = 4"

text \<open>
  The product below is at most \<open>size\<close>, so it does not wrap. A \<open>history\<close> of zero divides by
  zero in C; every statement about a stream assumes \<open>ok_stream\<close>, which excludes it.
\<close>

definition uxr_get_reliable_buffer :: "uxrReliableStream \<Rightarrow> u16 \<Rightarrow> addr" where
  "uxr_get_reliable_buffer stream seq_num =
     buffer stream
       + (unat seq_num mod unat (history stream)) * (stream_size stream div unat (history stream))
       + INTERNAL_RELIABLE_BUFFER_OFFSET"

definition uxr_get_reliable_buffer_capacity :: "uxrReliableStream \<Rightarrow> size_t" where
  "uxr_get_reliable_buffer_capacity stream =
     size_sub (stream_size stream div unat (history stream)) INTERNAL_RELIABLE_BUFFER_OFFSET"

definition uxr_get_reliable_buffer_history_position :: "uxrReliableStream \<Rightarrow> addr \<Rightarrow> u16" where
  "uxr_get_reliable_buffer_history_position stream current_position =
     of_nat (size_sub current_position (buffer stream)
               div (stream_size stream div unat (history stream)))"

definition uxr_get_reliable_buffer_size :: "uxrReliableStream \<Rightarrow> u16 \<Rightarrow> mem \<Rightarrow> size_t" where
  "uxr_get_reliable_buffer_size stream seq_num m =
     rd_u32 m (uxr_get_reliable_buffer stream (seq_num mod history stream)
                 - INTERNAL_RELIABLE_BUFFER_OFFSET)"

definition uxr_set_reliable_buffer_size :: "uxrReliableStream \<Rightarrow> u16 \<Rightarrow> size_t \<Rightarrow> mem \<Rightarrow> mem" where
  "uxr_set_reliable_buffer_size stream seq_num len m =
     wr_u32 m (uxr_get_reliable_buffer stream (seq_num mod history stream)
                 - INTERNAL_RELIABLE_BUFFER_OFFSET) (cast_u32 len)"

section \<open>Layout\<close>

definition block :: "uxrReliableStream \<Rightarrow> nat" where
  "block st = stream_size st div unat (history st)"

definition slot_of :: "uxrReliableStream \<Rightarrow> u16 \<Rightarrow> nat" where
  "slot_of st s = unat s mod unat (history st)"

definition slot_base :: "uxrReliableStream \<Rightarrow> nat \<Rightarrow> addr" where
  "slot_base st i = buffer st + i * block st"

text \<open>
  A usable stream: at least one slot, slots that hold the length field and whose size a
  length field can express, and a buffer inside the address space.
\<close>

definition ok_stream :: "uxrReliableStream \<Rightarrow> bool" where
  "ok_stream st \<longleftrightarrow> 0 < unat (history st) \<and> 4 \<le> block st \<and> block st < 2 ^ 32 \<and>
     buffer st + stream_size st < SIZE_MOD"

lemma slot_less: "ok_stream st \<Longrightarrow> slot_of st s < unat (history st)"
  by (simp add: slot_of_def ok_stream_def)

lemma buffer_eq: "uxr_get_reliable_buffer st s = slot_base st (slot_of st s) + 4"
  by (simp add: uxr_get_reliable_buffer_def slot_base_def slot_of_def block_def
      INTERNAL_RELIABLE_BUFFER_OFFSET_def)

lemma slot_of_mod [simp]: "slot_of st (s mod history st) = slot_of st s"
  by (simp add: slot_of_def unat_mod)

lemma get_size_eq: "uxr_get_reliable_buffer_size st s m = rd_u32 m (slot_base st (slot_of st s))"
  by (simp add: uxr_get_reliable_buffer_size_def buffer_eq INTERNAL_RELIABLE_BUFFER_OFFSET_def)

lemma set_size_eq:
  "uxr_set_reliable_buffer_size st s n m = wr_u32 m (slot_base st (slot_of st s)) (cast_u32 n)"
  by (simp add: uxr_set_reliable_buffer_size_def buffer_eq INTERNAL_RELIABLE_BUFFER_OFFSET_def)

lemma block_less: "ok_stream st \<Longrightarrow> block st < SIZE_MOD"
  by (simp add: ok_stream_def)

lemma capacity_eq: "ok_stream st \<Longrightarrow> uxr_get_reliable_buffer_capacity st = block st - 4"
  using block_less [of st]
  by (simp add: uxr_get_reliable_buffer_capacity_def size_sub_eq ok_stream_def block_def
      INTERNAL_RELIABLE_BUFFER_OFFSET_def)

lemma slot_base_mono:
  assumes "i < j" shows "slot_base st i + block st \<le> slot_base st j"
proof -
  have "(i + 1) * block st \<le> j * block st"
    using assms by (intro mult_le_mono1) simp
  then show ?thesis by (simp add: slot_base_def)
qed

lemma slot_base_apart:
  "i \<noteq> j \<Longrightarrow> slot_base st i + block st \<le> slot_base st j \<or> slot_base st j + block st \<le> slot_base st i"
  using slot_base_mono [of i j st] slot_base_mono [of j i st] by (cases "i < j") auto

lemma slot_in_buffer:
  assumes "i < unat (history st)"
  shows "slot_base st i + block st \<le> buffer st + stream_size st"
proof -
  have "(i + 1) * block st \<le> unat (history st) * block st"
    using assms by (intro mult_le_mono1) simp
  also have "\<dots> \<le> stream_size st"
    by (simp add: block_def)
  finally show ?thesis by (simp add: slot_base_def)
qed

section \<open>The contract of the storage\<close>

text \<open>
  What the input and the output stream rely on: the lengths are a table indexed by slot
  that messages do not disturb, a message is disturbed by no length and by no other slot,
  and nothing outside the buffer changes.
\<close>

locale slot_store =
  fixes ok :: "'st \<Rightarrow> bool"
    and hist :: "'st \<Rightarrow> nat"
    and get_size :: "'st \<Rightarrow> u16 \<Rightarrow> mem \<Rightarrow> nat"
    and set_size :: "'st \<Rightarrow> u16 \<Rightarrow> nat \<Rightarrow> mem \<Rightarrow> mem"
    and data :: "'st \<Rightarrow> u16 \<Rightarrow> addr"
    and cap :: "'st \<Rightarrow> nat"
    and lo :: "'st \<Rightarrow> addr" and hi :: "'st \<Rightarrow> addr"
  assumes hist_pos: "ok st \<Longrightarrow> 0 < hist st"
    and hist_u16: "ok st \<Longrightarrow> hist st < 65536"
    and get_set: "ok st \<Longrightarrow> n < 2 ^ 32 \<Longrightarrow> get_size st s' (set_size st s n m) =
      (if unat s mod hist st = unat s' mod hist st then n else get_size st s' m)"
    and get_wr: "ok st \<Longrightarrow> data st s \<le> a \<Longrightarrow> a + length bs \<le> data st s + cap st \<Longrightarrow>
      get_size st s' (wr m a bs) = get_size st s' m"
    and rd_set: "ok st \<Longrightarrow> data st s \<le> a \<Longrightarrow> a + n \<le> data st s + cap st \<Longrightarrow>
      rd (set_size st s' k m) a n = rd m a n"
    and data_apart: "ok st \<Longrightarrow> unat s mod hist st \<noteq> unat s' mod hist st \<Longrightarrow>
      data st s + cap st \<le> data st s' \<or> data st s' + cap st \<le> data st s"
    and data_cong: "unat s mod hist st = unat s' mod hist st \<Longrightarrow> data st s = data st s'"
    and size_cong: "unat s mod hist st = unat s' mod hist st \<Longrightarrow> get_size st s m = get_size st s' m"
    and data_in: "ok st \<Longrightarrow> lo st \<le> data st s \<and> data st s + cap st \<le> hi st"
    and set_in: "ok st \<Longrightarrow> changed_within m (set_size st s n m) (lo st) (hi st)"
    and size_same_on: "ok st \<Longrightarrow> same_on m m' (lo st) (hi st) \<Longrightarrow>
      get_size st s m' = get_size st s m"
begin

text \<open>Setting the length of every slot, of a run of slots, and counting slots.\<close>

definition set_all :: "'st \<Rightarrow> nat \<Rightarrow> nat \<Rightarrow> mem \<Rightarrow> mem" where
  "set_all st v k m = fold (\<lambda>i. set_size st (of_nat i) v) [0..<k] m"

lemma set_all_size:
  assumes "ok st" and "v < 2 ^ 32" and "k \<le> hist st"
  shows "get_size st s (set_all st v k m) =
    (if unat s mod hist st < k then v else get_size st s m)"
  using assms(3)
proof (induction k)
  case 0
  then show ?case by (simp add: set_all_def)
next
  case (Suc k)
  have "unat (of_nat k :: u16) = k"
    using Suc.prems hist_u16 [OF assms(1)] by (simp add: unat_of_nat)
  then have "unat (of_nat k :: u16) mod hist st = k"
    using Suc.prems by simp
  moreover have "set_all st v (Suc k) m = set_size st (of_nat k) v (set_all st v k m)"
    by (simp add: set_all_def)
  ultimately show ?case
    using Suc assms(1,2) by (auto simp: get_set less_Suc_eq)
qed

lemma set_all_in: "ok st \<Longrightarrow> changed_within m (set_all st v k m) (lo st) (hi st)"
  by (induction k) (auto simp: set_all_def intro: changed_within_trans set_in)

lemma set_all_rd:
  assumes "ok st" and "data st s \<le> a" and "a + n \<le> data st s + cap st"
  shows "rd (set_all st v k m) a n = rd m a n"
  by (induction k) (simp_all add: set_all_def rd_set [OF assms])

lemma data_mod: "data st (s mod t) = data st s \<and> get_size st (s mod t) m = get_size st s m"
  if "unat t = hist st"
proof -
  have "unat (s mod t) mod hist st = unat s mod hist st"
    using that by (simp add: unat_mod)
  then show ?thesis
    by (metis data_cong size_cong)
qed

text \<open>Writing a message into one slot leaves the messages of the other slots alone.\<close>

lemma rd_wr_other:
  assumes "ok st" and "unat s mod hist st \<noteq> unat s' mod hist st"
    and "data st s \<le> a" "a + length bs \<le> data st s + cap st"
    and "data st s' \<le> b" "b + n \<le> data st s' + cap st"
  shows "rd (wr m a bs) b n = rd m b n"
  using data_apart [OF assms(1,2)] assms(3-) by (intro rd_wr_disjoint) linarith

end

lemma get_set_size:
  assumes "ok_stream st" and "n < 2 ^ 32"
  shows "uxr_get_reliable_buffer_size st s' (uxr_set_reliable_buffer_size st s n m) =
    (if slot_of st s = slot_of st s' then n else uxr_get_reliable_buffer_size st s' m)"
proof (cases "slot_of st s = slot_of st s'")
  case True
  then show ?thesis
    using assms(2) by (simp add: get_size_eq set_size_eq mem_simps cast_u32_def)
next
  case False
  then show ?thesis
    using slot_base_apart [OF False, of st] assms(1)
    by (auto simp: get_size_eq set_size_eq ok_stream_def intro!: rd_wr_u32_disjoint)
qed

lemma in_slot_apart:
  assumes "ok_stream st" and "slot_base st i + 4 \<le> a" and "a + n \<le> slot_base st i + block st"
  shows "slot_base st j + 4 \<le> a \<or> a + n \<le> slot_base st j"
proof (cases "i = j")
  case False
  then show ?thesis
    using slot_base_apart [OF False, of st] assms by (auto simp: ok_stream_def)
qed (use assms in simp)

interpretation rs: slot_store ok_stream "\<lambda>st. unat (history st)"
  uxr_get_reliable_buffer_size uxr_set_reliable_buffer_size uxr_get_reliable_buffer
  uxr_get_reliable_buffer_capacity buffer "\<lambda>st. buffer st + stream_size st"
proof unfold_locales
  fix st s s' n m
  assume "ok_stream st" "n < (2::nat) ^ 32"
  then show "uxr_get_reliable_buffer_size st s' (uxr_set_reliable_buffer_size st s n m) =
    (if unat s mod unat (history st) = unat s' mod unat (history st) then n
     else uxr_get_reliable_buffer_size st s' m)"
    by (simp add: get_set_size flip: slot_of_def)
next
  fix st s a s' m and bs :: "u8 list"
  assume ok: "ok_stream st" and "uxr_get_reliable_buffer st s \<le> a"
    and "a + length bs \<le> uxr_get_reliable_buffer st s + uxr_get_reliable_buffer_capacity st"
  then show "uxr_get_reliable_buffer_size st s' (wr m a bs) = uxr_get_reliable_buffer_size st s' m"
    using in_slot_apart [OF ok, of "slot_of st s" a "length bs" "slot_of st s'"]
    by (auto simp: get_size_eq buffer_eq capacity_eq ok_stream_def intro!: rd_u32_wr_disjoint)
next
  fix st s a n s' k m
  assume ok: "ok_stream st" and "uxr_get_reliable_buffer st s \<le> a"
    and "a + n \<le> uxr_get_reliable_buffer st s + uxr_get_reliable_buffer_capacity st"
  then show "rd (uxr_set_reliable_buffer_size st s' k m) a n = rd m a n"
    using in_slot_apart [OF ok, of "slot_of st s" a n "slot_of st s'"]
    by (auto simp: set_size_eq buffer_eq capacity_eq ok_stream_def intro!: rd_wr_u32_other)
next
  fix st and s s' :: u16
  assume ok: "ok_stream st" and "unat s mod unat (history st) \<noteq> unat s' mod unat (history st)"
  then have "slot_of st s \<noteq> slot_of st s'" by (simp add: slot_of_def)
  from slot_base_apart [OF this, of st] ok
  show "uxr_get_reliable_buffer st s + uxr_get_reliable_buffer_capacity st
      \<le> uxr_get_reliable_buffer st s' \<or>
    uxr_get_reliable_buffer st s' + uxr_get_reliable_buffer_capacity st
      \<le> uxr_get_reliable_buffer st s"
    by (auto simp: buffer_eq capacity_eq ok_stream_def)
next
  fix st s
  assume ok: "ok_stream st"
  from slot_in_buffer [OF slot_less [OF ok], of s]
  show "buffer st \<le> uxr_get_reliable_buffer st s \<and>
    uxr_get_reliable_buffer st s + uxr_get_reliable_buffer_capacity st \<le> buffer st + stream_size st"
    using ok by (simp add: buffer_eq capacity_eq ok_stream_def) (simp add: slot_base_def)
next
  fix st m s n
  assume ok: "ok_stream st"
  from slot_in_buffer [OF slot_less [OF ok], of s]
  show "changed_within m (uxr_set_reliable_buffer_size st s n m) (buffer st) (buffer st + stream_size st)"
    using ok unfolding set_size_eq
    by (intro changed_within_wr_u32) (simp_all add: ok_stream_def slot_base_def)
next
  fix st m m' s
  assume ok: "ok_stream st" and so: "same_on m m' (buffer st) (buffer st + stream_size st)"
  from slot_in_buffer [OF slot_less [OF ok], of s]
  show "uxr_get_reliable_buffer_size st s m' = uxr_get_reliable_buffer_size st s m"
    using ok unfolding get_size_eq
    by (intro rd_u32_same_on [OF so]) (simp_all add: ok_stream_def slot_base_def)
qed (use unat_u16_less in \<open>auto simp: ok_stream_def buffer_eq get_size_eq slot_of_def\<close>)

section \<open>The stored messages\<close>

text \<open>What a slot holds, as the streams see it: nothing when its length is zero.\<close>

definition slot_msg :: "uxrReliableStream \<Rightarrow> u16 \<Rightarrow> mem \<Rightarrow> u8 list option" where
  "slot_msg st s m =
     (if uxr_get_reliable_buffer_size st s m = 0 then None
      else Some (rd m (uxr_get_reliable_buffer st s) (uxr_get_reliable_buffer_size st s m)))"

text \<open>Every slot's length is within its capacity: what makes \<open>slot_msg\<close> independent slot by slot.\<close>

definition slots_fit :: "uxrReliableStream \<Rightarrow> mem \<Rightarrow> bool" where
  "slots_fit st m \<longleftrightarrow>
     (\<forall>s. uxr_get_reliable_buffer_size st s m \<le> uxr_get_reliable_buffer_capacity st)"

lemma slots_fitD: "slots_fit st m \<Longrightarrow> uxr_get_reliable_buffer_size st s m \<le> uxr_get_reliable_buffer_capacity st"
  by (simp add: slots_fit_def)

lemma capacity_u32: "ok_stream st \<Longrightarrow> n \<le> uxr_get_reliable_buffer_capacity st \<Longrightarrow> n < 2 ^ 32"
  by (auto simp: capacity_eq ok_stream_def)

lemma slot_msg_cong: "slot_of st s = slot_of st s' \<Longrightarrow> slot_msg st s m = slot_msg st s' m"
  by (simp add: slot_msg_def get_size_eq buffer_eq)

lemma slot_msg_clear:
  assumes "ok_stream st" and "slots_fit st m"
  shows "slot_msg st s' (uxr_set_reliable_buffer_size st s 0 m) =
    (if slot_of st s = slot_of st s' then None else slot_msg st s' m)"
proof -
  have "rd (uxr_set_reliable_buffer_size st s 0 m) (uxr_get_reliable_buffer st s')
      (uxr_get_reliable_buffer_size st s' m) =
    rd m (uxr_get_reliable_buffer st s') (uxr_get_reliable_buffer_size st s' m)"
    using assms by (intro rs.rd_set [where s = s']) (simp_all add: slots_fitD)
  then show ?thesis
    using assms(1) by (simp add: slot_msg_def get_set_size)
qed

lemma slots_fit_set:
  "ok_stream st \<Longrightarrow> slots_fit st m \<Longrightarrow> n \<le> uxr_get_reliable_buffer_capacity st \<Longrightarrow>
    slots_fit st (uxr_set_reliable_buffer_size st s n m)"
  using capacity_u32 [of st n] by (simp add: slots_fit_def get_set_size)

definition store_msg :: "uxrReliableStream \<Rightarrow> u16 \<Rightarrow> u8 list \<Rightarrow> mem \<Rightarrow> mem" where
  "store_msg st s bs m =
     uxr_set_reliable_buffer_size st s (length bs) (wr m (uxr_get_reliable_buffer st s) bs)"

lemma store_msg_size:
  assumes "ok_stream st" and "length bs \<le> uxr_get_reliable_buffer_capacity st"
  shows "uxr_get_reliable_buffer_size st s' (store_msg st s bs m) =
    (if slot_of st s = slot_of st s' then length bs else uxr_get_reliable_buffer_size st s' m)"
proof -
  have "uxr_get_reliable_buffer_size st s' (wr m (uxr_get_reliable_buffer st s) bs) =
      uxr_get_reliable_buffer_size st s' m"
    using assms by (intro rs.get_wr [where s = s]) simp_all
  then show ?thesis
    using assms capacity_u32 [OF assms] by (simp add: store_msg_def get_set_size)
qed

lemma slots_fit_store:
  "ok_stream st \<Longrightarrow> slots_fit st m \<Longrightarrow> length bs \<le> uxr_get_reliable_buffer_capacity st \<Longrightarrow>
    slots_fit st (store_msg st s bs m)"
  by (auto simp: slots_fit_def store_msg_size)

lemma slot_msg_store:
  assumes ok: "ok_stream st" and fit: "slots_fit st m"
    and len: "length bs \<le> uxr_get_reliable_buffer_capacity st" and "bs \<noteq> []"
  shows "slot_msg st s' (store_msg st s bs m) =
    (if slot_of st s = slot_of st s' then Some bs else slot_msg st s' m)"
proof (cases "slot_of st s = slot_of st s'")
  case True
  then have "uxr_get_reliable_buffer st s = uxr_get_reliable_buffer st s'"
    by (simp add: buffer_eq)
  moreover have "rd (store_msg st s bs m) (uxr_get_reliable_buffer st s) (length bs) = bs"
    using ok len unfolding store_msg_def
    by (subst rs.rd_set [where s = s]) (simp_all add: rd_wr_same)
  ultimately show ?thesis
    using True assms by (simp add: slot_msg_def store_msg_size)
next
  case False
  let ?n = "uxr_get_reliable_buffer_size st s' m"
  have n: "?n \<le> uxr_get_reliable_buffer_capacity st"
    by (rule slots_fitD [OF fit])
  have "rd (store_msg st s bs m) (uxr_get_reliable_buffer st s') ?n =
      rd (wr m (uxr_get_reliable_buffer st s) bs) (uxr_get_reliable_buffer st s') ?n"
    unfolding store_msg_def using ok n by (intro rs.rd_set [where s = s']) simp_all
  also have "\<dots> = rd m (uxr_get_reliable_buffer st s') ?n"
    using False n len by (intro rs.rd_wr_other [OF ok, of s s']) (simp_all add: slot_of_def)
  finally show ?thesis
    using False assms by (simp add: slot_msg_def store_msg_size)
qed

text \<open>Memory outside the stream's buffer is irrelevant.\<close>

lemma slot_msg_same_on:
  assumes ok: "ok_stream st" and fit: "slots_fit st m"
    and same: "same_on m m' (buffer st) (buffer st + stream_size st)"
  shows "slot_msg st s m' = slot_msg st s m" and "slots_fit st m'"
proof -
  have sz: "uxr_get_reliable_buffer_size st s m' = uxr_get_reliable_buffer_size st s m" for s
    by (rule rs.size_same_on [OF ok same])
  have "rd m' (uxr_get_reliable_buffer st s) (uxr_get_reliable_buffer_size st s m) =
      rd m (uxr_get_reliable_buffer st s) (uxr_get_reliable_buffer_size st s m)"
    using rs.data_in [OF ok, of s] slots_fitD [OF fit, of s]
    by (intro same_on_rd [OF same]) simp_all
  then show "slot_msg st s m' = slot_msg st s m"
    by (simp add: slot_msg_def sz)
  show "slots_fit st m'"
    using fit by (simp add: slots_fit_def sz)
qed

lemma store_msg_in:
  assumes "ok_stream st" and "length bs \<le> uxr_get_reliable_buffer_capacity st"
  shows "changed_within m (store_msg st s bs m) (buffer st) (buffer st + stream_size st)"
  unfolding store_msg_def
  using rs.data_in [OF assms(1), of s] assms
  by (intro changed_within_trans [OF changed_within_wr rs.set_in]) simp_all

end
