(* ===== verification/InputReliable.thy ===== *)
theory InputReliable
  imports ReliableBase Submessage
begin

text \<open>
  The reliable input stream: \<open>input_reliable_stream.c\<close>. Messages ahead of the next expected
  one wait in the slots of the stream; \<open>last_handled\<close> is the last message delivered and
  \<open>last_announced\<close> the last one the agent is known to have sent. The mutex of the
  multithread profile is not modelled.
\<close>

section \<open>State and operations\<close>

datatype FragmentationInfo = NO_FRAGMENTED | INTERMEDIATE_FRAGMENT | LAST_FRAGMENT

text \<open>The function pointer gets the address of a submessage header and reads memory there.\<close>

type_synonym OnGetFragmentationInfo = "mem \<Rightarrow> addr \<Rightarrow> FragmentationInfo"

record uxrInputReliableStream =
  in_base :: uxrReliableStream
  last_handled :: uxrSeqNum
  last_announced :: uxrSeqNum
  on_get_fragmentation_info :: OnGetFragmentationInfo
  cleanup_flag :: bool

definition uxr_reset_input_reliable_stream ::
  "uxrInputReliableStream \<Rightarrow> mem \<Rightarrow> uxrInputReliableStream \<times> mem"
where
  "uxr_reset_input_reliable_stream stream m =
     (stream\<lparr>last_handled := SEQ_NUM_MAX, last_announced := SEQ_NUM_MAX\<rparr>,
      fold (\<lambda>i. uxr_set_reliable_buffer_size (in_base stream) (of_nat i) 0)
        [0..<unat (history (in_base stream))] m)"

definition uxr_init_input_reliable_stream ::
  "uxrInputReliableStream \<Rightarrow> addr \<Rightarrow> size_t \<Rightarrow> u16 \<Rightarrow> OnGetFragmentationInfo \<Rightarrow> mem
    \<Rightarrow> uxrInputReliableStream \<times> mem"
where
  "uxr_init_input_reliable_stream stream buffer' size' history' on_get m =
     uxr_reset_input_reliable_stream
       (stream\<lparr>in_base := \<lparr>buffer = buffer', stream_size = size', history = history'\<rparr>,
               on_get_fragmentation_info := on_get, cleanup_flag := False\<rparr>) m"

text \<open>
  The search for the last fragment follows the slots while they hold intermediate fragments.
  When every slot holds one it does not end: \<open>None\<close>.
\<close>

partial_function (option) check_last_fragment_loop ::
  "uxrInputReliableStream \<Rightarrow> mem \<Rightarrow> uxrSeqNum \<Rightarrow> (bool \<times> uxrSeqNum) option"
where
  "check_last_fragment_loop stream m next0 =
     (let next' = uxr_seq_num_add next0 1;
          next_buffer = uxr_get_reliable_buffer (in_base stream) next'
      in if uxr_get_reliable_buffer_size (in_base stream) next' m \<noteq> 0
         then (case on_get_fragmentation_info stream m next_buffer of
                 LAST_FRAGMENT \<Rightarrow> Some (True, next')
               | INTERMEDIATE_FRAGMENT \<Rightarrow> check_last_fragment_loop stream m next'
               | NO_FRAGMENTED \<Rightarrow> Some (False, next'))
         else Some (False, next'))"

definition check_last_fragment ::
  "uxrInputReliableStream \<Rightarrow> mem \<Rightarrow> (bool \<times> uxrSeqNum) option"
where
  "check_last_fragment stream m = check_last_fragment_loop stream m (last_handled stream)"

text \<open>
  \<open>message_stored\<close> is an output parameter that some paths leave alone, so its old value
  \<open>stored0\<close> comes in. The copy into the slot is as long as the message: nothing compares it
  with the capacity of a slot.
\<close>

definition uxr_receive_reliable_message ::
  "uxrInputReliableStream \<Rightarrow> u16 \<Rightarrow> addr \<Rightarrow> size_t \<Rightarrow> bool \<Rightarrow> mem
    \<Rightarrow> (bool \<times> bool \<times> uxrInputReliableStream \<times> mem) option"
where
  "uxr_receive_reliable_message stream seq_num buffer' len stored0 m =
     (let base = in_base stream;
          last_history = uxr_seq_num_add (last_handled stream) (history base);
          announce = (\<lambda>st. if 0 > uxr_seq_num_cmp (last_announced st) seq_num
                           then st\<lparr>last_announced := seq_num\<rparr> else st)
      in if 0 > uxr_seq_num_cmp (last_handled stream) seq_num \<and>
            0 \<le> uxr_seq_num_cmp last_history seq_num
         then let fragmentation_info = on_get_fragmentation_info stream m buffer';
                  next' = uxr_seq_num_add (last_handled stream) 1
              in if NO_FRAGMENTED = fragmentation_info \<and> seq_num = next'
                 then Some (True, False, announce (stream\<lparr>last_handled := next'\<rparr>), m)
                 else let internal_buffer = uxr_get_reliable_buffer base seq_num
                      in if 0 = uxr_get_reliable_buffer_size base seq_num m
                         then let m' = uxr_set_reliable_buffer_size base seq_num len
                                         (memcpy m internal_buffer buffer' len)
                              in if NO_FRAGMENTED \<noteq> fragmentation_info
                                 then (case check_last_fragment stream m' of
                                         None \<Rightarrow> None
                                       | Some (found, _) \<Rightarrow> Some (found, True, announce stream, m'))
                                 else Some (False, True, announce stream, m')
                         else Some (False, stored0, announce stream, m)
         else Some (False, stored0, announce stream, m))"

text \<open>\<open>self\<close> names the stream in the argument of the buffer's callback.\<close>

definition uxr_next_input_reliable_buffer_available ::
  "ucdr \<Rightarrow> nat \<Rightarrow> uxrInputReliableStream \<Rightarrow> ucdrBuffer \<Rightarrow> size_t \<Rightarrow> mem
    \<Rightarrow> (bool \<times> uxrInputReliableStream \<times> ucdrBuffer \<times> mem) option"
where
  "uxr_next_input_reliable_buffer_available cdr self stream ub fragment_offset m =
     (let base = in_base stream;
          next' = uxr_seq_num_add (last_handled stream) 1;
          internal_buffer = uxr_get_reliable_buffer base next';
          len = uxr_get_reliable_buffer_size base next' m
      in if 0 \<noteq> len
         then (if NO_FRAGMENTED = on_get_fragmentation_info stream m internal_buffer
               then Some (True, stream\<lparr>last_handled := next'\<rparr>,
                          ucdr_init_buffer cdr internal_buffer (cast_u32 len),
                          uxr_set_reliable_buffer_size base next' 0 m)
               else (case check_last_fragment stream m of
                       None \<Rightarrow> None
                     | Some (found, last') \<Rightarrow>
                         if found
                         then Some (True, stream\<lparr>last_handled := last'\<rparr>,
                                    ucdr_set_on_full_buffer_callback cdr
                                      (Some on_full_input_buffer_cb) (Some self)
                                      (ucdr_init_buffer cdr (internal_buffer + fragment_offset)
                                         (cast_u32 (size_sub len fragment_offset))),
                                    uxr_set_reliable_buffer_size base next' 0 m)
                         else Some (False, stream, ub, m)))
         else Some (False, stream, ub, m))"

definition uxr_process_heartbeat ::
  "uxrInputReliableStream \<Rightarrow> uxrSeqNum \<Rightarrow> uxrSeqNum \<Rightarrow> uxrInputReliableStream"
where
  "uxr_process_heartbeat stream first_seq_num last_seq_num =
     (if 0 > uxr_seq_num_cmp (last_announced stream) last_seq_num
      then stream\<lparr>last_announced := last_seq_num\<rparr> else stream)"

definition uxr_is_input_up_to_date :: "uxrInputReliableStream \<Rightarrow> bool" where
  "uxr_is_input_up_to_date stream \<longleftrightarrow> last_announced stream = last_handled stream"

definition uxr_get_first_unacked :: "uxrInputReliableStream \<Rightarrow> mem \<Rightarrow> uxrSeqNum" where
  "uxr_get_first_unacked stream m =
     (case find (\<lambda>i. 0 = uxr_get_reliable_buffer_size (in_base stream)
                       (uxr_seq_num_add (last_handled stream) (of_nat (i + 1))) m)
             [0..<unat (history (in_base stream))] of
        Some i \<Rightarrow> uxr_seq_num_add (last_handled stream) (of_nat (i + 1))
      | None \<Rightarrow> last_handled stream)"

text \<open>
  The shift \<open>1 << i\<close> is one of \<open>int\<close>: undefined from 31 on, which is the result \<open>None\<close>; the
  conversion to \<open>uint16_t\<close> drops the bits from 16 on.
\<close>

definition acknack_step ::
  "uxrInputReliableStream \<Rightarrow> mem \<Rightarrow> uxrSeqNum \<Rightarrow> nat \<Rightarrow> u16 option \<Rightarrow> u16 option"
where
  "acknack_step stream m from' i nack_bitmap =
     (case nack_bitmap of
        None \<Rightarrow> None
      | Some b \<Rightarrow>
          if 0 = uxr_get_reliable_buffer_size (in_base stream) (uxr_seq_num_add from' (of_nat i)) m
          then (if i < 31 then Some (b OR push_bit i 1) else None)
          else Some b)"

definition uxr_compute_acknack :: "uxrInputReliableStream \<Rightarrow> mem \<Rightarrow> u16 option \<times> uxrSeqNum" where
  "uxr_compute_acknack stream m =
     (let from' = uxr_get_first_unacked stream m;
          buffers_to_ack = uxr_seq_num_sub (last_announced stream) (uxr_seq_num_sub from' 1)
      in (fold (acknack_step stream m from') [0..<unat buffers_to_ack] (Some 0), from'))"

definition on_full_input_buffer ::
  "ucdr \<Rightarrow> nat \<Rightarrow> uxrInputReliableStream \<Rightarrow> ucdrBuffer \<Rightarrow> mem \<Rightarrow> bool \<times> ucdrBuffer \<times> mem"
where
  "on_full_input_buffer cdr self stream ub m =
     (let base = in_base stream;
          history_position = 1 + uxr_get_reliable_buffer_history_position base (init ub);
          buffer' = uxr_get_reliable_buffer base history_position;
          buffer_size = uxr_get_reliable_buffer_size base history_position m;
          m' = (if cleanup_flag stream
                then uxr_set_reliable_buffer_size base history_position 0 m else m)
      in if buffer_size < SUBHEADER_SIZE then (True, ub, m')
         else (False,
               ucdr_set_on_full_buffer_callback cdr (Some on_full_input_buffer_cb) (Some self)
                 (ucdr_init_buffer_origin cdr (buffer' + SUBHEADER_SIZE)
                    (cast_u32 (size_sub buffer_size SUBHEADER_SIZE)) (offset ub)),
               m'))"

section \<open>The window of waiting messages\<close>

text \<open>
  Specification state: a list with one cell per slot, the next expected message first.
\<close>

type_synonym window = "u8 list option list"

definition in_window :: "uxrInputReliableStream \<Rightarrow> mem \<Rightarrow> window" where
  "in_window st m =
     map (\<lambda>i. slot_msg (in_base st) (last_handled st + of_nat (Suc i)) m)
       [0..<unat (history (in_base st))]"

text \<open>
  What the code asks of its client in a comment (a power of two), and that comparisons of
  sequence numbers are meaningful within the window.
\<close>

definition ok_in :: "uxrInputReliableStream \<Rightarrow> mem \<Rightarrow> bool" where
  "ok_in st m \<longleftrightarrow> ok_stream (in_base st) \<and> unat (history (in_base st)) dvd 65536 \<and>
     unat (history (in_base st)) < 32768 \<and> slots_fit (in_base st) m"

lemma ok_inD:
  assumes "ok_in st m"
  shows "ok_stream (in_base st)" "unat (history (in_base st)) dvd 65536"
    "unat (history (in_base st)) < 32768" "slots_fit (in_base st) m"
    "0 < unat (history (in_base st))"
  using assms by (simp_all add: ok_in_def ok_stream_def)

lemma length_in_window [simp]: "length (in_window st m) = unat (history (in_base st))"
  by (simp add: in_window_def)

lemma nth_in_window:
  "i < unat (history (in_base st)) \<Longrightarrow>
    in_window st m ! i = slot_msg (in_base st) (last_handled st + of_nat (Suc i)) m"
  by (simp add: in_window_def)

lemma mod_add_shift: "((a::nat) + i) mod h = (a + j) mod h \<longleftrightarrow> i mod h = j mod h"
proof -
  have "(x mod h = y mod h) = (int h dvd int x - int y)" for x y :: nat
    by (metis mod_eq_dvd_iff of_nat_eq_iff of_nat_mod)
  then show ?thesis by simp
qed

lemma slot_of_shift:
  assumes "unat (history st) dvd 65536"
  shows "slot_of st (s + of_nat i) = slot_of st (s + of_nat j) \<longleftrightarrow>
    i mod unat (history st) = j mod unat (history st)"
proof -
  let ?h = "unat (history st)"
  have "unat (s + of_nat i) mod ?h = (unat s + i) mod ?h" for i
  proof -
    have "unat (s + of_nat i) = (unat s + i mod 65536) mod 65536"
      by (simp only: unat_word_ariths unat_of_nat) simp
    then have "unat (s + of_nat i) = (unat s + i) mod 65536"
      by (simp add: mod_add_right_eq)
    then show ?thesis
      using assms by (simp add: mod_mod_cancel)
  qed
  moreover have "(unat s + i) mod ?h = (unat s + j) mod ?h \<longleftrightarrow> i mod ?h = j mod ?h"
    by (rule mod_add_shift)
  ultimately show ?thesis
    by (simp add: slot_of_def)
qed

lemma slot_of_window:
  assumes "unat (history st) dvd 65536" and "i < unat (history st)" and "j < unat (history st)"
  shows "slot_of st (s + of_nat (Suc i)) = slot_of st (s + of_nat (Suc j)) \<longleftrightarrow> i = j"
  using slot_of_shift [OF assms(1), of "s + 1" i j] assms(2,3) by (simp add: add.assoc)

text \<open>Advancing by one rotates the window; storing and clearing change one cell.\<close>

lemma in_window_advance:
  assumes "ok_in st m"
  shows "in_window (st\<lparr>last_handled := last_handled st + 1\<rparr>) m = rotate1 (in_window st m)"
proof (rule nth_equalityI)
  show "length (in_window (st\<lparr>last_handled := last_handled st + 1\<rparr>) m) = length (rotate1 (in_window st m))"
    by simp
  let ?h = "unat (history (in_base st))"
  fix i assume "i < length (in_window (st\<lparr>last_handled := last_handled st + 1\<rparr>) m)"
  then have i: "i < ?h" by simp
  have "slot_of (in_base st) (last_handled st + 1 + of_nat (Suc i)) =
      slot_of (in_base st) (last_handled st + 1 + of_nat (Suc i mod ?h))"
    using ok_inD [OF assms] by (simp only: slot_of_shift) simp
  then have "slot_msg (in_base st) (last_handled st + 1 + of_nat (Suc i)) m =
      slot_msg (in_base st) (last_handled st + 1 + of_nat (Suc i mod ?h)) m"
    by (rule slot_msg_cong)
  also have "last_handled st + 1 + of_nat (Suc i mod ?h) =
      last_handled st + of_nat (Suc (Suc i mod ?h))"
    by (simp add: add.assoc)
  finally have "slot_msg (in_base st) (last_handled st + 1 + of_nat (Suc i)) m =
      slot_msg (in_base st) (last_handled st + of_nat (Suc (Suc i mod ?h))) m" .
  then show "in_window (st\<lparr>last_handled := last_handled st + 1\<rparr>) m ! i = rotate1 (in_window st m) ! i"
    using i ok_inD(5) [OF assms] by (simp add: nth_in_window nth_rotate1 del: of_nat_Suc)
qed

lemma in_window_store:
  assumes "ok_in st m" and "i < unat (history (in_base st))" and "bs \<noteq> []"
    and "length bs \<le> uxr_get_reliable_buffer_capacity (in_base st)"
  shows "in_window st (store_msg (in_base st) (last_handled st + of_nat (Suc i)) bs m) =
    (in_window st m)[i := Some bs]"
  using assms ok_inD [OF assms(1)]
  by (intro nth_equalityI)
     (auto simp: nth_in_window slot_msg_store slot_of_window nth_list_update simp del: of_nat_Suc)

lemma in_window_clear:
  assumes "ok_in st m" and "i < unat (history (in_base st))"
  shows "in_window st (uxr_set_reliable_buffer_size (in_base st) (last_handled st + of_nat (Suc i)) 0 m) =
    (in_window st m)[i := None]"
  using assms ok_inD [OF assms(1)]
  by (intro nth_equalityI)
     (auto simp: nth_in_window slot_msg_clear slot_of_window nth_list_update simp del: of_nat_Suc)

lemma in_window_update [simp]:
  "in_window (st\<lparr>last_announced := a\<rparr>) m = in_window st m"
  "in_window (st\<lparr>cleanup_flag := c\<rparr>) m = in_window st m"
  by (simp_all add: in_window_def)

lemma ok_in_update [simp]:
  "ok_in (st\<lparr>last_announced := a\<rparr>) m = ok_in st m"
  "ok_in (st\<lparr>last_handled := a\<rparr>) m = ok_in st m"
  "ok_in (st\<lparr>cleanup_flag := c\<rparr>) m = ok_in st m"
  by (simp_all add: ok_in_def)

lemma ok_in_store:
  "ok_in st m \<Longrightarrow> length bs \<le> uxr_get_reliable_buffer_capacity (in_base st) \<Longrightarrow>
    ok_in st (store_msg (in_base st) s bs m)"
  by (simp add: ok_in_def slots_fit_store)

lemma ok_in_clear:
  "ok_in st m \<Longrightarrow> ok_in st (uxr_set_reliable_buffer_size (in_base st) s 0 m)"
  by (simp add: ok_in_def slots_fit_set)

lemma in_window_outside:
  assumes "ok_in st m" and "same_on m m' (buffer (in_base st)) (buffer (in_base st) + stream_size (in_base st))"
  shows "in_window st m' = in_window st m" and "ok_in st m'"
  using assms ok_inD [OF assms(1)] slot_msg_same_on [of "in_base st" m m']
  by (auto simp: in_window_def ok_in_def)

section \<open>Receiving refines the window\<close>

text \<open>
  A message \<open>d\<close> ahead of the last delivered one is delivered when it is the next and whole,
  kept when its cell is free, and dropped otherwise.
\<close>

definition win_receive :: "nat \<Rightarrow> bool \<Rightarrow> u8 list \<Rightarrow> window \<Rightarrow> u8 list list \<times> window" where
  "win_receive d whole bs w =
     (if 0 < d \<and> d \<le> length w
      then (if whole \<and> d = 1 then ([bs], rotate1 w)
            else ([], if w ! (d - 1) = None then w[d - 1 := Some bs] else w))
      else ([], w))"

text \<open>Taking a whole message that waits at the front.\<close>

definition win_next :: "window \<Rightarrow> u8 list list \<times> window" where
  "win_next w = (case w of Some bs # w' \<Rightarrow> ([bs], w' @ [None]) | _ \<Rightarrow> ([], w))"

lemma in_window_iff:
  assumes "ok_in st m"
  shows "(0 > uxr_seq_num_cmp (last_handled st) s \<and>
      0 \<le> uxr_seq_num_cmp (uxr_seq_num_add (last_handled st) (history (in_base st))) s) \<longleftrightarrow>
    0 < seq_dist (last_handled st) s \<and>
      seq_dist (last_handled st) s \<le> unat (history (in_base st))"
  by (rule sn.window) (rule ok_inD [OF assms])

lemma seq_eq_Suc_dist: "0 < seq_dist l s \<Longrightarrow> s = l + of_nat (Suc (seq_dist l s - 1))"
  using seq_at_dist [of l s] by simp

lemma slot_msg_None: "slot_msg st s m = None \<longleftrightarrow> uxr_get_reliable_buffer_size st s m = 0"
  by (simp add: slot_msg_def)

definition announce :: "uxrInputReliableStream \<Rightarrow> uxrSeqNum \<Rightarrow> uxrInputReliableStream" where
  "announce st s = (if 0 > uxr_seq_num_cmp (last_announced st) s then st\<lparr>last_announced := s\<rparr> else st)"

lemma announce_simps [simp]:
  "in_base (announce st s) = in_base st" "last_handled (announce st s) = last_handled st"
  "on_get_fragmentation_info (announce st s) = on_get_fragmentation_info st"
  "cleanup_flag (announce st s) = cleanup_flag st"
  "in_window (announce st s) m = in_window st m" "ok_in (announce st s) m = ok_in st m"
  by (simp_all add: announce_def)

lemma memcpy_store:
  "uxr_set_reliable_buffer_size st s n (memcpy m (uxr_get_reliable_buffer st s) a n) =
    store_msg st s (rd m a n) m"
  by (simp add: store_msg_def memcpy_def)

text \<open>The four outcomes of receiving.\<close>

lemma receive_cases:
  fixes s :: uxrSeqNum
  assumes ok: "ok_in st m"
  defines "d \<equiv> seq_dist (last_handled st) s" and "h \<equiv> unat (history (in_base st))"
  shows "\<not> (0 < d \<and> d \<le> h) \<Longrightarrow>
      uxr_receive_reliable_message st s a n s0 m = Some (False, s0, announce st s, m)"
    and "d = 1 \<Longrightarrow> on_get_fragmentation_info st m a = NO_FRAGMENTED \<Longrightarrow>
      uxr_receive_reliable_message st s a n s0 m =
        Some (True, False, announce (st\<lparr>last_handled := last_handled st + 1\<rparr>) s, m)"
    and "0 < d \<Longrightarrow> d \<le> h \<Longrightarrow> d \<noteq> 1 \<or> on_get_fragmentation_info st m a \<noteq> NO_FRAGMENTED \<Longrightarrow>
      in_window st m ! (d - 1) \<noteq> None \<Longrightarrow>
      uxr_receive_reliable_message st s a n s0 m = Some (False, s0, announce st s, m)"
    and "0 < d \<Longrightarrow> d \<le> h \<Longrightarrow> d \<noteq> 1 \<or> on_get_fragmentation_info st m a \<noteq> NO_FRAGMENTED \<Longrightarrow>
      in_window st m ! (d - 1) = None \<Longrightarrow>
      uxr_receive_reliable_message st s a n s0 m =
        (if on_get_fragmentation_info st m a = NO_FRAGMENTED
         then Some (False, True, announce st s, store_msg (in_base st) s (rd m a n) m)
         else map_option (\<lambda>(found, _). (found, True, announce st s, store_msg (in_base st) s (rd m a n) m))
                (check_last_fragment st (store_msg (in_base st) s (rd m a n) m)))"
proof -
  note w = in_window_iff [OF ok, of s, folded d_def h_def]
  have one: "s = uxr_seq_num_add (last_handled st) 1 \<longleftrightarrow> d = 1"
    using seq_dist_of_nat [of 1 "last_handled st"] seq_dist_inject [of "last_handled st" s "last_handled st + 1"]
    by (simp add: d_def sn.add_ring)
  have cell: "in_window st m ! (d - 1) = slot_msg (in_base st) s m" if "0 < d" "d \<le> h"
    using that seq_eq_Suc_dist [of "last_handled st" s] by (simp add: nth_in_window d_def h_def)
  note defs = uxr_receive_reliable_message_def Let_def w one announce_def [symmetric] memcpy_store
  show "\<not> (0 < d \<and> d \<le> h) \<Longrightarrow>
      uxr_receive_reliable_message st s a n s0 m = Some (False, s0, announce st s, m)"
    by (simp only: defs if_False simp_thms)
  show "d = 1 \<Longrightarrow> on_get_fragmentation_info st m a = NO_FRAGMENTED \<Longrightarrow>
      uxr_receive_reliable_message st s a n s0 m =
        Some (True, False, announce (st\<lparr>last_handled := last_handled st + 1\<rparr>) s, m)"
  proof -
    assume d1: "d = 1" and nf: "on_get_fragmentation_info st m a = NO_FRAGMENTED"
    have "0 < d \<and> d \<le> h"
      using d1 ok_inD(5) [OF ok] by (simp add: h_def)
    then show "uxr_receive_reliable_message st s a n s0 m =
        Some (True, False, announce (st\<lparr>last_handled := last_handled st + 1\<rparr>) s, m)"
      using d1 nf unfolding uxr_receive_reliable_message_def Let_def w one
      by (simp add: announce_def sn.add_ring)
  qed
  show "0 < d \<Longrightarrow> d \<le> h \<Longrightarrow> d \<noteq> 1 \<or> on_get_fragmentation_info st m a \<noteq> NO_FRAGMENTED \<Longrightarrow>
      in_window st m ! (d - 1) \<noteq> None \<Longrightarrow>
      uxr_receive_reliable_message st s a n s0 m = Some (False, s0, announce st s, m)"
  proof -
    assume d: "0 < d" "d \<le> h" and f: "d \<noteq> 1 \<or> on_get_fragmentation_info st m a \<noteq> NO_FRAGMENTED"
      and full: "in_window st m ! (d - 1) \<noteq> None"
    have "0 < d \<and> d \<le> h" and nf: "\<not> (NO_FRAGMENTED = on_get_fragmentation_info st m a \<and> d = 1)"
      and sz: "(0 = uxr_get_reliable_buffer_size (in_base st) s m) = False"
      using d f full cell by (auto simp: slot_msg_def split: if_splits)
    then show "uxr_receive_reliable_message st s a n s0 m = Some (False, s0, announce st s, m)"
      unfolding uxr_receive_reliable_message_def Let_def w one nf
      by (simp only: simp_thms if_True if_False announce_def sz)
  qed
  show "0 < d \<Longrightarrow> d \<le> h \<Longrightarrow> d \<noteq> 1 \<or> on_get_fragmentation_info st m a \<noteq> NO_FRAGMENTED \<Longrightarrow>
      in_window st m ! (d - 1) = None \<Longrightarrow>
      uxr_receive_reliable_message st s a n s0 m =
        (if on_get_fragmentation_info st m a = NO_FRAGMENTED
         then Some (False, True, announce st s, store_msg (in_base st) s (rd m a n) m)
         else map_option (\<lambda>(found, _). (found, True, announce st s, store_msg (in_base st) s (rd m a n) m))
                (check_last_fragment st (store_msg (in_base st) s (rd m a n) m)))"
  proof -
    assume d: "0 < d" "d \<le> h" and f: "d \<noteq> 1 \<or> on_get_fragmentation_info st m a \<noteq> NO_FRAGMENTED"
      and free: "in_window st m ! (d - 1) = None"
    have c: "0 < d \<and> d \<le> h" and nf: "(NO_FRAGMENTED = on_get_fragmentation_info st m a \<and> d = 1) = False"
      and sz: "0 = uxr_get_reliable_buffer_size (in_base st) s m"
      using d f free cell by (auto simp: slot_msg_def split: if_splits)
    show "uxr_receive_reliable_message st s a n s0 m =
        (if on_get_fragmentation_info st m a = NO_FRAGMENTED
         then Some (False, True, announce st s, store_msg (in_base st) s (rd m a n) m)
         else map_option (\<lambda>(found, _). (found, True, announce st s, store_msg (in_base st) s (rd m a n) m))
                (check_last_fragment st (store_msg (in_base st) s (rd m a n) m)))"
      unfolding uxr_receive_reliable_message_def Let_def w one nf memcpy_store announce_def [symmetric]
      using c sz by (cases "on_get_fragmentation_info st m a = NO_FRAGMENTED")
        (auto split: option.split)
  qed
qed

text \<open>A message that the fragmentation callback takes for a whole one, wherever it lies.\<close>

definition whole_msg :: "OnGetFragmentationInfo \<Rightarrow> u8 list \<Rightarrow> bool" where
  "whole_msg f bs \<longleftrightarrow> (\<forall>m a. rd m a (length bs) = bs \<longrightarrow> f m a = NO_FRAGMENTED)"

lemma receive_window:
  assumes ok: "ok_in st m" and len: "0 < n" "n \<le> uxr_get_reliable_buffer_capacity (in_base st)"
    and r: "uxr_receive_reliable_message st s a n s0 m = Some (ready, stored, st', m')"
  defines "d \<equiv> seq_dist (last_handled st) s"
    and "whole \<equiv> on_get_fragmentation_info st m a = NO_FRAGMENTED"
  shows "in_window st' m' = snd (win_receive d whole (rd m a n) (in_window st m))"
    and "last_handled st' = last_handled st + (if d = 1 \<and> whole then 1 else 0)"
    and "ok_in st' m'" and "in_base st' = in_base st"
    and "on_get_fragmentation_info st' = on_get_fragmentation_info st"
    and "changed_within m m' (buffer (in_base st)) (buffer (in_base st) + stream_size (in_base st))"
proof -
  let ?h = "unat (history (in_base st))"
  let ?G = "in_window st' m' = snd (win_receive d whole (rd m a n) (in_window st m)) \<and>
    last_handled st' = last_handled st + (if d = 1 \<and> whole then 1 else 0) \<and>
    ok_in st' m' \<and> in_base st' = in_base st \<and>
    on_get_fragmentation_info st' = on_get_fragmentation_info st \<and>
    changed_within m m' (buffer (in_base st)) (buffer (in_base st) + stream_size (in_base st))"
  note rc = receive_cases [OF ok, of s a n s0, folded d_def whole_def]
  have h: "0 < ?h" by (rule ok_inD [OF ok])
  have bs: "rd m a n \<noteq> []" "length (rd m a n) \<le> uxr_get_reliable_buffer_capacity (in_base st)"
    using len by (auto simp: rd_def)
  consider "\<not> (0 < d \<and> d \<le> ?h)" | "d = 1" whole
    | "0 < d" "d \<le> ?h" "d \<noteq> 1 \<or> \<not> whole" "in_window st m ! (d - 1) \<noteq> None"
    | "0 < d" "d \<le> ?h" "d \<noteq> 1 \<or> \<not> whole" "in_window st m ! (d - 1) = None"
    by blast
  then have ?G
  proof cases
    case 1
    then have "(ready, stored, st', m') = (False, s0, announce st s, m)"
      using rc(1) r by simp
    then show ?thesis
      using 1 ok h by (auto simp: win_receive_def)
  next
    case 2
    then have "(ready, stored, st', m') =
        (True, False, announce (st\<lparr>last_handled := last_handled st + 1\<rparr>) s, m)"
      using rc(2) r by (simp add: whole_def)
    then show ?thesis
      using 2 ok h by (simp add: win_receive_def in_window_advance)
  next
    case 3
    then have "(ready, stored, st', m') = (False, s0, announce st s, m)"
      using rc(3) r by (simp add: whole_def)
    then show ?thesis
      using 3 ok by (auto simp: win_receive_def)
  next
    case 4
    let ?m = "store_msg (in_base st) s (rd m a n) m"
    have e: "st' = announce st s \<and> m' = ?m"
      using rc(4) [OF 4(1,2) _ 4(4)] 4(3) r
      by (auto simp: whole_def map_option_case split: if_splits option.splits)
    have "s = last_handled st + of_nat (Suc (d - 1))"
      using seq_eq_Suc_dist 4(1) by (simp add: d_def)
    then have w: "in_window st ?m = (in_window st m)[d - 1 := Some (rd m a n)]"
      using in_window_store [OF ok _ bs, of "d - 1"] 4(1,2) by simp
    have "ok_in st ?m"
      by (rule ok_in_store [OF ok bs(2)])
    moreover have "changed_within m ?m (buffer (in_base st)) (buffer (in_base st) + stream_size (in_base st))"
      by (rule store_msg_in [OF ok_inD(1) [OF ok] bs(2)])
    moreover have "snd (win_receive d whole (rd m a n) (in_window st m)) =
        (in_window st m)[d - 1 := Some (rd m a n)]"
      using 4 by (auto simp: win_receive_def)
    moreover have "\<not> (d = 1 \<and> whole)"
      using 4(3) by blast
    ultimately show ?thesis
      using e w by simp
  qed
  then show "in_window st' m' = snd (win_receive d whole (rd m a n) (in_window st m))"
    and "last_handled st' = last_handled st + (if d = 1 \<and> whole then 1 else 0)"
    and "ok_in st' m'" and "in_base st' = in_base st"
    and "on_get_fragmentation_info st' = on_get_fragmentation_info st"
    and "changed_within m m' (buffer (in_base st)) (buffer (in_base st) + stream_size (in_base st))"
    by blast+
qed

text \<open>A whole message never waits for fragments, so receiving it returns.\<close>

lemma receive_whole:
  assumes ok: "ok_in st m" and "on_get_fragmentation_info st m a = NO_FRAGMENTED"
  obtains stored st' m' where
    "uxr_receive_reliable_message st s a n s0 m =
       Some (seq_dist (last_handled st) s = 1, stored, st', m')"
    and "seq_dist (last_handled st) s = 1 \<Longrightarrow> \<not> stored \<and> m' = m"
proof -
  note rc = receive_cases [OF ok, of s a n s0] assms(2)
  show thesis
  proof (cases "seq_dist (last_handled st) s = 1")
    case True
    then show ?thesis
      by (intro that [of False "announce (st\<lparr>last_handled := last_handled st + 1\<rparr>) s" m])
        (simp_all add: rc(2,5))
  next
    case False
    then show ?thesis
      using rc(1,3,4,5) that by (cases "0 < seq_dist (last_handled st) s \<and>
        seq_dist (last_handled st) s \<le> unat (history (in_base st))") (fastforce+)
  qed
qed

section \<open>Taking waiting messages refines the window\<close>

lemma next_none:
  assumes ok: "ok_in st m" and "in_window st m ! 0 = None"
  shows "uxr_next_input_reliable_buffer_available cdr self st ub k m = Some (False, st, ub, m)"
proof -
  have "slot_msg (in_base st) (last_handled st + 1) m = None"
    using assms(2) ok_inD(5) [OF ok] by (simp add: nth_in_window)
  then show ?thesis
    by (simp add: uxr_next_input_reliable_buffer_available_def Let_def slot_msg_None sn.add_ring)
qed

lemma next_whole:
  assumes ok: "ok_in st m" and cdr: "ucdr_ok cdr" and w: "in_window st m ! 0 = Some bs"
    and whole: "whole_msg (on_get_fragmentation_info st) bs"
  shows "uxr_next_input_reliable_buffer_available cdr self st ub k m =
      Some (True, st\<lparr>last_handled := last_handled st + 1\<rparr>,
        ucdr_init_buffer cdr (uxr_get_reliable_buffer (in_base st) (last_handled st + 1)) (length bs),
        uxr_set_reliable_buffer_size (in_base st) (last_handled st + 1) 0 m)"
    and "rd (uxr_set_reliable_buffer_size (in_base st) (last_handled st + 1) 0 m)
      (uxr_get_reliable_buffer (in_base st) (last_handled st + 1)) (length bs) = bs"
    and "in_window (st\<lparr>last_handled := last_handled st + 1\<rparr>)
      (uxr_set_reliable_buffer_size (in_base st) (last_handled st + 1) 0 m) =
      rotate1 ((in_window st m)[0 := None])"
    and "ok_in (st\<lparr>last_handled := last_handled st + 1\<rparr>)
      (uxr_set_reliable_buffer_size (in_base st) (last_handled st + 1) 0 m)"
proof -
  let ?b = "uxr_get_reliable_buffer (in_base st) (last_handled st + 1)"
  let ?n = "uxr_get_reliable_buffer_size (in_base st) (last_handled st + 1) m"
  let ?m = "uxr_set_reliable_buffer_size (in_base st) (last_handled st + 1) 0 m"
  have "slot_msg (in_base st) (last_handled st + 1) m = Some bs"
    using w ok_inD(5) [OF ok] by (simp add: nth_in_window)
  then have n0: "?n \<noteq> 0" and bs: "rd m ?b ?n = bs"
    by (simp_all add: slot_msg_def split: if_splits)
  then have len: "length bs = ?n" by (metis length_rd)
  have cap: "?n \<le> uxr_get_reliable_buffer_capacity (in_base st)"
    using slots_fitD [OF ok_inD(4) [OF ok]] by simp
  have nf: "on_get_fragmentation_info st m ?b = NO_FRAGMENTED"
    using whole bs len unfolding whole_msg_def by metis
  have c32: "cast_u32 ?n = ?n"
    using capacity_u32 [OF ok_inD(1) [OF ok] cap] by (simp add: cast_u32_eq)
  show "uxr_next_input_reliable_buffer_available cdr self st ub k m =
      Some (True, st\<lparr>last_handled := last_handled st + 1\<rparr>, ucdr_init_buffer cdr ?b (length bs), ?m)"
    using n0 nf c32 len by (simp add: uxr_next_input_reliable_buffer_available_def Let_def sn.add_ring)
  show "rd ?m ?b (length bs) = bs"
    using bs len cap ok_inD(1) [OF ok]
    by (simp add: rs.rd_set [where s = "last_handled st + 1"])
  have ok': "ok_in st ?m" by (rule ok_in_clear [OF ok])
  show "in_window (st\<lparr>last_handled := last_handled st + 1\<rparr>) ?m = rotate1 ((in_window st m)[0 := None])"
    using in_window_clear [OF ok, of 0] ok_inD(5) [OF ok] by (simp add: in_window_advance [OF ok'])
  show "ok_in (st\<lparr>last_handled := last_handled st + 1\<rparr>) ?m"
    using ok' by simp
qed

section \<open>Delivery of a stream of messages\<close>

text \<open>
  How a session uses the stream for whole messages: a message that arrives is copied to the
  receive buffer at \<open>rb\<close> and offered; when that makes something readable, the message itself
  and then the waiting ones are read until none is left.
\<close>

partial_function (option) in_drain ::
  "ucdr \<Rightarrow> nat \<Rightarrow> uxrInputReliableStream \<Rightarrow> mem \<Rightarrow> u8 list list
    \<Rightarrow> (u8 list list \<times> uxrInputReliableStream \<times> mem) option"
where
  "in_drain cdr self st m out =
     (case uxr_next_input_reliable_buffer_available cdr self st
             (ucdr_init_buffer cdr 0 0) SUBHEADER_SIZE m of
        None \<Rightarrow> None
      | Some (available, st', ub, m') \<Rightarrow>
          if available
          then in_drain cdr self st' m' (out @ [rd m' (init ub) (final ub - init ub)])
          else Some (out, st', m'))"

definition in_arrival ::
  "ucdr \<Rightarrow> nat \<Rightarrow> addr \<Rightarrow> u16 \<Rightarrow> u8 list \<Rightarrow> uxrInputReliableStream \<Rightarrow> mem
    \<Rightarrow> (u8 list list \<times> uxrInputReliableStream \<times> mem) option"
where
  "in_arrival cdr self rb seq_num bs st m =
     (case uxr_receive_reliable_message st seq_num rb (length bs) False (wr m rb bs) of
        None \<Rightarrow> None
      | Some (ready, stored, st', m') \<Rightarrow>
          if ready
          then in_drain cdr self st' m' (if stored then [] else [rd m' rb (length bs)])
          else Some ([], st', m'))"

text \<open>Message number \<open>k\<close> of the agent has the sequence number \<open>k\<close> modulo \<open>2 ^ 16\<close>.\<close>

definition in_inv :: "(nat \<Rightarrow> u8 list) \<Rightarrow> nat \<Rightarrow> uxrInputReliableStream \<Rightarrow> mem \<Rightarrow> bool" where
  "in_inv msg n st m \<longleftrightarrow> ok_in st m \<and> last_handled st = of_nat n - 1 \<and>
     (\<forall>i < unat (history (in_base st)).
        in_window st m ! i = None \<or> in_window st m ! i = Some (msg (n + i)))"

lemma in_inv_next:
  assumes inv: "in_inv msg n st m" and cdr: "ucdr_ok cdr"
    and w: "in_window st m ! 0 = Some bs" and whole: "whole_msg (on_get_fragmentation_info st) bs"
  shows "in_inv msg (Suc n) (st\<lparr>last_handled := last_handled st + 1\<rparr>)
      (uxr_set_reliable_buffer_size (in_base st) (last_handled st + 1) 0 m)"
    and "bs = msg n"
proof -
  let ?h = "unat (history (in_base st))"
  have ok: "ok_in st m" and lh: "last_handled st = of_nat n - 1"
    and cells: "\<And>i. i < ?h \<Longrightarrow> in_window st m ! i = None \<or> in_window st m ! i = Some (msg (n + i))"
    using inv by (auto simp: in_inv_def)
  have h: "0 < ?h" by (rule ok_inD [OF ok])
  show "bs = msg n" using cells [OF h] w by simp
  note nx = next_whole [OF ok cdr w whole]
  have "rotate1 ((in_window st m)[0 := None]) ! i = None \<or>
      rotate1 ((in_window st m)[0 := None]) ! i = Some (msg (Suc n + i))" if i: "i < ?h" for i
  proof (cases "Suc i = ?h")
    case True
    then show ?thesis using h by (simp add: nth_rotate1)
  next
    case False
    then have "Suc i < ?h" using i by simp
    then show ?thesis using cells [of "Suc i"] by (simp add: nth_rotate1)
  qed
  then show "in_inv msg (Suc n) (st\<lparr>last_handled := last_handled st + 1\<rparr>)
      (uxr_set_reliable_buffer_size (in_base st) (last_handled st + 1) 0 m)"
    using nx(3,4) lh by (simp add: in_inv_def)
qed

definition waiting :: "window \<Rightarrow> nat" where
  "waiting w = length (filter (\<lambda>c. c \<noteq> None) w)"

lemma waiting_next:
  "w \<noteq> [] \<Longrightarrow> w ! 0 = Some bs \<Longrightarrow> waiting (rotate1 (w[0 := None])) < waiting w"
  by (cases w) (simp_all add: waiting_def)

lemma in_drain_spec:
  assumes "in_inv msg n st m" and cdr: "ucdr_ok cdr"
    and whole: "\<And>k. whole_msg (on_get_fragmentation_info st) (msg k)"
  shows "\<exists>n' st' m'. n \<le> n' \<and> in_drain cdr self st m out = Some (out @ map msg [n..<n'], st', m') \<and>
    in_inv msg n' st' m' \<and> in_window st' m' ! 0 = None \<and> in_base st' = in_base st \<and>
    on_get_fragmentation_info st' = on_get_fragmentation_info st"
  using assms(1,3)
proof (induction "waiting (in_window st m)" arbitrary: n st m out rule: less_induct)
  case less
  have ok: "ok_in st m" and h: "0 < unat (history (in_base st))"
    using less.prems(1) ok_inD(5) by (auto simp: in_inv_def)
  show ?case
  proof (cases "in_window st m ! 0")
    case None
    have "in_drain cdr self st m out = Some (out, st, m)"
      by (subst in_drain.simps) (simp add: next_none [OF ok None])
    then show ?thesis
      using less.prems(1) None by (intro exI [of _ n] exI [of _ st] exI [of _ m]) simp
  next
    case (Some bs)
    let ?st = "st\<lparr>last_handled := last_handled st + 1\<rparr>"
    let ?m = "uxr_set_reliable_buffer_size (in_base st) (last_handled st + 1) 0 m"
    have "bs = msg n"
      using less.prems(1) Some h by (auto simp: in_inv_def)
    then have whole: "whole_msg (on_get_fragmentation_info st) bs"
      using less.prems(2) by simp
    note nx = next_whole [OF ok cdr Some whole]
    have d: "in_drain cdr self st m out = in_drain cdr self ?st ?m (out @ [msg n])"
      by (subst in_drain.simps)
        (simp add: nx(1,2) init_buffer [OF cdr] init_buffer_origin_offset [OF cdr] \<open>bs = msg n\<close> [symmetric])
    have "waiting (in_window ?st ?m) < waiting (in_window st m)"
      unfolding nx(3) using h Some by (intro waiting_next) (auto simp flip: length_greater_0_conv)
    from less.hyps [OF this in_inv_next(1) [OF less.prems(1) cdr Some whole], of "out @ [msg n]"]
    obtain n' st' m' where IH: "Suc n \<le> n'"
      "in_drain cdr self ?st ?m (out @ [msg n]) = Some ((out @ [msg n]) @ map msg [Suc n..<n'], st', m')"
      "in_inv msg n' st' m'" "in_window st' m' ! 0 = None" "in_base st' = in_base ?st"
      "on_get_fragmentation_info st' = on_get_fragmentation_info ?st"
      using less.prems(2) by auto
    have "[n..<n'] = n # [Suc n..<n']"
      using IH(1) by (simp add: upt_conv_Cons)
    then show ?thesis
      using IH d by (intro exI [of _ n'] exI [of _ st'] exI [of _ m']) simp
  qed
qed

lemma seq_dist_index:
  assumes "k < n + 32768" and "n < k + 32768"
  shows "seq_dist (of_nat n - 1) (of_nat k) =
    (if n \<le> k then k - n + 1 else if n = Suc k then 0 else 65537 + k - n)"
proof (cases "n \<le> k")
  case True
  then have "(of_nat k :: u16) = (of_nat n - 1) + of_nat (k - n + 1)"
    by (simp add: of_nat_diff)
  then have "seq_dist (of_nat n - 1) (of_nat k) = k - n + 1"
    using seq_dist_of_nat [of "k - n + 1" "of_nat n - 1"] True assms(1) by simp
  with True show ?thesis by simp
next
  case False
  then have "(of_nat n - 1 :: u16) = of_nat k + of_nat (n - 1 - k)"
    by (simp add: of_nat_diff)
  then have d: "seq_dist (of_nat k) (of_nat n - 1) = n - 1 - k"
    using seq_dist_of_nat [of "n - 1 - k" "of_nat k"] assms(2) by simp
  show ?thesis
  proof (cases "n = Suc k")
    case False
    then have "(of_nat k :: u16) \<noteq> of_nat n - 1"
      using d \<open>\<not> n \<le> k\<close> by (metis Suc_pred' diff_is_0_eq less_le_not_le nat_le_linear
          not_less_eq_eq order_antisym seq_dist_0_iff zero_less_diff diff_diff_left plus_1_eq_Suc)
    then show ?thesis
      using seq_dist_rev [of "of_nat k" "of_nat n - 1"] d False \<open>\<not> n \<le> k\<close> by simp
  qed (use False in simp)
qed

definition apart :: "uxrInputReliableStream \<Rightarrow> addr \<Rightarrow> nat \<Rightarrow> bool" where
  "apart st rb n \<longleftrightarrow> rb + n \<le> buffer (in_base st) \<or>
     buffer (in_base st) + stream_size (in_base st) \<le> rb"

lemma in_arrival_spec:
  assumes inv: "in_inv msg n st m" and rest: "in_window st m ! 0 = None" and cdr: "ucdr_ok cdr"
    and whole: "\<And>k. whole_msg (on_get_fragmentation_info st) (msg k)"
    and len: "msg k \<noteq> []" "length (msg k) \<le> uxr_get_reliable_buffer_capacity (in_base st)"
    and timely: "k < n + 32768" "n < k + 32768"
    and apart: "apart st rb (length (msg k))"
  shows "\<exists>n' st' m'. n \<le> n' \<and> (k = n \<longrightarrow> n < n') \<and>
    in_arrival cdr self rb (of_nat k) (msg k) st m = Some (map msg [n..<n'], st', m') \<and>
    in_inv msg n' st' m' \<and> in_window st' m' ! 0 = None \<and> in_base st' = in_base st \<and>
    on_get_fragmentation_info st' = on_get_fragmentation_info st"
proof -
  let ?h = "unat (history (in_base st))" and ?d = "seq_dist (last_handled st) (of_nat k)"
  let ?m = "wr m rb (msg k)" and ?len = "length (msg k)"
  have ok0: "ok_in st m" and lh: "last_handled st = of_nat n - 1"
    using inv by (auto simp: in_inv_def)
  have "same_on m ?m (buffer (in_base st)) (buffer (in_base st) + stream_size (in_base st))"
    using apart by (auto simp: same_on_def apart_def wr_def)
  from in_window_outside [OF ok0 this] have w: "in_window st ?m = in_window st m" and ok: "ok_in st ?m" .
  have inv1: "in_inv msg n st ?m"
    using inv w ok by (simp add: in_inv_def)
  have bs: "rd ?m rb ?len = msg k"
    by (simp add: rd_wr_same)
  have nf: "on_get_fragmentation_info st ?m rb = NO_FRAGMENTED"
    using whole [of k] bs by (simp add: whole_msg_def)
  have h: "0 < ?h" "?h < 32768" by (rule ok_inD [OF ok])+
  have d: "?d = (if n \<le> k then k - n + 1 else if n = Suc k then 0 else 65537 + k - n)"
    unfolding lh by (rule seq_dist_index [OF timely])
  have d1: "?d = 1 \<longleftrightarrow> k = n"
    using d timely by (auto split: if_splits)
  obtain stored st' m' where r: "uxr_receive_reliable_message st (of_nat k) rb ?len False ?m =
      Some (?d = 1, stored, st', m')" and st: "?d = 1 \<Longrightarrow> \<not> stored \<and> m' = ?m"
    using receive_whole [OF ok nf] by blast
  have "0 < ?len" using len(1) by simp
  note rw = receive_window [OF ok this len(2) r]
  have w': "in_window st' m' = snd (win_receive ?d True (msg k) (in_window st m))"
    using rw(1) nf bs w by simp
  have lh': "last_handled st' = last_handled st + (if k = n then 1 else 0)"
    using rw(2) nf d1 by simp
  have cells: "\<And>i. i < ?h \<Longrightarrow> in_window st m ! i = None \<or> in_window st m ! i = Some (msg (n + i))"
    using inv by (auto simp: in_inv_def)
  show ?thesis
  proof (cases "k = n")
    case True
    have w2: "in_window st' m' = rotate1 (in_window st m)"
      using w' d1 True h by (simp add: win_receive_def)
    have "rotate1 (in_window st m) ! i = None \<or> rotate1 (in_window st m) ! i = Some (msg (Suc n + i))"
      if "i < ?h" for i
      using that cells [of "Suc i"] rest by (cases "Suc i = ?h") (auto simp: nth_rotate1)
    then have "in_inv msg (Suc n) st' m'"
      using rw(3,4) lh' lh True w2 by (simp add: in_inv_def)
    from in_drain_spec [OF this cdr, of self "[msg n]"]
    obtain n' st2 m2 where D: "Suc n \<le> n'"
      "in_drain cdr self st' m' [msg n] = Some ([msg n] @ map msg [Suc n..<n'], st2, m2)"
      "in_inv msg n' st2 m2" "in_window st2 m2 ! 0 = None" "in_base st2 = in_base st'"
      "on_get_fragmentation_info st2 = on_get_fragmentation_info st'"
      using whole rw(5) by auto
    have a: "in_arrival cdr self rb (of_nat k) (msg k) st m = Some (map msg [n..<n'], st2, m2)"
      using r st d1 D(1,2) bs True by (simp add: in_arrival_def upt_conv_Cons)
    show ?thesis
      using D a rw(4,5) by (intro exI [of _ n'] exI [of _ st2] exI [of _ m2]) simp
  next
    case False
    then have a: "in_arrival cdr self rb (of_nat k) (msg k) st m = Some ([], st', m')"
      using r d1 by (simp add: in_arrival_def)
    have "in_window st' m' ! i = in_window st m ! i \<or>
        (i = k - n \<and> n < k \<and> in_window st' m' ! i = Some (msg k))" if "i < ?h" for i
    proof (cases "0 < ?d \<and> ?d \<le> ?h")
      case True
      then have "n < k" and "?d - 1 = k - n"
        using d h(2) timely False by (auto split: if_splits)
      then show ?thesis
        unfolding w' using True d1 False that by (auto simp: win_receive_def nth_list_update split: if_splits)
    qed (auto simp: w' win_receive_def)
    note cell = this
    have "in_inv msg n st' m'"
      unfolding in_inv_def using rw(3,4) lh lh' False cell cells by fastforce
    moreover have "in_window st' m' ! 0 = None"
      using cell [of 0] h(1) rest by auto
    ultimately show ?thesis
      using a rw(4,5) False by (intro exI [of _ n] exI [of _ st'] exI [of _ m']) simp
  qed
qed

section \<open>Executions\<close>

text \<open>
  What can happen to a stream: message \<open>k\<close> arrives, late or early by less than half a circle;
  a heartbeat is processed; memory outside the stream's buffer changes. The list is what has
  been read so far.
\<close>

inductive in_exec ::
  "ucdr \<Rightarrow> nat \<Rightarrow> (nat \<Rightarrow> u8 list) \<Rightarrow> uxrInputReliableStream \<times> mem \<times> u8 list list
    \<Rightarrow> uxrInputReliableStream \<times> mem \<times> u8 list list \<Rightarrow> bool"
  for cdr self msg
where
  arrival: "k < length out + 32768 \<Longrightarrow> length out < k + 32768 \<Longrightarrow> apart st rb (length (msg k)) \<Longrightarrow>
    in_arrival cdr self rb (of_nat k) (msg k) st m = Some (outs, st', m') \<Longrightarrow>
    in_exec cdr self msg (st, m, out) (st', m', out @ outs)"
| heartbeat: "in_exec cdr self msg (st, m, out) (uxr_process_heartbeat st a b, m, out)"
| elsewhere: "same_on m m' (buffer (in_base st)) (buffer (in_base st) + stream_size (in_base st)) \<Longrightarrow>
    in_exec cdr self msg (st, m, out) (st, m', out)"

inductive_cases in_exec_cases: "in_exec cdr self msg (st, m, out) s'"

text \<open>Messages that fit a slot and are whole for the stream's callback.\<close>

definition msgs_ok :: "uxrInputReliableStream \<Rightarrow> (nat \<Rightarrow> u8 list) \<Rightarrow> bool" where
  "msgs_ok st msg \<longleftrightarrow> (\<forall>k. msg k \<noteq> [] \<and>
     length (msg k) \<le> uxr_get_reliable_buffer_capacity (in_base st) \<and>
     whole_msg (on_get_fragmentation_info st) (msg k))"

definition in_good ::
  "(nat \<Rightarrow> u8 list) \<Rightarrow> uxrInputReliableStream \<times> mem \<times> u8 list list \<Rightarrow> bool"
where
  "in_good msg s = (case s of (st, m, out) \<Rightarrow>
     in_inv msg (length out) st m \<and> in_window st m ! 0 = None \<and> msgs_ok st msg \<and>
     out = map msg [0..<length out])"

lemma process_heartbeat_simps [simp]:
  "in_base (uxr_process_heartbeat st f l) = in_base st"
  "last_handled (uxr_process_heartbeat st f l) = last_handled st"
  "on_get_fragmentation_info (uxr_process_heartbeat st f l) = on_get_fragmentation_info st"
  "in_window (uxr_process_heartbeat st f l) m = in_window st m"
  "ok_in (uxr_process_heartbeat st f l) m = ok_in st m"
  by (simp_all add: uxr_process_heartbeat_def)

lemma in_good_arrival:
  assumes "in_good msg (st, m, out)" and cdr: "ucdr_ok cdr"
    and "k < length out + 32768" "length out < k + 32768" "apart st rb (length (msg k))"
  shows "\<exists>outs st' m'. in_arrival cdr self rb (of_nat k) (msg k) st m = Some (outs, st', m') \<and>
    in_good msg (st', m', out @ outs) \<and> (k = length out \<longrightarrow> outs \<noteq> [])"
proof -
  have g: "in_inv msg (length out) st m" "in_window st m ! 0 = None" "msgs_ok st msg"
    "out = map msg [0..<length out]"
    using assms(1) by (auto simp: in_good_def)
  from in_arrival_spec [OF g(1,2) cdr _ _ _ assms(3-5), of self] g(3)
  obtain n' st' m' where A: "length out \<le> n'" "k = length out \<longrightarrow> length out < n'"
    "in_arrival cdr self rb (of_nat k) (msg k) st m = Some (map msg [length out..<n'], st', m')"
    "in_inv msg n' st' m'" "in_window st' m' ! 0 = None" "in_base st' = in_base st"
    "on_get_fragmentation_info st' = on_get_fragmentation_info st"
    by (auto simp: msgs_ok_def)
  have "out @ map msg [length out..<n'] = map msg [0..<n']"
    using g(4) upt_add_eq_append [of 0 "length out" "n' - length out"] A(1)
    by (metis add_0 le0 le_add_diff_inverse map_append)
  then have "in_good msg (st', m', out @ map msg [length out..<n'])"
    using A g(3) by (simp add: in_good_def msgs_ok_def)
  then show ?thesis
    using A(2,3) by (intro exI [of _ "map msg [length out..<n']"] exI [of _ st'] exI [of _ m']) auto
qed

lemma in_good_step:
  assumes "in_exec cdr self msg s s'" and "in_good msg s" and cdr: "ucdr_ok cdr"
  shows "in_good msg s'"
  using assms(1,2)
proof (induction rule: in_exec.induct)
  case (arrival k out st rb m outs st' m')
  then show ?case
    using in_good_arrival [OF arrival.prems cdr arrival.hyps(1-3), of self] by auto
next
  case (heartbeat st m out a b)
  then show ?case by (simp add: in_good_def in_inv_def msgs_ok_def)
next
  case (elsewhere m m' st out)
  then have "ok_in st m" by (simp add: in_good_def in_inv_def)
  from in_window_outside [OF this elsewhere.hyps] elsewhere.prems show ?case
    by (simp add: in_good_def in_inv_def)
qed

lemma in_good_reach:
  "(in_exec cdr self msg)\<^sup>*\<^sup>* s s' \<Longrightarrow> in_good msg s \<Longrightarrow> ucdr_ok cdr \<Longrightarrow> in_good msg s'"
  by (induction rule: rtranclp_induct) (auto intro: in_good_step)

text \<open>The stream after initialization.\<close>

lemma reset_set_all:
  "uxr_reset_input_reliable_stream st m =
    (st\<lparr>last_handled := SEQ_NUM_MAX, last_announced := SEQ_NUM_MAX\<rparr>,
     rs.set_all (in_base st) 0 (unat (history (in_base st))) m)"
  by (simp add: uxr_reset_input_reliable_stream_def rs.set_all_def)

lemma reset_input:
  assumes ok: "ok_stream (in_base st)" and "unat (history (in_base st)) dvd 65536"
    and "unat (history (in_base st)) < 32768"
    and r: "uxr_reset_input_reliable_stream st m = (st', m')"
  shows "ok_in st' m'" and "in_window st' m' = replicate (unat (history (in_base st))) None"
    and "in_base st' = in_base st" and "last_handled st' = SEQ_NUM_MAX"
    and "on_get_fragmentation_info st' = on_get_fragmentation_info st"
proof -
  have s: "st' = st\<lparr>last_handled := SEQ_NUM_MAX, last_announced := SEQ_NUM_MAX\<rparr>"
    and m: "m' = rs.set_all (in_base st) 0 (unat (history (in_base st))) m"
    using r by (simp_all add: reset_set_all)
  have z: "uxr_get_reliable_buffer_size (in_base st) x m' = 0" for x
    using rs.set_all_size [OF ok, of 0 "unat (history (in_base st))" x m] rs.hist_pos [OF ok] by (simp add: m)
  show "ok_in st' m'"
    using assms(1-3) by (simp add: s ok_in_def slots_fit_def z)
  show "in_window st' m' = replicate (unat (history (in_base st))) None"
    by (rule nth_equalityI) (simp_all add: s nth_in_window slot_msg_def z)
qed (use r in \<open>auto simp: reset_set_all\<close>)

lemma in_good_reset:
  assumes "ok_stream (in_base st)" and "unat (history (in_base st)) dvd 65536"
    and "unat (history (in_base st)) < 32768" and "msgs_ok st msg"
    and "uxr_reset_input_reliable_stream st m = (st', m')"
  shows "in_good msg (st', m', [])"
  using reset_input [OF assms(1-3,5)] assms(4) rs.hist_pos [OF assms(1)]
  by (simp add: in_good_def in_inv_def msgs_ok_def SEQ_NUM_MAX_def)

section \<open>The search for the last fragment\<close>

definition holds_intermediate :: "uxrInputReliableStream \<Rightarrow> mem \<Rightarrow> uxrSeqNum \<Rightarrow> bool" where
  "holds_intermediate st m s \<longleftrightarrow> uxr_get_reliable_buffer_size (in_base st) s m \<noteq> 0 \<and>
     on_get_fragmentation_info st m (uxr_get_reliable_buffer (in_base st) s) = INTERMEDIATE_FRAGMENT"

definition holds_last :: "uxrInputReliableStream \<Rightarrow> mem \<Rightarrow> uxrSeqNum \<Rightarrow> bool" where
  "holds_last st m s \<longleftrightarrow> uxr_get_reliable_buffer_size (in_base st) s m \<noteq> 0 \<and>
     on_get_fragmentation_info st m (uxr_get_reliable_buffer (in_base st) s) = LAST_FRAGMENT"

lemma check_loop_unfold:
  "check_last_fragment_loop st m x =
    (if holds_intermediate st m (x + 1) then check_last_fragment_loop st m (x + 1)
     else Some (holds_last st m (x + 1), x + 1))"
  by (subst check_last_fragment_loop.simps)
    (auto simp: Let_def sn.add_ring holds_intermediate_def holds_last_def split: FragmentationInfo.split)

lemma check_loop_found:
  assumes "\<And>j. j < i \<Longrightarrow> holds_intermediate st m (x + of_nat (Suc j))"
    and "\<not> holds_intermediate st m (x + of_nat (Suc i))"
  shows "check_last_fragment_loop st m x =
    Some (holds_last st m (x + of_nat (Suc i)), x + of_nat (Suc i))"
  using assms
proof (induction i arbitrary: x)
  case 0
  then show ?case by (subst check_loop_unfold) simp
next
  case (Suc i)
  have "holds_intermediate st m (x + 1)"
    using Suc.prems(1) [of 0] by simp
  moreover have "check_last_fragment_loop st m (x + 1) =
      Some (holds_last st m (x + 1 + of_nat (Suc i)), x + 1 + of_nat (Suc i))"
    using Suc.prems(1) [of "Suc _"] Suc.prems(2) by (intro Suc.IH) (simp_all add: add.assoc)
  ultimately show ?case
    by (subst check_loop_unfold) (simp add: add.assoc)
qed

lemma check_loop_never:
  assumes "check_last_fragment_loop st m x = Some r"
  shows "\<exists>j. \<not> holds_intermediate st m (x + of_nat (Suc j))"
proof (rule check_last_fragment_loop.raw_induct
    [where P = "\<lambda>st m x r. \<exists>j. \<not> holds_intermediate st m (x + of_nat (Suc j))", OF _ assms])
  fix loop st m x r
  assume IH: "\<And>st m x r. loop st m x = Some r \<Longrightarrow> \<exists>j. \<not> holds_intermediate st m (x + of_nat (Suc j))"
    and body: "(let next' = uxr_seq_num_add x 1;
          next_buffer = uxr_get_reliable_buffer (in_base st) next'
      in if uxr_get_reliable_buffer_size (in_base st) next' m \<noteq> 0
         then (case on_get_fragmentation_info st m next_buffer of
                 NO_FRAGMENTED \<Rightarrow> Some (False, next')
               | INTERMEDIATE_FRAGMENT \<Rightarrow> loop st m next'
               | LAST_FRAGMENT \<Rightarrow> Some (True, next'))
         else Some (False, next')) = Some r"
  show "\<exists>j. \<not> holds_intermediate st m (x + of_nat (Suc j))"
  proof (cases "holds_intermediate st m (x + 1)")
    case True
    then have "loop st m (x + 1) = Some r"
      using body by (simp add: Let_def sn.add_ring holds_intermediate_def)
    then obtain j where "\<not> holds_intermediate st m (x + 1 + of_nat (Suc j))"
      using IH by blast
    then show ?thesis
      by (intro exI [of _ "Suc j"]) (simp add: add.assoc)
  next
    case False
    then show ?thesis by (intro exI [of _ 0]) simp
  qed
qed

lemma holds_cong:
  "slot_of (in_base st) s = slot_of (in_base st) s' \<Longrightarrow>
    holds_intermediate st m s = holds_intermediate st m s'"
  by (simp add: holds_intermediate_def get_size_eq buffer_eq)

lemma check_last_fragment_eq:
  assumes ok: "ok_in st m"
  shows "check_last_fragment st m =
    map_option (\<lambda>i. (holds_last st m (last_handled st + of_nat (Suc i)), last_handled st + of_nat (Suc i)))
      (find (\<lambda>i. \<not> holds_intermediate st m (last_handled st + of_nat (Suc i)))
        [0..<unat (history (in_base st))])"
proof -
  let ?h = "unat (history (in_base st))" and ?l = "last_handled st"
  let ?P = "\<lambda>i. \<not> holds_intermediate st m (?l + of_nat (Suc i))"
  show ?thesis
  proof (cases "find ?P [0..<?h]")
    case None
    then have all: "holds_intermediate st m (?l + of_nat (Suc i))" if "i < ?h" for i
      using that by (auto simp: find_None_iff)
    have "holds_intermediate st m (?l + of_nat (Suc j))" for j
    proof -
      have "slot_of (in_base st) (?l + 1 + of_nat j) = slot_of (in_base st) (?l + 1 + of_nat (j mod ?h))"
        using ok_inD [OF ok] by (simp only: slot_of_shift) simp
      from holds_cong [OF this, of m] show ?thesis
        using all [of "j mod ?h"] ok_inD(5) [OF ok] by (simp add: add.assoc)
    qed
    then have "check_last_fragment_loop st m ?l = None"
      using check_loop_never [of st m ?l] by (cases "check_last_fragment_loop st m ?l") auto
    then show ?thesis
      unfolding check_last_fragment_def None by simp
  next
    case (Some i)
    then have "i < ?h" "?P i" "\<And>j. j < i \<Longrightarrow> \<not> ?P j"
      by (auto simp: find_Some_iff)
    then show ?thesis
      using Some check_loop_found [of i st m ?l] by (simp add: check_last_fragment_def)
  qed
qed

text \<open>
  The first cell of the window that holds no intermediate fragment; whether the fragments that wait from the
  front on are all there is whether this cell exists and holds a last fragment.
\<close>

definition fragment_end :: "uxrInputReliableStream \<Rightarrow> mem \<Rightarrow> nat option" where
  "fragment_end st m = find (\<lambda>i. \<not> holds_intermediate st m (last_handled st + of_nat (Suc i)))
     [0..<unat (history (in_base st))]"

definition fragments_complete :: "uxrInputReliableStream \<Rightarrow> mem \<Rightarrow> bool" where
  "fragments_complete st m \<longleftrightarrow>
     (case fragment_end st m of None \<Rightarrow> False | Some i \<Rightarrow> holds_last st m (last_handled st + of_nat (Suc i)))"

text \<open>A message that is not delivered at once is kept if it is of the window and its cell is free.\<close>

definition win_keeps :: "nat \<Rightarrow> bool \<Rightarrow> window \<Rightarrow> bool" where
  "win_keeps d whole w \<longleftrightarrow> 0 < d \<and> d \<le> length w \<and> \<not> (whole \<and> d = 1) \<and> w ! (d - 1) = None"

text \<open>All that receiving returns, when it returns.\<close>

lemma receive_outputs:
  fixes s :: uxrSeqNum
  assumes ok: "ok_in st m" and whole: "whole = (on_get_fragmentation_info st m a = NO_FRAGMENTED)"
    and fits: "length (rd m a n) \<le> uxr_get_reliable_buffer_capacity (in_base st)"
  defines "d \<equiv> seq_dist (last_handled st) s"
    and "kept \<equiv> win_keeps (seq_dist (last_handled st) s) whole (in_window st m)"
    and "stored_mem \<equiv> store_msg (in_base st) s (rd m a n) m"
  shows "uxr_receive_reliable_message st s a n s0 m =
    (if kept \<and> \<not> whole \<and> fragment_end st stored_mem = None then None
     else Some (if kept then \<not> whole \<and> fragments_complete st stored_mem else d = 1 \<and> whole,
       if kept then True else if d = 1 \<and> whole then False else s0,
       announce (st\<lparr>last_handled := if d = 1 \<and> whole then s else last_handled st\<rparr>) s,
       if kept then stored_mem else m))"
proof -
  note rc = receive_cases [OF ok, of s a n s0, folded d_def stored_mem_def]
  have h: "0 < unat (history (in_base st))"
    by (rule ok_inD [OF ok])
  have ok': "ok_in st stored_mem"
    unfolding stored_mem_def by (rule ok_in_store [OF ok fits])
  have s: "s = last_handled st + 1" if "d = 1"
    using seq_at_dist [of "last_handled st" s] that by (simp add: d_def)
  have chk: "map_option (\<lambda>(found, _). (found, True, announce st s, stored_mem)) (check_last_fragment st stored_mem) =
      (if fragment_end st stored_mem = None then None
       else Some (fragments_complete st stored_mem, True, announce st s, stored_mem))"
    unfolding check_last_fragment_eq [OF ok'] fragment_end_def [symmetric]
    by (simp add: fragments_complete_def split: option.split)
  consider "\<not> (0 < d \<and> d \<le> unat (history (in_base st)))" | "d = 1" whole
    | "0 < d" "d \<le> unat (history (in_base st))" "d \<noteq> 1 \<or> \<not> whole" "in_window st m ! (d - 1) \<noteq> None"
    | "0 < d" "d \<le> unat (history (in_base st))" "d \<noteq> 1 \<or> \<not> whole" "in_window st m ! (d - 1) = None"
    by blast
  then show ?thesis
  proof cases
    case 1
    then show ?thesis
      using rc(1) h by (auto simp: kept_def win_keeps_def d_def [symmetric])
  next
    case 2
    then have "\<not> kept"
      by (auto simp: kept_def win_keeps_def d_def [symmetric])
    then show ?thesis
      using rc(2) s 2 by (simp add: whole)
  next
    case 3
    then have "\<not> kept" "\<not> (d = 1 \<and> whole)"
      by (auto simp: kept_def win_keeps_def d_def [symmetric])
    then show ?thesis
      using rc(3) 3 whole by auto
  next
    case 4
    then have "kept" "\<not> (d = 1 \<and> whole)"
      by (auto simp: kept_def win_keeps_def d_def [symmetric])
    then show ?thesis
      using rc(4) [OF 4(1,2) _ 4(4)] 4(3) whole chk by auto
  qed
qed

section \<open>The acknowledgement\<close>

definition missing :: "uxrInputReliableStream \<Rightarrow> mem \<Rightarrow> uxrSeqNum \<Rightarrow> bool" where
  "missing st m s \<longleftrightarrow> uxr_get_reliable_buffer_size (in_base st) s m = 0"

lemma first_unacked_eq:
  "uxr_get_first_unacked st m =
    (case find (\<lambda>i. missing st m (last_handled st + of_nat (Suc i)))
       [0..<unat (history (in_base st))] of
       Some i \<Rightarrow> last_handled st + of_nat (Suc i) | None \<Rightarrow> last_handled st)"
  by (auto simp: uxr_get_first_unacked_def sn.add_ring missing_def eq_commute [of "0 :: nat"]
      split: option.split)

lemma acknack_step_eq:
  "acknack_step st m f i (Some b) =
    (if missing st m (f + of_nat i) then if i < 31 then Some (b OR push_bit i 1) else None else Some b)"
  "acknack_step st m f i None = None"
  by (simp_all add: acknack_step_def sn.add_ring missing_def)

lemma acknack_fold:
  assumes "\<And>i. 31 \<le> i \<Longrightarrow> i < n \<Longrightarrow> \<not> missing st m (f + of_nat i)"
  shows "\<exists>b'. fold (acknack_step st m f) [0..<n] (Some b) = Some b' \<and>
    (\<forall>j < 16. bit b' j \<longleftrightarrow> bit b j \<or> (j < n \<and> missing st m (f + of_nat j)))"
  using assms
proof (induction n)
  case 0
  then show ?case by simp
next
  case (Suc n)
  then obtain b' where b': "fold (acknack_step st m f) [0..<n] (Some b) = Some b'"
    and bits: "\<forall>j < 16. bit b' j \<longleftrightarrow> bit b j \<or> (j < n \<and> missing st m (f + of_nat j))"
    by auto
  have n: "bit (2 ^ n :: u16) j \<longleftrightarrow> j = n" if "j < 16" for j
    using that by (auto simp: bit_exp_iff possible_bit_word)
  show ?case
  proof (cases "missing st m (f + of_nat n)")
    case True
    then have "n < 31"
      using Suc.prems [of n] by (cases "31 \<le> n") auto
    then show ?thesis
      using b' bits True n
      by (intro exI [of _ "b' OR 2 ^ n"]) (auto simp: acknack_step_eq bit_or_iff less_Suc_eq)
  next
    case False
    then show ?thesis
      using b' bits by (intro exI [of _ b']) (auto simp: acknack_step_eq less_Suc_eq)
  qed
qed

lemma acknack_fold_undefined:
  assumes "31 \<le> i" and "i < n" and "missing st m (f + of_nat i)"
  shows "fold (acknack_step st m f) [0..<n] b = None"
  using assms(2)
proof (induction n)
  case 0
  then show ?case by simp
next
  case (Suc n)
  show ?case
  proof (cases "i = n")
    case True
    then show ?thesis
      using assms(1,3) by (cases "fold (acknack_step st m f) [0..<n] b") (simp_all add: acknack_step_eq)
  next
    case False
    then show ?thesis using Suc by (simp add: acknack_step_eq)
  qed
qed

text \<open>The number of messages from the first missing one to the last announced one.\<close>

definition to_ack :: "uxrInputReliableStream \<Rightarrow> mem \<Rightarrow> nat" where
  "to_ack st m = seq_dist (uxr_get_first_unacked st m) (last_announced st + 1)"

lemma compute_acknack_eq:
  "uxr_compute_acknack st m =
    (fold (acknack_step st m (uxr_get_first_unacked st m)) [0..<to_ack st m] (Some 0),
     uxr_get_first_unacked st m)"
  by (simp add: uxr_compute_acknack_def Let_def sn.sub_ring to_ack_def seq_dist_def algebra_simps)

lemma missing_window:
  "i < unat (history (in_base st)) \<Longrightarrow>
    missing st m (last_handled st + of_nat (Suc i)) \<longleftrightarrow> in_window st m ! i = None"
  by (simp add: missing_def nth_in_window slot_msg_None)

lemma find_map_index: "find P [0..<length xs] = None \<Longrightarrow> i < length xs \<Longrightarrow> \<not> P i"
  by (auto simp: find_None_iff)

lemma takeWhile_length_eq:
  "i < length xs \<Longrightarrow> (\<And>j. j < i \<Longrightarrow> P (xs ! j)) \<Longrightarrow> \<not> P (xs ! i) \<Longrightarrow> length (takeWhile P xs) = i"
  by (metis takeWhile_eq_take_P_nth length_take min.absorb2 less_imp_le)

lemma first_unacked_window:
  "uxr_get_first_unacked st m =
    (if None \<in> set (in_window st m)
     then last_handled st + of_nat (Suc (length (takeWhile (\<lambda>c. c \<noteq> None) (in_window st m))))
     else last_handled st)"
proof -
  let ?h = "unat (history (in_base st))" and ?w = "in_window st m"
  let ?P = "\<lambda>i. missing st m (last_handled st + of_nat (Suc i))"
  show ?thesis
  proof (cases "find ?P [0..<?h]")
    case None
    then have "?w ! i \<noteq> None" if "i < ?h" for i
      using that missing_window by (auto simp: find_None_iff)
    then have "None \<notin> set ?w"
      by (metis in_set_conv_nth length_in_window)
    then show ?thesis using None by (simp add: first_unacked_eq)
  next
    case (Some i)
    then have i: "i < ?h" "?P i" "\<And>j. j < i \<Longrightarrow> \<not> ?P j"
      by (auto simp: find_Some_iff)
    have "?w ! i = None" using i missing_window by simp
    moreover have "?w ! j \<noteq> None" if "j < i" for j
      using i(3) [OF that] i(1) that missing_window [of j st m] by auto
    ultimately have "length (takeWhile (\<lambda>c. c \<noteq> None) ?w) = i"
      using i(1) by (intro takeWhile_length_eq) auto
    moreover have "None \<in> set ?w"
      using \<open>?w ! i = None\<close> i(1) by (metis length_in_window nth_mem)
    ultimately show ?thesis using Some by (simp add: first_unacked_eq)
  qed
qed

section \<open>Properties\<close>

text \<open>C14. What receiving a message of at most a slot's length does and tells, fragment or not. It does not
  return exactly when the message is a fragment that is kept and then every slot holds an intermediate
  fragment. Otherwise it does to the window of waiting messages what the specification says: a whole next
  message is delivered and the window moves on by one, any other message of the window is kept when its
  cell is free, everything else leaves the window alone. The caller is told to read, from the
  message itself, exactly if it was delivered, and from the slots exactly if a fragment was kept with which the fragments
  at the front are complete; that the message was stored is reported exactly if it was kept, that it was
  not if it was delivered, and nothing otherwise. The last message announced is at least this one. Nothing
  outside the stream's buffer changes and every slot stays within its capacity.\<close>
theorem reliable_input_receive_refines:
  assumes "ok_in st m" and "0 < n" and "n \<le> uxr_get_reliable_buffer_capacity (in_base st)"
    and "whole = (on_get_fragmentation_info st m a = NO_FRAGMENTED)"
    and "win_receive (seq_dist (last_handled st) s) whole (rd m a n) (in_window st m) = (delivered, w')"
    and "kept = win_keeps (seq_dist (last_handled st) s) whole (in_window st m)"
  shows "case uxr_receive_reliable_message st s a n s0 m of
      None \<Rightarrow> kept \<and> \<not> whole \<and> fragment_end st (store_msg (in_base st) s (rd m a n) m) = None
    | Some (ready, stored, st', m') \<Rightarrow>
        \<not> (kept \<and> \<not> whole \<and> fragment_end st m' = None) \<and>
        in_window st' m' = w' \<and>
        ready = (delivered \<noteq> [] \<or> (kept \<and> \<not> whole \<and> fragments_complete st m')) \<and>
        stored = (if kept then True else if delivered \<noteq> [] then False else s0) \<and>
        st' = announce (st\<lparr>last_handled := if delivered \<noteq> [] then s else last_handled st\<rparr>) s \<and>
        ok_in st' m' \<and>
        changed_within m m' (buffer (in_base st)) (buffer (in_base st) + stream_size (in_base st))"
proof -
  let ?d = "seq_dist (last_handled st) s"
  have del: "delivered = (if ?d = 1 \<and> whole then [rd m a n] else [])"
    using assms(5) ok_inD(5) [OF assms(1)] by (auto simp: win_receive_def split: if_splits)
  have no: "\<not> (kept \<and> ?d = 1 \<and> whole)"
    by (auto simp: assms(6) win_keeps_def)
  have "length (rd m a n) \<le> uxr_get_reliable_buffer_capacity (in_base st)"
    using assms(3) by simp
  note out = receive_outputs [OF assms(1,4) this, of s s0, folded assms(6)]
  note W = receive_window [OF assms(1-3), where s = s and a = a and ?s0.0 = s0, folded assms(4), unfolded assms(5)]
  show ?thesis
  proof (cases "uxr_receive_reliable_message st s a n s0 m")
    case None
    then show ?thesis
      using out assms(3) by (simp split: if_splits)
  next
    case (Some r)
    obtain ready stored st' m' where r: "r = (ready, stored, st', m')"
      by (metis prod_cases4)
    note W = W [OF Some [unfolded r]]
    show ?thesis
      using W(1,3,6) out assms(3) Some no by (auto simp: r del split: if_splits)
  qed
qed

definition example_in :: uxrInputReliableStream where
  "example_in = \<lparr>in_base = \<lparr>buffer = 1000, stream_size = 64, history = 4\<rparr>,
     last_handled = 65535, last_announced = 65535,
     on_get_fragmentation_info = (\<lambda>_ _. NO_FRAGMENTED), cleanup_flag = False\<rparr>"

lemma ok_example_in: "ok_in example_in (\<lambda>_. 0)"
  by (simp add: ok_in_def example_in_def ok_stream_def block_def slots_fit_def get_size_eq)

lemma example_receive:
  "uxr_receive_reliable_message example_in 2 0 6 False (\<lambda>_. 0) =
    Some (False, True, announce example_in 2, store_msg (in_base example_in) 2 (rd (\<lambda>_. 0) 0 6) (\<lambda>_. 0))"
proof -
  have d: "seq_dist (last_handled example_in) 2 = 3"
    by (simp add: example_in_def seq_dist_cases)
  have "in_window example_in (\<lambda>_. 0) ! (3 - 1) = None"
    by (simp add: nth_in_window example_in_def slot_msg_def get_size_eq)
  then show ?thesis
    using receive_cases(4) [OF ok_example_in, of 2 0 6 False] unfolding d
    by (simp add: example_in_def)
qed

lemma reliable_input_receive_refines_witness:
  "\<exists>w'. win_receive 3 True (rd (\<lambda>_. 0) 0 6) (in_window example_in (\<lambda>_. 0)) = ([], w') \<and>
    in_window (announce example_in 2) (store_msg (in_base example_in) 2 (rd (\<lambda>_. 0) 0 6) (\<lambda>_. 0)) = w' \<and>
    win_keeps 3 True (in_window example_in (\<lambda>_. 0))"
proof -
  have d: "seq_dist (last_handled example_in) 2 = 3"
    by (simp add: example_in_def seq_dist_cases)
  have k: "win_keeps 3 True (in_window example_in (\<lambda>_. 0))"
    using nth_in_window [of 2 example_in "\<lambda>_. 0"]
    by (simp add: win_keeps_def slot_msg_def get_size_eq) (simp add: example_in_def)
  let ?w' = "(in_window example_in (\<lambda>_. 0))[2 := Some (rd (\<lambda>_. 0) 0 6)]"
  have w: "win_receive 3 True (rd (\<lambda>_. 0) 0 6) (in_window example_in (\<lambda>_. 0)) = ([], ?w')"
    using k by (simp add: win_receive_def win_keeps_def)
  have "in_window (announce example_in 2) (store_msg (in_base example_in) 2 (rd (\<lambda>_. 0) 0 6) (\<lambda>_. 0)) = ?w'"
    using reliable_input_receive_refines [OF ok_example_in, of 6 True 0 2 "[]" ?w' True False] d w k
    by (simp add: example_receive capacity_eq ok_inD [OF ok_example_in]) (simp add: example_in_def block_def)
  with w k show ?thesis
    by blast
qed

text \<open>C2. If the agent's messages are not empty, no fragments and none longer than a slot, then whichever
  of them arrive and in whatever order (each any number of times,
  early or late by less than half a circle, with heartbeats and changes of memory elsewhere in
  between), what has been read from a reliable input stream is always the agent's messages from
  the first one on, each once and in order; and the arrival of the next message is always
  processed to the end and delivers at least that message.\<close>
theorem reliable_input_in_order_exactly_once:
  assumes "ucdr_ok cdr" and "ok_stream (in_base st)" and "unat (history (in_base st)) dvd 65536"
    and "unat (history (in_base st)) < 32768" and "msgs_ok st msg"
    and "uxr_reset_input_reliable_stream st m = (st1, m1)"
    and "(in_exec cdr self msg)\<^sup>*\<^sup>* (st1, m1, []) (st2, m2, out)"
    and "apart st2 rb (length (msg (length out)))"
  shows "out = map msg [0..<length out] \<and>
    (\<exists>outs st3 m3. in_arrival cdr self rb (of_nat (length out)) (msg (length out)) st2 m2 =
       Some (outs, st3, m3) \<and> outs \<noteq> [] \<and> out @ outs = map msg [0..<length out + length outs])"
proof -
  have g: "in_good msg (st2, m2, out)"
    by (rule in_good_reach [OF assms(7) in_good_reset [OF assms(2-6)] assms(1)])
  obtain outs st3 m3 where "in_arrival cdr self rb (of_nat (length out)) (msg (length out)) st2 m2 =
      Some (outs, st3, m3)" "in_good msg (st3, m3, out @ outs)" "outs \<noteq> []"
    using in_good_arrival [OF g assms(1) _ _ assms(8), of self] by auto
  with g show ?thesis
    by (auto simp: in_good_def)
qed

definition example_msg :: "nat \<Rightarrow> u8 list" where
  "example_msg k = [of_nat k, 0, 0, 0]"

lemma reliable_input_in_order_exactly_once_witness:
  "[] = map example_msg [0..<length ([] :: u8 list list)] \<and>
    (\<exists>outs st3 m3. in_arrival ref_ucdr 0 0 (of_nat (length ([] :: u8 list list)))
       (example_msg (length ([] :: u8 list list)))
       (fst (uxr_reset_input_reliable_stream example_in (\<lambda>_. 7)))
       (snd (uxr_reset_input_reliable_stream example_in (\<lambda>_. 7))) =
       Some (outs, st3, m3) \<and> outs \<noteq> [] \<and>
       [] @ outs = map example_msg [0..<length ([] :: u8 list list) + length outs])"
proof (rule reliable_input_in_order_exactly_once [OF ucdr_ok_ref_ucdr _ _ _ _ prod.collapse [symmetric]
      rtranclp.rtrancl_refl])
  show "ok_stream (in_base example_in)"
    by (rule ok_inD [OF ok_example_in])
  show "unat (history (in_base example_in)) dvd 65536" "unat (history (in_base example_in)) < 32768"
    by (simp_all add: example_in_def)
  show "msgs_ok example_in example_msg"
    by (simp add: msgs_ok_def example_msg_def whole_msg_def capacity_eq ok_inD [OF ok_example_in])
      (simp add: example_in_def block_def)
  show "apart (fst (uxr_reset_input_reliable_stream example_in (\<lambda>_. 7))) 0
      (length (example_msg (length ([] :: u8 list list))))"
    by (simp add: uxr_reset_input_reliable_stream_def apart_def example_in_def example_msg_def)
qed

text \<open>C22. The search for the end of a fragmented message returns exactly when some slot of the
  window does not hold an intermediate fragment, and then tells whether the first such slot holds
  a last fragment, and which one it is. With an intermediate fragment in every slot the search
  never ends.\<close>
theorem check_last_fragment_terminates_iff:
  assumes "ok_in st m"
  shows "check_last_fragment st m =
    (case find (\<lambda>i. \<not> holds_intermediate st m (last_handled st + of_nat (Suc i)))
       [0..<unat (history (in_base st))] of
       None \<Rightarrow> None
     | Some i \<Rightarrow> Some (holds_last st m (last_handled st + of_nat (Suc i)),
         last_handled st + of_nat (Suc i)))"
  unfolding check_last_fragment_eq [OF assms] by (simp split: option.split)

lemma check_last_fragment_terminates_iff_witness:
  "check_last_fragment example_in (\<lambda>_. 0) = Some (False, 0)"
proof -
  have z: "[0..<unat (history (in_base example_in))] = [0, 1, 2, 3]"
    by (simp add: example_in_def upt_rec)
  show ?thesis
    using check_last_fragment_terminates_iff [OF ok_example_in] unfolding z
    by (simp add: holds_intermediate_def holds_last_def example_in_def get_size_eq)
qed

text \<open>C19. The acknowledgement names the first message of the window that is missing (the last
  delivered one when none is), and bit \<open>i\<close> of its bitmap, for \<open>i < 16\<close>, is set exactly when the
  message \<open>i\<close> further has been announced and its slot is empty. It is computed without undefined
  behaviour exactly when no announced message from the 31st further on is missing.\<close>
theorem acknack_reports_missing:
  "snd (uxr_compute_acknack st m) =
     (if None \<in> set (in_window st m)
      then last_handled st + of_nat (Suc (length (takeWhile (\<lambda>c. c \<noteq> None) (in_window st m))))
      else last_handled st) \<and>
   (fst (uxr_compute_acknack st m) = None) =
     (\<exists>i \<in> set [31..<to_ack st m]. missing st m (snd (uxr_compute_acknack st m) + of_nat i)) \<and>
   (case fst (uxr_compute_acknack st m) of None \<Rightarrow> True
    | Some b \<Rightarrow> \<forall>i \<in> set [0..<16]. bit b i =
        (i < to_ack st m \<and> missing st m (snd (uxr_compute_acknack st m) + of_nat i)))"
proof -
  let ?f = "uxr_get_first_unacked st m" and ?n = "to_ack st m"
  have f: "snd (uxr_compute_acknack st m) = ?f"
    by (simp add: compute_acknack_eq)
  show ?thesis
  proof (cases "\<exists>i \<in> set [31..<?n]. missing st m (?f + of_nat i)")
    case True
    then show ?thesis
      using acknack_fold_undefined [of _ ?n st m ?f "Some 0"] first_unacked_window [of st m]
      by (fastforce simp: compute_acknack_eq)
  next
    case False
    then obtain b where "fold (acknack_step st m ?f) [0..<?n] (Some 0) = Some b"
      "\<forall>j < 16. bit b j \<longleftrightarrow> j < ?n \<and> missing st m (?f + of_nat j)"
      using acknack_fold [of ?n st m ?f 0] by auto
    then show ?thesis
      using False first_unacked_window [of st m] by (simp add: compute_acknack_eq)
  qed
qed

lemma acknack_reports_missing_witness:
  "snd (uxr_compute_acknack (example_in\<lparr>last_announced := 2\<rparr>) (\<lambda>_. 0)) = 0 \<and>
   (case fst (uxr_compute_acknack (example_in\<lparr>last_announced := 2\<rparr>) (\<lambda>_. 0)) of None \<Rightarrow> True
    | Some b \<Rightarrow> bit b 2 \<and> \<not> bit b 3)"
proof -
  have w: "in_window (example_in\<lparr>last_announced := 2\<rparr>) (\<lambda>_. 0) = [None, None, None, None]"
    by (simp add: in_window_def example_in_def slot_msg_def get_size_eq upt_rec)
  have s: "snd (uxr_compute_acknack (example_in\<lparr>last_announced := 2\<rparr>) (\<lambda>_. 0)) = 0"
    using acknack_reports_missing [of "example_in\<lparr>last_announced := 2\<rparr>" "\<lambda>_. 0"]
    unfolding w by (simp add: example_in_def)
  then have "to_ack (example_in\<lparr>last_announced := 2\<rparr>) (\<lambda>_. 0) = 3"
    by (simp add: to_ack_def compute_acknack_eq example_in_def seq_dist_cases)
  then show ?thesis
    using acknack_reports_missing [of "example_in\<lparr>last_announced := 2\<rparr>" "\<lambda>_. 0"] s
    by (auto simp: missing_def example_in_def get_size_eq split: option.splits)
qed

text \<open>C28. Nothing compares the length of a message with the capacity of a slot: a message of the
  window that is four bytes longer than a slot overwrites the length of the following slot with
  its last four bytes.\<close>
theorem reliable_input_long_message_overflows:
  assumes "ok_in st m" and "on_get_fragmentation_info st m a = NO_FRAGMENTED"
    and "1 < seq_dist (last_handled st) s"
    and "seq_dist (last_handled st) s \<le> unat (history (in_base st))"
    and "slot_msg (in_base st) s m = None"
    and "slot_of (in_base st) (s + 1) = slot_of (in_base st) s + 1"
    and "n = uxr_get_reliable_buffer_capacity (in_base st) + 4"
  shows "map_option (\<lambda>(ready, stored, st', m').
      uxr_get_reliable_buffer_size (in_base st') (s + 1) m')
      (uxr_receive_reliable_message st s a n s0 m) =
    Some (bytes_nat (drop (n - 4) (rd m a n)))"
proof -
  let ?b = "in_base st" and ?bs = "rd m a n"
  note ok = ok_inD [OF assms(1)]
  let ?d = "seq_dist (last_handled st) s"
  have "s = last_handled st + of_nat (Suc (?d - 1))"
    using assms(3) by (intro seq_eq_Suc_dist) simp
  then have "in_window st m ! (?d - 1) = None"
    using assms(3-5) nth_in_window [of "?d - 1" st m] by simp
  then have r: "uxr_receive_reliable_message st s a n s0 m =
      Some (False, True, announce st s, store_msg ?b s ?bs m)"
    using receive_cases(4) [OF assms(1), of s a n s0] assms(2-4) by simp
  have cap: "uxr_get_reliable_buffer_capacity ?b = block ?b - 4" and blk: "4 \<le> block ?b"
    using ok(1) by (simp_all add: capacity_eq ok_stream_def)
  have base: "slot_base ?b (Suc (slot_of ?b s)) = slot_base ?b (slot_of ?b s) + block ?b"
    by (simp add: slot_base_def)
  let ?w = "wr m (slot_base ?b (slot_of ?b s) + 4) ?bs"
  have n: "n = block ?b"
    using assms(7) cap blk by simp
  have "rd ?w (slot_base ?b (slot_of ?b s) + block ?b) 4 = drop (n - 4) ?bs"
    using n blk by (intro nth_equalityI) (auto simp: wr_def)
  then have "rd_u32 ?w (slot_base ?b (slot_of ?b s) + block ?b) = bytes_nat (drop (n - 4) ?bs)"
    by (simp add: rd_u32_def)
  then have "uxr_get_reliable_buffer_size ?b (s + 1) (store_msg ?b s ?bs m) =
      bytes_nat (drop (n - 4) ?bs)"
    using blk by (simp add: store_msg_def set_size_eq get_size_eq buffer_eq assms(6) base mem_simps)
  then show ?thesis
    by (simp add: r)
qed

lemma reliable_input_long_message_overflows_witness:
  "map_option (\<lambda>(ready, stored, st', m').
      uxr_get_reliable_buffer_size (in_base st') (2 + 1) m')
      (uxr_receive_reliable_message example_in 2 500 16 False (\<lambda>x. if x = 512 then 9 else 0)) = Some 9"
proof -
  let ?m = "\<lambda>x. if x = (512 :: nat) then 9 else (0 :: u8)"
  have z: "rd_u32 ?m a = 0" if "512 < a" for a
    using that by (subst rd_u32_same_on [of "\<lambda>_. 0" ?m 513 "a + 4"]) (auto simp: same_on_def)
  have ok: "ok_in example_in ?m"
    by (simp add: ok_in_def example_in_def ok_stream_def block_def slots_fit_def get_size_eq z slot_base_def)
  have d: "drop (16 - 4) (rd ?m 500 16) = [9, 0, 0, 0]"
    by (rule nth_equalityI) (auto simp: nth_Cons' less_Suc_eq numeral_eq_Suc)
  have "map_option (\<lambda>(ready, stored, st', m').
      uxr_get_reliable_buffer_size (in_base st') (2 + 1) m')
      (uxr_receive_reliable_message example_in 2 500 16 False ?m) =
    Some (bytes_nat (drop (16 - 4) (rd ?m 500 16)))"
    by (rule reliable_input_long_message_overflows [OF ok])
      (simp_all add: capacity_eq ok_inD [OF ok],
       simp_all add: example_in_def seq_dist_cases slot_msg_def get_size_eq slot_base_def block_def z slot_of_def)
  then show ?thesis
    unfolding d by simp
qed

end
