(* ===== verification/OutputReliable.thy ===== *)
theory OutputReliable
  imports ReliableBase Submessage
begin

text \<open>
  The reliable output stream: \<open>output_reliable_stream.c\<close>. Messages are built in the slots of
  the stream; \<open>last_written\<close> is the slot being filled, \<open>last_sent\<close> the last message handed to
  the transport and \<open>last_acknown\<close> the last one acknowledged. A slot that holds nothing has
  the length of the message header. A message longer than a slot is cut into fragments that
  fill consecutive slots. The mutex of the multithread profile is not modelled.
\<close>

section \<open>State and operations\<close>

text \<open>Times are integers of unlimited range; a signed overflow is undefined in C.\<close>

record uxrOutputReliableStream =
  out_base :: uxrReliableStream
  header_offset :: u8
  last_written :: uxrSeqNum
  last_sent :: uxrSeqNum
  last_acknown :: uxrSeqNum
  next_heartbeat_timestamp :: int
  next_heartbeat_tries :: u8
  send_lost :: bool

definition INT64_MAX :: int where
  "INT64_MAX = 9223372036854775807"

definition uxr_reset_output_reliable_stream ::
  "uxrOutputReliableStream \<Rightarrow> mem \<Rightarrow> uxrOutputReliableStream \<times> mem"
where
  "uxr_reset_output_reliable_stream stream m =
     (stream\<lparr>last_written := 0, last_sent := SEQ_NUM_MAX, last_acknown := SEQ_NUM_MAX,
        next_heartbeat_timestamp := INT64_MAX, next_heartbeat_tries := 0, send_lost := False\<rparr>,
      fold (\<lambda>i. uxr_set_reliable_buffer_size (out_base stream) (of_nat i) (unat (header_offset stream)))
        [0..<unat (history (out_base stream))] m)"

definition uxr_init_output_reliable_stream ::
  "uxrOutputReliableStream \<Rightarrow> addr \<Rightarrow> size_t \<Rightarrow> u16 \<Rightarrow> u8 \<Rightarrow> mem
    \<Rightarrow> uxrOutputReliableStream \<times> mem"
where
  "uxr_init_output_reliable_stream stream buffer' size' history' header_offset' m =
     uxr_reset_output_reliable_stream
       (stream\<lparr>out_base := \<lparr>buffer = buffer', stream_size = size', history = history'\<rparr>,
               header_offset := header_offset'\<rparr>) m"

definition get_available_free_slots :: "uxrOutputReliableStream \<Rightarrow> mem \<Rightarrow> nat" where
  "get_available_free_slots stream m =
     length (filter (\<lambda>i. uxr_get_reliable_buffer_size (out_base stream) (of_nat i) m =
                         unat (header_offset stream))
               [0..<unat (history (out_base stream))])"

text \<open>One fragment header at the end of slot \<open>seq_num\<close>.\<close>

definition put_fragment_header ::
  "ucdr \<Rightarrow> uxrReliableStream \<Rightarrow> uxrSeqNum \<Rightarrow> u16 \<Rightarrow> u8 \<Rightarrow> mem \<Rightarrow> mem"
where
  "put_fragment_header cdr base seq_num fragment_size flags m =
     snd (snd (uxr_buffer_submessage_header cdr SUBMESSAGE_ID_FRAGMENT fragment_size flags
       (ucdr_init_buffer_origin_offset cdr (uxr_get_reliable_buffer base seq_num)
          (uxr_get_reliable_buffer_capacity base) 0 (uxr_get_reliable_buffer_size base seq_num m), m)))"

text \<open>The loop over the full fragments; it also returns the slot of the last fragment.\<close>

primrec fragment_loop ::
  "ucdr \<Rightarrow> uxrReliableStream \<Rightarrow> nat \<Rightarrow> nat \<Rightarrow> uxrSeqNum \<Rightarrow> nat \<Rightarrow> mem \<Rightarrow> uxrSeqNum \<times> mem"
where
  "fragment_loop cdr base block_size 0 seq_num fragment_size m = (seq_num, m)"
| "fragment_loop cdr base block_size (Suc k) seq_num fragment_size m =
     fragment_loop cdr base block_size k (uxr_seq_num_add seq_num 1) block_size
       (uxr_set_reliable_buffer_size base seq_num (uxr_get_reliable_buffer_capacity base)
          (put_fragment_header cdr base seq_num (of_nat fragment_size) 0 m))"

text \<open>\<open>self\<close> names the stream in the argument of the buffer's callback.\<close>

definition uxr_prepare_reliable_buffer_to_write ::
  "ucdr \<Rightarrow> nat \<Rightarrow> uxrOutputReliableStream \<Rightarrow> size_t \<Rightarrow> ucdrBuffer \<Rightarrow> mem
    \<Rightarrow> bool \<times> uxrOutputReliableStream \<times> ucdrBuffer \<times> mem"
where
  "uxr_prepare_reliable_buffer_to_write cdr self stream len ub m =
     (let base = out_base stream;
          off = unat (header_offset stream);
          seq_num = last_written stream;
          buffer_capacity = uxr_get_reliable_buffer_capacity base;
          buffer' = uxr_get_reliable_buffer base seq_num;
          buffer_size0 = uxr_get_reliable_buffer_size base seq_num m;
          available_block_size = cast_u16 (size_sub buffer_capacity (cast_u16 (off + SUBHEADER_SIZE)));
          remaining_blocks = get_available_free_slots stream m;
          buffer_size = size_add buffer_size0 (ucdr_alignment cdr buffer_size0 4);
          last_available = uxr_seq_num_add (last_acknown stream) (history base)
      in if size_add buffer_size len \<le> buffer_capacity
         then (if 0 \<ge> uxr_seq_num_cmp seq_num last_available
               then let final_buffer_size = size_add buffer_size len
                    in (True, stream,
                        ucdr_init_buffer_origin_offset cdr buffer' (cast_u32 final_buffer_size) 0
                          (cast_u32 buffer_size),
                        uxr_set_reliable_buffer_size base seq_num final_buffer_size m)
               else (False, stream, ub, m))
         else if size_add off len \<le> buffer_capacity
         then let seq_num = uxr_seq_num_add (last_written stream) 1
              in if 0 \<ge> uxr_seq_num_cmp seq_num last_available
                 then let final_buffer_size = size_add off len
                      in (True, stream\<lparr>last_written := seq_num\<rparr>,
                          ucdr_init_buffer_origin_offset cdr (uxr_get_reliable_buffer base seq_num)
                            (cast_u32 final_buffer_size) 0 off,
                          uxr_set_reliable_buffer_size base seq_num final_buffer_size m)
                 else (False, stream, ub, m)
         else if len \<le> size_mul available_block_size remaining_blocks
         then let too_small = size_add buffer_size SUBHEADER_SIZE \<ge> buffer_capacity;
                  seq_num = (if too_small then uxr_seq_num_add seq_num 1 else seq_num);
                  buffer' = (if too_small then uxr_get_reliable_buffer base seq_num else buffer');
                  buffer_size = (if too_small then uxr_get_reliable_buffer_size base seq_num m
                                 else buffer_size);
                  first_fragment_size = cast_u16 (size_sub buffer_capacity
                    (cast_u16 (size_add buffer_size SUBHEADER_SIZE)));
                  remaining_size = size_sub len first_fragment_size;
                  exact = (remaining_size mod available_block_size = 0);
                  last_fragment_size = (if exact then available_block_size
                                        else remaining_size mod available_block_size);
                  necessary_complete_blocks =
                    cast_u16 (if exact then remaining_size div available_block_size
                              else remaining_size div available_block_size + 1)
              in if necessary_complete_blocks \<le> remaining_blocks
                 then let (seq_num, m1) = fragment_loop cdr base available_block_size
                            necessary_complete_blocks seq_num first_fragment_size m;
                          m2 = put_fragment_header cdr base seq_num (of_nat last_fragment_size)
                                 FLAG_LAST_FRAGMENT m1;
                          m3 = uxr_set_reliable_buffer_size base seq_num
                                 (size_add (off + SUBHEADER_SIZE) last_fragment_size) m2
                      in (True, stream\<lparr>last_written := seq_num\<rparr>,
                          ucdr_set_on_full_buffer_callback cdr (Some on_full_output_buffer_cb) (Some self)
                            (ucdr_init_buffer cdr (buffer' + buffer_size + SUBHEADER_SIZE)
                               (cast_u32 (size_sub (size_sub buffer_capacity buffer_size) SUBHEADER_SIZE))),
                          m3)
                 else (False, stream, ub, m)
         else (False, stream, ub, m))"

text \<open>The output parameters are written on every path; the first component is the result.\<close>

definition uxr_prepare_next_reliable_buffer_to_send ::
  "uxrOutputReliableStream \<Rightarrow> mem \<Rightarrow> bool \<times> (addr \<times> size_t \<times> uxrSeqNum) \<times> uxrOutputReliableStream"
where
  "uxr_prepare_next_reliable_buffer_to_send stream m =
     (let base = out_base stream;
          seq_num = uxr_seq_num_add (last_sent stream) 1;
          buffer' = uxr_get_reliable_buffer base seq_num;
          len = uxr_get_reliable_buffer_size base seq_num m;
          data_to_send = (0 \<ge> uxr_seq_num_cmp seq_num (last_written stream)
            \<and> len > unat (header_offset stream)
            \<and> uxr_seq_num_sub (last_sent stream) (last_acknown stream) \<noteq> history base);
          stream1 = (if data_to_send then stream\<lparr>last_sent := seq_num\<rparr> else stream);
          stream2 = (if data_to_send \<and> last_sent stream1 = last_written stream1
                     then stream1\<lparr>last_written := uxr_seq_num_add (last_written stream1) 1\<rparr>
                     else stream1)
      in (data_to_send, (buffer', len, seq_num), stream2))"

definition uxr_cancel_reliable_buffer_to_send ::
  "uxrOutputReliableStream \<Rightarrow> uxrSeqNum \<Rightarrow> mem \<Rightarrow> uxrOutputReliableStream"
where
  "uxr_cancel_reliable_buffer_to_send stream seq_num m =
     (let next_seq_num = uxr_seq_num_add seq_num 1;
          stream1 = stream\<lparr>last_sent := uxr_seq_num_sub seq_num 1\<rparr>
      in if last_written stream1 = next_seq_num \<and>
            unat (header_offset stream1) = uxr_get_reliable_buffer_size (out_base stream1) next_seq_num m
         then stream1\<lparr>last_written := seq_num\<rparr> else stream1)"

text \<open>The interval is a build option; \<open>interval\<close> is its value in milliseconds.\<close>

definition uxr_update_output_stream_heartbeat_timestamp ::
  "int \<Rightarrow> uxrOutputReliableStream \<Rightarrow> int \<Rightarrow> bool \<times> uxrOutputReliableStream"
where
  "uxr_update_output_stream_heartbeat_timestamp interval stream current_timestamp =
     (if 0 > uxr_seq_num_cmp (last_acknown stream) (last_sent stream)
      then let (must_confirm, stream1) =
                 (if 0 = next_heartbeat_tries stream
                  then (False, stream\<lparr>next_heartbeat_tries := 1\<rparr>)
                  else if current_timestamp \<ge> next_heartbeat_timestamp stream
                  then (True, stream\<lparr>next_heartbeat_tries := next_heartbeat_tries stream + 1\<rparr>)
                  else (False, stream))
           in (must_confirm, stream1\<lparr>next_heartbeat_timestamp := current_timestamp + interval\<rparr>)
      else (False, stream\<lparr>next_heartbeat_timestamp := INT64_MAX\<rparr>))"

definition uxr_begin_output_nack_buffer_it :: "uxrOutputReliableStream \<Rightarrow> uxrSeqNum" where
  "uxr_begin_output_nack_buffer_it stream = last_acknown stream"

text \<open>
  The search stops at the latest after half a circle, when the comparison turns; that bounds
  the loop. \<open>Some\<close> carries the slot found.
\<close>

function nack_search ::
  "uxrOutputReliableStream \<Rightarrow> mem \<Rightarrow> uxrSeqNum \<Rightarrow> (addr \<times> size_t) option \<times> uxrSeqNum"
where
  "nack_search stream m seq_num_it =
     (let it = uxr_seq_num_add seq_num_it 1
      in if 0 \<ge> uxr_seq_num_cmp it (last_sent stream)
         then let buffer' = uxr_get_reliable_buffer (out_base stream) it;
                  len = uxr_get_reliable_buffer_size (out_base stream) it m
              in if len \<noteq> unat (header_offset stream) then (Some (buffer', len), it)
                 else nack_search stream m it
         else (None, it))"
  by pat_completeness auto
termination
proof (relation "measure (\<lambda>(stream, m, it). seq_dist it (last_sent stream))")
  fix stream m seq_num_it it buffer' len
  assume it: "it = uxr_seq_num_add seq_num_it 1"
    and "0 \<ge> uxr_seq_num_cmp it (last_sent stream)"
  then have "seq_dist it (last_sent stream) < 32768"
    by (simp add: sn.cmp_le)
  moreover have "seq_dist seq_num_it it = 1"
    using seq_dist_of_nat [of 1 seq_num_it] by (simp add: it sn.add_ring)
  ultimately have "seq_dist seq_num_it (last_sent stream) = 1 + seq_dist it (last_sent stream)"
    using seq_dist_triangle [of seq_num_it "last_sent stream" it] by simp
  then show "((stream, m, it), stream, m, seq_num_it)
      \<in> measure (\<lambda>(stream, m, it). seq_dist it (last_sent stream))"
    by simp
qed simp

definition uxr_next_reliable_nack_buffer_to_send ::
  "uxrOutputReliableStream \<Rightarrow> mem \<Rightarrow> uxrSeqNum
    \<Rightarrow> (addr \<times> size_t) option \<times> uxrSeqNum \<times> uxrOutputReliableStream"
where
  "uxr_next_reliable_nack_buffer_to_send stream m seq_num_it =
     (if send_lost stream
      then (case nack_search stream m seq_num_it of
              (Some r, it) \<Rightarrow> (Some r, it, stream)
            | (None, it) \<Rightarrow> (None, it, stream\<lparr>send_lost := False\<rparr>))
      else (None, seq_num_it, stream))"

primrec clean_acked ::
  "nat \<Rightarrow> uxrOutputReliableStream \<Rightarrow> mem \<Rightarrow> uxrOutputReliableStream \<times> mem"
where
  "clean_acked 0 stream m = (stream, m)"
| "clean_acked (Suc k) stream m =
     (let stream1 = stream\<lparr>last_acknown := uxr_seq_num_add (last_acknown stream) 1\<rparr>
      in clean_acked k stream1
           (uxr_set_reliable_buffer_size (out_base stream1) (last_acknown stream1)
              (unat (header_offset stream1)) m))"

definition uxr_process_acknack ::
  "uxrOutputReliableStream \<Rightarrow> u16 \<Rightarrow> uxrSeqNum \<Rightarrow> mem \<Rightarrow> uxrOutputReliableStream \<times> mem"
where
  "uxr_process_acknack stream bitmap first_unacked_seq_num m =
     (let last_acked_seq_num = uxr_seq_num_sub first_unacked_seq_num 1;
          buffers_to_clean = unat (uxr_seq_num_sub last_acked_seq_num (last_acknown stream));
          (stream1, m1) = clean_acked buffers_to_clean stream m
      in (stream1\<lparr>send_lost := (0 < bitmap), next_heartbeat_tries := 0\<rparr>, m1))"

definition uxr_is_output_up_to_date :: "uxrOutputReliableStream \<Rightarrow> bool" where
  "uxr_is_output_up_to_date stream \<longleftrightarrow> 0 = uxr_seq_num_cmp (last_acknown stream) (last_sent stream)"

definition on_full_output_buffer ::
  "ucdr \<Rightarrow> nat \<Rightarrow> uxrOutputReliableStream \<Rightarrow> ucdrBuffer \<Rightarrow> mem \<Rightarrow> bool \<times> ucdrBuffer"
where
  "on_full_output_buffer cdr self stream ub m =
     (let base = out_base stream;
          history_position = 1 + uxr_get_reliable_buffer_history_position base (init ub);
          buffer' = uxr_get_reliable_buffer base history_position;
          buffer_size = uxr_get_reliable_buffer_size base history_position m
      in (False,
          ucdr_set_on_full_buffer_callback cdr (Some on_full_output_buffer_cb) (Some self)
            (ucdr_init_buffer_origin cdr (buffer' + unat (header_offset stream) + SUBHEADER_SIZE)
               (cast_u32 (size_sub (size_sub buffer_size (unat (header_offset stream))) SUBHEADER_SIZE))
               (offset ub))))"

section \<open>The window of unacknowledged messages\<close>

text \<open>Distances from the last acknowledged message, and the length of the \<open>i\<close>-th slot after it.\<close>

definition sent_dist :: "uxrOutputReliableStream \<Rightarrow> nat" where
  "sent_dist st = seq_dist (last_acknown st) (last_sent st)"

definition written_dist :: "uxrOutputReliableStream \<Rightarrow> nat" where
  "written_dist st = seq_dist (last_acknown st) (last_written st)"

definition out_seq :: "uxrOutputReliableStream \<Rightarrow> nat \<Rightarrow> uxrSeqNum" where
  "out_seq st i = last_acknown st + of_nat i"

definition out_size :: "uxrOutputReliableStream \<Rightarrow> mem \<Rightarrow> nat \<Rightarrow> nat" where
  "out_size st m i = uxr_get_reliable_buffer_size (out_base st) (out_seq st i) m"

definition out_hist :: "uxrOutputReliableStream \<Rightarrow> nat" where
  "out_hist st = unat (history (out_base st))"

definition out_cap :: "uxrOutputReliableStream \<Rightarrow> nat" where
  "out_cap st = uxr_get_reliable_buffer_capacity (out_base st)"

definition out_off :: "uxrOutputReliableStream \<Rightarrow> nat" where
  "out_off st = unat (header_offset st)"

text \<open>
  The geometry the client has to choose: a power of two of slots, messages of less than 64 KiB,
  and slots with room for a message header, a submessage header and something more.
\<close>

definition out_geom :: "uxrOutputReliableStream \<Rightarrow> bool" where
  "out_geom st \<longleftrightarrow> ok_stream (out_base st) \<and> out_hist st dvd 65536 \<and> out_hist st < 32767 \<and>
     out_off st mod 4 = 0 \<and> out_off st + 4 < out_cap st \<and> out_cap st < 65536"

text \<open>
  The slots up to the one being written are in use, the one being written may be, those beyond
  hold nothing; what is sent is written; no more than \<open>history\<close> messages are under way.
\<close>

definition out_inv :: "uxrOutputReliableStream \<Rightarrow> mem \<Rightarrow> bool" where
  "out_inv st m \<longleftrightarrow> out_geom st \<and> slots_fit (out_base st) m \<and>
     sent_dist st < written_dist st \<and> written_dist st \<le> out_hist st + 1 \<and>
     (\<forall>i. 0 < i \<and> i < written_dist st \<longrightarrow> out_off st < out_size st m i) \<and>
     (written_dist st \<le> out_hist st \<longrightarrow> out_off st \<le> out_size st m (written_dist st)) \<and>
     (\<forall>i. written_dist st < i \<and> i \<le> out_hist st \<longrightarrow> out_size st m i = out_off st)"

lemmas out_defs = sent_dist_def written_dist_def out_seq_def out_size_def out_hist_def out_cap_def
  out_off_def

lemma out_geomD:
  assumes "out_geom st"
  shows "ok_stream (out_base st)" "out_hist st dvd 65536" "out_hist st < 32767" "0 < out_hist st"
    "out_off st mod 4 = 0" "out_off st + 4 < out_cap st" "out_cap st < 65536"
  using assms by (auto simp: out_geom_def ok_stream_def out_hist_def)

lemma out_invD:
  assumes "out_inv st m"
  shows "out_geom st" "slots_fit (out_base st) m" "sent_dist st < written_dist st"
    "written_dist st \<le> out_hist st + 1"
    "\<And>i. 0 < i \<Longrightarrow> i < written_dist st \<Longrightarrow> out_off st < out_size st m i"
    "written_dist st \<le> out_hist st \<Longrightarrow> out_off st \<le> out_size st m (written_dist st)"
    "\<And>i. written_dist st < i \<Longrightarrow> i \<le> out_hist st \<Longrightarrow> out_size st m i = out_off st"
  using assms by (auto simp: out_inv_def)

lemma out_seq_dist: "i < 65536 \<Longrightarrow> seq_dist (last_acknown st) (out_seq st i) = i"
  by (simp add: out_seq_def seq_dist_of_nat)

lemma out_seq_inj: "i < 65536 \<Longrightarrow> j < 65536 \<Longrightarrow> out_seq st i = out_seq st j \<longleftrightarrow> i = j"
  by (metis out_seq_dist)

lemma seq_of_dist: "s = out_seq st (seq_dist (last_acknown st) s)"
  by (simp add: out_seq_def seq_at_dist)

lemma last_written_seq: "last_written st = out_seq st (written_dist st)"
  and last_sent_seq: "last_sent st = out_seq st (sent_dist st)"
  by (simp_all add: written_dist_def sent_dist_def flip: seq_of_dist)

lemma out_seq_Suc: "out_seq st i + 1 = out_seq st (Suc i)"
  by (simp add: out_seq_def add.assoc)

lemma out_slot_inj:
  assumes "out_geom st" and "0 < i" "i \<le> out_hist st" "0 < j" "j \<le> out_hist st"
  shows "slot_of (out_base st) (out_seq st i) = slot_of (out_base st) (out_seq st j) \<longleftrightarrow> i = j"
proof -
  have "seq_dist (last_acknown st) (out_seq st i) = i" "seq_dist (last_acknown st) (out_seq st j) = j"
    using assms out_geomD(3) [OF assms(1)] by (simp_all add: out_seq_dist)
  then have "slot_of (out_base st) (out_seq st i) = slot_of (out_base st) (out_seq st j) \<Longrightarrow>
      out_seq st i = out_seq st j"
    using assms out_geomD(2) [OF assms(1)] unfolding slot_of_def out_hist_def
    by (intro slot_inj_base [of _ _ _ "last_acknown st"]) simp_all
  then show ?thesis
    using out_seq_inj [of i j st] assms out_geomD(3) [OF assms(1)] by auto
qed

text \<open>Beyond the window the slots repeat.\<close>

lemma out_slot_wrap:
  assumes "out_geom st"
  shows "slot_of (out_base st) (out_seq st (out_hist st + i)) = slot_of (out_base st) (out_seq st i)"
proof -
  let ?h = "out_hist st"
  have "seq_dist (out_seq st i) (out_seq st (?h + i)) = ?h"
    using seq_dist_of_nat [of ?h "out_seq st i"] out_geomD(3) [OF assms]
    by (simp add: out_seq_def ac_simps)
  then show ?thesis
    using slot_eq_iff [of ?h "out_seq st i" "out_seq st (?h + i)"] out_geomD(2) [OF assms]
    by (simp add: slot_of_def out_hist_def)
qed

section \<open>Sending\<close>

text \<open>The three conditions of the code come down to: there is a written message not yet sent.\<close>

definition can_send :: "uxrOutputReliableStream \<Rightarrow> mem \<Rightarrow> bool" where
  "can_send st m \<longleftrightarrow> Suc (sent_dist st) < written_dist st \<or>
     (Suc (sent_dist st) = written_dist st \<and> written_dist st \<le> out_hist st \<and>
      out_off st < out_size st m (written_dist st))"

lemma next_to_send:
  assumes inv: "out_inv st m"
  shows "uxr_prepare_next_reliable_buffer_to_send st m =
    (can_send st m,
     (uxr_get_reliable_buffer (out_base st) (out_seq st (Suc (sent_dist st))),
      out_size st m (Suc (sent_dist st)), out_seq st (Suc (sent_dist st))),
     if can_send st m
     then st\<lparr>last_sent := out_seq st (Suc (sent_dist st)),
             last_written := out_seq st (max (Suc (Suc (sent_dist st))) (written_dist st))\<rparr>
     else st)"
proof -
  let ?s = "sent_dist st" and ?w = "written_dist st" and ?h = "out_hist st"
  note g = out_geomD [OF out_invD(1) [OF inv]] and i = out_invD [OF inv]
  have nxt: "uxr_seq_num_add (last_sent st) 1 = out_seq st (Suc ?s)"
    by (simp add: sn.add_ring last_sent_seq [of st] out_seq_Suc)
  have "seq_dist (out_seq st (Suc ?s)) (last_written st) = ?w - Suc ?s"
    using seq_dist_split [of "last_acknown st" "out_seq st (Suc ?s)" "last_written st"] i(3,4) g(3)
    by (simp add: out_seq_dist written_dist_def [symmetric])
  then have c1: "0 \<ge> uxr_seq_num_cmp (out_seq st (Suc ?s)) (last_written st)"
    using i(3,4) g(3) by (simp add: sn.cmp_le)
  have "unat (uxr_seq_num_sub (last_sent st) (last_acknown st)) = ?s"
    by (simp add: sn.sub_ring sent_dist_def seq_dist_def)
  then have c3: "(uxr_seq_num_sub (last_sent st) (last_acknown st) \<noteq> history (out_base st)) = (?s \<noteq> ?h)"
    by (auto simp: out_hist_def word_unat_eq_iff)
  have sz: "uxr_get_reliable_buffer_size (out_base st) (out_seq st (Suc ?s)) m = out_size st m (Suc ?s)"
    by (simp add: out_size_def)
  have can: "can_send st m \<longleftrightarrow> out_off st < out_size st m (Suc ?s) \<and> ?s \<noteq> ?h"
  proof (cases "Suc ?s < ?w")
    case True
    then show ?thesis using i(4) i(5) [of "Suc ?s"] by (auto simp: can_send_def)
  next
    case False
    then have "?w = Suc ?s" using i(3) by simp
    then show ?thesis using i(4) by (auto simp: can_send_def)
  qed
  have eq: "out_seq st (Suc ?s) = last_written st \<longleftrightarrow> Suc ?s = ?w"
    unfolding last_written_seq using i(3,4) g(3) by (intro out_seq_inj) simp_all
  have dts: "(0 \<ge> uxr_seq_num_cmp (out_seq st (Suc ?s)) (last_written st) \<and>
      uxr_get_reliable_buffer_size (out_base st) (out_seq st (Suc ?s)) m > unat (header_offset st) \<and>
      uxr_seq_num_sub (last_sent st) (last_acknown st) \<noteq> history (out_base st)) = can_send st m"
    using c1 by (simp add: can c3 sz out_off_def)
  have lw1: "last_written st + 1 = out_seq st (Suc ?w)"
    unfolding last_written_seq by (rule out_seq_Suc)
  have lw: "(if Suc ?s = ?w then uxr_seq_num_add (last_written st) 1 else last_written st) =
      out_seq st (max (Suc (Suc ?s)) ?w)"
    using i(3) lw1 last_written_seq [of st] by (auto simp: sn.add_ring max_def)
  show ?thesis
    unfolding uxr_prepare_next_reliable_buffer_to_send_def Let_def nxt dts
    by (simp only: eq lw out_size_def [symmetric] simp_thms if_True if_False
        uxrOutputReliableStream.select_convs uxrOutputReliableStream.update_convs
        split: if_split) (auto simp: eq sn.add_ring lw1 lw [symmetric])
qed

text \<open>Updates of the fields that do not take part in the window's layout.\<close>

lemma out_update [simp]:
  "out_seq (st\<lparr>last_sent := x\<rparr>) = out_seq st" "out_seq (st\<lparr>last_written := x\<rparr>) = out_seq st"
  "out_seq (st\<lparr>next_heartbeat_timestamp := t\<rparr>) = out_seq st"
  "out_seq (st\<lparr>next_heartbeat_tries := n\<rparr>) = out_seq st" "out_seq (st\<lparr>send_lost := b\<rparr>) = out_seq st"
  "out_size (st\<lparr>last_sent := x\<rparr>) = out_size st" "out_size (st\<lparr>last_written := x\<rparr>) = out_size st"
  "out_size (st\<lparr>next_heartbeat_timestamp := t\<rparr>) = out_size st"
  "out_size (st\<lparr>next_heartbeat_tries := n\<rparr>) = out_size st" "out_size (st\<lparr>send_lost := b\<rparr>) = out_size st"
  "sent_dist (st\<lparr>last_written := x\<rparr>) = sent_dist st" "written_dist (st\<lparr>last_sent := x\<rparr>) = written_dist st"
  "sent_dist (st\<lparr>next_heartbeat_timestamp := t\<rparr>) = sent_dist st"
  "sent_dist (st\<lparr>next_heartbeat_tries := n\<rparr>) = sent_dist st" "sent_dist (st\<lparr>send_lost := b\<rparr>) = sent_dist st"
  "written_dist (st\<lparr>next_heartbeat_timestamp := t\<rparr>) = written_dist st"
  "written_dist (st\<lparr>next_heartbeat_tries := n\<rparr>) = written_dist st"
  "written_dist (st\<lparr>send_lost := b\<rparr>) = written_dist st"
  by (simp_all add: out_defs fun_eq_iff)

lemma out_update_geom [simp]:
  "out_hist (st\<lparr>last_sent := x\<rparr>) = out_hist st" "out_hist (st\<lparr>last_written := x\<rparr>) = out_hist st"
  "out_hist (st\<lparr>last_acknown := x\<rparr>) = out_hist st"
  "out_hist (st\<lparr>next_heartbeat_timestamp := t\<rparr>) = out_hist st"
  "out_hist (st\<lparr>next_heartbeat_tries := n\<rparr>) = out_hist st" "out_hist (st\<lparr>send_lost := b\<rparr>) = out_hist st"
  "out_off (st\<lparr>last_sent := x\<rparr>) = out_off st" "out_off (st\<lparr>last_written := x\<rparr>) = out_off st"
  "out_off (st\<lparr>last_acknown := x\<rparr>) = out_off st"
  "out_off (st\<lparr>next_heartbeat_timestamp := t\<rparr>) = out_off st"
  "out_off (st\<lparr>next_heartbeat_tries := n\<rparr>) = out_off st" "out_off (st\<lparr>send_lost := b\<rparr>) = out_off st"
  "out_geom (st\<lparr>last_sent := x\<rparr>) = out_geom st" "out_geom (st\<lparr>last_written := x\<rparr>) = out_geom st"
  "out_geom (st\<lparr>last_acknown := x\<rparr>) = out_geom st"
  "out_geom (st\<lparr>next_heartbeat_timestamp := t\<rparr>) = out_geom st"
  "out_geom (st\<lparr>next_heartbeat_tries := n\<rparr>) = out_geom st" "out_geom (st\<lparr>send_lost := b\<rparr>) = out_geom st"
  by (simp_all add: out_geom_def out_defs)

lemma dist_update [simp]:
  "k < 65536 \<Longrightarrow> sent_dist (st\<lparr>last_sent := out_seq st k\<rparr>) = k"
  "k < 65536 \<Longrightarrow> written_dist (st\<lparr>last_written := out_seq st k\<rparr>) = k"
  by (simp_all add: sent_dist_def written_dist_def out_seq_dist)

lemma out_inv_update:
  "out_inv (st\<lparr>next_heartbeat_timestamp := t\<rparr>) m = out_inv st m"
  "out_inv (st\<lparr>next_heartbeat_tries := n\<rparr>) m = out_inv st m"
  "out_inv (st\<lparr>send_lost := b\<rparr>) m = out_inv st m"
  by (simp_all add: out_inv_def)

lemma out_size_wrap: "out_geom st \<Longrightarrow> out_size st m (out_hist st + i) = out_size st m i"
  using out_slot_wrap [of st i] by (simp add: out_size_def get_size_eq)

lemma out_inv_send:
  assumes inv: "out_inv st m"
    and r: "uxr_prepare_next_reliable_buffer_to_send st m = (ok, r, st')"
  shows "out_inv st' m"
proof (cases "can_send st m")
  case False
  then show ?thesis using r inv by (simp add: next_to_send [OF inv])
next
  case True
  let ?s = "sent_dist st" and ?w = "written_dist st" and ?h = "out_hist st"
  let ?w' = "max (Suc (Suc ?s)) ?w"
  note g = out_geomD [OF out_invD(1) [OF inv]] and i = out_invD [OF inv]
  have st': "st' = st\<lparr>last_sent := out_seq st (Suc ?s), last_written := out_seq st ?w'\<rparr>"
    using r True by (simp add: next_to_send [OF inv])
  have w': "?w' \<le> ?h + 1"
    using True i(3,4) by (auto simp: can_send_def)
  have k: "?w' < 65536" "Suc ?s < 65536"
    using w' g(3) by auto
  have "sent_dist st' = Suc ?s" and wd: "written_dist st' = ?w'"
  proof -
    show "sent_dist st' = Suc ?s"
      using k(2) by (simp add: st' sent_dist_def out_seq_dist)
    show "written_dist st' = ?w'"
      using k(1) by (simp add: st' written_dist_def out_seq_dist)
  qed
  moreover have "out_off st < out_size st m j" if "0 < j" "j < ?w'" for j
  proof (cases "j < ?w")
    case False
    then have "j = ?w \<and> Suc ?s = ?w" using that i(3) by (auto simp: max_def split: if_splits)
    then show ?thesis using True by (simp add: can_send_def)
  qed (use that(1) i(5) in blast)
  moreover have "out_size st m j = out_off st" if "?w' < j" "j \<le> ?h" for j
    using that i(7) by simp
  moreover have "out_off st \<le> out_size st m ?w'" if "?w' \<le> ?h"
    using that i(6,7) by (cases "?w < ?w'") (auto simp: max_def)
  ultimately show ?thesis
    using i(1,2) w' unfolding out_inv_def by (simp add: st')
qed

lemma out_inv_cancel:
  assumes inv: "out_inv st m" and s: "0 < sent_dist st"
  shows "out_inv (uxr_cancel_reliable_buffer_to_send st (last_sent st) m) m"
    and "sent_dist (uxr_cancel_reliable_buffer_to_send st (last_sent st) m) = sent_dist st - 1"
proof -
  let ?s = "sent_dist st" and ?w = "written_dist st" and ?h = "out_hist st"
  let ?st = "uxr_cancel_reliable_buffer_to_send st (last_sent st) m"
  note g = out_geomD [OF out_invD(1) [OF inv]] and i = out_invD [OF inv]
  have ws: "?w < 65536" "?s < 65536" "?s - 1 < 65536" "Suc ?s < 65536"
    using i(3,4) g(3) by simp_all
  have nxt: "uxr_seq_num_add (last_sent st) 1 = out_seq st (Suc ?s)"
    by (simp add: sn.add_ring last_sent_seq [of st] out_seq_Suc)
  have prv: "uxr_seq_num_sub (last_sent st) 1 = out_seq st (?s - 1)"
    using s by (simp add: sn.sub_ring last_sent_seq [of st] out_seq_def)
  define closed where "closed \<longleftrightarrow> ?w = Suc ?s \<and> out_off st = out_size st m (Suc ?s)"
  have "last_written st = out_seq st (Suc ?s) \<longleftrightarrow> ?w = Suc ?s"
    unfolding last_written_seq using ws by (intro out_seq_inj)
  then have st: "?st = (if closed then st\<lparr>last_sent := out_seq st (?s - 1), last_written := out_seq st ?s\<rparr>
      else st\<lparr>last_sent := out_seq st (?s - 1)\<rparr>)"
    by (simp add: uxr_cancel_reliable_buffer_to_send_def Let_def nxt prv closed_def out_off_def
        out_size_def flip: last_sent_seq)
  have sd: "sent_dist ?st = ?s - 1"
    using ws by (simp add: st sent_dist_def out_seq_dist)
  then show "sent_dist ?st = ?s - 1" .
  show "out_inv ?st m"
  proof (cases closed)
    case False
    then show ?thesis
      using i sd s unfolding out_inv_def by (simp add: st) 
  next
    case True
    have "Suc ?s \<le> ?h"
    proof (rule ccontr)
      assume "\<not> Suc ?s \<le> ?h"
      then have "Suc ?s = ?h + 1" using True i(4) by (simp add: closed_def)
      then have "out_off st = out_size st m 1"
        using True out_size_wrap [OF i(1), of m 1] by (simp add: closed_def)
      moreover have "out_off st < out_size st m 1"
        using s True by (intro i(5)) (simp_all add: closed_def)
      ultimately show False by simp
    qed
    moreover have "written_dist ?st = ?s"
      using True ws by (simp add: st written_dist_def out_seq_dist)
    moreover have "out_size st m j = out_off st" if "?s < j" "j \<le> ?h" for j
      using that True i(7) [of j] by (cases "j = Suc ?s") (auto simp: closed_def)
    moreover have "out_off st < out_size st m ?s"
      using s i(3) by (intro i(5)) simp_all
    ultimately show ?thesis
      using i s sd True unfolding out_inv_def by (simp add: st less_imp_le)
  qed
qed

section \<open>Acknowledgement\<close>

lemma clean_acked_state: "fst (clean_acked k st m) = st\<lparr>last_acknown := out_seq st k\<rparr>"
proof (induction k arbitrary: st m)
  case 0
  then show ?case by (simp add: out_seq_def)
next
  case (Suc k)
  have "out_seq (st\<lparr>last_acknown := last_acknown st + 1\<rparr>) k = out_seq st (Suc k)"
    by (simp add: out_seq_def add.assoc)
  then show ?case
    by (simp add: Suc.IH Let_def sn.add_ring)
qed

lemma ex_Suc_le:
  "(\<exists>i. 0 < i \<and> i \<le> Suc k \<and> P i) \<longleftrightarrow> P (Suc 0) \<or> (\<exists>i. 0 < i \<and> i \<le> k \<and> P (Suc i))"
proof
  assume "\<exists>i. 0 < i \<and> i \<le> Suc k \<and> P i"
  then obtain i where "i \<le> k" "P (Suc i)"
    by (metis Suc_le_mono gr0_conv_Suc)
  then show "P (Suc 0) \<or> (\<exists>i. 0 < i \<and> i \<le> k \<and> P (Suc i))"
    by (cases i) auto
qed auto

lemma clean_acked_size:
  assumes "ok_stream (out_base st)"
  shows "uxr_get_reliable_buffer_size (out_base st) s (snd (clean_acked k st m)) =
    (if \<exists>i. 0 < i \<and> i \<le> k \<and> slot_of (out_base st) (out_seq st i) = slot_of (out_base st) s
     then out_off st else uxr_get_reliable_buffer_size (out_base st) s m)"
  using assms
proof (induction k arbitrary: st m)
  case 0
  then show ?case by simp
next
  case (Suc k)
  let ?st = "st\<lparr>last_acknown := last_acknown st + 1\<rparr>"
  let ?m = "uxr_set_reliable_buffer_size (out_base st) (last_acknown st + 1) (out_off st) m"
  have sq: "out_seq ?st i = out_seq st (Suc i)" for i
    by (simp add: out_seq_def add.assoc)
  have one: "out_seq st (Suc 0) = last_acknown st + 1"
    by (simp add: out_seq_def)
  have "out_off st < 2 ^ 32"
    unfolding out_off_def by (rule order.strict_trans [OF unat_u8_less]) simp
  note gs = get_set_size [OF Suc.prems this]
  have "clean_acked (Suc k) st m = clean_acked k ?st ?m"
    by (simp add: Let_def sn.add_ring out_off_def)
  then have "uxr_get_reliable_buffer_size (out_base st) s (snd (clean_acked (Suc k) st m)) =
      (if \<exists>i. 0 < i \<and> i \<le> k \<and> slot_of (out_base st) (out_seq st (Suc i)) = slot_of (out_base st) s
       then out_off st else uxr_get_reliable_buffer_size (out_base st) s ?m)"
    using Suc.IH [of ?st ?m] Suc.prems by (simp add: sq split del: if_split cong: if_cong)
  then show ?case
    unfolding ex_Suc_le one gs by (auto simp: out_off_def)
qed

lemma clean_acked_rd:
  assumes "ok_stream (out_base st)" and "uxr_get_reliable_buffer (out_base st) s \<le> a"
    and "a + n \<le> uxr_get_reliable_buffer (out_base st) s + uxr_get_reliable_buffer_capacity (out_base st)"
  shows "rd (snd (clean_acked k st m)) a n = rd m a n"
  using assms by (induction k arbitrary: st m) (simp_all add: Let_def rs.rd_set [where s = s])

text \<open>An acknowledgement is good when it does not go back and does not pass what was sent.\<close>

definition acked :: "uxrOutputReliableStream \<Rightarrow> uxrSeqNum \<Rightarrow> nat" where
  "acked st first_unacked = seq_dist (last_acknown st) (first_unacked - 1)"

lemma process_acknack:
  "uxr_process_acknack st bitmap f m =
    ((fst (clean_acked (acked st f) st m))\<lparr>send_lost := (0 < bitmap), next_heartbeat_tries := 0\<rparr>,
     snd (clean_acked (acked st f) st m))"
  by (simp add: uxr_process_acknack_def Let_def sn.sub_ring acked_def seq_dist_def case_prod_beta)

lemma acknack_dists:
  assumes "k \<le> sent_dist st" and "sent_dist st < written_dist st"
  shows "sent_dist (st\<lparr>last_acknown := out_seq st k\<rparr>) = sent_dist st - k"
    and "written_dist (st\<lparr>last_acknown := out_seq st k\<rparr>) = written_dist st - k"
proof -
  have "k < 65536"
    using assms(1) seq_dist_bound unfolding sent_dist_def by (rule order.strict_trans1)
  then have k: "seq_dist (last_acknown st) (out_seq st k) = k"
    by (rule out_seq_dist)
  show "sent_dist (st\<lparr>last_acknown := out_seq st k\<rparr>) = sent_dist st - k"
    using seq_dist_split [of "last_acknown st" "out_seq st k" "last_sent st"] k assms
    by (simp add: sent_dist_def)
  show "written_dist (st\<lparr>last_acknown := out_seq st k\<rparr>) = written_dist st - k"
    using seq_dist_split [of "last_acknown st" "out_seq st k" "last_written st"] k assms
    by (simp add: written_dist_def)
qed

lemma out_inv_acknack:
  assumes inv: "out_inv st m" and good: "acked st f \<le> sent_dist st"
    and r: "uxr_process_acknack st bitmap f m = (st', m')"
  shows "out_inv st' m'" and "last_acknown st' = f - 1"
    and "sent_dist st' = sent_dist st - acked st f" and "written_dist st' = written_dist st - acked st f"
    and "\<And>i. 0 < i \<Longrightarrow> acked st f + i \<le> out_hist st \<Longrightarrow> out_size st' m' i = out_size st m (acked st f + i)"
    and "\<And>i. out_hist st < acked st f + i \<Longrightarrow> i \<le> out_hist st \<Longrightarrow> out_size st' m' i = out_off st"
    and "last_sent st' = last_sent st" "last_written st' = last_written st" "out_base st' = out_base st"
    "header_offset st' = header_offset st"
proof -
  let ?k = "acked st f" and ?h = "out_hist st"
  note i = out_invD [OF inv] and g = out_geomD [OF out_invD(1) [OF inv]]
  have st': "st' = st\<lparr>last_acknown := out_seq st ?k, send_lost := (0 < bitmap), next_heartbeat_tries := 0\<rparr>"
    and m': "m' = snd (clean_acked ?k st m)"
    using r by (simp_all add: process_acknack clean_acked_state)
  have "out_seq st ?k = f - 1"
    by (simp add: acked_def flip: seq_of_dist)
  then show la: "last_acknown st' = f - 1" by (simp add: st')
  show "last_sent st' = last_sent st" "last_written st' = last_written st" "out_base st' = out_base st"
    "header_offset st' = header_offset st"
    by (simp_all add: st')
  show sd: "sent_dist st' = sent_dist st - ?k" and wd: "written_dist st' = written_dist st - ?k"
    using acknack_dists [OF good i(3)] by (simp_all add: st')
  have kh: "?k \<le> ?h"
    using good i(3,4) by simp
  have sq: "out_seq st' i = out_seq st (?k + i)" for i
    by (simp add: st' out_seq_def add.assoc)
  have sz: "out_size st' m' j = (if \<exists>i. 0 < i \<and> i \<le> ?k \<and>
        slot_of (out_base st) (out_seq st i) = slot_of (out_base st) (out_seq st (?k + j))
      then out_off st else out_size st m (?k + j))" for j
  proof -
    have "out_size st' m' j = uxr_get_reliable_buffer_size (out_base st) (out_seq st (?k + j)) m'"
      unfolding out_size_def sq by (simp add: st')
    then show ?thesis
      by (simp only: m' clean_acked_size [OF g(1)] out_size_def)
  qed
  show s1: "out_size st' m' j = out_size st m (?k + j)" if "0 < j" "?k + j \<le> ?h" for j
  proof -
    have "\<not> (\<exists>i. 0 < i \<and> i \<le> ?k \<and>
        slot_of (out_base st) (out_seq st i) = slot_of (out_base st) (out_seq st (?k + j)))"
      using that kh out_slot_inj [OF i(1), of _ "?k + j"] by auto
    then show ?thesis by (simp only: sz if_False)
  qed
  show s2: "out_size st' m' j = out_off st" if "?h < ?k + j" "j \<le> ?h" for j
  proof -
    have "0 < ?k + j - ?h" "?k + j - ?h \<le> ?k" "?h + (?k + j - ?h) = ?k + j"
      using that by auto
    then have "\<exists>i. 0 < i \<and> i \<le> ?k \<and>
        slot_of (out_base st) (out_seq st i) = slot_of (out_base st) (out_seq st (?k + j))"
      using out_slot_wrap [OF i(1), of "?k + j - ?h"] by metis
    then show ?thesis by (simp only: sz if_True)
  qed
  have fit: "slots_fit (out_base st) m'"
    unfolding slots_fit_def m' clean_acked_size [OF g(1)]
    using slots_fitD [OF i(2)] g(6) by (auto simp: out_cap_def)
  have hh: "out_hist st' = ?h" "out_off st' = out_off st" "out_geom st'"
    using i(1) by (simp_all add: st')
  show "out_inv st' m'"
    unfolding out_inv_def hh(1,2) sd wd
  proof (intro conjI allI impI)
    show "out_geom st'" by (rule hh)
    show "slots_fit (out_base st') m'" using fit by (simp add: st')
    show "sent_dist st - ?k < written_dist st - ?k" "written_dist st - ?k \<le> ?h + 1"
      using i(3,4) good by auto
  next
    fix j assume "0 < j \<and> j < written_dist st - ?k"
    then have "?k + j \<le> ?h" "?k + j < written_dist st" "0 < j"
      using i(4) by linarith+
    then show "out_off st < out_size st' m' j"
      using s1 [of j] i(5) [of "?k + j"] by simp
  next
    assume w: "written_dist st - ?k \<le> ?h"
    have "?k + (written_dist st - ?k) = written_dist st" "0 < written_dist st - ?k"
      using i(3) good by auto
    then show "out_off st \<le> out_size st' m' (written_dist st - ?k)"
      using s1 [of "written_dist st - ?k"] s2 [of "written_dist st - ?k"] i(6) w
      by (cases "written_dist st \<le> ?h") auto
  next
    fix j assume "written_dist st - ?k < j \<and> j \<le> ?h"
    then show "out_size st' m' j = out_off st"
      using s1 [of j] s2 [of j] i(7) [of "?k + j"] by (cases "?k + j \<le> ?h") auto
  qed
qed

section \<open>Writing\<close>

definition out_buf :: "uxrOutputReliableStream \<Rightarrow> nat \<Rightarrow> addr" where
  "out_buf st i = uxr_get_reliable_buffer (out_base st) (out_seq st i)"

text \<open>
  One slot is extended: bytes are written behind what it holds and its length is set. Between
  two states this is all that writing does, slot by slot.
\<close>

definition extend_slot ::
  "uxrOutputReliableStream \<Rightarrow> nat \<Rightarrow> nat \<Rightarrow> u8 list \<Rightarrow> nat \<Rightarrow> mem \<Rightarrow> mem"
where
  "extend_slot st i p bs z m =
     uxr_set_reliable_buffer_size (out_base st) (out_seq st i) z (wr m (out_buf st i + p) bs)"

definition extends :: "uxrOutputReliableStream \<Rightarrow> mem \<Rightarrow> mem \<Rightarrow> bool" where
  "extends st m m' \<longleftrightarrow> slots_fit (out_base st) m' \<and>
     (\<forall>i. 0 < i \<and> i \<le> out_hist st \<longrightarrow>
        rd m' (out_buf st i) (out_size st m i) = rd m (out_buf st i) (out_size st m i) \<and>
        out_size st m i \<le> out_size st m' i)"

lemma extends_refl: "slots_fit (out_base st) m \<Longrightarrow> extends st m m"
  by (simp add: extends_def)

lemma rd_prefix: "rd m a n = rd m' a n \<Longrightarrow> k \<le> n \<Longrightarrow> rd m a k = rd m' a k"
  by (metis rd_take)

lemma extends_trans:
  assumes "extends st m m1" and "extends st m1 m2"
  shows "extends st m m2"
proof -
  have "rd m2 (out_buf st i) (out_size st m i) = rd m (out_buf st i) (out_size st m i) \<and>
      out_size st m i \<le> out_size st m2 i" if "0 < i" "i \<le> out_hist st" for i
  proof -
    have 1: "rd m1 (out_buf st i) (out_size st m i) = rd m (out_buf st i) (out_size st m i)"
        "out_size st m i \<le> out_size st m1 i"
      using assms(1) that by (simp_all add: extends_def)
    have 2: "rd m2 (out_buf st i) (out_size st m1 i) = rd m1 (out_buf st i) (out_size st m1 i)"
        "out_size st m1 i \<le> out_size st m2 i"
      using assms(2) that by (simp_all add: extends_def)
    show ?thesis
      using 1 2 rd_prefix [OF 2(1) 1(2)] by simp
  qed
  then show ?thesis
    using assms(2) by (simp add: extends_def)
qed

lemma out_size_le_cap: "slots_fit (out_base st) m \<Longrightarrow> out_size st m i \<le> out_cap st"
  by (simp add: out_size_def out_cap_def slots_fitD)

lemma extend_slot_spec:
  assumes g: "out_geom st" and fit: "slots_fit (out_base st) m"
    and i: "0 < i" "i \<le> out_hist st"
    and p: "out_size st m i \<le> p" "p + length bs \<le> out_cap st"
    and z: "out_size st m i \<le> z" "z \<le> out_cap st"
  shows "0 < j \<Longrightarrow> j \<le> out_hist st \<Longrightarrow>
      out_size st (extend_slot st i p bs z m) j = (if j = i then z else out_size st m j)"
    and "extends st m (extend_slot st i p bs z m)"
    and "rd (extend_slot st i p bs z m) (out_buf st i + p) (length bs) = bs"
    and "\<lbrakk>0 < j; j \<le> out_hist st; j \<noteq> i; k + n \<le> out_cap st\<rbrakk> \<Longrightarrow>
      rd (extend_slot st i p bs z m) (out_buf st j + k) n = rd m (out_buf st j + k) n"
    and "changed_within m (extend_slot st i p bs z m) (buffer (out_base st))
      (buffer (out_base st) + stream_size (out_base st))"
proof -
  let ?b = "out_base st" and ?m = "wr m (out_buf st i + p) bs" and ?m' = "extend_slot st i p bs z m"
  note ok = out_geomD(1) [OF g]
  have in_slot: "out_buf st i \<le> out_buf st i + p" "out_buf st i + p + length bs \<le> out_buf st i + out_cap st"
    using p by simp_all
  have z32: "z < 2 ^ 32"
    using z(2) capacity_u32 [OF ok] by (simp add: out_cap_def)
  have s1: "uxr_get_reliable_buffer_size ?b s ?m = uxr_get_reliable_buffer_size ?b s m" for s
    using in_slot by (intro rs.get_wr [OF ok, where s = "out_seq st i"]) (simp_all add: out_buf_def out_cap_def)
  have size: "uxr_get_reliable_buffer_size ?b s ?m' =
      (if slot_of ?b (out_seq st i) = slot_of ?b s then z else uxr_get_reliable_buffer_size ?b s m)" for s
    unfolding extend_slot_def by (simp only: get_set_size [OF ok z32] s1)
  show sj: "out_size st ?m' j = (if j = i then z else out_size st m j)" if "0 < j" "j \<le> out_hist st" for j
    unfolding out_size_def size using out_slot_inj [OF g i that] by auto
  have rd1: "rd ?m' a n = rd ?m a n" if "out_buf st j \<le> a" "a + n \<le> out_buf st j + out_cap st" for a n j
    unfolding extend_slot_def using that
    by (intro rs.rd_set [OF ok, where s = "out_seq st j"]) (simp_all add: out_buf_def out_cap_def)
  show "rd ?m' (out_buf st i + p) (length bs) = bs"
    using rd1 [OF in_slot] by (simp add: rd_wr_same)
  show other: "rd ?m' (out_buf st j + k) n = rd m (out_buf st j + k) n"
    if "0 < j" "j \<le> out_hist st" "j \<noteq> i" "k + n \<le> out_cap st" for j k n
  proof -
    have "rd ?m' (out_buf st j + k) n = rd ?m (out_buf st j + k) n"
      using that by (intro rd1 [where j = j]) simp_all
    also have "\<dots> = rd m (out_buf st j + k) n"
      using that in_slot out_slot_inj [OF g i that(1,2)]
      by (intro rs.rd_wr_other [OF ok, of "out_seq st i" "out_seq st j"])
        (auto simp: slot_of_def out_buf_def out_cap_def)
    finally show ?thesis .
  qed
  have "slots_fit ?b ?m'"
    unfolding slots_fit_def size using slots_fitD [OF fit] z(2) by (auto simp: out_cap_def)
  moreover have "rd ?m' (out_buf st j) (out_size st m j) = rd m (out_buf st j) (out_size st m j)"
    if "0 < j" "j \<le> out_hist st" for j
  proof (cases "j = i")
    case True
    have "rd ?m' (out_buf st i) (out_size st m i) = rd ?m (out_buf st i) (out_size st m i)"
      using out_size_le_cap [OF fit] by (intro rd1 [where j = i]) simp_all
    also have "\<dots> = rd m (out_buf st i) (out_size st m i)"
      using p(1) by (intro rd_wr_disjoint) simp
    finally show ?thesis using True by simp
  next
    case False
    then show ?thesis
      using other [OF that False, of 0 "out_size st m j"] out_size_le_cap [OF fit] by simp
  qed
  ultimately show "extends st m ?m'"
    unfolding extends_def using sj z(1) by auto
  show "changed_within m ?m' (buffer ?b) (buffer ?b + stream_size ?b)"
    unfolding extend_slot_def
    using rs.data_in [OF ok, of "out_seq st i"] in_slot
    by (intro changed_within_trans [OF changed_within_wr rs.set_in [OF ok]])
      (auto simp: out_buf_def out_cap_def)
qed

text \<open>Slots are padded to a multiple of four before a submessage is added.\<close>

definition aligned :: "nat \<Rightarrow> nat" where
  "aligned z = z + pad z 4"

lemma aligned_props: "z \<le> aligned z" "aligned z < z + 4" "aligned z mod 4 = 0"
  "z mod 4 = 0 \<Longrightarrow> aligned z = z"
  by (simp_all add: aligned_def pad_less pad_aligns)

text \<open>A fragment header at the end of slot \<open>i\<close>.\<close>

definition frag_flags :: "ucdr \<Rightarrow> u8 \<Rightarrow> u8" where
  "frag_flags cdr flags = flags OR endianness_flag (UCDR_MACHINE_ENDIANNESS cdr)"

lemma put_fragment_header_eq:
  assumes cdr: "ucdr_ok cdr" and "aligned (out_size st m i) + 4 \<le> out_cap st"
  shows "uxr_set_reliable_buffer_size (out_base st) (out_seq st i) z
      (put_fragment_header cdr (out_base st) (out_seq st i) fs flags m) =
    extend_slot st i (aligned (out_size st m i))
      (header_bytes SUBMESSAGE_ID_FRAGMENT (frag_flags cdr flags) fs) z m"
proof -
  let ?ub = "ucdr_init_buffer_origin_offset cdr (out_buf st i) (out_cap st) 0 (out_size st m i)"
  have ub: "iterator ?ub = out_buf st i + out_size st m i" "offset ?ub = out_size st m i"
    "final ?ub = out_buf st i + out_cap st" "\<not> error ?ub"
    by (simp_all add: init_buffer_origin_offset [OF cdr])
  have "iterator ?ub + pad (offset ?ub) 4 + 4 \<le> final ?ub"
    using assms(2) ub by (simp add: aligned_def)
  from buffer_submessage_header [OF cdr ub(4) this, of SUBMESSAGE_ID_FRAGMENT fs flags m]
  show ?thesis
    by (simp add: put_fragment_header_def extend_slot_def frag_flags_def ub aligned_def add.assoc
        flip: out_buf_def out_cap_def out_size_def)
qed

lemma free_slots:
  assumes inv: "out_inv st m"
  shows "get_available_free_slots st m = out_hist st - written_dist st +
    (if written_dist st \<le> out_hist st \<and> out_size st m (written_dist st) = out_off st then 1 else 0)"
proof -
  let ?h = "out_hist st" and ?w = "written_dist st" and ?b = "out_base st"
  note i = out_invD [OF inv] and g = out_geomD [OF out_invD(1) [OF inv]]
  let ?f = "\<lambda>k. slot_of ?b (out_seq st k)"
  have inj: "inj_on ?f {1..?h}"
    using out_slot_inj [OF i(1)] by (auto simp: inj_on_def)
  have "?f ` {1..?h} \<subseteq> {..<?h}"
    using slot_less [OF g(1)] by (auto simp: out_hist_def)
  moreover have "card (?f ` {1..?h}) = card {..<?h}"
    using card_image [OF inj] by simp
  ultimately have img: "?f ` {1..?h} = {..<?h}"
    by (intro card_subset_eq) simp_all
  have sz: "uxr_get_reliable_buffer_size ?b (of_nat (?f k)) m = out_size st m k" for k
  proof -
    have "?f k < ?h" using slot_less [OF g(1)] by (simp add: out_hist_def)
    then have "slot_of ?b (of_nat (?f k)) = ?f k"
      using g(3) by (simp add: slot_of_def unat_of_nat out_hist_def)
    then show ?thesis by (simp add: get_size_eq out_size_def)
  qed
  have "get_available_free_slots st m =
      card {j. j < ?h \<and> uxr_get_reliable_buffer_size ?b (of_nat j) m = out_off st}"
    unfolding get_available_free_slots_def out_off_def out_hist_def
    by (subst length_filter_conv_card) (simp cong: conj_cong)
  also have "{j. j < ?h \<and> uxr_get_reliable_buffer_size ?b (of_nat j) m = out_off st} =
      ?f ` {k \<in> {1..?h}. out_size st m k = out_off st}"
  proof (intro equalityI subsetI)
    fix j assume j: "j \<in> {j. j < ?h \<and> uxr_get_reliable_buffer_size ?b (of_nat j) m = out_off st}"
    then have "j \<in> ?f ` {1..?h}" using img by simp
    then obtain k where "k \<in> {1..?h}" "j = ?f k" by blast
    then show "j \<in> ?f ` {k \<in> {1..?h}. out_size st m k = out_off st}"
      using j sz [of k] by auto
  next
    fix j assume "j \<in> ?f ` {k \<in> {1..?h}. out_size st m k = out_off st}"
    then show "j \<in> {j. j < ?h \<and> uxr_get_reliable_buffer_size ?b (of_nat j) m = out_off st}"
      using img sz by auto
  qed
  also have "card (?f ` {k \<in> {1..?h}. out_size st m k = out_off st}) =
      card {k \<in> {1..?h}. out_size st m k = out_off st}"
    by (intro card_image inj_on_subset [OF inj]) auto
  also have "{k \<in> {1..?h}. out_size st m k = out_off st} =
      {Suc ?w..?h} \<union> (if ?w \<le> ?h \<and> out_size st m ?w = out_off st then {?w} else {})" (is "?L = ?R")
  proof (intro equalityI subsetI)
    fix k assume k: "k \<in> ?L"
    then have "\<not> k < ?w" using i(5) [of k] by auto
    with k show "k \<in> ?R" by (cases "k = ?w") auto
  next
    fix k assume "k \<in> ?R"
    then show "k \<in> ?L" using i(3,7) by (auto split: if_splits)
  qed
  also have "card ?R = ?h - ?w + (if ?w \<le> ?h \<and> out_size st m ?w = out_off st then 1 else 0)"
    by auto
  finally show ?thesis .
qed

text \<open>The loop fills the slots from \<open>p\<close> on, each with a fragment header behind what it holds.\<close>

lemma fragment_loop_spec:
  assumes cdr: "ucdr_ok cdr" and g: "out_geom st" and fit: "slots_fit (out_base st) m"
    and p: "0 < p" "p + k \<le> Suc (out_hist st)" and al: "aligned (out_size st m p) + 4 \<le> out_cap st"
    and free: "\<And>j. p < j \<Longrightarrow> j < p + k \<Longrightarrow> out_size st m j = out_off st"
  shows "\<exists>m'. fragment_loop cdr (out_base st) blk k (out_seq st p) fs m = (out_seq st (p + k), m') \<and>
    extends st m m' \<and>
    changed_within m m' (buffer (out_base st)) (buffer (out_base st) + stream_size (out_base st)) \<and>
    (\<forall>j. 0 < j \<and> j \<le> out_hist st \<longrightarrow>
       out_size st m' j = (if p \<le> j \<and> j < p + k then out_cap st else out_size st m j)) \<and>
    (\<forall>j < k. rd m' (out_buf st (p + j) + (if j = 0 then aligned (out_size st m p) else out_off st)) 4 =
       header_bytes SUBMESSAGE_ID_FRAGMENT (frag_flags cdr 0) (of_nat (if j = 0 then fs else blk))) \<and>
    (\<forall>j a n. 0 < j \<and> j \<le> out_hist st \<and> \<not> (p \<le> j \<and> j < p + k) \<and> a + n \<le> out_cap st \<longrightarrow>
       rd m' (out_buf st j + a) n = rd m (out_buf st j + a) n)"
  using assms(3-)
proof (induction k arbitrary: p fs m)
  case 0
  then show ?case by (simp add: extends_refl)
next
  case (Suc k)
  let ?h = "out_hist st" and ?A = "aligned (out_size st m p)"
  let ?hb = "header_bytes SUBMESSAGE_ID_FRAGMENT (frag_flags cdr 0) (of_nat fs)"
  let ?m1 = "extend_slot st p ?A ?hb (out_cap st) m"
  have p: "0 < p" "p \<le> ?h" using Suc.prems(2,3) by simp_all
  note es = extend_slot_spec [OF g Suc.prems(1) p, of ?A ?hb "out_cap st"]
  have pre: "out_size st m p \<le> ?A" "?A + length ?hb \<le> out_cap st"
    "out_size st m p \<le> out_cap st" "out_cap st \<le> out_cap st"
    using aligned_props(1) Suc.prems(4) out_size_le_cap [OF Suc.prems(1)] by simp_all
  note es = es [OF pre]
  have step: "fragment_loop cdr (out_base st) blk (Suc k) (out_seq st p) fs m =
      fragment_loop cdr (out_base st) blk k (out_seq st (Suc p)) blk ?m1"
    using put_fragment_header_eq [OF cdr Suc.prems(4), of "out_cap st"]
    by (simp add: sn.add_ring out_seq_Suc out_cap_def)
  have fit1: "slots_fit (out_base st) ?m1"
    using es(2) by (simp add: extends_def)
  show ?case
  proof (cases k)
    case 0
    then show ?thesis
      using es step by (intro exI [of _ ?m1]) auto
  next
    case (Suc k')
    have Sp: "Suc p \<le> ?h" "out_size st m (Suc p) = out_off st"
      using Suc.prems(3) Suc.prems(5) [of "Suc p"] Suc by auto
    have s1: "out_size st ?m1 j = out_off st" if "p < j" "j < p + Suc k" for j
      using that es(1) [of j] Suc.prems(3,5) by simp
    have al1: "aligned (out_size st ?m1 (Suc p)) = out_off st"
      using s1 [of "Suc p"] Suc out_geomD(5) [OF g] by (simp add: aligned_props(4))
    have "aligned (out_size st ?m1 (Suc p)) + 4 \<le> out_cap st"
      using al1 out_geomD(6) [OF g] by simp
    from Suc.IH [OF fit1 _ _ this, of blk] s1 Suc.prems(3)
    obtain m' where m': "fragment_loop cdr (out_base st) blk k (out_seq st (Suc p)) blk ?m1 =
        (out_seq st (Suc p + k), m')"
      "extends st ?m1 m'"
      "changed_within ?m1 m' (buffer (out_base st)) (buffer (out_base st) + stream_size (out_base st))"
      "\<forall>j. 0 < j \<and> j \<le> ?h \<longrightarrow>
         out_size st m' j = (if Suc p \<le> j \<and> j < Suc p + k then out_cap st else out_size st ?m1 j)"
      "\<forall>j < k. rd m' (out_buf st (Suc p + j) + (if j = 0 then aligned (out_size st ?m1 (Suc p)) else out_off st)) 4 =
         header_bytes SUBMESSAGE_ID_FRAGMENT (frag_flags cdr 0) (of_nat (if j = 0 then blk else blk))"
      "\<forall>j a n. 0 < j \<and> j \<le> ?h \<and> \<not> (Suc p \<le> j \<and> j < Suc p + k) \<and> a + n \<le> out_cap st \<longrightarrow>
         rd m' (out_buf st j + a) n = rd ?m1 (out_buf st j + a) n"
      by fastforce
    show ?thesis
    proof (intro exI [of _ m'] conjI allI impI)
      show "fragment_loop cdr (out_base st) blk (Suc k) (out_seq st p) fs m = (out_seq st (p + Suc k), m')"
        unfolding step m'(1) by simp
      show "extends st m m'" by (rule extends_trans [OF es(2) m'(2)])
      show "changed_within m m' (buffer (out_base st)) (buffer (out_base st) + stream_size (out_base st))"
        by (rule changed_within_trans [OF es(5) m'(3)])
    next
      fix j assume j: "0 < j \<and> j \<le> ?h"
      then show "out_size st m' j = (if p \<le> j \<and> j < p + Suc k then out_cap st else out_size st m j)"
        using m'(4) es(1) [of j] by auto
    next
      fix j assume j: "j < Suc k"
      show "rd m' (out_buf st (p + j) + (if j = 0 then ?A else out_off st)) 4 =
          header_bytes SUBMESSAGE_ID_FRAGMENT (frag_flags cdr 0) (of_nat (if j = 0 then fs else blk))"
      proof (cases j)
        case 0
        have "rd m' (out_buf st p + ?A) 4 = rd ?m1 (out_buf st p + ?A) 4"
          using m'(6) p Suc.prems(4) by auto
        then show ?thesis using es(3) 0 by simp
      next
        case (Suc j')
        then show ?thesis using m'(5) [rule_format, of j'] j al1 by (simp split: if_splits)
      qed
    next
      fix j a n
      assume j: "0 < j \<and> j \<le> ?h \<and> \<not> (p \<le> j \<and> j < p + Suc k) \<and> a + n \<le> out_cap st"
      then have "rd m' (out_buf st j + a) n = rd ?m1 (out_buf st j + a) n"
        using m'(6) by auto
      also have "\<dots> = rd m (out_buf st j + a) n"
        using j by (intro es(4)) auto
      finally show "rd m' (out_buf st j + a) n = rd m (out_buf st j + a) n" .
    qed
  qed
qed

lemma size_add_small: "a + b < 2 ^ 63 + 2 ^ 62 \<Longrightarrow> size_add a b = a + b"
  by (simp add: size_add_eq)

lemma out_size_u16: "out_inv st m \<Longrightarrow> out_size st m i < 65536"
  using out_size_le_cap [of st m i] out_geomD(7) [of st] by (auto simp: out_inv_def)

lemma last_available:
  assumes inv: "out_inv st m" and "k \<le> out_hist st + 2"
  shows "0 \<ge> uxr_seq_num_cmp (out_seq st k) (uxr_seq_num_add (last_acknown st) (history (out_base st)))
    \<longleftrightarrow> k \<le> out_hist st"
proof -
  have h: "unat (history (out_base st)) < 32767"
    using out_geomD(3) [OF out_invD(1) [OF inv]] by (simp add: out_hist_def)
  have d: "seq_dist (last_acknown st) (out_seq st k) = k"
    using assms(2) h by (intro out_seq_dist) (simp add: out_hist_def)
  show ?thesis
  proof (cases "k < 32768")
    case True
    then show ?thesis
      using sn.window_le [of "history (out_base st)" "last_acknown st" "out_seq st k"] d h
      by (simp add: out_hist_def)
  next
    case False
    then have k: "k = 32768" and hh: "out_hist st = 32766"
      using assms(2) h by (simp_all add: out_hist_def)
    then show ?thesis
      using out_geomD(2) [OF out_invD(1) [OF inv]] by simp
  qed
qed

abbreviation write_size :: "uxrOutputReliableStream \<Rightarrow> mem \<Rightarrow> nat" where
  "write_size st m \<equiv> aligned (out_size st m (written_dist st))"

text \<open>The values the code computes before it branches.\<close>

lemma write_locals:
  assumes inv: "out_inv st m" and cdr: "ucdr_ok cdr" and len: "len < 2 ^ 63"
  shows "uxr_get_reliable_buffer_size (out_base st) (last_written st) m = out_size st m (written_dist st)"
    and "size_add (out_size st m (written_dist st)) (ucdr_alignment cdr (out_size st m (written_dist st)) 4) =
      write_size st m"
    and "size_add (write_size st m) len = write_size st m + len"
    and "size_add (unat (header_offset st)) len = out_off st + len"
    and "cast_u16 (size_sub (out_cap st) (cast_u16 (unat (header_offset st) + SUBHEADER_SIZE))) =
      out_cap st - out_off st - 4"
    and "size_add (write_size st m) SUBHEADER_SIZE = write_size st m + 4"
    and "write_size st m < 65540"
proof -
  let ?w = "written_dist st"
  note g = out_geomD [OF out_invD(1) [OF inv]]
  show a: "write_size st m < 65540"
    using out_size_u16 [OF inv, of ?w] aligned_props(2) [of "out_size st m ?w"] by simp
  show "uxr_get_reliable_buffer_size (out_base st) (last_written st) m = out_size st m ?w"
    by (simp add: out_size_def flip: last_written_seq)
  show "size_add (out_size st m ?w) (ucdr_alignment cdr (out_size st m ?w) 4) = write_size st m"
    using a by (simp add: alignment [OF cdr] size_add_small aligned_def)
  show "size_add (write_size st m) len = write_size st m + len"
    using a len by (intro size_add_small) simp
  show "size_add (unat (header_offset st)) len = out_off st + len"
    using len g(6,7) by (subst size_add_small) (simp_all add: out_off_def)
  show "cast_u16 (size_sub (out_cap st) (cast_u16 (unat (header_offset st) + SUBHEADER_SIZE))) =
      out_cap st - out_off st - 4"
    using g(6,7) by (simp add: cast_u16_eq size_sub_eq SUBHEADER_SIZE_def out_off_def)
  show "size_add (write_size st m) SUBHEADER_SIZE = write_size st m + 4"
    using a by (simp add: size_add_small SUBHEADER_SIZE_def)
qed

text \<open>The message fits behind what the slot being written holds.\<close>

lemma write_same_slot:
  assumes inv: "out_inv st m" and cdr: "ucdr_ok cdr" and len: "len < 2 ^ 63"
    and fits: "write_size st m + len \<le> out_cap st"
  shows "uxr_prepare_reliable_buffer_to_write cdr self st len ub m =
    (if written_dist st \<le> out_hist st
     then (True, st,
           ucdr_init_buffer_origin_offset cdr (out_buf st (written_dist st)) (write_size st m + len) 0
             (write_size st m),
           extend_slot st (written_dist st) (write_size st m) [] (write_size st m + len) m)
     else (False, st, ub, m))"
proof -
  note L = write_locals [OF inv cdr len] and g = out_geomD [OF out_invD(1) [OF inv]]
  have "written_dist st \<le> out_hist st + 2"
    using out_invD(4) [OF inv] by simp
  note av = last_available [OF inv this, folded last_written_seq]
  have c: "cast_u32 (write_size st m + len) = write_size st m + len" "cast_u32 (write_size st m) = write_size st m"
    using fits g(7) by (simp_all add: cast_u32_eq)
  show ?thesis
    unfolding uxr_prepare_reliable_buffer_to_write_def Let_def
    using fits c by (simp only: L av out_cap_def [symmetric] if_True)
      (simp add: L extend_slot_def out_buf_def flip: last_written_seq)
qed

text \<open>It fits an empty slot, the next one.\<close>

lemma write_next_slot:
  assumes inv: "out_inv st m" and cdr: "ucdr_ok cdr" and len: "len < 2 ^ 63"
    and full: "out_cap st < write_size st m + len" and fits: "out_off st + len \<le> out_cap st"
  shows "uxr_prepare_reliable_buffer_to_write cdr self st len ub m =
    (if Suc (written_dist st) \<le> out_hist st
     then (True, st\<lparr>last_written := out_seq st (Suc (written_dist st))\<rparr>,
           ucdr_init_buffer_origin_offset cdr (out_buf st (Suc (written_dist st))) (out_off st + len) 0
             (out_off st),
           extend_slot st (Suc (written_dist st)) (out_off st) [] (out_off st + len) m)
     else (False, st, ub, m))"
proof -
  note L = write_locals [OF inv cdr len] and g = out_geomD [OF out_invD(1) [OF inv]]
  have nx: "uxr_seq_num_add (last_written st) 1 = out_seq st (Suc (written_dist st))"
    by (simp add: sn.add_ring last_written_seq [of st] out_seq_Suc)
  have "Suc (written_dist st) \<le> out_hist st + 2"
    using out_invD(4) [OF inv] by simp
  note av = last_available [OF inv this]
  have c: "cast_u32 (out_off st + len) = out_off st + len"
    using fits g(7) by (simp add: cast_u32_eq)
  have "\<not> write_size st m + len \<le> out_cap st" using full by simp
  then show ?thesis
    unfolding uxr_prepare_reliable_buffer_to_write_def Let_def
    using fits c by (simp only: L nx av out_cap_def [symmetric] if_True if_False)
      (simp add: L extend_slot_def out_buf_def out_off_def)
qed

section \<open>Fragmentation\<close>

text \<open>
  The geometry of a fragmented write: the slot and the place in it where the first fragment
  goes, the sizes of the first and of the last fragment, and the number of full fragments.
\<close>

definition frag_block :: "uxrOutputReliableStream \<Rightarrow> nat" where
  "frag_block st = out_cap st - out_off st - 4"

definition frag_skip :: "uxrOutputReliableStream \<Rightarrow> mem \<Rightarrow> bool" where
  "frag_skip st m \<longleftrightarrow> out_cap st \<le> write_size st m + 4"

definition frag_slot :: "uxrOutputReliableStream \<Rightarrow> mem \<Rightarrow> nat" where
  "frag_slot st m = (if frag_skip st m then Suc (written_dist st) else written_dist st)"

definition frag_start :: "uxrOutputReliableStream \<Rightarrow> mem \<Rightarrow> nat" where
  "frag_start st m = (if frag_skip st m then out_off st else write_size st m)"

definition frag_first :: "uxrOutputReliableStream \<Rightarrow> mem \<Rightarrow> nat" where
  "frag_first st m = out_cap st - frag_start st m - 4"

definition frag_count :: "uxrOutputReliableStream \<Rightarrow> mem \<Rightarrow> nat \<Rightarrow> nat" where
  "frag_count st m len = (len - frag_first st m + frag_block st - 1) div frag_block st"

definition frag_last :: "uxrOutputReliableStream \<Rightarrow> mem \<Rightarrow> nat \<Rightarrow> nat" where
  "frag_last st m len = len - frag_first st m - (frag_count st m len - 1) * frag_block st"

lemma ceil_div:
  fixes b r :: nat
  assumes "0 < b" and "0 < r"
  shows "(r + b - 1) div b = (if r mod b = 0 then r div b else r div b + 1)"
    and "r - ((r + b - 1) div b - 1) * b = (if r mod b = 0 then b else r mod b)"
proof -
  define q t where "q = r div b" and "t = r mod b"
  have r: "r = q * b + t" "t < b"
    using assms mod_less_divisor [of b r] div_mult_mod_eq [of r b] unfolding q_def t_def by metis+
  show "(r + b - 1) div b = (if r mod b = 0 then r div b else r div b + 1)"
  proof (cases "t = 0")
    case True
    then have "0 < q" using assms r by (cases q) auto
    then have "r + b - 1 = q * b + (b - 1)" using True r assms by simp
    then have "(r + b - 1) div b = q" using assms by (simp only: div_mult_self3) simp
    then show ?thesis using True by (simp add: q_def t_def)
  next
    case False
    then have "r + b - 1 = (q + 1) * b + (t - 1)" using r by (simp add: algebra_simps)
    then have "(r + b - 1) div b = q + 1" using assms r(2) by (simp only: div_mult_self3) simp
    then show ?thesis using False by (simp add: q_def t_def)
  qed
  then have c: "(r + b - 1) div b = (if t = 0 then q else q + 1)"
    by (simp only: q_def t_def)
  show "r - ((r + b - 1) div b - 1) * b = (if r mod b = 0 then b else r mod b)"
  proof (cases "t = 0")
    case True
    then have "0 < q" using assms r by (cases q) auto
    then obtain q' where "q = Suc q'" by (cases q) auto
    then show ?thesis using True r c by (simp flip: t_def)
  next
    case False
    then show ?thesis using r c by (simp flip: t_def)
  qed
qed

text \<open>A message that needs fragments, and for which the first test of free slots succeeds.\<close>

definition frag_case :: "uxrOutputReliableStream \<Rightarrow> mem \<Rightarrow> nat \<Rightarrow> bool" where
  "frag_case st m len \<longleftrightarrow> out_cap st < write_size st m + len \<and> out_cap st < out_off st + len \<and>
     len \<le> frag_block st * get_available_free_slots st m"

lemma frag_geometry:
  assumes inv: "out_inv st m" and fc: "frag_case st m len"
  shows "0 < frag_block st" and "frag_slot st m \<le> out_hist st"
    and "out_size st m (frag_slot st m) \<le> frag_start st m"
    and "aligned (out_size st m (frag_slot st m)) = frag_start st m"
    and "frag_start st m + 4 < out_cap st" and "out_off st \<le> frag_start st m"
    and "frag_first st m < len"
    and "frag_count st m len \<le> get_available_free_slots st m \<Longrightarrow>
      frag_slot st m + frag_count st m len \<le> out_hist st"
    and "0 < frag_count st m len"
    and "frag_first st m + (frag_count st m len - 1) * frag_block st + frag_last st m len = len"
    and "0 < frag_last st m len" and "frag_last st m len \<le> frag_block st"
    and "\<And>j. frag_slot st m < j \<Longrightarrow> j \<le> out_hist st \<Longrightarrow> out_size st m j = out_off st"
proof -
  let ?w = "written_dist st" and ?h = "out_hist st" and ?f = "get_available_free_slots st m"
  let ?b = "frag_block st" and ?c = "out_cap st" and ?o = "out_off st" and ?p = "frag_slot st m"
  note i = out_invD [OF inv] and g = out_geomD [OF out_invD(1) [OF inv]]
  have len: "?c < write_size st m + len" "?c < ?o + len" "len \<le> ?b * ?f"
    using fc by (simp_all add: frag_case_def)
  show b0: "0 < ?b" using g(6) by (simp add: frag_block_def)
  have f0: "0 < ?f" using len g(6) by (cases ?f) auto
  have free: "?f = ?h - ?w + (if ?w \<le> ?h \<and> out_size st m ?w = ?o then 1 else 0)"
    by (rule free_slots [OF inv])
  have fresh: "\<not> frag_skip st m" if "out_size st m ?w = ?o"
    using that g(5,6) by (simp add: frag_skip_def aligned_props(4))
  have skip: "Suc ?w \<le> ?h \<and> ?f = ?h - ?w" if "frag_skip st m"
    using that fresh free f0 by (auto split: if_splits)
  show ph: "?p \<le> ?h"
    using skip f0 free by (auto simp: frag_slot_def split: if_splits)
  show beyond: "out_size st m j = ?o" if "?p < j" "j \<le> ?h" for j
    using that i(7) by (auto simp: frag_slot_def split: if_splits)
  show al: "aligned (out_size st m ?p) = frag_start st m"
    using skip i(7) [of "Suc ?w"] g(5)
    by (auto simp: frag_slot_def frag_start_def aligned_props(4))
  then show "out_size st m ?p \<le> frag_start st m"
    using aligned_props(1) by metis
  show st4: "frag_start st m + 4 < ?c"
    using g(6) by (auto simp: frag_start_def frag_skip_def)
  have wo: "?o \<le> out_size st m ?w" if "?w \<le> ?h"
    using i(6) that by simp
  show so: "?o \<le> frag_start st m"
  proof (cases "frag_skip st m")
    case False
    then have "?w \<le> ?h" using ph by (simp add: frag_slot_def)
    then show ?thesis
      using wo False aligned_props(1) [of "out_size st m ?w"] by (simp add: frag_start_def)
  qed (simp add: frag_start_def)
  show fl: "frag_first st m < len"
    using so len(2) st4 by (simp add: frag_first_def)
  define r where "r = len - frag_first st m"
  have r0: "0 < r" using fl by (simp add: r_def)
  note cd = ceil_div [OF b0 r0]
  have cnt: "frag_count st m len = (if r mod ?b = 0 then r div ?b else r div ?b + 1)"
    using cd(1) by (simp add: frag_count_def r_def)
  have lst: "frag_last st m len = (if r mod ?b = 0 then ?b else r mod ?b)"
    using cd(2) by (simp add: frag_last_def frag_count_def r_def)
  show c0: "0 < frag_count st m len"
    using r0 div_mult_mod_eq [of r ?b] by (cases "r div ?b") (auto simp: cnt)
  show "0 < frag_last st m len" "frag_last st m len \<le> ?b"
    using b0 by (auto simp: lst less_imp_le)
  have "(frag_count st m len - 1) * ?b \<le> r div ?b * ?b"
    by (intro mult_le_mono1) (simp add: cnt)
  also have "\<dots> \<le> r" by simp
  finally have "(frag_count st m len - 1) * ?b \<le> r" .
  then show "frag_first st m + (frag_count st m len - 1) * ?b + frag_last st m len = len"
    using fl by (simp add: frag_last_def r_def)
  assume k: "frag_count st m len \<le> ?f"
  show "?p + frag_count st m len \<le> ?h"
  proof (cases "?p \<le> ?h \<and> out_size st m ?p = ?o")
    case False
    then have "?p = ?w" "?f = ?h - ?w"
      using skip ph free i(7) by (auto simp: frag_slot_def split: if_splits)
    then show ?thesis using k ph by simp
  next
    case True
    then have f: "?f = ?h - ?p + 1" and s: "frag_start st m = ?o"
      using skip free al g(5) by (auto simp: frag_slot_def aligned_props(4) split: if_splits)
    have ff: "frag_first st m = ?b"
      using s by (simp add: frag_first_def frag_block_def)
    have "r + ?b \<le> ?b * ?f"
      using len(3) fl ff by (simp add: r_def)
    then have "r \<le> ?b * (?h - ?p)"
      using f by (simp add: algebra_simps)
    then have "r + ?b - 1 < ?b * Suc (?h - ?p)"
      using b0 by simp
    then have "frag_count st m len < Suc (?h - ?p)"
      by (simp add: frag_count_def r_def less_mult_imp_div_less mult.commute)
    then show ?thesis using ph by simp
  qed
qed

lemma write_fragments:
  assumes inv: "out_inv st m" and cdr: "ucdr_ok cdr" and len: "len < 2 ^ 63"
    and fc: "frag_case st m len"
  defines "p \<equiv> frag_slot st m" and "k \<equiv> frag_count st m len"
  shows "uxr_prepare_reliable_buffer_to_write cdr self st len ub m =
    (if k \<le> get_available_free_slots st m
     then (True, st\<lparr>last_written := out_seq st (p + k)\<rparr>,
           ucdr_set_on_full_buffer_callback cdr (Some on_full_output_buffer_cb) (Some self)
             (ucdr_init_buffer cdr (out_buf st p + frag_start st m + 4) (frag_first st m)),
           extend_slot st (p + k) (out_off st)
             (header_bytes SUBMESSAGE_ID_FRAGMENT (frag_flags cdr FLAG_LAST_FRAGMENT)
                (of_nat (frag_last st m len)))
             (out_off st + 4 + frag_last st m len)
             (snd (fragment_loop cdr (out_base st) (frag_block st) k (out_seq st p) (frag_first st m) m)))
     else (False, st, ub, m))"
proof -
  note L = write_locals [OF inv cdr len] and g = out_geomD [OF out_invD(1) [OF inv]]
  note G = frag_geometry [OF inv fc]
  have len1: "out_cap st < write_size st m + len" "out_cap st < out_off st + len"
    "len \<le> frag_block st * get_available_free_slots st m"
    using fc by (simp_all add: frag_case_def)
  have c1: "\<not> write_size st m + len \<le> out_cap st" and c2: "\<not> out_off st + len \<le> out_cap st"
    using len1 by simp_all
  have f: "get_available_free_slots st m < 32768"
    unfolding free_slots [OF inv] using g(3) out_invD(3) [OF inv] by auto
  have blk: "cast_u16 (size_sub (out_cap st) (cast_u16 (unat (header_offset st) + SUBHEADER_SIZE))) = frag_block st"
    unfolding L(5) frag_block_def ..
  have b16: "frag_block st < 65536"
    using g(7) by (simp add: frag_block_def)
  have "frag_block st * get_available_free_slots st m \<le> 65536 * 32768"
    using f b16 by (intro mult_le_mono) simp_all
  then have c3: "len \<le> size_mul (frag_block st) (get_available_free_slots st m)"
    using len1(3) by (subst size_mul_eq) simp_all
  have nx: "uxr_seq_num_add (last_written st) 1 = out_seq st (Suc (written_dist st))"
    by (simp add: sn.add_ring last_written_seq [of st] out_seq_Suc)
  have sk: "(out_cap st \<le> write_size st m + 4) = frag_skip st m"
    by (simp add: frag_skip_def)
  have sq: "(if frag_skip st m then out_seq st (Suc (written_dist st)) else last_written st) = out_seq st p"
    by (simp add: p_def frag_slot_def last_written_seq [of st])
  have bf: "(if frag_skip st m then uxr_get_reliable_buffer (out_base st) (out_seq st p)
      else uxr_get_reliable_buffer (out_base st) (last_written st)) = out_buf st p"
    by (simp add: p_def frag_slot_def out_buf_def flip: last_written_seq)
  have bs: "(if frag_skip st m then uxr_get_reliable_buffer_size (out_base st) (out_seq st p) m
      else write_size st m) = frag_start st m"
    using G(2) out_invD(7) [OF inv, of "Suc (written_dist st)"]
    by (auto simp: p_def frag_slot_def frag_start_def split: if_splits simp flip: out_size_def)
  have c16: "cast_u16 (size_sub (out_cap st) (cast_u16 (size_add (frag_start st m) SUBHEADER_SIZE))) =
      frag_first st m"
    using G(5) g(7) by (simp add: size_add_small SUBHEADER_SIZE_def cast_u16_eq size_sub_eq frag_first_def)
  have rem: "size_sub len (frag_first st m) = len - frag_first st m"
    using G(7) len by (simp add: size_sub_eq)
  define r where "r = len - frag_first st m"
  have "0 < r" using G(7) by (simp add: r_def)
  note cd = ceil_div [OF G(1) this]
  have "r div frag_block st \<le> get_available_free_slots st m"
    using len1(3) by (simp add: r_def div_le_mono less_eq_div_iff_mult_less_eq G(1) mult.commute
        div_less_iff_less_mult order_trans [OF div_le_mono [of _ "frag_block st * get_available_free_slots st m"]])
  then have cnt: "cast_u16 (if r mod frag_block st = 0 then r div frag_block st else r div frag_block st + 1) = k"
    using cd(1) f by (simp add: cast_u16_eq k_def frag_count_def r_def)
  have lst: "(if r mod frag_block st = 0 then frag_block st else r mod frag_block st) = frag_last st m len"
    using cd(2) by (simp add: frag_last_def frag_count_def r_def)
  have l16: "size_add (unat (header_offset st) + SUBHEADER_SIZE) (frag_last st m len) =
      out_off st + 4 + frag_last st m len"
    using G(12) b16 g(6,7) by (subst size_add_small) (simp_all add: SUBHEADER_SIZE_def out_off_def)
  have e32: "cast_u32 (size_sub (size_sub (out_cap st) (frag_start st m)) SUBHEADER_SIZE) = frag_first st m"
    using G(5) g(7) by (simp add: size_sub_eq cast_u32_eq SUBHEADER_SIZE_def frag_first_def)
  show ?thesis
  proof (cases "k \<le> get_available_free_slots st m")
    case False
    then show ?thesis
      unfolding uxr_prepare_reliable_buffer_to_write_def Let_def
      using c1 c2 c3 by (simp only: L(1-4,6) blk nx sk sq bf bs c16 rem r_def [symmetric] cnt lst
          out_cap_def [symmetric] if_True if_False simp_thms)
  next
    case True
    have ph: "p + k \<le> out_hist st"
      using G(8) True by (simp add: p_def k_def)
    obtain m1 where m1: "fragment_loop cdr (out_base st) (frag_block st) k (out_seq st p) (frag_first st m) m =
        (out_seq st (p + k), m1)"
      and sz: "\<forall>j. 0 < j \<and> j \<le> out_hist st \<longrightarrow>
         out_size st m1 j = (if p \<le> j \<and> j < p + k then out_cap st else out_size st m j)"
    proof -
      have "0 < p" using out_invD(3) [OF inv] by (simp add: p_def frag_slot_def)
      then show ?thesis
        using fragment_loop_spec [OF cdr out_invD(1,2) [OF inv], of p k "frag_block st" "frag_first st m"]
          G(4,5,13) ph that by (fastforce simp: p_def)
    qed
    have "out_size st m1 (p + k) = out_off st"
      using sz ph G(9,13) by (simp add: p_def k_def)
    then have a: "aligned (out_size st m1 (p + k)) = out_off st"
      using g(5) by (simp add: aligned_props(4))
    have "aligned (out_size st m1 (p + k)) + 4 \<le> out_cap st"
      using a g(6) by simp
    note pf = put_fragment_header_eq [OF cdr this, unfolded a]
    show ?thesis
      unfolding uxr_prepare_reliable_buffer_to_write_def Let_def
      using c1 c2 c3 True
      by (simp only: L(1-4,6) blk nx sk sq bf bs c16 rem r_def [symmetric] cnt lst l16 e32 m1
          out_cap_def [symmetric] if_True if_False simp_thms prod.case pf snd_conv)
        (simp add: SUBHEADER_SIZE_def)
  qed
qed

section \<open>Writing keeps the invariant and disturbs nothing\<close>

lemma write_refused:
  assumes inv: "out_inv st m" and cdr: "ucdr_ok cdr" and len: "len < 2 ^ 63"
    and no: "out_cap st < write_size st m + len" "out_cap st < out_off st + len" "\<not> frag_case st m len"
  shows "uxr_prepare_reliable_buffer_to_write cdr self st len ub m = (False, st, ub, m)"
proof -
  note L = write_locals [OF inv cdr len] and g = out_geomD [OF out_invD(1) [OF inv]]
  have f: "get_available_free_slots st m < 32768"
    unfolding free_slots [OF inv] using g(3) out_invD(3) [OF inv] by auto
  have blk: "cast_u16 (size_sub (out_cap st) (cast_u16 (unat (header_offset st) + SUBHEADER_SIZE))) = frag_block st"
    unfolding L(5) frag_block_def ..
  have "frag_block st * get_available_free_slots st m \<le> 65536 * 32768"
    using f g(7) by (intro mult_le_mono) (simp_all add: frag_block_def)
  then have c: "\<not> len \<le> size_mul (frag_block st) (get_available_free_slots st m)"
    using no by (subst size_mul_eq) (simp_all add: frag_case_def)
  have "\<not> write_size st m + len \<le> out_cap st" "\<not> out_off st + len \<le> out_cap st"
    using no by simp_all
  then show ?thesis
    unfolding uxr_prepare_reliable_buffer_to_write_def Let_def
    using c by (simp only: L(1-4,6) blk out_cap_def [symmetric] if_False)
qed

lemma out_inv_written:
  assumes inv: "out_inv st m" and w: "written_dist st \<le> w" "w \<le> out_hist st"
    and fit: "slots_fit (out_base st) m'"
    and before: "\<And>i. 0 < i \<Longrightarrow> i < written_dist st \<Longrightarrow> out_size st m' i = out_size st m i"
    and filled: "\<And>i. written_dist st \<le> i \<Longrightarrow> i < w \<Longrightarrow> out_off st < out_size st m' i"
    and open': "out_off st \<le> out_size st m' w"
    and beyond: "\<And>i. w < i \<Longrightarrow> i \<le> out_hist st \<Longrightarrow> out_size st m' i = out_size st m i"
  shows "out_inv (st\<lparr>last_written := out_seq st w\<rparr>) m'"
proof -
  note i = out_invD [OF inv] and g = out_geomD [OF out_invD(1) [OF inv]]
  have "written_dist (st\<lparr>last_written := out_seq st w\<rparr>) = w"
    using w(2) g(3) by simp
  moreover have "out_off st < out_size st m' j" if "0 < j" "j < w" for j
    using that i(5) before filled by (cases "j < written_dist st") auto
  ultimately show ?thesis
    using i w fit open' beyond unfolding out_inv_def by simp
qed

definition only_written :: "uxrOutputReliableStream \<Rightarrow> uxrOutputReliableStream \<Rightarrow> bool" where
  "only_written st st' \<longleftrightarrow> (\<exists>s. st' = st\<lparr>last_written := s\<rparr>)"

lemma last_written_self: "st\<lparr>last_written := out_seq st (written_dist st)\<rparr> = st"
  by (simp flip: last_written_seq)

text \<open>What every granted reservation guarantees.\<close>

definition safe_write ::
  "uxrOutputReliableStream \<Rightarrow> mem \<Rightarrow> uxrOutputReliableStream \<Rightarrow> ucdrBuffer \<Rightarrow> mem \<Rightarrow> bool"
where
  "safe_write st m st' ub' m' \<longleftrightarrow> out_inv st' m' \<and> only_written st st' \<and> extends st m m' \<and>
    (\<forall>i. 0 < i \<and> i < written_dist st \<longrightarrow> out_size st m' i = out_size st m i) \<and>
    changed_within m m' (buffer (out_base st)) (buffer (out_base st) + stream_size (out_base st)) \<and>
    (\<exists>j. written_dist st \<le> j \<and> j \<le> out_hist st \<and>
        out_buf st j + out_size st m j \<le> iterator ub' \<and> iterator ub' < final ub' \<and>
        final ub' \<le> out_buf st j + out_size st' m' j)"

lemma out_write_same:
  assumes inv: "out_inv st m" and cdr: "ucdr_ok cdr" and len: "0 < len" "len < 2 ^ 63"
    and same: "write_size st m + len \<le> out_cap st"
    and True: "written_dist st \<le> out_hist st"
    and r: "uxr_prepare_reliable_buffer_to_write cdr self st len ub m = (ok, st', ub', m')"
  shows "ok \<and> safe_write st m st' ub' m'"
proof -
  let ?w = "written_dist st" and ?h = "out_hist st"
  note i = out_invD [OF inv] and g = out_geomD [OF out_invD(1) [OF inv]]
  have w0: "0 < ?w" using i(3) by simp
  let ?m = "extend_slot st ?w (write_size st m) [] (write_size st m + len) m"
  have e: "ok" "st' = st" "m' = ?m" and ub': "ub' = ucdr_init_buffer_origin_offset cdr (out_buf st ?w)
      (write_size st m + len) 0 (write_size st m)"
    using trans [OF r [symmetric] write_same_slot [OF inv cdr len(2) same, of self ub]] True by simp_all
  have al: "out_size st m ?w \<le> write_size st m" by (rule aligned_props)
  have "out_size st m ?w \<le> write_size st m + len" using al by simp
  note es = extend_slot_spec [OF i(1,2) w0 True al _ this same, of "[]"]
  have sz: "out_size st ?m j = (if j = ?w then write_size st m + len else out_size st m j)"
    if "0 < j" "j \<le> ?h" for j
    using es(1) [OF _ that] same by simp
  have ex: "extends st m ?m" and ch: "changed_within m ?m (buffer (out_base st))
      (buffer (out_base st) + stream_size (out_base st))"
    using es(2,5) same by simp_all
  have "out_inv (st\<lparr>last_written := out_seq st ?w\<rparr>) ?m"
  proof (rule out_inv_written [OF inv order_refl True])
    show "slots_fit (out_base st) ?m" using ex by (simp add: extends_def)
    show "out_off st \<le> out_size st ?m ?w"
      using sz [OF w0 True] i(6) [OF True] al by simp
  qed (use sz True in auto)
  then have "out_inv st ?m" by (simp add: last_written_self)
  moreover have "only_written st st"
    unfolding only_written_def by (intro exI [of _ "last_written st"]) simp
  ultimately show ?thesis
    using e ub' ex ch sz True w0 al len
    by (auto simp: safe_write_def init_buffer_origin_offset [OF cdr] intro!: exI [of _ ?w])
qed

lemma out_write_next:
  assumes inv: "out_inv st m" and cdr: "ucdr_ok cdr" and len: "0 < len" "len < 2 ^ 63"
    and nextslot: "out_cap st < write_size st m + len" "out_off st + len \<le> out_cap st"
    and True: "Suc (written_dist st) \<le> out_hist st"
    and r: "uxr_prepare_reliable_buffer_to_write cdr self st len ub m = (ok, st', ub', m')"
  shows "ok \<and> safe_write st m st' ub' m'"
proof -
  let ?w = "written_dist st" and ?h = "out_hist st"
  note i = out_invD [OF inv] and g = out_geomD [OF out_invD(1) [OF inv]]
  have w0: "0 < ?w" using i(3) by simp
  let ?m = "extend_slot st (Suc ?w) (out_off st) [] (out_off st + len) m"
  let ?st = "st\<lparr>last_written := out_seq st (Suc ?w)\<rparr>"
  have e: "ok" "st' = ?st" "m' = ?m" and ub': "ub' = ucdr_init_buffer_origin_offset cdr
      (out_buf st (Suc ?w)) (out_off st + len) 0 (out_off st)"
    using trans [OF r [symmetric] write_next_slot [OF inv cdr len(2) nextslot, of self ub]] True
    by simp_all
  have fr: "out_size st m (Suc ?w) = out_off st" using i(7) True by simp
  note es = extend_slot_spec [OF i(1,2) zero_less_Suc True, of "out_off st" "[]" "out_off st + len"]
  have sz: "out_size st ?m j = (if j = Suc ?w then out_off st + len else out_size st m j)"
    if "0 < j" "j \<le> ?h" for j
    using es(1) that fr nextslot(2) by simp
  have ex: "extends st m ?m" and ch: "changed_within m ?m (buffer (out_base st))
      (buffer (out_base st) + stream_size (out_base st))"
    using es(2,5) fr nextslot(2) by simp_all
  have "out_off st < out_size st m ?w"
    using nextslot g(5) i(6) True aligned_props(4) [of "out_off st"]
    by (cases "out_size st m ?w = out_off st") auto
  then have "out_inv ?st ?m"
    using sz True ex w0 by (intro out_inv_written [OF inv])
      (auto simp: extends_def less_Suc_eq)
  then show ?thesis
    using e ub' ex ch sz True w0 fr len
    by (auto simp: safe_write_def init_buffer_origin_offset [OF cdr] only_written_def intro!: exI [of _ "Suc ?w"])
qed

lemma out_write_frag:
  assumes inv: "out_inv st m" and cdr: "ucdr_ok cdr" and len: "0 < len" "len < 2 ^ 63"
    and frag: "frag_case st m len"
    and True: "frag_count st m len \<le> get_available_free_slots st m"
    and r: "uxr_prepare_reliable_buffer_to_write cdr self st len ub m = (ok, st', ub', m')"
  shows "ok \<and> safe_write st m st' ub' m'"
proof -
  let ?w = "written_dist st" and ?h = "out_hist st"
  note i = out_invD [OF inv] and g = out_geomD [OF out_invD(1) [OF inv]]
  have w0: "0 < ?w" using i(3) by simp
  let ?p = "frag_slot st m" and ?k = "frag_count st m len" and ?b = "out_base st"
  note G = frag_geometry [OF inv frag]
  note ph = G(8) [OF True]
  have p: "0 < ?p" "?w \<le> ?p" using w0 by (auto simp: frag_slot_def)
  have "aligned (out_size st m ?p) + 4 \<le> out_cap st" and "?p + ?k \<le> Suc ?h"
    using G(4,5) ph by simp_all
  from fragment_loop_spec [OF cdr i(1,2) p(1) this(2,1), of "frag_block st" "frag_first st m"] G(13) ph
  obtain m1 where m1: "fragment_loop cdr ?b (frag_block st) ?k (out_seq st ?p) (frag_first st m) m =
      (out_seq st (?p + ?k), m1)" "extends st m m1"
    "changed_within m m1 (buffer ?b) (buffer ?b + stream_size ?b)"
    "\<forall>j. 0 < j \<and> j \<le> ?h \<longrightarrow>
       out_size st m1 j = (if ?p \<le> j \<and> j < ?p + ?k then out_cap st else out_size st m j)"
    by fastforce
  let ?hb = "header_bytes SUBMESSAGE_ID_FRAGMENT (frag_flags cdr FLAG_LAST_FRAGMENT)
      (of_nat (frag_last st m len))"
  let ?z = "out_off st + 4 + frag_last st m len"
  let ?m = "extend_slot st (?p + ?k) (out_off st) ?hb ?z m1"
  let ?st = "st\<lparr>last_written := out_seq st (?p + ?k)\<rparr>"
  have e: "ok" "st' = ?st" "m' = ?m" and ub': "ub' = ucdr_set_on_full_buffer_callback cdr
      (Some on_full_output_buffer_cb) (Some self)
      (ucdr_init_buffer cdr (out_buf st ?p + frag_start st m + 4) (frag_first st m))"
    using trans [OF r [symmetric] write_fragments [OF inv cdr len(2) frag, of self ub]] True m1(1)
    by simp_all
  have fit1: "slots_fit ?b m1" using m1(2) by (simp add: extends_def)
  have last: "out_size st m1 (?p + ?k) = out_off st"
    using m1(4) G(9,13) ph by simp
  have z: "?z \<le> out_cap st"
    using G(12) g(6) by (simp add: frag_block_def)
  note es = extend_slot_spec [OF i(1) fit1 _ ph, of "out_off st" ?hb ?z]
  have sz: "out_size st ?m j = (if j = ?p + ?k then ?z else if ?p \<le> j \<and> j < ?p + ?k then out_cap st
      else out_size st m j)" if "0 < j" "j \<le> ?h" for j
    using es(1) that last z m1(4) g(6) p by simp
  have ex1: "extends st m1 ?m" and ch1: "changed_within m1 ?m (buffer ?b) (buffer ?b + stream_size ?b)"
    using es(2,5) last z g(6) p by simp_all
  have ex: "extends st m ?m" by (rule extends_trans [OF m1(2) ex1])
  have ch: "changed_within m ?m (buffer ?b) (buffer ?b + stream_size ?b)"
    by (rule changed_within_trans [OF m1(3) ch1])
  have "out_off st < out_size st m ?w" if "?w < ?p"
  proof -
    have "frag_skip st m" using that by (auto simp: frag_slot_def split: if_splits)
    then have "out_size st m ?w \<noteq> out_off st"
      using g(5,6) by (auto simp: frag_skip_def aligned_props(4))
    then show ?thesis using i(6) that ph by simp
  qed
  moreover have "out_inv ?st ?m"
  proof (rule out_inv_written [OF inv _ ph])
    show "slots_fit ?b ?m" using ex by (simp add: extends_def)
    show "out_off st \<le> out_size st ?m (?p + ?k)" using sz [OF _ ph] p by simp
    fix j assume j: "?w \<le> j" "j < ?p + ?k"
    show "out_off st < out_size st ?m j"
    proof (cases "?p \<le> j")
      case True
      then show ?thesis using sz [of j] j ph w0 g(6) by simp
    next
      case False
      then have "j = ?w" using j by (auto simp: frag_slot_def split: if_splits)
      then show ?thesis using sz [of j] calculation False ph w0 j by simp
    qed
  qed (use sz p ph in auto)
  moreover have "\<exists>j. ?w \<le> j \<and> j \<le> ?h \<and> out_buf st j + out_size st m j \<le> iterator ub' \<and>
      iterator ub' < final ub' \<and> final ub' \<le> out_buf st j + out_size st ?m j"
    using p G(2,3,5,9) sz [OF p(1) G(2)]
    by (intro exI [of _ ?p]) (simp add: ub' ucdr_simps cdr frag_first_def)
  ultimately show ?thesis
    using e ex ch sz p ph by (auto simp: safe_write_def only_written_def out_update)
qed

lemma out_write:
  assumes inv: "out_inv st m" and cdr: "ucdr_ok cdr" and len: "0 < len" "len < 2 ^ 63"
    and r: "uxr_prepare_reliable_buffer_to_write cdr self st len ub m = (ok, st', ub', m')"
  shows "if ok then safe_write st m st' ub' m' else st' = st \<and> ub' = ub \<and> m' = m"
proof -
  have refused: ?thesis if "(ok, st', ub', m') = (False, st, ub, m)"
    using that by simp
  consider (same) "write_size st m + len \<le> out_cap st"
    | (nextslot) "out_cap st < write_size st m + len" "out_off st + len \<le> out_cap st"
    | (frag) "frag_case st m len"
    | (none) "out_cap st < write_size st m + len" "out_cap st < out_off st + len" "\<not> frag_case st m len"
    by linarith
  then show ?thesis
  proof cases
    case none
    then show ?thesis
      using r write_refused [OF inv cdr len(2)] refused by simp
  next
    case same
    then show ?thesis
      using r write_same_slot [OF inv cdr len(2) same] refused out_write_same [OF inv cdr len same _ r]
      by (cases "written_dist st \<le> out_hist st") auto
  next
    case nextslot
    then show ?thesis
      using r write_next_slot [OF inv cdr len(2) nextslot] refused out_write_next [OF inv cdr len nextslot _ r]
      by (cases "Suc (written_dist st) \<le> out_hist st") auto
  next
    case frag
    then show ?thesis
      using r write_fragments [OF inv cdr len(2) frag] refused out_write_frag [OF inv cdr len frag _ r]
      by (cases "frag_count st m len \<le> get_available_free_slots st m") auto
  qed
qed

lemma out_write_keeps:
  assumes inv: "out_inv st m" and cdr: "ucdr_ok cdr" and len: "0 < len" "len < 2 ^ 63"
    and r: "uxr_prepare_reliable_buffer_to_write cdr self st len ub m = (ok, st', ub', m')"
  shows "out_inv st' m' \<and> only_written st st' \<and> extends st m m' \<and>
    (\<forall>i. 0 < i \<and> i < written_dist st \<longrightarrow> out_size st m' i = out_size st m i) \<and>
    changed_within m m' (buffer (out_base st)) (buffer (out_base st) + stream_size (out_base st))"
proof (cases ok)
  case False
  then have "st' = st" "m' = m" using out_write [OF assms] by simp_all
  then show ?thesis
    using inv out_invD(2) [OF inv]
    by (auto simp: only_written_def extends_refl intro: exI [of _ "last_written st"])
qed (use out_write [OF assms] in \<open>simp add: safe_write_def\<close>)

section \<open>Retransmission\<close>

lemma nack_search_found:
  assumes inv: "out_inv st m" and i: "i < sent_dist st"
  shows "nack_search st m (out_seq st i) =
    (Some (out_buf st (Suc i), out_size st m (Suc i)), out_seq st (Suc i))"
proof -
  note I = out_invD [OF inv] and g = out_geomD [OF out_invD(1) [OF inv]]
  have "seq_dist (out_seq st (Suc i)) (last_sent st) = sent_dist st - Suc i"
    using seq_dist_split [of "last_acknown st" "out_seq st (Suc i)" "last_sent st"] i I(3,4) g(3)
    by (simp add: out_seq_dist sent_dist_def [symmetric])
  then have "0 \<ge> uxr_seq_num_cmp (out_seq st (Suc i)) (last_sent st)"
    using I(3,4) g(3) by (simp add: sn.cmp_le)
  moreover have "out_off st < out_size st m (Suc i)"
    using i I(3) by (intro I(5)) simp_all
  ultimately show ?thesis
    by (subst nack_search.simps)
      (simp add: Let_def sn.add_ring out_seq_Suc out_buf_def out_size_def out_off_def)
qed

lemma nack_search_end:
  assumes inv: "out_inv st m"
  shows "fst (nack_search st m (out_seq st (sent_dist st))) = None"
proof -
  note I = out_invD [OF inv] and g = out_geomD [OF out_invD(1) [OF inv]]
  have "seq_dist (last_sent st) (out_seq st (Suc (sent_dist st))) = 1"
    using seq_dist_of_nat [of 1 "last_sent st"] by (simp add: out_seq_Suc last_sent_seq [of st] flip: out_seq_Suc)
  then have "32768 \<le> seq_dist (out_seq st (Suc (sent_dist st))) (last_sent st)"
    using seq_dist_rev [of "last_sent st" "out_seq st (Suc (sent_dist st))"] by fastforce
  then have "0 < uxr_seq_num_cmp (out_seq st (Suc (sent_dist st))) (last_sent st)"
    by (simp add: sn.cmp_pos)
  then show ?thesis
    by (subst nack_search.simps) (simp add: Let_def sn.add_ring out_seq_Suc)
qed

text \<open>The loop of the session that sends what an ACKNACK asks for.\<close>

partial_function (option) nack_burst ::
  "uxrOutputReliableStream \<Rightarrow> mem \<Rightarrow> uxrSeqNum \<Rightarrow> (addr \<times> size_t) list
    \<Rightarrow> ((addr \<times> size_t) list \<times> uxrOutputReliableStream) option"
where
  "nack_burst stream m seq_num_it out =
     (case uxr_next_reliable_nack_buffer_to_send stream m seq_num_it of
        (Some r, it, stream') \<Rightarrow> nack_burst stream' m it (out @ [r])
      | (None, it, stream') \<Rightarrow> Some (out, stream'))"

lemma nack_burst_from:
  assumes inv: "out_inv st m" and lost: "send_lost st" and i: "i \<le> sent_dist st"
  shows "nack_burst st m (out_seq st i) out =
    Some (out @ map (\<lambda>j. (out_buf st j, out_size st m j)) [Suc i..<Suc (sent_dist st)],
      st\<lparr>send_lost := False\<rparr>)"
  using i
proof (induction "sent_dist st - i" arbitrary: i out)
  case 0
  then have "i = sent_dist st" by simp
  then show ?case
    using nack_search_end [OF inv] lost
    by (subst nack_burst.simps)
      (auto simp: uxr_next_reliable_nack_buffer_to_send_def split: prod.split option.split)
next
  case (Suc d)
  then have i: "i < sent_dist st" by simp
  have "nack_burst st m (out_seq st i) out =
      nack_burst st m (out_seq st (Suc i)) (out @ [(out_buf st (Suc i), out_size st m (Suc i))])"
    using nack_search_found [OF inv i] lost
    by (subst nack_burst.simps) (simp add: uxr_next_reliable_nack_buffer_to_send_def)
  also have "\<dots> = Some ((out @ [(out_buf st (Suc i), out_size st m (Suc i))]) @
      map (\<lambda>j. (out_buf st j, out_size st m j)) [Suc (Suc i)..<Suc (sent_dist st)],
      st\<lparr>send_lost := False\<rparr>)"
    using Suc.hyps(2) i by (intro Suc.hyps(1)) simp_all
  moreover have "[Suc i..<Suc (sent_dist st)] = Suc i # [Suc (Suc i)..<Suc (sent_dist st)]"
    using i by (intro upt_conv_Cons) simp
  ultimately show ?case
    by (simp del: upt_Suc)
qed

lemma nack_burst_all:
  assumes "out_inv st m"
  shows "nack_burst st m (uxr_begin_output_nack_buffer_it st) [] =
    Some (if send_lost st
          then map (\<lambda>j. (out_buf st j, out_size st m j)) [1..<Suc (sent_dist st)] else [],
      st\<lparr>send_lost := False\<rparr>)"
proof (cases "send_lost st")
  case True
  then show ?thesis
    using nack_burst_from [OF assms True, of 0 "[]"]
    by (simp add: uxr_begin_output_nack_buffer_it_def out_seq_def)
next
  case False
  then show ?thesis
    by (subst nack_burst.simps)
      (simp add: uxr_next_reliable_nack_buffer_to_send_def)
qed

section \<open>Executions\<close>

text \<open>
  The stream together with the messages that are sent and not acknowledged, as they were when
  they were sent: a message gets its header \<open>hdr\<close> after the stream has handed it out. Between
  the operations of the stream, its client fills the slots that are not sent yet, and memory
  outside the buffer changes.
\<close>

inductive out_exec ::
  "ucdr \<Rightarrow> nat \<Rightarrow> int \<Rightarrow> uxrOutputReliableStream \<times> mem \<times> u8 list list
    \<Rightarrow> uxrOutputReliableStream \<times> mem \<times> u8 list list \<Rightarrow> bool"
  for cdr self interval
where
  prepare: "0 < len \<Longrightarrow> len < 2 ^ 63 \<Longrightarrow>
    uxr_prepare_reliable_buffer_to_write cdr self st len ub m = (ok, st', ub', m') \<Longrightarrow>
    out_exec cdr self interval (st, m, sent) (st', m', sent)"
| fill: "(\<And>x. m' x \<noteq> m x \<Longrightarrow> x < buffer (out_base st) \<or> buffer (out_base st) + stream_size (out_base st) \<le> x \<or>
      (\<exists>i. sent_dist st < i \<and> i \<le> out_hist st \<and> out_buf st i \<le> x \<and> x < out_buf st i + out_cap st)) \<Longrightarrow>
    out_exec cdr self interval (st, m, sent) (st, m', sent)"
| send: "uxr_prepare_next_reliable_buffer_to_send st m = (True, (a, n, s), st') \<Longrightarrow>
    length hdr \<le> out_off st \<Longrightarrow>
    out_exec cdr self interval (st, m, sent) (st', wr m a hdr, sent @ [rd (wr m a hdr) a n])"
| cancel: "sent \<noteq> [] \<Longrightarrow>
    out_exec cdr self interval (st, m, sent)
      (uxr_cancel_reliable_buffer_to_send st (last_sent st) m, m, butlast sent)"
| acknack: "acked st f \<le> sent_dist st \<Longrightarrow> uxr_process_acknack st bitmap f m = (st', m') \<Longrightarrow>
    out_exec cdr self interval (st, m, sent) (st', m', drop (acked st f) sent)"
| resend: "nack_burst st m (uxr_begin_output_nack_buffer_it st) [] = Some (out, st') \<Longrightarrow>
    out_exec cdr self interval (st, m, sent) (st', m, sent)"
| tick: "uxr_update_output_stream_heartbeat_timestamp interval st now = (confirm, st') \<Longrightarrow>
    out_exec cdr self interval (st, m, sent) (st', m, sent)"

inductive_cases out_exec_cases: "out_exec cdr self interval (st, m, sent) s'"

definition unacked :: "uxrOutputReliableStream \<Rightarrow> mem \<Rightarrow> u8 list list" where
  "unacked st m = map (\<lambda>i. rd m (out_buf st i) (out_size st m i)) [1..<Suc (sent_dist st)]"

definition out_good :: "uxrOutputReliableStream \<times> mem \<times> u8 list list \<Rightarrow> bool" where
  "out_good s = (case s of (st, m, sent) \<Rightarrow> out_inv st m \<and> sent = unacked st m)"

lemma length_unacked [simp]: "length (unacked st m) = sent_dist st"
  by (simp add: unacked_def)

lemma unacked_eqI:
  assumes "sent_dist st' = sent_dist st"
    and "\<And>i. 0 < i \<Longrightarrow> i \<le> sent_dist st \<Longrightarrow> out_buf st' i = out_buf st i \<and>
      out_size st' m' i = out_size st m i \<and>
      rd m' (out_buf st i) (out_size st m i) = rd m (out_buf st i) (out_size st m i)"
  shows "unacked st' m' = unacked st m"
  using assms by (auto simp: unacked_def)

lemma out_buf_update [simp]:
  "out_buf (st\<lparr>last_sent := x\<rparr>) = out_buf st" "out_buf (st\<lparr>last_written := x\<rparr>) = out_buf st"
  "out_buf (st\<lparr>next_heartbeat_timestamp := t\<rparr>) = out_buf st"
  "out_buf (st\<lparr>next_heartbeat_tries := n\<rparr>) = out_buf st" "out_buf (st\<lparr>send_lost := b\<rparr>) = out_buf st"
  by (simp_all add: out_buf_def out_seq_def fun_eq_iff)

lemma unacked_update [simp]:
  "unacked (st\<lparr>last_written := x\<rparr>) m = unacked st m"
  "unacked (st\<lparr>next_heartbeat_timestamp := t\<rparr>) m = unacked st m"
  "unacked (st\<lparr>next_heartbeat_tries := n\<rparr>) m = unacked st m" "unacked (st\<lparr>send_lost := b\<rparr>) m = unacked st m"
  by (simp_all add: unacked_def)

lemma out_good_prepare:
  assumes "out_good (st, m, sent)" and cdr: "ucdr_ok cdr" and "0 < len" "len < 2 ^ 63"
    and r: "uxr_prepare_reliable_buffer_to_write cdr self st len ub m = (ok, st', ub', m')"
  shows "out_good (st', m', sent)"
proof -
  have inv: "out_inv st m" and sent: "sent = unacked st m"
    using assms(1) by (simp_all add: out_good_def)
  note W = out_write_keeps [OF inv cdr assms(3,4) r] and I = out_invD [OF inv]
  obtain s where st': "st' = st\<lparr>last_written := s\<rparr>"
    using W by (auto simp: only_written_def)
  have "unacked st' m' = unacked st m"
    using W I(3,4) by (intro unacked_eqI) (auto simp: st' extends_def)
  then show ?thesis
    using W sent by (simp add: out_good_def)
qed

text \<open>Changes outside the slots in use do not matter.\<close>

lemma out_good_fill:
  assumes "out_good (st, m, sent)"
    and ch: "\<And>x. m' x \<noteq> m x \<Longrightarrow> x < buffer (out_base st) \<or> buffer (out_base st) + stream_size (out_base st) \<le> x \<or>
      (\<exists>i. sent_dist st < i \<and> i \<le> out_hist st \<and> out_buf st i \<le> x \<and> x < out_buf st i + out_cap st)"
  shows "out_good (st, m', sent)" and "out_size st m' i = out_size st m i"
proof -
  have inv: "out_inv st m" and sent: "sent = unacked st m"
    using assms(1) by (simp_all add: out_good_def)
  note I = out_invD [OF inv] and g = out_geomD [OF out_invD(1) [OF inv]]
  let ?b = "out_base st"
  have slot: "buffer ?b \<le> out_buf st i" "out_buf st i + out_cap st \<le> buffer ?b + stream_size ?b" for i
    using rs.data_in [OF g(1), of "out_seq st i"] by (simp_all add: out_buf_def out_cap_def)
  have len: "m' x = m x" if lx: "slot_base ?b (slot_of ?b s) \<le> x" "x < slot_base ?b (slot_of ?b s) + 4" for x s
  proof (rule ccontr)
    assume ne: "m' x \<noteq> m x"
    have "slot_base ?b (slot_of ?b s) + block ?b \<le> buffer ?b + stream_size ?b"
      by (rule slot_in_buffer) (use slot_less [OF g(1)] in simp)
    moreover have "buffer ?b \<le> slot_base ?b (slot_of ?b s)" by (simp add: slot_base_def)
    ultimately obtain i where i: "out_buf st i \<le> x" "x < out_buf st i + out_cap st"
      using ch [OF ne] lx g(1) by (auto simp: ok_stream_def)
    have "slot_base ?b (slot_of ?b s) + 4 \<le> x \<or> x + 1 \<le> slot_base ?b (slot_of ?b s)"
      using i g(1) capacity_eq [OF g(1)]
      by (intro in_slot_apart [of _ "slot_of ?b (out_seq st i)"])
        (auto simp: out_buf_def buffer_eq out_cap_def ok_stream_def)
    then show False using lx by simp
  qed
  have size: "uxr_get_reliable_buffer_size ?b s m' = uxr_get_reliable_buffer_size ?b s m" for s
    unfolding get_size_eq rd_u32_def using len by (intro arg_cong [where f = bytes_nat] rd_cong)
  then have sz: "out_size st m' i = out_size st m i" for i
    by (simp add: out_size_def)
  then show "out_size st m' i = out_size st m i" .
  have inv': "out_inv st m'"
    using I unfolding out_inv_def sz by (simp add: slots_fit_def size)
  have "rd m' (out_buf st i) (out_size st m i) = rd m (out_buf st i) (out_size st m i)"
    if i: "0 < i" "i \<le> sent_dist st" for i
  proof (rule rd_cong)
    fix x assume x: "out_buf st i \<le> x" "x < out_buf st i + out_size st m i"
    show "m' x = m x"
    proof (rule ccontr)
      assume ne: "m' x \<noteq> m x"
      have xc: "x < out_buf st i + out_cap st"
        using x out_size_le_cap [OF I(2), of i] by simp
      then obtain k where k: "sent_dist st < k" "k \<le> out_hist st" "out_buf st k \<le> x"
        "x < out_buf st k + out_cap st"
        using ch [OF ne] x slot [of i] by auto
      have "slot_of ?b (out_seq st i) \<noteq> slot_of ?b (out_seq st k)"
        using out_slot_inj [OF I(1), of i k] i k by simp
      then show False
        using rs.data_apart [OF g(1), of "out_seq st i" "out_seq st k"] x xc k
        by (auto simp: slot_of_def out_buf_def out_cap_def)
    qed
  qed
  then have "unacked st m' = unacked st m"
    by (intro unacked_eqI) (simp_all add: sz)
  then show "out_good (st, m', sent)"
    using inv' sent by (simp add: out_good_def)
qed

lemma out_good_send0:
  assumes "out_good (st, m, sent)"
    and r: "uxr_prepare_next_reliable_buffer_to_send st m = (True, (a, n, s), st')"
  shows "out_good (st', m, sent @ [rd m a n])" and "s = out_seq st (Suc (length sent))"
proof -
  have inv: "out_inv st m" and sent: "sent = unacked st m"
    using assms(1) by (simp_all add: out_good_def)
  let ?s = "sent_dist st"
  have e: "a = out_buf st (Suc ?s)" "n = out_size st m (Suc ?s)" "s = out_seq st (Suc ?s)"
    "st' = st\<lparr>last_sent := out_seq st (Suc ?s),
      last_written := out_seq st (max (Suc (Suc ?s)) (written_dist st))\<rparr>"
    using trans [OF r [symmetric] next_to_send [OF inv]] by (simp_all add: out_buf_def split: if_splits)
  have "Suc ?s < 65536"
    using out_invD(3,4) [OF inv] out_geomD(3) [OF out_invD(1) [OF inv]] by simp
  then have "sent_dist st' = Suc ?s"
    by (simp add: e(4) sent_dist_def out_seq_dist)
  then have "unacked st' m = unacked st m @ [rd m a n]"
    by (simp add: unacked_def e)
  then show "out_good (st', m, sent @ [rd m a n])"
    using out_inv_send [OF inv r] sent by (simp add: out_good_def)
  show "s = out_seq st (Suc (length sent))"
    using sent e by simp
qed

lemma out_good_send:
  assumes good: "out_good (st, m, sent)"
    and r: "uxr_prepare_next_reliable_buffer_to_send st m = (True, (a, n, s), st')"
    and hdr: "length hdr \<le> out_off st"
  shows "out_good (st', wr m a hdr, sent @ [rd (wr m a hdr) a n])"
proof -
  have inv: "out_inv st m"
    using good by (simp add: out_good_def)
  let ?s = "sent_dist st" and ?m = "wr m a hdr"
  note I = out_invD [OF inv] and g = out_geomD [OF out_invD(1) [OF inv]]
  have can: "can_send st m" and a: "a = out_buf st (Suc ?s)"
    using trans [OF r [symmetric] next_to_send [OF inv]] by (simp_all add: out_buf_def)
  have "Suc ?s \<le> out_hist st"
    using can I(4) by (auto simp: can_send_def)
  then have ch: "x < buffer (out_base st) \<or> buffer (out_base st) + stream_size (out_base st) \<le> x \<or>
      (\<exists>i. ?s < i \<and> i \<le> out_hist st \<and> out_buf st i \<le> x \<and> x < out_buf st i + out_cap st)"
    if "?m x \<noteq> m x" for x
    using that hdr g(6) by (auto simp: wr_def a split: if_splits intro!: exI [of _ "Suc ?s"])
  have good': "out_good (st, ?m, sent)" and sz: "out_size st ?m k = out_size st m k" for k
    using out_good_fill [OF good ch] by blast+
  have inv': "out_inv st ?m"
    using good' by (simp add: out_good_def)
  have "uxr_prepare_next_reliable_buffer_to_send st ?m = uxr_prepare_next_reliable_buffer_to_send st m"
    unfolding next_to_send [OF inv'] next_to_send [OF inv] can_send_def by (simp only: sz)
  then have "uxr_prepare_next_reliable_buffer_to_send st ?m = (True, (a, n, s), st')"
    using r by simp
  from out_good_send0(1) [OF good' this] show ?thesis .
qed

lemma out_good_cancel:
  assumes "out_good (st, m, sent)" and "sent \<noteq> []"
  shows "out_good (uxr_cancel_reliable_buffer_to_send st (last_sent st) m, m, butlast sent)"
proof -
  let ?st = "uxr_cancel_reliable_buffer_to_send st (last_sent st) m"
  have inv: "out_inv st m" and sent: "sent = unacked st m"
    using assms(1) by (simp_all add: out_good_def)
  have pos: "0 < sent_dist st"
    using assms(2) sent by (metis length_greater_0_conv length_unacked)
  note C = out_inv_cancel [OF inv pos]
  have "out_buf ?st = out_buf st" "out_size ?st = out_size st"
    by (simp_all add: uxr_cancel_reliable_buffer_to_send_def Let_def)
  then have "unacked ?st m = butlast (unacked st m)"
    using pos by (simp add: unacked_def C(2))
  then show ?thesis
    using C(1) sent by (simp add: out_good_def)
qed

lemma out_good_acknack:
  assumes "out_good (st, m, sent)" and k: "acked st f \<le> sent_dist st"
    and r: "uxr_process_acknack st bitmap f m = (st', m')"
  shows "out_good (st', m', drop (acked st f) sent)"
proof -
  have inv: "out_inv st m" and sent: "sent = unacked st m"
    using assms(1) by (simp_all add: out_good_def)
  let ?k = "acked st f"
  note A = out_inv_acknack [OF inv k r] and I = out_invD [OF inv]
  have "out_seq st' i = out_seq st (?k + i)" for i
    using A(2) seq_at_dist [of "last_acknown st" "f - 1"]
    by (simp add: out_seq_def acked_def add.assoc [symmetric])
  then have buf: "out_buf st' i = out_buf st (?k + i)" for i
    by (simp add: out_buf_def A(9))
  have m': "m' = snd (clean_acked ?k st m)"
    using r by (simp add: process_acknack)
  have cell: "rd m' (out_buf st' i) (out_size st' m' i) =
      rd m (out_buf st (?k + i)) (out_size st m (?k + i))" if i: "0 < i" "i \<le> sent_dist st - ?k" for i
  proof -
    have "?k + i \<le> out_hist st" using i k I(3,4) by simp
    then have "out_size st' m' i = out_size st m (?k + i)" using i by (intro A(5))
    moreover have "rd m' (out_buf st (?k + i)) (out_size st m (?k + i)) =
        rd m (out_buf st (?k + i)) (out_size st m (?k + i))"
      unfolding m' using out_size_le_cap [OF I(2)]
      by (intro clean_acked_rd [OF out_geomD(1) [OF I(1)], of "out_seq st (?k + i)"])
        (simp_all add: out_buf_def out_cap_def)
    ultimately show ?thesis by (simp add: buf)
  qed
  have "unacked st' m' = drop ?k (unacked st m)"
    by (rule nth_equalityI) (auto simp: unacked_def A(3) cell nth_append simp del: upt_Suc)
  then show ?thesis
    using A(1) sent by (simp add: out_good_def)
qed

lemma out_good_resend:
  assumes "out_good (st, m, sent)"
  shows "nack_burst st m (uxr_begin_output_nack_buffer_it st) [] =
      Some (if send_lost st then map (\<lambda>j. (out_buf st j, out_size st m j)) [1..<Suc (sent_dist st)] else [],
        st\<lparr>send_lost := False\<rparr>)"
    and "map (\<lambda>(a, n). rd m a n) (map (\<lambda>j. (out_buf st j, out_size st m j)) [1..<Suc (sent_dist st)]) = sent"
    and "out_good (st\<lparr>send_lost := False\<rparr>, m, sent)"
  using assms nack_burst_all [of st m]
  by (auto simp: out_good_def unacked_def out_inv_update simp del: upt_Suc)

lemma out_good_tick:
  assumes "out_good (st, m, sent)"
    and "uxr_update_output_stream_heartbeat_timestamp interval st now = (confirm, st')"
  shows "out_good (st', m, sent)"
  using assms by (auto simp: uxr_update_output_stream_heartbeat_timestamp_def out_good_def out_inv_update
      split: if_splits)

lemma out_good_step:
  assumes "out_exec cdr self interval s s'" and "out_good s" and cdr: "ucdr_ok cdr"
  shows "out_good s'"
  using assms(1,2)
proof (induction rule: out_exec.induct)
  case (prepare len st ub m ok st' ub' m' sent)
  then show ?case using out_good_prepare cdr by blast
next
  case (fill m' m st sent)
  then show ?case using out_good_fill(1) by blast
next
  case (send st m a n s st' hdr sent)
  then show ?case using out_good_send by blast
next
  case (cancel sent st m)
  then show ?case using out_good_cancel by blast
next
  case (acknack st f bitmap m st' m' sent)
  then show ?case using out_good_acknack by blast
next
  case (resend st m out st' sent)
  then show ?case using out_good_resend(1,3) [of st m sent] by simp
next
  case (tick st now confirm st' m sent)
  then show ?case using out_good_tick by blast
qed

lemma out_good_reach:
  "(out_exec cdr self interval)\<^sup>*\<^sup>* s s' \<Longrightarrow> out_good s \<Longrightarrow> ucdr_ok cdr \<Longrightarrow> out_good s'"
  by (induction rule: rtranclp_induct) (auto intro: out_good_step)

lemma out_reset:
  assumes g: "out_geom st" and r: "uxr_reset_output_reliable_stream st m = (st', m')"
  shows "out_good (st', m', [])"
proof -
  let ?b = "out_base st"
  note G = out_geomD [OF g]
  have st': "st' = st\<lparr>last_written := 0, last_sent := SEQ_NUM_MAX, last_acknown := SEQ_NUM_MAX,
      next_heartbeat_timestamp := INT64_MAX, next_heartbeat_tries := 0, send_lost := False\<rparr>"
    and m': "m' = rs.set_all ?b (out_off st) (out_hist st) m"
    using r by (simp_all add: uxr_reset_output_reliable_stream_def rs.set_all_def out_off_def out_hist_def)
  have "out_off st < 2 ^ 32"
    unfolding out_off_def by (rule order.strict_trans [OF unat_u8_less]) simp
  then have size: "uxr_get_reliable_buffer_size ?b s m' = out_off st" for s
    using rs.set_all_size [OF G(1), of "out_off st" "out_hist st" s m] rs.hist_pos [OF G(1)]
    by (simp add: m' out_hist_def)
  have d: "sent_dist st' = 0" "written_dist st' = 1"
    by (simp_all add: st' sent_dist_def written_dist_def SEQ_NUM_MAX_def seq_dist_cases)
  have geom: "out_geom st'" "out_hist st' = out_hist st" "out_off st' = out_off st" "out_base st' = ?b"
    using g by (simp_all add: st' out_geom_def out_defs)
  have "out_inv st' m'"
    unfolding out_inv_def d
    using geom G(4,6) by (auto simp: out_size_def size slots_fit_def out_cap_def)
  then show ?thesis
    by (simp add: out_good_def unacked_def d)
qed

section \<open>Heartbeats\<close>

text \<open>The results of updating the timer at the given times.\<close>

primrec heartbeats :: "int \<Rightarrow> uxrOutputReliableStream \<Rightarrow> int list \<Rightarrow> bool list" where
  "heartbeats interval st [] = []"
| "heartbeats interval st (now # ts) =
     fst (uxr_update_output_stream_heartbeat_timestamp interval st now)
       # heartbeats interval (snd (uxr_update_output_stream_heartbeat_timestamp interval st now)) ts"

lemma heartbeat_waiting:
  assumes "uxr_seq_num_cmp (last_acknown st) (last_sent st) < 0" and "0 < interval"
    and "next_heartbeat_tries st = 0 \<or> next_heartbeat_timestamp st = t0 + interval"
    and "\<And>i. Suc i < length (t0 # ts) \<Longrightarrow> (t0 # ts) ! Suc i < (t0 # ts) ! i + interval"
  shows "True \<notin> set (heartbeats interval st ts)"
  using assms
proof (induction ts arbitrary: st t0)
  case Nil
  then show ?case by simp
next
  case (Cons t ts)
  let ?r = "uxr_update_output_stream_heartbeat_timestamp interval st t"
  have "t < t0 + interval"
    using Cons.prems(4) [of 0] by simp
  then have f: "\<not> fst ?r" and s: "next_heartbeat_timestamp (snd ?r) = t + interval"
      "last_acknown (snd ?r) = last_acknown st" "last_sent (snd ?r) = last_sent st"
    using Cons.prems(1,3) by (auto simp: uxr_update_output_stream_heartbeat_timestamp_def)
  have "True \<notin> set (heartbeats interval (snd ?r) ts)"
    using Cons.prems(1,2,4) s by (intro Cons.IH [of _ t]) fastforce+
  with f show ?case by simp
qed

section \<open>The callback for the next fragment\<close>

lemma history_position:
  assumes g: "out_geom st" and a: "out_buf st i \<le> a" "a < out_buf st i + out_cap st"
  shows "uxr_get_reliable_buffer (out_base st)
      (1 + uxr_get_reliable_buffer_history_position (out_base st) a) = out_buf st (Suc i)"
    and "uxr_get_reliable_buffer_size (out_base st)
      (1 + uxr_get_reliable_buffer_history_position (out_base st) a) m = out_size st m (Suc i)"
proof -
  let ?b = "out_base st" and ?h = "out_hist st"
  note G = out_geomD [OF g]
  have ok: "0 < unat (history ?b)" "4 \<le> block ?b" "buffer ?b + stream_size ?b < SIZE_MOD"
    using G(1) by (simp_all add: ok_stream_def)
  define k where "k = slot_of ?b (out_seq st i)"
  have k: "k < ?h" using slot_less [OF G(1)] by (simp add: k_def out_hist_def)
  have a': "buffer ?b + k * block ?b + 4 \<le> a" "a < buffer ?b + k * block ?b + block ?b"
    using a capacity_eq [OF G(1)] ok(2)
    by (simp_all add: out_buf_def buffer_eq slot_base_def k_def out_cap_def)
  have "a < SIZE_MOD"
    using rs.data_in [OF G(1), of "out_seq st i"] a(2) ok(3) by (simp add: out_buf_def out_cap_def)
  then have "size_sub a (buffer ?b) = a - buffer ?b"
    using a' by (intro size_sub_eq) simp_all
  moreover have "(a - buffer ?b) div block ?b = k"
    using a' by (intro div_nat_eqI) (simp_all add: mult.commute)
  ultimately have pos: "uxr_get_reliable_buffer_history_position ?b a = of_nat k"
    by (simp add: uxr_get_reliable_buffer_history_position_def block_def)
  have "slot_of ?b (1 + of_nat k) = slot_of ?b (out_seq st (Suc i))"
  proof -
    have "unat (1 + of_nat k :: u16) = Suc k"
      using k G(3) by (simp add: unat_of_nat unat_word_ariths)
    moreover have "unat (out_seq st (Suc i)) mod ?h = (unat (out_seq st i) + 1) mod ?h"
    proof -
      have "unat (out_seq st i + 1) = (unat (out_seq st i) + 1) mod 65536"
        by (simp add: unat_word_ariths)
      then show ?thesis
        unfolding out_seq_Suc [symmetric] using G(2) by (simp only: mod_mod_cancel)
    qed
    ultimately show ?thesis
      by (simp add: slot_of_def k_def mod_Suc_eq flip: out_hist_def)
  qed
  then show "uxr_get_reliable_buffer ?b (1 + uxr_get_reliable_buffer_history_position ?b a) =
      out_buf st (Suc i)"
    and "uxr_get_reliable_buffer_size ?b (1 + uxr_get_reliable_buffer_history_position ?b a) m =
      out_size st m (Suc i)"
    by (simp_all add: pos buffer_eq get_size_eq out_buf_def out_size_def)
qed

lemma on_full_output_next:
  assumes g: "out_geom st" and cdr: "ucdr_ok cdr"
    and a: "out_buf st i \<le> init ub" "init ub < out_buf st i + out_cap st"
    and z: "out_off st + 4 \<le> out_size st m (Suc i)" "out_size st m (Suc i) < 65536"
  shows "on_full_output_buffer cdr self st ub m =
    (False, \<lparr>init = out_buf st (Suc i) + out_off st + 4, final = out_buf st (Suc i) + out_size st m (Suc i),
       iterator = out_buf st (Suc i) + out_off st + 4, offset = offset ub,
       endianness = UCDR_MACHINE_ENDIANNESS cdr, error = False,
       on_full_buffer = Some on_full_output_buffer_cb, args = Some self\<rparr>)"
  unfolding on_full_output_buffer_def Let_def history_position [OF g a]
  using z by (simp add: ucdr_simps cdr size_sub_eq cast_u32_eq SUBHEADER_SIZE_def flip: out_off_def)

section \<open>Properties\<close>

definition example_out :: uxrOutputReliableStream where
  "example_out = \<lparr>out_base = \<lparr>buffer = 1000, stream_size = 128, history = 4\<rparr>, header_offset = 8,
     last_written = 0, last_sent = 65535, last_acknown = 65535, next_heartbeat_timestamp = INT64_MAX,
     next_heartbeat_tries = 0, send_lost = False\<rparr>"

lemma example_out_geom: "out_geom example_out"
  by (simp add: out_geom_def out_defs capacity_eq example_out_def ok_stream_def block_def)

definition example_out_mem :: mem where
  "example_out_mem = snd (uxr_reset_output_reliable_stream example_out (\<lambda>_. 0))"

lemma example_out_reset:
  "uxr_reset_output_reliable_stream example_out (\<lambda>_. 0) = (example_out, example_out_mem)"
  by (simp add: example_out_mem_def uxr_reset_output_reliable_stream_def prod_eq_iff example_out_def
      SEQ_NUM_MAX_def)

lemma example_out_inv: "out_inv example_out example_out_mem"
  using out_reset [OF example_out_geom example_out_reset] by (simp add: out_good_def)

lemma example_out_dists:
  "written_dist example_out = 1" "sent_dist example_out = 0" "out_hist example_out = 4"
  "out_off example_out = 8" "out_cap example_out = 28"
  by (simp_all add: out_defs seq_dist_cases capacity_eq [OF out_geomD(1) [OF example_out_geom]])
    (simp_all add: example_out_def block_def)

lemma example_out_size: "0 < i \<Longrightarrow> i \<le> 4 \<Longrightarrow> out_size example_out example_out_mem i = 8"
proof -
  have "out_off example_out < 2 ^ 32" by (simp add: example_out_dists)
  moreover have "example_out_mem = rs.set_all (out_base example_out) (out_off example_out)
      (out_hist example_out) (\<lambda>_. 0)"
    by (simp add: example_out_mem_def uxr_reset_output_reliable_stream_def rs.set_all_def out_off_def
        out_hist_def)
  ultimately show ?thesis
    using rs.set_all_size [OF out_geomD(1) [OF example_out_geom], of "out_off example_out"
        "out_hist example_out" "out_seq example_out i" "\<lambda>_. 0"]
      rs.hist_pos [OF out_geomD(1) [OF example_out_geom]]
    by (simp add: out_size_def out_hist_def) (simp add: out_off_def example_out_def)
qed

lemma aligned_8 [simp]: "aligned 8 = 8"
  by (simp add: aligned_props(4))

lemma example_out_size_1 [simp]: "out_size example_out example_out_mem (Suc 0) = 8"
  by (simp add: example_out_size)

text \<open>C1. Whatever is done with a reliable output stream (writing, filling what was reserved,
  sending, cancelling the last send, good acknowledgements, retransmissions, heartbeats), at most
  \<open>history\<close> messages are under way, and what a retransmission hands out is exactly the messages
  sent and not acknowledged, in order, byte for byte as they were first sent.\<close>
theorem reliable_output_retransmits_what_was_sent:
  assumes "ucdr_ok cdr" and "out_geom st"
    and "uxr_reset_output_reliable_stream st m = (st1, m1)"
    and "(out_exec cdr self interval)\<^sup>*\<^sup>* (st1, m1, []) (st2, m2, sent)"
  shows "length sent \<le> out_hist st2 \<and>
    seq_dist (last_acknown st2) (last_sent st2) = length sent \<and>
    (\<exists>out. nack_burst (st2\<lparr>send_lost := True\<rparr>) m2
         (uxr_begin_output_nack_buffer_it (st2\<lparr>send_lost := True\<rparr>)) [] =
         Some (out, st2\<lparr>send_lost := False\<rparr>) \<and>
       map (\<lambda>(a, n). rd m2 a n) out = sent)"
proof -
  have good: "out_good (st2, m2, sent)"
    by (rule out_good_reach [OF assms(4) out_reset [OF assms(2,3)] assms(1)])
  then have inv: "out_inv st2 m2" and sent: "sent = unacked st2 m2"
    by (simp_all add: out_good_def)
  have good': "out_good (st2\<lparr>send_lost := True\<rparr>, m2, sent)"
    using inv sent by (simp add: out_good_def out_inv_update)
  have "length sent \<le> out_hist st2"
    using out_invD(3,4) [OF inv] by (simp add: sent)
  moreover have "seq_dist (last_acknown st2) (last_sent st2) = length sent"
    by (simp add: sent sent_dist_def)
  ultimately show ?thesis
    using out_good_resend(1,2) [OF good'] by (simp del: upt_Suc)
qed

lemma reliable_output_retransmits_what_was_sent_witness:
  "\<exists>out. nack_burst (example_out\<lparr>send_lost := True\<rparr>) example_out_mem
      (uxr_begin_output_nack_buffer_it (example_out\<lparr>send_lost := True\<rparr>)) [] =
      Some (out, example_out\<lparr>send_lost := False\<rparr>) \<and>
    map (\<lambda>(a, n). rd example_out_mem a n) out = []"
  by (rule reliable_output_retransmits_what_was_sent [THEN conjunct2, THEN conjunct2,
        OF ucdr_ok_ref_ucdr example_out_geom example_out_reset rtranclp.rtrancl_refl])

text \<open>C13. Reserving room for a submessage keeps the stream's invariant, touches nothing outside the
  stream's buffer, leaves the content of every slot and the length of every closed slot as they
  were, changes nothing at all when it is refused, and otherwise hands out room that lies behind
  the content of a slot of the window and inside its new length.\<close>
theorem reliable_output_write_safe:
  assumes "out_inv st m" and "ucdr_ok cdr" and "0 < len" and "len < 2 ^ 63"
    and "uxr_prepare_reliable_buffer_to_write cdr self st len ub m = (ok, st', ub', m')"
  shows "out_inv st' m' \<and> extends st m m' \<and>
    (\<forall>i \<in> set [1..<written_dist st]. out_size st m' i = out_size st m i) \<and>
    changed_within m m' (buffer (out_base st)) (buffer (out_base st) + stream_size (out_base st)) \<and>
    last_sent st' = last_sent st \<and> last_acknown st' = last_acknown st \<and>
    (if ok then \<exists>j \<in> set [written_dist st..<Suc (out_hist st)].
        out_buf st j + out_size st m j \<le> iterator ub' \<and> iterator ub' < final ub' \<and>
        final ub' \<le> out_buf st j + out_size st' m' j
     else st' = st \<and> ub' = ub \<and> m' = m)"
proof -
  note W = out_write [OF assms] and K = out_write_keeps [OF assms]
  then obtain s where "st' = st\<lparr>last_written := s\<rparr>"
    by (auto simp: only_written_def)
  then have "last_sent st' = last_sent st \<and> last_acknown st' = last_acknown st"
    by simp
  then show ?thesis
    using W K by (auto simp: safe_write_def Bex_def less_Suc_eq_le simp del: upt_Suc)
qed

lemma reliable_output_write_safe_witness:
  "fst (uxr_prepare_reliable_buffer_to_write ref_ucdr 0 example_out 12
      (ref_init 0 0 0 0) example_out_mem) = True \<and>
   out_inv (fst (snd (uxr_prepare_reliable_buffer_to_write ref_ucdr 0 example_out 12
      (ref_init 0 0 0 0) example_out_mem)))
     (snd (snd (snd (uxr_prepare_reliable_buffer_to_write ref_ucdr 0 example_out 12
      (ref_init 0 0 0 0) example_out_mem))))"
proof -
  have "fst (uxr_prepare_reliable_buffer_to_write ref_ucdr 0 example_out 12
      (ref_init 0 0 0 0) example_out_mem) = True"
    by (subst write_same_slot [OF example_out_inv ucdr_ok_ref_ucdr]) (simp_all add: example_out_dists)
  moreover have "out_inv (fst (snd (uxr_prepare_reliable_buffer_to_write ref_ucdr 0 example_out 12
      (ref_init 0 0 0 0) example_out_mem)))
     (snd (snd (snd (uxr_prepare_reliable_buffer_to_write ref_ucdr 0 example_out 12
      (ref_init 0 0 0 0) example_out_mem))))"
    using reliable_output_write_safe [OF example_out_inv ucdr_ok_ref_ucdr, of 12 0 "ref_init 0 0 0 0"]
    by (simp add: prod_eq_iff)
  ultimately show ?thesis by simp
qed

text \<open>What the loop leaves in the slots before the last one.\<close>

lemma fragments_marked:
  assumes "out_inv st m" and "ucdr_ok cdr" and "frag_case st m len" and "k = frag_count st m len" and "p = frag_slot st m"
    and ph: "p + k \<le> out_hist st" and p: "0 < p"
  shows "\<exists>m1. fragment_loop cdr (out_base st) (frag_block st) k (out_seq st p) (frag_first st m) m = (out_seq st (p + k), m1) \<and>
    extends st m m1 \<and>
    (\<forall>j. 0 < j \<and> j \<le> out_hist st \<longrightarrow>
       out_size st m1 j = (if p \<le> j \<and> j < p + k then out_cap st else out_size st m j)) \<and>
    (\<forall>j < k. rd m1 (out_buf st (p + j) + (if j = 0 then frag_start st m else out_off st)) 4 =
       header_bytes SUBMESSAGE_ID_FRAGMENT (frag_flags cdr 0)
         (of_nat (if j = 0 then frag_first st m else frag_block st)))"
proof -
  note I = out_invD [OF assms(1)]
  note G = frag_geometry [OF assms(1,3), folded assms(4,5)]
  have "aligned (out_size st m p) + 4 \<le> out_cap st" and "p + k \<le> Suc (out_hist st)"
    using G(4,5) ph by simp_all
  from fragment_loop_spec [OF assms(2) I(1,2) p this(2,1), of "frag_block st" "frag_first st m"] G(13) ph
  show ?thesis
    unfolding G(4) by fastforce
qed

text \<open>C17. A message too long for a slot is laid out in fragments: consecutive slots are filled to
  the brim behind fragment headers that announce their sizes, the last slot gets the header with
  the last-fragment flag and the rest, the sizes add up to the length of the message, and the
  client is given the room of the first fragment.\<close>
theorem reliable_output_fragments:
  assumes "out_inv st m" and "ucdr_ok cdr" and "len < 2 ^ 63" and "frag_case st m len"
    and "k = frag_count st m len" and "k \<le> get_available_free_slots st m"
    and "p = frag_slot st m"
    and "uxr_prepare_reliable_buffer_to_write cdr self st len ub m = (ok, st', ub', m')"
  shows "ok \<and> last_written st' = out_seq st (p + k) \<and> p + k \<le> out_hist st \<and>
    frag_first st m + (k - 1) * frag_block st + frag_last st m len = len \<and>
    0 < frag_last st m len \<and> frag_last st m len \<le> frag_block st \<and>
    (\<forall>j \<in> set [0..<k]. out_size st m' (p + j) = out_cap st \<and>
       rd m' (out_buf st (p + j) + (if j = 0 then frag_start st m else out_off st)) 4 =
         header_bytes SUBMESSAGE_ID_FRAGMENT (frag_flags cdr 0)
           (of_nat (if j = 0 then frag_first st m else frag_block st))) \<and>
    out_size st m' (p + k) = out_off st + 4 + frag_last st m len \<and>
    rd m' (out_buf st (p + k) + out_off st) 4 =
      header_bytes SUBMESSAGE_ID_FRAGMENT (frag_flags cdr FLAG_LAST_FRAGMENT)
        (of_nat (frag_last st m len)) \<and>
    iterator ub' = out_buf st p + frag_start st m + 4 \<and> final ub' = iterator ub' + frag_first st m"
proof -
  note I = out_invD [OF assms(1)] and g = out_geomD [OF out_invD(1) [OF assms(1)]]
  note G = frag_geometry [OF assms(1,4), folded assms(5,7)]
  have ph: "p + k \<le> out_hist st" by (rule G(8) [OF assms(6)])
  have p: "0 < p" using I(3) by (auto simp: assms(7) frag_slot_def)
  obtain m1 where m1: "fragment_loop cdr (out_base st) (frag_block st) k (out_seq st p) (frag_first st m) m =
      (out_seq st (p + k), m1)" "extends st m m1"
    "\<forall>j. 0 < j \<and> j \<le> out_hist st \<longrightarrow>
       out_size st m1 j = (if p \<le> j \<and> j < p + k then out_cap st else out_size st m j)"
    "\<forall>j < k. rd m1 (out_buf st (p + j) + (if j = 0 then frag_start st m else out_off st)) 4 =
       header_bytes SUBMESSAGE_ID_FRAGMENT (frag_flags cdr 0)
         (of_nat (if j = 0 then frag_first st m else frag_block st))"
    using fragments_marked [OF assms(1,2,4,5,7) ph p] by blast
  let ?hb = "header_bytes SUBMESSAGE_ID_FRAGMENT (frag_flags cdr FLAG_LAST_FRAGMENT)
      (of_nat (frag_last st m len))"
  let ?z = "out_off st + 4 + frag_last st m len"
  let ?m = "extend_slot st (p + k) (out_off st) ?hb ?z m1"
  have e: "ok" "last_written st' = out_seq st (p + k)" "m' = ?m" and ub': "ub' =
      ucdr_set_on_full_buffer_callback cdr (Some on_full_output_buffer_cb) (Some self)
        (ucdr_init_buffer cdr (out_buf st p + frag_start st m + 4) (frag_first st m))"
    using trans [OF assms(8) [symmetric] write_fragments [OF assms(1-4), folded assms(5,7)]] assms(6) m1(1)
    by simp_all
  have f1: "slots_fit (out_base st) m1" using m1(2) by (simp add: extends_def)
  have f2: "out_size st m1 (p + k) = out_off st"
    using m1(3) G(9,13) ph by simp
  have f3: "?z \<le> out_cap st"
    using G(12) g(6) by (simp add: frag_block_def)
  have pk: "0 < p + k" using p by simp
  have f4: "out_size st m1 (p + k) \<le> out_off st" "out_off st + length ?hb \<le> out_cap st"
      "out_size st m1 (p + k) \<le> ?z"
    using f2 f3 by simp_all
  note es = extend_slot_spec [OF I(1) f1 pk ph f4 f3]
  have "out_size st m' (p + j) = out_cap st \<and>
      rd m' (out_buf st (p + j) + (if j = 0 then frag_start st m else out_off st)) 4 =
        header_bytes SUBMESSAGE_ID_FRAGMENT (frag_flags cdr 0)
          (of_nat (if j = 0 then frag_first st m else frag_block st))" if "j < k" for j
  proof -
    have j: "0 < p + j" "p + j \<le> out_hist st" "p + j \<noteq> p + k"
      using that p ph by simp_all
    have "(if j = 0 then frag_start st m else out_off st) + 4 \<le> out_cap st"
      using G(5) g(6) by simp
    from es(1) [OF j(1,2)] es(4) [OF j this] that m1(3,4) j show ?thesis
      by (simp add: e(3) del: length_header_bytes)
  qed
  moreover have "out_size st m' (p + k) = ?z" "rd m' (out_buf st (p + k) + out_off st) 4 = ?hb"
    using es(1) [OF pk ph] es(3) by (simp_all add: e(3))
  ultimately show ?thesis
    using e(1,2) ph G(10-12) by (simp add: ub' ucdr_simps assms(2))
qed

lemma example_frag: "frag_case example_out example_out_mem 40"
  "frag_count example_out example_out_mem 40 = 2" "get_available_free_slots example_out example_out_mem = 4"
  "frag_slot example_out example_out_mem = 1"
  by (simp_all add: frag_case_def free_slots [OF example_out_inv] frag_count_def frag_first_def
      frag_start_def frag_skip_def frag_block_def frag_slot_def example_out_dists example_out_size
      aligned_props(4))

lemma reliable_output_fragments_witness:
  "out_size example_out (snd (snd (snd (uxr_prepare_reliable_buffer_to_write ref_ucdr 0 example_out 40
     (ref_init 0 0 0 0) example_out_mem)))) (1 + 2) = 8 + 4 + 8"
  using reliable_output_fragments [OF example_out_inv ucdr_ok_ref_ucdr _ example_frag(1)
      example_frag(2) [symmetric] _ example_frag(4) [symmetric], of 0 "ref_init 0 0 0 0",
      unfolded prod.collapse [symmetric]]
  by (simp add: example_frag(3) prod_eq_iff example_out_dists frag_last_def example_frag(2)
      frag_first_def frag_start_def frag_skip_def frag_block_def example_out_size aligned_props(4))

text \<open>When a client that fills a fragmented message reaches the end of a fragment, the callback
  moves it to the room behind the header of the next slot, for exactly the bytes that slot was
  given, around the end of the buffer if need be, and keeps counting the offset.\<close>
theorem reliable_output_next_fragment:
  assumes "out_geom st" and "ucdr_ok cdr"
    and "out_buf st i \<le> init ub" and "init ub < out_buf st i + out_cap st"
    and "out_off st + 4 \<le> out_size st m (Suc i)" and "out_size st m (Suc i) < 65536"
  shows "on_full_output_buffer cdr self st ub m =
    (False, \<lparr>init = out_buf st (Suc i) + out_off st + 4, final = out_buf st (Suc i) + out_size st m (Suc i),
       iterator = out_buf st (Suc i) + out_off st + 4, offset = offset ub,
       endianness = UCDR_MACHINE_ENDIANNESS cdr, error = False,
       on_full_buffer = Some on_full_output_buffer_cb, args = Some self\<rparr>)"
  by (rule on_full_output_next [OF assms])

lemma reliable_output_next_fragment_witness:
  "final (snd (on_full_output_buffer ref_ucdr 0 example_out (ref_init (out_buf example_out 3) 28 0 0)
      (extend_slot example_out 4 8 [] 20 example_out_mem))) = out_buf example_out 4 + 20"
proof -
  have "out_size example_out (extend_slot example_out 4 8 [] 20 example_out_mem) (Suc 3) = 20"
    using extend_slot_spec(1) [OF example_out_geom out_invD(2) [OF example_out_inv], of 4 8 "[]" 20 4]
    by (simp add: example_out_dists example_out_size)
  then show ?thesis
    using reliable_output_next_fragment [OF example_out_geom ucdr_ok_ref_ucdr, of 3
        "ref_init (out_buf example_out 3) 28 0 0" "extend_slot example_out 4 8 [] 20 example_out_mem" 0]
    by (simp add: example_out_dists) (simp add: ref_init_def)
qed

text \<open>C18. An acknowledgement that does not go back and does not pass what was sent frees exactly the
  acknowledged slots: the window starts behind them, the others keep their lengths, the freed ones
  are empty, and the invariant holds.\<close>
theorem reliable_output_acknack:
  assumes "out_inv st m" and "acked st f \<le> sent_dist st"
    and "uxr_process_acknack st bitmap f m = (st', m')"
  shows "out_inv st' m' \<and> last_acknown st' = f - 1 \<and> sent_dist st' = sent_dist st - acked st f \<and>
    (\<forall>i \<in> set [1..<Suc (out_hist st)]. out_size st' m' i =
       (if acked st f + i \<le> out_hist st then out_size st m (acked st f + i) else out_off st)) \<and>
    send_lost st' = (bitmap \<noteq> 0) \<and> next_heartbeat_tries st' = 0"
proof -
  note A = out_inv_acknack [OF assms]
  have "send_lost st' = (bitmap \<noteq> 0) \<and> next_heartbeat_tries st' = 0"
    using assms(3) by (auto simp: process_acknack word_gt_0)
  then show ?thesis
    using A by (auto simp del: upt_Suc)
qed

lemma reliable_output_acknack_witness:
  "out_inv (fst (uxr_process_acknack example_out 3 0 example_out_mem))
     (snd (uxr_process_acknack example_out 3 0 example_out_mem))"
  using reliable_output_acknack [OF example_out_inv, of 0 3] 
  by (simp add: acked_def example_out_dists prod_eq_iff) (simp add: example_out_def)

text \<open>C27. A late acknowledgement is not recognized: one that names as first unacknowledged the very
  message that is already known as the last acknowledged one empties every slot, sent or not, and
  moves the window back by one.\<close>
theorem reliable_output_stale_acknack:
  assumes "out_inv st m" and "uxr_process_acknack st bitmap (last_acknown st) m = (st', m')"
  shows "last_acknown st' = last_acknown st - 1 \<and>
    (\<forall>i \<in> set [1..<Suc (out_hist st)]. out_size st m' i = out_off st)"
proof -
  note I = out_invD [OF assms(1)] and g = out_geomD [OF out_invD(1) [OF assms(1)]]
  have k: "acked st (last_acknown st) = 65535"
  proof -
    have "last_acknown st - 1 - last_acknown st = (65535 :: u16)" by simp
    then show ?thesis by (simp only: acked_def seq_dist_def) simp
  qed
  have st': "st' = st\<lparr>last_acknown := out_seq st 65535, send_lost := (0 < bitmap), next_heartbeat_tries := 0\<rparr>"
    and m': "m' = snd (clean_acked 65535 st m)"
    using assms(2) by (simp_all add: process_acknack clean_acked_state k)
  have "out_size st m' i = out_off st" if "0 < i" "i \<le> out_hist st" for i
    unfolding out_size_def m' clean_acked_size [OF g(1)]
    using that g(3) by (auto dest!: spec [of _ i])
  then show ?thesis
    by (auto simp: st' out_seq_def simp del: upt_Suc)
qed

lemma reliable_output_stale_acknack_witness:
  "last_acknown (fst (uxr_process_acknack example_out 0 65535 example_out_mem)) = 65534"
  using reliable_output_stale_acknack [OF example_out_inv, of 0] 
  by (simp add: prod_eq_iff) (simp add: example_out_def)

text \<open>The heartbeat timer is pushed back by every update: while messages wait for an
  acknowledgement, updates that follow each other faster than the heartbeat interval never ask for
  a heartbeat, however long they go on.\<close>
theorem heartbeat_starvation:
  assumes "uxr_seq_num_cmp (last_acknown st) (last_sent st) < 0" and "0 < interval"
    and "next_heartbeat_tries st = 0"
    and "\<forall>i \<in> set [1..<length ts]. ts ! i < ts ! (i - 1) + interval"
  shows "True \<notin> set (heartbeats interval st ts)"
proof (cases ts)
  case (Cons t ts')
  have "True \<notin> set (heartbeats interval st (t # ts'))"
  proof (rule heartbeat_waiting [OF assms(1,2), of t])
    fix i assume i: "Suc i < length (t # t # ts')"
    show "(t # t # ts') ! Suc i < (t # t # ts') ! i + interval"
    proof (cases i)
      case (Suc k)
      have "Suc k \<in> set [1..<length ts]"
        using i Suc Cons by (simp del: upt_Suc)
      from bspec [OF assms(4) this] have "ts ! Suc k < ts ! k + interval" by simp
      then show ?thesis by (simp add: Suc Cons)
    qed (use assms(2) in simp)
  qed (use assms(3) in simp)
  then show ?thesis by (simp add: Cons)
qed simp

lemma heartbeat_starvation_witness:
  "True \<notin> set (heartbeats 100 (example_out\<lparr>last_sent := 3\<rparr>) [0, 60, 120, 180, 240])"
  by (rule heartbeat_starvation)
    (simp_all add: example_out_def uxr_seq_num_cmp_def SEQ_NUM_MIDSIZE_def SEQ_NUM_SIZE_def upt_rec)

end
