(* ===== verification/StreamStorage.thy ===== *)
theory StreamStorage
  imports Ids BestEffort InputReliable OutputReliable
begin

text \<open>
  The streams of a session, \<open>src/c/core/session/stream/stream_storage.c\<close>: four arrays of fixed
  capacity, each with the number of its elements in use. An array is a list whose length is the
  capacity that the build configures (\<open>UXR_CONFIG_MAX_...\<close>); a pointer to a stream is its index.
  Adding a stream to a full array writes behind it in C, which is the result \<open>None\<close>. What the
  streams keep in memory is passed along.
\<close>

section \<open>State and operations\<close>

record uxrStreamStorage =
  output_best_effort :: "uxrOutputBestEffortStream list"
  output_best_effort_size :: u8
  output_reliable :: "uxrOutputReliableStream list"
  output_reliable_size :: u8
  input_best_effort :: "uxrInputBestEffortStream list"
  input_best_effort_size :: u8
  input_reliable :: "uxrInputReliableStream list"
  input_reliable_size :: u8

definition uxr_init_stream_storage :: "uxrStreamStorage \<Rightarrow> uxrStreamStorage" where
  "uxr_init_stream_storage storage =
     storage\<lparr>output_best_effort_size := 0, output_reliable_size := 0,
             input_best_effort_size := 0, input_reliable_size := 0\<rparr>"

text \<open>A loop over the first \<open>n\<close> elements of an array, and one that changes memory too.\<close>

definition update_first :: "('a \<Rightarrow> 'a) \<Rightarrow> u8 \<Rightarrow> 'a list \<Rightarrow> 'a list" where
  "update_first f n xs = fold (\<lambda>i xs. xs[i := f (xs ! i)]) [0..<unat n] xs"

definition update_first_mem ::
  "('a \<Rightarrow> mem \<Rightarrow> 'a \<times> mem) \<Rightarrow> u8 \<Rightarrow> 'a list \<times> mem \<Rightarrow> 'a list \<times> mem"
where
  "update_first_mem f n st =
     fold (\<lambda>i (xs, m). let (x, m') = f (xs ! i) m in (xs[i := x], m')) [0..<unat n] st"

definition uxr_reset_stream_storage :: "uxrStreamStorage \<Rightarrow> mem \<Rightarrow> uxrStreamStorage \<times> mem" where
  "uxr_reset_stream_storage storage m =
     (let obe = update_first uxr_reset_output_best_effort_stream (output_best_effort_size storage)
                  (output_best_effort storage);
          ibe = update_first uxr_reset_input_best_effort_stream (input_best_effort_size storage)
                  (input_best_effort storage);
          (orl, m1) = update_first_mem uxr_reset_output_reliable_stream (output_reliable_size storage)
                  (output_reliable storage, m);
          (irl, m2) = update_first_mem uxr_reset_input_reliable_stream (input_reliable_size storage)
                  (input_reliable storage, m1)
      in (storage\<lparr>output_best_effort := obe, input_best_effort := ibe,
                  output_reliable := orl, input_reliable := irl\<rparr>, m2))"

definition uxr_add_output_best_effort_buffer ::
  "uxrStreamStorage \<Rightarrow> addr \<Rightarrow> size_t \<Rightarrow> u8 \<Rightarrow> (uxrStreamId \<times> uxrStreamStorage) option"
where
  "uxr_add_output_best_effort_buffer storage buffer' size' header_offset' =
     (let idx = output_best_effort_size storage;
          xs = output_best_effort storage;
          storage1 = storage\<lparr>output_best_effort_size := idx + 1\<rparr>
      in if unat idx < length xs
         then Some (uxr_stream_id 0 idx UXR_BEST_EFFORT_STREAM UXR_OUTPUT_STREAM,
                storage1\<lparr>output_best_effort := xs[unat idx :=
                  uxr_init_output_best_effort_stream (xs ! unat idx) buffer' size' header_offset']\<rparr>)
         else None)"

definition uxr_add_output_reliable_buffer ::
  "uxrStreamStorage \<Rightarrow> addr \<Rightarrow> size_t \<Rightarrow> u16 \<Rightarrow> u8 \<Rightarrow> mem
    \<Rightarrow> (uxrStreamId \<times> uxrStreamStorage \<times> mem) option"
where
  "uxr_add_output_reliable_buffer storage buffer' size' history' header_offset' m =
     (let idx = output_reliable_size storage;
          xs = output_reliable storage;
          storage1 = storage\<lparr>output_reliable_size := idx + 1\<rparr>
      in if unat idx < length xs
         then let (x, m1) = uxr_init_output_reliable_stream (xs ! unat idx) buffer' size' history'
                              header_offset' m
              in Some (uxr_stream_id 0 idx UXR_RELIABLE_STREAM UXR_OUTPUT_STREAM,
                   storage1\<lparr>output_reliable := xs[unat idx := x]\<rparr>, m1)
         else None)"

definition uxr_add_input_best_effort_buffer ::
  "uxrStreamStorage \<Rightarrow> (uxrStreamId \<times> uxrStreamStorage) option"
where
  "uxr_add_input_best_effort_buffer storage =
     (let idx = input_best_effort_size storage;
          xs = input_best_effort storage;
          storage1 = storage\<lparr>input_best_effort_size := idx + 1\<rparr>
      in if unat idx < length xs
         then Some (uxr_stream_id 0 idx UXR_BEST_EFFORT_STREAM UXR_INPUT_STREAM,
                storage1\<lparr>input_best_effort := xs[unat idx := uxr_init_input_best_effort_stream]\<rparr>)
         else None)"

definition uxr_add_input_reliable_buffer ::
  "uxrStreamStorage \<Rightarrow> addr \<Rightarrow> size_t \<Rightarrow> u16 \<Rightarrow> OnGetFragmentationInfo \<Rightarrow> mem
    \<Rightarrow> (uxrStreamId \<times> uxrStreamStorage \<times> mem) option"
where
  "uxr_add_input_reliable_buffer storage buffer' size' history' on_get m =
     (let idx = input_reliable_size storage;
          xs = input_reliable storage;
          storage1 = storage\<lparr>input_reliable_size := idx + 1\<rparr>
      in if unat idx < length xs
         then let (x, m1) = uxr_init_input_reliable_stream (xs ! unat idx) buffer' size' history' on_get m
              in Some (uxr_stream_id 0 idx UXR_RELIABLE_STREAM UXR_INPUT_STREAM,
                   storage1\<lparr>input_reliable := xs[unat idx := x]\<rparr>, m1)
         else None)"

definition uxr_get_output_best_effort_stream :: "uxrStreamStorage \<Rightarrow> u8 \<Rightarrow> nat option" where
  "uxr_get_output_best_effort_stream storage idx =
     (if idx < output_best_effort_size storage then Some (unat idx) else None)"

definition uxr_get_output_reliable_stream :: "uxrStreamStorage \<Rightarrow> u8 \<Rightarrow> nat option" where
  "uxr_get_output_reliable_stream storage idx =
     (if idx < output_reliable_size storage then Some (unat idx) else None)"

definition uxr_get_input_best_effort_stream :: "uxrStreamStorage \<Rightarrow> u8 \<Rightarrow> nat option" where
  "uxr_get_input_best_effort_stream storage idx =
     (if idx < input_best_effort_size storage then Some (unat idx) else None)"

definition uxr_get_input_reliable_stream :: "uxrStreamStorage \<Rightarrow> u8 \<Rightarrow> nat option" where
  "uxr_get_input_reliable_stream storage idx =
     (if idx < input_reliable_size storage then Some (unat idx) else None)"

definition uxr_output_streams_confirmed :: "uxrStreamStorage \<Rightarrow> bool" where
  "uxr_output_streams_confirmed storage =
     fold (\<lambda>i up_to_date. up_to_date \<and> uxr_is_output_up_to_date (output_reliable storage ! i))
       [0..<unat (output_reliable_size storage)] True"

section \<open>The streams in use\<close>

lemma nth_in_take: "i < k \<Longrightarrow> k \<le> length xs \<Longrightarrow> xs ! i \<in> set (take k xs)"
  by (metis length_take min.absorb2 nth_mem nth_take)

lemma all_take_iff: "k \<le> length xs \<Longrightarrow> (\<forall>x \<in> set (take k xs). P x) \<longleftrightarrow> (\<forall>i < k. P (xs ! i))"
  using nth_in_take [of _ k xs] by (auto simp: in_set_conv_nth)

lemma update_first_eq:
  assumes "unat n \<le> length xs"
  shows "update_first f n xs = map f (take (unat n) xs) @ drop (unat n) xs"
proof -
  have "fold (\<lambda>i xs. xs[i := f (xs ! i)]) [0..<k] xs = map f (take k xs) @ drop k xs"
    if "k \<le> length xs" for k
    using that
  proof (induction k)
    case (Suc k)
    then have "(map f (take k xs) @ drop k xs)[k := f (xs ! k)] = map f (take (Suc k) xs) @ drop (Suc k) xs"
      by (simp add: take_Suc_conv_app_nth list_update_append Cons_nth_drop_Suc [symmetric])
    with Suc show ?case
      by (simp add: nth_append)
  qed simp
  then show ?thesis
    using assms by (simp add: update_first_def)
qed

text \<open>The four lists of streams that a storage stands for.\<close>

definition obe_streams :: "uxrStreamStorage \<Rightarrow> uxrOutputBestEffortStream list" where
  "obe_streams st = take (unat (output_best_effort_size st)) (output_best_effort st)"

definition orl_streams :: "uxrStreamStorage \<Rightarrow> uxrOutputReliableStream list" where
  "orl_streams st = take (unat (output_reliable_size st)) (output_reliable st)"

definition ibe_streams :: "uxrStreamStorage \<Rightarrow> uxrInputBestEffortStream list" where
  "ibe_streams st = take (unat (input_best_effort_size st)) (input_best_effort st)"

definition irl_streams :: "uxrStreamStorage \<Rightarrow> uxrInputReliableStream list" where
  "irl_streams st = take (unat (input_reliable_size st)) (input_reliable st)"

lemmas streams_defs = obe_streams_def orl_streams_def ibe_streams_def irl_streams_def

text \<open>No more streams than the arrays hold, and arrays that the stream octets can address.\<close>

definition storage_ok :: "uxrStreamStorage \<Rightarrow> bool" where
  "storage_ok st \<longleftrightarrow>
     unat (output_best_effort_size st) \<le> length (output_best_effort st) \<and> length (output_best_effort st) \<le> 127 \<and>
     unat (output_reliable_size st) \<le> length (output_reliable st) \<and> length (output_reliable st) \<le> 128 \<and>
     unat (input_best_effort_size st) \<le> length (input_best_effort st) \<and> length (input_best_effort st) \<le> 127 \<and>
     unat (input_reliable_size st) \<le> length (input_reliable st) \<and> length (input_reliable st) \<le> 128"

text \<open>One more stream in an array.\<close>

lemma unat_Suc_u8: "unat n < 255 \<Longrightarrow> unat (n + 1 :: u8) = Suc (unat n)"
  using unat_u8_add [of n 1] by simp

lemma take_next:
  assumes "unat (n :: u8) < length xs" and "length xs \<le> 128"
  shows "take (unat (n + 1)) (xs[unat n := x]) = take (unat n) xs @ [x]"
    and "unat (n + 1) \<le> length xs" and "unat (n + 1) = Suc (unat n)"
proof -
  show "unat (n + 1) = Suc (unat n)"
    using assms by (intro unat_Suc_u8) simp
  then show "take (unat (n + 1)) (xs[unat n := x]) = take (unat n) xs @ [x]" "unat (n + 1) \<le> length xs"
    using assms by (simp_all add: take_Suc_conv_app_nth)
qed

lemma init_fresh:
  "uxr_init_output_best_effort_stream s b n h = uxr_init_output_best_effort_stream s' b n h"
  "uxr_init_output_reliable_stream t b n k h m = uxr_init_output_reliable_stream t' b n k h m"
  "uxr_init_input_reliable_stream r b n k f m = uxr_init_input_reliable_stream r' b n k f m"
  by (simp_all add: uxr_init_output_best_effort_stream_def uxr_reset_output_best_effort_stream_def
      uxr_init_output_reliable_stream_def uxr_reset_output_reliable_stream_def
      uxr_init_input_reliable_stream_def uxr_reset_input_reliable_stream_def)

lemma fold_conj: "fold (\<lambda>i ok. ok \<and> P i) xs b \<longleftrightarrow> b \<and> (\<forall>i \<in> set xs. P i)"
  by (induction xs arbitrary: b) auto

lemma streams_confirmed:
  assumes "storage_ok st"
  shows "uxr_output_streams_confirmed st \<longleftrightarrow> (\<forall>s \<in> set (orl_streams st). uxr_is_output_up_to_date s)"
  using assms by (simp add: uxr_output_streams_confirmed_def fold_conj orl_streams_def storage_ok_def
      all_take_iff atLeast0LessThan) auto

section \<open>Resetting an array of streams\<close>

text \<open>
  What the storage relies on to reset streams one after the other: a reset leaves a good stream
  and touches only the buffer of the stream, and a stream stays good while its buffer is left alone.
\<close>

locale stream_array =
  fixes reset :: "'s \<Rightarrow> mem \<Rightarrow> 's \<times> mem"
    and lo :: "'s \<Rightarrow> addr" and hi :: "'s \<Rightarrow> addr"
    and ok :: "'s \<Rightarrow> bool" and good :: "'s \<Rightarrow> mem \<Rightarrow> bool"
  assumes reset_good: "ok s \<Longrightarrow> reset s m = (s', m') \<Longrightarrow> good s' m'"
    and reset_in: "ok s \<Longrightarrow> reset s m = (s', m') \<Longrightarrow> changed_within m m' (lo s) (hi s)"
    and reset_buffer: "reset s m = (s', m') \<Longrightarrow> lo s' = lo s \<and> hi s' = hi s"
    and good_same: "good s m \<Longrightarrow> same_on m m' (lo s) (hi s) \<Longrightarrow> good s m'"
begin

definition disjoint :: "'s list \<Rightarrow> bool" where
  "disjoint xs \<longleftrightarrow> (\<forall>i < length xs. \<forall>j < length xs. i \<noteq> j \<longrightarrow>
     hi (xs ! i) \<le> lo (xs ! j) \<or> hi (xs ! j) \<le> lo (xs ! i))"

definition outside :: "'s list \<Rightarrow> addr \<Rightarrow> bool" where
  "outside xs a \<longleftrightarrow> (\<forall>s \<in> set xs. a < lo s \<or> hi s \<le> a)"

lemma resets:
  assumes "unat n \<le> length xs" and "disjoint (take (unat n) xs)" and "\<forall>s \<in> set (take (unat n) xs). ok s"
    and "update_first_mem reset n (xs, m) = (xs', m')"
  shows "length xs' = length xs \<and>
    (\<forall>i < unat n. good (xs' ! i) m' \<and> lo (xs' ! i) = lo (xs ! i) \<and> hi (xs' ! i) = hi (xs ! i) \<and>
       (\<exists>m1 m2. reset (xs ! i) m1 = (xs' ! i, m2))) \<and>
    (\<forall>a. outside (take (unat n) xs) a \<longrightarrow> m' a = m a)"
proof -
  have "length ys = length xs \<and> (\<forall>i. k \<le> i \<longrightarrow> ys ! i = xs ! i) \<and>
    (\<forall>i < k. good (ys ! i) mk \<and> lo (ys ! i) = lo (xs ! i) \<and> hi (ys ! i) = hi (xs ! i) \<and>
       (\<exists>m1 m2. reset (xs ! i) m1 = (ys ! i, m2))) \<and>
    (\<forall>a. outside (take k xs) a \<longrightarrow> mk a = m a)"
    if "fold (\<lambda>i (xs, m). let (x, m') = reset (xs ! i) m in (xs[i := x], m')) [0..<k] (xs, m) = (ys, mk)"
      and "k \<le> unat n" for k ys mk
    using that
  proof (induction k arbitrary: ys mk)
    case 0
    then show ?case by simp
  next
    case (Suc k)
    obtain zs m1 where z: "fold (\<lambda>i (xs, m). let (x, m') = reset (xs ! i) m in (xs[i := x], m')) [0..<k]
        (xs, m) = (zs, m1)"
      by force
    note IH = Suc.IH [OF z]
    obtain x where r: "reset (xs ! k) m1 = (x, mk)" and ys: "ys = zs[k := x]"
      using Suc.prems z IH by (auto simp: Let_def split: prod.splits)
    have k: "k < length xs" and okk: "ok (xs ! k)"
      using Suc.prems(2) assms(1,3) nth_in_take [of k "unat n" xs] by auto
    have apart: "hi (xs ! i) \<le> lo (xs ! k) \<or> hi (xs ! k) \<le> lo (xs ! i)" if "i < k" for i
      using assms(2) that Suc.prems(2) k assms(1) by (auto simp: disjoint_def)
    have "good (zs ! i) mk" if "i < k" for i
    proof (rule good_same)
      show "good (zs ! i) m1" and "same_on m1 mk (lo (zs ! i)) (hi (zs ! i))"
        using IH Suc.prems that changed_within_same_on [OF reset_in [OF okk r]] apart [OF that] by auto
    qed
    moreover have "mk a = m a" if "outside (take (Suc k) xs) a" for a
      using IH Suc.prems that reset_in [OF okk r] k
      by (auto simp: outside_def changed_within_def take_Suc_conv_app_nth)
    moreover have "good x mk \<and> lo x = lo (xs ! k) \<and> hi x = hi (xs ! k)"
      using reset_good [OF okk r] reset_buffer [OF r] by simp
    moreover have "\<exists>m1 m2. reset (xs ! k) m1 = (x, m2)"
      using r by blast
    ultimately show ?case
      using IH Suc.prems(2) k by (simp add: ys less_Suc_eq nth_list_update)
  qed
  from this [of "unat n"] show ?thesis
    using assms(4) by (simp add: update_first_mem_def)
qed

end

lemma reset_up_to_date:
  "uxr_reset_output_reliable_stream s m = (s', m') \<Longrightarrow> uxr_is_output_up_to_date s'"
  by (auto simp: uxr_reset_output_reliable_stream_def uxr_is_output_up_to_date_def uxr_seq_num_cmp_def)

interpretation orl: stream_array uxr_reset_output_reliable_stream
  "\<lambda>s. buffer (out_base s)" "\<lambda>s. buffer (out_base s) + stream_size (out_base s)"
  out_geom "\<lambda>s m. out_inv s m \<and> sent_dist s = 0"
proof
  fix s s' :: uxrOutputReliableStream and m m' :: mem
  assume r: "uxr_reset_output_reliable_stream s m = (s', m')"
  show "out_inv s' m' \<and> sent_dist s' = 0" if "out_geom s"
    using out_reset [OF that r] by (simp add: out_good_def unacked_def split: if_splits)
  have "m' = rs.set_all (out_base s) (out_off s) (out_hist s) m"
    using r by (simp add: uxr_reset_output_reliable_stream_def rs.set_all_def out_off_def out_hist_def)
  then show "changed_within m m' (buffer (out_base s)) (buffer (out_base s) + stream_size (out_base s))"
    if "out_geom s"
    using rs.set_all_in [OF out_geomD(1) [OF that]] by simp
  show "buffer (out_base s') = buffer (out_base s) \<and> buffer (out_base s') + stream_size (out_base s') =
      buffer (out_base s) + stream_size (out_base s)"
    using r by (auto simp: uxr_reset_output_reliable_stream_def)
next
  fix s :: uxrOutputReliableStream and m m' :: mem
  assume g: "out_inv s m \<and> sent_dist s = 0"
    and same: "same_on m m' (buffer (out_base s)) (buffer (out_base s) + stream_size (out_base s))"
  have "uxr_get_reliable_buffer_size (out_base s) q m' = uxr_get_reliable_buffer_size (out_base s) q m" for q
    using g same by (intro rs.size_same_on) (simp_all add: out_inv_def out_geom_def)
  then show "out_inv s m' \<and> sent_dist s = 0"
    using g by (simp add: out_inv_def out_size_def slots_fit_def)
qed

definition in_geom :: "uxrInputReliableStream \<Rightarrow> bool" where
  "in_geom s \<longleftrightarrow> ok_stream (in_base s) \<and> unat (history (in_base s)) dvd 65536 \<and>
     unat (history (in_base s)) < 32768"

definition in_clean :: "uxrInputReliableStream \<Rightarrow> mem \<Rightarrow> bool" where
  "in_clean s m \<longleftrightarrow> ok_in s m \<and> last_handled s = SEQ_NUM_MAX \<and>
     in_window s m = replicate (unat (history (in_base s))) None"

interpretation irl: stream_array uxr_reset_input_reliable_stream
  "\<lambda>s. buffer (in_base s)" "\<lambda>s. buffer (in_base s) + stream_size (in_base s)" in_geom in_clean
proof
  fix s s' :: uxrInputReliableStream and m m' :: mem
  assume r: "uxr_reset_input_reliable_stream s m = (s', m')"
  show "in_clean s' m'" if "in_geom s"
    using reset_input [OF _ _ _ r] that by (simp add: in_geom_def in_clean_def)
  show "changed_within m m' (buffer (in_base s)) (buffer (in_base s) + stream_size (in_base s))"
    if "in_geom s"
    using rs.set_all_in [of "in_base s"] that r by (auto simp: in_geom_def reset_set_all)
  show "buffer (in_base s') = buffer (in_base s) \<and> buffer (in_base s') + stream_size (in_base s') =
      buffer (in_base s) + stream_size (in_base s)"
    using r by (auto simp: reset_set_all)
next
  fix s :: uxrInputReliableStream and m m' :: mem
  assume "in_clean s m" and "same_on m m' (buffer (in_base s)) (buffer (in_base s) + stream_size (in_base s))"
  then show "in_clean s m'"
    using in_window_outside [of s m m'] by (simp add: in_clean_def)
qed

section \<open>Properties\<close>

text \<open>A new stream: its identifier survives the wire and finds it.\<close>

definition new_stream :: "uxrStreamId \<Rightarrow> uxrStreamType \<Rightarrow> uxrStreamDirection \<Rightarrow> nat option \<Rightarrow> nat \<Rightarrow> bool" where
  "new_stream sid t d found k \<longleftrightarrow> uxrStreamId.type sid = t \<and> uxr_stream_id_from_raw (raw sid) d = sid \<and>
     unat (index sid) = k \<and> found = Some k"

lemma new_streamI:
  assumes "unat n < k" and "stream_index_ok n t" and "found = Some (unat n)"
  shows "new_stream (uxr_stream_id 0 n t d) t d found (unat n)"
  using assms stream_id_roundtrip [OF assms(2), of 0 d] by (simp add: new_stream_def uxr_stream_id_def)

definition lists :: "uxrStreamStorage \<Rightarrow> uxrOutputBestEffortStream list \<times> uxrOutputReliableStream list \<times>
    uxrInputBestEffortStream list \<times> uxrInputReliableStream list" where
  "lists st = (obe_streams st, orl_streams st, ibe_streams st, irl_streams st)"

lemma add_output_best_effort:
  assumes "storage_ok st"
  shows "case uxr_add_output_best_effort_buffer st b n h of
       None \<Rightarrow> length (obe_streams st) = length (output_best_effort st)
     | Some (sid, st') \<Rightarrow> storage_ok st' \<and> lists st' = (obe_streams st @ [uxr_init_output_best_effort_stream s0 b n h], orl_streams st, ibe_streams st, irl_streams st) \<and>
         new_stream sid UXR_BEST_EFFORT_STREAM UXR_OUTPUT_STREAM (uxr_get_output_best_effort_stream st' (index sid)) (length (obe_streams st))"
proof (cases "unat (output_best_effort_size st) < length (output_best_effort st)")
  case True
  have "length (output_best_effort st) \<le> 128" and idx: "stream_index_ok (output_best_effort_size st) UXR_BEST_EFFORT_STREAM"
    using assms True by (simp_all add: storage_ok_def stream_index_ok_def)
  note t = take_next [OF True this(1)] new_streamI [OF True idx]
  show ?thesis
    using True assms t init_fresh(1) [of _ b n h s0]
    by (simp add: uxr_add_output_best_effort_buffer_def streams_defs lists_def storage_ok_def Let_def
        uxr_get_output_best_effort_stream_def word_less_nat_alt uxr_stream_id_def split: prod.splits)
qed (use assms in \<open>simp add: uxr_add_output_best_effort_buffer_def streams_defs storage_ok_def Let_def\<close>)

lemma add_output_reliable:
  assumes "storage_ok st"
  shows "case uxr_add_output_reliable_buffer st b n k h m of
       None \<Rightarrow> length (orl_streams st) = length (output_reliable st)
     | Some (sid, st', m') \<Rightarrow> storage_ok st' \<and> lists st' = (obe_streams st, orl_streams st @ [fst (uxr_init_output_reliable_stream s1 b n k h m)], ibe_streams st, irl_streams st) \<and> m' = snd (uxr_init_output_reliable_stream s1 b n k h m) \<and>
         new_stream sid UXR_RELIABLE_STREAM UXR_OUTPUT_STREAM (uxr_get_output_reliable_stream st' (index sid)) (length (orl_streams st))"
proof (cases "unat (output_reliable_size st) < length (output_reliable st)")
  case True
  have "length (output_reliable st) \<le> 128" and idx: "stream_index_ok (output_reliable_size st) UXR_RELIABLE_STREAM"
    using assms True by (simp_all add: storage_ok_def stream_index_ok_def)
  note t = take_next [OF True this(1)] new_streamI [OF True idx]
  show ?thesis
    using True assms t init_fresh(2) [of "output_reliable st ! unat (output_reliable_size st)" b n k h m s1]
    by (simp add: uxr_add_output_reliable_buffer_def streams_defs lists_def storage_ok_def Let_def
        uxr_get_output_reliable_stream_def word_less_nat_alt uxr_stream_id_def split: prod.splits)
qed (use assms in \<open>simp add: uxr_add_output_reliable_buffer_def streams_defs storage_ok_def Let_def\<close>)

lemma add_input_best_effort:
  assumes "storage_ok st"
  shows "case uxr_add_input_best_effort_buffer st of
       None \<Rightarrow> length (ibe_streams st) = length (input_best_effort st)
     | Some (sid, st') \<Rightarrow> storage_ok st' \<and> lists st' = (obe_streams st, orl_streams st, ibe_streams st @ [uxr_init_input_best_effort_stream], irl_streams st) \<and>
         new_stream sid UXR_BEST_EFFORT_STREAM UXR_INPUT_STREAM (uxr_get_input_best_effort_stream st' (index sid)) (length (ibe_streams st))"
proof (cases "unat (input_best_effort_size st) < length (input_best_effort st)")
  case True
  have "length (input_best_effort st) \<le> 128" and idx: "stream_index_ok (input_best_effort_size st) UXR_BEST_EFFORT_STREAM"
    using assms True by (simp_all add: storage_ok_def stream_index_ok_def)
  note t = take_next [OF True this(1)] new_streamI [OF True idx]
  show ?thesis
    using True assms t init_fresh(1)
    by (simp add: uxr_add_input_best_effort_buffer_def streams_defs lists_def storage_ok_def Let_def
        uxr_get_input_best_effort_stream_def word_less_nat_alt uxr_stream_id_def split: prod.splits)
qed (use assms in \<open>simp add: uxr_add_input_best_effort_buffer_def streams_defs storage_ok_def Let_def\<close>)

lemma add_input_reliable:
  assumes "storage_ok st"
  shows "case uxr_add_input_reliable_buffer st b n k f m of
       None \<Rightarrow> length (irl_streams st) = length (input_reliable st)
     | Some (sid, st', m') \<Rightarrow> storage_ok st' \<and> lists st' = (obe_streams st, orl_streams st, ibe_streams st, irl_streams st @ [fst (uxr_init_input_reliable_stream s2 b n k f m)]) \<and> m' = snd (uxr_init_input_reliable_stream s2 b n k f m) \<and>
         new_stream sid UXR_RELIABLE_STREAM UXR_INPUT_STREAM (uxr_get_input_reliable_stream st' (index sid)) (length (irl_streams st))"
proof (cases "unat (input_reliable_size st) < length (input_reliable st)")
  case True
  have "length (input_reliable st) \<le> 128" and idx: "stream_index_ok (input_reliable_size st) UXR_RELIABLE_STREAM"
    using assms True by (simp_all add: storage_ok_def stream_index_ok_def)
  note t = take_next [OF True this(1)] new_streamI [OF True idx]
  show ?thesis
    using True assms t init_fresh(3) [of "input_reliable st ! unat (input_reliable_size st)" b n k f m s2]
    by (simp add: uxr_add_input_reliable_buffer_def streams_defs lists_def storage_ok_def Let_def
        uxr_get_input_reliable_stream_def word_less_nat_alt uxr_stream_id_def split: prod.splits)
qed (use assms in \<open>simp add: uxr_add_input_reliable_buffer_def streams_defs storage_ok_def Let_def\<close>)

text \<open>C23. The storage is four growing lists of streams. Adding a stream appends a freshly initialised
  one to its list, whatever the array held there, leaves the other lists alone and returns an
  identifier that survives the wire and by which the stream is found; it is refused exactly when
  the array is full, where the code would write behind it.\<close>
theorem stream_storage_add:
  assumes "storage_ok st"
  shows "
    (case uxr_add_output_best_effort_buffer st b n h of
       None \<Rightarrow> length (obe_streams st) = length (output_best_effort st)
     | Some (sid, st') \<Rightarrow> storage_ok st' \<and> lists st' = (obe_streams st @ [uxr_init_output_best_effort_stream s0 b n h], orl_streams st, ibe_streams st, irl_streams st) \<and>
         new_stream sid UXR_BEST_EFFORT_STREAM UXR_OUTPUT_STREAM (uxr_get_output_best_effort_stream st' (index sid)) (length (obe_streams st))) \<and>
    (case uxr_add_output_reliable_buffer st b n k h m of
       None \<Rightarrow> length (orl_streams st) = length (output_reliable st)
     | Some (sid, st', m') \<Rightarrow> storage_ok st' \<and> lists st' = (obe_streams st, orl_streams st @ [fst (uxr_init_output_reliable_stream s1 b n k h m)], ibe_streams st, irl_streams st) \<and> m' = snd (uxr_init_output_reliable_stream s1 b n k h m) \<and>
         new_stream sid UXR_RELIABLE_STREAM UXR_OUTPUT_STREAM (uxr_get_output_reliable_stream st' (index sid)) (length (orl_streams st))) \<and>
    (case uxr_add_input_best_effort_buffer st of
       None \<Rightarrow> length (ibe_streams st) = length (input_best_effort st)
     | Some (sid, st') \<Rightarrow> storage_ok st' \<and> lists st' = (obe_streams st, orl_streams st, ibe_streams st @ [uxr_init_input_best_effort_stream], irl_streams st) \<and>
         new_stream sid UXR_BEST_EFFORT_STREAM UXR_INPUT_STREAM (uxr_get_input_best_effort_stream st' (index sid)) (length (ibe_streams st))) \<and>
    (case uxr_add_input_reliable_buffer st b n k f m of
       None \<Rightarrow> length (irl_streams st) = length (input_reliable st)
     | Some (sid, st', m') \<Rightarrow> storage_ok st' \<and> lists st' = (obe_streams st, orl_streams st, ibe_streams st, irl_streams st @ [fst (uxr_init_input_reliable_stream s2 b n k f m)]) \<and> m' = snd (uxr_init_input_reliable_stream s2 b n k f m) \<and>
         new_stream sid UXR_RELIABLE_STREAM UXR_INPUT_STREAM (uxr_get_input_reliable_stream st' (index sid)) (length (irl_streams st)))"
  using add_output_best_effort [OF assms] add_output_reliable [OF assms] add_input_best_effort [OF assms]
    add_input_reliable [OF assms] by (intro conjI)

lemma stream_storage_add_witness:
  "map_option fst (uxr_add_input_best_effort_buffer
     \<lparr>output_best_effort = [], output_best_effort_size = 0, output_reliable = [], output_reliable_size = 0,
      input_best_effort = replicate 3 uxr_init_input_best_effort_stream, input_best_effort_size = 2,
      input_reliable = [], input_reliable_size = 0\<rparr>) =
   Some \<lparr>raw = 3, index = 2, type = UXR_BEST_EFFORT_STREAM, direction = UXR_INPUT_STREAM\<rparr>"
  (is "map_option fst (uxr_add_input_best_effort_buffer ?st) = _")
proof -
  have "storage_ok ?st"
    by (simp add: storage_ok_def)
  from stream_storage_add [OF this] show ?thesis
    by (simp add: uxr_add_input_best_effort_buffer_def uxr_stream_id_def BEST_EFFORT_STREAM_THRESHOLD_def)
qed

text \<open>A session starts clean: with buffers that do not overlap and a usable geometry, resetting
  the storage leaves every stream in use as freshly initialised, every reliable output stream with
  nothing written or under way, every reliable input stream with an empty window, and memory
  outside the buffers of the reliable streams alone.\<close>
theorem stream_storage_reset_clean:
  assumes "storage_ok st" and "uxr_reset_stream_storage st m = (st', m')"
    and "\<forall>s \<in> set (orl_streams st). out_geom s" and "orl.disjoint (orl_streams st)"
    and "\<forall>s \<in> set (irl_streams st). in_geom s" and "irl.disjoint (irl_streams st)"
    and "\<forall>a. orl.outside (orl_streams st) a \<or> irl.outside (irl_streams st) a"
  shows "storage_ok st' \<and>
    obe_streams st' = map uxr_reset_output_best_effort_stream (obe_streams st) \<and>
    ibe_streams st' = map uxr_reset_input_best_effort_stream (ibe_streams st) \<and>
    (\<forall>s \<in> set (orl_streams st'). out_inv s m' \<and> sent_dist s = 0) \<and>
    (\<forall>s \<in> set (irl_streams st'). in_clean s m') \<and>
    uxr_output_streams_confirmed st' \<and>
    (\<forall>a. orl.outside (orl_streams st) a \<and> irl.outside (irl_streams st) a \<longrightarrow> m' a = m a)"
proof -
  note ok = assms(1) [unfolded storage_ok_def]
  obtain orl m1 where o: "update_first_mem uxr_reset_output_reliable_stream (output_reliable_size st)
      (output_reliable st, m) = (orl, m1)"
    by force
  obtain irl where i: "update_first_mem uxr_reset_input_reliable_stream (input_reliable_size st)
      (input_reliable st, m1) = (irl, m')"
    and st': "st' = st\<lparr>output_best_effort := update_first uxr_reset_output_best_effort_stream
        (output_best_effort_size st) (output_best_effort st),
      input_best_effort := update_first uxr_reset_input_best_effort_stream
        (input_best_effort_size st) (input_best_effort st),
      output_reliable := orl, input_reliable := irl\<rparr>"
    using assms(2) o by (auto simp: uxr_reset_stream_storage_def split: prod.splits)
  note O = orl.resets [OF _ _ _ o, folded orl_streams_def]
    and I = irl.resets [OF _ _ _ i, folded irl_streams_def]
  have O: "length orl = length (output_reliable st)"
    "\<And>k. k < unat (output_reliable_size st) \<Longrightarrow>
      out_inv (orl ! k) m1 \<and> sent_dist (orl ! k) = 0 \<and>
      buffer (out_base (orl ! k)) = buffer (out_base (output_reliable st ! k)) \<and>
      buffer (out_base (orl ! k)) + stream_size (out_base (orl ! k)) =
        buffer (out_base (output_reliable st ! k)) + stream_size (out_base (output_reliable st ! k)) \<and>
      (\<exists>m1 m2. uxr_reset_output_reliable_stream (output_reliable st ! k) m1 = (orl ! k, m2))"
    "\<And>a. orl.outside (orl_streams st) a \<Longrightarrow> m1 a = m a"
    using O ok assms(3,4) by blast+
  have I: "length irl = length (input_reliable st)"
    "\<And>k. k < unat (input_reliable_size st) \<Longrightarrow> in_clean (irl ! k) m'"
    "\<And>a. irl.outside (irl_streams st) a \<Longrightarrow> m' a = m1 a"
    using I ok assms(5,6) by blast+
  have good: "out_inv (orl ! k) m' \<and> sent_dist (orl ! k) = 0"
    if k: "k < unat (output_reliable_size st)" for k
  proof (rule orl.good_same)
    let ?s = "output_reliable st ! k"
    have "?s \<in> set (orl_streams st)"
      using k ok by (simp add: orl_streams_def nth_in_take)
    then have "irl.outside (irl_streams st) a"
      if "buffer (out_base ?s) \<le> a" "a < buffer (out_base ?s) + stream_size (out_base ?s)" for a
      using assms(7) that unfolding orl.outside_def by (metis not_less)
    then show "same_on m1 m' (buffer (out_base (orl ! k)))
        (buffer (out_base (orl ! k)) + stream_size (out_base (orl ! k)))"
      using O(2) [OF k] I(3) by (simp add: same_on_def)
  qed (use O(2) [OF k] in simp)
  have up: "uxr_is_output_up_to_date (orl ! k)" if "k < unat (output_reliable_size st)" for k
    using O(2) [OF that] reset_up_to_date by blast
  have len: "length (update_first f n xs) = length xs" if "unat n \<le> length xs" for f n and xs :: "'a list"
    by (simp add: update_first_eq [OF that])
  have "storage_ok st'"
    using ok O(1) I(1) by (simp add: st' storage_ok_def update_first_eq)
  moreover from this have "uxr_output_streams_confirmed st'"
    using ok O(1) up by (simp add: streams_confirmed st' orl_streams_def all_take_iff)
  ultimately show ?thesis
    using ok O I good by (simp add: st' streams_defs update_first_eq all_take_iff)
qed

definition example_storage :: uxrStreamStorage where
  "example_storage = \<lparr>output_best_effort = [], output_best_effort_size = 0,
     output_reliable = [example_out], output_reliable_size = 1,
     input_best_effort = [], input_best_effort_size = 0,
     input_reliable = [example_in\<lparr>in_base := \<lparr>buffer = 2000, stream_size = 64, history = 4\<rparr>\<rparr>],
     input_reliable_size = 1\<rparr>"

lemma stream_storage_reset_clean_witness:
  "uxr_output_streams_confirmed (fst (uxr_reset_stream_storage example_storage (\<lambda>_. 7)))"
proof -
  have e: "orl_streams example_storage = [example_out]"
    "irl_streams example_storage = [example_in\<lparr>in_base := \<lparr>buffer = 2000, stream_size = 64, history = 4\<rparr>\<rparr>]"
    by (simp_all add: streams_defs example_storage_def)
  have b: "out_base example_out = \<lparr>buffer = 1000, stream_size = 128, history = 4\<rparr>"
    by (simp add: example_out_def)
  have "storage_ok example_storage"
    by (simp add: storage_ok_def example_storage_def)
  moreover have "a < 1000 \<or> 1128 \<le> a \<or> a < 2000 \<or> 2064 \<le> a" for a :: nat
    by arith
  ultimately show ?thesis
    using stream_storage_reset_clean [OF _ prod.collapse [symmetric], of example_storage "\<lambda>_. 7"]
      example_out_geom
    by (auto simp: e b orl.disjoint_def irl.disjoint_def orl.outside_def irl.outside_def in_geom_def
        ok_stream_def block_def)
qed

end
