(* ===== verification/SessionState.thy ===== *)
theory SessionState
  imports SessionInfo StreamStorage "HOL-Library.Signed_Division" "HOL-Library.Monad_Syntax"
begin

text \<open>
  The session, \<open>src/c/core/session/session.c\<close>, first part: its state, the world it acts on and
  the operations that everything else is built from.

  A session acts on a \<^emph>\<open>world\<close>: its own state, the memory that pointers refer to, and an external
  state that stands for the transport, the clock and whatever the application's callbacks keep.
  The \<^emph>\<open>environment\<close> holds the code that is called through pointers or not part of this
  repository: the transport's functions, the platform's clock, the serialization library and the
  application's callbacks. A function pointer in the session is a number that the environment
  interprets; \<open>None\<close> stands for \<open>NULL\<close>. The library may call the streams' full-buffer callbacks,
  which read the streams, so it is given the streams as they are at the time of the call.

  A message that a function builds in a local array has a memory of its own, which starts with
  the indeterminate content that the environment gives to automatic variables; what is sent are
  the bytes of the message. Operations that can run into undefined behaviour or not return have a
  result \<open>None\<close> for that. Locks and log output are not modelled.
\<close>

section \<open>State\<close>

definition NO_PONG_STATUS :: u8 where "NO_PONG_STATUS = 0"
definition PONG_IN_SESSION_STATUS :: u8 where "PONG_IN_SESSION_STATUS = 1"
definition PONG_NO_SESSION_STATUS :: u8 where "PONG_NO_SESSION_STATUS = 2"

record uxrContinuousArgs =
  flush_callback :: nat
  flush_callback_args :: nat
  ca_stream_id :: uxrStreamId
  data_size :: size_t

text \<open>
  The lists that the application passes to wait for statuses are held by content;
  \<open>request_status_list_size\<close> says how much of them counts.
\<close>

record uxrSession =
  info :: uxrSessionInfo
  streams :: uxrStreamStorage
  request_list :: "u16 list"
  status_list :: "u8 list"
  request_status_list_size :: size_t
  on_status :: "nat option"
  on_status_args :: nat
  on_topic :: "nat option"
  on_topic_args :: nat
  on_time :: "nat option"
  on_time_args :: nat
  time_offset :: int
  synchronized :: bool
  on_request :: "nat option"
  on_request_args :: nat
  on_reply :: "nat option"
  on_reply_args :: nat
  on_data_flag :: bool
  on_pong_flag :: u8
  continuous_args :: uxrContinuousArgs

record 'e world =
  sess :: uxrSession
  memory :: mem
  ext :: 'e

section \<open>Environment\<close>

record 'e uxrCommunication =
  send_msg :: "u8 list \<Rightarrow> 'e \<Rightarrow> bool \<times> 'e"
  recv_msg :: "int \<Rightarrow> 'e \<times> mem \<Rightarrow> bool \<times> (addr \<times> size_t) \<times> 'e \<times> mem"
  comm_mtu :: u16

text \<open>What automatic variables hold before they are written.\<close>

record locals =
  l_stack :: mem
  l_buffer :: ucdrBuffer
  l_session_header :: "u8 \<times> u8 list"
  l_seq_num :: uxrSeqNum
  l_header :: "u8 \<times> u16 \<times> u8"
  l_input_buffer_used :: bool
  l_STATUS_AGENT :: STATUS_AGENT_Payload
  l_STATUS :: STATUS_Payload
  l_BaseObjectRequest :: BaseObjectRequest
  l_HEARTBEAT :: HEARTBEAT_Payload
  l_ACKNACK :: ACKNACK_Payload
  l_TIMESTAMP_REPLY :: TIMESTAMP_REPLY_Payload
  l_INFO :: INFO_Payload
  l_SampleIdentity :: SampleIdentity
  l_READ_DATA :: READ_DATA_Payload
  l_CREATE :: CREATE_Payload
  l_DomainParticipant_Binary :: OBJK_DomainParticipant_Binary
  l_Topic_Binary :: OBJK_Topic_Binary
  l_Publisher_Binary :: OBJK_Publisher_Binary
  l_Subscriber_Binary :: OBJK_Subscriber_Binary
  l_DataWriter_Binary :: OBJK_DataWriter_Binary
  l_DataReader_Binary :: OBJK_DataReader_Binary

record 'e env =
  comm :: "'e uxrCommunication"
  ucdr_lib :: "uxrStreamStorage \<Rightarrow> ucdr"
  clock_nanos :: "'e \<Rightarrow> int \<times> 'e"
  locals :: locals
  heartbeat_interval :: int
  connection_attempts :: nat
  connection_interval :: int
  call_on_status :: "nat \<Rightarrow> uxrObjectId \<Rightarrow> u16 \<Rightarrow> u8 \<Rightarrow> nat \<Rightarrow> 'e world \<Rightarrow> 'e world"
  call_on_topic :: "nat \<Rightarrow> uxrObjectId \<Rightarrow> u16 \<Rightarrow> uxrStreamId \<Rightarrow> ucdrBuffer \<Rightarrow> u16 \<Rightarrow> nat \<Rightarrow> 'e world \<Rightarrow> 'e world"
  call_on_time :: "nat \<Rightarrow> int \<Rightarrow> int \<Rightarrow> int \<Rightarrow> int \<Rightarrow> nat \<Rightarrow> 'e world \<Rightarrow> 'e world"
  call_on_request :: "nat \<Rightarrow> uxrObjectId \<Rightarrow> u16 \<Rightarrow> SampleIdentity \<Rightarrow> ucdrBuffer \<Rightarrow> u16 \<Rightarrow> nat \<Rightarrow> 'e world \<Rightarrow> 'e world"
  call_on_reply :: "nat \<Rightarrow> uxrObjectId \<Rightarrow> u16 \<Rightarrow> u16 \<Rightarrow> ucdrBuffer \<Rightarrow> u16 \<Rightarrow> nat \<Rightarrow> 'e world \<Rightarrow> 'e world"
  call_flush :: "nat \<Rightarrow> nat \<Rightarrow> 'e world \<Rightarrow> bool \<times> 'e world"

abbreviation sess_info :: "'e world \<Rightarrow> uxrSessionInfo" where
  "sess_info w \<equiv> uxrSession.info (sess w)"

abbreviation sess_streams :: "'e world \<Rightarrow> uxrStreamStorage" where
  "sess_streams w \<equiv> streams (sess w)"

definition lib :: "'e env \<Rightarrow> 'e world \<Rightarrow> ucdr" where
  "lib env w = ucdr_lib env (sess_streams w)"

definition set_info :: "uxrSessionInfo \<Rightarrow> 'e world \<Rightarrow> 'e world" where
  "set_info si w = w\<lparr>sess := (sess w)\<lparr>uxrSession.info := si\<rparr>\<rparr>"

definition set_streams :: "uxrStreamStorage \<Rightarrow> 'e world \<Rightarrow> 'e world" where
  "set_streams st w = w\<lparr>sess := (sess w)\<lparr>streams := st\<rparr>\<rparr>"

text \<open>A stream by its index, and writing it back.\<close>

definition get_obe :: "nat \<Rightarrow> 'e world \<Rightarrow> uxrOutputBestEffortStream" where
  "get_obe i w = output_best_effort (sess_streams w) ! i"

definition set_obe :: "nat \<Rightarrow> uxrOutputBestEffortStream \<Rightarrow> 'e world \<Rightarrow> 'e world" where
  "set_obe i s w = set_streams ((sess_streams w)\<lparr>output_best_effort :=
     (output_best_effort (sess_streams w))[i := s]\<rparr>) w"

definition get_orl :: "nat \<Rightarrow> 'e world \<Rightarrow> uxrOutputReliableStream" where
  "get_orl i w = output_reliable (sess_streams w) ! i"

definition set_orl :: "nat \<Rightarrow> uxrOutputReliableStream \<Rightarrow> 'e world \<Rightarrow> 'e world" where
  "set_orl i s w = set_streams ((sess_streams w)\<lparr>output_reliable :=
     (output_reliable (sess_streams w))[i := s]\<rparr>) w"

definition get_ibe :: "nat \<Rightarrow> 'e world \<Rightarrow> uxrInputBestEffortStream" where
  "get_ibe i w = input_best_effort (sess_streams w) ! i"

definition set_ibe :: "nat \<Rightarrow> uxrInputBestEffortStream \<Rightarrow> 'e world \<Rightarrow> 'e world" where
  "set_ibe i s w = set_streams ((sess_streams w)\<lparr>input_best_effort :=
     (input_best_effort (sess_streams w))[i := s]\<rparr>) w"

definition get_irl :: "nat \<Rightarrow> 'e world \<Rightarrow> uxrInputReliableStream" where
  "get_irl i w = input_reliable (sess_streams w) ! i"

definition set_irl :: "nat \<Rightarrow> uxrInputReliableStream \<Rightarrow> 'e world \<Rightarrow> 'e world" where
  "set_irl i s w = set_streams ((sess_streams w)\<lparr>input_reliable :=
     (input_reliable (sess_streams w))[i := s]\<rparr>) w"

definition set_memory :: "mem \<Rightarrow> 'e world \<Rightarrow> 'e world" where
  "set_memory m w = w\<lparr>memory := m\<rparr>"

section \<open>Time\<close>

definition uxr_nanos :: "'e env \<Rightarrow> 'e world \<Rightarrow> int \<times> 'e world" where
  "uxr_nanos env w = (let (t, e) = clock_nanos env (ext w) in (t, w\<lparr>ext := e\<rparr>))"

definition uxr_millis :: "'e env \<Rightarrow> 'e world \<Rightarrow> int \<times> 'e world" where
  "uxr_millis env w = (let (t, w') = uxr_nanos env w in (t sdiv 1000000, w'))"

definition uxr_convert_to_nanos :: "u32 \<Rightarrow> u32 \<Rightarrow> int" where
  "uxr_convert_to_nanos sec nsec = sint sec * 1000000000 + uint nsec"

definition INT32_MAX :: int where "INT32_MAX = 2147483647"

section \<open>Transport\<close>

definition send_message :: "'e env \<Rightarrow> u8 list \<Rightarrow> 'e world \<Rightarrow> bool \<times> 'e world" where
  "send_message env bytes w =
     (let (sent, e) = send_msg (comm env) bytes (ext w) in (sent, w\<lparr>ext := e\<rparr>))"

definition recv_message ::
  "'e env \<Rightarrow> int \<Rightarrow> 'e world \<Rightarrow> bool \<times> (addr \<times> size_t) \<times> 'e world"
where
  "recv_message env poll_ms w =
     (let (received, data, e, m) = recv_msg (comm env) poll_ms (ext w, memory w)
      in (received, data, w\<lparr>ext := e, memory := m\<rparr>))"

section \<open>Configuring a session\<close>

text \<open>The fields that the function does not write keep what the object held.\<close>

definition uxr_init_session :: "u32 \<Rightarrow> uxrSession \<Rightarrow> uxrSession" where
  "uxr_init_session key' session =
     session\<lparr>request_list := [], status_list := [], request_status_list_size := 0,
             on_status := None, on_status_args := 0, on_topic := None, on_topic_args := 0,
             on_time := None, on_time_args := 0, time_offset := 0, synchronized := False,
             uxrSession.info := uxr_init_session_info 0x81 key',
             streams := uxr_init_stream_storage (streams session)\<rparr>"

definition uxr_set_status_callback :: "nat option \<Rightarrow> nat \<Rightarrow> uxrSession \<Rightarrow> uxrSession" where
  "uxr_set_status_callback f a session = session\<lparr>on_status := f, on_status_args := a\<rparr>"

definition uxr_set_topic_callback :: "nat option \<Rightarrow> nat \<Rightarrow> uxrSession \<Rightarrow> uxrSession" where
  "uxr_set_topic_callback f a session = session\<lparr>on_topic := f, on_topic_args := a\<rparr>"

definition uxr_set_time_callback :: "nat option \<Rightarrow> nat \<Rightarrow> uxrSession \<Rightarrow> uxrSession" where
  "uxr_set_time_callback f a session = session\<lparr>on_time := f, on_time_args := a\<rparr>"

definition uxr_set_request_callback :: "nat option \<Rightarrow> nat \<Rightarrow> uxrSession \<Rightarrow> uxrSession" where
  "uxr_set_request_callback f a session = session\<lparr>on_request := f, on_request_args := a\<rparr>"

definition uxr_set_reply_callback :: "nat option \<Rightarrow> nat \<Rightarrow> uxrSession \<Rightarrow> uxrSession" where
  "uxr_set_reply_callback f a session = session\<lparr>on_reply := f, on_reply_args := a\<rparr>"

text \<open>The function that tells fragments from whole messages by their first submessage header.\<close>

definition session_fragmentation_info :: "ucdr \<Rightarrow> u8 \<times> u16 \<times> u8 \<Rightarrow> OnGetFragmentationInfo" where
  "session_fragmentation_info cdr header0 m submessage_header =
     (let ub = ucdr_init_buffer cdr submessage_header SUBHEADER_SIZE;
          (_, (id', _, flags), _) = uxr_read_submessage_header cdr header0 (ub, m)
      in if SUBMESSAGE_ID_FRAGMENT = id'
         then (if FLAG_LAST_FRAGMENT AND flags \<noteq> 0 then LAST_FRAGMENT else INTERMEDIATE_FRAGMENT)
         else NO_FRAGMENTED)"

definition uxr_create_output_best_effort_stream ::
  "addr \<Rightarrow> size_t \<Rightarrow> 'e world \<Rightarrow> (uxrStreamId \<times> 'e world) option"
where
  "uxr_create_output_best_effort_stream buffer' len w =
     (let header_offset' = of_nat (uxr_session_header_offset (sess_info w))
      in do {
        (sid, st) \<leftarrow> uxr_add_output_best_effort_buffer (sess_streams w) buffer' len header_offset';
        Some (sid, set_streams st w)
      })"

definition uxr_create_output_reliable_stream ::
  "addr \<Rightarrow> size_t \<Rightarrow> u16 \<Rightarrow> 'e world \<Rightarrow> (uxrStreamId \<times> 'e world) option"
where
  "uxr_create_output_reliable_stream buffer' len history' w =
     (let header_offset' = of_nat (uxr_session_header_offset (sess_info w))
      in do {
        (sid, st, m) \<leftarrow> uxr_add_output_reliable_buffer (sess_streams w) buffer' len history'
                           header_offset' (memory w);
        Some (sid, set_memory m (set_streams st w))
      })"

definition uxr_create_input_best_effort_stream :: "'e world \<Rightarrow> (uxrStreamId \<times> 'e world) option" where
  "uxr_create_input_best_effort_stream w =
     do {
       (sid, st) \<leftarrow> uxr_add_input_best_effort_buffer (sess_streams w);
       Some (sid, set_streams st w)
     }"

definition uxr_create_input_reliable_stream ::
  "'e env \<Rightarrow> addr \<Rightarrow> size_t \<Rightarrow> u16 \<Rightarrow> 'e world \<Rightarrow> (uxrStreamId \<times> 'e world) option"
where
  "uxr_create_input_reliable_stream env buffer' len history' w =
     do {
       (sid, st, m) \<leftarrow> uxr_add_input_reliable_buffer (sess_streams w) buffer' len history'
                          (session_fragmentation_info (lib env w) (l_header (locals env))) (memory w);
       Some (sid, set_memory m (set_streams st w))
     }"

section \<open>Room for a submessage\<close>

definition uxr_prepare_stream_to_write_submessage ::
  "'e env \<Rightarrow> uxrStreamId \<Rightarrow> size_t \<Rightarrow> u8 \<Rightarrow> u8 \<Rightarrow> ucdrBuffer \<Rightarrow> 'e world
    \<Rightarrow> bool \<times> ucdrBuffer \<times> 'e world"
where
  "uxr_prepare_stream_to_write_submessage env sid payload_size submessage_id mode ub w =
     (let cdr = lib env w;
          submessage_size = size_add (size_add SUBHEADER_SIZE payload_size)
                              (uxr_submessage_padding payload_size);
          (available, ub1, w1) =
            (case uxrStreamId.type sid of
               UXR_BEST_EFFORT_STREAM \<Rightarrow>
                 (case uxr_get_output_best_effort_stream (sess_streams w) (index sid) of
                    None \<Rightarrow> (False, ub, w)
                  | Some i \<Rightarrow>
                      let (ok, s, ub1) = uxr_prepare_best_effort_buffer_to_write cdr (get_obe i w)
                                           submessage_size ub
                      in (ok, ub1, set_obe i s w))
             | UXR_RELIABLE_STREAM \<Rightarrow>
                 (case uxr_get_output_reliable_stream (sess_streams w) (index sid) of
                    None \<Rightarrow> (False, ub, w)
                  | Some i \<Rightarrow>
                      let (ok, s, ub1, m1) = uxr_prepare_reliable_buffer_to_write cdr i (get_orl i w)
                                               submessage_size ub (memory w)
                      in (ok, ub1, set_memory m1 (set_orl i s w)))
             | _ \<Rightarrow> (False, ub, w))
      in if available
         then let (_, ub2, m2) = uxr_buffer_submessage_header (lib env w1) submessage_id
                                   (of_nat payload_size) mode (ub1, memory w1)
              in (True, ub2, set_memory m2 w1)
         else (False, ub1, w1))"

end
