(* ===== verification/ReadAccess.thy ===== *)
theory ReadAccess
  imports SessionState
begin

text \<open>
  Reading data, \<open>src/c/core/session/read_access.c\<close>: asking the agent for data, and handing the data
  that arrives to the application's callbacks. Only the plain data format is read; the others are
  empty functions in the code.
\<close>

section \<open>Library calls on the memory of the world\<close>

definition run_ser :: "ser \<Rightarrow> ucdrBuffer \<Rightarrow> 'e world \<Rightarrow> bool \<times> ucdrBuffer \<times> 'e world" where
  "run_ser f ub w = (let (ok, ub', m') = f (ub, memory w) in (ok, ub', set_memory m' w))"

definition run_des :: "'a des \<Rightarrow> 'a \<Rightarrow> ucdrBuffer \<Rightarrow> 'e world \<Rightarrow> bool \<times> 'a \<times> ucdrBuffer \<times> 'e world" where
  "run_des d out ub w = (let (ok, v, ub', m') = d out (ub, memory w) in (ok, v, ub', set_memory m' w))"

section \<open>Kinds of objects\<close>

definition UXR_INVALID_ID :: u8 where "UXR_INVALID_ID = 0x00"
definition UXR_PARTICIPANT_ID :: u8 where "UXR_PARTICIPANT_ID = 0x01"
definition UXR_TOPIC_ID :: u8 where "UXR_TOPIC_ID = 0x02"
definition UXR_PUBLISHER_ID :: u8 where "UXR_PUBLISHER_ID = 0x03"
definition UXR_SUBSCRIBER_ID :: u8 where "UXR_SUBSCRIBER_ID = 0x04"
definition UXR_DATAWRITER_ID :: u8 where "UXR_DATAWRITER_ID = 0x05"
definition UXR_DATAREADER_ID :: u8 where "UXR_DATAREADER_ID = 0x06"
definition UXR_REQUESTER_ID :: u8 where "UXR_REQUESTER_ID = 0x07"
definition UXR_REPLIER_ID :: u8 where "UXR_REPLIER_ID = 0x08"
definition UXR_OTHER_ID :: u8 where "UXR_OTHER_ID = 0x0F"

section \<open>Asking for data\<close>

record uxrDeliveryControl =
  max_samples :: u16
  max_elapsed_time :: u16
  max_bytes_per_second :: u16
  min_pace_period :: u16

definition uxr_buffer_request_data ::
  "'e env \<Rightarrow> uxrStreamId \<Rightarrow> uxrObjectId \<Rightarrow> uxrStreamId \<Rightarrow> uxrDeliveryControl option \<Rightarrow> 'e world
    \<Rightarrow> u16 \<times> 'e world"
where
  "uxr_buffer_request_data env sid datareader_id data_stream_id control w =
     (let payload0 = l_READ_DATA (locals env);
          spec0 = (READ_DATA_Payload.read_specification payload0)
            \<lparr>ReadSpecification.preferred_stream_id := raw data_stream_id,
             ReadSpecification.data_format := FORMAT_DATA,
             ReadSpecification.optional_content_filter_expression := False,
             ReadSpecification.optional_delivery_control := (control \<noteq> None)\<rparr>;
          spec1 = (case control of
              None \<Rightarrow> spec0
            | Some c \<Rightarrow> spec0\<lparr>ReadSpecification.delivery_control :=
                \<lparr>DataDeliveryControl.max_samples = max_samples c,
                 max_elapsed_time = max_elapsed_time c,
                 max_bytes_per_seconds = max_bytes_per_second c,
                 min_pace_period = min_pace_period c\<rparr>\<rparr>);
          payload_length = 4 + 4 + (if control \<noteq> None then 8 else 0);
          (available, ub, w1) = uxr_prepare_stream_to_write_submessage env sid payload_length
                                  SUBMESSAGE_ID_READ_DATA 0 (l_buffer (locals env)) w
      in if available
         then let (request_id', si, req) = uxr_init_base_object_request (sess_info w1) datareader_id;
                  payload = payload0\<lparr>READ_DATA_Payload.base := req,
                              READ_DATA_Payload.read_specification := spec1\<rparr>;
                  w2 = set_info si w1;
                  (_, _, w3) = run_ser (uxr_serialize_READ_DATA_Payload (lib env w2) payload) ub w2
              in (request_id', w3)
         else (UXR_INVALID_REQUEST_ID, w1))"

definition uxr_buffer_cancel_data ::
  "'e env \<Rightarrow> uxrStreamId \<Rightarrow> uxrObjectId \<Rightarrow> 'e world \<Rightarrow> u16 \<times> 'e world"
where
  "uxr_buffer_cancel_data env sid datareader_id w =
     uxr_buffer_request_data env sid datareader_id
       \<lparr>raw = 0, index = 0, type = UXR_NONE_STREAM, direction = UXR_INPUT_STREAM\<rparr>
       (Some \<lparr>max_samples = 0, max_elapsed_time = 0, max_bytes_per_second = 0, min_pace_period = 0\<rparr>) w"

section \<open>Data that arrives\<close>

definition set_cleanup_flag :: "nat option \<Rightarrow> bool \<Rightarrow> 'e world \<Rightarrow> 'e world" where
  "set_cleanup_flag a b w =
     (case a of None \<Rightarrow> w | Some i \<Rightarrow> set_irl i ((get_irl i w)\<lparr>cleanup_flag := b\<rparr>) w)"

text \<open>A buffer over what is left of another, with the same callback.\<close>

definition rest_buffer :: "ucdr \<Rightarrow> ucdrBuffer \<Rightarrow> ucdrBuffer \<Rightarrow> ucdrBuffer" where
  "rest_buffer cdr rest ub =
     ucdr_set_on_full_buffer_callback cdr (on_full_buffer ub) (args ub)
       (ucdr_init_buffer cdr (iterator rest) (size_sub (final rest) (iterator rest)))"

text \<open>The length of the data behind a header that was just read.\<close>

definition rest_length :: "u16 \<Rightarrow> ucdrBuffer \<Rightarrow> ucdrBuffer \<Rightarrow> u16" where
  "rest_length len after before = of_nat (size_sub (unat len) (size_sub (offset after) (offset before)))"

definition read_format_data ::
  "'e env \<Rightarrow> ucdrBuffer \<Rightarrow> u16 \<Rightarrow> uxrStreamId \<Rightarrow> uxrObjectId \<Rightarrow> u16 \<Rightarrow> 'e world \<Rightarrow> ucdrBuffer \<times> 'e world"
where
  "read_format_data env ub len sid oid rid w =
     (let temp = rest_buffer (lib env w) ub ub;
          w1 = set_cleanup_flag (args ub) False w;
          got_data = (\<lambda>w. w\<lparr>sess := (sess w)\<lparr>on_data_flag := True\<rparr>\<rparr>);
          (ub1, w2) =
            (if uxrObjectId.type oid = UXR_DATAREADER_ID
             then (ub, case on_topic (sess w1) of
                 None \<Rightarrow> w1
               | Some f \<Rightarrow> got_data (call_on_topic env f oid rid sid temp len (on_topic_args (sess w1)) w1))
             else if uxrObjectId.type oid = UXR_REPLIER_ID
             then (ub, case on_request (sess w1) of
                 None \<Rightarrow> w1
               | Some f \<Rightarrow>
                   let (ok, sample_id, temp1, w1) =
                         run_des (uxr_deserialize_SampleIdentity (lib env w1)) (l_SampleIdentity (locals env)) temp w1
                   in if ok
                      then got_data (call_on_request env f oid rid sample_id
                             (rest_buffer (lib env w1) temp1 ub) (rest_length len temp1 temp)
                             (on_request_args (sess w1)) w1)
                      else w1)
             else if uxrObjectId.type oid = UXR_REQUESTER_ID
             then (ub\<lparr>iterator := iterator ub + unat len\<rparr>, case on_reply (sess w1) of
                 None \<Rightarrow> w1
               | Some f \<Rightarrow>
                   let (ok, req, temp1, w1) =
                         run_des (uxr_deserialize_BaseObjectRequest (lib env w1)) (l_BaseObjectRequest (locals env)) temp w1
                   in if ok
                      then got_data (call_on_reply env f oid rid (snd (uxr_parse_base_object_request req))
                             (rest_buffer (lib env w1) temp1 ub) (rest_length len temp1 temp)
                             (on_reply_args (sess w1)) w1)
                      else w1)
             else (ub, w1));
          w3 = set_cleanup_flag (args ub) True w2
      in (ucdr_advance_buffer (lib env w3) (unat len) ub1, w3))"

definition read_format_sample ::
  "ucdrBuffer \<Rightarrow> u16 \<Rightarrow> uxrStreamId \<Rightarrow> uxrObjectId \<Rightarrow> u16 \<Rightarrow> 'e world \<Rightarrow> ucdrBuffer \<times> 'e world"
where
  "read_format_sample payload len sid oid rid w = (payload, w)"

definition read_format_data_seq ::
  "ucdrBuffer \<Rightarrow> u16 \<Rightarrow> uxrStreamId \<Rightarrow> uxrObjectId \<Rightarrow> u16 \<Rightarrow> 'e world \<Rightarrow> ucdrBuffer \<times> 'e world"
where
  "read_format_data_seq payload len sid oid rid w = (payload, w)"

definition read_format_sample_seq ::
  "ucdrBuffer \<Rightarrow> u16 \<Rightarrow> uxrStreamId \<Rightarrow> uxrObjectId \<Rightarrow> u16 \<Rightarrow> 'e world \<Rightarrow> ucdrBuffer \<times> 'e world"
where
  "read_format_sample_seq payload len sid oid rid w = (payload, w)"

definition read_format_packed_samples ::
  "ucdrBuffer \<Rightarrow> u16 \<Rightarrow> uxrStreamId \<Rightarrow> uxrObjectId \<Rightarrow> u16 \<Rightarrow> 'e world \<Rightarrow> ucdrBuffer \<times> 'e world"
where
  "read_format_packed_samples payload len sid oid rid w = (payload, w)"

definition read_submessage_format ::
  "'e env \<Rightarrow> ucdrBuffer \<Rightarrow> u16 \<Rightarrow> u8 \<Rightarrow> uxrStreamId \<Rightarrow> uxrObjectId \<Rightarrow> u16 \<Rightarrow> 'e world
    \<Rightarrow> ucdrBuffer \<times> 'e world"
where
  "read_submessage_format env data' len format' sid oid rid w =
     (if format' = FORMAT_DATA then read_format_data env data' len sid oid rid w
      else if format' = FORMAT_SAMPLE then read_format_sample data' len sid oid rid w
      else if format' = FORMAT_DATA_SEQ then read_format_data_seq data' len sid oid rid w
      else if format' = FORMAT_SAMPLE_SEQ then read_format_sample_seq data' len sid oid rid w
      else if format' = FORMAT_PACKED_SAMPLES then read_format_packed_samples data' len sid oid rid w
      else (data', w))"

end
