(* ===== verification/SessionRead.thy ===== *)
theory SessionRead
  imports ReadAccess
begin

text \<open>
  Incoming messages, \<open>src/c/core/session/session.c\<close> from \<open>listen_message\<close> down: a message of the
  session is taken apart into submessages, each is handled, and what the agent asks for is answered.
  Undefined behaviour and loops that do not end have the result \<open>None\<close>.
\<close>

definition HEARTBEAT_PAYLOAD_SIZE :: nat where "HEARTBEAT_PAYLOAD_SIZE = 5"
definition ACKNACK_PAYLOAD_SIZE :: nat where "ACKNACK_PAYLOAD_SIZE = 5"

definition HEARTBEAT_MAX_MSG_SIZE :: nat where
  "HEARTBEAT_MAX_MSG_SIZE = MAX_HEADER_SIZE + SUBHEADER_SIZE + HEARTBEAT_PAYLOAD_SIZE"

definition ACKNACK_MAX_MSG_SIZE :: nat where
  "ACKNACK_MAX_MSG_SIZE = MAX_HEADER_SIZE + SUBHEADER_SIZE + ACKNACK_PAYLOAD_SIZE"

section \<open>Heartbeats and acknowledgements\<close>

text \<open>
  A message in a local array of \<open>size\<close> bytes at address zero: room for the header, one submessage,
  then the header. \<open>stamp\<close> writes the header, \<open>payload\<close> the rest.
\<close>

definition local_message ::
  "'e env \<Rightarrow> nat \<Rightarrow> (cdr_state \<Rightarrow> cdr_state) \<Rightarrow> (addr \<Rightarrow> mem \<Rightarrow> mem) \<Rightarrow> 'e world \<Rightarrow> u8 list"
where
  "local_message env n payload stamp w =
     (let cdr = lib env w;
          ub = ucdr_init_buffer_origin_offset cdr 0 n 0 (uxr_session_header_offset (sess_info w));
          (ub1, m1) = payload (ub, l_stack (locals env));
          m2 = stamp (init ub1) m1
      in rd m2 0 (ucdr_buffer_length cdr ub1))"

definition write_submessage_heartbeat :: "'e env \<Rightarrow> uxrStreamId \<Rightarrow> 'e world \<Rightarrow> 'e world" where
  "write_submessage_heartbeat env sid w =
     (let cdr = lib env w;
          stream = get_orl (unat (index sid)) w;
          payload = \<lparr>HEARTBEAT_Payload.first_unacked_seq_nr = uxr_seq_num_add (last_acknown stream) 1,
                     last_unacked_seq_nr = last_sent stream, stream_id = raw sid\<rparr>
      in snd (send_message env
           (local_message env HEARTBEAT_MAX_MSG_SIZE
              (\<lambda>st. snd (uxr_serialize_HEARTBEAT_Payload cdr payload
                 (snd (uxr_buffer_submessage_header cdr SUBMESSAGE_ID_HEARTBEAT
                    (of_nat HEARTBEAT_PAYLOAD_SIZE) 0 st))))
              (uxr_stamp_session_header cdr (sess_info w) 0 0) w) w))"

text \<open>The stream is not looked up: an identifier of no stream reads outside the array.\<close>

definition write_submessage_acknack :: "'e env \<Rightarrow> uxrStreamId \<Rightarrow> 'e world \<Rightarrow> 'e world option" where
  "write_submessage_acknack env sid w =
     (if unat (index sid) < length (input_reliable (sess_streams w))
      then let cdr = lib env w;
               stream = get_irl (unat (index sid)) w;
               (bitmap, first_unacked) = uxr_compute_acknack stream (memory w)
           in do {
             nack_bitmap' \<leftarrow> bitmap;
             let payload = \<lparr>ACKNACK_Payload.first_unacked_seq_num = first_unacked,
                   nack_bitmap = [ucast (drop_bit 8 nack_bitmap'), ucast nack_bitmap'],
                   stream_id = raw sid\<rparr>;
             Some (snd (send_message env
               (local_message env ACKNACK_MAX_MSG_SIZE
                  (\<lambda>st. snd (uxr_serialize_ACKNACK_Payload cdr payload
                     (snd (uxr_buffer_submessage_header cdr SUBMESSAGE_ID_ACKNACK
                        (of_nat ACKNACK_PAYLOAD_SIZE) 0 st))))
                  (uxr_stamp_session_header cdr (sess_info w) 0 0) w) w))
           }
      else None)"

section \<open>Statuses and time\<close>

definition process_status ::
  "'e env \<Rightarrow> uxrObjectId \<Rightarrow> u16 \<Rightarrow> u8 \<Rightarrow> 'e world \<Rightarrow> 'e world"
where
  "process_status env oid rid status' w =
     (let w1 = (case on_status (sess w) of
            None \<Rightarrow> w
          | Some f \<Rightarrow> call_on_status env f oid rid status' (on_status_args (sess w)) w);
          s = sess w1
      in case find (\<lambda>i. rid = request_list s ! i) [0..<request_status_list_size s] of
           None \<Rightarrow> w1
         | Some i \<Rightarrow> w1\<lparr>sess := s\<lparr>status_list := (status_list s)[i := status']\<rparr>\<rparr>)"

definition process_timestamp_reply ::
  "'e env \<Rightarrow> TIMESTAMP_REPLY_Payload \<Rightarrow> 'e world \<Rightarrow> 'e world"
where
  "process_timestamp_reply env timestamp w =
     (let nanos = (\<lambda>t. uxr_convert_to_nanos (Time_t.seconds t) (Time_t.nanoseconds t));
          t0 = nanos (TIMESTAMP_REPLY_Payload.originate_timestamp timestamp);
          t1 = nanos (TIMESTAMP_REPLY_Payload.receive_timestamp timestamp);
          t2 = nanos (TIMESTAMP_REPLY_Payload.transmit_timestamp timestamp);
          (t3, w1) = uxr_nanos env w;
          w2 = (case on_time (sess w1) of
                  Some f \<Rightarrow> call_on_time env f t3 t1 t2 t0 (on_time_args (sess w1)) w1
                | None \<Rightarrow> w1\<lparr>sess := (sess w1)\<lparr>time_offset := ((t0 + t3) - (t1 + t2)) sdiv 2\<rparr>\<rparr>)
      in w2\<lparr>sess := (sess w2)\<lparr>synchronized := True\<rparr>\<rparr>)"

section \<open>Submessages\<close>

definition read_submessage_status :: "'e env \<Rightarrow> ucdrBuffer \<Rightarrow> 'e world \<Rightarrow> ucdrBuffer \<times> 'e world" where
  "read_submessage_status env ub w =
     (let (_, payload, ub1, w1) = run_des (uxr_deserialize_STATUS_Payload (lib env w)) (l_STATUS (locals env)) ub w;
          reply = STATUS_Payload.base payload;
          (oid, rid) = uxr_parse_base_object_request (BaseObjectReply.related_request reply)
      in (ub1, process_status env oid rid (ResultStatus.status (BaseObjectReply.result reply)) w1))"

definition read_submessage_data ::
  "'e env \<Rightarrow> ucdrBuffer \<Rightarrow> u16 \<Rightarrow> uxrStreamId \<Rightarrow> u8 \<Rightarrow> 'e world \<Rightarrow> ucdrBuffer \<times> 'e world"
where
  "read_submessage_data env ub len sid format' w =
     (let (_, req, ub1, w1) = run_des (uxr_deserialize_BaseObjectRequest (lib env w))
                                (l_BaseObjectRequest (locals env)) ub w;
          (oid, rid) = uxr_parse_base_object_request req
      in read_submessage_format env ub1 (len - 4) format' sid oid rid
           (process_status env oid rid UXR_STATUS_OK w1))"

definition read_submessage_heartbeat ::
  "'e env \<Rightarrow> ucdrBuffer \<Rightarrow> 'e world \<Rightarrow> (ucdrBuffer \<times> 'e world) option"
where
  "read_submessage_heartbeat env ub w =
     (let (_, heartbeat, ub1, w1) = run_des (uxr_deserialize_HEARTBEAT_Payload (lib env w))
                                      (l_HEARTBEAT (locals env)) ub w;
          sid = uxr_stream_id_from_raw (HEARTBEAT_Payload.stream_id heartbeat) UXR_INPUT_STREAM
      in case uxr_get_input_reliable_stream (sess_streams w1) (index sid) of
           None \<Rightarrow> Some (ub1, w1)
         | Some i \<Rightarrow> do {
             w2 \<leftarrow> write_submessage_acknack env sid
                   (set_irl i (uxr_process_heartbeat (get_irl i w1)
                      (HEARTBEAT_Payload.first_unacked_seq_nr heartbeat)
                      (HEARTBEAT_Payload.last_unacked_seq_nr heartbeat)) w1);
             Some (ub1, w2)
           })"

text \<open>The messages still missing are sent again until there is none left.\<close>

partial_function (option) resend_lost :: "'e env \<Rightarrow> nat \<Rightarrow> uxrSeqNum \<Rightarrow> 'e world \<Rightarrow> 'e world option" where
  "resend_lost env i seq_num_it w =
     (let (found, it, stream) = uxr_next_reliable_nack_buffer_to_send (get_orl i w) (memory w) seq_num_it;
          w1 = set_orl i stream w
      in case found of
           None \<Rightarrow> Some w1
         | Some (buffer', len) \<Rightarrow>
             resend_lost env i it (snd (send_message env (rd (memory w1) buffer' len) w1)))"

definition read_submessage_acknack ::
  "'e env \<Rightarrow> ucdrBuffer \<Rightarrow> 'e world \<Rightarrow> (ucdrBuffer \<times> 'e world) option"
where
  "read_submessage_acknack env ub w =
     (let (_, acknack, ub1, w1) = run_des (uxr_deserialize_ACKNACK_Payload (lib env w))
                                    (l_ACKNACK (locals env)) ub w;
          sid = uxr_stream_id_from_raw (ACKNACK_Payload.stream_id acknack) UXR_INPUT_STREAM
      in case uxr_get_output_reliable_stream (sess_streams w1) (index sid) of
           None \<Rightarrow> Some (ub1, w1)
         | Some i \<Rightarrow>
             let b = ACKNACK_Payload.nack_bitmap acknack;
                 bitmap = push_bit 8 (ucast (b ! 0)) + ucast (b ! 1);
                 (stream, m) = uxr_process_acknack (get_orl i w1) bitmap
                                 (ACKNACK_Payload.first_unacked_seq_num acknack) (memory w1);
                 w2 = set_memory m (set_orl i stream w1)
             in do {
               w3 \<leftarrow> resend_lost env i (uxr_begin_output_nack_buffer_it stream) w2;
               Some (ub1, w3)
             })"

definition read_submessage_timestamp_reply ::
  "'e env \<Rightarrow> ucdrBuffer \<Rightarrow> 'e world \<Rightarrow> ucdrBuffer \<times> 'e world"
where
  "read_submessage_timestamp_reply env ub w =
     (let (_, reply, ub1, w1) = run_des (uxr_deserialize_TIMESTAMP_REPLY_Payload (lib env w))
                                  (l_TIMESTAMP_REPLY (locals env)) ub w
      in (ub1, process_timestamp_reply env reply w1))"

text \<open>
  The payloads start as zero; the parts of the answer that its serializer does not look at are
  left open.
\<close>

definition read_submessage_get_info :: "'e env \<Rightarrow> ucdrBuffer \<Rightarrow> 'e world \<Rightarrow> ucdrBuffer \<times> 'e world" where
  "read_submessage_get_info env ub w =
     (let zero2 = \<lparr>BaseObjectRequest.request_id = \<lparr>RequestId.data = [0, 0]\<rparr>, object_id = \<lparr>ObjectId.data = [0, 0]\<rparr>\<rparr>;
          (_, get_info, ub1, w1) = run_des (uxr_deserialize_GET_INFO_Payload (lib env w))
              \<lparr>GET_INFO_Payload.base = zero2, info_mask = 0\<rparr> ub w;
          cdr = lib env w1;
          info_payload = (l_INFO (locals env))
            \<lparr>INFO_Payload.base :=
               \<lparr>BaseObjectReply.related_request =
                  zero2\<lparr>BaseObjectRequest.request_id := BaseObjectRequest.request_id (GET_INFO_Payload.base get_info)\<rparr>,
                result = \<lparr>ResultStatus.status = 0, implementation_status = 0\<rparr>\<rparr>,
             INFO_Payload.object_info :=
               (INFO_Payload.object_info (l_INFO (locals env)))
                 \<lparr>ObjectInfo.optional_config := False, ObjectInfo.optional_activity := False\<rparr>\<rparr>
      in (ub1, snd (send_message env
            (local_message env 12 (\<lambda>st. snd (uxr_serialize_INFO_Payload cdr info_payload st))
               (uxr_stamp_session_header cdr (sess_info w1) 0 0) w1) w1)))"

definition read_submessage_info :: "'e env \<Rightarrow> ucdrBuffer \<Rightarrow> 'e world \<Rightarrow> ucdrBuffer \<times> 'e world" where
  "read_submessage_info env ub w =
     (let info0 = l_INFO (locals env);
          (ok1, base', ub1, w1) = run_des (uxr_deserialize_BaseObjectReply (lib env w)) (INFO_Payload.base info0) ub w;
          active_session = (ResultStatus.implementation_status (BaseObjectReply.result base') \<noteq> 0);
          obj0 = INFO_Payload.object_info info0;
          (ok2, has_config, ub2, w2) = run_des (ucdr_deserialize_bool (lib env w1)) (ObjectInfo.optional_config obj0) ub1 w1;
          (ok3, _, ub3, w3) = (if has_config
              then run_des (uxr_deserialize_ObjectVariant (lib env w2)) (ObjectInfo.config obj0) ub2 w2
              else (True, ObjectInfo.config obj0, ub2, w2));
          (ok4, has_activity, ub4, w4) = run_des (ucdr_deserialize_bool (lib env w3)) (ObjectInfo.optional_activity obj0) ub3 w3
      in if has_activity
         then let act0 = ObjectInfo.activity obj0;
                  (ok5, kind', ub5, w5) = run_des (ucdr_deserialize_uint8_t (lib env w4)) (ActivityInfoVariant.kind act0) ub4 w4;
                  success = (ok1 \<and> ok2 \<and> ok3 \<and> ok4 \<and> ok5)
              in if success \<and> DDS_XRCE_OBJK_AGENT = kind'
                 then let (ok6, availability', ub6, w6) = run_des (ucdr_deserialize_int16_t (lib env w5))
                            (AGENT_ActivityInfo.availability (ActivityInfoVariantU.agent (ActivityInfoVariant.U act0))) ub5 w5
                      in (ub6, w6\<lparr>sess := (sess w6)\<lparr>on_pong_flag :=
                            (if ok6 \<and> 0 < sint availability'
                             then (if active_session then PONG_IN_SESSION_STATUS else PONG_NO_SESSION_STATUS)
                             else NO_PONG_STATUS)\<rparr>\<rparr>)
                 else (ub5, w5)
         else (ub4, w4))"

definition read_submessage ::
  "'e env \<Rightarrow> ucdrBuffer \<Rightarrow> u8 \<Rightarrow> uxrStreamId \<Rightarrow> u16 \<Rightarrow> u8 \<Rightarrow> 'e world \<Rightarrow> (ucdrBuffer \<times> 'e world) option"
where
  "read_submessage env ub submessage_id sid len flags w =
     (if submessage_id = SUBMESSAGE_ID_STATUS_AGENT
      then if uxrStreamId.type sid = UXR_NONE_STREAM
           then let (si, ub1, m1) = uxr_read_create_session_status (lib env w) (l_STATUS_AGENT (locals env))
                                      (sess_info w) (ub, memory w)
                in Some (ub1, set_memory m1 (set_info si w))
           else Some (ub, w)
      else if submessage_id = SUBMESSAGE_ID_STATUS
      then if uxrStreamId.type sid = UXR_NONE_STREAM
           then let (si, ub1, m1) = uxr_read_delete_session_status (lib env w) (l_STATUS (locals env))
                                      (sess_info w) (ub, memory w)
                in Some (ub1, set_memory m1 (set_info si w))
           else Some (read_submessage_status env ub w)
      else if submessage_id = SUBMESSAGE_ID_DATA
      then Some (read_submessage_data env ub len sid (flags AND FORMAT_MASK) w)
      else if submessage_id = SUBMESSAGE_ID_HEARTBEAT then read_submessage_heartbeat env ub w
      else if submessage_id = SUBMESSAGE_ID_ACKNACK then read_submessage_acknack env ub w
      else if submessage_id = SUBMESSAGE_ID_TIMESTAMP_REPLY
      then Some (read_submessage_timestamp_reply env ub w)
      else if submessage_id = SUBMESSAGE_ID_GET_INFO then Some (read_submessage_get_info env ub w)
      else if submessage_id = SUBMESSAGE_ID_INFO then Some (read_submessage_info env ub w)
      else Some (ub, w))"

partial_function (option) read_submessage_list_loop ::
  "'e env \<Rightarrow> ucdrBuffer \<Rightarrow> uxrStreamId \<Rightarrow> u8 \<times> u16 \<times> u8 \<Rightarrow> 'e world \<Rightarrow> (ucdrBuffer \<times> 'e world) option"
where
  "read_submessage_list_loop env ub sid header w =
     (let (more, (id1, len, flags), ub1, m1) = uxr_read_submessage_header (lib env w) header (ub, memory w);
          w1 = set_memory m1 w
      in if more
         then do {
           (ub2, w2) \<leftarrow> read_submessage env ub1 id1 sid len flags w1;
           read_submessage_list_loop env ub2 sid (id1, len, flags) w2
         }
         else Some (ub1, w1))"

definition read_submessage_list ::
  "'e env \<Rightarrow> ucdrBuffer \<Rightarrow> uxrStreamId \<Rightarrow> 'e world \<Rightarrow> 'e world option"
where
  "read_submessage_list env ub sid w =
     map_option snd (read_submessage_list_loop env ub sid (l_header (locals env)) w)"

section \<open>Messages\<close>

text \<open>The messages that were waiting in a reliable stream, as far as they are complete.\<close>

partial_function (option) read_stored :: "'e env \<Rightarrow> nat \<Rightarrow> uxrStreamId \<Rightarrow> ucdrBuffer \<Rightarrow> 'e world \<Rightarrow> 'e world option" where
  "read_stored env i sid next_mb w =
     do {
       (more, stream, ub, m) \<leftarrow> uxr_next_input_reliable_buffer_available (lib env w) i (get_irl i w)
                                   next_mb SUBHEADER_SIZE (memory w);
       let w1 = set_memory m (set_irl i stream w);
       if more
       then do {
         w2 \<leftarrow> read_submessage_list env ub sid w1;
         read_stored env i sid ub w2
       }
       else Some w1
     }"

definition read_stream ::
  "'e env \<Rightarrow> ucdrBuffer \<Rightarrow> uxrStreamId \<Rightarrow> uxrSeqNum \<Rightarrow> 'e world \<Rightarrow> 'e world option"
where
  "read_stream env ub sid seq_num w =
     (case uxrStreamId.type sid of
        UXR_NONE_STREAM \<Rightarrow>
          read_submessage_list env ub (uxr_stream_id_from_raw 0x00 UXR_INPUT_STREAM) w
      | UXR_BEST_EFFORT_STREAM \<Rightarrow>
          (case uxr_get_input_best_effort_stream (sess_streams w) (index sid) of
             None \<Rightarrow> Some w
           | Some i \<Rightarrow>
               let (ok, stream) = uxr_receive_best_effort_message (get_ibe i w) seq_num;
                   w1 = set_ibe i stream w
               in if ok then read_submessage_list env ub sid w1 else Some w1)
      | UXR_RELIABLE_STREAM \<Rightarrow>
          do {
            w1 \<leftarrow> (case uxr_get_input_reliable_stream (sess_streams w) (index sid) of
                   None \<Rightarrow> Some w
                 | Some i \<Rightarrow> do {
                     (ok, used, stream, m) \<leftarrow> uxr_receive_reliable_message (get_irl i w) seq_num
                        (iterator ub) (ucdr_buffer_remaining (lib env w) ub)
                        (l_input_buffer_used (locals env)) (memory w);
                     let w1 = set_memory m (set_irl i stream w);
                     if ok
                     then do {
                       w2 \<leftarrow> (if \<not> used then read_submessage_list env ub sid w1 else Some w1);
                       read_stored env i sid (l_buffer (locals env)) w2
                     }
                     else Some w1
                   });
            write_submessage_acknack env sid w1
          }
      | UXR_SHARED_MEMORY_STREAM \<Rightarrow> Some w)"

definition read_message :: "'e env \<Rightarrow> ucdrBuffer \<Rightarrow> 'e world \<Rightarrow> 'e world option" where
  "read_message env ub w =
     (let (ok, (stream_id_raw, seq_num), ub1, m1) =
            uxr_read_session_header (lib env w) (l_session_header (locals env)) (sess_info w)
              (0, l_seq_num (locals env)) (ub, memory w);
          w1 = set_memory m1 w
      in if ok
         then read_stream env ub1 (uxr_stream_id_from_raw stream_id_raw UXR_INPUT_STREAM) seq_num w1
         else Some w1)"

definition listen_message :: "'e env \<Rightarrow> int \<Rightarrow> 'e world \<Rightarrow> (bool \<times> 'e world) option" where
  "listen_message env poll_ms w =
     (let (must_be_read, (data', len), w1) = recv_message env poll_ms w
      in if must_be_read
         then do {
           w2 \<leftarrow> read_message env (ucdr_init_buffer (lib env w1) data' (cast_u32 len)) w1;
           Some (True, w2)
         }
         else Some (False, w1))"

end
