(* ===== verification/SessionRun.thy ===== *)
theory SessionRun
  imports SessionRead
begin

text \<open>
  Running a session, the rest of \<open>src/c/core/session/session.c\<close>: sending what the output streams
  hold, listening while heartbeats fall due, logging in and out, synchronizing the clock, and the
  loops that wait for something to arrive. Whether a loop ends depends on the clock and the
  transport; one that does not has the result \<open>None\<close>. The multithread and shared memory profiles
  are left out of the build.
\<close>

definition CREATE_SESSION_MAX_MSG_SIZE :: nat where
  "CREATE_SESSION_MAX_MSG_SIZE = MAX_HEADER_SIZE + SUBHEADER_SIZE + CREATE_CLIENT_PAYLOAD_SIZE"

definition DELETE_SESSION_MAX_MSG_SIZE :: nat where
  "DELETE_SESSION_MAX_MSG_SIZE = MAX_HEADER_SIZE + SUBHEADER_SIZE + DELETE_CLIENT_PAYLOAD_SIZE"

definition TIMESTAMP_PAYLOAD_SIZE :: nat where "TIMESTAMP_PAYLOAD_SIZE = 8"

definition TIMESTAMP_MAX_MSG_SIZE :: nat where
  "TIMESTAMP_MAX_MSG_SIZE = MAX_HEADER_SIZE + SUBHEADER_SIZE + TIMESTAMP_PAYLOAD_SIZE"

section \<open>Sending the output streams\<close>

definition flash_best_effort :: "'e env \<Rightarrow> nat \<Rightarrow> 'e world \<Rightarrow> 'e world" where
  "flash_best_effort env i w =
     (let sid = uxr_stream_id 0 (of_nat i) UXR_BEST_EFFORT_STREAM UXR_OUTPUT_STREAM
      in case uxr_prepare_best_effort_buffer_to_send (get_obe i w) of
           (None, stream) \<Rightarrow> set_obe i stream w
         | (Some (buffer', len, seq_num), stream) \<Rightarrow>
             let w1 = set_obe i stream w;
                 w2 = set_memory (uxr_stamp_session_header (lib env w1) (sess_info w1) (raw sid) seq_num
                                    buffer' (memory w1)) w1
             in snd (send_message env (rd (memory w2) buffer' len) w2))"

partial_function (option) flash_reliable :: "'e env \<Rightarrow> nat \<Rightarrow> 'e world \<Rightarrow> 'e world option" where
  "flash_reliable env i w =
     (let sid = uxr_stream_id 0 (of_nat i) UXR_RELIABLE_STREAM UXR_OUTPUT_STREAM;
          (more, (buffer', len, seq_num), stream) =
            uxr_prepare_next_reliable_buffer_to_send (get_orl i w) (memory w);
          w1 = set_orl i stream w
      in if more
         then let w2 = set_memory (uxr_stamp_session_header (lib env w1) (sess_info w1) (raw sid) seq_num
                                     buffer' (memory w1)) w1;
                  (sent, w3) = send_message env (rd (memory w2) buffer' len) w2
              in if sent then flash_reliable env i w3
                 else Some (set_orl i (uxr_cancel_reliable_buffer_to_send (get_orl i w3) seq_num (memory w3)) w3)
         else Some w1)"

text \<open>A loop over the streams of one kind.\<close>

primrec for_each :: "nat list \<Rightarrow> (nat \<Rightarrow> 'w \<Rightarrow> 'w option) \<Rightarrow> 'w \<Rightarrow> 'w option" where
  "for_each [] f w = Some w"
| "for_each (i # is) f w = do { w1 \<leftarrow> f i w; for_each is f w1 }"

definition uxr_flash_output_streams :: "'e env \<Rightarrow> 'e world \<Rightarrow> 'e world option" where
  "uxr_flash_output_streams env w =
     do {
       w1 \<leftarrow> for_each [0..<unat (output_best_effort_size (sess_streams w))]
              (\<lambda>i w. Some (flash_best_effort env i w)) w;
       for_each [0..<unat (output_reliable_size (sess_streams w1))] (flash_reliable env) w1
     }"

section \<open>Listening\<close>

text \<open>Heartbeats that are due; the first component is the time of the next one.\<close>

definition heartbeat_step :: "'e env \<Rightarrow> int \<Rightarrow> nat \<Rightarrow> int \<times> 'e world \<Rightarrow> int \<times> 'e world" where
  "heartbeat_step env timestamp i st =
     (let (next_heartbeat, w) = st;
          sid = uxr_stream_id 0 (of_nat i) UXR_RELIABLE_STREAM UXR_OUTPUT_STREAM;
          (confirm, stream) = uxr_update_output_stream_heartbeat_timestamp (heartbeat_interval env)
                                (get_orl i w) timestamp;
          w1 = set_orl i stream w;
          w2 = (if confirm then write_submessage_heartbeat env sid w1 else w1);
          t = next_heartbeat_timestamp (get_orl i w2)
      in (if t < next_heartbeat then t else next_heartbeat, w2))"

partial_function (option) listen_message_reliably_loop ::
  "'e env \<Rightarrow> int \<Rightarrow> 'e world \<Rightarrow> (bool \<times> 'e world) option"
where
  "listen_message_reliably_loop env poll w =
     (let (timestamp, w1) = uxr_millis env w;
          (next_heartbeat, w2) =
            fold (heartbeat_step env timestamp) [0..<unat (output_reliable_size (sess_streams w1))] (INT64_MAX, w1);
          to_next0 = (if next_heartbeat \<noteq> INT64_MAX then cast_int32 (next_heartbeat - timestamp) else poll);
          to_next = (if 0 = to_next0 then 1 else to_next0);
          poll_chosen = (if to_next < poll then to_next else poll)
      in do {
        (received, w3) \<leftarrow> listen_message env poll_chosen w2;
        if received then Some (True, w3)
        else if poll - poll_chosen > 0 then listen_message_reliably_loop env (poll - poll_chosen) w3
        else Some (False, w3)
      })"

definition listen_message_reliably :: "'e env \<Rightarrow> int \<Rightarrow> 'e world \<Rightarrow> (bool \<times> 'e world) option" where
  "listen_message_reliably env poll_ms w =
     listen_message_reliably_loop env (if poll_ms \<ge> 0 then poll_ms else INT32_MAX) w"

section \<open>Waiting\<close>

text \<open>\<open>remaining_time = timeout - (int)(uxr_millis() - start)\<close>.\<close>

definition remaining :: "'e env \<Rightarrow> int \<Rightarrow> int \<Rightarrow> 'e world \<Rightarrow> int \<times> 'e world" where
  "remaining env timeout start w =
     (let (now, w1) = uxr_millis env w in (timeout - cast_int32 (now - start), w1))"

text \<open>
  Listen until the time is over or \<open>stop\<close>. The condition is looked at before the clock
  (\<open>break\<close>) or behind it.
\<close>

partial_function (option) run_until_break ::
  "'e env \<Rightarrow> ('e world \<Rightarrow> bool) \<Rightarrow> int \<Rightarrow> int \<Rightarrow> int \<Rightarrow> 'e world \<Rightarrow> 'e world option"
where
  "run_until_break env stop timeout start remaining_time w =
     do {
       (_, w1) \<leftarrow> listen_message_reliably env remaining_time w;
       if stop w1 then Some w1
       else let (remaining_time, w2) = remaining env timeout start w1
            in if remaining_time > 0 then run_until_break env stop timeout start remaining_time w2
               else Some w2
     }"

partial_function (option) run_while ::
  "'e env \<Rightarrow> ('e world \<Rightarrow> bool) \<Rightarrow> (int \<Rightarrow> int) \<Rightarrow> int \<Rightarrow> int \<Rightarrow> int \<Rightarrow> 'e world \<Rightarrow> 'e world option"
where
  "run_while env stop poll timeout start remaining_time w =
     do {
       (_, w1) \<leftarrow> listen_message_reliably env (poll remaining_time) w;
       let (remaining_time, w2) = remaining env timeout start w1;
       if remaining_time > 0 \<and> \<not> stop w2
       then run_while env stop poll timeout start remaining_time w2 else Some w2
     }"

definition confirmed :: "'e world \<Rightarrow> bool" where
  "confirmed w \<longleftrightarrow> uxr_output_streams_confirmed (sess_streams w)"

partial_function (option) run_session_time_loop :: "'e env \<Rightarrow> int \<Rightarrow> 'e world \<Rightarrow> 'e world option" where
  "run_session_time_loop env timeout_ms w =
     do {
       (received, w1) \<leftarrow> listen_message_reliably env timeout_ms w;
       if received then run_session_time_loop env timeout_ms w1 else Some w1
     }"

definition uxr_run_session_time :: "'e env \<Rightarrow> int \<Rightarrow> 'e world \<Rightarrow> (bool \<times> 'e world) option" where
  "uxr_run_session_time env timeout_ms w =
     do {
       w1 \<leftarrow> uxr_flash_output_streams env w;
       w2 \<leftarrow> run_session_time_loop env timeout_ms w1;
       Some (confirmed w2, w2)
     }"

definition uxr_run_session_timeout :: "'e env \<Rightarrow> int \<Rightarrow> 'e world \<Rightarrow> (bool \<times> 'e world) option" where
  "uxr_run_session_timeout env timeout_ms w =
     (let (start, w0) = uxr_millis env w
      in do {
        w1 \<leftarrow> uxr_flash_output_streams env w0;
        w2 \<leftarrow> run_while env (\<lambda>_. False) (\<lambda>r. r) timeout_ms start timeout_ms w1;
        Some (confirmed w2, w2)
      })"

definition uxr_run_session_until_data :: "'e env \<Rightarrow> int \<Rightarrow> 'e world \<Rightarrow> (bool \<times> 'e world) option" where
  "uxr_run_session_until_data env timeout_ms w =
     (let (start, w0) = uxr_millis env w
      in do {
        w1 \<leftarrow> uxr_flash_output_streams env w0;
        w2 \<leftarrow> run_until_break env (\<lambda>w. on_data_flag (sess w)) timeout_ms start timeout_ms
               (w1\<lparr>sess := (sess w1)\<lparr>on_data_flag := False\<rparr>\<rparr>);
        Some (on_data_flag (sess w2), w2)
      })"

definition uxr_run_session_until_timeout :: "'e env \<Rightarrow> int \<Rightarrow> 'e world \<Rightarrow> (bool \<times> 'e world) option" where
  "uxr_run_session_until_timeout env timeout_ms w =
     do {
       w1 \<leftarrow> uxr_flash_output_streams env w;
       listen_message_reliably env timeout_ms w1
     }"

partial_function (option) confirm_delivery_loop ::
  "'e env \<Rightarrow> int \<Rightarrow> int \<Rightarrow> int \<Rightarrow> 'e world \<Rightarrow> 'e world option"
where
  "confirm_delivery_loop env timeout start remaining_time w =
     (if remaining_time \<ge> 0 \<and> \<not> confirmed w
      then do {
        (_, w1) \<leftarrow> listen_message_reliably env remaining_time w;
        let (remaining_time, w2) = remaining env timeout start w1;
        confirm_delivery_loop env timeout start remaining_time w2
      }
      else Some w)"

definition uxr_run_session_until_confirm_delivery :: "'e env \<Rightarrow> int \<Rightarrow> 'e world \<Rightarrow> (bool \<times> 'e world) option" where
  "uxr_run_session_until_confirm_delivery env timeout_ms w =
     (let (start, w0) = uxr_millis env w
      in do {
        w1 \<leftarrow> uxr_flash_output_streams env w0;
        w2 \<leftarrow> confirm_delivery_loop env timeout_ms start timeout_ms w1;
        Some (confirmed w2, w2)
      })"

section \<open>Waiting for statuses\<close>

text \<open>The request has its status, or was none.\<close>

definition has_status :: "'e world \<Rightarrow> nat \<Rightarrow> bool" where
  "has_status w i \<longleftrightarrow> status_list (sess w) ! i \<noteq> UXR_STATUS_NONE \<or>
     request_list (sess w) ! i = UXR_INVALID_REQUEST_ID"

definition all_statuses :: "nat \<Rightarrow> 'e world \<Rightarrow> bool" where
  "all_statuses n w = fold (\<lambda>i ok. ok \<and> has_status w i) [0..<n] True"

definition one_status :: "nat \<Rightarrow> 'e world \<Rightarrow> bool" where
  "one_status n w = fold (\<lambda>i ok. ok \<or> has_status w i) [0..<n] False"

definition watch_requests :: "u16 list \<Rightarrow> nat \<Rightarrow> u8 list \<Rightarrow> 'e world \<Rightarrow> 'e world" where
  "watch_requests reqs n sts w =
     w\<lparr>sess := (sess w)\<lparr>request_list := reqs,
        status_list := fold (\<lambda>i l. l[i := UXR_STATUS_NONE]) [0..<n] sts, request_status_list_size := n\<rparr>\<rparr>"

definition uxr_run_session_until_all_status ::
  "'e env \<Rightarrow> int \<Rightarrow> u16 list \<Rightarrow> u8 list \<Rightarrow> nat \<Rightarrow> 'e world \<Rightarrow> (bool \<times> u8 list \<times> 'e world) option"
where
  "uxr_run_session_until_all_status env timeout_ms reqs sts n w =
     do {
       w1 \<leftarrow> uxr_flash_output_streams env w;
       let (start, w2) = uxr_millis env (watch_requests reqs n sts w1);
       w3 \<leftarrow> run_while env (all_statuses n) (\<lambda>r. r) timeout_ms start timeout_ms w2;
       let w4 = w3\<lparr>sess := (sess w3)\<lparr>request_status_list_size := 0\<rparr>\<rparr>;
       let l = status_list (sess w4);
       Some (fold (\<lambda>i ok. ok \<and> (l ! i = UXR_STATUS_OK \<or> l ! i = UXR_STATUS_OK_MATCHED)) [0..<n] True, l, w4)
     }"

text \<open>This one listens for the whole timeout every time.\<close>

definition uxr_run_session_until_one_status ::
  "'e env \<Rightarrow> int \<Rightarrow> u16 list \<Rightarrow> u8 list \<Rightarrow> nat \<Rightarrow> 'e world \<Rightarrow> (bool \<times> u8 list \<times> 'e world) option"
where
  "uxr_run_session_until_one_status env timeout_ms reqs sts n w =
     do {
       w1 \<leftarrow> uxr_flash_output_streams env w;
       let (start, w2) = uxr_millis env (watch_requests reqs n sts w1);
       w3 \<leftarrow> run_while env (one_status n) (\<lambda>_. timeout_ms) timeout_ms start timeout_ms w2;
       let w4 = w3\<lparr>sess := (sess w3)\<lparr>request_status_list_size := 0\<rparr>\<rparr>;
       Some (one_status n w4, status_list (sess w4), w4)
     }"

section \<open>Time and pings\<close>

definition run_session_until_sync :: "'e env \<Rightarrow> int \<Rightarrow> 'e world \<Rightarrow> (bool \<times> 'e world) option" where
  "run_session_until_sync env timeout w =
     (let (start, w1) = uxr_millis env w
      in do {
        w2 \<leftarrow> run_while env (\<lambda>w. synchronized (sess w)) (\<lambda>r. r) timeout start timeout
               (w1\<lparr>sess := (sess w1)\<lparr>synchronized := False\<rparr>\<rparr>);
        Some (synchronized (sess w2), w2)
      })"

definition uxr_sync_session :: "'e env \<Rightarrow> int \<Rightarrow> 'e world \<Rightarrow> (bool \<times> 'e world) option" where
  "uxr_sync_session env timeout w =
     (let (nanos, w1) = uxr_nanos env w;
          cdr = lib env w1;
          timestamp = \<lparr>TIMESTAMP_Payload.transmit_timestamp =
            \<lparr>Time_t.seconds = word_of_int (nanos sdiv 1000000000), nanoseconds = word_of_int (nanos smod 1000000000)\<rparr>\<rparr>;
          (_, w2) = send_message env
            (local_message env TIMESTAMP_MAX_MSG_SIZE
               (\<lambda>st. snd (uxr_serialize_TIMESTAMP_Payload cdr timestamp
                  (snd (uxr_buffer_submessage_header cdr SUBMESSAGE_ID_TIMESTAMP (of_nat TIMESTAMP_PAYLOAD_SIZE) 0 st))))
               (uxr_stamp_session_header cdr (sess_info w1) 0 0) w1) w1
      in run_session_until_sync env timeout w2)"

definition uxr_epoch_nanos :: "'e env \<Rightarrow> 'e world \<Rightarrow> int \<times> 'e world" where
  "uxr_epoch_nanos env w = (let (t, w1) = uxr_nanos env w in (t - time_offset (sess w1), w1))"

definition uxr_epoch_millis :: "'e env \<Rightarrow> 'e world \<Rightarrow> int \<times> 'e world" where
  "uxr_epoch_millis env w = (let (t, w1) = uxr_epoch_nanos env w in (t sdiv 1000000, w1))"

definition uxr_run_session_until_pong :: "'e env \<Rightarrow> int \<Rightarrow> 'e world \<Rightarrow> (bool \<times> 'e world) option" where
  "uxr_run_session_until_pong env timeout_ms w =
     (let (start, w0) = uxr_millis env w
      in do {
        w1 \<leftarrow> uxr_flash_output_streams env w0;
        w2 \<leftarrow> run_until_break env (\<lambda>w. NO_PONG_STATUS \<noteq> on_pong_flag (sess w)) timeout_ms start timeout_ms
               (w1\<lparr>sess := (sess w1)\<lparr>on_pong_flag := NO_PONG_STATUS\<rparr>\<rparr>);
        Some (PONG_IN_SESSION_STATUS = on_pong_flag (sess w2), w2)
      })"

section \<open>Login and logout\<close>

partial_function (option) await_status ::
  "'e env \<Rightarrow> int \<Rightarrow> int \<Rightarrow> 'e world \<Rightarrow> 'e world option"
where
  "await_status env start remaining_time w =
     do {
       (_, w1) \<leftarrow> listen_message env remaining_time w;
       let (remaining_time, w2) = remaining env (connection_interval env) start w1;
       if remaining_time > 0 \<and> last_requested_status (sess_info w2) = UXR_STATUS_NONE
       then await_status env start remaining_time w2 else Some w2
     }"

primrec try_status :: "'e env \<Rightarrow> u8 list \<Rightarrow> nat \<Rightarrow> 'e world \<Rightarrow> 'e world option" where
  "try_status env bytes 0 w = Some w"
| "try_status env bytes (Suc k) w =
     (if last_requested_status (sess_info w) = UXR_STATUS_NONE
      then let (_, w1) = send_message env bytes w;
               (start, w2) = uxr_millis env w1
           in do { w3 \<leftarrow> await_status env start (connection_interval env) w2; try_status env bytes k w3 }
      else Some w)"

definition wait_session_status :: "'e env \<Rightarrow> u8 list \<Rightarrow> nat \<Rightarrow> 'e world \<Rightarrow> (bool \<times> 'e world) option" where
  "wait_session_status env bytes attempts w =
     (let w1 = set_info ((sess_info w)\<lparr>last_requested_status := UXR_STATUS_NONE\<rparr>) w
      in if 0 = attempts then Some (True, snd (send_message env bytes w1))
         else do {
           w2 \<leftarrow> try_status env bytes attempts w1;
           Some (last_requested_status (sess_info w2) \<noteq> UXR_STATUS_NONE, w2)
         })"

text \<open>
  The header is stamped with the identifier and key, which building the message does not change.
\<close>

definition uxr_create_session_retries :: "'e env \<Rightarrow> nat \<Rightarrow> 'e world \<Rightarrow> (bool \<times> 'e world) option" where
  "uxr_create_session_retries env retries w =
     (let (st, m) = uxr_reset_stream_storage (sess_streams w) (memory w);
          w1 = set_memory m (set_streams st w);
          cdr = lib env w1;
          mtu' = comm_mtu (comm env) - of_nat INTERNAL_RELIABLE_BUFFER_OFFSET;
          bytes = local_message env CREATE_SESSION_MAX_MSG_SIZE
            (\<lambda>st. snd (uxr_buffer_create_session cdr (sess_info w1) mtu' st))
            (uxr_stamp_create_session_header cdr (sess_info w1)) w1;
          w2 = set_info ((sess_info w1)\<lparr>last_request_id := UXR_REQUEST_LOGIN\<rparr>) w1
      in do {
        (received, w3) \<leftarrow> wait_session_status env bytes retries w2;
        let created = (received \<and> UXR_STATUS_OK = last_requested_status (sess_info w3));
        Some (created,
          if created
          then let (st, m) = uxr_reset_stream_storage (sess_streams w3) (memory w3)
               in set_memory m (set_streams st w3)
          else w3)
      })"

definition uxr_create_session :: "'e env \<Rightarrow> 'e world \<Rightarrow> (bool \<times> 'e world) option" where
  "uxr_create_session env w = uxr_create_session_retries env (connection_attempts env) w"

definition uxr_delete_session_retries :: "'e env \<Rightarrow> nat \<Rightarrow> 'e world \<Rightarrow> (bool \<times> 'e world) option" where
  "uxr_delete_session_retries env retries w =
     (let cdr = lib env w;
          bytes = local_message env DELETE_SESSION_MAX_MSG_SIZE
            (\<lambda>st. snd (uxr_buffer_delete_session cdr (sess_info w) st))
            (uxr_stamp_session_header cdr (sess_info w) 0 0) w;
          w1 = set_info ((sess_info w)\<lparr>last_request_id := UXR_REQUEST_LOGOUT\<rparr>) w
      in do {
        (received, w2) \<leftarrow> wait_session_status env bytes retries w1;
        Some (received \<and> UXR_STATUS_OK = last_requested_status (sess_info w2), w2)
      })"

definition uxr_delete_session :: "'e env \<Rightarrow> 'e world \<Rightarrow> (bool \<times> 'e world) option" where
  "uxr_delete_session env w = uxr_delete_session_retries env (connection_attempts env) w"

end
