(* ===== verification/SessionFacts.thy ===== *)
theory SessionFacts
  imports SessionRun
begin

text \<open>
  What is proved about the session as a whole: which messages it takes, what it sends, and how its
  operations act on the reliable streams. The library obeys its contract whatever the streams hold.
\<close>

definition env_ok :: "'e env \<Rightarrow> bool" where
  "env_ok env \<longleftrightarrow> (\<forall>st. ucdr_ok (ucdr_lib env st))"

lemma lib_ok: "env_ok env \<Longrightarrow> ucdr_ok (lib env w)"
  by (simp add: env_ok_def lib_def)

section \<open>Parts of the world\<close>

named_theorems world_simps \<open>selecting from a changed world\<close>

lemma world_parts [world_simps, simp]:
  "sess (set_info si w) = (sess w)\<lparr>uxrSession.info := si\<rparr>"
  "memory (set_info si w) = memory w" "ext (set_info si w) = ext w"
  "sess (set_streams st w) = (sess w)\<lparr>streams := st\<rparr>"
  "memory (set_streams st w) = memory w" "ext (set_streams st w) = ext w"
  "sess (set_memory m w) = sess w" "memory (set_memory m w) = m" "ext (set_memory m w) = ext w"
  "set_memory m (set_memory m' w) = set_memory m w" "set_memory (memory w) w = w"
  by (simp_all add: set_info_def set_streams_def set_memory_def)

lemma orl_parts [world_simps, simp]:
  "memory (set_orl i s w) = memory w" "ext (set_orl i s w) = ext w"
  "sess_info (set_orl i s w) = sess_info w"
  "length (output_reliable (sess_streams (set_orl i s w))) = length (output_reliable (sess_streams w))"
  "output_reliable_size (sess_streams (set_orl i s w)) = output_reliable_size (sess_streams w)"
  "i < length (output_reliable (sess_streams w)) \<Longrightarrow> get_orl i (set_orl i s w) = s"
  "set_orl i s (set_orl i s' w) = set_orl i s w"
  "i < length (output_reliable (sess_streams w)) \<Longrightarrow> set_orl i (get_orl i w) w = w"
  "get_orl i (set_memory m w) = get_orl i w"
  "set_memory m (set_orl i s w) = set_orl i s (set_memory m w)"
  by (simp_all add: set_orl_def get_orl_def set_streams_def set_memory_def)

lemma send_message_eq:
  "send_message env bytes w = (fst (send_msg (comm env) bytes (ext w)),
     w\<lparr>ext := snd (send_msg (comm env) bytes (ext w))\<rparr>)"
  by (simp add: send_message_def split: prod.splits)

lemma ext_parts [world_simps, simp]:
  "get_orl i (w\<lparr>ext := e\<rparr>) = get_orl i w" "set_orl i s (w\<lparr>ext := e\<rparr>) = (set_orl i s w)\<lparr>ext := e\<rparr>"
  "set_memory m (w\<lparr>ext := e\<rparr>) = (set_memory m w)\<lparr>ext := e\<rparr>"
  by (simp_all add: get_orl_def set_orl_def set_streams_def set_memory_def)

section \<open>Which messages are taken\<close>

text \<open>A message in memory: too short to be looked at, or with the header given.\<close>

definition headed :: "mem \<Rightarrow> addr \<Rightarrow> size_t \<Rightarrow> u8 \<Rightarrow> u8 \<Rightarrow> u16 \<Rightarrow> u8 list \<Rightarrow> bool" where
  "headed m a n s r q k \<longleftrightarrow> 8 < n \<and> length k = 4 \<and>
     rd m a (length (message_header_bytes s r q k)) = message_header_bytes s r q k"

definition own_header :: "uxrSessionInfo \<Rightarrow> u8 \<Rightarrow> u8 list \<Rightarrow> bool" where
  "own_header si s k \<longleftrightarrow> s = id' si \<and> (s < 0x80 \<longrightarrow> k = key si)"

lemma fresh_buffer:
  assumes "ucdr_ok cdr"
  shows "ucdr_init_buffer cdr a n = \<lparr>init = a, final = a + n, iterator = a, offset = 0,
    endianness = UCDR_MACHINE_ENDIANNESS cdr, error = False, on_full_buffer = None, args = None\<rparr>"
  using assms by (simp add: ucdr_simps)

lemma read_message_headed:
  assumes env: "env_ok env" and key: "length (key (sess_info w)) = 4" and n: "n < 2 ^ 32"
    and h: "headed (memory w) a n s r q k"
  shows "read_message env (ucdr_init_buffer (lib env w) a n) w =
    (if own_header (sess_info w) s k
     then read_stream env (adv (length (message_header_bytes s r q k)) (ucdr_init_buffer (lib env w) a n))
       (uxr_stream_id_from_raw r UXR_INPUT_STREAM) q w
     else Some w)"
proof -
  note cdr = lib_ok [OF env, of w]
  let ?ub = "ucdr_init_buffer (lib env w) a n"
  have "uxr_read_session_header (lib env w) loc (sess_info w) out (?ub, memory w) =
      (s = id' (sess_info w) \<and> (s < 0x80 \<longrightarrow> k = key (sess_info w)), (r, q),
       (adv (length (message_header_bytes s r q k)) ?ub, memory w))" for loc out
    using h key by (intro read_session_header [OF cdr]) (simp_all add: fresh_buffer [OF cdr] headed_def)
  then show ?thesis
    by (simp add: read_message_def own_header_def)
qed

lemma read_message_short:
  assumes env: "env_ok env" and n: "n \<le> 8"
  shows "read_message env (ucdr_init_buffer (lib env w) a n) w = Some w"
proof -
  note cdr = lib_ok [OF env, of w]
  have "\<not> 8 < ucdr_buffer_remaining (lib env w) (ucdr_init_buffer (lib env w) a n)"
    using n by (simp add: fresh_buffer [OF cdr] buffer_remaining [OF cdr])
  then show ?thesis
    by (simp add: read_message_def uxr_read_session_header_def MAX_HEADER_SIZE_def MIN_HEADER_SIZE_def
        CLIENT_KEY_SIZE_def)
qed

text \<open>C15. Messages of other sessions change nothing: what arrives too short for a header and a
  submessage, or under another session identifier or (where the identifier asks for one) another
  client key, is dropped, and only the transport's own state has moved.\<close>
theorem foreign_messages_ignored:
  assumes "env_ok env" and "length (key (sess_info w)) = 4"
    and "recv_msg (comm env) poll (ext w, memory w) = (True, (a, n), e, m)" and "n < 2 ^ 32"
    and "n \<le> 8 \<or> (headed m a n s r q k \<and> \<not> own_header (sess_info w) s k)"
  shows "listen_message env poll w = Some (True, w\<lparr>ext := e, memory := m\<rparr>)"
proof -
  let ?w = "w\<lparr>ext := e, memory := m\<rparr>"
  have "read_message env (ucdr_init_buffer (lib env ?w) a n) ?w = Some ?w"
    using assms(5)
  proof
    assume "n \<le> 8"
    then show ?thesis
      by (rule read_message_short [OF assms(1)])
  next
    assume "headed m a n s r q k \<and> \<not> own_header (sess_info w) s k"
    then show ?thesis
      using assms read_message_headed [of env ?w n a s r q k] by simp
  qed
  then show ?thesis
    using assms(3,4) by (simp add: listen_message_def recv_message_def cast_u32_eq)
qed


section \<open>Sending the reliable streams\<close>


definition orl_id :: "nat \<Rightarrow> uxrStreamId" where
  "orl_id i = uxr_stream_id 0 (of_nat i) UXR_RELIABLE_STREAM UXR_OUTPUT_STREAM"

text \<open>What the operations rely on: a stream in use, of this session, and in good order.\<close>

definition orl_ready :: "nat \<Rightarrow> u8 list list \<Rightarrow> 'e world \<Rightarrow> bool" where
  "orl_ready i sent w \<longleftrightarrow> length (key (sess_info w)) = 4 \<and> i < length (output_reliable (sess_streams w)) \<and>
     out_good (get_orl i w, memory w, sent) \<and>
     out_off (get_orl i w) = uxr_session_header_offset (sess_info w)"


text \<open>Everything but one reliable output stream, memory and the transport is as before.\<close>

definition orl_only :: "nat \<Rightarrow> 'e world \<Rightarrow> 'e world \<Rightarrow> bool" where
  "orl_only i w w' \<longleftrightarrow> w' = set_orl i (get_orl i w') (set_memory (memory w') (w\<lparr>ext := ext w'\<rparr>))"














section \<open>Answering an acknowledgement\<close>

definition send_all :: "(u8 list \<Rightarrow> 'e \<Rightarrow> bool \<times> 'e) \<Rightarrow> u8 list list \<Rightarrow> 'e \<Rightarrow> 'e" where
  "send_all send msgs e = fold (\<lambda>b e. snd (send b e)) msgs e"

lemma resend_lost_from:
  assumes "out_inv st m" and "send_lost st" and "j \<le> sent_dist st"
    and "get_orl i w = st" and "memory w = m" and "i < length (output_reliable (sess_streams w))"
  shows "resend_lost env i (out_seq st j) w =
    Some (set_orl i (st\<lparr>send_lost := False\<rparr>) (w\<lparr>ext :=
      send_all (send_msg (comm env)) (map (\<lambda>k. rd m (out_buf st k) (out_size st m k)) [Suc j..<Suc (sent_dist st)])
        (ext w)\<rparr>))"
  using assms(3-6)
proof (induction "sent_dist st - j" arbitrary: j w)
  case 0
  then have "j = sent_dist st" by simp
  then show ?case
    using nack_search_end [OF assms(1)] assms(2) 0
    by (subst resend_lost.simps)
      (auto simp: uxr_next_reliable_nack_buffer_to_send_def send_all_def split: prod.split option.split)
next
  case (Suc d)
  then have j: "j < sent_dist st" by simp
  let ?b = "rd m (out_buf st (Suc j)) (out_size st m (Suc j))"
  let ?w = "w\<lparr>ext := snd (send_msg (comm env) ?b (ext w))\<rparr>"
  have found: "uxr_next_reliable_nack_buffer_to_send st m (out_seq st j) =
      (Some (out_buf st (Suc j), out_size st m (Suc j)), out_seq st (Suc j), st)"
    using nack_search_found [OF assms(1) j] assms(2) by (simp add: uxr_next_reliable_nack_buffer_to_send_def)
  have keep: "set_orl i st w = w"
    using orl_parts(8) [OF Suc.prems(4)] Suc.prems(2) by simp
  have "resend_lost env i (out_seq st j) w = resend_lost env i (out_seq st (Suc j)) ?w"
    by (subst resend_lost.simps) (simp add: Suc.prems(2,3) found keep send_message_eq Let_def)
  also have "\<dots> = Some (set_orl i (st\<lparr>send_lost := False\<rparr>) (?w\<lparr>ext :=
      send_all (send_msg (comm env)) (map (\<lambda>k. rd m (out_buf st k) (out_size st m k))
        [Suc (Suc j)..<Suc (sent_dist st)]) (ext ?w)\<rparr>))"
    using Suc.hyps(2) j Suc.prems by (intro Suc.hyps(1)) simp_all
  moreover have "[Suc j..<Suc (sent_dist st)] = Suc j # [Suc (Suc j)..<Suc (sent_dist st)]"
    using j by (intro upt_conv_Cons) simp
  ultimately show ?case
    by (simp add: send_all_def del: upt_Suc)
qed

lemma bitmap_zero:
  fixes b0 b1 :: u8
  shows "(0 < (push_bit 8 (ucast b0) + ucast b1 :: u16)) \<longleftrightarrow> \<not> (b0 = 0 \<and> b1 = 0)"
proof -
  have "unat b0 * 256 + unat b1 < 65536" "unat b0 * 256 < 65536"
    using unat_u8_less [of b0] unat_u8_less [of b1] by linarith+
  moreover have "unat b0 < 65536" "unat b1 < 65536"
    using unat_u8_less [of b0] unat_u8_less [of b1] by linarith+
  ultimately have "unat (push_bit 8 (ucast b0) + ucast b1 :: u16) = unat b0 * 256 + unat b1"
    by (simp add: unat_bits)
  then show ?thesis
    by (auto simp: word_less_nat_alt unat_eq_zero unat_gt_0)
qed

text \<open>Sending lost messages again sends all that is not acknowledged, or nothing.\<close>

lemma resend_unacknowledged:
  assumes inv: "out_inv st m" and w: "get_orl i w = st" "memory w = m" "i < length (output_reliable (sess_streams w))"
  shows "resend_lost env i (uxr_begin_output_nack_buffer_it st) w = Some (set_orl i (st\<lparr>send_lost := False\<rparr>)
    (w\<lparr>ext := send_all (send_msg (comm env)) (if send_lost st then unacked st m else []) (ext w)\<rparr>))"
proof (cases "send_lost st")
  case True
  then show ?thesis
    using resend_lost_from [OF inv _ _ w, of 0 env]
    by (simp add: uxr_begin_output_nack_buffer_it_def out_seq_def unacked_def)
next
  case False
  then have s: "st\<lparr>send_lost := False\<rparr> = st"
    by simp
  have "set_orl i st w = w" "w\<lparr>ext := ext w\<rparr> = w"
    using w orl_parts(8) [OF w(3)] by simp_all
  then show ?thesis
    using False by (subst resend_lost.simps)
      (simp add: uxr_next_reliable_nack_buffer_to_send_def send_all_def w(1) s)
qed

text \<open>C10. What an acknowledgement from the agent sets off: the acknowledged messages leave the stream,
  and when the bitmap says that some are missing, all messages still unacknowledged go out again,
  in order and byte for byte as they were first sent; otherwise nothing is sent.\<close>
theorem acknack_resends_unacknowledged:
  assumes "env_ok env" and "orl_ready i sent w"
    and "uxr_deserialize_ACKNACK_Payload (lib env w) (l_ACKNACK (locals env)) (ub, memory w) = (ok, v, ub', memory w)"
    and "uxr_get_output_reliable_stream (sess_streams w)
      (index (uxr_stream_id_from_raw (ACKNACK_Payload.stream_id v) UXR_INPUT_STREAM)) = Some i"
    and "acked (get_orl i w) (ACKNACK_Payload.first_unacked_seq_num v) \<le> length sent"
    and "ACKNACK_Payload.nack_bitmap v = [b0, b1]"
  shows "\<exists>w'. read_submessage_acknack env ub w = Some (ub', w') \<and>
    orl_ready i (drop (acked (get_orl i w) (ACKNACK_Payload.first_unacked_seq_num v)) sent) w' \<and>
    ext w' = send_all (send_msg (comm env))
      (if b0 = 0 \<and> b1 = 0 then []
       else drop (acked (get_orl i w) (ACKNACK_Payload.first_unacked_seq_num v)) sent) (ext w) \<and>
    orl_only i w w'"
proof -
  let ?st = "get_orl i w" and ?f = "ACKNACK_Payload.first_unacked_seq_num v"
  let ?bm = "push_bit 8 (ucast b0) + ucast b1 :: u16"
  let ?sent = "drop (acked ?st ?f) sent"
  have i: "i < length (output_reliable (sess_streams w))" and good: "out_good (?st, memory w, sent)"
    using assms(2) by (simp_all add: orl_ready_def)
  obtain st1 m1 where r: "uxr_process_acknack ?st ?bm ?f (memory w) = (st1, m1)"
    by force
  have inv: "out_inv ?st (memory w)" and sl: "length sent = sent_dist ?st"
    using good by (simp_all add: out_good_def)
  have good1: "out_good (st1, m1, ?sent)"
    using out_good_acknack [OF good _ r] assms(5) sl by simp
  have st1: "send_lost st1 = (0 < ?bm)" "out_off st1 = out_off ?st"
    using out_inv_acknack [OF inv _ r] assms(5) sl r
    by (auto simp: process_acknack out_off_def)
  define w1 where "w1 = set_orl i st1 (set_memory m1 w)"
  have w1: "get_orl i w1 = st1" "memory w1 = m1" "i < length (output_reliable (sess_streams w1))" "ext w1 = ext w"
    using i by (simp_all add: w1_def)
  have inv1: "out_inv st1 m1" and sent1: "?sent = unacked st1 m1"
    using good1 by (simp_all add: out_good_def)
  have "resend_lost env i (uxr_begin_output_nack_buffer_it st1) w1 =
      Some (set_orl i (st1\<lparr>send_lost := False\<rparr>) (w1\<lparr>ext :=
        send_all (send_msg (comm env)) (if b0 = 0 \<and> b1 = 0 then [] else ?sent) (ext w)\<rparr>))"
    using resend_unacknowledged [OF inv1 w1(1-3), of env] st1(1) by (simp add: bitmap_zero sent1 w1(4))
  moreover have "read_submessage_acknack env ub w =
      map_option (Pair ub') (resend_lost env i (uxr_begin_output_nack_buffer_it st1) w1)"
    using assms(3,4,6) i r by (simp add: read_submessage_acknack_def run_des_def w1_def Let_def
        split: Option.bind_split option.split)
  ultimately show ?thesis
    using good1 assms(2) st1 i out_good_resend(3) [OF good1]
    by (auto simp: orl_ready_def orl_only_def w1_def out_off_def)
qed

section \<open>Messages built in local arrays\<close>

text \<open>The header and one submessage header, in the byte order of the host.\<close>

definition control_header :: "'e env \<Rightarrow> 'e world \<Rightarrow> u8 \<Rightarrow> nat \<Rightarrow> u8 list" where
  "control_header env w submessage_id n =
     message_header_bytes (id' (sess_info w)) 0 0 (key (sess_info w)) @
     header_bytes submessage_id (endianness_flag (UCDR_MACHINE_ENDIANNESS (lib env w))) (of_nat n)"

definition writes_bytes :: "ser \<Rightarrow> endianness \<Rightarrow> u8 list \<Rightarrow> bool" where
  "writes_bytes f e bs \<longleftrightarrow> (\<forall>ub m. \<not> error ub \<and> endianness ub = e \<and> offset ub mod 4 = 0 \<and>
     iterator ub + length bs \<le> final ub \<longrightarrow> snd (f (ub, m)) = (adv (length bs) ub, wr m (iterator ub) bs))"

lemma local_message_bytes:
  assumes cdr: "ucdr_ok (lib env w)" and hl: "length hdr = uxr_session_header_offset (sess_info w)"
    and stamp: "\<And>m. stamp 0 m = wr m 0 hdr"
    and f: "writes_bytes f (UCDR_MACHINE_ENDIANNESS (lib env w)) bs"
    and n: "uxr_session_header_offset (sess_info w) + 4 + length bs \<le> n"
  shows "local_message env n (\<lambda>st. snd (f (snd (uxr_buffer_submessage_header (lib env w) sm plen 0 st)))) stamp w =
    hdr @ header_bytes sm (endianness_flag (UCDR_MACHINE_ENDIANNESS (lib env w))) plen @ bs"
proof -
  let ?cdr = "lib env w" and ?off = "uxr_session_header_offset (sess_info w)"
  let ?ub = "ucdr_init_buffer_origin_offset ?cdr 0 n 0 ?off"
  let ?hb = "header_bytes sm (endianness_flag (UCDR_MACHINE_ENDIANNESS ?cdr)) plen"
  have ub: "\<not> error ?ub" "offset ?ub = ?off" "iterator ?ub = ?off" "final ?ub = n" "init ?ub = 0"
    "pad ?off 4 = 0" "?off mod 4 = 0"
    using cdr by (simp_all add: init_buffer_origin_offset header_offset_eq pad_def)
  let ?ub1 = "(adv 4 ?ub)\<lparr>endianness := UCDR_MACHINE_ENDIANNESS ?cdr\<rparr>"
  have h: "snd (uxr_buffer_submessage_header ?cdr sm plen 0 (?ub, m)) = (?ub1, wr m ?off ?hb)" for m
    using buffer_submessage_header [OF cdr ub(1), of sm plen 0 m] n ub by simp
  have p: "snd (f (?ub1, m)) = (adv (length bs) ?ub1, wr m (?off + 4) bs)" for m
  proof -
    have "\<not> error ?ub1" "endianness ?ub1 = UCDR_MACHINE_ENDIANNESS ?cdr" "offset ?ub1 mod 4 = 0"
      "iterator ?ub1 = ?off + 4" "iterator ?ub1 + length bs \<le> final ?ub1"
      using ub n by simp_all
    then show ?thesis
      using f unfolding writes_bytes_def by metis
  qed
  have len: "ucdr_buffer_length ?cdr (adv (length bs) ?ub1) = ?off + 4 + length bs"
    using cdr ub by (simp add: buffer_length)
  have i0: "init (adv (length bs) ?ub1) = 0"
    using ub by simp
  have "wr (wr (wr m ?off ?hb) (?off + 4) bs) 0 hdr = wr m 0 (hdr @ ?hb @ bs)" for m
  proof -
    have "wr (wr (wr m ?off ?hb) (?off + 4) bs) 0 hdr = wr (wr m ?off (?hb @ bs)) 0 hdr"
      by (simp add: wr_append)
    also have "\<dots> = wr (wr m 0 hdr) ?off (?hb @ bs)"
      using hl by (intro wr_wr_disjoint) simp
    also have "\<dots> = wr m 0 (hdr @ ?hb @ bs)"
      using hl by (simp add: wr_append)
    finally show ?thesis .
  qed
  then show ?thesis
    using hl by (simp add: local_message_def h p stamp len i0 ub(5) Let_def rd_wr_same)
qed

lemma writes_u16:
  assumes "ucdr_ok cdr" and "\<not> error ub" and "offset ub mod 2 = 0" and "iterator ub + 2 \<le> final ub"
  shows "ucdr_serialize_uint16_t cdr v (ub, m) = (True, adv 2 ub, wr m (iterator ub) (enc_w 2 (endianness ub) v))"
proof -
  have "ser_law (\<lambda>_. True) 2 (\<lambda>_. 2) (enc_w 2) (ucdr_serialize_uint16_t cdr)"
    using assms(1) by (simp add: ucdr_ok_def ser_laws_def)
  from ser_lawD [OF this, where v = v and ub = ub and m = m] show ?thesis
    using assms by simp
qed

lemma even_of_mod4: "(n :: nat) mod 4 = 0 \<Longrightarrow> n mod 2 = 0 \<and> (n + 2) mod 2 = 0"
  by presburger

lemma heartbeat_bytes:
  assumes cdr: "ucdr_ok cdr"
  shows "writes_bytes (uxr_serialize_HEARTBEAT_Payload cdr
      \<lparr>HEARTBEAT_Payload.first_unacked_seq_nr = f, last_unacked_seq_nr = l, stream_id = r\<rparr>) e
    (enc_w 2 e f @ enc_w 2 e l @ [r])"
  unfolding writes_bytes_def
proof (intro allI impI)
  fix ub :: ucdrBuffer and m
  assume a: "\<not> error ub \<and> endianness ub = e \<and> offset ub mod 4 = 0 \<and>
    iterator ub + length (enc_w 2 e f @ enc_w 2 e l @ [r]) \<le> final ub"
  let ?m1 = "wr m (iterator ub) (enc_w 2 e f)"
  let ?m2 = "wr ?m1 (iterator ub + 2) (enc_w 2 e l)"
  have "ucdr_serialize_uint16_t cdr f (ub, m) = (True, adv 2 ub, ?m1)"
    "ucdr_serialize_uint16_t cdr l (adv 2 ub, ?m1) = (True, adv 4 ub, ?m2)"
    "ucdr_serialize_uint8_t cdr r (adv 4 ub, ?m2) = (True, adv 5 ub, wr ?m2 (iterator ub + 4) [r])"
    using a even_of_mod4 [of "offset ub"] writes_u16 [OF cdr] ser_u8 [OF cdr]
    by (simp_all del: add_2_eq_Suc')
  then show "snd (uxr_serialize_HEARTBEAT_Payload cdr
      \<lparr>HEARTBEAT_Payload.first_unacked_seq_nr = f, last_unacked_seq_nr = l, stream_id = r\<rparr> (ub, m)) =
    (adv (length (enc_w 2 e f @ enc_w 2 e l @ [r])) ub,
     wr m (iterator ub) (enc_w 2 e f @ enc_w 2 e l @ [r]))"
    by (simp add: uxr_serialize_HEARTBEAT_Payload_def wr_append add.assoc del: add_2_eq_Suc')
qed

lemma acknack_bytes:
  assumes cdr: "ucdr_ok cdr"
  shows "writes_bytes (uxr_serialize_ACKNACK_Payload cdr
      \<lparr>ACKNACK_Payload.first_unacked_seq_num = f, nack_bitmap = [b0, b1], stream_id = r\<rparr>) e
    (enc_w 2 e f @ [b0, b1] @ [r])"
  unfolding writes_bytes_def
proof (intro allI impI)
  fix ub :: ucdrBuffer and m
  assume a: "\<not> error ub \<and> endianness ub = e \<and> offset ub mod 4 = 0 \<and>
    iterator ub + length (enc_w 2 e f @ [b0, b1] @ [r]) \<le> final ub"
  let ?m1 = "wr m (iterator ub) (enc_w 2 e f)"
  let ?m2 = "wr ?m1 (iterator ub + 2) [b0, b1]"
  have "ucdr_serialize_uint16_t cdr f (ub, m) = (True, adv 2 ub, ?m1)"
    "ucdr_serialize_array_uint8_t cdr [b0, b1] 2 (adv 2 ub, ?m1) = (True, adv 4 ub, ?m2)"
    "ucdr_serialize_uint8_t cdr r (adv 4 ub, ?m2) = (True, adv 5 ub, wr ?m2 (iterator ub + 4) [r])"
    using a even_of_mod4 [of "offset ub"] writes_u16 [OF cdr] ser_array [OF cdr] ser_u8 [OF cdr]
    by (simp_all del: add_2_eq_Suc')
  then show "snd (uxr_serialize_ACKNACK_Payload cdr
      \<lparr>ACKNACK_Payload.first_unacked_seq_num = f, nack_bitmap = [b0, b1], stream_id = r\<rparr> (ub, m)) =
    (adv (length (enc_w 2 e f @ [b0, b1] @ [r])) ub,
     wr m (iterator ub) (enc_w 2 e f @ [b0, b1] @ [r]))"
    unfolding wr_append by (simp add: uxr_serialize_ACKNACK_Payload_def add.commute [of 4] del: add_2_eq_Suc')
qed

text \<open>C21. A heartbeat announces the first message the agent has not acknowledged and the last one sent;
  an acknowledgement carries the bitmap computed from the input stream. Each is one message outside
  all streams, with the session's header, whose length field is the number of payload bytes that
  follow, and it fits the local array it is built in.\<close>
theorem control_messages_sent:
  assumes "env_ok env" and "length (key (sess_info w)) = 4"
  shows "write_submessage_heartbeat env sid w = snd (send_message env
      (control_header env w SUBMESSAGE_ID_HEARTBEAT 5 @
       enc_w 2 (UCDR_MACHINE_ENDIANNESS (lib env w)) (last_acknown (get_orl (unat (index sid)) w) + 1) @
       enc_w 2 (UCDR_MACHINE_ENDIANNESS (lib env w)) (last_sent (get_orl (unat (index sid)) w)) @ [raw sid]) w) \<and>
    (unat (index sid) < length (input_reliable (sess_streams w)) \<and>
     uxr_compute_acknack (get_irl (unat (index sid)) w) (memory w) = (Some bitmap, first) \<longrightarrow>
     write_submessage_acknack env sid w = Some (snd (send_message env
      (control_header env w SUBMESSAGE_ID_ACKNACK 5 @
       enc_w 2 (UCDR_MACHINE_ENDIANNESS (lib env w)) first @
       [ucast (drop_bit 8 bitmap), ucast bitmap, raw sid]) w)))"
proof -
  note cdr = lib_ok [OF assms(1), of w]
  let ?hdr = "message_header_bytes (id' (sess_info w)) 0 0 (key (sess_info w))"
  have hl: "length ?hdr = uxr_session_header_offset (sess_info w)"
    by (simp add: length_message_header_bytes header_offset_eq assms)
  have le: "uxr_session_header_offset (sess_info w) \<le> 8"
    by (simp add: header_offset_eq)
  have stamp: "uxr_stamp_session_header (lib env w) (sess_info w) 0 0 0 m = wr m 0 ?hdr" for m
    by (rule stamp_session_header [OF cdr assms(2)])
  note hb = local_message_bytes [where stamp = "uxr_stamp_session_header (lib env w) (sess_info w) 0 0",
    OF cdr hl stamp heartbeat_bytes [OF cdr]]
  note an = local_message_bytes [where stamp = "uxr_stamp_session_header (lib env w) (sess_info w) 0 0",
    OF cdr hl stamp acknack_bytes [OF cdr]]
  have "write_submessage_heartbeat env sid w = snd (send_message env
      (control_header env w SUBMESSAGE_ID_HEARTBEAT 5 @
       enc_w 2 (UCDR_MACHINE_ENDIANNESS (lib env w)) (last_acknown (get_orl (unat (index sid)) w) + 1) @
       enc_w 2 (UCDR_MACHINE_ENDIANNESS (lib env w)) (last_sent (get_orl (unat (index sid)) w)) @ [raw sid]) w)"
    using le by (simp add: write_submessage_heartbeat_def hb HEARTBEAT_MAX_MSG_SIZE_def MAX_HEADER_SIZE_def
        SUBHEADER_SIZE_def HEARTBEAT_PAYLOAD_SIZE_def control_header_def uxr_seq_num_add_eq Let_def
        MIN_HEADER_SIZE_def CLIENT_KEY_SIZE_def)
  moreover have "write_submessage_acknack env sid w = Some (snd (send_message env
      (control_header env w SUBMESSAGE_ID_ACKNACK 5 @
       enc_w 2 (UCDR_MACHINE_ENDIANNESS (lib env w)) first @
       [ucast (drop_bit 8 bitmap), ucast bitmap, raw sid]) w))"
    if "unat (index sid) < length (input_reliable (sess_streams w))"
      "uxr_compute_acknack (get_irl (unat (index sid)) w) (memory w) = (Some bitmap, first)"
    using that le by (simp add: write_submessage_acknack_def an ACKNACK_MAX_MSG_SIZE_def MAX_HEADER_SIZE_def
        SUBHEADER_SIZE_def ACKNACK_PAYLOAD_SIZE_def control_header_def Let_def
        MIN_HEADER_SIZE_def CLIENT_KEY_SIZE_def)
  ultimately show ?thesis
    by blast
qed

section \<open>An example session\<close>

text \<open>
  A transport that logs what it sends and delivers one message to address 3000; a session with
  client key 7, a reliable output stream of four slots and an input stream. What automatic
  variables hold is left open.
\<close>

definition example_env :: "locals \<Rightarrow> u8 list \<Rightarrow> u8 list list env" where
  "example_env l msg = \<lparr>comm = \<lparr>send_msg = (\<lambda>bytes e. (True, e @ [bytes])),
       recv_msg = (\<lambda>poll (e, m). (True, (3000, length msg), e, wr m 3000 msg)), comm_mtu = 64\<rparr>,
     ucdr_lib = (\<lambda>_. ref_ucdr), clock_nanos = (\<lambda>e. (0, e)), locals = l, heartbeat_interval = 200000000,
     connection_attempts = 10, connection_interval = 1000,
     call_on_status = (\<lambda>_ _ _ _ _ w. w), call_on_topic = (\<lambda>_ _ _ _ _ _ _ w. w),
     call_on_time = (\<lambda>_ _ _ _ _ _ w. w), call_on_request = (\<lambda>_ _ _ _ _ _ _ w. w),
     call_on_reply = (\<lambda>_ _ _ _ _ _ _ w. w), call_flush = (\<lambda>_ _ w. (True, w))\<rparr>"

definition example_session :: uxrSession where
  "example_session = \<lparr>uxrSession.info = uxr_init_session_info 0x01 7, streams = example_storage,
     request_list = [], status_list = [], request_status_list_size = 0, on_status = None,
     on_status_args = 0, on_topic = None, on_topic_args = 0, on_time = None, on_time_args = 0,
     time_offset = 0, synchronized = False, on_request = None, on_request_args = 0, on_reply = None,
     on_reply_args = 0, on_data_flag = False, on_pong_flag = NO_PONG_STATUS,
     continuous_args = \<lparr>flush_callback = 0, flush_callback_args = 0,
       ca_stream_id = uxr_stream_id_from_raw 0 UXR_OUTPUT_STREAM, data_size = 0\<rparr>\<rparr>"

definition example_world :: "mem \<Rightarrow> u8 list list world" where
  "example_world m = \<lparr>sess = example_session, memory = m, ext = []\<rparr>"

lemma example_env_ok: "env_ok (example_env l msg)"
  by (simp add: env_ok_def example_env_def ucdr_ok_ref_ucdr)

lemma example_session_parts [simp]:
  "key (sess_info (example_world m)) = [0, 0, 0, 7]" "id' (sess_info (example_world m)) = 0x01"
  "sess_streams (example_world m) = example_storage" "ext (example_world m) = []"
  "memory (example_world m) = m" "get_orl 0 (example_world m) = example_out"
  by (simp_all add: example_world_def example_session_def uxr_init_session_info_def get_orl_def
      example_storage_def)

text \<open>A message of twelve bytes waiting, and the same one sent, with five bytes at address 3000.\<close>

definition example_pending_mem :: mem where
  "example_pending_mem = extend_slot example_out 1 8 [] 20 example_out_mem"

lemma example_pending: "out_good (example_out, example_pending_mem, [])"
proof -
  have good: "out_good (example_out, example_out_mem, [])"
    using example_out_inv by (simp add: out_good_def unacked_def example_out_dists)
  have w: "write_size example_out example_out_mem = 8"
    by (simp add: example_out_dists aligned_props(4) example_out_size)
  have r: "uxr_prepare_reliable_buffer_to_write ref_ucdr 0 example_out 12 (ref_init 0 0 0 0) example_out_mem =
      (True, example_out, ucdr_init_buffer_origin_offset ref_ucdr (out_buf example_out 1) 20 0 8, example_pending_mem)"
    by (subst write_same_slot [OF example_out_inv ucdr_ok_ref_ucdr])
      (simp_all add: w example_out_dists example_pending_mem_def)
  show ?thesis
    by (rule out_good_prepare [OF good ucdr_ok_ref_ucdr _ _ r]) simp_all
qed

lemma example_pending_size: "out_size example_out example_pending_mem (Suc 0) = 20"
  using extend_slot_spec(1) [OF example_out_geom out_invD(2) [OF example_out_inv], of 1 8 "[]" 20 1]
  by (simp add: example_pending_mem_def example_out_dists)

lemma example_pending_send:
  "uxr_prepare_next_reliable_buffer_to_send example_out example_pending_mem =
    (True, (1004, 20, 0), example_out\<lparr>last_sent := 0, last_written := 1\<rparr>)"
proof -
  have inv: "out_inv example_out example_pending_mem"
    using example_pending by (simp add: out_good_def)
  have s: "out_seq example_out (Suc 0) = 0" "out_seq example_out 2 = 1"
    by (simp_all add: out_seq_def example_out_def)
  have "uxr_get_reliable_buffer (out_base example_out) 0 = 1004"
    using buffer_eq [of "out_base example_out" 0]
    by (simp add: slot_base_def slot_of_def) (simp add: example_out_def)
  then show ?thesis
    using next_to_send [OF inv]
    by (simp add: can_send_def example_out_dists example_pending_size s numeral_2_eq_2 [symmetric])
qed

text \<open>The stamped header is part of what was sent; five bytes at address 3000 are the agent's answer.\<close>

definition example_sent :: uxrOutputReliableStream where
  "example_sent = example_out\<lparr>last_sent := 0, last_written := 1\<rparr>"

definition example_sent_mem :: "u8 list \<Rightarrow> mem" where
  "example_sent_mem bs = wr (wr example_pending_mem 1004 (message_header_bytes 0x01 0x80 0 [0, 0, 0, 7])) 3000 bs"

definition example_sent_msg :: "u8 list" where
  "example_sent_msg = rd (wr example_pending_mem 1004 (message_header_bytes 0x01 0x80 0 [0, 0, 0, 7])) 1004 20"

lemma example_sent_good: "out_good (example_sent, example_sent_mem bs, [example_sent_msg])"
proof -
  let ?m = "wr example_pending_mem 1004 (message_header_bytes 0x01 0x80 0 [0, 0, 0, 7])"
  have good: "out_good (example_sent, ?m, [example_sent_msg])"
    using out_good_send [OF example_pending example_pending_send, of "message_header_bytes 0x01 0x80 0 [0, 0, 0, 7]"]
    by (simp add: example_sent_def example_sent_msg_def length_message_header_bytes example_out_dists)
  show ?thesis
    unfolding example_sent_mem_def
  proof (rule out_good_fill(1) [OF good])
    fix x
    assume "wr ?m 3000 bs x \<noteq> ?m x"
    then have "3000 \<le> x"
      by (auto simp: wr_def split: if_splits)
    then show "x < buffer (out_base example_sent) \<or>
        buffer (out_base example_sent) + stream_size (out_base example_sent) \<le> x \<or>
        (\<exists>i. sent_dist example_sent < i \<and> i \<le> out_hist example_sent \<and> out_buf example_sent i \<le> x \<and>
          x < out_buf example_sent i + out_cap example_sent)"
      by (simp add: example_sent_def example_out_def)
  qed
qed

lemma foreign_messages_ignored_witness:
  "\<forall>l. listen_message (example_env l (message_header_bytes 0x02 0x80 0 [0, 0, 0, 7] @ [1, 1, 0, 0])) 50
      (example_world (\<lambda>_. 0)) =
    Some (True, example_world (wr (\<lambda>_. 0) 3000 (message_header_bytes 0x02 0x80 0 [0, 0, 0, 7] @ [1, 1, 0, 0])))"
proof
  fix l
  let ?msg = "message_header_bytes 0x02 0x80 0 [0, 0, 0, 7] @ [1, 1, 0, 0]"
  have "headed (wr (\<lambda>_. 0) 3000 ?msg) 3000 12 0x02 0x80 0 [0, 0, 0, 7]"
    by (simp add: headed_def length_message_header_bytes wr_append rd_wr_disjoint rd_wr_same)
  then show "listen_message (example_env l ?msg) 50 (example_world (\<lambda>_. 0)) =
      Some (True, example_world (wr (\<lambda>_. 0) 3000 ?msg))"
    using foreign_messages_ignored [OF example_env_ok [of l ?msg], of "example_world (\<lambda>_. 0)" 50 3000 12 "[]"
        "wr (\<lambda>_. 0) 3000 ?msg" "0x02" "0x80" 0 "[0, 0, 0, 7]"]
    by (simp add: own_header_def example_env_def length_message_header_bytes) (simp add: example_world_def)
qed



text \<open>The agent asks for message 0 again.\<close>

definition example_answer :: "u8 list" where
  "example_answer = [0, 0, 0, 1, 0x80]"

definition example_sent_world :: "u8 list list world" where
  "example_sent_world = set_orl 0 example_sent (example_world (example_sent_mem example_answer))"

lemma example_sent_world_parts [simp]:
  "get_orl 0 example_sent_world = example_sent" "memory example_sent_world = example_sent_mem example_answer"
  "ext example_sent_world = []" "key (sess_info example_sent_world) = [0, 0, 0, 7]"
  "id' (sess_info example_sent_world) = 0x01"
  "length (output_reliable (sess_streams example_sent_world)) = 1"
  "output_reliable_size (sess_streams example_sent_world) = 1"
  by (simp_all add: example_sent_world_def example_storage_def)

lemma example_answer_read: "rd (example_sent_mem example_answer) 3000 5 = example_answer"
  by (simp add: example_sent_mem_def example_answer_def rd_wr_same)

lemma example_answer_bytes:
  "example_sent_mem example_answer 3000 = 0" "example_sent_mem example_answer 3001 = 0"
  "example_sent_mem example_answer 3002 = 0" "example_sent_mem example_answer 3003 = 1"
  "example_sent_mem example_answer 3004 = 0x80"
  by (simp_all add: example_sent_mem_def example_answer_def wr_def)

lemma example_answer_reads:
  "rd (example_sent_mem example_answer) 3000 2 = [0, 0]" "rd (example_sent_mem example_answer) 3002 2 = [0, 1]"
  by (simp_all add: rd_def upt_rec example_answer_bytes)

lemma example_answer_decoded:
  "uxr_deserialize_ACKNACK_Payload ref_ucdr v0 (ref_init 3000 5 0 0, example_sent_mem example_answer) =
    (True, \<lparr>ACKNACK_Payload.first_unacked_seq_num = 0, nack_bitmap = [0, 1], stream_id = 0x80\<rparr>,
     adv 5 (ref_init 3000 5 0 0), example_sent_mem example_answer)"
  by (simp add: uxr_deserialize_ACKNACK_Payload_def des_field_def ref_ucdr_def ref_des_def ref_init_def
      dec_w_def dec_nat_def example_answer_reads rd_Suc example_answer_bytes)

lemma acknack_resends_unacknowledged_witness:
  "\<forall>l. \<exists>w'. read_submessage_acknack (example_env l []) (ref_init 3000 5 0 0) example_sent_world =
      Some (adv 5 (ref_init 3000 5 0 0), w') \<and>
    orl_ready 0 [example_sent_msg] w' \<and> ext w' = [example_sent_msg]"
proof
  fix l
  have ready: "orl_ready 0 [example_sent_msg] example_sent_world"
    using example_sent_good [of example_answer]
    by (simp add: orl_ready_def header_offset_eq del: length_0_conv)
      (simp add: example_sent_def example_out_def out_off_def)
  have acked: "acked example_sent 0 = 0"
    by (simp add: acked_def example_sent_def example_out_def seq_dist_def)
  have lib: "lib (example_env l []) example_sent_world = ref_ucdr"
    by (simp add: lib_def example_env_def)
  show "\<exists>w'. read_submessage_acknack (example_env l []) (ref_init 3000 5 0 0) example_sent_world =
      Some (adv 5 (ref_init 3000 5 0 0), w') \<and>
    orl_ready 0 [example_sent_msg] w' \<and> ext w' = [example_sent_msg]"
    using acknack_resends_unacknowledged [OF example_env_ok [of l "[]"] ready, of "ref_init 3000 5 0 0" True
        "\<lparr>ACKNACK_Payload.first_unacked_seq_num = 0, nack_bitmap = [0, 1], stream_id = 0x80\<rparr>"
        "adv 5 (ref_init 3000 5 0 0)" 0 1]
    by (simp add: lib example_answer_decoded acked send_all_def uxr_get_output_reliable_stream_def
        uxr_stream_id_from_raw_def stream_id_defs) (auto simp: example_env_def)
qed

lemma example_env_parts:
  "send_msg (comm (example_env l msg)) = (\<lambda>bytes e. (True, e @ [bytes]))"
  "UCDR_MACHINE_ENDIANNESS (lib (example_env l msg) w) = LITTLE_ENDIANNESS"
  by (simp_all add: example_env_def lib_def ref_ucdr_def)

lemma control_messages_sent_witness:
  "\<forall>l. write_submessage_heartbeat (example_env l []) (orl_id 0) example_sent_world =
    example_sent_world\<lparr>ext := [message_header_bytes 0x01 0 0 [0, 0, 0, 7] @
      header_bytes SUBMESSAGE_ID_HEARTBEAT 1 5 @ [0, 0, 0, 0, 0x80]]\<rparr>"
proof
  fix l
  have "last_acknown example_sent + 1 = 0" "last_sent example_sent = 0" "raw (orl_id 0) = 0x80"
    "index (orl_id 0) = 0" "endianness_flag LITTLE_ENDIANNESS = 1"
    by (simp_all add: example_sent_def example_out_def orl_id_def stream_id_defs endianness_flag_def FLAG_ENDIANNESS_def)
  moreover have "enc_w 2 LITTLE_ENDIANNESS (0 :: u16) = [0, 0]"
    by (simp add: enc_w_def enc_nat_def numeral_2_eq_2)
  ultimately show "write_submessage_heartbeat (example_env l []) (orl_id 0) example_sent_world =
    example_sent_world\<lparr>ext := [message_header_bytes 0x01 0 0 [0, 0, 0, 7] @
      header_bytes SUBMESSAGE_ID_HEARTBEAT 1 5 @ [0, 0, 0, 0, 0x80]]\<rparr>"
    using control_messages_sent [OF example_env_ok [of l "[]"], of example_sent_world "orl_id 0", THEN conjunct1]
    by (simp add: send_message_eq control_header_def example_env_parts)
qed

end
