(* ===== verification/WriteAccess.thy ===== *)
theory WriteAccess
  imports ReadAccess
begin

text \<open>
  Writing data, \<open>src/c/core/session/write_access.c\<close>: buffering samples, requests and replies in an
  output stream, handing a stream's buffer to the application, and messages longer than the stream,
  which are sent fragment by fragment while the application writes. The shared memory and
  multithread profiles are left out of the build.
\<close>

definition WRITE_DATA_PAYLOAD_SIZE :: nat where "WRITE_DATA_PAYLOAD_SIZE = 4"
definition MAX_WRITE_DATA_PAYLOAD_SIZE :: nat where "MAX_WRITE_DATA_PAYLOAD_SIZE = 65535"
definition SAMPLE_IDENTITY_SIZE :: nat where "SAMPLE_IDENTITY_SIZE = 24"

text \<open>
  What the writing functions have in common: room for a WRITE_DATA submessage, and the request with
  a new identifier in front of the data. A buffer that was prepared is not in error.
\<close>

definition begin_write_data ::
  "'e env \<Rightarrow> uxrStreamId \<Rightarrow> uxrObjectId \<Rightarrow> size_t \<Rightarrow> ucdrBuffer \<Rightarrow> 'e world
    \<Rightarrow> bool \<times> u16 \<times> ucdrBuffer \<times> 'e world"
where
  "begin_write_data env sid oid payload_size ub w =
     (let (available, ub1, w1) = uxr_prepare_stream_to_write_submessage env sid payload_size
                                   SUBMESSAGE_ID_WRITE_DATA FORMAT_DATA ub w;
          ub2 = ub1\<lparr>error := \<not> available\<rparr>
      in if \<not> error ub2
         then let (rv, si, req) = uxr_init_base_object_request (sess_info w1) oid;
                  w2 = set_info si w1;
                  (_, ub3, w3) = run_ser (uxr_serialize_WRITE_DATA_Payload_Data (lib env w2)
                                   \<lparr>WRITE_DATA_Payload_Data.base = req\<rparr>) ub2 w2
              in (True, rv, ub3, w3)
         else (False, UXR_INVALID_REQUEST_ID, ub2, w1))"

text \<open>The application's data, copied from memory.\<close>

definition write_array :: "'e env \<Rightarrow> addr \<Rightarrow> size_t \<Rightarrow> ucdrBuffer \<Rightarrow> 'e world \<Rightarrow> 'e world" where
  "write_array env buffer' len ub w =
     (let (_, _, w1) = run_ser (ucdr_serialize_array_uint8_t (lib env w) (rd (memory w) buffer' len) len) ub w in w1)"

definition uxr_buffer_request ::
  "'e env \<Rightarrow> uxrStreamId \<Rightarrow> uxrObjectId \<Rightarrow> addr \<Rightarrow> size_t \<Rightarrow> 'e world \<Rightarrow> u16 \<times> 'e world"
where
  "uxr_buffer_request env sid requester_id buffer' len w =
     (let (available, rv, ub, w1) = begin_write_data env sid requester_id (size_add WRITE_DATA_PAYLOAD_SIZE len)
                           (l_buffer (locals env)) w
      in (rv, if available then write_array env buffer' len ub w1 else w1))"

definition uxr_buffer_reply ::
  "'e env \<Rightarrow> uxrStreamId \<Rightarrow> uxrObjectId \<Rightarrow> SampleIdentity \<Rightarrow> addr \<Rightarrow> size_t \<Rightarrow> 'e world \<Rightarrow> u16 \<times> 'e world"
where
  "uxr_buffer_reply env sid replier_id sample_id buffer' len w =
     (let (available, rv, ub, w1) = begin_write_data env sid replier_id
                           (size_add (size_add WRITE_DATA_PAYLOAD_SIZE SAMPLE_IDENTITY_SIZE) len)
                           (l_buffer (locals env)) w
      in (rv, if available
              then let (_, ub2, w2) = run_ser (uxr_serialize_SampleIdentity (lib env w1) sample_id) ub w1
                   in write_array env buffer' len ub2 w2
              else w1))"

definition uxr_buffer_topic ::
  "'e env \<Rightarrow> uxrStreamId \<Rightarrow> uxrObjectId \<Rightarrow> addr \<Rightarrow> size_t \<Rightarrow> 'e world \<Rightarrow> u16 \<times> 'e world"
where
  "uxr_buffer_topic env sid datawriter_id buffer' len w =
     (let (available, rv, ub, w1) = begin_write_data env sid datawriter_id (size_add WRITE_DATA_PAYLOAD_SIZE len)
                           (l_buffer (locals env)) w
      in (rv, if available then write_array env buffer' len ub w1 else w1))"

text \<open>The application gets a buffer that starts with its data.\<close>

definition uxr_prepare_output_stream ::
  "'e env \<Rightarrow> uxrStreamId \<Rightarrow> uxrObjectId \<Rightarrow> ucdrBuffer \<Rightarrow> u32 \<Rightarrow> 'e world \<Rightarrow> u16 \<times> ucdrBuffer \<times> 'e world"
where
  "uxr_prepare_output_stream env sid entity_id ub len w =
     (let (available, rv, ub1, w1) = begin_write_data env sid entity_id (size_add WRITE_DATA_PAYLOAD_SIZE (unat len)) ub w
      in if available then (rv, rest_buffer (lib env w1) ub1 ub1, w1) else (rv, ub1, w1))"

section \<open>Messages sent while they are written\<close>

definition free_slots :: "nat \<Rightarrow> 'e world \<Rightarrow> nat" where
  "free_slots i w = get_available_free_slots (get_orl i w) (memory w)"

text \<open>
  What the application's buffer does when it is full: the slot is closed with its fragment header,
  and the application goes on in the next one. The result \<open>True\<close> stops the serialization. The
  argument of the callback is the session.
\<close>

definition on_full_output_buffer_fragmented ::
  "'e env \<Rightarrow> ucdrBuffer \<Rightarrow> 'e world \<Rightarrow> (bool \<times> ucdrBuffer \<times> 'e world) option"
where
  "on_full_output_buffer_fragmented env ub w =
     (let ca = continuous_args (sess w)
      in do {
        i \<leftarrow> uxr_get_output_reliable_stream (sess_streams w) (index (ca_stream_id ca));
        let (room, w1) =
          (if 0 = free_slots i w
           then let (flushed, w1) = call_flush env (flush_callback ca) (flush_callback_args ca) w
                in (flushed \<and> 0 \<noteq> free_slots i w1, w1)
           else (True, w));
        if \<not> room then Some (True, ub, w1)
        else let stream = get_orl i w1;
                 cdr = lib env w1;
                 base' = out_base stream;
                 seq_num = last_written stream;
                 buffer_capacity = uxr_get_reliable_buffer_capacity base';
                 available_block_size = cast_u16 (size_sub buffer_capacity
                   (cast_u16 (unat (header_offset stream) + SUBHEADER_SIZE)));
                 remaining_size = size_sub (data_size (continuous_args (sess w1))) available_block_size;
                 w2 = w1\<lparr>sess := (sess w1)\<lparr>continuous_args := (continuous_args (sess w1))\<lparr>data_size := remaining_size\<rparr>\<rparr>\<rparr>;
                 temp = ucdr_init_buffer_origin_offset cdr (uxr_get_reliable_buffer base' seq_num)
                          buffer_capacity 0 (uxr_get_reliable_buffer_size base' seq_num (memory w2));
                 is_last = size_add (size_add remaining_size SUBHEADER_SIZE) WRITE_DATA_PAYLOAD_SIZE \<le> buffer_capacity;
                 (_, temp1, w3) =
                   (if is_last
                    then run_ser (uxr_buffer_submessage_header cdr SUBMESSAGE_ID_FRAGMENT (of_nat remaining_size)
                           FLAG_LAST_FRAGMENT) temp w2
                    else run_ser (uxr_buffer_submessage_header cdr SUBMESSAGE_ID_FRAGMENT (of_nat available_block_size) 0)
                           temp w2);
                 w4 = set_memory (uxr_set_reliable_buffer_size base' seq_num
                        (if is_last then size_add (size_add remaining_size SUBHEADER_SIZE) WRITE_DATA_PAYLOAD_SIZE
                         else buffer_capacity) (memory w3)) w3;
                 w5 = set_orl i (stream\<lparr>last_written := uxr_seq_num_add seq_num 1\<rparr>) w4
             in Some (False,
                  ucdr_set_on_full_buffer_callback cdr (Some on_full_output_buffer_fragmented_cb) (Some 0)
                    (ucdr_init_buffer cdr (iterator temp1) (size_sub (final temp1) (iterator temp1))),
                  w5)
      })"

text \<open>\<open>write_limit\<close> is the build option that announces a length of zero for long messages.\<close>

definition uxr_prepare_output_stream_fragmented ::
  "'e env \<Rightarrow> bool \<Rightarrow> uxrStreamId \<Rightarrow> uxrObjectId \<Rightarrow> ucdrBuffer \<Rightarrow> size_t \<Rightarrow> nat \<Rightarrow> nat \<Rightarrow> 'e world
    \<Rightarrow> u16 \<times> ucdrBuffer \<times> 'e world"
where
  "uxr_prepare_output_stream_fragmented env write_limit sid entity_id ub data_size' flush' flush_args w =
     (let user_required_space = size_add (size_add data_size' SUBHEADER_SIZE) WRITE_DATA_PAYLOAD_SIZE
      in case uxr_get_output_reliable_stream (sess_streams w) (index sid) of
           None \<Rightarrow> (UXR_INVALID_REQUEST_ID, ub, w)
         | Some i \<Rightarrow>
             if uxrStreamId.type sid = UXR_BEST_EFFORT_STREAM then (UXR_INVALID_REQUEST_ID, ub, w)
             else
               let (room, w1) =
                 (if 0 = free_slots i w
                  then let (flushed, w1) = call_flush env flush' flush_args w
                       in (flushed \<and> 0 \<noteq> free_slots i w1, w1)
                  else (True, w))
               in if \<not> room then (UXR_INVALID_REQUEST_ID, ub, w1)
                  else
                    let stream = get_orl i w1;
                        cdr = lib env w1;
                        base' = out_base stream;
                        off = unat (header_offset stream);
                        seq0 = last_written stream;
                        buffer_capacity = uxr_get_reliable_buffer_capacity base';
                        fresh = uxr_get_reliable_buffer_size base' seq0 (memory w1) > off;
                        seq_num = (if fresh then uxr_seq_num_add seq0 1 else seq0);
                        buffer' = uxr_get_reliable_buffer base' seq_num;
                        buffer_size = uxr_get_reliable_buffer_size base' seq_num (memory w1);
                        available_block_size = cast_u16 (size_sub buffer_capacity (cast_u16 (off + SUBHEADER_SIZE)));
                        temp = ucdr_init_buffer_origin_offset cdr buffer' buffer_capacity 0 buffer_size;
                        (_, _, w2) = run_ser (uxr_buffer_submessage_header cdr SUBMESSAGE_ID_FRAGMENT
                            (of_nat available_block_size)
                            (if user_required_space < buffer_capacity then FLAG_LAST_FRAGMENT else 0)) temp w1;
                        w3 = set_memory (uxr_set_reliable_buffer_size base' seq_num buffer_capacity (memory w2)) w2;
                        ub1 = ucdr_init_buffer cdr (buffer' + buffer_size + SUBHEADER_SIZE)
                                (cast_u32 (size_sub (size_sub buffer_capacity buffer_size) SUBHEADER_SIZE));
                        w4 = set_orl i (stream\<lparr>last_written := uxr_seq_num_add seq_num 1\<rparr>) w3;
                        payload_size0 = size_add WRITE_DATA_PAYLOAD_SIZE data_size';
                        payload_size = (if write_limit \<and> payload_size0 > MAX_WRITE_DATA_PAYLOAD_SIZE then 0
                                        else payload_size0);
                        (_, ub2, w5) = run_ser (uxr_buffer_submessage_header (lib env w4) SUBMESSAGE_ID_WRITE_DATA
                            (of_nat payload_size) FORMAT_DATA) ub1 w4;
                        (rv, si, req) = uxr_init_base_object_request (sess_info w5) entity_id;
                        w6 = set_info si w5
                    in if rv = UXR_INVALID_REQUEST_ID then (rv, ub2, w6)
                       else
                         let (_, ub3, w7) = run_ser (uxr_serialize_WRITE_DATA_Payload_Data (lib env w6)
                               \<lparr>WRITE_DATA_Payload_Data.base = req\<rparr>) ub2 w6;
                             ub4 = ucdr_init_buffer (lib env w7) (iterator ub3) (size_sub (final ub3) (iterator ub3));
                             w8 = w7\<lparr>sess := (sess w7)\<lparr>continuous_args :=
                               \<lparr>flush_callback = flush', flush_callback_args = flush_args, ca_stream_id = sid,
                                data_size = user_required_space\<rparr>\<rparr>\<rparr>
                         in (rv, ucdr_set_on_full_buffer_callback (lib env w8)
                               (Some on_full_output_buffer_fragmented_cb) (Some 0) ub4, w8))"

end
