(* ===== verification/CreateEntities.thy ===== *)
theory CreateEntities
  imports ReadAccess
begin

text \<open>
  Creating and deleting entities at the agent: \<open>common_create_entities.c\<close>,
  \<open>create_entities_bin.c\<close>, \<open>create_entities_ref.c\<close> and \<open>create_entities_xml.c\<close> of
  \<open>src/c/core/session\<close>. The payload is a local variable: what the code does not write of it keeps
  the indeterminate content that the environment gives. A union is a record with all its members;
  the code that writes one variant through another, of which it knows that the first member lies at
  the same place, writes all of them.
\<close>

section \<open>Requests\<close>

definition uxr_buffer_delete_entity ::
  "'e env \<Rightarrow> uxrStreamId \<Rightarrow> uxrObjectId \<Rightarrow> 'e world \<Rightarrow> u16 \<times> 'e world"
where
  "uxr_buffer_delete_entity env sid oid w =
     (let payload_length = cast_u16 (0 + 4);
          (available, ub, w1) = uxr_prepare_stream_to_write_submessage env sid payload_length
                                  SUBMESSAGE_ID_DELETE 0 (l_buffer (locals env)) w
      in if available
         then let (request_id', si, req) = uxr_init_base_object_request (sess_info w1) oid;
                  w2 = set_info si w1;
                  (_, _, w3) = run_ser (uxr_serialize_DELETE_Payload (lib env w2) \<lparr>DELETE_Payload.base = req\<rparr>) ub w2
              in (request_id', w3)
         else (UXR_INVALID_REQUEST_ID, w1))"

text \<open>The length of a CREATE payload, summed up in 16 bits.\<close>

definition create_payload_length :: "uxrObjectId \<Rightarrow> u16 \<Rightarrow> size_t" where
  "create_payload_length oid xml_ref_bin_size =
     (let n0 = cast_u16 (0 + 4);
          n1 = cast_u16 (n0 + 1);
          n2 = cast_u16 (n1 + 1);
          n3 = cast_u16 (n2 + 2);
          n4 = cast_u16 (n3 + 4);
          n5 = cast_u16 (n4 + unat xml_ref_bin_size);
          n6 = cast_u16 (n5 + (if uxrObjectId.type oid = DDS_XRCE_OBJK_PARTICIPANT \<and> n5 mod 2 \<noteq> 0 then 1 else 0))
      in cast_u16 (n6 + 2))"

definition uxr_common_create_entity ::
  "'e env \<Rightarrow> uxrStreamId \<Rightarrow> uxrObjectId \<Rightarrow> u16 \<Rightarrow> u8 \<Rightarrow> CREATE_Payload \<Rightarrow> 'e world \<Rightarrow> u16 \<times> 'e world"
where
  "uxr_common_create_entity env sid oid xml_ref_bin_size mode payload w =
     (let (available, ub, w1) = uxr_prepare_stream_to_write_submessage env sid
            (create_payload_length oid xml_ref_bin_size) SUBMESSAGE_ID_CREATE mode (l_buffer (locals env)) w
      in if available
         then let (request_id', si, req) = uxr_init_base_object_request (sess_info w1) oid;
                  w2 = set_info si w1;
                  (_, _, w3) = run_ser (uxr_serialize_CREATE_Payload (lib env w2)
                                 (payload\<lparr>CREATE_Payload.base := req\<rparr>)) ub w2
              in (request_id', w3)
         else (UXR_INVALID_REQUEST_ID, w1))"

section \<open>Payloads\<close>

definition raw_id :: "uxrObjectId \<Rightarrow> ObjectId" where
  "raw_id oid = (let (a, b) = uxr_object_id_to_raw oid in \<lparr>ObjectId.data = [a, b]\<rparr>)"

definition payload_of :: "CREATE_Payload \<Rightarrow> u8 \<Rightarrow> (ObjectVariantU \<Rightarrow> ObjectVariantU) \<Rightarrow> CREATE_Payload" where
  "payload_of p k f = p\<lparr>CREATE_Payload.object_representation :=
     (CREATE_Payload.object_representation p)
       \<lparr>ObjectVariant.kind := k,
        ObjectVariant.U := f (ObjectVariant.U (CREATE_Payload.object_representation p))\<rparr>\<rparr>"

text \<open>The members that identify what an entity belongs to.\<close>

definition set_participant_owner :: "u16 \<Rightarrow> ObjectVariantU \<Rightarrow> ObjectVariantU" where
  "set_participant_owner x u = u\<lparr>ObjectVariantU.participant := (ObjectVariantU.participant u)\<lparr>OBJK_PARTICIPANT_Representation.domain_id := x\<rparr>\<rparr>"

definition set_topic_owner :: "ObjectId \<Rightarrow> ObjectVariantU \<Rightarrow> ObjectVariantU" where
  "set_topic_owner x u = u\<lparr>ObjectVariantU.topic := (ObjectVariantU.topic u)\<lparr>OBJK_TOPIC_Representation.participant_id := x\<rparr>\<rparr>"

definition set_publisher_owner :: "ObjectId \<Rightarrow> ObjectVariantU \<Rightarrow> ObjectVariantU" where
  "set_publisher_owner x u = u\<lparr>ObjectVariantU.publisher := (ObjectVariantU.publisher u)\<lparr>OBJK_PUBLISHER_Representation.participant_id := x\<rparr>\<rparr>"

definition set_subscriber_owner :: "ObjectId \<Rightarrow> ObjectVariantU \<Rightarrow> ObjectVariantU" where
  "set_subscriber_owner x u = u\<lparr>ObjectVariantU.subscriber := (ObjectVariantU.subscriber u)\<lparr>OBJK_SUBSCRIBER_Representation.participant_id := x\<rparr>\<rparr>"

definition set_data_writer_owner :: "ObjectId \<Rightarrow> ObjectVariantU \<Rightarrow> ObjectVariantU" where
  "set_data_writer_owner x u = u\<lparr>ObjectVariantU.data_writer := (ObjectVariantU.data_writer u)\<lparr>DATAWRITER_Representation.publisher_id := x\<rparr>\<rparr>"

definition set_data_reader_owner :: "ObjectId \<Rightarrow> ObjectVariantU \<Rightarrow> ObjectVariantU" where
  "set_data_reader_owner x u = u\<lparr>ObjectVariantU.data_reader := (ObjectVariantU.data_reader u)\<lparr>DATAREADER_Representation.subscriber_id := x\<rparr>\<rparr>"

definition set_requester_owner :: "ObjectId \<Rightarrow> ObjectVariantU \<Rightarrow> ObjectVariantU" where
  "set_requester_owner x u = u\<lparr>ObjectVariantU.requester := (ObjectVariantU.requester u)\<lparr>OBJK_REQUESTER_Representation.participant_id := x\<rparr>\<rparr>"

definition set_replier_owner :: "ObjectId \<Rightarrow> ObjectVariantU \<Rightarrow> ObjectVariantU" where
  "set_replier_owner x u = u\<lparr>ObjectVariantU.replier := (ObjectVariantU.replier u)\<lparr>OBJK_REPLIER_Representation.participant_id := x\<rparr>\<rparr>"

text \<open>The two kinds of representation that come first in a variant.\<close>

definition rep3 :: "u8 \<Rightarrow> (OBJK_Representation3FormatsU \<Rightarrow> OBJK_Representation3FormatsU) \<Rightarrow>
    OBJK_Representation3_Base \<Rightarrow> OBJK_Representation3_Base" where
  "rep3 fmt f b = b\<lparr>OBJK_Representation3_Base.representation :=
     (OBJK_Representation3_Base.representation b)
       \<lparr>OBJK_Representation3Formats.format := fmt,
        OBJK_Representation3Formats.U := f (OBJK_Representation3Formats.U (OBJK_Representation3_Base.representation b))\<rparr>\<rparr>"

definition rep2 :: "u8 \<Rightarrow> (OBJK_RepresentationBinAndXMLFormatsU \<Rightarrow> OBJK_RepresentationBinAndXMLFormatsU) \<Rightarrow>
    OBJK_RepresentationBinAndXML_Base \<Rightarrow> OBJK_RepresentationBinAndXML_Base" where
  "rep2 fmt f b = b\<lparr>OBJK_RepresentationBinAndXML_Base.representation :=
     (OBJK_RepresentationBinAndXML_Base.representation b)
       \<lparr>OBJK_RepresentationBinAndXMLFormats.format := fmt,
        OBJK_RepresentationBinAndXMLFormats.U :=
          f (OBJK_RepresentationBinAndXMLFormats.U (OBJK_RepresentationBinAndXML_Base.representation b))\<rparr>\<rparr>"

text \<open>Writing the first member of all variants that have it at the same place.\<close>

definition set_representation ::
  "(OBJK_Representation3_Base \<Rightarrow> OBJK_Representation3_Base) \<Rightarrow>
    (OBJK_RepresentationBinAndXML_Base \<Rightarrow> OBJK_RepresentationBinAndXML_Base) \<Rightarrow> ObjectVariantU \<Rightarrow> ObjectVariantU"
where
  "set_representation f3 f2 u = u
     \<lparr>ObjectVariantU.participant := (ObjectVariantU.participant u)\<lparr>OBJK_PARTICIPANT_Representation.base := f3 (OBJK_PARTICIPANT_Representation.base (ObjectVariantU.participant u))\<rparr>,
      ObjectVariantU.topic := (ObjectVariantU.topic u)\<lparr>OBJK_TOPIC_Representation.base := f3 (OBJK_TOPIC_Representation.base (ObjectVariantU.topic u))\<rparr>,
      ObjectVariantU.publisher := (ObjectVariantU.publisher u)\<lparr>OBJK_PUBLISHER_Representation.base := f2 (OBJK_PUBLISHER_Representation.base (ObjectVariantU.publisher u))\<rparr>,
      ObjectVariantU.subscriber := (ObjectVariantU.subscriber u)\<lparr>OBJK_SUBSCRIBER_Representation.base := f2 (OBJK_SUBSCRIBER_Representation.base (ObjectVariantU.subscriber u))\<rparr>,
      ObjectVariantU.data_writer := (ObjectVariantU.data_writer u)\<lparr>DATAWRITER_Representation.base := f3 (DATAWRITER_Representation.base (ObjectVariantU.data_writer u))\<rparr>,
      ObjectVariantU.data_reader := (ObjectVariantU.data_reader u)\<lparr>DATAREADER_Representation.base := f3 (DATAREADER_Representation.base (ObjectVariantU.data_reader u))\<rparr>,
      ObjectVariantU.requester := (ObjectVariantU.requester u)\<lparr>OBJK_REQUESTER_Representation.base := f3 (OBJK_REQUESTER_Representation.base (ObjectVariantU.requester u))\<rparr>,
      ObjectVariantU.replier := (ObjectVariantU.replier u)\<lparr>OBJK_REPLIER_Representation.base := f3 (OBJK_REPLIER_Representation.base (ObjectVariantU.replier u))\<rparr>\<rparr>"

section \<open>By reference\<close>

definition create_entity_ref ::
  "'e env \<Rightarrow> uxrStreamId \<Rightarrow> uxrObjectId \<Rightarrow> u8 list \<Rightarrow> u8 \<Rightarrow> CREATE_Payload \<Rightarrow> 'e world \<Rightarrow> u16 \<times> 'e world"
where
  "create_entity_ref env sid oid ref mode payload w =
     (let ov = CREATE_Payload.object_representation payload;
          payload1 = payload_of payload (ObjectVariant.kind ov)
            (set_representation
               (rep3 DDS_XRCE_REPRESENTATION_BY_REFERENCE (OBJK_Representation3FormatsU.object_reference_update (\<lambda>_. ref)))
               (\<lambda>b. b))
      in uxr_common_create_entity env sid oid (of_nat (length ref + 1)) mode payload1 w)"

definition uxr_buffer_create_participant_ref ::
  "'e env \<Rightarrow> uxrStreamId \<Rightarrow> uxrObjectId \<Rightarrow> u16 \<Rightarrow> u8 list \<Rightarrow> u8 \<Rightarrow> 'e world \<Rightarrow> u16 \<times> 'e world"
where
  "uxr_buffer_create_participant_ref env sid oid domain_id' ref mode w =
     create_entity_ref env sid oid ref mode
       (payload_of (l_CREATE (locals env)) DDS_XRCE_OBJK_PARTICIPANT (set_participant_owner domain_id')) w"

definition uxr_buffer_create_topic_ref ::
  "'e env \<Rightarrow> uxrStreamId \<Rightarrow> uxrObjectId \<Rightarrow> uxrObjectId \<Rightarrow> u8 list \<Rightarrow> u8 \<Rightarrow> 'e world \<Rightarrow> u16 \<times> 'e world"
where
  "uxr_buffer_create_topic_ref env sid oid owner_id ref mode w =
     create_entity_ref env sid oid ref mode
       (payload_of (l_CREATE (locals env)) DDS_XRCE_OBJK_TOPIC (set_topic_owner (raw_id owner_id))) w"

definition uxr_buffer_create_datawriter_ref ::
  "'e env \<Rightarrow> uxrStreamId \<Rightarrow> uxrObjectId \<Rightarrow> uxrObjectId \<Rightarrow> u8 list \<Rightarrow> u8 \<Rightarrow> 'e world \<Rightarrow> u16 \<times> 'e world"
where
  "uxr_buffer_create_datawriter_ref env sid oid owner_id ref mode w =
     create_entity_ref env sid oid ref mode
       (payload_of (l_CREATE (locals env)) DDS_XRCE_OBJK_DATAWRITER (set_data_writer_owner (raw_id owner_id))) w"

definition uxr_buffer_create_datareader_ref ::
  "'e env \<Rightarrow> uxrStreamId \<Rightarrow> uxrObjectId \<Rightarrow> uxrObjectId \<Rightarrow> u8 list \<Rightarrow> u8 \<Rightarrow> 'e world \<Rightarrow> u16 \<times> 'e world"
where
  "uxr_buffer_create_datareader_ref env sid oid owner_id ref mode w =
     create_entity_ref env sid oid ref mode
       (payload_of (l_CREATE (locals env)) DDS_XRCE_OBJK_DATAREADER (set_data_reader_owner (raw_id owner_id))) w"

definition uxr_buffer_create_requester_ref ::
  "'e env \<Rightarrow> uxrStreamId \<Rightarrow> uxrObjectId \<Rightarrow> uxrObjectId \<Rightarrow> u8 list \<Rightarrow> u8 \<Rightarrow> 'e world \<Rightarrow> u16 \<times> 'e world"
where
  "uxr_buffer_create_requester_ref env sid oid owner_id ref mode w =
     create_entity_ref env sid oid ref mode
       (payload_of (l_CREATE (locals env)) DDS_XRCE_OBJK_REQUESTER (set_requester_owner (raw_id owner_id))) w"

definition uxr_buffer_create_replier_ref ::
  "'e env \<Rightarrow> uxrStreamId \<Rightarrow> uxrObjectId \<Rightarrow> uxrObjectId \<Rightarrow> u8 list \<Rightarrow> u8 \<Rightarrow> 'e world \<Rightarrow> u16 \<times> 'e world"
where
  "uxr_buffer_create_replier_ref env sid oid owner_id ref mode w =
     create_entity_ref env sid oid ref mode
       (payload_of (l_CREATE (locals env)) DDS_XRCE_OBJK_REPLIER (set_replier_owner (raw_id owner_id))) w"

section \<open>By XML\<close>

definition create_entity_xml ::
  "'e env \<Rightarrow> uxrStreamId \<Rightarrow> uxrObjectId \<Rightarrow> u8 list \<Rightarrow> u8 \<Rightarrow> CREATE_Payload \<Rightarrow> 'e world \<Rightarrow> u16 \<times> 'e world"
where
  "create_entity_xml env sid oid xml mode payload w =
     (let ov = CREATE_Payload.object_representation payload;
          payload1 = payload_of payload (ObjectVariant.kind ov)
            (set_representation
               (rep3 DDS_XRCE_REPRESENTATION_AS_XML_STRING (OBJK_Representation3FormatsU.xml_string_represenatation_update (\<lambda>_. xml)))
               (rep2 DDS_XRCE_REPRESENTATION_AS_XML_STRING (OBJK_RepresentationBinAndXMLFormatsU.string_represenatation_update (\<lambda>_. xml))))
      in uxr_common_create_entity env sid oid (of_nat (length xml + 1)) mode payload1 w)"

definition uxr_buffer_create_participant_xml ::
  "'e env \<Rightarrow> uxrStreamId \<Rightarrow> uxrObjectId \<Rightarrow> u16 \<Rightarrow> u8 list \<Rightarrow> u8 \<Rightarrow> 'e world \<Rightarrow> u16 \<times> 'e world"
where
  "uxr_buffer_create_participant_xml env sid oid domain_id' xml mode w =
     create_entity_xml env sid oid xml mode
       (payload_of (l_CREATE (locals env)) DDS_XRCE_OBJK_PARTICIPANT (set_participant_owner domain_id')) w"

definition uxr_buffer_create_topic_xml ::
  "'e env \<Rightarrow> uxrStreamId \<Rightarrow> uxrObjectId \<Rightarrow> uxrObjectId \<Rightarrow> u8 list \<Rightarrow> u8 \<Rightarrow> 'e world \<Rightarrow> u16 \<times> 'e world"
where
  "uxr_buffer_create_topic_xml env sid oid owner_id xml mode w =
     create_entity_xml env sid oid xml mode
       (payload_of (l_CREATE (locals env)) DDS_XRCE_OBJK_TOPIC (set_topic_owner (raw_id owner_id))) w"

definition uxr_buffer_create_publisher_xml ::
  "'e env \<Rightarrow> uxrStreamId \<Rightarrow> uxrObjectId \<Rightarrow> uxrObjectId \<Rightarrow> u8 list \<Rightarrow> u8 \<Rightarrow> 'e world \<Rightarrow> u16 \<times> 'e world"
where
  "uxr_buffer_create_publisher_xml env sid oid owner_id xml mode w =
     create_entity_xml env sid oid xml mode
       (payload_of (l_CREATE (locals env)) DDS_XRCE_OBJK_PUBLISHER (set_publisher_owner (raw_id owner_id))) w"

definition uxr_buffer_create_subscriber_xml ::
  "'e env \<Rightarrow> uxrStreamId \<Rightarrow> uxrObjectId \<Rightarrow> uxrObjectId \<Rightarrow> u8 list \<Rightarrow> u8 \<Rightarrow> 'e world \<Rightarrow> u16 \<times> 'e world"
where
  "uxr_buffer_create_subscriber_xml env sid oid owner_id xml mode w =
     create_entity_xml env sid oid xml mode
       (payload_of (l_CREATE (locals env)) DDS_XRCE_OBJK_SUBSCRIBER (set_subscriber_owner (raw_id owner_id))) w"

definition uxr_buffer_create_datawriter_xml ::
  "'e env \<Rightarrow> uxrStreamId \<Rightarrow> uxrObjectId \<Rightarrow> uxrObjectId \<Rightarrow> u8 list \<Rightarrow> u8 \<Rightarrow> 'e world \<Rightarrow> u16 \<times> 'e world"
where
  "uxr_buffer_create_datawriter_xml env sid oid owner_id xml mode w =
     create_entity_xml env sid oid xml mode
       (payload_of (l_CREATE (locals env)) DDS_XRCE_OBJK_DATAWRITER (set_data_writer_owner (raw_id owner_id))) w"

definition uxr_buffer_create_datareader_xml ::
  "'e env \<Rightarrow> uxrStreamId \<Rightarrow> uxrObjectId \<Rightarrow> uxrObjectId \<Rightarrow> u8 list \<Rightarrow> u8 \<Rightarrow> 'e world \<Rightarrow> u16 \<times> 'e world"
where
  "uxr_buffer_create_datareader_xml env sid oid owner_id xml mode w =
     create_entity_xml env sid oid xml mode
       (payload_of (l_CREATE (locals env)) DDS_XRCE_OBJK_DATAREADER (set_data_reader_owner (raw_id owner_id))) w"

definition uxr_buffer_create_requester_xml ::
  "'e env \<Rightarrow> uxrStreamId \<Rightarrow> uxrObjectId \<Rightarrow> uxrObjectId \<Rightarrow> u8 list \<Rightarrow> u8 \<Rightarrow> 'e world \<Rightarrow> u16 \<times> 'e world"
where
  "uxr_buffer_create_requester_xml env sid oid owner_id xml mode w =
     create_entity_xml env sid oid xml mode
       (payload_of (l_CREATE (locals env)) DDS_XRCE_OBJK_REQUESTER (set_requester_owner (raw_id owner_id))) w"

definition uxr_buffer_create_replier_xml ::
  "'e env \<Rightarrow> uxrStreamId \<Rightarrow> uxrObjectId \<Rightarrow> uxrObjectId \<Rightarrow> u8 list \<Rightarrow> u8 \<Rightarrow> 'e world \<Rightarrow> u16 \<times> 'e world"
where
  "uxr_buffer_create_replier_xml env sid oid owner_id xml mode w =
     create_entity_xml env sid oid xml mode
       (payload_of (l_CREATE (locals env)) DDS_XRCE_OBJK_REPLIER (set_replier_owner (raw_id owner_id))) w"

section \<open>In binary\<close>

datatype uxrQoSDurability =
  UXR_DURABILITY_TRANSIENT_LOCAL | UXR_DURABILITY_TRANSIENT | UXR_DURABILITY_VOLATILE | UXR_DURABILITY_PERSISTENT

datatype uxrQoSReliability = UXR_RELIABILITY_RELIABLE | UXR_RELIABILITY_BEST_EFFORT

datatype uxrQoSHistory = UXR_HISTORY_KEEP_LAST | UXR_HISTORY_KEEP_ALL

record uxrQoS_t =
  durability :: uxrQoSDurability
  reliability :: uxrQoSReliability
  history :: uxrQoSHistory
  depth :: u16

text \<open>
  The representation is serialized into the payload's own array; its size is where the buffer
  stands afterwards, whether or not it fitted.
\<close>

definition binary_of :: "'e env \<Rightarrow> (ucdr \<Rightarrow> ser) \<Rightarrow> 'e world \<Rightarrow> nat \<times> BinarySequence_t" where
  "binary_of env f w =
     (let cdr = lib env w;
          (_, ub, m) = f cdr (ucdr_init_buffer cdr 0 UXR_BINARY_SEQUENCE_MAX, l_stack (locals env))
      in (offset ub, \<lparr>BinarySequence_t.size' = of_nat (offset ub), data = rd m 0 UXR_BINARY_SEQUENCE_MAX\<rparr>))"

definition bin3 :: "BinarySequence_t \<Rightarrow> OBJK_Representation3_Base \<Rightarrow> OBJK_Representation3_Base" where
  "bin3 x = rep3 DDS_XRCE_REPRESENTATION_IN_BINARY (OBJK_Representation3FormatsU.binary_representation_update (\<lambda>_. x))"

definition bin2 :: "BinarySequence_t \<Rightarrow> OBJK_RepresentationBinAndXML_Base \<Rightarrow> OBJK_RepresentationBinAndXML_Base" where
  "bin2 x = rep2 DDS_XRCE_REPRESENTATION_IN_BINARY (OBJK_RepresentationBinAndXMLFormatsU.binary_representation_update (\<lambda>_. x))"

text \<open>The flags of the qos of a writer or reader.\<close>

definition qos_flags_of :: "uxrQoS_t \<Rightarrow> u16" where
  "qos_flags_of q =
     (if reliability q = UXR_RELIABILITY_RELIABLE then is_reliable else 0) OR
     (if history q = UXR_HISTORY_KEEP_LAST then is_history_keep_last else 0) OR
     (case durability q of
        UXR_DURABILITY_VOLATILE \<Rightarrow> 0
      | UXR_DURABILITY_TRANSIENT_LOCAL \<Rightarrow> is_durability_transient_local
      | UXR_DURABILITY_TRANSIENT \<Rightarrow> is_durability_transient
      | UXR_DURABILITY_PERSISTENT \<Rightarrow> is_durability_persistent)"

definition endpoint_qos :: "uxrQoS_t \<Rightarrow> OBJK_Endpoint_QosBinary \<Rightarrow> OBJK_Endpoint_QosBinary" where
  "endpoint_qos q b = b\<lparr>OBJK_Endpoint_QosBinary.optional_deadline_msec := False,
     OBJK_Endpoint_QosBinary.optional_lifespan_msec := False, OBJK_Endpoint_QosBinary.optional_user_data := False,
     OBJK_Endpoint_QosBinary.optional_history_depth := (depth q \<noteq> 0),
     OBJK_Endpoint_QosBinary.history_depth := depth q, OBJK_Endpoint_QosBinary.qos_flags := qos_flags_of q\<rparr>"

definition uxr_buffer_create_participant_bin ::
  "'e env \<Rightarrow> uxrStreamId \<Rightarrow> uxrObjectId \<Rightarrow> u16 \<Rightarrow> u8 list option \<Rightarrow> u8 \<Rightarrow> 'e world \<Rightarrow> u16 \<times> 'e world"
where
  "uxr_buffer_create_participant_bin env sid oid domain_id' participant_name mode w =
     (let participant0 = (l_DomainParticipant_Binary (locals env))
            \<lparr>OBJK_DomainParticipant_Binary.optional_domain_reference := False,
             OBJK_DomainParticipant_Binary.optional_qos_profile_reference := False\<rparr>;
          v = (case participant_name of
              None \<Rightarrow> participant0
            | Some s \<Rightarrow> participant0\<lparr>OBJK_DomainParticipant_Binary.optional_qos_profile_reference := True,
                OBJK_DomainParticipant_Binary.qos_profile_reference := s\<rparr>);
          (n, bin) = binary_of env (\<lambda>cdr. uxr_serialize_OBJK_DomainParticipant_Binary cdr v) w
      in uxr_common_create_entity env sid oid (of_nat n) mode
           (payload_of (l_CREATE (locals env)) DDS_XRCE_OBJK_PARTICIPANT
              (\<lambda>u. set_participant_owner domain_id' (u\<lparr>ObjectVariantU.participant := (ObjectVariantU.participant u)
                 \<lparr>OBJK_PARTICIPANT_Representation.base := bin3 bin (OBJK_PARTICIPANT_Representation.base (ObjectVariantU.participant u))\<rparr>\<rparr>))) w)"

definition uxr_buffer_create_topic_bin ::
  "'e env \<Rightarrow> uxrStreamId \<Rightarrow> uxrObjectId \<Rightarrow> uxrObjectId \<Rightarrow> u8 list \<Rightarrow> u8 list \<Rightarrow> u8 \<Rightarrow> 'e world \<Rightarrow> u16 \<times> 'e world"
where
  "uxr_buffer_create_topic_bin env sid oid owner_id topic_name' type_name' mode w =
     (let v = (l_Topic_Binary (locals env))
            \<lparr>OBJK_Topic_Binary.topic_name := topic_name', OBJK_Topic_Binary.optional_type_name := True,
             OBJK_Topic_Binary.type_name := type_name', OBJK_Topic_Binary.optional_type_reference := False\<rparr>;
          (n, bin) = binary_of env (\<lambda>cdr. uxr_serialize_OBJK_Topic_Binary cdr v) w
      in uxr_common_create_entity env sid oid (of_nat n) mode
           (payload_of (l_CREATE (locals env)) DDS_XRCE_OBJK_TOPIC
              (\<lambda>u. set_topic_owner (raw_id owner_id) (u\<lparr>ObjectVariantU.topic := (ObjectVariantU.topic u)
                 \<lparr>OBJK_TOPIC_Representation.base := bin3 bin (OBJK_TOPIC_Representation.base (ObjectVariantU.topic u))\<rparr>\<rparr>))) w)"

definition uxr_buffer_create_publisher_bin ::
  "'e env \<Rightarrow> uxrStreamId \<Rightarrow> uxrObjectId \<Rightarrow> uxrObjectId \<Rightarrow> u8 \<Rightarrow> 'e world \<Rightarrow> u16 \<times> 'e world"
where
  "uxr_buffer_create_publisher_bin env sid oid owner_id mode w =
     (let v = (l_Publisher_Binary (locals env))
            \<lparr>OBJK_Publisher_Binary.optional_publisher_name := False, OBJK_Publisher_Binary.optional_qos := False\<rparr>;
          (n, bin) = binary_of env (\<lambda>cdr. uxr_serialize_OBJK_Publisher_Binary cdr v) w
      in uxr_common_create_entity env sid oid (of_nat n) mode
           (payload_of (l_CREATE (locals env)) DDS_XRCE_OBJK_PUBLISHER
              (\<lambda>u. set_publisher_owner (raw_id owner_id) (u\<lparr>ObjectVariantU.publisher := (ObjectVariantU.publisher u)
                 \<lparr>OBJK_PUBLISHER_Representation.base := bin2 bin (OBJK_PUBLISHER_Representation.base (ObjectVariantU.publisher u))\<rparr>\<rparr>))) w)"

definition uxr_buffer_create_subscriber_bin ::
  "'e env \<Rightarrow> uxrStreamId \<Rightarrow> uxrObjectId \<Rightarrow> uxrObjectId \<Rightarrow> u8 \<Rightarrow> 'e world \<Rightarrow> u16 \<times> 'e world"
where
  "uxr_buffer_create_subscriber_bin env sid oid owner_id mode w =
     (let v = (l_Subscriber_Binary (locals env))
            \<lparr>OBJK_Subscriber_Binary.optional_subscriber_name := False, OBJK_Subscriber_Binary.optional_qos := False\<rparr>;
          (n, bin) = binary_of env (\<lambda>cdr. uxr_serialize_OBJK_Subscriber_Binary cdr v) w
      in uxr_common_create_entity env sid oid (of_nat n) mode
           (payload_of (l_CREATE (locals env)) UXR_SUBSCRIBER_ID
              (\<lambda>u. set_subscriber_owner (raw_id owner_id) (u\<lparr>ObjectVariantU.subscriber := (ObjectVariantU.subscriber u)
                 \<lparr>OBJK_SUBSCRIBER_Representation.base := bin2 bin (OBJK_SUBSCRIBER_Representation.base (ObjectVariantU.subscriber u))\<rparr>\<rparr>))) w)"

definition uxr_buffer_create_datawriter_bin ::
  "'e env \<Rightarrow> uxrStreamId \<Rightarrow> uxrObjectId \<Rightarrow> uxrObjectId \<Rightarrow> uxrObjectId \<Rightarrow> uxrQoS_t \<Rightarrow> u8 \<Rightarrow> 'e world \<Rightarrow> u16 \<times> 'e world"
where
  "uxr_buffer_create_datawriter_bin env sid oid owner_id topic_id' q mode w =
     (let v0 = l_DataWriter_Binary (locals env);
          qos0 = OBJK_DataWriter_Binary.qos v0;
          v = v0\<lparr>OBJK_DataWriter_Binary.topic_id := raw_id topic_id', OBJK_DataWriter_Binary.optional_qos := True,
             OBJK_DataWriter_Binary.qos := qos0\<lparr>OBJK_DataWriter_Binary_Qos.optional_ownership_strength := False,
               OBJK_DataWriter_Binary_Qos.base := endpoint_qos q (OBJK_DataWriter_Binary_Qos.base qos0)\<rparr>\<rparr>;
          (n, bin) = binary_of env (\<lambda>cdr. uxr_serialize_OBJK_DataWriter_Binary cdr v) w
      in uxr_common_create_entity env sid oid (of_nat n) mode
           (payload_of (l_CREATE (locals env)) UXR_DATAWRITER_ID
              (\<lambda>u. set_data_writer_owner (raw_id owner_id) (u\<lparr>ObjectVariantU.data_writer := (ObjectVariantU.data_writer u)
                 \<lparr>DATAWRITER_Representation.base := bin3 bin (DATAWRITER_Representation.base (ObjectVariantU.data_writer u))\<rparr>\<rparr>))) w)"

definition uxr_buffer_create_datareader_bin ::
  "'e env \<Rightarrow> uxrStreamId \<Rightarrow> uxrObjectId \<Rightarrow> uxrObjectId \<Rightarrow> uxrObjectId \<Rightarrow> uxrQoS_t \<Rightarrow> u8 \<Rightarrow> 'e world \<Rightarrow> u16 \<times> 'e world"
where
  "uxr_buffer_create_datareader_bin env sid oid owner_id topic_id' q mode w =
     (let v0 = l_DataReader_Binary (locals env);
          qos0 = OBJK_DataReader_Binary.qos v0;
          v = v0\<lparr>OBJK_DataReader_Binary.topic_id := raw_id topic_id', OBJK_DataReader_Binary.optional_qos := True,
             OBJK_DataReader_Binary.qos := qos0\<lparr>OBJK_DataReader_Binary_Qos.optional_contentbased_filter := False,
               OBJK_DataReader_Binary_Qos.optional_timebasedfilter_msec := False,
               OBJK_DataReader_Binary_Qos.base := endpoint_qos q (OBJK_DataReader_Binary_Qos.base qos0)\<rparr>\<rparr>;
          (n, bin) = binary_of env (\<lambda>cdr. uxr_serialize_OBJK_DataReader_Binary cdr v) w
      in uxr_common_create_entity env sid oid (of_nat n) mode
           (payload_of (l_CREATE (locals env)) UXR_DATAREADER_ID
              (\<lambda>u. set_data_reader_owner (raw_id owner_id) (u\<lparr>ObjectVariantU.data_reader := (ObjectVariantU.data_reader u)
                 \<lparr>DATAREADER_Representation.base := bin3 bin (DATAREADER_Representation.base (ObjectVariantU.data_reader u))\<rparr>\<rparr>))) w)"

definition uxr_buffer_create_requester_bin ::
  "'e env \<Rightarrow> uxrStreamId \<Rightarrow> uxrObjectId \<Rightarrow> uxrObjectId \<Rightarrow> u8 list \<Rightarrow> u8 list \<Rightarrow> u8 list \<Rightarrow> u8 list \<Rightarrow> u8 list \<Rightarrow> uxrQoS_t \<Rightarrow> u8 \<Rightarrow> 'e world \<Rightarrow> u16 \<times> 'e world"
where
  "uxr_buffer_create_requester_bin env sid oid owner_id service_name' request_type' reply_type' request_topic_name' reply_topic_name' q mode w =
     (let v = \<lparr>OBJK_Requester_Binary.service_name = service_name', request_type = request_type', reply_type = reply_type',
             optional_request_topic_name = True, request_topic_name = request_topic_name',
             optional_reply_topic_name = True, reply_topic_name = reply_topic_name'\<rparr>;
          (n, bin) = binary_of env (\<lambda>cdr. uxr_serialize_OBJK_Requester_Binary cdr v) w
      in uxr_common_create_entity env sid oid (of_nat n) mode
           (payload_of (l_CREATE (locals env)) UXR_REQUESTER_ID
              (\<lambda>u. set_requester_owner (raw_id owner_id) (u\<lparr>ObjectVariantU.requester := (ObjectVariantU.requester u)
                 \<lparr>OBJK_REQUESTER_Representation.base := bin3 bin (OBJK_REQUESTER_Representation.base (ObjectVariantU.requester u))\<rparr>\<rparr>))) w)"

definition uxr_buffer_create_replier_bin ::
  "'e env \<Rightarrow> uxrStreamId \<Rightarrow> uxrObjectId \<Rightarrow> uxrObjectId \<Rightarrow> u8 list \<Rightarrow> u8 list \<Rightarrow> u8 list \<Rightarrow> u8 list \<Rightarrow> u8 list \<Rightarrow> uxrQoS_t \<Rightarrow> u8 \<Rightarrow> 'e world \<Rightarrow> u16 \<times> 'e world"
where
  "uxr_buffer_create_replier_bin env sid oid owner_id service_name' request_type' reply_type' request_topic_name' reply_topic_name' q mode w =
     (let v = \<lparr>OBJK_Replier_Binary.service_name = service_name', request_type = request_type', reply_type = reply_type',
             optional_request_topic_name = True, request_topic_name = request_topic_name',
             optional_reply_topic_name = True, reply_topic_name = reply_topic_name'\<rparr>;
          (n, bin) = binary_of env (\<lambda>cdr. uxr_serialize_OBJK_Replier_Binary cdr v) w
      in uxr_common_create_entity env sid oid (of_nat n) mode
           (payload_of (l_CREATE (locals env)) UXR_REPLIER_ID
              (\<lambda>u. set_replier_owner (raw_id owner_id) (u\<lparr>ObjectVariantU.replier := (ObjectVariantU.replier u)
                 \<lparr>OBJK_REPLIER_Representation.base := bin3 bin (OBJK_REPLIER_Representation.base (ObjectVariantU.replier u))\<rparr>\<rparr>))) w)"

end
