(* ===== verification/XrcePayloads.thy ===== *)
theory XrcePayloads
  imports XrceRoundtrip
begin

text \<open>
  Properties of the payloads as a whole: round trips of what client and agent send each other,
  what a deserializer does with more than it has room for, and where serializers and
  deserializers of \<open>xrce_types.c\<close> do not match each other or their types.
\<close>

definition codec_ok ::
  "ucdr \<Rightarrow> (ucdr \<Rightarrow> 'a \<Rightarrow> ser) \<Rightarrow> (ucdr \<Rightarrow> 'a des) \<Rightarrow> ('a \<Rightarrow> bool) \<Rightarrow> ('a \<Rightarrow> 'a \<Rightarrow> bool) \<Rightarrow> bool"
where
  "codec_ok cdr S D ok same \<longleftrightarrow>
     (\<forall>v out. ok v \<longrightarrow> writer (S cdr v) \<and> carries (S cdr v) (D cdr) out (same v))"

lemma codec_okI: "ucdr_ok cdr \<Longrightarrow> xrce_codec S D ok same \<Longrightarrow> codec_ok cdr S D ok same"
  by (simp add: codec_ok_def xrce_codec.writer xrce_codec.carries)

lemma codec_okD:
  assumes "codec_ok cdr S D ok same" and "ok v"
  shows "writer (S cdr v)" and "carries (S cdr v) (D cdr) out (same v)"
  using assms by (simp_all add: codec_ok_def)

section \<open>Round trips\<close>

text \<open>C20. A CREATE message for any kind of object is read back as it was written: the serializer
  stays behind the iterator and inside the buffer, and from any copy of its bytes at the same
  alignment the deserializer takes all of them and yields the same request and representation.\<close>
theorem create_payload_roundtrip:
  assumes "ucdr_ok cdr" and "ok_CREATE_Payload v" and "usable ub"
    and "uxr_serialize_CREATE_Payload cdr v (ub, m) = (True, ub', m')"
  shows "\<exists>n w. ub' = adv n ub \<and> iterator ub' \<le> final ub \<and>
    changed_within m m' (iterator ub) (iterator ub') \<and> same_CREATE_Payload v w \<and>
    (\<forall>ub2 m2. copy_of ub m' n ub2 m2 \<longrightarrow>
       uxr_deserialize_CREATE_Payload cdr out (ub2, m2) = (True, w, adv n ub2, m2))"
  by (rule CREATE_Payload.delivered [OF assms])

definition example_topic :: ObjectVariant where
  "example_topic = \<lparr>ObjectVariant.kind = DDS_XRCE_OBJK_TOPIC,
     U = undefined\<lparr>topic := \<lparr>OBJK_TOPIC_Representation.base = \<lparr>OBJK_Representation3_Base.representation =
         \<lparr>OBJK_Representation3Formats.format = DDS_XRCE_REPRESENTATION_BY_REFERENCE,
          U = undefined\<lparr>object_reference := [116, 49]\<rparr>\<rparr>\<rparr>,
       OBJK_TOPIC_Representation.participant_id = \<lparr>ObjectId.data = [0, 17]\<rparr>\<rparr>\<rparr>\<rparr>"

definition example_create :: CREATE_Payload where
  "example_create = \<lparr>CREATE_Payload.base = \<lparr>request_id = \<lparr>RequestId.data = [0, 10]\<rparr>,
       object_id = \<lparr>ObjectId.data = [0, 18]\<rparr>\<rparr>,
     object_representation = example_topic\<rparr>"

lemma create_payload_roundtrip_witness:
  "\<exists>n w. same_CREATE_Payload example_create w \<and>
    (\<forall>ub2 m2. copy_of (ref_init 0 64 0 0)
        (snd (snd (uxr_serialize_CREATE_Payload ref_ucdr example_create (ref_init 0 64 0 0, \<lambda>_. 0)))) n ub2 m2 \<longrightarrow>
       uxr_deserialize_CREATE_Payload ref_ucdr example_create (ub2, m2) = (True, w, adv n ub2, m2))"
proof -
  have ok: "ok_CREATE_Payload example_create" and u: "usable (ref_init 0 64 0 0)"
    by (simp_all add: example_create_def example_topic_def ok_CREATE_Payload_def ok_BaseObjectRequest_def
        ok_RequestId_def ok_ObjectId_def ok_ObjectVariant_def ok_OBJK_TOPIC_Representation_def
        ok_OBJK_Representation3_Base_def ok_OBJK_Representation3Formats_def ok_string_def kind_defs
        capacity_defs usable_def ref_init_def)
  have "fst (uxr_serialize_CREATE_Payload ref_ucdr example_create (ref_init 0 64 0 0, \<lambda>_. 0)) = True"
    by (simp add: example_create_def example_topic_def uxr_serialize_CREATE_Payload_def
        uxr_serialize_BaseObjectRequest_def uxr_serialize_RequestId_def uxr_serialize_ObjectId_def
        uxr_serialize_ObjectVariant_def uxr_serialize_OBJK_TOPIC_Representation_def
        uxr_serialize_OBJK_Representation3_Base_def uxr_serialize_OBJK_Representation3Formats_def
        ret_then_def kind_defs ref_ucdr_def ref_ser_def ref_ser_w_def ref_init_def pad_def)
  then have "uxr_serialize_CREATE_Payload ref_ucdr example_create (ref_init 0 64 0 0, \<lambda>_. 0) =
      (True, fst (snd (uxr_serialize_CREATE_Payload ref_ucdr example_create (ref_init 0 64 0 0, \<lambda>_. 0))),
       snd (snd (uxr_serialize_CREATE_Payload ref_ucdr example_create (ref_init 0 64 0 0, \<lambda>_. 0))))"
    by (simp add: prod_eq_iff)
  from create_payload_roundtrip [OF ucdr_ok_ref_ucdr ok u this] show ?thesis by blast
qed

text \<open>What the agent sends is read as it was sent: acknowledgements, heartbeats, time
  stamps, the status of a request and of the agent, and the information on an object.\<close>
theorem agent_payloads_roundtrip:
  assumes "ucdr_ok cdr"
  shows "codec_ok cdr uxr_serialize_ACKNACK_Payload uxr_deserialize_ACKNACK_Payload
      (\<lambda>v. length (ACKNACK_Payload.nack_bitmap v) = 2) (=) \<and>
    codec_ok cdr uxr_serialize_HEARTBEAT_Payload uxr_deserialize_HEARTBEAT_Payload (\<lambda>_. True) (=) \<and>
    codec_ok cdr uxr_serialize_TIMESTAMP_REPLY_Payload uxr_deserialize_TIMESTAMP_REPLY_Payload (\<lambda>_. True) (=) \<and>
    codec_ok cdr uxr_serialize_STATUS_Payload uxr_deserialize_STATUS_Payload ok_STATUS_Payload (=) \<and>
    codec_ok cdr uxr_serialize_STATUS_AGENT_Payload uxr_deserialize_STATUS_AGENT_Payload
      ok_STATUS_AGENT_Payload same_STATUS_AGENT_Payload \<and>
    codec_ok cdr uxr_serialize_INFO_Payload uxr_deserialize_INFO_Payload ok_INFO_Payload same_INFO_Payload"
  using codec_okI [OF assms ACKNACK_Payload.xrce_codec_axioms, unfolded ok_ACKNACK_Payload_def [abs_def]]
  by (simp add: codec_okI [OF assms] HEARTBEAT_Payload.xrce_codec_axioms
      TIMESTAMP_REPLY_Payload.xrce_codec_axioms STATUS_Payload.xrce_codec_axioms
      STATUS_AGENT_Payload.xrce_codec_axioms INFO_Payload.xrce_codec_axioms)

lemma agent_payloads_roundtrip_witness:
  "carries (uxr_serialize_ACKNACK_Payload ref_ucdr \<lparr>first_unacked_seq_num = 65535, nack_bitmap = [0, 5], stream_id = 128\<rparr>)
    (uxr_deserialize_ACKNACK_Payload ref_ucdr) \<lparr>first_unacked_seq_num = 0, nack_bitmap = [], stream_id = 0\<rparr>
    ((=) \<lparr>first_unacked_seq_num = 65535, nack_bitmap = [0, 5], stream_id = 128\<rparr>)"
  by (rule codec_okD(2) [OF agent_payloads_roundtrip [OF ucdr_ok_ref_ucdr, THEN conjunct1]]) simp

text \<open>C25. The binary representations of all entities, which the client packs into the messages that
  create them, are read back field by field, with exactly the optional fields whose flags are set, if
  strings and sequences are within the capacities of the types that hold them, and the user data of a data
  writer or data reader within its array of eight octets.\<close>
theorem binary_representations_roundtrip:
  assumes "ucdr_ok cdr"
  shows "codec_ok cdr uxr_serialize_OBJK_DomainParticipant_Binary uxr_deserialize_OBJK_DomainParticipant_Binary
      ok_OBJK_DomainParticipant_Binary same_OBJK_DomainParticipant_Binary \<and>
    codec_ok cdr uxr_serialize_OBJK_Topic_Binary uxr_deserialize_OBJK_Topic_Binary
      ok_OBJK_Topic_Binary same_OBJK_Topic_Binary \<and>
    codec_ok cdr uxr_serialize_OBJK_Publisher_Binary uxr_deserialize_OBJK_Publisher_Binary
      ok_OBJK_Publisher_Binary same_OBJK_Publisher_Binary \<and>
    codec_ok cdr uxr_serialize_OBJK_Subscriber_Binary uxr_deserialize_OBJK_Subscriber_Binary
      ok_OBJK_Subscriber_Binary same_OBJK_Subscriber_Binary \<and>
    codec_ok cdr uxr_serialize_OBJK_DataWriter_Binary uxr_deserialize_OBJK_DataWriter_Binary
      ok_OBJK_DataWriter_Binary same_OBJK_DataWriter_Binary \<and>
    codec_ok cdr uxr_serialize_OBJK_DataReader_Binary uxr_deserialize_OBJK_DataReader_Binary
      ok_OBJK_DataReader_Binary same_OBJK_DataReader_Binary \<and>
    codec_ok cdr uxr_serialize_OBJK_Requester_Binary uxr_deserialize_OBJK_Requester_Binary
      ok_OBJK_Requester_Binary same_OBJK_Requester_Binary \<and>
    codec_ok cdr uxr_serialize_OBJK_Replier_Binary uxr_deserialize_OBJK_Replier_Binary
      ok_OBJK_Replier_Binary same_OBJK_Replier_Binary"
  by (intro conjI codec_okI [OF assms] OBJK_DomainParticipant_Binary.xrce_codec_axioms
      OBJK_Topic_Binary.xrce_codec_axioms OBJK_Publisher_Binary.xrce_codec_axioms
      OBJK_Subscriber_Binary.xrce_codec_axioms OBJK_DataWriter_Binary.xrce_codec_axioms
      OBJK_DataReader_Binary.xrce_codec_axioms OBJK_Requester_Binary.xrce_codec_axioms
      OBJK_Replier_Binary.xrce_codec_axioms)

lemma binary_representations_roundtrip_witness:
  "carries (uxr_serialize_OBJK_DomainParticipant_Binary ref_ucdr \<lparr>optional_domain_reference = True,
      domain_reference = [100], optional_qos_profile_reference = False, qos_profile_reference = []\<rparr>)
    (uxr_deserialize_OBJK_DomainParticipant_Binary ref_ucdr) \<lparr>optional_domain_reference = False,
      domain_reference = [], optional_qos_profile_reference = False, qos_profile_reference = []\<rparr>
    (same_OBJK_DomainParticipant_Binary \<lparr>optional_domain_reference = True,
      domain_reference = [100], optional_qos_profile_reference = False, qos_profile_reference = []\<rparr>)"
  by (rule codec_okD(2) [OF binary_representations_roundtrip [OF ucdr_ok_ref_ucdr, THEN conjunct1]])
    (simp add: ok_OBJK_DomainParticipant_Binary_def ok_string_def capacity_defs)

text \<open>Samples are read back in every format a data message can have: raw data, a sample with its
  information, sequences of both, and packed samples with their deltas.\<close>
theorem samples_roundtrip:
  assumes "ucdr_ok cdr"
  shows "codec_ok cdr uxr_serialize_DataRepresentation uxr_deserialize_DataRepresentation
      ok_DataRepresentation same_DataRepresentation \<and>
    codec_ok cdr uxr_serialize_WRITE_DATA_Payload_SampleSeq uxr_deserialize_WRITE_DATA_Payload_SampleSeq
      ok_WRITE_DATA_Payload_SampleSeq same_WRITE_DATA_Payload_SampleSeq \<and>
    codec_ok cdr uxr_serialize_DATA_Payload_PackedSamples uxr_deserialize_DATA_Payload_PackedSamples
      ok_DATA_Payload_PackedSamples same_DATA_Payload_PackedSamples \<and>
    codec_ok cdr uxr_serialize_SampleIdentity uxr_deserialize_SampleIdentity ok_SampleIdentity (=)"
  by (intro conjI codec_okI [OF assms] DataRepresentation.xrce_codec_axioms
      WRITE_DATA_Payload_SampleSeq.xrce_codec_axioms DATA_Payload_PackedSamples.xrce_codec_axioms
      SampleIdentity.xrce_codec_axioms)

lemma samples_roundtrip_witness:
  "carries (uxr_serialize_DataRepresentation ref_ucdr \<lparr>DataRepresentation.format = FORMAT_DATA,
      U = undefined\<lparr>DataRepresentationU.data := \<lparr>SampleData.size' = 2, data = [7, 8]\<rparr>\<rparr>\<rparr>)
    (uxr_deserialize_DataRepresentation ref_ucdr) undefined
    (same_DataRepresentation \<lparr>DataRepresentation.format = FORMAT_DATA,
      U = undefined\<lparr>DataRepresentationU.data := \<lparr>SampleData.size' = 2, data = [7, 8]\<rparr>\<rparr>\<rparr>)"
  by (rule codec_okD(2) [OF samples_roundtrip [OF ucdr_ok_ref_ucdr, THEN conjunct1]])
    (simp add: ok_DataRepresentation_def ok_SampleData_def kind_defs capacity_defs)

section \<open>Errors, and where the two sides differ\<close>

lemma des_u32:
  assumes "ucdr_ok cdr" and "\<not> error ub" and "iterator ub + pad (offset ub) 4 + 4 \<le> final ub"
  shows "ucdr_deserialize_uint32_t cdr out (ub, m) =
    (True, dec_w (endianness ub) (rd m (iterator ub + pad (offset ub) 4) 4), adv (pad (offset ub) 4 + 4) ub, m)"
  using des_lawD [OF des_lawsD(4) [OF assms(1)] assms(2,3)] by simp

lemma wrote_u32:
  assumes "ucdr_ok cdr" and "usable ub" and "ucdr_serialize_uint32_t cdr v (ub, m) = (True, ub', m')"
  shows "ub' = adv (pad (offset ub) 4 + 4) ub"
proof -
  have "iterator ub + pad (offset ub) 4 + 4 \<le> final ub"
    using ser_law_fail [OF ser_lawsD(4) [OF assms(1)] TrueI, of ub v m] assms(2,3)
    by (auto simp: usable_def not_le [symmetric])
  then show ?thesis
    using ser_lawD [OF ser_lawsD(4) [OF assms(1)] TrueI, of ub v m] assms(2,3) by (simp add: usable_def)
qed

text \<open>A sequence that announces more elements than its array has room for is refused: the
  deserializer fails and leaves the buffer in error, and besides the count nothing is stored.\<close>
theorem sequence_overflow_refused:
  assumes "ucdr_ok cdr" and "\<not> error ub" and "iterator ub + pad (offset ub) 4 + 4 \<le> final ub"
    and "UXR_STRING_SEQUENCE_MAX < unat (dec_w (endianness ub) (rd m (iterator ub + pad (offset ub) 4) 4) :: u32)"
  shows "uxr_deserialize_StringSequence_t cdr strings (ub, m) =
      (False, strings\<lparr>StringSequence_t.size' := dec_w (endianness ub) (rd m (iterator ub + pad (offset ub) 4) 4)\<rparr>,
       (adv (pad (offset ub) 4 + 4) ub)\<lparr>error := True\<rparr>, m) \<and>
    uxr_deserialize_SampleSeq cdr samples (ub, m) =
      (False, samples\<lparr>SampleSeq.size' := dec_w (endianness ub) (rd m (iterator ub + pad (offset ub) 4) 4)\<rparr>,
       (adv (pad (offset ub) 4 + 4) ub)\<lparr>error := True\<rparr>, m)"
  using assms(4) unfolding uxr_deserialize_StringSequence_t_def uxr_deserialize_SampleSeq_def
  by (simp add: des_counted_def des_field_def des_u32 [OF assms(1-3)] capacity_defs)

lemma sequence_overflow_refused_witness:
  "fst (uxr_deserialize_StringSequence_t ref_ucdr undefined (ref_init 0 64 0 0, wr (\<lambda>_. 0) 0 [9])) = False"
proof -
  have "rd (wr (\<lambda>_. 0) 0 [9]) 0 4 = [9, 0, 0, 0]"
    by (simp add: rd_def wr_def upt_rec)
  then show ?thesis
    using sequence_overflow_refused [OF ucdr_ok_ref_ucdr, of "ref_init 0 64 0 0" "wr (\<lambda>_. 0) 0 [9]" undefined]
    by (simp add: ref_init_def dec_w_def dec_nat_def capacity_defs)
qed

text \<open>C29. The user data of an endpoint has room for 8 bytes, but its deserializer is given the capacity
  of the large byte sequence: it accepts up to 512 bytes and stores all of them.\<close>
theorem endpoint_user_data_overflow:
  assumes "ucdr_ok cdr" and "ok_OBJK_Endpoint_QosBinary v" and "usable ub"
    and "optional_user_data v" and "UXR_BINARY_SEQUENCE_SMALL_MAX < unat (BinarySequenceSmall_t.size' (user_data v))"
    and "uxr_serialize_OBJK_Endpoint_QosBinary cdr v (ub, m) = (True, ub', m')"
  shows "\<exists>n w. UXR_BINARY_SEQUENCE_SMALL_MAX < length (BinarySequenceSmall_t.data (user_data w)) \<and>
    (\<forall>ub2 m2. copy_of ub m' n ub2 m2 \<longrightarrow>
       uxr_deserialize_OBJK_Endpoint_QosBinary cdr out (ub2, m2) = (True, w, adv n ub2, m2))"
proof -
  obtain n w where w: "same_OBJK_Endpoint_QosBinary v w"
    and D: "\<forall>ub2 m2. copy_of ub m' n ub2 m2 \<longrightarrow>
       uxr_deserialize_OBJK_Endpoint_QosBinary cdr out (ub2, m2) = (True, w, adv n ub2, m2)"
    using OBJK_Endpoint_QosBinary.delivered [OF assms(1-3,6)] by metis
  let ?n = "unat (BinarySequenceSmall_t.size' (user_data v))"
  have "take ?n (BinarySequenceSmall_t.data (user_data w)) = take ?n (BinarySequenceSmall_t.data (user_data v))"
    and "?n \<le> length (BinarySequenceSmall_t.data (user_data v))"
    using w assms(2,4) by (auto simp: same_OBJK_Endpoint_QosBinary_def same_BinarySequence_t_def
        ok_OBJK_Endpoint_QosBinary_def ok_BinarySequence_t_def as_BinarySequence_t_def)
  then have "?n \<le> length (BinarySequenceSmall_t.data (user_data w))"
    by (metis length_take min.absorb_iff2 min.commute)
  then show ?thesis
    using D assms(5) by (intro exI [of _ n] exI [of _ w]) simp
qed

definition example_qos :: OBJK_Endpoint_QosBinary where
  "example_qos = \<lparr>qos_flags = 0, optional_history_depth = False, history_depth = 0,
     optional_deadline_msec = False, deadline_msec = 0, optional_lifespan_msec = False, lifespan_msec = 0,
     optional_user_data = True, user_data = \<lparr>BinarySequenceSmall_t.size' = 9, data = replicate 9 1\<rparr>\<rparr>"

lemma endpoint_user_data_overflow_witness:
  "\<exists>n w. 8 < length (BinarySequenceSmall_t.data (user_data w)) \<and>
    (\<forall>ub2 m2. copy_of (ref_init 0 64 0 0) (snd (snd (uxr_serialize_OBJK_Endpoint_QosBinary ref_ucdr example_qos
          (ref_init 0 64 0 0, \<lambda>_. 0)))) n ub2 m2 \<longrightarrow>
       uxr_deserialize_OBJK_Endpoint_QosBinary ref_ucdr example_qos (ub2, m2) = (True, w, adv n ub2, m2))"
proof -
  have "fst (uxr_serialize_OBJK_Endpoint_QosBinary ref_ucdr example_qos (ref_init 0 64 0 0, \<lambda>_. 0)) = True"
    by (simp add: example_qos_def uxr_serialize_OBJK_Endpoint_QosBinary_def uxr_serialize_BinarySequence_t_def
        as_BinarySequence_t_def ser_when_def ser_nothing_def ref_ucdr_def ref_ser_def ref_ser_w_def
        ref_init_def pad_def)
  then have s: "uxr_serialize_OBJK_Endpoint_QosBinary ref_ucdr example_qos (ref_init 0 64 0 0, \<lambda>_. 0) =
      (True, fst (snd (uxr_serialize_OBJK_Endpoint_QosBinary ref_ucdr example_qos (ref_init 0 64 0 0, \<lambda>_. 0))),
       snd (snd (uxr_serialize_OBJK_Endpoint_QosBinary ref_ucdr example_qos (ref_init 0 64 0 0, \<lambda>_. 0))))"
    by (simp add: prod_eq_iff)
  have "ok_OBJK_Endpoint_QosBinary example_qos" "usable (ref_init 0 64 0 0)" "optional_user_data example_qos"
    "UXR_BINARY_SEQUENCE_SMALL_MAX < unat (BinarySequenceSmall_t.size' (user_data example_qos))"
    by (simp_all add: example_qos_def ok_OBJK_Endpoint_QosBinary_def ok_BinarySequence_t_def
        as_BinarySequence_t_def capacity_defs usable_def ref_init_def)
  from endpoint_user_data_overflow [OF ucdr_ok_ref_ucdr this s] show ?thesis
    by (simp add: capacity_defs)
qed

text \<open>The formats of a sample's information are off by one in the switch that writes them: the
  empty format carries a sequence number, and the format for sequence number and time stamp
  carries nothing.\<close>
theorem sample_info_formats_off_by_one:
  assumes "ucdr_ok cdr" and "usable ub" and "uxr_serialize_SampleInfoDetail cdr v (ub, m) = (True, ub', m')"
  shows "(SampleInfoDetail.format v = FORMAT_EMPTY \<longrightarrow> offset ub' = offset ub + pad (offset ub) 4 + 8) \<and>
    (SampleInfoDetail.format v = FORMAT_SEQN_TIMS \<longrightarrow> offset ub' = offset ub + pad (offset ub) 4 + 4)"
proof -
  obtain ub1 m1 where 1: "ucdr_serialize_uint32_t cdr (SampleInfoDetail.format v) (ub, m) = (True, ub1, m1)"
    using assms(3) by (auto simp: uxr_serialize_SampleInfoDetail_def ret_then_def split: prod.splits if_splits)
  note e = wrote_u32 [OF assms(1,2) 1]
  have u: "usable ub1"
    using writerD(2) [OF cdr_uint32.writer [OF assms(1) TrueI] 1 assms(2) TrueI] assms(2)
    by (auto intro: wrote_usable)
  have p: "pad (offset ub1) 4 = 0"
    using pad_aligns [of 4 "offset ub"] by (simp add: e add.assoc [symmetric])
  have "offset ub' = offset ub1 + 4" if "SampleInfoDetail.format v = FORMAT_EMPTY"
  proof -
    have "ucdr_serialize_uint32_t cdr (SampleInfoDetailU.sequence_number (SampleInfoDetail.U v)) (ub1, m1)
        = (True, ub', m')"
      using that assms(3) 1 by (simp add: uxr_serialize_SampleInfoDetail_def ret_then_def)
    from wrote_u32 [OF assms(1) u this] show ?thesis by (simp add: p)
  qed
  moreover have "ub' = ub1" if "SampleInfoDetail.format v = FORMAT_SEQN_TIMS"
    using that assms(3) 1
    by (simp add: uxr_serialize_SampleInfoDetail_def ret_then_def kind_defs ser_nothing_def)
  ultimately show ?thesis by (simp add: e)
qed

lemma sample_info_formats_off_by_one_witness:
  "offset (fst (snd (uxr_serialize_SampleInfoDetail ref_ucdr
     \<lparr>SampleInfoDetail.format = FORMAT_SEQN_TIMS, U = undefined\<rparr> (ref_init 0 64 0 0, \<lambda>_. 0)))) = 4"
proof -
  let ?r = "uxr_serialize_SampleInfoDetail ref_ucdr
     \<lparr>SampleInfoDetail.format = FORMAT_SEQN_TIMS, U = undefined\<rparr> (ref_init 0 64 0 0, \<lambda>_. 0)"
  have "fst ?r = True"
    by (simp add: uxr_serialize_SampleInfoDetail_def ret_then_def kind_defs ser_nothing_def ref_ucdr_def
        ref_ser_def ref_ser_w_def ref_init_def pad_def)
  then have "?r = (True, fst (snd ?r), snd (snd ?r))" by (simp add: prod_eq_iff)
  from sample_info_formats_off_by_one [OF ucdr_ok_ref_ucdr _ this] show ?thesis
    by (simp add: usable_def ref_init_def kind_defs pad_def)
qed

text \<open>The properties of an agent are written but never read: when they are present, the
  deserializer stops before the end of what the serializer wrote, and whatever follows in the
  message is read from the wrong place.\<close>
theorem agent_properties_not_read:
  assumes "ucdr_ok cdr" and "ok_XrceCookie (AGENT_Representation.xrce_cookie v)"
    and "ok_XrceVersion (AGENT_Representation.xrce_version v)"
    and "ok_XrceVendorId (AGENT_Representation.xrce_vendor_id v)"
    and "ok_PropertySeq (AGENT_Representation.properties v)"
    and "AGENT_Representation.optional_properties v" and "usable ub"
    and "uxr_serialize_AGENT_Representation cdr v (ub, m) = (True, ub', m')"
  shows "\<exists>k w. offset ub + k + 4 \<le> offset ub' \<and>
    (\<forall>ub2 m2. copy_of ub m' (offset ub' - offset ub) ub2 m2 \<longrightarrow>
       uxr_deserialize_AGENT_Representation cdr out (ub2, m2) = (True, w, adv k ub2, m2))"
proof -
  let ?fs = "[uxr_serialize_XrceCookie cdr (AGENT_Representation.xrce_cookie v),
      uxr_serialize_XrceVersion cdr (AGENT_Representation.xrce_version v),
      uxr_serialize_XrceVendorId cdr (AGENT_Representation.xrce_vendor_id v),
      ucdr_serialize_bool cdr True]"
  let ?p = "uxr_serialize_PropertySeq cdr (AGENT_Representation.properties v)"
  have W: "writer (ret_all ?fs)" "writer ?p"
    by (auto intro!: writers simp: assms)
  obtain ub1 m1 where 1: "ret_all ?fs (ub, m) = (True, ub1, m1)" and 2: "?p (ub1, m1) = (True, ub', m')"
    using assms(8) by (auto simp: uxr_serialize_AGENT_Representation_def ser_when_def assms(6) split: prod.splits)
  obtain k where k: "wrote ub m k ub1 m1" using writerD(2) [OF W(1) 1 assms(7)] by auto
  note u1 = wrote_usable [OF k assms(7)]
  obtain l where l: "wrote ub1 m1 l ub' m'" using writerD(2) [OF W(2) 2 u1] by auto
  have "4 \<le> l"
  proof -
    obtain ub3 m3 where 3: "ucdr_serialize_uint32_t cdr (PropertySeq.size' (AGENT_Representation.properties v)) (ub1, m1)
        = (True, ub3, m3)" and 4: "ret_seq (map (\<lambda>i. uxr_serialize_Property cdr
          (PropertySeq.data (AGENT_Representation.properties v) i))
        [0..<unat (PropertySeq.size' (AGENT_Representation.properties v))]) (ub3, m3) = (True, ub', m')"
      using 2 by (auto simp: uxr_serialize_PropertySeq_def ser_counted_def ret_then_def split: prod.splits if_splits)
    have "writer (ret_seq (map (\<lambda>i. uxr_serialize_Property cdr
          (PropertySeq.data (AGENT_Representation.properties v) i))
        [0..<unat (PropertySeq.size' (AGENT_Representation.properties v))]))"
      using assms(5) by (auto intro!: writers simp: assms(1) ok_PropertySeq_def)
    moreover have "usable ub3"
      using writerD(2) [OF cdr_uint32.writer [OF assms(1) TrueI] 3 u1] wrote_usable [OF _ u1] by auto
    moreover note writerD(2) [where S = "ret_seq (map (\<lambda>i. uxr_serialize_Property cdr
          (PropertySeq.data (AGENT_Representation.properties v) i))
        [0..<unat (PropertySeq.size' (AGENT_Representation.properties v))])", OF _ 4]
    ultimately obtain j where "ub' = adv j ub3" by (auto simp: wrote_def)
    then have "offset ub' = offset ub1 + (pad (offset ub1) 4 + 4) + j"
      using wrote_u32 [OF assms(1) u1 3] by simp
    moreover have "offset ub' = offset ub1 + l" using l by (simp add: wrote_def)
    ultimately show ?thesis by simp
  qed
  moreover have "carries (ret_all ?fs) (uxr_deserialize_AGENT_Representation cdr) out (\<lambda>_. True)"
    unfolding uxr_deserialize_AGENT_Representation_def
    by (rule codec_steps writers | simp add: assms)+
  from carriesE [OF this assms(7) 1 k] obtain w where
    "\<And>ub2 m2. copy_of ub m1 k ub2 m2 \<Longrightarrow>
      uxr_deserialize_AGENT_Representation cdr out (ub2, m2) = (True, w, adv k ub2, m2)" by metis
  then have "copy_of ub m' (k + l) ub2 m2 \<Longrightarrow>
      uxr_deserialize_AGENT_Representation cdr out (ub2, m2) = (True, w, adv k ub2, m2)" for ub2 m2
    using copy_of_split(1) [OF k l] by blast
  moreover have "offset ub' = offset ub + (k + l)" using k l by (auto simp: wrote_def)
  ultimately show ?thesis
    by (intro exI [of _ k] exI [of _ w]) simp
qed

definition example_agent :: AGENT_Representation where
  "example_agent = \<lparr>AGENT_Representation.xrce_cookie = \<lparr>XrceCookie.data = [88, 82, 67, 69]\<rparr>,
     xrce_version = \<lparr>XrceVersion.data = [1, 0]\<rparr>, xrce_vendor_id = \<lparr>XrceVendorId.data = [1, 15]\<rparr>,
     optional_properties = True,
     properties = \<lparr>PropertySeq.size' = 0, data = undefined\<rparr>\<rparr>"

lemma agent_properties_not_read_witness:
  "\<exists>k w. k < offset (fst (snd (uxr_serialize_AGENT_Representation ref_ucdr example_agent (ref_init 0 64 0 0, \<lambda>_. 0)))) \<and>
    (\<forall>ub2 m2. copy_of (ref_init 0 64 0 0)
        (snd (snd (uxr_serialize_AGENT_Representation ref_ucdr example_agent (ref_init 0 64 0 0, \<lambda>_. 0))))
        (offset (fst (snd (uxr_serialize_AGENT_Representation ref_ucdr example_agent (ref_init 0 64 0 0, \<lambda>_. 0)))))
        ub2 m2 \<longrightarrow>
       uxr_deserialize_AGENT_Representation ref_ucdr example_agent (ub2, m2) = (True, w, adv k ub2, m2))"
proof -
  let ?r = "uxr_serialize_AGENT_Representation ref_ucdr example_agent (ref_init 0 64 0 0, \<lambda>_. 0)"
  have "fst ?r = True"
    by (simp add: example_agent_def uxr_serialize_AGENT_Representation_def uxr_serialize_XrceCookie_def
        uxr_serialize_XrceVersion_def uxr_serialize_XrceVendorId_def uxr_serialize_PropertySeq_def
        ser_counted_def ret_then_def ser_when_def ref_ucdr_def ref_ser_def ref_ser_w_def ref_init_def pad_def)
  then have s: "?r = (True, fst (snd ?r), snd (snd ?r))" by (simp add: prod_eq_iff)
  have "ok_XrceCookie (AGENT_Representation.xrce_cookie example_agent)"
    "ok_XrceVersion (AGENT_Representation.xrce_version example_agent)"
    "ok_XrceVendorId (AGENT_Representation.xrce_vendor_id example_agent)"
    "ok_PropertySeq (AGENT_Representation.properties example_agent)"
    "AGENT_Representation.optional_properties example_agent" "usable (ref_init 0 64 0 0)"
    by (simp_all add: example_agent_def ok_XrceCookie_def ok_XrceVersion_def ok_XrceVendorId_def
        ok_PropertySeq_def capacity_defs usable_def ref_init_def)
  from agent_properties_not_read [OF ucdr_ok_ref_ucdr this s, of example_agent]
  obtain k w where k: "offset (ref_init 0 64 0 0) + k + 4 \<le> offset (fst (snd ?r))"
    and w: "\<forall>ub2 m2. copy_of (ref_init 0 64 0 0) (snd (snd ?r))
        (offset (fst (snd ?r)) - offset (ref_init 0 64 0 0)) ub2 m2 \<longrightarrow>
      uxr_deserialize_AGENT_Representation ref_ucdr example_agent (ub2, m2) = (True, w, adv k ub2, m2)"
    by metis
  have "offset (ref_init 0 64 0 0) = 0" by (simp add: ref_init_def)
  with k w show ?thesis
    by (intro exI [of _ k] exI [of _ w]) simp
qed

end
