(* ===== verification/MessageLine.thy ===== *)
theory MessageLine
  imports Prelude
begin

text \<open>
  What the session expects of a transport, as an interface: messages that were sent are received in
  order, each as it was sent. A transport provides it by laws on single calls; what follows for
  series of calls is proved here once.
\<close>

text \<open>Sending one after the other, until a call fails; receiving in \<open>n\<close> calls, some of which may find nothing.\<close>

primrec send_each :: "(u8 list \<Rightarrow> 's \<Rightarrow> bool \<times> 's) \<Rightarrow> u8 list list \<Rightarrow> 's \<Rightarrow> bool \<times> 's" where
  "send_each send [] s = (True, s)"
| "send_each send (bs # msgs) s = (let (sent, s1) = send bs s in if sent then send_each send msgs s1 else (False, s1))"

primrec poll :: "('r \<Rightarrow> (u8 list option \<times> 'r) option) \<Rightarrow> nat \<Rightarrow> 'r \<Rightarrow> (u8 list list \<times> 'r) option" where
  "poll recv 0 s = Some ([], s)"
| "poll recv (Suc n) s =
     (case recv s of
        None \<Rightarrow> None
      | Some (m, s1) \<Rightarrow> map_option (\<lambda>(msgs, s2). ((case m of None \<Rightarrow> msgs | Some bs \<Rightarrow> bs # msgs), s2)) (poll recv n s1))"

locale message_sink =
  fixes send :: "u8 list \<Rightarrow> 's \<Rightarrow> bool \<times> 's"
    and encode :: "u8 list \<Rightarrow> u8 list"
    and sendable :: "u8 list \<Rightarrow> bool"
    and sink_ready :: "'s \<Rightarrow> bool"
    and written :: "'s \<Rightarrow> u8 list"
  assumes send_law: "sink_ready s \<Longrightarrow> sendable bs \<Longrightarrow> send bs s = (True, s') \<Longrightarrow>
    sink_ready s' \<and> written s' = written s @ encode bs"
begin

lemma send_each_written:
  "sink_ready s \<Longrightarrow> list_all sendable msgs \<Longrightarrow> send_each send msgs s = (True, s') \<Longrightarrow>
    sink_ready s' \<and> written s' = written s @ concat (map encode msgs)"
proof (induction msgs arbitrary: s)
  case (Cons bs msgs)
  obtain s1 where s1: "send bs s = (True, s1)" "send_each send msgs s1 = (True, s')"
    using Cons.prems(3) by (auto split: prod.splits if_splits)
  have "sink_ready s1 \<and> written s1 = written s @ encode bs"
    using send_law [OF Cons.prems(1) _ s1(1)] Cons.prems(2) by simp
  then show ?case
    using Cons.IH [of s1] Cons.prems(2) s1(2) by simp
qed simp

end

locale message_source =
  fixes recv :: "'r \<Rightarrow> (u8 list option \<times> 'r) option"
    and encode :: "u8 list \<Rightarrow> u8 list"
    and sendable :: "u8 list \<Rightarrow> bool"
    and source_ready :: "'r \<Rightarrow> bool"
    and unseen :: "'r \<Rightarrow> u8 list"
    and backlog :: "'r \<Rightarrow> nat"
  assumes recv_law: "source_ready s \<Longrightarrow> sendable bs \<Longrightarrow> unseen s = encode bs @ r \<Longrightarrow>
    \<exists>m s'. recv s = Some (m, s') \<and> source_ready s' \<and>
      (m = Some bs \<and> unseen s' = r \<or> m = None \<and> unseen s' = unseen s \<and> backlog s' < backlog s)"
begin

lemma poll_one:
  assumes "source_ready s" and "sendable bs" and "unseen s = encode bs @ r"
  shows "\<exists>n s'. poll recv n s = Some ([bs], s') \<and> source_ready s' \<and> unseen s' = r"
  using assms
proof (induction "backlog s" arbitrary: s rule: less_induct)
  case less
  obtain m s1 where s1: "recv s = Some (m, s1)" "source_ready s1"
    "m = Some bs \<and> unseen s1 = r \<or> m = None \<and> unseen s1 = unseen s \<and> backlog s1 < backlog s"
    using recv_law [OF less.prems] by blast
  show ?case
  proof (cases m)
    case None
    then obtain n s' where "poll recv n s1 = Some ([bs], s') \<and> source_ready s' \<and> unseen s' = r"
      using less.hyps [of s1] s1 less.prems(2,3) by auto
    then show ?thesis
      using s1(1) None by (intro exI [of _ "Suc n"] exI [of _ s']) simp
  next
    case (Some a)
    then show ?thesis
      using s1 by (intro exI [of _ 1] exI [of _ s1]) auto
  qed
qed

lemma poll_append:
  "poll recv n s = Some (msgs, s1) \<Longrightarrow> poll recv k s1 = Some (msgs', s2) \<Longrightarrow> poll recv (n + k) s = Some (msgs @ msgs', s2)"
  by (induction n arbitrary: s msgs) (auto split: option.splits prod.splits)

lemma poll_all:
  assumes "source_ready s" and "list_all sendable msgs" and "unseen s = concat (map encode msgs) @ r"
  shows "\<exists>n s'. poll recv n s = Some (msgs, s') \<and> source_ready s' \<and> unseen s' = r"
  using assms
proof (induction msgs arbitrary: s)
  case Nil
  then show ?case
    by (intro exI [of _ 0] exI [of _ s]) simp
next
  case (Cons bs msgs)
  obtain n s1 where 1: "poll recv n s = Some ([bs], s1)" "source_ready s1" "unseen s1 = concat (map encode msgs) @ r"
    using poll_one [of s bs "concat (map encode msgs) @ r"] Cons.prems by auto
  obtain k s2 where 2: "poll recv k s1 = Some (msgs, s2)" "source_ready s2" "unseen s2 = r"
    using Cons.IH [OF 1(2) _ 1(3)] Cons.prems(2) by auto
  show ?case
    using poll_append [OF 1(1) 2(1)] 2 by auto
qed

end

text \<open>A line from one end to the other: what was written is what is unseen at the other end.\<close>

locale message_line = message_sink send encode sendable sink_ready written +
    message_source recv encode sendable source_ready unseen backlog
  for send :: "u8 list \<Rightarrow> 's \<Rightarrow> bool \<times> 's" and encode sendable sink_ready written
    and recv :: "'r \<Rightarrow> (u8 list option \<times> 'r) option" and source_ready unseen backlog
begin

lemma messages_arrive:
  assumes "sink_ready s" and "source_ready t" and "list_all sendable msgs" and "send_each send msgs s = (True, s')"
    and "written s @ unseen t = written s' @ r"
  shows "\<exists>n t'. poll recv n t = Some (msgs, t') \<and> source_ready t' \<and> unseen t' = r"
proof -
  have "written s' = written s @ concat (map encode msgs)"
    using send_each_written [OF assms(1,3,4)] by simp
  then show ?thesis
    using poll_all [OF assms(2,3)] assms(5) by simp
qed

end

end
