(* ===== verification/StreamFraming.thy ===== *)
theory StreamFraming
  imports Prelude
begin

text \<open>
  The stream framing protocol of the serial and custom transports,
  \<open>src/c/profile/transport/stream_framing/stream_framing_protocol.c\<close>: messages travel over a byte
  stream as frames with a begin flag, escaped octets, source and destination address, length and a
  checksum. Reading from and writing to the device are parameters, and so is the clock.

  A write callback gets the octets to write and says how many it took; a read callback gets the
  number of octets there is room for and returns the octets it read. Both get the error code as it
  was and return the new one.
\<close>

type_synonym 'e uxr_write_cb = "u8 list \<Rightarrow> u8 \<Rightarrow> 'e \<Rightarrow> size_t \<times> u8 \<times> 'e"
type_synonym 'e uxr_read_cb = "size_t \<Rightarrow> int \<Rightarrow> u8 \<Rightarrow> 'e \<Rightarrow> u8 list \<times> u8 \<times> 'e"

definition UXR_FRAMING_BEGIN_FLAG :: u8 where "UXR_FRAMING_BEGIN_FLAG = 0x7E"
definition UXR_FRAMING_ESC_FLAG :: u8 where "UXR_FRAMING_ESC_FLAG = 0x7D"
definition UXR_FRAMING_XOR_FLAG :: u8 where "UXR_FRAMING_XOR_FLAG = 0x20"

datatype uxrFramingInputState =
    UXR_FRAMING_UNINITIALIZED
  | UXR_FRAMING_READING_SRC_ADDR
  | UXR_FRAMING_READING_DST_ADDR
  | UXR_FRAMING_READING_LEN_LSB
  | UXR_FRAMING_READING_LEN_MSB
  | UXR_FRAMING_READING_PAYLOAD
  | UXR_FRAMING_READING_CRC_LSB
  | UXR_FRAMING_READING_CRC_MSB

record uxrFramingIO =
  state :: uxrFramingInputState
  local_addr :: u8
  rb :: "u8 list"
  rb_head :: u8
  rb_tail :: u8
  src_addr :: u8
  msg_len :: u16
  msg_pos :: u16
  msg_crc :: u16
  cmp_crc :: u16
  wb :: "u8 list"
  wb_pos :: u8

text \<open>The sizes of the two buffers.\<close>

definition RB_SIZE :: nat where "RB_SIZE = 42"
definition WB_SIZE :: nat where "WB_SIZE = 42"

section \<open>Checksum\<close>

definition crc16_table :: "u16 list" where
  "crc16_table =
    [0x0000, 0xC0C1, 0xC181, 0x0140, 0xC301, 0x03C0, 0x0280, 0xC241,
     0xC601, 0x06C0, 0x0780, 0xC741, 0x0500, 0xC5C1, 0xC481, 0x0440,
     0xCC01, 0x0CC0, 0x0D80, 0xCD41, 0x0F00, 0xCFC1, 0xCE81, 0x0E40,
     0x0A00, 0xCAC1, 0xCB81, 0x0B40, 0xC901, 0x09C0, 0x0880, 0xC841,
     0xD801, 0x18C0, 0x1980, 0xD941, 0x1B00, 0xDBC1, 0xDA81, 0x1A40,
     0x1E00, 0xDEC1, 0xDF81, 0x1F40, 0xDD01, 0x1DC0, 0x1C80, 0xDC41,
     0x1400, 0xD4C1, 0xD581, 0x1540, 0xD701, 0x17C0, 0x1680, 0xD641,
     0xD201, 0x12C0, 0x1380, 0xD341, 0x1100, 0xD1C1, 0xD081, 0x1040,
     0xF001, 0x30C0, 0x3180, 0xF141, 0x3300, 0xF3C1, 0xF281, 0x3240,
     0x3600, 0xF6C1, 0xF781, 0x3740, 0xF501, 0x35C0, 0x3480, 0xF441,
     0x3C00, 0xFCC1, 0xFD81, 0x3D40, 0xFF01, 0x3FC0, 0x3E80, 0xFE41,
     0xFA01, 0x3AC0, 0x3B80, 0xFB41, 0x3900, 0xF9C1, 0xF881, 0x3840,
     0x2800, 0xE8C1, 0xE981, 0x2940, 0xEB01, 0x2BC0, 0x2A80, 0xEA41,
     0xEE01, 0x2EC0, 0x2F80, 0xEF41, 0x2D00, 0xEDC1, 0xEC81, 0x2C40,
     0xE401, 0x24C0, 0x2580, 0xE541, 0x2700, 0xE7C1, 0xE681, 0x2640,
     0x2200, 0xE2C1, 0xE381, 0x2340, 0xE101, 0x21C0, 0x2080, 0xE041,
     0xA001, 0x60C0, 0x6180, 0xA141, 0x6300, 0xA3C1, 0xA281, 0x6240,
     0x6600, 0xA6C1, 0xA781, 0x6740, 0xA501, 0x65C0, 0x6480, 0xA441,
     0x6C00, 0xACC1, 0xAD81, 0x6D40, 0xAF01, 0x6FC0, 0x6E80, 0xAE41,
     0xAA01, 0x6AC0, 0x6B80, 0xAB41, 0x6900, 0xA9C1, 0xA881, 0x6840,
     0x7800, 0xB8C1, 0xB981, 0x7940, 0xBB01, 0x7BC0, 0x7A80, 0xBA41,
     0xBE01, 0x7EC0, 0x7F80, 0xBF41, 0x7D00, 0xBDC1, 0xBC81, 0x7C40,
     0xB401, 0x74C0, 0x7580, 0xB541, 0x7700, 0xB7C1, 0xB681, 0x7640,
     0x7200, 0xB2C1, 0xB381, 0x7340, 0xB101, 0x71C0, 0x7080, 0xB041,
     0x5000, 0x90C1, 0x9181, 0x5140, 0x9301, 0x53C0, 0x5280, 0x9241,
     0x9601, 0x56C0, 0x5780, 0x9741, 0x5500, 0x95C1, 0x9481, 0x5440,
     0x9C01, 0x5CC0, 0x5D80, 0x9D41, 0x5F00, 0x9FC1, 0x9E81, 0x5E40,
     0x5A00, 0x9AC1, 0x9B81, 0x5B40, 0x9901, 0x59C0, 0x5880, 0x9841,
     0x8801, 0x48C0, 0x4980, 0x8941, 0x4B00, 0x8BC1, 0x8A81, 0x4A40,
     0x4E00, 0x8EC1, 0x8F81, 0x4F40, 0x8D01, 0x4DC0, 0x4C80, 0x8C41,
     0x4400, 0x84C1, 0x8581, 0x4540, 0x8701, 0x47C0, 0x4680, 0x8641,
     0x8201, 0x42C0, 0x4380, 0x8341, 0x4100, 0x81C1, 0x8081, 0x4040]"

definition uxr_update_crc :: "u16 \<Rightarrow> u8 \<Rightarrow> u16" where
  "uxr_update_crc crc octet =
     drop_bit 8 crc XOR crc16_table ! unat ((crc XOR ucast octet) AND 0xFF)"

section \<open>Octets\<close>

text \<open>A position of the read buffer moved on.\<close>

definition rb_next :: "u8 \<Rightarrow> nat \<Rightarrow> u8" where
  "rb_next i n = of_nat ((unat i + n) mod RB_SIZE)"

definition uxr_get_next_octet :: "uxrFramingIO \<Rightarrow> bool \<times> u8 \<times> uxrFramingIO" where
  "uxr_get_next_octet io =
     (if rb_head io \<noteq> rb_tail io
      then if UXR_FRAMING_ESC_FLAG \<noteq> rb io ! unat (rb_tail io)
           then let octet = rb io ! unat (rb_tail io)
                in (UXR_FRAMING_BEGIN_FLAG \<noteq> octet, octet, io\<lparr>rb_tail := rb_next (rb_tail io) 1\<rparr>)
           else let temp_tail = rb_next (rb_tail io) 1
                in if temp_tail \<noteq> rb_head io
                   then let octet = rb io ! unat temp_tail;
                            io1 = io\<lparr>rb_tail := rb_next (rb_tail io) 2\<rparr>
                        in if UXR_FRAMING_BEGIN_FLAG \<noteq> octet
                           then (True, octet XOR UXR_FRAMING_XOR_FLAG, io1)
                           else (False, octet, io1)
                   else (False, 0, io)
      else (False, 0, io))"

definition uxr_add_next_octet :: "uxrFramingIO \<Rightarrow> u8 \<Rightarrow> bool \<times> uxrFramingIO" where
  "uxr_add_next_octet io octet =
     (if UXR_FRAMING_BEGIN_FLAG = octet \<or> UXR_FRAMING_ESC_FLAG = octet
      then if unat (wb_pos io + 1) < WB_SIZE
           then (True, io\<lparr>wb := (wb io)[unat (wb_pos io) := UXR_FRAMING_ESC_FLAG,
                                        unat (wb_pos io) + 1 := octet XOR UXR_FRAMING_XOR_FLAG],
                          wb_pos := wb_pos io + 2\<rparr>)
           else (False, io)
      else if unat (wb_pos io) < WB_SIZE
           then (True, io\<lparr>wb := (wb io)[unat (wb_pos io) := octet], wb_pos := wb_pos io + 1\<rparr>)
           else (False, io))"

definition uxr_init_framing_io :: "uxrFramingIO \<Rightarrow> u8 \<Rightarrow> uxrFramingIO" where
  "uxr_init_framing_io io local_addr' =
     io\<lparr>local_addr := local_addr', state := UXR_FRAMING_UNINITIALIZED, rb_head := 0, rb_tail := 0\<rparr>"

section \<open>Writing\<close>

text \<open>The loop over the write callback; \<open>bytes_written\<close> octets are gone.\<close>

function write_all ::
  "uxrFramingIO \<Rightarrow> 'e uxr_write_cb \<Rightarrow> nat \<Rightarrow> u8 \<Rightarrow> 'e \<Rightarrow> nat \<times> u8 \<times> 'e"
where
  "write_all io write_cb bytes_written errcode e =
     (let (last_written, errcode1, e1) =
            write_cb (take (size_sub (unat (wb_pos io)) bytes_written) (drop bytes_written (wb io))) errcode e;
          n = bytes_written + last_written
      in if n < unat (wb_pos io) \<and> 0 < last_written
         then write_all io write_cb n errcode1 e1
         else (n, errcode1, e1))"
  by pat_completeness auto

termination
  by (relation "measure (\<lambda>(io, _, n, _). unat (wb_pos io) - n)") auto

declare write_all.simps [simp del]

definition uxr_framing_write_transport ::
  "uxrFramingIO \<Rightarrow> 'e uxr_write_cb \<Rightarrow> u8 \<Rightarrow> 'e \<Rightarrow> bool \<times> uxrFramingIO \<times> u8 \<times> 'e"
where
  "uxr_framing_write_transport io write_cb errcode e =
     (let (bytes_written, errcode1, e1) = write_all io write_cb 0 errcode e
      in if bytes_written = unat (wb_pos io) then (True, io\<lparr>wb_pos := 0\<rparr>, errcode1, e1)
         else (False, io, errcode1, e1))"

lemma add_next_octet_fails:
  "uxr_add_next_octet io octet = (False, io1) \<Longrightarrow> io1 = io \<and> 0 < unat (wb_pos io)"
  unfolding uxr_add_next_octet_def WB_SIZE_def
  by (cases "wb_pos io = 0") (auto simp: unat_gt_0 split: if_splits)

text \<open>
  The octets of a message or a checksum go into the write buffer, which is written out when there is
  no room left. The first component tells whether all went well.
\<close>

function write_octets ::
  "uxrFramingIO \<Rightarrow> 'e uxr_write_cb \<Rightarrow> u8 list \<Rightarrow> u16 \<Rightarrow> u8 \<Rightarrow> 'e \<Rightarrow> bool \<times> u16 \<times> uxrFramingIO \<times> u8 \<times> 'e"
where
  "write_octets io write_cb [] crc errcode e = (True, crc, io, errcode, e)"
| "write_octets io write_cb (octet # octets) crc errcode e =
     (let (added, io1) = uxr_add_next_octet io octet
      in if added then write_octets io1 write_cb octets (uxr_update_crc crc octet) errcode e
         else let (cond, io1, errcode1, e1) = uxr_framing_write_transport io write_cb errcode e
              in if cond then write_octets io1 write_cb (octet # octets) crc errcode1 e1
                 else (False, crc, io1, errcode1, e1))"
  by pat_completeness auto

termination
  by (relation "measures [\<lambda>(io, _, octets, _). length octets, \<lambda>(io, _). unat (wb_pos io)]")
    (auto simp: uxr_framing_write_transport_def dest!: add_next_octet_fails [OF sym] split: if_splits prod.splits)

declare write_octets.simps [simp del]

definition uxr_write_framed_msg ::
  "uxrFramingIO \<Rightarrow> 'e uxr_write_cb \<Rightarrow> u8 list \<Rightarrow> u8 \<Rightarrow> u8 \<Rightarrow> 'e \<Rightarrow> size_t \<times> uxrFramingIO \<times> u8 \<times> 'e"
where
  "uxr_write_framed_msg io write_cb buf remote_addr errcode e =
     (let len = length buf;
          io0 = io\<lparr>wb := (wb io)[0 := UXR_FRAMING_BEGIN_FLAG], wb_pos := 1\<rparr>;
          io1 = snd (uxr_add_next_octet io0 (local_addr io0));
          io2 = snd (uxr_add_next_octet io1 remote_addr);
          io3 = snd (uxr_add_next_octet io2 (of_nat (len mod 256)));
          io4 = snd (uxr_add_next_octet io3 (of_nat (len div 256)));
          (cond1, crc, io5, errcode1, e1) = write_octets io4 write_cb buf 0 errcode e;
          (cond2, _, io6, errcode2, e2) =
            (if cond1 then write_octets io5 write_cb [ucast crc, ucast (drop_bit 8 crc)] crc errcode1 e1
             else (False, crc, io5, errcode1, e1));
          (cond3, io7, errcode3, e3) =
            (if cond2 \<and> 0 < wb_pos io6 then uxr_framing_write_transport io6 write_cb errcode2 e2
             else (cond2, io6, errcode2, e2))
      in (if cond3 then cast_u16 len else 0, io7, errcode3, e3))"

section \<open>Reading\<close>

text \<open>Octets that were read are stored from a position of the read buffer on.\<close>

definition store_octets :: "uxrFramingIO \<Rightarrow> u8 list \<Rightarrow> uxrFramingIO" where
  "store_octets io bs =
     io\<lparr>rb := fold (\<lambda>i l. l[unat (rb_head io) + i := bs ! i]) [0..<length bs] (rb io),
        rb_head := rb_next (rb_head io) (length bs)\<rparr>"

text \<open>The room in the read buffer, up to its end and from its start.\<close>

definition available_length :: "uxrFramingIO \<Rightarrow> nat \<times> nat" where
  "available_length io =
     (if rb_head io = rb_tail io then (RB_SIZE - 1, 0)
      else if rb_tail io < rb_head io
      then if 0 < rb_tail io
           then (cast_u8 (size_sub RB_SIZE (unat (rb_head io))), unat (rb_tail io) - 1)
           else (cast_u8 (size_sub (size_sub RB_SIZE (unat (rb_head io))) 1), 0)
      else (unat (rb_tail io) - unat (rb_head io) - 1, 0))"

definition uxr_framing_read_transport ::
  "uxrFramingIO \<Rightarrow> 'e uxr_read_cb \<Rightarrow> ('e \<Rightarrow> int \<times> 'e) \<Rightarrow> int \<Rightarrow> u8 \<Rightarrow> size_t \<Rightarrow> 'e
    \<Rightarrow> size_t \<times> uxrFramingIO \<times> int \<times> u8 \<times> 'e"
where
  "uxr_framing_read_transport io read_cb millis timeout errcode max_size e =
     (let (time_init, e0) = millis e;
          (av0, av1) = available_length io;
          io0 = (if rb_head io = rb_tail io then io\<lparr>rb_head := 0, rb_tail := 0\<rparr> else io);
          (av0', av1') =
            (if max_size < av0 then (cast_u8 max_size, 0)
             else if max_size < av0 + av1 then (av0, cast_u8 (size_sub max_size av0))
             else (av0, av1));
          (n, io2, errcode2, e2) =
            (if 0 < av0'
             then let (bs, errcode1, e1) = read_cb av0' timeout errcode e0;
                      io1 = store_octets io0 bs
                  in if 0 < length bs \<and> length bs = av0' \<and> 0 < av1'
                     then let (bs2, errcode2, e2) = read_cb av1' 0 errcode1 e1
                          in (length bs + length bs2, store_octets io1 bs2, errcode2, e2)
                     else (length bs, io1, errcode1, e1)
             else (0, io0, errcode, e0));
          (now, e3) = millis e2;
          timeout1 = timeout - cast_int32 (now - time_init)
      in (n, io2, if 0 > timeout1 then 0 else timeout1, errcode2, e3))"

text \<open>
  What one call works on: the framing state, the memory that the message goes to, the address of the
  sender, time left and error code of the caller, the device, and the result so far.
\<close>

record 'e framing_run =
  framing_io :: uxrFramingIO
  buf_mem :: mem
  sender :: u8
  time_left :: int
  run_errcode :: u8
  device :: 'e
  run_rv :: size_t

definition fetch_octets ::
  "'e uxr_read_cb \<Rightarrow> ('e \<Rightarrow> int \<times> 'e) \<Rightarrow> size_t \<Rightarrow> 'e framing_run \<Rightarrow> size_t \<times> 'e framing_run"
where
  "fetch_octets read_cb millis max_size run =
     (let (n, io1, timeout, errcode1, e1) =
            uxr_framing_read_transport (framing_io run) read_cb millis (time_left run) (run_errcode run) max_size (device run)
      in (n, run\<lparr>framing_io := io1, time_left := timeout, run_errcode := errcode1, device := e1\<rparr>))"

definition go :: "uxrFramingInputState \<Rightarrow> 'e framing_run \<Rightarrow> 'e framing_run" where
  "go s run = run\<lparr>framing_io := (framing_io run)\<lparr>state := s\<rparr>\<rparr>"

text \<open>Skipping to a begin flag; the first component is the last octet looked at.\<close>

partial_function (option) skip_to_flag :: "u8 \<Rightarrow> uxrFramingIO \<Rightarrow> (u8 \<times> uxrFramingIO) option" where
  "skip_to_flag octet io =
     (if UXR_FRAMING_BEGIN_FLAG \<noteq> octet \<and> rb_head io \<noteq> rb_tail io
      then skip_to_flag (rb io ! unat (rb_tail io)) (io\<lparr>rb_tail := rb_next (rb_tail io) 1\<rparr>)
      else Some (octet, io))"

lemma get_next_octet_keeps:
  "uxr_get_next_octet io = (got, octet, io1) \<Longrightarrow> \<exists>t. io1 = io\<lparr>rb_tail := t\<rparr>"
  by (auto simp: uxr_get_next_octet_def Let_def split: if_splits intro: exI [of _ "rb_tail io"])

lemma unat_next:
  assumes "x < (y :: 'a::len word)"
  shows "unat (x + 1) = unat x + 1"
proof -
  have "unat x + 1 < 2 ^ LENGTH('a)"
    using assms unsigned_less [of y, where 'a = nat] unfolding word_less_nat_alt by linarith
  then show ?thesis
    by (simp add: unat_word_ariths)
qed

text \<open>The octets of the message that are there; the first component is the last octet looked at.\<close>

function read_payload :: "addr \<Rightarrow> u8 \<Rightarrow> uxrFramingIO \<Rightarrow> mem \<Rightarrow> u8 \<times> uxrFramingIO \<times> mem" where
  "read_payload buf octet io m =
     (if msg_pos io < msg_len io
      then let (got, octet1, io1) = uxr_get_next_octet io
           in if got
              then read_payload buf octet1
                     (io1\<lparr>msg_pos := msg_pos io1 + 1, cmp_crc := uxr_update_crc (cmp_crc io1) octet1\<rparr>)
                     (m(buf + unat (msg_pos io1) := octet1))
              else (octet1, io1, m)
      else (octet, io, m))"
  by pat_completeness auto

termination
proof (relation "measure (\<lambda>(_, _, io, _). unat (msg_len io) - unat (msg_pos io))", goal_cases)
  case (2 buf octet io m x got y octet1 io1)
  then obtain t where "io1 = io\<lparr>rb_tail := t\<rparr>"
    using get_next_octet_keeps by metis
  moreover have "unat (msg_pos io + 1) = unat (msg_pos io) + 1"
    using 2(1) by (rule unat_next)
  ultimately show ?case
    using 2 by (auto simp: word_less_nat_alt)
qed simp

declare read_payload.simps [simp del]

text \<open>
  One round of the state machine, \<open>len\<close> being the size of the message buffer. The first component
  tells whether the call is over; no result means that skipping octets does not end.
\<close>

definition framing_step ::
  "'e uxr_read_cb \<Rightarrow> ('e \<Rightarrow> int \<times> 'e) \<Rightarrow> addr \<Rightarrow> size_t \<Rightarrow> 'e framing_run \<Rightarrow> (bool \<times> 'e framing_run) option"
where
  "framing_step read_cb millis buf len run =
     (let io = framing_io run in
      case state io of
        UXR_FRAMING_UNINITIALIZED \<Rightarrow>
          map_option (\<lambda>(octet, io1).
            if UXR_FRAMING_BEGIN_FLAG = octet
            then (False, go UXR_FRAMING_READING_SRC_ADDR (run\<lparr>framing_io := io1\<rparr>))
            else (True, run\<lparr>framing_io := io1\<rparr>)) (skip_to_flag 0 io)
      | UXR_FRAMING_READING_SRC_ADDR \<Rightarrow>
          let (got, octet, io1) = uxr_get_next_octet io;
              run1 = run\<lparr>framing_io := io1\<lparr>src_addr := octet\<rparr>\<rparr>
          in if got then Some (False, go UXR_FRAMING_READING_DST_ADDR run1)
             else let (n, run2) = fetch_octets read_cb millis 4 run1
                  in Some (\<not> 0 < n \<and> UXR_FRAMING_BEGIN_FLAG \<noteq> src_addr (framing_io run2), run2)
      | UXR_FRAMING_READING_DST_ADDR \<Rightarrow>
        let (got, octet, io1) = uxr_get_next_octet io
        in if got then Some (False, go (if octet = local_addr io1 then UXR_FRAMING_READING_LEN_LSB
                                      else UXR_FRAMING_UNINITIALIZED) (run\<lparr>framing_io := io1\<rparr>))
           else let (n, run1) = fetch_octets read_cb millis 3 (run\<lparr>framing_io := io1\<rparr>)
                in if 0 < n then Some (False, run1)
                   else if UXR_FRAMING_BEGIN_FLAG = octet
                   then Some (False, go UXR_FRAMING_READING_SRC_ADDR run1)
                   else Some (True, run1)
      | UXR_FRAMING_READING_LEN_LSB \<Rightarrow>
        let (got, octet, io1) = uxr_get_next_octet io
        in if got then Some (False, go UXR_FRAMING_READING_LEN_MSB (run\<lparr>framing_io := io1\<lparr>msg_len := ucast octet\<rparr>\<rparr>))
           else let (n, run1) = fetch_octets read_cb millis 2 (run\<lparr>framing_io := io1\<rparr>)
                in if 0 < n then Some (False, run1)
                   else if UXR_FRAMING_BEGIN_FLAG = octet
                   then Some (False, go UXR_FRAMING_READING_SRC_ADDR run1)
                   else Some (True, run1)
      | UXR_FRAMING_READING_LEN_MSB \<Rightarrow>
        let (got, octet, io1) = uxr_get_next_octet io
        in if got then let io2 = io1\<lparr>msg_len := msg_len io1 + push_bit 8 (ucast octet), msg_pos := 0, cmp_crc := 0\<rparr>
                       in if len < unat (msg_len io2) then Some (True, go UXR_FRAMING_UNINITIALIZED (run\<lparr>framing_io := io2\<rparr>))
                          else Some (False, go UXR_FRAMING_READING_PAYLOAD (run\<lparr>framing_io := io2\<rparr>))
           else let (n, run1) = fetch_octets read_cb millis 1 (run\<lparr>framing_io := io1\<rparr>)
                in if 0 < n then Some (False, run1)
                   else if UXR_FRAMING_BEGIN_FLAG = octet
                   then Some (False, go UXR_FRAMING_READING_SRC_ADDR run1)
                   else Some (True, run1)
      | UXR_FRAMING_READING_PAYLOAD \<Rightarrow>
        let (octet, io1, m1) = read_payload buf 0 io (buf_mem run);
            run1 = run\<lparr>framing_io := io1, buf_mem := m1\<rparr>
        in if msg_pos io1 = msg_len io1 then Some (False, go UXR_FRAMING_READING_CRC_LSB run1)
           else if UXR_FRAMING_BEGIN_FLAG = octet then Some (False, go UXR_FRAMING_READING_SRC_ADDR run1)
           else let (n, run2) = fetch_octets read_cb millis (size_add (size_sub (unat (msg_len io1)) (unat (msg_pos io1))) 2) run1
                in Some (\<not> 0 < n, run2)
      | UXR_FRAMING_READING_CRC_LSB \<Rightarrow>
        let (got, octet, io1) = uxr_get_next_octet io
        in if got then Some (False, go UXR_FRAMING_READING_CRC_MSB (run\<lparr>framing_io := io1\<lparr>msg_crc := ucast octet\<rparr>\<rparr>))
           else let (n, run1) = fetch_octets read_cb millis 2 (run\<lparr>framing_io := io1\<rparr>)
                in if 0 < n then Some (False, run1)
                   else if UXR_FRAMING_BEGIN_FLAG = octet
                   then Some (False, go UXR_FRAMING_READING_SRC_ADDR run1)
                   else Some (True, run1)
      | UXR_FRAMING_READING_CRC_MSB \<Rightarrow>
        let (got, octet, io1) = uxr_get_next_octet io
        in if got then let io2 = io1\<lparr>msg_crc := msg_crc io1 + push_bit 8 (ucast octet)\<rparr>;
                           run1 = go UXR_FRAMING_UNINITIALIZED (run\<lparr>framing_io := io2\<rparr>)
                       in Some (True, if cmp_crc io2 = msg_crc io2
                                      then run1\<lparr>sender := src_addr io2, run_rv := unat (msg_len io2)\<rparr> else run1)
           else let (n, run1) = fetch_octets read_cb millis 1 (run\<lparr>framing_io := io1\<rparr>)
                in if 0 < n then Some (False, run1)
                   else if UXR_FRAMING_BEGIN_FLAG = octet
                   then Some (False, go UXR_FRAMING_READING_SRC_ADDR run1)
                   else Some (True, run1))"

partial_function (option) framing_loop ::
  "'e uxr_read_cb \<Rightarrow> ('e \<Rightarrow> int \<times> 'e) \<Rightarrow> addr \<Rightarrow> size_t \<Rightarrow> 'e framing_run \<Rightarrow> 'e framing_run option"
where
  "framing_loop read_cb millis buf len run =
     (case framing_step read_cb millis buf len run of
        None \<Rightarrow> None
      | Some (exit_cond, run1) \<Rightarrow>
          if exit_cond then Some run1 else framing_loop read_cb millis buf len run1)"

definition uxr_read_framed_msg ::
  "'e uxr_read_cb \<Rightarrow> ('e \<Rightarrow> int \<times> 'e) \<Rightarrow> addr \<Rightarrow> size_t \<Rightarrow> 'e framing_run \<Rightarrow> 'e framing_run option"
where
  "uxr_read_framed_msg read_cb millis buf len run =
     (let run0 = run\<lparr>run_rv := 0\<rparr>;
          run1 = (if rb_head (framing_io run0) = rb_tail (framing_io run0) then snd (fetch_octets read_cb millis 5 run0) else run0)
      in if rb_tail (framing_io run1) \<noteq> rb_head (framing_io run1) then framing_loop read_cb millis buf len run1
         else Some run1)"

end
