(* ===== verification/Transports.thy ===== *)
theory Transports
  imports StreamFraming
begin

text \<open>
  The transports but TCP: \<open>src/c/profile/transport\<close>, \<open>serial/serial_transport.c\<close>,
  \<open>custom/custom_transport.c\<close>, \<open>ip/udp/udp_transport.c\<close> and \<open>can/can_transport.c\<close>.

  What the platform does to open, close, write and read is a parameter, as is the clock. A transport
  has the address of its receive buffer and the platform's state; the error code of each file is
  static there and is passed along here. \<open>errcode0\<close> is what the automatic variable for the error code
  holds before the platform writes it. Receiving yields the buffer and the length of the message when
  the C function returns \<open>true\<close>. Locks are not modelled; the stream framing profile is there.
\<close>

text \<open>The instance and the three function pointers of the interface, which are set together, and its limit.\<close>

datatype transport_functions =
  NO_FUNCTIONS | SERIAL_FUNCTIONS | CUSTOM_FUNCTIONS | UDP_FUNCTIONS | CAN_FUNCTIONS | TCP_FUNCTIONS

record transport_comm =
  comm_functions :: transport_functions
  mtu :: u16

type_synonym received = "(addr \<times> size_t) option"

definition UXR_CONFIG_SERIAL_TRANSPORT_MTU :: nat where "UXR_CONFIG_SERIAL_TRANSPORT_MTU = 512"
definition UXR_CONFIG_CUSTOM_TRANSPORT_MTU :: nat where "UXR_CONFIG_CUSTOM_TRANSPORT_MTU = 512"
definition UXR_CONFIG_UDP_TRANSPORT_MTU :: nat where "UXR_CONFIG_UDP_TRANSPORT_MTU = 512"
definition UXR_CAN_TRANSPORT_MTU :: nat where "UXR_CAN_TRANSPORT_MTU = 63"

section \<open>Serial\<close>

record 'e uxrSerialTransport =
  serial_buffer :: addr
  serial_framing_io :: uxrFramingIO
  serial_remote_addr :: u8
  serial_comm :: transport_comm
  serial_platform :: 'e

definition send_serial_msg ::
  "'e uxr_write_cb \<Rightarrow> u8 \<Rightarrow> u8 list \<Rightarrow> 'e uxrSerialTransport \<Rightarrow> u8 \<Rightarrow> bool \<times> 'e uxrSerialTransport \<times> u8"
where
  "send_serial_msg write_platform errcode0 buf transport error_code =
     (let (bytes_written, io, errcode, e) =
            uxr_write_framed_msg (serial_framing_io transport) write_platform buf (serial_remote_addr transport)
              errcode0 (serial_platform transport);
          transport1 = transport\<lparr>serial_framing_io := io, serial_platform := e\<rparr>
      in if 0 < bytes_written \<and> bytes_written = length buf then (True, transport1, error_code)
         else (False, transport1, errcode))"

text \<open>Frames are read until one is taken or the time is up.\<close>

partial_function (option) receive_framed ::
  "'e uxr_read_cb \<Rightarrow> ('e \<Rightarrow> int \<times> 'e) \<Rightarrow> addr \<Rightarrow> size_t \<Rightarrow> 'e framing_run \<Rightarrow> 'e framing_run option"
where
  "receive_framed read_cb millis buf len run =
     (case uxr_read_framed_msg read_cb millis buf len run of
        None \<Rightarrow> None
      | Some run1 \<Rightarrow>
          if 0 = run_rv run1 \<and> 0 < time_left run1 then receive_framed read_cb millis buf len run1 else Some run1)"

definition recv_serial_msg ::
  "'e uxr_read_cb \<Rightarrow> ('e \<Rightarrow> int \<times> 'e) \<Rightarrow> u8 \<Rightarrow> int \<Rightarrow> 'e uxrSerialTransport \<Rightarrow> u8 \<Rightarrow> mem
    \<Rightarrow> (received \<times> 'e uxrSerialTransport \<times> u8 \<times> mem) option"
where
  "recv_serial_msg read_platform millis errcode0 timeout transport error_code m =
     map_option (\<lambda>run.
       let transport1 = transport\<lparr>serial_framing_io := framing_io run, serial_platform := device run\<rparr>
       in if 0 < run_rv run \<and> sender run = serial_remote_addr transport
          then (Some (serial_buffer transport, run_rv run), transport1, error_code, buf_mem run)
          else (None, transport1, run_errcode run, buf_mem run))
     (receive_framed read_platform millis (serial_buffer transport) UXR_CONFIG_SERIAL_TRANSPORT_MTU
        \<lparr>framing_io = serial_framing_io transport, buf_mem = m, sender = 0x00, time_left = timeout,
         run_errcode = errcode0, device = serial_platform transport, run_rv = 0\<rparr>)"

definition get_serial_error :: "u8 \<Rightarrow> u8" where
  "get_serial_error error_code = error_code"

definition uxr_init_serial_transport ::
  "(int \<Rightarrow> u8 \<Rightarrow> u8 \<Rightarrow> 'e \<Rightarrow> bool \<times> 'e) \<Rightarrow> 'e uxrSerialTransport \<Rightarrow> int \<Rightarrow> u8 \<Rightarrow> u8 \<Rightarrow> bool \<times> 'e uxrSerialTransport"
where
  "uxr_init_serial_transport init_platform transport fd remote_addr local_addr' =
     (let (opened, e) = init_platform fd remote_addr local_addr' (serial_platform transport)
      in if opened
         then (True, transport\<lparr>serial_platform := e, serial_remote_addr := remote_addr,
                 serial_framing_io := uxr_init_framing_io (serial_framing_io transport) local_addr',
                 serial_comm := \<lparr>comm_functions = SERIAL_FUNCTIONS, mtu = of_nat UXR_CONFIG_SERIAL_TRANSPORT_MTU\<rparr>\<rparr>)
         else (False, transport\<lparr>serial_platform := e\<rparr>))"

definition uxr_close_serial_transport ::
  "('e \<Rightarrow> bool \<times> 'e) \<Rightarrow> 'e uxrSerialTransport \<Rightarrow> bool \<times> 'e uxrSerialTransport"
where
  "uxr_close_serial_transport close_platform transport =
     (let (closed, e) = close_platform (serial_platform transport) in (closed, transport\<lparr>serial_platform := e\<rparr>))"

section \<open>Custom\<close>

text \<open>
  The functions of the application get the arguments that were given at initialization; the rest of
  what they may look at through the transport is the application's state here. \<open>None\<close> is \<open>NULL\<close>.
\<close>

type_synonym 'e open_custom_func = "nat \<Rightarrow> 'e \<Rightarrow> bool \<times> 'e"
type_synonym 'e close_custom_func = "nat \<Rightarrow> 'e \<Rightarrow> bool \<times> 'e"
type_synonym 'e write_custom_func = "nat \<Rightarrow> 'e uxr_write_cb"
type_synonym 'e read_custom_func = "nat \<Rightarrow> 'e uxr_read_cb"

record 'e uxrCustomTransport =
  custom_buffer :: addr
  framing :: bool
  custom_framing_io :: uxrFramingIO
  custom_open :: "'e open_custom_func option"
  custom_close :: "'e close_custom_func option"
  custom_write :: "'e write_custom_func option"
  custom_read :: "'e read_custom_func option"
  custom_comm :: transport_comm
  custom_args :: nat
  custom_state :: 'e

text \<open>A call through a null pointer has no result.\<close>

definition send_custom_msg ::
  "u8 \<Rightarrow> u8 list \<Rightarrow> 'e uxrCustomTransport \<Rightarrow> u8 \<Rightarrow> (bool \<times> 'e uxrCustomTransport \<times> u8) option"
where
  "send_custom_msg errcode0 buf transport error_code =
     (case custom_write transport of
        None \<Rightarrow> None
      | Some write' \<Rightarrow>
          let write_cb = write' (custom_args transport);
              (bytes_written, io, errcode, e) =
                (if framing transport
                 then uxr_write_framed_msg (custom_framing_io transport) write_cb buf 0x00 errcode0 (custom_state transport)
                 else let (n, errcode, e) = write_cb buf errcode0 (custom_state transport)
                      in (n, custom_framing_io transport, errcode, e));
              transport1 = transport\<lparr>custom_framing_io := io, custom_state := e\<rparr>
          in Some (if 0 < bytes_written \<and> bytes_written = length buf then (True, transport1, error_code)
                   else (False, transport1, errcode)))"

definition recv_custom_msg ::
  "('e \<Rightarrow> int \<times> 'e) \<Rightarrow> u8 \<Rightarrow> int \<Rightarrow> 'e uxrCustomTransport \<Rightarrow> u8 \<Rightarrow> mem
    \<Rightarrow> (received \<times> 'e uxrCustomTransport \<times> u8 \<times> mem) option"
where
  "recv_custom_msg millis errcode0 timeout transport error_code m =
     (case custom_read transport of
        None \<Rightarrow> None
      | Some read' \<Rightarrow>
          let read_cb = read' (custom_args transport);
              run0 = \<lparr>framing_io = custom_framing_io transport, buf_mem = m, sender = 0x00, time_left = timeout,
                      run_errcode = errcode0, device = custom_state transport, run_rv = 0\<rparr>
          in map_option (\<lambda>run.
               let transport1 = transport\<lparr>custom_framing_io := framing_io run, custom_state := device run\<rparr>
               in if 0 < run_rv run \<and> sender run = 0x00
                  then (Some (custom_buffer transport, run_rv run), transport1, error_code, buf_mem run)
                  else (None, transport1, run_errcode run, buf_mem run))
             (if framing transport
              then receive_framed read_cb millis (custom_buffer transport) UXR_CONFIG_CUSTOM_TRANSPORT_MTU run0
              else let (bs, errcode, e) = read_cb UXR_CONFIG_CUSTOM_TRANSPORT_MTU timeout errcode0 (custom_state transport)
                   in Some (run0\<lparr>buf_mem := wr m (custom_buffer transport) bs, run_errcode := errcode, device := e,
                                 run_rv := length bs\<rparr>)))"

definition get_custom_error :: "u8 \<Rightarrow> u8" where
  "get_custom_error error_code = error_code"

definition uxr_set_custom_transport_callbacks ::
  "'e uxrCustomTransport \<Rightarrow> bool \<Rightarrow> 'e open_custom_func option \<Rightarrow> 'e close_custom_func option \<Rightarrow>
    'e write_custom_func option \<Rightarrow> 'e read_custom_func option \<Rightarrow> 'e uxrCustomTransport"
where
  "uxr_set_custom_transport_callbacks transport framing' open' close' write' read' =
     transport\<lparr>framing := framing', custom_open := open', custom_close := close', custom_write := write',
               custom_read := read'\<rparr>"

definition uxr_init_custom_transport :: "'e uxrCustomTransport \<Rightarrow> nat \<Rightarrow> bool \<times> 'e uxrCustomTransport" where
  "uxr_init_custom_transport transport args =
     (case (custom_open transport, custom_close transport, custom_write transport, custom_read transport) of
        (Some open', Some _, Some _, Some _) \<Rightarrow>
          let (opened, e) = open' args (custom_state transport);
              transport1 = transport\<lparr>custom_args := args, custom_state := e\<rparr>
          in if opened
             then (True, transport1\<lparr>custom_framing_io := (if framing transport
                       then uxr_init_framing_io (custom_framing_io transport) 0x00 else custom_framing_io transport),
                     custom_comm := \<lparr>comm_functions = CUSTOM_FUNCTIONS, mtu = of_nat UXR_CONFIG_CUSTOM_TRANSPORT_MTU\<rparr>\<rparr>)
             else (False, transport1)
      | _ \<Rightarrow> (False, transport))"

definition uxr_close_custom_transport :: "'e uxrCustomTransport \<Rightarrow> (bool \<times> 'e uxrCustomTransport) option" where
  "uxr_close_custom_transport transport =
     map_option (\<lambda>close'. let (closed, e) = close' (custom_args transport) (custom_state transport)
       in (closed, transport\<lparr>custom_state := e\<rparr>)) (custom_close transport)"

section \<open>UDP\<close>

record 'e uxrUDPTransport =
  udp_buffer :: addr
  udp_comm :: transport_comm
  udp_platform :: 'e

definition send_udp_msg ::
  "'e uxr_write_cb \<Rightarrow> u8 \<Rightarrow> u8 list \<Rightarrow> 'e uxrUDPTransport \<Rightarrow> u8 \<Rightarrow> bool \<times> 'e uxrUDPTransport \<times> u8"
where
  "send_udp_msg write_platform errcode0 buf transport error_code =
     (let (bytes_sent, errcode, e) = write_platform buf errcode0 (udp_platform transport);
          transport1 = transport\<lparr>udp_platform := e\<rparr>
      in if 0 < bytes_sent then (bytes_sent = length buf, transport1, error_code) else (False, transport1, errcode))"

definition recv_udp_msg ::
  "'e uxr_read_cb \<Rightarrow> u8 \<Rightarrow> int \<Rightarrow> 'e uxrUDPTransport \<Rightarrow> u8 \<Rightarrow> mem \<Rightarrow> received \<times> 'e uxrUDPTransport \<times> u8 \<times> mem"
where
  "recv_udp_msg read_platform errcode0 timeout transport error_code m =
     (let (bs, errcode, e) = read_platform UXR_CONFIG_UDP_TRANSPORT_MTU timeout errcode0 (udp_platform transport);
          transport1 = transport\<lparr>udp_platform := e\<rparr>;
          m1 = wr m (udp_buffer transport) bs
      in if 0 < length bs then (Some (udp_buffer transport, length bs), transport1, error_code, m1)
         else (None, transport1, errcode, m1))"

definition get_udp_error :: "u8 \<Rightarrow> u8" where
  "get_udp_error error_code = error_code"

datatype uxrIpProtocol = UXR_IPv4 | UXR_IPv6

definition uxr_init_udp_transport ::
  "(uxrIpProtocol \<Rightarrow> string \<Rightarrow> string \<Rightarrow> 'e \<Rightarrow> bool \<times> 'e) \<Rightarrow> 'e uxrUDPTransport \<Rightarrow> uxrIpProtocol \<Rightarrow> string \<Rightarrow> string
    \<Rightarrow> bool \<times> 'e uxrUDPTransport"
where
  "uxr_init_udp_transport init_platform transport ip_protocol ip port =
     (let (opened, e) = init_platform ip_protocol ip port (udp_platform transport)
      in if opened
         then (True, transport\<lparr>udp_platform := e,
                 udp_comm := \<lparr>comm_functions = UDP_FUNCTIONS, mtu = of_nat UXR_CONFIG_UDP_TRANSPORT_MTU\<rparr>\<rparr>)
         else (False, transport\<lparr>udp_platform := e\<rparr>))"

definition uxr_close_udp_transport ::
  "('e \<Rightarrow> bool \<times> 'e) \<Rightarrow> 'e uxrUDPTransport \<Rightarrow> bool \<times> 'e uxrUDPTransport"
where
  "uxr_close_udp_transport close_platform transport =
     (let (closed, e) = close_platform (udp_platform transport) in (closed, transport\<lparr>udp_platform := e\<rparr>))"

section \<open>CAN\<close>

record 'e uxrCANTransport =
  can_buffer :: addr
  can_comm :: transport_comm
  can_platform :: 'e

definition send_can_msg ::
  "'e uxr_write_cb \<Rightarrow> u8 \<Rightarrow> u8 list \<Rightarrow> 'e uxrCANTransport \<Rightarrow> u8 \<Rightarrow> bool \<times> 'e uxrCANTransport \<times> u8"
where
  "send_can_msg write_platform errcode0 buf transport error_code =
     (let (bytes_sent, errcode, e) = write_platform buf errcode0 (can_platform transport);
          transport1 = transport\<lparr>can_platform := e\<rparr>
      in if 0 < bytes_sent then (bytes_sent = length buf, transport1, error_code) else (False, transport1, errcode))"

definition recv_can_msg ::
  "'e uxr_read_cb \<Rightarrow> u8 \<Rightarrow> int \<Rightarrow> 'e uxrCANTransport \<Rightarrow> u8 \<Rightarrow> mem \<Rightarrow> received \<times> 'e uxrCANTransport \<times> u8 \<times> mem"
where
  "recv_can_msg read_platform errcode0 timeout transport error_code m =
     (let (bs, errcode, e) = read_platform UXR_CAN_TRANSPORT_MTU timeout errcode0 (can_platform transport);
          transport1 = transport\<lparr>can_platform := e\<rparr>;
          m1 = wr m (can_buffer transport) bs
      in if 0 < length bs then (Some (can_buffer transport, length bs), transport1, error_code, m1)
         else (None, transport1, errcode, m1))"

definition get_can_error :: "u8 \<Rightarrow> u8" where
  "get_can_error error_code = error_code"

definition uxr_init_can_transport ::
  "(string \<Rightarrow> u32 \<Rightarrow> 'e \<Rightarrow> bool \<times> 'e) \<Rightarrow> 'e uxrCANTransport \<Rightarrow> string \<Rightarrow> u32 \<Rightarrow> bool \<times> 'e uxrCANTransport"
where
  "uxr_init_can_transport init_platform transport dev can_id =
     (let (opened, e) = init_platform dev can_id (can_platform transport)
      in if opened
         then (True, transport\<lparr>can_platform := e,
                 can_comm := \<lparr>comm_functions = CAN_FUNCTIONS, mtu = of_nat UXR_CAN_TRANSPORT_MTU\<rparr>\<rparr>)
         else (False, transport\<lparr>can_platform := e\<rparr>))"

definition uxr_close_can_transport ::
  "('e \<Rightarrow> bool \<times> 'e) \<Rightarrow> 'e uxrCANTransport \<Rightarrow> bool \<times> 'e uxrCANTransport"
where
  "uxr_close_can_transport close_platform transport =
     (let (closed, e) = close_platform (can_platform transport) in (closed, transport\<lparr>can_platform := e\<rparr>))"

end
