(* ===== verification/FramingFacts.thy ===== *)
theory FramingFacts
  imports StreamFraming
begin

text \<open>What is proved about the framing protocol.\<close>

section \<open>The checksum\<close>

text \<open>The division by the polynomial, one bit at a time, least significant bit first.\<close>

definition crc_bit :: "u16 \<Rightarrow> u16" where
  "crc_bit c = (if bit c 0 then drop_bit 1 c XOR 0xA001 else drop_bit 1 c)"

definition crc_octet :: "u16 \<Rightarrow> u8 \<Rightarrow> u16" where
  "crc_octet c octet = (crc_bit ^^ 8) (c XOR ucast octet)"

lemma crc_bit_xor: "crc_bit (a XOR b) = crc_bit a XOR crc_bit b"
  by (rule bit_word_eqI) (auto simp: crc_bit_def bit_simps)

lemma crc_bits_xor: "(crc_bit ^^ n) (a XOR b) = (crc_bit ^^ n) a XOR (crc_bit ^^ n) b"
  by (induction n) (simp_all add: crc_bit_xor)

lemma crc_bits_high:
  assumes "\<And>i. i < n \<Longrightarrow> \<not> bit c i"
  shows "(crc_bit ^^ n) c = drop_bit n c"
  using assms
proof (induction n arbitrary: c)
  case (Suc n)
  have "crc_bit c = drop_bit 1 c"
    using Suc.prems [of 0] by (simp add: crc_bit_def)
  moreover have "(crc_bit ^^ n) (drop_bit 1 c) = drop_bit n (drop_bit 1 c)"
    using Suc.prems by (intro Suc.IH) (simp add: bit_simps)
  ultimately show ?case
    by (simp add: funpow_swap1)
qed simp

text \<open>The table of a linear function from its values at powers of two.\<close>

definition dbl :: "u16 \<Rightarrow> u16 list \<Rightarrow> u16 list" where
  "dbl g l = l @ map (\<lambda>x. x XOR g) l"

lemma of_nat_xor_power:
  assumes "i < 2 ^ k"
  shows "(of_nat (i + 2 ^ k) :: u16) = of_nat i XOR of_nat (2 ^ k)"
proof -
  have "\<not> bit i k"
    using assms by (simp add: bit_iff_odd)
  then have "i AND 2 ^ k = 0"
    by (intro bit_eqI) (auto simp: bit_simps)
  then have "i + 2 ^ k = i XOR 2 ^ k"
    by (rule disjunctive_add_eq_xor)
  then show ?thesis
    by (simp add: of_nat_xor_eq)
qed

lemma dbl_table:
  "dbl ((crc_bit ^^ 8) (of_nat (2 ^ k))) (map (\<lambda>i. (crc_bit ^^ 8) (of_nat i)) [0..<2 ^ k]) =
    map (\<lambda>i. (crc_bit ^^ 8) (of_nat i)) [0..<2 ^ Suc k]"
proof -
  have "[0..<2 ^ Suc k] = [0..<2 ^ k] @ map (\<lambda>i. i + 2 ^ k) [0..<2 ^ k]"
    using upt_add_eq_append [of 0 "2 ^ k" "2 ^ k"] map_add_upt [of "2 ^ k" "2 ^ k"] by (simp add: mult_2)
  then show ?thesis
    by (simp add: dbl_def of_nat_xor_power crc_bits_xor del: of_nat_add)
qed

lemma crc_8: "(crc_bit ^^ 8) c = crc_bit (crc_bit (crc_bit (crc_bit (crc_bit (crc_bit (crc_bit (crc_bit c)))))))"
  by (simp add: eval_nat_numeral)

lemma crc_steps:
  "crc_bit 128 = 64" "crc_bit 64 = 32" "crc_bit 32 = 16" "crc_bit 16 = 8" "crc_bit 8 = 4" "crc_bit 4 = 2"
  "crc_bit 2 = 1" "crc_bit 1 = 0xA001" "crc_bit 0xA001 = 0xF001" "crc_bit 0xF001 = 0xD801"
  "crc_bit 0xD801 = 0xCC01" "crc_bit 0xCC01 = 0xC601" "crc_bit 0xC601 = 0xC301" "crc_bit 0xC301 = 0xC181"
  "crc_bit 0xC181 = 0xC0C1"
  by code_simp+

lemma crc_gens:
  "(crc_bit ^^ 8) 1 = 0xC0C1" "(crc_bit ^^ 8) 2 = 0xC181" "(crc_bit ^^ 8) 4 = 0xC301" "(crc_bit ^^ 8) 8 = 0xC601"
  "(crc_bit ^^ 8) 16 = 0xCC01" "(crc_bit ^^ 8) 32 = 0xD801" "(crc_bit ^^ 8) 64 = 0xF001" "(crc_bit ^^ 8) 128 = 0xA001"
  unfolding crc_8 crc_steps by (rule refl)+

lemma crc_table_dbl:
  "crc16_table = dbl 0xA001 (dbl 0xF001 (dbl 0xD801 (dbl 0xCC01 (dbl 0xC601 (dbl 0xC301 (dbl 0xC181 (dbl 0xC0C1 [0])))))))"
  by (simp add: crc16_table_def dbl_def)

lemma crc_table: "crc16_table = map (\<lambda>i. (crc_bit ^^ 8) (of_nat i)) [0..<256]"
proof -
  define T where "T k = map (\<lambda>i. (crc_bit ^^ 8) (of_nat i)) [0..<2 ^ k]" for k
  have d: "dbl ((crc_bit ^^ 8) (of_nat (2 ^ k))) (T k) = T (Suc k)" for k
    unfolding T_def by (rule dbl_table)
  have "crc_bit 0 = 0"
    by (simp add: crc_bit_def)
  then have "[0] = T 0"
    by (simp add: T_def crc_8)
  moreover have "dbl 0xC0C1 (T 0) = T 1" "dbl 0xC181 (T 1) = T 2" "dbl 0xC301 (T 2) = T 3"
    "dbl 0xC601 (T 3) = T 4" "dbl 0xCC01 (T 4) = T 5" "dbl 0xD801 (T 5) = T 6" "dbl 0xF001 (T 6) = T 7"
    "dbl 0xA001 (T 7) = T 8"
    using d [of 0] d [of 1] d [of 2] d [of 3] d [of 4] d [of 5] d [of 6] d [of 7] crc_gens
    by (simp_all add: eval_nat_numeral del: funpow.simps)
  ultimately have "crc16_table = T 8"
    by (simp add: crc_table_dbl)
  then show ?thesis
    by (simp add: T_def)
qed

text \<open>C30. The checksum by table is the division by the polynomial bit by bit, for every state and octet.\<close>
theorem crc_is_polynomial_division: "uxr_update_crc crc octet = crc_octet crc octet"
proof -
  let ?x = "crc XOR ucast octet"
  have lo: "?x AND 0xFF = take_bit 8 ?x"
    by (simp add: take_bit_eq_mask mask_eq_exp_minus_1)
  have "unat (take_bit 8 ?x) < 256"
    using take_bit_nat_less_exp [of 8 "unat ?x"] by (simp add: unsigned_take_bit_eq del: take_bit_xor)
  then have "crc16_table ! unat (?x AND 0xFF) = (crc_bit ^^ 8) (take_bit 8 ?x)"
    unfolding lo by (simp add: crc_table)
  moreover have "?x = push_bit 8 (drop_bit 8 ?x) XOR take_bit 8 ?x"
    by (rule bit_word_eqI) (auto simp: bit_simps)
  then have "(crc_bit ^^ 8) ?x = (crc_bit ^^ 8) (push_bit 8 (drop_bit 8 ?x)) XOR (crc_bit ^^ 8) (take_bit 8 ?x)"
    by (metis crc_bits_xor)
  moreover have "(crc_bit ^^ 8) (push_bit 8 (drop_bit 8 ?x)) = drop_bit 8 (push_bit 8 (drop_bit 8 ?x))"
    by (rule crc_bits_high) (simp add: bit_simps)
  moreover have "drop_bit 8 (push_bit 8 (drop_bit 8 ?x)) = drop_bit 8 crc"
    by (rule bit_word_eqI) (auto simp: bit_simps dest: bit_imp_le_length)
  ultimately show ?thesis
    by (simp add: uxr_update_crc_def crc_octet_def)
qed

section \<open>Frames\<close>

definition stuffed :: "u8 \<Rightarrow> u8 list" where
  "stuffed b = (if b = UXR_FRAMING_BEGIN_FLAG \<or> b = UXR_FRAMING_ESC_FLAG
     then [UXR_FRAMING_ESC_FLAG, b XOR UXR_FRAMING_XOR_FLAG] else [b])"

definition stuff :: "u8 list \<Rightarrow> u8 list" where
  "stuff bs = concat (map stuffed bs)"

definition checksum :: "u8 list \<Rightarrow> u16" where
  "checksum bs = foldl uxr_update_crc 0 bs"

definition frame :: "u8 \<Rightarrow> u8 \<Rightarrow> u8 list \<Rightarrow> u8 list" where
  "frame src dst bs = UXR_FRAMING_BEGIN_FLAG #
     stuff ([src, dst, of_nat (length bs mod 256), of_nat (length bs div 256)] @ bs @
       [ucast (checksum bs), ucast (drop_bit 8 (checksum bs))])"

lemma stuff_simps [simp]:
  "stuff [] = []" "stuff (b # bs) = stuffed b @ stuff bs" "stuff (bs @ cs) = stuff bs @ stuff cs"
  by (simp_all add: stuff_def)

section \<open>Writing\<close>

text \<open>A device that takes a part of what it is given; \<open>log\<close> is what it has taken so far.\<close>

definition sink :: "'e uxr_write_cb \<Rightarrow> ('e \<Rightarrow> u8 list) \<Rightarrow> bool" where
  "sink write_cb log \<longleftrightarrow> (\<forall>bs err e n err' e'. write_cb bs err e = (n, err', e') \<longrightarrow>
     n \<le> length bs \<and> log e' = log e @ take n bs)"

lemma sinkD: "sink write_cb log \<Longrightarrow> write_cb bs err e = (n, err', e') \<Longrightarrow> n \<le> length bs \<and> log e' = log e @ take n bs"
  unfolding sink_def by blast

text \<open>The device stopped before all of \<open>bs\<close> was taken.\<close>

definition cut_off :: "('e \<Rightarrow> u8 list) \<Rightarrow> 'e \<Rightarrow> u8 list \<Rightarrow> 'e \<Rightarrow> bool" where
  "cut_off log e bs e' \<longleftrightarrow> (\<exists>x y. bs = x @ y \<and> y \<noteq> [] \<and> log e' = log e @ x)"

lemma cut_off_append: "cut_off log e bs e' \<Longrightarrow> cut_off log e (bs @ cs) e'"
  unfolding cut_off_def by (metis append.assoc append_is_Nil_conv)

lemma cut_off_trans: "log e1 = log e @ as \<Longrightarrow> cut_off log e1 bs e' \<Longrightarrow> cut_off log e (as @ bs) e'"
  unfolding cut_off_def by (metis append.assoc)

lemma cut_off_rest:
  assumes "log e1 @ as = log e @ bs" and "length (log e) \<le> length (log e1)" and "cut_off log e1 as e'"
  shows "cut_off log e bs e'"
proof -
  have "log e1 = log e @ drop (length (log e)) (log e1)"
    using arg_cong [OF assms(1), of "take (length (log e))"] assms(2)
    by (metis append_take_drop_id append_eq_conv_conj take_append take_all_iff diff_is_0_eq take0 append_Nil2)
  then obtain d where "log e1 = log e @ d" "bs = d @ as"
    using assms(1) by (metis append.assoc same_append_eq)
  then show ?thesis
    using cut_off_trans assms(3) by metis
qed

definition wb_ok :: "uxrFramingIO \<Rightarrow> bool" where
  "wb_ok io \<longleftrightarrow> length (wb io) = WB_SIZE \<and> unat (wb_pos io) \<le> WB_SIZE"

definition wbytes :: "uxrFramingIO \<Rightarrow> u8 list" where
  "wbytes io = take (unat (wb_pos io)) (wb io)"

lemma write_all_spec:
  assumes "sink write_cb log" and "wb_ok io" and "k \<le> unat (wb_pos io)"
    and "write_all io write_cb k err e = (n, err', e')"
  shows "k \<le> n \<and> n \<le> unat (wb_pos io) \<and> log e' = log e @ drop k (take n (wbytes io))"
  using assms
proof (induction io write_cb k err e rule: write_all.induct)
  case (1 io write_cb k err e)
  let ?bs = "take (size_sub (unat (wb_pos io)) k) (drop k (wb io))"
  obtain l err1 e1 where cb: "write_cb ?bs err e = (l, err1, e1)"
    by (metis prod_cases3)
  have bs: "?bs = drop k (wbytes io)" "length ?bs = unat (wb_pos io) - k"
    using 1(3,4) by (auto simp: wbytes_def wb_ok_def WB_SIZE_def size_sub_eq drop_take)
  note D = sinkD [OF 1(2) cb]
  have dt: "drop k (take (k + l) (wbytes io)) = take l (drop k (wbytes io))"
    by (simp add: take_drop add.commute)
  show ?case
  proof (cases "k + l < unat (wb_pos io) \<and> 0 < l")
    case True
    then have "write_all io write_cb (k + l) err1 e1 = (n, err', e')"
      using 1(5) cb by (subst (asm) write_all.simps) simp
    then have "k + l \<le> n \<and> n \<le> unat (wb_pos io) \<and> log e' = log e1 @ drop (k + l) (take n (wbytes io))"
      using 1(1) [OF cb [symmetric] refl refl refl True 1(2,3)] True by simp
    moreover from this have "min l (n - k) = l"
      by arith
    then have "drop k (take n (wbytes io)) = take l (drop k (wbytes io)) @ drop (k + l) (take n (wbytes io))"
      using append_take_drop_id [of l "drop k (take n (wbytes io))"]
      by (simp add: drop_take add.commute)
    ultimately show ?thesis
      using D bs by simp
  next
    case False
    then have "n = k + l" "e' = e1"
      using 1(5) cb by (subst (asm) write_all.simps, auto)+
    then show ?thesis
      using D bs dt 1(4) by auto
  qed
qed

lemma write_transport_spec:
  assumes "sink write_cb log" and "wb_ok io"
    and "uxr_framing_write_transport io write_cb err e = (ok, io', err', e')"
  shows "if ok then io' = io\<lparr>wb_pos := 0\<rparr> \<and> log e' = log e @ wbytes io
    else io' = io \<and> cut_off log e (wbytes io) e'"
proof -
  obtain n err1 e1 where w: "write_all io write_cb 0 err e = (n, err1, e1)"
    by (metis prod_cases3)
  have "length (wbytes io) = unat (wb_pos io)"
    using assms(2) by (simp add: wbytes_def wb_ok_def)
  then show ?thesis
    using write_all_spec [OF assms(1,2) _ w] assms(3) w
    by (auto simp: uxr_framing_write_transport_def cut_off_def split: if_splits
        intro!: exI [of _ "take n (wbytes io)"] exI [of _ "drop n (wbytes io)"])
qed

lemma add_octet_spec:
  assumes "wb_ok io" and "uxr_add_next_octet io b = (ok, io')"
  shows "if ok then wb_ok io' \<and> wbytes io' = wbytes io @ stuffed b \<and> local_addr io' = local_addr io
    else io' = io \<and> 40 < unat (wb_pos io)"
proof -
  let ?p = "unat (wb_pos io)"
  have p: "?p \<le> 42" "length (wb io) = 42"
    using assms(1) by (simp_all add: wb_ok_def WB_SIZE_def)
  have n: "unat (wb_pos io + 1) = ?p + 1" "unat (wb_pos io + 2) = ?p + 2"
    using p by (simp_all add: unat_word_ariths)
  have t1: "take (?p + 1) ((wb io)[?p := x]) = take ?p (wb io) @ [x]" if "?p < 42" for x
    using that p by (simp add: take_Suc_conv_app_nth)
  have t2: "take (?p + 2) ((wb io)[?p := x, ?p + 1 := y]) = take ?p (wb io) @ [x, y]" if "?p + 1 < 42" for x y
    using that p by (simp add: take_Suc_conv_app_nth numeral_2_eq_2)
  show ?thesis
    using assms(2) p n t1 t2
    by (auto simp: uxr_add_next_octet_def wb_ok_def wbytes_def stuffed_def WB_SIZE_def split: if_splits)
qed

text \<open>Octets given away or waiting in the write buffer, in order.\<close>

lemma write_octets_spec:
  assumes "sink write_cb log" and "wb_ok io"
    and "write_octets io write_cb bs crc err e = (ok, crc', io', err', e')"
  shows "if ok then wb_ok io' \<and> log e' @ wbytes io' = log e @ wbytes io @ stuff bs \<and>
      length (log e) \<le> length (log e') \<and> crc' = foldl uxr_update_crc crc bs
    else cut_off log e (wbytes io @ stuff bs) e'"
  using assms
proof (induction io write_cb bs crc err e rule: write_octets.induct)
  case (1 io write_cb crc err e)
  then show ?case
    by (auto simp: write_octets.simps)
next
  case (2 io write_cb b bs crc err e)
  obtain added io1 where add: "uxr_add_next_octet io b = (added, io1)"
    by force
  note A = add_octet_spec [OF 2(4) add]
  show ?case
  proof (cases added)
    case True
    have r: "write_octets io1 write_cb bs (uxr_update_crc crc b) err e = (ok, crc', io', err', e')"
      using 2(5) add True by (simp add: write_octets.simps)
    show ?thesis
      using 2(1) [OF add [symmetric] refl True 2(3) _ r] A True by (simp split: if_splits)
  next
    case False
    obtain cond io2 err1 e1 where f: "uxr_framing_write_transport io write_cb err e = (cond, io2, err1, e1)"
      by (metis prod_cases4)
    note F = write_transport_spec [OF 2(3,4) f]
    show ?thesis
    proof (cases cond)
      case True
      have r: "write_octets io2 write_cb (b # bs) crc err1 e1 = (ok, crc', io', err', e')"
        using 2(5) add False f True by (subst (asm) write_octets.simps) simp
      have "wb_ok io2" "wbytes io2 = []" "log e1 = log e @ wbytes io"
        using F True 2(4) by (simp_all add: wb_ok_def wbytes_def)
      then show ?thesis
        using 2(2) [OF add [symmetric] refl False f [symmetric] refl refl refl True 2(3) _ r]
        by (simp add: cut_off_trans split: if_splits)
    next
      case cond: False
      then have "\<not> ok" "e' = e1"
        using 2(5) add False f by (subst (asm) write_octets.simps, simp)+
      then show ?thesis
        using F cond by (simp add: cut_off_append)
    qed
  qed
qed

lemma framed_msg_written_aux:
  assumes "sink write_cb log" and "length (wb io) = WB_SIZE" and "length bs < 65536"
    and "uxr_write_framed_msg io write_cb bs dst err e = (n, io', err', e')"
  shows "(n = length bs \<and> log e' = log e @ frame (local_addr io) dst bs) \<or>
    (n = 0 \<and> cut_off log e (frame (local_addr io) dst bs) e')"
proof -
  define io0 where "io0 = io\<lparr>wb := (wb io)[0 := UXR_FRAMING_BEGIN_FLAG], wb_pos := 1\<rparr>"
  define h where "h = [local_addr io, dst, of_nat (length bs mod 256), of_nat (length bs div 256)]"
  have io0: "wb_ok io0" "wbytes io0 = [UXR_FRAMING_BEGIN_FLAG]" "local_addr io0 = local_addr io"
    using assms(2) by (cases "wb io"; simp add: io0_def wb_ok_def wbytes_def WB_SIZE_def)+
  have add: "wb_ok (snd (uxr_add_next_octet x b)) \<and> wbytes (snd (uxr_add_next_octet x b)) = wbytes x @ stuffed b"
    if "wb_ok x" "length (wbytes x) \<le> 8" for x b
  proof -
    have "unat (wb_pos x) \<le> 8"
      using that by (simp add: wbytes_def wb_ok_def)
    then show ?thesis
      using add_octet_spec [OF that(1) prod.collapse [symmetric], of b] by (auto split: if_splits)
  qed
  have s: "length (stuffed b) \<le> 2" for b
    by (simp add: stuffed_def)
  define io1 where "io1 = snd (uxr_add_next_octet io0 (local_addr io))"
  define io2 where "io2 = snd (uxr_add_next_octet io1 dst)"
  define io3 where "io3 = snd (uxr_add_next_octet io2 (of_nat (length bs mod 256)))"
  define io4 where "io4 = snd (uxr_add_next_octet io3 (of_nat (length bs div 256)))"
  have 1: "wb_ok io1" "wbytes io1 = UXR_FRAMING_BEGIN_FLAG # stuffed (local_addr io)"
    using add [OF io0(1), of "local_addr io"] io0(2) by (simp_all add: io1_def)
  have 2: "wb_ok io2" "wbytes io2 = UXR_FRAMING_BEGIN_FLAG # stuffed (local_addr io) @ stuffed dst"
    using add [OF 1(1), of dst] 1(2) s [of "local_addr io"] by (simp_all add: io2_def)
  have 3: "wb_ok io3" "wbytes io3 = UXR_FRAMING_BEGIN_FLAG # stuffed (local_addr io) @ stuffed dst @
      stuffed (of_nat (length bs mod 256))"
    using add [OF 2(1), of "of_nat (length bs mod 256)"] 2(2) s [of "local_addr io"] s [of dst]
    by (simp_all add: io3_def)
  have 4: "wb_ok io4" "wbytes io4 = UXR_FRAMING_BEGIN_FLAG # stuff h"
    using add [OF 3(1), of "of_nat (length bs div 256)"] 3(2) s [of "local_addr io"] s [of dst]
      s [of "of_nat (length bs mod 256)"]
    by (simp_all add: io4_def h_def)
  obtain ok1 crc io5 err1 e1 where w1: "write_octets io4 write_cb bs 0 err e = (ok1, crc, io5, err1, e1)"
    by (metis prod_cases5)
  note W1 = write_octets_spec [OF assms(1) 4(1) w1, unfolded 4(2)]
  have F: "frame (local_addr io) dst bs = (UXR_FRAMING_BEGIN_FLAG # stuff h) @ stuff bs @
      stuff [ucast (checksum bs), ucast (drop_bit 8 (checksum bs))]"
    by (simp add: frame_def h_def)
  note U = assms(4) [unfolded uxr_write_framed_msg_def Let_def, folded io0_def,
      unfolded io0(3), folded io1_def, folded io2_def, folded io3_def, folded io4_def]
  show ?thesis
  proof (cases ok1)
    case False
    then have "n = 0" "e' = e1"
      using U by (simp_all add: w1)
    moreover have "cut_off log e ((UXR_FRAMING_BEGIN_FLAG # stuff h) @ stuff bs) e1"
      using W1 False by simp
    then have "cut_off log e (frame (local_addr io) dst bs) e1"
      unfolding F by (metis append.assoc cut_off_append)
    ultimately show ?thesis
      by simp
  next
    case True
    have crc: "crc = checksum bs"
      using W1 True by (simp add: checksum_def)
    obtain ok2 crc2 io6 err2 e2 where w2: "write_octets io5 write_cb [ucast crc, ucast (drop_bit 8 crc)] crc err1 e1 =
        (ok2, crc2, io6, err2, e2)"
      by (metis prod_cases5)
    have l: "log e1 @ wbytes io5 = log e @ (UXR_FRAMING_BEGIN_FLAG # stuff h) @ stuff bs" "wb_ok io5"
      using W1 True by simp_all
    note W2 = write_octets_spec [OF assms(1) l(2) w2, unfolded crc]
    have fr: "log e @ frame (local_addr io) dst bs =
        log e1 @ wbytes io5 @ stuff [ucast (checksum bs), ucast (drop_bit 8 (checksum bs))]"
      unfolding F using l by (metis append.assoc)
    have le1: "length (log e) \<le> length (log e1)"
      using W1 True by simp
    show ?thesis
    proof (cases ok2)
      case False
      then have "n = 0" "e' = e2"
        using U True by (simp_all add: w1 w2)
      then show ?thesis
        using cut_off_rest [where log = log, OF fr [symmetric] le1] W2 False by simp
    next
      case ok2: True
      have W2': "wb_ok io6" "log e2 @ wbytes io6 = log e @ frame (local_addr io) dst bs" "length (log e) \<le> length (log e2)"
        using W2 ok2 fr le1 by simp_all
      show ?thesis
      proof (cases "0 < wb_pos io6")
        case True
        obtain ok3 io7 err3 e3 where w3: "uxr_framing_write_transport io6 write_cb err2 e2 = (ok3, io7, err3, e3)"
          by (metis prod_cases4)
        have "n = (if ok3 then length bs else 0)" "e' = e3"
          using U \<open>ok1\<close> ok2 True assms(3) by (simp_all add: w1 w2 w3 cast_u16_eq split: if_splits)
        then show ?thesis
          using write_transport_spec [OF assms(1) W2'(1) w3] W2' cut_off_rest [where log = log, OF W2'(2,3)] by auto
      next
        case False
        then have "wbytes io6 = []"
          by (simp add: wbytes_def word_less_nat_alt)
        moreover have "n = length bs" "e' = e2"
          using U \<open>ok1\<close> ok2 False assms(3) by (simp_all add: w1 w2 cast_u16_eq)
        ultimately show ?thesis
          using W2' by simp
      qed
    qed
  qed
qed

text \<open>What reaches the device is the frame, whatever pieces it takes it in: all of it when the call
  returns the length of the message, and when it returns zero a proper beginning, or the whole frame
  of an empty message.\<close>
theorem framed_msg_written:
  assumes "sink write_cb log" and "length (wb io) = WB_SIZE" and "length bs < 65536"
    and "uxr_write_framed_msg io write_cb bs dst err e = (n, io', err', e')"
  shows "(n = length bs \<and> log e' = log e @ frame (local_addr io) dst bs) \<or>
    (n = 0 \<and> cut_off log e (frame (local_addr io) dst bs) e')"
  using framed_msg_written_aux [OF assms] .

section \<open>The read buffer\<close>

definition ring_ok :: "uxrFramingIO \<Rightarrow> bool" where
  "ring_ok io \<longleftrightarrow> length (rb io) = 42 \<and> unat (rb_head io) < 42 \<and> unat (rb_tail io) < 42"

text \<open>The octets that were read from the device and not yet looked at.\<close>

definition pending :: "uxrFramingIO \<Rightarrow> u8 list" where
  "pending io = map (\<lambda>i. rb io ! ((unat (rb_tail io) + i) mod 42))
     [0..<(unat (rb_head io) + 42 - unat (rb_tail io)) mod 42]"

lemma length_pending: "length (pending io) = (unat (rb_head io) + 42 - unat (rb_tail io)) mod 42"
  by (simp add: pending_def)

lemma ring_distance:
  "h < 42 \<Longrightarrow> t < 42 \<Longrightarrow> (h + 42 - t) mod 42 = (if t \<le> h then h - t else h + 42 - t :: nat)"
  by (auto simp: mod_if)

lemma ring_position: "t < 42 \<Longrightarrow> n < 42 \<Longrightarrow> (t + n) mod 42 = (if t + n < 42 then t + n else t + n - 42 :: nat)"
  by (auto simp: mod_if)

lemma ring_advance:
  assumes "h < 42" and "t < 42" and "n \<le> (h + 42 - t) mod (42 :: nat)"
  shows "(h + 42 - (t + n) mod 42) mod 42 = (h + 42 - t) mod 42 - n"
proof -
  have d: "(h + 42 - t) mod 42 = (if t \<le> h then h - t else h + 42 - t)"
    using assms by (intro ring_distance)
  then have n: "n < 42"
    using assms by (auto split: if_splits)
  have "(h + 42 - (t + n) mod 42) mod 42 = (if (t + n) mod 42 \<le> h then h - (t + n) mod 42 else h + 42 - (t + n) mod 42)"
    using assms by (intro ring_distance) simp_all
  then show ?thesis
    using assms d n by (auto simp: ring_position split: if_splits)
qed

lemma length_pending_less: "length (pending io) < 42"
  by (simp add: length_pending)

lemma nth_pending: "i < length (pending io) \<Longrightarrow> pending io ! i = rb io ! ((unat (rb_tail io) + i) mod 42)"
  by (simp add: pending_def)

lemma unat_rb_next: "unat (rb_next i n) = (unat i + n) mod 42"
proof -
  have "(unat i + n) mod 42 < 2 ^ LENGTH(8)"
    by (rule order.strict_trans [of _ 42]) simp_all
  then show ?thesis
    by (simp add: rb_next_def RB_SIZE_def unat_of_nat)
qed

lemma pending_empty: "ring_ok io \<Longrightarrow> pending io = [] \<longleftrightarrow> rb_head io = rb_tail io"
proof -
  assume "ring_ok io"
  then have "(unat (rb_head io) + 42 - unat (rb_tail io)) mod 42 = 0 \<longleftrightarrow> unat (rb_head io) = unat (rb_tail io)"
    by (auto simp: ring_ok_def ring_distance)
  then show ?thesis
    by (simp add: pending_def flip: word_unat_eq_iff)
qed

lemma pending_advance:
  assumes "ring_ok io" and "n \<le> length (pending io)"
  shows "ring_ok (io\<lparr>rb_tail := rb_next (rb_tail io) n\<rparr>)"
    and "pending (io\<lparr>rb_tail := rb_next (rb_tail io) n\<rparr>) = drop n (pending io)"
proof -
  let ?io = "io\<lparr>rb_tail := rb_next (rb_tail io) n\<rparr>"
  show "ring_ok ?io"
    using assms(1) by (simp add: ring_ok_def unat_rb_next)
  have "(unat (rb_head io) + 42 - (unat (rb_tail io) + n) mod 42) mod 42 =
      (unat (rb_head io) + 42 - unat (rb_tail io)) mod 42 - n"
    using assms by (intro ring_advance) (simp_all add: ring_ok_def length_pending)
  then have "length (pending ?io) = length (pending io) - n"
    by (simp add: length_pending unat_rb_next)
  then show "pending ?io = drop n (pending io)"
    by (intro nth_equalityI) (simp_all add: nth_pending unat_rb_next mod_add_left_eq add.assoc)
qed

lemma head_pending:
  assumes "ring_ok io" and "pending io = x # r"
  shows "rb io ! unat (rb_tail io) = x" and "rb_head io \<noteq> rb_tail io"
proof -
  show "rb io ! unat (rb_tail io) = x"
    using nth_pending [of 0 io] assms by (simp add: ring_ok_def)
  show "rb_head io \<noteq> rb_tail io"
    using pending_empty [OF assms(1)] assms(2) by simp
qed

text \<open>What getting an octet does, on the octets that are there.\<close>

fun next_octet :: "u8 list \<Rightarrow> bool \<times> u8 \<times> u8 list" where
  "next_octet [] = (False, 0, [])"
| "next_octet (x # r) =
     (if x \<noteq> UXR_FRAMING_ESC_FLAG then (x \<noteq> UXR_FRAMING_BEGIN_FLAG, x, r)
      else case r of
        [] \<Rightarrow> (False, 0, [x])
      | y # r' \<Rightarrow> if y \<noteq> UXR_FRAMING_BEGIN_FLAG then (True, y XOR UXR_FRAMING_XOR_FLAG, r') else (False, y, r'))"

lemma get_octet_spec:
  assumes "ring_ok io" and "uxr_get_next_octet io = (got, b, io')"
  shows "next_octet (pending io) = (got, b, pending io') \<and> ring_ok io' \<and> (\<exists>t. io' = io\<lparr>rb_tail := t\<rparr>)"
proof (cases "pending io")
  case Nil
  then have "uxr_get_next_octet io = (False, 0, io)"
    using pending_empty [OF assms(1)] by (simp add: uxr_get_next_octet_def)
  then show ?thesis
    using Nil assms by (auto intro: exI [of _ "rb_tail io"])
next
  case (Cons x r)
  note h = head_pending [OF assms(1) Cons]
  have a1: "ring_ok (io\<lparr>rb_tail := rb_next (rb_tail io) 1\<rparr>)" "pending (io\<lparr>rb_tail := rb_next (rb_tail io) 1\<rparr>) = r"
    using pending_advance [OF assms(1), of 1] Cons by simp_all
  show ?thesis
  proof (cases "x = UXR_FRAMING_ESC_FLAG")
    case False
    then show ?thesis
      using assms(2) h a1 Cons by (auto simp: uxr_get_next_octet_def)
  next
    case esc: True
    show ?thesis
    proof (cases r)
      case Nil
      then have "rb_head io = rb_next (rb_tail io) 1"
        using pending_empty [OF a1(1)] a1(2) by simp
      then have "uxr_get_next_octet io = (False, 0, io)"
        using h esc by (simp add: uxr_get_next_octet_def)
      then show ?thesis
        using assms Cons Nil esc by (auto intro: exI [of _ "rb_tail io"])
    next
      case (Cons y r')
      have p: "pending io = x # y # r'"
        using \<open>pending io = x # r\<close> Cons by simp
      have "rb io ! unat (rb_next (rb_tail io) 1) = y" "rb_head io \<noteq> rb_next (rb_tail io) 1"
        using head_pending [OF a1(1)] a1(2) Cons by simp_all
      moreover have "ring_ok (io\<lparr>rb_tail := rb_next (rb_tail io) 2\<rparr>)" "pending (io\<lparr>rb_tail := rb_next (rb_tail io) 2\<rparr>) = r'"
        using pending_advance [OF assms(1), of 2] p by simp_all
      ultimately show ?thesis
        using assms(2) h esc p by (auto simp: uxr_get_next_octet_def)
    qed
  qed
qed

text \<open>Storing octets, and what there is room for.\<close>

lemma store_fold:
  "p + n \<le> length l \<Longrightarrow> j < length l \<Longrightarrow>
    fold (\<lambda>i l. l[p + i := bs ! i]) [0..<n] l ! j = (if p \<le> j \<and> j < p + n then bs ! (j - p) else l ! j) \<and>
    length (fold (\<lambda>i l. l[p + i := bs ! i]) [0..<n] l) = length l"
  by (induction n) (auto simp: nth_list_update less_Suc_eq)

lemma length_store_fold [simp]: "length (fold (\<lambda>i l. l[p + i := bs ! i]) is l) = length l"
  by (induction "is" arbitrary: l) simp_all

lemma store_spec:
  assumes "ring_ok io" and "unat (rb_head io) + length bs \<le> 42" and "length (pending io) + length bs < 42"
  shows "ring_ok (store_octets io bs)" and "pending (store_octets io bs) = pending io @ bs"
    and "\<exists>r h. store_octets io bs = io\<lparr>rb := r, rb_head := h\<rparr>"
proof -
  let ?io = "store_octets io bs" and ?h = "unat (rb_head io)" and ?t = "unat (rb_tail io)"
  have io: "length (rb io) = 42" "?h < 42" "?t < 42"
    using assms(1) by (simp_all add: ring_ok_def)
  show "ring_ok ?io"
    using io by (simp add: ring_ok_def store_octets_def unat_rb_next)
  show "\<exists>r h. ?io = io\<lparr>rb := r, rb_head := h\<rparr>"
    unfolding store_octets_def by blast
  have l: "length (pending io) = (if ?t \<le> ?h then ?h - ?t else ?h + 42 - ?t)"
    using io by (simp add: length_pending ring_distance)
  have "((?h + length bs) mod 42 + 42 - ?t) mod 42 = (if ?t \<le> ?h then ?h - ?t else ?h + 42 - ?t) + length bs"
    using assms(2,3) io l by (auto simp: ring_distance ring_position split: if_splits)
  then have len: "length (pending ?io) = length (pending io) + length bs"
    by (simp add: l) (simp add: length_pending store_octets_def unat_rb_next)
  have at: "rb ?io ! j = (if ?h \<le> j \<and> j < ?h + length bs then bs ! (j - ?h) else rb io ! j)" if "j < 42" for j
    using store_fold [of ?h "length bs" "rb io" j bs] assms(2) io that by (simp add: store_octets_def)
  have tail: "unat (rb_tail ?io) = ?t"
    by (simp add: store_octets_def)
  show "pending ?io = pending io @ bs"
  proof (rule nth_equalityI)
    show "length (pending ?io) = length (pending io @ bs)"
      by (simp add: len)
    fix i
    assume "i < length (pending ?io)"
    then have i: "i < length (pending io) + length bs" "i < 42"
      using len length_pending_less [of ?io] by simp_all
    have p: "(?t + i) mod 42 = (if ?t + i < 42 then ?t + i else ?t + i - 42)"
      using io(3) i(2) by (rule ring_position)
    show "pending ?io ! i = (pending io @ bs) ! i"
    proof (cases "i < length (pending io)")
      case True
      then have "\<not> (?h \<le> (?t + i) mod 42 \<and> (?t + i) mod 42 < ?h + length bs)"
        using l p io assms(3) by (auto split: if_splits)
      then show ?thesis
        using True i len by (auto simp: nth_pending nth_append at tail)
    next
      case False
      then obtain k where k: "i = length (pending io) + k"
        by (metis le_Suc_ex not_less)
      then have "(?t + i) mod 42 = ?h + k" "k < length bs"
        using l p io assms i by (auto split: if_splits)
      then show ?thesis
        using i len assms(2) by (simp add: nth_pending nth_append at tail k)
    qed
  qed
qed

lemma available_spec:
  assumes "ring_ok io" and "available_length io = (a, b)"
  shows "length (pending io) + a + b \<le> 41"
    and "rb_head io \<noteq> rb_tail io \<longrightarrow> unat (rb_head io) + a \<le> 42 \<and> (0 < b \<longrightarrow> unat (rb_head io) + a = 42)"
    and "a = 0 \<longrightarrow> length (pending io) = 41" and "a \<le> 41" and "rb_head io = rb_tail io \<longrightarrow> b = 0"
proof -
  let ?h = "unat (rb_head io)" and ?t = "unat (rb_tail io)"
  have io: "?h < 42" "?t < 42" and l: "length (pending io) = (if ?t \<le> ?h then ?h - ?t else ?h + 42 - ?t)"
    using assms(1) by (simp_all add: ring_ok_def length_pending ring_distance)
  have e: "rb_head io = rb_tail io \<longleftrightarrow> ?h = ?t"
    by (simp flip: word_unat_eq_iff)
  have ab: "(a, b) = (if ?h = ?t then (41, 0) else if ?t < ?h
      then if 0 < ?t then (42 - ?h, ?t - 1) else (41 - ?h, 0) else (?t - ?h - 1, 0))"
    using assms(2) io by (auto simp: available_length_def RB_SIZE_def e word_less_nat_alt size_sub_eq cast_u8_eq)
  show "length (pending io) + a + b \<le> 41" "a = 0 \<longrightarrow> length (pending io) = 41" "a \<le> 41"
    "rb_head io \<noteq> rb_tail io \<longrightarrow> ?h + a \<le> 42 \<and> (0 < b \<longrightarrow> ?h + a = 42)" "rb_head io = rb_tail io \<longrightarrow> b = 0"
    using ab io l by (auto simp: e split: if_splits)
qed

section \<open>Reading from the device\<close>

text \<open>
  A device that keeps to the room it is given; \<open>P e bs e'\<close> says of a reading what is known of the
  octets it gave, and holds of readings one after the other when it holds of each.
\<close>

definition device_law ::
  "'e uxr_read_cb \<Rightarrow> ('e \<Rightarrow> int \<times> 'e) \<Rightarrow> ('e \<Rightarrow> u8 list \<Rightarrow> 'e \<Rightarrow> bool) \<Rightarrow> bool"
where
  "device_law read_cb millis P \<longleftrightarrow>
     (\<forall>k t err e bs err' e'. read_cb k t err e = (bs, err', e') \<longrightarrow> length bs \<le> k \<and> P e bs e') \<and>
     (\<forall>e. P e [] (snd (millis e))) \<and>
     (\<forall>e bs e1 cs e2. P e bs e1 \<longrightarrow> P e1 cs e2 \<longrightarrow> P e (bs @ cs) e2)"

lemma device_lawD:
  assumes "device_law read_cb millis P"
  shows "read_cb k t err e = (bs, err', e') \<Longrightarrow> length bs \<le> k \<and> P e bs e'"
    and "millis e = (x, e') \<Longrightarrow> P e [] e'"
    and "P e bs e1 \<Longrightarrow> P e1 cs e2 \<Longrightarrow> P e (bs @ cs) e2"
  using assms unfolding device_law_def by (blast, metis snd_conv, blast)

text \<open>Nothing but the read buffer differs.\<close>

definition ring_only :: "uxrFramingIO \<Rightarrow> uxrFramingIO \<Rightarrow> bool" where
  "ring_only io io' \<longleftrightarrow> state io' = state io \<and> local_addr io' = local_addr io \<and> src_addr io' = src_addr io \<and>
     msg_len io' = msg_len io \<and> msg_pos io' = msg_pos io \<and> msg_crc io' = msg_crc io \<and> cmp_crc io' = cmp_crc io \<and>
     wb io' = wb io \<and> wb_pos io' = wb_pos io"

lemma ring_only_simps [simp]:
  "ring_only io io" "ring_only io (io\<lparr>rb := r, rb_head := h\<rparr>)" "ring_only io (io\<lparr>rb_tail := t\<rparr>)"
  "ring_only io (io\<lparr>rb_head := h, rb_tail := t\<rparr>)" "ring_only io (store_octets io bs)"
  by (simp_all add: ring_only_def store_octets_def)

lemma ring_only_trans [trans]: "ring_only io io1 \<Longrightarrow> ring_only io1 io2 \<Longrightarrow> ring_only io io2"
  by (simp add: ring_only_def)

lemma store_two:
  assumes ok: "ring_ok io" and a: "unat (rb_head io) + a \<le> 42" "0 < b \<Longrightarrow> unat (rb_head io) + a = 42"
    and room: "length (pending io) + a + b \<le> 41"
    and bs: "length bs \<le> a" and cs: "length cs \<le> b" "cs \<noteq> [] \<Longrightarrow> length bs = a"
  defines "io' \<equiv> if cs = [] then store_octets io bs else store_octets (store_octets io bs) cs"
  shows "ring_only io io' \<and> ring_ok io' \<and> pending io' = pending io @ bs @ cs"
proof -
  have 1: "ring_ok (store_octets io bs)" "pending (store_octets io bs) = pending io @ bs" "ring_only io (store_octets io bs)"
    using store_spec [OF ok, of bs] a(1) room bs by simp_all
  have 2: "ring_ok (store_octets (store_octets io bs) cs)" "pending (store_octets (store_octets io bs) cs) = pending io @ bs @ cs"
    "ring_only io (store_octets (store_octets io bs) cs)" if "cs \<noteq> []"
  proof -
    have "0 < b"
      using cs that by (cases cs) auto
    then have "unat (rb_head (store_octets io bs)) = 0"
      using cs(2) that a(2) by (simp add: store_octets_def unat_rb_next)
    then show "ring_ok (store_octets (store_octets io bs) cs)"
      "pending (store_octets (store_octets io bs) cs) = pending io @ bs @ cs"
      "ring_only io (store_octets (store_octets io bs) cs)"
      using store_spec [OF 1(1), of cs] 1 room bs cs(1)
      by (simp_all add: ring_only_trans [OF 1(3)])
  qed
  show ?thesis
    using 1 2 by (simp add: io'_def)
qed

lemma store_octets_Nil: "ring_ok io \<Longrightarrow> store_octets io [] = io"
  by (simp add: store_octets_def ring_ok_def rb_next_def RB_SIZE_def)

lemma read_transport_spec:
  assumes ok: "ring_ok io" and law: "device_law read_cb millis P"
    and r: "uxr_framing_read_transport io read_cb millis timeout err k e = (n, io', timeout', err', e')"
  shows "\<exists>bs. ring_only io io' \<and> ring_ok io' \<and> pending io' = pending io @ bs \<and> n = length bs \<and> n \<le> k \<and> P e bs e'"
    and "0 < k \<Longrightarrow> length (pending io) < 41 \<Longrightarrow> n = 0 \<Longrightarrow>
      \<exists>k'. 0 < k' \<and> fst (read_cb k' timeout err (snd (millis e))) = []"
proof -
  note D = device_lawD [OF law]
  obtain now0 e0 where m0: "millis e = (now0, e0)" by force
  obtain a b where ab: "available_length io = (a, b)" by force
  note A = available_spec [OF ok ab]
  define io0 where "io0 = (if rb_head io = rb_tail io then io\<lparr>rb_head := 0, rb_tail := 0\<rparr> else io)"
  have io0: "ring_only io io0" "ring_ok io0" "pending io0 = pending io"
    "unat (rb_head io0) + a \<le> 42" "0 < b \<Longrightarrow> unat (rb_head io0) + a = 42"
    using ok A pending_empty [OF ok] pending_empty [of "io\<lparr>rb_head := 0, rb_tail := 0\<rparr>"]
    by (auto simp: io0_def ring_ok_def)
  define a' b' where "a' = (if k < a then k else a)" and "b' = (if k < a then 0 else if k < a + b then k - a else b)"
  have lim: "(if k < a then (cast_u8 k, 0) else if k < a + b then (a, cast_u8 (size_sub k a)) else (a, b)) = (a', b')"
    using A(1) by (auto simp: a'_def b'_def cast_u8_eq size_sub_eq)
  have ab': "a' \<le> a" "b' \<le> b" "0 < b' \<Longrightarrow> a' = a" "a' + b' \<le> k" "0 < k \<Longrightarrow> 0 < a \<Longrightarrow> 0 < a'"
    by (auto simp: a'_def b'_def split: if_splits)
  have room: "length (pending io0) + a' + b' \<le> 41" "unat (rb_head io0) + a' \<le> 42"
    "0 < b' \<Longrightarrow> unat (rb_head io0) + a' = 42"
    using ab' A(1) io0 by auto
  note R = r [unfolded uxr_framing_read_transport_def Let_def m0 ab prod.case, folded io0_def, unfolded lim prod.case]
  obtain now2 e2 n2 io2 err2 where inner: "(if 0 < a' then case read_cb a' timeout err e0 of (bs, err1, e1) \<Rightarrow>
        if 0 < length bs \<and> length bs = a' \<and> 0 < b' then case read_cb b' 0 err1 e1 of (cs, err2, e2) \<Rightarrow>
          (length bs + length cs, store_octets (store_octets io0 bs) cs, err2, e2)
        else (length bs, store_octets io0 bs, err1, e1)
      else (0, io0, err, e0)) = (n2, io2, err2, e2)"
    by (rule prod_cases4)
  have e': "n = n2" "io' = io2" "P e2 [] e'"
    using R D(2) by (auto simp: inner Let_def split: prod.splits)
  have P0: "P e [] e0"
    using D(2) [OF m0] .
  have "\<exists>bs. ring_only io io2 \<and> ring_ok io2 \<and> pending io2 = pending io @ bs \<and> n2 = length bs \<and> n2 \<le> k \<and> P e bs e2"
  proof (cases "0 < a'")
    case False
    then show ?thesis
      using inner io0 P0 by auto
  next
    case True
    obtain bs err1 e1 where c1: "read_cb a' timeout err e0 = (bs, err1, e1)"
      by (metis prod_cases3)
    note d1 = D(1) [OF c1]
    have p1: "P e bs e1"
      using D(3) [OF P0, of bs e1] d1 by simp
    show ?thesis
    proof (cases "0 < length bs \<and> length bs = a' \<and> 0 < b'")
      case two: True
      obtain cs err3 e3 where c2: "read_cb b' 0 err1 e1 = (cs, err3, e3)"
        by (metis prod_cases3)
      note d2 = D(1) [OF c2]
      have s: "n2 = length bs + length cs" "io2 = store_octets (store_octets io0 bs) cs" "e2 = e3"
        using inner True c1 two c2 by auto
      have st: "io2 = (if cs = [] then store_octets io0 bs else store_octets (store_octets io0 bs) cs)"
        using store_octets_Nil store_spec(1) [OF io0(2), of bs] room two by (auto simp: s)
      show ?thesis
        using store_two [OF io0(2) room(2,3,1), of bs cs] two d2 io0 ab' D(3) [OF p1, of cs e3]
        by (auto simp: s(1,3) st intro!: exI [of _ "bs @ cs"] intro: ring_only_trans)
    next
      case one: False
      have s: "n2 = length bs" "io2 = store_octets io0 bs" "e2 = e1"
        using inner True c1 one by auto
      show ?thesis
        using store_two [OF io0(2) room(2,3,1), of bs "[]"] d1 io0 ab' p1
        by (auto simp: s intro!: exI [of _ bs] intro: ring_only_trans)
    qed
  qed
  then show "\<exists>bs. ring_only io io' \<and> ring_ok io' \<and> pending io' = pending io @ bs \<and> n = length bs \<and> n \<le> k \<and> P e bs e'"
    using e' D(3) by fastforce
  show "\<exists>k'. 0 < k' \<and> fst (read_cb k' timeout err (snd (millis e))) = []"
    if "0 < k" "length (pending io) < 41" "n = 0"
  proof -
    have "0 < a'"
      using that A(3) ab'(5) by auto
    then have "fst (read_cb a' timeout err e0) = []"
      using inner that e'(1) by (auto split: prod.splits if_splits)
    then show ?thesis
      using \<open>0 < a'\<close> m0 by auto
  qed
qed

end
