(* ===== verification/FramingRead.thy ===== *)
theory FramingRead
  imports FramingFacts
begin

text \<open>What is proved about reading frames.\<close>

section \<open>A device that delivers a stream\<close>

definition feeds :: "'e uxr_read_cb \<Rightarrow> ('e \<Rightarrow> int \<times> 'e) \<Rightarrow> ('e \<Rightarrow> u8 list) \<Rightarrow> bool" where
  "feeds read_cb millis chan \<longleftrightarrow> device_law read_cb millis (\<lambda>e bs e'. chan e = bs @ chan e') \<and>
     (\<forall>k t err e. 0 < k \<and> chan e \<noteq> [] \<longrightarrow> fst (read_cb k t err e) \<noteq> [])"

definition unread :: "('e \<Rightarrow> u8 list) \<Rightarrow> 'e framing_run \<Rightarrow> u8 list" where
  "unread chan run = pending (framing_io run) @ chan (device run)"

text \<open>Nothing but the read buffer, the device, the time left and the error code differs.\<close>

definition run_like :: "'e framing_run \<Rightarrow> 'e framing_run \<Rightarrow> bool" where
  "run_like run run' \<longleftrightarrow> ring_only (framing_io run) (framing_io run') \<and> buf_mem run' = buf_mem run \<and>
     sender run' = sender run \<and> run_rv run' = run_rv run"

lemma run_like_refl [simp]: "run_like run run"
  by (simp add: run_like_def)

lemma run_like_trans [trans]: "run_like run run1 \<Longrightarrow> run_like run1 run2 \<Longrightarrow> run_like run run2"
  unfolding run_like_def by (metis ring_only_trans)

lemma fetch_law:
  assumes law: "device_law read_cb millis (\<lambda>e bs e'. chan e = bs @ chan e')" and ok: "ring_ok (framing_io run)"
    and r: "fetch_octets read_cb millis k run = (n, run')"
  shows "run_like run run'" and "ring_ok (framing_io run')" and "unread chan run' = unread chan run"
    and "n \<le> k" and "length (chan (device run)) = length (chan (device run')) + n"
    and "0 < k \<Longrightarrow> length (pending (framing_io run)) < 41 \<Longrightarrow> n = 0 \<Longrightarrow>
      \<exists>k'. 0 < k' \<and> fst (read_cb k' (time_left run) (run_errcode run) (snd (millis (device run)))) = []"
proof -
  let ?io = "framing_io run"
  obtain io1 t1 err1 e1 where t: "uxr_framing_read_transport ?io read_cb millis (time_left run) (run_errcode run) k
      (device run) = (n, io1, t1, err1, e1)" and run': "run' = run\<lparr>framing_io := io1, time_left := t1,
      run_errcode := err1, device := e1\<rparr>"
    using r by (auto simp: fetch_octets_def split: prod.splits)
  obtain bs where bs: "ring_only ?io io1" "ring_ok io1" "pending io1 = pending ?io @ bs" "n = length bs" "n \<le> k"
    "chan (device run) = bs @ chan e1"
    using read_transport_spec(1) [OF ok law t] by blast
  show "run_like run run'" "ring_ok (framing_io run')" "unread chan run' = unread chan run" "n \<le> k"
    "length (chan (device run)) = length (chan (device run')) + n"
    using bs by (simp_all add: run' run_like_def unread_def)
  show "\<exists>k'. 0 < k' \<and> fst (read_cb k' (time_left run) (run_errcode run) (snd (millis (device run)))) = []"
    if "0 < k" "length (pending ?io) < 41" "n = 0"
    by (rule read_transport_spec(2) [OF ok law t that])
qed

lemma fetch_spec:
  assumes f: "feeds read_cb millis chan" and ok: "ring_ok (framing_io run)"
    and r: "fetch_octets read_cb millis k run = (n, run')"
  shows "run_like run run'" and "ring_ok (framing_io run')" and "unread chan run' = unread chan run"
    and "n \<le> k" and "length (chan (device run)) = length (chan (device run')) + n"
    and "0 < k \<Longrightarrow> length (pending (framing_io run)) < 41 \<Longrightarrow> chan (device run) \<noteq> [] \<Longrightarrow> 0 < n"
proof -
  have law: "device_law read_cb millis (\<lambda>e bs e'. chan e = bs @ chan e')"
    using f by (simp add: feeds_def)
  note F = fetch_law [OF law ok r]
  show "run_like run run'" "ring_ok (framing_io run')" "unread chan run' = unread chan run" "n \<le> k"
    "length (chan (device run)) = length (chan (device run')) + n"
    by (rule F)+
  show "0 < n" if "0 < k" "length (pending (framing_io run)) < 41" "chan (device run) \<noteq> []"
  proof (rule ccontr)
    assume "\<not> 0 < n"
    then have "n = 0"
      by simp
    from F(6) [OF that(1,2) this]
    obtain k' where k': "0 < k'" "fst (read_cb k' (time_left run) (run_errcode run) (snd (millis (device run)))) = []"
      by blast
    have "chan (device run) = [] @ chan (snd (millis (device run)))"
      by (rule device_lawD(2) [OF law prod.collapse [symmetric]])
    then have "chan (snd (millis (device run))) = chan (device run)"
      unfolding append_Nil by (rule sym)
    then show False
      using k' f that(3) by (simp add: feeds_def)
  qed
qed

section \<open>Waiting for an octet\<close>

lemma no_octet: "uxr_get_next_octet io = (False, 0, io1) \<Longrightarrow> io1 = io"
  by (auto simp: uxr_get_next_octet_def Let_def UXR_FRAMING_BEGIN_FLAG_def split: if_splits)

lemma stuffed_cases:
  assumes "p @ c = stuffed b @ r"
  shows "(\<exists>p'. next_octet p = (True, b, p') \<and> p' @ c = r) \<or> (next_octet p = (False, 0, p) \<and> length p < 2 \<and> c \<noteq> [])"
proof (cases "b = UXR_FRAMING_BEGIN_FLAG \<or> b = UXR_FRAMING_ESC_FLAG")
  case True
  let ?x = "b XOR UXR_FRAMING_XOR_FLAG"
  have x: "?x \<noteq> UXR_FRAMING_BEGIN_FLAG" "?x XOR UXR_FRAMING_XOR_FLAG = b"
    using True by (auto simp: UXR_FRAMING_BEGIN_FLAG_def UXR_FRAMING_ESC_FLAG_def UXR_FRAMING_XOR_FLAG_def)
  have e: "p @ c = UXR_FRAMING_ESC_FLAG # ?x # r"
    using True assms by (auto simp: stuffed_def)
  show ?thesis
  proof (cases p)
    case Nil
    then show ?thesis
      using e by auto
  next
    case (Cons y p1)
    then show ?thesis
      using e x by (cases p1) auto
  qed
next
  case False
  then have e: "p @ c = b # r"
    using assms by (simp add: stuffed_def)
  then show ?thesis
    using False by (cases p) auto
qed

text \<open>In these states the reader asks for more as long as there is no octet.\<close>

definition waits :: "'e uxr_read_cb \<Rightarrow> ('e \<Rightarrow> int \<times> 'e) \<Rightarrow> addr \<Rightarrow> size_t \<Rightarrow> uxrFramingInputState \<Rightarrow> size_t \<Rightarrow> bool" where
  "waits read_cb millis buf len s k \<longleftrightarrow>
     (\<forall>run. state (framing_io run) = s \<longrightarrow> uxr_get_next_octet (framing_io run) = (False, 0, framing_io run) \<longrightarrow>
        0 < fst (fetch_octets read_cb millis k run) \<longrightarrow>
        framing_step read_cb millis buf len run = Some (False, snd (fetch_octets read_cb millis k run)))"

lemma waits_simps:
  "waits read_cb millis buf len UXR_FRAMING_READING_DST_ADDR 3"
  "waits read_cb millis buf len UXR_FRAMING_READING_LEN_LSB 2"
  "waits read_cb millis buf len UXR_FRAMING_READING_LEN_MSB 1"
  "waits read_cb millis buf len UXR_FRAMING_READING_CRC_LSB 2"
  "waits read_cb millis buf len UXR_FRAMING_READING_CRC_MSB 1"
  by (auto simp: waits_def framing_step_def split: prod.splits)

lemma framing_loop_next:
  "framing_step read_cb millis buf len run = Some (False, run1) \<Longrightarrow>
    framing_loop read_cb millis buf len run = framing_loop read_cb millis buf len run1"
  by (subst framing_loop.simps) simp

lemma await_octet:
  assumes f: "feeds read_cb millis chan" and w: "waits read_cb millis buf len s k" and k: "0 < k"
    and "state (framing_io run) = s" and "ring_ok (framing_io run)" and "unread chan run = stuffed b @ r"
  shows "\<exists>run1 io1. framing_loop read_cb millis buf len run = framing_loop read_cb millis buf len run1 \<and>
    run_like run run1 \<and> ring_ok io1 \<and> ring_only (framing_io run1) io1 \<and>
    uxr_get_next_octet (framing_io run1) = (True, b, io1) \<and> pending io1 @ chan (device run1) = r"
  using assms(4-6)
proof (induction "length (chan (device run))" arbitrary: run rule: less_induct)
  case less
  let ?io = "framing_io run"
  obtain got x io1 where g: "uxr_get_next_octet ?io = (got, x, io1)"
    by (metis prod_cases3)
  note G = get_octet_spec [OF less.prems(2) g]
  show ?case
    using stuffed_cases [OF less.prems(3) [unfolded unread_def]]
  proof
    assume "\<exists>p'. next_octet (pending ?io) = (True, b, p') \<and> p' @ chan (device run) = r"
    then have "got" "x = b" "pending io1 @ chan (device run) = r"
      using G by auto
    moreover have "ring_only ?io io1"
      using G by auto
    ultimately show ?thesis
      using g G by (intro exI [of _ run] exI [of _ io1]) simp
  next
    assume a: "next_octet (pending ?io) = (False, 0, pending ?io) \<and> length (pending ?io) < 2 \<and> chan (device run) \<noteq> []"
    have "uxr_get_next_octet ?io = (False, 0, ?io)"
      using G a g no_octet by auto
    obtain n run1 where fe: "fetch_octets read_cb millis k run = (n, run1)"
      by force
    note F = fetch_spec [OF f less.prems(2) fe]
    have "0 < n"
      using F(6) k a by simp
    then have "framing_loop read_cb millis buf len run = framing_loop read_cb millis buf len run1"
      using w less.prems(1) \<open>uxr_get_next_octet ?io = (False, 0, ?io)\<close> fe
      by (intro framing_loop_next) (simp add: waits_def)
    moreover have "length (chan (device run1)) < length (chan (device run))" "state (framing_io run1) = s"
      "ring_ok (framing_io run1)" "unread chan run1 = stuffed b @ r"
      using F \<open>0 < n\<close> less.prems by (simp_all add: run_like_def ring_only_def)
    note less.hyps [OF this]
    ultimately show ?thesis
      using F(1) run_like_trans by metis
  qed
qed

section \<open>Header and checksum\<close>

lemma SRC_waits:
  assumes "state (framing_io run) = UXR_FRAMING_READING_SRC_ADDR"
    and "uxr_get_next_octet (framing_io run) = (False, 0, framing_io run)"
    and "fetch_octets read_cb millis 4 (run\<lparr>framing_io := (framing_io run)\<lparr>src_addr := 0\<rparr>\<rparr>) = (n, run1)" and "0 < n"
  shows "framing_step read_cb millis buf len run = Some (False, run1)"
  using assms by (simp add: framing_step_def)

text \<open>One octet taken: the loop goes on with what the state machine makes of it.\<close>

definition run_with :: "'e framing_run \<Rightarrow> uxrFramingIO \<Rightarrow> 'e framing_run" where
  "run_with run io = run\<lparr>framing_io := io\<rparr>"

lemma run_with_simps [simp]:
  "framing_io (run_with run io) = io" "buf_mem (run_with run io) = buf_mem run" "sender (run_with run io) = sender run"
  "run_rv (run_with run io) = run_rv run" "device (run_with run io) = device run"
  by (simp_all add: run_with_def)

text \<open>Where a run stands between octets: its state, the fields that matter there and what is unread.\<close>

definition at :: "('e \<Rightarrow> u8 list) \<Rightarrow> uxrFramingInputState \<Rightarrow> u8 list \<Rightarrow> 'e framing_run \<Rightarrow> bool" where
  "at chan s r run \<longleftrightarrow> state (framing_io run) = s \<and> ring_ok (framing_io run) \<and> unread chan run = r"

lemma ring_ok_fields [simp]:
  "ring_ok (io\<lparr>state := s\<rparr>) = ring_ok io" "ring_ok (io\<lparr>src_addr := a\<rparr>) = ring_ok io"
  "ring_ok (io\<lparr>msg_len := n\<rparr>) = ring_ok io" "ring_ok (io\<lparr>msg_pos := n\<rparr>) = ring_ok io"
  "ring_ok (io\<lparr>msg_crc := n\<rparr>) = ring_ok io" "ring_ok (io\<lparr>cmp_crc := n\<rparr>) = ring_ok io"
  by (simp_all add: ring_ok_def)

lemma pending_fields [simp]:
  "pending (io\<lparr>state := s\<rparr>) = pending io" "pending (io\<lparr>src_addr := a\<rparr>) = pending io"
  "pending (io\<lparr>msg_len := n\<rparr>) = pending io" "pending (io\<lparr>msg_pos := n\<rparr>) = pending io"
  "pending (io\<lparr>msg_crc := n\<rparr>) = pending io" "pending (io\<lparr>cmp_crc := n\<rparr>) = pending io"
  by (simp_all add: pending_def)

lemma read_SRC:
  assumes f: "feeds read_cb millis chan" and "at chan UXR_FRAMING_READING_SRC_ADDR (stuffed b @ r) run"
  shows "\<exists>run1. framing_loop read_cb millis buf len run = framing_loop read_cb millis buf len run1 \<and>
    at chan UXR_FRAMING_READING_DST_ADDR r run1 \<and> src_addr (framing_io run1) = b \<and>
    local_addr (framing_io run1) = local_addr (framing_io run) \<and> buf_mem run1 = buf_mem run \<and>
    sender run1 = sender run \<and> run_rv run1 = run_rv run"
  using assms(2)
proof (induction "length (chan (device run))" arbitrary: run rule: less_induct)
  case less
  let ?io = "framing_io run"
  obtain got x io1 where g: "uxr_get_next_octet ?io = (got, x, io1)"
    by (metis prod_cases3)
  note L = less.prems [unfolded at_def]
  note G = get_octet_spec [OF conjunct1 [OF conjunct2 [OF L]] g]
  have "pending ?io @ chan (device run) = stuffed b @ r"
    using L by (simp add: unread_def)
  from stuffed_cases [OF this] show ?case
  proof
    assume "\<exists>p'. next_octet (pending ?io) = (True, b, p') \<and> p' @ chan (device run) = r"
    then have o: "got" "x = b" "pending io1 @ chan (device run) = r"
      using G by auto
    define run1 where "run1 = go UXR_FRAMING_READING_DST_ADDR (run\<lparr>framing_io := io1\<lparr>src_addr := b\<rparr>\<rparr>)"
    have "framing_step read_cb millis buf len run = Some (False, run1)"
      using g o L by (simp add: framing_step_def run1_def)
    then have "framing_loop read_cb millis buf len run = framing_loop read_cb millis buf len run1"
      by (rule framing_loop_next)
    then show ?thesis
      using G o L by (intro exI [of _ run1]) (auto simp: run1_def go_def at_def unread_def)
  next
    assume a: "next_octet (pending ?io) = (False, 0, pending ?io) \<and> length (pending ?io) < 2 \<and> chan (device run) \<noteq> []"
    have g0: "uxr_get_next_octet ?io = (False, 0, ?io)"
      using G a g no_octet by auto
    define run0 where "run0 = run\<lparr>framing_io := ?io\<lparr>src_addr := 0\<rparr>\<rparr>"
    obtain n run1 where fe: "fetch_octets read_cb millis 4 run0 = (n, run1)"
      by force
    have ok0: "ring_ok (framing_io run0)"
      using L by (simp add: run0_def)
    note F = fetch_spec [OF f ok0 fe]
    have n: "0 < n"
      using F(6) a by (simp add: run0_def)
    have "framing_loop read_cb millis buf len run = framing_loop read_cb millis buf len run1"
      using SRC_waits [OF _ g0 _ n] L fe by (intro framing_loop_next) (simp add: run0_def)
    moreover have "length (chan (device run1)) < length (chan (device run))"
      "at chan UXR_FRAMING_READING_SRC_ADDR (stuffed b @ r) run1"
      "local_addr (framing_io run1) = local_addr ?io" "buf_mem run1 = buf_mem run" "sender run1 = sender run"
      "run_rv run1 = run_rv run"
      using F n L by (simp_all add: run_like_def ring_only_def at_def run0_def unread_def)
    moreover note less.hyps [OF this(1,2)]
    ultimately show ?thesis
      by metis
  qed
qed

lemma take_octet:
  assumes f: "feeds read_cb millis chan" and w: "waits read_cb millis buf len s k" "0 < k"
    and a: "at chan s (stuffed b @ r) run"
    and step: "\<And>run1 io1. state (framing_io run1) = s \<Longrightarrow> uxr_get_next_octet (framing_io run1) = (True, b, io1) \<Longrightarrow>
      framing_step read_cb millis buf len run1 = Some (ex (run_with run1 io1), F (run_with run1 io1))"
  shows "\<exists>run2. run_like run run2 \<and> at chan s r run2 \<and> framing_loop read_cb millis buf len run =
    (if ex run2 then Some (F run2) else framing_loop read_cb millis buf len (F run2))"
proof -
  obtain run1 io1 where r1: "framing_loop read_cb millis buf len run = framing_loop read_cb millis buf len run1"
    "run_like run run1" "ring_ok io1" "ring_only (framing_io run1) io1"
    "uxr_get_next_octet (framing_io run1) = (True, b, io1)" "pending io1 @ chan (device run1) = r"
    using await_octet [OF f w(1,2)] a unfolding at_def by metis
  have "state (framing_io run1) = s"
    using r1(2) a by (simp add: run_like_def ring_only_def at_def)
  note st = step [OF this r1(5)]
  have "run_like run (run_with run1 io1)" "at chan s r (run_with run1 io1)"
    using r1 a by (auto simp: run_like_def at_def unread_def ring_only_def)
  moreover have "framing_loop read_cb millis buf len run =
      (if ex (run_with run1 io1) then Some (F (run_with run1 io1))
       else framing_loop read_cb millis buf len (F (run_with run1 io1)))"
    unfolding r1(1) by (subst framing_loop.simps) (simp add: st)
  ultimately show ?thesis
    by blast
qed

lemma go_simps [simp]:
  "framing_io (go s run) = (framing_io run)\<lparr>state := s\<rparr>" "buf_mem (go s run) = buf_mem run"
  "sender (go s run) = sender run" "run_rv (go s run) = run_rv run" "device (go s run) = device run"
  by (simp_all add: go_def)

text \<open>The length in the header and the checksum are put together from two octets.\<close>

lemma two_octets: "ucast (ucast w :: u8) + push_bit 8 (ucast (ucast (drop_bit 8 w) :: u8)) = (w :: u16)"
proof (rule bit_word_eqI)
  have "ucast (ucast w :: u8) AND push_bit 8 (ucast (ucast (drop_bit 8 w) :: u8)) = (0 :: u16)"
    by (rule bit_word_eqI) (auto simp: bit_simps)
  then have "ucast (ucast w :: u8) + push_bit 8 (ucast (ucast (drop_bit 8 w) :: u8)) =
      (ucast (ucast w :: u8) OR push_bit 8 (ucast (ucast (drop_bit 8 w) :: u8)) :: u16)"
    by (rule disjunctive_add_eq_or)
  then show "bit (ucast (ucast w :: u8) + push_bit 8 (ucast (ucast (drop_bit 8 w) :: u8)) :: u16) n = bit w n"
    if "n < LENGTH(16)" for n
    using that by (auto simp: bit_simps)
qed

lemma length_octets:
  assumes "n < 65536"
  shows "ucast (of_nat (n mod 256) :: u8) + push_bit 8 (ucast (of_nat (n div 256) :: u8)) = (of_nat n :: u16)"
proof -
  have "(of_nat (n mod 256) :: u8) = ucast (of_nat n :: u16)"
    by (rule word_unat_eq_iff [THEN iffD2])
      (use assms in \<open>simp add: unat_of_nat unsigned_ucast_eq take_bit_eq_mod\<close>)
  moreover have "unat (drop_bit 8 (of_nat n :: u16)) = n div 256"
    unfolding unsigned_drop_bit_eq unfolding drop_bit_eq_div using assms by (simp add: unat_of_nat take_bit_eq_mod)
  then have "(of_nat (n div 256) :: u8) = ucast (drop_bit 8 (of_nat n :: u16))"
    by (metis of_nat_unat)
  ultimately show ?thesis
    using two_octets by metis
qed

lemma read_header:
  assumes f: "feeds read_cb millis chan" and n: "n < 65536" "n \<le> len"
    and a: "at chan UXR_FRAMING_READING_SRC_ADDR (stuff [src, local_addr (framing_io run),
        of_nat (n mod 256), of_nat (n div 256)] @ r) run"
  shows "\<exists>run1. framing_loop read_cb millis buf len run = framing_loop read_cb millis buf len run1 \<and>
    at chan UXR_FRAMING_READING_PAYLOAD r run1 \<and> src_addr (framing_io run1) = src \<and>
    msg_len (framing_io run1) = of_nat n \<and> msg_pos (framing_io run1) = 0 \<and> cmp_crc (framing_io run1) = 0 \<and>
    local_addr (framing_io run1) = local_addr (framing_io run) \<and> buf_mem run1 = buf_mem run \<and>
    sender run1 = sender run \<and> run_rv run1 = run_rv run"
proof -
  let ?l = "local_addr (framing_io run)" and ?loop = "framing_loop read_cb millis buf len"
  let ?lo = "of_nat (n mod 256) :: u8" and ?hi = "of_nat (n div 256) :: u8"
  obtain r1 where r1: "?loop run = ?loop r1" "at chan UXR_FRAMING_READING_DST_ADDR (stuffed ?l @ stuffed ?lo @ stuffed ?hi @ r) r1"
    "src_addr (framing_io r1) = src" "local_addr (framing_io r1) = ?l" "buf_mem r1 = buf_mem run"
    "sender r1 = sender run" "run_rv r1 = run_rv run"
    using read_SRC [OF f, of src "stuffed ?l @ stuffed ?lo @ stuffed ?hi @ r" run buf len] a by auto
  have "\<exists>r2. run_like r1 r2 \<and> at chan UXR_FRAMING_READING_DST_ADDR (stuffed ?lo @ stuffed ?hi @ r) r2 \<and>
      ?loop r1 = (if False then Some (go (if ?l = local_addr (framing_io r2) then UXR_FRAMING_READING_LEN_LSB
        else UXR_FRAMING_UNINITIALIZED) r2) else ?loop (go (if ?l = local_addr (framing_io r2)
        then UXR_FRAMING_READING_LEN_LSB else UXR_FRAMING_UNINITIALIZED) r2))"
    by (rule take_octet [OF f waits_simps(1) _ r1(2)]) (simp_all add: framing_step_def run_with_def)
  then obtain r2 where r2: "run_like r1 r2" "at chan UXR_FRAMING_READING_DST_ADDR (stuffed ?lo @ stuffed ?hi @ r) r2"
    "?loop r1 = ?loop (go UXR_FRAMING_READING_LEN_LSB r2)"
    using r1(4) by (auto simp: run_like_def ring_only_def)
  have a2: "at chan UXR_FRAMING_READING_LEN_LSB (stuffed ?lo @ stuffed ?hi @ r) (go UXR_FRAMING_READING_LEN_LSB r2)"
    using r2(2) by (simp add: at_def unread_def)
  have "\<exists>r3. run_like (go UXR_FRAMING_READING_LEN_LSB r2) r3 \<and> at chan UXR_FRAMING_READING_LEN_LSB (stuffed ?hi @ r) r3 \<and>
      ?loop (go UXR_FRAMING_READING_LEN_LSB r2) = (if False then Some (go UXR_FRAMING_READING_LEN_MSB
        (run_with r3 ((framing_io r3)\<lparr>msg_len := ucast ?lo\<rparr>))) else ?loop (go UXR_FRAMING_READING_LEN_MSB
        (run_with r3 ((framing_io r3)\<lparr>msg_len := ucast ?lo\<rparr>))))"
    by (rule take_octet [OF f waits_simps(2) _ a2]) (simp_all add: framing_step_def run_with_def)
  then obtain r3 where r3: "run_like (go UXR_FRAMING_READING_LEN_LSB r2) r3"
    "at chan UXR_FRAMING_READING_LEN_LSB (stuffed ?hi @ r) r3"
    "?loop (go UXR_FRAMING_READING_LEN_LSB r2) = ?loop (go UXR_FRAMING_READING_LEN_MSB
        (run_with r3 ((framing_io r3)\<lparr>msg_len := ucast ?lo\<rparr>)))"
    by auto
  define r3' where "r3' = go UXR_FRAMING_READING_LEN_MSB (run_with r3 ((framing_io r3)\<lparr>msg_len := ucast ?lo\<rparr>))"
  have a3: "at chan UXR_FRAMING_READING_LEN_MSB (stuffed ?hi @ r) r3'"
    using r3(2) by (simp add: at_def unread_def r3'_def)
  define F where "F r4 = (let io2 = (framing_io r4)\<lparr>msg_len := msg_len (framing_io r4) + push_bit 8 (ucast ?hi),
      msg_pos := 0, cmp_crc := 0\<rparr> in if len < unat (msg_len io2) then go UXR_FRAMING_UNINITIALIZED (run_with r4 io2)
      else go UXR_FRAMING_READING_PAYLOAD (run_with r4 io2))" for r4 :: "'a framing_run"
  have "\<exists>r4. run_like r3' r4 \<and> at chan UXR_FRAMING_READING_LEN_MSB r r4 \<and>
      ?loop r3' = (if len < unat (msg_len (framing_io r4) + push_bit 8 (ucast ?hi)) then Some (F r4) else ?loop (F r4))"
    by (rule take_octet [OF f waits_simps(3) _ a3]) (simp_all add: framing_step_def run_with_def F_def Let_def)
  then obtain r4 where r4: "run_like r3' r4" "at chan UXR_FRAMING_READING_LEN_MSB r r4"
      "?loop r3' = (if len < unat (msg_len (framing_io r4) + push_bit 8 (ucast ?hi)) then Some (F r4) else ?loop (F r4))"
    by blast
  have "msg_len (framing_io r4) = ucast ?lo"
    using r4(1) by (simp add: run_like_def ring_only_def r3'_def)
  then have ml: "msg_len (framing_io r4) + push_bit 8 (ucast ?hi) = of_nat n"
    using length_octets [OF n(1)] by simp
  have "\<not> len < unat (of_nat n :: u16)"
    using n by (simp add: unat_of_nat)
  then have "?loop run = ?loop (F r4)"
    using r1(1) r2(3) r3(3) r4(3) ml by (simp add: r3'_def)
  then show ?thesis
    using r1 r2(1) r3(1) r4(1,2) ml n
    by (intro exI [of _ "F r4"])
      (auto simp: F_def Let_def unat_of_nat at_def unread_def run_like_def ring_only_def r3'_def)
qed

section \<open>The message itself\<close>

lemma checksum_snoc: "checksum (bs @ [b]) = uxr_update_crc (checksum bs) b"
  by (simp add: checksum_def)

lemma wr_snoc: "wr m buf (bs @ [b]) = (wr m buf bs)(buf + length bs := b)"
  by (rule ext) (auto simp: wr_def nth_append)

lemma read_payload_spec:
  assumes "ring_ok io" and "pending io @ c = stuff (drop p bs) @ r" and "p \<le> length bs" and "length bs < 65536"
    and "msg_len io = of_nat (length bs)" and "msg_pos io = of_nat p" and "cmp_crc io = checksum (take p bs)"
    and "m = wr m0 buf (take p bs)" and "read_payload buf octet io m = (octet1, io1, m1)"
  shows "\<exists>p' \<le> length bs. ring_ok io1 \<and> pending io1 @ c = stuff (drop p' bs) @ r \<and> msg_pos io1 = of_nat p' \<and>
    cmp_crc io1 = checksum (take p' bs) \<and> m1 = wr m0 buf (take p' bs) \<and>
    (\<exists>t q k. io1 = io\<lparr>rb_tail := t, msg_pos := q, cmp_crc := k\<rparr>) \<and>
    (p' < length bs \<longrightarrow> octet1 = 0 \<and> length (pending io1) < 2 \<and> c \<noteq> [])"
  using assms
proof (induction buf octet io m arbitrary: p rule: read_payload.induct)
  case (1 buf octet io m)
  have un: "unat (of_nat q :: u16) = q" if "q \<le> length bs" for q
    using that 1(5) by (simp add: unat_of_nat)
  have lt: "msg_pos io < msg_len io \<longleftrightarrow> p < length bs"
    using 1(4) by (simp add: 1(6,7) word_less_nat_alt un)
  show ?case
  proof (cases "p < length bs")
    case False
    then have "io1 = io" "m1 = m"
      using 1(10) lt by (simp_all add: read_payload.simps)
    then show ?thesis
      using 1(2-9) False by (intro exI [of _ p] conjI exI [of _ "rb_tail io"] exI [of _ "msg_pos io"] exI [of _ "cmp_crc io"]) simp_all
  next
    case True
    then have d: "drop p bs = bs ! p # drop (Suc p) bs" and tk: "take (Suc p) bs = take p bs @ [bs ! p]"
      by (simp_all add: Cons_nth_drop_Suc take_Suc_conv_app_nth)
    obtain got x io2 where g: "uxr_get_next_octet io = (got, x, io2)"
      by (metis prod_cases3)
    note G = get_octet_spec [OF 1(2) g]
    have "pending io @ c = stuffed (bs ! p) @ stuff (drop (Suc p) bs) @ r"
      using 1(3) d by simp
    from stuffed_cases [OF this] show ?thesis
    proof
      assume "\<exists>p'. next_octet (pending io) = (True, bs ! p, p') \<and> p' @ c = stuff (drop (Suc p) bs) @ r"
      then have o: "got" "x = bs ! p" "pending io2 @ c = stuff (drop (Suc p) bs) @ r"
        using G by auto
      obtain t where io2: "io2 = io\<lparr>rb_tail := t\<rparr>"
        using G by auto
      define io3 where "io3 = io2\<lparr>msg_pos := msg_pos io2 + 1, cmp_crc := uxr_update_crc (cmp_crc io2) x\<rparr>"
      define m3 where "m3 = m(buf + unat (msg_pos io2) := x)"
      have e: "read_payload buf x io3 m3 = (octet1, io1, m1)"
        using 1(10) True lt g o(1) by (subst (asm) read_payload.simps) (simp add: io3_def m3_def)
      have "m3 = wr m0 buf (take (Suc p) bs)"
        unfolding tk wr_snoc using True o(2) by (simp add: m3_def io2 1(7,9) un)
      then have "\<exists>p' \<le> length bs. ring_ok io1 \<and> pending io1 @ c = stuff (drop p' bs) @ r \<and> msg_pos io1 = of_nat p' \<and>
          cmp_crc io1 = checksum (take p' bs) \<and> m1 = wr m0 buf (take p' bs) \<and>
          (\<exists>t q k. io1 = io3\<lparr>rb_tail := t, msg_pos := q, cmp_crc := k\<rparr>) \<and>
          (p' < length bs \<longrightarrow> octet1 = 0 \<and> length (pending io1) < 2 \<and> c \<noteq> [])"
        using G o True 1(5-8) io2 tk
        by (intro 1(1) [where p = "Suc p", OF _ g [symmetric] refl refl o(1), folded io3_def m3_def, OF _ _ _ _ _ _ _ _ _ e])
          (simp_all add: lt [unfolded 1(6,7)] io3_def checksum_snoc add.commute)
      then show ?thesis
        unfolding io3_def io2 by auto
    next
      assume a: "next_octet (pending io) = (False, 0, pending io) \<and> length (pending io) < 2 \<and> c \<noteq> []"
      then have "\<not> got" "x = 0" "io2 = io"
        using G g no_octet by auto
      then have "octet1 = 0" "io1 = io" "m1 = m"
        using 1(10) True lt g by (simp_all add: read_payload.simps)
      then show ?thesis
        using 1(2-9) a by (intro exI [of _ p] conjI exI [of _ "rb_tail io"] exI [of _ "msg_pos io"] exI [of _ "cmp_crc io"]) simp_all
    qed
  qed
qed

text \<open>While the message is read: \<open>p\<close> octets of \<open>bs\<close> are in the buffer.\<close>

definition midway :: "('e \<Rightarrow> u8 list) \<Rightarrow> mem \<Rightarrow> addr \<Rightarrow> u8 list \<Rightarrow> u8 list \<Rightarrow> nat \<Rightarrow> 'e framing_run \<Rightarrow> bool" where
  "midway chan m0 buf bs r p run \<longleftrightarrow> at chan UXR_FRAMING_READING_PAYLOAD (stuff (drop p bs) @ r) run \<and> p \<le> length bs \<and>
     msg_len (framing_io run) = of_nat (length bs) \<and> msg_pos (framing_io run) = of_nat p \<and>
     cmp_crc (framing_io run) = checksum (take p bs) \<and> buf_mem run = wr m0 buf (take p bs)"

lemma read_message:
  assumes f: "feeds read_cb millis chan" and n: "length bs < 65536" and "midway chan m0 buf bs r p run"
  shows "\<exists>run1. framing_loop read_cb millis buf len run = framing_loop read_cb millis buf len run1 \<and>
    at chan UXR_FRAMING_READING_CRC_LSB r run1 \<and> src_addr (framing_io run1) = src_addr (framing_io run) \<and>
    msg_len (framing_io run1) = of_nat (length bs) \<and> cmp_crc (framing_io run1) = checksum bs \<and>
    local_addr (framing_io run1) = local_addr (framing_io run) \<and> buf_mem run1 = wr m0 buf bs \<and>
    sender run1 = sender run \<and> run_rv run1 = run_rv run"
  using assms(3)
proof (induction "length (chan (device run))" arbitrary: run p rule: less_induct)
  case less
  let ?io = "framing_io run"
  note L = less.prems [unfolded midway_def at_def]
  obtain octet io1 m1 where rp: "read_payload buf 0 ?io (buf_mem run) = (octet, io1, m1)"
    by (metis prod_cases3)
  have "\<exists>p' \<le> length bs. ring_ok io1 \<and> pending io1 @ chan (device run) = stuff (drop p' bs) @ r \<and>
      msg_pos io1 = of_nat p' \<and> cmp_crc io1 = checksum (take p' bs) \<and> m1 = wr m0 buf (take p' bs) \<and>
      (\<exists>t q k. io1 = ?io\<lparr>rb_tail := t, msg_pos := q, cmp_crc := k\<rparr>) \<and>
      (p' < length bs \<longrightarrow> octet = 0 \<and> length (pending io1) < 2 \<and> chan (device run) \<noteq> [])"
    by (rule read_payload_spec [OF _ _ _ n _ _ _ _ rp]) (use L in \<open>simp_all add: unread_def\<close>)
  then obtain p' t q k where R: "p' \<le> length bs" "ring_ok io1" "pending io1 @ chan (device run) = stuff (drop p' bs) @ r"
    "msg_pos io1 = of_nat p'" "cmp_crc io1 = checksum (take p' bs)" "m1 = wr m0 buf (take p' bs)"
    "io1 = ?io\<lparr>rb_tail := t, msg_pos := q, cmp_crc := k\<rparr>"
    "p' < length bs \<Longrightarrow> octet = 0 \<and> length (pending io1) < 2 \<and> chan (device run) \<noteq> []"
    by blast
  define run1 where "run1 = run\<lparr>framing_io := io1, buf_mem := m1\<rparr>"
  have un: "unat (of_nat q :: u16) = q" if "q \<le> length bs" for q
    using that n by (simp add: unat_of_nat)
  have eq: "msg_pos io1 = msg_len io1 \<longleftrightarrow> p' = length bs"
  proof -
    have "msg_len io1 = of_nat (length bs)"
      using R(7) L by simp
    then show ?thesis
      using R(1,4) un by (metis order_refl)
  qed
  show ?case
  proof (cases "p' = length bs")
    case True
    then have "framing_step read_cb millis buf len run = Some (False, go UXR_FRAMING_READING_CRC_LSB run1)"
      using L rp eq by (simp add: framing_step_def run1_def)
    then have "framing_loop read_cb millis buf len run = framing_loop read_cb millis buf len (go UXR_FRAMING_READING_CRC_LSB run1)"
      by (rule framing_loop_next)
    then show ?thesis
      using R True L by (intro exI [of _ "go UXR_FRAMING_READING_CRC_LSB run1"]) (simp add: run1_def at_def unread_def)
  next
    case False
    then have p': "p' < length bs" "octet = 0" "length (pending io1) < 2" "chan (device run) \<noteq> []"
      using R(1,8) by auto
    define todo where "todo = size_add (size_sub (unat (msg_len io1)) (unat (msg_pos io1))) 2"
    have "todo = length bs - p' + 2"
      using R(1,4,7) L n by (simp add: todo_def un size_sub_eq size_add_eq)
    then have todo: "0 < todo"
      by simp
    obtain n' run2 where fe: "fetch_octets read_cb millis todo run1 = (n', run2)"
      by force
    have F: "run_like run1 run2" "ring_ok (framing_io run2)" "unread chan run2 = unread chan run1"
      "length (chan (device run1)) = length (chan (device run2)) + n'" "0 < n'"
      using fetch_spec [OF f _ fe] R(2) p' todo by (simp_all add: run1_def)
    have "framing_step read_cb millis buf len run = Some (False, run2)"
      using L rp eq False p' fe F(5) by (simp add: framing_step_def run1_def todo_def UXR_FRAMING_BEGIN_FLAG_def)
    then have "framing_loop read_cb millis buf len run = framing_loop read_cb millis buf len run2"
      by (rule framing_loop_next)
    moreover have "midway chan m0 buf bs r p' run2" "length (chan (device run2)) < length (chan (device run))"
      "src_addr (framing_io run2) = src_addr ?io" "local_addr (framing_io run2) = local_addr ?io"
      "sender run2 = sender run" "run_rv run2 = run_rv run"
      using F R L by (simp_all add: midway_def at_def run_like_def ring_only_def run1_def unread_def)
    moreover note less.hyps [OF this(2,1)]
    ultimately show ?thesis
      by metis
  qed
qed

section \<open>A whole frame\<close>

lemma read_checksum:
  assumes f: "feeds read_cb millis chan" and c: "cmp_crc (framing_io run) = crc"
    and a: "at chan UXR_FRAMING_READING_CRC_LSB (stuff [ucast crc, ucast (drop_bit 8 crc)] @ r) run"
  shows "\<exists>run1. framing_loop read_cb millis buf len run = Some run1 \<and> at chan UXR_FRAMING_UNINITIALIZED r run1 \<and>
    sender run1 = src_addr (framing_io run) \<and> run_rv run1 = unat (msg_len (framing_io run)) \<and>
    local_addr (framing_io run1) = local_addr (framing_io run) \<and> buf_mem run1 = buf_mem run"
proof -
  let ?loop = "framing_loop read_cb millis buf len"
  let ?lo = "ucast crc :: u8" and ?hi = "ucast (drop_bit 8 crc) :: u8"
  have a1: "at chan UXR_FRAMING_READING_CRC_LSB (stuffed ?lo @ stuffed ?hi @ r) run"
    using a by simp
  define F where "F r1 = go UXR_FRAMING_READING_CRC_MSB (run_with r1 ((framing_io r1)\<lparr>msg_crc := ucast ?lo\<rparr>))"
    for r1 :: "'a framing_run"
  have "\<exists>r1. run_like run r1 \<and> at chan UXR_FRAMING_READING_CRC_LSB (stuffed ?hi @ r) r1 \<and>
      ?loop run = (if False then Some (F r1) else ?loop (F r1))"
    by (rule take_octet [OF f waits_simps(4) _ a1]) (simp_all add: framing_step_def run_with_def F_def)
  then obtain r1 where r1: "run_like run r1" "at chan UXR_FRAMING_READING_CRC_LSB (stuffed ?hi @ r) r1" "?loop run = ?loop (F r1)"
    by auto
  have a2: "at chan UXR_FRAMING_READING_CRC_MSB (stuffed ?hi @ r) (F r1)"
    using r1(2) by (simp add: at_def unread_def F_def)
  define G where "G r2 = (let io2 = (framing_io r2)\<lparr>msg_crc := msg_crc (framing_io r2) + push_bit 8 (ucast ?hi)\<rparr>;
      run1 = go UXR_FRAMING_UNINITIALIZED (run_with r2 io2)
    in if cmp_crc io2 = msg_crc io2 then run1\<lparr>sender := src_addr io2, run_rv := unat (msg_len io2)\<rparr> else run1)"
    for r2 :: "'a framing_run"
  have "\<exists>r2. run_like (F r1) r2 \<and> at chan UXR_FRAMING_READING_CRC_MSB r r2 \<and>
      ?loop (F r1) = (if True then Some (G r2) else ?loop (G r2))"
    by (rule take_octet [OF f waits_simps(5) _ a2]) (simp_all add: framing_step_def run_with_def G_def Let_def)
  then obtain r2 where r2: "run_like (F r1) r2" "at chan UXR_FRAMING_READING_CRC_MSB r r2" "?loop (F r1) = Some (G r2)"
    by auto
  have "msg_crc (framing_io r2) = ucast ?lo" "cmp_crc (framing_io r2) = crc"
    using r2(1) r1(1) c by (simp_all add: F_def run_like_def ring_only_def)
  moreover from this have "msg_crc (framing_io r2) + push_bit 8 (ucast ?hi) = crc"
    using two_octets [of crc] by simp
  ultimately show ?thesis
    using r1 r2 by (intro exI [of _ "G r2"]) (simp add: G_def Let_def F_def run_like_def ring_only_def at_def unread_def)
qed

definition frame_rest :: "u8 \<Rightarrow> u8 \<Rightarrow> u8 list \<Rightarrow> u8 list" where
  "frame_rest src dst bs = tl (frame src dst bs)"

lemma read_rest:
  assumes f: "feeds read_cb millis chan" and n: "length bs < 65536" "length bs \<le> len"
    and a: "at chan UXR_FRAMING_READING_SRC_ADDR (frame_rest src (local_addr (framing_io run)) bs @ r) run"
  shows "\<exists>run1. framing_loop read_cb millis buf len run = Some run1 \<and> at chan UXR_FRAMING_UNINITIALIZED r run1 \<and>
    sender run1 = src \<and> run_rv run1 = length bs \<and> local_addr (framing_io run1) = local_addr (framing_io run) \<and>
    buf_mem run1 = wr (buf_mem run) buf bs"
proof -
  let ?c = "stuff [ucast (checksum bs), ucast (drop_bit 8 (checksum bs))] @ r"
  have "at chan UXR_FRAMING_READING_SRC_ADDR (stuff [src, local_addr (framing_io run),
        of_nat (length bs mod 256), of_nat (length bs div 256)] @ stuff bs @ ?c) run"
    using a by (simp add: frame_rest_def frame_def)
  from read_header [OF f n this]
  obtain r1 where r1: "framing_loop read_cb millis buf len run = framing_loop read_cb millis buf len r1"
    "at chan UXR_FRAMING_READING_PAYLOAD (stuff bs @ ?c) r1" "src_addr (framing_io r1) = src"
    "msg_len (framing_io r1) = of_nat (length bs)" "msg_pos (framing_io r1) = 0" "cmp_crc (framing_io r1) = 0"
    "local_addr (framing_io r1) = local_addr (framing_io run)" "buf_mem r1 = buf_mem run"
    by metis
  have "midway chan (buf_mem run) buf bs ?c 0 r1"
    using r1 by (simp add: midway_def checksum_def)
  from read_message [OF f n(1) this, of len]
  obtain r2 where r2: "framing_loop read_cb millis buf len r1 = framing_loop read_cb millis buf len r2"
    "at chan UXR_FRAMING_READING_CRC_LSB ?c r2" "src_addr (framing_io r2) = src"
    "msg_len (framing_io r2) = of_nat (length bs)" "cmp_crc (framing_io r2) = checksum bs"
    "local_addr (framing_io r2) = local_addr (framing_io run)" "buf_mem r2 = wr (buf_mem run) buf bs"
    using r1 by metis
  have "unat (of_nat (length bs) :: u16) = length bs"
    using n by (simp add: unat_of_nat)
  then show ?thesis
    using read_checksum [OF f r2(5,2), of buf len] r1(1) r2 by auto
qed

lemma skip_to_frame:
  assumes "ring_ok io" and "pending io = w @ UXR_FRAMING_BEGIN_FLAG # r" and "UXR_FRAMING_BEGIN_FLAG \<notin> set w"
    and "octet \<noteq> UXR_FRAMING_BEGIN_FLAG"
  shows "\<exists>io1. skip_to_flag octet io = Some (UXR_FRAMING_BEGIN_FLAG, io1) \<and> ring_ok io1 \<and> pending io1 = r \<and> ring_only io io1"
  using assms
proof (induction w arbitrary: io octet)
  case Nil
  note h = head_pending [OF Nil(1)]
  have p: "pending io = UXR_FRAMING_BEGIN_FLAG # r"
    using Nil by simp
  have s: "skip_to_flag octet io = Some (UXR_FRAMING_BEGIN_FLAG, io\<lparr>rb_tail := rb_next (rb_tail io) 1\<rparr>)"
    using h [OF p] Nil(4) by (subst skip_to_flag.simps, simp, subst skip_to_flag.simps, simp)
  show ?case
    using s pending_advance [OF Nil(1), of 1] p by simp
next
  case (Cons x w)
  note h = head_pending [OF Cons.prems(1)]
  have p: "pending io = x # w @ UXR_FRAMING_BEGIN_FLAG # r"
    using Cons.prems by simp
  let ?io = "io\<lparr>rb_tail := rb_next (rb_tail io) 1\<rparr>"
  have s: "skip_to_flag octet io = skip_to_flag x ?io"
    using h [OF p] Cons.prems(4) by (subst skip_to_flag.simps) auto
  have "\<exists>io1. skip_to_flag x ?io = Some (UXR_FRAMING_BEGIN_FLAG, io1) \<and> ring_ok io1 \<and> pending io1 = r \<and> ring_only ?io io1"
    using pending_advance [OF Cons.prems(1), of 1] p Cons.prems(3) by (intro Cons.IH) auto
  then show ?case
    using s ring_only_simps(3) ring_only_trans by metis
qed

lemma frame_split: "frame src dst bs = UXR_FRAMING_BEGIN_FLAG # frame_rest src dst bs"
  by (simp add: frame_rest_def frame_def)

lemma read_frame:
  assumes f: "feeds read_cb millis chan" and n: "length bs < 65536" "length bs \<le> len"
    and a: "at chan UXR_FRAMING_UNINITIALIZED (frame src (local_addr (framing_io run)) bs @ r) run"
  shows "\<exists>run1. uxr_read_framed_msg read_cb millis buf len run = Some run1 \<and> at chan UXR_FRAMING_UNINITIALIZED r run1 \<and>
    sender run1 = src \<and> run_rv run1 = length bs \<and> local_addr (framing_io run1) = local_addr (framing_io run) \<and>
    buf_mem run1 = wr (buf_mem run) buf bs"
proof -
  let ?rest = "frame_rest src (local_addr (framing_io run)) bs @ r"
  define run0 where "run0 = run\<lparr>run_rv := 0\<rparr>"
  define run1 where "run1 = (if rb_head (framing_io run0) = rb_tail (framing_io run0)
    then snd (fetch_octets read_cb millis 5 run0) else run0)"
  have a0: "at chan UXR_FRAMING_UNINITIALIZED (UXR_FRAMING_BEGIN_FLAG # ?rest) run0"
    using a by (simp add: run0_def at_def unread_def frame_split)
  have io0: "ring_ok (framing_io run0)"
    using a0 by (simp add: at_def)
  have 1: "at chan UXR_FRAMING_UNINITIALIZED (UXR_FRAMING_BEGIN_FLAG # ?rest) run1 \<and> run_like run0 run1 \<and>
      pending (framing_io run1) \<noteq> []"
  proof (cases "pending (framing_io run0) = []")
    case True
    obtain k run2 where fe: "fetch_octets read_cb millis 5 run0 = (k, run2)"
      by force
    have c: "chan (device run0) \<noteq> []"
      using a0 True by (simp add: at_def unread_def)
    note F = fetch_spec [OF f io0 fe]
    have "0 < k" "run1 = run2"
      using F(6) True c fe pending_empty [OF io0] by (simp_all add: run1_def)
    then have "pending (framing_io run1) \<noteq> []"
      using F(3,5) True by (auto simp: unread_def)
    then show ?thesis
      using F(1-3) a0 \<open>run1 = run2\<close> by (simp add: at_def run_like_def ring_only_def)
  next
    case False
    then have "run1 = run0"
      using pending_empty [OF io0] by (simp add: run1_def)
    then show ?thesis
      using False a0 by simp
  qed
  then obtain p where p: "pending (framing_io run1) = UXR_FRAMING_BEGIN_FLAG # p" "p @ chan (device run1) = ?rest"
    by (cases "pending (framing_io run1)") (auto simp: at_def unread_def)
  have io1: "ring_ok (framing_io run1)"
    using 1 by (simp add: at_def)
  obtain io2 where io2: "skip_to_flag 0 (framing_io run1) = Some (UXR_FRAMING_BEGIN_FLAG, io2)" "ring_ok io2"
    "pending io2 = p" "ring_only (framing_io run1) io2"
    using skip_to_frame [OF io1, of "[]" p 0] p(1) by (auto simp: UXR_FRAMING_BEGIN_FLAG_def)
  define run2 where "run2 = go UXR_FRAMING_READING_SRC_ADDR (run_with run1 io2)"
  have l: "local_addr (framing_io run2) = local_addr (framing_io run)" "buf_mem run2 = buf_mem run"
    using 1 io2(4) by (simp_all add: run2_def run0_def run_like_def ring_only_def)
  have "framing_step read_cb millis buf len run1 = Some (False, run2)"
    using 1 io2(1) by (simp add: framing_step_def at_def run2_def run_with_def)
  then have "framing_loop read_cb millis buf len run1 = framing_loop read_cb millis buf len run2"
    by (rule framing_loop_next)
  moreover have "at chan UXR_FRAMING_READING_SRC_ADDR (frame_rest src (local_addr (framing_io run2)) bs @ r) run2"
    unfolding l using io2 p(2) by (simp add: at_def unread_def run2_def)
  moreover have "uxr_read_framed_msg read_cb millis buf len run = framing_loop read_cb millis buf len run1"
  proof -
    have "uxr_read_framed_msg read_cb millis buf len run = (if rb_tail (framing_io run1) \<noteq> rb_head (framing_io run1)
        then framing_loop read_cb millis buf len run1 else Some run1)"
      unfolding uxr_read_framed_msg_def Let_def run1_def run0_def by (rule refl)
    then show ?thesis
      using pending_empty [OF io1] p(1) by (metis list.distinct(1))
  qed
  ultimately show ?thesis
    using read_rest [OF f n, of src run2 r buf] unfolding l by metis
qed

section \<open>A device that always takes something\<close>

definition eager :: "'e uxr_write_cb \<Rightarrow> bool" where
  "eager write_cb \<longleftrightarrow> (\<forall>bs err e. bs \<noteq> [] \<longrightarrow> 0 < fst (write_cb bs err e))"

lemma write_all_eager:
  assumes "sink write_cb log" and "eager write_cb" and "wb_ok io" and "k \<le> unat (wb_pos io)"
  shows "fst (write_all io write_cb k err e) = unat (wb_pos io)"
  using assms
proof (induction io write_cb k err e rule: write_all.induct)
  case (1 io write_cb k err e)
  let ?bs = "take (size_sub (unat (wb_pos io)) k) (drop k (wb io))"
  obtain l err1 e1 where cb: "write_cb ?bs err e = (l, err1, e1)"
    by (metis prod_cases3)
  have len: "length ?bs = unat (wb_pos io) - k"
    using 1(4,5) by (auto simp: wb_ok_def WB_SIZE_def size_sub_eq min_def)
  have l: "l \<le> length ?bs" "?bs \<noteq> [] \<Longrightarrow> 0 < l"
    using sinkD [OF 1(2) cb] 1(3) cb unfolding eager_def by (simp, metis fst_conv)
  show ?case
  proof (cases "k + l < unat (wb_pos io) \<and> 0 < l")
    case True
    then show ?thesis
      using 1(1) [OF cb [symmetric] refl refl refl True 1(2-4)] cb by (subst write_all.simps) simp
  next
    case False
    then have "k + l = unat (wb_pos io)"
    proof (cases "k < unat (wb_pos io)")
      case True
      then have "?bs \<noteq> []"
        using len by (metis list.size(3) less_irrefl zero_less_diff)
      then show ?thesis
        using False l len by linarith
    next
      case ge: False
      then show ?thesis
        using l(1) len 1(5) by linarith
    qed
    then show ?thesis
      using False cb by (subst write_all.simps) simp
  qed
qed

lemma write_transport_eager:
  assumes "sink write_cb log" and "eager write_cb" and "wb_ok io"
  shows "fst (uxr_framing_write_transport io write_cb err e)"
  using write_all_eager [OF assms, of 0 err e]
  by (auto simp: uxr_framing_write_transport_def split: prod.splits)

lemma write_octets_eager:
  assumes "sink write_cb log" and "eager write_cb" and "wb_ok io"
  shows "fst (write_octets io write_cb bs crc err e)"
  using assms
proof (induction io write_cb bs crc err e rule: write_octets.induct)
  case (1 io write_cb crc err e)
  then show ?case
    by (simp add: write_octets.simps)
next
  case (2 io write_cb b bs crc err e)
  obtain added io1 where add: "uxr_add_next_octet io b = (added, io1)"
    by force
  note A = add_octet_spec [OF 2(5) add]
  show ?case
  proof (cases added)
    case True
    then show ?thesis
      using 2(1) [OF add [symmetric] refl True 2(3,4)] A add by (simp add: write_octets.simps)
  next
    case False
    obtain cond io2 err1 e1 where f: "uxr_framing_write_transport io write_cb err e = (cond, io2, err1, e1)"
      by (metis prod_cases4)
    have cond: cond
      using write_transport_eager [OF 2(3-5), of err e] f by simp
    have "wb_ok io2"
      using write_transport_spec [OF 2(3,5) f] cond 2(5) by (simp add: wb_ok_def)
    then show ?thesis
      using 2(2) [OF add [symmetric] refl False f [symmetric] refl refl refl cond 2(3,4)] add False f cond
      by (subst write_octets.simps) simp
  qed
qed

lemma add_octet_ok: "wb_ok io \<Longrightarrow> wb_ok (snd (uxr_add_next_octet io b))"
  using add_octet_spec [of io b, OF _ prod.collapse [symmetric]] by (metis (full_types))

lemma write_framed_msg_eager:
  assumes "sink write_cb log" and "eager write_cb" and "length (wb io) = WB_SIZE"
  shows "fst (uxr_write_framed_msg io write_cb bs dst err e) = cast_u16 (length bs)"
proof -
  note W = write_octets_eager [OF assms(1,2)] write_octets_spec [OF assms(1)]
  define io4 where "io4 = snd (uxr_add_next_octet (snd (uxr_add_next_octet (snd (uxr_add_next_octet (snd (uxr_add_next_octet
    (io\<lparr>wb := (wb io)[0 := UXR_FRAMING_BEGIN_FLAG], wb_pos := 1\<rparr>) (local_addr io))) dst)) (of_nat (length bs mod 256))))
    (of_nat (length bs div 256)))"
  have 4: "wb_ok io4"
    unfolding io4_def by (intro add_octet_ok) (use assms(3) in \<open>simp add: wb_ok_def WB_SIZE_def\<close>)
  obtain ok1 crc io5 err1 e1 where w1: "write_octets io4 write_cb bs 0 err e = (ok1, crc, io5, err1, e1)"
    by (metis prod_cases5)
  have 5: "ok1" "wb_ok io5"
    using W(1) [OF 4, of bs 0 err e] W(2) [OF 4 w1] w1 by simp_all
  obtain ok2 crc2 io6 err2 e2 where w2: "write_octets io5 write_cb [ucast crc, ucast (drop_bit 8 crc)] crc err1 e1 =
      (ok2, crc2, io6, err2, e2)"
    by (metis prod_cases5)
  have 6: "ok2" "wb_ok io6"
    using W(1) [OF 5(2), of "[ucast crc, ucast (drop_bit 8 crc)]" crc err1 e1] W(2) [OF 5(2) w2] w2 by simp_all
  show ?thesis
    using 5 6 write_transport_eager [OF assms(1,2) 6(2), of err2 e2]
    by (auto simp: uxr_write_framed_msg_def Let_def w1 w2 simp flip: io4_def split: prod.splits)
qed

text \<open>A framed message arrives: when the sender's call says that it wrote the message, the reader at
  the other end of the line, which hands out the octets in any pieces, reports exactly this message,
  its length and its sender, leaves the octets after it alone and is ready for the next frame.\<close>
theorem framed_message_arrives:
  assumes "sink write_cb log" and "length (wb io) = WB_SIZE" and "bs \<noteq> []" and "length bs < 65536"
    and "uxr_write_framed_msg io write_cb bs dst err e = (length bs, io', err', e')"
    and "feeds read_cb millis chan" and "state (framing_io run) = UXR_FRAMING_UNINITIALIZED"
    and "ring_ok (framing_io run)" and "local_addr (framing_io run) = dst" and "length bs \<le> len"
    and "log e @ unread chan run = log e' @ r"
  shows "\<exists>run1. uxr_read_framed_msg read_cb millis buf len run = Some run1 \<and> run_rv run1 = length bs \<and>
    sender run1 = local_addr io \<and> buf_mem run1 = wr (buf_mem run) buf bs \<and> unread chan run1 = r \<and>
    state (framing_io run1) = UXR_FRAMING_UNINITIALIZED \<and> ring_ok (framing_io run1) \<and>
    local_addr (framing_io run1) = dst"
proof -
  have "log e' = log e @ frame (local_addr io) dst bs"
    using framed_msg_written_aux [OF assms(1,2,4,5)] assms(3) by auto
  then have "at chan UXR_FRAMING_UNINITIALIZED (frame (local_addr io) (local_addr (framing_io run)) bs @ r) run"
    using assms(7-9,11) by (simp add: at_def)
  from read_frame [OF assms(6,4,10) this] show ?thesis
    unfolding assms(9) by (auto simp: at_def)
qed

section \<open>Examples\<close>

text \<open>A line that takes and gives at most three octets at a time.\<close>

definition line_write :: "u8 list uxr_write_cb" where
  "line_write bs err e = (min 3 (length bs), err, e @ take 3 bs)"

definition line_read :: "u8 list uxr_read_cb" where
  "line_read k t err e = (take (min k 3) e, err, drop (min k 3) e)"

definition line_millis :: "u8 list \<Rightarrow> int \<times> u8 list" where
  "line_millis e = (0, e)"

definition example_framing_io :: "u8 \<Rightarrow> uxrFramingIO" where
  "example_framing_io a = uxr_init_framing_io \<lparr>state = UXR_FRAMING_UNINITIALIZED, local_addr = 0, rb = replicate 42 0,
     rb_head = 0, rb_tail = 0, src_addr = 0, msg_len = 0, msg_pos = 0, msg_crc = 0, cmp_crc = 0, wb = replicate 42 0,
     wb_pos = 0\<rparr> a"

definition example_run :: "u8 \<Rightarrow> u8 list \<Rightarrow> u8 list framing_run" where
  "example_run a line = \<lparr>framing_io = example_framing_io a, buf_mem = (\<lambda>_. 0), sender = 0, time_left = 100,
     run_errcode = 0, device = line, run_rv = 0\<rparr>"

lemma line_sink: "sink line_write (\<lambda>e. e)"
  by (auto simp: sink_def line_write_def min_def)

lemma line_eager: "eager line_write"
  by (simp add: eager_def line_write_def)

lemma line_feeds: "feeds line_read line_millis (\<lambda>e. e)"
  by (auto simp: feeds_def device_law_def line_read_def line_millis_def)

lemma example_io_simps [simp]:
  "length (wb (example_framing_io a)) = WB_SIZE" "ring_ok (example_framing_io a)"
  "local_addr (example_framing_io a) = a" "state (example_framing_io a) = UXR_FRAMING_UNINITIALIZED"
  "pending (example_framing_io a) = []"
  by (simp_all add: example_framing_io_def uxr_init_framing_io_def WB_SIZE_def ring_ok_def pending_def)

lemma example_sent: "\<exists>io' err' e'. uxr_write_framed_msg (example_framing_io 1) line_write [0x7E, 5] 0x7D 0 [] = (2, io', err', e')"
  using write_framed_msg_eager [OF line_sink line_eager, of "example_framing_io 1" "[0x7E, 5]" "0x7D" 0 "[]"]
  by (cases "uxr_write_framed_msg (example_framing_io 1) line_write [0x7E, 5] 0x7D 0 []") (simp add: cast_u16_eq)

theorem framed_msg_written_witness:
  "\<exists>io' err' e'. uxr_write_framed_msg (example_framing_io 1) line_write [0x7E, 5] 0x7D 0 [] = (2, io', err', e') \<and>
    e' = frame 1 0x7D [0x7E, 5]"
proof -
  obtain io' err' e' where w: "uxr_write_framed_msg (example_framing_io 1) line_write [0x7E, 5] 0x7D 0 [] = (2, io', err', e')"
    using example_sent by blast
  show ?thesis
    using framed_msg_written [OF line_sink _ _ w] w by simp
qed

theorem framed_message_arrives_witness:
  "\<exists>io' err' e' run1. uxr_write_framed_msg (example_framing_io 1) line_write [0x7E, 5] 0x7D 0 [] = (2, io', err', e') \<and>
    uxr_read_framed_msg line_read line_millis 100 2 (example_run 0x7D (e' @ [9])) = Some run1 \<and> run_rv run1 = 2 \<and>
    sender run1 = 1 \<and> buf_mem run1 100 = 0x7E \<and> buf_mem run1 101 = 5 \<and> unread (\<lambda>e. e) run1 = [9]"
proof -
  obtain io' err' e' where w: "uxr_write_framed_msg (example_framing_io 1) line_write [0x7E, 5] 0x7D 0 [] = (2, io', err', e')"
    using example_sent by blast
  have "\<exists>run1. uxr_read_framed_msg line_read line_millis 100 2 (example_run 0x7D (e' @ [9])) = Some run1 \<and>
      run_rv run1 = length [0x7E, 5 :: u8] \<and> sender run1 = local_addr (example_framing_io 1) \<and>
      buf_mem run1 = wr (buf_mem (example_run 0x7D (e' @ [9]))) 100 [0x7E, 5] \<and> unread (\<lambda>e. e) run1 = [9] \<and>
      state (framing_io run1) = UXR_FRAMING_UNINITIALIZED \<and> ring_ok (framing_io run1) \<and>
      local_addr (framing_io run1) = 0x7D"
    by (rule framed_message_arrives [where log = "\<lambda>e. e" and io = "example_framing_io 1" and io' = io' and e' = e'
          and err = 0 and err' = err' and e = "[]" and write_cb = line_write, OF line_sink _ _ _ _ line_feeds])
      (use w in \<open>simp_all add: example_run_def unread_def\<close>)
  then show ?thesis
    using w by (auto simp: wr_def)
qed

end
