(* ===== verification/FramingSafe.thy ===== *)
theory FramingSafe
  imports FramingRead
begin

text \<open>Reading frames from a line that may carry anything.\<close>

section \<open>The invariant\<close>

text \<open>The part of the message that has arrived is in the buffer, and the running checksum is its checksum.\<close>

definition read_inv :: "addr \<Rightarrow> size_t \<Rightarrow> 'e framing_run \<Rightarrow> bool" where
  "read_inv buf len run \<longleftrightarrow> (let io = framing_io run; m = buf_mem run in
     ring_ok io \<and>
     (state io = UXR_FRAMING_READING_PAYLOAD \<longrightarrow> unat (msg_len io) \<le> len \<and> msg_pos io \<le> msg_len io \<and>
        cmp_crc io = checksum (rd m buf (unat (msg_pos io)))) \<and>
     (state io \<in> {UXR_FRAMING_READING_CRC_LSB, UXR_FRAMING_READING_CRC_MSB} \<longrightarrow> unat (msg_len io) \<le> len \<and>
        cmp_crc io = checksum (rd m buf (unat (msg_len io)))))"

lemma next_octet_shrinks:
  "next_octet p = (got, b, p') \<Longrightarrow> length p' \<le> length p \<and> (got \<or> b = UXR_FRAMING_BEGIN_FLAG \<longrightarrow> length p' < length p)"
  by (cases p rule: next_octet.cases) (auto simp: UXR_FRAMING_BEGIN_FLAG_def split: if_splits list.splits)

lemma get_octet_shrinks:
  assumes "ring_ok io" and "uxr_get_next_octet io = (got, b, io1)"
  shows "ring_ok io1" and "ring_only io io1" and "length (pending io1) \<le> length (pending io)"
    and "got \<or> b = UXR_FRAMING_BEGIN_FLAG \<Longrightarrow> length (pending io1) < length (pending io)"
  using get_octet_spec [OF assms] next_octet_shrinks [of "pending io" got b "pending io1"] by auto

lemma rd_snoc: "rd (m(a + n := b)) a (Suc n) = rd m a n @ [b]"
  by (rule nth_equalityI) (auto simp: nth_append less_Suc_eq)

lemma read_payload_safe:
  assumes "ring_ok io" and "unat (msg_len io) \<le> len" and "msg_pos io \<le> msg_len io"
    and "cmp_crc io = checksum (rd m buf (unat (msg_pos io)))" and "read_payload buf octet io m = (octet1, io1, m1)"
  shows "ring_ok io1 \<and> msg_len io1 = msg_len io \<and> msg_pos io1 \<le> msg_len io1 \<and>
    cmp_crc io1 = checksum (rd m1 buf (unat (msg_pos io1))) \<and> changed_within m m1 buf (buf + len) \<and>
    state io1 = state io \<and> local_addr io1 = local_addr io \<and> length (pending io1) \<le> length (pending io) \<and>
    (octet1 = UXR_FRAMING_BEGIN_FLAG \<longrightarrow> octet = UXR_FRAMING_BEGIN_FLAG \<or> length (pending io1) < length (pending io))"
  using assms
proof (induction buf octet io m rule: read_payload.induct)
  case (1 buf octet io m)
  show ?case
  proof (cases "msg_pos io < msg_len io")
    case False
    then show ?thesis
      using 1(2-6) by (auto simp: read_payload.simps)
  next
    case True
    obtain got x io2 where g: "uxr_get_next_octet io = (got, x, io2)"
      by (metis prod_cases3)
    note G = get_octet_shrinks [OF 1(2) g]
    show ?thesis
    proof (cases got)
      case False
      then have "octet1 = x" "io1 = io2" "m1 = m"
        using 1(6) True g by (simp_all add: read_payload.simps)
      then show ?thesis
        using G 1(2-5) by (simp add: ring_only_def)
    next
      case got: True
      define io3 where "io3 = io2\<lparr>msg_pos := msg_pos io2 + 1, cmp_crc := uxr_update_crc (cmp_crc io2) x\<rparr>"
      define m3 where "m3 = m(buf + unat (msg_pos io2) := x)"
      have e: "read_payload buf x io3 m3 = (octet1, io1, m1)"
        using 1(6) True g got by (subst (asm) read_payload.simps) (simp add: io3_def m3_def)
      have n: "unat (msg_pos io + 1) = unat (msg_pos io) + 1"
        using True by (rule unat_next)
      have "changed_within m m3 buf (buf + len)"
        using True 1(3) G(2) by (auto simp: m3_def changed_within_def ring_only_def word_less_nat_alt)
      moreover have "length (pending io3) < length (pending io)" "ring_ok io3" "unat (msg_len io3) \<le> len" "msg_pos io3 \<le> msg_len io3"
        "cmp_crc io3 = checksum (rd m3 buf (unat (msg_pos io3)))" "msg_len io3 = msg_len io" "state io3 = state io"
        "local_addr io3 = local_addr io"
        using True G got 1(2-5) n
        by (auto simp: io3_def m3_def ring_only_def word_less_nat_alt word_le_nat_alt rd_snoc checksum_snoc)
      moreover note 1(1) [OF True g [symmetric] refl refl got, folded io3_def m3_def, OF this(2-5) e]
      ultimately show ?thesis
        by (auto intro: changed_within_trans)
    qed
  qed
qed

lemma skip_to_flag_safe:
  assumes "ring_ok io"
  shows "\<exists>octet1 io1. skip_to_flag octet io = Some (octet1, io1) \<and> ring_ok io1 \<and> ring_only io io1 \<and>
    length (pending io1) \<le> length (pending io) \<and>
    (octet1 = UXR_FRAMING_BEGIN_FLAG \<longrightarrow> octet = UXR_FRAMING_BEGIN_FLAG \<or> length (pending io1) < length (pending io))"
  using assms
proof (induction "pending io" arbitrary: io octet)
  case Nil
  then have "rb_head io = rb_tail io"
    using pending_empty [OF Nil(2)] by simp
  then show ?case
    using Nil by (subst skip_to_flag.simps) auto
next
  case (Cons x r)
  show ?case
  proof (cases "octet = UXR_FRAMING_BEGIN_FLAG")
    case True
    then show ?thesis
      using Cons.prems by (subst skip_to_flag.simps) auto
  next
    case False
    let ?io = "io\<lparr>rb_tail := rb_next (rb_tail io) 1\<rparr>"
    note h = head_pending [OF Cons.prems Cons.hyps(2) [symmetric]]
    have a: "ring_ok ?io" "r = pending ?io" "length (pending ?io) < length (pending io)"
      using pending_advance [OF Cons.prems, of 1] by (simp_all flip: Cons.hyps(2))
    obtain octet1 io1 where i: "skip_to_flag x ?io = Some (octet1, io1)" "ring_ok io1" "ring_only ?io io1"
      "length (pending io1) \<le> length (pending ?io)"
      using Cons.hyps(1) [OF a(2,1), of x] by blast
    have "skip_to_flag octet io = skip_to_flag x ?io"
      using h False by (subst skip_to_flag.simps) auto
    moreover have "ring_only io io1"
      using i(3) by (rule ring_only_trans [OF ring_only_simps(3)])
    ultimately show ?thesis
      using i a(3) by auto
  qed
qed

section \<open>One round\<close>

definition any_line :: "'e uxr_read_cb \<Rightarrow> ('e \<Rightarrow> int \<times> 'e) \<Rightarrow> ('e \<Rightarrow> u8 list) \<Rightarrow> bool" where
  "any_line read_cb millis chan \<longleftrightarrow> device_law read_cb millis (\<lambda>e bs e'. chan e = bs @ chan e')"

text \<open>What is left to do: octets to look at, octets to read, a message to leave.\<close>

definition work :: "('e \<Rightarrow> u8 list) \<Rightarrow> 'e framing_run \<Rightarrow> nat \<times> nat \<times> nat" where
  "work chan run = (length (unread chan run), length (chan (device run)),
     if state (framing_io run) = UXR_FRAMING_READING_PAYLOAD then 1 else 0)"

abbreviation less_work :: "((nat \<times> nat \<times> nat) \<times> (nat \<times> nat \<times> nat)) set" where
  "less_work \<equiv> less_than <*lex*> less_than <*lex*> less_than"

definition accepted :: "addr \<Rightarrow> size_t \<Rightarrow> 'e framing_run \<Rightarrow> bool" where
  "accepted buf len run \<longleftrightarrow> run_rv run \<le> len \<and> checksum (rd (buf_mem run) buf (run_rv run)) = msg_crc (framing_io run)"

definition fine :: "('e \<Rightarrow> u8 list) \<Rightarrow> addr \<Rightarrow> size_t \<Rightarrow> 'e framing_run \<Rightarrow> bool \<Rightarrow> 'e framing_run \<Rightarrow> bool" where
  "fine chan buf len run over run1 \<longleftrightarrow> read_inv buf len run1 \<and> changed_within (buf_mem run) (buf_mem run1) buf (buf + len) \<and>
     local_addr (framing_io run1) = local_addr (framing_io run) \<and>
     (run_rv run1 = run_rv run \<or> over \<and> accepted buf len run1) \<and> (\<not> over \<longrightarrow> (work chan run1, work chan run) \<in> less_work)"

lemma less_workI:
  "length (unread chan run1) < length (unread chan run) \<Longrightarrow> (work chan run1, work chan run) \<in> less_work"
  "length (unread chan run1) \<le> length (unread chan run) \<Longrightarrow> length (chan (device run1)) < length (chan (device run)) \<Longrightarrow>
    (work chan run1, work chan run) \<in> less_work"
  by (auto simp: work_def)

lemma fetch_fine:
  assumes "any_line read_cb millis chan" and "read_inv buf len run" and "fetch_octets read_cb millis k run = (n, run1)"
  shows "read_inv buf len run1" and "buf_mem run1 = buf_mem run" and "local_addr (framing_io run1) = local_addr (framing_io run)"
    and "run_rv run1 = run_rv run" and "state (framing_io run1) = state (framing_io run)"
    and "unread chan run1 = unread chan run" and "length (chan (device run)) = length (chan (device run1)) + n"
    and "src_addr (framing_io run1) = src_addr (framing_io run)"
proof -
  have ok: "ring_ok (framing_io run)"
    using assms(2) by (simp add: read_inv_def Let_def)
  note F = fetch_law [OF assms(1) [unfolded any_line_def] ok assms(3)]
  show "read_inv buf len run1" "buf_mem run1 = buf_mem run" "local_addr (framing_io run1) = local_addr (framing_io run)"
    "run_rv run1 = run_rv run" "state (framing_io run1) = state (framing_io run)" "unread chan run1 = unread chan run"
    "src_addr (framing_io run1) = src_addr (framing_io run)"
    using F(1-3) assms(2) by (simp_all add: run_like_def ring_only_def read_inv_def Let_def)
  show "length (chan (device run)) = length (chan (device run1)) + n"
    by (rule F(5))
qed

text \<open>An octet asked for.\<close>

lemma octet_fine:
  assumes "read_inv buf len run" and "uxr_get_next_octet (framing_io run) = (got, b, io1)"
  shows "read_inv buf len (run_with run io1)" and "ring_only (framing_io run) io1" and "ring_ok io1"
    and "length (unread chan (run_with run io1)) \<le> length (unread chan run)"
    and "got \<or> b = UXR_FRAMING_BEGIN_FLAG \<Longrightarrow> length (unread chan (run_with run io1)) < length (unread chan run)"
  using assms get_octet_shrinks [of "framing_io run" got b io1]
  by (simp_all add: read_inv_def Let_def ring_only_def unread_def)

text \<open>None there: the reader asks for more.\<close>

lemma no_octet_fine:
  assumes l: "any_line read_cb millis chan" and i: "read_inv buf len run"
    and g: "uxr_get_next_octet (framing_io run) = (False, octet, io1)"
    and f: "fetch_octets read_cb millis k (run\<lparr>framing_io := io1\<rparr>) = (n, run1)"
    and r: "(over, run2) = (if 0 < n then (False, run1) else if UXR_FRAMING_BEGIN_FLAG = octet
      then (False, go UXR_FRAMING_READING_SRC_ADDR run1) else (True, run1))"
  shows "fine chan buf len run over run2"
proof -
  note O = octet_fine [OF i g]
  note F = fetch_fine [OF l O(1), unfolded run_with_def, OF f]
  have "octet = UXR_FRAMING_BEGIN_FLAG \<Longrightarrow> length (unread chan run1) < length (unread chan run)"
    using O(5) F(6) by (simp add: run_with_def)
  then have "octet = UXR_FRAMING_BEGIN_FLAG \<Longrightarrow> (work chan (go UXR_FRAMING_READING_SRC_ADDR run1), work chan run) \<in> less_work"
    by (intro less_workI(1)) (simp add: unread_def)
  moreover have "(work chan run1, work chan run) \<in> less_work" if "0 < n"
    using F(6,7) that O(4) [of chan] by (intro less_workI(2)) (simp_all add: run_with_def)
  moreover have "read_inv buf len (go UXR_FRAMING_READING_SRC_ADDR run1)"
    using F(1) by (simp add: read_inv_def Let_def)
  ultimately show ?thesis
    using F(1-4) O(2) r by (auto simp: fine_def ring_only_def unread_def intro: less_workI split: if_splits)
qed

text \<open>One there: the state machine moves on.\<close>

lemma octet_there_fine:
  assumes "read_inv buf len run" and "uxr_get_next_octet (framing_io run) = (True, octet, io1)"
    and "read_inv buf len run2" and "framing_io run2 = io2" and "rb_tail io2 = rb_tail io1" and "rb_head io2 = rb_head io1"
    and "rb io2 = rb io1" and "local_addr io2 = local_addr io1" and "device run2 = device run" and "buf_mem run2 = buf_mem run"
    and "run_rv run2 = run_rv run \<or> over \<and> accepted buf len run2"
  shows "fine chan buf len run over run2"
  using assms octet_fine [OF assms(1,2)]
  by (auto simp: fine_def unread_def pending_def ring_only_def intro!: less_workI(1))

definition want :: "uxrFramingInputState \<Rightarrow> size_t" where
  "want s = (case s of UXR_FRAMING_READING_DST_ADDR \<Rightarrow> 3 | UXR_FRAMING_READING_LEN_LSB \<Rightarrow> 2 |
     UXR_FRAMING_READING_CRC_LSB \<Rightarrow> 2 | _ \<Rightarrow> 1)"

lemma step_no_octet:
  assumes "state (framing_io run) \<in> {UXR_FRAMING_READING_DST_ADDR, UXR_FRAMING_READING_LEN_LSB, UXR_FRAMING_READING_LEN_MSB,
      UXR_FRAMING_READING_CRC_LSB, UXR_FRAMING_READING_CRC_MSB}"
    and "uxr_get_next_octet (framing_io run) = (False, octet, io1)"
    and "fetch_octets read_cb millis (want (state (framing_io run))) (run\<lparr>framing_io := io1\<rparr>) = (n, run1)"
  shows "framing_step read_cb millis buf len run = Some (if 0 < n then (False, run1) else if UXR_FRAMING_BEGIN_FLAG = octet
      then (False, go UXR_FRAMING_READING_SRC_ADDR run1) else (True, run1))"
  using assms(1) apply (simp only: insert_iff empty_iff simp_thms)
  apply (elim disjE)
  using assms(2,3) by (simp_all add: framing_step_def want_def)

lemma step_fine_header:
  assumes l: "any_line read_cb millis chan" and i: "read_inv buf len run"
    and s: "state (framing_io run) \<in> {UXR_FRAMING_READING_DST_ADDR, UXR_FRAMING_READING_LEN_LSB, UXR_FRAMING_READING_LEN_MSB,
      UXR_FRAMING_READING_CRC_LSB, UXR_FRAMING_READING_CRC_MSB}"
    and r: "framing_step read_cb millis buf len run = Some (over, run1)"
  shows "fine chan buf len run over run1"
proof -
  obtain got octet io1 where g: "uxr_get_next_octet (framing_io run) = (got, octet, io1)"
    by (metis prod_cases3)
  note O = octet_fine [OF i g]
  show ?thesis
  proof (cases got)
    case False
    then have g0: "uxr_get_next_octet (framing_io run) = (False, octet, io1)"
      using g by simp
    obtain n run2 where f: "fetch_octets read_cb millis (want (state (framing_io run))) (run\<lparr>framing_io := io1\<rparr>) = (n, run2)"
      by force
    show ?thesis
      by (rule no_octet_fine [OF l i g0 f]) (use step_no_octet [OF s g0 f, of buf len] r in simp)
  next
    case True
    then have g1: "uxr_get_next_octet (framing_io run) = (True, octet, io1)"
      using g by simp
    have io1: "ring_ok io1" "cmp_crc io1 = cmp_crc (framing_io run)" "msg_len io1 = msg_len (framing_io run)"
      using O(2,3) by (simp_all add: ring_only_def)
    note there = octet_there_fine [OF i g1 _ refl]
    consider (dst) "state (framing_io run) = UXR_FRAMING_READING_DST_ADDR"
      | (lsb) "state (framing_io run) = UXR_FRAMING_READING_LEN_LSB"
      | (msb) "state (framing_io run) = UXR_FRAMING_READING_LEN_MSB"
      | (crc) "state (framing_io run) = UXR_FRAMING_READING_CRC_LSB"
      | (last) "state (framing_io run) = UXR_FRAMING_READING_CRC_MSB"
      using s by blast
    then show ?thesis
    proof cases
      case dst
      then have "run1 = go (if octet = local_addr io1 then UXR_FRAMING_READING_LEN_LSB else UXR_FRAMING_UNINITIALIZED)
          (run\<lparr>framing_io := io1\<rparr>)"
        using r g1 by (simp add: framing_step_def)
      then show ?thesis
        using io1(1) by (intro there) (simp_all add: read_inv_def Let_def)
    next
      case lsb
      then have "run1 = go UXR_FRAMING_READING_LEN_MSB (run\<lparr>framing_io := io1\<lparr>msg_len := ucast octet\<rparr>\<rparr>)"
        using r g1 by (simp add: framing_step_def)
      then show ?thesis
        using io1(1) by (intro there) (simp_all add: read_inv_def Let_def)
    next
      case msb
      define io2 where "io2 = io1\<lparr>msg_len := msg_len io1 + push_bit 8 (ucast octet), msg_pos := 0, cmp_crc := 0\<rparr>"
      have "run1 = go (if len < unat (msg_len io2) then UXR_FRAMING_UNINITIALIZED else UXR_FRAMING_READING_PAYLOAD)
          (run\<lparr>framing_io := io2\<rparr>)"
        using msb r g1 by (simp add: framing_step_def Let_def io2_def split: if_splits)
      then show ?thesis
        using io1(1) by (intro there) (simp_all add: read_inv_def Let_def io2_def checksum_def)
    next
      case crc
      then have "run1 = go UXR_FRAMING_READING_CRC_MSB (run\<lparr>framing_io := io1\<lparr>msg_crc := ucast octet\<rparr>\<rparr>)"
        using r g1 by (simp add: framing_step_def)
      then show ?thesis
        using io1 i crc by (intro there) (simp_all add: read_inv_def Let_def)
    next
      case last
      define io2 where "io2 = io1\<lparr>msg_crc := msg_crc io1 + push_bit 8 (ucast octet)\<rparr>"
      define run2 where "run2 = go UXR_FRAMING_UNINITIALIZED (run\<lparr>framing_io := io2\<rparr>)"
      have r1: "over" "run1 = (if cmp_crc io2 = msg_crc io2 then run2\<lparr>sender := src_addr io2, run_rv := unat (msg_len io2)\<rparr> else run2)"
        using last r g1 by (auto simp: framing_step_def Let_def io2_def run2_def)
      show ?thesis
        using io1 i last r1
        by (intro there) (simp_all add: read_inv_def Let_def run2_def io2_def accepted_def split: if_splits)
    qed
  qed
qed

lemma step_fine_SRC:
  assumes l: "any_line read_cb millis chan" and i: "read_inv buf len run"
    and s: "state (framing_io run) = UXR_FRAMING_READING_SRC_ADDR"
    and r: "framing_step read_cb millis buf len run = Some (over, run1)"
  shows "fine chan buf len run over run1"
proof -
  obtain got octet io1 where g: "uxr_get_next_octet (framing_io run) = (got, octet, io1)"
    by (metis prod_cases3)
  note O = octet_fine [OF i g]
  define run0 where "run0 = run\<lparr>framing_io := io1\<lparr>src_addr := octet\<rparr>\<rparr>"
  have i0: "read_inv buf len run0"
    using O(1-3) s by (simp add: run0_def read_inv_def ring_only_def)
  show ?thesis
  proof (cases got)
    case True
    then have g1: "uxr_get_next_octet (framing_io run) = (True, octet, io1)"
      using g by simp
    have "run1 = go UXR_FRAMING_READING_DST_ADDR run0"
      using s r g True by (simp add: framing_step_def run0_def)
    then show ?thesis
      using i0 by (intro octet_there_fine [OF i g1 _ refl]) (simp_all add: read_inv_def Let_def run0_def)
  next
    case False
    obtain n run2 where f: "fetch_octets read_cb millis 4 run0 = (n, run2)"
      by force
    note F = fetch_fine [OF l i0 f]
    have r1: "run1 = run2" "over \<longleftrightarrow> \<not> 0 < n \<and> octet \<noteq> UXR_FRAMING_BEGIN_FLAG"
      using s r g False f F(8) by (auto simp: framing_step_def run0_def)
    have u: "unread chan run2 = unread chan (run_with run io1)" "length (chan (device run)) = length (chan (device run2)) + n"
      using F(6,7) by (simp_all add: run0_def unread_def)
    have "(work chan run2, work chan run) \<in> less_work" if "0 < n"
      using u that O(4) [of chan] by (intro less_workI(2)) simp_all
    moreover have "(work chan run2, work chan run) \<in> less_work" if "octet = UXR_FRAMING_BEGIN_FLAG"
      using O(5) [of chan] that u(1) by (intro less_workI(1)) simp
    ultimately have "\<not> over \<longrightarrow> (work chan run1, work chan run) \<in> less_work"
      using r1 by blast
    then show ?thesis
      using F O(2) r1(1) by (simp add: fine_def run0_def ring_only_def)
  qed
qed

lemma step_fine_PAYLOAD:
  assumes l: "any_line read_cb millis chan" and i: "read_inv buf len run"
    and s: "state (framing_io run) = UXR_FRAMING_READING_PAYLOAD"
    and r: "framing_step read_cb millis buf len run = Some (over, run1)"
  shows "fine chan buf len run over run1"
proof -
  obtain octet io1 m1 where p: "read_payload buf 0 (framing_io run) (buf_mem run) = (octet, io1, m1)"
    by (metis prod_cases3)
  define run0 where "run0 = run\<lparr>framing_io := io1, buf_mem := m1\<rparr>"
  note I = i [unfolded read_inv_def Let_def]
  have P: "ring_ok io1" "msg_len io1 = msg_len (framing_io run)" "msg_pos io1 \<le> msg_len (framing_io run)"
    "cmp_crc io1 = checksum (rd m1 buf (unat (msg_pos io1)))" "changed_within (buf_mem run) m1 buf (buf + len)"
    "state io1 = UXR_FRAMING_READING_PAYLOAD" "local_addr io1 = local_addr (framing_io run)"
    "length (pending io1) \<le> length (pending (framing_io run))"
    "octet = UXR_FRAMING_BEGIN_FLAG \<Longrightarrow> length (pending io1) < length (pending (framing_io run))"
    using read_payload_safe [where len = len, OF _ _ _ _ p] I s by (auto simp: UXR_FRAMING_BEGIN_FLAG_def)
  have i0: "read_inv buf len run0"
    using P I s by (simp add: read_inv_def Let_def run0_def)
  have u: "length (unread chan run0) \<le> length (unread chan run)"
    "octet = UXR_FRAMING_BEGIN_FLAG \<Longrightarrow> length (unread chan run0) < length (unread chan run)"
    using P(8,9) by (simp_all add: run0_def unread_def)
  consider "msg_pos io1 = msg_len io1" | "msg_pos io1 \<noteq> msg_len io1" "octet = UXR_FRAMING_BEGIN_FLAG"
    | "msg_pos io1 \<noteq> msg_len io1" "octet \<noteq> UXR_FRAMING_BEGIN_FLAG"
    by blast
  then show ?thesis
  proof cases
    case 1
    then have r1: "over = False" "run1 = go UXR_FRAMING_READING_CRC_LSB run0"
      using r s p by (simp_all add: framing_step_def run0_def)
    have "(work chan run1, work chan run) \<in> less_work"
      using u(1) s r1(2) by (auto simp: work_def unread_def run0_def)
    moreover have "read_inv buf len run1"
      using P 1 I s r1(2) by (simp add: read_inv_def Let_def run0_def)
    ultimately show ?thesis
      using r1 P(5,7) by (simp add: fine_def run0_def)
  next
    case 2
    then have r1: "over = False" "run1 = go UXR_FRAMING_READING_SRC_ADDR run0"
      using r s p by (auto simp: framing_step_def run0_def)
    have "(work chan run1, work chan run) \<in> less_work"
      using u(2) 2 r1(2) by (intro less_workI(1)) (simp add: unread_def run0_def)
    moreover have "read_inv buf len run1"
      using P(1) r1(2) by (simp add: read_inv_def Let_def run0_def)
    ultimately show ?thesis
      using r1 P(5,7) by (simp add: fine_def run0_def)
  next
    case 3
    obtain n run2 where f: "fetch_octets read_cb millis (size_add (size_sub (unat (msg_len io1)) (unat (msg_pos io1))) 2) run0 =
        (n, run2)"
      by force
    note F = fetch_fine [OF l i0 f]
    have r1: "run1 = run2" "over \<longleftrightarrow> \<not> 0 < n"
      using r s p 3 f by (auto simp: framing_step_def run0_def)
    have "(work chan run2, work chan run) \<in> less_work" if "0 < n"
      using F(6,7) u(1) that by (intro less_workI(2)) (simp_all add: run0_def)
    then show ?thesis
      using F(1-4) P(5,7) r1 by (simp add: fine_def run0_def)
  qed
qed

lemma step_fine_UNINITIALIZED:
  assumes i: "read_inv buf len run" and s: "state (framing_io run) = UXR_FRAMING_UNINITIALIZED"
  shows "\<exists>over run1. framing_step read_cb millis buf len run = Some (over, run1) \<and> fine chan buf len run over run1"
proof -
  have "ring_ok (framing_io run)"
    using i by (simp add: read_inv_def Let_def)
  from skip_to_flag_safe [OF this, of 0]
  obtain octet io1 where k: "skip_to_flag 0 (framing_io run) = Some (octet, io1)" "ring_ok io1" "ring_only (framing_io run) io1"
    "length (pending io1) \<le> length (pending (framing_io run))"
    "octet = UXR_FRAMING_BEGIN_FLAG \<Longrightarrow> length (pending io1) < length (pending (framing_io run))"
    by (auto simp: UXR_FRAMING_BEGIN_FLAG_def)
  have l: "local_addr io1 = local_addr (framing_io run)" "state io1 = UXR_FRAMING_UNINITIALIZED"
    using k(3) s by (simp_all add: ring_only_def)
  show ?thesis
  proof (cases "octet = UXR_FRAMING_BEGIN_FLAG")
    case True
    let ?run = "go UXR_FRAMING_READING_SRC_ADDR (run\<lparr>framing_io := io1\<rparr>)"
    have "framing_step read_cb millis buf len run = Some (False, ?run)"
      using k(1) s True by (simp add: framing_step_def)
    moreover have "(work chan ?run, work chan run) \<in> less_work"
      using k(5) True by (intro less_workI(1)) (simp add: unread_def)
    ultimately show ?thesis
      using k(2) l by (intro exI [of _ False] exI [of _ ?run]) (simp add: fine_def read_inv_def Let_def)
  next
    case False
    then have "framing_step read_cb millis buf len run = Some (True, run\<lparr>framing_io := io1\<rparr>)"
      using k(1) s by (simp add: framing_step_def)
    then show ?thesis
      using k(2) l by (intro exI [of _ True] exI [of _ "run\<lparr>framing_io := io1\<rparr>"]) (simp add: fine_def read_inv_def Let_def)
  qed
qed

lemma step_total: "state (framing_io run) \<noteq> UXR_FRAMING_UNINITIALIZED \<Longrightarrow>
    \<exists>over run1. framing_step read_cb millis buf len run = Some (over, run1)"
  by (cases "state (framing_io run)") (auto simp: framing_step_def Let_def split: prod.splits)

lemma step_fine:
  assumes l: "any_line read_cb millis chan" and i: "read_inv buf len run"
  obtains over run1 where "framing_step read_cb millis buf len run = Some (over, run1)" "fine chan buf len run over run1"
proof (cases "state (framing_io run) = UXR_FRAMING_UNINITIALIZED")
  case True
  then show ?thesis
    using step_fine_UNINITIALIZED [OF i] that by blast
next
  case False
  then obtain over run1 where r: "framing_step read_cb millis buf len run = Some (over, run1)"
    using step_total by blast
  have "fine chan buf len run over run1"
    using False step_fine_SRC [OF l i _ r] step_fine_PAYLOAD [OF l i _ r] step_fine_header [OF l i _ r]
    by (cases "state (framing_io run)") simp_all
  then show ?thesis
    using r that by blast
qed

section \<open>The call\<close>

lemma loop_fine:
  assumes l: "any_line read_cb millis chan" and "read_inv buf len run"
  shows "\<exists>run1. framing_loop read_cb millis buf len run = Some run1 \<and> fine chan buf len run True run1"
proof -
  have "wf less_work"
    by (intro wf_lex_prod wf_less_than)
  from this assms(2) show ?thesis
  proof (induction "work chan run" arbitrary: run rule: wf_induct_rule)
  case (less run)
  obtain over run1 where s: "framing_step read_cb millis buf len run = Some (over, run1)" "fine chan buf len run over run1"
    by (rule step_fine [OF l less.prems])
  show ?case
  proof (cases over)
    case True
    then show ?thesis
      using s by (subst framing_loop.simps) simp
  next
    case False
    then obtain run2 where "framing_loop read_cb millis buf len run1 = Some run2" "fine chan buf len run1 True run2"
      using s(2) less.hyps [of run1] by (auto simp: fine_def)
    then show ?thesis
      using s False framing_loop_next [of read_cb millis buf len run run1]
      by (auto simp: fine_def intro: changed_within_trans)
  qed
  qed
qed

text \<open>C11. Whatever comes over the line, noise, cut-off frames or hostile lengths, one call of the reader
  returns, writes nowhere but into the message buffer, and reports a message only if it fits the
  buffer and its octets there have the checksum that was received. The invariant that this rests on,
  which the initial state has, holds again for the next call.\<close>
theorem framed_read_safe:
  assumes "any_line read_cb millis chan" and "read_inv buf len run"
  shows "\<exists>run1. uxr_read_framed_msg read_cb millis buf len run = Some run1 \<and> read_inv buf len run1 \<and>
    changed_within (buf_mem run) (buf_mem run1) buf (buf + len) \<and> run_rv run1 \<le> len \<and>
    (0 < run_rv run1 \<longrightarrow> checksum (rd (buf_mem run1) buf (run_rv run1)) = msg_crc (framing_io run1))"
proof -
  define run0 where "run0 = run\<lparr>run_rv := 0\<rparr>"
  define run1 where "run1 = (if rb_head (framing_io run0) = rb_tail (framing_io run0)
    then snd (fetch_octets read_cb millis 5 run0) else run0)"
  have i0: "read_inv buf len run0"
    using assms(2) by (simp add: read_inv_def run0_def)
  have 1: "read_inv buf len run1" "buf_mem run1 = buf_mem run" "run_rv run1 = 0"
  proof -
    obtain k run2 where fe: "fetch_octets read_cb millis 5 run0 = (k, run2)"
      by force
    show "read_inv buf len run1" "buf_mem run1 = buf_mem run" "run_rv run1 = 0"
      using i0 fetch_fine(1,2,4) [OF assms(1) i0 fe] fe by (simp_all add: run1_def) (simp_all add: run0_def)
  qed
  have e: "uxr_read_framed_msg read_cb millis buf len run = (if rb_tail (framing_io run1) \<noteq> rb_head (framing_io run1)
      then framing_loop read_cb millis buf len run1 else Some run1)"
    unfolding uxr_read_framed_msg_def Let_def run1_def run0_def by (rule refl)
  obtain run2 where "framing_loop read_cb millis buf len run1 = Some run2" "fine chan buf len run1 True run2"
    using loop_fine [OF assms(1) 1(1)] by blast
  then show ?thesis
    unfolding e using 1 by (auto simp: fine_def accepted_def)
qed

theorem framed_read_safe_witness:
  "\<exists>run1. uxr_read_framed_msg line_read line_millis 100 8 (example_run 1 [0x7E, 9, 1, 0xFF, 0xFF, 3]) = Some run1 \<and>
    changed_within (\<lambda>_. 0) (buf_mem run1) 100 108 \<and> run_rv run1 \<le> 8"
proof -
  have "any_line line_read line_millis (\<lambda>e. e)"
    using line_feeds by (simp add: any_line_def feeds_def)
  moreover have "read_inv 100 8 (example_run 1 [0x7E, 9, 1, 0xFF, 0xFF, 3])"
    by (simp add: read_inv_def example_run_def)
  ultimately show ?thesis
    using framed_read_safe by (fastforce simp: example_run_def)
qed

section \<open>A begin flag in the middle\<close>

text \<open>A begin flag that comes where the header or the checksum of a frame is expected starts a new
  frame only if the line has fallen silent; as long as more octets are to be had the flag is dropped
  and the reader waits for the rest of the old frame, so that the new frame is lost.\<close>
theorem begin_flag_swallowed:
  assumes "feeds read_cb millis chan" and "ring_ok (framing_io run)"
    and "state (framing_io run) \<in> {UXR_FRAMING_READING_DST_ADDR, UXR_FRAMING_READING_LEN_LSB, UXR_FRAMING_READING_LEN_MSB,
      UXR_FRAMING_READING_CRC_LSB, UXR_FRAMING_READING_CRC_MSB}"
    and "pending (framing_io run) = UXR_FRAMING_BEGIN_FLAG # p"
  shows "\<exists>run1. framing_step read_cb millis buf len run = Some (False, run1) \<and> unread chan run1 = p @ chan (device run) \<and>
    state (framing_io run1) = (if chan (device run) = [] then UXR_FRAMING_READING_SRC_ADDR else state (framing_io run))"
proof -
  let ?io = "framing_io run"
  obtain got octet io1 where g: "uxr_get_next_octet ?io = (got, octet, io1)"
    by (metis prod_cases3)
  have G: "\<not> got" "octet = UXR_FRAMING_BEGIN_FLAG" "pending io1 = p" "ring_ok io1" "state io1 = state ?io"
    using get_octet_spec [OF assms(2) g] assms(4) by (auto simp: UXR_FRAMING_BEGIN_FLAG_def UXR_FRAMING_ESC_FLAG_def)
  define run0 where "run0 = run\<lparr>framing_io := io1\<rparr>"
  obtain n run1 where f: "fetch_octets read_cb millis (want (state ?io)) run0 = (n, run1)"
    by force
  have F: "run_like run0 run1" "unread chan run1 = unread chan run0"
    "length (chan (device run)) = length (chan (device run1)) + n"
    using fetch_spec [OF assms(1) _ f] G(4) by (simp_all add: run0_def)
  have "length p < 41"
    using length_pending_less [of ?io] assms(4) by simp
  moreover have "0 < want (state ?io)"
    by (simp add: want_def split: uxrFramingInputState.splits)
  ultimately have n: "0 < n \<longleftrightarrow> chan (device run) \<noteq> []"
    using F(3) fetch_spec(6) [OF assms(1) _ f] G(3,4) by (auto simp: run0_def)
  have "framing_step read_cb millis buf len run = Some (if 0 < n then (False, run1) else if UXR_FRAMING_BEGIN_FLAG = octet
      then (False, go UXR_FRAMING_READING_SRC_ADDR run1) else (True, run1))"
    using step_no_octet [OF assms(3) _ f [unfolded run0_def]] g G(1,2) by simp
  then show ?thesis
    using n F(1,2) G(2,3,5) by (auto simp: run0_def run_like_def ring_only_def unread_def)
qed

theorem begin_flag_swallowed_witness:
  "\<exists>run1. framing_step line_read line_millis 100 8 (example_run 1 [1, 5]\<lparr>framing_io := (example_framing_io 1)
      \<lparr>state := UXR_FRAMING_READING_DST_ADDR, rb := 0x7E # replicate 41 0, rb_head := 1\<rparr>\<rparr>) = Some (False, run1) \<and>
    unread (\<lambda>e. e) run1 = [1, 5] \<and> state (framing_io run1) = UXR_FRAMING_READING_DST_ADDR"
  using begin_flag_swallowed [OF line_feeds, of "example_run 1 [1, 5]\<lparr>framing_io := (example_framing_io 1)
      \<lparr>state := UXR_FRAMING_READING_DST_ADDR, rb := 0x7E # replicate 41 0, rb_head := 1\<rparr>\<rparr>" "[]" 100 8]
  by (simp add: example_framing_io_def uxr_init_framing_io_def ring_ok_def pending_def example_run_def UXR_FRAMING_BEGIN_FLAG_def)

end
