(* ===== verification/FramingTime.thy ===== *)
theory FramingTime
  imports FramingSafe
begin

text \<open>Reading frames takes an end: either octets are used up or the time.\<close>

section \<open>The clock\<close>

text \<open>
  The clock does not go back, a read that finds nothing takes the time it was given, and no call takes
  more than six days if it is not told to, so that the difference of two readings fits an \<open>int\<close>.
\<close>

definition timely :: "'e uxr_read_cb \<Rightarrow> ('e \<Rightarrow> int \<times> 'e) \<Rightarrow> ('e \<Rightarrow> int) \<Rightarrow> bool" where
  "timely read_cb millis clock \<longleftrightarrow>
     (\<forall>e. fst (millis e) = clock e \<and> clock e \<le> clock (snd (millis e)) \<and> clock (snd (millis e)) \<le> clock e + 2 ^ 29) \<and>
     (\<forall>k t err e bs err' e'. read_cb k t err e = (bs, err', e') \<and> t \<le> 2 ^ 29 \<longrightarrow>
        clock e \<le> clock e' \<and> clock e' \<le> clock e + 2 ^ 29 \<and> (bs = [] \<and> 0 < k \<longrightarrow> clock e + t \<le> clock e'))"

lemma timelyD:
  assumes "timely read_cb millis clock"
  shows "millis e = (t, e') \<Longrightarrow> t = clock e \<and> clock e \<le> clock e' \<and> clock e' \<le> clock e + 2 ^ 29"
    and "read_cb k t err e = (bs, err', e') \<Longrightarrow> t \<le> 2 ^ 29 \<Longrightarrow> clock e \<le> clock e' \<and> clock e' \<le> clock e + 2 ^ 29"
    and "read_cb k t err e = ([], err', e') \<Longrightarrow> t \<le> 2 ^ 29 \<Longrightarrow> 0 < k \<Longrightarrow> clock e + t \<le> clock e'"
  using assms unfolding timely_def by (metis fst_conv snd_conv, blast, blast)

lemma read_transport_time:
  assumes ok: "ring_ok io" and tm: "timely read_cb millis clock" and t: "timeout \<le> 2 ^ 29"
    and r: "uxr_framing_read_transport io read_cb millis timeout err k e = (n, io', timeout', err', e')"
  shows "timeout' \<le> max 0 timeout" and "0 < k \<Longrightarrow> length (pending io) < 41 \<Longrightarrow> n = 0 \<Longrightarrow> timeout' \<le> 0"
proof -
  note T = timelyD [OF tm]
  obtain now0 e0 where m0: "millis e = (now0, e0)" by force
  obtain a b where ab: "available_length io = (a, b)" by force
  note A = available_spec [OF ok ab]
  define io0 where "io0 = (if rb_head io = rb_tail io then io\<lparr>rb_head := 0, rb_tail := 0\<rparr> else io)"
  define a' b' where "a' = (if k < a then k else a)" and "b' = (if k < a then 0 else if k < a + b then k - a else b)"
  have lim: "(if k < a then (cast_u8 k, 0) else if k < a + b then (a, cast_u8 (size_sub k a)) else (a, b)) = (a', b')"
    using A(1) by (auto simp: a'_def b'_def cast_u8_eq size_sub_eq)
  note R = r [unfolded uxr_framing_read_transport_def Let_def m0 ab prod.case, folded io0_def, unfolded lim prod.case]
  obtain n2 io2 err2 e2 where inner: "(if 0 < a' then case read_cb a' timeout err e0 of (bs, err1, e1) \<Rightarrow>
        if 0 < length bs \<and> length bs = a' \<and> 0 < b' then case read_cb b' 0 err1 e1 of (cs, err2, e2) \<Rightarrow>
          (length bs + length cs, store_octets (store_octets io0 bs) cs, err2, e2)
        else (length bs, store_octets io0 bs, err1, e1)
      else (0, io0, err, e0)) = (n2, io2, err2, e2)"
    by (rule prod_cases4)
  obtain now e3 where m2: "millis e2 = (now, e3)"
    by force
  let ?d = "cast_int32 (now - now0)"
  have fin: "n = n2" "timeout' = (if 0 > timeout - ?d then 0 else timeout - ?d)"
    using R by (auto simp: inner m2 Let_def split: if_splits)
  have "clock e0 \<le> clock e2 \<and> clock e2 \<le> clock e0 + 2 * 2 ^ 29"
  proof (cases "0 < a'")
    case True
    obtain bs err1 e1 where c1: "read_cb a' timeout err e0 = (bs, err1, e1)"
      by (metis prod_cases3)
    show ?thesis
    proof (cases "0 < length bs \<and> length bs = a' \<and> 0 < b'")
      case two: True
      obtain cs err3 e4 where c2: "read_cb b' 0 err1 e1 = (cs, err3, e4)"
        by (metis prod_cases3)
      have "e2 = e4"
        using inner True c1 two c2 by auto
      then show ?thesis
        using T(2) [OF c1 t] T(2) [OF c2] by simp
    next
      case False
      then have "e2 = e1"
        using inner True c1 by auto
      then show ?thesis
        using T(2) [OF c1 t] by simp
    qed
  qed (use inner in auto)
  then have d: "0 \<le> now - now0" "now - now0 < 2 ^ 31" "clock e0 - now0 \<ge> 0" "now - now0 = clock e2 - clock e"
    using T(1) [OF m0] T(1) [OF m2] by simp_all
  then have d': "?d = now - now0"
    by (simp add: cast_int32_eq)
  show "timeout' \<le> max 0 timeout"
    using fin(2) d(1) d' by auto
  show "timeout' \<le> 0" if "0 < k" "length (pending io) < 41" "n = 0"
  proof -
    have a': "0 < a'"
      using that A(3) by (auto simp: a'_def)
    obtain bs err1 e1 where c1: "read_cb a' timeout err e0 = (bs, err1, e1)"
      by (metis prod_cases3)
    have "bs = []" "e2 = e1"
      using inner a' c1 that(3) fin(1) by (auto split: if_splits prod.splits)
    then have "clock e0 + timeout \<le> clock e2"
      using T(3) [OF _ t a'] c1 by blast
    then show ?thesis
      using fin(2) d' d(3,4) T(1) [OF m0] by auto
  qed
qed

lemma fetch_time:
  assumes "ring_ok (framing_io run)" and "timely read_cb millis clock" and "fetch_octets read_cb millis k run = (n, run1)"
    and "time_left run \<le> 2 ^ 29"
  shows "time_left run1 \<le> max 0 (time_left run)"
    and "0 < k \<Longrightarrow> length (pending (framing_io run)) < 41 \<Longrightarrow> n = 0 \<Longrightarrow> time_left run1 \<le> 0"
proof -
  obtain io1 t1 err1 e1 where t: "uxr_framing_read_transport (framing_io run) read_cb millis (time_left run) (run_errcode run) k
      (device run) = (n, io1, t1, err1, e1)" and "time_left run1 = t1"
    using assms(3) by (auto simp: fetch_octets_def split: prod.splits)
  then show "time_left run1 \<le> max 0 (time_left run)"
    "0 < k \<Longrightarrow> length (pending (framing_io run)) < 41 \<Longrightarrow> n = 0 \<Longrightarrow> time_left run1 \<le> 0"
    using read_transport_time [OF assms(1,2,4) t] by simp_all
qed

section \<open>What a round does\<close>

definition moved :: "'e framing_run \<Rightarrow> bool \<Rightarrow> 'e framing_run \<Rightarrow> bool" where
  "moved run over run1 \<longleftrightarrow> device run1 = device run \<and> time_left run1 = time_left run \<and>
     (length (pending (framing_io run1)) < length (pending (framing_io run)) \<or>
      \<not> over \<and> state (framing_io run) = UXR_FRAMING_READING_PAYLOAD \<and> state (framing_io run1) \<noteq> UXR_FRAMING_UNINITIALIZED \<and>
        length (pending (framing_io run1)) \<le> length (pending (framing_io run)) \<or>
      over \<and> state (framing_io run) = UXR_FRAMING_UNINITIALIZED \<and> pending (framing_io run) = [] \<and> pending (framing_io run1) = [])"

definition asked ::
  "'e uxr_read_cb \<Rightarrow> ('e \<Rightarrow> int \<times> 'e) \<Rightarrow> 'e framing_run \<Rightarrow> bool \<Rightarrow> 'e framing_run \<Rightarrow> bool"
where
  "asked read_cb millis run over run1 \<longleftrightarrow> (\<exists>k runa n run2. fetch_octets read_cb millis k runa = (n, run2) \<and> 0 < k \<and>
     ring_ok (framing_io runa) \<and> device runa = device run \<and> time_left runa = time_left run \<and>
     length (pending (framing_io runa)) \<le> length (pending (framing_io run)) \<and> length (pending (framing_io runa)) < 41 \<and>
     time_left run1 = time_left run2 \<and> device run1 = device run2 \<and> pending (framing_io run1) = pending (framing_io run2) \<and>
     (over \<longrightarrow> n = 0) \<and> (\<not> over \<longrightarrow> 0 < n \<or> length (pending (framing_io runa)) < length (pending (framing_io run))))"

lemma no_octet_short:
  assumes "ring_ok io" and "uxr_get_next_octet io = (False, b, io1)"
  shows "length (pending io1) < 41 \<and> (b \<noteq> UXR_FRAMING_BEGIN_FLAG \<longrightarrow> length (pending io1) < 2)"
proof -
  have n: "next_octet (pending io) = (False, b, pending io1)"
    using get_octet_spec [OF assms] by simp
  then have "b \<noteq> UXR_FRAMING_BEGIN_FLAG \<longrightarrow> length (pending io1) < 2"
    by (cases "pending io" rule: next_octet.cases)
      (auto simp: UXR_FRAMING_BEGIN_FLAG_def dest!: sym [of "[_]" "pending io1"] split: if_splits list.splits)
  moreover have "b = UXR_FRAMING_BEGIN_FLAG \<longrightarrow> length (pending io1) < 41"
    using next_octet_shrinks [OF n] length_pending_less [of io] by auto
  ultimately show ?thesis
    by auto
qed

lemma asked_header:
  assumes i: "read_inv buf len run"
    and s: "state (framing_io run) \<in> {UXR_FRAMING_READING_DST_ADDR, UXR_FRAMING_READING_LEN_LSB, UXR_FRAMING_READING_LEN_MSB,
      UXR_FRAMING_READING_CRC_LSB, UXR_FRAMING_READING_CRC_MSB}"
    and g: "uxr_get_next_octet (framing_io run) = (False, octet, io1)"
    and r: "framing_step read_cb millis buf len run = Some (over, run1)"
  shows "asked read_cb millis run over run1"
proof -
  have ok: "ring_ok (framing_io run)"
    using i by (simp add: read_inv_def Let_def)
  note G = get_octet_shrinks [OF ok g]
  obtain n run2 where f: "fetch_octets read_cb millis (want (state (framing_io run))) (run\<lparr>framing_io := io1\<rparr>) = (n, run2)"
    by force
  have w: "0 < want (state (framing_io run))"
    by (simp add: want_def split: uxrFramingInputState.splits)
  have "(over, run1) = (if 0 < n then (False, run2) else if UXR_FRAMING_BEGIN_FLAG = octet
      then (False, go UXR_FRAMING_READING_SRC_ADDR run2) else (True, run2))"
    using step_no_octet [OF s g f, of buf len] r by simp
  then have "time_left run1 = time_left run2" "device run1 = device run2" "pending (framing_io run1) = pending (framing_io run2)"
    "over \<longrightarrow> n = 0" "\<not> over \<longrightarrow> 0 < n \<or> octet = UXR_FRAMING_BEGIN_FLAG"
    by (auto simp: go_def split: if_splits)
  then show ?thesis
    unfolding asked_def using f w G no_octet_short [OF ok g]
    by (intro exI [of _ "want (state (framing_io run))"] exI [of _ "run\<lparr>framing_io := io1\<rparr>"] exI [of _ n] exI [of _ run2]) auto
qed

lemma asked_SRC:
  assumes i: "read_inv buf len run" and s: "state (framing_io run) = UXR_FRAMING_READING_SRC_ADDR"
    and g: "uxr_get_next_octet (framing_io run) = (False, octet, io1)"
    and r: "framing_step read_cb millis buf len run = Some (over, run1)" and l: "any_line read_cb millis chan"
  shows "asked read_cb millis run over run1"
proof -
  have ok: "ring_ok (framing_io run)"
    using i by (simp add: read_inv_def Let_def)
  note G = get_octet_shrinks [OF ok g]
  let ?run0 = "run\<lparr>framing_io := io1\<lparr>src_addr := octet\<rparr>\<rparr>"
  obtain n run2 where f: "fetch_octets read_cb millis 4 ?run0 = (n, run2)"
    by force
  have "src_addr (framing_io run2) = octet"
    using fetch_law(1) [OF l [unfolded any_line_def] _ f] G(1) by (simp add: run_like_def ring_only_def)
  then have "run1 = run2" "over \<longleftrightarrow> \<not> 0 < n \<and> octet \<noteq> UXR_FRAMING_BEGIN_FLAG"
    using s r g f by (auto simp: framing_step_def)
  then show ?thesis
    unfolding asked_def using f G no_octet_short [OF ok g]
    by (intro exI [of _ 4] exI [of _ ?run0] exI [of _ n] exI [of _ run2]) auto
qed

lemma moved_octet:
  assumes i: "read_inv buf len run" and g: "uxr_get_next_octet (framing_io run) = (True, octet, io1)"
    and s: "state (framing_io run) \<notin> {UXR_FRAMING_UNINITIALIZED, UXR_FRAMING_READING_PAYLOAD}"
    and r: "framing_step read_cb millis buf len run = Some (over, run1)"
  shows "moved run over run1"
proof -
  have ok: "ring_ok (framing_io run)"
    using i by (simp add: read_inv_def Let_def)
  note G = get_octet_shrinks [OF ok g]
  have "device run1 = device run \<and> time_left run1 = time_left run \<and> pending (framing_io run1) = pending io1"
    using s r g by (cases "state (framing_io run)") (auto simp: framing_step_def Let_def go_def split: if_splits)
  then show ?thesis
    using G(4) by (simp add: moved_def)
qed

lemma read_payload_short:
  assumes "ring_ok io" and "read_payload buf octet io m = (octet1, io1, m1)" and "msg_pos io \<le> msg_len io"
    and "msg_pos io1 \<noteq> msg_len io1" and "octet1 \<noteq> UXR_FRAMING_BEGIN_FLAG"
  shows "length (pending io1) < 2"
  using assms
proof (induction buf octet io m rule: read_payload.induct)
  case (1 buf octet io m)
  show ?case
  proof (cases "msg_pos io < msg_len io")
    case False
    then have "io1 = io"
      using 1(3) by (simp add: read_payload.simps)
    then show ?thesis
      using False 1(4,5) by simp
  next
    case True
    obtain got x io2 where g: "uxr_get_next_octet io = (got, x, io2)"
      by (metis prod_cases3)
    note G = get_octet_shrinks [OF 1(2) g]
    show ?thesis
    proof (cases got)
      case False
      then have "octet1 = x" "io1 = io2"
        using 1(3) True g by (simp_all add: read_payload.simps)
      then show ?thesis
        using no_octet_short [OF 1(2), of x io2] g False 1(6) by simp
    next
      case got: True
      let ?io3 = "io2\<lparr>msg_pos := msg_pos io2 + 1, cmp_crc := uxr_update_crc (cmp_crc io2) x\<rparr>"
      have e: "read_payload buf x ?io3 (m(buf + unat (msg_pos io2) := x)) = (octet1, io1, m1)"
        using 1(3) True g got by (subst (asm) read_payload.simps) simp
      have "unat (msg_pos io + 1) = unat (msg_pos io) + 1"
        using True by (rule unat_next)
      then have le: "msg_pos ?io3 \<le> msg_len ?io3"
        using True G(2) by (simp add: ring_only_def word_less_nat_alt word_le_nat_alt)
      show ?thesis
        by (rule 1(1) [OF True g [symmetric] refl refl got _ e le 1(5,6)]) (use G(1) in simp)
    qed
  qed
qed

lemma skip_to_flag_moves:
  assumes "ring_ok io" and "skip_to_flag 0 io = Some (x, io2)" and "pending io \<noteq> []"
  shows "length (pending io2) < length (pending io)"
proof -
  let ?io = "io\<lparr>rb_tail := rb_next (rb_tail io) 1\<rparr>"
  obtain y p where p: "pending io = y # p"
    using assms(3) by (cases "pending io") auto
  note h = head_pending [OF assms(1) p]
  have "skip_to_flag y ?io = Some (x, io2)"
    using assms(2) h by (subst (asm) skip_to_flag.simps) (simp add: UXR_FRAMING_BEGIN_FLAG_def)
  moreover have "ring_ok ?io" "pending ?io = p"
    using pending_advance [OF assms(1), of 1] p by simp_all
  ultimately show ?thesis
    using skip_to_flag_safe [of ?io y] p by auto
qed

lemma payload_room: "q \<le> (n :: u16) \<Longrightarrow> 0 < size_add (size_sub (unat n) (unat q)) 2"
proof -
  assume "q \<le> n"
  then have le: "unat q \<le> unat n"
    by (simp add: word_le_nat_alt)
  have lt: "unat n < 65536"
    by (rule unat_u16_less)
  have "size_sub (unat n) (unat q) = unat n - unat q"
    by (rule size_sub_eq [OF le], rule order.strict_trans [OF lt]) simp
  moreover have "unat n - unat q + 2 < 65538"
    using lt by linarith
  then have "size_add (unat n - unat q) 2 = unat n - unat q + 2"
    by (intro size_add_eq) (erule order.strict_trans, simp)
  ultimately show ?thesis
    by simp
qed

lemma step_kinds:
  assumes l: "any_line read_cb millis chan" and i: "read_inv buf len run"
    and r: "framing_step read_cb millis buf len run = Some (over, run1)"
  shows "moved run over run1 \<or> asked read_cb millis run over run1"
proof -
  let ?io = "framing_io run"
  have ok: "ring_ok ?io"
    using i by (simp add: read_inv_def Let_def)
  obtain got octet io1 where g: "uxr_get_next_octet ?io = (got, octet, io1)"
    by (metis prod_cases3)
  consider (start) "state ?io = UXR_FRAMING_UNINITIALIZED" | (payload) "state ?io = UXR_FRAMING_READING_PAYLOAD"
    | (octet) "state ?io \<notin> {UXR_FRAMING_UNINITIALIZED, UXR_FRAMING_READING_PAYLOAD}" got
    | (src) "state ?io = UXR_FRAMING_READING_SRC_ADDR" "\<not> got"
    | (header) "state ?io \<in> {UXR_FRAMING_READING_DST_ADDR, UXR_FRAMING_READING_LEN_LSB, UXR_FRAMING_READING_LEN_MSB,
      UXR_FRAMING_READING_CRC_LSB, UXR_FRAMING_READING_CRC_MSB}" "\<not> got"
    by (cases "state ?io") auto
  then show ?thesis
  proof cases
    case start
    obtain x io2 where k: "skip_to_flag 0 ?io = Some (x, io2)" "length (pending io2) \<le> length (pending ?io)"
      "x = UXR_FRAMING_BEGIN_FLAG \<Longrightarrow> length (pending io2) < length (pending ?io)"
      using skip_to_flag_safe [OF ok, of 0] by (auto simp: UXR_FRAMING_BEGIN_FLAG_def)
    have p: "pending ?io \<noteq> [] \<Longrightarrow> length (pending io2) < length (pending ?io)"
      by (rule skip_to_flag_moves [OF ok k(1)])
    have "device run1 = device run" "time_left run1 = time_left run" "pending (framing_io run1) = pending io2"
      "over \<longleftrightarrow> x \<noteq> UXR_FRAMING_BEGIN_FLAG"
      using start r k(1) by (auto simp: framing_step_def go_def split: if_splits)
    then show ?thesis
      using p k(2,3) start by (cases "pending ?io = []") (auto simp: moved_def)
  next
    case payload
    obtain x io2 m2 where p: "read_payload buf 0 ?io (buf_mem run) = (x, io2, m2)"
      by (metis prod_cases3)
    have P: "ring_ok io2" "length (pending io2) \<le> length (pending ?io)" "msg_pos ?io \<le> msg_len ?io"
      "x = UXR_FRAMING_BEGIN_FLAG \<Longrightarrow> length (pending io2) < length (pending ?io)"
      using read_payload_safe [where len = len, OF _ _ _ _ p] i payload
      by (auto simp: read_inv_def Let_def UXR_FRAMING_BEGIN_FLAG_def)
    show ?thesis
    proof (cases "msg_pos io2 = msg_len io2 \<or> x = UXR_FRAMING_BEGIN_FLAG")
      case True
      then have "\<not> over" "device run1 = device run" "time_left run1 = time_left run" "pending (framing_io run1) = pending io2"
        "state (framing_io run1) \<noteq> UXR_FRAMING_UNINITIALIZED"
        using r payload p by (auto simp: framing_step_def go_def Let_def split: if_splits)
      then show ?thesis
        using payload P(2) by (simp add: moved_def)
    next
      case False
      let ?k = "size_add (size_sub (unat (msg_len io2)) (unat (msg_pos io2))) 2"
      let ?run0 = "run\<lparr>framing_io := io2, buf_mem := m2\<rparr>"
      obtain n run2 where f: "fetch_octets read_cb millis ?k ?run0 = (n, run2)"
        by force
      have "run1 = run2" "over \<longleftrightarrow> \<not> 0 < n"
        using r payload p False f by (auto simp: framing_step_def)
      moreover have "length (pending io2) < 2"
        using read_payload_short [OF ok p P(3)] False by simp
      moreover have "0 < ?k"
      proof (rule payload_room)
        show "msg_pos io2 \<le> msg_len io2"
          using read_payload_safe [where len = len, OF _ _ _ _ p] i payload by (auto simp: read_inv_def Let_def)
      qed
      ultimately show ?thesis
        unfolding asked_def using f P(1,2)
        by (intro disjI2 exI [of _ ?k] exI [of _ ?run0] exI [of _ n] exI [of _ run2]) auto
    qed
  next
    case octet
    then show ?thesis
      using moved_octet [OF i _ _ r] g by simp
  next
    case src
    then show ?thesis
      using asked_SRC [OF i _ _ r l] g by simp
  next
    case header
    then show ?thesis
      using asked_header [OF i _ _ r] g by simp
  qed
qed

section \<open>The call takes an end\<close>

definition amount :: "('e \<Rightarrow> u8 list) \<Rightarrow> 'e framing_run \<Rightarrow> nat \<times> nat" where
  "amount chan run = (length (unread chan run), length (chan (device run)))"

abbreviation less_amount :: "((nat \<times> nat) \<times> (nat \<times> nat)) set" where
  "less_amount \<equiv> less_than <*lex*> less_than"

text \<open>Something was used up, or the time is over.\<close>

definition progress :: "('e \<Rightarrow> u8 list) \<Rightarrow> 'e framing_run \<Rightarrow> 'e framing_run \<Rightarrow> bool" where
  "progress chan run run1 \<longleftrightarrow> (amount chan run1, amount chan run) \<in> less_amount \<or> time_left run1 \<le> 0"

definition onward :: "('e \<Rightarrow> u8 list) \<Rightarrow> 'e framing_run \<Rightarrow> 'e framing_run \<Rightarrow> bool" where
  "onward chan run run1 \<longleftrightarrow> (amount chan run1, amount chan run) \<in> less_amount\<^sup>= \<and>
     (time_left run \<le> 0 \<longrightarrow> time_left run1 \<le> 0) \<and> (time_left run \<le> 2 ^ 29 \<longrightarrow> time_left run1 \<le> 2 ^ 29)"

lemma amount_trans:
  "(a, b) \<in> less_amount\<^sup>= \<Longrightarrow> (b, c) \<in> less_amount\<^sup>= \<Longrightarrow> (a, c) \<in> less_amount\<^sup>="
  "(a, b) \<in> less_amount \<Longrightarrow> (b, c) \<in> less_amount\<^sup>= \<Longrightarrow> (a, c) \<in> less_amount"
  "(a, b) \<in> less_amount\<^sup>= \<Longrightarrow> (b, c) \<in> less_amount \<Longrightarrow> (a, c) \<in> less_amount"
  by (cases a; cases b; cases c; auto)+

lemma onward_trans: "onward chan run run1 \<Longrightarrow> onward chan run1 run2 \<Longrightarrow> onward chan run run2"
  unfolding onward_def using amount_trans(1) by blast

lemma progress_trans:
  "onward chan run run1 \<Longrightarrow> progress chan run1 run2 \<Longrightarrow> progress chan run run2"
  "progress chan run run1 \<Longrightarrow> onward chan run1 run2 \<Longrightarrow> progress chan run run2"
  unfolding onward_def progress_def using amount_trans(2,3) by blast+

lemma fetch_onward:
  assumes "any_line read_cb millis chan" and "timely read_cb millis clock" and "ring_ok (framing_io run)"
    and "fetch_octets read_cb millis k run = (n, run1)" and "time_left run \<le> 2 ^ 29"
  shows "length (unread chan run1) = length (unread chan run)" and "length (chan (device run)) = length (chan (device run1)) + n"
    and "time_left run1 \<le> max 0 (time_left run)"
    and "0 < k \<Longrightarrow> length (pending (framing_io run)) < 41 \<Longrightarrow> n = 0 \<Longrightarrow> time_left run1 \<le> 0"
  using fetch_law(3,5) [OF assms(1) [unfolded any_line_def] assms(3,4)] fetch_time [OF assms(3,2,4,5)] by auto

lemma step_onward:
  assumes l: "any_line read_cb millis chan" and tm: "timely read_cb millis clock" and i: "read_inv buf len run"
    and r: "framing_step read_cb millis buf len run = Some (over, run1)" and t: "time_left run \<le> 2 ^ 29"
  shows "onward chan run run1" and "over \<Longrightarrow> progress chan run run1 \<or> state (framing_io run) = UXR_FRAMING_UNINITIALIZED \<and>
      pending (framing_io run) = []"
    and "\<not> over \<Longrightarrow> progress chan run run1 \<or> state (framing_io run1) \<noteq> UXR_FRAMING_UNINITIALIZED"
proof -
  have "onward chan run run1 \<and> (over \<longrightarrow> progress chan run run1 \<or> state (framing_io run) = UXR_FRAMING_UNINITIALIZED \<and>
      pending (framing_io run) = []) \<and> (\<not> over \<longrightarrow> progress chan run run1 \<or> state (framing_io run1) \<noteq> UXR_FRAMING_UNINITIALIZED)"
    using step_kinds [OF l i r]
  proof
    assume "moved run over run1"
    then show ?thesis
      by (auto simp: moved_def onward_def progress_def amount_def unread_def)
  next
    assume "asked read_cb millis run over run1"
    then obtain k runa n run2 where a: "fetch_octets read_cb millis k runa = (n, run2)" "0 < k" "ring_ok (framing_io runa)"
      "device runa = device run" "time_left runa = time_left run"
      "length (pending (framing_io runa)) \<le> length (pending (framing_io run))" "length (pending (framing_io runa)) < 41"
      "time_left run1 = time_left run2" "device run1 = device run2" "pending (framing_io run1) = pending (framing_io run2)"
      "over \<longrightarrow> n = 0" "\<not> over \<longrightarrow> 0 < n \<or> length (pending (framing_io runa)) < length (pending (framing_io run))"
      unfolding asked_def by blast
    note F = fetch_onward [OF l tm a(3,1), unfolded a(5), OF t]
    have u: "length (unread chan run1) = length (pending (framing_io runa)) + length (chan (device run))"
      "length (chan (device run)) = length (chan (device run1)) + n"
      using F(1,2) a by (simp_all add: unread_def)
    have "onward chan run run1"
      using u a(5,6,8) F(3) by (auto simp: onward_def amount_def unread_def)
    moreover have "over \<longrightarrow> time_left run1 \<le> 0"
      using F(4) a by auto
    moreover have "\<not> over \<longrightarrow> progress chan run run1"
      using u a(6,12) by (auto simp: progress_def amount_def unread_def)
    ultimately show ?thesis
      by (auto simp: progress_def)
  qed
  then show "onward chan run run1" "over \<Longrightarrow> progress chan run run1 \<or> state (framing_io run) = UXR_FRAMING_UNINITIALIZED \<and>
      pending (framing_io run) = []"
    "\<not> over \<Longrightarrow> progress chan run run1 \<or> state (framing_io run1) \<noteq> UXR_FRAMING_UNINITIALIZED"
    by auto
qed

lemma loop_onward:
  assumes l: "any_line read_cb millis chan" and tm: "timely read_cb millis clock" and "read_inv buf len run" and "time_left run \<le> 2 ^ 29"
  shows "\<exists>run1. framing_loop read_cb millis buf len run = Some run1 \<and> fine chan buf len run True run1 \<and> onward chan run run1 \<and>
    (progress chan run run1 \<or> state (framing_io run) = UXR_FRAMING_UNINITIALIZED \<and> pending (framing_io run) = [])"
proof -
  have "wf less_work"
    by (intro wf_lex_prod wf_less_than)
  from this assms(3,4) show ?thesis
  proof (induction "work chan run" arbitrary: run rule: wf_induct_rule)
  case (less run)
  obtain over run1 where s: "framing_step read_cb millis buf len run = Some (over, run1)" "fine chan buf len run over run1"
    by (rule step_fine [OF l less.prems(1)])
  note S = step_onward [OF l tm less.prems(1) s(1) less.prems(2)]
  show ?case
  proof (cases over)
    case True
    then show ?thesis
      using s S by (subst framing_loop.simps) simp
  next
    case False
    then have "(work chan run1, work chan run) \<in> less_work" "read_inv buf len run1" "time_left run1 \<le> 2 ^ 29"
      using s(2) S(1) less.prems(2) by (simp_all add: fine_def onward_def)
    from less.hyps [OF this]
    obtain run2 where 2: "framing_loop read_cb millis buf len run1 = Some run2" "fine chan buf len run1 True run2"
      "onward chan run1 run2" "progress chan run1 run2 \<or> state (framing_io run1) = UXR_FRAMING_UNINITIALIZED"
      by blast
    have "fine chan buf len run True run2"
      using s(2) 2(2) False by (auto simp: fine_def intro: changed_within_trans)
    moreover have "progress chan run run2"
      using 2(3,4) S(1) S(3) [OF False] progress_trans [of chan run run1 run2] by blast
    ultimately show ?thesis
      using 2(1,3) S(1) onward_trans s(1) False framing_loop_next [of read_cb millis buf len run run1] by fastforce
  qed
  qed
qed

lemma read_framed_onward:
  assumes l: "any_line read_cb millis chan" and tm: "timely read_cb millis clock" and i: "read_inv buf len run"
    and t: "time_left run \<le> 2 ^ 29"
  shows "\<exists>run1. uxr_read_framed_msg read_cb millis buf len run = Some run1 \<and> read_inv buf len run1 \<and>
    changed_within (buf_mem run) (buf_mem run1) buf (buf + len) \<and> run_rv run1 \<le> len \<and> progress chan run run1 \<and>
    time_left run1 \<le> 2 ^ 29 \<and> (0 < run_rv run1 \<longrightarrow> checksum (rd (buf_mem run1) buf (run_rv run1)) = msg_crc (framing_io run1))"
proof -
  define run0 where "run0 = run\<lparr>run_rv := 0\<rparr>"
  define run1 where "run1 = (if rb_head (framing_io run0) = rb_tail (framing_io run0)
    then snd (fetch_octets read_cb millis 5 run0) else run0)"
  have i0: "read_inv buf len run0" and ok0: "ring_ok (framing_io run0)"
    using i by (simp_all add: read_inv_def Let_def run0_def)
  obtain k run2 where fe: "fetch_octets read_cb millis 5 run0 = (k, run2)"
    by force
  have 1: "read_inv buf len run1" "buf_mem run1 = buf_mem run" "run_rv run1 = 0"
    using i0 fetch_fine(1,2,4) [OF l i0 fe] fe by (simp_all add: run1_def) (simp_all add: run0_def)
  have ok1: "ring_ok (framing_io run1)"
    using 1(1) by (simp add: read_inv_def Let_def)
  have t0: "time_left run0 \<le> 2 ^ 29"
    using t by (simp add: run0_def)
  note F = fetch_onward [OF l tm ok0 fe t0]
  have o: "onward chan run run1" and p: "pending (framing_io run1) = [] \<Longrightarrow> progress chan run run1"
  proof -
    have "onward chan run0 run1 \<and> (pending (framing_io run1) = [] \<longrightarrow> progress chan run0 run1)"
    proof (cases "rb_head (framing_io run0) = rb_tail (framing_io run0)")
      case True
      then have "run1 = run2" "pending (framing_io run0) = []"
        using fe pending_empty [OF ok0] by (simp_all add: run1_def)
      then show ?thesis
        using F by (cases "k = 0") (auto simp: onward_def progress_def amount_def)
    next
      case False
      then show ?thesis
        using pending_empty [OF ok0] by (simp add: run1_def onward_def)
    qed
    then show "onward chan run run1" "pending (framing_io run1) = [] \<Longrightarrow> progress chan run run1"
      by (simp_all add: onward_def progress_def amount_def unread_def run0_def)
  qed
  have t1: "time_left run1 \<le> 2 ^ 29"
    using o t by (simp add: onward_def)
  have e: "uxr_read_framed_msg read_cb millis buf len run = (if rb_tail (framing_io run1) \<noteq> rb_head (framing_io run1)
      then framing_loop read_cb millis buf len run1 else Some run1)"
    unfolding uxr_read_framed_msg_def Let_def run1_def run0_def by (rule refl)
  show ?thesis
  proof (cases "pending (framing_io run1) = []")
    case True
    then show ?thesis
      unfolding e using pending_empty [OF ok1] 1 p t1 by simp
  next
    case False
    obtain run3 where "framing_loop read_cb millis buf len run1 = Some run3" "fine chan buf len run1 True run3" "progress chan run1 run3"
        "onward chan run1 run3"
      using loop_onward [OF l tm 1(1) t1] False by blast
    then show ?thesis
      unfolding e using pending_empty [OF ok1] False 1 progress_trans(1) [OF o] t1
      by (auto simp: fine_def accepted_def onward_def)
  qed
qed

end
