(* ===== verification/SerialFacts.thy ===== *)
theory SerialFacts
  imports MessageLine Transports FramingTime
begin

text \<open>What is proved about the serial transport, and of the custom transport with framing.\<close>

section \<open>Serial: a line of frames\<close>

text \<open>Both ends with what they keep, seen through the interface.\<close>

definition serial_send :: "'e uxr_write_cb \<Rightarrow> u8 \<Rightarrow> u8 list \<Rightarrow> 'e uxrSerialTransport \<times> u8 \<Rightarrow> bool \<times> 'e uxrSerialTransport \<times> u8" where
  "serial_send write_cb errcode0 bs s = send_serial_msg write_cb errcode0 bs (fst s) (snd s)"

definition serial_recv ::
  "'e uxr_read_cb \<Rightarrow> ('e \<Rightarrow> int \<times> 'e) \<Rightarrow> u8 \<Rightarrow> int \<Rightarrow> 'e uxrSerialTransport \<times> u8 \<times> mem \<Rightarrow>
    (u8 list option \<times> 'e uxrSerialTransport \<times> u8 \<times> mem) option"
where
  "serial_recv read_cb millis errcode0 timeout t =
     map_option (\<lambda>(got, transport, error_code, m). (map_option (\<lambda>(a, n). rd m a n) got, transport, error_code, m))
       (recv_serial_msg read_cb millis errcode0 timeout (fst t) (fst (snd t)) (snd (snd t)))"

definition serial_sendable :: "u8 list \<Rightarrow> bool" where
  "serial_sendable bs \<longleftrightarrow> bs \<noteq> [] \<and> length bs \<le> UXR_CONFIG_SERIAL_TRANSPORT_MTU"

definition serial_sink ::
  "'e uxr_write_cb \<Rightarrow> ('e \<Rightarrow> u8 list) \<Rightarrow> u8 \<Rightarrow> u8 \<Rightarrow> 'e uxrSerialTransport \<times> u8 \<Rightarrow> bool"
where
  "serial_sink write_cb log src dst s \<longleftrightarrow> sink write_cb log \<and> length (wb (serial_framing_io (fst s))) = WB_SIZE \<and>
     local_addr (serial_framing_io (fst s)) = src \<and> serial_remote_addr (fst s) = dst"

definition serial_source ::
  "'e uxr_read_cb \<Rightarrow> ('e \<Rightarrow> int \<times> 'e) \<Rightarrow> ('e \<Rightarrow> u8 list) \<Rightarrow> u8 \<Rightarrow> u8 \<Rightarrow> 'e uxrSerialTransport \<times> u8 \<times> mem \<Rightarrow> bool"
where
  "serial_source read_cb millis chan src dst t \<longleftrightarrow> feeds read_cb millis chan \<and>
     (let io = serial_framing_io (fst t) in state io = UXR_FRAMING_UNINITIALIZED \<and> ring_ok io \<and> local_addr io = dst) \<and>
     serial_remote_addr (fst t) = src"

definition serial_unseen :: "('e \<Rightarrow> u8 list) \<Rightarrow> 'e uxrSerialTransport \<times> u8 \<times> mem \<Rightarrow> u8 list" where
  "serial_unseen chan t = pending (serial_framing_io (fst t)) @ chan (serial_platform (fst t))"

text \<open>Writing keeps the size of the write buffer and the address.\<close>

lemma add_octet_keeps:
  "length (wb (snd (uxr_add_next_octet io b))) = length (wb io) \<and> local_addr (snd (uxr_add_next_octet io b)) = local_addr io"
  by (simp add: uxr_add_next_octet_def)

lemma write_transport_keeps:
  "uxr_framing_write_transport io write_cb err e = (ok, io', err', e') \<Longrightarrow>
    length (wb io') = length (wb io) \<and> local_addr io' = local_addr io"
  by (auto simp: uxr_framing_write_transport_def split: prod.splits if_splits)

lemma write_octets_keeps:
  "write_octets io write_cb bs crc err e = (ok, crc', io', err', e') \<Longrightarrow>
    length (wb io') = length (wb io) \<and> local_addr io' = local_addr io"
proof (induction io write_cb bs crc err e rule: write_octets.induct)
  case (1 io write_cb crc err e)
  then show ?case
    by (simp add: write_octets.simps)
next
  case (2 io write_cb b bs crc err e)
  obtain added io1 where add: "uxr_add_next_octet io b = (added, io1)"
    by force
  note A = add_octet_keeps [of io b, unfolded add, simplified]
  show ?case
  proof (cases added)
    case True
    then show ?thesis
      using 2(1) [OF add [symmetric] refl True] 2(3) add A by (simp add: write_octets.simps)
  next
    case False
    obtain cond io2 err1 e1 where f: "uxr_framing_write_transport io write_cb err e = (cond, io2, err1, e1)"
      by (metis prod_cases4)
    note F = write_transport_keeps [OF f]
    show ?thesis
    proof (cases cond)
      case True
      have "write_octets io2 write_cb (b # bs) crc err1 e1 = (ok, crc', io', err', e')"
        using 2(3) add False f True by (subst (asm) write_octets.simps) simp
      then show ?thesis
        using 2(2) [OF add [symmetric] refl False f [symmetric] refl refl refl True] F by simp
    next
      case cond: False
      then have "io' = io2"
        using 2(3) add False f by (subst (asm) write_octets.simps) simp
      then show ?thesis
        using F by simp
    qed
  qed
qed

lemma write_framed_msg_keeps:
  assumes "uxr_write_framed_msg io write_cb bs dst err e = (n, io', err', e')"
  shows "length (wb io') = length (wb io) \<and> local_addr io' = local_addr io"
proof -
  define io4 where "io4 = snd (uxr_add_next_octet (snd (uxr_add_next_octet (snd (uxr_add_next_octet (snd (uxr_add_next_octet
    (io\<lparr>wb := (wb io)[0 := UXR_FRAMING_BEGIN_FLAG], wb_pos := 1\<rparr>) (local_addr io))) dst)) (of_nat (length bs mod 256))))
    (of_nat (length bs div 256)))"
  have 4: "length (wb io4) = length (wb io) \<and> local_addr io4 = local_addr io"
    by (simp add: io4_def add_octet_keeps)
  obtain ok1 crc io5 err1 e1 where w1: "write_octets io4 write_cb bs 0 err e = (ok1, crc, io5, err1, e1)"
    by (metis prod_cases5)
  obtain ok2 crc2 io6 err2 e2 where w2: "(if ok1 then write_octets io5 write_cb [ucast crc, ucast (drop_bit 8 crc)] crc err1 e1
      else (False, crc, io5, err1, e1)) = (ok2, crc2, io6, err2, e2)"
    by (metis prod_cases5)
  have 6: "length (wb io6) = length (wb io5) \<and> local_addr io6 = local_addr io5"
    using w2 write_octets_keeps by (fastforce split: if_splits)
  obtain ok3 io7 err3 e3 where w3: "(if ok2 \<and> 0 < wb_pos io6 then uxr_framing_write_transport io6 write_cb err2 e2
      else (ok2, io6, err2, e2)) = (ok3, io7, err3, e3)"
    by (metis prod_cases4)
  have 7: "length (wb io7) = length (wb io6) \<and> local_addr io7 = local_addr io6"
    using w3 write_transport_keeps by (fastforce split: if_splits)
  have "io' = io7"
    using assms by (simp add: uxr_write_framed_msg_def Let_def w1 w2 w3 flip: io4_def)
  then show ?thesis
    using 4 write_octets_keeps [OF w1] 6 7 by simp
qed

lemma serial_send_law:
  assumes "serial_sink write_cb log src dst s" and "serial_sendable bs" and "serial_send write_cb errcode0 bs s = (True, s')"
  shows "serial_sink write_cb log src dst s' \<and> log (serial_platform (fst s')) = log (serial_platform (fst s)) @ frame src dst bs"
proof -
  let ?t = "fst s"
  obtain n io err e where w: "uxr_write_framed_msg (serial_framing_io ?t) write_cb bs (serial_remote_addr ?t) errcode0
      (serial_platform ?t) = (n, io, err, e)"
    by (metis prod_cases4)
  note K = write_framed_msg_keeps [OF w]
  have n: "0 < n" "n = length bs" and s': "fst s' = ?t\<lparr>serial_framing_io := io, serial_platform := e\<rparr>"
    using assms(3) w by (auto simp: serial_send_def send_serial_msg_def Let_def split: if_splits)
  have "length bs < 65536"
    using assms(2) by (simp add: serial_sendable_def UXR_CONFIG_SERIAL_TRANSPORT_MTU_def)
  then have "log e = log (serial_platform ?t) @ frame src dst bs"
    using framed_msg_written_aux [OF _ _ _ w, of log] assms(1) n by (auto simp: serial_sink_def)
  then show ?thesis
    using assms(1) K s' by (simp add: serial_sink_def)
qed

lemma serial_recv_law:
  assumes "serial_source read_cb millis chan src dst t" and "serial_sendable bs" and "serial_unseen chan t = frame src dst bs @ r"
  shows "\<exists>m t'. serial_recv read_cb millis errcode0 timeout t = Some (m, t') \<and> serial_source read_cb millis chan src dst t' \<and>
    (m = Some bs \<and> serial_unseen chan t' = r \<or> m = None \<and> serial_unseen chan t' = serial_unseen chan t \<and> (0::nat) < 0)"
proof -
  let ?t = "fst t"
  define run where "run = \<lparr>framing_io = serial_framing_io ?t, buf_mem = snd (snd t), sender = 0x00, time_left = timeout,
    run_errcode = errcode0, device = serial_platform ?t, run_rv = 0\<rparr>"
  have f: "feeds read_cb millis chan" and l: "local_addr (framing_io run) = dst"
    using assms(1) by (simp_all add: serial_source_def Let_def run_def)
  have n: "length bs < 65536" "length bs \<le> UXR_CONFIG_SERIAL_TRANSPORT_MTU" "bs \<noteq> []"
    using assms(2) by (simp_all add: serial_sendable_def UXR_CONFIG_SERIAL_TRANSPORT_MTU_def)
  have "at chan UXR_FRAMING_UNINITIALIZED (frame src (local_addr (framing_io run)) bs @ r) run"
    using assms(1,3) by (simp add: at_def serial_source_def Let_def run_def unread_def serial_unseen_def)
  from read_frame [OF f n(1,2) this]
  obtain run1 where r1: "uxr_read_framed_msg read_cb millis (serial_buffer ?t) UXR_CONFIG_SERIAL_TRANSPORT_MTU run = Some run1"
    "at chan UXR_FRAMING_UNINITIALIZED r run1" "sender run1 = src" "run_rv run1 = length bs"
    "local_addr (framing_io run1) = dst" "buf_mem run1 = wr (buf_mem run) (serial_buffer ?t) bs"
    using l by metis
  have "receive_framed read_cb millis (serial_buffer ?t) UXR_CONFIG_SERIAL_TRANSPORT_MTU run = Some run1"
    using r1(1,4) n(3) by (subst receive_framed.simps) simp
  then have "recv_serial_msg read_cb millis errcode0 timeout ?t (fst (snd t)) (snd (snd t)) =
      Some (Some (serial_buffer ?t, length bs), ?t\<lparr>serial_framing_io := framing_io run1, serial_platform := device run1\<rparr>,
        fst (snd t), buf_mem run1)"
    using r1(3,4) n(3) assms(1) by (simp add: recv_serial_msg_def serial_source_def flip: run_def)
  then show ?thesis
    using r1(2,5,6) f assms(1)
    by (auto simp: serial_recv_def serial_source_def Let_def at_def serial_unseen_def unread_def rd_wr_same)
qed

interpretation serial: message_line "serial_send write_cb errcode0" "frame src dst" serial_sendable
    "serial_sink write_cb log src dst" "\<lambda>s. log (serial_platform (fst s))"
    "serial_recv read_cb millis errcode1 timeout" "serial_source read_cb millis chan src dst" "serial_unseen chan" "\<lambda>_. 0"
  for write_cb errcode0 src dst log read_cb millis errcode1 timeout chan
  by unfold_locales (rule serial_send_law serial_recv_law; assumption)+

text \<open>C8. Messages sent over a serial line arrive at the transport at its other end, each as it was sent and
  in order, however the line cuts the octets into pieces: when the calls that send them all report
  success, receiving yields exactly these messages.\<close>
theorem serial_messages_arrive:
  assumes "serial_sink write_cb log src dst s" and "serial_source read_cb millis chan src dst t"
    and "list_all serial_sendable msgs" and "send_each (serial_send write_cb errcode0) msgs s = (True, s')"
    and "log (serial_platform (fst s)) @ serial_unseen chan t = log (serial_platform (fst s')) @ r"
  shows "\<exists>n t'. poll (serial_recv read_cb millis errcode1 timeout) n t = Some (msgs, t') \<and>
    serial_source read_cb millis chan src dst t' \<and> serial_unseen chan t' = r"
  by (rule serial.messages_arrive [OF assms])

section \<open>Receiving frames takes an end\<close>

lemma receive_framed_returns:
  assumes "any_line read_cb millis chan" and "timely read_cb millis clock" and "read_inv buf len run"
    and "time_left run \<le> 2 ^ 29"
  shows "\<exists>run1. receive_framed read_cb millis buf len run = Some run1 \<and> read_inv buf len run1 \<and>
    changed_within (buf_mem run) (buf_mem run1) buf (buf + len) \<and> run_rv run1 \<le> len \<and>
    (0 < run_rv run1 \<longrightarrow> checksum (rd (buf_mem run1) buf (run_rv run1)) = msg_crc (framing_io run1))"
proof -
  have "wf less_amount"
    by (intro wf_lex_prod wf_less_than)
  from this assms(3,4) show ?thesis
  proof (induction "amount chan run" arbitrary: run rule: wf_induct_rule)
    case (less run)
    obtain run1 where 1: "uxr_read_framed_msg read_cb millis buf len run = Some run1" "read_inv buf len run1"
      "changed_within (buf_mem run) (buf_mem run1) buf (buf + len)" "run_rv run1 \<le> len" "progress chan run run1" "time_left run1 \<le> 2 ^ 29"
      "0 < run_rv run1 \<longrightarrow> checksum (rd (buf_mem run1) buf (run_rv run1)) = msg_crc (framing_io run1)"
      using read_framed_onward [OF assms(1,2) less.prems] by metis
    show ?case
    proof (cases "0 = run_rv run1 \<and> 0 < time_left run1")
      case True
      then have "(amount chan run1, amount chan run) \<in> less_amount"
        using 1(5) by (simp add: progress_def)
      from less.hyps [OF this 1(2,6)]
      obtain run2 where 2: "receive_framed read_cb millis buf len run1 = Some run2" "read_inv buf len run2"
        "changed_within (buf_mem run1) (buf_mem run2) buf (buf + len)" "run_rv run2 \<le> len"
        "0 < run_rv run2 \<longrightarrow> checksum (rd (buf_mem run2) buf (run_rv run2)) = msg_crc (framing_io run2)"
        by metis
      have "receive_framed read_cb millis buf len run = Some run2"
        using 1(1) 2(1) True by (subst receive_framed.simps) simp
      then show ?thesis
        using 2 changed_within_trans [OF 1(3)] by metis
    next
      case False
      have "receive_framed read_cb millis buf len run = Some run1"
        using 1(1) False by (subst receive_framed.simps) auto
      then show ?thesis
        using 1 by metis
    qed
  qed
qed

text \<open>What a transport keeps from call to call, about its buffer in memory.\<close>

definition serial_inv :: "'e uxrSerialTransport \<Rightarrow> mem \<Rightarrow> bool" where
  "serial_inv t m \<longleftrightarrow> read_inv (serial_buffer t) UXR_CONFIG_SERIAL_TRANSPORT_MTU
     \<lparr>framing_io = serial_framing_io t, buf_mem = m, sender = 0, time_left = 0, run_errcode = 0, device = (), run_rv = 0\<rparr>"

lemma read_inv_only:
  "framing_io run = framing_io run' \<Longrightarrow> buf_mem run = buf_mem run' \<Longrightarrow> read_inv buf len run = read_inv buf len run'"
  by (simp add: read_inv_def)

text \<open>C12. Receiving on a serial transport returns, whatever is on the line, if the platform's reads take no
  longer than they are told, which is six days at most, and the clock goes on; it touches nothing but the transport's buffer, and
  a message that it reports lies in the buffer.\<close>
theorem serial_receive_returns:
  assumes "any_line read_cb millis chan" and "timely read_cb millis clock" and "serial_inv t m"
    and "timeout \<le> 2 ^ 29"
  shows "\<exists>got t' error_code' m'. recv_serial_msg read_cb millis errcode0 timeout t error_code m = Some (got, t', error_code', m') \<and>
    serial_inv t' m' \<and> changed_within m m' (serial_buffer t) (serial_buffer t + UXR_CONFIG_SERIAL_TRANSPORT_MTU) \<and>
    (case got of None \<Rightarrow> True | Some (a, n) \<Rightarrow> a = serial_buffer t \<and> 0 < n \<and> n \<le> UXR_CONFIG_SERIAL_TRANSPORT_MTU)"
proof -
  define run where "run = \<lparr>framing_io = serial_framing_io t, buf_mem = m, sender = 0x00, time_left = timeout,
    run_errcode = errcode0, device = serial_platform t, run_rv = 0\<rparr>"
  have "read_inv (serial_buffer t) UXR_CONFIG_SERIAL_TRANSPORT_MTU run"
    using assms(3) by (simp add: serial_inv_def read_inv_def run_def)
  moreover have "time_left run \<le> 2 ^ 29"
    using assms(4) by (simp add: run_def)
  note receive_framed_returns [OF assms(1,2) _ this, of "serial_buffer t" UXR_CONFIG_SERIAL_TRANSPORT_MTU]
  ultimately
  obtain run1 where r: "receive_framed read_cb millis (serial_buffer t) UXR_CONFIG_SERIAL_TRANSPORT_MTU run = Some run1"
    "read_inv (serial_buffer t) UXR_CONFIG_SERIAL_TRANSPORT_MTU run1"
    "changed_within m (buf_mem run1) (serial_buffer t) (serial_buffer t + UXR_CONFIG_SERIAL_TRANSPORT_MTU)"
    "run_rv run1 \<le> UXR_CONFIG_SERIAL_TRANSPORT_MTU"
    by (auto simp: run_def)
  then show ?thesis
    by (simp add: recv_serial_msg_def Let_def flip: run_def) (simp add: serial_inv_def read_inv_def)
qed

section \<open>The custom transport\<close>

text \<open>With framing, a custom transport is a serial transport between addresses zero: it sends and
  receives the same octets and reports the same messages.\<close>
lemma custom_framing_is_serial:
  assumes "framing t" and "custom_write t = Some write'" and "custom_read t = Some read'"
  defines "serial \<equiv> \<lparr>serial_buffer = custom_buffer t, serial_framing_io = custom_framing_io t, serial_remote_addr = 0,
    serial_comm = custom_comm t, serial_platform = custom_state t\<rparr>"
    and "custom \<equiv> \<lambda>s. t\<lparr>custom_framing_io := serial_framing_io s, custom_state := serial_platform s\<rparr>"
  shows "send_custom_msg errcode0 bs t error_code =
      (let (sent, s, error_code') = send_serial_msg (write' (custom_args t)) errcode0 bs serial error_code
       in Some (sent, custom s, error_code'))"
    and "recv_custom_msg millis errcode0 timeout t error_code m =
      map_option (\<lambda>(got, s, error_code', m'). (got, custom s, error_code', m'))
        (recv_serial_msg (read' (custom_args t)) millis errcode0 timeout serial error_code m)"
proof -
  show "send_custom_msg errcode0 bs t error_code =
      (let (sent, s, error_code') = send_serial_msg (write' (custom_args t)) errcode0 bs serial error_code
       in Some (sent, custom s, error_code'))"
    using assms(1,2) by (simp add: send_custom_msg_def send_serial_msg_def Let_def serial_def custom_def split: prod.splits)
  show "recv_custom_msg millis errcode0 timeout t error_code m =
      map_option (\<lambda>(got, s, error_code', m'). (got, custom s, error_code', m'))
        (recv_serial_msg (read' (custom_args t)) millis errcode0 timeout serial error_code m)"
    using assms(1,3)
    by (auto simp: recv_custom_msg_def recv_serial_msg_def Let_def serial_def custom_def option.map_comp comp_def
        UXR_CONFIG_CUSTOM_TRANSPORT_MTU_def UXR_CONFIG_SERIAL_TRANSPORT_MTU_def intro!: map_option_cong)
qed

section \<open>Examples\<close>

definition example_serial :: "u8 \<Rightarrow> u8 \<Rightarrow> 'e \<Rightarrow> 'e uxrSerialTransport" where
  "example_serial from_addr to_addr line = \<lparr>serial_buffer = 1000, serial_framing_io = example_framing_io from_addr,
     serial_remote_addr = to_addr, serial_comm = \<lparr>comm_functions = SERIAL_FUNCTIONS, mtu = 512\<rparr>, serial_platform = line\<rparr>"

lemma serial_send_eager:
  assumes "serial_sink write_cb log src dst s" and "eager write_cb" and "serial_sendable bs"
  shows "fst (serial_send write_cb errcode0 bs s)"
proof -
  have "fst (uxr_write_framed_msg (serial_framing_io (fst s)) write_cb bs (serial_remote_addr (fst s)) errcode0
      (serial_platform (fst s))) = length bs"
  proof -
    have "sink write_cb log" "length (wb (serial_framing_io (fst s))) = WB_SIZE"
      using assms(1) by (simp_all add: serial_sink_def)
    from write_framed_msg_eager [OF this(1) assms(2) this(2)] show ?thesis
      using assms(3) by (simp add: serial_sendable_def UXR_CONFIG_SERIAL_TRANSPORT_MTU_def cast_u16_eq)
  qed
  then show ?thesis
    using assms(3) by (auto simp: serial_send_def send_serial_msg_def serial_sendable_def Let_def split: prod.splits)
qed

lemma serial_send_each_eager:
  assumes "eager write_cb" and "serial_sink write_cb log src dst s" and "list_all serial_sendable msgs"
  shows "\<exists>s'. send_each (serial_send write_cb errcode0) msgs s = (True, s')"
  using assms(2,3)
proof (induction msgs arbitrary: s)
  case (Cons bs msgs)
  obtain s1 where 1: "serial_send write_cb errcode0 bs s = (True, s1)"
    using serial_send_eager [OF Cons.prems(1) assms(1)] Cons.prems(2) by (metis list.pred_inject(2) prod.collapse)
  then have "serial_sink write_cb log src dst s1"
    using serial_send_law [OF Cons.prems(1) _ 1] Cons.prems(2) by simp
  then show ?case
    using Cons.IH [of s1] Cons.prems(2) 1 by simp
qed simp

theorem serial_messages_arrive_witness:
  "\<exists>s' n t'. send_each (serial_send line_write 0) [[0x7E, 5], [1]] (example_serial 1 2 [], 0) = (True, s') \<and>
    poll (serial_recv line_read line_millis 0 10) n (example_serial 2 1 (serial_platform (fst s')), 0, \<lambda>_. 0) =
      Some ([[0x7E, 5], [1]], t')"
proof -
  have s: "serial_sink line_write (\<lambda>e. e) 1 2 (example_serial 1 2 [], 0)" and m: "list_all serial_sendable [[0x7E, 5], [1]]"
    by (simp_all add: serial_sink_def line_sink example_serial_def serial_sendable_def UXR_CONFIG_SERIAL_TRANSPORT_MTU_def)
  obtain s' where s': "send_each (serial_send line_write 0) [[0x7E, 5], [1]] (example_serial 1 2 [], 0) = (True, s')"
    using serial_send_each_eager [OF line_eager s m] by blast
  let ?t = "(example_serial 2 1 (serial_platform (fst s')), 0, \<lambda>_. 0) :: u8 list uxrSerialTransport \<times> u8 \<times> mem"
  have t: "serial_source line_read line_millis (\<lambda>e. e) 1 2 ?t"
    by (simp add: serial_source_def line_feeds example_serial_def)
  have "serial_platform (fst (example_serial 1 2 [], 0 :: u8)) @ serial_unseen (\<lambda>e. e) ?t = serial_platform (fst s') @ []"
    by (simp add: serial_unseen_def unread_def example_serial_def example_framing_io_def uxr_init_framing_io_def pending_def)
  then show ?thesis
    using serial_messages_arrive [OF s t m s', of "[]"] s' by blast
qed

text \<open>A line with a clock: reading nothing takes the time it is given.\<close>

definition clocked_read :: "(u8 list \<times> int) uxr_read_cb" where
  "clocked_read k t err e = (let bs = take (min k 3) (fst e)
     in (bs, err, drop (min k 3) (fst e), if bs = [] then snd e + max 0 t else snd e))"

definition clocked_millis :: "u8 list \<times> int \<Rightarrow> int \<times> u8 list \<times> int" where
  "clocked_millis e = (snd e, e)"

lemma clocked_line: "any_line clocked_read clocked_millis fst"
  by (auto simp: any_line_def device_law_def clocked_read_def clocked_millis_def Let_def)

lemma clocked_timely: "timely clocked_read clocked_millis snd"
  by (auto simp: timely_def clocked_read_def clocked_millis_def Let_def)

theorem serial_receive_returns_witness:
  "\<exists>got t' error_code' m'. recv_serial_msg clocked_read clocked_millis 0 1000 (example_serial 1 2 ([0x7E, 9, 9, 9, 0x7E], 0)) 0
      (\<lambda>_. 0) = Some (got, t', error_code', m') \<and> m' 999 = 0 \<and> m' 1512 = 0"
proof -
  have "serial_inv (example_serial 1 2 ([0x7E, 9, 9, 9, 0x7E :: u8], 0 :: int)) (\<lambda>_. 0)"
    by (simp add: serial_inv_def read_inv_def example_serial_def)
  from serial_receive_returns [OF clocked_line clocked_timely this, of 1000 0 0]
  show ?thesis
    by (fastforce simp: changed_within_def example_serial_def UXR_CONFIG_SERIAL_TRANSPORT_MTU_def)
qed

end
