(* ===== verification/TcpTransport.thy ===== *)
theory TcpTransport
  imports Transports
begin

text \<open>
  The TCP transport, \<open>src/c/profile/transport/ip/tcp/tcp_transport.c\<close>: a message travels behind its
  length in two octets, and is put together again by a state machine that survives from call to call.
  The platform's functions are parameters as for the other transports.
\<close>

definition UXR_CONFIG_TCP_TRANSPORT_MTU :: nat where "UXR_CONFIG_TCP_TRANSPORT_MTU = 512"
definition UXR_MAX_WRITE_TCP_ATTEMPS :: nat where "UXR_MAX_WRITE_TCP_ATTEMPS = 16"

datatype uxrTCPInputBufferState =
    UXR_TCP_BUFFER_EMPTY
  | UXR_TCP_SIZE_INCOMPLETE
  | UXR_TCP_SIZE_READ
  | UXR_TCP_MESSAGE_INCOMPLETE
  | UXR_TCP_MESSAGE_AVAILABLE

record uxrTCPInputBuffer =
  tcp_buffer :: addr
  position :: size_t
  tcp_state :: uxrTCPInputBufferState
  msg_size :: size_t

record 'e uxrTCPTransport =
  input_buffer :: uxrTCPInputBuffer
  tcp_comm :: transport_comm
  tcp_platform :: 'e

section \<open>Sending\<close>

text \<open>
  The two loops of \<open>send_tcp_msg\<close>, \<open>n_attemps\<close> attempts having been made. The results tell whether all
  octets are gone.
\<close>

function send_tcp_size ::
  "'e uxr_write_cb \<Rightarrow> u8 \<Rightarrow> u8 list \<Rightarrow> nat \<Rightarrow> size_t \<Rightarrow> u8 \<Rightarrow> 'e \<Rightarrow> bool \<times> u8 \<times> 'e"
where
  "send_tcp_size write_platform errcode0 msg_size_buf n_attemps bytes_sent error_code e =
     (let (send_rv, errcode, e1) = write_platform msg_size_buf errcode0 e;
          bytes_sent1 = (if 0 < send_rv then size_add bytes_sent send_rv else bytes_sent);
          size_sent = (0 < send_rv \<and> length msg_size_buf = bytes_sent1)
      in if \<not> 0 < send_rv \<and> 0 < errcode then (False, errcode, e1)
         else if \<not> size_sent \<and> n_attemps + 1 < UXR_MAX_WRITE_TCP_ATTEMPS
         then send_tcp_size write_platform errcode0 msg_size_buf (n_attemps + 1) bytes_sent1 error_code e1
         else (size_sent, error_code, e1))"
  by pat_completeness auto

termination
  by (relation "measure (\<lambda>(_, _, _, n, _). UXR_MAX_WRITE_TCP_ATTEMPS - n)") auto

function send_tcp_payload ::
  "'e uxr_write_cb \<Rightarrow> u8 \<Rightarrow> u8 list \<Rightarrow> nat \<Rightarrow> size_t \<Rightarrow> u8 \<Rightarrow> 'e \<Rightarrow> bool \<times> u8 \<times> 'e"
where
  "send_tcp_payload write_platform errcode0 buf n_attemps bytes_sent error_code e =
     (let (send_rv, errcode, e1) =
            write_platform (take (size_sub (length buf) bytes_sent) (drop bytes_sent buf)) errcode0 e;
          bytes_sent1 = (if 0 < send_rv then size_add bytes_sent send_rv else bytes_sent);
          payload_sent = (0 < send_rv \<and> bytes_sent1 = length buf)
      in if \<not> 0 < send_rv \<and> 0 < errcode then (False, errcode, e1)
         else if \<not> payload_sent \<and> n_attemps + 1 < UXR_MAX_WRITE_TCP_ATTEMPS
         then send_tcp_payload write_platform errcode0 buf (n_attemps + 1) bytes_sent1 error_code e1
         else (payload_sent, error_code, e1))"
  by pat_completeness auto

termination
  by (relation "measure (\<lambda>(_, _, _, n, _). UXR_MAX_WRITE_TCP_ATTEMPS - n)") auto

declare send_tcp_size.simps [simp del] send_tcp_payload.simps [simp del]

definition send_tcp_msg ::
  "'e uxr_write_cb \<Rightarrow> ('e \<Rightarrow> 'e) \<Rightarrow> u8 \<Rightarrow> u8 list \<Rightarrow> 'e uxrTCPTransport \<Rightarrow> u8 \<Rightarrow> bool \<times> 'e uxrTCPTransport \<times> u8"
where
  "send_tcp_msg write_platform disconnect errcode0 buf transport error_code =
     (let msg_size_buf = [of_nat (length buf mod 256), of_nat (length buf div 256)];
          (size_sent, error1, e1) =
            send_tcp_size write_platform errcode0 msg_size_buf 0 0 error_code (tcp_platform transport);
          (payload_sent, error2, e2) =
            (if size_sent then send_tcp_payload write_platform errcode0 buf 0 0 error1 e1 else (False, error1, e1))
      in (payload_sent, transport\<lparr>tcp_platform := (if payload_sent then e2 else disconnect e2)\<rparr>, error2))"

section \<open>Receiving\<close>

text \<open>What a call works on: the transport, the error code of the file, the memory, the message length.\<close>

record 'e tcp_run =
  tcp_transport :: "'e uxrTCPTransport"
  tcp_error_code :: u8
  tcp_mem :: mem
  tcp_rv :: size_t

definition set_input :: "(uxrTCPInputBuffer \<Rightarrow> uxrTCPInputBuffer) \<Rightarrow> 'e tcp_run \<Rightarrow> 'e tcp_run" where
  "set_input f run = run\<lparr>tcp_transport := (tcp_transport run)\<lparr>input_buffer := f (input_buffer (tcp_transport run))\<rparr>\<rparr>"

definition set_platform :: "'e \<Rightarrow> 'e tcp_run \<Rightarrow> 'e tcp_run" where
  "set_platform e run = run\<lparr>tcp_transport := (tcp_transport run)\<lparr>tcp_platform := e\<rparr>\<rparr>"

text \<open>Nothing was read.\<close>

definition read_tcp_failed :: "('e \<Rightarrow> 'e) \<Rightarrow> u8 \<Rightarrow> 'e tcp_run \<Rightarrow> 'e tcp_run" where
  "read_tcp_failed disconnect errcode run =
     (if 0 < errcode then set_platform (disconnect (tcp_platform (tcp_transport run))) run else run)
       \<lparr>tcp_error_code := errcode\<rparr>"

text \<open>One round of the state machine; the first component is \<open>exit_flag\<close>.\<close>

definition read_tcp_step ::
  "'e uxr_read_cb \<Rightarrow> ('e \<Rightarrow> 'e) \<Rightarrow> u8 \<Rightarrow> int \<Rightarrow> 'e tcp_run \<Rightarrow> bool \<times> 'e tcp_run"
where
  "read_tcp_step read_platform disconnect errcode0 timeout run =
     (let input = input_buffer (tcp_transport run); e = tcp_platform (tcp_transport run) in
      case tcp_state input of
        UXR_TCP_BUFFER_EMPTY \<Rightarrow>
          let run0 = set_input (\<lambda>b. b\<lparr>position := 0\<rparr>) run;
              (size_buf, errcode, e1) = read_platform 2 timeout errcode0 e;
              run1 = set_platform e1 run0
          in if 0 < length size_buf
             then if 2 = length size_buf
                  then let size = push_bit 8 (unat (size_buf ! 1)) OR unat (size_buf ! 0)
                       in (False, set_input (\<lambda>b. b\<lparr>msg_size := size,
                             tcp_state := (if size \<noteq> 0 then UXR_TCP_SIZE_READ else tcp_state b)\<rparr>) run1)
                  else (False, set_input (\<lambda>b. b\<lparr>msg_size := unat (size_buf ! 0), tcp_state := UXR_TCP_SIZE_INCOMPLETE\<rparr>) run1)
             else (True, read_tcp_failed disconnect errcode run1)
      | UXR_TCP_SIZE_INCOMPLETE \<Rightarrow>
          let (size_msb, errcode, e1) = read_platform 1 timeout errcode0 e;
              run1 = set_platform e1 run
          in if 0 < length size_msb
             then let size = push_bit 8 (unat (size_msb ! 0)) OR msg_size input
                  in (False, set_input (\<lambda>b. b\<lparr>msg_size := size,
                        tcp_state := (if size \<noteq> 0 then UXR_TCP_SIZE_READ else UXR_TCP_BUFFER_EMPTY)\<rparr>) run1)
             else (True, read_tcp_failed disconnect errcode run1)
      | UXR_TCP_SIZE_READ \<Rightarrow>
          let (bs, errcode, e1) = read_platform (msg_size input) timeout errcode0 e;
              run1 = (set_platform e1 run)\<lparr>tcp_mem := wr (tcp_mem run) (tcp_buffer input) bs\<rparr>
          in if 0 < length bs
             then if length bs = msg_size input
                  then (False, set_input (\<lambda>b. b\<lparr>tcp_state := UXR_TCP_MESSAGE_AVAILABLE\<rparr>) run1)
                  else (True, set_input (\<lambda>b. b\<lparr>position := length bs, tcp_state := UXR_TCP_MESSAGE_INCOMPLETE\<rparr>) run1)
             else (True, read_tcp_failed disconnect errcode run1)
      | UXR_TCP_MESSAGE_INCOMPLETE \<Rightarrow>
          let (bs, errcode, e1) = read_platform (size_sub (msg_size input) (position input)) timeout errcode0 e;
              run1 = (set_platform e1 run)\<lparr>tcp_mem := wr (tcp_mem run) (tcp_buffer input + position input) bs\<rparr>
          in if 0 < length bs
             then let pos = size_add (position input) (length bs);
                      run2 = set_input (\<lambda>b. b\<lparr>position := pos\<rparr>) run1
                  in if pos = msg_size input
                     then (False, set_input (\<lambda>b. b\<lparr>tcp_state := UXR_TCP_MESSAGE_AVAILABLE\<rparr>) run2)
                     else (True, run2)
             else (True, read_tcp_failed disconnect errcode run1)
      | UXR_TCP_MESSAGE_AVAILABLE \<Rightarrow>
          (True, set_input (\<lambda>b. b\<lparr>tcp_state := UXR_TCP_BUFFER_EMPTY\<rparr>) run\<lparr>tcp_rv := msg_size input\<rparr>))"

partial_function (option) read_tcp_loop ::
  "'e uxr_read_cb \<Rightarrow> ('e \<Rightarrow> 'e) \<Rightarrow> u8 \<Rightarrow> int \<Rightarrow> 'e tcp_run \<Rightarrow> 'e tcp_run option"
where
  "read_tcp_loop read_platform disconnect errcode0 timeout run =
     (let (exit_flag, run1) = read_tcp_step read_platform disconnect errcode0 timeout run
      in if exit_flag then Some run1 else read_tcp_loop read_platform disconnect errcode0 timeout run1)"

definition read_tcp_data ::
  "'e uxr_read_cb \<Rightarrow> ('e \<Rightarrow> 'e) \<Rightarrow> u8 \<Rightarrow> int \<Rightarrow> 'e tcp_run \<Rightarrow> 'e tcp_run option"
where
  "read_tcp_data read_platform disconnect errcode0 timeout run =
     read_tcp_loop read_platform disconnect errcode0 timeout (run\<lparr>tcp_rv := 0\<rparr>)"

text \<open>The loop of \<open>recv_tcp_msg\<close>, which ends with a message or when the time is up.\<close>

partial_function (option) recv_tcp_loop ::
  "'e uxr_read_cb \<Rightarrow> ('e \<Rightarrow> 'e) \<Rightarrow> ('e \<Rightarrow> int \<times> 'e) \<Rightarrow> u8 \<Rightarrow> int \<Rightarrow> 'e tcp_run \<Rightarrow> 'e tcp_run option"
where
  "recv_tcp_loop read_platform disconnect millis errcode0 timeout run =
     (let (time_init, e0) = millis (tcp_platform (tcp_transport run)) in
      case read_tcp_data read_platform disconnect errcode0 timeout (set_platform e0 run) of
        None \<Rightarrow> None
      | Some run1 \<Rightarrow>
          let (now, e1) = millis (tcp_platform (tcp_transport run1));
              timeout1 = timeout - cast_int32 (now - time_init);
              run2 = set_platform e1 run1
          in if 0 = tcp_rv run2 \<and> 0 < timeout1 then recv_tcp_loop read_platform disconnect millis errcode0 timeout1 run2
             else Some run2)"

definition recv_tcp_msg ::
  "'e uxr_read_cb \<Rightarrow> ('e \<Rightarrow> 'e) \<Rightarrow> ('e \<Rightarrow> int \<times> 'e) \<Rightarrow> u8 \<Rightarrow> int \<Rightarrow> 'e uxrTCPTransport \<Rightarrow> u8 \<Rightarrow> mem
    \<Rightarrow> (received \<times> 'e uxrTCPTransport \<times> u8 \<times> mem) option"
where
  "recv_tcp_msg read_platform disconnect millis errcode0 timeout transport error_code m =
     map_option (\<lambda>run.
       (if 0 < tcp_rv run then Some (tcp_buffer (input_buffer transport), tcp_rv run) else None,
        tcp_transport run, tcp_error_code run, tcp_mem run))
     (recv_tcp_loop read_platform disconnect millis errcode0 timeout
        \<lparr>tcp_transport = transport, tcp_error_code = error_code, tcp_mem = m, tcp_rv = 0\<rparr>)"

definition get_tcp_error :: "u8 \<Rightarrow> u8" where
  "get_tcp_error error_code = error_code"

definition uxr_init_tcp_transport ::
  "(uxrIpProtocol \<Rightarrow> string \<Rightarrow> string \<Rightarrow> 'e \<Rightarrow> bool \<times> 'e) \<Rightarrow> 'e uxrTCPTransport \<Rightarrow> uxrIpProtocol \<Rightarrow> string \<Rightarrow> string
    \<Rightarrow> bool \<times> 'e uxrTCPTransport"
where
  "uxr_init_tcp_transport init_platform transport ip_protocol ip port =
     (let (opened, e) = init_platform ip_protocol ip port (tcp_platform transport)
      in if opened
         then (True, transport\<lparr>tcp_platform := e,
                 tcp_comm := \<lparr>comm_functions = TCP_FUNCTIONS, mtu = of_nat UXR_CONFIG_TCP_TRANSPORT_MTU\<rparr>,
                 input_buffer := (input_buffer transport)\<lparr>tcp_state := UXR_TCP_BUFFER_EMPTY\<rparr>\<rparr>)
         else (False, transport\<lparr>tcp_platform := e\<rparr>))"

definition uxr_close_tcp_transport ::
  "('e \<Rightarrow> bool \<times> 'e) \<Rightarrow> 'e uxrTCPTransport \<Rightarrow> bool \<times> 'e uxrTCPTransport"
where
  "uxr_close_tcp_transport close_platform transport =
     (let (closed, e) = close_platform (tcp_platform transport) in (closed, transport\<lparr>tcp_platform := e\<rparr>))"

end
