(* ===== verification/TcpFacts.thy ===== *)
theory TcpFacts
  imports MessageLine TcpTransport FramingRead
begin

text \<open>What is proved about the TCP transport.\<close>

section \<open>TCP: a line of messages behind their lengths\<close>

definition tcp_size :: "nat \<Rightarrow> u8 list" where
  "tcp_size n = [of_nat (n mod 256), of_nat (n div 256)]"

definition tcp_encode :: "u8 list \<Rightarrow> u8 list" where
  "tcp_encode bs = tcp_size (length bs) @ bs"

definition tcp_sendable :: "u8 list \<Rightarrow> bool" where
  "tcp_sendable bs \<longleftrightarrow> bs \<noteq> [] \<and> length bs \<le> UXR_CONFIG_TCP_TRANSPORT_MTU"

text \<open>What is on the line, with the octets of the message that is being put together.\<close>

definition tcp_unread :: "('e \<Rightarrow> u8 list) \<Rightarrow> 'e tcp_run \<Rightarrow> u8 list" where
  "tcp_unread chan run = (let input = input_buffer (tcp_transport run); c = chan (tcp_platform (tcp_transport run));
      part = (\<lambda>n. rd (tcp_mem run) (tcp_buffer input) n) in
    case tcp_state input of
      UXR_TCP_BUFFER_EMPTY \<Rightarrow> c
    | UXR_TCP_SIZE_INCOMPLETE \<Rightarrow> of_nat (msg_size input) # c
    | UXR_TCP_SIZE_READ \<Rightarrow> tcp_size (msg_size input) @ c
    | UXR_TCP_MESSAGE_INCOMPLETE \<Rightarrow> tcp_size (msg_size input) @ part (position input) @ c
    | UXR_TCP_MESSAGE_AVAILABLE \<Rightarrow> tcp_size (msg_size input) @ part (msg_size input) @ c)"

definition tcp_ok :: "'e tcp_run \<Rightarrow> bool" where
  "tcp_ok run \<longleftrightarrow> (let input = input_buffer (tcp_transport run) in
     case tcp_state input of
       UXR_TCP_BUFFER_EMPTY \<Rightarrow> True
     | UXR_TCP_SIZE_INCOMPLETE \<Rightarrow> msg_size input < 256
     | UXR_TCP_MESSAGE_INCOMPLETE \<Rightarrow> msg_size input < 65536 \<and> position input < msg_size input
     | _ \<Rightarrow> msg_size input < 65536)"

lemma tcp_size_eq: "n < 65536 \<Longrightarrow> k < 65536 \<Longrightarrow> tcp_size n = tcp_size k \<longleftrightarrow> n = k"
proof
  assume n: "n < 65536" "k < 65536" and "tcp_size n = tcp_size k"
  then have "(of_nat (n mod 256) :: u8) = of_nat (k mod 256)" "(of_nat (n div 256) :: u8) = of_nat (k div 256)"
    by (simp_all add: tcp_size_def)
  then have "unat (of_nat (n mod 256) :: u8) = unat (of_nat (k mod 256) :: u8)"
    "unat (of_nat (n div 256) :: u8) = unat (of_nat (k div 256) :: u8)"
    by simp_all
  then have "n mod 256 = k mod 256" "n div 256 = k div 256"
    using n by (simp_all add: unat_of_nat)
  then show "n = k"
    by (metis div_mult_mod_eq)
qed simp

lemma length_tcp_size [simp]: "length (tcp_size n) = 2"
  by (simp add: tcp_size_def)

text \<open>The length put together from its octets.\<close>

lemma or_octets: "k < 256 \<Longrightarrow> push_bit 8 n OR k = n * 256 + (k :: nat)"
proof -
  assume "k < 256"
  then have k: "k = take_bit 8 k"
    by (simp add: take_bit_nat_eq_self)
  have "push_bit 8 n AND k = 0"
    by (subst k, rule bit_eqI) (auto simp: bit_simps)
  then have "push_bit 8 n + k = push_bit 8 n OR k"
    by (rule disjunctive_add_eq_or)
  then show ?thesis
    by (simp add: push_bit_eq_mult)
qed

lemma tcp_size_octets:
  assumes "lo < 256"
  shows "tcp_size (push_bit 8 (unat (hi :: u8)) OR lo) = [of_nat lo, hi]" and "push_bit 8 (unat hi) OR lo < 65536"
proof -
  have "unat hi \<le> 255"
    using unat_u8_less [of hi] by linarith
  then show "tcp_size (push_bit 8 (unat hi) OR lo) = [of_nat lo, hi]" "push_bit 8 (unat hi) OR lo < 65536"
    using assms by (simp_all add: or_octets tcp_size_def div_mult_self4)
qed

lemma feedsD:
  assumes "feeds read_cb millis chan" and "read_cb k t err e = (bs, err', e')"
  shows "length bs \<le> k" and "chan e = bs @ chan e'" and "0 < k \<Longrightarrow> chan e \<noteq> [] \<Longrightarrow> bs \<noteq> []"
proof -
  have "device_law read_cb millis (\<lambda>e bs e'. chan e = bs @ chan e')"
    using assms(1) by (simp add: feeds_def)
  from device_lawD(1) [OF this assms(2)] show "length bs \<le> k" "chan e = bs @ chan e'"
    by blast+
  show "bs \<noteq> []" if "0 < k" "chan e \<noteq> []"
    using assms that unfolding feeds_def by (metis fst_conv)
qed

lemma set_input_simps [simp]:
  "input_buffer (tcp_transport (set_input f run)) = f (input_buffer (tcp_transport run))"
  "tcp_platform (tcp_transport (set_input f run)) = tcp_platform (tcp_transport run)"
  "tcp_mem (set_input f run) = tcp_mem run" "tcp_rv (set_input f run) = tcp_rv run"
  "input_buffer (tcp_transport (set_platform e run)) = input_buffer (tcp_transport run)"
  "tcp_platform (tcp_transport (set_platform e run)) = e"
  "tcp_mem (set_platform e run) = tcp_mem run" "tcp_rv (set_platform e run) = tcp_rv run"
  by (simp_all add: set_input_def set_platform_def)

definition tcp_step_ok :: "('e \<Rightarrow> u8 list) \<Rightarrow> u8 list \<Rightarrow> u8 list \<Rightarrow> 'e tcp_run \<Rightarrow> bool \<Rightarrow> 'e tcp_run \<Rightarrow> bool" where
  "tcp_step_ok chan bs r run over run1 \<longleftrightarrow>
     (let a = tcp_buffer (input_buffer (tcp_transport run)) in
      tcp_ok run1 \<and> tcp_buffer (input_buffer (tcp_transport run1)) = a \<and>
      changed_within (tcp_mem run) (tcp_mem run1) a (a + UXR_CONFIG_TCP_TRANSPORT_MTU) \<and>
      (over \<and> tcp_rv run1 = length bs \<and> rd (tcp_mem run1) a (length bs) = bs \<and> tcp_unread chan run1 = r \<and>
         tcp_state (input_buffer (tcp_transport run1)) = UXR_TCP_BUFFER_EMPTY \<or>
       tcp_rv run1 = tcp_rv run \<and> tcp_unread chan run1 = tcp_unread chan run \<and>
         length (chan (tcp_platform (tcp_transport run1))) < length (chan (tcp_platform (tcp_transport run)))))"

lemma tcp_sendable_size: "tcp_sendable bs \<Longrightarrow> 0 < length bs \<and> length bs \<le> 512"
  by (simp add: tcp_sendable_def UXR_CONFIG_TCP_TRANSPORT_MTU_def)

lemma tcp_step_empty:
  assumes f: "feeds read_cb millis chan" and s: "tcp_state (input_buffer (tcp_transport run)) = UXR_TCP_BUFFER_EMPTY"
    and u: "tcp_unread chan run = tcp_encode bs @ r" and b: "tcp_sendable bs"
    and st: "read_tcp_step read_cb disconnect err0 timeout run = (over, run1)"
  shows "tcp_step_ok chan bs r run over run1"
proof -
  let ?e = "tcp_platform (tcp_transport run)"
  obtain sb err1 e1 where rd: "read_cb 2 timeout err0 ?e = (sb, err1, e1)"
    by (metis prod_cases3)
  note D = feedsD [OF f rd]
  have c: "chan ?e = tcp_size (length bs) @ bs @ r"
    using u s by (simp add: tcp_unread_def Let_def tcp_encode_def)
  have ne: "sb \<noteq> []"
    using D(3) c by (simp add: tcp_size_def)
  consider (one) "sb = [of_nat (length bs mod 256)]" "chan e1 = of_nat (length bs div 256) # bs @ r"
    | (two) "sb = tcp_size (length bs)" "chan e1 = bs @ r"
  proof (cases sb)
    case (Cons x l)
    then show ?thesis
      using D(1,2) c that by (cases l) (auto simp: tcp_size_def)
  qed (use ne in simp)
  then show ?thesis
  proof cases
    case one
    then show ?thesis
      using st s rd c
      by (auto simp: read_tcp_step_def Let_def tcp_step_ok_def tcp_ok_def tcp_unread_def tcp_size_def unat_of_nat)
  next
    case two
    have n: "length bs < 65536" "0 < length bs"
      using tcp_sendable_size [OF b] by simp_all
    have p: "push_bit 8 (unat (sb ! 1)) OR unat (sb ! 0) = length bs" and sb: "length sb = 2" "sb \<noteq> []"
      using two n by (simp_all add: tcp_size_def or_octets unat_of_nat)
    have "over = False" "run1 = set_input (\<lambda>b. b\<lparr>msg_size := length bs, tcp_state := UXR_TCP_SIZE_READ\<rparr>)
        (set_platform e1 (set_input (\<lambda>b. b\<lparr>position := 0\<rparr>) run))"
      using st s rd sb n p by (simp_all add: read_tcp_step_def Let_def)
    then show ?thesis
      using two s c n by (simp add: Let_def tcp_step_ok_def tcp_ok_def tcp_unread_def)
  qed
qed

lemma tcp_step_size:
  assumes f: "feeds read_cb millis chan" and s: "tcp_state (input_buffer (tcp_transport run)) = UXR_TCP_SIZE_INCOMPLETE"
    and u: "tcp_unread chan run = tcp_encode bs @ r" and b: "tcp_sendable bs" and ok: "tcp_ok run"
    and st: "read_tcp_step read_cb disconnect err0 timeout run = (over, run1)"
  shows "tcp_step_ok chan bs r run over run1"
proof -
  let ?e = "tcp_platform (tcp_transport run)" and ?n = "msg_size (input_buffer (tcp_transport run))"
  obtain sb err1 e1 where rd: "read_cb 1 timeout err0 ?e = (sb, err1, e1)"
    by (metis prod_cases3)
  note D = feedsD [OF f rd]
  have c: "(of_nat ?n :: u8) = of_nat (length bs mod 256)" "chan ?e = of_nat (length bs div 256) # bs @ r"
    using u s by (simp_all add: tcp_unread_def Let_def tcp_encode_def tcp_size_def)
  have sb: "sb = [of_nat (length bs div 256)]" "chan e1 = bs @ r"
  proof -
    have "sb @ chan e1 = of_nat (length bs div 256) # bs @ r"
      by (rule trans [OF D(2) [symmetric] c(2)])
    moreover have "length sb = 1"
      using D(1,3) c(2) by (simp add: le_Suc_eq)
    ultimately show "sb = [of_nat (length bs div 256)]" "chan e1 = bs @ r"
      by (auto simp: length_Suc_conv)
  qed
  have n: "length bs < 65536" "0 < length bs"
    using tcp_sendable_size [OF b] by simp_all
  have "unat (of_nat ?n :: u8) = unat (of_nat (length bs mod 256) :: u8)"
    using c(1) by simp
  then have "?n = length bs mod 256"
    using ok s by (simp add: tcp_ok_def Let_def unat_of_nat)
  then have "push_bit 8 (unat (sb ! 0)) OR ?n = length bs"
    using sb n by (simp add: or_octets unat_of_nat)
  then show ?thesis
    using sb st s rd c n by (auto simp: read_tcp_step_def Let_def tcp_step_ok_def tcp_ok_def tcp_unread_def tcp_size_def)
qed

lemma tcp_step_message:
  assumes f: "feeds read_cb millis chan" and s: "tcp_state (input_buffer (tcp_transport run)) = UXR_TCP_SIZE_READ"
    and u: "tcp_unread chan run = tcp_encode bs @ r" and b: "tcp_sendable bs" and ok: "tcp_ok run"
    and st: "read_tcp_step read_cb disconnect err0 timeout run = (over, run1)"
  shows "tcp_step_ok chan bs r run over run1"
proof -
  let ?e = "tcp_platform (tcp_transport run)" and ?in = "input_buffer (tcp_transport run)"
  note n = tcp_sendable_size [OF b]
  obtain sb err1 e1 where rd: "read_cb (msg_size ?in) timeout err0 ?e = (sb, err1, e1)"
    by (metis prod_cases3)
  note D = feedsD [OF f rd]
  have c: "msg_size ?in = length bs" "chan ?e = bs @ r"
    using u s ok n tcp_size_eq [of "msg_size ?in" "length bs"] by (auto simp: tcp_unread_def Let_def tcp_encode_def tcp_ok_def)
  have sb: "sb \<noteq> []" "length sb \<le> length bs"
    using D(1,3) c n by auto
  have e: "sb @ chan e1 = bs @ r"
    by (rule trans [OF D(2) [symmetric] c(2)])
  have less: "length (chan e1) < length (chan ?e)"
    using arg_cong [OF e, of length] c(2) sb by (simp flip: length_greater_0_conv)
  have w: "changed_within (tcp_mem run) (wr (tcp_mem run) (tcp_buffer ?in) sb) (tcp_buffer ?in) (tcp_buffer ?in + UXR_CONFIG_TCP_TRANSPORT_MTU)"
    using sb(2) n by (intro changed_within_wr) (simp_all add: UXR_CONFIG_TCP_TRANSPORT_MTU_def)
  let ?run = "(set_platform e1 run)\<lparr>tcp_mem := wr (tcp_mem run) (tcp_buffer ?in) sb\<rparr>"
  show ?thesis
  proof (cases "length sb = length bs")
    case True
    then have "over = False" "run1 = set_input (\<lambda>b. b\<lparr>tcp_state := UXR_TCP_MESSAGE_AVAILABLE\<rparr>) ?run"
      using st s rd sb c by (simp_all add: read_tcp_step_def Let_def)
    then show ?thesis
      using True s c e n w less by (simp add: Let_def tcp_step_ok_def tcp_ok_def tcp_unread_def rd_wr_same)
  next
    case False
    then have "over = True" "run1 = set_input (\<lambda>b. b\<lparr>position := length sb, tcp_state := UXR_TCP_MESSAGE_INCOMPLETE\<rparr>) ?run"
      using st s rd sb c by (simp_all add: read_tcp_step_def Let_def)
    then show ?thesis
      using False sb s c e n w less by (simp add: Let_def tcp_step_ok_def tcp_ok_def tcp_unread_def rd_wr_same)
  qed
qed

lemma tcp_step_rest:
  assumes f: "feeds read_cb millis chan" and s: "tcp_state (input_buffer (tcp_transport run)) = UXR_TCP_MESSAGE_INCOMPLETE"
    and u: "tcp_unread chan run = tcp_encode bs @ r" and b: "tcp_sendable bs" and ok: "tcp_ok run"
    and st: "read_tcp_step read_cb disconnect err0 timeout run = (over, run1)"
  shows "tcp_step_ok chan bs r run over run1"
proof -
  let ?e = "tcp_platform (tcp_transport run)" and ?in = "input_buffer (tcp_transport run)"
  let ?a = "tcp_buffer ?in" and ?p = "position ?in"
  let ?part = "rd (tcp_mem run) ?a ?p"
  note n = tcp_sendable_size [OF b]
  have c: "msg_size ?in = length bs" "?part @ chan ?e = bs @ r"
    using u s ok n tcp_size_eq [of "msg_size ?in" "length bs"] by (auto simp: tcp_unread_def Let_def tcp_encode_def tcp_ok_def)
  have p: "?p < length bs"
    using ok s c(1) by (simp add: tcp_ok_def Let_def)
  have sz: "size_sub (msg_size ?in) ?p = length bs - ?p"
    using p c(1) n by (simp add: size_sub_eq)
  obtain sb err1 e1 where rd: "read_cb (length bs - ?p) timeout err0 ?e = (sb, err1, e1)"
    by (metis prod_cases3)
  note D = feedsD [OF f rd]
  have ne: "chan ?e \<noteq> []"
  proof
    assume "chan ?e = []"
    then have "length bs + length r = ?p"
      using arg_cong [OF c(2), of length] by simp
    then show False
      using p by simp
  qed
  have sb: "sb \<noteq> []" "?p + length sb \<le> length bs"
    using D(1,3) ne p by auto
  have e: "?part @ sb @ chan e1 = bs @ r"
    using c(2) unfolding D(2) by simp
  have less: "length (chan e1) < length (chan ?e)"
    using arg_cong [OF D(2), of length] sb by (simp flip: length_greater_0_conv)
  have w: "changed_within (tcp_mem run) (wr (tcp_mem run) (?a + ?p) sb) ?a (?a + UXR_CONFIG_TCP_TRANSPORT_MTU)"
    using sb(2) n by (intro changed_within_wr) (simp_all add: UXR_CONFIG_TCP_TRANSPORT_MTU_def)
  have rd2: "rd (wr (tcp_mem run) (?a + ?p) sb) ?a (?p + length sb) = ?part @ sb"
    by (simp add: rd_append rd_wr_same rd_wr_disjoint)
  have ad: "size_add ?p (length sb) = ?p + length sb"
    using sb(2) n by (simp add: size_add_eq)
  let ?run = "set_input (\<lambda>b. b\<lparr>position := ?p + length sb\<rparr>) ((set_platform e1 run)\<lparr>tcp_mem := wr (tcp_mem run) (?a + ?p) sb\<rparr>)"
  show ?thesis
  proof (cases "?p + length sb = length bs")
    case True
    then have "over = False" "run1 = set_input (\<lambda>b. b\<lparr>tcp_state := UXR_TCP_MESSAGE_AVAILABLE\<rparr>) ?run"
      using st s rd sb c(1) ad sz by (simp_all add: read_tcp_step_def Let_def)
    then show ?thesis
      using s c e n w less rd2 [unfolded True] by (simp add: Let_def tcp_step_ok_def tcp_ok_def tcp_unread_def)
  next
    case False
    then have "over = True" "run1 = ?run"
      using st s rd sb c(1) ad sz by (simp_all add: read_tcp_step_def Let_def)
    then show ?thesis
      using False sb s c e n w less rd2 by (simp add: Let_def tcp_step_ok_def tcp_ok_def tcp_unread_def)
  qed
qed

lemma tcp_step_available:
  assumes s: "tcp_state (input_buffer (tcp_transport run)) = UXR_TCP_MESSAGE_AVAILABLE"
    and u: "tcp_unread chan run = tcp_encode bs @ r" and b: "tcp_sendable bs" and ok: "tcp_ok run"
    and st: "read_tcp_step read_cb disconnect err0 timeout run = (over, run1)"
  shows "tcp_step_ok chan bs r run over run1"
proof -
  let ?in = "input_buffer (tcp_transport run)"
  have "msg_size ?in = length bs"
    using u s ok tcp_sendable_size [OF b] tcp_size_eq [of "msg_size ?in" "length bs"]
    by (auto simp: tcp_unread_def Let_def tcp_encode_def tcp_ok_def)
  moreover from this have "rd (tcp_mem run) (tcp_buffer ?in) (length bs) = bs" "chan (tcp_platform (tcp_transport run)) = r"
    using u s by (auto simp: tcp_unread_def Let_def tcp_encode_def)
  ultimately show ?thesis
    using st s by (auto simp: read_tcp_step_def Let_def tcp_step_ok_def tcp_ok_def tcp_unread_def set_input_def)
qed

lemma tcp_step:
  assumes "feeds read_cb millis chan" and "tcp_unread chan run = tcp_encode bs @ r" and "tcp_sendable bs" and "tcp_ok run"
    and "read_tcp_step read_cb disconnect err0 timeout run = (over, run1)"
  shows "tcp_step_ok chan bs r run over run1"
  using tcp_step_empty [OF assms(1) _ assms(2,3,5)] tcp_step_size [OF assms(1) _ assms(2-5)]
    tcp_step_message [OF assms(1) _ assms(2-5)] tcp_step_rest [OF assms(1) _ assms(2-5)]
    tcp_step_available [OF _ assms(2-5)]
  by (cases "tcp_state (input_buffer (tcp_transport run))") blast+

lemma tcp_step_ok_trans:
  assumes "tcp_step_ok chan bs r run over run1" and "tcp_unread chan run1 = tcp_unread chan run \<and> tcp_rv run1 = tcp_rv run \<and>
      length (chan (tcp_platform (tcp_transport run1))) < length (chan (tcp_platform (tcp_transport run)))"
    and "tcp_step_ok chan bs r run1 True run2"
  shows "tcp_step_ok chan bs r run True run2"
  using assms by (auto simp: tcp_step_ok_def Let_def intro: changed_within_trans)

lemma tcp_loop:
  assumes f: "feeds read_cb millis chan" and b: "tcp_sendable bs" and "tcp_unread chan run = tcp_encode bs @ r" and "tcp_ok run"
  shows "\<exists>run1. read_tcp_loop read_cb disconnect err0 timeout run = Some run1 \<and> tcp_step_ok chan bs r run True run1"
  using assms(3,4)
proof (induction "length (chan (tcp_platform (tcp_transport run)))" arbitrary: run rule: less_induct)
  case less
  obtain over run1 where st: "read_tcp_step read_cb disconnect err0 timeout run = (over, run1)"
    by force
  note S = tcp_step [OF f less.prems(1) b less.prems(2) st]
  show ?case
  proof (cases over)
    case True
    then show ?thesis
      using S st by (subst read_tcp_loop.simps) simp
  next
    case False
    then have m: "tcp_unread chan run1 = tcp_unread chan run \<and> tcp_rv run1 = tcp_rv run \<and>
        length (chan (tcp_platform (tcp_transport run1))) < length (chan (tcp_platform (tcp_transport run)))" "tcp_ok run1"
      using S by (auto simp: tcp_step_ok_def Let_def)
    obtain run2 where "read_tcp_loop read_cb disconnect err0 timeout run1 = Some run2" "tcp_step_ok chan bs r run1 True run2"
      using less.hyps [of run1] m less.prems(1) by auto
    then show ?thesis
      using tcp_step_ok_trans [OF S m(1)] st False by (subst read_tcp_loop.simps) simp
  qed
qed

text \<open>Reading the clock leaves the line alone.\<close>

lemma tcp_clock:
  assumes "feeds read_cb millis chan" and "millis (tcp_platform (tcp_transport run)) = (t, e')"
  shows "chan e' = chan (tcp_platform (tcp_transport run))" and "tcp_unread chan (set_platform e' run) = tcp_unread chan run"
    and "tcp_ok (set_platform e' run) = tcp_ok run"
proof -
  have law: "device_law read_cb millis (\<lambda>e bs e'. chan e = bs @ chan e')"
    using assms(1) by (simp add: feeds_def)
  show c: "chan e' = chan (tcp_platform (tcp_transport run))"
    using device_lawD(2) [OF law assms(2)] unfolding append_Nil by (rule sym)
  show "tcp_unread chan (set_platform e' run) = tcp_unread chan run" "tcp_ok (set_platform e' run) = tcp_ok run"
    by (simp_all add: tcp_unread_def tcp_ok_def Let_def c split: uxrTCPInputBufferState.splits)
qed

lemma tcp_step_ok_clock:
  assumes "chan e' = chan (tcp_platform (tcp_transport run))"
  shows "tcp_step_ok chan bs r (set_platform e' run) over run1 = tcp_step_ok chan bs r run over run1"
    and "tcp_step_ok chan bs r run0 over (set_platform e' run) = tcp_step_ok chan bs r run0 over run"
  by (simp_all add: tcp_step_ok_def tcp_unread_def tcp_ok_def Let_def assms split: uxrTCPInputBufferState.splits)

lemma tcp_recv_loop:
  assumes f: "feeds read_cb millis chan" and b: "tcp_sendable bs" and "tcp_unread chan run = tcp_encode bs @ r" and "tcp_ok run"
  shows "\<exists>run1. recv_tcp_loop read_cb disconnect millis err0 timeout run = Some run1 \<and>
    tcp_step_ok chan bs r (run\<lparr>tcp_rv := 0\<rparr>) True run1"
  using assms(3,4)
proof (induction "length (chan (tcp_platform (tcp_transport run)))" arbitrary: run timeout rule: less_induct)
  case less
  obtain time_init e0 where m0: "millis (tcp_platform (tcp_transport run)) = (time_init, e0)"
    by force
  note C0 = tcp_clock [OF f m0]
  let ?run0 = "(set_platform e0 run)\<lparr>tcp_rv := 0\<rparr>"
  have u0: "tcp_unread chan ?run0 = tcp_encode bs @ r" "tcp_ok ?run0"
    using C0 less.prems by (simp_all add: tcp_unread_def tcp_ok_def)
  obtain run1 where r1: "read_tcp_loop read_cb disconnect err0 timeout ?run0 = Some run1" "tcp_step_ok chan bs r ?run0 True run1"
    using tcp_loop [OF f b u0] by blast
  have S1: "tcp_step_ok chan bs r (run\<lparr>tcp_rv := 0\<rparr>) True run1"
  proof -
    have "?run0 = set_platform e0 (run\<lparr>tcp_rv := 0\<rparr>)"
      by (simp add: set_platform_def)
    then show ?thesis
      using r1(2) tcp_step_ok_clock(1) [of chan e0 "run\<lparr>tcp_rv := 0\<rparr>"] C0(1) by simp
  qed
  obtain now e1 where m1: "millis (tcp_platform (tcp_transport run1)) = (now, e1)"
    by force
  note C1 = tcp_clock [OF f m1]
  let ?run2 = "set_platform e1 run1"
  have S2: "tcp_step_ok chan bs r (run\<lparr>tcp_rv := 0\<rparr>) True ?run2"
    using S1 tcp_step_ok_clock(2) [OF C1(1)] by simp
  let ?t = "timeout - cast_int32 (now - time_init)"
  have step: "recv_tcp_loop read_cb disconnect millis err0 timeout run = (if 0 = tcp_rv run1 \<and> 0 < ?t
      then recv_tcp_loop read_cb disconnect millis err0 ?t ?run2 else Some ?run2)"
    by (subst recv_tcp_loop.simps) (simp add: m0 read_tcp_data_def r1(1) m1 Let_def)
  show ?case
  proof (cases "0 = tcp_rv run1 \<and> 0 < ?t")
    case False
    then show ?thesis
      using S2 unfolding step if_not_P [OF False] by blast
  next
    case True
    then have m: "tcp_unread chan ?run2 = tcp_unread chan (run\<lparr>tcp_rv := 0\<rparr>) \<and> tcp_rv ?run2 = tcp_rv (run\<lparr>tcp_rv := 0\<rparr>) \<and>
        length (chan (tcp_platform (tcp_transport ?run2))) < length (chan (tcp_platform (tcp_transport (run\<lparr>tcp_rv := 0\<rparr>))))"
      "tcp_ok ?run2"
      using S2 tcp_sendable_size [OF b] by (auto simp: tcp_step_ok_def Let_def)
    have u2: "tcp_unread chan ?run2 = tcp_encode bs @ r" "?run2\<lparr>tcp_rv := 0\<rparr> = ?run2"
      "length (chan (tcp_platform (tcp_transport ?run2))) < length (chan (tcp_platform (tcp_transport run)))"
      using m(1) less.prems(1) True by (simp_all add: tcp_unread_def)
    obtain run3 where "recv_tcp_loop read_cb disconnect millis err0 ?t ?run2 = Some run3" "tcp_step_ok chan bs r ?run2 True run3"
      using less.hyps [OF u2(3,1) m(2)] u2(2) by metis
    then show ?thesis
      using tcp_step_ok_trans [OF S2 m(1)] step True by simp
  qed
qed

text \<open>Both ends through the interface.\<close>

definition tcp_recv ::
  "'e uxr_read_cb \<Rightarrow> ('e \<Rightarrow> 'e) \<Rightarrow> ('e \<Rightarrow> int \<times> 'e) \<Rightarrow> u8 \<Rightarrow> int \<Rightarrow> 'e uxrTCPTransport \<times> u8 \<times> mem \<Rightarrow>
    (u8 list option \<times> 'e uxrTCPTransport \<times> u8 \<times> mem) option"
where
  "tcp_recv read_cb disconnect millis errcode0 timeout t =
     map_option (\<lambda>(got, transport, error_code, m). (map_option (\<lambda>(a, n). rd m a n) got, transport, error_code, m))
       (recv_tcp_msg read_cb disconnect millis errcode0 timeout (fst t) (fst (snd t)) (snd (snd t)))"

definition tcp_run_of :: "'e uxrTCPTransport \<times> u8 \<times> mem \<Rightarrow> 'e tcp_run" where
  "tcp_run_of t = \<lparr>tcp_transport = fst t, tcp_error_code = fst (snd t), tcp_mem = snd (snd t), tcp_rv = 0\<rparr>"

definition tcp_source ::
  "'e uxr_read_cb \<Rightarrow> ('e \<Rightarrow> int \<times> 'e) \<Rightarrow> ('e \<Rightarrow> u8 list) \<Rightarrow> 'e uxrTCPTransport \<times> u8 \<times> mem \<Rightarrow> bool"
where
  "tcp_source read_cb millis chan t \<longleftrightarrow> feeds read_cb millis chan \<and> tcp_ok (tcp_run_of t)"

definition tcp_unseen :: "('e \<Rightarrow> u8 list) \<Rightarrow> 'e uxrTCPTransport \<times> u8 \<times> mem \<Rightarrow> u8 list" where
  "tcp_unseen chan t = tcp_unread chan (tcp_run_of t)"

lemma tcp_recv_law:
  assumes "tcp_source read_cb millis chan t" and "tcp_sendable bs" and "tcp_unseen chan t = tcp_encode bs @ r"
  shows "\<exists>m t'. tcp_recv read_cb disconnect millis errcode0 timeout t = Some (m, t') \<and> tcp_source read_cb millis chan t' \<and>
    (m = Some bs \<and> tcp_unseen chan t' = r \<or> m = None \<and> tcp_unseen chan t' = tcp_unseen chan t \<and>
       length (chan (tcp_platform (fst t'))) < length (chan (tcp_platform (fst t))))"
proof -
  have f: "feeds read_cb millis chan" and ok: "tcp_ok (tcp_run_of t)"
    using assms(1) by (simp_all add: tcp_source_def)
  obtain run1 where r1: "recv_tcp_loop read_cb disconnect millis errcode0 timeout (tcp_run_of t) = Some run1"
    "tcp_step_ok chan bs r (tcp_run_of t) True run1"
  proof -
    have "(tcp_run_of t)\<lparr>tcp_rv := 0\<rparr> = tcp_run_of t"
      by (simp add: tcp_run_of_def)
    then show ?thesis
      using tcp_recv_loop [OF f assms(2) assms(3) [unfolded tcp_unseen_def] ok, of disconnect errcode0 timeout] that by auto
  qed
  let ?t' = "(tcp_transport run1, tcp_error_code run1, tcp_mem run1)"
  have e: "tcp_recv read_cb disconnect millis errcode0 timeout t = Some (if 0 < tcp_rv run1
      then Some (rd (tcp_mem run1) (tcp_buffer (input_buffer (fst t))) (tcp_rv run1)) else None, ?t')"
    using r1(1) by (simp add: tcp_recv_def recv_tcp_msg_def tcp_run_of_def)
  have k: "tcp_ok (tcp_run_of ?t') = tcp_ok run1" "tcp_unseen chan ?t' = tcp_unread chan run1"
    by (simp_all add: tcp_ok_def tcp_run_of_def tcp_unseen_def tcp_unread_def)
  show ?thesis
    unfolding e using r1(2) k f tcp_sendable_size [OF assms(2)]
    by (auto simp: tcp_step_ok_def Let_def tcp_source_def tcp_run_of_def tcp_unseen_def)
qed

subsection \<open>Sending\<close>

text \<open>A device that never takes one octet of two.\<close>

definition takes_pairs :: "'e uxr_write_cb \<Rightarrow> bool" where
  "takes_pairs write_cb \<longleftrightarrow> (\<forall>bs err e. length bs = 2 \<longrightarrow> fst (write_cb bs err e) \<noteq> 1)"

lemma send_tcp_size_pairs:
  assumes "sink write_cb log" and "takes_pairs write_cb" and "length sz = 2"
    and "send_tcp_size write_cb err0 sz n 0 error_code e = (True, err', e')"
  shows "log e' = log e @ sz"
  using assms(4)
proof (induction "UXR_MAX_WRITE_TCP_ATTEMPS - n" arbitrary: n e rule: less_induct)
  case less
  obtain k err1 e1 where w: "write_cb sz err0 e = (k, err1, e1)"
    by (metis prod_cases3)
  have k: "k = 0 \<or> k = 2" "log e1 = log e @ take k sz"
  proof -
    have "k \<noteq> 1"
      using assms(2,3) w unfolding takes_pairs_def by (metis fst_conv)
    then show "k = 0 \<or> k = 2" "log e1 = log e @ take k sz"
      using sinkD [OF assms(1) w] assms(3) by auto
  qed
  note S = less.prems [unfolded send_tcp_size.simps [of _ _ _ n], unfolded Let_def w prod.case]
  show ?case
  proof (cases "k = 2")
    case True
    then have "e' = e1"
      using S assms(3) by (simp add: size_add_eq)
    then show ?thesis
      using k(2) True assms(3) by simp
  next
    case False
    then have z: "k = 0" "n + 1 < UXR_MAX_WRITE_TCP_ATTEMPS"
      "send_tcp_size write_cb err0 sz (n + 1) 0 error_code e1 = (True, err', e')"
      using S k(1) by (simp_all split: if_splits)
    have "log e' = log e1 @ sz"
      using z by (intro less.hyps [of "n + 1"]) auto
    then show ?thesis
      using k(2) z(1) by simp
  qed
qed

lemma send_tcp_payload_all:
  assumes "sink write_cb log" and "length bs < SIZE_MOD" and "k \<le> length bs" and "log e = l @ take k bs"
    and "send_tcp_payload write_cb err0 bs n k error_code e = (True, err', e')"
  shows "log e' = l @ bs"
  using assms(3-5)
proof (induction "UXR_MAX_WRITE_TCP_ATTEMPS - n" arbitrary: n k e rule: less_induct)
  case less
  let ?part = "take (size_sub (length bs) k) (drop k bs)"
  have part: "?part = drop k bs"
    using less.prems(1) assms(2) by (simp add: size_sub_eq)
  obtain j err1 e1 where w: "write_cb (drop k bs) err0 e = (j, err1, e1)"
    by (metis prod_cases3)
  have j: "j \<le> length bs - k" "log e1 = l @ take (k + j) bs"
    using sinkD [OF assms(1) w] less.prems(2) by (simp_all add: take_add)
  have ad: "size_add k j = k + j"
    using j(1) less.prems(1) assms(2) by (simp add: size_add_eq)
  note S = less.prems(3) [unfolded send_tcp_payload.simps [of _ _ _ n], unfolded Let_def part w prod.case ad]
  show ?case
  proof (cases "0 < j \<and> k + j = length bs")
    case True
    then have "e' = e1"
      using S by simp
    then show ?thesis
      using j(2) True by simp
  next
    case False
    let ?k = "if 0 < j then k + j else k"
    have z: "n + 1 < UXR_MAX_WRITE_TCP_ATTEMPS" "send_tcp_payload write_cb err0 bs (n + 1) ?k error_code e1 = (True, err', e')"
      using S False by (auto split: if_splits)
    have "log e1 = l @ take ?k bs" "?k \<le> length bs"
      using j less.prems(1) by auto
    then show ?thesis
      using z by (intro less.hyps [of "n + 1" ?k e1]) auto
  qed
qed

definition tcp_send ::
  "'e uxr_write_cb \<Rightarrow> ('e \<Rightarrow> 'e) \<Rightarrow> u8 \<Rightarrow> u8 list \<Rightarrow> 'e uxrTCPTransport \<times> u8 \<Rightarrow> bool \<times> 'e uxrTCPTransport \<times> u8"
where
  "tcp_send write_cb disconnect errcode0 bs s = send_tcp_msg write_cb disconnect errcode0 bs (fst s) (snd s)"

definition tcp_sink :: "'e uxr_write_cb \<Rightarrow> ('e \<Rightarrow> u8 list) \<Rightarrow> 'e uxrTCPTransport \<times> u8 \<Rightarrow> bool" where
  "tcp_sink write_cb log s \<longleftrightarrow> sink write_cb log \<and> takes_pairs write_cb"

lemma send_tcp_msg_parts:
  assumes "send_tcp_msg write_cb disconnect err0 bs t error_code = (True, t', error')"
  obtains error1 e1 where
    "send_tcp_size write_cb err0 (tcp_size (length bs)) 0 0 error_code (tcp_platform t) = (True, error1, e1)"
    "send_tcp_payload write_cb err0 bs 0 0 error1 e1 = (True, error', tcp_platform t')"
  using assms by (auto simp: send_tcp_msg_def tcp_size_def Let_def split: prod.splits if_splits)

lemma tcp_send_law:
  assumes "tcp_sink write_cb log s" and "tcp_sendable bs" and "tcp_send write_cb disconnect errcode0 bs s = (True, s')"
  shows "tcp_sink write_cb log s' \<and> log (tcp_platform (fst s')) = log (tcp_platform (fst s)) @ tcp_encode bs"
proof -
  have w: "sink write_cb log" "takes_pairs write_cb"
    using assms(1) by (simp_all add: tcp_sink_def)
  obtain error1 e1 where p: "send_tcp_size write_cb errcode0 (tcp_size (length bs)) 0 0 (snd s) (tcp_platform (fst s)) = (True, error1, e1)"
    "send_tcp_payload write_cb errcode0 bs 0 0 error1 e1 = (True, snd s', tcp_platform (fst s'))"
    using send_tcp_msg_parts [of write_cb disconnect errcode0 bs "fst s" "snd s" "fst s'" "snd s'"] assms(3)
    by (auto simp: tcp_send_def)
  have "log e1 = log (tcp_platform (fst s)) @ tcp_size (length bs)"
    by (rule send_tcp_size_pairs [OF w _ p(1)]) simp
  moreover have "log (tcp_platform (fst s')) = log e1 @ bs"
    by (rule send_tcp_payload_all [OF w(1) _ _ _ p(2)]) (use tcp_sendable_size [OF assms(2)] in simp_all)
  ultimately show ?thesis
    using w by (simp add: tcp_sink_def tcp_encode_def)
qed

interpretation tcp: message_line "tcp_send write_cb disconnect errcode0" tcp_encode tcp_sendable
    "tcp_sink write_cb log" "\<lambda>s. log (tcp_platform (fst s))"
    "tcp_recv read_cb disconnect1 millis errcode1 timeout" "tcp_source read_cb millis chan" "tcp_unseen chan"
    "\<lambda>t. length (chan (tcp_platform (fst t)))"
  for write_cb disconnect errcode0 log read_cb disconnect1 millis errcode1 timeout chan
  by unfold_locales (rule tcp_send_law tcp_recv_law; assumption)+

text \<open>C9. Messages sent over a TCP connection are put together at the other end as they were sent and in
  order, in however many calls and pieces they arrive, if the sending side never takes one octet of
  the two of a length.\<close>
theorem tcp_messages_arrive:
  assumes "tcp_sink write_cb log s" and "tcp_source read_cb millis chan t" and "list_all tcp_sendable msgs"
    and "send_each (tcp_send write_cb disconnect errcode0) msgs s = (True, s')"
    and "log (tcp_platform (fst s)) @ tcp_unseen chan t = log (tcp_platform (fst s')) @ r"
  shows "\<exists>n t'. poll (tcp_recv read_cb disconnect1 millis errcode1 timeout) n t = Some (msgs, t') \<and>
    tcp_source read_cb millis chan t' \<and> tcp_unseen chan t' = r"
  by (rule tcp.messages_arrive [OF assms])

subsection \<open>What goes wrong\<close>

text \<open>When the device takes the two octets of a length one at a time, the sender writes the low octet
  twice and never the high one, and still reports success: the loop passes the start of the two
  octets to the device again instead of what is left of them.\<close>
theorem tcp_split_size_corrupts:
  assumes "sink write_cb log" and "\<And>x y err e. fst (write_cb [x, y] err e) = 1" and "tcp_sendable bs"
    and "send_tcp_msg write_cb disconnect err0 bs t error_code = (True, t', error')"
  shows "log (tcp_platform t') = log (tcp_platform t) @ [of_nat (length bs mod 256), of_nat (length bs mod 256)] @ bs"
proof -
  let ?sz = "tcp_size (length bs)"
  obtain error1 e1 where p: "send_tcp_size write_cb err0 ?sz 0 0 error_code (tcp_platform t) = (True, error1, e1)"
    "send_tcp_payload write_cb err0 bs 0 0 error1 e1 = (True, error', tcp_platform t')"
    using assms(4) by (rule send_tcp_msg_parts)
  have one: "fst (write_cb ?sz err e) = 1" for err e
    using assms(2) by (simp add: tcp_size_def)
  obtain err2 e2 where w2: "write_cb ?sz err0 (tcp_platform t) = (1, err2, e2)"
    using one by (metis prod.collapse)
  obtain err3 e3 where w3: "write_cb ?sz err0 e2 = (1, err3, e3)"
    using one by (metis prod.collapse)
  have "e1 = e3"
    using p(1) by (simp add: send_tcp_size.simps w2 w3 UXR_MAX_WRITE_TCP_ATTEMPS_def size_add_eq)
  moreover have "log e3 = log (tcp_platform t) @ [of_nat (length bs mod 256), of_nat (length bs mod 256)]"
    using sinkD [OF assms(1) w2] sinkD [OF assms(1) w3] by (simp add: tcp_size_def)
  moreover have "log (tcp_platform t') = log e1 @ bs"
    by (rule send_tcp_payload_all [OF assms(1) _ _ _ p(2)]) (use tcp_sendable_size [OF assms(3)] in simp_all)
  ultimately show ?thesis
    by simp
qed

text \<open>The receiver believes the length that it is told: a message longer than the receive buffer is
  stored all the same, beyond the end of the array.\<close>
theorem tcp_long_message_overflows:
  assumes f: "feeds read_cb millis chan" and full: "\<And>k t err e. length (fst (read_cb k t err e)) = min k (length (chan e))"
    and "tcp_state (input_buffer t) = UXR_TCP_BUFFER_EMPTY" and "chan (tcp_platform t) = tcp_encode bs @ r"
    and n: "UXR_CONFIG_TCP_TRANSPORT_MTU < length bs" "length bs < 65536"
  shows "\<exists>t' error_code' m'. recv_tcp_msg read_cb disconnect millis errcode0 timeout t error_code m =
      Some (Some (tcp_buffer (input_buffer t), length bs), t', error_code', m') \<and>
    m' (tcp_buffer (input_buffer t) + UXR_CONFIG_TCP_TRANSPORT_MTU) = bs ! UXR_CONFIG_TCP_TRANSPORT_MTU"
proof -
  define run where "run = \<lparr>tcp_transport = t, tcp_error_code = error_code, tcp_mem = m, tcp_rv = 0\<rparr>"
  let ?a = "tcp_buffer (input_buffer t)"
  obtain t0 e0 where m0: "millis (tcp_platform t) = (t0, e0)"
    by force
  have c0: "chan e0 = tcp_size (length bs) @ bs @ r"
    using tcp_clock(1) [OF f, of run] m0 assms(4) by (simp add: run_def tcp_encode_def)
  have lb: "length (tcp_size (length bs) @ bs @ r) = length bs + length r + 2"
    by simp
  obtain sb err1 e1 where r1: "read_cb 2 timeout errcode0 e0 = (sb, err1, e1)"
    by (metis prod_cases3)
  have "length sb = 2"
    using full [of 2 timeout errcode0 e0] by (simp add: r1 c0)
  moreover have "sb @ chan e1 = tcp_size (length bs) @ bs @ r"
    by (rule trans [OF feedsD(2) [OF f r1, symmetric] c0])
  ultimately have sb: "sb = tcp_size (length bs)" "chan e1 = bs @ r"
    by (simp_all add: append_eq_append_conv)
  obtain ms err2 e2 where r2: "read_cb (length bs) timeout errcode0 e1 = (ms, err2, e2)"
    by (metis prod_cases3)
  have "length ms = length bs"
    using full [of "length bs" timeout errcode0 e1] by (simp add: r2 sb(2))
  moreover have "ms @ chan e2 = bs @ r"
    by (rule trans [OF feedsD(2) [OF f r2, symmetric] sb(2)])
  ultimately have ms: "ms = bs"
    by (simp add: append_eq_append_conv)
  have size: "push_bit 8 (unat (tcp_size (length bs) ! Suc 0)) OR unat (tcp_size (length bs) ! 0) = length bs" "bs \<noteq> []"
    using n by (auto simp: tcp_size_def or_octets unat_of_nat)
  have sz: "tcp_size (length bs) \<noteq> []"
    by (simp add: tcp_size_def)
  define run1 where "run1 = set_input (\<lambda>b. b\<lparr>msg_size := length bs, tcp_state := UXR_TCP_SIZE_READ\<rparr>)
      (set_platform e1 (set_input (\<lambda>b. b\<lparr>position := 0\<rparr>) (set_platform e0 run\<lparr>tcp_rv := 0\<rparr>)))"
  define run2 where "run2 = set_input (\<lambda>b. b\<lparr>tcp_state := UXR_TCP_MESSAGE_AVAILABLE\<rparr>)
      ((set_platform e2 run1)\<lparr>tcp_mem := wr m ?a bs\<rparr>)"
  define run3 where "run3 = set_input (\<lambda>b. b\<lparr>tcp_state := UXR_TCP_BUFFER_EMPTY\<rparr>) run2\<lparr>tcp_rv := length bs\<rparr>"
  have s1: "read_tcp_step read_cb disconnect errcode0 timeout (set_platform e0 run\<lparr>tcp_rv := 0\<rparr>) = (False, run1)"
    using assms(3) r1 size sz by (simp add: read_tcp_step_def Let_def run_def sb run1_def)
  have f1: "tcp_state (input_buffer (tcp_transport run1)) = UXR_TCP_SIZE_READ" "msg_size (input_buffer (tcp_transport run1)) = length bs"
    "tcp_platform (tcp_transport run1) = e1" "tcp_buffer (input_buffer (tcp_transport run1)) = ?a" "tcp_mem run1 = m"
    by (simp_all add: run1_def run_def)
  have s2: "read_tcp_step read_cb disconnect errcode0 timeout run1 = (False, run2)"
    using r2 size(2) by (simp add: read_tcp_step_def Let_def f1 ms run2_def)
  have s3: "read_tcp_step read_cb disconnect errcode0 timeout run2 = (True, run3)"
    by (simp add: read_tcp_step_def Let_def run2_def run3_def f1)
  have "read_tcp_data read_cb disconnect errcode0 timeout (set_platform e0 run) = Some run3"
    unfolding read_tcp_data_def
    by (subst read_tcp_loop.simps, simp add: s1, subst read_tcp_loop.simps, simp add: s2, subst read_tcp_loop.simps, simp add: s3)
  moreover have rv: "tcp_rv run3 = length bs" "tcp_mem run3 = wr m ?a bs" "tcp_platform (tcp_transport run) = tcp_platform t"
    by (simp_all add: run3_def run2_def set_input_def run_def)
  moreover obtain now e3 where m3: "millis (tcp_platform (tcp_transport run3)) = (now, e3)"
    by force
  ultimately have "recv_tcp_loop read_cb disconnect millis errcode0 timeout run = Some (set_platform e3 run3)"
    using m0 size(2) by (subst recv_tcp_loop.simps) (simp add: Let_def)
  moreover have "wr m ?a bs (?a + UXR_CONFIG_TCP_TRANSPORT_MTU) = bs ! UXR_CONFIG_TCP_TRANSPORT_MTU"
    using n by (simp add: wr_def)
  ultimately show ?thesis
    using rv size(2) by (simp add: recv_tcp_msg_def flip: run_def)
qed

section \<open>Examples\<close>

definition pipe_write :: "u8 list uxr_write_cb" where
  "pipe_write bs err e = (length bs, err, e @ bs)"

definition drip_write :: "u8 list uxr_write_cb" where
  "drip_write bs err e = (min 1 (length bs), err, e @ take 1 bs)"

definition pipe_read :: "u8 list uxr_read_cb" where
  "pipe_read k t err e = (take k e, err, drop k e)"

definition example_tcp :: "u8 list \<Rightarrow> u8 list uxrTCPTransport" where
  "example_tcp line = \<lparr>input_buffer = \<lparr>tcp_buffer = 1000, position = 0, tcp_state = UXR_TCP_BUFFER_EMPTY, msg_size = 0\<rparr>,
     tcp_comm = \<lparr>comm_functions = TCP_FUNCTIONS, mtu = 512\<rparr>, tcp_platform = line\<rparr>"

lemma pipe_sink: "sink pipe_write (\<lambda>e. e)" and drip_sink: "sink drip_write (\<lambda>e. e)"
  by (auto simp: sink_def pipe_write_def drip_write_def min_def)

lemma pipe_feeds: "feeds pipe_read line_millis (\<lambda>e. e)"
  by (auto simp: feeds_def device_law_def pipe_read_def line_millis_def)

lemma pipe_send: "bs \<noteq> [] \<Longrightarrow> length bs < SIZE_MOD \<Longrightarrow>
    \<exists>s'. tcp_send pipe_write (\<lambda>e. e) 0 bs s = (True, s') \<and> tcp_platform (fst s') = tcp_platform (fst s) @ tcp_encode bs"
  by (auto simp: tcp_send_def send_tcp_msg_def Let_def send_tcp_size.simps [of _ _ _ 0] send_tcp_payload.simps [of _ _ _ 0]
      pipe_write_def size_add_eq size_sub_eq tcp_encode_def tcp_size_def)

theorem tcp_messages_arrive_witness:
  "\<exists>s' n t'. send_each (tcp_send pipe_write (\<lambda>e. e) 0) [[1, 2, 3], [4]] (example_tcp [], 0) = (True, s') \<and>
    poll (tcp_recv line_read (\<lambda>e. e) line_millis 0 10) n (example_tcp (tcp_platform (fst s')), 0, \<lambda>_. 0) =
      Some ([[1, 2, 3], [4]], t')"
proof -
  have s: "tcp_sink pipe_write (\<lambda>e. e) (example_tcp [], 0)" and m: "list_all tcp_sendable [[1, 2, 3], [4]]"
    by (simp_all add: tcp_sink_def pipe_sink takes_pairs_def pipe_write_def tcp_sendable_def UXR_CONFIG_TCP_TRANSPORT_MTU_def)
  obtain s1 where 1: "tcp_send pipe_write (\<lambda>e. e) 0 [1, 2, 3] (example_tcp [], 0) = (True, s1)"
    using pipe_send [of "[1, 2, 3]" "(example_tcp [], 0)"] by auto
  obtain s' where 2: "tcp_send pipe_write (\<lambda>e. e) 0 [4] s1 = (True, s')"
    using pipe_send [of "[4]" s1] by auto
  have s': "send_each (tcp_send pipe_write (\<lambda>e. e) 0) [[1, 2, 3], [4]] (example_tcp [], 0) = (True, s')"
    by (simp add: 1 2)
  let ?t = "(example_tcp (tcp_platform (fst s')), 0, \<lambda>_. 0) :: u8 list uxrTCPTransport \<times> u8 \<times> mem"
  have t: "tcp_source line_read line_millis (\<lambda>e. e) ?t"
    by (simp add: tcp_source_def line_feeds tcp_ok_def tcp_run_of_def example_tcp_def)
  have "tcp_platform (fst (example_tcp [], 0 :: u8)) @ tcp_unseen (\<lambda>e. e) ?t = tcp_platform (fst s') @ []"
    by (simp add: tcp_unseen_def tcp_unread_def tcp_run_of_def example_tcp_def)
  then show ?thesis
    using tcp_messages_arrive [OF s t m s', of "[]"] s' by blast
qed

theorem tcp_split_size_corrupts_witness:
  "\<exists>t' error'. send_tcp_msg drip_write (\<lambda>e. e) 0 [7, 8] (example_tcp []) 0 = (True, t', error') \<and>
    tcp_platform t' = [2, 2, 7, 8]"
proof -
  obtain t' error' where s: "send_tcp_msg drip_write (\<lambda>e. e) 0 [7, 8] (example_tcp []) 0 = (True, t', error')"
    by (auto simp: send_tcp_msg_def Let_def send_tcp_size.simps send_tcp_payload.simps drip_write_def size_add_eq size_sub_eq
        UXR_MAX_WRITE_TCP_ATTEMPS_def)
  have "tcp_sendable [7, 8]"
    by (simp add: tcp_sendable_def UXR_CONFIG_TCP_TRANSPORT_MTU_def)
  from tcp_split_size_corrupts [OF drip_sink _ this s] s show ?thesis
    by (auto simp: drip_write_def example_tcp_def)
qed

theorem tcp_long_message_overflows_witness:
  "\<exists>t' error_code' m'. recv_tcp_msg pipe_read (\<lambda>e. e) line_millis 0 10 (example_tcp (tcp_encode (replicate 513 9))) 0 (\<lambda>_. 0) =
      Some (Some (1000, 513), t', error_code', m') \<and> m' 1512 = 9"
proof -
  have "\<And>k t err e. length (fst (pipe_read k t err e)) = min k (length e)"
    by (simp add: pipe_read_def min.commute)
  from tcp_long_message_overflows [OF pipe_feeds this, of "example_tcp (tcp_encode (replicate 513 9))" "replicate 513 9" "[]"]
  show ?thesis
    by (simp add: example_tcp_def UXR_CONFIG_TCP_TRANSPORT_MTU_def) 
qed

end
