(* ===== verification/Ping.thy ===== *)
theory Ping
  imports SessionFacts
begin

text \<open>
  Asking whether an agent is there, \<open>src/c/util/ping.c\<close>: a message that asks for the agent's activity is
  sent, with or without a session, and the answer looked for in what arrives. Locks are not modelled.

  The message is built in a local array, as in the session. Without a session the answer is read into a
  session made up for it, of which only the flag counts; the world's own session is put back.
\<close>

section \<open>The request\<close>

definition UXR_PING_BUF :: nat where "UXR_PING_BUF = 16"
definition GET_INFO_MSG_SIZE :: u16 where "GET_INFO_MSG_SIZE = 8"
definition GET_INFO_REQUEST_PING_ID :: u8 where "GET_INFO_REQUEST_PING_ID = 10"

definition DDS_XRCE_OBJECTID_AGENT :: ObjectId where
  "DDS_XRCE_OBJECTID_AGENT = \<lparr>ObjectId.data = [0xFF, 0xFD]\<rparr>"

text \<open>
  The header is written with no client key. A session identifier that calls for one has it read through
  a null pointer: no result.
\<close>

definition serialize_get_info_message :: "ucdr \<Rightarrow> u8 \<Rightarrow> cdr_state \<Rightarrow> (bool \<times> cdr_state) option" where
  "serialize_get_info_message cdr sid st =
     (if SESSION_ID_WITHOUT_CLIENT_KEY > sid then None
      else let gi_payload = \<lparr>GET_INFO_Payload.base =
                 \<lparr>BaseObjectRequest.request_id = \<lparr>RequestId.data = [0x00, GET_INFO_REQUEST_PING_ID]\<rparr>,
                  object_id = DDS_XRCE_OBJECTID_AGENT\<rparr>, info_mask = INFO_ACTIVITY\<rparr>;
               st1 = uxr_serialize_message_header cdr sid 0 0 [] st;
               (res1, st2) = uxr_buffer_submessage_header cdr SUBMESSAGE_ID_GET_INFO GET_INFO_MSG_SIZE 0 st1;
               (res2, st3) = uxr_serialize_GET_INFO_Payload cdr gi_payload st2
           in Some (res1 \<and> res2, st3))"

text \<open>The local array and what of it is sent.\<close>

definition output_buffer :: "'e env \<Rightarrow> u8 \<Rightarrow> 'e world \<Rightarrow> (bool \<times> u8 list) option" where
  "output_buffer env sid w =
     do {
       (ok, ub, m) \<leftarrow> serialize_get_info_message (lib env w) sid
                       (ucdr_init_buffer (lib env w) 0 UXR_PING_BUF, l_stack (locals env));
       Some (ok, rd m 0 (ucdr_buffer_length (lib env w) ub))
     }"

section \<open>The answer\<close>

text \<open>The size of the arrays of streams is a build option; nothing looks at them.\<close>

definition fake_session :: uxrSession where
  "fake_session = \<lparr>uxrSession.info = \<lparr>id' = 0, key = replicate 4 0, last_requested_status = 0, last_request_id = 0\<rparr>,
     streams = \<lparr>output_best_effort = [], output_best_effort_size = 0, output_reliable = [], output_reliable_size = 0,
       input_best_effort = [], input_best_effort_size = 0, input_reliable = [], input_reliable_size = 0\<rparr>,
     request_list = [], status_list = [], request_status_list_size = 0, on_status = None, on_status_args = 0,
     on_topic = None, on_topic_args = 0, on_time = None, on_time_args = 0, time_offset = 0, synchronized = False,
     on_request = None, on_request_args = 0, on_reply = None, on_reply_args = 0, on_data_flag = False,
     on_pong_flag = 0,
     continuous_args = \<lparr>flush_callback = 0, flush_callback_args = 0,
       ca_stream_id = \<lparr>raw = 0, index = 0, type = UXR_NONE_STREAM, direction = UXR_INPUT_STREAM\<rparr>, data_size = 0\<rparr>\<rparr>"

definition uxr_acknack_pong :: "'e env \<Rightarrow> ucdrBuffer \<Rightarrow> 'e world \<Rightarrow> u8 \<times> ucdrBuffer \<times> 'e world" where
  "uxr_acknack_pong env buffer' w =
     (if ucdr_buffer_remaining (lib env w) buffer' > SUBHEADER_SIZE
      then let ((i, _, len), ub1, m1) = uxr_deserialize_submessage_header (lib env w) (0, 0, 0) (buffer', memory w);
               w1 = set_memory m1 w;
               success = (ucdr_buffer_remaining (lib env w) ub1 \<ge> unat len)
           in if success \<and> i = SUBMESSAGE_ID_INFO
              then let (ub2, w2) = read_submessage_info env ub1
                         (w1\<lparr>sess := fake_session\<lparr>on_pong_flag := NO_PONG_STATUS\<rparr>\<rparr>)
                   in (on_pong_flag (sess w2), ub2, w2\<lparr>sess := sess w\<rparr>)
              else (on_pong_flag fake_session, ub1, w1)
      else (on_pong_flag fake_session, buffer', w))"

text \<open>Whether the header is one of the made-up session's does not matter; it is only skipped.\<close>

definition listen_info_message :: "'e env \<Rightarrow> int \<Rightarrow> 'e world \<Rightarrow> bool \<times> 'e world" where
  "listen_info_message env timeout w =
     (let (success, (input_buffer, len), w1) = recv_message env timeout w
      in if success
         then let cdr = lib env w1;
                  (_, _, ub, m) = uxr_read_session_header cdr (l_session_header (locals env))
                    (uxrSession.info fake_session) (fst (l_session_header (locals env)), l_seq_num (locals env))
                    (ucdr_init_buffer cdr input_buffer (cast_u32 len), memory w1);
                  (status, _, w2) = uxr_acknack_pong env ub (set_memory m w1)
              in (NO_PONG_STATUS \<noteq> status, w2)
         else (False, w1))"

section \<open>Pinging\<close>

primrec ping_session_attempts :: "'e env \<Rightarrow> u8 list \<Rightarrow> int \<Rightarrow> nat \<Rightarrow> 'e world \<Rightarrow> (bool \<times> 'e world) option" where
  "ping_session_attempts env message timeout_ms 0 w = Some (False, w)"
| "ping_session_attempts env message timeout_ms (Suc n) w =
     (let (sent, w1) = send_message env message w
      in do {
        (pong, w2) \<leftarrow> uxr_run_session_until_pong env timeout_ms w1;
        if sent \<and> pong then Some (True, w2) else ping_session_attempts env message timeout_ms n w2
      })"

definition uxr_ping_agent_session :: "'e env \<Rightarrow> int \<Rightarrow> u8 \<Rightarrow> 'e world \<Rightarrow> (bool \<times> 'e world) option" where
  "uxr_ping_agent_session env timeout_ms attempts w =
     do {
       (ok, message) \<leftarrow> output_buffer env (id' (sess_info w)) w;
       if ok then ping_session_attempts env message timeout_ms (unat attempts) w else Some (False, w)
     }"

partial_function (option) await_pong :: "'e env \<Rightarrow> int \<Rightarrow> int \<Rightarrow> int \<Rightarrow> 'e world \<Rightarrow> (bool \<times> 'e world) option" where
  "await_pong env timeout_ms poll timestamp w =
     (let (agent_pong, w1) = listen_info_message env timeout_ms w;
          (now, w2) = uxr_millis env w1;
          (timestamp1, w3) = uxr_millis env w2;
          poll1 = poll - cast_int32 (now - timestamp)
      in if 0 < poll1 \<and> \<not> agent_pong then await_pong env timeout_ms poll1 timestamp1 w3
         else Some (agent_pong, w3))"

primrec ping_attempts :: "'e env \<Rightarrow> u8 list \<Rightarrow> int \<Rightarrow> nat \<Rightarrow> 'e world \<Rightarrow> (bool \<times> 'e world) option" where
  "ping_attempts env message timeout_ms 0 w = Some (False, w)"
| "ping_attempts env message timeout_ms (Suc n) w =
     (let (timestamp, w1) = uxr_millis env (snd (send_message env message w))
      in do {
        (pong, w2) \<leftarrow> await_pong env timeout_ms timeout_ms timestamp w1;
        if pong then Some (True, w2) else ping_attempts env message timeout_ms n w2
      })"

definition uxr_ping_agent_attempts :: "'e env \<Rightarrow> int \<Rightarrow> u8 \<Rightarrow> 'e world \<Rightarrow> (bool \<times> 'e world) option" where
  "uxr_ping_agent_attempts env timeout_ms attempts w =
     do {
       (ok, message) \<leftarrow> output_buffer env SESSION_ID_WITHOUT_CLIENT_KEY w;
       if ok then ping_attempts env message timeout_ms (unat attempts) w else Some (False, w)
     }"

definition uxr_ping_agent :: "'e env \<Rightarrow> int \<Rightarrow> 'e world \<Rightarrow> (bool \<times> 'e world) option" where
  "uxr_ping_agent env timeout_ms w = uxr_ping_agent_attempts env timeout_ms 1 w"

end
