(* ===== verification/PingFacts.thy ===== *)
theory PingFacts
  imports Ping
begin

text \<open>What is proved about pinging.\<close>

lemma des_bool [ucdr_simps]:
  "ucdr_ok cdr \<Longrightarrow> \<not> error ub \<Longrightarrow> iterator ub + 1 \<le> final ub \<Longrightarrow>
    ucdr_deserialize_bool cdr out (ub, m) = (True, m (iterator ub) \<noteq> 0, adv 1 ub, m)"
  using des_lawD [of 1 1 dec_bool "ucdr_deserialize_bool cdr" ub out m]
  by (simp add: ucdr_ok_def des_laws_def dec_bool_def)

lemma des_i16 [ucdr_simps]:
  "ucdr_ok cdr \<Longrightarrow> \<not> error ub \<Longrightarrow> iterator ub + pad (offset ub) 2 + 2 \<le> final ub \<Longrightarrow>
    ucdr_deserialize_int16_t cdr out (ub, m) =
      (True, dec_w (endianness ub) (rd m (iterator ub + pad (offset ub) 2) 2), adv (pad (offset ub) 2 + 2) ub, m)"
  using des_lawD [of 2 2 dec_w "ucdr_deserialize_int16_t cdr" ub out m]
  by (simp add: ucdr_ok_def des_laws_def)

lemma ser_u32 [ucdr_simps]:
  "ucdr_ok cdr \<Longrightarrow> \<not> error ub \<Longrightarrow> iterator ub + pad (offset ub) 4 + 4 \<le> final ub \<Longrightarrow>
    ucdr_serialize_uint32_t cdr v (ub, m) =
      (True, adv (pad (offset ub) 4 + 4) ub, wr m (iterator ub + pad (offset ub) 4) (enc_w 4 (endianness ub) v))"
  using ser_lawD [of "\<lambda>_. True" 4 "\<lambda>_. 4" "enc_w 4" "ucdr_serialize_uint32_t cdr" v ub m]
  by (simp add: ucdr_ok_def ser_laws_def)

section \<open>The request\<close>

definition ping_bytes :: "endianness \<Rightarrow> u8 \<Rightarrow> u8 list" where
  "ping_bytes e sid = message_header_bytes sid 0 0 [] @
     header_bytes SUBMESSAGE_ID_GET_INFO (endianness_flag e) GET_INFO_MSG_SIZE @
     [0x00, GET_INFO_REQUEST_PING_ID] @ [0xFF, 0xFD] @ enc_w 4 e INFO_ACTIVITY"

text \<open>Any message that asks the agent for information, in a buffer with room for it.\<close>

definition get_info_bytes :: "endianness \<Rightarrow> u8 \<Rightarrow> u8 \<Rightarrow> u32 \<Rightarrow> u8 list" where
  "get_info_bytes e sid request imask = message_header_bytes sid 0 0 [] @
     header_bytes SUBMESSAGE_ID_GET_INFO (endianness_flag e) GET_INFO_MSG_SIZE @ [0x00, request] @ [0xFF, 0xFD] @ enc_w 4 e imask"

lemma get_info_message:
  assumes cdr: "ucdr_ok cdr" and s: "0x80 \<le> sid" and n: "16 \<le> n"
  shows "\<exists>st2 ub m'. uxr_buffer_submessage_header cdr SUBMESSAGE_ID_GET_INFO GET_INFO_MSG_SIZE 0
      (uxr_serialize_message_header cdr sid 0 0 [] (ucdr_init_buffer cdr 0 n, m)) = (True, st2) \<and>
    uxr_serialize_GET_INFO_Payload cdr \<lparr>GET_INFO_Payload.base = \<lparr>BaseObjectRequest.request_id = \<lparr>RequestId.data = [0x00, r]\<rparr>,
      object_id = DDS_XRCE_OBJECTID_AGENT\<rparr>, info_mask = imask\<rparr> st2 = (True, ub, m') \<and>
    ucdr_buffer_length cdr ub = 16 \<and> rd m' 0 16 = get_info_bytes (UCDR_MACHINE_ENDIANNESS cdr) sid r imask"
proof -
  let ?ub = "ucdr_init_buffer cdr 0 n" and ?e = "UCDR_MACHINE_ENDIANNESS cdr"
  let ?h1 = "message_header_bytes sid 0 0 []" and ?h2 = "header_bytes SUBMESSAGE_ID_GET_INFO (endianness_flag ?e) GET_INFO_MSG_SIZE"
  have sid: "\<not> SESSION_ID_WITHOUT_CLIENT_KEY > sid"
    using s by (simp add: SESSION_ID_WITHOUT_CLIENT_KEY_def not_less)
  have ub: "\<not> error ?ub" "offset ?ub = 0" "iterator ?ub = 0" "16 \<le> final ?ub" "init ?ub = 0"
    using cdr n by (simp_all add: ucdr_simps)
  have 1: "uxr_serialize_message_header cdr sid 0 0 [] (?ub, m) = (adv 4 ?ub, wr m 0 ?h1)" and h1: "length ?h1 = 4"
  proof -
    have "uxr_serialize_message_header cdr sid 0 0 [] (?ub, m) = uxr_serialize_message_header cdr sid 0 0 [0, 0, 0, 0] (?ub, m)"
      "?h1 = message_header_bytes sid 0 0 [0, 0, 0, 0]"
      using sid by (simp_all add: uxr_serialize_message_header_def message_header_bytes_def Let_def SESSION_ID_WITHOUT_CLIENT_KEY_def)
    moreover show "length ?h1 = 4"
      using sid by (simp add: message_header_bytes_def SESSION_ID_WITHOUT_CLIENT_KEY_def)
    ultimately show "uxr_serialize_message_header cdr sid 0 0 [] (?ub, m) = (adv 4 ?ub, wr m 0 ?h1)"
      using serialize_message_header [OF cdr ub(1), of "[0, 0, 0, 0]" sid 0 0 m] ub by simp
  qed
  let ?ub2 = "(adv 8 ?ub)\<lparr>endianness := ?e\<rparr>"
  have 2: "uxr_buffer_submessage_header cdr SUBMESSAGE_ID_GET_INFO GET_INFO_MSG_SIZE 0 (adv 4 ?ub, m) = (True, ?ub2, wr m 4 ?h2)" for m
    using buffer_submessage_header [OF cdr, of "adv 4 ?ub" SUBMESSAGE_ID_GET_INFO GET_INFO_MSG_SIZE 0 m] ub
    by (simp add: pad_def GET_INFO_MSG_SIZE_def)
  have 3: "uxr_serialize_GET_INFO_Payload cdr \<lparr>GET_INFO_Payload.base = \<lparr>BaseObjectRequest.request_id = \<lparr>RequestId.data = [0x00, r]\<rparr>,
        object_id = DDS_XRCE_OBJECTID_AGENT\<rparr>, info_mask = imask\<rparr> (?ub2, m) =
      (True, adv 8 ?ub2, wr m 8 ([0x00, r] @ [0xFF, 0xFD] @ enc_w 4 ?e imask))" for m
    unfolding wr_append using cdr ub
    by (simp add: uxr_serialize_GET_INFO_Payload_def uxr_serialize_BaseObjectRequest_def uxr_serialize_RequestId_def
        uxr_serialize_ObjectId_def ser_array ser_u32 DDS_XRCE_OBJECTID_AGENT_def pad_def Let_def)
  have "rd (wr (wr (wr m 0 ?h1) 4 ?h2) 8 x) 0 16 = ?h1 @ ?h2 @ x" if "length x = 8" for m x
    using rd_wr_same [of 16 "?h1 @ ?h2 @ x" m 0] that h1 by (simp add: wr_append)
  moreover have "ucdr_buffer_length cdr (adv 8 ?ub2) = 16"
    using cdr ub by (simp add: buffer_length)
  ultimately show ?thesis
    by (simp add: 1 2 3 get_info_bytes_def)
qed

lemma output_buffer_bytes:
  assumes "env_ok env" and "0x80 \<le> sid"
  shows "output_buffer env sid w = Some (True, ping_bytes (UCDR_MACHINE_ENDIANNESS (lib env w)) sid)"
  using get_info_message [OF lib_ok [OF assms(1)] assms(2), of UXR_PING_BUF w "l_stack (locals env)" GET_INFO_REQUEST_PING_ID INFO_ACTIVITY]
    assms(2)
  by (auto simp: output_buffer_def serialize_get_info_message_def ping_bytes_def get_info_bytes_def UXR_PING_BUF_def
      SESSION_ID_WITHOUT_CLIENT_KEY_def not_less Let_def)


section \<open>No answer\<close>

text \<open>
  A transport that takes what is sent, delivers nothing and takes the time it is given, and a clock that
  does not go back; no call takes more than three days longer. \<open>log\<close> is what was sent.
\<close>

definition unanswered :: "'e env \<Rightarrow> ('e \<Rightarrow> u8 list list) \<Rightarrow> ('e \<Rightarrow> int) \<Rightarrow> bool" where
  "unanswered env log clock \<longleftrightarrow> (\<forall>e m bytes poll. 0 \<le> clock e \<and>
     (case send_msg (comm env) bytes e of (_, e') \<Rightarrow> log e' = log e @ [bytes] \<and> clock e \<le> clock e') \<and>
     (case recv_msg (comm env) poll (e, m) of (got, _, e', _) \<Rightarrow> \<not> got \<and> log e' = log e \<and>
        clock e + max 0 poll * 1000000 \<le> clock e' \<and> clock e' \<le> clock e + (max 0 poll + 2 ^ 28) * 1000000) \<and>
     (case clock_nanos env e of (t, e') \<Rightarrow> t = clock e \<and> log e' = log e \<and>
        clock e \<le> clock e' \<and> clock e' \<le> clock e + 2 ^ 28 * 1000000))"

lemma unansweredD:
  assumes "unanswered env log clock"
  shows "send_msg (comm env) bytes e = (sent, e') \<Longrightarrow> log e' = log e @ [bytes] \<and> clock e \<le> clock e'"
    and "recv_msg (comm env) poll (e, m) = (got, d, e', m') \<Longrightarrow> \<not> got \<and> log e' = log e \<and>
      clock e + max 0 poll * 1000000 \<le> clock e' \<and> clock e' \<le> clock e + (max 0 poll + 2 ^ 28) * 1000000"
    and "clock_nanos env e = (t, e') \<Longrightarrow> t = clock e \<and> log e' = log e \<and> 0 \<le> clock e \<and> clock e \<le> clock e' \<and>
      clock e' \<le> clock e + 2 ^ 28 * 1000000"
  using assms [unfolded unanswered_def, rule_format, of e bytes poll m] by (auto split: prod.splits)

lemma sdiv_nonneg: "0 \<le> (t :: int) \<Longrightarrow> t sdiv 1000000 = t div 1000000"
  by (cases "t = 0") (simp_all add: signed_divide_int_def)

lemma unanswered_millis:
  assumes "unanswered env log clock" and "uxr_millis env w = (t, w')"
  shows "t = clock (ext w) div 1000000" "log (ext w') = log (ext w)" "clock (ext w) \<le> clock (ext w')"
    "clock (ext w') \<le> clock (ext w) + 2 ^ 28 * 1000000" "sess w' = sess w"
proof -
  obtain t0 e' where c: "clock_nanos env (ext w) = (t0, e')"
    by force
  then have "t0 = clock (ext w)" "log e' = log (ext w)" "clock (ext w) \<le> clock e'" "clock e' \<le> clock (ext w) + 2 ^ 28 * 1000000"
    "0 \<le> clock (ext w)"
    using unansweredD(3) [OF assms(1)] by blast+
  moreover have "t = t0 sdiv 1000000" "w' = w\<lparr>ext := e'\<rparr>"
    using assms(2) c by (simp_all add: uxr_millis_def uxr_nanos_def)
  ultimately show "t = clock (ext w) div 1000000" "log (ext w') = log (ext w)" "clock (ext w) \<le> clock (ext w')"
    "clock (ext w') \<le> clock (ext w) + 2 ^ 28 * 1000000" "sess w' = sess w"
    by (simp_all add: sdiv_nonneg)
qed

lemma unanswered_listen:
  assumes "unanswered env log clock" and "listen_info_message env poll w = (pong, w')"
  shows "\<not> pong" "log (ext w') = log (ext w)" "clock (ext w) + max 0 poll * 1000000 \<le> clock (ext w')"
    "clock (ext w') \<le> clock (ext w) + (max 0 poll + 2 ^ 28) * 1000000" "sess w' = sess w"
proof -
  obtain got a n e' m' where r: "recv_msg (comm env) poll (ext w, memory w) = (got, (a, n), e', m')"
    by (metis prod_cases5 surj_pair)
  then have e: "\<not> got" "log e' = log (ext w)" "clock (ext w) + max 0 poll * 1000000 \<le> clock e'"
    "clock e' \<le> clock (ext w) + (max 0 poll + 2 ^ 28) * 1000000"
    using unansweredD(2) [OF assms(1)] by blast+
  then have "pong = False" "w' = w\<lparr>ext := e', memory := m'\<rparr>"
    using assms(2) r by (simp_all add: listen_info_message_def recv_message_def)
  then show "\<not> pong" "log (ext w') = log (ext w)" "clock (ext w) + max 0 poll * 1000000 \<le> clock (ext w')"
    "clock (ext w') \<le> clock (ext w) + (max 0 poll + 2 ^ 28) * 1000000" "sess w' = sess w"
    using e by simp_all
qed

text \<open>One attempt listens once: the time is over then.\<close>

lemma unanswered_attempt:
  assumes u: "unanswered env log clock" and t: "timeout \<le> 2 ^ 28" and w: "uxr_millis env w0 = (timestamp, w)"
  shows "\<exists>w'. await_pong env timeout timeout timestamp w = Some (False, w') \<and> log (ext w') = log (ext w0) \<and>
    clock (ext w0) + max 0 timeout * 1000000 \<le> clock (ext w') \<and> sess w' = sess w0"
proof -
  obtain pong w1 where 1: "listen_info_message env timeout w = (pong, w1)"
    by force
  obtain now w2 where 2: "uxr_millis env w1 = (now, w2)"
    by force
  obtain timestamp1 w3 where 3: "uxr_millis env w2 = (timestamp1, w3)"
    by force
  note A = unanswered_millis [OF u w] unanswered_listen [OF u 1] unanswered_millis [OF u 2] unanswered_millis [OF u 3]
  have c: "clock (ext w0) + max 0 timeout * 1000000 \<le> clock (ext w1)"
    "clock (ext w1) \<le> clock (ext w0) + (max 0 timeout + 2 * 2 ^ 28) * 1000000"
    using A(3,4,8,9) by (simp_all add: distrib_right)
  have "max 0 timeout + clock (ext w0) div 1000000 \<le> clock (ext w1) div 1000000"
    "clock (ext w1) div 1000000 \<le> max 0 timeout + 2 * 2 ^ 28 + clock (ext w0) div 1000000"
    using zdiv_mono1 [OF c(1), of 1000000] zdiv_mono1 [OF c(2), of 1000000] by simp_all
  then have low: "max 0 timeout \<le> now - timestamp" and high: "now - timestamp \<le> max 0 timeout + 2 * 2 ^ 28"
    using A(1,11) by linarith+
  have "cast_int32 (now - timestamp) = now - timestamp"
    using low high t by (intro cast_int32_eq) auto
  then have "await_pong env timeout timeout timestamp w = Some (False, w3)"
    using low A by (subst await_pong.simps) (simp add: 1 2 3)
  moreover have "clock (ext w1) \<le> clock (ext w3)"
    using A(13,18) by linarith
  ultimately show ?thesis
    using A c(1) by simp
qed

lemma unanswered_attempts:
  assumes u: "unanswered env log clock" and t: "timeout \<le> 2 ^ 28"
  shows "\<exists>w'. ping_attempts env message timeout n w = Some (False, w') \<and>
    log (ext w') = log (ext w) @ replicate n message \<and>
    clock (ext w) + int n * (max 0 timeout * 1000000) \<le> clock (ext w') \<and> sess w' = sess w"
proof (induction n arbitrary: w)
  case (Suc n)
  obtain sent w0 where 0: "send_message env message w = (sent, w0)"
    by force
  have l0: "log (ext w0) = log (ext w) @ [message]" "clock (ext w) \<le> clock (ext w0)" "sess w0 = sess w"
    using 0 unansweredD(1) [OF u] by (auto simp: send_message_def split: prod.splits)
  obtain timestamp w1 where 1: "uxr_millis env w0 = (timestamp, w1)"
    by force
  obtain w2 where 2: "await_pong env timeout timeout timestamp w1 = Some (False, w2)" "log (ext w2) = log (ext w0)"
      "clock (ext w0) + max 0 timeout * 1000000 \<le> clock (ext w2)" "sess w2 = sess w0"
    using unanswered_attempt [OF u t 1] by blast
  obtain w3 where 3: "ping_attempts env message timeout n w2 = Some (False, w3)"
      "log (ext w3) = log (ext w2) @ replicate n message"
      "clock (ext w2) + int n * (max 0 timeout * 1000000) \<le> clock (ext w3)" "sess w3 = sess w2"
    using Suc.IH [of w2] by blast
  have "clock (ext w) + int (Suc n) * (max 0 timeout * 1000000) \<le> clock (ext w3)"
    using l0(2) 2(3) 3(3) by (simp add: distrib_right)
  then show ?case
    using 3 by (simp add: 0 1 2 l0)
qed simp

text \<open>C33. Pinging an agent that does not answer ends: it sends the same sixteen bytes once for each attempt,
  reports failure and leaves the session alone; and as only listening is sure to take time, it has listened:
  by then at least the time given has passed as often as there are attempts.\<close>
theorem ping_unanswered:
  assumes "env_ok env" and "unanswered env log clock" and "timeout \<le> 2 ^ 28"
  shows "\<exists>w'. uxr_ping_agent_attempts env timeout attempts w = Some (False, w') \<and>
    log (ext w') = log (ext w) @ replicate (unat attempts) (ping_bytes (UCDR_MACHINE_ENDIANNESS (lib env w)) 0x80) \<and>
    clock (ext w) + int (unat attempts) * (max 0 timeout * 1000000) \<le> clock (ext w') \<and> sess w' = sess w"
  using unanswered_attempts [OF assms(2,3), where n = "unat attempts"]
  by (simp add: uxr_ping_agent_attempts_def output_buffer_bytes [OF assms(1)] SESSION_ID_WITHOUT_CLIENT_KEY_def)


section \<open>An answer\<close>

text \<open>
  The layout of a reply without configuration: whom it answers, a status, no configuration, whether there is
  an activity, what kind of object it is of, an octet of padding, and the availability.
\<close>

definition info_bytes :: "endianness \<Rightarrow> u8 list \<Rightarrow> u8 \<Rightarrow> u8 \<Rightarrow> u8 \<Rightarrow> u8 \<Rightarrow> u8 \<Rightarrow> u16 \<Rightarrow> u8 list" where
  "info_bytes e req status' impl act kind' x v = req @ [status', impl, 0, act, kind', x] @ enc_w 2 e v"

lemma length_info_bytes: "length (info_bytes e req status' impl act kind' x v) = length req + 8"
  by (simp add: info_bytes_def)

lemma read_info:
  assumes env: "env_ok env" and ub: "\<not> error ub" "iterator ub + 12 \<le> final ub" "offset ub mod 4 = 0"
    and req: "length req = 4" and bytes: "rd (memory w) (iterator ub) 12 = info_bytes (endianness ub) req status' impl act kind' x v"
  shows "snd (read_submessage_info env ub w) = (if act \<noteq> 0 \<and> kind' = DDS_XRCE_OBJK_AGENT
    then w\<lparr>sess := (sess w)\<lparr>on_pong_flag :=
      (if 0 < sint v then if impl \<noteq> 0 then PONG_IN_SESSION_STATUS else PONG_NO_SESSION_STATUS else NO_PONG_STATUS)\<rparr>\<rparr>
    else w)"
proof -
  have m: "memory w (iterator ub + i) = info_bytes (endianness ub) req status' impl act kind' x v ! i" if "i < 12" for i
    using arg_cong [OF bytes, of "\<lambda>bs. bs ! i"] that by simp
  have v: "rd (memory w) (10 + iterator ub) 2 = enc_w 2 (endianness ub) v"
    using rd_append [of "memory w" "iterator ub" 10 2] arg_cong [OF bytes, of "drop 10"] req by (simp add: info_bytes_def add.commute)
  have "pad (offset ub + 9) 2 = 1"
    using ub(3) by (simp add: pad_def) presburger
  then show ?thesis
    using lib_ok [OF env] ub m [of 5] m [of 6] m [of 7] m [of 8] v req
    by (simp add: read_submessage_info_def run_des_def uxr_deserialize_BaseObjectReply_def uxr_deserialize_BaseObjectRequest_def
      uxr_deserialize_RequestId_def uxr_deserialize_ObjectId_def uxr_deserialize_ResultStatus_def des_field_def Let_def
      des_bool des_i16 des_u8 des_array info_bytes_def nth_append)
qed


text \<open>C34. A message whose first submessage has the layout of a reply without configuration, in the byte
  order of the client, counts as an answer to a ping exactly when it is an \<open>INFO\<close> submessage that is all
  there, has an activity, the activity is an agent's, and the availability is positive: for any session,
  any stream, any key, whatever request it answers and whatever follows it.\<close>
theorem pong_recognised:
  assumes "env_ok env" and "recv_message env timeout w = (True, (a, n), w1)" and "length k = 4" and "length req = 4"
    and "n < 2 ^ 32"
    and "rd (memory w1) a n = message_header_bytes s r q k @ header_bytes i flags len @
      info_bytes (UCDR_MACHINE_ENDIANNESS (lib env w1)) req status' impl act kind' x v @ rest"
  shows "listen_info_message env timeout w =
    (i = SUBMESSAGE_ID_INFO \<and> unat len \<le> 12 + length rest \<and> act \<noteq> 0 \<and> kind' = DDS_XRCE_OBJK_AGENT \<and> 0 < sint v, w1)"
proof -
  let ?cdr = "lib env w1" and ?h = "message_header_bytes s r q k" and ?sh = "header_bytes i flags len"
  note cdr = lib_ok [OF assms(1), of w1]
  let ?ub = "ucdr_init_buffer ?cdr a (cast_u32 n)" and ?body = "info_bytes (UCDR_MACHINE_ENDIANNESS ?cdr) req status' impl act kind' x v"
  let ?l = "length ?h" and ?m = "memory w1"
  have n: "n = ?l + 16 + length rest" "?l \<in> {4, 8}"
    using arg_cong [OF assms(6), of length] assms(3,4) by (simp_all add: length_info_bytes length_message_header_bytes)
  have ub: "\<not> error ?ub" "offset ?ub = 0" "iterator ?ub = a" "final ?ub = a + ?l + 16 + length rest"
    "endianness ?ub = UCDR_MACHINE_ENDIANNESS ?cdr"
    using cdr assms(5) n(1) by (simp_all add: ucdr_simps cast_u32_eq)
  have "rd ?m a n = rd ?m a ?l @ rd ?m (a + ?l) 4 @ rd ?m (a + ?l + 4) 12 @ rd ?m (a + ?l + 16) (length rest)"
    using rd_append [of ?m a ?l "16 + length rest"] rd_append [of ?m "a + ?l" 4 "12 + length rest"]
      rd_append [of ?m "a + ?l + 4" 12 "length rest"] by (simp add: n(1) add.assoc)
  with assms(6) have parts: "rd ?m a ?l = ?h" "rd ?m (a + ?l) 4 = ?sh" "rd ?m (a + ?l + 4) 12 = ?body"
    using assms(4) by (simp_all add: append_eq_append_conv length_info_bytes)
  let ?ub1 = "adv ?l ?ub" and ?ub2 = "adv (?l + 4) ?ub"
  have h: "uxr_read_session_header ?cdr loc (uxrSession.info fake_session) out (?ub, ?m) =
      (s = 0 \<and> (s < 0x80 \<longrightarrow> k = key (uxrSession.info fake_session)), (r, q), (?ub1, ?m))" for loc out
    using read_session_header [OF cdr ub(1), of "uxrSession.info fake_session" k ?m s r q loc out] ub assms(3) n(2) parts(1)
    by (auto simp: fake_session_def)
  have sh: "uxr_deserialize_submessage_header ?cdr out (?ub1, ?m) = ((i, flags, len), (?ub2, ?m))" for out
    using deserialize_submessage_header [OF cdr, of ?ub1 ?m i flags len out] ub parts(2) n(2) by auto
  let ?w = "w1\<lparr>sess := fake_session\<lparr>on_pong_flag := NO_PONG_STATUS\<rparr>\<rparr>"
  obtain ub3 w3 where r3: "read_submessage_info env ?ub2 ?w = (ub3, w3)"
    by force
  have "rd (memory ?w) (iterator ?ub2) 12 = info_bytes (endianness ?ub2) req status' impl act kind' x v"
    "\<not> error ?ub2" "iterator ?ub2 + 12 \<le> final ?ub2" "offset ?ub2 mod 4 = 0"
    using parts(3) ub n(2) by (auto simp: add.commute)
  from read_info [OF assms(1) this(2-4) assms(4) this(1)]
  have r: "w3 = (if act \<noteq> 0 \<and> kind' = DDS_XRCE_OBJK_AGENT then w1\<lparr>sess := fake_session\<lparr>on_pong_flag :=
      (if 0 < sint v then if impl \<noteq> 0 then PONG_IN_SESSION_STATUS else PONG_NO_SESSION_STATUS else NO_PONG_STATUS)\<rparr>\<rparr> else ?w)"
    by (simp add: r3)
  have flag: "on_pong_flag fake_session = NO_PONG_STATUS"
    by (simp add: fake_session_def NO_PONG_STATUS_def)
  have "uxr_acknack_pong env ?ub1 w1 = (if i = SUBMESSAGE_ID_INFO \<and> unat len \<le> 12 + length rest
      then (on_pong_flag (sess w3), ub3, w1) else (NO_PONG_STATUS, ?ub2, w1))"
    using cdr ub r r3 sh by (simp add: uxr_acknack_pong_def buffer_remaining SUBHEADER_SIZE_def flag Let_def)
  moreover have "(NO_PONG_STATUS \<noteq> on_pong_flag (sess w3)) = (act \<noteq> 0 \<and> kind' = DDS_XRCE_OBJK_AGENT \<and> 0 < sint v)"
    by (simp add: r NO_PONG_STATUS_def PONG_IN_SESSION_STATUS_def PONG_NO_SESSION_STATUS_def)
  ultimately show ?thesis
    using assms(2) h by (auto simp: listen_info_message_def Let_def)
qed


section \<open>Examples\<close>

text \<open>A line on which nothing comes, with a clock; what was sent is kept.\<close>

definition quiet_env :: "locals \<Rightarrow> (u8 list list \<times> nat) env" where
  "quiet_env l = \<lparr>comm = \<lparr>send_msg = (\<lambda>bytes e. (True, fst e @ [bytes], snd e)),
       recv_msg = (\<lambda>poll (e, m). (False, (0, 0), (fst e, snd e + nat poll * 1000000), m)), comm_mtu = 64\<rparr>,
     ucdr_lib = (\<lambda>_. ref_ucdr), clock_nanos = (\<lambda>e. (int (snd e), e)), locals = l, heartbeat_interval = 200000000,
     connection_attempts = 10, connection_interval = 1000,
     call_on_status = (\<lambda>_ _ _ _ _ w. w), call_on_topic = (\<lambda>_ _ _ _ _ _ _ w. w),
     call_on_time = (\<lambda>_ _ _ _ _ _ w. w), call_on_request = (\<lambda>_ _ _ _ _ _ _ w. w),
     call_on_reply = (\<lambda>_ _ _ _ _ _ _ w. w), call_flush = (\<lambda>_ _ w. (True, w))\<rparr>"

lemma quiet_env: "env_ok (quiet_env l)" "unanswered (quiet_env l) fst (\<lambda>e. int (snd e))"
  by (auto simp: env_ok_def unanswered_def quiet_env_def ucdr_ok_ref_ucdr)

theorem ping_unanswered_witness:
  "\<forall>l. \<exists>w'. uxr_ping_agent_attempts (quiet_env l) 1000 3 \<lparr>sess = example_session, memory = (\<lambda>_. 0), ext = ([], 5)\<rparr> =
      Some (False, w') \<and> fst (ext w') = replicate 3 (ping_bytes LITTLE_ENDIANNESS 0x80)"
proof
  fix l
  have "lib (quiet_env l) w = ref_ucdr" for w
    by (simp add: lib_def quiet_env_def)
  then show "\<exists>w'. uxr_ping_agent_attempts (quiet_env l) 1000 3 \<lparr>sess = example_session, memory = (\<lambda>_. 0), ext = ([], 5)\<rparr> =
      Some (False, w') \<and> fst (ext w') = replicate 3 (ping_bytes LITTLE_ENDIANNESS 0x80)"
    using ping_unanswered [OF quiet_env, of 1000 l 3 "\<lparr>sess = example_session, memory = (\<lambda>_. 0), ext = ([], 5)\<rparr>"]
    by (auto simp: ref_ucdr_def)
qed

definition example_pong :: "u8 list" where
  "example_pong = message_header_bytes 0x80 0 0 [0, 0, 0, 0] @ header_bytes SUBMESSAGE_ID_INFO 1 12 @
     info_bytes LITTLE_ENDIANNESS [0, 10, 0xFF, 0xFD] 0 0 1 DDS_XRCE_OBJK_AGENT 0 1"

theorem pong_recognised_witness:
  "\<forall>l. fst (listen_info_message (example_env l example_pong) 10 (example_world (\<lambda>_. 0)))"
proof
  fix l
  let ?w1 = "set_memory (wr (\<lambda>_. 0) 3000 example_pong) (example_world (\<lambda>_. 0))"
  have "length example_pong = 20"
    by (simp add: example_pong_def length_message_header_bytes length_info_bytes)
  then have "recv_message (example_env l example_pong) 10 (example_world (\<lambda>_. 0)) = (True, (3000, 20), ?w1)"
    "rd (memory ?w1) 3000 20 = example_pong"
    by (simp_all add: recv_message_def example_env_def set_memory_def rd_wr_same example_world_def)
  moreover from this have "rd (memory ?w1) 3000 20 = message_header_bytes 0x80 0 0 [0, 0, 0, 0] @
      header_bytes SUBMESSAGE_ID_INFO 1 12 @ info_bytes (UCDR_MACHINE_ENDIANNESS (lib (example_env l example_pong) ?w1))
        [0, 10, 0xFF, 0xFD] 0 0 1 DDS_XRCE_OBJK_AGENT 0 1 @ []"
    by (simp add: example_pong_def example_env_parts)
  ultimately have "fst (listen_info_message (example_env l example_pong) 10 (example_world (\<lambda>_. 0)))"
    using pong_recognised [OF example_env_ok [of l example_pong], where req = "[0, 10, 0xFF, 0xFD]" and k = "[0, 0, 0, 0]" and rest = "[]"]
    by simp
  then show "fst (listen_info_message (example_env l example_pong) 10 (example_world (\<lambda>_. 0)))" .
qed

end
