(* ===== verification/Matching.thy ===== *)
theory Matching
  imports SessionRun
begin

text \<open>
  Matching of entities, \<open>src/c/profile/matching/matching.c\<close>: the hash of what identifies an entity and the
  search in XML for it.

  A string is the list of its characters without the zero that ends it; pointers into it are positions.
  Looking beyond the zero, a copy that does not fit and the use of a length that was never written have
  no result. The hash is the host's representation of a \<open>uint32_t\<close>.
\<close>

definition ascii :: "string \<Rightarrow> u8 list" where
  "ascii s = map of_char s"

section \<open>The hash\<close>

definition UXR_MATCHING_HASH_SIZE :: nat where "UXR_MATCHING_HASH_SIZE = 4"

text \<open>The loop takes the zero in, too.\<close>

fun hash_chars :: "u8 list \<Rightarrow> u32 \<Rightarrow> u32" where
  "hash_chars [] int_hash = push_bit 5 int_hash + int_hash + 0"
| "hash_chars (c # str) int_hash =
     (let int_hash1 = push_bit 5 int_hash + int_hash + ucast c
      in if c \<noteq> 0 then hash_chars str int_hash1 else int_hash1)"

definition hash_string :: "u8 list \<Rightarrow> u8 list \<Rightarrow> bool \<Rightarrow> u8 list" where
  "hash_string str hash initial =
     enc_w UXR_MATCHING_HASH_SIZE LITTLE_ENDIANNESS
       (hash_chars str (if initial then dec_w LITTLE_ENDIANNESS (take UXR_MATCHING_HASH_SIZE hash) else 5381))"

definition uxr_generate_hash_from_ref :: "u8 list \<Rightarrow> u8 list \<Rightarrow> bool \<times> u8 list" where
  "uxr_generate_hash_from_ref ref hash = (True, hash_string ref hash False)"

text \<open>There is at least one string.\<close>

definition uxr_generate_hash_from_strings :: "u8 list \<Rightarrow> u8 list list \<Rightarrow> bool \<times> u8 list" where
  "uxr_generate_hash_from_strings hash strs =
     (True, fold (\<lambda>s hash. hash_string s hash True) (tl strs) (hash_string (hd strs) hash False))"

section \<open>Searching XML\<close>

definition occurs_at :: "u8 list \<Rightarrow> nat \<Rightarrow> u8 list \<Rightarrow> bool" where
  "occurs_at xml i s = (take (length s) (drop i xml) = s)"

text \<open>The distance to the first \<open>c\<close> from position \<open>i\<close> on.\<close>

fun distance_to :: "u8 \<Rightarrow> u8 list \<Rightarrow> nat option" where
  "distance_to c [] = None"
| "distance_to c (x # xs) = (if x = c then Some 0 else map_option Suc (distance_to c xs))"

text \<open>
  The part of \<open>xml\<close> from \<open>start\<close> on is searched; \<open>content\<close> and \<open>content_len\<close> are written when a tag begins
  and when it ends, and a length that is not written is \<open>None\<close>.
\<close>

function find_tag_loop ::
  "u8 list \<Rightarrow> nat \<Rightarrow> nat \<Rightarrow> u8 list \<Rightarrow> nat \<Rightarrow> bool \<Rightarrow> nat \<Rightarrow> (bool \<times> nat \<times> size_t option) option"
where
  "find_tag_loop xml start len tag i found_begin content =
     (if i < len
      then if length xml < start + i then None
           else if \<not> found_begin \<and> occurs_at xml (start + i) tag \<and> xml ! (start + i - 1) = of_char CHR ''<''
           then do {
             tag_opener_len \<leftarrow> distance_to (of_char CHR ''>'') (drop (start + i) xml);
             find_tag_loop xml start len tag (i + 1) True (start + i + tag_opener_len + 1)
           }
           else if found_begin \<and> occurs_at xml (start + i) tag \<and> xml ! (start + i - 1) = of_char CHR ''/''
           then Some (True, content, Some (size_sub (start + i - 2) content))
           else find_tag_loop xml start len tag (i + 1) found_begin content
      else Some (False, content, None))"
  by pat_completeness auto

termination
  by (relation "measure (\<lambda>(_, _, len, _, i, _). len - i)") auto

declare find_tag_loop.simps [simp del]

definition find_tag_xml :: "u8 list \<Rightarrow> nat \<Rightarrow> nat \<Rightarrow> u8 list \<Rightarrow> nat \<Rightarrow> (bool \<times> nat \<times> size_t option) option" where
  "find_tag_xml xml start len tag content = find_tag_loop xml start len tag 1 False content"

function find_property_loop ::
  "u8 list \<Rightarrow> nat \<Rightarrow> u8 list \<Rightarrow> u8 list \<Rightarrow> nat \<Rightarrow> bool \<Rightarrow> (bool \<times> nat \<times> size_t) option"
where
  "find_property_loop xml len tag prop i found_tag =
     (if i < len
      then if \<not> found_tag \<and> occurs_at xml i tag \<and> xml ! (i - 1) = of_char CHR ''<''
           then find_property_loop xml len tag prop (i + 1) True
           else if found_tag \<and> occurs_at xml i prop
           then do {
             content_len \<leftarrow> distance_to (of_char CHR 0x22) (drop (i + length prop + 2) xml);
             Some (True, i + length prop + 2, content_len)
           }
           else find_property_loop xml len tag prop (i + 1) found_tag
      else Some (False, 0, 0))"
  by pat_completeness auto

termination
  by (relation "measure (\<lambda>(_, len, _, _, i, _). len - i)") auto

declare find_property_loop.simps [simp del]

text \<open>The whole of \<open>xml\<close> is searched. Position and length are used only if there are any.\<close>

definition find_tag_property :: "u8 list \<Rightarrow> u8 list \<Rightarrow> u8 list \<Rightarrow> (bool \<times> nat \<times> size_t) option" where
  "find_tag_property xml tag prop = find_property_loop xml (length xml) tag prop 1 False"

section \<open>Entities in XML\<close>

text \<open>The array that names and types are put together in, its end being given.\<close>

definition NAME_TYPE_BUFFER :: nat where "NAME_TYPE_BUFFER = 100"

definition append_part :: "u8 list \<Rightarrow> u8 list \<Rightarrow> nat \<Rightarrow> size_t \<Rightarrow> u8 list option" where
  "append_part name_type_buffer xml content len =
     (if length name_type_buffer + len \<le> NAME_TYPE_BUFFER \<and> content + len \<le> length xml + 1
      then Some (name_type_buffer @ take len (drop content (xml @ [0]))) else None)"

text \<open>What is inside nested tags.\<close>

fun find_nested :: "u8 list \<Rightarrow> u8 list list \<Rightarrow> nat \<Rightarrow> size_t \<Rightarrow> (nat \<times> size_t) option option" where
  "find_nested xml [] content_in content_len_in = Some (Some (content_in, content_len_in))"
| "find_nested xml (tag # tags) content_in content_len_in =
     do {
       (found, content_out, content_len_out) \<leftarrow> find_tag_xml xml content_in content_len_in tag content_in;
       if found then do { len \<leftarrow> content_len_out; find_nested xml tags content_out len } else Some None
     }"

definition topic_hash :: "u8 list \<Rightarrow> u8 list \<Rightarrow> u8 list \<Rightarrow> (bool \<times> u8 list) option" where
  "topic_hash data_reader_or_writer xml hash =
     do {
       inner \<leftarrow> find_nested xml [ascii ''dds'', data_reader_or_writer, ascii ''topic''] 0 (length xml);
       (case inner of
          None \<Rightarrow> Some (False, hash)
        | Some (content_in, content_len_in) \<Rightarrow> do {
            (found1, content1, len1) \<leftarrow> find_tag_xml xml content_in content_len_in (ascii ''name'') content_in;
            topic_name_len \<leftarrow> len1;
            name \<leftarrow> append_part [] xml content1 topic_name_len;
            (found2, content2, len2) \<leftarrow> find_tag_xml xml content_in content_len_in (ascii ''dataType'') content1;
            type_name_len \<leftarrow> len2;
            name_type \<leftarrow> append_part name xml content2 type_name_len;
            if length name_type < NAME_TYPE_BUFFER
            then Some (found1 \<and> found2, hash_string name_type hash False) else None
          })
     }"

definition service_hash :: "u8 list \<Rightarrow> u8 list \<Rightarrow> u8 list \<Rightarrow> (bool \<times> u8 list) option" where
  "service_hash tag xml hash =
     do {
       (found1, content1, len1) \<leftarrow> find_tag_property xml tag (ascii ''service_name'');
       b1 \<leftarrow> (if found1 then append_part [] xml content1 len1 else Some []);
       (found2, content2, len2) \<leftarrow> find_tag_property xml tag (ascii ''request_type'');
       b2 \<leftarrow> (if found1 \<and> found2 then append_part b1 xml content2 len2 else Some b1);
       (found3, content3, len3) \<leftarrow> find_tag_property xml tag (ascii ''reply_type'');
       b3 \<leftarrow> (if found1 \<and> found2 \<and> found3 then append_part b2 xml content3 len3 else Some b2);
       if found1 \<and> found2 \<and> found3
       then if length b3 < NAME_TYPE_BUFFER then Some (True, hash_string b3 hash False) else None
       else Some (False, hash)
     }"

definition uxr_generate_hash_from_xml :: "u8 list \<Rightarrow> uxrObjectId \<Rightarrow> u8 list \<Rightarrow> (bool \<times> u8 list) option" where
  "uxr_generate_hash_from_xml xml id1 hash =
     (if uxrObjectId.type id1 = UXR_DATAREADER_ID then topic_hash (ascii ''data_reader'') xml hash
      else if uxrObjectId.type id1 = UXR_DATAWRITER_ID then topic_hash (ascii ''data_writer'') xml hash
      else if uxrObjectId.type id1 = UXR_REQUESTER_ID then service_hash (ascii ''requester'') xml hash
      else if uxrObjectId.type id1 = UXR_REPLIER_ID then service_hash (ascii ''replier'') xml hash
      else Some (True, hash))"

definition uxr_match_endpoint_qosbinary :: "OBJK_Endpoint_QosBinary \<Rightarrow> OBJK_Endpoint_QosBinary \<Rightarrow> bool" where
  "uxr_match_endpoint_qosbinary entity_1 entity_2 =
     (OBJK_Endpoint_QosBinary.qos_flags entity_1 = OBJK_Endpoint_QosBinary.qos_flags entity_2)"

end
