(* ===== verification/SharedMemory.thy ===== *)
theory SharedMemory
  imports Matching
begin

text \<open>
  The optional profile that hands data to readers of the same process,
  \<open>src/c/profile/shared_memory/shared_memory.c\<close>.

  All of it is one static map: the entities, a matrix that says which match and holds what was written
  from one for the other, and a pool of items in linked lists. A pointer to an item, a list's head or a
  topic is the index in its array; a pointer to a session is a number, and the sessions are part of the
  world. A null pointer that is followed and the use of another member of the union have no result, nor
  has delivering that does not end because the application's functions keep writing. Locks are left out.
\<close>

section \<open>State\<close>

definition UXR_CONFIG_SHARED_MEMORY_MAX_ENTITIES :: nat where "UXR_CONFIG_SHARED_MEMORY_MAX_ENTITIES = 4"
definition UXR_CONFIG_SHARED_MEMORY_STATIC_MEM_SIZE :: nat where "UXR_CONFIG_SHARED_MEMORY_STATIC_MEM_SIZE = 10"

record uxr_shared_memory_buffer_item_t =
  item_next :: "nat option"
  item_data :: ucdrBuffer
  item_data_size :: u16
  item_request_id :: u16

datatype entity_descriptor_type_t = UXR_SHARED_MEMORY_HASH_ENTITY | UXR_SHARED_MEMORY_BIN_ENTITY

datatype entity_data =
    hash_data "u8 list"
  | datawriter_data OBJK_DataWriter_Binary
  | datareader_data OBJK_DataReader_Binary

record uxr_shared_memory_entity_t =
  entity_object_id :: uxrObjectId
  entity_session :: nat
  entity_type :: entity_descriptor_type_t
  entity_content :: entity_data
  related_topic :: "nat option"

record uxr_shared_memory_matrix_block_t =
  matched :: bool
  block_list :: "nat option"

record uxr_shared_memory_map_t =
  entities :: "uxr_shared_memory_entity_t list"
  entities_len :: size_t
  matrix :: "nat \<Rightarrow> nat \<Rightarrow> uxr_shared_memory_matrix_block_t"
  mem_pool :: "uxr_shared_memory_buffer_item_t list"
  mempool_freeitems :: "nat option"
  map_init :: bool

text \<open>All bytes zero, as at the start.\<close>

definition zero_buffer :: ucdrBuffer where
  "zero_buffer = \<lparr>init = 0, final = 0, iterator = 0, offset = 0, endianness = BIG_ENDIANNESS, error = False,
     on_full_buffer = None, args = None\<rparr>"

definition zero_map :: uxr_shared_memory_map_t where
  "zero_map = \<lparr>entities = replicate UXR_CONFIG_SHARED_MEMORY_MAX_ENTITIES
       \<lparr>entity_object_id = uxr_object_id 0 0, entity_session = 0, entity_type = UXR_SHARED_MEMORY_HASH_ENTITY,
        entity_content = hash_data (replicate UXR_MATCHING_HASH_SIZE 0), related_topic = None\<rparr>,
     entities_len = 0, matrix = (\<lambda>_ _. \<lparr>matched = False, block_list = None\<rparr>),
     mem_pool = replicate UXR_CONFIG_SHARED_MEMORY_STATIC_MEM_SIZE
       \<lparr>item_next = None, item_data = zero_buffer, item_data_size = 0, item_request_id = 0\<rparr>,
     mempool_freeitems = None, map_init = False\<rparr>"

record 'e sm_world =
  sm :: uxr_shared_memory_map_t
  sessions :: "nat \<Rightarrow> uxrSession"
  sm_memory :: mem
  sm_ext :: 'e

text \<open>The serialization library, what an automatic variable holds, and the application's functions.\<close>

record 'e sm_env =
  sm_lib :: ucdr
  sm_SampleIdentity :: SampleIdentity
  sm_on_topic :: "nat \<Rightarrow> nat \<Rightarrow> uxrObjectId \<Rightarrow> u16 \<Rightarrow> uxrStreamId \<Rightarrow> ucdrBuffer \<Rightarrow> u16 \<Rightarrow> nat \<Rightarrow> 'e sm_world \<Rightarrow> 'e sm_world"
  sm_on_request :: "nat \<Rightarrow> nat \<Rightarrow> uxrObjectId \<Rightarrow> u16 \<Rightarrow> SampleIdentity \<Rightarrow> ucdrBuffer \<Rightarrow> u16 \<Rightarrow> nat \<Rightarrow> 'e sm_world \<Rightarrow> 'e sm_world"
  sm_on_reply :: "nat \<Rightarrow> nat \<Rightarrow> uxrObjectId \<Rightarrow> u16 \<Rightarrow> u16 \<Rightarrow> ucdrBuffer \<Rightarrow> u16 \<Rightarrow> nat \<Rightarrow> 'e sm_world \<Rightarrow> 'e sm_world"

definition set_matched :: "nat \<Rightarrow> nat \<Rightarrow> bool \<Rightarrow> uxr_shared_memory_map_t \<Rightarrow> uxr_shared_memory_map_t" where
  "set_matched i j b s = s\<lparr>matrix := (matrix s)(i := (matrix s i)(j := (matrix s i j)\<lparr>matched := b\<rparr>))\<rparr>"

definition set_block_list :: "nat \<Rightarrow> nat \<Rightarrow> nat option \<Rightarrow> uxr_shared_memory_map_t \<Rightarrow> uxr_shared_memory_map_t" where
  "set_block_list i j l s = s\<lparr>matrix := (matrix s)(i := (matrix s i)(j := (matrix s i j)\<lparr>block_list := l\<rparr>))\<rparr>"

section \<open>Lists of items\<close>

definition uxr_prepend_to_list ::
  "nat \<Rightarrow> nat option \<Rightarrow> uxr_shared_memory_buffer_item_t list \<Rightarrow> nat option \<times> uxr_shared_memory_buffer_item_t list"
where
  "uxr_prepend_to_list member list pool = (Some member, pool[member := (pool ! member)\<lparr>item_next := list\<rparr>])"

definition uxr_pop_head_from_list ::
  "nat option \<Rightarrow> uxr_shared_memory_buffer_item_t list \<Rightarrow> nat option \<times> nat option"
where
  "uxr_pop_head_from_list list pool = (list, case list of None \<Rightarrow> None | Some i \<Rightarrow> item_next (pool ! i))"

definition free_item :: "nat \<Rightarrow> uxr_shared_memory_map_t \<Rightarrow> uxr_shared_memory_map_t" where
  "free_item i s = (let (l, pool) = uxr_prepend_to_list i (mempool_freeitems s) (mem_pool s)
     in s\<lparr>mempool_freeitems := l, mem_pool := pool\<rparr>)"

definition uxr_init_shared_memory :: "uxr_shared_memory_map_t \<Rightarrow> uxr_shared_memory_map_t" where
  "uxr_init_shared_memory s = fold free_item [0..<UXR_CONFIG_SHARED_MEMORY_STATIC_MEM_SIZE] (s\<lparr>map_init := True\<rparr>)"

definition UXR_SHARED_MEMORY_INIT :: "uxr_shared_memory_map_t \<Rightarrow> uxr_shared_memory_map_t" where
  "UXR_SHARED_MEMORY_INIT s = (if \<not> map_init s then uxr_init_shared_memory s else s)"

definition uxr_clean_shared_memory :: "uxr_shared_memory_map_t \<Rightarrow> uxr_shared_memory_map_t" where
  "uxr_clean_shared_memory s = zero_map"

section \<open>Entities\<close>

definition session_key :: "(nat \<Rightarrow> uxrSession) \<Rightarrow> nat \<Rightarrow> u8 list" where
  "session_key ss session = take CLIENT_KEY_SIZE (key (uxrSession.info (ss session)))"

definition uxr_shared_memory_entity_compare ::
  "(nat \<Rightarrow> uxrSession) \<Rightarrow> nat \<times> uxrObjectId \<Rightarrow> uxr_shared_memory_entity_t \<Rightarrow> bool"
where
  "uxr_shared_memory_entity_compare ss e1 e2 =
     (session_key ss (fst e1) = session_key ss (entity_session e2) \<and>
      uxrObjectId.id (snd e1) = uxrObjectId.id (entity_object_id e2) \<and>
      uxrObjectId.type (snd e1) = uxrObjectId.type (entity_object_id e2))"

definition uxr_shared_memory_get_entity_index ::
  "(nat \<Rightarrow> uxrSession) \<Rightarrow> nat \<Rightarrow> uxrObjectId \<Rightarrow> uxr_shared_memory_map_t \<Rightarrow> nat option"
where
  "uxr_shared_memory_get_entity_index ss session entity_id s =
     find (\<lambda>i. uxr_shared_memory_entity_compare ss (session, entity_id) (entities s ! i)) [0..<entities_len s]"

definition uxr_shared_memory_get_entity ::
  "(nat \<Rightarrow> uxrSession) \<Rightarrow> nat \<Rightarrow> uxrObjectId \<Rightarrow> uxr_shared_memory_map_t \<Rightarrow> nat option"
where
  "uxr_shared_memory_get_entity ss session entity_id s =
     find (\<lambda>i. uxr_shared_memory_entity_compare ss (session, entity_id) (entities s ! i)) [0..<entities_len s]"

section \<open>Writing\<close>

text \<open>One for each entity that matches, as long as there are items.\<close>

definition prepare_for ::
  "nat \<Rightarrow> ucdrBuffer \<Rightarrow> u16 \<Rightarrow> u16 \<Rightarrow> nat \<Rightarrow> uxr_shared_memory_map_t \<Rightarrow> uxr_shared_memory_map_t"
where
  "prepare_for entity_index ub data_size' request_id' i s =
     (if matched (matrix s entity_index i)
      then (case uxr_pop_head_from_list (mempool_freeitems s) (mem_pool s) of
              (None, l) \<Rightarrow> s\<lparr>mempool_freeitems := l\<rparr>
            | (Some item, l) \<Rightarrow>
                let pool = (mem_pool s)[item := (mem_pool s ! item)
                      \<lparr>item_data := ub, item_data_size := data_size', item_request_id := request_id'\<rparr>];
                    (l1, pool1) = uxr_prepend_to_list item (block_list (matrix s entity_index i)) pool
                in set_block_list entity_index i l1 (s\<lparr>mempool_freeitems := l, mem_pool := pool1\<rparr>))
      else s)"

definition uxr_prepare_shared_memory ::
  "nat \<Rightarrow> uxrObjectId \<Rightarrow> ucdrBuffer \<Rightarrow> u16 \<Rightarrow> u16 \<Rightarrow> 'e sm_world \<Rightarrow> 'e sm_world"
where
  "uxr_prepare_shared_memory session entity_id ub data_size' request_id' w =
     (let s = UXR_SHARED_MEMORY_INIT (sm w)
      in case uxr_shared_memory_get_entity_index (sessions w) session entity_id s of
           None \<Rightarrow> w\<lparr>sm := s\<rparr>
         | Some entity_index \<Rightarrow>
             w\<lparr>sm := fold (prepare_for entity_index ub data_size' request_id') [0..<entities_len s] s\<rparr>)"


section \<open>Delivering\<close>

text \<open>What a replier is told about who asks: the key of the session and the identifier of the entity.\<close>

definition request_identity :: "SampleIdentity \<Rightarrow> u8 list \<Rightarrow> uxrObjectId \<Rightarrow> u16 \<Rightarrow> SampleIdentity" where
  "request_identity sample_identity session_key' object_id' request_id' =
     (let guid = writer_guid sample_identity;
          prefix = GuidPrefix_t.data (guidPrefix guid);
          entity = entityId guid
      in sample_identity\<lparr>sequence_number := (sequence_number sample_identity)\<lparr>low := ucast request_id'\<rparr>,
           writer_guid := guid\<lparr>guidPrefix := \<lparr>GuidPrefix_t.data = session_key' @ drop CLIENT_KEY_SIZE prefix\<rparr>,
             entityId := entity\<lparr>entityKey := (entityKey entity)[1 := ucast (drop_bit 8 (uxrObjectId.id object_id')) AND 0xFF,
                                                              0 := ucast (uxrObjectId.id object_id') AND 0xFF],
               entityKind := uxrObjectId.type object_id'\<rparr>\<rparr>\<rparr>)"

text \<open>Whether a reply is for this requester; the shift is that of an \<open>int\<close>.\<close>

definition reply_is_for :: "SampleIdentity \<Rightarrow> u8 list \<Rightarrow> uxrObjectId \<Rightarrow> bool" where
  "reply_is_for sample_identity session_key' object_id' =
     (let guid = writer_guid sample_identity;
          entity = entityId guid
      in session_key' = take CLIENT_KEY_SIZE (GuidPrefix_t.data (guidPrefix guid)) \<and>
         uint (uxrObjectId.id object_id') = drop_bit 8 (uint (entityKey entity ! 1)) + uint (entityKey entity ! 0) \<and>
         entityKind entity = uxrObjectId.type object_id')"

definition deliver_topic :: "'e sm_env \<Rightarrow> nat \<Rightarrow> uxr_shared_memory_buffer_item_t \<Rightarrow> 'e sm_world \<Rightarrow> 'e sm_world" where
  "deliver_topic env j item w =
     (let e = entities (sm w) ! j; session = sessions w (entity_session e);
          stream_id' = \<lparr>raw = 0, index = 0, type = UXR_SHARED_MEMORY_STREAM, direction = UXR_INPUT_STREAM\<rparr>
      in case on_topic session of
           None \<Rightarrow> w
         | Some f \<Rightarrow> sm_on_topic env f (entity_session e) (entity_object_id e) 0 stream_id' (item_data item)
                      (item_data_size item) (on_topic_args session) w)"

definition deliver_request ::
  "'e sm_env \<Rightarrow> nat \<Rightarrow> nat \<Rightarrow> uxr_shared_memory_buffer_item_t \<Rightarrow> 'e sm_world \<Rightarrow> 'e sm_world"
where
  "deliver_request env i j item w =
     (let e = entities (sm w) ! j; session = sessions w (entity_session e); from_entity = entities (sm w) ! i
      in case on_request session of
           None \<Rightarrow> w
         | Some f \<Rightarrow>
             let sample_identity = request_identity (sm_SampleIdentity env)
                   (session_key (sessions w) (entity_session from_entity)) (entity_object_id from_entity) (item_request_id item)
             in sm_on_request env f (entity_session e) (entity_object_id e) 0 sample_identity (item_data item)
                  (item_data_size item) (on_topic_args session) w)"

definition deliver_reply :: "'e sm_env \<Rightarrow> nat \<Rightarrow> uxr_shared_memory_buffer_item_t \<Rightarrow> 'e sm_world \<Rightarrow> 'e sm_world" where
  "deliver_reply env j item w =
     (let e = entities (sm w) ! j; session = sessions w (entity_session e)
      in case on_reply session of
           None \<Rightarrow> w
         | Some f \<Rightarrow>
             let (_, sample_identity, ub, m) =
                   uxr_deserialize_SampleIdentity (sm_lib env) (sm_SampleIdentity env) (item_data item, sm_memory w);
                 w1 = w\<lparr>sm_memory := m\<rparr>
             in if reply_is_for sample_identity (session_key (sessions w) (entity_session e)) (entity_object_id e)
                then sm_on_reply env f (entity_session e) (entity_object_id e) 0
                       (ucast (low (sequence_number sample_identity))) ub
                       (of_nat (size_sub (unat (item_data_size item)) (size_sub (offset ub) (offset (item_data item)))))
                       (on_topic_args session) w1
                else w1)"

text \<open>The head of a list is taken off, handed over and freed.\<close>

definition deliver_item :: "'e sm_env \<Rightarrow> nat \<Rightarrow> nat \<Rightarrow> nat \<Rightarrow> 'e sm_world \<Rightarrow> 'e sm_world" where
  "deliver_item env i j head w =
     (let (_, l) = uxr_pop_head_from_list (block_list (matrix (sm w) i j)) (mem_pool (sm w));
          w1 = w\<lparr>sm := set_block_list i j l (sm w)\<rparr>;
          item = mem_pool (sm w1) ! head;
          kind = uxrObjectId.type (entity_object_id (entities (sm w1) ! j));
          w2 = (if kind = UXR_DATAREADER_ID then deliver_topic env j item w1
                else if kind = UXR_REPLIER_ID then deliver_request env i j item w1
                else if kind = UXR_REQUESTER_ID then deliver_reply env j item w1
                else w1)
      in w2\<lparr>sm := free_item head (sm w2)\<rparr>)"

partial_function (option) deliver_list :: "'e sm_env \<Rightarrow> nat \<Rightarrow> nat \<Rightarrow> 'e sm_world \<Rightarrow> 'e sm_world option" where
  "deliver_list env i j w =
     (case block_list (matrix (sm w) i j) of
        None \<Rightarrow> Some w
      | Some head \<Rightarrow> deliver_list env i j (deliver_item env i j head w))"

partial_function (option) deliver_row :: "'e sm_env \<Rightarrow> nat \<Rightarrow> nat \<Rightarrow> 'e sm_world \<Rightarrow> 'e sm_world option" where
  "deliver_row env i j w =
     (if j < entities_len (sm w) then do { w1 \<leftarrow> deliver_list env i j w; deliver_row env i (j + 1) w1 } else Some w)"

partial_function (option) deliver_rows :: "'e sm_env \<Rightarrow> nat \<Rightarrow> 'e sm_world \<Rightarrow> 'e sm_world option" where
  "deliver_rows env i w =
     (if i < entities_len (sm w)
      then let kind = uxrObjectId.type (entity_object_id (entities (sm w) ! i))
           in if kind \<noteq> UXR_DATAWRITER_ID \<and> kind \<noteq> UXR_REPLIER_ID \<and> kind \<noteq> UXR_REQUESTER_ID
              then deliver_rows env (i + 1) w
              else do { w1 \<leftarrow> deliver_row env i 0 w; deliver_rows env (i + 1) w1 }
      else Some w)"

definition uxr_handle_shared_memory :: "'e sm_env \<Rightarrow> 'e sm_world \<Rightarrow> 'e sm_world option" where
  "uxr_handle_shared_memory env w = deliver_rows env 0 (w\<lparr>sm := UXR_SHARED_MEMORY_INIT (sm w)\<rparr>)"

section \<open>Which entities match\<close>

text \<open>
  The hash of a topic, compared as a string. It is not ended by a zero, but what follows it in the union is
  zero: a topic is made in an entity that was not used before.
\<close>

definition topic_hash_of :: "nat option \<Rightarrow> uxr_shared_memory_map_t \<Rightarrow> u8 list option" where
  "topic_hash_of topic' s = do {
     t \<leftarrow> topic';
     (case entity_content (entities s ! t) of hash_data hash \<Rightarrow> Some (takeWhile (\<lambda>c. c \<noteq> 0) hash) | _ \<Rightarrow> None)
   }"

definition uxr_match_binary_entities ::
  "uxr_shared_memory_entity_t \<Rightarrow> uxr_shared_memory_entity_t \<Rightarrow> uxr_shared_memory_map_t \<Rightarrow> bool option"
where
  "uxr_match_binary_entities entity_1 entity_2 s =
     (let kind = (\<lambda>e. uxrObjectId.type (entity_object_id e)); kinds = (kind entity_1, kind entity_2)
      in if kinds \<noteq> (UXR_DATAREADER_ID, UXR_DATAWRITER_ID) \<and> kinds \<noteq> (UXR_DATAWRITER_ID, UXR_DATAREADER_ID) \<and>
            kinds \<noteq> (UXR_REQUESTER_ID, UXR_REPLIER_ID) \<and> kinds \<noteq> (UXR_REPLIER_ID, UXR_REQUESTER_ID)
         then Some False
         else if kind entity_1 = UXR_DATAREADER_ID
         then (case (entity_content entity_1, entity_content entity_2) of
                 (datareader_data dr, datawriter_data dw) \<Rightarrow> do {
                   hash_1 \<leftarrow> topic_hash_of (related_topic entity_1) s;
                   hash_2 \<leftarrow> topic_hash_of (related_topic entity_2) s;
                   Some (uxr_match_endpoint_qosbinary (OBJK_DataReader_Binary_Qos.base (OBJK_DataReader_Binary.qos dr))
                           (OBJK_DataWriter_Binary_Qos.base (OBJK_DataWriter_Binary.qos dw)) \<and> hash_1 = hash_2)
                 }
               | _ \<Rightarrow> None)
         else if kind entity_1 = UXR_DATAWRITER_ID
         then (case (entity_content entity_1, entity_content entity_2) of
                 (datawriter_data dw, datareader_data dr) \<Rightarrow> do {
                   hash_1 \<leftarrow> topic_hash_of (related_topic entity_1) s;
                   hash_2 \<leftarrow> topic_hash_of (related_topic entity_2) s;
                   Some (uxr_match_endpoint_qosbinary (OBJK_DataReader_Binary_Qos.base (OBJK_DataReader_Binary.qos dr))
                           (OBJK_DataWriter_Binary_Qos.base (OBJK_DataWriter_Binary.qos dw)) \<and> hash_1 = hash_2)
                 }
               | _ \<Rightarrow> None)
         else Some False)"

definition match_pair :: "nat \<Rightarrow> nat \<Rightarrow> uxr_shared_memory_map_t \<Rightarrow> uxr_shared_memory_map_t option" where
  "match_pair i j s =
     (let e1 = entities s ! i; e2 = entities s ! j; kind = (\<lambda>e. uxrObjectId.type (entity_object_id e))
      in if i \<noteq> j \<and> entity_type e1 = entity_type e2 \<and> kind e1 \<noteq> kind e2 \<and> kind e1 \<noteq> UXR_TOPIC_ID \<and> kind e2 \<noteq> UXR_TOPIC_ID
         then (case entity_type e1 of
                 UXR_SHARED_MEMORY_HASH_ENTITY \<Rightarrow>
                   (case (entity_content e1, entity_content e2) of
                      (hash_data h1, hash_data h2) \<Rightarrow>
                        Some (set_matched i j (take UXR_MATCHING_HASH_SIZE h1 = take UXR_MATCHING_HASH_SIZE h2) s)
                    | _ \<Rightarrow> None)
               | UXR_SHARED_MEMORY_BIN_ENTITY \<Rightarrow> do {
                   b \<leftarrow> uxr_match_binary_entities e1 e2 s;
                   Some (set_matched i j b s)
                 })
         else Some s)"

definition uxr_update_shared_memory_matching :: "uxr_shared_memory_map_t \<Rightarrow> uxr_shared_memory_map_t option" where
  "uxr_update_shared_memory_matching s =
     for_each [0..<entities_len s] (\<lambda>i. for_each [0..<entities_len s] (match_pair i)) s"

section \<open>New entities\<close>

definition set_entity ::
  "(uxr_shared_memory_entity_t \<Rightarrow> uxr_shared_memory_entity_t) \<Rightarrow> uxr_shared_memory_map_t \<Rightarrow> uxr_shared_memory_map_t"
where
  "set_entity f s = s\<lparr>entities := (entities s)[entities_len s := f (entities s ! entities_len s)]\<rparr>"

definition uxr_add_shared_memory_entity_xml ::
  "nat \<Rightarrow> uxrObjectId \<Rightarrow> u8 list \<Rightarrow> 'e sm_world \<Rightarrow> 'e sm_world option"
where
  "uxr_add_shared_memory_entity_xml session entity_id xml w =
     (let s = UXR_SHARED_MEMORY_INIT (sm w)
      in if entities_len s \<le> UXR_CONFIG_SHARED_MEMORY_MAX_ENTITIES - 1
         then do {
           let hash0 = (case entity_content (entities s ! entities_len s) of hash_data h \<Rightarrow> h | _ \<Rightarrow> []);
           (_, hash) \<leftarrow> uxr_generate_hash_from_xml xml entity_id hash0;
           let s1 = set_entity (\<lambda>e. e\<lparr>entity_object_id := entity_id, entity_session := session,
                      entity_type := UXR_SHARED_MEMORY_HASH_ENTITY, entity_content := hash_data hash\<rparr>) s;
           s2 \<leftarrow> uxr_update_shared_memory_matching (s1\<lparr>entities_len := entities_len s1 + 1\<rparr>);
           Some (w\<lparr>sm := s2\<rparr>)
         }
         else Some (w\<lparr>sm := s\<rparr>))"

text \<open>What the pointer to the entity points to.\<close>

datatype bin_entity =
    bin_datawriter OBJK_DataWriter_Binary
  | bin_datareader OBJK_DataReader_Binary
  | bin_requester OBJK_Requester_Binary
  | bin_replier OBJK_Replier_Binary
  | bin_topic OBJK_Topic_Binary
  | bin_other

definition hashed_entity :: "u8 list list \<Rightarrow> uxr_shared_memory_entity_t \<Rightarrow> uxr_shared_memory_entity_t" where
  "hashed_entity strs e = e\<lparr>entity_type := UXR_SHARED_MEMORY_HASH_ENTITY,
     entity_content := hash_data (snd (uxr_generate_hash_from_strings [] strs)), related_topic := None\<rparr>"

definition raw_topic_id :: "ObjectId \<Rightarrow> uxrObjectId" where
  "raw_topic_id i = uxr_object_id_from_raw (ObjectId.data i ! 0, ObjectId.data i ! 1)"

definition bin_entity_content ::
  "(nat \<Rightarrow> uxrSession) \<Rightarrow> nat \<Rightarrow> uxrObjectId \<Rightarrow> bin_entity \<Rightarrow> uxr_shared_memory_map_t
    \<Rightarrow> (uxr_shared_memory_entity_t \<Rightarrow> uxr_shared_memory_entity_t) option"
where
  "bin_entity_content ss session entity_id entity s =
     (if uxrObjectId.type entity_id = UXR_DATAWRITER_ID
      then (case entity of
              bin_datawriter dw \<Rightarrow> Some (\<lambda>e. e\<lparr>entity_content := datawriter_data dw,
                related_topic := uxr_shared_memory_get_entity ss session (raw_topic_id (OBJK_DataWriter_Binary.topic_id dw)) s\<rparr>)
            | _ \<Rightarrow> None)
      else if uxrObjectId.type entity_id = UXR_DATAREADER_ID
      then (case entity of
              bin_datareader dr \<Rightarrow> Some (\<lambda>e. e\<lparr>entity_content := datareader_data dr,
                related_topic := uxr_shared_memory_get_entity ss session (raw_topic_id (OBJK_DataReader_Binary.topic_id dr)) s\<rparr>)
            | _ \<Rightarrow> None)
      else if uxrObjectId.type entity_id = UXR_REQUESTER_ID
      then (case entity of
              bin_requester r \<Rightarrow> Some (hashed_entity [OBJK_Requester_Binary.service_name r, OBJK_Requester_Binary.request_type r,
                OBJK_Requester_Binary.reply_type r, OBJK_Requester_Binary.request_topic_name r, OBJK_Requester_Binary.reply_topic_name r])
            | _ \<Rightarrow> None)
      else if uxrObjectId.type entity_id = UXR_REPLIER_ID
      then (case entity of
              bin_replier r \<Rightarrow> Some (hashed_entity [OBJK_Replier_Binary.service_name r, OBJK_Replier_Binary.request_type r,
                OBJK_Replier_Binary.reply_type r, OBJK_Replier_Binary.request_topic_name r, OBJK_Replier_Binary.reply_topic_name r])
            | _ \<Rightarrow> None)
      else if uxrObjectId.type entity_id = UXR_TOPIC_ID
      then (case entity of
              bin_topic t \<Rightarrow> Some (hashed_entity [OBJK_Topic_Binary.topic_name t, OBJK_Topic_Binary.type_name t])
            | _ \<Rightarrow> None)
      else Some (\<lambda>e. e))"

definition uxr_add_shared_memory_entity_bin ::
  "nat \<Rightarrow> uxrObjectId \<Rightarrow> bin_entity \<Rightarrow> 'e sm_world \<Rightarrow> 'e sm_world option"
where
  "uxr_add_shared_memory_entity_bin session entity_id entity w =
     (let s = UXR_SHARED_MEMORY_INIT (sm w)
      in if entities_len s \<le> UXR_CONFIG_SHARED_MEMORY_MAX_ENTITIES - 1
         then do {
           let s1 = set_entity (\<lambda>e. e\<lparr>entity_object_id := entity_id, entity_session := session,
                      entity_type := UXR_SHARED_MEMORY_BIN_ENTITY\<rparr>) s;
           f \<leftarrow> bin_entity_content (sessions w) session entity_id entity s1;
           let s2 = set_entity f s1;
           s3 \<leftarrow> uxr_update_shared_memory_matching (s2\<lparr>entities_len := entities_len s2 + 1\<rparr>);
           Some (w\<lparr>sm := s3\<rparr>)
         }
         else Some (w\<lparr>sm := s\<rparr>))"

end
