(* ===== verification/SharedMemoryFacts.thy ===== *)
theory SharedMemoryFacts
  imports SharedMemory SessionFacts
begin

text \<open>What is proved about the shared memory profile.\<close>

section \<open>The pool\<close>

text \<open>The items of a linked list.\<close>

fun chain :: "uxr_shared_memory_buffer_item_t list \<Rightarrow> nat option \<Rightarrow> nat list \<Rightarrow> bool" where
  "chain pool h [] \<longleftrightarrow> h = None"
| "chain pool h (x # xs) \<longleftrightarrow> h = Some x \<and> chain pool (item_next (pool ! x)) xs"

lemma chain_update: "i \<notin> set xs \<Longrightarrow> chain (pool[i := v]) h xs = chain pool h xs"
  by (induction xs arbitrary: h) auto

type_synonym payload = "ucdrBuffer \<times> u16 \<times> u16"

definition item_payload :: "uxr_shared_memory_buffer_item_t \<Rightarrow> payload" where
  "item_payload it = (item_data it, item_data_size it, item_request_id it)"

lemma payload_next [simp]: "item_payload (it\<lparr>item_next := l\<rparr>) = item_payload it"
  by (simp add: item_payload_def)

text \<open>The lists: the free one and those of the matrix. Every item is in exactly one of them, once.\<close>

type_synonym place = "(nat \<times> nat) option"

definition heads :: "uxr_shared_memory_map_t \<Rightarrow> place \<Rightarrow> nat option" where
  "heads s c = (case c of None \<Rightarrow> mempool_freeitems s | Some (i, j) \<Rightarrow> block_list (matrix s i j))"

definition lists_ok :: "uxr_shared_memory_map_t \<Rightarrow> (place \<Rightarrow> nat list) \<Rightarrow> bool" where
  "lists_ok s L \<longleftrightarrow> (\<forall>c. chain (mem_pool s) (heads s c) (L c) \<and> distinct (L c)) \<and>
     (\<forall>c d. c \<noteq> d \<longrightarrow> set (L c) \<inter> set (L d) = {}) \<and>
     (\<forall>x. x < length (mem_pool s) \<longleftrightarrow> (\<exists>c. x \<in> set (L c)))"

text \<open>What the map stands for: how many items are free, and what waits for whom.\<close>

definition holds :: "uxr_shared_memory_map_t \<Rightarrow> nat \<Rightarrow> (nat \<Rightarrow> nat \<Rightarrow> payload list) \<Rightarrow> bool" where
  "holds s n q \<longleftrightarrow> (\<exists>L. lists_ok s L \<and> length (L None) = n \<and>
     (\<forall>i j. q i j = map (\<lambda>x. item_payload (mem_pool s ! x)) (L (Some (i, j)))))"

text \<open>An item goes from the head of one list to the head of another.\<close>

lemma lists_ok_move:
  assumes ok: "lists_ok s L" and L: "L a = x # xs" and ab: "a \<noteq> b"
    and pool: "mem_pool s' = (mem_pool s)[x := it\<lparr>item_next := heads s b\<rparr>]"
    and h: "heads s' = (heads s)(a := item_next (mem_pool s ! x), b := Some x)"
  shows "lists_ok s' (L(a := xs, b := x # L b))"
proof -
  have ch: "chain (mem_pool s) (heads s c) (L c)" and di: "distinct (L c)" for c
    using ok by (simp_all add: lists_ok_def)
  have dj: "c \<noteq> d \<Longrightarrow> y \<in> set (L c) \<Longrightarrow> y \<notin> set (L d)" for c d y
    using ok unfolding lists_ok_def by blast
  have cov: "(y < length (mem_pool s)) = (\<exists>c. y \<in> set (L c))" for y
    using ok unfolding lists_ok_def by blast
  have xa: "x \<in> set (L a)"
    using L by simp
  have x: "x \<notin> set xs" "c \<noteq> a \<Longrightarrow> x \<notin> set (L c)" "x < length (mem_pool s)" for c
    using di [of a] L dj [of a c x] cov [of x] xa by (simp, blast, blast)
  have "chain (mem_pool s) (item_next (mem_pool s ! x)) xs"
    using ch [of a] L by simp
  then have "chain (mem_pool s') (heads s' c) ((L(a := xs, b := x # L b)) c)" for c
    using ch [of c] ch [of b] x ab by (auto simp: pool h chain_update)
  moreover have "distinct ((L(a := xs, b := x # L b)) c)" for c
    using di [of c] di [of a] di [of b] x ab L by auto
  moreover have "set ((L(a := xs, b := x # L b)) c) \<inter> set ((L(a := xs, b := x # L b)) d) = {}" if "c \<noteq> d" for c d
    using dj [of c d] dj [of d c] dj [of a c] dj [of a d] that x L ab by auto
  moreover have "(y < length (mem_pool s')) = (\<exists>c. y \<in> set ((L(a := xs, b := x # L b)) c))" for y
  proof -
    have "(\<exists>c. y \<in> set ((L(a := xs, b := x # L b)) c)) = (\<exists>c. y \<in> set (L c))"
    proof
      assume "\<exists>c. y \<in> set ((L(a := xs, b := x # L b)) c)"
      then obtain c where c: "y \<in> set ((L(a := xs, b := x # L b)) c)"
        by blast
      then have "y \<in> set (L c) \<or> y \<in> set (L a)"
        using L by (auto split: if_splits)
      then show "\<exists>c. y \<in> set (L c)"
        by blast
    next
      assume "\<exists>c. y \<in> set (L c)"
      then obtain c where "y \<in> set (L c)"
        by blast
      then have "y \<in> set ((L(a := xs, b := x # L b)) c) \<or> y \<in> set ((L(a := xs, b := x # L b)) b)"
        using L ab by auto
      then show "\<exists>c. y \<in> set ((L(a := xs, b := x # L b)) c)"
        by blast
    qed
    then show ?thesis
      using cov [of y] by (simp add: pool)
  qed
  ultimately show ?thesis
    unfolding lists_ok_def by blast
qed


lemma holds_same_lists:
  assumes "mem_pool s' = mem_pool s" and "mempool_freeitems s' = mempool_freeitems s"
    and "\<And>i j. block_list (matrix s' i j) = block_list (matrix s i j)"
  shows "holds s' n q = holds s n q"
proof -
  have "heads s' = heads s"
    using assms by (auto simp: heads_def fun_eq_iff split: option.split)
  then show ?thesis
    using assms(1) by (simp add: holds_def lists_ok_def)
qed

section \<open>Writing\<close>

definition put :: "nat \<Rightarrow> nat \<Rightarrow> 'a \<Rightarrow> (nat \<Rightarrow> nat \<Rightarrow> 'a) \<Rightarrow> nat \<Rightarrow> nat \<Rightarrow> 'a" where
  "put i j x q k l = (if (k, l) = (i, j) then x else q k l)"

lemma heads_set_block_list: "heads (set_block_list i j l s) = (heads s)(Some (i, j) := l)"
  by (auto simp: heads_def set_block_list_def fun_eq_iff split: option.splits)

lemma heads_free [simp]: "heads (s\<lparr>mempool_freeitems := l, mem_pool := p\<rparr>) = (heads s)(None := l)"
  by (auto simp: heads_def fun_eq_iff split: option.splits)

lemma block_list_simps [simp]:
  "mem_pool (set_block_list i j l s) = mem_pool s" "mempool_freeitems (set_block_list i j l s) = mempool_freeitems s"
  "entities (set_block_list i j l s) = entities s" "entities_len (set_block_list i j l s) = entities_len s"
  "map_init (set_block_list i j l s) = map_init s" "matched (matrix (set_block_list i j l s) k m) = matched (matrix s k m)"
  by (simp_all add: set_block_list_def)

text \<open>One writing for one reader.\<close>

lemma prepare_for_holds:
  assumes "holds s n q" and "matched (matrix s e i)"
  shows "holds (prepare_for e ub d r i s) (n - 1) (if n = 0 then q else put e i ((ub, d, r) # q e i) q)"
proof -
  obtain L where L: "lists_ok s L" "length (L None) = n" "\<And>i j. q i j = map (\<lambda>x. item_payload (mem_pool s ! x)) (L (Some (i, j)))"
    using assms(1) by (auto simp: holds_def)
  have free: "chain (mem_pool s) (mempool_freeitems s) (L None)"
    using L(1) by (auto simp: lists_ok_def heads_def split: option.splits)
  show ?thesis
  proof (cases "L None")
    case Nil
    then have "prepare_for e ub d r i s = s"
      using free assms(2) by (simp add: prepare_for_def uxr_pop_head_from_list_def)
    then show ?thesis
      using assms(1) L(2) Nil by simp
  next
    case (Cons x xs)
    let ?it = "(mem_pool s ! x)\<lparr>item_data := ub, item_data_size := d, item_request_id := r\<rparr>"
    let ?s = "prepare_for e ub d r i s"
    have head: "mempool_freeitems s = Some x"
      using free Cons by simp
    have x: "x < length (mem_pool s)" "x \<notin> set (L (Some (k, l)))" for k l
      using L(1) Cons unfolding lists_ok_def by (metis list.set_intros(1), metis disjoint_iff list.set_intros(1) option.distinct(1))
    have s': "?s = set_block_list e i (Some x) (s\<lparr>mempool_freeitems := item_next (mem_pool s ! x),
        mem_pool := (mem_pool s)[x := ?it\<lparr>item_next := block_list (matrix s e i)\<rparr>]\<rparr>)"
      using assms(2) head x(1)
      by (simp add: prepare_for_def uxr_pop_head_from_list_def uxr_prepend_to_list_def Let_def)
    have "lists_ok ?s (L(None := xs, Some (e, i) := x # L (Some (e, i))))"
      using Cons by (intro lists_ok_move [OF L(1) Cons, where it = ?it]) (simp_all add: s' heads_set_block_list, simp_all add: heads_def)
    moreover have "map (\<lambda>x. item_payload (mem_pool ?s ! x)) ((L(None := xs, Some (e, i) := x # L (Some (e, i)))) (Some (k, l))) =
        put e i ((ub, d, r) # q e i) q k l" for k l
      using x L(3) by (auto simp: s' put_def item_payload_def nth_list_update)
    ultimately show ?thesis
      unfolding holds_def using L(2) Cons by (intro exI [of _ "L(None := xs, Some (e, i) := x # L (Some (e, i)))"]) auto
  qed
qed


lemma prepare_for_keeps:
  "matched (matrix (prepare_for e ub d r i s) k l) = matched (matrix s k l)"
  "entities (prepare_for e ub d r i s) = entities s" "entities_len (prepare_for e ub d r i s) = entities_len s"
  "map_init (prepare_for e ub d r i s) = map_init s"
  by (auto simp: prepare_for_def uxr_pop_head_from_list_def uxr_prepend_to_list_def Let_def split: option.splits)

text \<open>Who gets it: those that match, in order, as long as there are items.\<close>

definition recipients :: "nat \<Rightarrow> nat \<Rightarrow> uxr_shared_memory_map_t \<Rightarrow> nat list" where
  "recipients n e s = take n (filter (\<lambda>i. matched (matrix s e i)) [0..<entities_len s])"

lemma fold_prepare_for:
  fixes e :: nat
  assumes "holds s n q" and "distinct is"
  defines "rs \<equiv> take n (filter (\<lambda>i. matched (matrix s e i)) is)"
  shows "holds (fold (prepare_for e ub d r) is s) (n - length rs)
    (\<lambda>k l. if k = e \<and> l \<in> set rs then (ub, d, r) # q k l else q k l)"
  unfolding rs_def using assms(1,2)
proof (induction "is" arbitrary: s n q)
  case (Cons i "is")
  show ?case
  proof (cases "matched (matrix s e i)")
    case False
    then have "prepare_for e ub d r i s = s"
      by (simp add: prepare_for_def)
    then show ?thesis
      using Cons.IH [OF Cons.prems(1)] Cons.prems(2) False by simp
  next
    case True
    let ?q = "if n = 0 then q else put e i ((ub, d, r) # q e i) q"
    have h: "holds (prepare_for e ub d r i s) (n - 1) ?q"
      by (rule prepare_for_holds [OF Cons.prems(1) True])
    show ?thesis
    proof (cases n)
      case 0
      then show ?thesis
        using Cons.IH [OF h] Cons.prems(2) by simp
    next
      case (Suc m)
      have "i \<notin> set (take m (filter (\<lambda>i. matched (matrix s e i)) is))"
        using Cons.prems(2) by (auto dest: in_set_takeD)
      then have "(\<lambda>k l. if k = e \<and> l \<in> set (take m (filter (\<lambda>i. matched (matrix s e i)) is)) then (ub, d, r) # ?q k l else ?q k l) =
          (\<lambda>k l. if k = e \<and> l \<in> set (take n (filter (\<lambda>i. matched (matrix s e i)) (i # is))) then (ub, d, r) # q k l else q k l)"
        using True Suc by (auto simp: put_def fun_eq_iff)
      then show ?thesis
        using Cons.IH [OF h] Cons.prems(2) True Suc by (simp add: prepare_for_keeps)
    qed
  qed
qed simp

text \<open>Writing hands the data to every entity that matches the writer, ahead of what already waits there,
  as long as there are free items: those that come later in the list go without, silently. No item is
  lost or used twice, and nothing else changes.\<close>
theorem shared_memory_write:
  assumes "holds (sm w) n q" and "map_init (sm w)"
    and "uxr_shared_memory_get_entity_index (sessions w) session entity_id (sm w) = Some e"
  shows "\<exists>s. uxr_prepare_shared_memory session entity_id ub d r w = w\<lparr>sm := s\<rparr> \<and>
    holds s (n - length (recipients n e (sm w)))
      (\<lambda>k l. if k = e \<and> l \<in> set (recipients n e (sm w)) then (ub, d, r) # q k l else q k l)"
proof -
  have "uxr_prepare_shared_memory session entity_id ub d r w =
      w\<lparr>sm := fold (prepare_for e ub d r) [0..<entities_len (sm w)] (sm w)\<rparr>"
    using assms(2,3) by (simp add: uxr_prepare_shared_memory_def UXR_SHARED_MEMORY_INIT_def Let_def)
  moreover have "holds (fold (prepare_for e ub d r) [0..<entities_len (sm w)] (sm w)) (n - length (recipients n e (sm w)))
      (\<lambda>k l. if k = e \<and> l \<in> set (recipients n e (sm w)) then (ub, d, r) # q k l else q k l)"
    unfolding recipients_def by (rule fold_prepare_for [OF assms(1) distinct_upt])
  ultimately show ?thesis
    by blast
qed

section \<open>Delivering\<close>

text \<open>An application whose functions do not call the profile: they neither see nor change the map.\<close>

definition outside_map :: "'e sm_env \<Rightarrow> bool" where
  "outside_map env \<longleftrightarrow> (\<forall>w s f a oid rid sid si sq ub n x.
     sm_on_topic env f a oid rid sid ub n x (w\<lparr>sm := s\<rparr>) = (sm_on_topic env f a oid rid sid ub n x w)\<lparr>sm := s\<rparr> \<and>
     sm_on_request env f a oid rid si ub n x (w\<lparr>sm := s\<rparr>) = (sm_on_request env f a oid rid si ub n x w)\<lparr>sm := s\<rparr> \<and>
     sm_on_reply env f a oid rid sq ub n x (w\<lparr>sm := s\<rparr>) = (sm_on_reply env f a oid rid sq ub n x w)\<lparr>sm := s\<rparr>)"

definition hand_over :: "'e sm_env \<Rightarrow> nat \<Rightarrow> nat \<Rightarrow> payload \<Rightarrow> 'e sm_world \<Rightarrow> 'e sm_world" where
  "hand_over env i j p w =
     (let item = \<lparr>item_next = None, item_data = fst p, item_data_size = fst (snd p), item_request_id = snd (snd p)\<rparr>;
          kind = uxrObjectId.type (entity_object_id (entities (sm w) ! j))
      in if kind = UXR_DATAREADER_ID then deliver_topic env j item w
         else if kind = UXR_REPLIER_ID then deliver_request env i j item w
         else if kind = UXR_REQUESTER_ID then deliver_reply env j item w
         else w)"

lemma hand_over_apart:
  assumes "outside_map env" and "entities s = entities (sm w)"
  shows "hand_over env i j p (w\<lparr>sm := s\<rparr>) = (hand_over env i j p w)\<lparr>sm := s\<rparr>"
proof -
  have a: "sm_on_topic env f a oid rid sid ub n x (w\<lparr>sm := s\<rparr>) = (sm_on_topic env f a oid rid sid ub n x w)\<lparr>sm := s\<rparr>"
    "sm_on_request env f a oid rid si ub n x (w\<lparr>sm := s\<rparr>) = (sm_on_request env f a oid rid si ub n x w)\<lparr>sm := s\<rparr>"
    "sm_on_reply env f a oid rid sq ub n x (w\<lparr>sm := s\<rparr>) = (sm_on_reply env f a oid rid sq ub n x w)\<lparr>sm := s\<rparr>"
    for w s f a oid rid sid si sq ub n x
    using assms(1) unfolding outside_map_def by blast+
  have b: "sm_on_reply env f a oid rid sq ub n x (w\<lparr>sm := s, sm_memory := m\<rparr>) =
      (sm_on_reply env f a oid rid sq ub n x (w\<lparr>sm_memory := m\<rparr>))\<lparr>sm := s\<rparr>"
    for f a oid rid sq ub n x m
  proof -
    have "w\<lparr>sm := s, sm_memory := m\<rparr> = w\<lparr>sm_memory := m\<rparr>\<lparr>sm := s\<rparr>"
      by simp
    then show ?thesis
      by (simp only: a)
  qed
  show ?thesis
    using assms(2)
    by (simp add: hand_over_def deliver_topic_def deliver_request_def deliver_reply_def Let_def a b split: option.split prod.split)
qed

lemma hand_over_sm:
  assumes "outside_map env"
  shows "sm (hand_over env i j p w) = sm w"
proof -
  have "hand_over env i j p w = (hand_over env i j p w)\<lparr>sm := sm w\<rparr>"
    using hand_over_apart [OF assms, of "sm w" w i j p] by simp
  then show ?thesis
    by (metis sm_world.select_convs(1) sm_world.surjective sm_world.update_convs(1))
qed

lemma next_unused:
  "deliver_topic env j it w = deliver_topic env j \<lparr>item_next = None, item_data = item_data it,
    item_data_size = item_data_size it, item_request_id = item_request_id it\<rparr> w"
  "deliver_request env i j it w = deliver_request env i j \<lparr>item_next = None, item_data = item_data it,
    item_data_size = item_data_size it, item_request_id = item_request_id it\<rparr> w"
  "deliver_reply env j it w = deliver_reply env j \<lparr>item_next = None, item_data = item_data it,
    item_data_size = item_data_size it, item_request_id = item_request_id it\<rparr> w"
  by (simp_all add: deliver_topic_def deliver_request_def deliver_reply_def Let_def split: option.split prod.split)

lemma deliver_item_eq:
  assumes "outside_map env" and "block_list (matrix (sm w) i j) = Some h"
  shows "deliver_item env i j h w = (hand_over env i j (item_payload (mem_pool (sm w) ! h)) w)
    \<lparr>sm := free_item h (set_block_list i j (item_next (mem_pool (sm w) ! h)) (sm w))\<rparr>"
proof -
  let ?s = "set_block_list i j (item_next (mem_pool (sm w) ! h)) (sm w)"
  have "deliver_item env i j h w = (let w2 = hand_over env i j (item_payload (mem_pool (sm w) ! h)) (w\<lparr>sm := ?s\<rparr>)
      in w2\<lparr>sm := free_item h (sm w2)\<rparr>)"
    using assms(2) by (simp add: deliver_item_def hand_over_def uxr_pop_head_from_list_def item_payload_def Let_def flip: next_unused)
  then show ?thesis
    using hand_over_apart [OF assms(1), of ?s w] by (simp add: hand_over_sm [OF assms(1)] Let_def)
qed


section \<open>Delivering everything\<close>

lemma heads_free_item [simp]: "heads (free_item h s) = (heads s)(None := Some h)"
  by (simp add: free_item_def uxr_prepend_to_list_def)

lemma free_item_simps [simp]:
  "mem_pool (free_item h s) = (mem_pool s)[h := (mem_pool s ! h)\<lparr>item_next := mempool_freeitems s\<rparr>]"
  "matrix (free_item h s) = matrix s" "entities (free_item h s) = entities s"
  "entities_len (free_item h s) = entities_len s" "map_init (free_item h s) = map_init s"
  by (simp_all add: free_item_def uxr_prepend_to_list_def)

text \<open>Taking the head of a list and freeing it.\<close>

lemma holds_pop:
  assumes "holds s n q" and "block_list (matrix s i j) = Some h"
  defines "s' \<equiv> free_item h (set_block_list i j (item_next (mem_pool s ! h)) s)"
  shows "\<exists>rest. q i j = item_payload (mem_pool s ! h) # rest \<and> holds s' (n + 1) (put i j rest q)"
proof -
  obtain L where L: "lists_ok s L" "length (L None) = n" "\<And>i j. q i j = map (\<lambda>x. item_payload (mem_pool s ! x)) (L (Some (i, j)))"
    using assms(1) by (auto simp: holds_def)
  have "chain (mem_pool s) (heads s (Some (i, j))) (L (Some (i, j)))"
    using L(1) unfolding lists_ok_def by blast
  then obtain xs where xs: "L (Some (i, j)) = h # xs"
    using assms(2) by (cases "L (Some (i, j))") (simp_all add: heads_def)
  have "h < length (mem_pool s)"
    using L(1) xs unfolding lists_ok_def by (metis list.set_intros(1))
  then have pool: "item_payload (mem_pool s' ! x) = item_payload (mem_pool s ! x)" for x
    by (simp add: s'_def nth_list_update)
  let ?L = "L(Some (i, j) := xs, None := h # L None)"
  have "lists_ok s' ?L"
    using xs by (intro lists_ok_move [OF L(1) xs, where it = "mem_pool s ! h"])
      (simp_all add: s'_def heads_set_block_list, simp_all add: heads_def)
  moreover have "put i j (map (\<lambda>x. item_payload (mem_pool s ! x)) xs) q k l = map (\<lambda>x. item_payload (mem_pool s' ! x)) (?L (Some (k, l)))" for k l
    using xs L(3) by (auto simp: put_def pool)
  ultimately have "holds s' (n + 1) (put i j (map (\<lambda>x. item_payload (mem_pool s ! x)) xs) q)"
    unfolding holds_def using L(2) by (intro exI [of _ ?L]) auto
  then show ?thesis
    using xs L(3) by (intro exI [of _ "map (\<lambda>x. item_payload (mem_pool s ! x)) xs"]) simp
qed

lemma holds_empty_list:
  assumes "holds s n q" and "block_list (matrix s i j) = None"
  shows "q i j = []"
proof -
  obtain L where L: "lists_ok s L" "\<And>i j. q i j = map (\<lambda>x. item_payload (mem_pool s ! x)) (L (Some (i, j)))"
    using assms(1) by (auto simp: holds_def)
  have "chain (mem_pool s) (heads s (Some (i, j))) (L (Some (i, j)))"
    using L(1) unfolding lists_ok_def by blast
  then show ?thesis
    using assms(2) L(2) by (cases "L (Some (i, j))") (simp_all add: heads_def)
qed

text \<open>What delivering leaves alone.\<close>

definition same_entities :: "uxr_shared_memory_map_t \<Rightarrow> uxr_shared_memory_map_t \<Rightarrow> bool" where
  "same_entities s s' \<longleftrightarrow> entities s' = entities s \<and> entities_len s' = entities_len s \<and> map_init s' = map_init s \<and>
     (\<forall>i j. matched (matrix s' i j) = matched (matrix s i j))"

lemma put_put [simp]: "put i j x (put i j y q) = put i j x q"
  by (simp add: put_def fun_eq_iff)

lemma put_at [simp]: "put i j x q i j = x"
  by (simp add: put_def)

lemma put_same: "q i j = x \<Longrightarrow> put i j x q = q"
  by (auto simp: put_def fun_eq_iff)

lemma fold_hand_over_apart:
  assumes "outside_map env" and "entities s = entities (sm w)"
  shows "fold (hand_over env i j) ps (w\<lparr>sm := s\<rparr>) = (fold (hand_over env i j) ps w)\<lparr>sm := s\<rparr>"
  using assms(2) by (induction ps arbitrary: w) (simp_all add: hand_over_apart [OF assms(1)] hand_over_sm [OF assms(1)])

lemma deliver_list_eq:
  assumes "outside_map env" and "holds (sm w) n q"
  shows "\<exists>s. deliver_list env i j w = Some ((fold (hand_over env i j) (q i j) w)\<lparr>sm := s\<rparr>) \<and>
    holds s (n + length (q i j)) (put i j [] q) \<and> same_entities (sm w) s"
  using assms(2)
proof (induction "q i j" arbitrary: w n q)
  case Nil
  have "block_list (matrix (sm w) i j) = None"
    using holds_pop [OF Nil(2)] Nil(1) by (metis list.distinct(1) option.exhaust)
  then show ?case
    using Nil by (intro exI [of _ "sm w"]) (simp add: deliver_list.simps put_same same_entities_def)
next
  case (Cons p ps)
  obtain h where h: "block_list (matrix (sm w) i j) = Some h"
    using holds_empty_list [OF Cons.prems] Cons.hyps(2) by (cases "block_list (matrix (sm w) i j)") auto
  let ?s = "free_item h (set_block_list i j (item_next (mem_pool (sm w) ! h)) (sm w))"
  have p: "item_payload (mem_pool (sm w) ! h) = p" and s: "holds ?s (n + 1) (put i j ps q)"
    using holds_pop [OF Cons.prems h] Cons.hyps(2) by auto
  let ?w = "(hand_over env i j p w)\<lparr>sm := ?s\<rparr>"
  have "deliver_list env i j w = deliver_list env i j ?w"
    using h by (subst deliver_list.simps) (simp add: deliver_item_eq [OF assms(1) h] p)
  moreover obtain s where "deliver_list env i j ?w = Some ((fold (hand_over env i j) ps ?w)\<lparr>sm := s\<rparr>)"
      "holds s (n + 1 + length ps) (put i j [] q)" "same_entities ?s s"
    using Cons.hyps(1) [of "put i j ps q" ?w "n + 1"] s by auto
  moreover have "fold (hand_over env i j) ps ?w = (fold (hand_over env i j) (q i j) w)\<lparr>sm := ?s\<rparr>"
    using Cons.hyps(2) [symmetric] by (simp add: fold_hand_over_apart [OF assms(1)] hand_over_sm [OF assms(1)])
  ultimately show ?case
    using Cons.hyps(2) [symmetric] by (intro exI [of _ s]) (simp add: same_entities_def)
qed

text \<open>The pairs that are gone through, and all that is handed over on the way.\<close>

definition sending :: "uxr_shared_memory_map_t \<Rightarrow> nat \<Rightarrow> bool" where
  "sending s i \<longleftrightarrow> uxrObjectId.type (entity_object_id (entities s ! i)) \<in> {UXR_DATAWRITER_ID, UXR_REPLIER_ID, UXR_REQUESTER_ID}"

definition row :: "nat \<Rightarrow> uxr_shared_memory_map_t \<Rightarrow> (nat \<times> nat) list" where
  "row i s = map (Pair i) [0..<entities_len s]"

definition rounds :: "uxr_shared_memory_map_t \<Rightarrow> (nat \<times> nat) list" where
  "rounds s = concat (map (\<lambda>i. row i s) (filter (sending s) [0..<entities_len s]))"

definition waiting_for :: "(nat \<Rightarrow> nat \<Rightarrow> 'a list) \<Rightarrow> (nat \<times> nat) list \<Rightarrow> (nat \<times> nat \<times> 'a) list" where
  "waiting_for q ps = concat (map (\<lambda>(i, j). map (\<lambda>p. (i, j, p)) (q i j)) ps)"

definition hand_all :: "'e sm_env \<Rightarrow> (nat \<times> nat \<times> payload) list \<Rightarrow> 'e sm_world \<Rightarrow> 'e sm_world" where
  "hand_all env = fold (\<lambda>(i, j, p). hand_over env i j p)"

definition drain :: "(nat \<times> nat) list \<Rightarrow> (nat \<Rightarrow> nat \<Rightarrow> 'a list) \<Rightarrow> nat \<Rightarrow> nat \<Rightarrow> 'a list" where
  "drain ps q i j = (if (i, j) \<in> set ps then [] else q i j)"

definition delivered ::
  "'e sm_env \<Rightarrow> nat \<Rightarrow> (nat \<Rightarrow> nat \<Rightarrow> payload list) \<Rightarrow> (nat \<times> nat) list \<Rightarrow> 'e sm_world \<Rightarrow> 'e sm_world option \<Rightarrow> bool"
where
  "delivered env n q ps w out \<longleftrightarrow> (\<exists>s. out = Some ((hand_all env (waiting_for q ps) w)\<lparr>sm := s\<rparr>) \<and>
     holds s (n + length (waiting_for q ps)) (drain ps q) \<and> same_entities (sm w) s)"

lemma hand_all_apart:
  assumes "outside_map env"
  shows "entities s = entities (sm w) \<Longrightarrow> hand_all env xs (w\<lparr>sm := s\<rparr>) = (hand_all env xs w)\<lparr>sm := s\<rparr>"
    and "sm (hand_all env xs w) = sm w"
  unfolding hand_all_def
  by (induction xs arbitrary: w) (auto simp: hand_over_apart [OF assms] hand_over_sm [OF assms])

lemma hand_all_list: "hand_all env (map (\<lambda>p. (i, j, p)) xs) w = fold (hand_over env i j) xs w"
  by (induction xs arbitrary: w) (simp_all add: hand_all_def)

lemma waiting_for_simps [simp]:
  "waiting_for q [] = []" "waiting_for q (ps @ qs) = waiting_for q ps @ waiting_for q qs"
  "waiting_for q [(i, j)] = map (\<lambda>p. (i, j, p)) (q i j)"
  by (simp_all add: waiting_for_def)

lemma waiting_for_drain: "set ps \<inter> set qs = {} \<Longrightarrow> waiting_for (drain ps q) qs = waiting_for q qs"
  unfolding waiting_for_def by (rule arg_cong [where f = concat]) (auto simp: drain_def)

lemma drain_nil [simp]: "drain [] q = q"
  by (simp add: drain_def fun_eq_iff)

lemma delivered_nil: "holds (sm w) n q \<Longrightarrow> delivered env n q [] w (Some w)"
  by (auto simp: delivered_def hand_all_def same_entities_def intro!: exI [of _ "sm w"])

lemma delivered_append:
  assumes "outside_map env" and "delivered env n q ps w (Some w1)"
    and "delivered env (n + length (waiting_for q ps)) (drain ps q) qs w1 out" and "set ps \<inter> set qs = {}"
  shows "delivered env n q (ps @ qs) w out"
proof -
  obtain s where s: "w1 = (hand_all env (waiting_for q ps) w)\<lparr>sm := s\<rparr>" "same_entities (sm w) s"
    using assms(2) by (auto simp: delivered_def)
  obtain s' where s': "out = Some ((hand_all env (waiting_for q qs) w1)\<lparr>sm := s'\<rparr>)"
      "holds s' (n + length (waiting_for q (ps @ qs))) (drain qs (drain ps q))" "same_entities (sm w1) s'"
    using assms(3) by (auto simp: delivered_def waiting_for_drain [OF assms(4)] add.assoc)
  have "hand_all env (waiting_for q qs) w1 = (hand_all env (waiting_for q qs) (hand_all env (waiting_for q ps) w))\<lparr>sm := s\<rparr>"
    using s by (simp add: hand_all_apart [OF assms(1)] same_entities_def)
  then have "hand_all env (waiting_for q qs) w1 = (hand_all env (waiting_for q (ps @ qs)) w)\<lparr>sm := s\<rparr>"
    by (simp add: hand_all_def)
  moreover have "drain qs (drain ps q) = drain (ps @ qs) q"
    by (auto simp: drain_def fun_eq_iff)
  ultimately show ?thesis
    using s s' unfolding delivered_def by (intro exI [of _ s']) (auto simp: same_entities_def)
qed

lemma delivered_list:
  assumes "outside_map env" and "holds (sm w) n q"
  shows "delivered env n q [(i, j)] w (deliver_list env i j w)"
proof -
  have "put i j [] q = drain [(i, j)] q"
    by (auto simp: put_def drain_def fun_eq_iff)
  then show ?thesis
    using deliver_list_eq [OF assms, of i j] by (simp add: delivered_def hand_all_list)
qed

lemma delivered_row:
  assumes "outside_map env" and "holds (sm w) n q" and "j \<le> entities_len (sm w)"
  shows "delivered env n q (map (Pair i) [j..<entities_len (sm w)]) w (deliver_row env i j w)"
  using assms(2,3)
proof (induction "entities_len (sm w) - j" arbitrary: j w n q)
  case 0
  then show ?case
    using delivered_nil by (subst deliver_row.simps) simp
next
  case (Suc k)
  have one: "delivered env n q [(i, j)] w (deliver_list env i j w)"
    by (rule delivered_list [OF assms(1) Suc.prems(1)])
  then obtain w1 where w1: "deliver_list env i j w = Some w1" "holds (sm w1) (n + length (waiting_for q [(i, j)])) (drain [(i, j)] q)"
      "entities_len (sm w1) = entities_len (sm w)"
    by (auto simp: delivered_def same_entities_def)
  have "delivered env (n + length (waiting_for q [(i, j)])) (drain [(i, j)] q) (map (Pair i) [Suc j..<entities_len (sm w)]) w1 (deliver_row env i (Suc j) w1)"
    using Suc.hyps(1) [of w1 "Suc j"] Suc.hyps(2) w1(2,3) by simp
  then have "delivered env n q ([(i, j)] @ map (Pair i) [Suc j..<entities_len (sm w)]) w (deliver_row env i (Suc j) w1)"
    using one w1(1) by (intro delivered_append [OF assms(1)]) auto
  moreover have "j < entities_len (sm w)"
    using Suc.hyps(2) by simp
  then have "deliver_row env i j w = deliver_row env i (Suc j) w1"
    using w1(1) by (subst deliver_row.simps) simp
  ultimately show ?case
    using Suc.hyps(2) by (simp add: upt_conv_Cons)
qed

lemma delivered_rows:
  assumes "outside_map env" and "holds (sm w) n q" and "i \<le> entities_len (sm w)"
  shows "delivered env n q (concat (map (\<lambda>i. row i (sm w)) (filter (sending (sm w)) [i..<entities_len (sm w)]))) w (deliver_rows env i w)"
  using assms(2,3)
proof (induction "entities_len (sm w) - i" arbitrary: i w n q)
  case 0
  then show ?case
    using delivered_nil by (subst deliver_rows.simps) simp
next
  case (Suc k)
  let ?rest = "\<lambda>w. concat (map (\<lambda>i. row i (sm w)) (filter (sending (sm w)) [Suc i..<entities_len (sm w)]))"
  have i: "i < entities_len (sm w)"
    using Suc.hyps(2) by simp
  show ?case
  proof (cases "sending (sm w) i")
    case False
    then have "deliver_rows env i w = deliver_rows env (Suc i) w"
      using i by (subst deliver_rows.simps) (simp add: sending_def Let_def)
    then show ?thesis
      using Suc.hyps(1) [of w "Suc i" n q] Suc.hyps(2) Suc.prems False by (simp add: upt_conv_Cons)
  next
    case True
    have one: "delivered env n q (row i (sm w)) w (deliver_row env i 0 w)"
      using delivered_row [OF assms(1) Suc.prems(1), of 0 i] by (simp add: row_def)
    then obtain w1 where w1: "deliver_row env i 0 w = Some w1" "holds (sm w1) (n + length (waiting_for q (row i (sm w)))) (drain (row i (sm w)) q)"
        "same_entities (sm w) (sm w1)"
      by (auto simp: delivered_def)
    have rest: "?rest w1 = ?rest w"
      using w1(3) by (simp add: same_entities_def sending_def [abs_def] row_def)
    have "delivered env (n + length (waiting_for q (row i (sm w)))) (drain (row i (sm w)) q) (?rest w) w1 (deliver_rows env (Suc i) w1)"
      using Suc.hyps(1) [of w1 "Suc i"] Suc.hyps(2) w1(2,3) rest by (simp add: same_entities_def)
    then have "delivered env n q (row i (sm w) @ ?rest w) w (deliver_rows env (Suc i) w1)"
      using one w1(1) by (intro delivered_append [OF assms(1)]) (auto simp: row_def)
    moreover have "deliver_rows env i w = deliver_rows env (Suc i) w1"
      using i w1(1) True by (subst deliver_rows.simps) (auto simp: sending_def Let_def)
    ultimately show ?thesis
      using Suc.hyps(2) True by (simp add: upt_conv_Cons)
  qed
qed

lemma handle_delivers:
  assumes "outside_map env" and "map_init (sm w)" and "holds (sm w) n q"
  shows "delivered env n q (rounds (sm w)) w (uxr_handle_shared_memory env w)"
  using delivered_rows [OF assms(1,3), of 0] assms(2) by (simp add: uxr_handle_shared_memory_def UXR_SHARED_MEMORY_INIT_def rounds_def)

text \<open>C32. With an application that stays outside the map, the handler ends. It goes through the pairs of an
  entity that sends and any other, in order, hands every waiting item to the function that the type of the
  receiving entity asks for, exactly once and in the order of the list, empties the lists it went through and
  gives their items back to the pool; lists of entities that do not send are left as they are.\<close>
theorem shared_memory_handle:
  assumes "outside_map env" and "map_init (sm w)" and "holds (sm w) n q"
  shows "\<exists>s. uxr_handle_shared_memory env w =
      Some ((hand_all env (waiting_for q (rounds (sm w))) w)\<lparr>sm := s\<rparr>) \<and>
    holds s (n + length (waiting_for q (rounds (sm w)))) (drain (rounds (sm w)) q) \<and> same_entities (sm w) s"
  using handle_delivers [OF assms] unfolding delivered_def .

section \<open>From writer to reader\<close>

text \<open>Several writings of one entity.\<close>

definition write_items :: "nat \<Rightarrow> uxrObjectId \<Rightarrow> payload list \<Rightarrow> 'e sm_world \<Rightarrow> 'e sm_world" where
  "write_items session entity_id = fold (\<lambda>(ub, d, r). uxr_prepare_shared_memory session entity_id ub d r)"

lemma get_entity_index_same:
  "same_entities s s' \<Longrightarrow> uxr_shared_memory_get_entity_index ss session i s' = uxr_shared_memory_get_entity_index ss session i s"
  by (simp add: uxr_shared_memory_get_entity_index_def same_entities_def)

lemma fold_prepare_for_same: "same_entities s (fold (prepare_for e ub d r) is s)"
  by (induction "is" arbitrary: s) (simp_all add: same_entities_def prepare_for_keeps)

lemma write_items_holds:
  assumes "holds (sm w) n q" and "map_init (sm w)"
    and "uxr_shared_memory_get_entity_index (sessions w) session entity_id (sm w) = Some e"
    and "js = filter (\<lambda>j. matched (matrix (sm w) e j)) [0..<entities_len (sm w)]"
    and "length xs * length js \<le> n"
  shows "\<exists>s. write_items session entity_id xs w = w\<lparr>sm := s\<rparr> \<and> same_entities (sm w) s \<and>
    holds s (n - length xs * length js) (\<lambda>k l. if k = e \<and> l \<in> set js then rev xs @ q k l else q k l)"
  using assms
proof (induction xs arbitrary: w n q)
  case Nil
  have "(\<lambda>k l. if k = e \<and> l \<in> set js then rev [] @ q k l else q k l) = q"
    by (simp add: fun_eq_iff)
  then show ?case
    using Nil.prems(1) by (intro exI [of _ "sm w"]) (simp add: write_items_def same_entities_def)
next
  case (Cons x xs)
  obtain ub d r where x: "x = (ub, d, r)"
    by (cases x)
  let ?s = "fold (prepare_for e ub d r) [0..<entities_len (sm w)] (sm w)"
  let ?q = "\<lambda>k l. if k = e \<and> l \<in> set js then x # q k l else q k l"
  have step: "write_items session entity_id (x # xs) w = write_items session entity_id xs (w\<lparr>sm := ?s\<rparr>)"
    using Cons.prems(2,3) by (simp add: write_items_def x uxr_prepare_shared_memory_def UXR_SHARED_MEMORY_INIT_def Let_def)
  have same: "same_entities (sm w) ?s"
    by (rule fold_prepare_for_same)
  have all: "take n js = js"
    using Cons.prems(5) by simp
  have "holds ?s (n - length js) ?q"
    using fold_prepare_for [OF Cons.prems(1) distinct_upt, where e = e and ub = ub and d = d and r = r and i1 = 0
        and j1 = "entities_len (sm w)", folded Cons.prems(4), unfolded all x [symmetric]] .
  moreover have "map_init ?s" "js = filter (\<lambda>j. matched (matrix ?s e j)) [0..<entities_len ?s]"
    using same Cons.prems(2,4) by (simp_all add: same_entities_def)
  ultimately have "\<exists>s. write_items session entity_id xs (w\<lparr>sm := ?s\<rparr>) = (w\<lparr>sm := ?s\<rparr>)\<lparr>sm := s\<rparr> \<and> same_entities (sm (w\<lparr>sm := ?s\<rparr>)) s \<and>
      holds s (n - length js - length xs * length js) (\<lambda>k l. if k = e \<and> l \<in> set js then rev xs @ ?q k l else ?q k l)"
    using Cons.prems(3,5) by (intro Cons.IH) (simp_all add: get_entity_index_same [OF same])
  then obtain s where "write_items session entity_id xs (w\<lparr>sm := ?s\<rparr>) = w\<lparr>sm := s\<rparr>" "same_entities ?s s"
      "holds s (n - length js - length xs * length js) (\<lambda>k l. if k = e \<and> l \<in> set js then rev xs @ ?q k l else ?q k l)"
    by auto
  moreover have "(\<lambda>k l. if k = e \<and> l \<in> set js then rev xs @ ?q k l else ?q k l) =
      (\<lambda>k l. if k = e \<and> l \<in> set js then rev (x # xs) @ q k l else q k l)"
    by (simp add: fun_eq_iff)
  ultimately show ?case
    using step same by (intro exI [of _ s]) (simp add: same_entities_def)
qed

text \<open>What waits when one entity has written for some others.\<close>

lemma waiting_for_one:
  assumes "sending s e" and "e < entities_len s" and "js = filter P [0..<entities_len s]"
  shows "waiting_for (\<lambda>k l. if k = e \<and> l \<in> set js then ps else []) (rounds s) =
    concat (map (\<lambda>j. map (\<lambda>p. (e, j, p)) ps) js)"
proof -
  let ?q = "\<lambda>k l. if k = e \<and> l \<in> set js then ps else []"
  obtain as bs where split: "filter (sending s) [0..<entities_len s] = as @ e # bs"
    using assms(1,2) split_list [of e "filter (sending s) [0..<entities_len s]"] by auto
  have "distinct (as @ e # bs)"
    unfolding split [symmetric] by simp
  have others: "waiting_for ?q (concat (map (\<lambda>i. row i s) is)) = []" if "e \<notin> set is" for "is"
    using that by (auto simp: waiting_for_def row_def)
  moreover have "concat (map (\<lambda>j. map (\<lambda>p. (e, j, p)) (if j \<in> set js then ps else [])) ls) =
      concat (map (\<lambda>j. map (\<lambda>p. (e, j, p)) ps) (filter (\<lambda>j. j \<in> set js) ls))" for ls
    by (induction ls) auto
  moreover have "filter (\<lambda>j. j \<in> set js) [0..<entities_len s] = js"
    unfolding assms(3) by (rule filter_cong) auto
  ultimately have "waiting_for ?q (row e s) = concat (map (\<lambda>j. map (\<lambda>p. (e, j, p)) ps) js)"
    by (simp add: waiting_for_def row_def comp_def)
  then show ?thesis
    using others \<open>distinct (as @ e # bs)\<close> by (simp add: rounds_def split)
qed

lemma hand_all_one:
  "hand_all env (concat (map (\<lambda>j. map (\<lambda>p. (e, j, p)) ps) js)) w = fold (\<lambda>j. fold (hand_over env e j) ps) js w"
  unfolding hand_all_def by (induction js arbitrary: w) (simp_all flip: hand_all_list [unfolded hand_all_def])

text \<open>C31. Everything one entity writes reaches every entity that matches it, exactly once, when there are
  items enough: but the last writing comes first, a list is not a queue. Afterwards all items are free again.\<close>
theorem shared_memory_newest_first:
  assumes "outside_map env" and "map_init (sm w)" and "holds (sm w) n (\<lambda>_ _. [])"
    and "uxr_shared_memory_get_entity_index (sessions w) session entity_id (sm w) = Some e" and "sending (sm w) e"
    and "js = filter (\<lambda>j. matched (matrix (sm w) e j)) [0..<entities_len (sm w)]"
    and "length xs * length js \<le> n"
  shows "\<exists>s. uxr_handle_shared_memory env (write_items session entity_id xs w) =
      Some ((fold (\<lambda>j. fold (hand_over env e j) (rev xs)) js w)\<lparr>sm := s\<rparr>) \<and>
    holds s n (\<lambda>_ _. []) \<and> same_entities (sm w) s"
proof -
  let ?q = "\<lambda>k l. if k = e \<and> l \<in> set js then rev xs else []"
  let ?n = "n - length xs * length js"
  have "(\<lambda>k l. if k = e \<and> l \<in> set js then rev xs @ [] else []) = ?q"
    by (simp only: append_Nil2)
  then obtain s where s: "write_items session entity_id xs w = w\<lparr>sm := s\<rparr>" "same_entities (sm w) s" "holds s ?n ?q"
    using write_items_holds [OF assms(3,2,4,6,7)] by metis
  have e: "e < entities_len s" "sending s e" "js = filter (\<lambda>j. matched (matrix s e j)) [0..<entities_len s]"
    using assms(4-6) s(2)
    by (auto simp: uxr_shared_memory_get_entity_index_def find_Some_iff same_entities_def sending_def)
  have wait: "waiting_for ?q (rounds s) = concat (map (\<lambda>j. map (\<lambda>p. (e, j, p)) (rev xs)) js)"
    by (rule waiting_for_one [OF e(2,1,3)])
  have "?n + length (waiting_for ?q (rounds s)) = n"
    using assms(7) unfolding wait by (simp add: length_concat comp_def sum_list_triv mult.commute)
  moreover have "drain (rounds s) ?q = (\<lambda>_ _. [])"
    using e by (auto simp: drain_def rounds_def row_def fun_eq_iff)
  moreover have "delivered env ?n ?q (rounds s) (w\<lparr>sm := s\<rparr>) (uxr_handle_shared_memory env (w\<lparr>sm := s\<rparr>))"
    using handle_delivers [OF assms(1), of "w\<lparr>sm := s\<rparr>" ?n ?q] s(2,3) assms(2) by (simp add: same_entities_def)
  ultimately obtain s' where "uxr_handle_shared_memory env (w\<lparr>sm := s\<rparr>) = Some ((hand_all env (waiting_for ?q (rounds s)) (w\<lparr>sm := s\<rparr>))\<lparr>sm := s'\<rparr>)"
      "holds s' n (\<lambda>_ _. [])" "same_entities s s'"
    by (auto simp: delivered_def)
  moreover have "hand_all env (waiting_for ?q (rounds s)) (w\<lparr>sm := s\<rparr>) = (fold (\<lambda>j. fold (hand_over env e j) (rev xs)) js w)\<lparr>sm := s\<rparr>"
    using s(2) hand_all_apart(1) [OF assms(1), of s w]
    unfolding wait hand_all_one by (simp add: same_entities_def hand_all_one [symmetric])
  ultimately show ?thesis
    using s(1,2) by (intro exI [of _ s']) (simp add: same_entities_def)
qed

section \<open>Which entities match\<close>

text \<open>Entities that are compared by their hashes.\<close>

definition all_hashed :: "(nat \<Rightarrow> u8 list) \<Rightarrow> uxr_shared_memory_map_t \<Rightarrow> bool" where
  "all_hashed h s \<longleftrightarrow> (\<forall>i < entities_len s. entity_type (entities s ! i) = UXR_SHARED_MEMORY_HASH_ENTITY \<and>
     entity_content (entities s ! i) = hash_data (h i))"

definition comparable :: "uxr_shared_memory_map_t \<Rightarrow> nat \<Rightarrow> nat \<Rightarrow> bool" where
  "comparable s i j \<longleftrightarrow> i \<noteq> j \<and> (let ki = uxrObjectId.type (entity_object_id (entities s ! i));
     kj = uxrObjectId.type (entity_object_id (entities s ! j)) in ki \<noteq> kj \<and> ki \<noteq> UXR_TOPIC_ID \<and> kj \<noteq> UXR_TOPIC_ID)"

definition same_hash :: "(nat \<Rightarrow> u8 list) \<Rightarrow> nat \<Rightarrow> nat \<Rightarrow> bool" where
  "same_hash h i j \<longleftrightarrow> take UXR_MATCHING_HASH_SIZE (h i) = take UXR_MATCHING_HASH_SIZE (h j)"

lemma match_pair_hashed:
  assumes "all_hashed h s" and "i < entities_len s" and "j < entities_len s"
  shows "match_pair i j s = Some (if comparable s i j then set_matched i j (same_hash h i j) s else s)"
  using assms by (auto simp: match_pair_def all_hashed_def comparable_def same_hash_def Let_def)

text \<open>Everything but the entries of the matrix that say what matches.\<close>

definition rematched :: "(nat \<Rightarrow> nat \<Rightarrow> bool) \<Rightarrow> uxr_shared_memory_map_t \<Rightarrow> uxr_shared_memory_map_t" where
  "rematched f s = s\<lparr>matrix := (\<lambda>i j. (matrix s i j)\<lparr>matched := f i j\<rparr>)\<rparr>"

definition verdict :: "(nat \<Rightarrow> u8 list) \<Rightarrow> uxr_shared_memory_map_t \<Rightarrow> (nat \<times> nat) set \<Rightarrow> nat \<Rightarrow> nat \<Rightarrow> bool" where
  "verdict h s P i j = (if (i, j) \<in> P \<and> comparable s i j then same_hash h i j else matched (matrix s i j))"

lemma rematched_keeps [simp]:
  "entities (rematched f s) = entities s" "entities_len (rematched f s) = entities_len s"
  "all_hashed h (rematched f s) = all_hashed h s" "comparable (rematched f s) = comparable s"
  by (simp_all add: rematched_def all_hashed_def comparable_def fun_eq_iff)

lemma match_pair_step:
  assumes "all_hashed h s" and "i < entities_len s" and "j < entities_len s"
  shows "match_pair i j (rematched (verdict h s P) s) = Some (rematched (verdict h s (insert (i, j) P)) s)"
proof -
  have "set_matched i j b (rematched f s) = rematched (f(i := (f i)(j := b))) s" for b f
    by (simp add: rematched_def set_matched_def fun_eq_iff)
  moreover have "verdict h s (insert (i, j) P) =
      (if comparable s i j then (verdict h s P)(i := (verdict h s P i)(j := same_hash h i j)) else verdict h s P)"
    by (auto simp: verdict_def fun_eq_iff)
  ultimately show ?thesis
    using match_pair_hashed [of h "rematched (verdict h s P) s" i j] assms by (auto split: if_splits)
qed

lemma match_row_step:
  assumes "all_hashed h s" and "i < entities_len s" and "set js \<subseteq> {..<entities_len s}"
  shows "for_each js (match_pair i) (rematched (verdict h s P) s) = Some (rematched (verdict h s (P \<union> Pair i ` set js)) s)"
  using assms(3)
proof (induction js arbitrary: P)
  case (Cons j js)
  then show ?case
    using match_pair_step [OF assms(1,2), of j P] by simp
qed simp

lemma match_rows_step:
  assumes "all_hashed h s" and "set is \<subseteq> {..<entities_len s}"
  shows "for_each is (\<lambda>i. for_each [0..<entities_len s] (match_pair i)) (rematched (verdict h s P) s) =
    Some (rematched (verdict h s (P \<union> set is \<times> {..<entities_len s})) s)"
  using assms(2)
proof (induction "is" arbitrary: P)
  case (Cons i "is")
  have "P \<union> Pair i ` set [0..<entities_len s] \<union> set is \<times> {..<entities_len s} = P \<union> set (i # is) \<times> {..<entities_len s}"
    by auto
  then show ?case
    using match_row_step [OF assms(1), of i "[0..<entities_len s]" P] Cons by (simp add: atLeast0LessThan)
qed simp

text \<open>When all entities are known by a hash, the matching is complete after every new entity: of each
  pair of entities of different kinds, topics aside, it says whether the hashes agree, whatever was
  said before and whichever of them came first; so it is symmetric. The kinds need not be those of a
  writer and its reader: a data reader also matches a requester. No item moves.\<close>
theorem shared_memory_matching:
  assumes "all_hashed h s"
  shows "\<exists>f. uxr_update_shared_memory_matching s = Some (rematched f s) \<and>
    (\<forall>i < entities_len s. \<forall>j < entities_len s. comparable s i j \<longrightarrow> f i j = same_hash h i j \<and> f j i = f i j) \<and>
    (\<forall>n q. holds (rematched f s) n q = holds s n q)"
proof (intro exI conjI)
  have "rematched (verdict h s {}) s = s"
    by (simp add: rematched_def verdict_def)
  then show "uxr_update_shared_memory_matching s = Some (rematched (verdict h s ({..<entities_len s} \<times> {..<entities_len s})) s)"
    using match_rows_step [OF assms, of "[0..<entities_len s]" "{}"] by (simp add: uxr_update_shared_memory_matching_def atLeast0LessThan)
  show "\<forall>i < entities_len s. \<forall>j < entities_len s. comparable s i j \<longrightarrow>
      verdict h s ({..<entities_len s} \<times> {..<entities_len s}) i j = same_hash h i j \<and>
      verdict h s ({..<entities_len s} \<times> {..<entities_len s}) j i = verdict h s ({..<entities_len s} \<times> {..<entities_len s}) i j"
    by (auto simp: verdict_def comparable_def same_hash_def Let_def)
  show "\<forall>n q. holds (rematched (verdict h s ({..<entities_len s} \<times> {..<entities_len s})) s) n q = holds s n q"
    by (intro allI holds_same_lists) (simp_all add: rematched_def)
qed

section \<open>Requests and replies\<close>

text \<open>The identity a requester gives to a request is recognised in the reply only if the identifier of the
  requester is below 256: the upper octet is shifted out again where it should be shifted in. Replies
  for any other requester are dropped.\<close>
theorem replies_only_small_ids:
  assumes "length k = CLIENT_KEY_SIZE" and "length (entityKey (entityId (writer_guid si))) = 3"
  shows "reply_is_for (request_identity si k oid r) k oid \<longleftrightarrow> uxrObjectId.id oid < 256"
proof -
  obtain a b c where key: "entityKey (entityId (writer_guid si)) = [a, b, c]"
    using assms(2) by (auto simp: numeral_3_eq_3 length_Suc_conv)
  have "drop_bit 8 (uint (x :: u8)) = 0" for x
    using uint_lt2p [of x] by (simp add: drop_bit_eq_div)
  moreover have "(uint (x :: u16) = uint ((ucast x :: u8) AND 0xFF)) = (x < 256)" for x
  proof -
    have "(0xFF :: u8) = - 1"
      by simp
    then have "uint ((ucast x :: u8) AND 0xFF) = uint x mod 256"
      by (simp only: bit.conj_one_right) (simp add: unsigned_ucast_eq take_bit_eq_mod)
    then show ?thesis
      using uint_ge_0 [of x] mod_pos_pos_trivial [of "uint x" 256] pos_mod_bound [of 256 "uint x"]
      by (auto simp: word_less_def)
  qed
  ultimately show ?thesis
    using assms(1) by (simp add: reply_is_for_def request_identity_def Let_def key)
qed

section \<open>The state after initialisation\<close>

text \<open>Making the pool leaves all items free and nothing waiting.\<close>

lemma holds_init: "holds (uxr_init_shared_memory zero_map) UXR_CONFIG_SHARED_MEMORY_STATIC_MEM_SIZE (\<lambda>_ _. [])"
proof -
  let ?L = "\<lambda>c :: place. if c = None then [9,8,7,6,5,4,3,2,1,0 :: nat] else []"
  have "[0..<10] = [0,1,2,3,4,5,6,7,8,9 :: nat]"
    by (simp add: upt_rec)
  then have pool: "length (mem_pool (uxr_init_shared_memory zero_map)) = 10"
    "mempool_freeitems (uxr_init_shared_memory zero_map) = Some 9"
    "matrix (uxr_init_shared_memory zero_map) = (\<lambda>_ _. \<lparr>matched = False, block_list = None\<rparr>)"
    "\<forall>i < 10. item_next (mem_pool (uxr_init_shared_memory zero_map) ! i) = (if i = 0 then None else Some (i - 1))"
    by (simp_all add: uxr_init_shared_memory_def zero_map_def free_item_def uxr_prepend_to_list_def
        UXR_CONFIG_SHARED_MEMORY_STATIC_MEM_SIZE_def All_less_Suc eval_nat_numeral)
  have "chain (mem_pool (uxr_init_shared_memory zero_map)) (heads (uxr_init_shared_memory zero_map) c) (?L c)" for c
    using pool by (cases c) (auto simp: heads_def split: prod.split)
  moreover have "x < 10 \<longleftrightarrow> x \<in> set (?L None)" for x
    by auto
  ultimately have "lists_ok (uxr_init_shared_memory zero_map) ?L"
    using pool by (auto simp: lists_ok_def split: option.splits)
  then show ?thesis
    unfolding holds_def by (intro exI [of _ ?L]) (simp add: UXR_CONFIG_SHARED_MEMORY_STATIC_MEM_SIZE_def)
qed

section \<open>Examples\<close>

text \<open>A writer and a reader that match, and an application that keeps a list of what it is told.\<close>

definition two_entities :: uxr_shared_memory_map_t where
  "two_entities = (let e = \<lparr>entity_object_id = uxr_object_id 1 UXR_DATAWRITER_ID, entity_session = 0,
       entity_type = UXR_SHARED_MEMORY_HASH_ENTITY, entity_content = hash_data [1, 2, 3, 4], related_topic = None\<rparr>
     in set_matched 0 1 True ((uxr_init_shared_memory zero_map)\<lparr>
       entities := [e, e\<lparr>entity_object_id := uxr_object_id 1 UXR_DATAREADER_ID\<rparr>], entities_len := 2\<rparr>))"

definition logging_env :: "SampleIdentity \<Rightarrow> (ucdrBuffer \<times> u16) list sm_env" where
  "logging_env si = \<lparr>sm_lib = ref_ucdr, sm_SampleIdentity = si,
     sm_on_topic = (\<lambda>f s oid rid sid ub n x w. w\<lparr>sm_ext := sm_ext w @ [(ub, n)]\<rparr>),
     sm_on_request = (\<lambda>f s oid rid si ub n x w. w), sm_on_reply = (\<lambda>f s oid rid sq ub n x w. w)\<rparr>"

definition two_world :: "mem \<Rightarrow> (ucdrBuffer \<times> u16) list sm_world" where
  "two_world m = \<lparr>sm = two_entities, sessions = (\<lambda>_. example_session\<lparr>on_topic := Some 0\<rparr>), sm_memory = m, sm_ext = []\<rparr>"

lemma logging_outside_map: "outside_map (logging_env si)"
  by (simp add: outside_map_def logging_env_def)

lemma two_entities_facts:
  "map_init two_entities" "holds two_entities 10 (\<lambda>_ _. [])" "sending two_entities 0"
  "entities_len two_entities = 2" "filter (\<lambda>j. matched (matrix two_entities 0 j)) [0..<entities_len two_entities] = [1]"
  "filter (\<lambda>j. matched (matrix two_entities 0 j)) [0..<2] = [1]"
proof -
  have keep: "map_init (fold free_item is s) = map_init s" "matched (matrix (fold free_item is s) i j) = matched (matrix s i j)" for "is" s i j
    by (induction "is" arbitrary: s) simp_all
  have init: "map_init (uxr_init_shared_memory zero_map)" "\<not> matched (matrix (uxr_init_shared_memory zero_map) i j)" for i j
    by (simp_all add: uxr_init_shared_memory_def keep zero_map_def)
  show "map_init two_entities" "sending two_entities 0" "entities_len two_entities = 2"
    using init by (simp_all add: two_entities_def set_matched_def sending_def uxr_object_id_def)
  have "holds two_entities 10 (\<lambda>_ _. []) = holds (uxr_init_shared_memory zero_map) 10 (\<lambda>_ _. [])"
    by (rule holds_same_lists) (simp_all add: two_entities_def set_matched_def)
  then show "holds two_entities 10 (\<lambda>_ _. [])"
    using holds_init by (simp add: UXR_CONFIG_SHARED_MEMORY_STATIC_MEM_SIZE_def)
  have "matched (matrix two_entities 0 j) = (j = 1)" for j
    using init by (simp add: two_entities_def set_matched_def)
  then show "filter (\<lambda>j. matched (matrix two_entities 0 j)) [0..<2] = [1]"
    by (simp add: numeral_2_eq_2)
  then show "filter (\<lambda>j. matched (matrix two_entities 0 j)) [0..<entities_len two_entities] = [1]"
    using \<open>entities_len two_entities = 2\<close> by simp
qed

lemma two_world_facts:
  "sm (two_world m) = two_entities"
  "uxr_shared_memory_get_entity_index (sessions (two_world m)) 0 (uxr_object_id 1 UXR_DATAWRITER_ID) two_entities = Some 0"
  by (simp_all add: two_world_def uxr_shared_memory_get_entity_index_def uxr_shared_memory_entity_compare_def
      two_entities_def set_matched_def numeral_2_eq_2)

theorem shared_memory_write_witness:
  "\<forall>m. \<exists>s. uxr_prepare_shared_memory 0 (uxr_object_id 1 UXR_DATAWRITER_ID) zero_buffer 5 6 (two_world m) = (two_world m)\<lparr>sm := s\<rparr> \<and>
    holds s 9 (\<lambda>k l. if k = 0 \<and> l = 1 then [(zero_buffer, 5, 6)] else [])"
proof
  fix m
  have "recipients 10 0 two_entities = [1]"
    by (simp add: recipients_def two_entities_facts)
  then show "\<exists>s. uxr_prepare_shared_memory 0 (uxr_object_id 1 UXR_DATAWRITER_ID) zero_buffer 5 6 (two_world m) = (two_world m)\<lparr>sm := s\<rparr> \<and>
      holds s 9 (\<lambda>k l. if k = 0 \<and> l = 1 then [(zero_buffer, 5, 6)] else [])"
    using shared_memory_write [where w = "two_world m" and n = 10 and q = "\<lambda>_ _. []" and e = 0 and session = 0
        and entity_id = "uxr_object_id 1 UXR_DATAWRITER_ID" and ub = zero_buffer and d = 5 and r = 6]
    by (simp add: two_world_facts two_entities_facts cong: if_cong)
qed

theorem shared_memory_handle_witness:
  "\<forall>si m. uxr_handle_shared_memory (logging_env si) (two_world m) \<noteq> None"
proof (intro allI)
  fix si m
  show "uxr_handle_shared_memory (logging_env si) (two_world m) \<noteq> None"
    using shared_memory_handle [OF logging_outside_map [of si], where w = "two_world m" and n = 10 and q = "\<lambda>_ _. []"]
    by (auto simp: two_world_facts two_entities_facts)
qed

theorem shared_memory_newest_first_witness:
  "\<forall>si m. \<exists>w. uxr_handle_shared_memory (logging_env si)
      (write_items 0 (uxr_object_id 1 UXR_DATAWRITER_ID) [(zero_buffer, 5, 6), (zero_buffer, 7, 8)] (two_world m)) = Some w \<and>
    sm_ext w = [(zero_buffer, 7), (zero_buffer, 5)]"
proof (intro allI)
  fix si m
  let ?xs = "[(zero_buffer, 5, 6), (zero_buffer, 7, 8)] :: payload list"
  obtain s where "uxr_handle_shared_memory (logging_env si) (write_items 0 (uxr_object_id 1 UXR_DATAWRITER_ID) ?xs (two_world m)) =
      Some ((fold (\<lambda>j. fold (hand_over (logging_env si) 0 j) (rev ?xs)) [1] (two_world m))\<lparr>sm := s\<rparr>)"
    using shared_memory_newest_first [OF logging_outside_map [of si], where w = "two_world m" and n = 10 and xs = ?xs and session = 0
        and entity_id = "uxr_object_id 1 UXR_DATAWRITER_ID" and e = 0 and js = "[1]"]
    by (auto simp: two_world_facts two_entities_facts)
  moreover have "hand_over (logging_env si) 0 1 (ub, n, r) w = w\<lparr>sm_ext := sm_ext w @ [(ub, n)]\<rparr>"
    if "sm w = two_entities" "sessions w = sessions (two_world m)" for ub n r w
    using that by (simp add: hand_over_def deliver_topic_def logging_env_def two_world_def two_entities_def set_matched_def
        uxr_object_id_def Let_def)
  ultimately show "\<exists>w. uxr_handle_shared_memory (logging_env si)
      (write_items 0 (uxr_object_id 1 UXR_DATAWRITER_ID) ?xs (two_world m)) = Some w \<and> sm_ext w = [(zero_buffer, 7), (zero_buffer, 5)]"
    by (simp add: two_world_facts) (simp add: two_world_def)
qed

theorem shared_memory_matching_witness:
  "\<exists>f. uxr_update_shared_memory_matching two_entities = Some (rematched f two_entities) \<and> f 0 1 \<and> f 1 0"
proof -
  have "all_hashed (\<lambda>_. [1, 2, 3, 4]) two_entities"
    by (auto simp: all_hashed_def two_entities_def set_matched_def Let_def less_Suc_eq numeral_2_eq_2)
  moreover have "comparable two_entities 0 1"
    by (simp add: comparable_def two_entities_def set_matched_def Let_def uxr_object_id_def UXR_DATAWRITER_ID_def
        UXR_DATAREADER_ID_def UXR_TOPIC_ID_def)
  ultimately show ?thesis
    using shared_memory_matching [of "\<lambda>_. [1, 2, 3, 4]" two_entities] by (auto simp: two_entities_facts same_hash_def)
qed

theorem replies_only_small_ids_witness:
  "let si = \<lparr>writer_guid = \<lparr>guidPrefix = \<lparr>GuidPrefix_t.data = replicate 12 0\<rparr>, entityId = \<lparr>entityKey = [0, 0, 0], entityKind = 0\<rparr>\<rparr>,
       sequence_number = \<lparr>high = 0, low = 0\<rparr>\<rparr>; k = [1, 2, 3, 4]
   in reply_is_for (request_identity si k (uxr_object_id 255 UXR_REQUESTER_ID) 7) k (uxr_object_id 255 UXR_REQUESTER_ID) \<and>
     \<not> reply_is_for (request_identity si k (uxr_object_id 256 UXR_REQUESTER_ID) 7) k (uxr_object_id 256 UXR_REQUESTER_ID)"
  unfolding Let_def
  by (subst (1 2) replies_only_small_ids) (simp_all add: uxr_object_id_def CLIENT_KEY_SIZE_def)

end
