(* ===== verification/MatchingFacts.thy ===== *)
theory MatchingFacts
  imports Matching "HOL-Library.Sublist"
begin

text \<open>What is proved about hashes and the search in XML.\<close>

section \<open>The hash\<close>

text \<open>Times 33 and the character, from 5381 on.\<close>

definition djb2 :: "u8 list \<Rightarrow> u32 \<Rightarrow> u32" where
  "djb2 cs h = foldl (\<lambda>h c. 33 * h + ucast c) h cs"

lemma djb2_append: "djb2 (xs @ ys) h = djb2 ys (djb2 xs h)"
  by (simp add: djb2_def)

lemma hash_step: "push_bit 5 h + h = 33 * (h :: u32)"
  by (simp add: push_bit_eq_mult)

lemma hash_chars_eq: "0 \<notin> set str \<Longrightarrow> hash_chars str h = djb2 (str @ [0]) h"
  by (induction str h rule: hash_chars.induct) (auto simp: djb2_def hash_step Let_def)

lemma hash_string_eq: "0 \<notin> set str \<Longrightarrow> hash_string str hash False = enc_w 4 LITTLE_ENDIANNESS (djb2 (str @ [0]) 5381)"
  by (simp add: hash_string_def hash_chars_eq UXR_MATCHING_HASH_SIZE_def)

lemma hash_string_more: "0 \<notin> set str \<Longrightarrow> hash_string str (enc_w 4 LITTLE_ENDIANNESS h) True =
    enc_w 4 LITTLE_ENDIANNESS (djb2 (str @ [0]) h)"
  by (simp add: hash_string_def hash_chars_eq UXR_MATCHING_HASH_SIZE_def)

lemma hash_from_strings:
  assumes "strs \<noteq> []" and "\<forall>s \<in> set strs. 0 \<notin> set s"
  shows "uxr_generate_hash_from_strings hash strs =
    (True, enc_w 4 LITTLE_ENDIANNESS (djb2 (concat (map (\<lambda>s. s @ [0]) strs)) 5381))"
proof -
  have "fold (\<lambda>s hash. hash_string s hash True) ss (enc_w 4 LITTLE_ENDIANNESS h) =
      enc_w 4 LITTLE_ENDIANNESS (djb2 (concat (map (\<lambda>s. s @ [0]) ss)) h)" if "\<forall>s \<in> set ss. 0 \<notin> set s" for ss h
    using that by (induction ss arbitrary: h) (auto simp: hash_string_more djb2_def)
  then show ?thesis
    using assms by (cases strs) (auto simp: uxr_generate_hash_from_strings_def hash_string_eq djb2_def)
qed

section \<open>Tags\<close>

lemma occurs_at_append [simp]: "occurs_at (xs @ ys) (length xs + i) s = occurs_at ys i s" "occurs_at (xs @ ys) (length xs) s = occurs_at ys 0 s"
  by (simp_all add: occurs_at_def)

lemma occurs_at_prefix: "occurs_at (s @ xs) 0 s"
  by (simp add: occurs_at_def)

lemma distance_to_append: "c \<notin> set xs \<Longrightarrow> distance_to c (xs @ c # ys) = Some (length xs)"
  by (induction xs) auto

text \<open>An occurrence of a tag behind a character is part of the text.\<close>

lemma occurs_sublist:
  assumes "occurs_at xml i s" and "0 < i" and "i + length s \<le> length xml"
  shows "sublist (xml ! (i - 1) # s) xml"
proof -
  have "xml = take (i - 1) xml @ (xml ! (i - 1) # s) @ drop (i + length s) xml"
    using assms append_take_drop_id [of "i - 1" xml] append_take_drop_id [of "length s" "drop i xml"]
      Cons_nth_drop_Suc [of "i - 1" xml]
    by (simp add: occurs_at_def add.commute)
  then show ?thesis
    by (metis sublist_appendI)
qed

lemma sublist_apart:
  assumes "c \<notin> set xs" shows "sublist xs (ys @ c # zs) = (sublist xs ys \<or> sublist xs zs)"
  using assms by (auto simp: sublist_append sublist_Cons_right prefix_Cons)

lemma no_occurrence:
  assumes "\<not> sublist (c # tag) xs" and "c \<notin> set tag" and "xml = xs @ c # ys" and "0 < i" and "i \<le> length xs"
  shows "\<not> (occurs_at xml i tag \<and> xml ! (i - 1) = c)"
proof
  assume o: "occurs_at xml i tag \<and> xml ! (i - 1) = c"
  have i: "i - 1 < length xs"
    using assms(4,5) by simp
  show False
  proof (cases "i + length tag \<le> length xs")
    case True
    then have "occurs_at xs i tag" "xs ! (i - 1) = c"
      using o assms(3-5) i by (simp_all add: occurs_at_def nth_append)
    then show False
      using occurs_sublist [of xs i tag] True assms(1,4) by simp
  next
    case False
    then have k: "length xs - i < length tag"
      using assms(5) by linarith
    have "tag ! (length xs - i) = take (length tag) (drop i xml) ! (length xs - i)"
      using o by (simp add: occurs_at_def)
    also have "\<dots> = drop i xml ! (length xs - i)"
      using k by (rule nth_take)
    also have "\<dots> = xml ! length xs"
      using assms(3,5) by (subst nth_drop) auto
    also have "\<dots> = c"
      using assms(3) by simp
    finally show False
      using k assms(2) nth_mem by metis
  qed
qed

section \<open>One tag\<close>

text \<open>Up to where the tag begins, and from there to where it ends.\<close>

lemma find_tag_opening:
  assumes "\<forall>j. i \<le> j \<and> j < p \<longrightarrow> \<not> (occurs_at xml (b + j) tag \<and> xml ! (b + j - 1) = of_char CHR ''<'')"
    and "i \<le> p" and "p \<le> len" and "b + len \<le> length xml"
  shows "find_tag_loop xml b len tag i False c = find_tag_loop xml b len tag p False c"
  using assms(1,2)
proof (induction "p - i" arbitrary: i)
  case (Suc k)
  have "i < len" "\<not> length xml < b + i" "\<not> (occurs_at xml (b + i) tag \<and> xml ! (b + i - 1) = of_char CHR ''<'')"
    using Suc assms(3,4) by auto
  then have "find_tag_loop xml b len tag i False c = find_tag_loop xml b len tag (Suc i) False c"
    by (subst find_tag_loop.simps) auto
  then show ?case
    using Suc.hyps(1) [of "Suc i"] Suc.hyps(2) Suc.prems by simp
qed simp

lemma find_tag_closing:
  assumes "\<forall>j. i \<le> j \<and> j < p \<longrightarrow> \<not> (occurs_at xml (b + j) tag \<and> xml ! (b + j - 1) = of_char CHR ''/'')"
    and "i \<le> p" and "p \<le> len" and "b + len \<le> length xml"
  shows "find_tag_loop xml b len tag i True c = find_tag_loop xml b len tag p True c"
  using assms(1,2)
proof (induction "p - i" arbitrary: i)
  case (Suc k)
  have "i < len" "\<not> length xml < b + i" "\<not> (occurs_at xml (b + i) tag \<and> xml ! (b + i - 1) = of_char CHR ''/'')"
    using Suc assms(3,4) by auto
  then have "find_tag_loop xml b len tag i True c = find_tag_loop xml b len tag (Suc i) True c"
    by (subst find_tag_loop.simps) auto
  then show ?case
    using Suc.hyps(1) [of "Suc i"] Suc.hyps(2) Suc.prems by simp
qed simp

text \<open>The first element with the tag in a part of the text: the tag does not begin before it nor end inside it.\<close>

definition element :: "u8 list \<Rightarrow> u8 list \<Rightarrow> u8 list" where
  "element tag content = of_char CHR ''<'' # tag @ of_char CHR ''>'' # content @ of_char CHR ''<'' # of_char CHR ''/'' # tag @ [of_char CHR ''>'']"

definition plain :: "u8 list \<Rightarrow> bool" where
  "plain tag \<longleftrightarrow> tag \<noteq> [] \<and> of_char CHR ''<'' \<notin> set tag \<and> of_char CHR ''/'' \<notin> set tag \<and> of_char CHR ''>'' \<notin> set tag"

lemma find_tag_begin:
  assumes tag: "plain tag"
    and before: "\<not> sublist (of_char CHR ''<'' # tag) pre"
    and xml: "xml = front @ (pre @ of_char CHR ''<'' # tag @ of_char CHR ''>'' # inside) @ rear"
    and len_def: "len = length (pre @ of_char CHR ''<'' # tag @ of_char CHR ''>'' # inside)"
  shows "find_tag_xml xml (length front) len tag c =
    find_tag_loop xml (length front) len tag (length pre + 2) True (length front + length pre + length tag + 2)"
proof -
  let ?b = "length front" and ?p = "Suc (length pre)"
  let ?rest = "tag @ of_char CHR ''>'' # inside @ rear"
  have xml1: "xml = front @ (pre @ of_char CHR ''<'' # ?rest)"
    and xml2: "xml = (front @ pre @ [of_char CHR ''<'']) @ ?rest"
    by (simp_all add: xml)
  have len: "?b + len \<le> length xml" "?p < len"
    by (simp_all add: xml len_def)
  have t: "of_char CHR ''<'' \<notin> set tag" "of_char CHR ''>'' \<notin> set tag"
    using tag by (simp_all add: plain_def)
  have "\<not> (occurs_at xml (?b + j) tag \<and> xml ! (?b + j - 1) = of_char CHR ''<'')" if "1 \<le> j" "j < ?p" for j
  proof -
    have "\<not> (occurs_at (pre @ of_char CHR ''<'' # ?rest) j tag \<and> (pre @ of_char CHR ''<'' # ?rest) ! (j - 1) = of_char CHR ''<'')"
      using that by (intro no_occurrence [OF before t(1) refl]) auto
    moreover have "?b + j - 1 = ?b + (j - 1)"
      using that by simp
    ultimately show ?thesis
      unfolding xml1 by (simp only: occurs_at_append nth_append_length_plus) simp
  qed
  then have "find_tag_loop xml ?b len tag 1 False c = find_tag_loop xml ?b len tag ?p False c"
    using len by (intro find_tag_opening) auto
  also have "\<dots> = find_tag_loop xml ?b len tag (length pre + 2) True (?b + length pre + length tag + 2)"
  proof -
    have "occurs_at xml (?b + ?p) tag" "drop (?b + ?p) xml = ?rest" "xml ! (?b + ?p - 1) = of_char CHR ''<''"
      unfolding xml2 by (simp_all add: occurs_at_def nth_append)
    then show ?thesis
      using len t(2) by (subst find_tag_loop.simps) (simp add: distance_to_append)
  qed
  finally show ?thesis
    by (simp add: find_tag_xml_def)
qed

text \<open>What is inside does not end the tag.\<close>

lemma find_tag_inside:
  assumes tag: "plain tag" and no: "\<not> sublist (of_char CHR ''/'' # tag) inside"
    and xml: "xml = front @ (tag @ of_char CHR ''>'' # inside) @ of_char CHR ''/'' # rear"
    and j: "length front < j" "j \<le> length (front @ tag @ of_char CHR ''>'' # inside)"
  shows "\<not> (occurs_at xml j tag \<and> xml ! (j - 1) = of_char CHR ''/'')"
proof -
  let ?xs = "tag @ of_char CHR ''>'' # inside"
  define k where "k = j - length front"
  have k: "0 < k" "k \<le> length ?xs" "j = length front + k" "j - 1 = length front + (k - 1)"
    using j unfolding k_def by auto
  have "\<not> sublist (of_char CHR ''/'' # tag) ?xs" "of_char CHR ''/'' \<notin> set tag"
    using tag no sublist_length_le [of "of_char CHR ''/'' # tag" tag] by (auto simp: sublist_apart plain_def)
  then have "\<not> (occurs_at (?xs @ of_char CHR ''/'' # rear) k tag \<and> (?xs @ of_char CHR ''/'' # rear) ! (k - 1) = of_char CHR ''/'')"
    using k by (intro no_occurrence [OF _ _ refl]) auto
  moreover have "xml = front @ (?xs @ of_char CHR ''/'' # rear)"
    by (simp add: xml)
  then have "occurs_at xml j tag = occurs_at (?xs @ of_char CHR ''/'' # rear) k tag"
    "xml ! (j - 1) = (?xs @ of_char CHR ''/'' # rear) ! (k - 1)"
    by (simp_all only: k(3) occurs_at_append) (simp only: k(4) [unfolded k(3)] nth_append_length_plus)
  ultimately show ?thesis
    by simp
qed

lemma find_tag_general:
  assumes tag: "plain tag"
    and before: "\<not> sublist (of_char CHR ''<'' # tag) pre"
    and within: "\<not> sublist (of_char CHR ''/'' # tag) (content @ [x])"
    and xml: "xml = front @ (pre @ of_char CHR ''<'' # tag @ of_char CHR ''>'' # content @ x # of_char CHR ''/'' # tag @ post) @ rear"
    and n: "length xml < SIZE_MOD"
    and len_def: "len = length (pre @ of_char CHR ''<'' # tag @ of_char CHR ''>'' # content @ x # of_char CHR ''/'' # tag @ post)"
  shows "find_tag_xml xml (length front) len tag c =
    Some (True, length front + length pre + length tag + 2, Some (length content))"
proof -
  let ?b = "length front" and ?c = "length front + length pre + length tag + 2"
  let ?f = "front @ pre @ of_char CHR ''<'' # tag @ of_char CHR ''>'' # content @ [x]"
  define q where "q = length pre + length tag + length content + 4"
  have "tag \<noteq> []"
    using tag by (simp add: plain_def)
  then have q: "?b + len \<le> length xml" "q < len" "?b + q = length (?f @ [of_char CHR ''/''])" "?b + q - 1 = length ?f"
    by (simp_all add: xml len_def q_def)
  have "find_tag_xml xml ?b len tag c = find_tag_loop xml ?b len tag (length pre + 2) True ?c"
    using find_tag_begin [OF tag before, of xml front "content @ x # of_char CHR ''/'' # tag @ post" rear len c] xml len_def by simp
  also have "\<dots> = find_tag_loop xml ?b len tag q True ?c"
  proof (rule find_tag_closing)
    have "xml = (front @ pre @ [of_char CHR ''<'']) @ (tag @ of_char CHR ''>'' # content @ [x]) @ of_char CHR ''/'' # tag @ post @ rear"
      by (simp add: xml)
    from find_tag_inside [OF tag within this]
    show "\<forall>j. length pre + 2 \<le> j \<and> j < q \<longrightarrow> \<not> (occurs_at xml (?b + j) tag \<and> xml ! (?b + j - 1) = of_char CHR ''/'')"
      by (simp add: q_def)
  qed (use q in \<open>simp_all add: q_def\<close>)
  also have "\<dots> = Some (True, ?c, Some (size_sub (?b + q - 2) ?c))"
  proof -
    have "occurs_at ((?f @ [of_char CHR ''/'']) @ tag @ post @ rear) (length (?f @ [of_char CHR ''/''])) tag"
      unfolding occurs_at_append by (rule occurs_at_prefix)
    moreover have "(?f @ [of_char CHR ''/''] @ tag @ post @ rear) ! length ?f = of_char CHR ''/''"
      by (simp only: nth_append_length append.simps)
    moreover have "xml = ?f @ [of_char CHR ''/''] @ tag @ post @ rear"
      by (simp add: xml)
    ultimately have f: "occurs_at xml (length (?f @ [of_char CHR ''/''])) tag" "xml ! length ?f = of_char CHR ''/''"
      by (simp_all only: append_assoc append.simps)
    have "occurs_at xml (?b + q) tag" "xml ! (?b + q - 1) = of_char CHR ''/''"
      unfolding q(4) unfolding q(3) by (rule f)+
    then show ?thesis
      using q(1,2) by (subst find_tag_loop.simps) simp
  qed
  finally show ?thesis
    using n by (simp add: size_sub_eq xml q_def)
qed

lemma find_tag_element:
  assumes tag: "plain tag"
    and "\<not> sublist (of_char CHR ''<'' # tag) pre" and "\<not> sublist (of_char CHR ''/'' # tag) content"
    and "xml = front @ (pre @ element tag content @ post) @ rear" and "length xml < SIZE_MOD"
  shows "find_tag_xml xml (length front) (length (pre @ element tag content @ post)) tag c =
    Some (True, length front + length pre + length tag + 2, Some (length content))"
proof -
  have "\<not> sublist (of_char CHR ''/'' # tag) (content @ [of_char CHR ''<''])"
    using assms(1,3) sublist_apart [of "of_char CHR ''<''" "of_char CHR ''/'' # tag" content "[]"] by (simp add: plain_def)
  then show ?thesis
    using assms by (intro find_tag_general [where x = "of_char CHR ''<''" and post = "of_char CHR ''>'' # post"])
      (simp_all add: element_def)
qed

text \<open>A tag that begins and does not end.\<close>

lemma find_tag_unclosed:
  assumes tag: "plain tag" and within: "\<not> sublist (of_char CHR ''/'' # tag) (content @ after)"
    and xml: "xml = front @ (of_char CHR ''<'' # tag @ of_char CHR ''>'' # content) @ after @ of_char CHR ''/'' # rear"
    and len_def: "len = length (of_char CHR ''<'' # tag @ of_char CHR ''>'' # content)"
  shows "\<exists>c'. find_tag_xml xml (length front) len tag c = Some (False, c', None)"
proof -
  let ?b = "length front" and ?c = "length front + length tag + 2"
  have "find_tag_xml xml ?b len tag c = find_tag_loop xml ?b len tag 2 True ?c"
    using find_tag_begin [OF tag, of "[]" xml front content "after @ of_char CHR ''/'' # rear" len c] xml len_def
    by (simp add: numeral_2_eq_2)
  also have "\<dots> = find_tag_loop xml ?b len tag len True ?c"
  proof (rule find_tag_closing)
    have "xml = (front @ [of_char CHR ''<'']) @ (tag @ of_char CHR ''>'' # content @ after) @ of_char CHR ''/'' # rear"
      by (simp add: xml)
    from find_tag_inside [OF tag within this]
    show "\<forall>j. 2 \<le> j \<and> j < len \<longrightarrow> \<not> (occurs_at xml (?b + j) tag \<and> xml ! (?b + j - 1) = of_char CHR ''/'')"
      by (simp add: len_def)
  qed (use xml len_def in simp_all)
  also have "\<dots> = Some (False, ?c, None)"
    by (subst find_tag_loop.simps) simp
  finally show ?thesis
    by blast
qed

section \<open>Documents\<close>

text \<open>Whether a tag begins or ends somewhere in an element.\<close>

lemma sublist_skip: "c \<notin> set xs \<Longrightarrow> sublist (c # s) (xs @ ys) = sublist (c # s) ys"
  by (induction xs) (auto simp: sublist_Cons_right)

lemma sublist_there: "c \<notin> set xs \<Longrightarrow> sublist (c # s) (c # xs) = prefix s xs"
  using sublist_skip [of c xs s "[]"] by (simp add: sublist_Cons_right)

lemma ends_in_element:
  assumes "plain s" and "plain tag"
  shows "sublist (of_char CHR ''/'' # s) (element tag content) = (sublist (of_char CHR ''/'' # s) content \<or> prefix s tag)"
proof -
  have "element tag content = (of_char CHR ''<'' # tag) @ of_char CHR ''>'' #
      (content @ of_char CHR ''<'' # ((of_char CHR ''/'' # tag) @ of_char CHR ''>'' # []))"
    by (simp add: element_def)
  moreover have "\<not> sublist (of_char CHR ''/'' # s) (of_char CHR ''<'' # tag)"
    using sublist_skip [of "of_char CHR ''/''" "of_char CHR ''<'' # tag" s "[]"] assms(2) by (simp add: plain_def)
  ultimately show ?thesis
    using assms sublist_there [of "of_char CHR ''/''" tag s] by (simp add: sublist_apart plain_def del: append.simps)
qed

lemma begins_in_element:
  assumes "plain s" and "plain tag" and "of_char CHR ''<'' \<notin> set content"
  shows "sublist (of_char CHR ''<'' # s) (element tag content) = prefix s tag"
proof -
  have "element tag content = (of_char CHR ''<'' # tag) @ of_char CHR ''>'' #
      ((content @ of_char CHR ''<'' # of_char CHR ''/'' # tag) @ of_char CHR ''>'' # [])"
    by (simp add: element_def)
  moreover have "\<not> sublist (of_char CHR ''<'' # s) (content @ of_char CHR ''<'' # of_char CHR ''/'' # tag)"
    using assms sublist_there [of "of_char CHR ''<''" "of_char CHR ''/'' # tag" s]
    by (cases s) (auto simp: sublist_skip plain_def)
  moreover have "of_char CHR ''>'' \<notin> set (of_char CHR ''<'' # s)" "\<not> sublist (of_char CHR ''<'' # s) []"
    using assms by (simp_all add: plain_def)
  ultimately show ?thesis
    using assms sublist_there [of "of_char CHR ''<''" tag s] unfolding plain_def by (metis sublist_apart)
qed

text \<open>Elements in each other.\<close>

fun nest :: "u8 list list \<Rightarrow> u8 list \<Rightarrow> u8 list" where
  "nest [] content = content"
| "nest (tag # tags) content = element tag (nest tags content)"

lemma ends_in_nest:
  assumes "plain s" and "\<forall>tag \<in> set tags. plain tag \<and> \<not> prefix s tag" and "\<not> sublist (of_char CHR ''/'' # s) content"
  shows "\<not> sublist (of_char CHR ''/'' # s) (nest tags content)"
  using assms(2)
proof (induction tags)
  case (Cons tag tags)
  then have "plain tag" "\<not> prefix s tag" "\<not> sublist (of_char CHR ''/'' # s) (nest tags content)"
    by simp_all
  then show ?case
    unfolding nest.simps by (simp only: ends_in_element [OF assms(1)] simp_thms)
qed (simp only: nest.simps assms(3) simp_thms)

lemma find_nested_nest:
  assumes "\<forall>tag \<in> set tags. plain tag \<and> \<not> sublist (of_char CHR ''/'' # tag) content"
    and "sorted_wrt (\<lambda>s t. \<not> prefix s t) tags"
    and "xml = front @ nest tags content @ rear" and "length xml < SIZE_MOD"
  shows "\<exists>front1 back1. xml = front1 @ content @ back1 \<and>
    find_nested xml tags (length front) (length (nest tags content)) = Some (Some (length front1, length content))"
  using assms
proof (induction tags arbitrary: front rear)
  case (Cons tag tags)
  let ?front = "front @ of_char CHR ''<'' # tag @ [of_char CHR ''>'']"
  have "\<not> sublist (of_char CHR ''/'' # tag) (nest tags content)"
    using Cons.prems by (intro ends_in_nest) simp_all
  then have "find_tag_xml xml (length front) (length (nest (tag # tags) content)) tag c =
      Some (True, length ?front, Some (length (nest tags content)))" for c
    using find_tag_element [of tag "[]" "nest tags content" xml front "[]" rear c] Cons.prems by simp
  moreover have "xml = ?front @ nest tags content @ (of_char CHR ''<'' # of_char CHR ''/'' # tag @ of_char CHR ''>'' # rear)"
    using Cons.prems(3) by (simp add: element_def)
  ultimately show ?case
    using Cons.IH [of ?front] Cons.prems by simp
qed auto


lemma length_element: "length (element tag content) = 2 * length tag + length content + 5"
  by (simp add: element_def)

lemma elements_apart:
  assumes "plain s"
  shows "sublist (of_char CHR ''/'' # s) (element tag content @ ys) =
    (sublist (of_char CHR ''/'' # s) (element tag content) \<or> sublist (of_char CHR ''/'' # s) ys)"
proof -
  let ?e = "of_char CHR ''<'' # tag @ of_char CHR ''>'' # content @ of_char CHR ''<'' # of_char CHR ''/'' # tag"
  have "element tag content = ?e @ of_char CHR ''>'' # []" "element tag content @ ys = ?e @ of_char CHR ''>'' # ys"
    by (simp_all add: element_def)
  moreover have "of_char CHR ''>'' \<notin> set (of_char CHR ''/'' # s)" "\<not> sublist (of_char CHR ''/'' # s) []"
    using assms by (simp_all add: plain_def)
  ultimately show ?thesis
    by (metis sublist_apart)
qed

lemma append_part_all:
  assumes "xml = front @ part @ rear" and "length buf + length part \<le> NAME_TYPE_BUFFER"
  shows "append_part buf xml (length front) (length part) = Some (buf @ part)"
  using assms by (simp add: append_part_def)

section \<open>Topics in XML\<close>

definition topic_xml :: "u8 list \<Rightarrow> u8 list \<Rightarrow> u8 list \<Rightarrow> u8 list" where
  "topic_xml tag name ty = nest [ascii ''dds'', tag, ascii ''topic'']
     (element (ascii ''name'') name @ element (ascii ''dataType'') ty)"

definition quiet :: "u8 list \<Rightarrow> u8 list \<Rightarrow> bool" where
  "quiet tag text \<longleftrightarrow> of_char CHR ''<'' \<notin> set text \<and>
     (\<forall>s \<in> {ascii ''dds'', tag, ascii ''topic'', ascii ''name'', ascii ''dataType''}. \<not> sublist (of_char CHR ''/'' # s) text)"

lemma plain_tags: "plain (ascii ''dds'')" "plain (ascii ''data_reader'')" "plain (ascii ''data_writer'')" "plain (ascii ''topic'')"
  "plain (ascii ''name'')" "plain (ascii ''dataType'')"
  by (simp_all add: plain_def ascii_def)

lemma ends_in_topic:
  assumes "plain s" and "\<not> prefix s (ascii ''name'')" and "\<not> prefix s (ascii ''dataType'')"
    and "\<not> sublist (of_char CHR ''/'' # s) name" and "\<not> sublist (of_char CHR ''/'' # s) ty"
  shows "\<not> sublist (of_char CHR ''/'' # s) (element (ascii ''name'') name @ element (ascii ''dataType'') ty)"
  unfolding elements_apart [OF assms(1)] ends_in_element [OF assms(1) plain_tags(5)] ends_in_element [OF assms(1) plain_tags(6)]
  using assms(2-5) by blast

lemma topic_hash_xml:
  assumes tag: "tag = ascii ''data_reader'' \<or> tag = ascii ''data_writer''" and q: "quiet tag name" "quiet tag ty"
    and n: "length name + length ty < NAME_TYPE_BUFFER" and z: "0 \<notin> set name" "0 \<notin> set ty"
  shows "topic_hash tag (topic_xml tag name ty) hash =
    Some (True, enc_w 4 LITTLE_ENDIANNESS (djb2 (name @ ty @ [0]) 5381))"
proof -
  let ?tags = "[ascii ''dds'', tag, ascii ''topic'']" and ?xml = "topic_xml tag name ty"
  let ?name = "element (ascii ''name'') name" and ?type = "element (ascii ''dataType'') ty"
  have tags: "\<forall>t \<in> set ?tags. plain t"
    using tag plain_tags by auto
  have less: "length ?xml < SIZE_MOD"
    using tag n by (auto simp: topic_xml_def length_element ascii_def NAME_TYPE_BUFFER_def)
  have "\<forall>t \<in> set ?tags. \<not> sublist (of_char CHR ''/'' # t) (?name @ ?type)"
  proof
    fix t assume t: "t \<in> set ?tags"
    then have "\<not> prefix t (ascii ''name'')" "\<not> prefix t (ascii ''dataType'')"
      using tag by (auto simp: ascii_def)
    moreover have "\<not> sublist (of_char CHR ''/'' # t) name" "\<not> sublist (of_char CHR ''/'' # t) ty"
      using t q unfolding quiet_def by auto
    ultimately show "\<not> sublist (of_char CHR ''/'' # t) (?name @ ?type)"
      using t tags by (intro ends_in_topic) auto
  qed
  moreover have "sorted_wrt (\<lambda>s t. \<not> prefix s t) ?tags"
    using tag by (auto simp: ascii_def)
  ultimately have c: "\<forall>t \<in> set ?tags. plain t \<and> \<not> sublist (of_char CHR ''/'' # t) (?name @ ?type)"
      "sorted_wrt (\<lambda>s t. \<not> prefix s t) ?tags"
    using tags by blast+
  have "?xml = [] @ nest ?tags (?name @ ?type) @ []"
    by (simp only: topic_xml_def append_Nil append_Nil2)
  from find_nested_nest [OF c this less]
  obtain front1 back1 where f: "?xml = front1 @ (?name @ ?type) @ back1"
      "find_nested ?xml ?tags 0 (length ?xml) = Some (Some (length front1, length (?name @ ?type)))"
    unfolding topic_xml_def list.size by blast
  have 1: "find_tag_xml ?xml (length front1) (length (?name @ ?type)) (ascii ''name'') c =
      Some (True, length (front1 @ of_char CHR ''<'' # ascii ''name'' @ [of_char CHR ''>'']), Some (length name))" for c
    using find_tag_element [OF plain_tags(5), of "[]" name ?xml front1 ?type back1 c] f(1) q less by (simp add: quiet_def)
  have 2: "find_tag_xml ?xml (length front1) (length (?name @ ?type)) (ascii ''dataType'') c =
      Some (True, length (front1 @ ?name @ of_char CHR ''<'' # ascii ''dataType'' @ [of_char CHR ''>'']), Some (length ty))" for c
  proof -
    have "\<not> prefix (ascii ''dataType'') (ascii ''name'')"
      by (simp add: ascii_def)
    then have "\<not> sublist (of_char CHR ''<'' # ascii ''dataType'') ?name"
      using q(1) plain_tags by (simp only: quiet_def begins_in_element simp_thms)
    moreover have "\<not> sublist (of_char CHR ''/'' # ascii ''dataType'') ty"
      using q(2) unfolding quiet_def by blast
    ultimately show ?thesis
      using find_tag_element [OF plain_tags(6), of ?name ty ?xml front1 "[]" back1 c] f(1) less by simp
  qed
  have "append_part [] ?xml (length (front1 @ of_char CHR ''<'' # ascii ''name'' @ [of_char CHR ''>''])) (length name) = Some name"
    using n f(1) by (subst append_part_all [where part = name]) (auto simp: element_def)
  moreover have "append_part name ?xml (length (front1 @ ?name @ of_char CHR ''<'' # ascii ''dataType'' @ [of_char CHR ''>''])) (length ty) =
      Some (name @ ty)"
    using n f(1) by (subst append_part_all [where part = ty]) (auto simp: element_def)
  ultimately show ?thesis
    using n z unfolding topic_hash_def f(2) by (simp only: bind.simps option.case prod.case 1 2) (simp add: hash_string_eq)
qed


lemma xml_of_topic:
  assumes "uxrObjectId.type i = UXR_DATAREADER_ID \<and> tag = ascii ''data_reader'' \<or>
      uxrObjectId.type i = UXR_DATAWRITER_ID \<and> tag = ascii ''data_writer''"
  shows "uxr_generate_hash_from_xml xml i hash = topic_hash tag xml hash"
  using assms by (auto simp: uxr_generate_hash_from_xml_def UXR_DATAREADER_ID_def UXR_DATAWRITER_ID_def
      UXR_REQUESTER_ID_def UXR_REPLIER_ID_def)

text \<open>Of the XML of a reader or writer counts the name of its topic followed by that of its type, with
  nothing between them: entities match that have the same names in a row.\<close>
theorem xml_hash_of_topic:
  assumes "uxrObjectId.type i = UXR_DATAREADER_ID \<and> tag = ascii ''data_reader'' \<or>
      uxrObjectId.type i = UXR_DATAWRITER_ID \<and> tag = ascii ''data_writer''"
    and "quiet tag name" and "quiet tag ty" and "length name + length ty < NAME_TYPE_BUFFER" and "0 \<notin> set name" and "0 \<notin> set ty"
  shows "uxr_generate_hash_from_xml (topic_xml tag name ty) i hash =
    Some (True, enc_w 4 LITTLE_ENDIANNESS (djb2 (name @ ty @ [0]) 5381))"
proof -
  have "tag = ascii ''data_reader'' \<or> tag = ascii ''data_writer''"
    using assms(1) by blast
  then show ?thesis
    using topic_hash_xml [OF _ assms(2-6)] xml_of_topic [OF assms(1)] by simp
qed

lemma find_nested_append:
  "find_nested xml (ts @ us) p n = do { inner \<leftarrow> find_nested xml ts p n;
     (case inner of None \<Rightarrow> Some None | Some (p1, n1) \<Rightarrow> find_nested xml us p1 n1) }"
  by (induction ts arbitrary: p n) (auto simp: bind_assoc option.case_distrib split_beta cong: option.case_cong split: bind_splits option.splits)

text \<open>A topic whose name has a slash before the word topic ends its own tag: the name is cut and its end
  not found, and the length that is used then was never written.\<close>
theorem xml_topic_name_cut:
  assumes "uxrObjectId.type i = UXR_DATAREADER_ID \<and> tag = ascii ''data_reader'' \<or>
      uxrObjectId.type i = UXR_DATAWRITER_ID \<and> tag = ascii ''data_writer''"
    and "name = start @ [x] @ ascii ''/topic'' @ rest" and "quiet tag (start @ [x])" and "of_char CHR ''<'' \<notin> set rest"
    and "\<forall>s \<in> {ascii ''dds'', tag}. \<not> sublist (of_char CHR ''/'' # s) name" and "quiet tag ty"
    and "length name + length ty < SIZE_MOD - 1000"
  shows "uxr_generate_hash_from_xml (topic_xml tag name ty) i hash = None"
proof -
  let ?xml = "topic_xml tag name ty" and ?tags = "[ascii ''dds'', tag]"
  let ?name = "element (ascii ''name'') name" and ?type = "element (ascii ''dataType'') ty"
  let ?topic = "element (ascii ''topic'') (?name @ ?type)"
  have less: "length ?xml < SIZE_MOD"
    using assms(1,7) by (auto simp: topic_xml_def length_element ascii_def)
  have c: "\<forall>t \<in> set ?tags. plain t \<and> \<not> sublist (of_char CHR ''/'' # t) ?topic" "sorted_wrt (\<lambda>s t. \<not> prefix s t) ?tags"
  proof -
    show "\<forall>t \<in> set ?tags. plain t \<and> \<not> sublist (of_char CHR ''/'' # t) ?topic"
    proof
      fix t assume t: "t \<in> set ?tags"
      then have p: "plain t" "\<not> prefix t (ascii ''topic'')" "\<not> prefix t (ascii ''name'')" "\<not> prefix t (ascii ''dataType'')"
        using assms(1) plain_tags by (auto simp: ascii_def)
      have "\<not> sublist (of_char CHR ''/'' # t) name" "\<not> sublist (of_char CHR ''/'' # t) ty"
        using t assms(5,6) unfolding quiet_def by auto
      then show "plain t \<and> \<not> sublist (of_char CHR ''/'' # t) ?topic"
        using p ends_in_topic [OF p(1,3,4)] unfolding ends_in_element [OF p(1) plain_tags(4)] by blast
    qed
    show "sorted_wrt (\<lambda>s t. \<not> prefix s t) ?tags"
      using assms(1) by (auto simp: ascii_def)
  qed
  have x: "nest ?tags ?topic = ?xml"
    by (simp add: topic_xml_def)
  then have "?xml = [] @ nest ?tags ?topic @ []"
    by (simp only: append_Nil append_Nil2)
  from find_nested_nest [OF c this less]
  obtain front1 back1 where f: "?xml = front1 @ ?topic @ back1"
      "find_nested ?xml ?tags 0 (length ?xml) = Some (Some (length front1, length ?topic))"
    unfolding x list.size by blast
  let ?front = "front1 @ of_char CHR ''<'' # ascii ''topic'' @ [of_char CHR ''>'']"
  let ?cut = "of_char CHR ''<'' # ascii ''name'' @ of_char CHR ''>'' # start"
  define tail where "tail = rest @ of_char CHR ''<'' # of_char CHR ''/'' # ascii ''name'' @ of_char CHR ''>'' # ?type @
    of_char CHR ''<'' # of_char CHR ''/'' # ascii ''topic'' @ [of_char CHR ''>'']"
  have topic: "?topic = of_char CHR ''<'' # ascii ''topic'' @ of_char CHR ''>'' # ?cut @ x # of_char CHR ''/'' # ascii ''topic'' @ tail"
    by (simp add: element_def assms(2) tail_def) (simp add: ascii_def)
  have quiet: "\<not> sublist (of_char CHR ''/'' # ascii ''topic'') (start @ [x])" "\<not> sublist (of_char CHR ''/'' # ascii ''name'') (start @ [x])"
    using assms(3) unfolding quiet_def by blast+
  have w: "\<not> sublist (of_char CHR ''/'' # ascii ''topic'') (?cut @ [x])"
  proof -
    have "?cut @ [x] = (of_char CHR ''<'' # ascii ''name'') @ of_char CHR ''>'' # (start @ [x])"
      by simp
    moreover have "of_char CHR ''>'' \<notin> set (of_char CHR ''/'' # ascii ''topic'')"
        "\<not> sublist (of_char CHR ''/'' # ascii ''topic'') (of_char CHR ''<'' # ascii ''name'')"
      by (simp_all add: ascii_def sublist_Cons_right)
    ultimately show ?thesis
      using quiet(1) by (metis sublist_apart)
  qed
  have e: "?xml = front1 @ ([] @ of_char CHR ''<'' # ascii ''topic'' @ of_char CHR ''>'' # ?cut @ x # of_char CHR ''/'' # ascii ''topic'' @ tail) @ back1"
    unfolding append_Nil by (rule f(1) [unfolded topic])
  have "find_tag_xml ?xml (length front1) (length ?topic) (ascii ''topic'') c = Some (True, length ?front, Some (length ?cut))" for c
    using find_tag_general [OF plain_tags(4) _ w e less, of "length ?topic" c] topic by simp
  then have "find_nested ?xml [ascii ''topic''] (length front1) (length ?topic) = Some (Some (length ?front, length ?cut))"
    by simp
  then have n: "find_nested ?xml [ascii ''dds'', tag, ascii ''topic''] 0 (length ?xml) = Some (Some (length ?front, length ?cut))"
    using find_nested_append [of ?xml ?tags "[ascii ''topic'']" 0 "length ?xml", unfolded f(2)]
    by (simp only: append.simps bind.bind_lunit option.case prod.case)
  obtain c' where "find_tag_xml ?xml (length ?front) (length ?cut) (ascii ''name'') (length ?front) = Some (False, c', None)"
  proof -
    have "?xml = ?front @ ?cut @ [x] @ of_char CHR ''/'' # (ascii ''topic'' @ tail @ back1)"
      using e by simp
    from find_tag_unclosed [OF plain_tags(5) quiet(2) this refl] that show ?thesis
      by blast
  qed
  then show ?thesis
    by (simp only: xml_of_topic [OF assms(1)] topic_hash_def n bind.bind_lunit option.case prod.case bind.bind_lzero)
qed


theorem xml_hash_of_topic_witness:
  "\<forall>hash. uxr_generate_hash_from_xml (topic_xml (ascii ''data_reader'') (ascii ''chat'') (ascii ''ter'')) (uxr_object_id 1 UXR_DATAREADER_ID) hash =
    uxr_generate_hash_from_xml (topic_xml (ascii ''data_writer'') (ascii ''chatt'') (ascii ''er'')) (uxr_object_id 2 UXR_DATAWRITER_ID) hash"
proof
  fix hash
  have "uxrObjectId.type (uxr_object_id n k) = k" for n k
    by (simp add: uxr_object_id_def)
  moreover have "quiet (ascii ''data_reader'') (ascii s) \<and> quiet (ascii ''data_writer'') (ascii s) \<and> 0 \<notin> set (ascii s) \<and> length (ascii s) < 50"
    if "s \<in> {''chat'', ''ter'', ''chatt'', ''er''}" for s
    using that by (auto simp: quiet_def ascii_def sublist_Cons_right)
  ultimately show "uxr_generate_hash_from_xml (topic_xml (ascii ''data_reader'') (ascii ''chat'') (ascii ''ter'')) (uxr_object_id 1 UXR_DATAREADER_ID) hash =
    uxr_generate_hash_from_xml (topic_xml (ascii ''data_writer'') (ascii ''chatt'') (ascii ''er'')) (uxr_object_id 2 UXR_DATAWRITER_ID) hash"
    using xml_hash_of_topic [of "uxr_object_id 1 UXR_DATAREADER_ID" "ascii ''data_reader''" "ascii ''chat''" "ascii ''ter''" hash]
      xml_hash_of_topic [of "uxr_object_id 2 UXR_DATAWRITER_ID" "ascii ''data_writer''" "ascii ''chatt''" "ascii ''er''" hash]
    by (simp add: NAME_TYPE_BUFFER_def) (simp add: ascii_def)
qed

theorem xml_topic_name_cut_witness:
  "\<forall>hash. uxr_generate_hash_from_xml (topic_xml (ascii ''data_writer'') (ascii ''rt/topic'') (ascii ''T'')) (uxr_object_id 1 UXR_DATAWRITER_ID) hash = None"
proof (rule allI, rule xml_topic_name_cut)
  show "ascii ''rt/topic'' = ascii ''r'' @ [of_char CHR ''t''] @ ascii ''/topic'' @ []"
    by (simp add: ascii_def)
qed (simp_all add: uxr_object_id_def quiet_def ascii_def sublist_Cons_right)

end
