(* ===== verification/Posix.thy ===== *)
theory Posix
  imports TcpTransport
begin

text \<open>
  What the transports leave to the platform, on POSIX systems: the files \<open>*_posix.c\<close> under
  \<open>src/c/profile/transport\<close>. The system calls are parameters, on a state of the system; a call that
  fails is \<open>None\<close> where it would give a length, and \<open>-1\<close> where it gives a number. An address is what
  \<open>getaddrinfo\<close> gives, in one string of octets.
\<close>

section \<open>The system\<close>

datatype socket_domain = AF_INET | AF_INET6 | PF_CAN
datatype socket_type = SOCK_DGRAM | SOCK_STREAM | SOCK_RAW
datatype poll_events = NO_EVENTS | POLLIN | POLLOUT

type_synonym sockaddr = "u8 list"

record pollfd =
  fd :: int
  events :: poll_events

text \<open>A frame of a CAN bus, as \<open>struct canfd_frame\<close> of the system has it: 64 octets of data.\<close>

record canfd_frame =
  frame_can_id :: u32
  frame_len :: u8
  frame_data :: "u8 list"

definition CANFD_MAX_DLEN :: nat where "CANFD_MAX_DLEN = 64"
definition CANFD_MTU :: nat where "CANFD_MTU = 72"
definition CAN_EFF_FLAG :: u32 where "CAN_EFF_FLAG = 0x80000000"
definition CAN_EFF_MASK :: u32 where "CAN_EFF_MASK = 0x1FFFFFFF"

text \<open>
  \<open>sys_read_frame\<close> reads into a frame that is zero: octets that are not read stay. The calls that set up
  a CAN socket say whether they failed; the index of the interface is not looked at.
\<close>

record 'os posix =
  sys_socket :: "socket_domain \<Rightarrow> socket_type \<Rightarrow> 'os \<Rightarrow> int \<times> 'os"
  sys_getaddrinfo :: "socket_domain \<Rightarrow> socket_type \<Rightarrow> string \<Rightarrow> string \<Rightarrow> 'os \<Rightarrow> sockaddr list option \<times> 'os"
  sys_connect :: "int \<Rightarrow> sockaddr \<Rightarrow> 'os \<Rightarrow> int \<times> 'os"
  sys_close :: "int \<Rightarrow> 'os \<Rightarrow> int \<times> 'os"
  sys_send :: "int \<Rightarrow> u8 list \<Rightarrow> 'os \<Rightarrow> size_t option \<times> 'os"
  sys_recv :: "int \<Rightarrow> size_t \<Rightarrow> 'os \<Rightarrow> u8 list option \<times> 'os"
  sys_write :: "int \<Rightarrow> u8 list \<Rightarrow> 'os \<Rightarrow> size_t option \<times> 'os"
  sys_read :: "int \<Rightarrow> size_t \<Rightarrow> 'os \<Rightarrow> u8 list option \<times> 'os"
  sys_poll :: "pollfd \<Rightarrow> int \<Rightarrow> 'os \<Rightarrow> int \<times> 'os"
  sys_signal_sigpipe :: "'os \<Rightarrow> 'os"
  sys_can_bind :: "int \<Rightarrow> string \<Rightarrow> 'os \<Rightarrow> int \<times> 'os"
  sys_can_enable_fd :: "int \<Rightarrow> 'os \<Rightarrow> int \<times> 'os"
  sys_can_filter :: "int \<Rightarrow> u32 \<Rightarrow> u32 \<Rightarrow> 'os \<Rightarrow> int \<times> 'os"
  sys_write_frame :: "int \<Rightarrow> canfd_frame \<Rightarrow> 'os \<Rightarrow> size_t option \<times> 'os"
  sys_read_frame :: "int \<Rightarrow> 'os \<Rightarrow> canfd_frame option \<times> 'os"

text \<open>The platform of a transport, with the system behind it.\<close>

record 'os platform =
  poll_fd :: pollfd
  os :: 'os

type_synonym 'os uxrUDPPlatform = "'os platform"
type_synonym 'os uxrTCPPlatform = "'os platform"
type_synonym 'os uxrSerialPlatform = "'os platform"

definition platform_fd :: "('os, 'z) platform_scheme \<Rightarrow> int" where
  "platform_fd p = fd (poll_fd p)"

definition set_fd :: "int \<Rightarrow> ('os, 'z) platform_scheme \<Rightarrow> ('os, 'z) platform_scheme" where
  "set_fd f p = p\<lparr>poll_fd := (poll_fd p)\<lparr>fd := f\<rparr>\<rparr>"

definition set_events :: "poll_events \<Rightarrow> ('os, 'z) platform_scheme \<Rightarrow> ('os, 'z) platform_scheme" where
  "set_events e p = p\<lparr>poll_fd := (poll_fd p)\<lparr>events := e\<rparr>\<rparr>"

section \<open>UDP\<close>

definition ip_domain :: "uxrIpProtocol \<Rightarrow> socket_domain" where
  "ip_domain ip_protocol = (case ip_protocol of UXR_IPv4 \<Rightarrow> AF_INET | UXR_IPv6 \<Rightarrow> AF_INET6)"

text \<open>The loop over the addresses: the first one that can be connected to.\<close>

fun connect_first :: "'os posix \<Rightarrow> sockaddr list \<Rightarrow> 'os platform \<Rightarrow> bool \<times> 'os platform" where
  "connect_first K [] p = (False, p)"
| "connect_first K (addr # addrs) p =
     (let (r, s) = sys_connect K (platform_fd p) addr (os p); p1 = p\<lparr>os := s\<rparr>
      in if r = 0 then (True, set_events POLLIN p1) else connect_first K addrs p1)"

definition uxr_init_udp_platform ::
  "'os posix \<Rightarrow> uxrIpProtocol \<Rightarrow> string \<Rightarrow> string \<Rightarrow> 'os uxrUDPPlatform \<Rightarrow> bool \<times> 'os uxrUDPPlatform"
where
  "uxr_init_udp_platform K ip_protocol ip port platform =
     (let (f, s) = sys_socket K (ip_domain ip_protocol) SOCK_DGRAM (os platform);
          p = set_fd f (platform\<lparr>os := s\<rparr>)
      in if - 1 \<noteq> f
         then let (result, s) = sys_getaddrinfo K (ip_domain ip_protocol) SOCK_DGRAM ip port (os p)
              in case result of None \<Rightarrow> (False, p\<lparr>os := s\<rparr>) | Some addrs \<Rightarrow> connect_first K addrs (p\<lparr>os := s\<rparr>)
         else (False, p))"

definition uxr_close_udp_platform :: "'os posix \<Rightarrow> 'os uxrUDPPlatform \<Rightarrow> bool \<times> 'os uxrUDPPlatform" where
  "uxr_close_udp_platform K platform =
     (if - 1 = platform_fd platform then (True, platform)
      else let (r, s) = sys_close K (platform_fd platform) (os platform) in (0 = r, platform\<lparr>os := s\<rparr>))"

definition uxr_write_udp_data_platform :: "'os posix \<Rightarrow> 'os uxrUDPPlatform uxr_write_cb" where
  "uxr_write_udp_data_platform K buf errcode platform =
     (let (bytes_sent, s) = sys_send K (platform_fd platform) buf (os platform)
      in case bytes_sent of Some n \<Rightarrow> (n, 0, platform\<lparr>os := s\<rparr>) | None \<Rightarrow> (0, 1, platform\<lparr>os := s\<rparr>))"

definition uxr_read_udp_data_platform :: "'os posix \<Rightarrow> 'os uxrUDPPlatform uxr_read_cb" where
  "uxr_read_udp_data_platform K len timeout errcode platform =
     (let (poll_rv, s) = sys_poll K (poll_fd platform) timeout (os platform)
      in if 0 < poll_rv
         then let (bytes_received, s1) = sys_recv K (platform_fd platform) len s
              in case bytes_received of
                   Some bs \<Rightarrow> (bs, 0, platform\<lparr>os := s1\<rparr>)
                 | None \<Rightarrow> ([], 1, platform\<lparr>os := s1\<rparr>)
         else ([], if 0 = poll_rv then 0 else 1, platform\<lparr>os := s\<rparr>))"

section \<open>TCP\<close>

text \<open>When the name is not resolved, a pointer is freed that was never set: there is no result then.\<close>

definition uxr_init_tcp_platform ::
  "'os posix \<Rightarrow> bool \<Rightarrow> uxrIpProtocol \<Rightarrow> string \<Rightarrow> string \<Rightarrow> 'os uxrTCPPlatform \<Rightarrow> (bool \<times> 'os uxrTCPPlatform) option"
where
  "uxr_init_tcp_platform K linux ip_protocol ip port platform =
     (let (f, s) = sys_socket K (ip_domain ip_protocol) SOCK_STREAM (os platform);
          p = set_fd f (platform\<lparr>os := s\<rparr>)
      in if - 1 \<noteq> f
         then let s1 = (if linux then sys_signal_sigpipe K (os p) else os p);
                  (result, s2) = sys_getaddrinfo K (ip_domain ip_protocol) SOCK_STREAM ip port s1
              in case result of None \<Rightarrow> None | Some addrs \<Rightarrow> Some (connect_first K addrs (p\<lparr>os := s2\<rparr>))
         else Some (False, p))"

definition uxr_close_tcp_platform :: "'os posix \<Rightarrow> 'os uxrTCPPlatform \<Rightarrow> bool \<times> 'os uxrTCPPlatform" where
  "uxr_close_tcp_platform K platform =
     (if - 1 = platform_fd platform then (True, platform)
      else let (r, s) = sys_close K (platform_fd platform) (os platform) in (0 = r, platform\<lparr>os := s\<rparr>))"

definition uxr_write_tcp_data_platform :: "'os posix \<Rightarrow> 'os uxrTCPPlatform uxr_write_cb" where
  "uxr_write_tcp_data_platform K buf errcode platform =
     (let (bytes_sent, s) = sys_send K (platform_fd platform) buf (os platform)
      in case bytes_sent of Some n \<Rightarrow> (n, 0, platform\<lparr>os := s\<rparr>) | None \<Rightarrow> (0, 1, platform\<lparr>os := s\<rparr>))"

definition uxr_read_tcp_data_platform :: "'os posix \<Rightarrow> 'os uxrTCPPlatform uxr_read_cb" where
  "uxr_read_tcp_data_platform K len timeout errcode platform =
     (let (poll_rv, s) = sys_poll K (poll_fd platform) timeout (os platform)
      in if 0 < poll_rv
         then let (bytes_received, s1) = sys_recv K (platform_fd platform) len s
              in case bytes_received of
                   Some bs \<Rightarrow> (bs, 0, platform\<lparr>os := s1\<rparr>)
                 | None \<Rightarrow> ([], 1, platform\<lparr>os := s1\<rparr>)
         else ([], if 0 = poll_rv then 0 else 1, platform\<lparr>os := s\<rparr>))"

definition uxr_disconnect_tcp_platform :: "'os posix \<Rightarrow> 'os uxrTCPPlatform \<Rightarrow> 'os uxrTCPPlatform" where
  "uxr_disconnect_tcp_platform K platform =
     set_fd (- 1) (platform\<lparr>os := snd (sys_close K (platform_fd platform) (os platform))\<rparr>)"

section \<open>Serial\<close>

definition uxr_init_serial_platform :: "int \<Rightarrow> u8 \<Rightarrow> u8 \<Rightarrow> 'os uxrSerialPlatform \<Rightarrow> bool \<times> 'os uxrSerialPlatform" where
  "uxr_init_serial_platform f remote_addr' local_addr' platform = (True, set_events POLLIN (set_fd f platform))"

definition uxr_close_serial_platform :: "'os posix \<Rightarrow> 'os uxrSerialPlatform \<Rightarrow> bool \<times> 'os uxrSerialPlatform" where
  "uxr_close_serial_platform K platform =
     (if - 1 = platform_fd platform then (True, platform)
      else let (r, s) = sys_close K (platform_fd platform) (os platform) in (0 = r, platform\<lparr>os := s\<rparr>))"

definition uxr_write_serial_data_platform :: "'os posix \<Rightarrow> 'os uxrSerialPlatform uxr_write_cb" where
  "uxr_write_serial_data_platform K buf errcode platform =
     (let (bytes_written, s) = sys_write K (platform_fd platform) buf (os platform)
      in case bytes_written of Some n \<Rightarrow> (n, 0, platform\<lparr>os := s\<rparr>) | None \<Rightarrow> (0, 1, platform\<lparr>os := s\<rparr>))"

definition uxr_read_serial_data_platform :: "'os posix \<Rightarrow> 'os uxrSerialPlatform uxr_read_cb" where
  "uxr_read_serial_data_platform K len timeout errcode platform =
     (let (poll_rv, s) = sys_poll K (poll_fd platform) timeout (os platform)
      in if 0 < poll_rv
         then let (bytes_read, s1) = sys_read K (platform_fd platform) len s
              in case bytes_read of
                   Some bs \<Rightarrow> (bs, 0, platform\<lparr>os := s1\<rparr>)
                 | None \<Rightarrow> ([], 1, platform\<lparr>os := s1\<rparr>)
         else ([], if 0 = poll_rv then 0 else 1, platform\<lparr>os := s\<rparr>))"

section \<open>CAN\<close>

record 'os uxrCANPlatform = "'os platform" +
  can_id :: u32

definition uxr_init_can_platform ::
  "'os posix \<Rightarrow> string \<Rightarrow> u32 \<Rightarrow> 'os uxrCANPlatform \<Rightarrow> bool \<times> 'os uxrCANPlatform"
where
  "uxr_init_can_platform K dev can_id' platform =
     (let (f, s) = sys_socket K PF_CAN SOCK_RAW (os platform);
          p = set_fd f (platform\<lparr>os := s\<rparr>)
      in if - 1 \<noteq> f
         then let (bound, s1) = sys_can_bind K f dev (os p); p1 = p\<lparr>os := s1\<rparr>
              in if - 1 \<noteq> bound
                 then let (enabled, s2) = sys_can_enable_fd K f (os p1); p2 = p1\<lparr>os := s2\<rparr>
                      in if - 1 \<noteq> enabled
                         then let p3 = (set_events POLLIN p2)\<lparr>can_id := can_id' OR CAN_EFF_FLAG\<rparr>
                              in (True, p3\<lparr>os := snd (sys_can_filter K f (can_id p3) CAN_EFF_MASK (os p3))\<rparr>)
                         else (False, p2)
                 else (False, p1)
         else (False, p))"

definition uxr_close_can_platform :: "'os posix \<Rightarrow> 'os uxrCANPlatform \<Rightarrow> bool \<times> 'os uxrCANPlatform" where
  "uxr_close_can_platform K platform =
     (if - 1 = platform_fd platform then (True, platform)
      else let (r, s) = sys_close K (platform_fd platform) (os platform) in (0 = r, platform\<lparr>os := s\<rparr>))"

text \<open>A message of more than 63 octets does not fit the frame: then there is no result.\<close>

definition uxr_write_can_data_platform ::
  "'os posix \<Rightarrow> u8 list \<Rightarrow> u8 \<Rightarrow> 'os uxrCANPlatform \<Rightarrow> (size_t \<times> u8 \<times> 'os uxrCANPlatform) option"
where
  "uxr_write_can_data_platform K buf errcode platform =
     (let (poll_rv, s) = sys_poll K \<lparr>fd = platform_fd platform, events = POLLOUT\<rparr> 0 (os platform)
      in if 0 < poll_rv
         then if CANFD_MAX_DLEN < length buf + 1 then None
              else let frame = \<lparr>frame_can_id = can_id platform, frame_len = of_nat (length buf + 1),
                         frame_data = of_nat (length buf) # buf @ replicate (CANFD_MAX_DLEN - (length buf + 1)) 0\<rparr>;
                       (bytes_sent, s1) = sys_write_frame K (platform_fd platform) frame s
                   in Some (case bytes_sent of
                              Some _ \<Rightarrow> (length buf, 0, platform\<lparr>os := s1\<rparr>)
                            | None \<Rightarrow> (0, 1, platform\<lparr>os := s1\<rparr>))
         else Some (0, if 0 = poll_rv then 0 else 1, platform\<lparr>os := s\<rparr>))"

text \<open>A first octet above 63 but below 72 copies from beyond the frame's data: then there is no result.\<close>

definition uxr_read_can_data_platform ::
  "'os posix \<Rightarrow> size_t \<Rightarrow> int \<Rightarrow> u8 \<Rightarrow> 'os uxrCANPlatform \<Rightarrow> (u8 list \<times> u8 \<times> 'os uxrCANPlatform) option"
where
  "uxr_read_can_data_platform K len timeout errcode platform =
     (let (poll_rv, s) = sys_poll K (poll_fd platform) timeout (os platform)
      in if 0 < poll_rv
         then let (bytes_received, s1) = sys_read_frame K (platform_fd platform) s; p = platform\<lparr>os := s1\<rparr>
              in case bytes_received of
                   None \<Rightarrow> Some ([], 1, p)
                 | Some frame \<Rightarrow>
                     let n = unat (frame_data frame ! 0)
                     in if n < CANFD_MTU
                        then if n + 1 \<le> CANFD_MAX_DLEN then Some (take n (drop 1 (frame_data frame)), 0, p) else None
                        else Some ([], 1, p)
         else Some ([], if 0 = poll_rv then 0 else 1, platform\<lparr>os := s\<rparr>))"

end
