(* ===== verification/Discovery.thy ===== *)
theory Discovery
  imports Posix Ping
begin

text \<open>
  Finding agents, \<open>src/c/profile/discovery/discovery.c\<close>, with the datagrams of
  \<open>transport/udp_transport_datagram_posix.c\<close> below it and the addresses of
  \<open>src/c/profile/transport/ip/ip_posix.c\<close>.

  \<open>errno\<close> is not modelled. The application's function and the clock are parameters and work on the state
  of the system. What an automatic variable holds is a parameter too.
\<close>

section \<open>Addresses\<close>

text \<open>The conversions of the system, where \<open>None\<close> is failure.\<close>

record inet =
  inet_pton :: "socket_domain \<Rightarrow> string \<Rightarrow> u8 list option"
  inet_ntop :: "socket_domain \<Rightarrow> u8 list \<Rightarrow> size_t \<Rightarrow> string option"

definition uxr_ip_to_locator ::
  "inet \<Rightarrow> string \<Rightarrow> u16 \<Rightarrow> uxrIpProtocol \<Rightarrow> TransportLocator \<Rightarrow> bool \<times> TransportLocator"
where
  "uxr_ip_to_locator N ip port ip_protocol locator =
     (let u = TransportLocator.U locator in
      case ip_protocol of
        UXR_IPv4 \<Rightarrow>
          (case inet_pton N AF_INET ip of
             Some a \<Rightarrow> (True, \<lparr>TransportLocator.format = ADDRESS_FORMAT_MEDIUM, U = u\<lparr>medium_locator := \<lparr>TransportLocatorMedium.address = a, locator_port = port\<rparr>\<rparr>\<rparr>)
           | None \<Rightarrow> (False, \<lparr>TransportLocator.format = ADDRESS_FORMAT_MEDIUM,
               U = u\<lparr>medium_locator := (TransportLocatorU.medium_locator u)\<lparr>TransportLocatorMedium.locator_port := port\<rparr>\<rparr>\<rparr>))
      | UXR_IPv6 \<Rightarrow>
          (case inet_pton N AF_INET6 ip of
             Some a \<Rightarrow> (True, \<lparr>TransportLocator.format = ADDRESS_FORMAT_LARGE, U = u\<lparr>large_locator := \<lparr>TransportLocatorLarge.address = a, locator_port = ucast port\<rparr>\<rparr>\<rparr>)
           | None \<Rightarrow> (False, \<lparr>TransportLocator.format = ADDRESS_FORMAT_LARGE,
               U = u\<lparr>large_locator := (TransportLocatorU.large_locator u)\<lparr>TransportLocatorLarge.locator_port := ucast port\<rparr>\<rparr>\<rparr>)))"

definition uxr_locator_to_ip ::
  "inet \<Rightarrow> TransportLocator \<Rightarrow> string \<Rightarrow> size_t \<Rightarrow> u16 \<Rightarrow> uxrIpProtocol \<Rightarrow> bool \<times> string \<times> u16 \<times> uxrIpProtocol"
where
  "uxr_locator_to_ip N locator ip size1 port ip_protocol =
     (let u = TransportLocator.U locator; l = medium_locator u; l6 = large_locator u in
      if TransportLocator.format locator = ADDRESS_FORMAT_MEDIUM
      then (case inet_ntop N AF_INET (TransportLocatorMedium.address l) size1 of
              Some s \<Rightarrow> (True, s, TransportLocatorMedium.locator_port l, UXR_IPv4)
            | None \<Rightarrow> (False, ip, TransportLocatorMedium.locator_port l, UXR_IPv4))
      else if TransportLocator.format locator = ADDRESS_FORMAT_LARGE
      then (case inet_ntop N AF_INET6 (TransportLocatorLarge.address l6) size1 of
              Some s \<Rightarrow> (True, s, ucast (TransportLocatorLarge.locator_port l6), UXR_IPv6)
            | None \<Rightarrow> (False, ip, ucast (TransportLocatorLarge.locator_port l6), UXR_IPv6))
      else (False, ip, port, ip_protocol))"

section \<open>Datagrams\<close>

definition UXR_UDP_TRANSPORT_MTU_DATAGRAM :: nat where "UXR_UDP_TRANSPORT_MTU_DATAGRAM = 200"

text \<open>The receive buffer is at an address of the memory.\<close>

record 'os uxrUDPTransportDatagram = "'os platform" +
  datagram_buffer :: addr
  datagram_mem :: mem

text \<open>Sending to an address; what the system is told of it is the address and the port.\<close>

type_synonym 'os sys_sendto = "int \<Rightarrow> u8 list \<Rightarrow> u8 list \<times> u16 \<Rightarrow> 'os \<Rightarrow> size_t option \<times> 'os"

definition uxr_init_udp_transport_datagram ::
  "'os posix \<Rightarrow> 'os uxrUDPTransportDatagram \<Rightarrow> bool \<times> 'os uxrUDPTransportDatagram"
where
  "uxr_init_udp_transport_datagram K transport =
     (let (f, s) = sys_socket K AF_INET SOCK_DGRAM (os transport)
      in (f \<noteq> - 1, set_events POLLIN (set_fd f (transport\<lparr>os := s\<rparr>))))"

definition uxr_close_udp_transport_datagram ::
  "'os posix \<Rightarrow> 'os uxrUDPTransportDatagram \<Rightarrow> bool \<times> 'os uxrUDPTransportDatagram"
where
  "uxr_close_udp_transport_datagram K transport =
     (let (r, s) = sys_close K (platform_fd transport) (os transport) in (0 = r, transport\<lparr>os := s\<rparr>))"

definition uxr_udp_send_datagram_to ::
  "'os sys_sendto \<Rightarrow> 'os uxrUDPTransportDatagram \<Rightarrow> u8 list \<Rightarrow> TransportLocator \<Rightarrow> bool \<times> 'os uxrUDPTransportDatagram"
where
  "uxr_udp_send_datagram_to sendto transport buf locator =
     (if TransportLocator.format locator = ADDRESS_FORMAT_MEDIUM
      then let l = medium_locator (TransportLocator.U locator);
               (bytes_sent, s) = sendto (platform_fd transport) buf
                 (take 4 (TransportLocatorMedium.address l), TransportLocatorMedium.locator_port l) (os transport)
           in (bytes_sent \<noteq> None, transport\<lparr>os := s\<rparr>)
      else (False, transport))"

definition uxr_udp_recv_datagram ::
  "'os posix \<Rightarrow> 'os uxrUDPTransportDatagram \<Rightarrow> int \<Rightarrow> (addr \<times> size_t) option \<times> 'os uxrUDPTransportDatagram"
where
  "uxr_udp_recv_datagram K transport timeout =
     (let (poll_rv, s) = sys_poll K (poll_fd transport) timeout (os transport)
      in if 0 < poll_rv
         then let (bytes_received, s1) = sys_recv K (platform_fd transport) UXR_UDP_TRANSPORT_MTU_DATAGRAM s;
                  t = transport\<lparr>os := s1\<rparr>
              in case bytes_received of
                   None \<Rightarrow> (None, t)
                 | Some bs \<Rightarrow>
                     let t1 = t\<lparr>datagram_mem := wr (datagram_mem t) (datagram_buffer t) bs\<rparr>
                     in (if 0 < length bs then Some (datagram_buffer t, length bs) else None, t1)
         else (None, transport\<lparr>os := s\<rparr>))"

definition uxr_bytes_to_ip :: "(u8 list \<Rightarrow> string) \<Rightarrow> u8 list \<Rightarrow> string" where
  "uxr_bytes_to_ip inet_ntoa bytes = inet_ntoa (take 4 bytes)"

section \<open>Messages\<close>

definition GET_INFO_REQUEST_ID :: u8 where "GET_INFO_REQUEST_ID = 9"
definition MULTICAST_DEFAULT_IP :: string where "MULTICAST_DEFAULT_IP = ''239.255.0.2''"
definition MULTICAST_DEFAULT_PORT :: u16 where "MULTICAST_DEFAULT_PORT = 7400"

definition write_get_info_message :: "ucdr \<Rightarrow> cdr_state \<Rightarrow> cdr_state" where
  "write_get_info_message cdr st =
     (let payload = \<lparr>GET_INFO_Payload.base = \<lparr>BaseObjectRequest.request_id = \<lparr>RequestId.data = [0x00, GET_INFO_REQUEST_ID]\<rparr>,
            object_id = DDS_XRCE_OBJECTID_AGENT\<rparr>, info_mask = INFO_CONFIGURATION OR INFO_ACTIVITY\<rparr>;
          st1 = uxr_serialize_message_header cdr SESSION_ID_WITHOUT_CLIENT_KEY 0 0 [] st;
          (_, st2) = uxr_buffer_submessage_header cdr SUBMESSAGE_ID_GET_INFO GET_INFO_MSG_SIZE 0 st1;
          (_, st3) = uxr_serialize_GET_INFO_Payload cdr payload st2
      in st3)"

text \<open>What the automatic variables of the functions below hold.\<close>

record discovery_locals =
  d_stack :: mem
  d_message_header :: "u8 \<times> u8 \<times> uxrSeqNum \<times> u8 list"
  d_submessage_header :: "u8 \<times> u16 \<times> u8"
  d_INFO :: INFO_Payload
  d_locator :: TransportLocator

definition read_info_headers :: "ucdr \<Rightarrow> discovery_locals \<Rightarrow> cdr_state \<Rightarrow> bool \<times> cdr_state" where
  "read_info_headers cdr loc st =
     (let (_, st1) = uxr_deserialize_message_header cdr (d_message_header loc) st;
          (ok, _, st2) = uxr_read_submessage_header cdr (d_submessage_header loc) st1
      in (ok, st2))"

text \<open>The addresses of an agent: as many as there is room for.\<close>

definition des_addresses :: "ucdr \<Rightarrow> AGENT_ActivityInfo des" where
  "des_addresses cdr out st =
     (let (ok1, a, st1) = ucdr_deserialize_int16_t cdr (AGENT_ActivityInfo.availability out) st;
          seq = AGENT_ActivityInfo.address_seq out;
          (ok2, n, st2) = ucdr_deserialize_uint32_t cdr (TransportLocatorSeq.size' seq) st1;
          n' = (if unat n > UXR_TRANSPORT_LOCATOR_SEQUENCE_MAX then of_nat UXR_TRANSPORT_LOCATOR_SEQUENCE_MAX else n);
          out1 = \<lparr>AGENT_ActivityInfo.availability = a, address_seq = seq\<lparr>TransportLocatorSeq.size' := n'\<rparr>\<rparr>
      in if ok1 \<and> ok2
         then des_field AGENT_ActivityInfo.address_seq AGENT_ActivityInfo.address_seq_update
                (des_seq (map (des_item TransportLocatorSeq.data TransportLocatorSeq.data_update
                   (uxr_deserialize_TransportLocator cdr)) [0..<unat n'])) out1 st2
         else (False, out1, st2))"

definition des_agent_activity :: "ucdr \<Rightarrow> bool \<Rightarrow> ActivityInfoVariant des" where
  "des_agent_activity cdr ret out st =
     (let (ok, kind', st1) = ucdr_deserialize_uint8_t cdr (ActivityInfoVariant.kind out) st;
          out1 = out\<lparr>ActivityInfoVariant.kind := kind'\<rparr>
      in if ret \<and> ok \<and> kind' = DDS_XRCE_OBJK_AGENT
         then des_field (ActivityInfoVariantU.agent \<circ> ActivityInfoVariant.U)
                (ActivityInfoVariant.U_update \<circ> ActivityInfoVariantU.agent_update) (des_addresses cdr) out1 st1
         else (False, out1, st1))"

definition uxr_deserialize_discovery_INFO_Payload :: "ucdr \<Rightarrow> INFO_Payload des" where
  "uxr_deserialize_discovery_INFO_Payload cdr out st =
     (let (ret1, out1, st1) = des_field INFO_Payload.base INFO_Payload.base_update (uxr_deserialize_BaseObjectReply cdr) out st;
          info = INFO_Payload.object_info out1;
          (ret2, info1, st2) = des_all
            [des_field ObjectInfo.optional_config ObjectInfo.optional_config_update (ucdr_deserialize_bool cdr),
             des_when ObjectInfo.optional_config
               (des_field ObjectInfo.config ObjectInfo.config_update (uxr_deserialize_ObjectVariant cdr)),
             des_field ObjectInfo.optional_activity ObjectInfo.optional_activity_update (ucdr_deserialize_bool cdr)] info st1;
          (ret3, info2, st3) = des_when ObjectInfo.optional_activity
            (des_field ObjectInfo.activity ObjectInfo.activity_update (des_agent_activity cdr (ret1 \<and> ret2))) info1 st2
      in (ret1 \<and> ret2 \<and> ret3, out1\<lparr>INFO_Payload.object_info := info2\<rparr>, st3))"

section \<open>Looking for agents\<close>

text \<open>
  What the functions use: the library, the system, the clock, the function that is told of an agent, and
  what is in the automatic variables.
\<close>

record 'os discovery =
  d_lib :: ucdr
  d_posix :: "'os posix"
  d_sendto :: "'os sys_sendto"
  d_millis :: "'os \<Rightarrow> int \<times> 'os"
  d_on_agent :: "TransportLocator \<Rightarrow> 'os \<Rightarrow> bool \<times> 'os"
  d_locals :: discovery_locals

text \<open>The function is called for one address after the other; the last call decides.\<close>

primrec tell_agents :: "(TransportLocator \<Rightarrow> 'os \<Rightarrow> bool \<times> 'os) \<Rightarrow> TransportLocator list \<Rightarrow> bool \<Rightarrow> 'os \<Rightarrow> bool \<times> 'os" where
  "tell_agents on_agent [] is_succeed s = (is_succeed, s)"
| "tell_agents on_agent (l # ls) is_succeed s = (let (b, s1) = on_agent l s in tell_agents on_agent ls b s1)"

text \<open>A count of addresses that was not read may be beyond the array: no result.\<close>

definition read_info_message ::
  "'os discovery \<Rightarrow> ucdrBuffer \<Rightarrow> 'os uxrUDPTransportDatagram \<Rightarrow> (bool \<times> 'os uxrUDPTransportDatagram) option"
where
  "read_info_message D ub transport =
     (let (ok, payload, _, m) = uxr_deserialize_discovery_INFO_Payload (d_lib D) (d_INFO (d_locals D)) (ub, datagram_mem transport);
          t = transport\<lparr>datagram_mem := m\<rparr>;
          info = INFO_Payload.object_info payload;
          version = AGENT_Representation.xrce_version (ObjectVariantU.agent (ObjectVariant.U (ObjectInfo.config info)));
          locators = AGENT_ActivityInfo.address_seq (ActivityInfoVariantU.agent (ActivityInfoVariant.U (ObjectInfo.activity info)));
          n = unat (TransportLocatorSeq.size' locators)
      in if ok
         then if n \<le> UXR_TRANSPORT_LOCATOR_SEQUENCE_MAX
              then let (is_succeed, s) = tell_agents (d_on_agent D)
                         (if XrceVersion.data version = XrceVersion.data DDS_XRCE_XRCE_VERSION
                          then map (TransportLocatorSeq.data locators) [0..<n] else []) False (os t)
                   in Some (is_succeed, t\<lparr>os := s\<rparr>)
              else None
         else Some (False, t))"

text \<open>The name is that of a function of \<open>ping.c\<close>, too.\<close>

definition discovery_listen_info_message ::
  "'os discovery \<Rightarrow> int \<Rightarrow> 'os uxrUDPTransportDatagram \<Rightarrow> (bool \<times> 'os uxrUDPTransportDatagram) option"
where
  "discovery_listen_info_message D poll transport =
     (let (received, t) = uxr_udp_recv_datagram (d_posix D) transport poll
      in case received of
           None \<Rightarrow> Some (False, t)
         | Some (buf, len) \<Rightarrow>
             let (ok, ub, m) = read_info_headers (d_lib D) (d_locals D)
                   (ucdr_init_buffer (d_lib D) buf (cast_u32 len), datagram_mem t);
                 t1 = t\<lparr>datagram_mem := m\<rparr>
             in if ok then read_info_message D ub t1 else Some (False, t1))"

definition d_now :: "'os discovery \<Rightarrow> 'os uxrUDPTransportDatagram \<Rightarrow> int \<times> 'os uxrUDPTransportDatagram" where
  "d_now D t = (let (now, s) = d_millis D (os t) in (now, t\<lparr>os := s\<rparr>))"

text \<open>The time since the message was sent is taken off again after each datagram.\<close>

partial_function (option) await_agent ::
  "'os discovery \<Rightarrow> int \<Rightarrow> int \<Rightarrow> 'os uxrUDPTransportDatagram \<Rightarrow> (bool \<times> 'os uxrUDPTransportDatagram) option"
where
  "await_agent D timestamp poll t =
     (if 0 < poll
      then do {
        (is_agent_found, t1) \<leftarrow> discovery_listen_info_message D poll t;
        let (now, t2) = d_now D t1; poll1 = poll - cast_int32 (now - timestamp) in
        if \<not> is_agent_found then await_agent D timestamp poll1 t2 else Some (True, t2)
      }
      else Some (False, t))"

primrec send_get_info :: "'os sys_sendto \<Rightarrow> u8 list \<Rightarrow> TransportLocator list \<Rightarrow> 'os uxrUDPTransportDatagram \<Rightarrow> 'os uxrUDPTransportDatagram" where
  "send_get_info sendto message [] t = t"
| "send_get_info sendto message (l # ls) t = send_get_info sendto message ls (snd (uxr_udp_send_datagram_to sendto t message l))"

primrec discovery_attempts ::
  "'os discovery \<Rightarrow> u8 list \<Rightarrow> int \<Rightarrow> TransportLocator list \<Rightarrow> nat \<Rightarrow> 'os uxrUDPTransportDatagram
    \<Rightarrow> (bool \<times> 'os uxrUDPTransportDatagram) option"
where
  "discovery_attempts D message period agent_list 0 t = Some (False, t)"
| "discovery_attempts D message period agent_list (Suc a) t =
     (let (timestamp, t1) = d_now D (send_get_info (d_sendto D) message agent_list t)
      in do {
        (is_agent_found, t2) \<leftarrow> await_agent D timestamp period t1;
        if is_agent_found then Some (True, t2) else discovery_attempts D message period agent_list a t2
      })"

definition uxr_discovery_agents ::
  "'os discovery \<Rightarrow> u32 \<Rightarrow> int \<Rightarrow> TransportLocator list \<Rightarrow> 'os uxrUDPTransportDatagram
    \<Rightarrow> 'os uxrUDPTransportDatagram option"
where
  "uxr_discovery_agents D attempts period agent_list transport =
     (let cdr = d_lib D;
          (ub, m) = write_get_info_message cdr
            (ucdr_init_buffer cdr 0 UXR_UDP_TRANSPORT_MTU_DATAGRAM, d_stack (d_locals D));
          message = rd m 0 (ucdr_buffer_length cdr ub);
          (opened, t) = uxr_init_udp_transport_datagram (d_posix D) transport
      in if opened
         then do {
           (_, t1) \<leftarrow> discovery_attempts D message period agent_list (unat attempts) t;
           Some (snd (uxr_close_udp_transport_datagram (d_posix D) t1))
         }
         else Some t)"

definition uxr_discovery_agents_default ::
  "'os discovery \<Rightarrow> inet \<Rightarrow> u32 \<Rightarrow> int \<Rightarrow> 'os uxrUDPTransportDatagram \<Rightarrow> 'os uxrUDPTransportDatagram option"
where
  "uxr_discovery_agents_default D N attempts period transport =
     uxr_discovery_agents D attempts period
       [snd (uxr_ip_to_locator N MULTICAST_DEFAULT_IP MULTICAST_DEFAULT_PORT UXR_IPv4 (d_locator (d_locals D)))] transport"

end
