(* ===== verification/DiscoveryFacts.thy ===== *)
theory DiscoveryFacts
  imports Discovery PingFacts
begin

text \<open>What is proved about finding agents: the answer of an agent is told to the application address by address, and
  looking for agents where there is none ends.\<close>

section \<open>The message\<close>

text \<open>
  What is read of a message may be less than all that was written: of a list of addresses that is too long
  only the first ones are read. \<open>D\<close> reads a part, from the start, of what \<open>S\<close> writes.
\<close>

definition begins :: "ser \<Rightarrow> 'a des \<Rightarrow> 'a \<Rightarrow> ('a \<Rightarrow> bool) \<Rightarrow> bool" where
  "begins S D out Q \<longleftrightarrow> (\<forall>ub m ub' m' n. usable ub \<longrightarrow> S (ub, m) = (True, ub', m') \<longrightarrow> wrote ub m n ub' m' \<longrightarrow>
     (\<exists>w k. Q w \<and> (\<forall>ub2 m2. copy_of ub m' n ub2 m2 \<longrightarrow> D out (ub2, m2) = (True, w, adv k ub2, m2))))"

lemma beginsE:
  assumes "begins S D out Q" and "usable ub" and "S (ub, m) = (True, ub', m')" and "wrote ub m n ub' m'"
  obtains w k where "Q w" and "\<And>ub2 m2. copy_of ub m' n ub2 m2 \<Longrightarrow> D out (ub2, m2) = (True, w, adv k ub2, m2)"
  using assms unfolding begins_def by blast

text \<open>Something is carried and what follows it begun; or something is carried, whatever follows it.\<close>

lemma begins_pair:
  assumes S: "\<And>ub m ub' m'. S (ub, m) = (True, ub', m') \<Longrightarrow>
      \<exists>ub1 m1. f (ub, m) = (True, ub1, m1) \<and> fs (ub1, m1) = (True, ub', m')"
    and D: "\<And>st w st1 w' st'. g out st = (True, w, st1) \<Longrightarrow> gs w st1 = (True, w', st') \<Longrightarrow>
      D out st = (True, w', st')"
    and W: "CodecKit.writer f" "CodecKit.writer fs"
    and f: "carries f g out P" and fs: "\<And>w. P w \<Longrightarrow> begins fs gs w Q"
  shows "begins S D out Q"
  unfolding begins_def
proof (intro allI impI)
  fix ub m ub' m' n
  assume ub: "usable ub" and "S (ub, m) = (True, ub', m')" and n: "wrote ub m n ub' m'"
  then obtain ub1 m1 where 1: "f (ub, m) = (True, ub1, m1)" and 2: "fs (ub1, m1) = (True, ub', m')"
    using S by blast
  obtain k where k: "wrote ub m k ub1 m1" using writerD(2) [OF W(1) 1 ub] by auto
  note ub1 = wrote_usable [OF k ub]
  obtain l where l: "wrote ub1 m1 l ub' m'" using writerD(2) [OF W(2) 2 ub1] by auto
  have nkl: "n = k + l" by (rule wrote_unique [OF n wrote_trans [OF k l]])
  from carriesE [OF f ub 1 k] obtain w where w: "P w"
    "\<And>ub2 m2. copy_of ub m1 k ub2 m2 \<Longrightarrow> g out (ub2, m2) = (True, w, adv k ub2, m2)" by metis
  from beginsE [OF fs [OF w(1)] ub1 2 l] obtain w' j where w': "Q w'"
    "\<And>ub2 m2. copy_of ub1 m' l ub2 m2 \<Longrightarrow> gs w (ub2, m2) = (True, w', adv j ub2, m2)" by metis
  have "D out (ub2, m2) = (True, w', adv (k + j) ub2, m2)" if "copy_of ub m' n ub2 m2" for ub2 m2
    using D [OF w(2) w'(2), OF copy_of_split [OF k l that [unfolded nkl]]] by simp
  then show "\<exists>w k. Q w \<and> (\<forall>ub2 m2. copy_of ub m' n ub2 m2 \<longrightarrow> D out (ub2, m2) = (True, w, adv k ub2, m2))"
    using w'(1) by blast
qed

lemma begins_carried:
  assumes S: "\<And>ub m ub' m'. S (ub, m) = (True, ub', m') \<Longrightarrow>
      \<exists>ub1 m1. f (ub, m) = (True, ub1, m1) \<and> fs (ub1, m1) = (True, ub', m')"
    and W: "CodecKit.writer f" "CodecKit.writer fs" and f: "carries f D out Q"
  shows "begins S D out Q"
proof -
  have "begins fs (\<lambda>w st. (True, w, st)) w Q" if "Q w" for w
    using that adv_simps(1) by (auto simp: begins_def intro!: exI [of _ 0])
  then show ?thesis
    by (intro begins_pair [OF S _ W f, where gs = "\<lambda>w st. (True, w, st)"]) auto
qed

lemma begins_field:
  assumes "begins S D (get out) P" and "\<And>x. P x \<Longrightarrow> Q (upd (\<lambda>_. x) out)"
  shows "begins S (des_field get upd D) out Q"
  unfolding begins_def
proof (intro allI impI)
  fix ub m ub' m' n
  assume "usable ub" "S (ub, m) = (True, ub', m')" "wrote ub m n ub' m'"
  from beginsE [OF assms(1) this] obtain x k where "P x"
    "\<And>ub2 m2. copy_of ub m' n ub2 m2 \<Longrightarrow> D (get out) (ub2, m2) = (True, x, adv k ub2, m2)" by metis
  then show "\<exists>w k. Q w \<and> (\<forall>ub2 m2. copy_of ub m' n ub2 m2 \<longrightarrow> des_field get upd D out (ub2, m2) = (True, w, adv k ub2, m2))"
    using assms(2) by (intro exI [of _ "upd (\<lambda>_. x) out"] exI [of _ k]) (simp add: des_field_def)
qed

text \<open>The first addresses of a list: the client has them as the agent has.\<close>

definition first_addresses :: "TransportLocatorSeq \<Rightarrow> TransportLocatorSeq \<Rightarrow> bool" where
  "first_addresses seq w \<longleftrightarrow>
     unat (TransportLocatorSeq.size' w) = min (unat (TransportLocatorSeq.size' seq)) UXR_TRANSPORT_LOCATOR_SEQUENCE_MAX \<and>
     (\<forall>i < unat (TransportLocatorSeq.size' w). same_TransportLocator (TransportLocatorSeq.data seq i) (TransportLocatorSeq.data w i))"

definition addresses_ok :: "TransportLocatorSeq \<Rightarrow> bool" where
  "addresses_ok seq \<longleftrightarrow> (\<forall>i < unat (TransportLocatorSeq.size' seq). ok_TransportLocator (TransportLocatorSeq.data seq i))"

lemma ret_seq_append:
  "ret_seq (fs @ gs) st = (True, st') \<Longrightarrow> \<exists>st1. ret_seq fs st = (True, st1) \<and> ret_seq gs st1 = (True, st')"
proof (induction fs arbitrary: st)
  case (Cons f fs)
  obtain ok st1 where f: "f st = (ok, st1)"
    by (cases "f st")
  then have "ok" "ret_seq (fs @ gs) st1 = (True, st')"
    using Cons.prems by (simp_all add: ret_then_def split: if_splits)
  with Cons.IH [of st1] show ?case
    by (simp add: ret_then_def f)
qed simp

lemma locators_begin:
  assumes cdr: "ucdr_ok cdr" and ok: "addresses_ok seq" and n: "n \<le> unat (TransportLocatorSeq.size' seq)"
  shows "begins (ret_seq (map (\<lambda>i. uxr_serialize_TransportLocator cdr (TransportLocatorSeq.data seq i)) [0..<unat (TransportLocatorSeq.size' seq)]))
      (des_seq (map (des_item TransportLocatorSeq.data TransportLocatorSeq.data_update (uxr_deserialize_TransportLocator cdr)) [0..<n])) out
      (\<lambda>w. TransportLocatorSeq.size' w = TransportLocatorSeq.size' out \<and>
        (\<forall>i < n. same_TransportLocator (TransportLocatorSeq.data seq i) (TransportLocatorSeq.data w i)))"
proof (rule begins_carried)
  let ?f = "\<lambda>i. uxr_serialize_TransportLocator cdr (TransportLocatorSeq.data seq i)" and ?N = "unat (TransportLocatorSeq.size' seq)"
  let ?I = "\<lambda>k w. TransportLocatorSeq.size' w = TransportLocatorSeq.size' out \<and>
    (\<forall>i < k. same_TransportLocator (TransportLocatorSeq.data seq i) (TransportLocatorSeq.data w i))"
  have W: "CodecKit.writer (?f i)" if "i < ?N" for i
    using ok that by (intro TransportLocator.writer [OF cdr]) (simp add: addresses_ok_def)
  have l: "[0..<?N] = [0..<n] @ [n..<?N]"
    using n by (metis le_add_diff_inverse upt_add_eq_append zero_le)
  show "\<exists>ub1 m1. ret_seq (map ?f [0..<n]) (ub, m) = (True, ub1, m1) \<and> ret_seq (map ?f [n..<?N]) (ub1, m1) = (True, ub', m')"
    if "ret_seq (map ?f [0..<?N]) (ub, m) = (True, ub', m')" for ub m ub' m'
    using ret_seq_append [of "map ?f [0..<n]" "map ?f [n..<?N]" "(ub, m)" "(ub', m')"] that l by auto
  show "CodecKit.writer (ret_seq (map ?f [0..<n]))" "CodecKit.writer (ret_seq (map ?f [n..<?N]))"
    using W n by (auto intro!: writer_seq)
  have step: "carries (?f i) (des_item TransportLocatorSeq.data TransportLocatorSeq.data_update (uxr_deserialize_TransportLocator cdr) i) w (?I (Suc i))"
    if "i < n" "?I i w" for i w
    using that ok n
    by (intro carries_item [OF TransportLocator.carries [OF cdr]]) (auto simp: addresses_ok_def less_Suc_eq)
  show "carries (ret_seq (map ?f [0..<n])) (des_seq (map (des_item TransportLocatorSeq.data TransportLocatorSeq.data_update
      (uxr_deserialize_TransportLocator cdr)) [0..<n])) out (?I n)"
    by (rule carries_seq_from [where I = ?I]) (use W n step in auto)
qed

lemma addresses_begin:
  assumes cdr: "ucdr_ok cdr" and ok: "addresses_ok (AGENT_ActivityInfo.address_seq a)"
  shows "begins (uxr_serialize_AGENT_ActivityInfo cdr a) (des_addresses cdr) out
    (\<lambda>w. first_addresses (AGENT_ActivityInfo.address_seq a) (AGENT_ActivityInfo.address_seq w))"
proof (rule begins_pair)
  let ?seq = "AGENT_ActivityInfo.address_seq a" and ?max = UXR_TRANSPORT_LOCATOR_SEQUENCE_MAX
  let ?n = "TransportLocatorSeq.size' ?seq"
  let ?locs = "ret_seq (map (\<lambda>i. uxr_serialize_TransportLocator cdr (TransportLocatorSeq.data ?seq i)) [0..<unat ?n])"
  let ?item = "des_item TransportLocatorSeq.data TransportLocatorSeq.data_update (uxr_deserialize_TransportLocator cdr)"
  let ?clamp = "\<lambda>n :: u32. if unat n > ?max then of_nat ?max else n"
  let ?size = "\<lambda>out st. let (ok, n, st2) = ucdr_deserialize_uint32_t cdr (TransportLocatorSeq.size' (AGENT_ActivityInfo.address_seq out)) st
    in (ok, out\<lparr>AGENT_ActivityInfo.address_seq := (AGENT_ActivityInfo.address_seq out)\<lparr>TransportLocatorSeq.size' := ?clamp n\<rparr>\<rparr>, st2)"
  let ?rest = "\<lambda>out. des_field AGENT_ActivityInfo.address_seq AGENT_ActivityInfo.address_seq_update
    (des_seq (map ?item [0..<unat (TransportLocatorSeq.size' (AGENT_ActivityInfo.address_seq out))])) out"
  let ?gs = "\<lambda>out st. let (ok, out1, st1) = ?size out st in if ok then ?rest out1 st1 else (False, out1, st1)"
  show "\<exists>ub1 m1. ucdr_serialize_int16_t cdr (AGENT_ActivityInfo.availability a) (ub, m) = (True, ub1, m1) \<and>
      uxr_serialize_TransportLocatorSeq cdr ?seq (ub1, m1) = (True, ub', m')"
    if "uxr_serialize_AGENT_ActivityInfo cdr a (ub, m) = (True, ub', m')" for ub m ub' m'
    using that by (auto simp: uxr_serialize_AGENT_ActivityInfo_def split: prod.splits)
  show "des_addresses cdr out st = (True, w', st')"
    if "des_field AGENT_ActivityInfo.availability AGENT_ActivityInfo.availability_update (ucdr_deserialize_int16_t cdr) out st = (True, w, st1)"
      "?gs w st1 = (True, w', st')" for st w st1 w' st'
    using that by (auto simp: des_addresses_def des_field_def Let_def split: prod.splits if_splits)
  show "CodecKit.writer (ucdr_serialize_int16_t cdr (AGENT_ActivityInfo.availability a))"
    by (rule cdr_int16.writer [OF cdr TrueI])
  have W: "CodecKit.writer ?locs"
    using ok by (intro writer_seq) (auto simp: addresses_ok_def intro!: TransportLocator.writer [OF cdr])
  then show "CodecKit.writer (uxr_serialize_TransportLocatorSeq cdr ?seq)"
    unfolding uxr_serialize_TransportLocatorSeq_def ser_counted_def by (intro writer_then cdr_uint32.writer [OF cdr TrueI])
  show "carries (ucdr_serialize_int16_t cdr (AGENT_ActivityInfo.availability a))
      (des_field AGENT_ActivityInfo.availability AGENT_ActivityInfo.availability_update (ucdr_deserialize_int16_t cdr)) out (\<lambda>_. True)"
    by (rule carries_field [OF cdr_int16.carries [OF cdr TrueI]]) simp
  show "begins (uxr_serialize_TransportLocatorSeq cdr ?seq) ?gs w
      (\<lambda>w. first_addresses ?seq (AGENT_ActivityInfo.address_seq w))" for w
  proof (rule begins_pair [where g = ?size and gs = ?rest and P = "\<lambda>w. TransportLocatorSeq.size' (AGENT_ActivityInfo.address_seq w) = ?clamp ?n"])
    show "\<exists>ub1 m1. ucdr_serialize_uint32_t cdr ?n (ub, m) = (True, ub1, m1) \<and> ?locs (ub1, m1) = (True, ub', m')"
      if "uxr_serialize_TransportLocatorSeq cdr ?seq (ub, m) = (True, ub', m')" for ub m ub' m'
      using that by (auto simp: uxr_serialize_TransportLocatorSeq_def ser_counted_def ret_then_def split: prod.splits if_splits)
    show "?gs w st = (True, w', st')" if "?size w st = (True, w1, st1)" "?rest w1 st1 = (True, w', st')" for st w1 st1 w' st'
      using that by simp
    show "CodecKit.writer (ucdr_serialize_uint32_t cdr ?n)"
      by (rule cdr_uint32.writer [OF cdr TrueI])
    show "carries (ucdr_serialize_uint32_t cdr ?n) ?size w (\<lambda>w. TransportLocatorSeq.size' (AGENT_ActivityInfo.address_seq w) = ?clamp ?n)"
      by (rule carries_of [OF cdr_uint32.carries [OF cdr TrueI, of _ "TransportLocatorSeq.size' (AGENT_ActivityInfo.address_seq w)"], where h = "\<lambda>n. w\<lparr>AGENT_ActivityInfo.address_seq :=
          (AGENT_ActivityInfo.address_seq w)\<lparr>TransportLocatorSeq.size' := ?clamp n\<rparr>\<rparr>"]) simp_all
    show "begins ?locs ?rest w1 (\<lambda>w. first_addresses ?seq (AGENT_ActivityInfo.address_seq w))"
      if w1: "TransportLocatorSeq.size' (AGENT_ActivityInfo.address_seq w1) = ?clamp ?n" for w1
    proof -
      have k: "unat (?clamp ?n) = min (unat ?n) ?max"
        by (simp add: UXR_TRANSPORT_LOCATOR_SEQUENCE_MAX_def)
      then have "unat (?clamp ?n) \<le> unat ?n"
        by simp
      have "begins ?locs (des_field AGENT_ActivityInfo.address_seq AGENT_ActivityInfo.address_seq_update
          (des_seq (map ?item [0..<unat (?clamp ?n)]))) w1 (\<lambda>w. first_addresses ?seq (AGENT_ActivityInfo.address_seq w))"
        by (rule begins_field [OF locators_begin [OF cdr ok \<open>unat (?clamp ?n) \<le> unat ?n\<close>]])
          (use k w1 in \<open>simp add: first_addresses_def del: of_nat_numeral\<close>)
      then show ?thesis
        by (simp only: begins_def w1)
    qed
  qed (rule W)
qed

abbreviation variant_addresses :: "ActivityInfoVariant \<Rightarrow> TransportLocatorSeq" where
  "variant_addresses v \<equiv> AGENT_ActivityInfo.address_seq (ActivityInfoVariantU.agent (ActivityInfoVariant.U v))"

lemma activity_begins:
  assumes cdr: "ucdr_ok cdr" and kind: "ActivityInfoVariant.kind v = DDS_XRCE_OBJK_AGENT" and ok: "addresses_ok (variant_addresses v)"
  shows "begins (uxr_serialize_ActivityInfoVariant cdr v) (des_agent_activity cdr True) out
      (\<lambda>w. first_addresses (variant_addresses v) (variant_addresses w))"
    and "CodecKit.writer (uxr_serialize_ActivityInfoVariant cdr v)"
proof -
  let ?a = "ActivityInfoVariantU.agent (ActivityInfoVariant.U v)"
  let ?gs = "des_field (ActivityInfoVariantU.agent \<circ> ActivityInfoVariant.U)
    (ActivityInfoVariant.U_update \<circ> ActivityInfoVariantU.agent_update) (des_addresses cdr)"
  have W: "CodecKit.writer (uxr_serialize_AGENT_ActivityInfo cdr ?a)"
    unfolding uxr_serialize_AGENT_ActivityInfo_def uxr_serialize_TransportLocatorSeq_def ser_counted_def
    using ok by (intro writer_all_Cons writer_all_Nil writer_then writer_seq cdr_int16.writer [OF cdr TrueI] cdr_uint32.writer [OF cdr TrueI])
      (auto simp: addresses_ok_def intro!: TransportLocator.writer [OF cdr])
  have S: "uxr_serialize_ActivityInfoVariant cdr v = ret_then (ucdr_serialize_uint8_t cdr (ActivityInfoVariant.kind v))
      (uxr_serialize_AGENT_ActivityInfo cdr ?a)"
    by (simp add: uxr_serialize_ActivityInfoVariant_def kind)
  show "CodecKit.writer (uxr_serialize_ActivityInfoVariant cdr v)"
    unfolding S by (intro writer_then cdr_uint8.writer [OF cdr TrueI] W)
  show "begins (uxr_serialize_ActivityInfoVariant cdr v) (des_agent_activity cdr True) out
      (\<lambda>w. first_addresses (variant_addresses v) (variant_addresses w))"
    unfolding S
  proof (rule begins_pair [where g = "des_field ActivityInfoVariant.kind ActivityInfoVariant.kind_update (ucdr_deserialize_uint8_t cdr)"
        and gs = "\<lambda>w st. if ActivityInfoVariant.kind w = DDS_XRCE_OBJK_AGENT then ?gs w st else (False, w, st)"
        and P = "\<lambda>w. ActivityInfoVariant.kind w = DDS_XRCE_OBJK_AGENT"])
    show "CodecKit.writer (ucdr_serialize_uint8_t cdr (ActivityInfoVariant.kind v))"
      by (rule cdr_uint8.writer [OF cdr TrueI])
    show "carries (ucdr_serialize_uint8_t cdr (ActivityInfoVariant.kind v))
        (des_field ActivityInfoVariant.kind ActivityInfoVariant.kind_update (ucdr_deserialize_uint8_t cdr)) out
        (\<lambda>w. ActivityInfoVariant.kind w = DDS_XRCE_OBJK_AGENT)"
      by (rule carries_field [OF cdr_uint8.carries [OF cdr TrueI]]) (simp add: kind [symmetric])
    show "begins (uxr_serialize_AGENT_ActivityInfo cdr ?a)
        (\<lambda>w st. if ActivityInfoVariant.kind w = DDS_XRCE_OBJK_AGENT then ?gs w st else (False, w, st)) w
        (\<lambda>w. first_addresses (variant_addresses v) (variant_addresses w))"
      if "ActivityInfoVariant.kind w = DDS_XRCE_OBJK_AGENT" for w
    proof -
      have "begins (uxr_serialize_AGENT_ActivityInfo cdr ?a) ?gs w (\<lambda>w. first_addresses (variant_addresses v) (variant_addresses w))"
        by (rule begins_field [OF addresses_begin [OF cdr ok]]) simp
      then show ?thesis
        by (simp add: begins_def that)
    qed
  qed (use W in \<open>auto simp: ret_then_def des_agent_activity_def des_field_def Let_def split: prod.splits if_splits\<close>)
qed

text \<open>The whole payload: the version of the protocol that the agent's configuration names, and its addresses.\<close>

abbreviation payload_version :: "INFO_Payload \<Rightarrow> XrceVersion" where
  "payload_version v \<equiv>
     AGENT_Representation.xrce_version (ObjectVariantU.agent (ObjectVariant.U (ObjectInfo.config (INFO_Payload.object_info v))))"

abbreviation payload_addresses :: "INFO_Payload \<Rightarrow> TransportLocatorSeq" where
  "payload_addresses v \<equiv> variant_addresses (ObjectInfo.activity (INFO_Payload.object_info v))"

text \<open>What an agent answers: its configuration and its activity, with any number of addresses.\<close>

definition agent_answer :: "INFO_Payload \<Rightarrow> bool" where
  "agent_answer v \<longleftrightarrow> ok_BaseObjectReply (INFO_Payload.base v) \<and>
     (let oi = INFO_Payload.object_info v in
      ObjectInfo.optional_config oi \<and> ObjectVariant.kind (ObjectInfo.config oi) = DDS_XRCE_OBJK_AGENT \<and>
      ok_ObjectVariant (ObjectInfo.config oi) \<and>
      ObjectInfo.optional_activity oi \<and> ActivityInfoVariant.kind (ObjectInfo.activity oi) = DDS_XRCE_OBJK_AGENT \<and>
      addresses_ok (payload_addresses v))"

lemma ret_all_snoc:
  "ret_all (xs @ [y]) st = (let (ok1, st1) = ret_all xs st; (ok2, st2) = y st1 in (ok1 \<and> ok2, st2))"
  by (induction xs arbitrary: st) (auto simp: Let_def split: prod.splits)

lemma payload_begins:
  assumes cdr: "ucdr_ok cdr" and v: "agent_answer v"
  shows "begins (uxr_serialize_INFO_Payload cdr v) (uxr_deserialize_discovery_INFO_Payload cdr) out
      (\<lambda>w. payload_version v = payload_version w \<and> first_addresses (payload_addresses v) (payload_addresses w))"
    and "CodecKit.writer (uxr_serialize_INFO_Payload cdr v)"
proof -
  let ?oi = "INFO_Payload.object_info v"
  let ?conf = "[des_field ObjectInfo.optional_config ObjectInfo.optional_config_update (ucdr_deserialize_bool cdr),
    des_when ObjectInfo.optional_config (des_field ObjectInfo.config ObjectInfo.config_update (uxr_deserialize_ObjectVariant cdr)),
    des_field ObjectInfo.optional_activity ObjectInfo.optional_activity_update (ucdr_deserialize_bool cdr)]"
  let ?sconf = "[ucdr_serialize_bool cdr (ObjectInfo.optional_config ?oi),
    ser_when (ObjectInfo.optional_config ?oi) (uxr_serialize_ObjectVariant cdr (ObjectInfo.config ?oi)),
    ucdr_serialize_bool cdr (ObjectInfo.optional_activity ?oi)]"
  let ?sact = "uxr_serialize_ActivityInfoVariant cdr (ObjectInfo.activity ?oi)"
  let ?act = "\<lambda>ret. des_when ObjectInfo.optional_activity
    (des_field ObjectInfo.activity ObjectInfo.activity_update (des_agent_activity cdr ret))"
  let ?info = "\<lambda>w :: INFO_Payload. INFO_Payload.object_info w"
  have v': "ok_BaseObjectReply (INFO_Payload.base v)" "ObjectInfo.optional_config ?oi"
    "ObjectVariant.kind (ObjectInfo.config ?oi) = DDS_XRCE_OBJK_AGENT" "ok_ObjectVariant (ObjectInfo.config ?oi)"
    "ObjectInfo.optional_activity ?oi" "ActivityInfoVariant.kind (ObjectInfo.activity ?oi) = DDS_XRCE_OBJK_AGENT"
    "addresses_ok (payload_addresses v)"
    using v by (simp_all add: agent_answer_def Let_def)
  note A = activity_begins [OF cdr v'(6,7)]
  have W1: "CodecKit.writer (ret_all ?sconf)"
    by (intro writers cdr_bool.writer [OF cdr TrueI] ObjectVariant.writer [OF cdr v'(4)])
  have all: "ret_all (xs @ [y]) st = (True, st') \<Longrightarrow> \<exists>st1. ret_all xs st = (True, st1) \<and> y st1 = (True, st')" for xs y st st'
    by (auto simp: ret_all_snoc split: prod.splits)
  have O: "uxr_serialize_ObjectInfo cdr ?oi = ret_all (?sconf @ [?sact])"
    by (simp add: uxr_serialize_ObjectInfo_def v'(5) ser_when_def)
  have W2: "CodecKit.writer (uxr_serialize_ObjectInfo cdr ?oi)"
    unfolding uxr_serialize_ObjectInfo_def
    by (intro writers cdr_bool.writer [OF cdr TrueI] ObjectVariant.writer [OF cdr v'(4)] A(2))
  show "CodecKit.writer (uxr_serialize_INFO_Payload cdr v)"
    unfolding uxr_serialize_INFO_Payload_def by (intro writers BaseObjectReply.writer [OF cdr v'(1)] W2)
  have conf: "carries (ret_all ?sconf) (des_all ?conf) info (\<lambda>i. ObjectInfo.optional_activity i \<and>
      AGENT_Representation.xrce_version (ObjectVariantU.agent (ObjectVariant.U (ObjectInfo.config ?oi))) =
      AGENT_Representation.xrce_version (ObjectVariantU.agent (ObjectVariant.U (ObjectInfo.config i))))" for info
    by (rule codec_steps writers cdr_bool.carries [OF cdr TrueI] cdr_bool.writer [OF cdr TrueI]
        ObjectVariant.carries [OF cdr v'(4)] ObjectVariant.writer [OF cdr v'(4)]
        | simp add: v'(2,3,5) same_ObjectVariant_def same_AGENT_Representation_def)+
  let ?gs = "\<lambda>out st. let (ret2, info1, st2) = des_all ?conf (?info out) st; (ret3, info2, st3) = ?act ret2 info1 st2
    in (ret2 \<and> ret3, out\<lparr>INFO_Payload.object_info := info2\<rparr>, st3)"
  show "begins (uxr_serialize_INFO_Payload cdr v) (uxr_deserialize_discovery_INFO_Payload cdr) out
      (\<lambda>w. payload_version v = payload_version w \<and> first_addresses (payload_addresses v) (payload_addresses w))"
  proof (rule begins_pair [where gs = ?gs and P = "\<lambda>_. True"
        and g = "des_field INFO_Payload.base INFO_Payload.base_update (uxr_deserialize_BaseObjectReply cdr)"])
    show "\<exists>ub1 m1. uxr_serialize_BaseObjectReply cdr (INFO_Payload.base v) (ub, m) = (True, ub1, m1) \<and>
        uxr_serialize_ObjectInfo cdr ?oi (ub1, m1) = (True, ub', m')"
      if "uxr_serialize_INFO_Payload cdr v (ub, m) = (True, ub', m')" for ub m ub' m'
      using that by (auto simp: uxr_serialize_INFO_Payload_def split: prod.splits)
    show "carries (uxr_serialize_BaseObjectReply cdr (INFO_Payload.base v))
        (des_field INFO_Payload.base INFO_Payload.base_update (uxr_deserialize_BaseObjectReply cdr)) out (\<lambda>_. True)"
      by (rule carries_field [OF BaseObjectReply.carries [OF cdr v'(1)]]) simp
    show "begins (uxr_serialize_ObjectInfo cdr ?oi) ?gs w
        (\<lambda>w. payload_version v = payload_version w \<and> first_addresses (payload_addresses v) (payload_addresses w))" for w
      unfolding O
    proof (rule begins_pair [where f = "ret_all ?sconf" and fs = ?sact
          and g = "des_field INFO_Payload.object_info INFO_Payload.object_info_update (des_all ?conf)"
          and gs = "des_field INFO_Payload.object_info INFO_Payload.object_info_update (?act True)"
          and P = "\<lambda>w. ObjectInfo.optional_activity (?info w) \<and> payload_version v = payload_version w"])
      show "\<exists>ub1 m1. ret_all ?sconf (ub, m) = (True, ub1, m1) \<and> ?sact (ub1, m1) = (True, ub', m')"
        if "ret_all (?sconf @ [?sact]) (ub, m) = (True, ub', m')" for ub m ub' m'
        using all [OF that] by auto
      show "carries (ret_all ?sconf) (des_field INFO_Payload.object_info INFO_Payload.object_info_update (des_all ?conf)) w
          (\<lambda>w. ObjectInfo.optional_activity (?info w) \<and> payload_version v = payload_version w)"
        by (rule carries_field [OF conf]) simp
      show "begins ?sact (des_field INFO_Payload.object_info INFO_Payload.object_info_update (?act True)) w
          (\<lambda>w. payload_version v = payload_version w \<and> first_addresses (payload_addresses v) (payload_addresses w))"
        if w: "ObjectInfo.optional_activity (?info w) \<and> payload_version v = payload_version w" for w
      proof (rule begins_field)
        have "begins ?sact (des_field ObjectInfo.activity ObjectInfo.activity_update (des_agent_activity cdr True)) (?info w)
            (\<lambda>i. ObjectInfo.config i = ObjectInfo.config (?info w) \<and> first_addresses (payload_addresses v) (variant_addresses (ObjectInfo.activity i)))"
          by (rule begins_field [OF A(1)]) simp
        then show "begins ?sact (?act True) (?info w)
            (\<lambda>i. ObjectInfo.config i = ObjectInfo.config (?info w) \<and> first_addresses (payload_addresses v) (variant_addresses (ObjectInfo.activity i)))"
          using w by (simp add: begins_def des_when_def des_if_def)
      qed (use w in simp)
    qed (use W1 A(2) in \<open>auto simp: des_field_def Let_def split: prod.splits\<close>)
  qed (use W2 BaseObjectReply.writer [OF cdr v'(1)] in \<open>auto simp: uxr_deserialize_discovery_INFO_Payload_def des_field_def Let_def split: prod.splits\<close>)
qed

lemma read_message_tells:
  assumes "ucdr_ok (d_lib D)" and "agent_answer v" and "usable ub"
    and "uxr_serialize_INFO_Payload (d_lib D) v (ub, m) = (True, ub', m')"
    and "copy_of ub m' (iterator ub' - iterator ub) ub2 (datagram_mem t)"
  shows "\<exists>ls. length ls = (if XrceVersion.data (payload_version v) = XrceVersion.data DDS_XRCE_XRCE_VERSION
      then min (unat (TransportLocatorSeq.size' (payload_addresses v))) UXR_TRANSPORT_LOCATOR_SEQUENCE_MAX else 0) \<and>
    (\<forall>j < length ls. same_TransportLocator (TransportLocatorSeq.data (payload_addresses v) j) (ls ! j)) \<and>
    read_info_message D ub2 t = (let (b, s) = tell_agents (d_on_agent D) ls False (os t) in Some (b, t\<lparr>os := s\<rparr>))"
proof -
  note P = payload_begins [OF assms(1,2)]
  obtain n where n: "wrote ub m n ub' m'"
    using writerD(2) [OF P(2) assms(4,3)] by blast
  then have "n = iterator ub' - iterator ub"
    by (simp add: wrote_def)
  with beginsE [OF P(1) assms(3,4) n] assms(5) obtain w k where
    w: "payload_version v = payload_version w" "first_addresses (payload_addresses v) (payload_addresses w)"
    and d: "uxr_deserialize_discovery_INFO_Payload (d_lib D) (d_INFO (d_locals D)) (ub2, datagram_mem t) = (True, w, adv k ub2, datagram_mem t)"
    by metis
  let ?ls = "if XrceVersion.data (payload_version v) = XrceVersion.data DDS_XRCE_XRCE_VERSION
    then map (TransportLocatorSeq.data (payload_addresses w)) [0..<unat (TransportLocatorSeq.size' (payload_addresses w))] else []"
  have "read_info_message D ub2 t = (let (b, s) = tell_agents (d_on_agent D) ?ls False (os t) in Some (b, t\<lparr>os := s\<rparr>))"
    using w by (simp add: read_info_message_def d first_addresses_def Let_def)
  moreover have "length ?ls = (if XrceVersion.data (payload_version v) = XrceVersion.data DDS_XRCE_XRCE_VERSION
      then min (unat (TransportLocatorSeq.size' (payload_addresses v))) UXR_TRANSPORT_LOCATOR_SEQUENCE_MAX else 0)"
    "\<forall>j < length ?ls. same_TransportLocator (TransportLocatorSeq.data (payload_addresses v) j) (?ls ! j)"
    using w(2) by (simp_all add: first_addresses_def)
  ultimately show ?thesis
    by blast
qed

text \<open>C35. A datagram with an agent's answer, that is the headers of any session, stream and submessage and then
  its configuration and its activity with a list of any number of addresses, in the byte order of its flags,
  makes the client call the application's function with the first addresses of the list, four at most, in
  their order and as they were sent, if the agent has this version of the protocol, and with none otherwise; the
  client goes by what the last call returns.\<close>
theorem discovery_tells_addresses:
  fixes v :: INFO_Payload
  assumes "ucdr_ok (d_lib D)" and "agent_answer v" and "length k = 4"
    and "sys_poll (d_posix D) (poll_fd t) timeout (os t) = (p, s1)" and "0 < p"
    and "sys_recv (d_posix D) (platform_fd t) UXR_UDP_TRANSPORT_MTU_DATAGRAM s1 = (Some bs, s2)"
    and "bs = message_header_bytes s r q k @ header_bytes i flags len @ rd m' (iterator ub) (iterator ub' - iterator ub)"
    and "length bs \<le> UXR_UDP_TRANSPORT_MTU_DATAGRAM"
    and "uxr_serialize_INFO_Payload (d_lib D) v (ub, m) = (True, ub', m')" and "usable ub"
    and "offset ub mod 8 = (length (message_header_bytes s r q k) + 4) mod 8"
    and "endianness ub = (if flags AND 1 \<noteq> 0 then LITTLE_ENDIANNESS else BIG_ENDIANNESS)"
  shows "\<exists>ls. length ls = (if XrceVersion.data (payload_version v) = XrceVersion.data DDS_XRCE_XRCE_VERSION
      then min (unat (TransportLocatorSeq.size' (payload_addresses v))) 4 else 0) \<and>
    (\<forall>j < length ls. same_TransportLocator (TransportLocatorSeq.data (payload_addresses v) j) (ls ! j)) \<and>
    discovery_listen_info_message D timeout t = (let (b, s) = tell_agents (d_on_agent D) ls False s2
      in Some (b, t\<lparr>datagram_mem := wr (datagram_mem t) (datagram_buffer t) bs, os := s\<rparr>))"
proof -
  let ?cdr = "d_lib D" and ?a = "datagram_buffer t" and ?h = "message_header_bytes s r q k" and ?n = "iterator ub' - iterator ub"
  let ?m = "wr (datagram_mem t) ?a bs"
  let ?t = "t\<lparr>os := s2, datagram_mem := ?m\<rparr>"
  let ?ub = "ucdr_init_buffer ?cdr ?a (cast_u32 (length bs))" and ?l = "length ?h"
  have len: "length bs = ?l + 4 + ?n" and l: "?l \<in> {4, 8}"
    using assms(3,7) by (simp_all add: length_message_header_bytes)
  have ub: "\<not> error ?ub" "offset ?ub = 0" "iterator ?ub = ?a" "final ?ub = ?a + length bs"
    using assms(1,8) by (simp_all add: ucdr_simps cast_u32_eq UXR_UDP_TRANSPORT_MTU_DATAGRAM_def)
  have "rd ?m ?a (length bs) = bs"
    by (simp add: rd_wr_same)
  moreover have "rd ?m ?a (length bs) = rd ?m ?a ?l @ rd ?m (?a + ?l) 4 @ rd ?m (?a + ?l + 4) ?n"
    using rd_append [of ?m ?a ?l "4 + ?n"] rd_append [of ?m "?a + ?l" 4 ?n] by (simp add: len add.assoc)
  ultimately have parts: "rd ?m ?a ?l = ?h" "rd ?m (?a + ?l) 4 = header_bytes i flags len"
    "rd ?m (?a + ?l + 4) ?n = rd m' (iterator ub) ?n"
    using assms(7) by (simp_all add: append_eq_append_conv)
  obtain a0 b0 c0 k0 where loc: "d_message_header (d_locals D) = (a0, b0, c0, k0)"
    by (metis prod_cases4)
  have mh: "uxr_deserialize_message_header ?cdr (a0, b0, c0, k0) (?ub, ?m) = ((s, r, q, if s < 0x80 then k else k0), (adv ?l ?ub, ?m))"
    using ub len parts(1) by (intro deserialize_message_header [OF assms(1) ub(1) _ _ assms(3)]) simp_all
  let ?ub2 = "(adv (?l + 4) ?ub)\<lparr>endianness := endianness ub\<rparr>"
  have pad: "pad ?l 4 = 0"
    using l by (auto simp: pad_def)
  have sh: "uxr_read_submessage_header ?cdr out (adv ?l ?ub, ?m) = (True, (i, len, flags AND NOT 1), (?ub2, ?m))" for out
    using read_submessage_header [OF assms(1), of "adv ?l ?ub" ?m i flags len out] ub len parts(2) pad assms(12) by simp
  have heads: "read_info_headers ?cdr (d_locals D) (?ub, ?m) = (True, ?ub2, ?m)"
    by (simp add: read_info_headers_def loc mh sh)
  have "copy_of ub m' ?n ?ub2 (datagram_mem ?t)"
    using ub len parts(3) assms(11) by (simp add: copy_of_def add.assoc)
  from read_message_tells [OF assms(1,2,10,9) this] obtain ls where
    ls: "length ls = (if XrceVersion.data (payload_version v) = XrceVersion.data DDS_XRCE_XRCE_VERSION
      then min (unat (TransportLocatorSeq.size' (payload_addresses v))) UXR_TRANSPORT_LOCATOR_SEQUENCE_MAX else 0)"
      "\<forall>j < length ls. same_TransportLocator (TransportLocatorSeq.data (payload_addresses v) j) (ls ! j)"
    and told: "read_info_message D ?ub2 ?t = (let (b, s) = tell_agents (d_on_agent D) ls False (os ?t) in Some (b, ?t\<lparr>os := s\<rparr>))"
    by blast
  have "uxr_udp_recv_datagram (d_posix D) t timeout = (Some (?a, length bs), ?t)"
    using assms(4-6) len by (simp add: uxr_udp_recv_datagram_def platform_fd_def)
  then have "discovery_listen_info_message D timeout t = read_info_message D ?ub2 ?t"
    by (simp add: discovery_listen_info_message_def heads)
  then show ?thesis
    using ls told by (intro exI [of _ ls]) (simp add: UXR_TRANSPORT_LOCATOR_SEQUENCE_MAX_def)
qed

definition example_locator :: "u8 \<Rightarrow> TransportLocator" where
  "example_locator k = \<lparr>TransportLocator.format = ADDRESS_FORMAT_MEDIUM,
     U = undefined\<lparr>medium_locator := \<lparr>TransportLocatorMedium.address = [10, 0, 0, k], locator_port = 2018\<rparr>\<rparr>\<rparr>"

definition example_info :: INFO_Payload where
  "example_info = \<lparr>INFO_Payload.base = \<lparr>related_request = \<lparr>request_id = \<lparr>RequestId.data = [0, 9]\<rparr>,
         object_id = \<lparr>ObjectId.data = [0xFF, 0xFD]\<rparr>\<rparr>, result = \<lparr>ResultStatus.status = 0, implementation_status = 0\<rparr>\<rparr>,
     object_info = \<lparr>optional_config = True, config = \<lparr>ObjectVariant.kind = DDS_XRCE_OBJK_AGENT,
         U = undefined\<lparr>ObjectVariantU.agent := \<lparr>xrce_cookie = \<lparr>XrceCookie.data = [88, 82, 67, 69]\<rparr>, xrce_version = DDS_XRCE_XRCE_VERSION,
           xrce_vendor_id = \<lparr>XrceVendorId.data = [1, 15]\<rparr>, optional_properties = False, properties = undefined\<rparr>\<rparr>\<rparr>,
       optional_activity = True, activity = \<lparr>ActivityInfoVariant.kind = DDS_XRCE_OBJK_AGENT,
         U = undefined\<lparr>ActivityInfoVariantU.agent := \<lparr>AGENT_ActivityInfo.availability = 1, address_seq = \<lparr>TransportLocatorSeq.size' = 5,
           data = (\<lambda>i. example_locator (of_nat i + 1))\<rparr>\<rparr>\<rparr>\<rparr>\<rparr>\<rparr>"

definition example_written :: "bool \<times> cdr_state" where
  "example_written = uxr_serialize_INFO_Payload ref_ucdr example_info (ref_init 0 128 0 0, \<lambda>_. 0)"

definition example_datagram :: "u8 list" where
  "example_datagram = message_header_bytes 0x80 0 0 [0, 0, 0, 0] @ header_bytes SUBMESSAGE_ID_INFO 1 72 @
     rd (snd (snd example_written)) 0 (iterator (fst (snd example_written)))"

text \<open>An application that keeps the addresses it is told of five: the first four.\<close>

theorem discovery_tells_addresses_witness:
  "\<forall>K S M loc t. \<exists>s ls. length ls = 4 \<and> (\<forall>i < 4. same_TransportLocator (example_locator (of_nat i + 1)) (ls ! i)) \<and>
    discovery_listen_info_message \<lparr>d_lib = ref_ucdr, d_posix = K\<lparr>sys_poll := \<lambda>_ _ s. (1, s), sys_recv := \<lambda>_ _ s. (Some example_datagram, s)\<rparr>,
        d_sendto = S, d_millis = M, d_on_agent = \<lambda>l s. (True, s @ [l]), d_locals = loc\<rparr> 1000 (t\<lparr>os := []\<rparr>) = Some (True, s) \<and> os s = ls"
proof (intro allI)
  fix K :: "TransportLocator list posix" and S M loc and t :: "TransportLocator list uxrUDPTransportDatagram"
  let ?D = "\<lparr>d_lib = ref_ucdr, d_posix = K\<lparr>sys_poll := \<lambda>_ _ s. (1, s), sys_recv := \<lambda>_ _ s. (Some example_datagram, s)\<rparr>,
    d_sendto = S, d_millis = M, d_on_agent = \<lambda>l s. (True, s @ [l]), d_locals = loc\<rparr>"
  let ?r = "example_written"
  have answer: "agent_answer example_info" and u: "usable (ref_init 0 128 0 0)"
    by (simp_all add: agent_answer_def addresses_ok_def example_info_def example_locator_def ok_BaseObjectReply_def ok_BaseObjectRequest_def
        ok_RequestId_def ok_ObjectId_def ok_ObjectVariant_def ok_AGENT_Representation_def ok_XrceCookie_def ok_XrceVersion_def
        ok_XrceVendorId_def ok_TransportLocator_def ok_TransportLocatorMedium_def DDS_XRCE_XRCE_VERSION_def kind_defs usable_def ref_init_def)
  have five: "[0..<5] = [0, 1, 2, 3, 4 :: nat]"
    by (simp add: upt_rec)
  have "fst ?r"
    by (simp add: example_written_def example_info_def example_locator_def uxr_serialize_INFO_Payload_def uxr_serialize_BaseObjectReply_def
        uxr_serialize_BaseObjectRequest_def uxr_serialize_RequestId_def uxr_serialize_ObjectId_def uxr_serialize_ResultStatus_def
        uxr_serialize_ObjectInfo_def uxr_serialize_ObjectVariant_def uxr_serialize_AGENT_Representation_def uxr_serialize_XrceCookie_def
        uxr_serialize_XrceVersion_def uxr_serialize_XrceVendorId_def uxr_serialize_ActivityInfoVariant_def
        uxr_serialize_AGENT_ActivityInfo_def uxr_serialize_TransportLocatorSeq_def uxr_serialize_TransportLocator_def
        uxr_serialize_TransportLocatorMedium_def DDS_XRCE_XRCE_VERSION_def ser_when_def ser_nothing_def ser_counted_def five
        ret_then_def kind_defs ref_ucdr_def ref_ser_def ref_ser_w_def ref_init_def pad_def)
  then have r0: "uxr_serialize_INFO_Payload ref_ucdr example_info (ref_init 0 128 0 0, \<lambda>_. 0) = (True, fst (snd ?r), snd (snd ?r))"
    by (simp add: example_written_def prod_eq_iff)
  then have r: "uxr_serialize_INFO_Payload (d_lib ?D) example_info (ref_init 0 128 0 0, \<lambda>_. 0) = (True, fst (snd ?r), snd (snd ?r))"
    by simp
  obtain n where "wrote (ref_init 0 128 0 0) (\<lambda>_. 0) n (fst (snd ?r)) (snd (snd ?r))"
    using writerD(2) [OF payload_begins(2) [OF ucdr_ok_ref_ucdr answer] r0 u] by blast
  then have "iterator (fst (snd ?r)) \<le> 128"
    by (auto simp: wrote_def ref_init_def)
  then have fits: "length example_datagram \<le> UXR_UDP_TRANSPORT_MTU_DATAGRAM"
    by (simp add: example_datagram_def UXR_UDP_TRANSPORT_MTU_DATAGRAM_def length_message_header_bytes)
  have bs: "example_datagram = message_header_bytes 0x80 0 0 [0, 0, 0, 0] @ header_bytes SUBMESSAGE_ID_INFO 1 72 @
      rd (snd (snd ?r)) (iterator (ref_init 0 128 0 0)) (iterator (fst (snd ?r)) - iterator (ref_init 0 128 0 0))"
    by (simp add: example_datagram_def ref_init_def)
  have "ucdr_ok (d_lib ?D)" "length [0, 0, 0, 0 :: u8] = 4" "(0 :: int) < 1"
    "sys_poll (d_posix ?D) (poll_fd (t\<lparr>os := []\<rparr>)) 1000 (os (t\<lparr>os := []\<rparr>)) = (1, [])"
    "sys_recv (d_posix ?D) (platform_fd (t\<lparr>os := []\<rparr>)) UXR_UDP_TRANSPORT_MTU_DATAGRAM [] = (Some example_datagram, [])"
    "offset (ref_init 0 128 0 0) mod 8 = (length (message_header_bytes 0x80 0 0 [0, 0, 0, 0]) + 4) mod 8"
    "endianness (ref_init 0 128 0 0) = (if (1 :: u8) AND 1 \<noteq> 0 then LITTLE_ENDIANNESS else BIG_ENDIANNESS)"
    by (simp_all add: ucdr_ok_ref_ucdr ref_init_def length_message_header_bytes)
  from discovery_tells_addresses [OF this(1) answer this(2,4,3,5) bs fits r u this(6,7)]
  obtain ls where ls: "length ls = 4" "\<forall>i < length ls. same_TransportLocator (example_locator (of_nat i + 1)) (ls ! i)"
    and told: "discovery_listen_info_message ?D 1000 (t\<lparr>os := []\<rparr>) = (let (b, s) = tell_agents (d_on_agent ?D) ls False []
      in Some (b, t\<lparr>os := [], datagram_mem := wr (datagram_mem (t\<lparr>os := []\<rparr>)) (datagram_buffer (t\<lparr>os := []\<rparr>)) example_datagram, os := s\<rparr>))"
    by (auto simp: example_info_def)
  have one: "tell_agents (\<lambda>l s. (True, s @ [l])) ls b s = (ls \<noteq> [] \<or> b, s @ ls)" for ls :: "TransportLocator list" and b s
    by (induction ls arbitrary: b s) simp_all
  have "ls \<noteq> []"
    using ls(1) by auto
  then show "\<exists>s ls. length ls = 4 \<and> (\<forall>i < 4. same_TransportLocator (example_locator (of_nat i + 1)) (ls ! i)) \<and>
      discovery_listen_info_message ?D 1000 (t\<lparr>os := []\<rparr>) = Some (True, s) \<and> os s = ls"
    using ls told by (auto simp: one)
qed

section \<open>No answer\<close>

text \<open>
  A system on which nothing arrives and waiting takes the time it is given, with a clock that does not go
  back; no call takes more than three days longer. \<open>sent\<close> is what was sent where.
\<close>

type_synonym datagram = "(u8 list \<times> u16) \<times> u8 list"

definition nobody :: "'os discovery \<Rightarrow> ('os \<Rightarrow> datagram list) \<Rightarrow> ('os \<Rightarrow> int) \<Rightarrow> bool" where
  "nobody D sent clock \<longleftrightarrow> (\<forall>s p t f bs a.
     (case sys_poll (d_posix D) p t s of (r, s') \<Rightarrow> r \<le> 0 \<and> sent s' = sent s \<and> clock s + t \<le> clock s' \<and> clock s' \<le> clock s + \<bar>t\<bar> + 2 ^ 28) \<and>
     (case d_sendto D f bs a s of (_, s') \<Rightarrow> sent s' = sent s @ [(a, bs)]) \<and>
     (case d_millis D s of (now, s') \<Rightarrow> now = clock s \<and> sent s' = sent s \<and> clock s \<le> clock s' \<and> clock s' \<le> clock s + 2 ^ 28) \<and>
     (case sys_socket (d_posix D) AF_INET SOCK_DGRAM s of (f, s') \<Rightarrow> f \<noteq> - 1 \<and> sent s' = sent s) \<and>
     sent (snd (sys_close (d_posix D) f s)) = sent s)"

lemma nobodyD:
  assumes "nobody D sent clock"
  shows "sys_poll (d_posix D) p t s = (r, s') \<Longrightarrow> r \<le> 0 \<and> sent s' = sent s \<and> clock s + t \<le> clock s' \<and> clock s' \<le> clock s + \<bar>t\<bar> + 2 ^ 28"
    and "sent (snd (d_sendto D f bs a s)) = sent s @ [(a, bs)]"
    and "d_millis D s = (now, s') \<Longrightarrow> now = clock s \<and> sent s' = sent s \<and> clock s \<le> clock s' \<and> clock s' \<le> clock s + 2 ^ 28"
    and "sys_socket (d_posix D) AF_INET SOCK_DGRAM s = (f, s') \<Longrightarrow> f \<noteq> - 1 \<and> sent s' = sent s"
    and "sent (snd (sys_close (d_posix D) f s)) = sent s"
proof -
  note all = assms [unfolded nobody_def, rule_format]
  show "sys_poll (d_posix D) p t s = (r, s') \<Longrightarrow> r \<le> 0 \<and> sent s' = sent s \<and> clock s + t \<le> clock s' \<and> clock s' \<le> clock s + \<bar>t\<bar> + 2 ^ 28"
    using conjunct1 [OF all [where s = s and p = p and t = t]] by simp
  show "sent (snd (d_sendto D f bs a s)) = sent s @ [(a, bs)]"
    using conjunct1 [OF conjunct2 [OF all [where s = s and f = f and bs = bs and a = a]]] by (simp split: prod.splits)
  show "d_millis D s = (now, s') \<Longrightarrow> now = clock s \<and> sent s' = sent s \<and> clock s \<le> clock s' \<and> clock s' \<le> clock s + 2 ^ 28"
    using conjunct1 [OF conjunct2 [OF conjunct2 [OF all [where s = s]]]] by simp
  show "sys_socket (d_posix D) AF_INET SOCK_DGRAM s = (f, s') \<Longrightarrow> f \<noteq> - 1 \<and> sent s' = sent s"
    using conjunct1 [OF conjunct2 [OF conjunct2 [OF conjunct2 [OF all [where s = s]]]]] by simp
  show "sent (snd (sys_close (d_posix D) f s)) = sent s"
    using conjunct2 [OF conjunct2 [OF conjunct2 [OF conjunct2 [OF all [where s = s and f = f]]]]] .
qed

text \<open>The addresses that a message is sent to: those of version 4 of the internet protocol.\<close>

definition reached :: "TransportLocator list \<Rightarrow> (u8 list \<times> u16) list" where
  "reached ls = map (\<lambda>l. let a = medium_locator (TransportLocator.U l) in (take 4 (TransportLocatorMedium.address a), TransportLocatorMedium.locator_port a))
     (filter (\<lambda>l. TransportLocator.format l = ADDRESS_FORMAT_MEDIUM) ls)"

lemma send_get_info_sent:
  assumes "nobody D sent clock"
  shows "sent (os (send_get_info (d_sendto D) message ls t)) = sent (os t) @ map (\<lambda>a. (a, message)) (reached ls)"
proof (induction ls arbitrary: t)
  case (Cons l ls)
  have "sent (os (snd (uxr_udp_send_datagram_to (d_sendto D) t message l))) = sent (os t) @ map (\<lambda>a. (a, message)) (reached [l])"
    using nobodyD(2) [OF assms] by (simp add: uxr_udp_send_datagram_to_def reached_def Let_def split: prod.split)
      (metis snd_conv)
  then show ?case
    using Cons by (simp add: reached_def)
qed (simp add: reached_def)

lemma await_nobody:
  assumes n: "nobody D sent clock" and now: "d_now D t = (timestamp, t1)" and p: "0 < period" "period \<le> 2 ^ 28"
  shows "\<exists>t2. await_agent D timestamp period t1 = Some (False, t2) \<and> sent (os t2) = sent (os t)"
proof -
  obtain s1 where s1: "d_millis D (os t) = (timestamp, s1)" "t1 = t\<lparr>os := s1\<rparr>"
    using now by (auto simp: d_now_def split: prod.splits)
  obtain r s2 where s2: "sys_poll (d_posix D) (poll_fd t1) period (os t1) = (r, s2)"
    by force
  obtain t' s3 where s3: "d_millis D s2 = (t', s3)"
    by force
  have listen: "discovery_listen_info_message D period t1 = Some (False, t1\<lparr>os := s2\<rparr>)"
    using nobodyD(1) [OF n s2] s2 by (simp add: discovery_listen_info_message_def uxr_udp_recv_datagram_def)
  have "cast_int32 (t' - timestamp) = t' - timestamp" "period \<le> t' - timestamp"
    using nobodyD(3) [OF n s1(1)] nobodyD(1) [OF n s2] nobodyD(3) [OF n s3] p s1(2) by (auto intro!: cast_int32_eq)
  then have "await_agent D timestamp period t1 = Some (False, t1\<lparr>os := s3\<rparr>)"
    using p(1) by (subst await_agent.simps) (simp add: listen d_now_def s3 Let_def await_agent.simps [of _ _ "period - (t' - timestamp)"])
  then show ?thesis
    using nobodyD(3) [OF n s1(1)] nobodyD(1) [OF n s2] nobodyD(3) [OF n s3] s1(2) by simp
qed

lemma attempts_nobody:
  assumes n: "nobody D sent clock" and p: "0 < period" "period \<le> 2 ^ 28"
  shows "\<exists>t'. discovery_attempts D message period ls k t = Some (False, t') \<and>
    sent (os t') = sent (os t) @ concat (replicate k (map (\<lambda>a. (a, message)) (reached ls)))"
proof (induction k arbitrary: t)
  case (Suc k)
  let ?t = "send_get_info (d_sendto D) message ls t"
  obtain timestamp t1 where 1: "d_now D ?t = (timestamp, t1)"
    by force
  obtain t2 where 2: "await_agent D timestamp period t1 = Some (False, t2)" "sent (os t2) = sent (os ?t)"
    using await_nobody [OF n 1 p] by blast
  show ?case
    using Suc [of t2] send_get_info_sent [OF n] by (auto simp: 1 2)
qed simp

text \<open>Looking for agents where there is none ends: the same sixteen octets go to each address of the
  list, once for each attempt, if it is of version 4 of the internet protocol, and nothing else is sent.\<close>
theorem discovery_unanswered:
  assumes "ucdr_ok (d_lib D)" and "nobody D sent clock" and "0 < period" and "period \<le> 2 ^ 28"
  shows "\<exists>t'. uxr_discovery_agents D attempts period ls t = Some t' \<and>
    sent (os t') = sent (os t) @ concat (replicate (unat attempts) (map (\<lambda>a. (a, get_info_bytes (UCDR_MACHINE_ENDIANNESS (d_lib D))
      SESSION_ID_WITHOUT_CLIENT_KEY GET_INFO_REQUEST_ID (INFO_CONFIGURATION OR INFO_ACTIVITY))) (reached ls)))"
proof -
  let ?cdr = "d_lib D"
  let ?bytes = "get_info_bytes (UCDR_MACHINE_ENDIANNESS ?cdr) SESSION_ID_WITHOUT_CLIENT_KEY GET_INFO_REQUEST_ID (INFO_CONFIGURATION OR INFO_ACTIVITY)"
  obtain ub m where w: "write_get_info_message ?cdr (ucdr_init_buffer ?cdr 0 UXR_UDP_TRANSPORT_MTU_DATAGRAM, d_stack (d_locals D)) = (ub, m)"
      "ucdr_buffer_length ?cdr ub = 16" "rd m 0 16 = ?bytes"
    using get_info_message [OF assms(1), of SESSION_ID_WITHOUT_CLIENT_KEY UXR_UDP_TRANSPORT_MTU_DATAGRAM "d_stack (d_locals D)"
        GET_INFO_REQUEST_ID "INFO_CONFIGURATION OR INFO_ACTIVITY"]
    by (auto simp: write_get_info_message_def UXR_UDP_TRANSPORT_MTU_DATAGRAM_def SESSION_ID_WITHOUT_CLIENT_KEY_def Let_def)
  obtain f s where s: "sys_socket (d_posix D) AF_INET SOCK_DGRAM (os t) = (f, s)"
    by force
  let ?t = "set_events POLLIN (set_fd f (t\<lparr>os := s\<rparr>))"
  have "sent (os ?t) = sent (os t)" and "f \<noteq> - 1"
    using nobodyD(4) [OF assms(2) s] by (simp_all add: set_events_def set_fd_def)
  moreover obtain t1 where "discovery_attempts D ?bytes period ls (unat attempts) ?t = Some (False, t1)"
      "sent (os t1) = sent (os ?t) @ concat (replicate (unat attempts) (map (\<lambda>a. (a, ?bytes)) (reached ls)))"
    using attempts_nobody [OF assms(2-4)] by blast
  moreover have "sent (os (snd (uxr_close_udp_transport_datagram (d_posix D) t1))) = sent (os t1)"
    using nobodyD(5) [OF assms(2), of "platform_fd t1" "os t1"]
    by (cases "sys_close (d_posix D) (platform_fd t1) (os t1)") (simp add: uxr_close_udp_transport_datagram_def)
  ultimately show ?thesis
    using w s by (simp add: uxr_discovery_agents_def uxr_init_udp_transport_datagram_def Let_def)
qed

text \<open>A system that keeps what is sent and a clock, and has nothing to receive.\<close>

definition empty_system :: "(datagram list \<times> int) posix" where
  "empty_system = \<lparr>sys_socket = (\<lambda>_ _ s. (3, s)), sys_getaddrinfo = (\<lambda>_ _ _ _ s. (None, s)), sys_connect = (\<lambda>_ _ s. (- 1, s)),
     sys_close = (\<lambda>_ s. (0, s)), sys_send = (\<lambda>_ _ s. (None, s)), sys_recv = (\<lambda>_ _ s. (None, s)), sys_write = (\<lambda>_ _ s. (None, s)),
     sys_read = (\<lambda>_ _ s. (None, s)), sys_poll = (\<lambda>_ t s. (0, fst s, snd s + max 0 t)), sys_signal_sigpipe = (\<lambda>s. s),
     sys_can_bind = (\<lambda>_ _ s. (- 1, s)), sys_can_enable_fd = (\<lambda>_ s. (- 1, s)), sys_can_filter = (\<lambda>_ _ _ s. (- 1, s)),
     sys_write_frame = (\<lambda>_ _ s. (None, s)), sys_read_frame = (\<lambda>_ s. (None, s))\<rparr>"

definition empty_net :: "discovery_locals \<Rightarrow> (datagram list \<times> int) discovery" where
  "empty_net loc = \<lparr>d_lib = ref_ucdr, d_posix = empty_system, d_sendto = (\<lambda>_ bs a s. (Some (length bs), fst s @ [(a, bs)], snd s)),
     d_millis = (\<lambda>s. (snd s, s)), d_on_agent = (\<lambda>_ s. (True, s)), d_locals = loc\<rparr>"

lemma empty_net: "nobody (empty_net loc) fst snd"
  by (auto simp: nobody_def empty_net_def empty_system_def abs_if)

theorem discovery_unanswered_witness:
  "\<forall>loc t. \<exists>t'. uxr_discovery_agents (empty_net loc) 2 1000 [example_locator 1, example_locator 2] (t\<lparr>os := ([], 5)\<rparr>) = Some t' \<and>
    map fst (fst (os t')) = [([10, 0, 0, 1], 2018), ([10, 0, 0, 2], 2018), ([10, 0, 0, 1], 2018), ([10, 0, 0, 2], 2018)]"
proof (intro allI)
  fix loc and t :: "(datagram list \<times> int) uxrUDPTransportDatagram"
  have "ucdr_ok (d_lib (empty_net loc))"
    by (simp add: empty_net_def ucdr_ok_ref_ucdr)
  moreover have "reached [example_locator 1, example_locator 2] = [([10, 0, 0, 1], 2018), ([10, 0, 0, 2], 2018)]"
    by (simp add: reached_def example_locator_def)
  moreover have "replicate 2 x = [x, x]" for x :: "datagram list"
    by (simp add: numeral_2_eq_2)
  ultimately show "\<exists>t'. uxr_discovery_agents (empty_net loc) 2 1000 [example_locator 1, example_locator 2] (t\<lparr>os := ([], 5)\<rparr>) = Some t' \<and>
      map fst (fst (os t')) = [([10, 0, 0, 1], 2018), ([10, 0, 0, 2], 2018), ([10, 0, 0, 1], 2018), ([10, 0, 0, 2], 2018)]"
    using discovery_unanswered [OF _ empty_net, of loc 1000 2 "[example_locator 1, example_locator 2]" "t\<lparr>os := ([], 5)\<rparr>"]
    by auto
qed

end
