(* ===== verification/PosixFacts.thy ===== *)
theory PosixFacts
  imports Posix SerialFacts
begin

text \<open>
  What is proved about the transports on POSIX systems: the functions of the platform have what the
  transports above ask of a line, if the system has what its manual says.
\<close>

section \<open>Serial lines\<close>

text \<open>
  What is written goes out in order, and not more than is given; reading takes octets off the front, not
  more than are asked for; a call that fails, and waiting, moves nothing. \<open>out\<close> and \<open>inq\<close> are what has
  gone out through a descriptor and what has come in there and was not read.
\<close>

definition file_law :: "'os posix \<Rightarrow> (int \<Rightarrow> 'os \<Rightarrow> u8 list) \<Rightarrow> (int \<Rightarrow> 'os \<Rightarrow> u8 list) \<Rightarrow> bool" where
  "file_law K out inq \<longleftrightarrow> (\<forall>s f bs n p t.
     (case sys_write K f bs s of
        (None, s') \<Rightarrow> out f s' = out f s
      | (Some k, s') \<Rightarrow> k \<le> length bs \<and> out f s' = out f s @ take k bs) \<and>
     (case sys_read K f n s of
        (None, s') \<Rightarrow> inq f s' = inq f s
      | (Some cs, s') \<Rightarrow> length cs \<le> n \<and> inq f s = cs @ inq f s') \<and>
     inq f (snd (sys_poll K p t s)) = inq f s)"

text \<open>
  Where there is something to read on the descriptor \<open>f\<close>, polling it for \<open>POLLIN\<close> says so, and reading
  yields some of it.
\<close>

definition file_ready :: "'os posix \<Rightarrow> (int \<Rightarrow> 'os \<Rightarrow> u8 list) \<Rightarrow> int \<Rightarrow> bool" where
  "file_ready K inq f \<longleftrightarrow> (\<forall>s t n. inq f s \<noteq> [] \<longrightarrow> 0 < fst (sys_poll K \<lparr>fd = f, events = POLLIN\<rparr> t s) \<and>
     (0 < n \<longrightarrow> (\<exists>c cs. fst (sys_read K f n s) = Some (c # cs))))"

lemma file_lawD:
  assumes "file_law K out inq"
  shows "sys_write K f bs s = (None, s') \<Longrightarrow> out f s' = out f s"
    and "sys_write K f bs s = (Some k, s') \<Longrightarrow> k \<le> length bs \<and> out f s' = out f s @ take k bs"
    and "sys_read K f n s = (None, s') \<Longrightarrow> inq f s' = inq f s"
    and "sys_read K f n s = (Some cs, s') \<Longrightarrow> length cs \<le> n \<and> inq f s = cs @ inq f s'"
    and "sys_poll K p t s = (r, s') \<Longrightarrow> inq f s' = inq f s"
proof -
  note all = assms [unfolded file_law_def, rule_format]
  show "sys_write K f bs s = (None, s') \<Longrightarrow> out f s' = out f s"
    "sys_write K f bs s = (Some k, s') \<Longrightarrow> k \<le> length bs \<and> out f s' = out f s @ take k bs"
    using conjunct1 [OF all [where s = s and f = f and bs = bs]] by simp_all
  show "sys_read K f n s = (None, s') \<Longrightarrow> inq f s' = inq f s"
    "sys_read K f n s = (Some cs, s') \<Longrightarrow> length cs \<le> n \<and> inq f s = cs @ inq f s'"
    using conjunct1 [OF conjunct2 [OF all [where s = s and f = f and n = n]]] by simp_all
  show "sys_poll K p t s = (r, s') \<Longrightarrow> inq f s' = inq f s"
    using conjunct2 [OF conjunct2 [OF all [where s = s and f = f and p = p and t = t]]] by simp
qed

abbreviation outgoing :: "(int \<Rightarrow> 'os \<Rightarrow> u8 list) \<Rightarrow> 'os platform \<Rightarrow> u8 list" where
  "outgoing out p \<equiv> out (platform_fd p) (os p)"

lemma platform_simps [simp]: "platform_fd (p\<lparr>os := s\<rparr>) = platform_fd p" "poll_fd (p\<lparr>os := s\<rparr>) = poll_fd p"
  by (simp_all add: platform_fd_def)

lemma posix_serial_sink:
  assumes "file_law K out inq"
  shows "sink (uxr_write_serial_data_platform K) (outgoing out)"
  unfolding sink_def
proof (intro allI impI)
  fix bs err e n err' e'
  assume w: "uxr_write_serial_data_platform K bs err e = (n, err', e')"
  obtain r s where r: "sys_write K (platform_fd e) bs (os e) = (r, s)"
    by force
  show "n \<le> length bs \<and> outgoing out e' = outgoing out e @ take n bs"
    using w r file_lawD(1,2) [OF assms] by (cases r) (auto simp: uxr_write_serial_data_platform_def)
qed

lemma posix_serial_read:
  assumes "file_law K out inq" and "uxr_read_serial_data_platform K k t err e = (bs, err', e')"
  shows "length bs \<le> k \<and> outgoing inq e = bs @ outgoing inq e'"
proof -
  obtain r s where r: "sys_poll K (poll_fd e) t (os e) = (r, s)"
    by force
  obtain c s1 where c: "sys_read K (platform_fd e) k s = (c, s1)"
    by force
  show ?thesis
    using assms(2) r c file_lawD(5) [OF assms(1) r, of "platform_fd e"] file_lawD(3,4) [OF assms(1), of "platform_fd e" k s]
    by (cases c) (auto simp: uxr_read_serial_data_platform_def split: if_splits)
qed

text \<open>
  What is proved about receiving asks for a line that keeps its laws in every state. Here they hold in the
  states that are kept, those of a platform that was opened; a line that agrees with it there is received
  from alike.
\<close>

definition agree_on :: "('e \<Rightarrow> bool) \<Rightarrow> 'e uxr_read_cb \<Rightarrow> 'e uxr_read_cb \<Rightarrow> ('e \<Rightarrow> int \<times> 'e) \<Rightarrow> bool" where
  "agree_on keep read_cb read_cb' millis \<longleftrightarrow> (\<forall>e. keep e \<longrightarrow> keep (snd (millis e)) \<and>
     (\<forall>k t err. read_cb k t err e = read_cb' k t err e \<and> keep (snd (snd (read_cb k t err e)))))"

lemma fetch_agree:
  assumes a: "agree_on keep read_cb read_cb' millis" and i: "keep (device run)"
  shows "fetch_octets read_cb' millis k run = fetch_octets read_cb millis k run"
    and "fetch_octets read_cb millis k run = (n, run1) \<Longrightarrow> keep (device run1)"
proof -
  have m: "keep (snd (millis e))" and r: "read_cb' k t err e = read_cb k t err e" "keep (snd (snd (read_cb k t err e)))"
    if "keep e" for e k t err
    using a that unfolding agree_on_def by metis+
  note m0 = m [OF i]
  have "fetch_octets read_cb' millis k run = fetch_octets read_cb millis k run \<and>
      keep (device (snd (fetch_octets read_cb millis k run)))"
    using m0 r m i by (simp add: fetch_octets_def uxr_framing_read_transport_def Let_def split_beta)
  then show "fetch_octets read_cb' millis k run = fetch_octets read_cb millis k run"
    and "fetch_octets read_cb millis k run = (n, run1) \<Longrightarrow> keep (device run1)"
    by auto
qed

lemma step_agree:
  assumes a: "agree_on keep read_cb read_cb' millis" and i: "keep (device run)"
  shows "framing_step read_cb' millis buf len run = framing_step read_cb millis buf len run"
    and "framing_step read_cb millis buf len run = Some (over, run1) \<Longrightarrow> keep (device run1)"
proof -
  have e: "fetch_octets read_cb' millis k run1 = fetch_octets read_cb millis k run1" if "device run1 = device run" for run1 k
    using fetch_agree(1) [OF a, of run1] i that by simp
  have f: "keep (device (snd (fetch_octets read_cb millis k run1)))" if "device run1 = device run" for run1 k
    using fetch_agree(2) [OF a, of run1 k _ "snd (fetch_octets read_cb millis k run1)"] i that by (metis prod.collapse)
  show "framing_step read_cb' millis buf len run = framing_step read_cb millis buf len run"
    by (simp add: framing_step_def e Let_def split_beta split: uxrFramingInputState.split)
  show "framing_step read_cb millis buf len run = Some (over, run1) \<Longrightarrow> keep (device run1)"
    using i by (cases "state (framing_io run)")
      (auto simp: framing_step_def go_def f Let_def split_beta split: if_splits)
qed

lemma loop_agree:
  assumes a: "agree_on keep read_cb read_cb' millis" and l: "framing_loop read_cb' millis buf len run = Some run1"
    and i: "keep (device run)"
  shows "framing_loop read_cb millis buf len run = Some run1 \<and> keep (device run1)"
proof -
  have "read_cb' = read_cb' \<longrightarrow> millis = millis \<longrightarrow> keep (device run) \<longrightarrow>
      framing_loop read_cb millis buf len run = Some run1 \<and> keep (device run1)"
  proof (rule framing_loop.raw_induct [where P = "\<lambda>r ms buf len run run1. r = read_cb' \<longrightarrow> ms = millis \<longrightarrow> keep (device run) \<longrightarrow>
      framing_loop read_cb millis buf len run = Some run1 \<and> keep (device run1)", OF _ l], intro impI)
    fix loop r ms buf len run run1
    assume IH: "\<And>r ms buf len run run1. loop r ms buf len run = Some run1 \<Longrightarrow> r = read_cb' \<longrightarrow> ms = millis \<longrightarrow> keep (device run) \<longrightarrow>
        framing_loop read_cb millis buf len run = Some run1 \<and> keep (device run1)"
      and b: "(case framing_step r ms buf len run of None \<Rightarrow> None
        | Some (over, run1) \<Rightarrow> if over then Some run1 else loop r ms buf len run1) = Some run1"
      and r: "r = read_cb'" "ms = millis" and k: "keep (device run)"
    obtain over run2 where s: "framing_step read_cb millis buf len run = Some (over, run2)"
      using b r step_agree(1) [OF a k] by (auto split: option.splits)
    note k2 = step_agree(2) [OF a k s]
    show "framing_loop read_cb millis buf len run = Some run1 \<and> keep (device run1)"
      using b r k2 s step_agree(1) [OF a k] IH [of r ms buf len run2 run1]
      by (subst framing_loop.simps) (auto split: if_splits)
  qed
  then show ?thesis
    using i by blast
qed

lemma read_framed_agree:
  assumes a: "agree_on keep read_cb read_cb' millis" and l: "uxr_read_framed_msg read_cb' millis buf len run = Some run1"
    and i: "keep (device run)"
  shows "uxr_read_framed_msg read_cb millis buf len run = Some run1 \<and> keep (device run1)"
proof -
  let ?run = "run\<lparr>run_rv := 0\<rparr>"
  obtain n run2 where f: "fetch_octets read_cb millis 5 ?run = (n, run2)"
    by force
  have "fetch_octets read_cb' millis 5 ?run = (n, run2)" "keep (device run2)" "keep (device ?run)"
    using fetch_agree [OF a, of ?run 5] f i by simp_all
  then show ?thesis
    using l loop_agree [OF a] f by (auto simp: uxr_read_framed_msg_def Let_def split: if_splits)
qed

lemma receive_agree:
  assumes a: "agree_on keep read_cb read_cb' millis" and l: "receive_framed read_cb' millis buf len run = Some run1"
    and i: "keep (device run)"
  shows "receive_framed read_cb millis buf len run = Some run1 \<and> keep (device run1)"
proof -
  have "read_cb' = read_cb' \<longrightarrow> millis = millis \<longrightarrow> keep (device run) \<longrightarrow>
      receive_framed read_cb millis buf len run = Some run1 \<and> keep (device run1)"
  proof (rule receive_framed.raw_induct [where P = "\<lambda>r ms buf len run run1. r = read_cb' \<longrightarrow> ms = millis \<longrightarrow> keep (device run) \<longrightarrow>
      receive_framed read_cb millis buf len run = Some run1 \<and> keep (device run1)", OF _ l], intro impI)
    fix loop r ms buf len run run1
    assume IH: "\<And>r ms buf len run run1. loop r ms buf len run = Some run1 \<Longrightarrow> r = read_cb' \<longrightarrow> ms = millis \<longrightarrow> keep (device run) \<longrightarrow>
        receive_framed read_cb millis buf len run = Some run1 \<and> keep (device run1)"
      and b: "(case uxr_read_framed_msg r ms buf len run of None \<Rightarrow> None
        | Some run1 \<Rightarrow> if 0 = run_rv run1 \<and> 0 < time_left run1 then loop r ms buf len run1 else Some run1) = Some run1"
      and r: "r = read_cb'" "ms = millis" and k: "keep (device run)"
    obtain run2 where s: "uxr_read_framed_msg read_cb' millis buf len run = Some run2"
      using b r by (auto split: option.splits)
    note k2 = read_framed_agree [OF a s k]
    show "receive_framed read_cb millis buf len run = Some run1 \<and> keep (device run1)"
      using b r k2 s IH [of r ms buf len run2 run1]
      by (subst receive_framed.simps) (auto split: if_splits)
  qed
  then show ?thesis
    using i by blast
qed

lemma serial_agree:
  assumes a: "agree_on keep read_cb read_cb' millis" and l: "serial_recv read_cb' millis err timeout t = Some (got, t1)"
    and i: "keep (serial_platform (fst t))"
  shows "serial_recv read_cb millis err timeout t = Some (got, t1) \<and> keep (serial_platform (fst t1))"
proof -
  let ?run = "\<lparr>framing_io = serial_framing_io (fst t), buf_mem = snd (snd t), sender = 0x00, time_left = timeout,
    run_errcode = err, device = serial_platform (fst t), run_rv = 0\<rparr>"
  obtain run where "receive_framed read_cb' millis (serial_buffer (fst t)) UXR_CONFIG_SERIAL_TRANSPORT_MTU ?run = Some run"
    using l by (auto simp: serial_recv_def recv_serial_msg_def)
  moreover from this have "receive_framed read_cb millis (serial_buffer (fst t)) UXR_CONFIG_SERIAL_TRANSPORT_MTU ?run = Some run"
      "keep (device run)"
    using receive_agree [OF a] i by auto
  ultimately show ?thesis
    using l by (auto simp: serial_recv_def recv_serial_msg_def Let_def split: if_splits)
qed

lemma poll_agree:
  assumes a: "agree_on keep read_cb read_cb' millis" and l: "poll (serial_recv read_cb' millis err timeout) n t = Some (msgs, t1)"
    and i: "keep (serial_platform (fst t))"
  shows "poll (serial_recv read_cb millis err timeout) n t = Some (msgs, t1)"
  using l i
proof (induction n arbitrary: t msgs)
  case (Suc n)
  obtain got t2 where s: "serial_recv read_cb' millis err timeout t = Some (got, t2)"
    using Suc.prems(1) by (auto split: option.splits)
  then obtain msgs' where "poll (serial_recv read_cb' millis err timeout) n t2 = Some (msgs', t1)"
      "msgs = (case got of None \<Rightarrow> msgs' | Some bs \<Rightarrow> bs # msgs')"
    using Suc.prems(1) by auto
  with serial_agree [OF a s Suc.prems(2)] Suc.IH [of t2 msgs'] show ?case
    by auto
qed simp

text \<open>The platform as opening it leaves it, and a line that gives nothing in any other state.\<close>

definition opened_at :: "int \<Rightarrow> 'os platform \<Rightarrow> bool" where
  "opened_at f e \<longleftrightarrow> poll_fd e = \<lparr>fd = f, events = POLLIN\<rparr>"

definition read_opened :: "'os posix \<Rightarrow> int \<Rightarrow> 'os platform uxr_read_cb" where
  "read_opened K f k t err e = (if opened_at f e then uxr_read_serial_data_platform K k t err e else ([], 1, e))"

definition incoming :: "(int \<Rightarrow> 'os \<Rightarrow> u8 list) \<Rightarrow> int \<Rightarrow> 'os platform \<Rightarrow> u8 list" where
  "incoming inq f e = (if opened_at f e then inq f (os e) else [])"

lemma opened_incoming: "opened_at f e \<Longrightarrow> incoming inq f e = outgoing inq e"
  by (simp add: incoming_def opened_at_def platform_fd_def)

lemma read_keeps_poll_fd: "poll_fd (snd (snd (uxr_read_serial_data_platform K k t err e))) = poll_fd e"
  by (auto simp: uxr_read_serial_data_platform_def split: prod.splits option.splits)

lemma posix_serial_agree:
  assumes "\<And>e. poll_fd (snd (millis e)) = poll_fd e"
  shows "agree_on (opened_at f) (uxr_read_serial_data_platform K) (read_opened K f) millis"
  using assms by (simp add: agree_on_def read_opened_def opened_at_def read_keeps_poll_fd)

lemma posix_serial_feeds:
  assumes "file_law K out inq" and "file_ready K inq f"
    and clock: "\<And>e. poll_fd (snd (millis e)) = poll_fd e" "\<And>e. outgoing inq (snd (millis e)) = outgoing inq e"
  shows "feeds (read_opened K f) millis (incoming inq f)"
proof -
  have read: "length bs \<le> k \<and> incoming inq f e = bs @ incoming inq f e'" if r: "read_opened K f k t err e = (bs, err', e')" for k t err e bs err' e'
  proof (cases "opened_at f e")
    case True
    then have "uxr_read_serial_data_platform K k t err e = (bs, err', e')"
      using r by (simp add: read_opened_def)
    moreover from this have "opened_at f e'"
      using True read_keeps_poll_fd [of K k t err e] by (simp add: opened_at_def)
    ultimately show ?thesis
      using posix_serial_read [OF assms(1)] True by (simp add: opened_incoming)
  qed (use r in \<open>simp add: read_opened_def\<close>)
  have wait: "incoming inq f (snd (millis e)) = incoming inq f e" for e
    using clock [of e] by (auto simp: incoming_def opened_at_def platform_fd_def)
  have ready: "fst (read_opened K f k t err e) \<noteq> []" if pos: "0 < k" "incoming inq f e \<noteq> []" for k t err e
  proof -
    have o: "poll_fd e = \<lparr>fd = f, events = POLLIN\<rparr>" "inq f (os e) \<noteq> []" "platform_fd e = f" "opened_at f e"
      using pos(2) by (auto simp: incoming_def opened_at_def platform_fd_def split: if_splits)
    obtain r s where r: "sys_poll K (poll_fd e) t (os e) = (r, s)"
      by force
    note at = assms(2) [unfolded file_ready_def, rule_format]
    have "0 < r"
      using at [where t = t, OF o(2)] r by (simp add: o(1))
    moreover have "inq f s \<noteq> []"
      using o(2) file_lawD(5) [OF assms(1) r, of f] by simp
    moreover obtain c cs where "fst (sys_read K f k s) = Some (c # cs)"
      using at [where n = k, OF calculation(2)] pos(1) by blast
    ultimately show ?thesis
      using r o by (cases "sys_read K f k s") (simp add: read_opened_def uxr_read_serial_data_platform_def)
  qed
  show ?thesis
    unfolding feeds_def device_law_def
  proof (intro conjI allI impI)
    show "incoming inq f e = (bs @ cs) @ incoming inq f e2"
      if "incoming inq f e = bs @ incoming inq f e1" "incoming inq f e1 = cs @ incoming inq f e2" for e bs e1 cs e2
      by (simp only: that append_assoc)
    show "fst (read_opened K f k t err e) \<noteq> []" if "0 < k \<and> incoming inq f e \<noteq> []" for k t err e
      using ready that by blast
  qed (blast dest: read, blast dest: read, simp only: append_Nil wait)
qed

text \<open>C36. From opening to reading: two ends of a serial line that were opened on descriptors of POSIX systems,
  each with the other's address, pass on any messages of at most 512 octets. If sending them all
  reports success and what went out at one end is what has come in at the other, where nothing more
  comes in while they are received, then receiving there yields exactly these messages, however the
  systems cut the octets into pieces.\<close>
theorem posix_serial_messages_arrive:
  assumes "file_law K out inq" and "file_law K2 out2 inq2" and "file_ready K2 inq2 fd2"
    and "\<And>e. poll_fd (snd (millis e)) = poll_fd e" and "\<And>e. outgoing inq2 (snd (millis e)) = outgoing inq2 e"
    and "length (wb (serial_framing_io s0)) = WB_SIZE" and "length (rb (serial_framing_io t0)) = RB_SIZE"
    and "uxr_init_serial_transport uxr_init_serial_platform s0 fd1 dst src = (True, s)"
    and "uxr_init_serial_transport uxr_init_serial_platform t0 fd2 src dst = (True, t)"
    and "list_all serial_sendable msgs"
    and "send_each (serial_send (uxr_write_serial_data_platform K) errcode0) msgs (s, error1) = (True, s')"
    and "outgoing out (serial_platform (fst s')) = outgoing out (serial_platform s) @ outgoing inq2 (serial_platform t)"
  shows "\<exists>n t'. poll (serial_recv (uxr_read_serial_data_platform K2) millis errcode1 timeout) n (t, error2, m) = Some (msgs, t')"
proof -
  have opened: "opened_at fd2 (serial_platform t)"
    using assms(9) by (auto simp: uxr_init_serial_transport_def uxr_init_serial_platform_def opened_at_def set_events_def set_fd_def)
  have sink: "serial_sink (uxr_write_serial_data_platform K) (outgoing out) src dst (s, error1)"
    using assms(6,8) posix_serial_sink [OF assms(1)]
    by (auto simp: serial_sink_def uxr_init_serial_transport_def uxr_init_serial_platform_def uxr_init_framing_io_def)
  have "serial_source (read_opened K2 fd2) millis (incoming inq2 fd2) src dst (t, error2, m)"
      "serial_unseen (incoming inq2 fd2) (t, error2, m) = outgoing inq2 (serial_platform t)"
    using assms(7,9) posix_serial_feeds [OF assms(2,3)] assms(4,5) opened
    by (auto simp: serial_source_def serial_unseen_def ring_ok_def pending_def uxr_init_serial_transport_def uxr_init_serial_platform_def
        uxr_init_framing_io_def Let_def RB_SIZE_def opened_incoming)
  then have source: "serial_source (read_opened K2 fd2) millis (incoming inq2 fd2) src dst (t, error2, m)"
    and unseen: "outgoing out (serial_platform (fst (s, error1))) @ serial_unseen (incoming inq2 fd2) (t, error2, m) =
      outgoing out (serial_platform (fst s')) @ []"
    by (simp_all only: assms(12) fst_conv append_Nil2)
  obtain n t' where
    l: "poll (serial_recv (read_opened K2 fd2) millis errcode1 timeout) n (t, error2, m) = Some (msgs, t')"
    using serial.messages_arrive [OF sink source assms(10,11) unseen] by blast
  have "poll (serial_recv (uxr_read_serial_data_platform K2) millis errcode1 timeout) n (t, error2, m) = Some (msgs, t')"
    by (rule poll_agree [OF posix_serial_agree [OF assms(4)] l]) (simp add: opened)
  then show ?thesis
    by blast
qed

section \<open>CAN frames\<close>

text \<open>The frame a message of at most 63 octets goes out in: its length, the octets, zeros.\<close>

definition can_frame_of :: "u32 \<Rightarrow> u8 list \<Rightarrow> canfd_frame" where
  "can_frame_of i buf = \<lparr>frame_can_id = i, frame_len = of_nat (length buf + 1),
     frame_data = of_nat (length buf) # buf @ replicate (CANFD_MAX_DLEN - (length buf + 1)) 0\<rparr>"

lemma can_write:
  assumes "sys_poll K \<lparr>fd = platform_fd p, events = POLLOUT\<rparr> 0 (os p) = (r, s)" and "0 < r" and "length buf \<le> 63"
    and "sys_write_frame K (platform_fd p) (can_frame_of (can_id p) buf) s = (Some k, s')"
  shows "uxr_write_can_data_platform K buf err p = Some (length buf, 0, p\<lparr>os := s'\<rparr>)"
  using assms by (simp add: uxr_write_can_data_platform_def can_frame_of_def CANFD_MAX_DLEN_def Let_def)

lemma can_read:
  assumes "sys_poll K (poll_fd p) timeout (os p) = (r, s)" and "0 < r"
    and "sys_read_frame K (platform_fd p) s = (Some fr, s')"
  shows "uxr_read_can_data_platform K len timeout err p =
    (if unat (frame_data fr ! 0) \<le> 63 then Some (take (unat (frame_data fr ! 0)) (drop 1 (frame_data fr)), 0, p\<lparr>os := s'\<rparr>)
     else if unat (frame_data fr ! 0) \<le> 71 then None else Some ([], 1, p\<lparr>os := s'\<rparr>))"
  using assms by (auto simp: uxr_read_can_data_platform_def CANFD_MAX_DLEN_def CANFD_MTU_def Let_def)

text \<open>A message of at most 63 octets goes out on a CAN bus in one frame, and whoever reads this frame from the
  bus, whatever happened on it in between, has the message as it was, and its length.\<close>
theorem can_message_arrives:
  assumes "sys_poll K \<lparr>fd = platform_fd p, events = POLLOUT\<rparr> 0 (os p) = (r, s)" and "0 < r" and "length buf \<le> 63"
    and "sys_write_frame K (platform_fd p) (can_frame_of (can_id p) buf) s = (Some k, s')"
    and "sys_poll K2 (poll_fd p2) timeout (os p2) = (r2, s2)" and "0 < r2"
    and "sys_read_frame K2 (platform_fd p2) s2 = (Some (can_frame_of (can_id p) buf), s2')"
  shows "uxr_write_can_data_platform K buf err p = Some (length buf, 0, p\<lparr>os := s'\<rparr>) \<and>
    uxr_read_can_data_platform K2 len timeout err2 p2 = Some (buf, 0, p2\<lparr>os := s2'\<rparr>)"
proof -
  have "unat (of_nat (length buf) :: u8) = length buf"
    using assms(3) by (simp add: unat_of_nat take_bit_eq_mod)
  then show ?thesis
    using can_write [OF assms(1-4)] can_read [OF assms(5-7)] assms(3) by (simp add: can_frame_of_def)
qed

text \<open>A frame from the bus is taken as long as its first octet, the length it claims, is below 72, which is the
  size of a whole frame; but only 63 octets follow it. So a frame that claims 64 to 71 octets makes the
  copy go beyond the frame, and one that claims more is refused.\<close>
theorem can_frame_overread:
  assumes "sys_poll K (poll_fd p) timeout (os p) = (r, s)" and "0 < r"
    and "sys_read_frame K (platform_fd p) s = (Some fr, s')"
  shows "(uxr_read_can_data_platform K len timeout err p = None) = (unat (frame_data fr ! 0) \<in> {64..71}) \<and>
    (uxr_read_can_data_platform K len timeout err p = Some ([], 1, p\<lparr>os := s'\<rparr>)) = (unat (frame_data fr ! 0) \<in> {72..255})"
proof -
  have "unat (frame_data fr ! 0) \<le> 255"
    using unat_u8_less [of "frame_data fr ! 0"] by linarith
  then show ?thesis
    using can_read [OF assms, of len err] by auto
qed

section \<open>Witnesses\<close>

text \<open>A system that carries what is written to where it is read, three octets at a time at most.\<close>

definition pipe :: "(u8 list \<times> u8 list) posix" where
  "pipe = \<lparr>sys_socket = \<lambda>_ _ s. (3, s), sys_getaddrinfo = \<lambda>_ _ _ _ s. (None, s), sys_connect = \<lambda>_ _ s. (0, s),
     sys_close = \<lambda>_ s. (0, s), sys_send = \<lambda>_ _ s. (None, s), sys_recv = \<lambda>_ _ s. (None, s),
     sys_write = \<lambda>_ bs s. (Some (min (length bs) 3), fst s @ take 3 bs, snd s),
     sys_read = \<lambda>_ n s. (Some (take (min n 3) (snd s)), fst s, drop (min n 3) (snd s)),
     sys_poll = \<lambda>p _ s. (if events p = POLLIN \<and> snd s \<noteq> [] then 1 else 0, s), sys_signal_sigpipe = \<lambda>s. s,
     sys_can_bind = \<lambda>_ _ s. (0, s), sys_can_enable_fd = \<lambda>_ s. (0, s), sys_can_filter = \<lambda>_ _ _ s. (0, s),
     sys_write_frame = \<lambda>_ _ s. (None, s), sys_read_frame = \<lambda>_ s. (None, s)\<rparr>"

lemma pipe_file: "file_law pipe (\<lambda>_. fst) (\<lambda>_. snd)"
  by (auto simp: file_law_def pipe_def min_def)

lemma pipe_ready: "file_ready pipe (\<lambda>_. snd) 4"
  by (auto simp: file_ready_def pipe_def neq_Nil_conv min_def gr0_conv_Suc)

definition pipe_end :: "u8 list \<Rightarrow> (u8 list \<times> u8 list) platform" where
  "pipe_end inp = \<lparr>poll_fd = \<lparr>fd = 0, events = NO_EVENTS\<rparr>, os = ([], inp)\<rparr>"

definition pipe_opened :: "u8 \<Rightarrow> u8 \<Rightarrow> u8 list \<Rightarrow> (u8 list \<times> u8 list) platform uxrSerialTransport" where
  "pipe_opened from_addr to_addr inp =
     snd (uxr_init_serial_transport uxr_init_serial_platform (example_serial 9 9 (pipe_end inp)) 4 to_addr from_addr)"

lemma pipe_opened:
  "uxr_init_serial_transport uxr_init_serial_platform (example_serial 9 9 (pipe_end inp)) 4 a b = (True, pipe_opened b a inp)"
  by (simp add: pipe_opened_def uxr_init_serial_transport_def uxr_init_serial_platform_def Let_def)

lemma pipe_buffers:
  "length (wb (serial_framing_io (example_serial 9 9 l))) = WB_SIZE" "length (rb (serial_framing_io (example_serial 9 9 l))) = RB_SIZE"
  by (simp_all add: example_serial_def example_framing_io_def uxr_init_framing_io_def WB_SIZE_def RB_SIZE_def)

theorem posix_serial_messages_arrive_witness:
  "\<exists>s' n t'. send_each (serial_send (uxr_write_serial_data_platform pipe) 0) [[0x7E, 5], [1]] (pipe_opened 1 2 [], 0) = (True, s') \<and>
    poll (serial_recv (uxr_read_serial_data_platform pipe) (\<lambda>e. (0, e)) 0 10) n
      (pipe_opened 2 1 (outgoing (\<lambda>_. fst) (serial_platform (fst s'))), 0, \<lambda>_. 0) = Some ([[0x7E, 5], [1]], t')"
proof -
  have m: "list_all serial_sendable [[0x7E, 5], [1]]"
    by (simp add: serial_sendable_def UXR_CONFIG_SERIAL_TRANSPORT_MTU_def)
  have "serial_sink (uxr_write_serial_data_platform pipe) (outgoing (\<lambda>_. fst)) 1 2 (pipe_opened 1 2 [], 0)"
    using posix_serial_sink [OF pipe_file] pipe_buffers
    by (simp add: serial_sink_def pipe_opened_def uxr_init_serial_transport_def uxr_init_serial_platform_def uxr_init_framing_io_def Let_def)
  moreover have "eager (uxr_write_serial_data_platform pipe)"
    by (auto simp: eager_def uxr_write_serial_data_platform_def pipe_def)
  ultimately obtain s' where s': "send_each (serial_send (uxr_write_serial_data_platform pipe) 0) [[0x7E, 5], [1]]
      (pipe_opened 1 2 [], 0) = (True, s')"
    using serial_send_each_eager [OF _ _ m] by blast
  have "outgoing (\<lambda>_. fst) (serial_platform (fst s')) = outgoing (\<lambda>_. fst) (serial_platform (pipe_opened 1 2 [])) @
      outgoing (\<lambda>_. snd) (serial_platform (pipe_opened 2 1 (outgoing (\<lambda>_. fst) (serial_platform (fst s')))))"
    by (simp add: pipe_opened_def uxr_init_serial_transport_def uxr_init_serial_platform_def pipe_end_def Let_def
        example_serial_def set_events_def set_fd_def)
  from posix_serial_messages_arrive [OF pipe_file pipe_file pipe_ready _ _ pipe_buffers pipe_opened pipe_opened m s' this,
      of "\<lambda>e. (0, e)" 0 10 0 "\<lambda>_. 0"]
  show ?thesis
    using s' by fastforce
qed

text \<open>A bus that holds the last frame.\<close>

definition can_bus :: "canfd_frame list posix" where
  "can_bus = \<lparr>sys_socket = \<lambda>_ _ s. (3, s), sys_getaddrinfo = \<lambda>_ _ _ _ s. (None, s), sys_connect = \<lambda>_ _ s. (0, s),
     sys_close = \<lambda>_ s. (0, s), sys_send = \<lambda>_ _ s. (None, s), sys_recv = \<lambda>_ _ s. (None, s),
     sys_write = \<lambda>_ _ s. (None, s), sys_read = \<lambda>_ _ s. (None, s), sys_poll = \<lambda>_ _ s. (1, s), sys_signal_sigpipe = \<lambda>s. s,
     sys_can_bind = \<lambda>_ _ s. (0, s), sys_can_enable_fd = \<lambda>_ s. (0, s), sys_can_filter = \<lambda>_ _ _ s. (0, s),
     sys_write_frame = \<lambda>_ f s. (Some CANFD_MTU, s @ [f]),
     sys_read_frame = \<lambda>_ s. (case s of [] \<Rightarrow> (None, []) | f # fs \<Rightarrow> (Some f, fs))\<rparr>"

definition can_node :: "canfd_frame list \<Rightarrow> canfd_frame list uxrCANPlatform" where
  "can_node fs = \<lparr>poll_fd = \<lparr>fd = 3, events = POLLIN\<rparr>, os = fs, can_id = 0x80000001\<rparr>"

theorem can_message_arrives_witness:
  "uxr_write_can_data_platform can_bus [5, 6, 7] 0 (can_node []) = Some (3, 0, can_node [can_frame_of 0x80000001 [5, 6, 7]]) \<and>
    uxr_read_can_data_platform can_bus 63 10 0 (can_node [can_frame_of 0x80000001 [5, 6, 7]]) = Some ([5, 6, 7], 0, can_node [])"
  using can_message_arrives [of can_bus "can_node []" 1 "[]" "[5, 6, 7]" CANFD_MTU "[can_frame_of 0x80000001 [5, 6, 7]]"
      can_bus "can_node [can_frame_of 0x80000001 [5, 6, 7]]" 10 1 "[can_frame_of 0x80000001 [5, 6, 7]]" "[]" 0 63 0]
  by (simp add: can_bus_def can_node_def platform_fd_def)

theorem can_frame_overread_witness:
  "uxr_read_can_data_platform can_bus 63 10 0 (can_node [\<lparr>frame_can_id = 1, frame_len = 64, frame_data = 70 # replicate 63 0\<rparr>]) = None"
  using can_frame_overread [of can_bus "can_node [\<lparr>frame_can_id = 1, frame_len = 64, frame_data = 70 # replicate 63 0\<rparr>]" 10 1
      "[\<lparr>frame_can_id = 1, frame_len = 64, frame_data = 70 # replicate 63 0\<rparr>]" "\<lparr>frame_can_id = 1, frame_len = 64, frame_data = 70 # replicate 63 0\<rparr>"
      "[]" 63 0]
  by (simp add: can_bus_def can_node_def platform_fd_def)

end
