(* ===== verification/DataFacts.thy ===== *)
theory DataFacts
  imports SessionFacts WriteAccess
begin

text \<open>
  What is proved about the data of the application: what a best-effort stream sends for the samples that
  were written to it, and what the application is given for a sample that arrives.
\<close>

section \<open>Samples that are written\<close>

lemma obe_parts [world_simps, simp]:
  "memory (set_obe i s w) = memory w" "ext (set_obe i s w) = ext w"
  "sess_info (set_obe i s w) = sess_info w"
  "length (output_best_effort (sess_streams (set_obe i s w))) = length (output_best_effort (sess_streams w))"
  "output_best_effort_size (sess_streams (set_obe i s w)) = output_best_effort_size (sess_streams w)"
  "i < length (output_best_effort (sess_streams w)) \<Longrightarrow> get_obe i (set_obe i s w) = s"
  "i < length (output_best_effort (sess_streams w)) \<Longrightarrow> set_obe i (get_obe i w) w = w"
  "get_obe i (set_memory m w) = get_obe i w" "get_obe i (set_info si w) = get_obe i w"
  "get_obe i (w\<lparr>ext := e\<rparr>) = get_obe i w"
  by (simp_all add: set_obe_def get_obe_def set_streams_def set_memory_def set_info_def)

lemma obe_storage [world_simps, simp]:
  "sess_streams (set_memory m w) = sess_streams w" "sess_streams (set_info si w) = sess_streams w"
  by (simp_all add: set_memory_def set_info_def)

definition be_id :: "nat \<Rightarrow> uxrStreamId" where
  "be_id i = uxr_stream_id 0 (of_nat i) UXR_BEST_EFFORT_STREAM UXR_OUTPUT_STREAM"

lemma be_id [simp]: "uxrStreamId.type (be_id i) = UXR_BEST_EFFORT_STREAM" "index (be_id i) = of_nat i"
  by (simp_all add: be_id_def uxr_stream_id_def)

text \<open>A best-effort output stream in use and in good order, of this session, with what it holds.\<close>

definition obe_holds :: "nat \<Rightarrow> u8 list \<Rightarrow> 'e world \<Rightarrow> bool" where
  "obe_holds i bs w \<longleftrightarrow> length (key (sess_info w)) = 4 \<and> i < unat (output_best_effort_size (sess_streams w)) \<and>
     i < length (output_best_effort (sess_streams w)) \<and> be_out_inv (get_obe i w) \<and>
     unat (ob_offset (get_obe i w)) = uxr_session_header_offset (sess_info w) \<and>
     writer (get_obe i w) = unat (ob_offset (get_obe i w)) + length bs \<and>
     rd (memory w) (ob_buffer (get_obe i w) + unat (ob_offset (get_obe i w))) (length bs) = bs"

lemma get_be:
  assumes "i < unat (output_best_effort_size st)"
  shows "uxr_get_output_best_effort_stream st (of_nat i) = Some i"
proof -
  have "i < 256"
    using assms unat_u8_less [of "output_best_effort_size st"] by linarith
  then have "unat (of_nat i :: u8) = i"
    by (simp add: unat_of_nat take_bit_eq_mod)
  then show ?thesis
    using assms by (simp add: uxr_get_output_best_effort_stream_def word_less_nat_alt)
qed

text \<open>Room for a submessage.\<close>

lemma pad_multiple: "(n + pad n 4) mod 4 = 0"
  by (rule pad_aligns) simp

lemma mod4_add: "a mod 4 = 0 \<Longrightarrow> b mod 4 = 0 \<Longrightarrow> (a + b) mod 4 = (0 :: nat)"
  by presburger

lemma be_room:
  assumes env: "env_ok env" and h: "obe_holds i bs w" and n: "n < 2 ^ 16"
    and room: "writer (get_obe i w) + (4 + n + pad n 4) \<le> ob_size (get_obe i w)"
  defines "st \<equiv> get_obe i w" and "e \<equiv> UCDR_MACHINE_ENDIANNESS (lib env (set_obe i ((get_obe i w)\<lparr>writer := writer (get_obe i w) + (4 + n + pad n 4)\<rparr>) w))"
  shows "uxr_prepare_stream_to_write_submessage env (be_id i) n sm fl ub w =
    (True, \<lparr>init = ob_buffer st, final = ob_buffer st + (writer st + (4 + n + pad n 4)), iterator = ob_buffer st + writer st + 4,
       offset = writer st + 4, endianness = e, error = False, on_full_buffer = None, args = None\<rparr>,
     set_memory (wr (memory w) (ob_buffer st + writer st) (header_bytes sm (fl OR endianness_flag e) (of_nat n)))
       (set_obe i (st\<lparr>writer := writer st + (4 + n + pad n 4)\<rparr>) w))"
proof -
  have i: "uxr_get_output_best_effort_stream (sess_streams w) (of_nat i) = Some i" and inv: "be_out_inv st"
    using h get_be by (auto simp: obe_holds_def st_def)
  have sz: "size_add (size_add SUBHEADER_SIZE n) (uxr_submessage_padding n) = 4 + n + pad n 4"
    using n pad_4_less [of n] by (simp add: SUBHEADER_SIZE_def uxr_submessage_padding_eq size_add_eq)
  have m4: "(4 + n + pad n 4) mod 4 = 0" "4 + n + pad n 4 < 2 ^ 32"
    using n pad_4_less [of n] pad_multiple [of n] by (simp_all add: add.assoc)
  note w = be_write_spec [OF lib_ok [OF env, of w] inv m4]
  let ?ub = "\<lparr>init = ob_buffer st, final = ob_buffer st + (writer st + (4 + n + pad n 4)), iterator = ob_buffer st + writer st,
       offset = writer st, endianness = UCDR_MACHINE_ENDIANNESS (lib env w), error = False, on_full_buffer = None, args = None\<rparr>"
  have "pad (writer st) 4 = 0"
    using inv by (simp add: be_out_inv_def)
  then have b: "uxr_buffer_submessage_header (lib env w') sm (of_nat n) fl (?ub, m) =
      (unat (of_nat n :: u16) \<le> n + pad n 4, (adv 4 ?ub)\<lparr>endianness := UCDR_MACHINE_ENDIANNESS (lib env w')\<rparr>,
        wr m (ob_buffer st + writer st) (header_bytes sm (fl OR endianness_flag (UCDR_MACHINE_ENDIANNESS (lib env w'))) (of_nat n)))" for w' m
    using buffer_submessage_header [OF lib_ok [OF env, of w'], of ?ub sm "of_nat n" fl m] by simp
  have e: "e = UCDR_MACHINE_ENDIANNESS (lib env (set_obe i (st\<lparr>writer := writer st + (4 + n + pad n 4)\<rparr>) w))"
    by (simp add: e_def st_def)
  show ?thesis
    unfolding uxr_prepare_stream_to_write_submessage_def sz
    using w room by (simp add: i b e adv_def flip: st_def)
qed

text \<open>The request of a sample and the data, behind the submessage header.\<close>

definition request_bytes :: "u16 \<Rightarrow> uxrObjectId \<Rightarrow> u8 list" where
  "request_bytes rid oid = [ucast (drop_bit 8 rid), ucast rid, fst (uxr_object_id_to_raw oid), snd (uxr_object_id_to_raw oid)]"

lemma length_request_bytes [simp]: "length (request_bytes rid oid) = 4"
  by (simp add: request_bytes_def)

lemma init_request:
  "uxr_init_base_object_request si oid = (fst (generate_request_id si), snd (generate_request_id si),
    \<lparr>BaseObjectRequest.request_id = \<lparr>RequestId.data = [ucast (drop_bit 8 (fst (generate_request_id si))), ucast (fst (generate_request_id si))]\<rparr>,
     object_id = \<lparr>ObjectId.data = [fst (uxr_object_id_to_raw oid), snd (uxr_object_id_to_raw oid)]\<rparr>\<rparr>)"
  by (simp add: uxr_init_base_object_request_def split: prod.split)

lemma serialize_request:
  assumes "ucdr_ok cdr" and "\<not> error ub" and "iterator ub + 4 \<le> final ub"
  shows "uxr_serialize_BaseObjectRequest cdr (snd (snd (uxr_init_base_object_request si oid))) (ub, m) =
    (True, adv 4 ub, wr m (iterator ub) (request_bytes (fst (generate_request_id si)) oid))"
proof -
  have "[a, b, c, d] = [a, b] @ [c, d]" for a b c d :: u8
    by simp
  then show ?thesis
    using assms by (simp only: request_bytes_def wr_append)
      (simp add: init_request uxr_serialize_BaseObjectRequest_def uxr_serialize_RequestId_def uxr_serialize_ObjectId_def ser_array)
qed

lemma write_array_bytes:
  assumes "env_ok env" and "\<not> error ub" and "iterator ub + length content \<le> final ub" and "rd (memory w) a (length content) = content"
  shows "write_array env a (length content) ub w = set_memory (wr (memory w) (iterator ub) content) w"
  using ser_array [OF lib_ok [OF assms(1)] assms(2) _ assms(3), of content] assms(4) by (simp add: write_array_def run_ser_def)

lemma generate_keeps [simp]:
  "key (snd (generate_request_id si)) = key si" "id' (snd (generate_request_id si)) = id' si"
  "uxr_session_header_offset (snd (generate_request_id si)) = uxr_session_header_offset si"
  by (simp_all add: generate_request_id_def Let_def header_offset_eq)

text \<open>More behind what the stream holds.\<close>

lemma obe_grow:
  assumes h: "obe_holds i bs w" and k: "k mod 4 = 0" "writer (get_obe i w) + k \<le> ob_size (get_obe i w)"
    and st: "get_obe i w' = (get_obe i w)\<lparr>writer := writer (get_obe i w) + k\<rparr>"
    and same: "key (sess_info w') = key (sess_info w)" "id' (sess_info w') = id' (sess_info w)"
      "output_best_effort_size (sess_streams w') = output_best_effort_size (sess_streams w)"
      "length (output_best_effort (sess_streams w')) = length (output_best_effort (sess_streams w))"
    and m: "changed_within (memory w) (memory w') (ob_buffer (get_obe i w) + writer (get_obe i w))
      (ob_buffer (get_obe i w) + writer (get_obe i w) + k)"
  shows "obe_holds i (bs @ rd (memory w') (ob_buffer (get_obe i w) + writer (get_obe i w)) k) w'"
proof -
  let ?st = "get_obe i w"
  let ?o = "ob_buffer ?st + unat (ob_offset ?st)"
  have inv: "be_out_inv ?st" and o: "?o + length bs = ob_buffer ?st + writer ?st" "rd (memory w) ?o (length bs) = bs"
    using h by (auto simp: obe_holds_def)
  have "rd (memory w') ?o (length bs) = bs"
    using same_on_rd [OF changed_within_same_on [OF m, of "?o + length bs" ?o], of ?o "length bs"] o by simp
  then have "rd (memory w') ?o (length bs + k) = bs @ rd (memory w') (ob_buffer ?st + writer ?st) k"
    unfolding rd_append o(1) by simp
  moreover have "be_out_inv (?st\<lparr>writer := writer ?st + k\<rparr>)"
    using inv k mod4_add [of "writer ?st" k] by (simp add: be_out_inv_def)
  ultimately show ?thesis
    using h st same by (auto simp: obe_holds_def header_offset_eq)
qed

text \<open>The byte order of the host, whatever the streams hold.\<close>

definition host_order :: "'e env \<Rightarrow> endianness \<Rightarrow> bool" where
  "host_order env e \<longleftrightarrow> (\<forall>st. UCDR_MACHINE_ENDIANNESS (ucdr_lib env st) = e)"

lemma host_order: "host_order env e \<Longrightarrow> UCDR_MACHINE_ENDIANNESS (lib env w) = e"
  by (simp add: host_order_def lib_def)

definition sample_bytes :: "endianness \<Rightarrow> u16 \<Rightarrow> uxrObjectId \<Rightarrow> u8 list \<Rightarrow> u8 list" where
  "sample_bytes e rid oid content = header_bytes SUBMESSAGE_ID_WRITE_DATA (FORMAT_DATA OR endianness_flag e) (of_nat (4 + length content)) @
     request_bytes rid oid @ content"

lemma length_sample_bytes [simp]: "length (sample_bytes e rid oid content) = 8 + length content"
  by (simp add: sample_bytes_def)

text \<open>The stream is where it was, in the same memory.\<close>

definition same_buffer :: "uxrOutputBestEffortStream \<Rightarrow> uxrOutputBestEffortStream \<Rightarrow> bool" where
  "same_buffer st st' \<longleftrightarrow> ob_buffer st' = ob_buffer st \<and> ob_size st' = ob_size st \<and> ob_offset st' = ob_offset st \<and>
     last_send st' = last_send st"

lemma topic_written:
  assumes env: "env_ok env" "host_order env e" and h: "obe_holds i bs w" and n: "length content + 4 < 2 ^ 16"
    and content: "rd (memory w) a (length content) = content"
    and room: "writer (get_obe i w) + (8 + length content + pad (length content) 4) \<le> ob_size (get_obe i w)"
    and apart: "a + length content \<le> ob_buffer (get_obe i w) \<or> ob_buffer (get_obe i w) + ob_size (get_obe i w) \<le> a"
  shows "\<exists>w' p. uxr_buffer_topic env (be_id i) oid a (length content) w = (fst (generate_request_id (sess_info w)), w') \<and>
    length p = pad (length content) 4 \<and>
    obe_holds i (bs @ sample_bytes e (fst (generate_request_id (sess_info w))) oid content @ p) w' \<and>
    sess_info w' = snd (generate_request_id (sess_info w)) \<and> ext w' = ext w \<and> same_buffer (get_obe i w) (get_obe i w') \<and>
    changed_within (memory w) (memory w') (ob_buffer (get_obe i w)) (ob_buffer (get_obe i w) + ob_size (get_obe i w))"
proof -
  let ?st = "get_obe i w" and ?rid = "fst (generate_request_id (sess_info w))" and ?c = "length content"
  let ?h = "header_bytes SUBMESSAGE_ID_WRITE_DATA (FORMAT_DATA OR endianness_flag e) (of_nat (4 + ?c))"
  let ?k = "4 + (4 + ?c) + pad (4 + ?c) 4" and ?b = "ob_buffer ?st + writer ?st"
  have pd: "pad (4 + ?c) 4 = pad ?c 4"
    by (simp add: pad_def)
  have i: "i < length (output_best_effort (sess_streams w))" and k4: "length (key (sess_info w)) = 4" and inv: "be_out_inv ?st"
    using h by (simp_all add: obe_holds_def)
  have sz: "size_add WRITE_DATA_PAYLOAD_SIZE ?c = 4 + ?c"
    using n by (simp add: WRITE_DATA_PAYLOAD_SIZE_def size_add_eq)
  let ?w1 = "set_obe i (?st\<lparr>writer := writer ?st + ?k\<rparr>) w"
  let ?w2 = "set_memory (wr (memory w) ?b ?h) ?w1"
  let ?ub = "\<lparr>init = ob_buffer ?st, final = ob_buffer ?st + (writer ?st + ?k), iterator = ?b + 4, offset = writer ?st + 4,
    endianness = e, error = False, on_full_buffer = None, args = None\<rparr>"
  have prep: "uxr_prepare_stream_to_write_submessage env (be_id i) (4 + ?c) SUBMESSAGE_ID_WRITE_DATA FORMAT_DATA ub w = (True, ?ub, ?w2)" for ub
  proof -
    have "writer ?st + ?k \<le> ob_size ?st" "4 + ?c < 2 ^ 16"
      using room n by (simp_all add: pd)
    from be_room [OF env(1) h this(2,1), unfolded host_order [OF env(2)]] show ?thesis .
  qed
  let ?w3 = "set_info (snd (generate_request_id (sess_info w))) ?w2"
  let ?m3 = "wr (wr (memory w) ?b ?h) (?b + 4) (request_bytes ?rid oid)"
  have req: "uxr_serialize_BaseObjectRequest cdr (snd (snd (uxr_init_base_object_request (sess_info w) oid))) (?ub, m) =
      (True, adv 4 ?ub, wr m (?b + 4) (request_bytes ?rid oid))" if "ucdr_ok cdr" for cdr m
    using serialize_request [OF that, of ?ub "sess_info w" oid m] n by simp
  have begun: "begin_write_data env (be_id i) oid (4 + ?c) ub w = (True, ?rid, adv 4 ?ub, set_memory ?m3 ?w3)" for ub
    using req [OF lib_ok [OF env(1), of ?w3], of "wr (memory w) ?b ?h"]
    by (simp add: begin_write_data_def prep init_request run_ser_def uxr_serialize_WRITE_DATA_Payload_Data_def Let_def)
  have m3: "rd ?m3 a ?c = content"
  proof -
    have "a + ?c \<le> ?b \<or> ?b + 8 \<le> a"
      using apart room by linarith
    then show ?thesis
      using content by (auto simp: rd_wr_disjoint)
  qed
  let ?m4 = "wr (memory w) ?b (sample_bytes e ?rid oid content)"
  let ?w4 = "set_memory ?m4 ?w3"
  have written: "write_array env a ?c (adv 4 ?ub) (set_memory ?m3 ?w3) = ?w4"
  proof -
    have 1: "write_array env a ?c (adv 4 ?ub) (set_memory ?m3 ?w3) = set_memory (wr ?m3 (?b + 4 + 4) content) (set_memory ?m3 ?w3)"
      by (rule trans [OF write_array_bytes [OF env(1)]]) (use m3 in simp_all)
    have 2: "wr ?m3 (?b + 4 + 4) content = ?m4"
      by (simp add: sample_bytes_def wr_append add.assoc)
    show ?thesis
      unfolding 1 2 world_parts(10) ..
  qed
  have R1: "uxr_buffer_topic env (be_id i) oid a ?c w = (?rid, ?w4)"
    by (simp only: uxr_buffer_topic_def sz begun written Let_def prod.case if_True)
  let ?x = "sample_bytes e ?rid oid content"
  define p where "p = rd ?m4 (?b + length ?x) (pad ?c 4)"
  have k: "?k = length ?x + pad ?c 4"
    by (simp add: pd)
  have "obe_holds i (bs @ rd (memory ?w4) ?b ?k) ?w4"
  proof (rule obe_grow [OF h])
    show "?k mod 4 = 0"
      using mod4_add [OF _ pad_multiple [of "4 + ?c"], of 4] by (simp add: add.assoc)
    show "changed_within (memory w) (memory ?w4) ?b (?b + ?k)"
      unfolding k by (simp add: changed_within_wr)
  qed (use i room pd in simp_all)
  moreover have "rd (memory ?w4) ?b ?k = ?x @ p"
    unfolding k rd_append by (simp add: rd_wr_same p_def del: length_sample_bytes)
  moreover have "changed_within (memory w) ?m4 (ob_buffer ?st) (ob_buffer ?st + ob_size ?st)"
    using room by (intro changed_within_wr) simp_all
  ultimately show ?thesis
    using R1 i by (intro exI [of _ ?w4] exI [of _ p]) (simp add: same_buffer_def p_def)
qed

text \<open>The topics a client writes, one call after the other: the writer, and where the data are.\<close>

primrec write_topics ::
  "'e env \<Rightarrow> nat \<Rightarrow> (uxrObjectId \<times> addr \<times> size_t) list \<Rightarrow> 'e world \<Rightarrow> u16 list \<times> 'e world"
where
  "write_topics env i [] w = ([], w)"
| "write_topics env i (t # ts) w =
     (let (rid, w1) = uxr_buffer_topic env (be_id i) (fst t) (fst (snd t)) (snd (snd t)) w;
          (rids, w2) = write_topics env i ts w1
      in (rid # rids, w2))"

text \<open>The submessages for them, each with what fills it up to a multiple of four.\<close>

definition sample_list ::
  "endianness \<Rightarrow> mem \<Rightarrow> u16 list \<Rightarrow> (uxrObjectId \<times> addr \<times> size_t) list \<Rightarrow> u8 list list \<Rightarrow> u8 list"
where
  "sample_list e m rids ts fills = concat (map (\<lambda>(rid, (oid, a, n), p). sample_bytes e rid oid (rd m a n) @ p) (zip rids (zip ts fills)))"

definition sample_sizes :: "(uxrObjectId \<times> addr \<times> size_t) list \<Rightarrow> nat" where
  "sample_sizes ts = (\<Sum>(oid, a, n) \<leftarrow> ts. 8 + n + pad n 4)"

text \<open>The data can be written, and do not lie in the stream's own buffer.\<close>

definition topic_ok :: "uxrOutputBestEffortStream \<Rightarrow> uxrObjectId \<times> addr \<times> size_t \<Rightarrow> bool" where
  "topic_ok st t \<longleftrightarrow> (case t of (oid, a, n) \<Rightarrow> n + 4 < 2 ^ 16 \<and> (a + n \<le> ob_buffer st \<or> ob_buffer st + ob_size st \<le> a))"

lemma topics_written:
  assumes env: "env_ok env" "host_order env e"
  shows "obe_holds i bs w \<Longrightarrow> \<forall>t \<in> set ts. topic_ok (get_obe i w) t \<Longrightarrow>
    writer (get_obe i w) + sample_sizes ts \<le> ob_size (get_obe i w) \<Longrightarrow>
    \<exists>rids fills w'. write_topics env i ts w = (rids, w') \<and> rids = request_ids (length ts) o' (sess_info w) \<and>
      map length fills = map (\<lambda>(oid, a, n). pad n 4) ts \<and>
      obe_holds i (bs @ sample_list e (memory w) rids ts fills) w' \<and> ext w' = ext w \<and> same_buffer (get_obe i w) (get_obe i w') \<and>
      key (sess_info w') = key (sess_info w) \<and> id' (sess_info w') = id' (sess_info w)"
proof (induction ts arbitrary: bs w)
  case Nil
  then show ?case
    by (simp add: sample_list_def same_buffer_def)
next
  case (Cons t ts)
  obtain oid a n where t: "t = (oid, a, n)"
    by (metis prod_cases3)
  let ?st = "get_obe i w" and ?c = "rd (memory w) a n" and ?rid = "fst (generate_request_id (sess_info w))"
  have ok: "n + 4 < 2 ^ 16" "a + n \<le> ob_buffer ?st \<or> ob_buffer ?st + ob_size ?st \<le> a"
    and room: "writer ?st + (8 + n + pad n 4) + sample_sizes ts \<le> ob_size ?st"
    using Cons.prems(2,3) by (simp_all add: t topic_ok_def sample_sizes_def)
  obtain w1 p where 1: "uxr_buffer_topic env (be_id i) oid a n w = (?rid, w1)" and p: "length p = pad n 4"
    and h: "obe_holds i (bs @ sample_bytes e ?rid oid ?c @ p) w1" and w1: "sess_info w1 = snd (generate_request_id (sess_info w))"
      "ext w1 = ext w" "same_buffer ?st (get_obe i w1)"
    and ch: "changed_within (memory w) (memory w1) (ob_buffer ?st) (ob_buffer ?st + ob_size ?st)"
    using topic_written [OF env Cons.prems(1), of ?c a oid] ok room by auto
  have writer: "writer (get_obe i w1) = writer ?st + (8 + n + pad n 4)"
    using h Cons.prems(1) w1(3) by (auto simp: obe_holds_def same_buffer_def p)
  have ok1: "\<forall>t \<in> set ts. topic_ok (get_obe i w1) t"
    using Cons.prems(2) w1(3) by (simp add: topic_ok_def same_buffer_def)
  have room1: "writer (get_obe i w1) + sample_sizes ts \<le> ob_size (get_obe i w1)"
    using room writer w1(3) by (simp add: same_buffer_def)
  obtain rids fills w' where 2: "write_topics env i ts w1 = (rids, w')" and rids: "rids = request_ids (length ts) o' (sess_info w1)"
    and fills: "map length fills = map (\<lambda>(oid, a, n). pad n 4) ts"
    and h': "obe_holds i ((bs @ sample_bytes e ?rid oid ?c @ p) @ sample_list e (memory w1) rids ts fills) w'"
    and w': "ext w' = ext w1" "same_buffer (get_obe i w1) (get_obe i w')" "key (sess_info w') = key (sess_info w1)"
      "id' (sess_info w') = id' (sess_info w1)"
    using Cons.IH [OF h ok1 room1] by blast
  have same: "rd (memory w1) a' n' = rd (memory w) a' n'" if "(oid', a', n') \<in> set ts" for oid' a' n'
  proof -
    have "topic_ok ?st (oid', a', n')"
      using Cons.prems(2) that by simp
    then have "same_on (memory w) (memory w1) a' (a' + n')"
      by (intro changed_within_same_on [OF ch]) (auto simp: topic_ok_def)
    then show ?thesis
      by (rule same_on_rd) simp_all
  qed
  have "sample_list e (memory w1) rids ts fills = sample_list e (memory w) rids ts fills"
    unfolding sample_list_def
    by (intro arg_cong [where f = concat] map_cong refl) (clarsimp, metis same set_zip_rightD set_zip_leftD)
  then have "obe_holds i (bs @ sample_list e (memory w) (?rid # rids) (t # ts) (p # fills)) w'"
    using h' by (simp add: sample_list_def t)
  moreover have "?rid # rids = request_ids (length (t # ts)) o' (sess_info w)"
    by (simp add: rids w1 init_request)
  ultimately show ?case
    using 1 2 w' w1 p fills
    by (intro exI [of _ "?rid # rids"] exI [of _ "p # fills"] exI [of _ w']) (auto simp: t same_buffer_def)
qed

text \<open>Flushing: what the stream holds goes out as one message.\<close>

lemma flash_best_effort_sends:
  assumes env: "env_ok env" and h: "obe_holds i bs w" and bs: "bs \<noteq> []"
  defines "st \<equiv> get_obe i w"
  defines "msg \<equiv> message_header_bytes (id' (sess_info w)) (raw (be_id i)) (last_send st + 1) (key (sess_info w)) @ bs"
  shows "\<exists>w'. flash_best_effort env i w = w' \<and> ext w' = snd (send_msg (comm env) msg (ext w)) \<and> obe_holds i [] w' \<and>
    last_send (get_obe i w') = last_send st + 1 \<and> sess_info w' = sess_info w"
proof -
  let ?hd = "message_header_bytes (id' (sess_info w)) (raw (be_id i)) (last_send st + 1) (key (sess_info w))"
  let ?st = "st\<lparr>last_send := last_send st + 1, writer := unat (ob_offset st)\<rparr>"
  have i: "i < length (output_best_effort (sess_streams w))" and key: "length (key (sess_info w)) = 4" and inv: "be_out_inv st"
    using h by (simp_all add: obe_holds_def st_def)
  have off: "unat (ob_offset st) = length ?hd" and wr: "writer st = length ?hd + length bs"
    and rd: "rd (memory w) (ob_buffer st + length ?hd) (length bs) = bs"
    using h by (auto simp: obe_holds_def st_def length_message_header_bytes header_offset_eq)
  have p: "uxr_prepare_best_effort_buffer_to_send st = (Some (ob_buffer st, writer st, last_send st + 1), ?st)"
    using off wr bs by (simp add: uxr_prepare_best_effort_buffer_to_send_def sn.add_ring Let_def)
  let ?w1 = "set_obe i ?st w" and ?m = "wr (memory w) (ob_buffer st) ?hd"
  have s: "uxr_stamp_session_header (lib env ?w1) (sess_info w) (raw (be_id i)) (last_send st + 1) (ob_buffer st) (memory w) = ?m"
    using stamp_session_header [OF lib_ok [OF env] key] by simp
  have "rd ?m (ob_buffer st) (length ?hd + length bs) = msg"
    unfolding rd_append using rd by (simp add: rd_wr_same rd_wr_disjoint msg_def)
  then have "flash_best_effort env i w = (set_memory ?m ?w1)\<lparr>ext := snd (send_msg (comm env) msg (ext w))\<rparr>"
    using p s by (simp add: flash_best_effort_def send_message_eq wr Let_def flip: st_def be_id_def)
  moreover have "be_out_inv ?st"
    using inv by (simp add: be_out_inv_def)
  then have "obe_holds i [] ((set_memory ?m ?w1)\<lparr>ext := snd (send_msg (comm env) msg (ext w))\<rparr>)"
    using h i by (simp add: obe_holds_def st_def)
  ultimately show ?thesis
    using i by simp
qed

text \<open>C6. What a client writes to an empty best-effort stream before flushing it goes out as one message under the
  session's header and the stream's next sequence number: for every topic, in the order of the calls, a
  WRITE_DATA submessage with the request identifier that the call returned, the writer and exactly the
  octets that were in memory, each filled up to a multiple of four. The identifiers are the next ones
  of the session, and the stream is empty again.\<close>
theorem best_effort_topics_sent:
  assumes "env_ok env" and "host_order env e" and "obe_holds i [] w" and "ts \<noteq> []"
    and "\<forall>t \<in> set ts. topic_ok (get_obe i w) t" and "writer (get_obe i w) + sample_sizes ts \<le> ob_size (get_obe i w)"
    and "write_topics env i ts w = (rids, w1)"
  shows "\<exists>fills. map length fills = map (\<lambda>(oid, a, n). pad n 4) ts \<and> rids = request_ids (length ts) o' (sess_info w) \<and>
    ext (flash_best_effort env i w1) = snd (send_msg (comm env)
      (message_header_bytes (id' (sess_info w)) (raw (be_id i)) (last_send (get_obe i w) + 1) (key (sess_info w)) @
       sample_list e (memory w) rids ts fills) (ext w)) \<and>
    obe_holds i [] (flash_best_effort env i w1)"
proof -
  obtain fills where f: "map length fills = map (\<lambda>(oid, a, n). pad n 4) ts" and rids: "rids = request_ids (length ts) o' (sess_info w)"
    and h: "obe_holds i (sample_list e (memory w) rids ts fills) w1" and w1: "ext w1 = ext w"
      "same_buffer (get_obe i w) (get_obe i w1)" "key (sess_info w1) = key (sess_info w)" "id' (sess_info w1) = id' (sess_info w)"
    using topics_written [OF assms(1,2,3,5,6)] assms(7) by fastforce
  have "sample_list e (memory w) rids ts fills \<noteq> []"
  proof -
    obtain oid a n ts' where t: "ts = (oid, a, n) # ts'"
      using assms(4) by (metis neq_Nil_conv prod_cases3)
    moreover obtain r rids' where "rids = r # rids'"
      using rids t by (cases rids) (simp_all add: init_request)
    moreover obtain p fills' where "fills = p # fills'"
      using f t by (cases fills) simp_all
    ultimately show ?thesis
      by (simp add: sample_list_def sample_bytes_def header_bytes_def)
  qed
  from flash_best_effort_sends [OF assms(1) h this] show ?thesis
    using f rids w1 by (auto simp: same_buffer_def)
qed

section \<open>Samples that arrive\<close>

text \<open>A sample as it is sent: the flags of its submessage, the octets of the request, and the data.\<close>

type_synonym sample = "u8 \<times> u8 list \<times> u8 list"

definition sample_object :: "sample \<Rightarrow> uxrObjectId" where
  "sample_object x = (case x of (fl, req, content) \<Rightarrow> uxr_object_id_from_raw (req ! 2, req ! 3))"

definition sample_request :: "sample \<Rightarrow> u16" where
  "sample_request x = (case x of (fl, req, content) \<Rightarrow> push_bit 8 (ucast (req ! 0)) + ucast (req ! 1))"

text \<open>Plain data for a data reader.\<close>

definition sample_ok :: "sample \<Rightarrow> bool" where
  "sample_ok x \<longleftrightarrow> (case x of (fl, req, content) \<Rightarrow> length req = 4 \<and> length content + 4 < 2 ^ 16 \<and>
     (fl AND NOT 1) AND FORMAT_MASK = FORMAT_DATA \<and> uxrObjectId.type (sample_object x) = UXR_DATAREADER_ID)"

text \<open>
  From the address \<open>p\<close> on, which has the offset \<open>off\<close> in its message, to the end there are just these
  samples, each from the next multiple of four on.
\<close>

fun samples_at :: "mem \<Rightarrow> addr \<Rightarrow> nat \<Rightarrow> addr \<Rightarrow> sample list \<Rightarrow> bool" where
  "samples_at m p off fin [] \<longleftrightarrow> p \<le> fin \<and> fin < p + pad off 4 + 4"
| "samples_at m p off fin ((fl, req, content) # xs) \<longleftrightarrow>
     (let q = p + pad off 4; k = 8 + length content in
        q + k \<le> fin \<and> rd m q k = header_bytes SUBMESSAGE_ID_DATA fl (of_nat (4 + length content)) @ req @ content \<and>
        sample_ok (fl, req, content) \<and> samples_at m (q + k) (off + pad off 4 + k) fin xs)"

text \<open>What is done with one sample, whose data are at \<open>a\<close> with \<open>n\<close> octets up to the end of the message.\<close>

definition give_sample :: "'e env \<Rightarrow> uxrStreamId \<Rightarrow> addr \<Rightarrow> size_t \<Rightarrow> sample \<Rightarrow> 'e world \<Rightarrow> 'e world" where
  "give_sample env sid a n x w =
     (let w1 = process_status env (sample_object x) (sample_request x) UXR_STATUS_OK w
      in case on_topic (sess w1) of
           None \<Rightarrow> w1
         | Some f \<Rightarrow>
             let w2 = call_on_topic env f (sample_object x) (sample_request x) sid (ucdr_init_buffer (lib env w1) a n)
                        (of_nat (length (snd (snd x)))) (on_topic_args (sess w1)) w1
             in w2\<lparr>sess := (sess w2)\<lparr>on_data_flag := True\<rparr>\<rparr>)"

primrec give_samples :: "'e env \<Rightarrow> uxrStreamId \<Rightarrow> addr \<Rightarrow> nat \<Rightarrow> addr \<Rightarrow> sample list \<Rightarrow> 'e world \<Rightarrow> 'e world" where
  "give_samples env sid p off fin [] w = w"
| "give_samples env sid p off fin (x # xs) w =
     (let q = p + pad off 4; k = 8 + length (snd (snd x))
      in give_samples env sid (q + k) (off + pad off 4 + k) fin xs (give_sample env sid (q + 8) (fin - (q + 8)) x w))"

text \<open>The application's functions leave the memory alone.\<close>

definition callbacks_keep_memory :: "'e env \<Rightarrow> bool" where
  "callbacks_keep_memory env \<longleftrightarrow>
     (\<forall>f oid rid st a w. memory (call_on_status env f oid rid st a w) = memory w) \<and>
     (\<forall>f oid rid sid ub n a w. memory (call_on_topic env f oid rid sid ub n a w) = memory w)"

lemma process_status_memory: "callbacks_keep_memory env \<Longrightarrow> memory (process_status env oid rid st w) = memory w"
  by (simp add: process_status_def callbacks_keep_memory_def Let_def split: option.split)

lemma give_sample_memory: "callbacks_keep_memory env \<Longrightarrow> memory (give_sample env sid a n x w) = memory w"
  using process_status_memory [of env] by (simp add: give_sample_def callbacks_keep_memory_def Let_def split: option.split)

lemma read_request:
  assumes "ucdr_ok cdr" and "\<not> error ub" and "iterator ub + 4 \<le> final ub" and "rd m (iterator ub) 4 = req" and "length req = 4"
  shows "uxr_deserialize_BaseObjectRequest cdr out (ub, m) =
    (True, \<lparr>BaseObjectRequest.request_id = \<lparr>RequestId.data = take 2 req\<rparr>, object_id = \<lparr>ObjectId.data = drop 2 req\<rparr>\<rparr>, adv 4 ub, m)"
proof -
  have "rd m (iterator ub) 2 = take 2 req" "rd m (iterator ub + 2) 2 = drop 2 req"
    using assms(4) rd_append [of m "iterator ub" 2 2] by auto
  then show ?thesis
    using assms(1-3) by (simp add: uxr_deserialize_BaseObjectRequest_def uxr_deserialize_RequestId_def uxr_deserialize_ObjectId_def
        des_field_def des_array Let_def)
qed

lemma parse_request:
  "length req = 4 \<Longrightarrow> uxr_parse_base_object_request \<lparr>BaseObjectRequest.request_id = \<lparr>RequestId.data = take 2 req\<rparr>,
    object_id = \<lparr>ObjectId.data = drop 2 req\<rparr>\<rparr> = (sample_object (fl, req, content), sample_request (fl, req, content))"
  by (simp add: uxr_parse_base_object_request_def sample_object_def sample_request_def)

lemma read_one_sample:
  assumes env: "env_ok env" "callbacks_keep_memory env" and ub: "\<not> error ub" "on_full_buffer ub = None" "args ub = None"
    and room: "iterator ub + 4 + length content \<le> final ub" "final ub < 2 ^ 64"
    and bytes: "rd (memory w) (iterator ub) 4 = req" and x: "sample_ok (fl, req, content)"
  shows "read_submessage env ub SUBMESSAGE_ID_DATA sid (of_nat (4 + length content)) (fl AND NOT 1) w =
    Some (adv (4 + length content) ub,
      give_sample env sid (iterator ub + 4) (final ub - (iterator ub + 4)) (fl, req, content) w)"
proof -
  have req: "length req = 4" and fmt: "(fl AND NOT 1) AND FORMAT_MASK = FORMAT_DATA" and n: "length content + 4 < 2 ^ 16"
    and ty: "uxrObjectId.type (sample_object (fl, req, content)) = UXR_DATAREADER_ID"
    using x by (simp_all add: sample_ok_def)
  let ?w1 = "process_status env (sample_object (fl, req, content)) (sample_request (fl, req, content)) UXR_STATUS_OK w"
  have des: "uxr_deserialize_BaseObjectRequest (lib env w) out (ub, memory w) =
      (True, \<lparr>BaseObjectRequest.request_id = \<lparr>RequestId.data = take 2 req\<rparr>, object_id = \<lparr>ObjectId.data = drop 2 req\<rparr>\<rparr>, adv 4 ub, memory w)" for out
    using room by (intro read_request [OF lib_ok [OF env(1)] ub(1) _ bytes req]) simp
  have len: "of_nat (4 + length content) - 4 = (of_nat (length content) :: u16)" "unat (of_nat (length content) :: u16) = length content"
    using n by (simp_all add: unat_of_nat take_bit_eq_mod)
  have adv: "ucdr_advance_buffer (lib env w') (length content) (adv 4 ub) = adv (4 + length content) ub" for w'
    using room by (simp add: advance_buffer [OF lib_ok [OF env(1)]])
  have buf: "rest_buffer (lib env ?w1) (adv 4 ub) (adv 4 ub) = ucdr_init_buffer (lib env ?w1) (iterator ub + 4) (final ub - (iterator ub + 4))"
    using room ub by (simp add: rest_buffer_def ucdr_simps lib_ok [OF env(1)] size_sub_eq)
  have r: "read_submessage env ub SUBMESSAGE_ID_DATA sid (of_nat (4 + length content)) (fl AND NOT 1) w =
      Some (read_format_data env (adv 4 ub) (of_nat (length content)) sid (sample_object (fl, req, content)) (sample_request (fl, req, content)) ?w1)"
    using fmt by (simp add: read_submessage_def SUBMESSAGE_ID_DATA_def SUBMESSAGE_ID_STATUS_AGENT_def SUBMESSAGE_ID_STATUS_def
        read_submessage_data_def run_des_def des parse_request [OF req, of fl content] read_submessage_format_def len(1))
  show ?thesis
    unfolding r using ty buf ub(3)
    by (simp add: read_format_data_def set_cleanup_flag_def len(2) adv give_sample_def Let_def split: option.split)
qed

lemma list_end:
  assumes "ucdr_ok (lib env w)" and "iterator ub \<le> final ub" and "final ub < iterator ub + pad (offset ub) 4 + 4"
  shows "map_option snd (read_submessage_list_loop env ub sid hdr w) = Some w"
proof -
  have "ucdr_buffer_remaining (lib env w) (ucdr_align_to (lib env w) 4 ub) < 4"
    using assms by (cases "iterator ub + pad (offset ub) 4 \<le> final ub") (auto simp: align_to align_to_full buffer_remaining)
  then show ?thesis
    by (subst read_submessage_list_loop.simps) (simp add: uxr_read_submessage_header_def SUBHEADER_SIZE_def Let_def split: prod.split)
qed

lemma read_list_step:
  assumes "uxr_read_submessage_header (lib env w) hdr (ub, memory w) = (True, (k, n, fl), (ub1, m))"
    and "read_submessage env ub1 k sid n fl (set_memory m w) = Some (ub2, w2)"
  shows "read_submessage_list_loop env ub sid hdr w = read_submessage_list_loop env ub2 sid (k, n, fl) w2"
  by (subst read_submessage_list_loop.simps) (simp add: assms)

lemma read_samples:
  assumes env: "env_ok env" "callbacks_keep_memory env"
  shows "\<not> error ub \<Longrightarrow> on_full_buffer ub = None \<Longrightarrow> args ub = None \<Longrightarrow> final ub < 2 ^ 64 \<Longrightarrow>
    samples_at (memory w) (iterator ub) (offset ub) (final ub) xs \<Longrightarrow>
    map_option snd (read_submessage_list_loop env ub sid hdr w) =
      Some (give_samples env sid (iterator ub) (offset ub) (final ub) xs w)"
proof (induction xs arbitrary: ub w hdr)
  case Nil
  then show ?case
    using list_end [OF lib_ok [OF env(1)], of ub] by simp
next
  case (Cons x xs)
  obtain fl req content where x: "x = (fl, req, content)"
    by (metis prod_cases3)
  let ?q = "iterator ub + pad (offset ub) 4" and ?n = "length content"
  have room: "?q + (8 + ?n) \<le> final ub" and ok: "sample_ok (fl, req, content)" and
    bytes: "rd (memory w) ?q (8 + ?n) = header_bytes SUBMESSAGE_ID_DATA fl (of_nat (4 + ?n)) @ req @ content" and
    rest: "samples_at (memory w) (?q + (8 + ?n)) (offset ub + pad (offset ub) 4 + (8 + ?n)) (final ub) xs"
    using Cons.prems(5) by (simp_all add: x Let_def)
  have req: "length req = 4"
    using ok by (simp add: sample_ok_def)
  have h: "rd (memory w) ?q 4 = header_bytes SUBMESSAGE_ID_DATA fl (of_nat (4 + ?n))" and r: "rd (memory w) (?q + 4) 4 = req"
    using bytes req rd_append [of "memory w" ?q 4 "4 + ?n"] rd_append [of "memory w" "?q + 4" 4 ?n] by simp_all
  let ?ub1 = "(adv (pad (offset ub) 4 + 4) ub)\<lparr>endianness := if fl AND 1 \<noteq> 0 then LITTLE_ENDIANNESS else BIG_ENDIANNESS\<rparr>"
  have 1: "uxr_read_submessage_header (lib env w) hdr (ub, memory w) =
      (True, (SUBMESSAGE_ID_DATA, of_nat (4 + ?n), fl AND NOT 1), (?ub1, memory w))"
    using read_submessage_header [OF lib_ok [OF env(1)] Cons.prems(1) _ h] room by simp
  let ?w1 = "give_sample env sid (?q + 8) (final ub - (?q + 8)) x w" and ?ub2 = "adv (4 + ?n) ?ub1"
  have "iterator ?ub1 + 4 + ?n \<le> final ?ub1" "rd (memory w) (iterator ?ub1) 4 = req"
    using room r by (simp_all add: add.assoc)
  from read_one_sample [OF env _ _ _ this(1) _ this(2) ok] have 2: "read_submessage env ?ub1 SUBMESSAGE_ID_DATA sid (of_nat (4 + ?n)) (fl AND NOT 1) w =
      Some (?ub2, ?w1)"
    using Cons.prems(1-4) by (simp add: x add.assoc)
  have "samples_at (memory ?w1) (iterator ?ub2) (offset ?ub2) (final ?ub2) xs"
    using rest by (simp add: give_sample_memory [OF env(2)] ac_simps)
  with Cons.IH [of ?ub2 ?w1] Cons.prems(1-4)
  have 3: "map_option snd (read_submessage_list_loop env ?ub2 sid hdr' ?w1) =
      Some (give_samples env sid (iterator ?ub2) (offset ?ub2) (final ?ub2) xs ?w1)" for hdr'
    by simp
  have "read_submessage_list_loop env ub sid hdr w =
      read_submessage_list_loop env ?ub2 sid (SUBMESSAGE_ID_DATA, of_nat (4 + ?n), fl AND NOT 1) ?w1"
    by (rule read_list_step [OF 1]) (simp only: world_parts 2)
  moreover have "iterator ?ub2 = ?q + (8 + ?n)" "offset ?ub2 = offset ub + pad (offset ub) 4 + (8 + ?n)" "final ?ub2 = final ub"
    by simp_all
  moreover have "give_samples env sid (iterator ub) (offset ub) (final ub) (x # xs) w =
      give_samples env sid (?q + (8 + ?n)) (offset ub + pad (offset ub) 4 + (8 + ?n)) (final ub) xs ?w1"
    by (simp add: x Let_def)
  ultimately show ?case
    using 3 by (simp only:)
qed

text \<open>C5. A message of the agent on a best-effort stream of the session that is newer than all before gives the
  application every sample in it, once and in order: the function for topics is called with the reader,
  the request, the stream and a buffer over exactly the place where the data are (up to the end of the
  message), in the byte order of the host, and the status of the request is noted as good. A message
  that is not newer gives nothing.\<close>
theorem samples_reach_application:
  assumes "env_ok env" and "callbacks_keep_memory env" and "length (key (sess_info w)) = 4"
    and "recv_msg (comm env) poll (ext w, memory w) = (True, (a, n), e, m)" and "a + n < 2 ^ 32"
    and "headed m a n s r q k" and "own_header (sess_info w) s k"
    and "uxr_stream_id_from_raw r UXR_INPUT_STREAM = sid" and "uxrStreamId.type sid = UXR_BEST_EFFORT_STREAM"
    and "uxr_get_input_best_effort_stream (sess_streams w) (index sid) = Some i"
    and "samples_at m (a + length (message_header_bytes s r q k)) (length (message_header_bytes s r q k)) (a + n) xs"
  shows "listen_message env poll w = Some (True,
    let w1 = w\<lparr>ext := e, memory := m\<rparr>; w2 = set_ibe i (snd (uxr_receive_best_effort_message (get_ibe i w) q)) w1
    in if uxr_seq_num_cmp (be_last_handled (get_ibe i w)) q < 0
       then give_samples env sid (a + length (message_header_bytes s r q k)) (length (message_header_bytes s r q k)) (a + n) xs w2
       else w2)"
proof -
  let ?w1 = "w\<lparr>ext := e, memory := m\<rparr>" and ?l = "length (message_header_bytes s r q k)"
  let ?ub = "adv ?l (ucdr_init_buffer (lib env ?w1) a n)"
  let ?w2 = "set_ibe i (snd (uxr_receive_best_effort_message (get_ibe i w) q)) ?w1"
  have ub: "\<not> error ?ub" "on_full_buffer ?ub = None" "args ?ub = None" "final ?ub = a + n" "iterator ?ub = a + ?l" "offset ?ub = ?l"
    by (simp_all add: fresh_buffer [OF lib_ok [OF assms(1)]])
  have m2: "memory ?w2 = m"
    by (simp add: set_ibe_def set_streams_def)
  have "read_message env (ucdr_init_buffer (lib env ?w1) a n) ?w1 = read_stream env ?ub sid q ?w1"
    using read_message_headed [OF assms(1), of ?w1 n a s r q k] assms(3,5,6,7,8) by simp
  moreover have "get_ibe i ?w1 = get_ibe i w" "sess_streams ?w1 = sess_streams w"
    by (simp_all add: get_ibe_def)
  moreover have "fst (uxr_receive_best_effort_message (get_ibe i w) q) \<longleftrightarrow> uxr_seq_num_cmp (be_last_handled (get_ibe i w)) q < 0"
    by (simp add: uxr_receive_best_effort_message_def Let_def)
  moreover have "read_submessage_list env ?ub sid ?w2 = Some (give_samples env sid (a + ?l) ?l (a + n) xs ?w2)"
    using read_samples [OF assms(1,2) ub(1-3), of ?w2 xs sid] assms(5,11) ub(4-6) m2 by (simp add: read_submessage_list_def)
  ultimately have "read_message env (ucdr_init_buffer (lib env ?w1) a n) ?w1 =
      Some (if uxr_seq_num_cmp (be_last_handled (get_ibe i w)) q < 0 then give_samples env sid (a + ?l) ?l (a + n) xs ?w2 else ?w2)"
    using assms(9,10) by (cases "uxr_receive_best_effort_message (get_ibe i w) q") (simp add: read_stream_def)
  then show ?thesis
    using assms(4,5) by (simp add: listen_message_def recv_message_def cast_u32_eq Let_def)
qed

definition example_obe :: uxrOutputBestEffortStream where
  "example_obe = \<lparr>ob_buffer = 100, writer = 8, ob_size = 64, ob_offset = 8, last_send = 6\<rparr>"

definition example_be_world :: "u8 list list world" where
  "example_be_world = set_streams (example_storage\<lparr>output_best_effort := [example_obe], output_best_effort_size := 1\<rparr>)
     (example_world (\<lambda>x. of_nat x))"

lemma example_be_parts:
  "get_obe 0 example_be_world = example_obe" "key (sess_info example_be_world) = [0, 0, 0, 7]" "id' (sess_info example_be_world) = 1"
  "ext example_be_world = []" "last_request_id (sess_info example_be_world) = 9" "memory example_be_world = of_nat"
  by (simp_all add: example_be_world_def example_world_def example_session_def get_obe_def uxr_init_session_info_def set_streams_def
      RESERVED_REQUESTS_ID_def)

lemma example_be_holds: "obe_holds 0 [] example_be_world"
proof -
  have "output_best_effort_size (sess_streams example_be_world) = 1" "output_best_effort (sess_streams example_be_world) = [example_obe]"
    by (simp_all add: example_be_world_def set_streams_def)
  then show ?thesis
    by (simp add: obe_holds_def example_be_parts example_obe_def be_out_inv_def header_offset_eq)
qed

lemma example_order: "host_order (example_env l msg) LITTLE_ENDIANNESS"
  by (simp add: host_order_def example_env_def ref_ucdr_def)

theorem best_effort_topics_sent_witness:
  "\<forall>l. \<exists>fills. map length fills = [0, 1] \<and> ext (flash_best_effort (example_env l []) 0 (snd (write_topics (example_env l []) 0
      [(uxr_object_id 1 5, 1000, 8), (uxr_object_id 2 5, 2000, 3)] example_be_world))) =
    [message_header_bytes 1 1 7 [0, 0, 0, 7] @ sample_bytes LITTLE_ENDIANNESS 10 (uxr_object_id 1 5) (rd of_nat 1000 8) @ fills ! 0 @
      sample_bytes LITTLE_ENDIANNESS 11 (uxr_object_id 2 5) (rd of_nat 2000 3) @ fills ! 1]"
proof
  fix l
  let ?w = example_be_world and ?ts = "[(uxr_object_id 1 5, 1000, 8), (uxr_object_id 2 5, 2000, 3)] :: (uxrObjectId \<times> addr \<times> size_t) list"
  obtain rids w1 where r: "write_topics (example_env l []) 0 ?ts ?w = (rids, w1)"
    by force
  note parts = example_be_parts
  have "obe_holds 0 [] ?w"
    by (rule example_be_holds)
  moreover have "host_order (example_env l []) LITTLE_ENDIANNESS"
    by (rule example_order)
  moreover have "\<forall>t \<in> set ?ts. topic_ok (get_obe 0 ?w) t"
    by (simp add: parts topic_ok_def example_obe_def)
  moreover have "writer (get_obe 0 ?w) + sample_sizes ?ts \<le> ob_size (get_obe 0 ?w)"
    by (simp add: parts sample_sizes_def example_obe_def pad_def)
  ultimately obtain fills where f: "map length fills = map (\<lambda>(oid, a, n). pad n 4) ?ts" and
    rids: "rids = request_ids (length ?ts) (uxr_object_id 0 0) (sess_info ?w)" and
    sent: "ext (flash_best_effort (example_env l []) 0 w1) = snd (send_msg (comm (example_env l []))
      (message_header_bytes (id' (sess_info ?w)) (raw (be_id 0)) (last_send (get_obe 0 ?w) + 1) (key (sess_info ?w)) @
       sample_list LITTLE_ENDIANNESS (memory ?w) rids ?ts fills) (ext ?w))"
    using best_effort_topics_sent [OF example_env_ok _ _ _ _ _ r, of LITTLE_ENDIANNESS "uxr_object_id 0 0"] by blast
  have w1: "snd (write_topics (example_env l []) 0 ?ts ?w) = w1"
    by (simp only: r snd_conv)
  have sends: "snd (send_msg (comm (example_env l [])) b x) = x @ [b]" for b x
    by (simp add: example_env_def)
  have "rids = [10, 11]"
    by (simp add: rids init_request generate_request_id_def parts RESERVED_REQUESTS_ID_def Let_def)
  moreover obtain p q where "fills = [p, q]"
    using f by (cases fills; cases "tl fills") auto
  ultimately show "\<exists>fills. map length fills = [0, 1] \<and> ext (flash_best_effort (example_env l []) 0
      (snd (write_topics (example_env l []) 0 ?ts ?w))) =
    [message_header_bytes 1 1 7 [0, 0, 0, 7] @ sample_bytes LITTLE_ENDIANNESS 10 (uxr_object_id 1 5) (rd of_nat 1000 8) @ fills ! 0 @
      sample_bytes LITTLE_ENDIANNESS 11 (uxr_object_id 2 5) (rd of_nat 2000 3) @ fills ! 1]"
    using f sent unfolding w1
    by (intro exI [of _ fills]) (simp add: parts sends sample_list_def example_obe_def be_id_def stream_id_defs pad_def)
qed

lemma rd_part: "rd m a n = bs \<Longrightarrow> i + k \<le> n \<Longrightarrow> rd m (a + i) k = take k (drop i bs)"
  by (rule nth_equalityI) (auto simp: add.assoc)

text \<open>An application that keeps the data it is given.\<close>

definition example_data_env :: "locals \<Rightarrow> u8 list \<Rightarrow> u8 list list env" where
  "example_data_env l msg = (example_env l msg)\<lparr>call_on_topic := (\<lambda>_ oid rid sid ub n _ w.
     w\<lparr>ext := ext w @ [rd (memory w) (iterator ub) (unat n)]\<rparr>)\<rparr>"

definition example_data :: "u8 list" where
  "example_data = message_header_bytes 1 1 5 [0, 0, 0, 7] @
     header_bytes SUBMESSAGE_ID_DATA 1 9 @ [0, 10, 0, 0x16] @ [1, 2, 3, 4, 5] @ [0, 0, 0] @
     header_bytes SUBMESSAGE_ID_DATA 1 6 @ [0, 11, 0, 0x16] @ [6, 7]"

definition example_reader :: "u8 list list world" where
  "example_reader = (let w = set_streams (example_storage\<lparr>input_best_effort := [\<lparr>be_last_handled = 4\<rparr>], input_best_effort_size := 1\<rparr>)
     (example_world (\<lambda>_. 0)) in w\<lparr>sess := (sess w)\<lparr>on_topic := Some 0\<rparr>\<rparr>)"

theorem samples_reach_application_witness:
  "\<forall>l. \<exists>w'. listen_message (example_data_env l example_data) 10 example_reader = Some (True, w') \<and> ext w' = [[1, 2, 3, 4, 5], [6, 7]]"
proof
  fix l
  let ?env = "example_data_env l example_data" and ?w = example_reader and ?m = "wr (\<lambda>_. 0) 3000 example_data"
  let ?xs = "[(1, [0, 10, 0, 0x16], [1, 2, 3, 4, 5]), (1, [0, 11, 0, 0x16], [6, 7])] :: sample list"
  have env: "env_ok ?env" "callbacks_keep_memory ?env"
    by (simp_all add: env_ok_def example_data_env_def example_env_def ucdr_ok_ref_ucdr callbacks_keep_memory_def)
  have n: "length example_data = 34" "length (message_header_bytes 1 1 5 [0, 0, 0, 7 :: u8]) = 8"
    by (simp_all add: example_data_def length_message_header_bytes)
  have recv: "recv_msg (comm ?env) 10 (ext ?w, memory ?w) = (True, (3000, 34), [], ?m)"
    by (simp add: example_data_env_def example_env_def n example_reader_def Let_def example_world_def set_streams_def)
  have parts: "get_ibe 0 ?w = \<lparr>be_last_handled = 4\<rparr>" "key (sess_info ?w) = [0, 0, 0, 7]" "id' (sess_info ?w) = 1" "ext ?w = []"
    "on_topic (sess ?w) = Some 0" "on_status (sess ?w) = None" "request_status_list_size (sess ?w) = 0"
    "input_best_effort_size (sess_streams ?w) = 1" "input_best_effort (sess_streams ?w) = [\<lparr>be_last_handled = 4\<rparr>]"
    by (simp_all add: example_reader_def Let_def example_world_def example_session_def get_ibe_def uxr_init_session_info_def set_streams_def)
  have rd: "rd ?m 3000 34 = example_data"
    using n by (simp add: rd_wr_same)
  from rd_part [OF this, of 0 8] rd_part [OF this, of 8 13] rd_part [OF this, of 24 10] rd_part [OF this, of 16 5] rd_part [OF this, of 32 2]
  have p: "rd ?m 3000 8 = message_header_bytes 1 1 5 [0, 0, 0, 7]"
    "rd ?m 3008 13 = header_bytes SUBMESSAGE_ID_DATA 1 9 @ [0, 10, 0, 0x16] @ [1, 2, 3, 4, 5]"
    "rd ?m 3024 10 = header_bytes SUBMESSAGE_ID_DATA 1 6 @ [0, 11, 0, 0x16] @ [6, 7]"
    "rd ?m 3016 5 = [1, 2, 3, 4, 5]" "rd ?m 3032 2 = [6, 7]"
    using n(2) by (simp_all add: example_data_def)
  have "headed ?m 3000 34 1 1 5 [0, 0, 0, 7]" "own_header (sess_info ?w) 1 [0, 0, 0, 7]"
    using p(1) n by (simp_all add: headed_def own_header_def parts)
  moreover have "samples_at ?m (3000 + 8) 8 (3000 + 34) ?xs"
  proof -
    have "sample_ok (1, [0, b, 0, 0x16], content)" if "length content < 9" for b content
      using that by (simp add: sample_ok_def sample_object_def uxr_object_id_from_raw_def UXR_DATAREADER_ID_def FORMAT_DATA_def)
    then show ?thesis
      using p(2,3) by (simp add: pad_def)
  qed
  ultimately have "listen_message ?env 10 ?w = Some (True, give_samples ?env (uxr_stream_id_from_raw 1 UXR_INPUT_STREAM) 3008 8 3034 ?xs
      (set_ibe 0 \<lparr>be_last_handled = 5\<rparr> (?w\<lparr>ext := [], memory := ?m\<rparr>)))"
    using samples_reach_application [OF env _ recv, of 1 1 5 "[0, 0, 0, 7]" "uxr_stream_id_from_raw 1 UXR_INPUT_STREAM" 0 ?xs] n(2)
    by (simp add: parts stream_id_defs uxr_get_input_best_effort_stream_def uxr_receive_best_effort_message_def
        uxr_seq_num_cmp_def SEQ_NUM_MIDSIZE_def SEQ_NUM_SIZE_def Let_def)
  moreover have "ext (give_samples ?env (uxr_stream_id_from_raw 1 UXR_INPUT_STREAM) 3008 8 3034 ?xs
      (set_ibe 0 \<lparr>be_last_handled = 5\<rparr> (?w\<lparr>ext := [], memory := ?m\<rparr>))) = [[1, 2, 3, 4, 5], [6, 7]]"
    using p(4,5) parts env lib_ok [OF env(1)]
    by (simp add: give_sample_def process_status_def example_data_env_def set_ibe_def set_streams_def pad_def Let_def init_buffer
        init_buffer_origin_offset)
  ultimately show "\<exists>w'. listen_message ?env 10 ?w = Some (True, w') \<and> ext w' = [[1, 2, 3, 4, 5], [6, 7]]"
    by blast
qed

end
