(* ===== verification/CreateFacts.thy ===== *)
theory CreateFacts
  imports DataFacts CreateEntities
begin

text \<open>
  What is proved about creating entities by reference and by XML: the octets of the CREATE submessage, for
  every kind of entity, and that the length the client computes for them is theirs.
\<close>

lemma ser_string [ucdr_simps]:
  assumes "ucdr_ok cdr" and "\<not> error ub" and "0 \<notin> set s" and "length s + 1 < 2 ^ 32"
    and "iterator ub + pad (offset ub) 4 + 4 + (length s + 1) \<le> final ub"
  shows "ucdr_serialize_string cdr s (ub, m) = (True, adv (pad (offset ub) 4 + (4 + (length s + 1))) ub,
    wr m (iterator ub + pad (offset ub) 4) (enc_seq (endianness ub) (s @ [0])))"
  using ser_lawD [of "\<lambda>str. 0 \<notin> set str \<and> length str + 1 < 2 ^ 32" 4 "\<lambda>str. 4 + (length str + 1)"
      "\<lambda>e str. enc_seq e (str @ [0])" "ucdr_serialize_string cdr" s ub m] assms
  by (simp add: ucdr_ok_def ser_laws_def str_ser_law_def)

lemma ser_i16 [ucdr_simps]:
  "ucdr_ok cdr \<Longrightarrow> \<not> error ub \<Longrightarrow> iterator ub + pad (offset ub) 2 + 2 \<le> final ub \<Longrightarrow>
    ucdr_serialize_int16_t cdr v (ub, m) =
      (True, adv (pad (offset ub) 2 + 2) ub, wr m (iterator ub + pad (offset ub) 2) (enc_w 2 (endianness ub) v))"
  using ser_lawD [of "\<lambda>_. True" 2 "\<lambda>_. 2" "enc_w 2" "ucdr_serialize_int16_t cdr" v ub m]
  by (simp add: ucdr_ok_def ser_laws_def)

section \<open>The entities\<close>

text \<open>An entity to be created: the domain of a participant, the owner of any other.\<close>

datatype entity =
  Participant u16 | Topic uxrObjectId | Publisher uxrObjectId | Subscriber uxrObjectId |
  DataWriter uxrObjectId | DataReader uxrObjectId | Requester uxrObjectId | Replier uxrObjectId

fun entity_kind :: "entity \<Rightarrow> u8" where
  "entity_kind (Participant d) = DDS_XRCE_OBJK_PARTICIPANT"
| "entity_kind (Topic p) = DDS_XRCE_OBJK_TOPIC"
| "entity_kind (Publisher p) = DDS_XRCE_OBJK_PUBLISHER"
| "entity_kind (Subscriber p) = DDS_XRCE_OBJK_SUBSCRIBER"
| "entity_kind (DataWriter p) = DDS_XRCE_OBJK_DATAWRITER"
| "entity_kind (DataReader p) = DDS_XRCE_OBJK_DATAREADER"
| "entity_kind (Requester p) = DDS_XRCE_OBJK_REQUESTER"
| "entity_kind (Replier p) = DDS_XRCE_OBJK_REPLIER"

fun create_xml :: "'e env \<Rightarrow> uxrStreamId \<Rightarrow> uxrObjectId \<Rightarrow> entity \<Rightarrow> u8 list \<Rightarrow> u8 \<Rightarrow> 'e world \<Rightarrow> u16 \<times> 'e world" where
  "create_xml env sid oid (Participant d) = uxr_buffer_create_participant_xml env sid oid d"
| "create_xml env sid oid (Topic p) = uxr_buffer_create_topic_xml env sid oid p"
| "create_xml env sid oid (Publisher p) = uxr_buffer_create_publisher_xml env sid oid p"
| "create_xml env sid oid (Subscriber p) = uxr_buffer_create_subscriber_xml env sid oid p"
| "create_xml env sid oid (DataWriter p) = uxr_buffer_create_datawriter_xml env sid oid p"
| "create_xml env sid oid (DataReader p) = uxr_buffer_create_datareader_xml env sid oid p"
| "create_xml env sid oid (Requester p) = uxr_buffer_create_requester_xml env sid oid p"
| "create_xml env sid oid (Replier p) = uxr_buffer_create_replier_xml env sid oid p"

text \<open>The owner, as it is written last.\<close>

fun owner_ser :: "ucdr \<Rightarrow> entity \<Rightarrow> ser" where
  "owner_ser cdr (Participant d) = ucdr_serialize_int16_t cdr d"
| "owner_ser cdr (Topic p) = uxr_serialize_ObjectId cdr (raw_id p)"
| "owner_ser cdr (Publisher p) = uxr_serialize_ObjectId cdr (raw_id p)"
| "owner_ser cdr (Subscriber p) = uxr_serialize_ObjectId cdr (raw_id p)"
| "owner_ser cdr (DataWriter p) = uxr_serialize_ObjectId cdr (raw_id p)"
| "owner_ser cdr (DataReader p) = uxr_serialize_ObjectId cdr (raw_id p)"
| "owner_ser cdr (Requester p) = uxr_serialize_ObjectId cdr (raw_id p)"
| "owner_ser cdr (Replier p) = uxr_serialize_ObjectId cdr (raw_id p)"

lemmas kinds = DDS_XRCE_OBJK_AGENT_def DDS_XRCE_OBJK_CLIENT_def DDS_XRCE_OBJK_APPLICATION_def DDS_XRCE_OBJK_PARTICIPANT_def
  DDS_XRCE_OBJK_QOSPROFILE_def DDS_XRCE_OBJK_TYPE_def DDS_XRCE_OBJK_TOPIC_def DDS_XRCE_OBJK_PUBLISHER_def
  DDS_XRCE_OBJK_SUBSCRIBER_def DDS_XRCE_OBJK_DATAWRITER_def DDS_XRCE_OBJK_DATAREADER_def DDS_XRCE_OBJK_REQUESTER_def
  DDS_XRCE_OBJK_REPLIER_def

lemmas formats = DDS_XRCE_REPRESENTATION_BY_REFERENCE_def DDS_XRCE_REPRESENTATION_AS_XML_STRING_def
  DDS_XRCE_REPRESENTATION_IN_BINARY_def

text \<open>What is serialized for an entity with a string: its kind, the format, the string and the owner.\<close>

definition entity_ser :: "ucdr \<Rightarrow> u8 \<Rightarrow> u8 list \<Rightarrow> entity \<Rightarrow> ser" where
  "entity_ser cdr fmt s ent = ret_then (ucdr_serialize_uint8_t cdr (entity_kind ent))
     (ret_all [ret_all [ret_then (ucdr_serialize_uint8_t cdr fmt) (ucdr_serialize_string cdr s)], owner_ser cdr ent])"

fun set_owner :: "entity \<Rightarrow> ObjectVariantU \<Rightarrow> ObjectVariantU" where
  "set_owner (Participant d) = set_participant_owner d"
| "set_owner (Topic p) = set_topic_owner (raw_id p)"
| "set_owner (Publisher p) = set_publisher_owner (raw_id p)"
| "set_owner (Subscriber p) = set_subscriber_owner (raw_id p)"
| "set_owner (DataWriter p) = set_data_writer_owner (raw_id p)"
| "set_owner (DataReader p) = set_data_reader_owner (raw_id p)"
| "set_owner (Requester p) = set_requester_owner (raw_id p)"
| "set_owner (Replier p) = set_replier_owner (raw_id p)"

lemmas owner_defs = set_participant_owner_def set_topic_owner_def set_publisher_owner_def set_subscriber_owner_def
  set_data_writer_owner_def set_data_reader_owner_def set_requester_owner_def set_replier_owner_def

lemma create_xml_eq:
  "create_xml env sid oid ent xml mode w =
    create_entity_xml env sid oid xml mode (payload_of (l_CREATE (locals env)) (entity_kind ent) (set_owner ent)) w"
  by (cases ent) (simp_all add: uxr_buffer_create_participant_xml_def uxr_buffer_create_topic_xml_def
      uxr_buffer_create_publisher_xml_def uxr_buffer_create_subscriber_xml_def uxr_buffer_create_datawriter_xml_def
      uxr_buffer_create_datareader_xml_def uxr_buffer_create_requester_xml_def uxr_buffer_create_replier_xml_def)

lemmas variant_defs = uxr_serialize_ObjectVariant_def uxr_serialize_OBJK_PARTICIPANT_Representation_def
  uxr_serialize_OBJK_TOPIC_Representation_def uxr_serialize_OBJK_PUBLISHER_Representation_def
  uxr_serialize_OBJK_SUBSCRIBER_Representation_def uxr_serialize_DATAWRITER_Representation_def
  uxr_serialize_DATAREADER_Representation_def uxr_serialize_OBJK_REQUESTER_Representation_def
  uxr_serialize_OBJK_REPLIER_Representation_def uxr_serialize_OBJK_Representation3_Base_def
  uxr_serialize_OBJK_RepresentationBinAndXML_Base_def uxr_serialize_OBJK_Representation3Formats_def
  uxr_serialize_OBJK_RepresentationBinAndXMLFormats_def

definition xml_variant :: "u8 list \<Rightarrow> ObjectVariantU \<Rightarrow> ObjectVariantU" where
  "xml_variant xml = set_representation
     (rep3 DDS_XRCE_REPRESENTATION_AS_XML_STRING (OBJK_Representation3FormatsU.xml_string_represenatation_update (\<lambda>_. xml)))
     (rep2 DDS_XRCE_REPRESENTATION_AS_XML_STRING (OBJK_RepresentationBinAndXMLFormatsU.string_represenatation_update (\<lambda>_. xml)))"

lemma xml_variant_ser:
  "uxr_serialize_ObjectVariant cdr (v\<lparr>ObjectVariant.kind := entity_kind ent, ObjectVariant.U := xml_variant xml (set_owner ent u)\<rparr>) =
    entity_ser cdr DDS_XRCE_REPRESENTATION_AS_XML_STRING xml ent"
  by (cases ent; simp only: entity_kind.simps set_owner.simps; simp add: variant_defs entity_ser_def xml_variant_def
      set_representation_def owner_defs rep3_def rep2_def kinds formats)

lemma create_xml_payload:
  "\<exists>payload. create_xml env sid oid ent xml mode w = uxr_common_create_entity env sid oid (of_nat (length xml + 1)) mode payload w \<and>
    (\<forall>cdr. uxr_serialize_ObjectVariant cdr (CREATE_Payload.object_representation payload) =
      entity_ser cdr DDS_XRCE_REPRESENTATION_AS_XML_STRING xml ent)"
  by (intro exI [of _ "payload_of (payload_of (l_CREATE (locals env)) (entity_kind ent) (set_owner ent)) (entity_kind ent) (xml_variant xml)"])
    (simp add: create_xml_eq create_entity_xml_def payload_of_def xml_variant_ser flip: xml_variant_def)

section \<open>The octets\<close>

fun owner_bytes :: "endianness \<Rightarrow> entity \<Rightarrow> u8 list" where
  "owner_bytes e (Participant d) = enc_w 2 e d"
| "owner_bytes e (Topic p) = ObjectId.data (raw_id p)"
| "owner_bytes e (Publisher p) = ObjectId.data (raw_id p)"
| "owner_bytes e (Subscriber p) = ObjectId.data (raw_id p)"
| "owner_bytes e (DataWriter p) = ObjectId.data (raw_id p)"
| "owner_bytes e (DataReader p) = ObjectId.data (raw_id p)"
| "owner_bytes e (Requester p) = ObjectId.data (raw_id p)"
| "owner_bytes e (Replier p) = ObjectId.data (raw_id p)"

text \<open>Only the domain, a number, is aligned.\<close>

definition owner_fill :: "entity \<Rightarrow> nat \<Rightarrow> nat" where
  "owner_fill ent off = (if entity_kind ent = DDS_XRCE_OBJK_PARTICIPANT then pad off 2 else 0)"

lemma length_raw_id [simp]: "length (ObjectId.data (raw_id p)) = 2"
  by (simp add: raw_id_def split: prod.split)

lemma length_owner_bytes [simp]: "length (owner_bytes e ent) = 2"
  by (cases ent) simp_all

lemma owner_ser_bytes:
  assumes "ucdr_ok cdr" and "\<not> error ub" and "iterator ub + owner_fill ent (offset ub) + 2 \<le> final ub"
  shows "owner_ser cdr ent (ub, m) = (True, adv (owner_fill ent (offset ub) + 2) ub,
    wr m (iterator ub + owner_fill ent (offset ub)) (owner_bytes (endianness ub) ent))"
  using assms by (cases ent) (simp_all add: owner_fill_def kinds uxr_serialize_ObjectId_def ser_array ser_i16)

lemma length_enc_seq [simp]: "length (enc_seq e bs) = 4 + length bs"
  by (simp add: enc_seq_def)

definition entity_length :: "entity \<Rightarrow> u8 list \<Rightarrow> nat" where
  "entity_length ent s = 8 + (length s + 1) + owner_fill ent (length s + 1) + 2"

lemma pad2_plus: "x mod 2 = 0 \<Longrightarrow> pad (x + y) 2 = pad y 2"
  by (simp add: pad_def mod_add_left_eq [symmetric])

text \<open>Three pieces with gaps between them.\<close>

lemma rd_gaps:
  fixes A B C :: "u8 list" and a g1 g2 :: nat and m :: mem
  defines "b \<equiv> a + (length A + g1)" and "c \<equiv> a + (length A + g1) + (length B + g2)"
  defines "m1 \<equiv> wr (wr (wr m a A) b B) c C"
  shows "rd m1 a (length A + g1 + (length B + g2) + length C) = A @ rd m1 (a + length A) g1 @ B @ rd m1 (b + length B) g2 @ C"
proof -
  have "rd m1 a (length A + g1) = A @ rd m1 (a + length A) g1"
    unfolding rd_append by (simp add: m1_def b_def c_def rd_wr_disjoint rd_wr_same)
  moreover have "rd m1 b (length B + g2) = B @ rd m1 (b + length B) g2"
    unfolding rd_append by (simp add: m1_def b_def c_def rd_wr_disjoint rd_wr_same)
  moreover have "rd m1 c (length C) = C"
    by (simp add: m1_def rd_wr_same)
  moreover have "rd m1 a (length A + g1 + (length B + g2) + length C) = rd m1 a (length A + g1) @ rd m1 b (length B + g2) @ rd m1 c (length C)"
    unfolding rd_append b_def c_def by (simp add: add.assoc)
  ultimately show ?thesis
    by simp
qed

lemma entity_ser_bytes:
  assumes cdr: "ucdr_ok cdr" and ub: "\<not> error ub" "offset ub mod 4 = 0" and s: "0 \<notin> set s" "length s + 1 < 2 ^ 32"
    and room: "iterator ub + entity_length ent s \<le> final ub"
  shows "\<exists>m' f1 f2. entity_ser cdr fmt s ent (ub, m) = (True, adv (entity_length ent s) ub, m') \<and>
    changed_within m m' (iterator ub) (iterator ub + entity_length ent s) \<and>
    length f1 = 2 \<and> length f2 = owner_fill ent (length s + 1) \<and>
    rd m' (iterator ub) (entity_length ent s) =
      [entity_kind ent, fmt] @ f1 @ enc_seq (endianness ub) (s @ [0]) @ f2 @ owner_bytes (endianness ub) ent"
proof -
  let ?it = "iterator ub" and ?n = "length s + 1" and ?f = "owner_fill ent (length s + 1)" and ?e = "endianness ub"
  let ?s = "enc_seq ?e (s @ [0])" and ?o = "owner_bytes ?e ent"
  let ?m = "wr (wr (wr m ?it [entity_kind ent, fmt]) (?it + 4) ?s) (?it + (8 + ?n + ?f)) ?o"
  have p4: "pad (offset ub + 2) 4 = 2"
  proof -
    have "(offset ub + 2) mod 4 = 2"
      using ub(2) by presburger
    then show ?thesis
      by (simp add: pad_def)
  qed
  have off: "owner_fill ent (offset ub + (8 + ?n)) = ?f"
  proof -
    have "(offset ub + 8) mod 2 = 0"
      using ub(2) by presburger
    from pad2_plus [OF this, of ?n] show ?thesis
      unfolding owner_fill_def add.assoc [symmetric] by (simp only:)
  qed
  have L: "entity_length ent s = 8 + ?n + ?f + 2"
    by (simp add: entity_length_def)
  have two: "wr (wr m a [x]) (Suc a) [y] = wr m a [x, y]" for m a and x y :: u8
    using wr_append [of m a "[x]" "[y]"] by simp
  have 1: "ucdr_serialize_uint8_t cdr (entity_kind ent) (ub, m) = (True, adv 1 ub, wr m ?it [entity_kind ent])"
    using ub room cdr L by (simp add: ser_u8)
  have 2: "ucdr_serialize_uint8_t cdr fmt (adv 1 ub, wr m ?it [entity_kind ent]) = (True, adv 2 ub, wr m ?it [entity_kind ent, fmt])"
    using ub room cdr L by (simp add: ser_u8 two numeral_2_eq_2)
  have 3: "ucdr_serialize_string cdr s (adv 2 ub, m') = (True, adv (8 + ?n) ub, wr m' (?it + 4) ?s)" for m'
  proof -
    have "iterator (adv 2 ub) + pad (offset (adv 2 ub)) 4 + 4 + ?n \<le> final (adv 2 ub)"
      using room by (simp add: L p4 del: add_2_eq_Suc add_2_eq_Suc')
    from ser_string [OF cdr _ s this, of m'] ub(1) show ?thesis
      by (simp only: adv_simps adv_adv p4) (simp add: add.assoc del: add_2_eq_Suc add_2_eq_Suc')
  qed
  have 4: "owner_ser cdr ent (adv (8 + ?n) ub, m') = (True, adv (8 + ?n + (?f + 2)) ub, wr m' (?it + (8 + ?n + ?f)) ?o)" for m'
  proof -
    have "iterator (adv (8 + ?n) ub) + owner_fill ent (offset (adv (8 + ?n) ub)) + 2 \<le> final (adv (8 + ?n) ub)"
      using room unfolding adv_simps off L by linarith
    from owner_ser_bytes [OF cdr _ this, of m'] ub(1) show ?thesis
      by (simp only: adv_simps adv_adv off) (simp add: add.assoc)
  qed
  have "entity_ser cdr fmt s ent (ub, m) = (True, adv (entity_length ent s) ub, ?m)"
    by (simp only: entity_ser_def ret_then_def ret_all.simps 1 2 3 4 Let_def prod.case if_True simp_thms L add.assoc)
  moreover have "changed_within m ?m ?it (?it + entity_length ent s)"
    unfolding L by (rule changed_within_trans [OF changed_within_trans]; rule changed_within_wr; simp)
  moreover obtain f1 f2 where "length f1 = 2" "length f2 = ?f"
    "rd ?m ?it (8 + ?n + ?f + 2) = [entity_kind ent, fmt] @ f1 @ ?s @ f2 @ ?o"
  proof -
    have e: "?it + (length [entity_kind ent, fmt] + 2) = ?it + 4"
      "?it + 4 + (length ?s + ?f) = ?it + (8 + ?n + ?f)"
      "length [entity_kind ent, fmt] + 2 + (length ?s + ?f) + length ?o = 8 + ?n + ?f + 2"
      by simp_all
    note g = rd_gaps [of m ?it "[entity_kind ent, fmt]" 2 ?s ?f ?o, unfolded e]
    show ?thesis
      by (rule that [OF length_rd length_rd g])
  qed
  ultimately show ?thesis
    unfolding L by blast
qed

section \<open>The submessage\<close>

lemma create_payload_length_exact:
  assumes "length s + 20 < 2 ^ 16" and "uxrObjectId.type oid = entity_kind ent"
  shows "create_payload_length oid (of_nat (length s + 1)) = 4 + entity_length ent s"
proof -
  have "unat (of_nat (length s + 1) :: u16) = length s + 1"
    using assms(1) by (subst unat_of_nat) (simp add: take_bit_eq_mod)
  moreover have "pad (length s + 1) 2 = (if (12 + (length s + 1)) mod 2 \<noteq> 0 then 1 else 0)"
    by (simp add: pad_def) presburger
  ultimately show ?thesis
    using assms by (simp add: create_payload_length_def entity_length_def owner_fill_def cast_u16_eq Let_def)
qed

definition entity_body :: "endianness \<Rightarrow> u16 \<Rightarrow> uxrObjectId \<Rightarrow> u8 \<Rightarrow> entity \<Rightarrow> u8 list \<Rightarrow> u8 list \<Rightarrow> u8 list \<Rightarrow> u8 list" where
  "entity_body e rid oid fmt ent s f1 f2 =
     request_bytes rid oid @ [entity_kind ent, fmt] @ f1 @ enc_seq e (s @ [0]) @ f2 @ owner_bytes e ent"

lemma create_payload_bytes:
  assumes cdr: "ucdr_ok cdr" and ub: "\<not> error ub" "offset ub mod 4 = 0" "endianness ub = e" and s: "0 \<notin> set s" "length s + 1 < 2 ^ 32"
    and room: "iterator ub + (4 + entity_length ent s) \<le> final ub"
    and p: "CREATE_Payload.base p = snd (snd (uxr_init_base_object_request si oid))"
    and v: "uxr_serialize_ObjectVariant cdr (CREATE_Payload.object_representation p) = entity_ser cdr fmt s ent"
  shows "\<exists>m' f1 f2. uxr_serialize_CREATE_Payload cdr p (ub, m) = (True, adv (4 + entity_length ent s) ub, m') \<and>
    changed_within m m' (iterator ub) (iterator ub + (4 + entity_length ent s)) \<and>
    length f1 = 2 \<and> length f2 = owner_fill ent (length s + 1) \<and>
    rd m' (iterator ub) (4 + entity_length ent s) = entity_body e (fst (generate_request_id si)) oid fmt ent s f1 f2"
proof -
  let ?rb = "request_bytes (fst (generate_request_id si)) oid" and ?it = "iterator ub" and ?L = "entity_length ent s"
  let ?m1 = "wr m ?it ?rb"
  have 1: "uxr_serialize_BaseObjectRequest cdr (CREATE_Payload.base p) (ub, m) = (True, adv 4 ub, ?m1)"
    unfolding p using serialize_request [OF cdr ub(1)] room by simp
  have "iterator (adv 4 ub) + ?L \<le> final (adv 4 ub)" "offset (adv 4 ub) mod 4 = 0" "\<not> error (adv 4 ub)"
    using room ub by simp_all
  from entity_ser_bytes [OF cdr this(3,2) s this(1), of fmt ?m1]
  obtain m' f1 f2 where 2: "entity_ser cdr fmt s ent (adv 4 ub, ?m1) = (True, adv ?L (adv 4 ub), m')"
    and c: "changed_within ?m1 m' (?it + 4) (?it + 4 + ?L)" and f: "length f1 = 2" "length f2 = owner_fill ent (length s + 1)"
    and r: "rd m' (?it + 4) ?L = [entity_kind ent, fmt] @ f1 @ enc_seq e (s @ [0]) @ f2 @ owner_bytes e ent"
    using ub(3) by auto
  have "rd m' ?it 4 = ?rb"
    using same_on_rd [OF changed_within_same_on [OF c, of "?it + 4" ?it], of ?it 4] by (simp add: rd_wr_same)
  then have "rd m' ?it (4 + ?L) = entity_body e (fst (generate_request_id si)) oid fmt ent s f1 f2"
    unfolding rd_append by (simp add: r entity_body_def)
  moreover have "changed_within m ?m1 ?it (?it + (4 + ?L))"
    by (rule changed_within_wr) simp_all
  then have "changed_within m m' ?it (?it + (4 + ?L))"
    by (rule changed_within_trans) (rule changed_within_mono [OF c]; simp)
  moreover have "uxr_serialize_CREATE_Payload cdr p (ub, m) = (True, adv (4 + ?L) ub, m')"
    by (simp add: uxr_serialize_CREATE_Payload_def 1 v 2)
  ultimately show ?thesis
    using f by blast
qed

text \<open>A submessage that was stored behind its header is held by the stream, with what fills it up.\<close>

lemma submessage_held:
  assumes h: "obe_holds i bs w" and hdr: "length hdr = 4"
    and room: "writer (get_obe i w) + (4 + n + pad n 4) \<le> ob_size (get_obe i w)"
    and st: "get_obe i w' = (get_obe i w)\<lparr>writer := writer (get_obe i w) + (4 + n + pad n 4)\<rparr>"
    and same: "key (sess_info w') = key (sess_info w)" "id' (sess_info w') = id' (sess_info w)"
      "output_best_effort_size (sess_streams w') = output_best_effort_size (sess_streams w)"
      "length (output_best_effort (sess_streams w')) = length (output_best_effort (sess_streams w))"
    and b: "b = ob_buffer (get_obe i w) + writer (get_obe i w)"
    and ch: "changed_within (wr (memory w) b hdr) (memory w') (b + 4) (b + 4 + n)" and body: "rd (memory w') (b + 4) n = body"
  shows "\<exists>p. length p < 4 \<and> obe_holds i (bs @ hdr @ body @ p) w'"
proof -
  let ?k = "4 + n + pad n 4"
  define p where "p = rd (memory w') (b + (4 + n)) (pad n 4)"
  have "rd (memory w') b 4 = hdr"
    using same_on_rd [OF changed_within_same_on [OF ch, of "b + 4" b], of b 4] hdr by (simp add: rd_wr_same)
  then have "rd (memory w') b ?k = hdr @ body @ p"
    by (simp only: rd_append [of "memory w'" b "4 + n"] rd_append [of "memory w'" b 4 n] body p_def append.assoc)
  moreover have "obe_holds i (bs @ rd (memory w') b ?k) w'"
  proof (rule obe_grow [OF h _ room st same, folded b])
    show "?k mod 4 = 0"
      using mod4_add [OF _ pad_multiple [of n], of 4] by (simp add: add.assoc)
    have "changed_within (memory w) (wr (memory w) b hdr) b (b + ?k)"
      using hdr by (intro changed_within_wr) simp_all
    moreover have "changed_within (wr (memory w) b hdr) (memory w') b (b + ?k)"
      by (rule changed_within_mono [OF ch]) simp_all
    ultimately show "changed_within (memory w) (memory w') b (b + ?k)"
      by (rule changed_within_trans)
  qed
  ultimately show ?thesis
    using pad_4_less [of n] by (intro exI [of _ p]) (simp add: p_def)
qed

text \<open>C7. Creating an entity of any kind from XML on a best-effort stream with room appends one CREATE submessage:
  the next request identifier and the object, the kind, the format, the text with its length, and the
  owner or domain. The length the client computes beforehand and puts in the header is exactly that of
  what it then writes, for every kind and every length of the text; what is filled in is two octets
  before the length and at most one before a domain.\<close>
theorem entity_created_xml:
  assumes env: "env_ok env" "host_order env e" and h: "obe_holds i bs w" and xml: "0 \<notin> set xml" "length xml + 20 < 2 ^ 16"
    and oid: "uxrObjectId.type oid = entity_kind ent"
    and room: "writer (get_obe i w) + (4 + (4 + entity_length ent xml) + pad (4 + entity_length ent xml) 4) \<le> ob_size (get_obe i w)"
    and r: "create_xml env (be_id i) oid ent xml mode w = (rid, w')"
  shows "rid = fst (generate_request_id (sess_info w)) \<and> sess_info w' = snd (generate_request_id (sess_info w)) \<and> ext w' = ext w \<and>
    (\<exists>f1 f2 p. length f1 = 2 \<and> length f2 = owner_fill ent (length xml + 1) \<and> length p < 4 \<and>
       obe_holds i (bs @ header_bytes SUBMESSAGE_ID_CREATE (mode OR endianness_flag e)
           (of_nat (length (entity_body e rid oid DDS_XRCE_REPRESENTATION_AS_XML_STRING ent xml f1 f2))) @
         entity_body e rid oid DDS_XRCE_REPRESENTATION_AS_XML_STRING ent xml f1 f2 @ p) w')"
proof -
  let ?st = "get_obe i w" and ?n = "4 + entity_length ent xml" and ?fmt = DDS_XRCE_REPRESENTATION_AS_XML_STRING
  let ?k = "4 + ?n + pad ?n 4" and ?b = "ob_buffer ?st + writer ?st" and ?rid = "fst (generate_request_id (sess_info w))"
  let ?hd = "header_bytes SUBMESSAGE_ID_CREATE (mode OR endianness_flag e) (of_nat ?n)"
  let ?ub = "\<lparr>init = ob_buffer ?st, final = ob_buffer ?st + (writer ?st + ?k), iterator = ?b + 4, offset = writer ?st + 4,
    endianness = e, error = False, on_full_buffer = None, args = None\<rparr>"
  let ?w1 = "set_obe i (?st\<lparr>writer := writer ?st + ?k\<rparr>) w"
  let ?w2 = "set_memory (wr (memory w) ?b ?hd) ?w1" and ?si = "snd (generate_request_id (sess_info w))"
  have i: "i < length (output_best_effort (sess_streams w))" and inv: "be_out_inv ?st"
    using h by (simp_all add: obe_holds_def)
  have n: "?n < 2 ^ 16"
    using xml(2) by (simp add: entity_length_def owner_fill_def pad_def) linarith
  have prep: "uxr_prepare_stream_to_write_submessage env (be_id i) ?n SUBMESSAGE_ID_CREATE mode ub w = (True, ?ub, ?w2)" for ub
    by (rule be_room [OF env(1) h n room, unfolded host_order [OF env(2)]])
  obtain payload where c: "create_xml env (be_id i) oid ent xml mode w =
      uxr_common_create_entity env (be_id i) oid (of_nat (length xml + 1)) mode payload w"
    and v: "uxr_serialize_ObjectVariant cdr (CREATE_Payload.object_representation payload) = entity_ser cdr ?fmt xml ent" for cdr
    using create_xml_payload by blast
  let ?p = "payload\<lparr>CREATE_Payload.base := snd (snd (uxr_init_base_object_request (sess_info w) oid))\<rparr>"
  let ?w3 = "set_info ?si ?w2"
  have ub: "\<not> error ?ub" "offset ?ub mod 4 = 0" "endianness ?ub = e" "iterator ?ub + ?n \<le> final ?ub"
    using inv mod4_add [of "writer ?st" 4] by (simp_all add: be_out_inv_def)
  have "length xml + 1 < 2 ^ 32"
    using xml(2) by simp
  from create_payload_bytes [OF lib_ok [OF env(1), of ?w3] ub(1-3) xml(1) this ub(4), of ?p "sess_info w" oid ?fmt "memory ?w2"]
  obtain m' f1 f2 where ser: "uxr_serialize_CREATE_Payload (lib env ?w3) ?p (?ub, memory ?w2) = (True, adv ?n ?ub, m')"
    and ch: "changed_within (memory ?w2) m' (iterator ?ub) (iterator ?ub + ?n)"
    and f: "length f1 = 2" "length f2 = owner_fill ent (length xml + 1)"
    and bytes: "rd m' (iterator ?ub) ?n = entity_body e ?rid oid ?fmt ent xml f1 f2"
    using v by auto
  let ?body = "entity_body e ?rid oid ?fmt ent xml f1 f2"
  have "create_xml env (be_id i) oid ent xml mode w = (?rid, set_memory m' ?w3)"
    using ser unfolding c uxr_common_create_entity_def create_payload_length_exact [OF xml(2) oid] prep
    by (simp add: init_request run_ser_def)
  then have rid: "rid = ?rid" and w': "w' = set_memory m' ?w3" and mw: "memory w' = m'"
    using r by simp_all
  have len: "length ?body = ?n"
    by (metis bytes length_rd)
  have "\<exists>p. length p < 4 \<and> obe_holds i (bs @ ?hd @ ?body @ p) w'"
    by (rule submessage_held [OF h _ room, where b = ?b]) (use ch bytes i in \<open>simp_all add: w'\<close>)
  then obtain p where "length p < 4" "obe_holds i (bs @ ?hd @ ?body @ p) w'"
    by blast
  then show ?thesis
    using f len rid by (intro conjI exI [of _ f1] exI [of _ f2] exI [of _ p]) (simp_all add: w')
qed

theorem entity_created_xml_witness:
  "\<forall>l. \<exists>w' f1 f2 p. create_xml (example_env l []) (be_id 0) (uxr_object_id 1 1) (Participant 7) [60, 97, 98, 62] 6 example_be_world = (10, w') \<and>
    length f1 = 2 \<and> length f2 = 1 \<and>
    obe_holds 0 (header_bytes SUBMESSAGE_ID_CREATE 7 20 @ [0, 10, 0, 0x11, 1, 2] @ f1 @ [5, 0, 0, 0, 60, 97, 98, 62, 0] @ f2 @ [7, 0] @ p) w'"
proof
  fix l
  let ?w = example_be_world
  obtain rid w' where r: "create_xml (example_env l []) (be_id 0) (uxr_object_id 1 1) (Participant 7) [60, 97, 98, 62] 6 ?w = (rid, w')"
    by force
  have g: "fst (generate_request_id (sess_info ?w)) = 10"
    by (simp add: generate_request_id_def example_be_parts RESERVED_REQUESTS_ID_def Let_def)
  have kind: "DDS_XRCE_OBJK_PARTICIPANT = 1" "DDS_XRCE_REPRESENTATION_AS_XML_STRING = 2"
    by (simp_all add: kinds formats)
  have L: "entity_length (Participant 7) [60, 97, 98, 62] = 16"
    by (simp add: entity_length_def owner_fill_def pad_def)
  have "writer (get_obe 0 ?w) + (4 + (4 + entity_length (Participant 7) [60, 97, 98, 62]) +
      pad (4 + entity_length (Participant 7) [60, 97, 98, 62]) 4) \<le> ob_size (get_obe 0 ?w)"
    unfolding L by (simp add: example_be_parts example_obe_def pad_def)
  from entity_created_xml [OF example_env_ok example_order example_be_holds _ _ _ this r]
  obtain f1 f2 p where rid: "rid = 10" and f: "length f1 = 2" "length f2 = 1"
    and h: "obe_holds 0 (header_bytes SUBMESSAGE_ID_CREATE (6 OR endianness_flag LITTLE_ENDIANNESS)
      (of_nat (length (entity_body LITTLE_ENDIANNESS 10 (uxr_object_id 1 1) 2 (Participant 7) [60, 97, 98, 62] f1 f2))) @
      entity_body LITTLE_ENDIANNESS 10 (uxr_object_id 1 1) 2 (Participant 7) [60, 97, 98, 62] f1 f2 @ p) w'"
    by (auto simp: uxr_object_id_def kind g owner_fill_def pad_def)
  have "nat_bytes 4 5 = [5, 0, 0, 0]" "nat_bytes 2 7 = [7, 0]"
    by code_simp+
  moreover have "length ([60, 97, 98, 62] @ [0 :: u8]) = 5"
    by simp
  ultimately have parts: "enc_seq LITTLE_ENDIANNESS ([60, 97, 98, 62] @ [0]) = [5, 0, 0, 0, 60, 97, 98, 62, 0]"
    "owner_bytes LITTLE_ENDIANNESS (Participant 7) = [7, 0]"
    by (simp_all only: enc_seq_def enc_nat_def enc_w_little owner_bytes.simps) simp_all
  have req: "request_bytes 10 (uxr_object_id 1 1) = [0, 10, 0, 0x11]"
    by (simp add: request_bytes_def uxr_object_id_to_raw_def uxr_object_id_def)
  have body: "entity_body LITTLE_ENDIANNESS 10 (uxr_object_id 1 1) 2 (Participant 7) [60, 97, 98, 62] f1 f2 =
      [0, 10, 0, 0x11, 1, 2] @ f1 @ [5, 0, 0, 0, 60, 97, 98, 62, 0] @ f2 @ [7, 0]"
    by (simp only: entity_body_def parts req entity_kind.simps kind) simp
  have flag: "6 OR endianness_flag LITTLE_ENDIANNESS = 7"
    by (simp add: endianness_flag_def)
  have "length ([0, 10, 0, 0x11, 1, 2] @ f1 @ [5, 0, 0, 0, 60, 97, 98, 62, 0] @ f2 @ [7, 0]) = 20"
    using f by simp
  with h have "obe_holds 0 (header_bytes SUBMESSAGE_ID_CREATE 7 (of_nat 20) @
      ([0, 10, 0, 0x11, 1, 2] @ f1 @ [5, 0, 0, 0, 60, 97, 98, 62, 0] @ f2 @ [7, 0]) @ p) w'"
    unfolding body flag by (simp only:)
  then show "\<exists>w' f1 f2 p. create_xml (example_env l []) (be_id 0) (uxr_object_id 1 1) (Participant 7) [60, 97, 98, 62] 6 ?w = (10, w') \<and>
    length f1 = 2 \<and> length f2 = 1 \<and>
    obe_holds 0 (header_bytes SUBMESSAGE_ID_CREATE 7 20 @ [0, 10, 0, 0x11, 1, 2] @ f1 @ [5, 0, 0, 0, 60, 97, 98, 62, 0] @ f2 @ [7, 0] @ p) w'"
    using r f rid by (intro exI [of _ w'] exI [of _ f1] exI [of _ f2] exI [of _ p]) simp
qed

end
