(* ===== verification/LoginFacts.thy ===== *)
theory LoginFacts
  imports PingFacts DataFacts
begin

text \<open>What is proved about opening and closing a session.\<close>

section \<open>The messages\<close>

text \<open>What the client introduces itself with: the protocol, the vendor, its key, the session and the size
  of the messages it takes.\<close>

definition client_bytes :: "endianness \<Rightarrow> u8 list \<Rightarrow> u8 \<Rightarrow> u16 \<Rightarrow> u8 list" where
  "client_bytes e k sid mtu' = [0x58, 0x52, 0x43, 0x45] @ [1, 0] @ [1, 0x0F] @ k @ [sid] @ [0] @ enc_w 2 e mtu'"

definition login_bytes :: "'e env \<Rightarrow> 'e world \<Rightarrow> u8 list" where
  "login_bytes env w =
     (let e = UCDR_MACHINE_ENDIANNESS (lib env w); sid = id' (sess_info w); k = key (sess_info w)
      in message_header_bytes (sid AND 0x80) 0 0 k @
         header_bytes SUBMESSAGE_ID_CREATE_CLIENT (endianness_flag e) 16 @
         client_bytes e k sid (comm_mtu (comm env) - 4))"

definition logout_bytes :: "'e env \<Rightarrow> 'e world \<Rightarrow> u8 list" where
  "logout_bytes env w = control_header env w SUBMESSAGE_ID_DELETE 4 @ [0, 2] @ [0xFF, 0xFE]"

lemma ser_bool [ucdr_simps]:
  "ucdr_ok cdr \<Longrightarrow> \<not> error ub \<Longrightarrow> iterator ub + 1 \<le> final ub \<Longrightarrow>
    ucdr_serialize_bool cdr v (ub, m) = (True, adv 1 ub, wr m (iterator ub) [if v then 1 else 0])"
  using ser_lawD [of "\<lambda>_. True" 1 "\<lambda>_. 1" enc_bool "ucdr_serialize_bool cdr" v ub m]
  by (simp add: ucdr_ok_def ser_laws_def enc_bool_def)

lemma wr_client:
  assumes "length a = 4" and "length b = 2" and "length c = 2" and "length k = 4" and "length s = 1" and "length o' = 1"
  shows "wr m i (a @ b @ c @ k @ s @ o' @ x) =
    wr (wr (wr (wr (wr (wr (wr m i a) (i + 4) b) (i + 6) c) (i + 8) k) (i + 12) s) (i + 13) o') (i + 14) x"
  using assms by (simp add: wr_append add.commute [of i] add.assoc del: add_2_eq_Suc add_2_eq_Suc')

lemma create_client_bytes:
  assumes cdr: "ucdr_ok cdr" and k: "length k = 4"
  shows "writes_bytes (uxr_serialize_CREATE_CLIENT_Payload cdr \<lparr>CREATE_CLIENT_Payload.client_representation =
      \<lparr>CLIENT_Representation.xrce_cookie = DDS_XRCE_XRCE_COOKIE, xrce_version = DDS_XRCE_XRCE_VERSION,
       xrce_vendor_id = VENDOR_ID_EPROSIMA, client_key = \<lparr>ClientKey.data = k\<rparr>, session_id = sid,
       optional_properties = False, properties = props, mtu = mtu'\<rparr>\<rparr>) e (client_bytes e k sid mtu')"
  unfolding writes_bytes_def
proof (intro allI impI)
  fix ub :: ucdrBuffer and m
  assume a: "\<not> error ub \<and> endianness ub = e \<and> offset ub mod 4 = 0 \<and>
    iterator ub + length (client_bytes e k sid mtu') \<le> final ub"
  then have "(offset ub + 14) mod 2 = 0" "iterator ub + 16 \<le> final ub"
    using k even_of_mod4 [of "offset ub"] by (simp_all add: client_bytes_def mod2_eq_if)
  then show "snd (uxr_serialize_CREATE_CLIENT_Payload cdr \<lparr>CREATE_CLIENT_Payload.client_representation =
      \<lparr>CLIENT_Representation.xrce_cookie = DDS_XRCE_XRCE_COOKIE, xrce_version = DDS_XRCE_XRCE_VERSION,
       xrce_vendor_id = VENDOR_ID_EPROSIMA, client_key = \<lparr>ClientKey.data = k\<rparr>, session_id = sid,
       optional_properties = False, properties = props, mtu = mtu'\<rparr>\<rparr> (ub, m)) =
    (adv (length (client_bytes e k sid mtu')) ub, wr m (iterator ub) (client_bytes e k sid mtu'))"
    using a k unfolding client_bytes_def
    by (subst wr_client) (simp_all add: uxr_serialize_CREATE_CLIENT_Payload_def uxr_serialize_CLIENT_Representation_def
        uxr_serialize_XrceCookie_def uxr_serialize_XrceVersion_def uxr_serialize_XrceVendorId_def uxr_serialize_ClientKey_def
        ser_when_def ser_nothing_def DDS_XRCE_XRCE_COOKIE_def DDS_XRCE_XRCE_VERSION_def VENDOR_ID_EPROSIMA_def
        ser_array [OF cdr] ser_u8 [OF cdr] ser_bool [OF cdr] writes_u16 [OF cdr] Let_def)
qed

lemma delete_client_bytes:
  assumes cdr: "ucdr_ok cdr"
  shows "writes_bytes (uxr_serialize_DELETE_Payload cdr \<lparr>DELETE_Payload.base =
      \<lparr>BaseObjectRequest.request_id = \<lparr>RequestId.data = [0, 2]\<rparr>, object_id = \<lparr>ObjectId.data = [0xFF, 0xFE]\<rparr>\<rparr>\<rparr>) e
    ([0, 2] @ [0xFF, 0xFE])"
  unfolding writes_bytes_def wr_append
  by (simp add: uxr_serialize_DELETE_Payload_def uxr_serialize_BaseObjectRequest_def uxr_serialize_RequestId_def
      uxr_serialize_ObjectId_def ser_array [OF cdr] Let_def)

text \<open>Whether a header carries the key depends on the top bit of the session identifier alone.\<close>

lemma and_80: "((sid :: u8) AND 0x80 < 0x80) = (sid < 0x80)"
proof -
  have odd_div: "odd (n div 2 ^ 7) = (\<not> n < 128)" if "n < 256" for n :: nat
  proof (cases "n < 128")
    case False
    then have "n div 128 = 1"
      using that by (intro div_nat_eqI) auto
    then show ?thesis
      using False by simp
  qed simp
  have top: "n < 8 \<Longrightarrow> 7 \<le> n \<Longrightarrow> n = 7" for n :: nat
    by simp
  have "sid AND push_bit 7 1 = (if bit sid 7 then push_bit 7 1 else 0)"
    by (rule bit_word_eqI) (auto simp: bit_simps simp del: push_bit_of_1 dest: top)
  then have "unat (sid AND 0x80) = (if bit sid 7 then 128 else 0)"
    by (simp split: if_splits)
  moreover have "bit sid 7 = (\<not> unat sid < 128)"
  proof -
    have "bit sid 7 = bit (unat sid) 7"
      by (simp add: bit_unsigned_iff)
    also have "\<dots> = odd (unat sid div 2 ^ 7)"
      by (rule bit_iff_odd)
    also have "\<dots> = (\<not> unat sid < 128)"
      using odd_div [OF unat_u8_less [of sid]] by simp
    finally show ?thesis .
  qed
  ultimately have "unat (sid AND 0x80) < 128 \<longleftrightarrow> unat sid < 128"
    by (simp split: if_splits)
  moreover have "unat (0x80 :: u8) = 128"
    by simp
  ultimately show ?thesis
    by (simp only: word_less_nat_alt)
qed

lemma login_message:
  assumes env: "env_ok env" and k: "length (key (sess_info w)) = 4"
  shows "local_message env CREATE_SESSION_MAX_MSG_SIZE
      (\<lambda>st. snd (uxr_buffer_create_session (lib env w) (sess_info w) (comm_mtu (comm env) - of_nat INTERNAL_RELIABLE_BUFFER_OFFSET) st))
      (uxr_stamp_create_session_header (lib env w) (sess_info w)) w = login_bytes env w"
proof -
  note cdr = lib_ok [OF env, of w]
  let ?hdr = "message_header_bytes (id' (sess_info w) AND 0x80) 0 0 (key (sess_info w))"
  have and80: "(sid AND 0x80 < 0x80) = (sid < (0x80 :: u8))" for sid
    by (rule and_80)
  have "length ?hdr = uxr_session_header_offset (sess_info w)"
    by (simp add: length_message_header_bytes header_offset_eq k and80)
  note m = local_message_bytes [where stamp = "uxr_stamp_create_session_header (lib env w) (sess_info w)", OF cdr this
      stamp_create_session_header [OF cdr k] create_client_bytes [OF cdr k]]
  have "length (client_bytes e (key (sess_info w)) sid mtu') = 16" for e sid mtu'
    by (simp add: client_bytes_def k)
  then show ?thesis
    by (simp add: k m uxr_buffer_create_session_def login_bytes_def Let_def CREATE_SESSION_MAX_MSG_SIZE_def MAX_HEADER_SIZE_def
        MIN_HEADER_SIZE_def CLIENT_KEY_SIZE_def SUBHEADER_SIZE_def CREATE_CLIENT_PAYLOAD_SIZE_def header_offset_eq
        INTERNAL_RELIABLE_BUFFER_OFFSET_def)
qed

lemma logout_message:
  assumes env: "env_ok env" and k: "length (key (sess_info w)) = 4"
  shows "local_message env DELETE_SESSION_MAX_MSG_SIZE (\<lambda>st. snd (uxr_buffer_delete_session (lib env w) (sess_info w) st))
      (uxr_stamp_session_header (lib env w) (sess_info w) 0 0) w = logout_bytes env w"
proof -
  note cdr = lib_ok [OF env, of w]
  let ?hdr = "message_header_bytes (id' (sess_info w)) 0 0 (key (sess_info w))"
  have "length ?hdr = uxr_session_header_offset (sess_info w)"
    by (simp add: length_message_header_bytes header_offset_eq k)
  note m = local_message_bytes [where stamp = "uxr_stamp_session_header (lib env w) (sess_info w) 0 0", OF cdr this
      stamp_session_header [OF cdr k] delete_client_bytes [OF cdr]]
  show ?thesis
    by (simp add: m [simplified] uxr_buffer_delete_session_def logout_bytes_def Let_def DELETE_SESSION_MAX_MSG_SIZE_def MAX_HEADER_SIZE_def
        MIN_HEADER_SIZE_def CLIENT_KEY_SIZE_def SUBHEADER_SIZE_def DELETE_CLIENT_PAYLOAD_SIZE_def header_offset_eq
        control_header_def UXR_REQUEST_LOGOUT_def DDS_XRCE_OBJECTID_CLIENT_def)
qed

text \<open>Opening a session begins with streams as they were made.\<close>

definition fresh_streams :: "'e world \<Rightarrow> 'e world" where
  "fresh_streams w = set_memory (snd (uxr_reset_stream_storage (sess_streams w) (memory w)))
     (set_streams (fst (uxr_reset_stream_storage (sess_streams w) (memory w))) w)"

lemma fresh_streams_parts:
  "sess_info (fresh_streams w) = sess_info w" "ext (fresh_streams w) = ext w"
  "sess_streams (fresh_streams w) = fst (uxr_reset_stream_storage (sess_streams w) (memory w))"
  by (simp_all add: fresh_streams_def set_memory_def set_streams_def)

lemma create_session_waits:
  assumes "env_ok env" and "length (key (sess_info w)) = 4"
    and "wait_session_status env (login_bytes env (fresh_streams w)) retries
      (set_info ((sess_info w)\<lparr>last_request_id := UXR_REQUEST_LOGIN\<rparr>) (fresh_streams w)) = Some (received, w')"
  shows "uxr_create_session_retries env retries w =
    (let created = (received \<and> last_requested_status (sess_info w') = UXR_STATUS_OK)
     in Some (created, if created then fresh_streams w' else w'))"
proof -
  obtain st m where r: "uxr_reset_stream_storage (sess_streams w) (memory w) = (st, m)"
    by force
  define w1 where "w1 = set_memory m (set_streams st w)"
  have w1: "fresh_streams w = w1" "sess_info w1 = sess_info w"
    by (simp_all add: fresh_streams_def w1_def r set_memory_def set_streams_def)
  have "length (key (sess_info w1)) = 4"
    using w1 assms(2) by simp
  note message = login_message [OF assms(1) this, unfolded w1]
  show ?thesis
    using assms(3)
    unfolding uxr_create_session_retries_def r Let_def prod.case w1_def [symmetric] w1 message
    by (auto simp: fresh_streams_def split_beta)
qed

section \<open>An agent that does not answer\<close>

lemma unanswered_message:
  assumes u: "unanswered env log clock"
  shows "\<exists>w'. listen_message env poll w = Some (False, w') \<and> log (ext w') = log (ext w) \<and> sess w' = sess w \<and>
    clock (ext w) + max 0 poll * 1000000 \<le> clock (ext w') \<and> clock (ext w') \<le> clock (ext w) + (max 0 poll + 2 ^ 28) * 1000000"
proof -
  obtain got a n e' m' where r: "recv_msg (comm env) poll (ext w, memory w) = (got, (a, n), e', m')"
    by (metis prod_cases5 surj_pair)
  from unansweredD(2) [OF u r] show ?thesis
    by (simp add: listen_message_def recv_message_def r)
qed

text \<open>Waiting listens once: the time is over then.\<close>

lemma unanswered_status:
  assumes u: "unanswered env log clock" and t: "connection_interval env \<le> 2 ^ 28" and w: "uxr_millis env w0 = (start, w)"
  shows "\<exists>w'. await_status env start (connection_interval env) w = Some w' \<and> log (ext w') = log (ext w0) \<and> sess w' = sess w0"
proof -
  let ?t = "connection_interval env"
  obtain w1 where 1: "listen_message env ?t w = Some (False, w1)" "log (ext w1) = log (ext w)" "sess w1 = sess w"
      "clock (ext w) + max 0 ?t * 1000000 \<le> clock (ext w1)" "clock (ext w1) \<le> clock (ext w) + (max 0 ?t + 2 ^ 28) * 1000000"
    using unanswered_message [OF u] by blast
  obtain now w2 where 2: "uxr_millis env w1 = (now, w2)"
    by force
  note A = unanswered_millis [OF u w] unanswered_millis [OF u 2]
  have c: "clock (ext w0) + max 0 ?t * 1000000 \<le> clock (ext w1)"
    "clock (ext w1) \<le> clock (ext w0) + (max 0 ?t + 2 * 2 ^ 28) * 1000000"
    using A(3,4) 1(4,5) by (simp_all add: distrib_right)
  have "max 0 ?t + clock (ext w0) div 1000000 \<le> clock (ext w1) div 1000000"
    "clock (ext w1) div 1000000 \<le> max 0 ?t + 2 * 2 ^ 28 + clock (ext w0) div 1000000"
    using zdiv_mono1 [OF c(1), of 1000000] zdiv_mono1 [OF c(2), of 1000000] by simp_all
  then have low: "max 0 ?t \<le> now - start" and high: "now - start \<le> max 0 ?t + 2 * 2 ^ 28"
    using A(1,6) by linarith+
  have "cast_int32 (now - start) = now - start"
    using low high t by (intro cast_int32_eq) auto
  then have "await_status env start ?t w = Some w2"
    using low by (subst await_status.simps) (simp add: 1(1) 2 remaining_def)
  then show ?thesis
    using A 1(2,3) by simp
qed

lemma unanswered_tries:
  assumes u: "unanswered env log clock" and t: "connection_interval env \<le> 2 ^ 28"
    and w: "last_requested_status (sess_info w) = UXR_STATUS_NONE"
  shows "\<exists>w'. try_status env bytes n w = Some w' \<and> log (ext w') = log (ext w) @ replicate n bytes \<and> sess w' = sess w"
  using w
proof (induction n arbitrary: w)
  case (Suc n)
  obtain sent w0 where 0: "send_message env bytes w = (sent, w0)"
    by force
  have l0: "log (ext w0) = log (ext w) @ [bytes]" "sess w0 = sess w"
    using 0 unansweredD(1) [OF u] by (auto simp: send_message_def split: prod.splits)
  obtain start w1 where 1: "uxr_millis env w0 = (start, w1)"
    by force
  obtain w2 where 2: "await_status env start (connection_interval env) w1 = Some w2" "log (ext w2) = log (ext w0)" "sess w2 = sess w0"
    using unanswered_status [OF u t 1] by blast
  have "last_requested_status (sess_info w2) = UXR_STATUS_NONE"
    using Suc.prems l0(2) 2(3) by simp
  from Suc.IH [OF this] show ?case
    using Suc.prems by (auto simp: 0 1 2 l0)
qed simp

text \<open>Waiting for a status sends the message at least once.\<close>

lemma unanswered_wait:
  assumes u: "unanswered env log clock" and t: "connection_interval env \<le> 2 ^ 28"
  shows "\<exists>received w'. wait_session_status env bytes n w = Some (received, w') \<and> last_requested_status (sess_info w') = UXR_STATUS_NONE \<and>
    log (ext w') = log (ext w) @ replicate (max 1 n) bytes \<and>
    sess w' = sess (set_info ((sess_info w)\<lparr>last_requested_status := UXR_STATUS_NONE\<rparr>) w)"
proof -
  let ?w = "set_info ((sess_info w)\<lparr>last_requested_status := UXR_STATUS_NONE\<rparr>) w"
  have s: "last_requested_status (sess_info ?w) = UXR_STATUS_NONE" "ext ?w = ext w"
    by (simp_all add: set_info_def)
  show ?thesis
  proof (cases "n = 0")
    case True
    obtain sent w' where w': "send_message env bytes ?w = (sent, w')"
      by force
    then have "log (ext w') = log (ext w) @ [bytes]" "sess w' = sess ?w"
      using unansweredD(1) [OF u] s(2) by (auto simp: send_message_def split: prod.splits)
    then show ?thesis
      using True s(1) w' by (auto simp: wait_session_status_def)
  next
    case False
    obtain w' where w': "try_status env bytes n ?w = Some w'" "log (ext w') = log (ext w) @ replicate n bytes" "sess w' = sess ?w"
      using unanswered_tries [OF u t s(1), of bytes n] s(2) by auto
    moreover have "last_requested_status (sess_info w') = UXR_STATUS_NONE"
      using w'(3) s(1) by simp
    moreover have "max 1 n = n"
      using False by simp
    ultimately show ?thesis
      using False by (auto simp: wait_session_status_def)
  qed
qed

text \<open>C37. Opening and closing a session with an agent that does not answer ends and fails: the same octets are sent
  once for every attempt, at least once, with the waiting time after each. Opening sends the CREATE_CLIENT
  message with the key, the identifier and the size of the messages the client takes, under the header
  of a session that is not there yet, and resets the streams; closing sends a DELETE of the client.\<close>
theorem session_unanswered:
  assumes "env_ok env" and "unanswered env log clock" and "connection_interval env \<le> 2 ^ 28" and "length (key (sess_info w)) = 4"
  shows "(\<exists>w'. uxr_create_session_retries env retries w = Some (False, w') \<and>
      log (ext w') = log (ext w) @ replicate (max 1 retries) (login_bytes env (fresh_streams w)) \<and>
      sess_streams w' = sess_streams (fresh_streams w)) \<and>
    (\<exists>w'. uxr_delete_session_retries env retries w = Some (False, w') \<and>
      log (ext w') = log (ext w) @ replicate (max 1 retries) (logout_bytes env w) \<and> sess_streams w' = sess_streams w)"
proof
  let ?w = "set_info ((sess_info w)\<lparr>last_request_id := UXR_REQUEST_LOGIN\<rparr>) (fresh_streams w)"
  obtain received w' where "wait_session_status env (login_bytes env (fresh_streams w)) retries ?w = Some (received, w')"
    "last_requested_status (sess_info w') = UXR_STATUS_NONE"
    "log (ext w') = log (ext w) @ replicate (max 1 retries) (login_bytes env (fresh_streams w))"
    "sess_streams w' = sess_streams (fresh_streams w)"
    using unanswered_wait [OF assms(2,3), of "login_bytes env (fresh_streams w)" retries ?w]
    by (auto simp: set_info_def fresh_streams_parts)
  then show "\<exists>w'. uxr_create_session_retries env retries w = Some (False, w') \<and>
      log (ext w') = log (ext w) @ replicate (max 1 retries) (login_bytes env (fresh_streams w)) \<and>
      sess_streams w' = sess_streams (fresh_streams w)"
    using create_session_waits [OF assms(1,4)] by (simp add: UXR_STATUS_NONE_def UXR_STATUS_OK_def Let_def)
next
  let ?w = "set_info ((sess_info w)\<lparr>last_request_id := UXR_REQUEST_LOGOUT\<rparr>) w"
  obtain received w' where "wait_session_status env (logout_bytes env w) retries ?w = Some (received, w')"
    "last_requested_status (sess_info w') = UXR_STATUS_NONE"
    "log (ext w') = log (ext w) @ replicate (max 1 retries) (logout_bytes env w)" "sess_streams w' = sess_streams w"
    using unanswered_wait [OF assms(2,3), of "logout_bytes env w" retries ?w] by (auto simp: set_info_def)
  then show "\<exists>w'. uxr_delete_session_retries env retries w = Some (False, w') \<and>
      log (ext w') = log (ext w) @ replicate (max 1 retries) (logout_bytes env w) \<and> sess_streams w' = sess_streams w"
    by (simp add: uxr_delete_session_retries_def Let_def logout_message [OF assms(1,4)] UXR_STATUS_NONE_def UXR_STATUS_OK_def)
qed

theorem session_unanswered_witness:
  "\<forall>l. \<exists>w'. uxr_create_session (quiet_env l) \<lparr>sess = example_session, memory = (\<lambda>_. 0), ext = ([], 5)\<rparr> = Some (False, w') \<and>
     length (fst (ext w')) = 10"
proof
  fix l
  let ?w = "\<lparr>sess = example_session, memory = (\<lambda>_. 0), ext = ([], 5)\<rparr>"
  have "connection_interval (quiet_env l) \<le> 2 ^ 28" "connection_attempts (quiet_env l) = 10" "length (key (sess_info ?w)) = 4"
    by (simp_all add: quiet_env_def example_session_def uxr_init_session_info_def)
  then show "\<exists>w'. uxr_create_session (quiet_env l) ?w = Some (False, w') \<and> length (fst (ext w')) = 10"
    using session_unanswered [OF quiet_env, of l ?w 10] by (auto simp: uxr_create_session_def)
qed

section \<open>An agent that answers\<close>

text \<open>The answer: the result, and what the agent says of itself.\<close>

definition answer_bytes :: "u8 \<Rightarrow> u16 \<Rightarrow> u8 \<Rightarrow> u8 list \<Rightarrow> u8 list" where
  "answer_bytes flags len st rest = header_bytes SUBMESSAGE_ID_STATUS_AGENT flags len @ st # rest"

lemma read_agent_status:
  assumes "ucdr_ok cdr" and "\<not> error ub" and "iterator ub + 11 \<le> final ub" and "m (iterator ub) = st"
  shows "uxr_read_create_session_status cdr p si (ub, m) = (si\<lparr>last_requested_status := st\<rparr>, adv 11 ub, m)"
  using assms by (simp add: uxr_read_create_session_status_def uxr_deserialize_STATUS_AGENT_Payload_def
      uxr_deserialize_ResultStatus_def uxr_deserialize_AGENT_Representation_def uxr_deserialize_XrceCookie_def
      uxr_deserialize_XrceVersion_def uxr_deserialize_XrceVendorId_def des_field_def des_u8 des_array des_bool Let_def)

lemma listen_to_answer:
  assumes env: "env_ok env" and k: "length (key (sess_info w)) = 4"
    and r: "recv_msg (comm env) poll (ext w, memory w) = (True, (a, n), e, m)" "a + n < 2 ^ 32"
    and h: "headed m a n s 0 q k" "own_header (sess_info w) s k" "n = length (message_header_bytes s 0 q k) + 15"
    and bytes: "rd m (a + length (message_header_bytes s 0 q k)) 15 = answer_bytes flags len st rest"
  shows "listen_message env poll w =
    Some (True, set_info ((sess_info w)\<lparr>last_requested_status := st\<rparr>) (w\<lparr>ext := e, memory := m\<rparr>))"
proof -
  let ?w1 = "w\<lparr>ext := e, memory := m\<rparr>" and ?l = "length (message_header_bytes s 0 q k)"
  let ?ub = "adv ?l (ucdr_init_buffer (lib env ?w1) a n)"
  let ?ub1 = "(adv (?l + 4) (ucdr_init_buffer (lib env ?w1) a n))\<lparr>endianness := if flags AND 1 \<noteq> 0 then LITTLE_ENDIANNESS else BIG_ENDIANNESS\<rparr>"
  let ?none = "uxr_stream_id_from_raw 0 UXR_INPUT_STREAM"
  let ?w2 = "set_info ((sess_info w)\<lparr>last_requested_status := st\<rparr>) ?w1"
  have l: "?l \<in> {4, 8}"
    using h(1) by (simp add: headed_def length_message_header_bytes)
  have ub: "\<not> error ?ub" "final ?ub = a + n" "iterator ?ub = a + ?l" "offset ?ub = ?l" "pad ?l 4 = 0"
    using l by (auto simp: fresh_buffer [OF lib_ok [OF env]] pad_def)
  have b: "rd m (a + ?l) 4 = header_bytes SUBMESSAGE_ID_STATUS_AGENT flags len" "m (a + ?l + 4) = st"
    using bytes rd_append [of m "a + ?l" 4 11] rd_Suc [of m "a + ?l + 4" 10] by (auto simp: answer_bytes_def)
  have 1: "uxr_read_submessage_header (lib env ?w1) hdr (?ub, memory ?w1) = (True, (SUBMESSAGE_ID_STATUS_AGENT, len, flags AND NOT 1), (?ub1, m))" for hdr
    using read_submessage_header [OF lib_ok [OF env] ub(1), of m SUBMESSAGE_ID_STATUS_AGENT flags len ?w1 hdr] ub(2-5) b(1) h(3) by simp
  have none: "uxrStreamId.type ?none = UXR_NONE_STREAM"
    by (simp add: uxr_stream_id_from_raw_def BEST_EFFORT_STREAM_THRESHOLD_def Let_def)
  have "uxr_read_create_session_status (lib env ?w1) (l_STATUS_AGENT (locals env)) (sess_info ?w1) (?ub1, m) =
      ((sess_info w)\<lparr>last_requested_status := st\<rparr>, adv 11 ?ub1, m)"
    using read_agent_status [OF lib_ok [OF env], of ?ub1 m st] b(2) h(3) by (simp add: fresh_buffer [OF lib_ok [OF env]] add.assoc)
  then have 2: "read_submessage env ?ub1 SUBMESSAGE_ID_STATUS_AGENT ?none len (flags AND NOT 1) (set_memory m ?w1) = Some (adv 11 ?ub1, ?w2)"
    using none by (simp add: read_submessage_def set_memory_def set_info_def lib_def)
  have 3: "map_option snd (read_submessage_list_loop env (adv 11 ?ub1) ?none hdr ?w2) = Some ?w2" for hdr
    using h(3) by (intro list_end [OF lib_ok [OF env]]) (simp_all add: fresh_buffer [OF lib_ok [OF env]])
  have "read_message env (ucdr_init_buffer (lib env ?w1) a n) ?w1 = read_stream env ?ub ?none q ?w1"
    using read_message_headed [OF env, of ?w1 n a s 0 q k] k h r(2) by simp
  also have "\<dots> = read_submessage_list env ?ub ?none ?w1"
    using none by (simp add: read_stream_def)
  also have "\<dots> = Some ?w2"
    by (simp only: read_submessage_list_def read_list_step [OF 1 2] 3)
  finally show ?thesis
    using r by (simp add: listen_message_def recv_message_def cast_u32_eq Let_def)
qed

text \<open>C4. An agent that answers the first CREATE_CLIENT message in time decides: nothing more is sent, the session is open
  exactly when the agent says so, and the streams are reset before the message and again behind the
  answer. The answer is told by the session's own header on no stream, in either byte order.\<close>
theorem session_answered:
  assumes "env_ok env" and "length (key (sess_info w)) = 4" and "0 < retries"
    and "send_msg (comm env) (login_bytes env (fresh_streams w)) (ext w) = (sent, e1)" and "clock_nanos env e1 = (t1, e2)"
    and "recv_msg (comm env) (connection_interval env) (e2, memory (fresh_streams w)) = (True, (a, n), e3, m)" and "a + n < 2 ^ 32"
    and "clock_nanos env e3 = (t2, e4)"
    and "headed m a n s 0 q k" and "own_header (sess_info w) s k" and "n = length (message_header_bytes s 0 q k) + 15"
    and "rd m (a + length (message_header_bytes s 0 q k)) 15 = answer_bytes flags len st rest" and "st \<noteq> UXR_STATUS_NONE"
  shows "\<exists>w'. uxr_create_session_retries env retries w = Some (st = UXR_STATUS_OK, if st = UXR_STATUS_OK then fresh_streams w' else w') \<and>
    ext w' = e4 \<and> memory w' = m \<and> sess_streams w' = sess_streams (fresh_streams w) \<and>
    sess_info w' = (sess_info w)\<lparr>last_request_id := UXR_REQUEST_LOGIN, last_requested_status := st\<rparr>"
proof -
  define v where "v = set_info ((sess_info w)\<lparr>last_request_id := UXR_REQUEST_LOGIN\<rparr>) (fresh_streams w)"
  define v0 where "v0 = set_info ((sess_info v)\<lparr>last_requested_status := UXR_STATUS_NONE\<rparr>) v"
  define v1 where "v1 = v0\<lparr>ext := e2\<rparr>"
  define w' where "w' = set_info ((sess_info v1)\<lparr>last_requested_status := st\<rparr>) (v1\<lparr>ext := e4, memory := m\<rparr>)"
  note parts = fresh_streams_parts [of w]
  have v: "last_requested_status (sess_info v0) = UXR_STATUS_NONE" "ext v0 = ext w" "memory v1 = memory (fresh_streams w)"
    "ext v1 = e2" "id' (sess_info v1) = id' (sess_info w)" "key (sess_info v1) = key (sess_info w)"
    using parts by (simp_all add: v0_def v1_def v_def set_info_def)
  have send: "send_message env (login_bytes env (fresh_streams w)) v0 = (sent, v0\<lparr>ext := e1\<rparr>)"
    using assms(4) v by (simp add: send_message_def)
  have t1: "uxr_millis env (v0\<lparr>ext := e1\<rparr>) = (t1 sdiv 1000000, v1)"
    using assms(5) by (simp add: uxr_millis_def uxr_nanos_def v1_def)
  have listen: "listen_message env (connection_interval env) v1 =
      Some (True, set_info ((sess_info v1)\<lparr>last_requested_status := st\<rparr>) (v1\<lparr>ext := e3, memory := m\<rparr>))"
    using assms(2,6,7,9-12) v by (intro listen_to_answer [OF assms(1)]) (simp_all add: own_header_def)
  have t2: "uxr_millis env (set_info ((sess_info v1)\<lparr>last_requested_status := st\<rparr>) (v1\<lparr>ext := e3, memory := m\<rparr>)) =
      (t2 sdiv 1000000, w')"
    using assms(8) by (simp add: uxr_millis_def uxr_nanos_def w'_def set_info_def)
  have st: "last_requested_status (sess_info w') = st"
    by (simp add: w'_def set_info_def)
  have "await_status env (t1 sdiv 1000000) (connection_interval env) v1 = Some w'"
    using assms(13) st by (subst await_status.simps) (simp add: listen remaining_def t2)
  then have "try_status env (login_bytes env (fresh_streams w)) retries v0 = Some w'"
    using assms(3,13) v(1) st by (cases retries; cases "retries - 1") (simp_all add: send t1)
  then have wait: "wait_session_status env (login_bytes env (fresh_streams w)) retries v = Some (True, w')"
    using assms(3,13) st by (simp add: wait_session_status_def v0_def)
  show ?thesis
    by (rule exI [of _ w'], subst create_session_waits [OF assms(1,2) wait [unfolded v_def]])
      (simp_all add: st Let_def w'_def v1_def v0_def v_def set_info_def parts)
qed

definition example_welcome :: "u8 list" where
  "example_welcome = message_header_bytes 1 0 0 [0, 0, 0, 7] @ answer_bytes 1 11 0 [0, 88, 82, 67, 69, 1, 0, 1, 15, 0]"

theorem session_answered_witness:
  "\<forall>l. \<exists>w'. uxr_create_session (example_env l example_welcome) (example_world (\<lambda>_. 0)) = Some (True, w') \<and> length (ext w') = 1"
proof
  fix l
  let ?env = "example_env l example_welcome" and ?w = "example_world (\<lambda>_. 0)"
  let ?e = "[login_bytes ?env (fresh_streams ?w)]" and ?m = "wr (memory (fresh_streams ?w)) 3000 example_welcome"
  have n: "length example_welcome = 23" "length (message_header_bytes 1 0 0 [0, 0, 0, 7 :: u8]) = 8"
    by (simp_all add: example_welcome_def answer_bytes_def length_message_header_bytes)
  have 1: "send_msg (comm ?env) (login_bytes ?env (fresh_streams ?w)) (ext ?w) = (True, ?e)" "clock_nanos ?env ?e = (0, ?e)"
    "recv_msg (comm ?env) (connection_interval ?env) (?e, memory (fresh_streams ?w)) = (True, (3000, 23), ?e, ?m)"
    "connection_attempts ?env = 10"
    by (simp_all add: example_env_def n)
  have "rd ?m 3000 23 = example_welcome"
    using n by (simp add: rd_wr_same)
  from rd_part [OF this, of 0 8] rd_part [OF this, of 8 15]
  have p: "rd ?m 3000 8 = message_header_bytes 1 0 0 [0, 0, 0, 7]"
    "rd ?m (3000 + 8) 15 = answer_bytes 1 11 0 [0, 88, 82, 67, 69, 1, 0, 1, 15, 0]"
    using n(2) by (simp_all add: example_welcome_def answer_bytes_def)
  have "headed ?m 3000 23 1 0 0 [0, 0, 0, 7]" "own_header (sess_info ?w) 1 [0, 0, 0, 7]"
    using p(1) n by (simp_all add: headed_def own_header_def)
  moreover have "length (key (sess_info ?w)) = 4" "(0 :: nat) < 10" "(3000 :: nat) + 23 < 2 ^ 32" "(0 :: u8) \<noteq> UXR_STATUS_NONE"
    "23 = length (message_header_bytes 1 0 0 [0, 0, 0, 7 :: u8]) + 15"
    by (simp_all add: UXR_STATUS_NONE_def n)
  moreover have "rd ?m (3000 + length (message_header_bytes 1 0 0 [0, 0, 0, 7])) 15 = answer_bytes 1 11 0 [0, 88, 82, 67, 69, 1, 0, 1, 15, 0]"
    by (simp only: n(2) p(2))
  ultimately obtain w' where "uxr_create_session_retries ?env 10 ?w = Some ((0 :: u8) = UXR_STATUS_OK,
      if (0 :: u8) = UXR_STATUS_OK then fresh_streams w' else w')" "ext w' = ?e"
    using session_answered [OF example_env_ok _ _ 1(1-3) _ 1(2)] by blast
  then have "uxr_create_session_retries ?env 10 ?w = Some (True, fresh_streams w')" "ext w' = ?e"
    by (simp_all only: UXR_STATUS_OK_def simp_thms if_True)
  then show "\<exists>w'. uxr_create_session ?env ?w = Some (True, w') \<and> length (ext w') = 1"
    by (simp add: uxr_create_session_def 1(4) fresh_streams_parts)
qed

end
