(* ===== verification/TimeFacts.thy ===== *)
theory TimeFacts
  imports SessionFacts
begin

text \<open>What is proved about the synchronisation of clocks.\<close>

text \<open>A moment as it travels: seconds and nanoseconds.\<close>

definition time_of :: "int \<Rightarrow> Time_t" where
  "time_of c = \<lparr>Time_t.seconds = word_of_int (c sdiv 1000000000), nanoseconds = word_of_int (c smod 1000000000)\<rparr>"

definition moment_ok :: "int \<Rightarrow> bool" where
  "moment_ok c \<longleftrightarrow> 0 \<le> c \<and> c < 2 ^ 31 * 1000000000"

lemma time_of_nanos:
  assumes "moment_ok c"
  shows "uxr_convert_to_nanos (Time_t.seconds (time_of c)) (Time_t.nanoseconds (time_of c)) = c"
proof -
  have c: "0 \<le> c" "c div 1000000000 < 2 ^ 31" "c sdiv 1000000000 = c div 1000000000" "c smod 1000000000 = c mod 1000000000"
    using assms by (cases "c = 0"; auto simp: moment_ok_def signed_divide_int_def signed_modulo_int_def)+
  have "sint (word_of_int (c div 1000000000) :: u32) = c div 1000000000"
  proof -
    have "0 \<le> c div 1000000000"
      using c(1) by (simp add: pos_imp_zdiv_nonneg_iff)
    then have "- (2 ^ 31) \<le> c div 1000000000"
      by (rule order_trans [rotated]) simp
    then show ?thesis
      using signed_take_bit_int_eq_self [of 31 "c div 1000000000"] c(2) by (simp add: signed_of_int)
  qed
  moreover have "uint (word_of_int (c mod 1000000000) :: u32) = c mod 1000000000"
  proof -
    have "0 \<le> c mod 1000000000" "c mod 1000000000 < 2 ^ 32"
      by (simp, rule less_trans [OF pos_mod_bound]) simp_all
    then show ?thesis
      by (simp add: uint_word_of_int)
  qed
  ultimately show ?thesis
    by (simp add: uxr_convert_to_nanos_def time_of_def c(3,4))
qed

lemma sdiv_two: "\<bar>2 * (x sdiv 2) - x\<bar> \<le> (1 :: int)" "(2 * y) sdiv 2 = (y :: int)"
proof -
  have "\<bar>2 * (\<bar>x\<bar> div 2) - \<bar>x\<bar>\<bar> \<le> 1"
    by presburger
  then show "\<bar>2 * (x sdiv 2) - x\<bar> \<le> 1"
    by (auto simp: signed_divide_int_def sgn_if)
  show "(2 * y) sdiv 2 = y"
    by (auto simp: signed_divide_int_def sgn_if abs_if)
qed

text \<open>C38. After the agent's answer to a request for the time the client's epoch clock shows the agent's clock up to half of
  the difference between the ways there and back, and exactly when they took equally long: whatever
  the clocks differ by and however long the agent took, until the seconds no longer fit 31 bits.\<close>
theorem clocks_synchronized:
  assumes "on_time (sess w) = None" and "moment_ok sent" and "moment_ok (sent + there + ahead_by)"
    and "moment_ok (sent + there + busy + ahead_by)"
    and "uxr_deserialize_TIMESTAMP_REPLY_Payload (lib env w) (l_TIMESTAMP_REPLY (locals env)) (ub, memory w) =
      (ok, \<lparr>TIMESTAMP_REPLY_Payload.transmit_timestamp = time_of (sent + there + busy + ahead_by),
        receive_timestamp = time_of (sent + there + ahead_by), originate_timestamp = time_of sent\<rparr>, ub', memory w)"
    and "clock_nanos env (ext w) = (sent + there + busy + back, e)" and "clock_nanos env e = (now, e')"
  shows "\<exists>w'. read_submessage env ub SUBMESSAGE_ID_TIMESTAMP_REPLY sid len flags w = Some (ub', w') \<and> synchronized (sess w') \<and>
    (\<exists>shown. uxr_epoch_nanos env w' = (shown, w'\<lparr>ext := e'\<rparr>) \<and>
       2 * \<bar>shown - (now + ahead_by)\<bar> \<le> \<bar>there - back\<bar> + 1 \<and> (there = back \<longrightarrow> shown = now + ahead_by))"
proof -
  let ?w' = "w\<lparr>ext := e, sess := (sess w)\<lparr>time_offset := (back - 2 * ahead_by - there) sdiv 2, synchronized := True\<rparr>\<rparr>"
  have "read_submessage env ub SUBMESSAGE_ID_TIMESTAMP_REPLY sid len flags w = Some (ub', ?w')"
    using assms by (simp add: read_submessage_def read_submessage_timestamp_reply_def run_des_def process_timestamp_reply_def uxr_nanos_def
        time_of_nanos SUBMESSAGE_ID_TIMESTAMP_REPLY_def SUBMESSAGE_ID_STATUS_AGENT_def SUBMESSAGE_ID_STATUS_def
        SUBMESSAGE_ID_DATA_def SUBMESSAGE_ID_HEARTBEAT_def SUBMESSAGE_ID_ACKNACK_def Let_def)
  moreover have "uxr_epoch_nanos env ?w' = (now - (back - 2 * ahead_by - there) sdiv 2, ?w'\<lparr>ext := e'\<rparr>)"
    using assms(7) by (simp add: uxr_epoch_nanos_def uxr_nanos_def)
  moreover have "2 * \<bar>now - (back - 2 * ahead_by - there) sdiv 2 - (now + ahead_by)\<bar> \<le> \<bar>there - back\<bar> + 1"
  proof -
    have "\<bar>2 * q - (back - 2 * ahead_by - there)\<bar> \<le> 1 \<Longrightarrow> 2 * \<bar>now - q - (now + ahead_by)\<bar> \<le> \<bar>there - back\<bar> + 1" for q
      by arith
    then show ?thesis
      using sdiv_two(1) by blast
  qed
  moreover have "there = back \<longrightarrow> now - (back - 2 * ahead_by - there) sdiv 2 = now + ahead_by"
    using sdiv_two(2) [of "- ahead_by"] by auto
  ultimately show ?thesis
    by auto
qed

text \<open>The agent's clock is 3600 seconds ahead, the ways take 5 and 9 milliseconds.\<close>

definition example_reply :: TIMESTAMP_REPLY_Payload where
  "example_reply = \<lparr>TIMESTAMP_REPLY_Payload.transmit_timestamp = time_of 3601006000000,
     receive_timestamp = time_of 3601005000000, originate_timestamp = time_of 1000000000\<rparr>"

definition timed_env :: "locals \<Rightarrow> int list env" where
  "timed_env l = \<lparr>comm = \<lparr>send_msg = (\<lambda>bytes e. (True, e)), recv_msg = (\<lambda>poll (e, m). (False, (0, 0), e, m)), comm_mtu = 64\<rparr>,
     ucdr_lib = (\<lambda>_. ref_ucdr), clock_nanos = (\<lambda>e. (hd e, tl e)), locals = l, heartbeat_interval = 200000000,
     connection_attempts = 10, connection_interval = 1000,
     call_on_status = (\<lambda>_ _ _ _ _ w. w), call_on_topic = (\<lambda>_ _ _ _ _ _ _ w. w),
     call_on_time = (\<lambda>_ _ _ _ _ _ w. w), call_on_request = (\<lambda>_ _ _ _ _ _ _ w. w),
     call_on_reply = (\<lambda>_ _ _ _ _ _ _ w. w), call_flush = (\<lambda>_ _ w. (True, w))\<rparr>"

definition example_times :: "u8 list" where
  "example_times = [0x11, 0x0E, 0, 0, 0x80, 0x8D, 0x5B, 0, 0x11, 0x0E, 0, 0, 0x40, 0x4B, 0x4C, 0, 1, 0, 0, 0, 0, 0, 0, 0]"

lemma example_times_read:
  "rd (wr m 3000 example_times) 3000 4 = [0x11, 0x0E, 0, 0]" "rd (wr m 3000 example_times) 3004 4 = [0x80, 0x8D, 0x5B, 0]"
  "rd (wr m 3000 example_times) 3008 4 = [0x11, 0x0E, 0, 0]" "rd (wr m 3000 example_times) 3012 4 = [0x40, 0x4B, 0x4C, 0]"
  "rd (wr m 3000 example_times) 3016 4 = [1, 0, 0, 0]" "rd (wr m 3000 example_times) 3020 4 = [0, 0, 0, 0]"
  by (simp_all add: example_times_def rd_def wr_def upt_rec)

lemma example_reply_decoded:
  "uxr_deserialize_TIMESTAMP_REPLY_Payload ref_ucdr v0 (ref_init 3000 24 0 0, wr m 3000 example_times) =
    (True, example_reply, adv 24 (ref_init 3000 24 0 0), wr m 3000 example_times)"
  by (simp add: uxr_deserialize_TIMESTAMP_REPLY_Payload_def uxr_deserialize_Time_t_def des_field_def ref_ucdr_def ref_des_def
      ref_init_def example_times_read dec_w_def dec_nat_def pad_def example_reply_def time_of_def signed_divide_int_def signed_modulo_int_def)

theorem clocks_synchronized_witness:
  "\<forall>l. \<exists>w' shown. read_submessage (timed_env l) (ref_init 3000 24 0 0) SUBMESSAGE_ID_TIMESTAMP_REPLY
      (uxr_stream_id_from_raw 0 UXR_INPUT_STREAM) 24 1
      \<lparr>sess = example_session, memory = wr (\<lambda>_. 0) 3000 example_times, ext = [1015000000, 2000000000]\<rparr> =
      Some (adv 24 (ref_init 3000 24 0 0), w') \<and>
    fst (uxr_epoch_nanos (timed_env l) w') = shown \<and> \<bar>shown - 3602000000000\<bar> \<le> 2000000"
proof
  fix l
  let ?w = "\<lparr>sess = example_session, memory = wr (\<lambda>_. 0) 3000 example_times, ext = [1015000000, 2000000000]\<rparr>"
  have 1: "on_time (sess ?w) = None" "clock_nanos (timed_env l) (ext ?w) = (1000000000 + 5000000 + 1000000 + 9000000, [2000000000])"
    "clock_nanos (timed_env l) [2000000000] = (2000000000, [])" "lib (timed_env l) ?w = ref_ucdr"
    by (simp_all add: example_session_def timed_env_def lib_def)
  have 2: "moment_ok 1000000000" "moment_ok (1000000000 + 5000000 + 3600000000000)" "moment_ok (1000000000 + 5000000 + 1000000 + 3600000000000)"
    by (simp_all add: moment_ok_def)
  have "uxr_deserialize_TIMESTAMP_REPLY_Payload (lib (timed_env l) ?w) (l_TIMESTAMP_REPLY (locals (timed_env l))) (ref_init 3000 24 0 0, memory ?w) =
      (True, \<lparr>TIMESTAMP_REPLY_Payload.transmit_timestamp = time_of (1000000000 + 5000000 + 1000000 + 3600000000000),
        receive_timestamp = time_of (1000000000 + 5000000 + 3600000000000), originate_timestamp = time_of 1000000000\<rparr>,
       adv 24 (ref_init 3000 24 0 0), memory ?w)"
    by (simp add: 1(4) example_reply_decoded example_reply_def)
  from clocks_synchronized [OF 1(1) 2 this 1(2,3)]
  show "\<exists>w' shown. read_submessage (timed_env l) (ref_init 3000 24 0 0) SUBMESSAGE_ID_TIMESTAMP_REPLY
      (uxr_stream_id_from_raw 0 UXR_INPUT_STREAM) 24 1 ?w = Some (adv 24 (ref_init 3000 24 0 0), w') \<and>
    fst (uxr_epoch_nanos (timed_env l) w') = shown \<and> \<bar>shown - 3602000000000\<bar> \<le> 2000000"
    by fastforce
qed

end
