(* ===== verification/PosixNopoll.thy ===== *)
theory PosixNopoll
  imports Posix "HOL-Library.Signed_Division"
begin

text \<open>
  The platform functions for POSIX systems without \<open>poll\<close>: \<open>udp_transport_posix_nopoll.c\<close> and
  \<open>tcp_transport_posix_nopoll.c\<close> under \<open>src/c/profile/transport/ip\<close>. The names carry \<open>_nopoll\<close>; in the
  code either these or those of \<^theory_text>\<open>Posix\<close> are linked. The time to wait is set as an option of the socket,
  in seconds and microseconds: a further call of the system.
\<close>

record 'os nopoll_platform =
  np_fd :: int
  np_os :: 'os

type_synonym 'os uxrUDPPlatform_nopoll = "'os nopoll_platform"
type_synonym 'os uxrTCPPlatform_nopoll = "'os nopoll_platform"
type_synonym 'os setsockopt = "int \<Rightarrow> int \<times> int \<Rightarrow> 'os \<Rightarrow> int \<times> 'os"

fun connect_any :: "'os posix \<Rightarrow> sockaddr list \<Rightarrow> 'os nopoll_platform \<Rightarrow> bool \<times> 'os nopoll_platform" where
  "connect_any K [] p = (False, p)"
| "connect_any K (addr # addrs) p =
     (let (r, s) = sys_connect K (np_fd p) addr (np_os p); p1 = p\<lparr>np_os := s\<rparr>
      in if r = 0 then (True, p1) else connect_any K addrs p1)"

definition timeval :: "int \<Rightarrow> int \<times> int" where
  "timeval timeout = (timeout sdiv 1000, timeout smod 1000 * 1000)"

section \<open>UDP\<close>

definition uxr_init_udp_platform_nopoll ::
  "'os posix \<Rightarrow> uxrIpProtocol \<Rightarrow> string \<Rightarrow> string \<Rightarrow> 'os uxrUDPPlatform_nopoll \<Rightarrow> bool \<times> 'os uxrUDPPlatform_nopoll"
where
  "uxr_init_udp_platform_nopoll K ip_protocol ip port platform =
     (let (f, s) = sys_socket K (ip_domain ip_protocol) SOCK_DGRAM (np_os platform);
          p = \<lparr>np_fd = f, np_os = s\<rparr>
      in if - 1 \<noteq> f
         then let (result, s) = sys_getaddrinfo K (ip_domain ip_protocol) SOCK_DGRAM ip port (np_os p)
              in case result of None \<Rightarrow> (False, p\<lparr>np_os := s\<rparr>) | Some addrs \<Rightarrow> connect_any K addrs (p\<lparr>np_os := s\<rparr>)
         else (False, p))"

definition uxr_close_udp_platform_nopoll ::
  "'os posix \<Rightarrow> 'os uxrUDPPlatform_nopoll \<Rightarrow> bool \<times> 'os uxrUDPPlatform_nopoll"
where
  "uxr_close_udp_platform_nopoll K platform =
     (if - 1 = np_fd platform then (True, platform)
      else let (r, s) = sys_close K (np_fd platform) (np_os platform) in (0 = r, platform\<lparr>np_os := s\<rparr>))"

definition uxr_write_udp_data_platform_nopoll :: "'os posix \<Rightarrow> 'os uxrUDPPlatform_nopoll uxr_write_cb" where
  "uxr_write_udp_data_platform_nopoll K buf errcode platform =
     (let (bytes_sent, s) = sys_send K (np_fd platform) buf (np_os platform)
      in case bytes_sent of Some n \<Rightarrow> (n, 0, platform\<lparr>np_os := s\<rparr>) | None \<Rightarrow> (0, 1, platform\<lparr>np_os := s\<rparr>))"

definition uxr_read_udp_data_platform_nopoll ::
  "'os posix \<Rightarrow> 'os setsockopt \<Rightarrow> 'os uxrUDPPlatform_nopoll uxr_read_cb"
where
  "uxr_read_udp_data_platform_nopoll K set_rcvtimeo len timeout errcode platform =
     (let timeout = (if timeout \<le> 0 then 1 else timeout);
          (r, s) = set_rcvtimeo (np_fd platform) (timeval timeout) (np_os platform)
      in if 0 \<noteq> r then ([], 1, platform\<lparr>np_os := s\<rparr>)
         else let (bytes_received, s1) = sys_recv K (np_fd platform) len s
              in case bytes_received of
                   Some bs \<Rightarrow> (bs, 0, platform\<lparr>np_os := s1\<rparr>)
                 | None \<Rightarrow> ([], 1, platform\<lparr>np_os := s1\<rparr>))"

section \<open>TCP\<close>

text \<open>
  The addresses asked for are those of datagrams. When the name is not resolved, a pointer is freed
  that was never set: there is no result then.
\<close>

definition uxr_init_tcp_platform_nopoll ::
  "'os posix \<Rightarrow> uxrIpProtocol \<Rightarrow> string \<Rightarrow> string \<Rightarrow> 'os uxrTCPPlatform_nopoll \<Rightarrow> (bool \<times> 'os uxrTCPPlatform_nopoll) option"
where
  "uxr_init_tcp_platform_nopoll K ip_protocol ip port platform =
     (let (f, s) = sys_socket K (ip_domain ip_protocol) SOCK_STREAM (np_os platform);
          p = \<lparr>np_fd = f, np_os = s\<rparr>
      in if - 1 \<noteq> f
         then let (result, s) = sys_getaddrinfo K (ip_domain ip_protocol) SOCK_DGRAM ip port (np_os p)
              in case result of None \<Rightarrow> None | Some addrs \<Rightarrow> Some (connect_any K addrs (p\<lparr>np_os := s\<rparr>))
         else Some (False, p))"

definition uxr_close_tcp_platform_nopoll ::
  "'os posix \<Rightarrow> 'os uxrTCPPlatform_nopoll \<Rightarrow> bool \<times> 'os uxrTCPPlatform_nopoll"
where
  "uxr_close_tcp_platform_nopoll K platform =
     (if - 1 = np_fd platform then (True, platform)
      else let (r, s) = sys_close K (np_fd platform) (np_os platform) in (0 = r, platform\<lparr>np_os := s\<rparr>))"

definition uxr_write_tcp_data_platform_nopoll :: "'os posix \<Rightarrow> 'os uxrTCPPlatform_nopoll uxr_write_cb" where
  "uxr_write_tcp_data_platform_nopoll K buf errcode platform =
     (let (bytes_sent, s) = sys_send K (np_fd platform) buf (np_os platform)
      in case bytes_sent of Some n \<Rightarrow> (n, 0, platform\<lparr>np_os := s\<rparr>) | None \<Rightarrow> (0, 1, platform\<lparr>np_os := s\<rparr>))"

definition uxr_read_tcp_data_platform_nopoll ::
  "'os posix \<Rightarrow> 'os setsockopt \<Rightarrow> 'os uxrTCPPlatform_nopoll uxr_read_cb"
where
  "uxr_read_tcp_data_platform_nopoll K set_rcvtimeo len timeout errcode platform =
     (let timeout = (if timeout \<le> 0 then 1 else timeout);
          (r, s) = set_rcvtimeo (np_fd platform) (timeval timeout) (np_os platform)
      in if 0 \<noteq> r then ([], 1, platform\<lparr>np_os := s\<rparr>)
         else let (bytes_received, s1) = sys_recv K (np_fd platform) len s
              in case bytes_received of
                   Some bs \<Rightarrow> (bs, 0, platform\<lparr>np_os := s1\<rparr>)
                 | None \<Rightarrow> ([], 1, platform\<lparr>np_os := s1\<rparr>))"

definition uxr_disconnect_tcp_platform_nopoll :: "'os posix \<Rightarrow> 'os uxrTCPPlatform_nopoll \<Rightarrow> 'os uxrTCPPlatform_nopoll" where
  "uxr_disconnect_tcp_platform_nopoll K platform =
     \<lparr>np_fd = - 1, np_os = snd (sys_close K (np_fd platform) (np_os platform))\<rparr>"

section \<open>A quiet connection\<close>

text \<open>The buffer is waiting for octets: for the two of a length, or for the rest of a message.\<close>

definition awaiting :: "uxrTCPInputBuffer \<Rightarrow> bool" where
  "awaiting b \<longleftrightarrow> (case tcp_state b of
       UXR_TCP_BUFFER_EMPTY \<Rightarrow> True
     | UXR_TCP_SIZE_INCOMPLETE \<Rightarrow> True
     | UXR_TCP_SIZE_READ \<Rightarrow> 0 < msg_size b
     | UXR_TCP_MESSAGE_INCOMPLETE \<Rightarrow> position b < msg_size b \<and> msg_size b < 65536
     | UXR_TCP_MESSAGE_AVAILABLE \<Rightarrow> False)"

text \<open>Receiving on a TCP connection when nothing comes in time.\<close>

lemma recv_tcp_quiet:
  assumes s: "awaiting (input_buffer tr)"
    and t0: "millis (tcp_platform tr) = (t0, e0)" and r: "\<And>n. 0 < n \<Longrightarrow> \<exists>e1. read_cb n timeout err0 e0 = ([], code, e1) \<and> P e1"
    and t1: "\<And>e1. P e1 \<Longrightarrow> \<exists>t1 e2. millis (if 0 < code then disconnect e1 else e1) = (t1, e2) \<and>
      timeout \<le> cast_int32 (t1 - t0) \<and> Q e2"
  shows "\<exists>tr'. recv_tcp_msg read_cb disconnect millis err0 timeout tr ec m = Some (None, tr', code, m) \<and> Q (tcp_platform tr')"
proof -
  let ?run = "set_platform e0 \<lparr>tcp_transport = tr, tcp_error_code = ec, tcp_mem = m, tcp_rv = 0\<rparr>"
  obtain e1 where e1: "P e1" and st: "\<exists>run1. read_tcp_step read_cb disconnect err0 timeout ?run = (True, run1) \<and>
      tcp_rv run1 = 0 \<and> tcp_mem run1 = m \<and> tcp_error_code run1 = code \<and>
      tcp_platform (tcp_transport run1) = (if 0 < code then disconnect e1 else e1)"
  proof (cases "tcp_state (input_buffer tr)")
    case UXR_TCP_BUFFER_EMPTY
    then show ?thesis
      using r [of 2] that by (auto simp: read_tcp_step_def read_tcp_failed_def set_input_def set_platform_def Let_def)
  next
    case UXR_TCP_SIZE_INCOMPLETE
    then show ?thesis
      using r [of 1] that by (auto simp: read_tcp_step_def read_tcp_failed_def set_input_def set_platform_def Let_def)
  next
    case UXR_TCP_SIZE_READ
    then show ?thesis
      using s r [of "msg_size (input_buffer tr)"] that
      by (auto simp: awaiting_def read_tcp_step_def read_tcp_failed_def set_input_def set_platform_def Let_def)
  next
    case UXR_TCP_MESSAGE_INCOMPLETE
    then show ?thesis
      using s r [of "size_sub (msg_size (input_buffer tr)) (position (input_buffer tr))"] that
      by (auto simp: awaiting_def size_sub_eq read_tcp_step_def read_tcp_failed_def set_input_def set_platform_def Let_def)
  qed (use s in \<open>simp add: awaiting_def\<close>)
  obtain run1 where st: "read_tcp_step read_cb disconnect err0 timeout ?run = (True, run1)" and
    run1: "tcp_rv run1 = 0" "tcp_mem run1 = m" "tcp_error_code run1 = code"
      "tcp_platform (tcp_transport run1) = (if 0 < code then disconnect e1 else e1)"
    using st by blast
  obtain t1 e2 where e2: "millis (if 0 < code then disconnect e1 else e1) = (t1, e2)" "timeout \<le> cast_int32 (t1 - t0)" "Q e2"
    using t1 [OF e1] by blast
  have "read_tcp_data read_cb disconnect err0 timeout ?run = Some run1"
    unfolding read_tcp_data_def by (subst read_tcp_loop.simps) (use st in \<open>simp add: set_platform_def\<close>)
  then have "recv_tcp_loop read_cb disconnect millis err0 timeout \<lparr>tcp_transport = tr, tcp_error_code = ec, tcp_mem = m, tcp_rv = 0\<rparr> =
      Some (set_platform e2 run1)"
    using t0 e2 run1 by (subst recv_tcp_loop.simps) (simp add: set_platform_def)
  then show ?thesis
    using run1 e2(3) by (simp add: recv_tcp_msg_def set_platform_def)
qed

text \<open>
  A connection on the descriptor \<open>f\<close> on which nothing comes, while the state of the system is \<open>quiet\<close>: a
  poll for octets returns 0 when its time is over, a receive whose time was set fails when it is over,
  setting that time to what the options of a socket allow works, and no signal comes in between; each
  takes its time and less than three days longer, by the clock \<open>ms\<close>. Nothing is said of other
  descriptors, of polling without a limit or not at all, or of times that the option does not allow.
\<close>

definition waited :: "('os \<Rightarrow> int) \<Rightarrow> int \<Rightarrow> 'os \<Rightarrow> 'os \<Rightarrow> bool" where
  "waited ms t s s' \<longleftrightarrow> ms s + t \<le> ms s' \<and> ms s' \<le> ms s + t + 2 ^ 28"

definition time_to_wait :: "int \<times> int \<Rightarrow> bool" where
  "time_to_wait tv \<longleftrightarrow> 0 \<le> fst tv \<and> fst tv \<le> 2 ^ 20 \<and> 0 \<le> snd tv \<and> snd tv < 1000000 \<and> tv \<noteq> (0, 0)"

definition silent :: "'os posix \<Rightarrow> 'os setsockopt \<Rightarrow> ('os \<Rightarrow> int) \<Rightarrow> int \<Rightarrow> ('os \<Rightarrow> bool) \<Rightarrow> bool" where
  "silent K set_rcvtimeo ms f quiet \<longleftrightarrow> (\<forall>s. quiet s \<longrightarrow>
     (\<forall>t. 0 < t \<and> t \<le> 2 ^ 28 \<longrightarrow>
        (case sys_poll K \<lparr>fd = f, events = POLLIN\<rparr> t s of (r, s1) \<Rightarrow> r = 0 \<and> quiet s1 \<and> waited ms t s s1)) \<and>
     (\<forall>tv n. time_to_wait tv \<and> 0 < n \<longrightarrow>
        (case set_rcvtimeo f tv s of (r, s1) \<Rightarrow> r = 0 \<and>
          (case sys_recv K f n s1 of (got, s2) \<Rightarrow> got = None \<and> quiet s2 \<and>
             waited ms (fst tv * 1000 + snd tv div 1000) s s2))) \<and>
     (case sys_close K f s of (r, s1) \<Rightarrow> waited ms 0 s s1))"

lemma silentD:
  assumes "silent K set_rcvtimeo ms f quiet" and "quiet s"
  shows "0 < t \<Longrightarrow> t \<le> 2 ^ 28 \<Longrightarrow> sys_poll K \<lparr>fd = f, events = POLLIN\<rparr> t s = (r, s1) \<Longrightarrow>
      r = 0 \<and> quiet s1 \<and> waited ms t s s1"
    and "sys_close K f s = (r, s1) \<Longrightarrow> waited ms 0 s s1"
    and "time_to_wait tv \<Longrightarrow> 0 < n \<Longrightarrow> set_rcvtimeo f tv s = (r, s1) \<Longrightarrow> sys_recv K f n s1 = (got, s2) \<Longrightarrow>
      r = 0 \<and> got = None \<and> quiet s2 \<and> waited ms (fst tv * 1000 + snd tv div 1000) s s2"
proof -
  note S = assms(1) [unfolded silent_def, rule_format, OF assms(2)]
  show "0 < t \<Longrightarrow> t \<le> 2 ^ 28 \<Longrightarrow> sys_poll K \<lparr>fd = f, events = POLLIN\<rparr> t s = (r, s1) \<Longrightarrow>
      r = 0 \<and> quiet s1 \<and> waited ms t s s1"
    using S [THEN conjunct1, rule_format, of t] by simp
  show "sys_close K f s = (r, s1) \<Longrightarrow> waited ms 0 s s1"
    using S [THEN conjunct2, THEN conjunct2] by simp
  show "time_to_wait tv \<Longrightarrow> 0 < n \<Longrightarrow> set_rcvtimeo f tv s = (r, s1) \<Longrightarrow> sys_recv K f n s1 = (got, s2) \<Longrightarrow>
      r = 0 \<and> got = None \<and> quiet s2 \<and> waited ms (fst tv * 1000 + snd tv div 1000) s s2"
    using S [THEN conjunct2, THEN conjunct1, rule_format, of tv n] by simp
qed

lemma timeval_ms:
  assumes "0 < t"
  shows "fst (timeval t) * 1000 + snd (timeval t) div 1000 = t" and "t \<le> 2 ^ 28 \<Longrightarrow> time_to_wait (timeval t)"
proof -
  have tv: "timeval t = (t div 1000, t mod 1000 * 1000)"
    using assms by (simp add: timeval_def signed_divide_int_def signed_modulo_int_def)
  then show "fst (timeval t) * 1000 + snd (timeval t) div 1000 = t"
    by simp
  have "t mod 1000 \<le> 999" "t div 1000 * 1000 + t mod 1000 = t" "0 \<le> t mod 1000"
    using pos_mod_bound [of 1000 t] by simp_all
  then show "t \<le> 2 ^ 28 \<Longrightarrow> time_to_wait (timeval t)"
    using assms by (auto simp: time_to_wait_def tv)
qed

text \<open>C39. While nothing comes on an open TCP connection, the time between two messages or two parts of one, a
  client on a system with \<open>poll\<close> keeps the connection: receiving reports no error and the descriptor and
  the connection stay. Without \<open>poll\<close> the same quiet time counts as an error: the first receive that ends
  without a message closes the connection for good.\<close>
theorem quiet_tcp_connection:
  fixes tr' :: "'os uxrTCPPlatform_nopoll uxrTCPTransport"
  assumes silent: "silent K set_rcvtimeo ms f quiet" and time: "0 < timeout" "timeout \<le> 2 ^ 28"
    and tr: "awaiting (input_buffer tr)" "poll_fd (tcp_platform tr) = \<lparr>fd = f, events = POLLIN\<rparr>" "quiet (os (tcp_platform tr))"
    and tr': "awaiting (input_buffer tr')" "np_fd (tcp_platform tr') = f" "quiet (np_os (tcp_platform tr'))"
  shows "(\<exists>tr1. recv_tcp_msg (uxr_read_tcp_data_platform K) (uxr_disconnect_tcp_platform K) (\<lambda>p. (ms (os p), p))
        err0 timeout tr ec m = Some (None, tr1, 0, m) \<and>
        poll_fd (tcp_platform tr1) = \<lparr>fd = f, events = POLLIN\<rparr> \<and> quiet (os (tcp_platform tr1))) \<and>
    (\<exists>tr1. recv_tcp_msg (uxr_read_tcp_data_platform_nopoll K set_rcvtimeo) (uxr_disconnect_tcp_platform_nopoll K)
        (\<lambda>p. (ms (np_os p), p)) err0 timeout tr' ec m = Some (None, tr1, 1, m) \<and> np_fd (tcp_platform tr1) = - 1)"
proof
  let ?p = "tcp_platform tr"
  obtain s1 where s1: "sys_poll K (poll_fd ?p) timeout (os ?p) = (0, s1)" "quiet s1" "waited ms timeout (os ?p) s1"
    using silentD(1) [OF silent tr(3) time] tr(2) by (cases "sys_poll K (poll_fd ?p) timeout (os ?p)") auto
  have "cast_int32 (ms s1 - ms (os ?p)) = ms s1 - ms (os ?p)"
    using s1(3) time by (intro cast_int32_eq) (simp_all add: waited_def)
  with s1(3) have c: "timeout \<le> cast_int32 (ms s1 - ms (os ?p))"
    by (simp add: waited_def)
  show "\<exists>tr1. recv_tcp_msg (uxr_read_tcp_data_platform K) (uxr_disconnect_tcp_platform K) (\<lambda>p. (ms (os p), p))
      err0 timeout tr ec m = Some (None, tr1, 0, m) \<and>
      poll_fd (tcp_platform tr1) = \<lparr>fd = f, events = POLLIN\<rparr> \<and> quiet (os (tcp_platform tr1))"
    by (rule recv_tcp_quiet [OF tr(1) refl, where P = "\<lambda>e. e = ?p\<lparr>os := s1\<rparr>"])
      (use s1(1,2) c tr(2) in \<open>simp_all add: uxr_read_tcp_data_platform_def\<close>)
next
  let ?p = "tcp_platform tr'" and ?tv = "timeval timeout"
  note tv = timeval_ms [OF time(1)]
  let ?later = "\<lambda>s. quiet s \<and> waited ms timeout (np_os ?p) s"
  obtain r s1 where s1: "set_rcvtimeo f ?tv (np_os ?p) = (r, s1)"
    by force
  have recv: "r = 0 \<and> (\<exists>s2. sys_recv K f n s1 = (None, s2) \<and> ?later s2)" if "0 < n" for n
    using silentD(3) [OF silent tr'(3) tv(2) [OF time(2)] that s1] tv(1) by (cases "sys_recv K f n s1") auto
  show "\<exists>tr1. recv_tcp_msg (uxr_read_tcp_data_platform_nopoll K set_rcvtimeo) (uxr_disconnect_tcp_platform_nopoll K)
      (\<lambda>p. (ms (np_os p), p)) err0 timeout tr' ec m = Some (None, tr1, 1, m) \<and> np_fd (tcp_platform tr1) = - 1"
  proof (rule recv_tcp_quiet [OF tr'(1) refl, where P = "\<lambda>e. np_fd e = f \<and> ?later (np_os e)"])
    fix n :: nat
    assume n: "0 < n"
    obtain s2 where "r = 0" "sys_recv K f n s1 = (None, s2)" "?later s2"
      using recv [OF n] by blast
    then show "\<exists>e1. uxr_read_tcp_data_platform_nopoll K set_rcvtimeo n timeout err0 ?p = ([], 1, e1) \<and> np_fd e1 = f \<and> ?later (np_os e1)"
      using s1 time(1) tr'(2) by (intro exI [of _ "?p\<lparr>np_os := s2\<rparr>"]) (simp add: uxr_read_tcp_data_platform_nopoll_def)
  next
    fix e1 :: "'os nopoll_platform" assume e1: "np_fd e1 = f \<and> ?later (np_os e1)"
    obtain c s3 where s3: "sys_close K f (np_os e1) = (c, s3)"
      by force
    then have w: "waited ms 0 (np_os e1) s3"
      using silentD(2) [OF silent] e1 by blast
    have "cast_int32 (ms s3 - ms (np_os ?p)) = ms s3 - ms (np_os ?p)"
      using w e1 time by (intro cast_int32_eq) (simp_all add: waited_def)
    then show "\<exists>t1 e2. (ms (np_os (if 0 < (1 :: u8) then uxr_disconnect_tcp_platform_nopoll K e1 else e1)),
        if 0 < (1 :: u8) then uxr_disconnect_tcp_platform_nopoll K e1 else e1) = (t1, e2) \<and>
      timeout \<le> cast_int32 (t1 - ms (np_os ?p)) \<and> np_fd e2 = - 1"
      using s3 w e1 by (simp add: uxr_disconnect_tcp_platform_nopoll_def waited_def)
  qed
qed

text \<open>
  A system with a clock and the time set for receiving, on which nothing ever comes; what it is asked
  beyond the laws fails.
\<close>

definition silent_system :: "(int \<times> int) posix" where
  "silent_system = \<lparr>sys_socket = (\<lambda>d t s. (3, s)), sys_getaddrinfo = (\<lambda>d t i p s. (Some [[]], s)), sys_connect = (\<lambda>f a s. (0, s)),
     sys_close = (\<lambda>f s. (if f = 3 then 0 else - 1, s)), sys_send = (\<lambda>f bs s. (Some (length bs), s)),
     sys_recv = (\<lambda>f n (c, t). (None, (c + max 0 t, t))), sys_write = (\<lambda>f bs s. (None, s)), sys_read = (\<lambda>f n s. (None, s)),
     sys_poll = (\<lambda>p t (c, w). if fd p = 3 \<and> 0 \<le> t then (0, (c + t, w)) else (- 1, (c, w))),
     sys_signal_sigpipe = (\<lambda>s. s), sys_can_bind = (\<lambda>f d s. (- 1, s)), sys_can_enable_fd = (\<lambda>f s. (- 1, s)),
     sys_can_filter = (\<lambda>f i m s. (- 1, s)), sys_write_frame = (\<lambda>f x s. (None, s)), sys_read_frame = (\<lambda>f s. (None, s))\<rparr>"

definition set_time :: "(int \<times> int) setsockopt" where
  "set_time f tv s = (if f = 3 \<and> time_to_wait tv then (0, (fst s, fst tv * 1000 + snd tv div 1000)) else (- 1, s))"

definition tcp_at :: "'e \<Rightarrow> 'e uxrTCPTransport" where
  "tcp_at e = \<lparr>input_buffer = \<lparr>tcp_buffer = 0, position = 0, tcp_state = UXR_TCP_BUFFER_EMPTY, msg_size = 0\<rparr>,
     tcp_comm = \<lparr>comm_functions = TCP_FUNCTIONS, mtu = 512\<rparr>, tcp_platform = e\<rparr>"

theorem quiet_tcp_connection_witness:
  "(\<exists>tr1. recv_tcp_msg (uxr_read_tcp_data_platform silent_system) (uxr_disconnect_tcp_platform silent_system)
      (\<lambda>p. (fst (os p), p)) 9 1000 (tcp_at \<lparr>poll_fd = \<lparr>fd = 3, events = POLLIN\<rparr>, os = (5, 0)\<rparr>) 0 (\<lambda>_. 0) = Some (None, tr1, 0, \<lambda>_. 0) \<and>
      platform_fd (tcp_platform tr1) = 3) \<and>
   (\<exists>tr1. recv_tcp_msg (uxr_read_tcp_data_platform_nopoll silent_system set_time) (uxr_disconnect_tcp_platform_nopoll silent_system)
      (\<lambda>p. (fst (np_os p), p)) 9 1000 (tcp_at \<lparr>np_fd = 3, np_os = (5, 0)\<rparr>) 0 (\<lambda>_. 0) = Some (None, tr1, 1, \<lambda>_. 0) \<and>
      np_fd (tcp_platform tr1) = - 1)"
proof -
  have "0 \<le> fst tv * 1000 + snd tv div 1000" if "time_to_wait tv" for tv
    using that unfolding time_to_wait_def by (intro add_nonneg_nonneg mult_nonneg_nonneg) (simp_all add: div_int_pos_iff)
  then have "silent silent_system set_time fst 3 (\<lambda>_. True)"
    by (simp add: silent_def silent_system_def set_time_def waited_def split_beta)
  from quiet_tcp_connection [OF this, of 1000 "tcp_at \<lparr>poll_fd = \<lparr>fd = 3, events = POLLIN\<rparr>, os = (5, 0)\<rparr>"
      "tcp_at \<lparr>np_fd = 3, np_os = (5, 0)\<rparr>" 9 0 "\<lambda>_. 0"]
  show ?thesis
    by (fastforce simp: tcp_at_def awaiting_def platform_fd_def)
qed

end
