(* ===== verification/Clock.thy ===== *)
theory Clock
  imports Prelude "HOL-Library.Signed_Division"
begin

text \<open>
  The clock of the platforms: \<open>src/c/util/time.c\<close>. The calls of the systems are parameters: what they
  give for the present moment, and on Windows the conversion of dates into intervals. Signed overflow has no result.
\<close>

definition int64 :: "int \<Rightarrow> int option" where
  "int64 x = (if - (2 ^ 63) \<le> x \<and> x < 2 ^ 63 then Some x else None)"

section \<open>POSIX and Zephyr\<close>

record timespec =
  tv_sec :: int
  tv_nsec :: int

definition uxr_nanos_posix :: "timespec \<Rightarrow> int option" where
  "uxr_nanos_posix ts = Option.bind (int64 (tv_sec ts * 1000000000)) (\<lambda>s. int64 (s + tv_nsec ts))"

section \<open>Windows\<close>

text \<open>Intervals of 100 nanoseconds in two words, as the system counts them.\<close>

record FILETIME =
  dwLowDateTime :: u32
  dwHighDateTime :: u32

definition filetime :: "FILETIME \<Rightarrow> u64" where
  "filetime ft = push_bit 32 (ucast (dwHighDateTime ft)) + ucast (dwLowDateTime ft)"

text \<open>The system's broken-down time, in the order of its fields: the third is the day of the week.\<close>

record SYSTEMTIME =
  wYear :: u16
  wMonth :: u16
  wDayOfWeek :: u16
  wDay :: u16
  wHour :: u16
  wMinute :: u16
  wSecond :: u16
  wMilliseconds :: u16

definition epoch_tm :: SYSTEMTIME where
  "epoch_tm = \<lparr>wYear = 1970, wMonth = 1, wDayOfWeek = 4, wDay = 1, wHour = 0, wMinute = 0, wSecond = 0, wMilliseconds = 0\<rparr>"

text \<open>\<open>tm\<close> is what \<open>GetSystemTime\<close> gives; the conversion of the system is a parameter.\<close>

definition uxr_nanos_windows :: "(SYSTEMTIME \<Rightarrow> FILETIME) \<Rightarrow> SYSTEMTIME \<Rightarrow> int" where
  "uxr_nanos_windows SystemTimeToFileTime tm =
     (let epoch_time = filetime (SystemTimeToFileTime epoch_tm);
          current_time = filetime (SystemTimeToFileTime tm)
      in sint ((current_time - epoch_time) * 100))"

section \<open>FreeRTOS\<close>

text \<open>
  Ticks have 16 or 32 bits; the system counts how often they began anew. Shifting a negative count
  and dividing by zero have no result.
\<close>

record TimeOut_t =
  xOverflowCount :: u32
  xTimeOnEntering :: u32

definition uxr_nanos_freertos :: "bool \<Rightarrow> int \<Rightarrow> TimeOut_t \<Rightarrow> int option" where
  "uxr_nanos_freertos configUSE_16_BIT_TICKS portTICK_PERIOD_MS tick_count =
     (if sint (xOverflowCount tick_count) < 0 \<or> portTICK_PERIOD_MS = 0 then None
      else
      let total_tick = push_bit (if configUSE_16_BIT_TICKS then 16 else 32) (scast (xOverflowCount tick_count) :: u64);
          total_tick = total_tick OR ucast (xTimeOnEntering tick_count)
      in int64 (sint total_tick sdiv portTICK_PERIOD_MS * 1000000))"

section \<open>What the clocks show\<close>

definition filetime_nat :: "FILETIME \<Rightarrow> nat" where
  "filetime_nat ft = unat (dwHighDateTime ft) * 2 ^ 32 + unat (dwLowDateTime ft)"

lemma unat_u32_le: "unat (x :: u32) \<le> 4294967295"
  using unat_u32_less [of x] by linarith

lemma filetime_nat: "unat (filetime ft) = filetime_nat ft"
proof -
  have "filetime_nat ft < 2 ^ 64"
    using unat_u32_le [of "dwHighDateTime ft"] unat_u32_le [of "dwLowDateTime ft"] by (simp add: filetime_nat_def)
  then have "unat (of_nat (filetime_nat ft) :: u64) = filetime_nat ft"
    by (simp add: unat_of_nat take_bit_eq_mod)
  moreover have "filetime ft = of_nat (filetime_nat ft)"
    by (simp add: filetime_def filetime_nat_def push_bit_eq_mult)
  ultimately show ?thesis
    by simp
qed

lemma windows_difference:
  assumes "filetime_nat e \<le> filetime_nat f" and "(filetime_nat f - filetime_nat e) * 100 < 2 ^ 63"
  shows "sint ((filetime f - filetime e) * 100) = int (filetime_nat f - filetime_nat e) * 100"
proof -
  let ?d = "filetime_nat f - filetime_nat e"
  have "filetime f - filetime e = of_nat ?d"
    using assms(1) unfolding filetime_nat [symmetric] by (simp add: of_nat_diff)
  then have "(filetime f - filetime e) * 100 = of_nat (?d * 100)"
    by simp
  moreover have "sint (of_nat (?d * 100) :: u64) = int (?d * 100)"
  proof -
    have "uint (of_nat (?d * 100) :: u64) = int (?d * 100)"
      using assms(2) by (simp add: uint_nat unat_of_nat take_bit_eq_mod del: of_nat_mult)
    then show ?thesis
      using assms(2) by (simp add: sint_uint signed_take_bit_int_eq_self del: of_nat_mult)
  qed
  ultimately show ?thesis
    by simp
qed

text \<open>
  The calendar, as the documentation of the conversion has it: the intervals of 100 nanoseconds since
  the beginning of 1601, for a date that there is; the day of the week is not looked at.
\<close>

definition leap :: "nat \<Rightarrow> bool" where
  "leap y \<longleftrightarrow> y mod 4 = 0 \<and> (y mod 100 \<noteq> 0 \<or> y mod 400 = 0)"

definition month_days :: "nat \<Rightarrow> nat list" where
  "month_days y = [31, if leap y then 29 else 28, 31, 30, 31, 30, 31, 31, 30, 31, 30, 31]"

definition real_date :: "SYSTEMTIME \<Rightarrow> bool" where
  "real_date t \<longleftrightarrow> 1601 \<le> unat (wYear t) \<and> unat (wYear t) \<le> 30827 \<and> 1 \<le> unat (wMonth t) \<and> unat (wMonth t) \<le> 12 \<and>
     1 \<le> unat (wDay t) \<and> unat (wDay t) \<le> month_days (unat (wYear t)) ! (unat (wMonth t) - 1) \<and>
     unat (wHour t) < 24 \<and> unat (wMinute t) < 60 \<and> unat (wSecond t) < 60 \<and> unat (wMilliseconds t) < 1000"

definition days_before :: "nat \<Rightarrow> nat" where
  "days_before y = (let k = y - 1601 in 365 * k + (k div 4 - k div 100) + k div 400)"

definition day_of_year :: "SYSTEMTIME \<Rightarrow> nat" where
  "day_of_year t = sum_list (take (unat (wMonth t) - 1) (month_days (unat (wYear t)))) + (unat (wDay t) - 1)"

definition millis_of_day :: "SYSTEMTIME \<Rightarrow> nat" where
  "millis_of_day t = ((unat (wHour t) * 60 + unat (wMinute t)) * 60 + unat (wSecond t)) * 1000 + unat (wMilliseconds t)"

definition intervals :: "SYSTEMTIME \<Rightarrow> nat" where
  "intervals t = (days_before (unat (wYear t)) + day_of_year t) * 864000000000 + millis_of_day t * 10000"

definition converts_dates :: "(SYSTEMTIME \<Rightarrow> FILETIME) \<Rightarrow> bool" where
  "converts_dates conv \<longleftrightarrow> (\<forall>t. real_date t \<longrightarrow> filetime_nat (conv t) = intervals t)"

text \<open>The years are as long as the calendar has it, and the beginning of 1970 is where it is known to be.\<close>

lemma days_before_Suc:
  assumes "1601 \<le> y"
  shows "days_before (Suc y) = days_before y + sum_list (month_days y)"
proof -
  obtain k where k: "y = k + 1601"
    using assms by (metis add.commute le_Suc_ex)
  have d: "Suc k div 4 = k div 4 + of_bool (Suc k mod 4 = 0)" "Suc k div 100 = k div 100 + of_bool (Suc k mod 100 = 0)"
    "Suc k div 400 = k div 400 + of_bool (Suc k mod 400 = 0)"
    by (simp_all add: div_Suc)
  have l: "leap y \<longleftrightarrow> Suc k mod 4 = 0 \<and> (Suc k mod 100 \<noteq> 0 \<or> Suc k mod 400 = 0)"
    using mod_mult_self2 [of "Suc k" 4 400] mod_mult_self2 [of "Suc k" 100 16] mod_mult_self2 [of "Suc k" 400 4]
    by (simp add: leap_def k add.commute [of k])
  have m: "Suc k mod 400 = 0 \<Longrightarrow> Suc k mod 100 = 0" "Suc k mod 100 = 0 \<Longrightarrow> Suc k mod 4 = 0"
    by (auto elim!: dvd_trans [rotated] simp: mod_eq_0_iff_dvd)
  have "k div 100 \<le> k div 4"
    by (rule div_le_mono2) simp_all
  then obtain c where "k div 4 = k div 100 + c"
    by (metis le_Suc_ex)
  moreover have y: "Suc y - 1601 = Suc k" "y - 1601 = k"
    by (simp_all add: k)
  ultimately show ?thesis
    unfolding days_before_def month_days_def l y Let_def d
    by (cases "Suc k mod 4 = 0"; cases "Suc k mod 100 = 0"; cases "Suc k mod 400 = 0"; use m in simp)
qed

lemma epoch_intervals: "intervals epoch_tm = 116444736000000000"
  by (simp add: intervals_def days_before_def day_of_year_def millis_of_day_def epoch_tm_def Let_def)

lemma real_epoch: "real_date epoch_tm"
  by (simp add: real_date_def epoch_tm_def month_days_def)

lemma day_of_year_le:
  assumes "real_date t"
  shows "day_of_year t \<le> 365"
proof -
  let ?m = "unat (wMonth t)"
  have m: "1 \<le> ?m" "?m \<le> 12" and d: "1 \<le> unat (wDay t)" "unat (wDay t) \<le> month_days (unat (wYear t)) ! (?m - 1)"
    using assms by (simp_all add: real_date_def)
  have "?m \<in> {1, 2, 3, 4, 5, 6, 7, 8, 9, 10, 11, 12}"
    using m by (simp, arith)
  then show ?thesis
    using d by (auto simp: day_of_year_def month_days_def split: if_splits)
qed

lemma intervals_range:
  assumes "real_date t" and "1970 \<le> unat (wYear t)" and "unat (wYear t) < 2262"
  shows "116444736000000000 \<le> intervals t" and "(intervals t - 116444736000000000) * 100 < 2 ^ 63"
proof -
  let ?k = "unat (wYear t) - 1601"
  have k: "369 \<le> ?k" "?k \<le> 660"
    using assms(2,3) by simp_all
  have "?k div 4 \<le> 660 div 4" "?k div 400 \<le> 660 div 400"
    using k(2) by (rule div_le_mono)+
  then have "?k div 4 - ?k div 100 \<le> 165" "?k div 400 \<le> 1"
    by simp_all
  then have "days_before (unat (wYear t)) \<le> 241066"
    using k(2) unfolding days_before_def Let_def by linarith
  moreover have "134774 \<le> days_before (unat (wYear t))"
  proof (cases "?k = 369")
    case False
    then show ?thesis
      using k(1) unfolding days_before_def Let_def by linarith
  qed (simp add: days_before_def)
  moreover have "millis_of_day t \<le> 86400000"
    using assms(1) by (simp add: millis_of_day_def real_date_def)
  ultimately show "116444736000000000 \<le> intervals t" "(intervals t - 116444736000000000) * 100 < 2 ^ 63"
    using day_of_year_le [OF assms(1)] by (simp_all add: intervals_def)
qed

lemma windows_clock:
  assumes "converts_dates conv" and "real_date t" and "1970 \<le> unat (wYear t)" and "unat (wYear t) < 2262"
  shows "uxr_nanos_windows conv t = (int (intervals t) - 116444736000000000) * 100"
proof -
  have "filetime_nat (conv epoch_tm) = 116444736000000000" "filetime_nat (conv t) = intervals t"
    using assms(1,2) real_epoch by (simp_all add: converts_dates_def epoch_intervals)
  then show ?thesis
    using windows_difference [of "conv epoch_tm" "conv t"] intervals_range [OF assms(2-4)]
    by (simp add: uxr_nanos_windows_def Let_def of_nat_diff)
qed

text \<open>FreeRTOS counts the ticks on; what is reported of them.\<close>

definition ticks :: "bool \<Rightarrow> TimeOut_t \<Rightarrow> nat" where
  "ticks narrow t = unat (xOverflowCount t) * 2 ^ (if narrow then 16 else 32) + unat (xTimeOnEntering t)"

lemma narrow_ticks:
  assumes "xTimeOnEntering t < 2 ^ 16"
  shows "push_bit 16 (ucast (xOverflowCount t) :: u64) OR ucast (xTimeOnEntering t) = of_nat (ticks True t)"
proof -
  have "\<not> bit (xTimeOnEntering t) n" if "16 \<le> n" for n
  proof -
    have "uint (xTimeOnEntering t) < 2 ^ 16"
      using assms by (simp add: word_less_def)
    then have "take_bit 16 (uint (xTimeOnEntering t)) = uint (xTimeOnEntering t)"
      by (simp add: take_bit_int_eq_self)
    then have "take_bit 16 (xTimeOnEntering t) = xTimeOnEntering t"
      by (metis unsigned_take_bit_eq word_uint_eqI)
    then show ?thesis
      using that by (metis bit_take_bit_iff not_le)
  qed
  then have "push_bit 16 (ucast (xOverflowCount t) :: u64) OR ucast (xTimeOnEntering t) =
      push_bit 16 (ucast (xOverflowCount t)) + ucast (xTimeOnEntering t)"
    by (subst disjunctive_add_eq_or) (auto intro!: bit_word_eqI simp: bit_simps)
  then show ?thesis
    by (simp add: ticks_def push_bit_eq_mult)
qed

lemma total_ticks:
  assumes "xOverflowCount t < 2 ^ 31" and "narrow \<Longrightarrow> xTimeOnEntering t < 2 ^ 16"
  shows "sint (push_bit (if narrow then 16 else 32) (scast (xOverflowCount t) :: u64) OR ucast (xTimeOnEntering t)) = int (ticks narrow t)"
    and "0 \<le> sint (xOverflowCount t)"
proof -
  let ?f = "\<lparr>dwLowDateTime = xTimeOnEntering t, dwHighDateTime = xOverflowCount t\<rparr>"
  have "uint (xOverflowCount t) < 2 ^ 31"
    using assms(1) by (simp add: word_less_def)
  moreover have "- (2 ^ 31) \<le> uint (xOverflowCount t)"
    by (rule order_trans [of _ 0]) simp_all
  ultimately have so: "sint (xOverflowCount t) = uint (xOverflowCount t)"
    by (subst sint_uint) (use signed_take_bit_int_eq_self [of 31 "uint (xOverflowCount t)"] in simp)
  then show "0 \<le> sint (xOverflowCount t)"
    by simp
  from so have s: "(scast (xOverflowCount t) :: u64) = ucast (xOverflowCount t)"
    by (simp only: scast_eq ucast_eq)
  have width: "bit (x :: u32) n \<Longrightarrow> n < 32" for x n
    using bit_imp_le_length [of x n] by simp
  have "push_bit 32 (ucast (xOverflowCount t) :: u64) OR ucast (xTimeOnEntering t) = filetime ?f"
    unfolding filetime_def by (subst disjunctive_add_eq_or) (auto intro!: bit_word_eqI simp: bit_simps dest!: width)
  also have "\<dots> = of_nat (ticks False t)"
    by (simp add: filetime_def ticks_def push_bit_eq_mult)
  finally have "push_bit (if narrow then 16 else 32) (ucast (xOverflowCount t) :: u64) OR ucast (xTimeOnEntering t) = of_nat (ticks narrow t)"
    using narrow_ticks assms(2) by (cases narrow) simp_all
  moreover have "ticks narrow t < 2 ^ 63"
    using assms(1) unat_u32_le [of "xTimeOnEntering t"] by (simp add: ticks_def word_less_nat_alt)
  ultimately show "sint (push_bit (if narrow then 16 else 32) (scast (xOverflowCount t) :: u64) OR ucast (xTimeOnEntering t)) = int (ticks narrow t)"
    unfolding s by (simp add: sint_uint uint_nat unat_of_nat take_bit_eq_mod signed_take_bit_int_eq_self)
qed

lemma freertos_clock:
  assumes "0 < p" and "ticks b t div nat p * 1000000 < 2 ^ 63" and "xOverflowCount t < 2 ^ 31"
    and "b \<Longrightarrow> xTimeOnEntering t < 2 ^ 16"
  shows "uxr_nanos_freertos b p t = Some (int (ticks b t div nat p) * 1000000)"
proof -
  note T = total_ticks [OF assms(3,4)]
  have q: "int (ticks b t) sdiv p = int (ticks b t div nat p)"
    using assms(1) by (cases "ticks b t = 0") (simp_all add: signed_divide_int_def zdiv_int)
  have "int (ticks b t div nat p) * 1000000 < 2 ^ 63"
    using of_nat_less_iff [where 'a = int, THEN iffD2, OF assms(2)] by simp
  then show ?thesis
    using assms(1) T by (simp add: uxr_nanos_freertos_def q int64_def Let_def not_less)
qed

text \<open>C40. The clock of FreeRTOS, with ticks of 16 or of 32 bits, divides by the milliseconds of a tick where it
  has to multiply: it shows the time since the start only where a tick is a millisecond, and otherwise
  too little by the square of that, up to the rounding, as long as the nanoseconds fit 64 bits. The clock of Windows shows the nanoseconds since
  the beginning of 1970, from 1970 to 2261, when the system converts dates into intervals of 100
  nanoseconds since 1601 as documented: 116444736000000000 of them lie before 1970.\<close>
theorem platform_clocks:
  assumes "0 < p" and "ticks narrow t * 1000000 < 2 ^ 63" and "xOverflowCount t < 2 ^ 31"
    and "narrow \<Longrightarrow> xTimeOnEntering t < 2 ^ 16"
    and "converts_dates conv" and "real_date now" and "1970 \<le> unat (wYear now)" and "unat (wYear now) < 2262"
  shows "\<exists>nanos. uxr_nanos_freertos narrow (int p) t = Some nanos \<and>
      nanos * int p * int p \<le> int (ticks narrow t * p) * 1000000 \<and>
      int (ticks narrow t * p) * 1000000 < (nanos + 1000000) * int p * int p \<and>
      (p = 1 \<longrightarrow> nanos = int (ticks narrow t * p) * 1000000) \<and>
    uxr_nanos_windows conv now = (int (intervals now) - 116444736000000000) * 100"
proof -
  let ?t = "ticks narrow t" and ?q = "ticks narrow t div p"
  have "?q * 1000000 \<le> ?t * 1000000"
    by simp
  then have "?q * 1000000 < 2 ^ 63"
    using assms(2) by linarith
  then have 1: "uxr_nanos_freertos narrow (int p) t = Some (int ?q * 1000000)"
    using freertos_clock [of "int p" narrow t] assms(1,3,4) by simp
  have "?q * p \<le> ?t" "?t < (?q + 1) * p"
    using assms(1) by (simp, metis Suc_eq_plus1 dividend_less_div_times add.commute mult_Suc)
  then have "?q * p * (p * 1000000) \<le> ?t * (p * 1000000)" "?t * (p * 1000000) < (?q + 1) * p * (p * 1000000)"
    using assms(1) by (intro mult_right_mono mult_strict_right_mono; simp)+
  then have "?q * 1000000 * p * p \<le> ?t * p * 1000000" "?t * p * 1000000 < (?q * 1000000 + 1000000) * p * p"
    by (simp_all add: algebra_simps)
  then have "int (?q * 1000000 * p * p) \<le> int (?t * p * 1000000)"
    "int (?t * p * 1000000) < int ((?q * 1000000 + 1000000) * p * p)"
    by (simp_all only: of_nat_le_iff of_nat_less_iff)
  then have 2: "int ?q * 1000000 * int p * int p \<le> int (?t * p) * 1000000"
    "int (?t * p) * 1000000 < (int ?q * 1000000 + 1000000) * int p * int p"
    by (simp_all only: of_nat_mult of_nat_add of_nat_numeral)
  show ?thesis
    using 1 2 windows_clock [OF assms(5-8)] by auto
qed

text \<open>
  Seven hundred seconds in ticks of ten milliseconds show as seven; the first of March 2000, a leap year,
  is 11017 days after the beginning of 1970.
\<close>

definition split_words :: "nat \<Rightarrow> FILETIME" where
  "split_words n = \<lparr>dwLowDateTime = of_nat n, dwHighDateTime = of_nat (n div 2 ^ 32)\<rparr>"

lemma converts_split_words: "converts_dates (\<lambda>t. split_words (intervals t))"
proof -
  have "intervals t < 2 ^ 64" if "real_date t" for t
  proof -
    have "unat (wYear t) - 1601 \<le> 30827"
      using that unfolding real_date_def by linarith
    then have "days_before (unat (wYear t)) \<le> 365 * 30827 + 30827 + 30827"
      unfolding days_before_def Let_def
      by (intro add_mono mult_le_mono2) (meson div_le_dividend diff_le_self order_trans)+
    moreover have "millis_of_day t \<le> 86400000"
      using that by (simp add: millis_of_day_def real_date_def)
    ultimately show ?thesis
      using day_of_year_le [OF that] by (simp add: intervals_def)
  qed
  then have "filetime_nat (split_words (intervals t)) = intervals t" if "real_date t" for t
    using that by (simp add: filetime_nat_def split_words_def unat_of_nat take_bit_eq_mod less_mult_imp_div_less)
  then show ?thesis
    by (simp add: converts_dates_def)
qed

definition leap_day_next :: SYSTEMTIME where
  "leap_day_next = \<lparr>wYear = 2000, wMonth = 3, wDayOfWeek = 3, wDay = 1, wHour = 0, wMinute = 0, wSecond = 0, wMilliseconds = 7\<rparr>"

theorem platform_clocks_witness:
  "(\<exists>nanos. uxr_nanos_freertos True 10 \<lparr>xOverflowCount = 1, xTimeOnEntering = 4464\<rparr> = Some nanos \<and>
     nanos * 100 \<le> 700000000000 \<and> 700000000000 < (nanos + 1000000) * 100) \<and>
   uxr_nanos_windows (\<lambda>t. split_words (intervals t)) leap_day_next = 11017 * 86400000000000 + 7000000"
proof -
  let ?t = "\<lparr>xOverflowCount = 1, xTimeOnEntering = 4464\<rparr>"
  have t: "ticks True ?t = 70000"
    by (simp add: ticks_def)
  have n: "real_date leap_day_next" "1970 \<le> unat (wYear leap_day_next)" "unat (wYear leap_day_next) < 2262"
    "intervals leap_day_next = 116444736000000000 + 11017 * 864000000000 + 70000"
    by (simp_all add: leap_day_next_def real_date_def month_days_def leap_def intervals_def days_before_def day_of_year_def
        millis_of_day_def Let_def)
  show ?thesis
    using platform_clocks [of 10 True ?t "\<lambda>t. split_words (intervals t)" leap_day_next] converts_split_words n
    by (auto simp: t)
qed

end
