(* ===== verification/Spec2Isabelle.thy ===== *)
theory Spec2Isabelle
  imports SessionFacts WriteAccess CreateEntities XrcePayloads SerialFacts TcpFacts PingFacts SharedMemoryFacts MatchingFacts DiscoveryFacts PosixFacts
    DataFacts CreateFacts LoginFacts TimeFacts PosixNopoll Clock
begin

text \<open>
  A verification development for the Micro XRCE-DDS client, the C library under \<open>src/c\<close> and
  \<open>include/uxr/client\<close>. This theory imports all others; this text says how they and the program correspond.

  \<^bold>\<open>The program.\<close> A client keeps a session with an agent over one transport. The application writes samples and
  requests for entities into output streams; running the session sends what the streams hold, listens,
  and hands what arrives to the functions that the application has set. A message is a header (session,
  stream, sequence number, perhaps the client's key) and a list of submessages, each a header of four
  octets and a payload. Best-effort streams drop what is late; reliable streams keep a ring of slots,
  acknowledge by ACKNACK, announce by HEARTBEAT, and cut long submessages into fragments. Serializing
  is left to the library Micro-CDR, which is not part of the repository.

  \<^bold>\<open>The model.\<close> C functions are HOL functions with the names of the source. A struct is a record, an enum a
  datatype or a constant of its width, an unsigned integer of \<open>w\<close> bits a \<open>w word\<close>. \<open>size_t\<close> is a natural number
  whose sums and products are taken modulo \<open>2 ^ 64\<close> by \<open>size_add\<close>, \<open>size_sub\<close> and \<open>size_mul\<close>; \<open>int\<close> and \<open>int64_t\<close> are integers,
  cut by a cast where the source casts. Buffers lie in one flat byte memory, a function from addresses
  to octets, so that slots which overlap, or writes behind a buffer, have their effect. State is passed
  explicitly; a session acts on a \<open>world\<close>: the session struct, the memory, and the outside \<open>ext\<close>, which the
  transport, the clock and the application's functions, parameters in \<open>env\<close>, act on. What a function leaves
  unwritten keeps its old value, which for automatic variables is a further parameter (\<open>locals\<close>): nothing is
  proved from a convenient initial value. \<open>None\<close> as the result of a function is undefined behaviour, or a
  loop without end. The host is LP64 and little-endian; build options have their defaults.

  \<^bold>\<open>The theories, and the files they model.\<close>
  \<^item> \<open>Prelude\<close>: integers, \<open>size_t\<close>, casts, byte memory. \<open>MicroCDR\<close>: the interface of Micro-CDR as a record of
    functions, with the laws that its documentation gives (\<open>ucdr_ok\<close>); \<open>RefCDR\<close>: a small library that has these laws,
    on which the witnesses run.
  \<^item> \<open>SeqNum\<close> (\<open>stream/seq_num.c\<close>), \<open>Ids\<close> (\<open>stream/stream_id.c\<close>, \<open>object_id.c\<close>), \<open>Submessage\<close> (\<open>submessage.c\<close>, \<open>xrce_header.c\<close>,
    \<open>xrce_subheader.c\<close>): numbers with wrap-around, identifiers and headers.
  \<^item> \<open>XrceTypes\<close> (\<open>xrce_types.h\<close>), \<open>XrceCodec\<close> (\<open>xrce_types.c\<close>): every type and every serializer and deserializer. \<open>CodecKit\<close> has
    the combinators they are written with, and the locale \<open>xrce_codec\<close>, what a pair of them promises; \<open>XrceRoundtrip\<close>
    interprets it for each pair; \<open>XrcePayloads\<close> draws conclusions on whole payloads.
  \<^item> \<open>BestEffort\<close>, \<open>ReliableBase\<close>, \<open>InputReliable\<close>, \<open>OutputReliable\<close>, \<open>StreamStorage\<close> (the files under \<open>core/session/stream\<close>): the streams.
  \<^item> \<open>SessionInfo\<close> (\<open>session_info.c\<close>), \<open>SessionState\<close>, \<open>SessionRead\<close>, \<open>SessionRun\<close> (\<open>session.c\<close>: state and configuration, what happens
    to a message that arrives, sending and waiting), \<open>ReadAccess\<close> (\<open>read_access.c\<close>), \<open>WriteAccess\<close> (\<open>write_access.c\<close>),
    \<open>CreateEntities\<close> (\<open>create_entities_*.c\<close>, \<open>common_create_entities.c\<close>).
  \<^item> \<open>StreamFraming\<close> (\<open>stream_framing_protocol.c\<close>), \<open>Transports\<close> (serial, custom, UDP and CAN), \<open>TcpTransport\<close> (\<open>tcp_transport.c\<close>),
    \<open>Posix\<close> and \<open>PosixNopoll\<close> (the platform functions of POSIX, with and without \<open>poll\<close>), \<open>Clock\<close> (\<open>util/time.c\<close>).
    \<open>MessageLine\<close> has the interface a transport provides, as locales.
  \<^item> \<open>Ping\<close> (\<open>util/ping.c\<close>), \<open>Discovery\<close> (\<open>discovery.c\<close>, the datagrams and addresses of POSIX), \<open>Matching\<close> (\<open>matching.c\<close>),
    \<open>SharedMemory\<close> (\<open>shared_memory.c\<close>): the profiles.
  \<^item> The theories named \<open>...Facts\<close>, and \<open>FramingRead\<close>, \<open>FramingSafe\<close>, \<open>FramingTime\<close>, hold what is proved about the models of
    the same name, and no model of their own.

  \<^bold>\<open>What is proved.\<close>
  \<^item> Streams. Whatever is done with a reliable output stream, in any order, what it sends is what was written,
    each message in its slot until acknowledged, and never more than the history ahead; writing stays in the
    slots and fragments join to what was written. A reliable input stream delivers each message once and in
    order whatever the network loses, repeats or mixes up, if the messages are whole and fit a slot; receiving
    one, fragments included, does what a window of waiting messages prescribes and reports it truly; the
    acknowledgements name what is missing. The steps of the two streams are inductive relations with invariants. The storage is four lists.
  \<^item> Messages. Every serializer writes what its deserializer reads, at any position and in either byte order,
    and nothing outside; the exceptions are stated. Headers, heartbeats, acknowledgements, logins,
    CREATE and WRITE_DATA submessages are given octet for octet, and the lengths that the client computes
    beforehand are exact.
  \<^item> Sessions. Foreign messages change nothing; flushing sends what waits, byte for byte, and takes back what the transport
    refuses; an ACKNACK frees and repeats; samples reach the application once and in order; opening a
    session succeeds exactly when the agent says so, and ends when nobody answers; clocks are synchronised up
    to half of the asymmetry of the ways.
  \<^item> Transports. Frames, and messages behind their lengths, arrive as they were sent however the line cuts
    them; the frame reader is safe and ends on any octets; the checksum is division by its polynomial. On
    POSIX this follows from what the system calls promise.
  \<^item> Profiles. A ping that nobody answers ends, and what counts as an answer; discovery tells the first four
    addresses an agent sent; the shared memory hands over everything once, the newest first.
  \<^item> Faults. Where the code does not do what it is meant to, the theorems say exactly when: a message longer
    than a slot, a full ring of intermediate fragments, late acknowledgements, unknown streams, long user
    data, a quiet TCP connection without \<open>poll\<close>, ticks that are not milliseconds.

  \<^bold>\<open>Loops.\<close> A loop with a bound is a recursive function with a measure. A loop that may run for ever is a
  \<^theory_text>\<open>partial_function\<close> into options, and that it returns is proved: from the window of a stream (flushing,
  resending, reading what is stored), from the octets and the time used up (frames, TCP, waiting), from
  the items of a pool (shared memory). No fuel is used anywhere.

  \<^bold>\<open>Assumptions.\<close> Each is a premise with a witness: the laws of Micro-CDR; that a clock does not run backwards and no
  call takes days unasked; that a device delivers the octets it was given, in any pieces; that polling an
  open descriptor for input tells whether there is any, and waits for the time it is given; that Windows
  converts dates by the calendar; that the functions of the application do not write into the message
  they are given.

  \<^bold>\<open>Not modelled.\<close> \<open>core/log/log.c\<close> and the tracing macros, which only print; the locks of \<open>multithread.c\<close>, so that the model is of
  one thread; the transports' platform functions of Windows, FreeRTOS and RTEMS, the same functions over
  other system calls; the PERFORMANCE submessage, which is compiled for measurements only; \<open>errno\<close>; the
  examples and tests. Where the model is total and C is not, the properties stay inside: sums of times are
  unbounded integers, the slot of a stream without history is taken modulo zero, a write outside the ring of a
  frame reader is dropped, and what overwrites the fields behind an array of a structure is not followed.
  Best-effort streams are proved about in composition with the session; for reliable
  streams the two ends are proved each against the wire, and not composed over a lossy network.
\<close>

end
